(* ===== verification/Prelude.thy ===== *)
theory Prelude
  imports Complex_Main "HOL-Library.Word" "HOL-Library.Signed_Division"
begin

text \<open>
  Vocabulary shared by every theory of the development: the machine integers of the code,
  the status codes of the C++ interfaces, the collections of facts the component proofs
  rewrite with, and generic lemmas on searches, lists and bit masks.
  Unsigned machine integers are words; a C \<open>int\<close> that is only compared or copied is an
  \<open>int\<close>, and C's truncating division and remainder are the library's \<open>sdiv\<close> and \<open>smod\<close>.
\<close>

unbundle bit_operations_syntax

type_synonym u8 = "8 word"
type_synonym u16 = "16 word"
type_synonym u32 = "32 word"
type_synonym u64 = "64 word"

named_theorems code_consts \<open>defining equations of the constants of the source\<close>
named_theorems code_defs \<open>defining equations of the small operations of the source\<close>
named_theorems state_frame \<open>which fields an operation leaves alone\<close>

section \<open>Status codes\<close>

text \<open>Status codes of the Android and kernel interfaces (\<open>utils/Errors.h\<close>, \<open>errno.h\<close>).\<close>

definition NO_ERROR :: int where [code_consts]: "NO_ERROR = 0"
definition EINVAL :: int where [code_consts]: "EINVAL = 22"
definition EFAULT :: int where [code_consts]: "EFAULT = 14"
definition EPERM :: int where [code_consts]: "EPERM = 1"
definition ENOENT :: int where [code_consts]: "ENOENT = 2"
definition ENOMEM :: int where [code_consts]: "ENOMEM = 12"

section \<open>First match in a table\<close>

text \<open>
  Most lookups of the code are a loop over a constant table that returns at the first row
  that matches. They are \<open>List.find\<close>; these lemmas read the row found.
\<close>

lemma find_in_set: "List.find P xs = Some x \<Longrightarrow> x \<in> set xs \<and> P x"
  by (metis (no_types, lifting) find_Some_iff nth_mem)

lemma find_None_all: "List.find P xs = None \<Longrightarrow> x \<in> set xs \<Longrightarrow> \<not> P x"
  by (auto simp: find_None_iff)

lemma find_cong_pred: "(\<And>x. x \<in> set xs \<Longrightarrow> P x = Q x) \<Longrightarrow> List.find P xs = List.find Q xs"
  by (induction xs) auto

lemma find_split:
  "List.find P xs = Some x \<longleftrightarrow> (\<exists>ys zs. xs = ys @ x # zs \<and> P x \<and> (\<forall>y\<in>set ys. \<not> P y))"
proof (induction xs)
  case (Cons a xs)
  show ?case
  proof (cases "P a")
    case True
    then show ?thesis by (auto simp: Cons_eq_append_conv)
  next
    case False
    with Cons show ?thesis
      by (simp add: Cons_eq_append_conv) (metis insert_iff list.set(2))
  qed
qed simp

text \<open>The index of the first match, with the length of the list when there is none.\<close>

fun find_index :: "('a \<Rightarrow> bool) \<Rightarrow> 'a list \<Rightarrow> nat" where
  "find_index P [] = 0"
| "find_index P (x # xs) = (if P x then 0 else Suc (find_index P xs))"

lemma find_index_le: "find_index P xs \<le> length xs"
  by (induction xs) auto

lemma find_index_less: "find_index P xs < length xs \<longleftrightarrow> (\<exists>x\<in>set xs. P x)"
  by (induction xs) auto

lemma find_nth_index:
  "List.find P xs = (if find_index P xs < length xs then Some (xs ! find_index P xs) else None)"
  by (induction xs) auto

section \<open>Bits\<close>

lemma and_mask_le: "x AND m \<le> (m :: 'a :: len word)"
  by (rule word_and_le1)

lemma word_nonzero_and: "x AND m \<noteq> 0 \<Longrightarrow> x \<noteq> (0 :: 'a :: len word)"
  by auto

section \<open>Words as integers\<close>

lemma uint_of_sint: "0 \<le> sint w \<Longrightarrow> uint w = sint w" for w :: u32
  using sint_lt[of w] by (simp add: uint_sint take_bit_int_eq_self)

lemma sint_of_small: "- (2 ^ 31) \<le> x \<Longrightarrow> x < 2 ^ 31 \<Longrightarrow> sint (word_of_int x :: u32) = x"
  by (simp add: signed_of_int signed_take_bit_int_eq_self)

lemma uint_of_small: "0 \<le> x \<Longrightarrow> x < 2 ^ 32 \<Longrightarrow> uint (word_of_int x :: u32) = x"
  by (simp add: uint_word_of_int)

end
