(* ===== verification/HwcFormat.thy ===== *)
theory HwcFormat
  imports Prelude
begin

text \<open>
  The pixel-format table of the composer (\<open>base/libhwc2.1/utils/ExynosHWCFormat.h\<close>) and the
  lookups over it (\<open>ExynosHWCFormat.cpp\<close>).
  The numbers behind the \<open>HAL_PIXEL_FORMAT_*\<close> names come from Android and vendor headers that
  are not part of the repository, so a HAL format is a constructor of \<open>hal_name\<close> and its number is
  given by a function \<open>hal\<close> that every lookup takes. The lookups compare numbers, as the code does;
  two names with one number would make the code find the first row, and so does the model.
  \<open>DRM_FORMAT_*\<close> codes are those of \<open>base/libdrmresource/drm_fourcc.h\<close>.
\<close>

section \<open>Names and constants\<close>

datatype (plugins only: code) hal_name =
    HAL_PIXEL_FORMAT_RGBA_8888
  | HAL_PIXEL_FORMAT_RGBX_8888
  | HAL_PIXEL_FORMAT_RGB_888
  | HAL_PIXEL_FORMAT_RGB_565
  | HAL_PIXEL_FORMAT_BGRA_8888
  | HAL_PIXEL_FORMAT_RGBA_1010102
  | HAL_PIXEL_FORMAT_EXYNOS_ARGB_8888
  | HAL_PIXEL_FORMAT_RGBA_FP16
  | HAL_PIXEL_FORMAT_EXYNOS_YCbCr_420_P_M
  | HAL_PIXEL_FORMAT_EXYNOS_YCbCr_420_SP_M
  | HAL_PIXEL_FORMAT_EXYNOS_YCbCr_420_SP_M_TILED
  | HAL_PIXEL_FORMAT_EXYNOS_YV12_M
  | HAL_PIXEL_FORMAT_EXYNOS_YCrCb_420_SP_M
  | HAL_PIXEL_FORMAT_EXYNOS_YCrCb_420_SP_M_FULL
  | HAL_PIXEL_FORMAT_EXYNOS_YCbCr_420_P
  | HAL_PIXEL_FORMAT_EXYNOS_YCbCr_420_SP
  | HAL_PIXEL_FORMAT_EXYNOS_YCbCr_420_SP_M_PRIV
  | HAL_PIXEL_FORMAT_EXYNOS_YCbCr_420_PN
  | HAL_PIXEL_FORMAT_EXYNOS_YCbCr_420_SPN
  | HAL_PIXEL_FORMAT_EXYNOS_420_SPN_SBWC_DECOMP
  | HAL_PIXEL_FORMAT_EXYNOS_YCbCr_420_SPN_TILED
  | HAL_PIXEL_FORMAT_YCrCb_420_SP
  | HAL_PIXEL_FORMAT_YV12
  | HAL_PIXEL_FORMAT_EXYNOS_YCbCr_420_SP_M_S10B
  | HAL_PIXEL_FORMAT_EXYNOS_YCbCr_420_SPN_S10B
  | HAL_PIXEL_FORMAT_EXYNOS_YCbCr_P010_M
  | HAL_PIXEL_FORMAT_YCBCR_P010
  | HAL_PIXEL_FORMAT_EXYNOS_P010_N_SBWC_DECOMP
  | HAL_PIXEL_FORMAT_EXYNOS_CbYCrY_422_I
  | HAL_PIXEL_FORMAT_EXYNOS_YCrCb_422_SP
  | HAL_PIXEL_FORMAT_EXYNOS_YCrCb_422_I
  | HAL_PIXEL_FORMAT_EXYNOS_CrYCbY_422_I
  | HAL_PIXEL_FORMAT_EXYNOS_YCbCr_420_SP_M_SBWC
  | HAL_PIXEL_FORMAT_EXYNOS_YCbCr_420_SP_M_SBWC_L50
  | HAL_PIXEL_FORMAT_EXYNOS_YCbCr_420_SP_M_SBWC_L75
  | HAL_PIXEL_FORMAT_EXYNOS_YCbCr_420_SP_M_10B_SBWC
  | HAL_PIXEL_FORMAT_EXYNOS_YCbCr_420_SP_M_10B_SBWC_L40
  | HAL_PIXEL_FORMAT_EXYNOS_YCbCr_420_SP_M_10B_SBWC_L60
  | HAL_PIXEL_FORMAT_EXYNOS_YCbCr_420_SP_M_10B_SBWC_L80
  | HAL_PIXEL_FORMAT_EXYNOS_YCbCr_420_SPN_SBWC
  | HAL_PIXEL_FORMAT_EXYNOS_YCbCr_420_SPN_256_SBWC
  | HAL_PIXEL_FORMAT_EXYNOS_YCbCr_420_SPN_SBWC_L50
  | HAL_PIXEL_FORMAT_EXYNOS_YCbCr_420_SPN_SBWC_L75
  | HAL_PIXEL_FORMAT_EXYNOS_YCbCr_420_SPN_10B_SBWC
  | HAL_PIXEL_FORMAT_EXYNOS_YCbCr_420_SPN_10B_256_SBWC
  | HAL_PIXEL_FORMAT_EXYNOS_YCbCr_420_SPN_10B_SBWC_L40
  | HAL_PIXEL_FORMAT_EXYNOS_YCbCr_420_SPN_10B_SBWC_L60
  | HAL_PIXEL_FORMAT_EXYNOS_YCbCr_420_SPN_10B_SBWC_L80
  | HAL_PIXEL_FORMAT_EXYNOS_YCrCb_420_SP_M_SBWC
  | HAL_PIXEL_FORMAT_EXYNOS_YCrCb_420_SP_M_10B_SBWC
  | HAL_PIXEL_FORMAT_EXYNOS_420_SP_M_32_SBWC_L
  | HAL_PIXEL_FORMAT_EXYNOS_420_SP_M_64_SBWC_L
  | HAL_PIXEL_FORMAT_EXYNOS_420_SPN_32_SBWC_L
  | HAL_PIXEL_FORMAT_EXYNOS_420_SPN_64_SBWC_L
  | HAL_PIXEL_FORMAT_EXYNOS_420_SP_M_10B_32_SBWC_L
  | HAL_PIXEL_FORMAT_EXYNOS_420_SP_M_10B_64_SBWC_L
  | HAL_PIXEL_FORMAT_EXYNOS_420_SPN_10B_32_SBWC_L
  | HAL_PIXEL_FORMAT_EXYNOS_420_SPN_10B_64_SBWC_L
  | HAL_PIXEL_FORMAT_EXYNOS_YCbCr_422_P
  | HAL_PIXEL_FORMAT_Y16
  | HAL_PIXEL_FORMAT_Y8
  | HAL_PIXEL_FORMAT_YCbCr_422_I
  | HAL_PIXEL_FORMAT_YCbCr_422_SP
  | HAL_PIXEL_FORMAT_IMPLEMENTATION_DEFINED

datatype (plugins only: code) decon_pixel_format =
    DECON_PIXEL_FORMAT_ARGB_8888
  | DECON_PIXEL_FORMAT_ABGR_8888
  | DECON_PIXEL_FORMAT_RGBA_8888
  | DECON_PIXEL_FORMAT_BGRA_8888
  | DECON_PIXEL_FORMAT_XRGB_8888
  | DECON_PIXEL_FORMAT_XBGR_8888
  | DECON_PIXEL_FORMAT_RGBX_8888
  | DECON_PIXEL_FORMAT_BGRX_8888
  | DECON_PIXEL_FORMAT_RGBA_5551
  | DECON_PIXEL_FORMAT_BGRA_5551
  | DECON_PIXEL_FORMAT_ABGR_4444
  | DECON_PIXEL_FORMAT_RGBA_4444
  | DECON_PIXEL_FORMAT_BGRA_4444
  | DECON_PIXEL_FORMAT_RGB_565
  | DECON_PIXEL_FORMAT_BGR_565
  | DECON_PIXEL_FORMAT_ARGB_2101010
  | DECON_PIXEL_FORMAT_ABGR_2101010
  | DECON_PIXEL_FORMAT_RGBA_1010102
  | DECON_PIXEL_FORMAT_BGRA_1010102
  | DECON_PIXEL_FORMAT_NV16
  | DECON_PIXEL_FORMAT_NV61
  | DECON_PIXEL_FORMAT_YVU422_3P
  | DECON_PIXEL_FORMAT_NV12
  | DECON_PIXEL_FORMAT_NV21
  | DECON_PIXEL_FORMAT_NV12M
  | DECON_PIXEL_FORMAT_NV21M
  | DECON_PIXEL_FORMAT_YUV420
  | DECON_PIXEL_FORMAT_YVU420
  | DECON_PIXEL_FORMAT_YUV420M
  | DECON_PIXEL_FORMAT_YVU420M
  | DECON_PIXEL_FORMAT_NV12N
  | DECON_PIXEL_FORMAT_NV12N_10B
  | DECON_PIXEL_FORMAT_NV12M_P010
  | DECON_PIXEL_FORMAT_NV21M_P010
  | DECON_PIXEL_FORMAT_NV12M_S10B
  | DECON_PIXEL_FORMAT_NV21M_S10B
  | DECON_PIXEL_FORMAT_NV16M_P210
  | DECON_PIXEL_FORMAT_NV61M_P210
  | DECON_PIXEL_FORMAT_NV16M_S10B
  | DECON_PIXEL_FORMAT_NV61M_S10B
  | DECON_PIXEL_FORMAT_NV12_P010
  | DECON_PIXEL_FORMAT_NV12M_SBWC_8B
  | DECON_PIXEL_FORMAT_NV12M_SBWC_10B
  | DECON_PIXEL_FORMAT_NV21M_SBWC_8B
  | DECON_PIXEL_FORMAT_NV21M_SBWC_10B
  | DECON_PIXEL_FORMAT_NV12N_SBWC_8B
  | DECON_PIXEL_FORMAT_NV12N_SBWC_10B
  | DECON_PIXEL_FORMAT_NV12M_SBWC_8B_L50
  | DECON_PIXEL_FORMAT_NV12M_SBWC_8B_L75
  | DECON_PIXEL_FORMAT_NV12N_SBWC_8B_L50
  | DECON_PIXEL_FORMAT_NV12N_SBWC_8B_L75
  | DECON_PIXEL_FORMAT_NV12M_SBWC_10B_L40
  | DECON_PIXEL_FORMAT_NV12M_SBWC_10B_L60
  | DECON_PIXEL_FORMAT_NV12M_SBWC_10B_L80
  | DECON_PIXEL_FORMAT_NV12N_SBWC_10B_L40
  | DECON_PIXEL_FORMAT_NV12N_SBWC_10B_L60
  | DECON_PIXEL_FORMAT_NV12N_SBWC_10B_L80
  | DECON_PIXEL_FORMAT_MAX

definition decon_pixel_formats :: "decon_pixel_format list" where
  "decon_pixel_formats = [
    DECON_PIXEL_FORMAT_ARGB_8888,
    DECON_PIXEL_FORMAT_ABGR_8888,
    DECON_PIXEL_FORMAT_RGBA_8888,
    DECON_PIXEL_FORMAT_BGRA_8888,
    DECON_PIXEL_FORMAT_XRGB_8888,
    DECON_PIXEL_FORMAT_XBGR_8888,
    DECON_PIXEL_FORMAT_RGBX_8888,
    DECON_PIXEL_FORMAT_BGRX_8888,
    DECON_PIXEL_FORMAT_RGBA_5551,
    DECON_PIXEL_FORMAT_BGRA_5551,
    DECON_PIXEL_FORMAT_ABGR_4444,
    DECON_PIXEL_FORMAT_RGBA_4444,
    DECON_PIXEL_FORMAT_BGRA_4444,
    DECON_PIXEL_FORMAT_RGB_565,
    DECON_PIXEL_FORMAT_BGR_565,
    DECON_PIXEL_FORMAT_ARGB_2101010,
    DECON_PIXEL_FORMAT_ABGR_2101010,
    DECON_PIXEL_FORMAT_RGBA_1010102,
    DECON_PIXEL_FORMAT_BGRA_1010102,
    DECON_PIXEL_FORMAT_NV16,
    DECON_PIXEL_FORMAT_NV61,
    DECON_PIXEL_FORMAT_YVU422_3P,
    DECON_PIXEL_FORMAT_NV12,
    DECON_PIXEL_FORMAT_NV21,
    DECON_PIXEL_FORMAT_NV12M,
    DECON_PIXEL_FORMAT_NV21M,
    DECON_PIXEL_FORMAT_YUV420,
    DECON_PIXEL_FORMAT_YVU420,
    DECON_PIXEL_FORMAT_YUV420M,
    DECON_PIXEL_FORMAT_YVU420M,
    DECON_PIXEL_FORMAT_NV12N,
    DECON_PIXEL_FORMAT_NV12N_10B,
    DECON_PIXEL_FORMAT_NV12M_P010,
    DECON_PIXEL_FORMAT_NV21M_P010,
    DECON_PIXEL_FORMAT_NV12M_S10B,
    DECON_PIXEL_FORMAT_NV21M_S10B,
    DECON_PIXEL_FORMAT_NV16M_P210,
    DECON_PIXEL_FORMAT_NV61M_P210,
    DECON_PIXEL_FORMAT_NV16M_S10B,
    DECON_PIXEL_FORMAT_NV61M_S10B,
    DECON_PIXEL_FORMAT_NV12_P010,
    DECON_PIXEL_FORMAT_NV12M_SBWC_8B,
    DECON_PIXEL_FORMAT_NV12M_SBWC_10B,
    DECON_PIXEL_FORMAT_NV21M_SBWC_8B,
    DECON_PIXEL_FORMAT_NV21M_SBWC_10B,
    DECON_PIXEL_FORMAT_NV12N_SBWC_8B,
    DECON_PIXEL_FORMAT_NV12N_SBWC_10B,
    DECON_PIXEL_FORMAT_NV12M_SBWC_8B_L50,
    DECON_PIXEL_FORMAT_NV12M_SBWC_8B_L75,
    DECON_PIXEL_FORMAT_NV12N_SBWC_8B_L50,
    DECON_PIXEL_FORMAT_NV12N_SBWC_8B_L75,
    DECON_PIXEL_FORMAT_NV12M_SBWC_10B_L40,
    DECON_PIXEL_FORMAT_NV12M_SBWC_10B_L60,
    DECON_PIXEL_FORMAT_NV12M_SBWC_10B_L80,
    DECON_PIXEL_FORMAT_NV12N_SBWC_10B_L40,
    DECON_PIXEL_FORMAT_NV12N_SBWC_10B_L60,
    DECON_PIXEL_FORMAT_NV12N_SBWC_10B_L80,
    DECON_PIXEL_FORMAT_MAX]"

type_synonym hal_env = "hal_name \<Rightarrow> int"

text \<open>A four-character code: one byte per character, the first one lowest.\<close>

definition fourcc_code :: "char \<Rightarrow> char \<Rightarrow> char \<Rightarrow> char \<Rightarrow> u32" where
  [code_consts]: "fourcc_code a b c d =
     of_char a OR push_bit 8 (of_char b) OR push_bit 16 (of_char c) OR push_bit 24 (of_char d)"

definition DRM_FORMAT_UNDEFINED :: u32 where
  [code_consts]: "DRM_FORMAT_UNDEFINED = 0"

definition DRM_FORMAT_ABGR8888 :: u32 where
  [code_consts]: "DRM_FORMAT_ABGR8888 = fourcc_code CHR ''A'' CHR ''B'' CHR ''2'' CHR ''4''"

definition DRM_FORMAT_XBGR8888 :: u32 where
  [code_consts]: "DRM_FORMAT_XBGR8888 = fourcc_code CHR ''X'' CHR ''B'' CHR ''2'' CHR ''4''"

definition DRM_FORMAT_BGR888 :: u32 where
  [code_consts]: "DRM_FORMAT_BGR888 = fourcc_code CHR ''B'' CHR ''G'' CHR ''2'' CHR ''4''"

definition DRM_FORMAT_RGB565 :: u32 where
  [code_consts]: "DRM_FORMAT_RGB565 = fourcc_code CHR ''R'' CHR ''G'' CHR ''1'' CHR ''6''"

definition DRM_FORMAT_BGR565 :: u32 where
  [code_consts]: "DRM_FORMAT_BGR565 = fourcc_code CHR ''B'' CHR ''G'' CHR ''1'' CHR ''6''"

definition DRM_FORMAT_ARGB8888 :: u32 where
  [code_consts]: "DRM_FORMAT_ARGB8888 = fourcc_code CHR ''A'' CHR ''R'' CHR ''2'' CHR ''4''"

definition DRM_FORMAT_ABGR2101010 :: u32 where
  [code_consts]: "DRM_FORMAT_ABGR2101010 = fourcc_code CHR ''A'' CHR ''B'' CHR ''3'' CHR ''0''"

definition DRM_FORMAT_BGRA8888 :: u32 where
  [code_consts]: "DRM_FORMAT_BGRA8888 = fourcc_code CHR ''B'' CHR ''A'' CHR ''2'' CHR ''4''"

definition DRM_FORMAT_ABGR16161616F :: u32 where
  [code_consts]: "DRM_FORMAT_ABGR16161616F = fourcc_code CHR ''A'' CHR ''B'' CHR ''4'' CHR ''H''"

definition DRM_FORMAT_NV12 :: u32 where
  [code_consts]: "DRM_FORMAT_NV12 = fourcc_code CHR ''N'' CHR ''V'' CHR ''1'' CHR ''2''"

definition DRM_FORMAT_NV21 :: u32 where
  [code_consts]: "DRM_FORMAT_NV21 = fourcc_code CHR ''N'' CHR ''V'' CHR ''2'' CHR ''1''"

definition DRM_FORMAT_P010 :: u32 where
  [code_consts]: "DRM_FORMAT_P010 = fourcc_code CHR ''P'' CHR ''0'' CHR ''1'' CHR ''0''"

definition DRM_FORMAT_P010_YVU :: u32 where
  [code_consts]: "DRM_FORMAT_P010_YVU = fourcc_code CHR ''P'' CHR ''M'' CHR ''2'' CHR ''1''"

text \<open>The bit fields of a format's \<open>type\<close> word.\<close>

definition TYPE_UNDEF :: u32 where [code_consts]: "TYPE_UNDEF = 0"
definition FORMAT_MASK :: u32 where [code_consts]: "FORMAT_MASK = 0x0000ffff"
definition FORMAT_RGB_MASK :: u32 where [code_consts]: "FORMAT_RGB_MASK = 0x0000000f"
definition RGB :: u32 where [code_consts]: "RGB = 0x00000001"
definition FORMAT_YUV_MASK :: u32 where [code_consts]: "FORMAT_YUV_MASK = 0x000000f0"
definition YUV420 :: u32 where [code_consts]: "YUV420 = 0x00000010"
definition YUV422 :: u32 where [code_consts]: "YUV422 = 0x00000020"
definition P010 :: u32 where [code_consts]: "P010 = 0x00000030"
definition FORMAT_SBWC_MASK :: u32 where [code_consts]: "FORMAT_SBWC_MASK = 0x00000f00"
definition SBWC_LOSSLESS :: u32 where [code_consts]: "SBWC_LOSSLESS = 0x00000100"
definition SBWC_LOSSY_40 :: u32 where [code_consts]: "SBWC_LOSSY_40 = 0x00000200"
definition SBWC_LOSSY_50 :: u32 where [code_consts]: "SBWC_LOSSY_50 = 0x00000300"
definition SBWC_LOSSY_60 :: u32 where [code_consts]: "SBWC_LOSSY_60 = 0x00000400"
definition SBWC_LOSSY_75 :: u32 where [code_consts]: "SBWC_LOSSY_75 = 0x00000500"
definition SBWC_LOSSY_80 :: u32 where [code_consts]: "SBWC_LOSSY_80 = 0x00000600"
definition BIT_MASK :: u32 where [code_consts]: "BIT_MASK = 0x000f0000"
definition BIT8 :: u32 where [code_consts]: "BIT8 = 0x00010000"
definition BIT10 :: u32 where [code_consts]: "BIT10 = 0x00020000"
definition BIT8_2 :: u32 where [code_consts]: "BIT8_2 = 0x00030000"
definition BIT16 :: u32 where [code_consts]: "BIT16 = 0x00040000"
definition COMP_TYPE_MASK :: u32 where [code_consts]: "COMP_TYPE_MASK = 0x0ff00000"
definition COMP_TYPE_NONE :: u32 where [code_consts]: "COMP_TYPE_NONE = 0x08000000"
definition COMP_TYPE_AFBC :: u32 where [code_consts]: "COMP_TYPE_AFBC = 0x00100000"
definition COMP_TYPE_SBWC :: u32 where [code_consts]: "COMP_TYPE_SBWC = 0x00200000"
definition COMP_TYPE_SAJC :: u32 where [code_consts]: "COMP_TYPE_SAJC = 0x00400000"

section \<open>The table\<close>

record format_description =
  halFormat :: hal_name
  s3cFormat :: decon_pixel_format
  drmFormat :: u32
  planeNum :: u32
  bufferNum :: u32
  bpp :: u8
  type_flags :: u32
  hasAlpha :: bool
  name :: string
  reserved :: u32

definition format_desc ::
  "hal_name \<Rightarrow> decon_pixel_format \<Rightarrow> u32 \<Rightarrow> u32 \<Rightarrow> u32 \<Rightarrow> u8 \<Rightarrow> u32 \<Rightarrow> bool \<Rightarrow> string \<Rightarrow> format_description"
where
  [simp]: "format_desc h s d pn bn b t a n =
     \<lparr>halFormat = h, s3cFormat = s, drmFormat = d, planeNum = pn, bufferNum = bn, bpp = b,
      type_flags = t, hasAlpha = a, name = n, reserved = 0\<rparr>"

definition exynos_format_desc :: "format_description list" where
  "exynos_format_desc = [
    format_desc HAL_PIXEL_FORMAT_RGBA_8888 DECON_PIXEL_FORMAT_RGBA_8888 DRM_FORMAT_ABGR8888
      1 1 32 (RGB OR BIT8 OR COMP_TYPE_AFBC OR COMP_TYPE_SAJC) True ''RGBA_8888'',
    format_desc HAL_PIXEL_FORMAT_RGBX_8888 DECON_PIXEL_FORMAT_RGBX_8888 DRM_FORMAT_XBGR8888
      1 1 32 (RGB OR BIT8 OR COMP_TYPE_AFBC OR COMP_TYPE_SAJC) False ''RGBx_8888'',
    format_desc HAL_PIXEL_FORMAT_RGB_888 DECON_PIXEL_FORMAT_MAX DRM_FORMAT_BGR888
      1 1 24 (RGB OR BIT8 OR COMP_TYPE_AFBC) False ''RGB_888'',
    format_desc HAL_PIXEL_FORMAT_RGB_565 DECON_PIXEL_FORMAT_RGB_565 DRM_FORMAT_RGB565
      1 1 16 (RGB OR COMP_TYPE_SAJC) False ''RGB_565'',
    format_desc HAL_PIXEL_FORMAT_RGB_565 DECON_PIXEL_FORMAT_RGB_565 DRM_FORMAT_BGR565
      1 1 16 (RGB OR COMP_TYPE_AFBC) False ''RGB_565_AFBC'',
    format_desc HAL_PIXEL_FORMAT_BGRA_8888 DECON_PIXEL_FORMAT_BGRA_8888 DRM_FORMAT_ARGB8888
      1 1 32 (RGB OR BIT8 OR COMP_TYPE_AFBC OR COMP_TYPE_SAJC) True ''BGRA_8888'',
    format_desc HAL_PIXEL_FORMAT_RGBA_1010102 DECON_PIXEL_FORMAT_ABGR_2101010 DRM_FORMAT_ABGR2101010
      1 1 32 (RGB OR BIT10 OR COMP_TYPE_AFBC OR COMP_TYPE_SAJC) True ''RGBA_1010102'',
    format_desc HAL_PIXEL_FORMAT_EXYNOS_ARGB_8888 DECON_PIXEL_FORMAT_MAX DRM_FORMAT_BGRA8888
      1 1 32 (RGB OR BIT8 OR COMP_TYPE_AFBC) True ''EXYNOS_ARGB_8888'',
    format_desc HAL_PIXEL_FORMAT_RGBA_FP16 DECON_PIXEL_FORMAT_MAX DRM_FORMAT_ABGR16161616F
      1 1 64 (RGB OR BIT16 OR COMP_TYPE_AFBC OR COMP_TYPE_SAJC) True ''RGBA_FP16'',
    format_desc HAL_PIXEL_FORMAT_EXYNOS_YCbCr_420_P_M DECON_PIXEL_FORMAT_YUV420M DRM_FORMAT_UNDEFINED
      3 3 12 (YUV420 OR BIT8) False ''EXYNOS_YCbCr_420_P_M'',
    format_desc HAL_PIXEL_FORMAT_EXYNOS_YCbCr_420_SP_M DECON_PIXEL_FORMAT_NV12M DRM_FORMAT_NV12
      2 2 12 (YUV420 OR BIT8) False ''EXYNOS_YCbCr_420_SP_M'',
    format_desc HAL_PIXEL_FORMAT_EXYNOS_YCbCr_420_SP_M_TILED DECON_PIXEL_FORMAT_MAX DRM_FORMAT_UNDEFINED
      2 2 12 (YUV420 OR BIT8) False ''EXYNOS_YCbCr_420_SP_M_TILED'',
    format_desc HAL_PIXEL_FORMAT_EXYNOS_YV12_M DECON_PIXEL_FORMAT_YVU420M DRM_FORMAT_UNDEFINED
      3 3 12 (YUV420 OR BIT8) False ''EXYNOS_YV12_M'',
    format_desc HAL_PIXEL_FORMAT_EXYNOS_YCrCb_420_SP_M DECON_PIXEL_FORMAT_NV21M DRM_FORMAT_NV21
      2 2 12 (YUV420 OR BIT8) False ''EXYNOS_YCrCb_420_SP_M'',
    format_desc HAL_PIXEL_FORMAT_EXYNOS_YCrCb_420_SP_M_FULL DECON_PIXEL_FORMAT_NV21M DRM_FORMAT_NV21
      2 2 12 (YUV420 OR BIT8) False ''EXYNOS_YCrCb_420_SP_M_FULL'',
    format_desc HAL_PIXEL_FORMAT_EXYNOS_YCbCr_420_P DECON_PIXEL_FORMAT_MAX DRM_FORMAT_UNDEFINED
      3 1 0 (YUV420 OR BIT8) False ''EXYNOS_YCbCr_420_P'',
    format_desc HAL_PIXEL_FORMAT_EXYNOS_YCbCr_420_SP DECON_PIXEL_FORMAT_MAX DRM_FORMAT_UNDEFINED
      2 1 0 (YUV420 OR BIT8) False ''EXYNOS_YCbCr_420_SP'',
    format_desc HAL_PIXEL_FORMAT_EXYNOS_YCbCr_420_SP_M_PRIV DECON_PIXEL_FORMAT_NV12M DRM_FORMAT_NV12
      2 2 12 (YUV420 OR BIT8) False ''EXYNOS_YCbCr_420_SP_M_PRIV'',
    format_desc HAL_PIXEL_FORMAT_EXYNOS_YCbCr_420_PN DECON_PIXEL_FORMAT_MAX DRM_FORMAT_UNDEFINED
      3 1 12 (YUV420 OR BIT8) False ''EXYNOS_YCbCr_420_PN'',
    format_desc HAL_PIXEL_FORMAT_EXYNOS_YCbCr_420_SPN DECON_PIXEL_FORMAT_NV12N DRM_FORMAT_NV12
      2 1 12 (YUV420 OR BIT8) False ''EXYNOS_YCbCr_420_SPN'',
    format_desc HAL_PIXEL_FORMAT_EXYNOS_420_SPN_SBWC_DECOMP DECON_PIXEL_FORMAT_NV12N DRM_FORMAT_NV12
      2 1 12 (YUV420 OR BIT8) False ''EXYNOS_420_SPN_SBWC_DECOMP'',
    format_desc HAL_PIXEL_FORMAT_EXYNOS_YCbCr_420_SPN_TILED DECON_PIXEL_FORMAT_MAX DRM_FORMAT_UNDEFINED
      2 1 12 (YUV420 OR BIT8) False ''EXYNOS_YCbCr_420_SPN_TILED'',
    format_desc HAL_PIXEL_FORMAT_YCrCb_420_SP DECON_PIXEL_FORMAT_MAX DRM_FORMAT_UNDEFINED
      2 1 12 (YUV420 OR BIT8) False ''YCrCb_420_SP'',
    format_desc HAL_PIXEL_FORMAT_YV12 DECON_PIXEL_FORMAT_MAX DRM_FORMAT_UNDEFINED
      3 1 12 (YUV420 OR BIT8) False ''YV12'',
    format_desc HAL_PIXEL_FORMAT_EXYNOS_YCbCr_420_SP_M_S10B DECON_PIXEL_FORMAT_NV12M_S10B DRM_FORMAT_UNDEFINED
      2 2 12 (YUV420 OR BIT10) False ''EXYNOS_YCbCr_420_SP_M_S10B'',
    format_desc HAL_PIXEL_FORMAT_EXYNOS_YCbCr_420_SPN_S10B DECON_PIXEL_FORMAT_NV12N_10B DRM_FORMAT_UNDEFINED
      2 1 12 (YUV420 OR BIT10) False ''EXYNOS_YCbCr_420_SPN_S10B'',
    format_desc HAL_PIXEL_FORMAT_EXYNOS_YCbCr_P010_M DECON_PIXEL_FORMAT_NV12M_P010 DRM_FORMAT_P010
      2 2 24 (P010 OR BIT10) False ''EXYNOS_YCbCr_P010_M'',
    format_desc HAL_PIXEL_FORMAT_YCBCR_P010 DECON_PIXEL_FORMAT_NV12_P010 DRM_FORMAT_P010
      2 1 24 (P010 OR BIT10) False ''EXYNOS_YCbCr_P010'',
    format_desc HAL_PIXEL_FORMAT_EXYNOS_P010_N_SBWC_DECOMP DECON_PIXEL_FORMAT_NV12_P010 DRM_FORMAT_P010
      2 1 24 (P010 OR BIT10) False ''EXYNOS_P010_N_SBWC_DECOMP'',
    format_desc HAL_PIXEL_FORMAT_EXYNOS_CbYCrY_422_I DECON_PIXEL_FORMAT_MAX DRM_FORMAT_UNDEFINED
      0 0 0 (YUV422 OR BIT8) False ''EXYNOS_CbYCrY_422_I'',
    format_desc HAL_PIXEL_FORMAT_EXYNOS_YCrCb_422_SP DECON_PIXEL_FORMAT_MAX DRM_FORMAT_UNDEFINED
      0 0 0 (YUV422 OR BIT8) False ''EXYNOS_YCrCb_422_SP'',
    format_desc HAL_PIXEL_FORMAT_EXYNOS_YCrCb_422_I DECON_PIXEL_FORMAT_MAX DRM_FORMAT_UNDEFINED
      0 0 0 (YUV422 OR BIT8) False ''EXYNOS_YCrCb_422_I'',
    format_desc HAL_PIXEL_FORMAT_EXYNOS_CrYCbY_422_I DECON_PIXEL_FORMAT_MAX DRM_FORMAT_UNDEFINED
      0 0 0 (YUV422 OR BIT8) False ''EXYNOS_CrYCbY_422_I'',
    format_desc HAL_PIXEL_FORMAT_EXYNOS_YCbCr_420_SP_M_SBWC DECON_PIXEL_FORMAT_NV12M_SBWC_8B DRM_FORMAT_NV12
      2 2 12 (YUV420 OR BIT8 OR COMP_TYPE_SBWC OR SBWC_LOSSLESS) False ''EXYNOS_YCbCr_420_SP_M_SBWC'',
    format_desc HAL_PIXEL_FORMAT_EXYNOS_YCbCr_420_SP_M_SBWC_L50 DECON_PIXEL_FORMAT_NV12M_SBWC_8B_L50 DRM_FORMAT_NV12
      2 2 12 (YUV420 OR BIT8 OR COMP_TYPE_SBWC OR SBWC_LOSSY_50) False ''EXYNOS_YCbCr_420_SP_M_SBWC_L50'',
    format_desc HAL_PIXEL_FORMAT_EXYNOS_YCbCr_420_SP_M_SBWC_L75 DECON_PIXEL_FORMAT_NV12M_SBWC_8B_L75 DRM_FORMAT_NV12
      2 2 12 (YUV420 OR BIT8 OR COMP_TYPE_SBWC OR SBWC_LOSSY_75) False ''EXYNOS_YCbCr_420_SP_M_SBWC_L75'',
    format_desc HAL_PIXEL_FORMAT_EXYNOS_YCbCr_420_SP_M_10B_SBWC DECON_PIXEL_FORMAT_NV12M_SBWC_10B DRM_FORMAT_P010
      2 2 12 (P010 OR BIT10 OR COMP_TYPE_SBWC OR SBWC_LOSSLESS) False ''EXYNOS_YCbCr_420_SP_M_10B_SBWC'',
    format_desc HAL_PIXEL_FORMAT_EXYNOS_YCbCr_420_SP_M_10B_SBWC_L40 DECON_PIXEL_FORMAT_NV12M_SBWC_10B_L40 DRM_FORMAT_P010
      2 2 12 (P010 OR BIT10 OR COMP_TYPE_SBWC OR SBWC_LOSSY_40) False ''EXYNOS_YCbCr_420_SP_M_10B_SBWC_L40'',
    format_desc HAL_PIXEL_FORMAT_EXYNOS_YCbCr_420_SP_M_10B_SBWC_L60 DECON_PIXEL_FORMAT_NV12M_SBWC_10B_L60 DRM_FORMAT_P010
      2 2 12 (P010 OR BIT10 OR COMP_TYPE_SBWC OR SBWC_LOSSY_60) False ''EXYNOS_YCbCr_420_SP_M_10B_SBWC_L60'',
    format_desc HAL_PIXEL_FORMAT_EXYNOS_YCbCr_420_SP_M_10B_SBWC_L80 DECON_PIXEL_FORMAT_NV12M_SBWC_10B_L80 DRM_FORMAT_P010
      2 2 12 (P010 OR BIT10 OR COMP_TYPE_SBWC OR SBWC_LOSSY_80) False ''EXYNOS_YCbCr_420_SP_M_10B_SBWC_L80'',
    format_desc HAL_PIXEL_FORMAT_EXYNOS_YCbCr_420_SPN_SBWC DECON_PIXEL_FORMAT_NV12N_SBWC_8B DRM_FORMAT_NV12
      2 1 12 (YUV420 OR BIT8 OR COMP_TYPE_SBWC OR SBWC_LOSSLESS) False ''EXYNOS_YCbCr_420_SPN_SBWC'',
    format_desc HAL_PIXEL_FORMAT_EXYNOS_YCbCr_420_SPN_256_SBWC DECON_PIXEL_FORMAT_NV12N_SBWC_8B DRM_FORMAT_NV12
      2 1 12 (YUV420 OR BIT8 OR COMP_TYPE_SBWC OR SBWC_LOSSLESS) False ''EXYNOS_YCbCr_420_SPN_256_SBWC'',
    format_desc HAL_PIXEL_FORMAT_EXYNOS_YCbCr_420_SPN_SBWC_L50 DECON_PIXEL_FORMAT_NV12N_SBWC_8B_L50 DRM_FORMAT_NV12
      2 1 12 (YUV420 OR BIT8 OR COMP_TYPE_SBWC OR SBWC_LOSSY_50) False ''EXYNOS_YCbCr_420_SPN_SBWC_L50'',
    format_desc HAL_PIXEL_FORMAT_EXYNOS_YCbCr_420_SPN_SBWC_L75 DECON_PIXEL_FORMAT_NV12N_SBWC_8B_L75 DRM_FORMAT_NV12
      2 1 12 (YUV420 OR BIT8 OR COMP_TYPE_SBWC OR SBWC_LOSSY_75) False ''EXYNOS_YCbCr_420_SPN_SBWC_75'',
    format_desc HAL_PIXEL_FORMAT_EXYNOS_YCbCr_420_SPN_10B_SBWC DECON_PIXEL_FORMAT_NV12N_SBWC_10B DRM_FORMAT_P010
      2 1 12 (P010 OR BIT10 OR COMP_TYPE_SBWC OR SBWC_LOSSLESS) False ''EXYNOS_YCbCr_420_SPN_10B_SBWC'',
    format_desc HAL_PIXEL_FORMAT_EXYNOS_YCbCr_420_SPN_10B_256_SBWC DECON_PIXEL_FORMAT_NV12N_SBWC_10B DRM_FORMAT_P010
      2 1 12 (P010 OR BIT10 OR COMP_TYPE_SBWC OR SBWC_LOSSLESS) False ''EXYNOS_YCbCr_420_SPN_10B_256_SBWC'',
    format_desc HAL_PIXEL_FORMAT_EXYNOS_YCbCr_420_SPN_10B_SBWC_L40 DECON_PIXEL_FORMAT_NV12N_SBWC_10B_L40 DRM_FORMAT_P010
      2 1 12 (P010 OR BIT10 OR COMP_TYPE_SBWC OR SBWC_LOSSY_40) False ''EXYNOS_YCbCr_420_SPN_10B_SBWC_L40'',
    format_desc HAL_PIXEL_FORMAT_EXYNOS_YCbCr_420_SPN_10B_SBWC_L60 DECON_PIXEL_FORMAT_NV12N_SBWC_10B_L60 DRM_FORMAT_P010
      2 1 12 (P010 OR BIT10 OR COMP_TYPE_SBWC OR SBWC_LOSSY_60) False ''EXYNOS_YCbCr_420_SPN_10B_SBWC_L60'',
    format_desc HAL_PIXEL_FORMAT_EXYNOS_YCbCr_420_SPN_10B_SBWC_L80 DECON_PIXEL_FORMAT_NV12N_SBWC_10B_L80 DRM_FORMAT_P010
      2 1 12 (P010 OR BIT10 OR COMP_TYPE_SBWC OR SBWC_LOSSY_80) False ''EXYNOS_YCbCr_420_SPN_10B_SBWC_L80'',
    format_desc HAL_PIXEL_FORMAT_EXYNOS_YCrCb_420_SP_M_SBWC DECON_PIXEL_FORMAT_NV21M_SBWC_8B DRM_FORMAT_NV12
      2 2 12 (YUV420 OR BIT8 OR COMP_TYPE_SBWC OR SBWC_LOSSLESS) False ''EXYNOS_YCrCb_420_SP_M_SBWC'',
    format_desc HAL_PIXEL_FORMAT_EXYNOS_YCrCb_420_SP_M_10B_SBWC DECON_PIXEL_FORMAT_NV21M_SBWC_10B DRM_FORMAT_P010_YVU
      2 2 12 (P010 OR BIT10 OR COMP_TYPE_SBWC OR SBWC_LOSSLESS) False ''EXYNOS_YCrbCb_420_SP_M_10B_SBWC'',
    format_desc HAL_PIXEL_FORMAT_IMPLEMENTATION_DEFINED DECON_PIXEL_FORMAT_MAX DRM_FORMAT_UNDEFINED
      0 0 0 (TYPE_UNDEF) False ''ImplDef'']"

definition FORMAT_MAX_CNT :: nat where "FORMAT_MAX_CNT = length exynos_format_desc"
definition kDefaultFormatIndex :: nat where "kDefaultFormatIndex = FORMAT_MAX_CNT - 1"

section \<open>Lookups by HAL format\<close>

text \<open>
  Each of these functions of \<open>ExynosHWCFormat.cpp\<close> is a loop over the table that answers from the
  first row with the given HAL number and falls through to a default after the loop.
\<close>

definition find_desc :: "hal_env \<Rightarrow> int \<Rightarrow> format_description option" where
  "find_desc hal fmt = List.find (\<lambda>d. hal (halFormat d) = fmt) exynos_format_desc"

definition formatToBpp :: "hal_env \<Rightarrow> int \<Rightarrow> u8" where
  "formatToBpp hal fmt = (case find_desc hal fmt of Some d \<Rightarrow> bpp d | None \<Rightarrow> 0)"

definition isFormatRgb :: "hal_env \<Rightarrow> int \<Rightarrow> bool" where
  "isFormatRgb hal fmt = (case find_desc hal fmt of
     Some d \<Rightarrow> type_flags d AND FORMAT_RGB_MASK \<noteq> 0 | None \<Rightarrow> False)"

definition isFormatYUV :: "hal_env \<Rightarrow> int \<Rightarrow> bool" where
  "isFormatYUV hal fmt = (if isFormatRgb hal fmt then False else True)"

definition isFormatSBWC :: "hal_env \<Rightarrow> int \<Rightarrow> bool" where
  "isFormatSBWC hal fmt = (case find_desc hal fmt of
     Some d \<Rightarrow> type_flags d AND FORMAT_SBWC_MASK \<noteq> 0 | None \<Rightarrow> False)"

definition isFormatYUV420 :: "hal_env \<Rightarrow> int \<Rightarrow> bool" where
  "isFormatYUV420 hal fmt = (case find_desc hal fmt of
     Some d \<Rightarrow> (let yuvType = type_flags d AND FORMAT_YUV_MASK in yuvType = YUV420 \<or> yuvType = P010)
   | None \<Rightarrow> False)"

definition isFormatYUV8_2 :: "hal_env \<Rightarrow> int \<Rightarrow> bool" where
  "isFormatYUV8_2 hal fmt = (case find_desc hal fmt of
     Some d \<Rightarrow> type_flags d AND FORMAT_YUV_MASK = YUV420 \<and> type_flags d AND BIT_MASK = BIT8_2
   | None \<Rightarrow> False)"

definition isFormat10BitYUV420 :: "hal_env \<Rightarrow> int \<Rightarrow> bool" where
  "isFormat10BitYUV420 hal fmt = (case find_desc hal fmt of
     Some d \<Rightarrow> (let yuvType = type_flags d AND FORMAT_YUV_MASK in
       (yuvType = YUV420 \<or> yuvType = P010) \<and> type_flags d AND BIT_MASK = BIT10)
   | None \<Rightarrow> False)"

definition isFormatYUV422 :: "hal_env \<Rightarrow> int \<Rightarrow> bool" where
  "isFormatYUV422 hal fmt = (case find_desc hal fmt of
     Some d \<Rightarrow> type_flags d AND FORMAT_YUV_MASK = YUV422 | None \<Rightarrow> False)"

definition isFormatP010 :: "hal_env \<Rightarrow> int \<Rightarrow> bool" where
  "isFormatP010 hal fmt = (case find_desc hal fmt of
     Some d \<Rightarrow> type_flags d AND FORMAT_YUV_MASK = P010 | None \<Rightarrow> False)"

definition isFormat10Bit :: "hal_env \<Rightarrow> int \<Rightarrow> bool" where
  "isFormat10Bit hal fmt = (case find_desc hal fmt of
     Some d \<Rightarrow> type_flags d AND BIT_MASK = BIT10 | None \<Rightarrow> False)"

definition isFormat8Bit :: "hal_env \<Rightarrow> int \<Rightarrow> bool" where
  "isFormat8Bit hal fmt = (case find_desc hal fmt of
     Some d \<Rightarrow> type_flags d AND BIT_MASK = BIT8 | None \<Rightarrow> False)"

definition isFormatLossy :: "hal_env \<Rightarrow> int \<Rightarrow> bool" where
  "isFormatLossy hal fmt = (case find_desc hal fmt of
     Some d \<Rightarrow> (let sbwcType = type_flags d AND FORMAT_SBWC_MASK in
       sbwcType \<noteq> 0 \<and> \<not> sbwcType = SBWC_LOSSLESS)
   | None \<Rightarrow> False)"

definition formatHasAlphaChannel :: "hal_env \<Rightarrow> int \<Rightarrow> bool" where
  "formatHasAlphaChannel hal fmt = (case find_desc hal fmt of Some d \<Rightarrow> hasAlpha d | None \<Rightarrow> False)"

definition halFormatToDpuFormat :: "hal_env \<Rightarrow> int \<Rightarrow> decon_pixel_format" where
  "halFormatToDpuFormat hal fmt = (case find_desc hal fmt of
     Some d \<Rightarrow> s3cFormat d | None \<Rightarrow> DECON_PIXEL_FORMAT_MAX)"

definition getBufferNumOfFormat :: "hal_env \<Rightarrow> int \<Rightarrow> u32" where
  "getBufferNumOfFormat hal fmt = (case find_desc hal fmt of Some d \<Rightarrow> bufferNum d | None \<Rightarrow> 0)"

definition getTypeOfFormat :: "hal_env \<Rightarrow> int \<Rightarrow> u32" where
  "getTypeOfFormat hal fmt = (case find_desc hal fmt of Some d \<Rightarrow> type_flags d | None \<Rightarrow> 0)"

definition getPlaneNumOfFormat :: "hal_env \<Rightarrow> int \<Rightarrow> u32" where
  "getPlaneNumOfFormat hal fmt = (case find_desc hal fmt of Some d \<Rightarrow> planeNum d | None \<Rightarrow> 0)"

definition getBytePerPixelOfPrimaryPlane :: "hal_env \<Rightarrow> int \<Rightarrow> u32" where
  "getBytePerPixelOfPrimaryPlane hal fmt =
     (if isFormatRgb hal fmt then ucast (formatToBpp hal fmt) div 8
      else if isFormat10BitYUV420 hal fmt then 2
      else if isFormatYUV420 hal fmt then 1
      else 0)"

text \<open>Hexadecimal printing, as \<open>\<percent>08x\<close> prints the unsigned reading of an \<open>int\<close>.\<close>

definition hex_digit :: "nat \<Rightarrow> char" where
  "hex_digit n = (if n < 10 then char_of (48 + n) else char_of (87 + n))"

definition hex08 :: "int \<Rightarrow> string" where
  "hex08 fmt = (let w = (word_of_int fmt :: u32) in
     map (\<lambda>i. hex_digit (unat (drop_bit (4 * i) w AND 15))) [7, 6, 5, 4, 3, 2, 1, 0])"

definition getFormatStr :: "hal_env \<Rightarrow> int \<Rightarrow> string" where
  "getFormatStr hal fmt = (case find_desc hal fmt of Some d \<Rightarrow> name d | None \<Rightarrow> ''? '' @ hex08 fmt)"

section \<open>Lookups by display-controller and DRM format\<close>

definition HAL_PIXEL_FORMAT_EXYNOS_UNDEFINED :: int where
  [code_consts]: "HAL_PIXEL_FORMAT_EXYNOS_UNDEFINED = 0"

text \<open>The enum's numbers are positions; a number that is no position equals no row's format.\<close>

definition dpu_code :: "decon_pixel_format \<Rightarrow> int" where
  "dpu_code d = int (find_index ((=) d) decon_pixel_formats)"

definition DpuFormatToHalFormat :: "hal_env \<Rightarrow> int \<Rightarrow> u32" where
  "DpuFormatToHalFormat hal fmt =
     (case List.find (\<lambda>d. dpu_code (s3cFormat d) = fmt) exynos_format_desc of
        Some d \<Rightarrow> word_of_int (hal (halFormat d))
      | None \<Rightarrow> word_of_int HAL_PIXEL_FORMAT_EXYNOS_UNDEFINED)"

definition drmFormatToHalFormat :: "hal_env \<Rightarrow> u32 \<Rightarrow> int" where
  "drmFormatToHalFormat hal fmt =
     (case List.find (\<lambda>d. drmFormat d = fmt) exynos_format_desc of
        Some d \<Rightarrow> hal (halFormat d)
      | None \<Rightarrow> HAL_PIXEL_FORMAT_EXYNOS_UNDEFINED)"

definition MAX_SAME_HAL_PIXEL_FORMAT :: nat where
  [code_consts]: "MAX_SAME_HAL_PIXEL_FORMAT = 10"

text \<open>
  \<open>drmFormatToHalFormats\<close> writes the caller's array of \<open>MAX_SAME_HAL_PIXEL_FORMAT\<close> elements one by
  one and counts them in \<open>numFormat\<close>. The list is the written prefix of the array, so the count is
  its length; the loop stops when the array is full.
\<close>

fun drm_hal_loop :: "hal_env \<Rightarrow> u32 \<Rightarrow> format_description list \<Rightarrow> u32 list \<Rightarrow> u32 list" where
  "drm_hal_loop hal fmt [] acc = acc"
| "drm_hal_loop hal fmt (d # ds) acc =
     (let acc' = (if drmFormat d = fmt then acc @ [word_of_int (hal (halFormat d))] else acc) in
      if length acc' \<ge> MAX_SAME_HAL_PIXEL_FORMAT then acc' else drm_hal_loop hal fmt ds acc')"

definition drmFormatToHalFormats :: "hal_env \<Rightarrow> u32 \<Rightarrow> nat \<times> u32 list" where
  "drmFormatToHalFormats hal fmt =
     (let acc = drm_hal_loop hal fmt exynos_format_desc [] in (length acc, acc))"

section \<open>Lookup by HAL format and compression type\<close>

definition isCompressionSupported :: "format_description \<Rightarrow> u32 \<Rightarrow> bool" where
  "isCompressionSupported d inType = (if type_flags d AND inType \<noteq> 0 then True else False)"

definition desc_matches :: "hal_env \<Rightarrow> int \<Rightarrow> u32 \<Rightarrow> format_description \<Rightarrow> bool" where
  "desc_matches hal fmt compressType d =
     (let compressionSupport =
        (if compressType = COMP_TYPE_NONE then True else isCompressionSupported d compressType)
      in hal (halFormat d) = fmt \<and> compressionSupport)"

definition halFormatToExynosFormat :: "hal_env \<Rightarrow> int \<Rightarrow> u32 \<Rightarrow> format_description option" where
  "halFormatToExynosFormat hal fmt compressType =
     List.find (desc_matches hal fmt compressType) exynos_format_desc"

section \<open>The class \<open>ExynosFormat\<close>\<close>

text \<open>An \<open>ExynosFormat\<close> is an index into the table.\<close>

datatype ExynosFormat = ExynosFormat (mDescIndex: nat)

definition desc :: "ExynosFormat \<Rightarrow> format_description" where
  "desc f = exynos_format_desc ! mDescIndex f"

definition format_default :: ExynosFormat where
  "format_default = ExynosFormat kDefaultFormatIndex"

definition format_init :: "hal_env \<Rightarrow> int \<Rightarrow> u32 \<Rightarrow> ExynosFormat" where
  "format_init hal fmt compressType =
     (let index = find_index (desc_matches hal fmt compressType) exynos_format_desc in
      if index < FORMAT_MAX_CNT then ExynosFormat index else ExynosFormat kDefaultFormatIndex)"

definition format_of :: "hal_env \<Rightarrow> int \<Rightarrow> ExynosFormat" where
  "format_of hal fmt = format_init hal fmt COMP_TYPE_NONE"

definition fmt_halFormat :: "hal_env \<Rightarrow> ExynosFormat \<Rightarrow> int" where
  [code_defs]: "fmt_halFormat hal f = hal (halFormat (desc f))"
definition fmt_bpp :: "ExynosFormat \<Rightarrow> u8" where
  [code_defs]: "fmt_bpp f = bpp (desc f)"
definition fmt_bufferNum :: "ExynosFormat \<Rightarrow> u32" where
  [code_defs]: "fmt_bufferNum f = bufferNum (desc f)"
definition fmt_planeNum :: "ExynosFormat \<Rightarrow> u32" where
  [code_defs]: "fmt_planeNum f = planeNum (desc f)"
definition fmt_dpuFormat :: "ExynosFormat \<Rightarrow> decon_pixel_format" where
  [code_defs]: "fmt_dpuFormat f = s3cFormat (desc f)"
definition fmt_drmFormat :: "ExynosFormat \<Rightarrow> u32" where
  [code_defs]: "fmt_drmFormat f = drmFormat (desc f)"
definition fmt_isRgb :: "ExynosFormat \<Rightarrow> bool" where
  [code_defs]: "fmt_isRgb f = (type_flags (desc f) AND FORMAT_RGB_MASK \<noteq> 0)"
definition fmt_isYUV :: "ExynosFormat \<Rightarrow> bool" where
  [code_defs]: "fmt_isYUV f = (if fmt_isRgb f then False else True)"
definition fmt_isYUV420 :: "ExynosFormat \<Rightarrow> bool" where
  [code_defs]: "fmt_isYUV420 f = (let yuvType = type_flags (desc f) AND FORMAT_YUV_MASK in
     yuvType = YUV420 \<or> yuvType = P010)"
definition fmt_isYUV422 :: "ExynosFormat \<Rightarrow> bool" where
  [code_defs]: "fmt_isYUV422 f = (type_flags (desc f) AND FORMAT_YUV_MASK = YUV422)"
definition fmt_isYUV8_2 :: "ExynosFormat \<Rightarrow> bool" where
  [code_defs]: "fmt_isYUV8_2 f = (type_flags (desc f) AND FORMAT_YUV_MASK = YUV420
     \<and> type_flags (desc f) AND BIT_MASK = BIT8_2)"
definition fmt_is10BitYUV420 :: "ExynosFormat \<Rightarrow> bool" where
  [code_defs]: "fmt_is10BitYUV420 f = (let yuvType = type_flags (desc f) AND FORMAT_YUV_MASK in
     (yuvType = YUV420 \<or> yuvType = P010) \<and> type_flags (desc f) AND BIT_MASK = BIT10)"
definition fmt_isP010 :: "ExynosFormat \<Rightarrow> bool" where
  [code_defs]: "fmt_isP010 f = (type_flags (desc f) AND FORMAT_YUV_MASK = P010)"
definition fmt_isSBWC :: "ExynosFormat \<Rightarrow> bool" where
  [code_defs]: "fmt_isSBWC f = (type_flags (desc f) AND FORMAT_SBWC_MASK \<noteq> 0)"
definition fmt_sbwcType :: "ExynosFormat \<Rightarrow> u32" where
  [code_defs]: "fmt_sbwcType f = type_flags (desc f) AND FORMAT_SBWC_MASK"
definition fmt_is10Bit :: "ExynosFormat \<Rightarrow> bool" where
  [code_defs]: "fmt_is10Bit f = (type_flags (desc f) AND BIT_MASK = BIT10)"
definition fmt_is8Bit :: "ExynosFormat \<Rightarrow> bool" where
  [code_defs]: "fmt_is8Bit f = (type_flags (desc f) AND BIT_MASK = BIT8)"
definition fmt_hasAlphaChannel :: "ExynosFormat \<Rightarrow> bool" where
  [code_defs]: "fmt_hasAlphaChannel f = hasAlpha (desc f)"

text \<open>The two comparison operators: \<open>==\<close> compares HAL numbers, \<open>!=\<close> compares table rows.\<close>

definition fmt_eq :: "hal_env \<Rightarrow> ExynosFormat \<Rightarrow> ExynosFormat \<Rightarrow> bool" where
  "fmt_eq hal f g = (fmt_halFormat hal f = fmt_halFormat hal g)"

definition fmt_neq :: "ExynosFormat \<Rightarrow> ExynosFormat \<Rightarrow> bool" where
  "fmt_neq f g = (mDescIndex f \<noteq> mDescIndex g)"

section \<open>Facts about the table\<close>

lemma FORMAT_MAX_CNT_eq [simp]: "FORMAT_MAX_CNT = 52"
  by (simp add: FORMAT_MAX_CNT_def exynos_format_desc_def)

lemma kDefaultFormatIndex_eq [simp]: "kDefaultFormatIndex = 51"
  by (simp add: kDefaultFormatIndex_def)

lemma length_exynos_format_desc [simp]: "length exynos_format_desc = 52"
  using FORMAT_MAX_CNT_eq by (simp only: FORMAT_MAX_CNT_def)

lemma default_row:
  "exynos_format_desc ! 51 = format_desc HAL_PIXEL_FORMAT_IMPLEMENTATION_DEFINED
     DECON_PIXEL_FORMAT_MAX DRM_FORMAT_UNDEFINED 0 0 0 TYPE_UNDEF False ''ImplDef''"
  by (simp add: exynos_format_desc_def)

text \<open>
  What every row keeps: the three classes exclude each other, an SBWC row is a two-plane YUV 4:2:0
  row that lists SBWC as its compression, and a P010 row has ten bits.
\<close>

definition row_ok :: "format_description \<Rightarrow> bool" where
  "row_ok d \<longleftrightarrow>
     (let t = type_flags d; yuv = t AND FORMAT_YUV_MASK; sbwc = t AND FORMAT_SBWC_MASK in
      (t AND FORMAT_RGB_MASK \<noteq> 0 \<longrightarrow> yuv = 0) \<and>
      (sbwc \<noteq> 0 \<longleftrightarrow> t AND COMP_TYPE_SBWC \<noteq> 0) \<and>
      (sbwc \<noteq> 0 \<longrightarrow> planeNum d = 2 \<and> (yuv = YUV420 \<or> yuv = P010)) \<and>
      (yuv = P010 \<longrightarrow> t AND BIT_MASK = BIT10) \<and>
      (hasAlpha d \<longrightarrow> t AND FORMAT_RGB_MASK \<noteq> 0) \<and>
      (bufferNum d = 1 \<or> bufferNum d = planeNum d))"

lemma rows_ok: "list_all row_ok exynos_format_desc"
  by (simp add: exynos_format_desc_def row_ok_def code_consts)

lemma row_ok_in_table: "d \<in> set exynos_format_desc \<Longrightarrow> row_ok d"
  using rows_ok by (simp add: list_all_iff)

section \<open>The class agrees with the lookups\<close>

lemma desc_matches_none: "desc_matches hal fmt COMP_TYPE_NONE = (\<lambda>d. hal (halFormat d) = fmt)"
  by (simp add: desc_matches_def fun_eq_iff)

lemma find_desc_index:
  "find_desc hal fmt =
     (if find_index (desc_matches hal fmt COMP_TYPE_NONE) exynos_format_desc < 52
      then Some (desc (format_of hal fmt)) else None)"
  by (simp add: find_desc_def desc_matches_none find_nth_index desc_def format_of_def format_init_def)

lemma find_desc_SomeD:
  assumes "find_desc hal fmt = Some d"
  shows "d = desc (format_of hal fmt)" and "d \<in> set exynos_format_desc" and "hal (halFormat d) = fmt"
proof -
  show "d = desc (format_of hal fmt)"
    using assms by (simp add: find_desc_index split: if_splits)
  show "d \<in> set exynos_format_desc" and "hal (halFormat d) = fmt"
    using assms by (auto simp: find_desc_def dest: find_in_set)
qed

lemma format_of_unknown: "find_desc hal fmt = None \<Longrightarrow> desc (format_of hal fmt) = exynos_format_desc ! 51"
  by (auto simp: find_desc_index desc_def format_of_def format_init_def split: if_splits)

lemma find_desc_cases:
  obtains (found) "find_desc hal fmt = Some (desc (format_of hal fmt))"
  | (unknown) "find_desc hal fmt = None" "desc (format_of hal fmt) = exynos_format_desc ! 51"
  using find_desc_SomeD(1) format_of_unknown by (cases "find_desc hal fmt") auto

text \<open>
  For every HAL number, the predicates of the class \<open>ExynosFormat\<close> built from that number
  answer what the free functions answer, known format or not.
\<close>

theorem format_class_agrees:
  "isFormatRgb hal fmt = fmt_isRgb (format_of hal fmt) \<and>
   isFormatYUV hal fmt = fmt_isYUV (format_of hal fmt) \<and>
   isFormatSBWC hal fmt = fmt_isSBWC (format_of hal fmt) \<and>
   isFormatYUV420 hal fmt = fmt_isYUV420 (format_of hal fmt) \<and>
   isFormatYUV422 hal fmt = fmt_isYUV422 (format_of hal fmt) \<and>
   isFormatYUV8_2 hal fmt = fmt_isYUV8_2 (format_of hal fmt) \<and>
   isFormat10BitYUV420 hal fmt = fmt_is10BitYUV420 (format_of hal fmt) \<and>
   isFormatP010 hal fmt = fmt_isP010 (format_of hal fmt) \<and>
   isFormat10Bit hal fmt = fmt_is10Bit (format_of hal fmt) \<and>
   isFormat8Bit hal fmt = fmt_is8Bit (format_of hal fmt) \<and>
   formatHasAlphaChannel hal fmt = fmt_hasAlphaChannel (format_of hal fmt) \<and>
   formatToBpp hal fmt = fmt_bpp (format_of hal fmt) \<and>
   getBufferNumOfFormat hal fmt = fmt_bufferNum (format_of hal fmt) \<and>
   getPlaneNumOfFormat hal fmt = fmt_planeNum (format_of hal fmt) \<and>
   halFormatToDpuFormat hal fmt = fmt_dpuFormat (format_of hal fmt)"
proof (cases rule: find_desc_cases [of hal fmt])
  case found
  then show ?thesis
    by (simp add: isFormatRgb_def isFormatYUV_def isFormatSBWC_def isFormatYUV420_def
        isFormatYUV422_def isFormatYUV8_2_def isFormat10BitYUV420_def isFormatP010_def
        isFormat10Bit_def isFormat8Bit_def formatHasAlphaChannel_def formatToBpp_def
        getBufferNumOfFormat_def getPlaneNumOfFormat_def halFormatToDpuFormat_def code_defs)
next
  case unknown
  then show ?thesis
    by (simp add: isFormatRgb_def isFormatYUV_def isFormatSBWC_def isFormatYUV420_def
        isFormatYUV422_def isFormatYUV8_2_def isFormat10BitYUV420_def isFormatP010_def
        isFormat10Bit_def isFormat8Bit_def formatHasAlphaChannel_def formatToBpp_def
        getBufferNumOfFormat_def getPlaneNumOfFormat_def halFormatToDpuFormat_def code_defs
        default_row code_consts)
qed

text \<open>
  C38: what the constructor promises. The index is always inside the table; it is the first row
  with that HAL number whose type word shares a bit with the requested compression, the row
  \<open>halFormatToExynosFormat\<close> points to, and the last row when there is none.
\<close>

theorem format_init_spec:
  "mDescIndex (format_init hal fmt ct) < FORMAT_MAX_CNT \<and>
   (case halFormatToExynosFormat hal fmt ct of
      Some d \<Rightarrow> desc (format_init hal fmt ct) = d \<and> desc_matches hal fmt ct d \<and>
        list_all (\<lambda>r. \<not> desc_matches hal fmt ct r)
          (take (mDescIndex (format_init hal fmt ct)) exynos_format_desc)
    | None \<Rightarrow> format_init hal fmt ct = format_default)"
proof -
  have before: "list_all (\<lambda>r. \<not> P r) (take (find_index P xs) xs)" for P and xs :: "'a list"
    by (induction xs) auto
  show ?thesis
    using find_in_set [of "desc_matches hal fmt ct" exynos_format_desc]
    by (auto simp: halFormatToExynosFormat_def find_nth_index format_init_def format_default_def
        desc_def before Let_def)
qed

section \<open>DRM formats\<close>

lemma drm_hal_loop_eq:
  assumes "length acc < 10"
  shows "drm_hal_loop hal fmt ds acc =
     take 10 (acc @ map (\<lambda>d. word_of_int (hal (halFormat d))) (filter (\<lambda>d. drmFormat d = fmt) ds))"
  using assms
proof (induction ds arbitrary: acc)
  case (Cons d ds)
  show ?case
  proof (cases "drmFormat d = fmt \<and> length acc = 9")
    case True
    then show ?thesis by (simp add: Let_def MAX_SAME_HAL_PIXEL_FORMAT_def)
  next
    case False
    with Cons.prems Cons.IH [of acc] Cons.IH [of "acc @ [word_of_int (hal (halFormat d))]"]
    show ?thesis by (auto simp: Let_def MAX_SAME_HAL_PIXEL_FORMAT_def)
  qed
qed simp

text \<open>
  \<open>drmFormatToHalFormats\<close> never writes past the caller's array and returns the first ten HAL
  numbers, in table order, of the rows with the given DRM format.
\<close>

theorem drmFormatToHalFormats_spec:
  "drmFormatToHalFormats hal fmt =
     (let hs = map (\<lambda>d. word_of_int (hal (halFormat d))) (filter (\<lambda>d. drmFormat d = fmt) exynos_format_desc)
      in (min (length hs) MAX_SAME_HAL_PIXEL_FORMAT, take MAX_SAME_HAL_PIXEL_FORMAT hs))"
  by (simp add: drmFormatToHalFormats_def drm_hal_loop_eq MAX_SAME_HAL_PIXEL_FORMAT_def Let_def)

text \<open>
  NV12 is the DRM format of twelve rows, so the two last ones (the NV12 lossy SBWC format with
  one buffer and the YCrCb SBWC format) are never reported for it.
\<close>

theorem NV12_formats_truncated:
  "length (filter (\<lambda>d. drmFormat d = DRM_FORMAT_NV12) exynos_format_desc) = 12 \<and>
   map halFormat (drop 10 (filter (\<lambda>d. drmFormat d = DRM_FORMAT_NV12) exynos_format_desc)) =
     [HAL_PIXEL_FORMAT_EXYNOS_YCbCr_420_SPN_SBWC_L75, HAL_PIXEL_FORMAT_EXYNOS_YCrCb_420_SP_M_SBWC] \<and>
   fst (drmFormatToHalFormats hal DRM_FORMAT_NV12) = 10"
  by (simp add: drmFormatToHalFormats_spec Let_def exynos_format_desc_def code_consts)

section \<open>Classification\<close>

text \<open>
  The classes of a known format. A lossy SBWC format is an SBWC format, an SBWC format is a
  two-plane 4:2:0 YUV format and not RGB, P010 formats have ten bits, and only RGB formats have
  an alpha channel.
\<close>

theorem format_classes:
  "(isFormatLossy hal fmt \<longrightarrow> isFormatSBWC hal fmt) \<and>
   (isFormatSBWC hal fmt \<longrightarrow> isFormatYUV420 hal fmt \<and> isFormatYUV hal fmt \<and> getPlaneNumOfFormat hal fmt = 2) \<and>
   (isFormatP010 hal fmt \<longrightarrow> isFormat10BitYUV420 hal fmt) \<and>
   (formatHasAlphaChannel hal fmt \<longrightarrow> isFormatRgb hal fmt) \<and>
   \<not> (isFormatYUV420 hal fmt \<and> isFormatYUV422 hal fmt) \<and>
   \<not> (isFormat8Bit hal fmt \<and> isFormat10Bit hal fmt)"
proof (cases "find_desc hal fmt")
  case None
  then show ?thesis
    by (simp add: isFormatLossy_def isFormatSBWC_def isFormatP010_def formatHasAlphaChannel_def
        isFormatYUV420_def isFormat8Bit_def)
next
  case (Some d)
  then have "row_ok d"
    by (auto dest: find_desc_SomeD(2) row_ok_in_table)
  with Some show ?thesis
    by (auto simp: row_ok_def isFormatLossy_def isFormatSBWC_def isFormatP010_def
        formatHasAlphaChannel_def isFormatYUV420_def isFormatYUV422_def isFormat8Bit_def isFormat10Bit_def
        isFormatRgb_def isFormatYUV_def isFormat10BitYUV420_def getPlaneNumOfFormat_def Let_def code_consts)
qed

text \<open>The hypotheses of \<open>format_classes\<close> at a number that stands for the lossy 10-bit SBWC format.\<close>

theorem format_classes_witness:
  "let hal = (\<lambda>h. if h = HAL_PIXEL_FORMAT_EXYNOS_YCbCr_420_SPN_10B_SBWC_L40 then 1 else 0) in
   isFormatLossy hal 1 \<and> isFormatSBWC hal 1 \<and> isFormatP010 hal 1 \<and>
   isFormatYUV420 hal 1 \<and> isFormat10BitYUV420 hal 1"
proof -
  define hal :: hal_env where
    "hal = (\<lambda>h. if h = HAL_PIXEL_FORMAT_EXYNOS_YCbCr_420_SPN_10B_SBWC_L40 then 1 else 0)"
  have "isFormatLossy hal 1" and "isFormatP010 hal 1"
    by (simp_all add: isFormatLossy_def isFormatP010_def find_desc_def exynos_format_desc_def
        hal_def code_consts)
  with format_classes [of hal 1] show ?thesis
    by (simp add: hal_def [symmetric] Let_def)
qed

text \<open>
  The two comparison operators of the class contradict each other. Where \<open>RGB_565\<close> has a number
  of its own, the format of an uncompressed and of an AFBC buffer in \<open>RGB_565\<close> are both equal
  and different.
\<close>

theorem format_comparisons_conflict:
  assumes "\<And>h. hal h = hal HAL_PIXEL_FORMAT_RGB_565 \<Longrightarrow> h = HAL_PIXEL_FORMAT_RGB_565"
  defines "f \<equiv> format_init hal (hal HAL_PIXEL_FORMAT_RGB_565) COMP_TYPE_NONE"
    and "g \<equiv> format_init hal (hal HAL_PIXEL_FORMAT_RGB_565) COMP_TYPE_AFBC"
  shows "fmt_eq hal f g \<and> fmt_neq f g"
proof -
  have eq: "hal h = hal HAL_PIXEL_FORMAT_RGB_565 \<longleftrightarrow> h = HAL_PIXEL_FORMAT_RGB_565" for h
    using assms(1) by auto
  have "f = ExynosFormat 3" and "g = ExynosFormat 4"
    by (simp_all add: f_def g_def format_init_def desc_matches_def isCompressionSupported_def
        exynos_format_desc_def eq code_consts)
  then show ?thesis
    by (simp add: fmt_eq_def fmt_neq_def fmt_halFormat_def desc_def exynos_format_desc_def)
qed

theorem format_comparisons_conflict_witness:
  "let hal = (\<lambda>h. if h = HAL_PIXEL_FORMAT_RGB_565 then 1 else 0) in
   fmt_eq hal (format_init hal (hal HAL_PIXEL_FORMAT_RGB_565) COMP_TYPE_NONE)
     (format_init hal (hal HAL_PIXEL_FORMAT_RGB_565) COMP_TYPE_AFBC) \<and>
   fmt_neq (format_init hal (hal HAL_PIXEL_FORMAT_RGB_565) COMP_TYPE_NONE)
     (format_init hal (hal HAL_PIXEL_FORMAT_RGB_565) COMP_TYPE_AFBC)"
proof -
  have h: "(if h = HAL_PIXEL_FORMAT_RGB_565 then 1 else 0 :: int)
      = (if HAL_PIXEL_FORMAT_RGB_565 = HAL_PIXEL_FORMAT_RGB_565 then 1 else 0)
    \<Longrightarrow> h = HAL_PIXEL_FORMAT_RGB_565" for h
    by (simp split: if_splits)
  show ?thesis
    unfolding Let_def by (rule format_comparisons_conflict, rule h)
qed

end
