(* ===== verification/MppTypes.thy ===== *)
theory MppTypes
  imports HwcFormat
begin

text \<open>
  The data the composer's resource code works on: images (\<open>exynos_image\<close>), displays
  (\<open>DisplayInfo\<close>), size restrictions, and the constants of \<open>utils/ExynosMPPType.h\<close>,
  \<open>utils/ExynosHWCTypes.h\<close>, \<open>utils/ExynosHWCHelper.h\<close> and \<open>resources/ExynosMPP.h\<close>.
  Numbers that only Android's headers know (transform bits, dataspace codes, blend modes, usage
  bits, display types) are fields of \<open>platform\<close>, a parameter of every definition that reads them.
\<close>

section \<open>Platform constants\<close>

datatype (plugins only: code) ds_standard =
    STANDARD_UNSPECIFIED | STANDARD_BT709 | STANDARD_BT601_625 | STANDARD_BT601_625_UNADJUSTED
  | STANDARD_BT601_525 | STANDARD_BT601_525_UNADJUSTED | STANDARD_BT2020
  | STANDARD_BT2020_CONSTANT_LUMINANCE | STANDARD_BT470M | STANDARD_FILM | STANDARD_DCI_P3
  | STANDARD_ADOBE_RGB

datatype (plugins only: code) ds_transfer =
    TRANSFER_UNSPECIFIED | TRANSFER_LINEAR | TRANSFER_SRGB | TRANSFER_SMPTE_170M | TRANSFER_GAMMA2_2
  | TRANSFER_GAMMA2_6 | TRANSFER_GAMMA2_8 | TRANSFER_ST2084 | TRANSFER_HLG

datatype (plugins only: code) blend_mode = BLEND_MODE_NONE | BLEND_MODE_PREMULTIPLIED | BLEND_MODE_COVERAGE

text \<open>
  \<open>pf_hal\<close> numbers the HAL formats, \<open>pf_standard\<close> and \<open>pf_transfer\<close> are the codes a dataspace holds
  under its two masks, \<open>pf_flip_h\<close>, \<open>pf_flip_v\<close>, \<open>pf_rot_90\<close> are the transform bits (\<open>pf_rot_180\<close> and \<open>pf_rot_270\<close> the codes of the composed rotations), and
  \<open>pf_display_*\<close> and \<open>pf_*_bit\<close> the display types and their bits.
\<close>

record platform =
  pf_hal :: hal_env
  pf_standard_mask :: u32
  pf_transfer_mask :: u32
  pf_standard :: "ds_standard \<Rightarrow> u32"
  pf_transfer :: "ds_transfer \<Rightarrow> u32"
  pf_flip_h :: u32
  pf_flip_v :: u32
  pf_rot_90 :: u32
  pf_rot_180 :: u32
  pf_rot_270 :: u32
  pf_blend :: "blend_mode \<Rightarrow> u32"
  pf_usage_protected :: u64
  pf_usage_private_nonsecure :: u64
  pf_info_type_hdr_dynamic :: u32
  pf_display_primary :: u32
  pf_display_external :: u32
  pf_display_virtual :: u32
  pf_display_primary_bit :: u32
  pf_display_virtual_bit :: u32

section \<open>Constants of the source\<close>

text \<open>Physical types, logical types and attribute bits of a resource.\<close>

definition MPP_DPP_G :: u32 where [code_consts]: "MPP_DPP_G = 0"
definition MPP_DPP_GF :: u32 where [code_consts]: "MPP_DPP_GF = 1"
definition MPP_DPP_VG :: u32 where [code_consts]: "MPP_DPP_VG = 2"
definition MPP_DPP_VGS :: u32 where [code_consts]: "MPP_DPP_VGS = 3"
definition MPP_DPP_VGF :: u32 where [code_consts]: "MPP_DPP_VGF = 4"
definition MPP_DPP_VGFS :: u32 where [code_consts]: "MPP_DPP_VGFS = 5"
definition MPP_DPP_VGRS :: u32 where [code_consts]: "MPP_DPP_VGRS = 6"
definition MPP_DPP_VGRFS :: u32 where [code_consts]: "MPP_DPP_VGRFS = 7"
definition MPP_DPP_NUM :: u32 where [code_consts]: "MPP_DPP_NUM = 20"
definition MPP_MSC :: u32 where [code_consts]: "MPP_MSC = 20"
definition MPP_G2D :: u32 where [code_consts]: "MPP_G2D = 21"
definition MPP_P_TYPE_MAX :: u32 where [code_consts]: "MPP_P_TYPE_MAX = 22"

definition MPP_LOGICAL_DPP_G :: u32 where [code_consts]: "MPP_LOGICAL_DPP_G = 0x01"
definition MPP_LOGICAL_DPP_GF :: u32 where [code_consts]: "MPP_LOGICAL_DPP_GF = 0x02"
definition MPP_LOGICAL_DPP_VG :: u32 where [code_consts]: "MPP_LOGICAL_DPP_VG = 0x04"
definition MPP_LOGICAL_DPP_VGS :: u32 where [code_consts]: "MPP_LOGICAL_DPP_VGS = 0x08"
definition MPP_LOGICAL_DPP_VGF :: u32 where [code_consts]: "MPP_LOGICAL_DPP_VGF = 0x10"
definition MPP_LOGICAL_DPP_VGFS :: u32 where [code_consts]: "MPP_LOGICAL_DPP_VGFS = 0x20"
definition MPP_LOGICAL_DPP_VGRS :: u32 where [code_consts]: "MPP_LOGICAL_DPP_VGRS = 0x40"
definition MPP_LOGICAL_DPP_VGRFS :: u32 where [code_consts]: "MPP_LOGICAL_DPP_VGRFS = 0x80"
definition MPP_LOGICAL_MSC :: u32 where [code_consts]: "MPP_LOGICAL_MSC = 0x100"
definition MPP_LOGICAL_MSC_YUV :: u32 where [code_consts]: "MPP_LOGICAL_MSC_YUV = 0x200"
definition MPP_LOGICAL_MSC_COMBO :: u32 where [code_consts]: "MPP_LOGICAL_MSC_COMBO = 0x400"
definition MPP_LOGICAL_G2D_YUV :: u32 where [code_consts]: "MPP_LOGICAL_G2D_YUV = 0x1000"
definition MPP_LOGICAL_G2D_RGB :: u32 where [code_consts]: "MPP_LOGICAL_G2D_RGB = 0x2000"
definition MPP_LOGICAL_G2D_COMBO :: u32 where [code_consts]: "MPP_LOGICAL_G2D_COMBO = 0x4000"
definition MPP_LOGICAL_DPP_VGS8K :: u32 where [code_consts]: "MPP_LOGICAL_DPP_VGS8K = 0x10000"
definition MPP_LOGICAL_DPP_VGFS8K :: u32 where [code_consts]: "MPP_LOGICAL_DPP_VGFS8K = 0x20000"
definition MPP_LOGICAL_DPP_VGRFS8K :: u32 where [code_consts]: "MPP_LOGICAL_DPP_VGRFS8K = 0x40000"
definition MPP_LOGICAL_DPP_VIR_MASK :: u32 where [code_consts]: "MPP_LOGICAL_DPP_VIR_MASK = 0xf0000"

definition MPP_ATTR_AFBC :: u64 where [code_consts]: "MPP_ATTR_AFBC = 0x00000001"
definition MPP_ATTR_SAJC :: u64 where [code_consts]: "MPP_ATTR_SAJC = 0x00000001"
definition MPP_ATTR_WINDOW_UPDATE :: u64 where [code_consts]: "MPP_ATTR_WINDOW_UPDATE = 0x00000002"
definition MPP_ATTR_BLOCK_MODE :: u64 where [code_consts]: "MPP_ATTR_BLOCK_MODE = 0x00000004"
definition MPP_ATTR_USE_CAPA :: u64 where [code_consts]: "MPP_ATTR_USE_CAPA = 0x00000008"
definition MPP_ATTR_FLIP_H :: u64 where [code_consts]: "MPP_ATTR_FLIP_H = 0x00000020"
definition MPP_ATTR_FLIP_V :: u64 where [code_consts]: "MPP_ATTR_FLIP_V = 0x00000040"
definition MPP_ATTR_ROT_90 :: u64 where [code_consts]: "MPP_ATTR_ROT_90 = 0x00000080"
definition MPP_ATTR_SCALE :: u64 where [code_consts]: "MPP_ATTR_SCALE = 0x00000800"
definition MPP_ATTR_DIM :: u64 where [code_consts]: "MPP_ATTR_DIM = 0x00001000"
definition MPP_ATTR_LAYER_TRANSFORM :: u64 where [code_consts]: "MPP_ATTR_LAYER_TRANSFORM = 0x00002000"
definition MPP_ATTR_WCG :: u64 where [code_consts]: "MPP_ATTR_WCG = 0x00100000"
definition MPP_ATTR_HDR10 :: u64 where [code_consts]: "MPP_ATTR_HDR10 = 0x00200000"
definition MPP_ATTR_HDR10PLUS :: u64 where [code_consts]: "MPP_ATTR_HDR10PLUS = 0x10000000"

text \<open>What a check reports: one bit per reason, returned negated.\<close>

definition eMPPSaveCapability :: int where [code_consts]: "eMPPSaveCapability = 1"
definition eMPPStrideCrop :: int where [code_consts]: "eMPPStrideCrop = 2"
definition eMPPUnsupportedRotation :: int where [code_consts]: "eMPPUnsupportedRotation = 4"
definition eMPPHWBusy :: int where [code_consts]: "eMPPHWBusy = 8"
definition eMPPExeedSrcCropMax :: int where [code_consts]: "eMPPExeedSrcCropMax = 16"
definition eMPPUnsupportedColorTransform :: int where [code_consts]: "eMPPUnsupportedColorTransform = 32"
definition eMPPUnsupportedBlending :: int where [code_consts]: "eMPPUnsupportedBlending = 64"
definition eMPPUnsupportedFormat :: int where [code_consts]: "eMPPUnsupportedFormat = 128"
definition eMPPNotAlignedDstSize :: int where [code_consts]: "eMPPNotAlignedDstSize = 256"
definition eMPPNotAlignedSrcCropPosition :: int where [code_consts]: "eMPPNotAlignedSrcCropPosition = 512"
definition eMPPNotAlignedHStride :: int where [code_consts]: "eMPPNotAlignedHStride = 1024"
definition eMPPNotAlignedVStride :: int where [code_consts]: "eMPPNotAlignedVStride = 2048"
definition eMPPExceedHStrideMaximum :: int where [code_consts]: "eMPPExceedHStrideMaximum = 4096"
definition eMPPExceedVStrideMaximum :: int where [code_consts]: "eMPPExceedVStrideMaximum = 8192"
definition eMPPExeedMaxDownScale :: int where [code_consts]: "eMPPExeedMaxDownScale = 16384"
definition eMPPExeedMaxDstWidth :: int where [code_consts]: "eMPPExeedMaxDstWidth = 32768"
definition eMPPExeedMaxDstHeight :: int where [code_consts]: "eMPPExeedMaxDstHeight = 65536"
definition eMPPExeedMinSrcWidth :: int where [code_consts]: "eMPPExeedMinSrcWidth = 131072"
definition eMPPExeedMinSrcHeight :: int where [code_consts]: "eMPPExeedMinSrcHeight = 262144"
definition eMPPExeedMaxUpScale :: int where [code_consts]: "eMPPExeedMaxUpScale = 524288"
definition eMPPExeedSrcWCropMax :: int where [code_consts]: "eMPPExeedSrcWCropMax = 1048576"
definition eMPPExeedSrcHCropMax :: int where [code_consts]: "eMPPExeedSrcHCropMax = 2097152"
definition eMPPExeedSrcWCropMin :: int where [code_consts]: "eMPPExeedSrcWCropMin = 4194304"
definition eMPPExeedSrcHCropMin :: int where [code_consts]: "eMPPExeedSrcHCropMin = 8388608"
definition eMPPNotAlignedCrop :: int where [code_consts]: "eMPPNotAlignedCrop = 16777216"
definition eMPPNotAlignedOffset :: int where [code_consts]: "eMPPNotAlignedOffset = 33554432"
definition eMPPExeedMinDstWidth :: int where [code_consts]: "eMPPExeedMinDstWidth = 67108864"
definition eMPPExeedMinDstHeight :: int where [code_consts]: "eMPPExeedMinDstHeight = 134217728"
definition eMPPUnsupportedCompression :: int where [code_consts]: "eMPPUnsupportedCompression = 268435456"
definition eMPPUnsupportedCSC :: int where [code_consts]: "eMPPUnsupportedCSC = 536870912"
definition eMPPUnsupportedDIMLayer :: int where [code_consts]: "eMPPUnsupportedDIMLayer = 1073741824"
definition eMPPUnsupportedDRM :: int where [code_consts]: "eMPPUnsupportedDRM = 2147483648"
definition eMPPUnsupportedDynamicMeta :: int where [code_consts]: "eMPPUnsupportedDynamicMeta = 4294967296"
definition eMPPConflictSharedMPP :: int where [code_consts]: "eMPPConflictSharedMPP = 8589934592"
definition eMPPExeedHWResource :: int where [code_consts]: "eMPPExeedHWResource = 17179869184"

definition MPP_TYPE_NONE :: u32 where [code_consts]: "MPP_TYPE_NONE = 0"
definition MPP_TYPE_OTF :: u32 where [code_consts]: "MPP_TYPE_OTF = 1"
definition MPP_TYPE_M2M :: u32 where [code_consts]: "MPP_TYPE_M2M = 2"
definition MPP_ASSIGN_STATE_FREE :: u32 where [code_consts]: "MPP_ASSIGN_STATE_FREE = 0"
definition MPP_ASSIGN_STATE_RESERVED :: u32 where [code_consts]: "MPP_ASSIGN_STATE_RESERVED = 1"
definition MPP_ASSIGN_STATE_ASSIGNED :: u32 where [code_consts]: "MPP_ASSIGN_STATE_ASSIGNED = 2"
definition MPP_HW_STATE_IDLE :: u32 where [code_consts]: "MPP_HW_STATE_IDLE = 0"
definition MPP_HW_STATE_RUNNING :: u32 where [code_consts]: "MPP_HW_STATE_RUNNING = 1"
definition NODE_NONE :: u32 where [code_consts]: "NODE_NONE = 0"
definition NODE_SRC :: u32 where [code_consts]: "NODE_SRC = 1"
definition NODE_DST :: u32 where [code_consts]: "NODE_DST = 2"

definition EXYNOS_HWC_DIM_LAYER :: u32 where [code_consts]: "EXYNOS_HWC_DIM_LAYER = 1"
definition UINT32_MAX :: u32 where [code_consts]: "UINT32_MAX = 0xffffffff"
definition RESTRICTION_RGB :: nat where [code_consts]: "RESTRICTION_RGB = 0"
definition RESTRICTION_YUV :: nat where [code_consts]: "RESTRICTION_YUV = 1"
definition RESTRICTION_MAX :: nat where [code_consts]: "RESTRICTION_MAX = 2"
definition YUV_CHROMA_H_SUBSAMPLE :: u32 where [code_consts]: "YUV_CHROMA_H_SUBSAMPLE = 2"
definition YUV_CHROMA_V_SUBSAMPLE :: u32 where [code_consts]: "YUV_CHROMA_V_SUBSAMPLE = 2"

datatype drm_mode = NO_DRM | NORMAL_DRM | SECURE_DRM

section \<open>Images\<close>

record compressionInfo_t =
  ci_type :: u32
  SAJCMaxBlockSize :: u32
  SAJCHeaderOffset :: u32

record hwc_color_t =
  color_r :: u8
  color_g :: u8
  color_b :: u8
  color_a :: u8

text \<open>
  A buffer handle is a number or the null pointer. \<open>planeAlpha\<close> is a float; the model keeps its value
  as a rational, since the code only copies, compares and scales it. The metadata pointer and the
  colour matrix of the C struct are not part of the model: no modelled operation reads them.
  The reset values \<open>HAL_DATASPACE_UNKNOWN\<close> and \<open>HAL_COLOR_MODE_NATIVE\<close> are 0 in Android's
  documented interface.
\<close>

type_synonym buffer_handle = "nat option"

record exynos_image =
  fullWidth :: u32
  fullHeight :: u32
  img_x :: u32
  img_y :: u32
  img_w :: u32
  img_h :: u32
  img_color :: hwc_color_t
  exynosFormat :: ExynosFormat
  usageFlags :: u64
  layerFlags :: u32
  acquireFenceFd :: int
  releaseFenceFd :: int
  bufferHandle :: buffer_handle
  dataSpace :: u32
  blending :: u32
  transform :: u32
  compressionInfo :: compressionInfo_t
  planeAlpha :: rat
  zOrder :: u32
  metaType :: u32
  needColorTransform :: bool

definition image_reset :: exynos_image where
  "image_reset = \<lparr>fullWidth = 0, fullHeight = 0, img_x = 0, img_y = 0, img_w = 0, img_h = 0,
     img_color = \<lparr>color_r = 0, color_g = 0, color_b = 0, color_a = 0\<rparr>,
     exynosFormat = format_default, usageFlags = 0, layerFlags = 0, acquireFenceFd = -1,
     releaseFenceFd = -1, bufferHandle = None, dataSpace = 0, blending = 0, transform = 0,
     compressionInfo = \<lparr>ci_type = COMP_TYPE_NONE, SAJCMaxBlockSize = 0, SAJCHeaderOffset = 0\<rparr>,
     planeAlpha = 0, zOrder = 0, metaType = 0, needColorTransform = False\<rparr>"

definition isDimLayer :: "exynos_image \<Rightarrow> bool" where
  "isDimLayer img = (if layerFlags img AND EXYNOS_HWC_DIM_LAYER \<noteq> 0 then True else False)"

section \<open>Restrictions\<close>

record restriction_size =
  maxDownScale :: u32
  maxUpScale :: u32
  maxFullWidth :: u32
  maxFullHeight :: u32
  minFullWidth :: u32
  minFullHeight :: u32
  fullWidthAlign :: u32
  fullHeightAlign :: u32
  maxCropWidth :: u32
  maxCropHeight :: u32
  minCropWidth :: u32
  minCropHeight :: u32
  cropXAlign :: u32
  cropYAlign :: u32
  cropWidthAlign :: u32
  cropHeightAlign :: u32

definition restriction_size_default :: restriction_size where
  "restriction_size_default = \<lparr>maxDownScale = 1, maxUpScale = 1, maxFullWidth = 0, maxFullHeight = 0,
     minFullWidth = 0, minFullHeight = 0, fullWidthAlign = 1, fullHeightAlign = 1,
     maxCropWidth = 0, maxCropHeight = 0, minCropWidth = 0, minCropHeight = 0,
     cropXAlign = 1, cropYAlign = 1, cropWidthAlign = 1, cropHeightAlign = 1\<rparr>"

text \<open>A row of a chip's restriction tables: hardware type, node, format, then the sizes.\<close>

record restriction_key =
  hwType :: u32
  nodeType :: u32
  key_format :: int
  key_reserved :: u32

section \<open>Displays\<close>

record DisplayIdentifier =
  di_id :: u32
  di_type :: u32
  di_index :: u32

record DisplayInfo =
  displayIdentifier :: DisplayIdentifier
  xres :: u32
  yres :: u32
  colorMode :: u32
  hdrLayersIndex :: "u32 list"
  drmLayersIndex :: "u32 list"
  workingVsyncPeriod :: u32
  useDpu :: bool
  minLuminance :: rat
  maxLuminance :: rat
  adjustDisplayFrame :: bool
  cursorSupport :: bool
  skipM2mProcessing :: bool
  baseWindowIndex :: u32
  isWFDState :: int

definition display_reset :: DisplayInfo where
  "display_reset = \<lparr>displayIdentifier = \<lparr>di_id = UINT32_MAX, di_type = UINT32_MAX, di_index = UINT32_MAX\<rparr>,
     xres = 0, yres = 0, colorMode = 0, hdrLayersIndex = [], drmLayersIndex = [],
     workingVsyncPeriod = 16666666, useDpu = True, minLuminance = 0, maxLuminance = 0, adjustDisplayFrame = False,
     cursorSupport = False, skipM2mProcessing = True, baseWindowIndex = 0, isWFDState = 0\<rparr>"

text \<open>
  \<open>sinkHdrSupported\<close> shares its storage with \<open>isWFDState\<close> in the C++ union: it is the first byte.
\<close>

definition sinkHdrSupported :: "DisplayInfo \<Rightarrow> bool" where
  "sinkHdrSupported d \<longleftrightarrow> isWFDState d mod 256 \<noteq> 0"

text \<open>Whether a display is set: its identifier is not the reset value.\<close>

definition display_set :: "DisplayInfo \<Rightarrow> bool" where
  "display_set d \<longleftrightarrow> di_id (displayIdentifier d) \<noteq> UINT32_MAX"

lemma display_set_reset [simp]: "\<not> display_set display_reset"
  by (simp add: display_set_def display_reset_def)

end
