(* ===== verification/HwcHelper.thy ===== *)
theory HwcHelper
  imports MppTypes
begin

text \<open>
  The helper functions of \<open>utils/ExynosHWCHelper.h\<close> and \<open>utils/ExynosHWCHelper.cpp\<close>: protection
  modes, transforms, HDR tests, rectangles, alignment, buffer lengths and the conversion of the
  driver's restrictions. C \<open>int\<close> coordinates are \<open>int\<close>; the theorems state where no overflow arises.
\<close>

section \<open>Protection, blending, transforms\<close>

definition getDrmMode :: "'a platform_scheme \<Rightarrow> u64 \<Rightarrow> drm_mode" where
  "getDrmMode pf flags =
     (if flags AND pf_usage_protected pf \<noteq> 0 then
        (if flags AND pf_usage_private_nonsecure pf \<noteq> 0 then NORMAL_DRM else SECURE_DRM)
      else NO_DRM)"

datatype decon_blending =
  DECON_BLENDING_NONE | DECON_BLENDING_PREMULT | DECON_BLENDING_COVERAGE | DECON_BLENDING_MAX

definition halBlendingToDpuBlending :: "'a platform_scheme \<Rightarrow> u32 \<Rightarrow> decon_blending" where
  "halBlendingToDpuBlending pf b =
     (if b = pf_blend pf BLEND_MODE_NONE then DECON_BLENDING_NONE
      else if b = pf_blend pf BLEND_MODE_PREMULTIPLIED then DECON_BLENDING_PREMULT
      else if b = pf_blend pf BLEND_MODE_COVERAGE then DECON_BLENDING_COVERAGE
      else DECON_BLENDING_MAX)"

datatype dpp_rotate =
    DPP_ROT_NORMAL | DPP_ROT_XFLIP | DPP_ROT_YFLIP | DPP_ROT_180
  | DPP_ROT_90 | DPP_ROT_90_XFLIP | DPP_ROT_90_YFLIP | DPP_ROT_270

definition halTransformToDpuRot :: "'a platform_scheme \<Rightarrow> u32 \<Rightarrow> dpp_rotate" where
  "halTransformToDpuRot pf t =
     (if t = pf_flip_h pf then DPP_ROT_YFLIP
      else if t = pf_flip_v pf then DPP_ROT_XFLIP
      else if t = pf_rot_180 pf then DPP_ROT_180
      else if t = pf_rot_90 pf then DPP_ROT_90
      else if t = (pf_rot_90 pf OR pf_flip_h pf) then DPP_ROT_90_XFLIP
      else if t = (pf_rot_90 pf OR pf_flip_v pf) then DPP_ROT_90_YFLIP
      else if t = pf_rot_270 pf then DPP_ROT_270
      else DPP_ROT_NORMAL)"

section \<open>HDR\<close>

definition hasHdrInfo :: "'a platform_scheme \<Rightarrow> exynos_image \<Rightarrow> bool" where
  "hasHdrInfo pf img =
     (let standard = dataSpace img AND pf_standard_mask pf;
          transfer = dataSpace img AND pf_transfer_mask pf in
      if standard = pf_standard pf STANDARD_BT2020
         \<or> standard = pf_standard pf STANDARD_BT2020_CONSTANT_LUMINANCE
         \<or> standard = pf_standard pf STANDARD_DCI_P3 then
        (if transfer = pf_transfer pf TRANSFER_ST2084 \<or> transfer = pf_transfer pf TRANSFER_HLG
         then True else False)
      else False)"

definition hasHdr10Plus :: "'a platform_scheme \<Rightarrow> exynos_image \<Rightarrow> bool" where
  "hasHdr10Plus pf img = (if metaType img AND pf_info_type_hdr_dynamic pf \<noteq> 0 then True else False)"

section \<open>Rectangles and alignment\<close>

record hwc_rect =
  rect_left :: int
  rect_top :: int
  rect_right :: int
  rect_bottom :: int

text \<open>Each assignment of the C function in order; later tests read the values written before.\<close>

definition adjustRect :: "hwc_rect \<Rightarrow> int \<Rightarrow> int \<Rightarrow> hwc_rect" where
  "adjustRect r width height =
    (let r = (if rect_left r < 0 then r\<lparr>rect_left := 0\<rparr> else r);
         r = (if rect_left r > width then r\<lparr>rect_left := width\<rparr> else r);
         r = (if rect_top r < 0 then r\<lparr>rect_top := 0\<rparr> else r);
         r = (if rect_top r > height then r\<lparr>rect_top := height\<rparr> else r);
         r = (if rect_right r < rect_left r then r\<lparr>rect_right := rect_left r\<rparr> else r);
         r = (if rect_right r > width then r\<lparr>rect_right := width\<rparr> else r);
         r = (if rect_bottom r < rect_top r then r\<lparr>rect_bottom := rect_top r\<rparr> else r);
         r = (if rect_bottom r > height then r\<lparr>rect_bottom := height\<rparr> else r)
     in r)"

definition rect_expand :: "hwc_rect \<Rightarrow> hwc_rect \<Rightarrow> hwc_rect" where
  "rect_expand r1 r2 =
     \<lparr>rect_left = min (rect_left r1) (rect_left r2), rect_top = min (rect_top r1) (rect_top r2),
      rect_right = max (rect_right r1) (rect_right r2), rect_bottom = max (rect_bottom r1) (rect_bottom r2)\<rparr>"

definition pixel_align :: "int \<Rightarrow> int \<Rightarrow> int" where
  "pixel_align x a = (if a \<noteq> 0 \<and> x smod a \<noteq> 0 then (x - x smod a) + a else x)"

definition pixel_align_down :: "int \<Rightarrow> int \<Rightarrow> int" where
  "pixel_align_down x a =
     (if a \<noteq> 0 \<and> x smod a \<noteq> 0 then (let ret = x - x smod a in if ret < 0 then 0 else ret) else x)"

section \<open>Buffers and file descriptors\<close>

text \<open>
  \<open>gmeta\<close> gives the two plane sizes the allocator's metadata holds for a buffer; the result is the
  status and the written prefix of \<open>length\<close>. The three-buffer case multiplies \<open>uint32_t\<close> values,
  so the product wraps before it is widened.
\<close>

definition getBufLength ::
  "hal_env \<Rightarrow> (nat \<Rightarrow> u64 \<times> u64) \<Rightarrow> buffer_handle \<Rightarrow> u32 \<Rightarrow> int \<Rightarrow> u32 \<Rightarrow> u32 \<Rightarrow> int \<times> u64 list" where
  "getBufLength hal gmeta handle planerNum fmt width height =
     (let bufferNumber = getBufferNumOfFormat hal fmt in
      case handle of
        None \<Rightarrow> (- EINVAL, [])
      | Some b \<Rightarrow>
          (if bufferNumber = 0 \<or> bufferNumber > planerNum then (- EINVAL, [])
           else if bufferNumber = 1 then (NO_ERROR, [fst (gmeta b)])
           else if bufferNumber = 2 then (NO_ERROR, [fst (gmeta b), snd (gmeta b)])
           else if bufferNumber = 3 then
             (let l0 = ucast (width * height) :: u64 in (NO_ERROR, [l0, l0 div 4, l0 div 4]))
           else (NO_ERROR, [])))"

text \<open>The value returned and the descriptor closed, if any.\<close>

definition hwcFdClose :: "int \<Rightarrow> int \<times> int option" where
  "hwcFdClose fd = (-1, if fd \<ge> 3 then Some fd else None)"

text \<open>The compression a buffer's metadata reports.\<close>

definition getCompressionInfo ::
  "(nat \<Rightarrow> bool) \<Rightarrow> (nat \<Rightarrow> bool) \<Rightarrow> (nat \<Rightarrow> u32) \<Rightarrow> (nat \<Rightarrow> u32) \<Rightarrow> buffer_handle \<Rightarrow> compressionInfo_t" where
  "getCompressionInfo is_afbc is_sajc block_size key_offset handle =
     (case handle of
        None \<Rightarrow> \<lparr>ci_type = COMP_TYPE_NONE, SAJCMaxBlockSize = 0, SAJCHeaderOffset = 0\<rparr>
      | Some b \<Rightarrow>
          \<lparr>ci_type = (if is_afbc b then COMP_TYPE_AFBC
                      else if is_sajc b then COMP_TYPE_SAJC else COMP_TYPE_NONE),
           SAJCMaxBlockSize = (if is_sajc b then block_size b else 0),
           SAJCHeaderOffset = (if is_sajc b then key_offset b else 0)\<rparr>)"

text \<open>An unknown dataspace is replaced by the default of the format's class.\<close>

definition getRefinedDataspace :: "hal_env \<Rightarrow> u32 \<Rightarrow> u32 \<Rightarrow> int \<Rightarrow> u32 \<Rightarrow> u32" where
  "getRefinedDataspace hal v0_srgb v0_bt709 fmt dataspace =
     (if dataspace \<noteq> 0 then dataspace
      else if isFormatRgb hal fmt then v0_srgb else v0_bt709)"

section \<open>The driver's restrictions\<close>

record dpp_size_range =
  range_min :: u32
  range_max :: u32
  range_align :: u32

record dpp_restriction =
  src_f_w :: dpp_size_range
  src_f_h :: dpp_size_range
  src_w :: dpp_size_range
  src_h :: dpp_size_range
  src_x_align :: u32
  src_y_align :: u32
  dst_f_w :: dpp_size_range
  dst_f_h :: dpp_size_range
  dst_w :: dpp_size_range
  dst_h :: dpp_size_range
  dst_x_align :: u32
  dst_y_align :: u32
  blk_x_align :: u32
  blk_y_align :: u32
  scale_down :: u32
  scale_up :: u32

definition convertSizeRestriction :: "dpp_restriction \<Rightarrow> restriction_size \<times> restriction_size" where
  "convertSizeRestriction r =
     (\<lparr>maxDownScale = scale_down r, maxUpScale = scale_up r,
       maxFullWidth = range_max (src_f_w r), maxFullHeight = range_max (src_f_h r),
       minFullWidth = range_min (src_f_w r), minFullHeight = range_min (src_f_h r),
       fullWidthAlign = src_x_align r, fullHeightAlign = src_y_align r,
       maxCropWidth = range_max (src_w r), maxCropHeight = range_max (src_h r),
       minCropWidth = range_min (src_w r), minCropHeight = range_min (src_h r),
       cropXAlign = src_x_align r, cropYAlign = src_y_align r,
       cropWidthAlign = blk_x_align r, cropHeightAlign = blk_y_align r\<rparr>,
      \<lparr>maxDownScale = scale_down r, maxUpScale = scale_up r,
       maxFullWidth = range_max (dst_f_w r), maxFullHeight = range_max (dst_f_h r),
       minFullWidth = range_min (dst_f_w r), minFullHeight = range_min (dst_f_h r),
       fullWidthAlign = dst_x_align r, fullHeightAlign = dst_y_align r,
       maxCropWidth = range_max (dst_w r), maxCropHeight = range_max (dst_h r),
       minCropWidth = range_min (dst_w r), minCropHeight = range_min (dst_h r),
       cropXAlign = dst_x_align r, cropYAlign = dst_y_align r,
       cropWidthAlign = blk_x_align r, cropHeightAlign = blk_y_align r\<rparr>)"

definition convertYUVSizeRestriction ::
  "dpp_restriction \<Rightarrow> restriction_size \<times> restriction_size \<Rightarrow> restriction_size \<times> restriction_size" where
  "convertYUVSizeRestriction r sd =
     ((fst sd)\<lparr>minCropWidth := range_min (src_w r) * 2, minCropHeight := range_min (src_h r) * 2,
        fullWidthAlign := max (src_x_align r) YUV_CHROMA_H_SUBSAMPLE,
        fullHeightAlign := max (src_y_align r) YUV_CHROMA_V_SUBSAMPLE,
        cropXAlign := max (src_x_align r) YUV_CHROMA_H_SUBSAMPLE,
        cropYAlign := max (src_y_align r) YUV_CHROMA_V_SUBSAMPLE,
        cropWidthAlign := max (blk_x_align r) YUV_CHROMA_H_SUBSAMPLE,
        cropHeightAlign := max (blk_y_align r) YUV_CHROMA_V_SUBSAMPLE\<rparr>,
      (snd sd)\<lparr>minCropWidth := range_min (dst_w r) * 2, minCropHeight := range_min (dst_h r) * 2,
        fullWidthAlign := max (dst_x_align r) YUV_CHROMA_H_SUBSAMPLE,
        fullHeightAlign := max (dst_y_align r) YUV_CHROMA_V_SUBSAMPLE,
        cropXAlign := max (dst_x_align r) YUV_CHROMA_H_SUBSAMPLE,
        cropYAlign := max (dst_y_align r) YUV_CHROMA_V_SUBSAMPLE,
        cropWidthAlign := max (blk_x_align r) YUV_CHROMA_H_SUBSAMPLE,
        cropHeightAlign := max (blk_y_align r) YUV_CHROMA_V_SUBSAMPLE\<rparr>)"

section \<open>Properties\<close>

subsection \<open>Transforms\<close>

text \<open>
  The meaning of a transform on points around the centre of an image, \<open>y\<close> downwards. Android applies
  the flips first and then the quarter turn; the controller applies the turn first, and its X flip
  mirrors at the X axis.
\<close>

definition flip_h :: "int \<times> int \<Rightarrow> int \<times> int" where "flip_h p = (- fst p, snd p)"
definition flip_v :: "int \<times> int \<Rightarrow> int \<times> int" where "flip_v p = (fst p, - snd p)"
definition turn_90 :: "int \<times> int \<Rightarrow> int \<times> int" where "turn_90 p = (- snd p, fst p)"

definition hal_meaning :: "bool \<Rightarrow> bool \<Rightarrow> bool \<Rightarrow> int \<times> int \<Rightarrow> int \<times> int" where
  "hal_meaning h v r p =
     (let p = (if h then flip_h p else p); p = (if v then flip_v p else p) in if r then turn_90 p else p)"

fun dpp_meaning :: "dpp_rotate \<Rightarrow> int \<times> int \<Rightarrow> int \<times> int" where
  "dpp_meaning DPP_ROT_NORMAL p = p"
| "dpp_meaning DPP_ROT_XFLIP p = flip_v p"
| "dpp_meaning DPP_ROT_YFLIP p = flip_h p"
| "dpp_meaning DPP_ROT_180 p = turn_90 (turn_90 p)"
| "dpp_meaning DPP_ROT_90 p = turn_90 p"
| "dpp_meaning DPP_ROT_90_XFLIP p = flip_v (turn_90 p)"
| "dpp_meaning DPP_ROT_90_YFLIP p = flip_h (turn_90 p)"
| "dpp_meaning DPP_ROT_270 p = turn_90 (turn_90 (turn_90 p))"

definition transform_code :: "'a platform_scheme \<Rightarrow> bool \<Rightarrow> bool \<Rightarrow> bool \<Rightarrow> u32" where
  "transform_code pf h v r =
     (if h then pf_flip_h pf else 0) OR (if v then pf_flip_v pf else 0) OR (if r then pf_rot_90 pf else 0)"

text \<open>Android's documented transform numbers: three bits, and the composed codes are their unions.\<close>

definition android_transforms :: "'a platform_scheme \<Rightarrow> bool" where
  "android_transforms pf \<longleftrightarrow> pf_flip_h pf = 1 \<and> pf_flip_v pf = 2 \<and> pf_rot_90 pf = 4 \<and>
     pf_rot_180 pf = 3 \<and> pf_rot_270 pf = 7"

text \<open>
  C37: the controller's rotation code chosen for any of the eight
  transforms moves every point where Android's transform moves it.
\<close>

theorem halTransformToDpuRot_meaning:
  assumes "android_transforms pf"
  shows "dpp_meaning (halTransformToDpuRot pf (transform_code pf h v r)) p = hal_meaning h v r p"
  using assms
  by (cases h; cases v; cases r; cases p)
     (simp_all add: android_transforms_def transform_code_def halTransformToDpuRot_def hal_meaning_def
       flip_h_def flip_v_def turn_90_def)

definition sample_platform :: platform where
  "sample_platform = \<lparr>pf_hal = (\<lambda>_. 0), pf_standard_mask = 0x3f0000, pf_transfer_mask = 0x7c00000,
     pf_standard = (\<lambda>s. if s = STANDARD_BT2020 then 0x60000 else if s = STANDARD_BT709 then 0x10000 else 0),
     pf_transfer = (\<lambda>t. if t = TRANSFER_ST2084 then 0x1c00000 else 0),
     pf_flip_h = 1, pf_flip_v = 2, pf_rot_90 = 4, pf_rot_180 = 3, pf_rot_270 = 7,
     pf_blend = (\<lambda>b. case b of BLEND_MODE_NONE \<Rightarrow> 1 | BLEND_MODE_PREMULTIPLIED \<Rightarrow> 2 | BLEND_MODE_COVERAGE \<Rightarrow> 3),
     pf_usage_protected = 0x4000, pf_usage_private_nonsecure = 0x10000000,
     pf_info_type_hdr_dynamic = 2, pf_display_primary = 0, pf_display_external = 1,
     pf_display_virtual = 2, pf_display_primary_bit = 1, pf_display_virtual_bit = 4\<rparr>"

theorem halTransformToDpuRot_meaning_witness:
  "android_transforms sample_platform \<and>
   dpp_meaning (halTransformToDpuRot sample_platform (transform_code sample_platform True False True)) (3, 5) = (-5, -3)"
proof -
  have "android_transforms sample_platform"
    by (simp add: android_transforms_def sample_platform_def)
  with halTransformToDpuRot_meaning [OF this, of True False True "(3, 5)"] show ?thesis
    by (simp add: hal_meaning_def flip_h_def turn_90_def)
qed

subsection \<open>Rectangles\<close>

lemma rect_clamp:
  "(if rect_left r < c then r\<lparr>rect_left := c\<rparr> else r) = r\<lparr>rect_left := max (rect_left r) c\<rparr>"
  "(if rect_left r > c then r\<lparr>rect_left := c\<rparr> else r) = r\<lparr>rect_left := min (rect_left r) c\<rparr>"
  "(if rect_top r < c then r\<lparr>rect_top := c\<rparr> else r) = r\<lparr>rect_top := max (rect_top r) c\<rparr>"
  "(if rect_top r > c then r\<lparr>rect_top := c\<rparr> else r) = r\<lparr>rect_top := min (rect_top r) c\<rparr>"
  "(if rect_right r < c then r\<lparr>rect_right := c\<rparr> else r) = r\<lparr>rect_right := max (rect_right r) c\<rparr>"
  "(if rect_right r > c then r\<lparr>rect_right := c\<rparr> else r) = r\<lparr>rect_right := min (rect_right r) c\<rparr>"
  "(if rect_bottom r < c then r\<lparr>rect_bottom := c\<rparr> else r) = r\<lparr>rect_bottom := max (rect_bottom r) c\<rparr>"
  "(if rect_bottom r > c then r\<lparr>rect_bottom := c\<rparr> else r) = r\<lparr>rect_bottom := min (rect_bottom r) c\<rparr>"
  for r :: hwc_rect
  by (simp_all add: max_def min_def)

text \<open>The eight assignments as one clamp per side.\<close>

lemma adjustRect_clamp:
  "adjustRect r width height =
     (let l = min (max (rect_left r) 0) width; t = min (max (rect_top r) 0) height in
      \<lparr>rect_left = l, rect_top = t,
       rect_right = min (max (rect_right r) l) width, rect_bottom = min (max (rect_bottom r) t) height\<rparr>)"
  unfolding adjustRect_def rect_clamp Let_def by simp

text \<open>
  On a display of non-negative size the adjusted rectangle lies on the display
  and is not inside out, a rectangle that already does is unchanged, and adjusting twice adjusts once.
\<close>

theorem adjustRect_clips:
  fixes r :: hwc_rect
  assumes "0 \<le> width" and "0 \<le> height"
  defines "r' \<equiv> adjustRect r width height"
  shows "0 \<le> rect_left r' \<and> rect_left r' \<le> rect_right r' \<and> rect_right r' \<le> width \<and>
     0 \<le> rect_top r' \<and> rect_top r' \<le> rect_bottom r' \<and> rect_bottom r' \<le> height \<and>
     (0 \<le> rect_left r \<and> rect_left r \<le> rect_right r \<and> rect_right r \<le> width \<and>
      0 \<le> rect_top r \<and> rect_top r \<le> rect_bottom r \<and> rect_bottom r \<le> height \<longrightarrow> r' = r) \<and>
     adjustRect r' width height = r'"
  using assms by (simp add: adjustRect_clamp Let_def min_def max_def)

theorem adjustRect_clips_witness:
  "adjustRect \<lparr>rect_left = -10, rect_top = 20, rect_right = 2000, rect_bottom = 10\<rparr> 1080 2340
     = \<lparr>rect_left = 0, rect_top = 20, rect_right = 1080, rect_bottom = 20\<rparr> \<and>
   rect_right (adjustRect \<lparr>rect_left = -10, rect_top = 20, rect_right = 2000, rect_bottom = 10\<rparr> 1080 2340) \<le> 1080"
  using adjustRect_clips [of 1080 2340 "\<lparr>rect_left = -10, rect_top = 20, rect_right = 2000, rect_bottom = 10\<rparr>"]
  by (simp add: adjustRect_clamp)

subsection \<open>Alignment\<close>

lemma smod_nonneg: "0 \<le> (x :: int) \<Longrightarrow> 0 < a \<Longrightarrow> x smod a = x mod a"
  by (cases "x = 0") (simp_all add: signed_modulo_int_def signed_divide_int_def minus_div_mult_eq_mod)

text \<open>
  For a non-negative size and a positive alignment, \<open>pixel_align\<close> returns the
  least multiple of the alignment that is not below the size and \<open>pixel_align_down\<close> the greatest one
  that is not above it.
\<close>

theorem pixel_align_least:
  assumes "0 \<le> x" and "0 < a"
  shows "a dvd pixel_align x a \<and> x \<le> pixel_align x a \<and> pixel_align x a < x + a \<and>
     a dvd pixel_align_down x a \<and> pixel_align_down x a \<le> x \<and> x < pixel_align_down x a + a"
proof -
  have rem: "0 \<le> x mod a" "x mod a < a" "x mod a \<le> x"
    using assms zmod_le_nonneg_dividend by simp_all
  then have up: "pixel_align x a = (if x mod a \<noteq> 0 then x - x mod a + a else x)"
    and down: "pixel_align_down x a = x - x mod a"
    using assms by (simp_all add: pixel_align_def pixel_align_down_def smod_nonneg Let_def)
  have "a dvd x - x mod a" by (simp add: minus_mod_eq_div_mult)
  with rem show ?thesis
    by (auto simp: up down dvd_eq_mod_eq_0)
qed

theorem pixel_align_least_witness:
  "16 dvd pixel_align 1081 16 \<and> pixel_align 1081 16 = 1088 \<and> pixel_align_down 1081 16 = 1072"
  using pixel_align_least [of 1081 16]
  by (simp add: pixel_align_def pixel_align_down_def smod_nonneg)

subsection \<open>Restrictions\<close>

text \<open>The alignments a check divides by.\<close>

definition aligns_nonzero :: "'a restriction_size_scheme \<Rightarrow> bool" where
  "aligns_nonzero r \<longleftrightarrow> fullWidthAlign r \<noteq> 0 \<and> fullHeightAlign r \<noteq> 0 \<and> cropXAlign r \<noteq> 0 \<and>
     cropYAlign r \<noteq> 0 \<and> cropWidthAlign r \<noteq> 0 \<and> cropHeightAlign r \<noteq> 0"

lemma aligns_nonzero_default [simp]: "aligns_nonzero restriction_size_default"
  by (simp add: aligns_nonzero_def restriction_size_default_def)

lemma max_two_nonzero [simp]: "max (x :: u32) 2 \<noteq> 0"
proof
  assume "max x 2 = 0"
  then have "(2 :: u32) \<le> 0" by (metis max.cobounded2)
  then show False by simp
qed

lemma convertYUV_aligns_nonzero:
  "aligns_nonzero (fst (convertYUVSizeRestriction r sd)) \<and> aligns_nonzero (snd (convertYUVSizeRestriction r sd))"
  by (simp add: aligns_nonzero_def convertYUVSizeRestriction_def code_consts)

end
