(* ===== verification/MppRestrict.thy ===== *)
theory MppRestrict
  imports HwcHelper
begin

text \<open>
  What a resource (\<open>ExynosMPP\<close>) can do: its restriction tables, the size getters that read them and
  the size checks of \<open>resources/ExynosMPP.cpp\<close> (\<open>checkDstSize\<close>, \<open>checkUnResizableSrcSize\<close>,
  \<open>checkResizableSrcSize\<close>). A remainder by zero is undefined in C++, so a check has the result
  \<open>None\<close> when it reaches one; the sums and products wrap at 32 bits as the code's do. The lemmas
  read a check that succeeds as a statement about natural numbers.
\<close>

section \<open>The fixed part of a resource\<close>

record mpp_caps =
  mMPPType :: u32
  mPhysicalType :: u32
  mLogicalType :: u32
  mPreAssignDisplayInfo :: u32
  mAttr :: u64
  mMaxSrcLayerNum :: u32
  mNeedSolidColorLayer :: bool
  mTargetCompressionInfo :: compressionInfo_t
  mSrcSizeRestrictions :: "nat \<Rightarrow> restriction_size"
  mDstSizeRestrictions :: "nat \<Rightarrow> restriction_size"
  mFormatRestrictions :: "restriction_key list"

definition addFormatRestrictions :: "restriction_key \<Rightarrow> 'a mpp_caps_scheme \<Rightarrow> 'a mpp_caps_scheme" where
  "addFormatRestrictions key m = m\<lparr>mFormatRestrictions := mFormatRestrictions m @ [key]\<rparr>"

definition addSizeRestrictions ::
  "restriction_size \<Rightarrow> restriction_size \<Rightarrow> nat \<Rightarrow> 'a mpp_caps_scheme \<Rightarrow> 'a mpp_caps_scheme" where
  "addSizeRestrictions srcSize dstSize fmt m =
     m\<lparr>mSrcSizeRestrictions := (mSrcSizeRestrictions m)(fmt := srcSize),
       mDstSizeRestrictions := (mDstSizeRestrictions m)(fmt := dstSize)\<rparr>"

definition getRestrictionClassification :: "exynos_image \<Rightarrow> nat" where
  "getRestrictionClassification img = (if fmt_isRgb (exynosFormat img) = False then 1 else 0)"

text \<open>The two S10B formats the 2D engine handles with its own limits.\<close>

definition is_S10B :: "'b platform_scheme \<Rightarrow> exynos_image \<Rightarrow> bool" where
  "is_S10B pf img \<longleftrightarrow>
     fmt_halFormat (pf_hal pf) (exynosFormat img) = pf_hal pf HAL_PIXEL_FORMAT_EXYNOS_YCbCr_420_SPN_S10B \<or>
     fmt_halFormat (pf_hal pf) (exynosFormat img) = pf_hal pf HAL_PIXEL_FORMAT_EXYNOS_YCbCr_420_SP_M_S10B"

section \<open>Size getters\<close>

named_theorems mpp_getters \<open>defining equations of the size getters\<close>

text \<open>The \<open>_idx\<close> functions are the overloads that take the class instead of an image.\<close>

definition getMaxUpscale :: "'a mpp_caps_scheme \<Rightarrow> exynos_image \<Rightarrow> u32" where
  [mpp_getters]: "getMaxUpscale m src = maxUpScale (mSrcSizeRestrictions m (getRestrictionClassification src))"

definition getSrcXOffsetAlign :: "'a mpp_caps_scheme \<Rightarrow> exynos_image \<Rightarrow> u32" where
  [mpp_getters]: "getSrcXOffsetAlign m src = cropXAlign (mSrcSizeRestrictions m (getRestrictionClassification src))"

definition getSrcXOffsetAlign_idx :: "'a mpp_caps_scheme \<Rightarrow> nat \<Rightarrow> u32" where
  [mpp_getters]: "getSrcXOffsetAlign_idx m idx = (if idx \<ge> RESTRICTION_MAX then 16 else cropXAlign (mSrcSizeRestrictions m idx))"

definition getSrcYOffsetAlign :: "'a mpp_caps_scheme \<Rightarrow> exynos_image \<Rightarrow> u32" where
  [mpp_getters]: "getSrcYOffsetAlign m src = cropYAlign (mSrcSizeRestrictions m (getRestrictionClassification src))"

definition getSrcYOffsetAlign_idx :: "'a mpp_caps_scheme \<Rightarrow> nat \<Rightarrow> u32" where
  [mpp_getters]: "getSrcYOffsetAlign_idx m idx = (if idx \<ge> RESTRICTION_MAX then 16 else cropYAlign (mSrcSizeRestrictions m idx))"

definition getSrcWidthAlign :: "'a mpp_caps_scheme \<Rightarrow> exynos_image \<Rightarrow> u32" where
  [mpp_getters]: "getSrcWidthAlign m src = fullWidthAlign (mSrcSizeRestrictions m (getRestrictionClassification src))"

definition getSrcHeightAlign :: "'a mpp_caps_scheme \<Rightarrow> exynos_image \<Rightarrow> u32" where
  [mpp_getters]: "getSrcHeightAlign m src = fullHeightAlign (mSrcSizeRestrictions m (getRestrictionClassification src))"

definition getSrcMaxWidth :: "'a mpp_caps_scheme \<Rightarrow> exynos_image \<Rightarrow> u32" where
  [mpp_getters]: "getSrcMaxWidth m src = maxFullWidth (mSrcSizeRestrictions m (getRestrictionClassification src))"

definition getSrcMaxHeight :: "'a mpp_caps_scheme \<Rightarrow> exynos_image \<Rightarrow> u32" where
  [mpp_getters]: "getSrcMaxHeight m src = maxFullHeight (mSrcSizeRestrictions m (getRestrictionClassification src))"

definition getSrcMinWidth :: "'a mpp_caps_scheme \<Rightarrow> exynos_image \<Rightarrow> u32" where
  [mpp_getters]: "getSrcMinWidth m src = minFullWidth (mSrcSizeRestrictions m (getRestrictionClassification src))"

definition getSrcMinWidth_idx :: "'a mpp_caps_scheme \<Rightarrow> nat \<Rightarrow> u32" where
  [mpp_getters]: "getSrcMinWidth_idx m idx = (if idx \<ge> RESTRICTION_MAX then 16 else minFullWidth (mSrcSizeRestrictions m idx))"

definition getSrcMinHeight :: "'a mpp_caps_scheme \<Rightarrow> exynos_image \<Rightarrow> u32" where
  [mpp_getters]: "getSrcMinHeight m src = minFullHeight (mSrcSizeRestrictions m (getRestrictionClassification src))"

definition getSrcMinHeight_idx :: "'a mpp_caps_scheme \<Rightarrow> nat \<Rightarrow> u32" where
  [mpp_getters]: "getSrcMinHeight_idx m idx = (if idx \<ge> RESTRICTION_MAX then 16 else minFullHeight (mSrcSizeRestrictions m idx))"

definition getSrcMaxCropWidth :: "'a mpp_caps_scheme \<Rightarrow> exynos_image \<Rightarrow> u32" where
  [mpp_getters]: "getSrcMaxCropWidth m src = maxCropWidth (mSrcSizeRestrictions m (getRestrictionClassification src))"

definition getSrcMaxCropHeight :: "'b platform_scheme \<Rightarrow> 'a mpp_caps_scheme \<Rightarrow> exynos_image \<Rightarrow> u32" where
  [mpp_getters]: "getSrcMaxCropHeight pf m src =
     (if mMPPType m = MPP_TYPE_OTF \<and> transform src AND pf_rot_90 pf \<noteq> 0 then 2160
      else maxCropHeight (mSrcSizeRestrictions m (getRestrictionClassification src)))"

definition getSrcMaxCropSize :: "'b platform_scheme \<Rightarrow> 'a mpp_caps_scheme \<Rightarrow> exynos_image \<Rightarrow> u32" where
  [mpp_getters]: "getSrcMaxCropSize pf m src = getSrcMaxCropWidth m src * getSrcMaxCropHeight pf m src"

definition getSrcMinCropWidth :: "'b platform_scheme \<Rightarrow> 'a mpp_caps_scheme \<Rightarrow> exynos_image \<Rightarrow> u32" where
  [mpp_getters]: "getSrcMinCropWidth pf m src =
     (if is_S10B pf src \<and> mPhysicalType m = MPP_G2D then 2
      else minCropWidth (mSrcSizeRestrictions m (getRestrictionClassification src)))"

definition getSrcMinCropHeight :: "'b platform_scheme \<Rightarrow> 'a mpp_caps_scheme \<Rightarrow> exynos_image \<Rightarrow> u32" where
  [mpp_getters]: "getSrcMinCropHeight pf m src =
     (if is_S10B pf src \<and> mPhysicalType m = MPP_G2D then 2
      else minCropHeight (mSrcSizeRestrictions m (getRestrictionClassification src)))"

definition getSrcCropWidthAlign :: "'b platform_scheme \<Rightarrow> 'a mpp_caps_scheme \<Rightarrow> exynos_image \<Rightarrow> u32" where
  [mpp_getters]: "getSrcCropWidthAlign pf m src =
     (if is_S10B pf src \<and> mPhysicalType m = MPP_G2D then 2
      else cropWidthAlign (mSrcSizeRestrictions m (getRestrictionClassification src)))"

definition getSrcCropWidthAlign_idx :: "'a mpp_caps_scheme \<Rightarrow> nat \<Rightarrow> u32" where
  [mpp_getters]: "getSrcCropWidthAlign_idx m idx = (if idx \<ge> RESTRICTION_MAX then 16 else cropWidthAlign (mSrcSizeRestrictions m idx))"

definition getSrcCropHeightAlign :: "'b platform_scheme \<Rightarrow> 'a mpp_caps_scheme \<Rightarrow> exynos_image \<Rightarrow> u32" where
  [mpp_getters]: "getSrcCropHeightAlign pf m src =
     (if is_S10B pf src \<and> mPhysicalType m = MPP_G2D then 2
      else cropHeightAlign (mSrcSizeRestrictions m (getRestrictionClassification src)))"

definition getSrcCropHeightAlign_idx :: "'a mpp_caps_scheme \<Rightarrow> nat \<Rightarrow> u32" where
  [mpp_getters]: "getSrcCropHeightAlign_idx m idx = (if idx \<ge> RESTRICTION_MAX then 16 else cropHeightAlign (mSrcSizeRestrictions m idx))"

definition getDstMaxWidth :: "'a mpp_caps_scheme \<Rightarrow> exynos_image \<Rightarrow> u32" where
  [mpp_getters]: "getDstMaxWidth m dst = maxCropWidth (mDstSizeRestrictions m (getRestrictionClassification dst))"

definition getDstMaxHeight :: "'a mpp_caps_scheme \<Rightarrow> exynos_image \<Rightarrow> u32" where
  [mpp_getters]: "getDstMaxHeight m dst = maxCropHeight (mDstSizeRestrictions m (getRestrictionClassification dst))"

definition getDstMinWidth :: "'b platform_scheme \<Rightarrow> 'a mpp_caps_scheme \<Rightarrow> exynos_image \<Rightarrow> u32" where
  [mpp_getters]: "getDstMinWidth pf m dst =
     (if is_S10B pf dst \<and> mPhysicalType m = MPP_G2D then 64
      else if mNeedSolidColorLayer m = False \<and> ci_type (mTargetCompressionInfo m) = COMP_TYPE_AFBC then 16
      else if mPhysicalType m = MPP_G2D \<and> mNeedSolidColorLayer m = False \<and> fmt_isSBWC (exynosFormat dst) then 32
      else minCropWidth (mDstSizeRestrictions m (getRestrictionClassification dst)))"

definition getDstMinHeight :: "'a mpp_caps_scheme \<Rightarrow> exynos_image \<Rightarrow> u32" where
  [mpp_getters]: "getDstMinHeight m dst =
     (if mNeedSolidColorLayer m = False \<and> ci_type (mTargetCompressionInfo m) = COMP_TYPE_AFBC then 16
      else if mPhysicalType m = MPP_G2D \<and> mNeedSolidColorLayer m = False \<and> fmt_isSBWC (exynosFormat dst) then 8
      else minCropHeight (mDstSizeRestrictions m (getRestrictionClassification dst)))"

definition getDstWidthAlign :: "'b platform_scheme \<Rightarrow> 'a mpp_caps_scheme \<Rightarrow> exynos_image \<Rightarrow> u32" where
  [mpp_getters]: "getDstWidthAlign pf m dst =
     (if is_S10B pf dst \<and> mPhysicalType m = MPP_G2D then 64
      else if mNeedSolidColorLayer m = False \<and> ci_type (mTargetCompressionInfo m) = COMP_TYPE_AFBC then 16
      else if mPhysicalType m = MPP_G2D \<and> mNeedSolidColorLayer m = False \<and> fmt_isSBWC (exynosFormat dst) then 32
      else cropWidthAlign (mDstSizeRestrictions m (getRestrictionClassification dst)))"

definition getDstHeightAlign :: "'a mpp_caps_scheme \<Rightarrow> exynos_image \<Rightarrow> u32" where
  [mpp_getters]: "getDstHeightAlign m dst =
     (if mNeedSolidColorLayer m = False \<and> ci_type (mTargetCompressionInfo m) = COMP_TYPE_AFBC then 16
      else if mPhysicalType m = MPP_G2D \<and> mNeedSolidColorLayer m = False \<and> fmt_isSBWC (exynosFormat dst) then 8
      else cropHeightAlign (mDstSizeRestrictions m (getRestrictionClassification dst)))"

definition getDstXOffsetAlign :: "'a mpp_caps_scheme \<Rightarrow> exynos_image \<Rightarrow> u32" where
  [mpp_getters]: "getDstXOffsetAlign m dst =
     (if mNeedSolidColorLayer m = False \<and> ci_type (mTargetCompressionInfo m) = COMP_TYPE_AFBC then 16
      else if mPhysicalType m = MPP_G2D \<and> mNeedSolidColorLayer m = False \<and> fmt_isSBWC (exynosFormat dst) then 32
      else cropXAlign (mDstSizeRestrictions m (getRestrictionClassification dst)))"

definition getDstYOffsetAlign :: "'a mpp_caps_scheme \<Rightarrow> exynos_image \<Rightarrow> u32" where
  [mpp_getters]: "getDstYOffsetAlign m dst =
     (if mNeedSolidColorLayer m = False \<and> ci_type (mTargetCompressionInfo m) = COMP_TYPE_AFBC then 16
      else if mPhysicalType m = MPP_G2D \<and> mNeedSolidColorLayer m = False \<and> fmt_isSBWC (exynosFormat dst) then 8
      else cropYAlign (mDstSizeRestrictions m (getRestrictionClassification dst)))"

definition getOutBufAlign :: "'a mpp_caps_scheme \<Rightarrow> u32" where
  [mpp_getters]: "getOutBufAlign m = (if ci_type (mTargetCompressionInfo m) = COMP_TYPE_AFBC then 16 else 1)"

section \<open>Checks that may be undefined\<close>

text \<open>C's \<open>a % b != 0\<close>, short-circuit \<open>||\<close>, and \<open>if\<close> on a condition that may be undefined.\<close>

definition c_rem_nz :: "u32 \<Rightarrow> u32 \<Rightarrow> bool option" where
  "c_rem_nz a b = (if b = 0 then None else Some (a mod b \<noteq> 0))"

definition c_or :: "bool option \<Rightarrow> bool option \<Rightarrow> bool option" where
  "c_or p q = (case p of None \<Rightarrow> None | Some True \<Rightarrow> Some True | Some False \<Rightarrow> q)"

definition c_if :: "bool option \<Rightarrow> 'a option \<Rightarrow> 'a option \<Rightarrow> 'a option" where
  "c_if c t e = (case c of None \<Rightarrow> None | Some True \<Rightarrow> t | Some False \<Rightarrow> e)"

definition checkDstSize :: "'b platform_scheme \<Rightarrow> 'a mpp_caps_scheme \<Rightarrow> exynos_image \<Rightarrow> int option" where
  "checkDstSize pf m dst =
     (if img_w dst > getDstMaxWidth m dst then Some (- eMPPExeedMaxDstWidth)
      else if img_h dst > getDstMaxHeight m dst then Some (- eMPPExeedMaxDstHeight)
      else if img_w dst < getDstMinWidth pf m dst then Some (- eMPPExeedMinDstWidth)
      else if img_h dst < getDstMinHeight m dst then Some (- eMPPExeedMinDstHeight)
      else c_if (c_or (c_rem_nz (img_w dst) (getDstWidthAlign pf m dst))
                      (c_rem_nz (img_h dst) (getDstHeightAlign m dst)))
             (Some (- eMPPNotAlignedDstSize))
          (c_if (c_or (c_rem_nz (img_x dst) (getDstXOffsetAlign m dst))
                      (c_rem_nz (img_y dst) (getDstYOffsetAlign m dst)))
             (Some (- eMPPNotAlignedOffset))
             (Some NO_ERROR)))"

definition checkUnResizableSrcSize ::
  "'b platform_scheme \<Rightarrow> 'a mpp_caps_scheme \<Rightarrow> exynos_image \<Rightarrow> int option" where
  "checkUnResizableSrcSize pf m src =
     (if fullWidth src < getSrcMinWidth m src then Some (- eMPPExeedMinSrcWidth)
      else if fullHeight src < getSrcMinHeight m src then Some (- eMPPExeedMinSrcHeight)
      else if fullWidth src > getSrcMaxWidth m src then Some (- eMPPExceedHStrideMaximum)
      else if img_w src < getSrcMinCropWidth pf m src then Some (- eMPPExeedSrcWCropMin)
      else if img_h src < getSrcMinCropHeight pf m src then Some (- eMPPExeedSrcHCropMin)
      else if img_w src * img_h src > getSrcMaxCropSize pf m src then Some (- eMPPExeedSrcCropMax)
      else c_if (c_rem_nz (fullWidth src) (getSrcWidthAlign m src))
             (Some (- eMPPNotAlignedHStride))
             (Some NO_ERROR))"

definition checkResizableSrcSize ::
  "'b platform_scheme \<Rightarrow> 'a mpp_caps_scheme \<Rightarrow> exynos_image \<Rightarrow> int option" where
  "checkResizableSrcSize pf m src =
     (if fullHeight src > getSrcMaxHeight m src then Some (- eMPPExceedVStrideMaximum)
      else c_if (c_rem_nz (fullHeight src) (getSrcHeightAlign m src))
             (Some (- eMPPNotAlignedVStride))
      (if img_w src > getSrcMaxCropWidth m src then Some (- eMPPExeedSrcWCropMax)
       else if img_h src > getSrcMaxCropHeight pf m src then Some (- eMPPExeedSrcHCropMax)
       else c_if (c_or (c_rem_nz (img_w src) (getSrcCropWidthAlign pf m src))
                       (c_rem_nz (img_h src) (getSrcCropHeightAlign pf m src)))
              (Some (- eMPPNotAlignedCrop))
           (c_if (c_or (c_rem_nz (img_x src) (getSrcXOffsetAlign m src))
                       (c_rem_nz (img_y src) (getSrcYOffsetAlign m src)))
              (Some (- eMPPNotAlignedOffset))
              (Some NO_ERROR))))"

section \<open>Reading the checks\<close>

text \<open>The tables of a resource never hold a zero alignment.\<close>

definition caps_ok :: "'a mpp_caps_scheme \<Rightarrow> bool" where
  "caps_ok m \<longleftrightarrow> (\<forall>i \<in> {..<RESTRICTION_MAX}.
     aligns_nonzero (mSrcSizeRestrictions m i) \<and> aligns_nonzero (mDstSizeRestrictions m i))"

lemma c_rem_nz_eq [simp]: "b \<noteq> 0 \<Longrightarrow> c_rem_nz a b = Some (\<not> unat b dvd unat a)"
  by (simp add: c_rem_nz_def dvd_eq_mod_eq_0 unat_gt_0 flip: unat_mod)

lemma c_or_Some [simp]: "c_or (Some p) (Some q) = Some (p \<or> q)"
  by (cases p) (simp_all add: c_or_def)

lemma c_if_Some [simp]: "c_if (Some p) t e = (if p then t else e)"
  by (cases p) (simp_all add: c_if_def)

lemma classification_less [simp]: "getRestrictionClassification img < RESTRICTION_MAX"
  by (simp add: getRestrictionClassification_def code_consts)

lemma caps_ok_tables:
  "caps_ok m \<Longrightarrow> aligns_nonzero (mSrcSizeRestrictions m (getRestrictionClassification img)) \<and>
     aligns_nonzero (mDstSizeRestrictions m (getRestrictionClassification img))"
  by (simp add: caps_ok_def)

text \<open>With such tables none of the alignments the checks divide by is zero.\<close>

lemma aligns_of_caps [simp]:
  assumes "caps_ok m"
  shows "getDstWidthAlign pf m img \<noteq> 0" "getDstHeightAlign m img \<noteq> 0"
    "getDstXOffsetAlign m img \<noteq> 0" "getDstYOffsetAlign m img \<noteq> 0"
    "getSrcWidthAlign m img \<noteq> 0" "getSrcHeightAlign m img \<noteq> 0"
    "getSrcCropWidthAlign pf m img \<noteq> 0" "getSrcCropHeightAlign pf m img \<noteq> 0"
    "getSrcXOffsetAlign m img \<noteq> 0" "getSrcYOffsetAlign m img \<noteq> 0"
  using caps_ok_tables[OF assms, of img] by (simp_all add: aligns_nonzero_def mpp_getters)

lemma caps_ok_addSize:
  "caps_ok m \<Longrightarrow> aligns_nonzero s \<Longrightarrow> aligns_nonzero d \<Longrightarrow> caps_ok (addSizeRestrictions s d k m)"
  by (simp add: caps_ok_def addSizeRestrictions_def)

lemma caps_ok_addFormat [simp]: "caps_ok (addFormatRestrictions key m) = caps_ok m"
  by (simp add: caps_ok_def addFormatRestrictions_def)

text \<open>The promises of the three checks, on natural numbers.\<close>

definition in_bounds :: "u32 \<Rightarrow> u32 \<Rightarrow> u32 \<Rightarrow> bool" where
  "in_bounds lo x hi \<longleftrightarrow> unat lo \<le> unat x \<and> unat x \<le> unat hi"

definition aligned_to :: "u32 \<Rightarrow> u32 \<Rightarrow> bool" where
  "aligned_to a x \<longleftrightarrow> unat a dvd unat x"

definition dst_fits :: "'b platform_scheme \<Rightarrow> 'a mpp_caps_scheme \<Rightarrow> exynos_image \<Rightarrow> bool" where
  "dst_fits pf m dst \<longleftrightarrow>
     in_bounds (getDstMinWidth pf m dst) (img_w dst) (getDstMaxWidth m dst) \<and>
     in_bounds (getDstMinHeight m dst) (img_h dst) (getDstMaxHeight m dst) \<and>
     aligned_to (getDstWidthAlign pf m dst) (img_w dst) \<and> aligned_to (getDstHeightAlign m dst) (img_h dst) \<and>
     aligned_to (getDstXOffsetAlign m dst) (img_x dst) \<and> aligned_to (getDstYOffsetAlign m dst) (img_y dst)"

definition src_stride_fits :: "'b platform_scheme \<Rightarrow> 'a mpp_caps_scheme \<Rightarrow> exynos_image \<Rightarrow> bool" where
  "src_stride_fits pf m src \<longleftrightarrow>
     in_bounds (getSrcMinWidth m src) (fullWidth src) (getSrcMaxWidth m src) \<and>
     unat (getSrcMinHeight m src) \<le> unat (fullHeight src) \<and>
     unat (getSrcMinCropWidth pf m src) \<le> unat (img_w src) \<and>
     unat (getSrcMinCropHeight pf m src) \<le> unat (img_h src) \<and>
     (unat (img_w src) * unat (img_h src)) mod 2 ^ 32
       \<le> (unat (getSrcMaxCropWidth m src) * unat (getSrcMaxCropHeight pf m src)) mod 2 ^ 32 \<and>
     aligned_to (getSrcWidthAlign m src) (fullWidth src)"

definition src_crop_fits :: "'b platform_scheme \<Rightarrow> 'a mpp_caps_scheme \<Rightarrow> exynos_image \<Rightarrow> bool" where
  "src_crop_fits pf m src \<longleftrightarrow>
     unat (fullHeight src) \<le> unat (getSrcMaxHeight m src) \<and>
     aligned_to (getSrcHeightAlign m src) (fullHeight src) \<and>
     unat (img_w src) \<le> unat (getSrcMaxCropWidth m src) \<and>
     unat (img_h src) \<le> unat (getSrcMaxCropHeight pf m src) \<and>
     aligned_to (getSrcCropWidthAlign pf m src) (img_w src) \<and>
     aligned_to (getSrcCropHeightAlign pf m src) (img_h src) \<and>
     aligned_to (getSrcXOffsetAlign m src) (img_x src) \<and> aligned_to (getSrcYOffsetAlign m src) (img_y src)"

lemmas check_arith = in_bounds_def aligned_to_def word_less_nat_alt word_le_nat_alt not_le not_less

lemma checkDstSize_ok:
  assumes "caps_ok m"
  shows "checkDstSize pf m dst = Some NO_ERROR \<longleftrightarrow> dst_fits pf m dst"
  using assms
  by (auto simp: checkDstSize_def dst_fits_def check_arith code_consts)

lemma checkUnResizable_ok:
  assumes "caps_ok m"
  shows "checkUnResizableSrcSize pf m src = Some NO_ERROR \<longleftrightarrow> src_stride_fits pf m src"
  using assms
  by (auto simp: checkUnResizableSrcSize_def src_stride_fits_def check_arith code_consts
      getSrcMaxCropSize_def unat_word_ariths)

lemma checkResizable_ok:
  assumes "caps_ok m"
  shows "checkResizableSrcSize pf m src = Some NO_ERROR \<longleftrightarrow> src_crop_fits pf m src"
  using assms
  by (auto simp: checkResizableSrcSize_def src_crop_fits_def check_arith code_consts)

text \<open>A check that fails reports the negation of one bit of the enumeration, here of the first \<open>n\<close>.\<close>

definition error_bit :: "nat \<Rightarrow> int \<Rightarrow> bool" where
  "error_bit n e \<longleftrightarrow> (\<exists>k\<in>{..<n}. e = - (2 ^ k))"

lemma error_bitI: "k < n \<Longrightarrow> e = 2 ^ k \<Longrightarrow> error_bit n (- e)"
  by (auto simp: error_bit_def)

lemma error_bit_neg: "error_bit n e \<Longrightarrow> e < 0"
  by (auto simp: error_bit_def)

lemma error_bits [simp]:
  "0 < n \<Longrightarrow> error_bit n (- eMPPSaveCapability)"
  "1 < n \<Longrightarrow> error_bit n (- eMPPStrideCrop)"
  "2 < n \<Longrightarrow> error_bit n (- eMPPUnsupportedRotation)"
  "3 < n \<Longrightarrow> error_bit n (- eMPPHWBusy)"
  "4 < n \<Longrightarrow> error_bit n (- eMPPExeedSrcCropMax)"
  "5 < n \<Longrightarrow> error_bit n (- eMPPUnsupportedColorTransform)"
  "6 < n \<Longrightarrow> error_bit n (- eMPPUnsupportedBlending)"
  "7 < n \<Longrightarrow> error_bit n (- eMPPUnsupportedFormat)"
  "8 < n \<Longrightarrow> error_bit n (- eMPPNotAlignedDstSize)"
  "9 < n \<Longrightarrow> error_bit n (- eMPPNotAlignedSrcCropPosition)"
  "10 < n \<Longrightarrow> error_bit n (- eMPPNotAlignedHStride)"
  "11 < n \<Longrightarrow> error_bit n (- eMPPNotAlignedVStride)"
  "12 < n \<Longrightarrow> error_bit n (- eMPPExceedHStrideMaximum)"
  "13 < n \<Longrightarrow> error_bit n (- eMPPExceedVStrideMaximum)"
  "14 < n \<Longrightarrow> error_bit n (- eMPPExeedMaxDownScale)"
  "15 < n \<Longrightarrow> error_bit n (- eMPPExeedMaxDstWidth)"
  "16 < n \<Longrightarrow> error_bit n (- eMPPExeedMaxDstHeight)"
  "17 < n \<Longrightarrow> error_bit n (- eMPPExeedMinSrcWidth)"
  "18 < n \<Longrightarrow> error_bit n (- eMPPExeedMinSrcHeight)"
  "19 < n \<Longrightarrow> error_bit n (- eMPPExeedMaxUpScale)"
  "20 < n \<Longrightarrow> error_bit n (- eMPPExeedSrcWCropMax)"
  "21 < n \<Longrightarrow> error_bit n (- eMPPExeedSrcHCropMax)"
  "22 < n \<Longrightarrow> error_bit n (- eMPPExeedSrcWCropMin)"
  "23 < n \<Longrightarrow> error_bit n (- eMPPExeedSrcHCropMin)"
  "24 < n \<Longrightarrow> error_bit n (- eMPPNotAlignedCrop)"
  "25 < n \<Longrightarrow> error_bit n (- eMPPNotAlignedOffset)"
  "26 < n \<Longrightarrow> error_bit n (- eMPPExeedMinDstWidth)"
  "27 < n \<Longrightarrow> error_bit n (- eMPPExeedMinDstHeight)"
  "28 < n \<Longrightarrow> error_bit n (- eMPPUnsupportedCompression)"
  "29 < n \<Longrightarrow> error_bit n (- eMPPUnsupportedCSC)"
  "30 < n \<Longrightarrow> error_bit n (- eMPPUnsupportedDIMLayer)"
  "31 < n \<Longrightarrow> error_bit n (- eMPPUnsupportedDRM)"
  "32 < n \<Longrightarrow> error_bit n (- eMPPUnsupportedDynamicMeta)"
  "33 < n \<Longrightarrow> error_bit n (- eMPPConflictSharedMPP)"
  "34 < n \<Longrightarrow> error_bit n (- eMPPExeedHWResource)"
  by (rule error_bitI[of 0], assumption, simp add: code_consts,
      rule error_bitI[of 1], assumption, simp add: code_consts,
      rule error_bitI[of 2], assumption, simp add: code_consts,
      rule error_bitI[of 3], assumption, simp add: code_consts,
      rule error_bitI[of 4], assumption, simp add: code_consts,
      rule error_bitI[of 5], assumption, simp add: code_consts,
      rule error_bitI[of 6], assumption, simp add: code_consts,
      rule error_bitI[of 7], assumption, simp add: code_consts,
      rule error_bitI[of 8], assumption, simp add: code_consts,
      rule error_bitI[of 9], assumption, simp add: code_consts,
      rule error_bitI[of 10], assumption, simp add: code_consts,
      rule error_bitI[of 11], assumption, simp add: code_consts,
      rule error_bitI[of 12], assumption, simp add: code_consts,
      rule error_bitI[of 13], assumption, simp add: code_consts,
      rule error_bitI[of 14], assumption, simp add: code_consts,
      rule error_bitI[of 15], assumption, simp add: code_consts,
      rule error_bitI[of 16], assumption, simp add: code_consts,
      rule error_bitI[of 17], assumption, simp add: code_consts,
      rule error_bitI[of 18], assumption, simp add: code_consts,
      rule error_bitI[of 19], assumption, simp add: code_consts,
      rule error_bitI[of 20], assumption, simp add: code_consts,
      rule error_bitI[of 21], assumption, simp add: code_consts,
      rule error_bitI[of 22], assumption, simp add: code_consts,
      rule error_bitI[of 23], assumption, simp add: code_consts,
      rule error_bitI[of 24], assumption, simp add: code_consts,
      rule error_bitI[of 25], assumption, simp add: code_consts,
      rule error_bitI[of 26], assumption, simp add: code_consts,
      rule error_bitI[of 27], assumption, simp add: code_consts,
      rule error_bitI[of 28], assumption, simp add: code_consts,
      rule error_bitI[of 29], assumption, simp add: code_consts,
      rule error_bitI[of 30], assumption, simp add: code_consts,
      rule error_bitI[of 31], assumption, simp add: code_consts,
      rule error_bitI[of 32], assumption, simp add: code_consts,
      rule error_bitI[of 33], assumption, simp add: code_consts,
      rule error_bitI[of 34], assumption, simp add: code_consts)

definition check_result :: "nat \<Rightarrow> int option \<Rightarrow> bool" where
  "check_result n r \<longleftrightarrow> r = Some NO_ERROR \<or> (\<exists>e. r = Some e \<and> error_bit n e)"

lemma check_result_simps [simp]:
  "check_result n (Some NO_ERROR)"
  "error_bit n e \<Longrightarrow> check_result n (Some e)"
  "check_result n a \<Longrightarrow> check_result n b \<Longrightarrow> check_result n (if p then a else b)"
  "check_result n a \<Longrightarrow> check_result n b \<Longrightarrow> check_result n (c_if (Some p) a b)"
  by (auto simp: check_result_def)

lemma checks_defined [simp]:
  assumes "caps_ok m"
  shows "check_result 31 (checkDstSize pf m img)"
    "check_result 31 (checkUnResizableSrcSize pf m img)"
    "check_result 31 (checkResizableSrcSize pf m img)"
  using assms
  by (simp_all add: checkDstSize_def checkUnResizableSrcSize_def checkResizableSrcSize_def
      del: c_if_Some)

text \<open>
  A caller that keeps the status in an \<open>int32_t\<close> and returns it when it is negative: the status is
  cut to 32 bits, which leaves the statuses of these checks alone.
\<close>

definition int32_of :: "int \<Rightarrow> int" where
  "int32_of x = signed_take_bit 31 x"

definition c_fail :: "int option \<Rightarrow> int option \<Rightarrow> int option" where
  "c_fail r k = (case r of None \<Rightarrow> None | Some e \<Rightarrow> if int32_of e < 0 then Some (int32_of e) else k)"

lemma int32_of_small: "- (2 ^ 31) \<le> x \<Longrightarrow> x < 2 ^ 31 \<Longrightarrow> int32_of x = x"
  by (simp add: int32_of_def signed_take_bit_int_eq_self)

lemma int32_of_error: "error_bit 31 e \<Longrightarrow> int32_of e = e"
proof -
  assume "error_bit 31 e"
  then obtain k where "k < 31" and e: "e = - (2 ^ k)" by (auto simp: error_bit_def)
  then have "(2 :: int) ^ k \<le> 2 ^ 31" by (intro power_increasing) simp_all
  moreover have "(0 :: int) < 2 ^ k" by simp
  ultimately show "int32_of e = e" unfolding e by (intro int32_of_small) linarith+
qed

lemma c_fail_simps [simp]:
  "c_fail (Some NO_ERROR) k = k"
  "error_bit 31 e \<Longrightarrow> c_fail (Some e) k = Some e"
  by (simp_all add: c_fail_def NO_ERROR_def int32_of_small int32_of_error error_bit_neg)

lemma c_fail_ok:
  assumes "check_result 31 r"
  shows "c_fail r k = Some NO_ERROR \<longleftrightarrow> r = Some NO_ERROR \<and> k = Some NO_ERROR"
proof -
  have "\<not> error_bit 31 NO_ERROR" by (simp add: error_bit_def NO_ERROR_def)
  with assms show ?thesis by (auto simp: check_result_def)
qed

lemma error_bit_mono: "error_bit m e \<Longrightarrow> m \<le> n \<Longrightarrow> error_bit n e"
  by (force simp: error_bit_def)

lemma c_fail_result:
  assumes "check_result 31 r" "check_result n k" "31 \<le> n"
  shows "check_result n (c_fail r k)"
  using assms by (auto simp: check_result_def intro: error_bit_mono)

end
