(* ===== verification/MppSupport.thy ===== *)
theory MppSupport
  imports MppRestrict
begin

text \<open>
  Whether a resource can show a layer: the feature checks of \<open>resources/ExynosMPP.cpp\<close>
  (\<open>isDataspaceSupportedByMPP\<close> to \<open>isSupportLayerColorTransform\<close>), \<open>checkScaleRatio\<close>, and the
  handler \<open>isSupported\<close> that runs all the checks in order. \<open>isSupported_iff\<close> says what an accepted
  layer satisfies; \<open>isSupported_total\<close> says that no input makes the handler undefined and that a
  refusal is one bit of the error enumeration.
\<close>

section \<open>Dataspace tables\<close>

definition CSC_BT_601 :: u32 where [code_consts]: "CSC_BT_601 = 0"
definition CSC_BT_709 :: u32 where [code_consts]: "CSC_BT_709 = 1"
definition CSC_BT_2020 :: u32 where [code_consts]: "CSC_BT_2020 = 2"
definition CSC_DCI_P3 :: u32 where [code_consts]: "CSC_DCI_P3 = 3"
definition CSC_BT_601_625 :: u32 where [code_consts]: "CSC_BT_601_625 = 4"
definition CSC_BT_601_625_UNADJUSTED :: u32 where [code_consts]: "CSC_BT_601_625_UNADJUSTED = 5"
definition CSC_BT_601_525 :: u32 where [code_consts]: "CSC_BT_601_525 = 6"
definition CSC_BT_601_525_UNADJUSTED :: u32 where [code_consts]: "CSC_BT_601_525_UNADJUSTED = 7"
definition CSC_BT_2020_CONSTANT_LUMINANCE :: u32 where [code_consts]: "CSC_BT_2020_CONSTANT_LUMINANCE = 8"
definition CSC_BT_470M :: u32 where [code_consts]: "CSC_BT_470M = 9"
definition CSC_FILM :: u32 where [code_consts]: "CSC_FILM = 10"
definition CSC_ADOBE_RGB :: u32 where [code_consts]: "CSC_ADOBE_RGB = 11"
definition CSC_UNSPECIFIED :: u32 where [code_consts]: "CSC_UNSPECIFIED = 63"
definition DPP_HDR_OFF :: u32 where [code_consts]: "DPP_HDR_OFF = 0"
definition DPP_HDR_ST2084 :: u32 where [code_consts]: "DPP_HDR_ST2084 = 1"
definition DPP_HDR_HLG :: u32 where [code_consts]: "DPP_HDR_HLG = 2"
definition DPP_TRANSFER_LINEAR :: u32 where [code_consts]: "DPP_TRANSFER_LINEAR = 3"
definition DPP_TRANSFER_SRGB :: u32 where [code_consts]: "DPP_TRANSFER_SRGB = 4"
definition DPP_TRANSFER_SMPTE_170M :: u32 where [code_consts]: "DPP_TRANSFER_SMPTE_170M = 5"
definition DPP_TRANSFER_GAMMA2_2 :: u32 where [code_consts]: "DPP_TRANSFER_GAMMA2_2 = 6"
definition DPP_TRANSFER_GAMMA2_6 :: u32 where [code_consts]: "DPP_TRANSFER_GAMMA2_6 = 7"
definition DPP_TRANSFER_GAMMA2_8 :: u32 where [code_consts]: "DPP_TRANSFER_GAMMA2_8 = 8"

record dataspace_mapper =
  dm_key :: u32
  dm_supported_hwc_attr :: u64
  dm_mode :: u32

text \<open>
  The two \<open>std::map\<close>s, as the initialiser lists them: of two equal keys the first is kept, as
  \<open>List.find\<close> does. \<open>dm_mode\<close> is the code the display controller is given.
\<close>

definition dataspace_standard_map :: "'b platform_scheme \<Rightarrow> dataspace_mapper list" where
  "dataspace_standard_map pf =
    (let attr = MPP_ATTR_WCG OR MPP_ATTR_HDR10 OR MPP_ATTR_HDR10PLUS in
    [\<lparr>dm_key = pf_standard pf STANDARD_UNSPECIFIED, dm_supported_hwc_attr = attr, dm_mode = CSC_UNSPECIFIED\<rparr>,
     \<lparr>dm_key = pf_standard pf STANDARD_BT709, dm_supported_hwc_attr = attr, dm_mode = CSC_BT_709\<rparr>,
     \<lparr>dm_key = pf_standard pf STANDARD_BT601_625, dm_supported_hwc_attr = attr, dm_mode = CSC_BT_601\<rparr>,
     \<lparr>dm_key = pf_standard pf STANDARD_BT601_625_UNADJUSTED, dm_supported_hwc_attr = attr, dm_mode = CSC_BT_601\<rparr>,
     \<lparr>dm_key = pf_standard pf STANDARD_BT601_525, dm_supported_hwc_attr = attr, dm_mode = CSC_BT_601\<rparr>,
     \<lparr>dm_key = pf_standard pf STANDARD_BT601_525_UNADJUSTED, dm_supported_hwc_attr = attr, dm_mode = CSC_BT_601\<rparr>,
     \<lparr>dm_key = pf_standard pf STANDARD_BT2020, dm_supported_hwc_attr = attr, dm_mode = CSC_BT_2020\<rparr>,
     \<lparr>dm_key = pf_standard pf STANDARD_BT2020_CONSTANT_LUMINANCE, dm_supported_hwc_attr = attr, dm_mode = CSC_BT_2020_CONSTANT_LUMINANCE\<rparr>,
     \<lparr>dm_key = pf_standard pf STANDARD_BT470M, dm_supported_hwc_attr = attr, dm_mode = CSC_BT_470M\<rparr>,
     \<lparr>dm_key = pf_standard pf STANDARD_FILM, dm_supported_hwc_attr = attr, dm_mode = CSC_FILM\<rparr>,
     \<lparr>dm_key = pf_standard pf STANDARD_DCI_P3, dm_supported_hwc_attr = attr, dm_mode = CSC_DCI_P3\<rparr>,
     \<lparr>dm_key = pf_standard pf STANDARD_ADOBE_RGB, dm_supported_hwc_attr = attr, dm_mode = CSC_ADOBE_RGB\<rparr>])"

definition dataspace_transfer_map :: "'b platform_scheme \<Rightarrow> dataspace_mapper list" where
  "dataspace_transfer_map pf =
    (let attr = MPP_ATTR_WCG OR MPP_ATTR_HDR10 OR MPP_ATTR_HDR10PLUS;
         hdr_attr = MPP_ATTR_HDR10 OR MPP_ATTR_HDR10PLUS in
    [\<lparr>dm_key = pf_transfer pf TRANSFER_UNSPECIFIED, dm_supported_hwc_attr = attr, dm_mode = DPP_HDR_OFF\<rparr>,
     \<lparr>dm_key = pf_transfer pf TRANSFER_LINEAR, dm_supported_hwc_attr = attr, dm_mode = DPP_TRANSFER_LINEAR\<rparr>,
     \<lparr>dm_key = pf_transfer pf TRANSFER_SRGB, dm_supported_hwc_attr = attr, dm_mode = DPP_TRANSFER_SRGB\<rparr>,
     \<lparr>dm_key = pf_transfer pf TRANSFER_SMPTE_170M, dm_supported_hwc_attr = attr, dm_mode = DPP_TRANSFER_SMPTE_170M\<rparr>,
     \<lparr>dm_key = pf_transfer pf TRANSFER_GAMMA2_2, dm_supported_hwc_attr = attr, dm_mode = DPP_TRANSFER_GAMMA2_2\<rparr>,
     \<lparr>dm_key = pf_transfer pf TRANSFER_GAMMA2_6, dm_supported_hwc_attr = attr, dm_mode = DPP_TRANSFER_GAMMA2_6\<rparr>,
     \<lparr>dm_key = pf_transfer pf TRANSFER_GAMMA2_8, dm_supported_hwc_attr = attr, dm_mode = DPP_TRANSFER_GAMMA2_8\<rparr>,
     \<lparr>dm_key = pf_transfer pf TRANSFER_ST2084, dm_supported_hwc_attr = hdr_attr, dm_mode = DPP_HDR_ST2084\<rparr>,
     \<lparr>dm_key = pf_transfer pf TRANSFER_HLG, dm_supported_hwc_attr = hdr_attr, dm_mode = DPP_HDR_HLG\<rparr>])"

definition dataspace_find :: "dataspace_mapper list \<Rightarrow> u32 \<Rightarrow> dataspace_mapper option" where
  "dataspace_find tab k = List.find (\<lambda>d. dm_key d = k) tab"

section \<open>Feature checks\<close>

definition checkCSCRestriction :: "exynos_image \<Rightarrow> exynos_image \<Rightarrow> bool" where
  "checkCSCRestriction src dst = True"

definition isDataspaceSupportedByMPP ::
  "'b platform_scheme \<Rightarrow> 'a mpp_caps_scheme \<Rightarrow> exynos_image \<Rightarrow> exynos_image \<Rightarrow> bool" where
  "isDataspaceSupportedByMPP pf m src dst =
    (let srcStandard = dataSpace src AND pf_standard_mask pf;
         dstStandard = dataSpace dst AND pf_standard_mask pf;
         srcTransfer = dataSpace src AND pf_transfer_mask pf;
         dstTransfer = dataSpace dst AND pf_transfer_mask pf in
     if srcStandard = dstStandard \<and> srcTransfer = dstTransfer then True
     else if (srcStandard = pf_standard pf STANDARD_UNSPECIFIED \<or> dstStandard = pf_standard pf STANDARD_UNSPECIFIED)
          \<and> (srcTransfer = pf_transfer pf TRANSFER_UNSPECIFIED \<or> dstTransfer = pf_transfer pf TRANSFER_UNSPECIFIED)
       then True
     else if \<not> hasHdrInfo pf src \<and> mAttr m AND MPP_ATTR_WCG = 0 then False
     else if (case dataspace_find (dataspace_standard_map pf) srcStandard of
                None \<Rightarrow> False | Some d \<Rightarrow> \<not> (dm_supported_hwc_attr d AND mAttr m \<noteq> 0)) then False
     else if (case dataspace_find (dataspace_transfer_map pf) srcTransfer of
                None \<Rightarrow> False | Some d \<Rightarrow> \<not> (dm_supported_hwc_attr d AND mAttr m \<noteq> 0)) then False
     else checkCSCRestriction src dst)"

definition isSupportedHDR10Plus ::
  "'b platform_scheme \<Rightarrow> 'a mpp_caps_scheme \<Rightarrow> exynos_image \<Rightarrow> exynos_image \<Rightarrow> bool" where
  "isSupportedHDR10Plus pf m src dst =
    (let srcStandard = dataSpace src AND pf_standard_mask pf;
         dstStandard = dataSpace dst AND pf_standard_mask pf;
         srcTransfer = dataSpace src AND pf_transfer_mask pf;
         dstTransfer = dataSpace dst AND pf_transfer_mask pf in
     if hasHdr10Plus pf src then
       (if mAttr m AND MPP_ATTR_HDR10PLUS \<noteq> 0 then True
        else if srcStandard = dstStandard \<and> srcTransfer = dstTransfer then True
        else if mLogicalType m = MPP_LOGICAL_G2D_COMBO
             \<and> mPreAssignDisplayInfo m AND pf_display_virtual_bit pf \<noteq> 0 then True
        else False)
     else True)"

definition isSupportedHStrideCrop :: "exynos_image \<Rightarrow> bool" where
  "isSupportedHStrideCrop src = True"

definition isSupportedBlend :: "'b platform_scheme \<Rightarrow> exynos_image \<Rightarrow> bool" where
  "isSupportedBlend pf src \<longleftrightarrow>
     blending src = pf_blend pf BLEND_MODE_NONE \<or> blending src = pf_blend pf BLEND_MODE_PREMULTIPLIED \<or>
     blending src = pf_blend pf BLEND_MODE_COVERAGE"

definition checkRotationCondition :: "'b platform_scheme \<Rightarrow> 'a mpp_caps_scheme \<Rightarrow> exynos_image \<Rightarrow> bool" where
  "checkRotationCondition pf m src =
    (if mPhysicalType m \<ge> MPP_DPP_NUM then True
     else
      (let isFlip = (transform src AND pf_flip_h pf \<noteq> 0 \<or> transform src AND pf_flip_v pf \<noteq> 0);
           isCompressed = (fmt_isSBWC (exynosFormat src) \<or> ci_type (compressionInfo src) = COMP_TYPE_SBWC
              \<or> ci_type (compressionInfo src) = COMP_TYPE_AFBC);
           isRotation = (transform src AND pf_rot_90 pf \<noteq> 0) in
       if mAttr m AND MPP_ATTR_ROT_90 \<noteq> 0 \<and> fmt_isYUV420 (exynosFormat src) then
         (if isCompressed \<and> (isFlip \<and> \<not> isRotation) then False else True)
       else if isRotation then False
       else (if isCompressed \<and> isFlip then False else True)))"

definition transform_map_table :: "'b platform_scheme \<Rightarrow> (u32 \<times> u64) list" where
  "transform_map_table pf =
     [(pf_flip_h pf, MPP_ATTR_FLIP_H), (pf_flip_v pf, MPP_ATTR_FLIP_V), (pf_rot_90 pf, MPP_ATTR_ROT_90)]"

definition isSupportedTransform :: "'b platform_scheme \<Rightarrow> 'a mpp_caps_scheme \<Rightarrow> exynos_image \<Rightarrow> bool" where
  "isSupportedTransform pf m src =
    (if transform src = 0 then True
     else if \<not> checkRotationCondition pf m src then False
     else list_all (\<lambda>(hal_tr, hwc_tr).
            if transform src AND hal_tr \<noteq> 0 then mAttr m AND hwc_tr \<noteq> 0 else True) (transform_map_table pf))"

definition isSupportedCompression :: "'a mpp_caps_scheme \<Rightarrow> exynos_image \<Rightarrow> bool" where
  "isSupportedCompression m src =
    (if ci_type (compressionInfo src) = COMP_TYPE_AFBC then
       (if mAttr m AND MPP_ATTR_AFBC \<noteq> 0 then True else False)
     else if ci_type (compressionInfo src) = COMP_TYPE_SAJC then
       (if mAttr m AND MPP_ATTR_SAJC \<noteq> 0 then True else False)
     else True)"

definition isSupportedCapability ::
  "'b platform_scheme \<Rightarrow> 'a mpp_caps_scheme \<Rightarrow> DisplayInfo \<Rightarrow> exynos_image \<Rightarrow> bool" where
  "isSupportedCapability pf m display src =
    (if di_type (displayIdentifier display) \<noteq> pf_display_external pf then True
     else if \<not> (mAttr m AND MPP_ATTR_USE_CAPA \<noteq> 0) then True
     else
       (let hasHdrLayer = (hdrLayersIndex display \<noteq> []);
            hasDrmLayer = (drmLayersIndex display \<noteq> []) in
        if hasHdrLayer \<or> hasDrmLayer then
          (if getDrmMode pf (usageFlags src) \<noteq> NO_DRM then True
           else if hasHdrInfo pf src then True
           else False)
        else True))"

definition isSupportedDRM :: "'b platform_scheme \<Rightarrow> 'a mpp_caps_scheme \<Rightarrow> exynos_image \<Rightarrow> bool" where
  "isSupportedDRM pf m src =
    (if getDrmMode pf (usageFlags src) = NO_DRM then True
     else if mLogicalType m = MPP_LOGICAL_G2D_RGB then False
     else True)"

definition isDimLayerSupported :: "'a mpp_caps_scheme \<Rightarrow> int" where
  "isDimLayerSupported m =
    (if mAttr m AND MPP_ATTR_DIM \<noteq> 0 then
       (if mLogicalType m = MPP_LOGICAL_G2D_YUV then - eMPPUnsupportedDIMLayer else NO_ERROR)
     else - eMPPUnsupportedDIMLayer)"

definition isSrcFormatSupported :: "'b platform_scheme \<Rightarrow> 'a mpp_caps_scheme \<Rightarrow> exynos_image \<Rightarrow> bool" where
  "isSrcFormatSupported pf m src =
    (if mLogicalType m = MPP_LOGICAL_G2D_YUV \<and> fmt_isRgb (exynosFormat src) \<and> hasHdrInfo pf src = False then False
     else if mLogicalType m = MPP_LOGICAL_G2D_RGB \<and> fmt_isYUV (exynosFormat src) then False
     else if mLogicalType m = MPP_LOGICAL_MSC_YUV \<and> fmt_isRgb (exynosFormat src) then False
     else list_ex (\<lambda>k. (nodeType k = NODE_NONE \<or> nodeType k = NODE_SRC)
            \<and> key_format k = fmt_halFormat (pf_hal pf) (exynosFormat src)) (mFormatRestrictions m))"

definition isDstFormatSupported :: "'b platform_scheme \<Rightarrow> 'a mpp_caps_scheme \<Rightarrow> exynos_image \<Rightarrow> bool" where
  "isDstFormatSupported pf m dst =
     list_ex (\<lambda>k. (nodeType k = NODE_NONE \<or> nodeType k = NODE_DST)
       \<and> key_format k = fmt_halFormat (pf_hal pf) (exynosFormat dst)) (mFormatRestrictions m)"

definition isSupportLayerColorTransform :: "'a mpp_caps_scheme \<Rightarrow> exynos_image \<Rightarrow> bool" where
  "isSupportLayerColorTransform m src =
    (if needColorTransform src = False then True
     else if mAttr m AND MPP_ATTR_LAYER_TRANSFORM \<noteq> 0 then True
     else False)"

section \<open>Scaling\<close>

text \<open>
  \<open>mpp_hooks\<close> holds the two virtual functions a chip's module overrides that \<open>isSupported\<close> calls:
  whether the display hardware is fast enough to scale (\<open>scaleAllowedByDPPPerformance\<close>, a
  computation on floats) and whether the other half of an 8K resource is in use.
\<close>

record mpp_hooks =
  v_scaleAllowedByDPPPerformance :: "DisplayInfo \<Rightarrow> exynos_image \<Rightarrow> exynos_image \<Rightarrow> bool"
  v_isSharedMPPUsed :: bool

definition isSharedMPPUsed :: bool where "isSharedMPPUsed = False"

definition getMaxDownscale ::
  "mpp_hooks \<Rightarrow> 'a mpp_caps_scheme \<Rightarrow> DisplayInfo \<Rightarrow> exynos_image \<Rightarrow> exynos_image \<Rightarrow> u32" where
  "getMaxDownscale h m display src dst =
    (if mMPPType m = MPP_TYPE_OTF \<and> \<not> v_scaleAllowedByDPPPerformance h display src dst then 1
     else maxDownScale (mDstSizeRestrictions m (getRestrictionClassification src)))"

definition checkScaleRatio ::
  "mpp_hooks \<Rightarrow> 'b platform_scheme \<Rightarrow> 'a mpp_caps_scheme \<Rightarrow> DisplayInfo \<Rightarrow> exynos_image \<Rightarrow> exynos_image \<Rightarrow> int" where
  "checkScaleRatio h pf m display src dst =
    (let isPerpendicular = (transform src AND pf_rot_90 pf \<noteq> 0);
         rot_dst = (if isPerpendicular then dst\<lparr>img_w := img_h dst, img_h := img_w dst\<rparr> else dst);
         maxDownscale = getMaxDownscale h m display src dst;
         maxUpscale = getMaxUpscale m src in
     if img_w src > img_w rot_dst * maxDownscale then - eMPPExeedMaxDownScale
     else if img_w rot_dst > img_w src * maxUpscale then - eMPPExeedMaxUpScale
     else if img_h src > img_h rot_dst * maxDownscale then - eMPPExeedMaxDownScale
     else if img_h rot_dst > img_h src * maxUpscale then - eMPPExeedMaxUpScale
     else NO_ERROR)"

section \<open>The whole check\<close>

definition isSupported ::
  "mpp_hooks \<Rightarrow> 'b platform_scheme \<Rightarrow> 'a mpp_caps_scheme \<Rightarrow> DisplayInfo \<Rightarrow> exynos_image \<Rightarrow> exynos_image \<Rightarrow> int option" where
  "isSupported h pf m display src dst =
    c_fail (checkDstSize pf m dst)
    (if v_isSharedMPPUsed h then Some (- eMPPConflictSharedMPP)
     else if isDimLayer src then Some (isDimLayerSupported m)
     else if \<not> isSupportedCapability pf m display src then Some (- eMPPSaveCapability)
     else if \<not> isSrcFormatSupported pf m src then Some (- eMPPUnsupportedFormat)
     else if \<not> isDstFormatSupported pf m dst then Some (- eMPPUnsupportedFormat)
     else if \<not> isDataspaceSupportedByMPP pf m src dst then Some (- eMPPUnsupportedCSC)
     else if \<not> isSupportedHDR10Plus pf m src dst then Some (- eMPPUnsupportedDynamicMeta)
     else if \<not> isSupportedBlend pf src then Some (- eMPPUnsupportedBlending)
     else if \<not> isSupportedTransform pf m src then Some (- eMPPUnsupportedRotation)
     else c_fail (checkUnResizableSrcSize pf m src)
    (if \<not> isSupportedDRM pf m src then Some (- eMPPUnsupportedDRM)
     else c_fail (if getDrmMode pf (usageFlags src) = NO_DRM then checkResizableSrcSize pf m src else Some NO_ERROR)
    (c_fail (Some (checkScaleRatio h pf m display src dst))
    (if \<not> isSupportedHStrideCrop src then Some (- eMPPStrideCrop)
     else if \<not> isSupportedCompression m src then Some (- eMPPUnsupportedCompression)
     else if \<not> isSupportLayerColorTransform m src then Some (- eMPPUnsupportedColorTransform)
     else Some NO_ERROR))))"

section \<open>What an accepted layer satisfies\<close>

text \<open>The scale limits on natural numbers; the two products wrap at 32 bits, as the code's do.\<close>

definition rotated_w :: "'b platform_scheme \<Rightarrow> exynos_image \<Rightarrow> exynos_image \<Rightarrow> u32" where
  "rotated_w pf src dst = (if transform src AND pf_rot_90 pf \<noteq> 0 then img_h dst else img_w dst)"

definition rotated_h :: "'b platform_scheme \<Rightarrow> exynos_image \<Rightarrow> exynos_image \<Rightarrow> u32" where
  "rotated_h pf src dst = (if transform src AND pf_rot_90 pf \<noteq> 0 then img_w dst else img_h dst)"

definition scale_fits ::
  "mpp_hooks \<Rightarrow> 'b platform_scheme \<Rightarrow> 'a mpp_caps_scheme \<Rightarrow> DisplayInfo \<Rightarrow> exynos_image \<Rightarrow> exynos_image \<Rightarrow> bool" where
  "scale_fits h pf m display src dst \<longleftrightarrow>
    (let down = unat (getMaxDownscale h m display src dst); up = unat (getMaxUpscale m src);
         sw = unat (img_w src); sh = unat (img_h src);
         dw = unat (rotated_w pf src dst); dh = unat (rotated_h pf src dst) in
     sw \<le> (dw * down) mod 2 ^ 32 \<and> dw \<le> (sw * up) mod 2 ^ 32 \<and>
     sh \<le> (dh * down) mod 2 ^ 32 \<and> dh \<le> (sh * up) mod 2 ^ 32)"

definition layer_supported ::
  "mpp_hooks \<Rightarrow> 'b platform_scheme \<Rightarrow> 'a mpp_caps_scheme \<Rightarrow> DisplayInfo \<Rightarrow> exynos_image \<Rightarrow> exynos_image \<Rightarrow> bool" where
  "layer_supported h pf m display src dst \<longleftrightarrow>
     isSupportedCapability pf m display src \<and> isSrcFormatSupported pf m src \<and> isDstFormatSupported pf m dst \<and>
     isDataspaceSupportedByMPP pf m src dst \<and> isSupportedHDR10Plus pf m src dst \<and> isSupportedBlend pf src \<and>
     isSupportedTransform pf m src \<and> src_stride_fits pf m src \<and> isSupportedDRM pf m src \<and>
     (getDrmMode pf (usageFlags src) = NO_DRM \<longrightarrow> src_crop_fits pf m src) \<and>
     scale_fits h pf m display src dst \<and>
     isSupportedCompression m src \<and> isSupportLayerColorTransform m src"

lemma error_nonzero [simp]:
  "- eMPPExeedMaxDownScale \<noteq> NO_ERROR" "- eMPPExeedMaxUpScale \<noteq> NO_ERROR"
  "- eMPPSaveCapability \<noteq> NO_ERROR" "- eMPPUnsupportedFormat \<noteq> NO_ERROR"
  "- eMPPUnsupportedCSC \<noteq> NO_ERROR" "- eMPPUnsupportedDynamicMeta \<noteq> NO_ERROR"
  "- eMPPUnsupportedBlending \<noteq> NO_ERROR" "- eMPPUnsupportedRotation \<noteq> NO_ERROR"
  "- eMPPUnsupportedDRM \<noteq> NO_ERROR" "- eMPPStrideCrop \<noteq> NO_ERROR"
  "- eMPPUnsupportedCompression \<noteq> NO_ERROR" "- eMPPUnsupportedColorTransform \<noteq> NO_ERROR"
  "- eMPPUnsupportedDIMLayer \<noteq> NO_ERROR" "- eMPPConflictSharedMPP \<noteq> NO_ERROR"
  by (simp_all add: code_consts)

lemma checkScaleRatio_ok: "checkScaleRatio h pf m display src dst = NO_ERROR \<longleftrightarrow> scale_fits h pf m display src dst"
proof -
  have swap: "img_w (if transform src AND pf_rot_90 pf \<noteq> 0 then dst\<lparr>img_w := img_h dst, img_h := img_w dst\<rparr> else dst)
      = rotated_w pf src dst"
    "img_h (if transform src AND pf_rot_90 pf \<noteq> 0 then dst\<lparr>img_w := img_h dst, img_h := img_w dst\<rparr> else dst)
      = rotated_h pf src dst"
    by (simp_all add: rotated_w_def rotated_h_def)
  show ?thesis
    unfolding checkScaleRatio_def scale_fits_def Let_def swap
    by (simp add: word_less_nat_alt not_less unat_word_ariths)
qed

lemma checkScaleRatio_result [simp]: "check_result 31 (Some (checkScaleRatio h pf m display src dst))"
proof -
  have "checkScaleRatio h pf m display src dst \<in> {- eMPPExeedMaxDownScale, - eMPPExeedMaxUpScale, NO_ERROR}"
    by (simp add: checkScaleRatio_def Let_def)
  then show ?thesis by auto
qed

lemma isDimLayerSupported_result [simp]: "check_result 31 (Some (isDimLayerSupported m))"
  by (simp add: isDimLayerSupported_def)

lemma if_check_result: "check_result n a \<Longrightarrow> check_result n (if p then a else Some NO_ERROR)"
  by simp

text \<open>
  C1: for tables without a zero alignment \<open>isSupported\<close> accepts a layer exactly when
  the destination fits the resource's limits, the shared half is not in use, and either the layer
  is a dim layer the resource can draw or it passes every feature test, its stride, crop and
  alignments fit (crop only for unprotected layers) and it is scaled within the limits.
\<close>

theorem isSupported_iff:
  assumes "caps_ok m"
  shows "isSupported h pf m display src dst = Some NO_ERROR \<longleftrightarrow>
    dst_fits pf m dst \<and> \<not> v_isSharedMPPUsed h \<and>
    (if isDimLayer src then isDimLayerSupported m = NO_ERROR
     else layer_supported h pf m display src dst)"
proof -
  note checks = c_fail_ok checkDstSize_ok checkUnResizable_ok checkResizable_ok checkScaleRatio_ok
  show ?thesis
    using assms
    by (simp add: isSupported_def layer_supported_def checks isSupportedHStrideCrop_def if_check_result)
qed

lemma isSupported_result:
  assumes "caps_ok m"
  shows "check_result 35 (isSupported h pf m display src dst)"
proof -
  have dim: "check_result 35 (Some (isDimLayerSupported m))"
    by (simp add: isDimLayerSupported_def)
  show ?thesis
    using assms dim
    by (simp add: isSupported_def c_fail_result if_check_result)
qed

text \<open>
  On such a resource no layer, buffer or display makes \<open>isSupported\<close> undefined,
  and a refusal is the negation of exactly one bit of the error enumeration, never cut by the
  32-bit status variable.
\<close>

theorem isSupported_total:
  assumes "caps_ok m"
  shows "check_result 35 (isSupported h pf m display src dst)"
  by (rule isSupported_result[OF assms])

text \<open>
  A display pipe accepts a turned layer only when it has the rotation bit and the
  format is 4:2:0 YUV, never flips a compressed (SBWC or AFBC) layer it does not turn, and only
  applies transform bits its attributes name.
\<close>

theorem dpp_rotation_rules:
  assumes dpp: "mPhysicalType m < MPP_DPP_NUM" and ok: "isSupportedTransform pf m src"
  shows "(transform src AND pf_rot_90 pf \<noteq> 0 \<longrightarrow>
            mAttr m AND MPP_ATTR_ROT_90 \<noteq> 0 \<and> fmt_isYUV420 (exynosFormat src)) \<and>
         (transform src AND pf_rot_90 pf = 0 \<and> transform src AND (pf_flip_h pf OR pf_flip_v pf) \<noteq> 0 \<longrightarrow>
            \<not> fmt_isSBWC (exynosFormat src) \<and>
            ci_type (compressionInfo src) \<notin> {COMP_TYPE_SBWC, COMP_TYPE_AFBC}) \<and>
         (transform src AND pf_flip_h pf \<noteq> 0 \<longrightarrow> mAttr m AND MPP_ATTR_FLIP_H \<noteq> 0) \<and>
         (transform src AND pf_flip_v pf \<noteq> 0 \<longrightarrow> mAttr m AND MPP_ATTR_FLIP_V \<noteq> 0)"
proof (cases "transform src = 0")
  case False
  with ok have rot: "checkRotationCondition pf m src"
    and bits: "transform src AND pf_flip_h pf \<noteq> 0 \<Longrightarrow> mAttr m AND MPP_ATTR_FLIP_H \<noteq> 0"
      "transform src AND pf_flip_v pf \<noteq> 0 \<Longrightarrow> mAttr m AND MPP_ATTR_FLIP_V \<noteq> 0"
    by (auto simp: isSupportedTransform_def transform_map_table_def split: if_splits)
  have "transform src AND (pf_flip_h pf OR pf_flip_v pf) \<noteq> 0 \<longleftrightarrow>
      transform src AND pf_flip_h pf \<noteq> 0 \<or> transform src AND pf_flip_v pf \<noteq> 0"
    by (simp add: bit.conj_disj_distrib or_eq_0_iff)
  with rot bits dpp show ?thesis
    by (auto simp: checkRotationCondition_def Let_def not_le split: if_splits)
qed simp

text \<open>A display pipe and a full-screen layer the witnesses below use.\<close>

definition sample_caps :: mpp_caps where
  "sample_caps =
    (let sizes = \<lparr>maxDownScale = 4, maxUpScale = 8, maxFullWidth = 65534, maxFullHeight = 8190,
        minFullWidth = 16, minFullHeight = 8, fullWidthAlign = 1, fullHeightAlign = 1,
        maxCropWidth = 4096, maxCropHeight = 4096, minCropWidth = 16, minCropHeight = 8,
        cropXAlign = 1, cropYAlign = 1, cropWidthAlign = 1, cropHeightAlign = 1\<rparr> in
     \<lparr>mMPPType = MPP_TYPE_OTF, mPhysicalType = MPP_DPP_VGRFS, mLogicalType = MPP_LOGICAL_DPP_VGRFS,
      mPreAssignDisplayInfo = 0, mAttr = MPP_ATTR_ROT_90 OR MPP_ATTR_FLIP_H OR MPP_ATTR_HDR10,
      mMaxSrcLayerNum = 1, mNeedSolidColorLayer = False,
      mTargetCompressionInfo = \<lparr>ci_type = COMP_TYPE_NONE, SAJCMaxBlockSize = 0, SAJCHeaderOffset = 0\<rparr>,
      mSrcSizeRestrictions = (\<lambda>_. sizes), mDstSizeRestrictions = (\<lambda>_. sizes),
      mFormatRestrictions = [\<lparr>hwType = MPP_DPP_VGRFS, nodeType = NODE_NONE, key_format = 0, key_reserved = 0\<rparr>]\<rparr>)"

definition sample_layer :: exynos_image where
  "sample_layer = image_reset\<lparr>fullWidth := 2560, fullHeight := 1440, img_w := 2560, img_h := 1440,
     exynosFormat := ExynosFormat 0, blending := 1, transform := 1\<rparr>"

definition sample_target :: exynos_image where
  "sample_target = sample_layer\<lparr>img_w := 1280, img_h := 720, transform := 0\<rparr>"

definition sample_hooks :: mpp_hooks where
  "sample_hooks = \<lparr>v_scaleAllowedByDPPPerformance = (\<lambda>_ _ _. True), v_isSharedMPPUsed = isSharedMPPUsed\<rparr>"

lemma sample_caps_ok: "caps_ok sample_caps"
  by (simp add: caps_ok_def sample_caps_def aligns_nonzero_def Let_def)

lemma rgb_0: "fmt_isRgb (ExynosFormat 0)" "\<not> fmt_isYUV420 (ExynosFormat 0)" "\<not> fmt_isSBWC (ExynosFormat 0)"
  by (simp_all add: code_defs desc_def exynos_format_desc_def code_consts Let_def)

lemma yuv_16: "fmt_isYUV420 (ExynosFormat 16)"
  by (simp add: code_defs desc_def exynos_format_desc_def code_consts Let_def)

lemmas sample_defs = sample_caps_def sample_layer_def sample_target_def sample_hooks_def sample_platform_def
  image_reset_def code_consts Let_def

lemma sample_supported:
  "dst_fits sample_platform sample_caps sample_target \<and> \<not> isDimLayer sample_layer \<and>
   \<not> v_isSharedMPPUsed sample_hooks"
  "layer_supported sample_hooks sample_platform sample_caps display_reset sample_layer sample_target"
  using rgb_0
  by (simp_all add: dst_fits_def isDimLayer_def isSharedMPPUsed_def layer_supported_def
      isSupportedCapability_def isSrcFormatSupported_def isDstFormatSupported_def fmt_halFormat_def
      isDataspaceSupportedByMPP_def isSupportedHDR10Plus_def hasHdr10Plus_def isSupportedBlend_def
      isSupportedTransform_def checkRotationCondition_def transform_map_table_def src_stride_fits_def
      isSupportedDRM_def getDrmMode_def src_crop_fits_def scale_fits_def isSupportedCompression_def
      isSupportLayerColorTransform_def display_reset_def in_bounds_def aligned_to_def
      getMaxDownscale_def rotated_w_def rotated_h_def mpp_getters is_S10B_def
      getRestrictionClassification_def sample_defs)

theorem isSupported_iff_witness:
  "isSupported sample_hooks sample_platform sample_caps display_reset sample_layer sample_target = Some NO_ERROR"
  using isSupported_iff[OF sample_caps_ok, of sample_hooks sample_platform display_reset sample_layer sample_target]
    sample_supported
  by simp

theorem isSupported_total_witness:
  "check_result 35 (isSupported sample_hooks sample_platform sample_caps display_reset sample_target image_reset)"
  by (rule isSupported_total[OF sample_caps_ok])

theorem dpp_rotation_rules_witness:
  "\<exists>src. mPhysicalType sample_caps < MPP_DPP_NUM \<and> isSupportedTransform sample_platform sample_caps src \<and>
     transform src AND pf_rot_90 sample_platform \<noteq> 0 \<and> fmt_isYUV420 (exynosFormat src)"
proof -
  define src where "src = sample_layer\<lparr>transform := 4, exynosFormat := ExynosFormat 16\<rparr>"
  have dpp: "mPhysicalType sample_caps < MPP_DPP_NUM" by (simp add: sample_defs)
  have ok: "isSupportedTransform sample_platform sample_caps src"
    using yuv_16
    by (simp add: isSupportedTransform_def checkRotationCondition_def transform_map_table_def src_def sample_defs)
  have "transform src AND pf_rot_90 sample_platform \<noteq> 0"
    by (simp add: src_def sample_platform_def)
  with dpp ok dpp_rotation_rules[OF dpp ok] show ?thesis by blast
qed

text \<open>
  A layer in an HDR transfer function (ST2084 or HLG) whose dataspace has to be
  converted is only accepted by a resource with the HDR10 or HDR10+ attribute, and converting any
  layer that is not HDR needs the wide-gamut attribute.
\<close>

lemma dataspace_find_hdr:
  assumes "inj (pf_transfer pf)" "t \<in> {TRANSFER_ST2084, TRANSFER_HLG}"
  shows "\<exists>d. dataspace_find (dataspace_transfer_map pf) (pf_transfer pf t) = Some d \<and>
    dm_supported_hwc_attr d = MPP_ATTR_HDR10 OR MPP_ATTR_HDR10PLUS"
proof -
  have eq: "pf_transfer pf x = pf_transfer pf y \<longleftrightarrow> x = y" for x y
    using assms(1) by (auto simp: inj_eq)
  show ?thesis
    using assms(2) by (auto simp: dataspace_find_def dataspace_transfer_map_def Let_def eq)
qed

theorem hdr_needs_hdr_resource:
  assumes inj: "inj (pf_transfer pf)"
    and ok: "isDataspaceSupportedByMPP pf m src dst"
    and conv: "dataSpace src AND pf_standard_mask pf \<noteq> dataSpace dst AND pf_standard_mask pf \<or>
      dataSpace src AND pf_transfer_mask pf \<noteq> dataSpace dst AND pf_transfer_mask pf"
    and spec: "pf_standard pf STANDARD_UNSPECIFIED \<notin>
      {dataSpace src AND pf_standard_mask pf, dataSpace dst AND pf_standard_mask pf}"
  shows "(dataSpace src AND pf_transfer_mask pf \<in> pf_transfer pf ` {TRANSFER_ST2084, TRANSFER_HLG} \<longrightarrow>
           mAttr m AND (MPP_ATTR_HDR10 OR MPP_ATTR_HDR10PLUS) \<noteq> 0) \<and>
         (\<not> hasHdrInfo pf src \<longrightarrow> mAttr m AND MPP_ATTR_WCG \<noteq> 0)"
proof -
  define st where "st = dataSpace src AND pf_transfer_mask pf"
  have go: "\<not> (\<not> hasHdrInfo pf src \<and> mAttr m AND MPP_ATTR_WCG = 0)"
    "\<not> (case dataspace_find (dataspace_transfer_map pf) st of
          None \<Rightarrow> False | Some d \<Rightarrow> \<not> (dm_supported_hwc_attr d AND mAttr m \<noteq> 0))"
    using ok conv spec
    unfolding isDataspaceSupportedByMPP_def Let_def st_def by (auto split: if_splits)
  moreover have "mAttr m AND (MPP_ATTR_HDR10 OR MPP_ATTR_HDR10PLUS) \<noteq> 0"
    if "st \<in> pf_transfer pf ` {TRANSFER_ST2084, TRANSFER_HLG}"
  proof -
    from that dataspace_find_hdr[OF inj] obtain d
      where "dataspace_find (dataspace_transfer_map pf) st = Some d"
        and "dm_supported_hwc_attr d = MPP_ATTR_HDR10 OR MPP_ATTR_HDR10PLUS" by blast
    with go(2) show ?thesis by (simp add: and.commute)
  qed
  ultimately show ?thesis unfolding st_def by blast
qed

text \<open>
  C35: while the limits times the sizes stay below 2^32 the scale check is the exact
  rational test: after the turn each side of the source is at most \<open>maxDownScale\<close> times the
  destination's and the destination's at most \<open>maxUpScale\<close> times the source's.
\<close>

theorem checkScaleRatio_exact:
  assumes "unat (rotated_w pf src dst) * unat (getMaxDownscale h m display src dst) < 2 ^ 32"
    and "unat (rotated_h pf src dst) * unat (getMaxDownscale h m display src dst) < 2 ^ 32"
    and "unat (img_w src) * unat (getMaxUpscale m src) < 2 ^ 32"
    and "unat (img_h src) * unat (getMaxUpscale m src) < 2 ^ 32"
    and pos: "0 < img_w src" "0 < img_h src" "0 < rotated_w pf src dst" "0 < rotated_h pf src dst"
  shows "checkScaleRatio h pf m display src dst = NO_ERROR \<longleftrightarrow>
     (of_nat (unat (img_w src)) / of_nat (unat (rotated_w pf src dst)) :: rat)
         \<le> of_nat (unat (getMaxDownscale h m display src dst)) \<and>
     (of_nat (unat (img_h src)) / of_nat (unat (rotated_h pf src dst)) :: rat)
         \<le> of_nat (unat (getMaxDownscale h m display src dst)) \<and>
     (of_nat (unat (rotated_w pf src dst)) / of_nat (unat (img_w src)) :: rat) \<le> of_nat (unat (getMaxUpscale m src)) \<and>
     (of_nat (unat (rotated_h pf src dst)) / of_nat (unat (img_h src)) :: rat) \<le> of_nat (unat (getMaxUpscale m src))"
proof -
  have div: "(of_nat a / of_nat b :: rat) \<le> of_nat c \<longleftrightarrow> a \<le> b * c" if "0 < b" for a b c :: nat
  proof -
    have "(of_nat a / of_nat b :: rat) \<le> of_nat c \<longleftrightarrow> rat_of_nat a \<le> rat_of_nat (c * b)"
      using that by (simp add: pos_divide_le_eq)
    then show ?thesis by (simp only: of_nat_le_iff mult.commute)
  qed
  have "0 < unat (img_w src)" "0 < unat (img_h src)" "0 < unat (rotated_w pf src dst)" "0 < unat (rotated_h pf src dst)"
    using pos by (simp_all add: word_less_nat_alt)
  note d = this [THEN div]
  show ?thesis
    unfolding checkScaleRatio_ok scale_fits_def Let_def d using assms(1-4) by auto
qed

theorem checkScaleRatio_exact_witness:
  "checkScaleRatio sample_hooks sample_platform sample_caps display_reset sample_layer sample_target = NO_ERROR \<and>
   (of_nat (unat (img_w sample_layer)) / of_nat (unat (rotated_w sample_platform sample_layer sample_target)) :: rat) \<le> 4"
proof -
  have ok: "checkScaleRatio sample_hooks sample_platform sample_caps display_reset sample_layer sample_target = NO_ERROR"
    using sample_supported(2) by (simp add: layer_supported_def checkScaleRatio_ok)
  have eval: "rotated_w sample_platform sample_layer sample_target = 1280"
    "rotated_h sample_platform sample_layer sample_target = 720"
    "getMaxDownscale sample_hooks sample_caps display_reset sample_layer sample_target = 4"
    "getMaxUpscale sample_caps sample_layer = 8" "img_w sample_layer = 2560" "img_h sample_layer = 1440"
    by (simp_all add: rotated_w_def rotated_h_def getMaxDownscale_def getMaxUpscale_def sample_defs)
  have "(of_nat (unat (img_w sample_layer)) / of_nat (unat (rotated_w sample_platform sample_layer sample_target)) :: rat)
      \<le> of_nat (unat (getMaxDownscale sample_hooks sample_caps display_reset sample_layer sample_target))"
    by (rule conjunct1, rule iffD1[OF checkScaleRatio_exact ok]) (simp_all add: eval)
  with ok show ?thesis by (simp add: eval)
qed

text \<open>A platform whose transfer codes differ, for the witness of the HDR rule.\<close>

definition hdr_platform :: platform where
  "hdr_platform = sample_platform\<lparr>pf_transfer := (\<lambda>t. case t of TRANSFER_UNSPECIFIED \<Rightarrow> 0
     | TRANSFER_LINEAR \<Rightarrow> 0x400000 | TRANSFER_SRGB \<Rightarrow> 0x800000 | TRANSFER_SMPTE_170M \<Rightarrow> 0xc00000
     | TRANSFER_GAMMA2_2 \<Rightarrow> 0x1000000 | TRANSFER_GAMMA2_6 \<Rightarrow> 0x1400000 | TRANSFER_GAMMA2_8 \<Rightarrow> 0x1800000
     | TRANSFER_ST2084 \<Rightarrow> 0x1c00000 | TRANSFER_HLG \<Rightarrow> 0x2000000)\<rparr>"

theorem hdr_needs_hdr_resource_witness:
  "isDataspaceSupportedByMPP hdr_platform sample_caps
     (image_reset\<lparr>dataSpace := 0x1c60000\<rparr>) (image_reset\<lparr>dataSpace := 0x810000\<rparr>) \<and>
   mAttr sample_caps AND (MPP_ATTR_HDR10 OR MPP_ATTR_HDR10PLUS) \<noteq> 0"
proof -
  have inj: "inj (pf_transfer hdr_platform)"
    by (rule injI) (simp add: hdr_platform_def split: ds_transfer.splits)
  have ok: "isDataspaceSupportedByMPP hdr_platform sample_caps
     (image_reset\<lparr>dataSpace := 0x1c60000\<rparr>) (image_reset\<lparr>dataSpace := 0x810000\<rparr>)"
    by (simp add: isDataspaceSupportedByMPP_def hasHdrInfo_def dataspace_find_def dataspace_standard_map_def
        dataspace_transfer_map_def checkCSCRestriction_def hdr_platform_def sample_defs)
  show ?thesis
    using ok hdr_needs_hdr_resource[OF inj ok]
    by (simp add: hdr_platform_def sample_platform_def)
qed

end
