(* ===== verification/Float32.thy ===== *)
theory Float32
  imports Prelude "HOL-Library.Log_Nat"
begin

text \<open>
  The C++ \<open>float\<close> and \<open>double\<close> values the capacity code computes with, as rationals rounded to 24 or 53
  binary digits after each operation, to nearest with ties to even. The code's values are far from
  the ends of the exponent range (resolutions below 2^32, divided by pixels per clock not below
  10^-6), so subnormal numbers, overflow and the special values are left out.
\<close>

section \<open>Rounding\<close>

text \<open>The exponent of a positive rational: \<open>2 powi rat_exp x \<le> x < 2 powi (rat_exp x + 1)\<close>.\<close>

definition rat_exp :: "rat \<Rightarrow> int" where
  "rat_exp x =
    (let (n, d) = quotient_of x;
         e = int (floorlog 2 (nat n)) - int (floorlog 2 (nat d))
     in if 2 powi e \<le> x then e else e - 1)"

definition round_even :: "rat \<Rightarrow> int" where
  "round_even x =
    (let n = \<lfloor>x\<rfloor>; f = x - of_int n in
     if f < 1 / 2 then n
     else if f > 1 / 2 then n + 1
     else if even n then n else n + 1)"

definition fp_round :: "nat \<Rightarrow> rat \<Rightarrow> rat" where
  "fp_round p x =
    (if x = 0 then 0
     else (let k = rat_exp \<bar>x\<bar> - (int p - 1) in of_int (round_even (x / 2 powi k)) * 2 powi k))"

definition f32 :: "rat \<Rightarrow> rat" where "f32 = fp_round 24"
definition f64 :: "rat \<Rightarrow> rat" where "f64 = fp_round 53"

section \<open>Facts\<close>

lemma floorlog_bounds: "0 < n \<Longrightarrow> 2 ^ (floorlog 2 n - 1) \<le> n \<and> n < 2 ^ floorlog 2 n"
  using floorlog_bounds[of n 2] by simp

lemma rat_exp_bounds:
  assumes "0 < x"
  shows "2 powi rat_exp x \<le> x" "x < 2 powi (rat_exp x + 1)"
proof -
  obtain n d where q: "quotient_of x = (n, d)" by (cases "quotient_of x")
  then have d: "0 < d" and x: "x = of_int n / of_int d"
    by (simp_all add: quotient_of_denom_pos quotient_of_div)
  with assms have n: "0 < n" by (simp add: zero_less_divide_iff)
  let ?a = "floorlog 2 (nat n)" and ?b = "floorlog 2 (nat d)"
  have a: "2 ^ (?a - 1) \<le> nat n" "nat n < 2 ^ ?a" and b: "2 ^ (?b - 1) \<le> nat d" "nat d < 2 ^ ?b"
    using floorlog_bounds[of "nat n"] floorlog_bounds[of "nat d"] n d by simp_all
  have pos: "0 < ?a" "0 < ?b" using n d by (simp_all add: floorlog_def)
  have up: "rat_of_int n < 2 ^ ?a" "rat_of_int d < 2 ^ ?b"
    using a(2) b(2) n d
    by (metis nat_less_numeral_power_cancel_iff of_int_less_numeral_power_cancel_iff)+
  have "2 ^ (?a - 1) \<le> rat_of_int n" "2 ^ (?b - 1) \<le> rat_of_int d"
    using a(1) b(1) n d
    by (metis numeral_power_le_nat_cancel_iff numeral_power_le_of_int_cancel_iff)+
  then have lo: "2 ^ ?a \<le> 2 * rat_of_int n" "2 ^ ?b \<le> 2 * rat_of_int d"
    using pos by (simp_all add: power_eq_if)
  define e where "e = int ?a - int ?b"
  have pe: "(2 :: rat) powi e = 2 ^ ?a / 2 ^ ?b"
    by (simp add: e_def power_int_diff)
  have "x * (2 ^ ?b) < 2 * 2 ^ ?a"
  proof -
    have "x * 2 ^ ?b \<le> x * (2 * of_int d)" using lo(2) assms by (intro mult_left_mono) simp_all
    also have "\<dots> = 2 * of_int n" using d by (simp add: x)
    also have "\<dots> < 2 * 2 ^ ?a" using up(1) by simp
    finally show ?thesis .
  qed
  then have hi: "x < 2 * 2 powi e" by (simp add: pe field_simps)
  have "2 ^ ?a < 2 * x * 2 ^ ?b"
  proof -
    have "2 ^ ?a \<le> 2 * rat_of_int n" by (rule lo(1))
    also have "\<dots> = 2 * x * of_int d" using d by (simp add: x)
    also have "\<dots> < 2 * x * 2 ^ ?b" using up(2) assms by simp
    finally show ?thesis .
  qed
  then have low: "2 powi e < 2 * x" by (simp add: pe field_simps)
  have step: "(2 :: rat) powi (e - 1) = 2 powi e / 2" "(2 :: rat) powi (e + 1) = 2 * 2 powi e"
    by (simp_all add: power_int_diff power_int_add)
  show "2 powi rat_exp x \<le> x" "x < 2 powi (rat_exp x + 1)"
    using hi low step by (auto simp: rat_exp_def q Let_def e_def[symmetric])
qed

lemma round_even_of_int [simp]: "round_even (of_int n) = n"
  by (simp add: round_even_def)

lemma round_even_nonneg: "0 \<le> x \<Longrightarrow> 0 \<le> round_even x"
  by (auto simp: round_even_def Let_def)

lemma fp_round_0 [simp]: "fp_round p 0 = 0"
  by (simp add: fp_round_def)

lemma fp_round_nonneg: "0 \<le> x \<Longrightarrow> 0 \<le> fp_round p x"
  by (simp add: fp_round_def Let_def round_even_nonneg)

text \<open>A natural number of at most \<open>p\<close> bits is its own rounding.\<close>

lemma fp_round_nat:
  assumes "n < 2 ^ p"
  shows "fp_round p (of_nat n) = of_nat n"
proof (cases "n = 0")
  case False
  define e where "e = rat_exp (of_nat n)"
  have lo: "2 powi e \<le> rat_of_nat n" using rat_exp_bounds(1)[of "of_nat n"] False by (simp add: e_def)
  have "rat_of_nat n < 2 powi int p"
    using assms by (metis of_nat_less_numeral_power_cancel_iff power_int_of_nat)
  with lo have "(2 :: rat) powi e < 2 powi int p" by linarith
  then have "e < int p"
    by (meson linorder_not_less one_le_numeral power_int_increasing)
  then obtain j where j: "int p - 1 - e = int j" by (metis nonneg_int_cases zle_diff1_eq diff_ge_0_iff_ge diff_diff_eq2)
  have k: "e - (int p - 1) = - int j" using j by simp
  have "rat_of_nat n / 2 powi (- int j) = of_int (int n * 2 ^ j)"
    by (simp add: power_int_minus divide_inverse)
  then have "round_even (rat_of_nat n / 2 powi (- int j)) = int n * 2 ^ j"
    by (simp only: round_even_of_int)
  then show ?thesis
    using False by (simp add: fp_round_def Let_def e_def[symmetric] k) (simp add: power_int_minus)
qed simp

lemma f32_nat: "n < 2 ^ 24 \<Longrightarrow> f32 (of_nat n) = of_nat n"
  and f64_nat: "n < 2 ^ 53 \<Longrightarrow> f64 (of_nat n) = of_nat n"
  by (simp_all only: f32_def f64_def fp_round_nat)

lemma f32_0 [simp]: "f32 0 = 0" and f64_0 [simp]: "f64 0 = 0"
  by (simp_all add: f32_def f64_def)

lemma f32_nonneg: "0 \<le> x \<Longrightarrow> 0 \<le> f32 x" and f64_nonneg: "0 \<le> x \<Longrightarrow> 0 \<le> f64 x"
  by (simp_all add: f32_def f64_def fp_round_nonneg)

text \<open>A positive number stays positive: its rounding is at least the power of two below it.\<close>

lemma round_even_ge: "of_int n \<le> x \<Longrightarrow> n \<le> round_even x"
  by (simp add: round_even_def Let_def) linarith

lemma fp_round_pos:
  assumes "0 < x" "0 < p"
  shows "0 < fp_round p x"
proof -
  define k where "k = rat_exp x - (int p - 1)"
  have "(2 :: rat) powi k \<le> 2 powi rat_exp x"
    using assms(2) by (intro power_int_increasing) (simp_all add: k_def)
  then have "1 \<le> x / 2 powi k"
    using rat_exp_bounds(1)[OF assms(1)] by (simp add: pos_le_divide_eq)
  then have "1 \<le> round_even (x / 2 powi k)" by (intro round_even_ge) simp
  then show ?thesis using assms by (simp add: fp_round_def Let_def k_def[symmetric] zero_less_mult_iff)
qed

lemma f32_pos: "0 < x \<Longrightarrow> 0 < f32 x" and f64_pos: "0 < x \<Longrightarrow> 0 < f64 x"
  by (simp_all add: f32_def f64_def fp_round_pos)

text \<open>Rounding moves a positive number by a factor of at most two.\<close>

lemma round_even_bounds: "x - 1 / 2 \<le> of_int (round_even x)" "of_int (round_even x) \<le> x + 1 / 2"
  by (simp_all add: round_even_def Let_def) linarith+

lemma fp_round_bounds:
  assumes "0 < x" "0 < p"
  shows "x / 2 \<le> fp_round p x" "fp_round p x \<le> 2 * x"
proof -
  define k where "k = rat_exp x - (int p - 1)"
  define y where "y = x / 2 powi k"
  have "(2 :: rat) powi k \<le> 2 powi rat_exp x"
    using assms(2) by (intro power_int_increasing) (simp_all add: k_def)
  then have "1 \<le> y"
    using rat_exp_bounds(1)[OF assms(1)] by (simp add: y_def pos_le_divide_eq)
  then have "y / 2 \<le> of_int (round_even y)" "of_int (round_even y) \<le> 2 * y"
    using round_even_bounds[of y] by linarith+
  moreover have "fp_round p x = of_int (round_even y) * 2 powi k"
    using assms by (simp add: fp_round_def Let_def k_def[symmetric] y_def)
  moreover have "x = y * 2 powi k" by (simp add: y_def)
  ultimately show "x / 2 \<le> fp_round p x" "fp_round p x \<le> 2 * x"
    using mult_right_mono[of "y / 2" "of_int (round_even y)" "2 powi k"]
      mult_right_mono[of "of_int (round_even y)" "2 * y" "2 powi k"] by simp_all
qed

lemma f32_bounds: "0 < x \<Longrightarrow> x / 2 \<le> f32 x \<and> f32 x \<le> 2 * x"
  unfolding f32_def by (intro conjI fp_round_bounds) simp_all

lemma fp_round_minus: "x < 0 \<Longrightarrow> 0 < p \<Longrightarrow> fp_round p x < 0"
proof -
  assume x: "x < 0" and p: "0 < p"
  define k where "k = rat_exp (- x) - (int p - 1)"
  have "(2 :: rat) powi k \<le> 2 powi rat_exp (- x)"
    using p by (intro power_int_increasing) (simp_all add: k_def)
  also have "\<dots> \<le> - x" using rat_exp_bounds(1)[of "- x"] x by simp
  finally have "x / 2 powi k \<le> - 1" by (simp add: pos_divide_le_eq)
  then have "of_int (round_even (x / 2 powi k)) < (0 :: rat)"
    using round_even_bounds(2)[of "x / 2 powi k"] by linarith
  with x show ?thesis by (simp add: fp_round_def Let_def k_def[symmetric] mult_less_0_iff)
qed

lemma f32_neg: "x < 0 \<Longrightarrow> f32 x < 0"
  by (simp add: f32_def fp_round_minus)

end
