(* ===== verification/MppCapacity.thy ===== *)
theory MppCapacity
  imports MppSupport Float32
begin

text \<open>
  The capacity accounting of a resource (\<open>resources/ExynosMPP.cpp\<close>, \<open>getPPCIndex\<close> to
  \<open>getMPPClock\<close>): how many pixels per clock a layer is processed with, how many cycles the assigned
  layers cost, and whether one more layer fits. Sources are shared objects reached through
  pointers, so a resource holds their addresses and the operations take the store that maps an
  address to a source. \<open>float\<close> values are rationals rounded as \<open>Float32\<close> says.
\<close>

section \<open>Sources and resources\<close>

record mpp_source =
  mSourceType :: u32
  mSrcImg :: exynos_image
  mDstImg :: exynos_image
  mMidImg :: exynos_image
  mOtfMPP :: "nat option"
  mM2mMPP :: "nat option"

type_synonym store = "nat \<Rightarrow> mpp_source"

definition source_init :: "u32 \<Rightarrow> mpp_source" where
  "source_init sourceType = \<lparr>mSourceType = sourceType, mSrcImg = image_reset, mDstImg = image_reset,
     mMidImg = image_reset, mOtfMPP = None, mM2mMPP = None\<rparr>"

definition setExynosImage :: "exynos_image \<Rightarrow> exynos_image \<Rightarrow> mpp_source \<Rightarrow> mpp_source" where
  "setExynosImage src dst s = s\<lparr>mSrcImg := src, mDstImg := dst\<rparr>"

definition setExynosMidImage :: "exynos_image \<Rightarrow> mpp_source \<Rightarrow> mpp_source" where
  "setExynosMidImage mid s = s\<lparr>mMidImg := mid\<rparr>"

text \<open>\<open>self\<close> is the address of the resource, what \<open>this\<close> is in the code.\<close>

record mpp = mpp_caps +
  self :: nat
  mPhysicalIndex :: u32
  mLogicalIndex :: u32
  mChId :: int
  mEnableByDebug :: bool
  mHWState :: u32
  mLastStateFenceFd :: int
  mAssignedState :: u32
  mDisableByUserScenario :: u32
  mAssignedDisplayInfo :: DisplayInfo
  mAssignedSources :: "nat list"
  mPrevAssignedState :: u32
  mPrevAssignedDisplayType :: int
  mReservedDisplayInfo :: DisplayInfo
  mCapacity :: rat
  mUsedCapacity :: rat
  mPreAssignedCapacity :: rat
  mUsedBaseCycles :: rat
  mRotatedSrcCropBW :: u32
  mNoRotatedSrcCropBW :: u32
  mHWBusyFlag :: bool

section \<open>Pixels per clock\<close>

definition PPC_SCALE_NO :: nat where [code_consts]: "PPC_SCALE_NO = 0"
definition PPC_SCALE_DOWN_1_4 :: nat where [code_consts]: "PPC_SCALE_DOWN_1_4 = 1"
definition PPC_SCALE_DOWN_4_9 :: nat where [code_consts]: "PPC_SCALE_DOWN_4_9 = 2"
definition PPC_SCALE_DOWN_9_16 :: nat where [code_consts]: "PPC_SCALE_DOWN_9_16 = 3"
definition PPC_SCALE_DOWN_16 :: nat where [code_consts]: "PPC_SCALE_DOWN_16 = 4"
definition PPC_SCALE_UP_1_4 :: nat where [code_consts]: "PPC_SCALE_UP_1_4 = 5"
definition PPC_SCALE_UP_4 :: nat where [code_consts]: "PPC_SCALE_UP_4 = 6"
definition PPC_SCALE_MAX :: nat where [code_consts]: "PPC_SCALE_MAX = 7"
definition PPC_FORMAT_YUV420 :: u32 where [code_consts]: "PPC_FORMAT_YUV420 = 0"
definition PPC_FORMAT_YUV422 :: u32 where [code_consts]: "PPC_FORMAT_YUV422 = 1"
definition PPC_FORMAT_RGB32 :: u32 where [code_consts]: "PPC_FORMAT_RGB32 = 2"
definition PPC_FORMAT_YUV8_2 :: u32 where [code_consts]: "PPC_FORMAT_YUV8_2 = 3"
definition PPC_FORMAT_P010 :: u32 where [code_consts]: "PPC_FORMAT_P010 = 4"
definition PPC_FORMAT_SBWC :: u32 where [code_consts]: "PPC_FORMAT_SBWC = 5"
definition PPC_FORMAT_AFBC :: u32 where [code_consts]: "PPC_FORMAT_AFBC = 6"
definition PPC_ROT_NO :: u32 where [code_consts]: "PPC_ROT_NO = 0"
definition PPC_ROT :: u32 where [code_consts]: "PPC_ROT = 1"

definition PPC_IDX :: "u32 \<Rightarrow> u32 \<Rightarrow> u32 \<Rightarrow> u32" where
  "PPC_IDX x y z = x OR push_bit 10 y OR push_bit 20 z"

text \<open>
  A table of pixels per clock: an index to the seven values of its scalings. The table is a
  \<open>static\<close> variable of a header, so every file that includes it has its own copy: \<open>hasPPC\<close> reads the
  one of \<open>ExynosHWCHelper.cpp\<close>, the look-up of \<open>getPPC\<close> the one of \<open>ExynosMPP.cpp\<close>, which
  \<open>updatePPCTable\<close> replaces. \<open>ppc_tables\<close> holds both.
\<close>

record ppc_tables =
  ppc_helper :: "u32 \<rightharpoonup> (nat \<Rightarrow> rat)"
  ppc_mpp :: "u32 \<rightharpoonup> (nat \<Rightarrow> rat)"

definition updatePPCTable :: "(u32 \<rightharpoonup> (nat \<Rightarrow> rat)) \<Rightarrow> ppc_tables \<Rightarrow> ppc_tables" where
  "updatePPCTable t tabs = tabs\<lparr>ppc_mpp := t\<rparr>"

definition hasPPC :: "ppc_tables \<Rightarrow> u32 \<Rightarrow> u32 \<Rightarrow> u32 \<Rightarrow> bool" where
  "hasPPC tabs physicalType formatIndex rotIndex =
     (if ppc_helper tabs (PPC_IDX physicalType formatIndex rotIndex) \<noteq> None then True else False)"

definition G2D_BASE_PPC_COLORFILL :: rat where "G2D_BASE_PPC_COLORFILL = f64 (38 / 10)"
definition G2D_CLOCK :: u32 where [code_consts]: "G2D_CLOCK = 711000"
definition MSC_CLOCK :: u32 where [code_consts]: "MSC_CLOCK = 534000"
definition MPP_HDR_MARGIN :: rat where "MPP_HDR_MARGIN = f64 (12 / 10)"

definition resolution :: "exynos_image \<Rightarrow> u32" where
  "resolution img = img_w img * img_h img"

text \<open>The three indices: format, rotation, scale. Products of sizes wrap at 32 bits.\<close>

definition ppc_format_index ::
  "ppc_tables \<Rightarrow> 'a mpp_scheme \<Rightarrow> exynos_image \<Rightarrow> exynos_image \<Rightarrow> u32" where
  "ppc_format_index tabs m src criteria =
    (let f = exynosFormat criteria; has = (\<lambda>i. hasPPC tabs (mPhysicalType m) i PPC_ROT_NO) in
     if fmt_isSBWC f \<and> has PPC_FORMAT_SBWC then PPC_FORMAT_SBWC
     else if fmt_isP010 f \<and> has PPC_FORMAT_P010 then PPC_FORMAT_P010
     else if fmt_isYUV8_2 f \<and> has PPC_FORMAT_YUV8_2 then PPC_FORMAT_YUV8_2
     else if fmt_isYUV420 f \<and> has PPC_FORMAT_YUV420 then PPC_FORMAT_YUV420
     else if fmt_isYUV422 f \<and> has PPC_FORMAT_YUV422 then PPC_FORMAT_YUV422
     else if ci_type (compressionInfo src) = COMP_TYPE_AFBC \<and> has PPC_FORMAT_AFBC then PPC_FORMAT_AFBC
     else PPC_FORMAT_RGB32)"

definition ppc_scale_index :: "'a mpp_scheme \<Rightarrow> exynos_image \<Rightarrow> exynos_image \<Rightarrow> nat" where
  "ppc_scale_index m src dst =
    (let srcResolution = resolution src; dstResolution = resolution dst in
     if mPhysicalType m = MPP_G2D then
       (if srcResolution = dstResolution then PPC_SCALE_NO
        else if dstResolution > srcResolution then
          (if dstResolution \<ge> srcResolution * 4 then PPC_SCALE_UP_4 else PPC_SCALE_UP_1_4)
        else
          (if dstResolution * 16 \<le> srcResolution then PPC_SCALE_DOWN_16
           else if dstResolution * 9 \<le> srcResolution \<and> srcResolution < dstResolution * 16 then PPC_SCALE_DOWN_9_16
           else if dstResolution * 4 \<le> srcResolution \<and> srcResolution < dstResolution * 9 then PPC_SCALE_DOWN_4_9
           else PPC_SCALE_DOWN_1_4))
     else 0)"

definition getPPCIndex ::
  "'b platform_scheme \<Rightarrow> ppc_tables \<Rightarrow> 'a mpp_scheme \<Rightarrow> exynos_image \<Rightarrow> exynos_image \<Rightarrow> exynos_image
    \<Rightarrow> u32 \<times> u32 \<times> nat" where
  "getPPCIndex pf tabs m src dst criteria =
    (ppc_format_index tabs m src criteria,
     if transform criteria AND pf_rot_90 pf \<noteq> 0 \<or> mRotatedSrcCropBW m > 0 then PPC_ROT else PPC_ROT_NO,
     ppc_scale_index m src dst)"

text \<open>The table entry, zero when there is none.\<close>

definition ppc_lookup :: "ppc_tables \<Rightarrow> 'a mpp_scheme \<Rightarrow> u32 \<Rightarrow> u32 \<Rightarrow> nat \<Rightarrow> rat" where
  "ppc_lookup tabs m formatIndex rotIndex scaleIndex =
     (if mPhysicalType m = MPP_G2D \<or> mPhysicalType m = MPP_MSC then
        (if hasPPC tabs (mPhysicalType m) formatIndex rotIndex then
           (case ppc_mpp tabs (PPC_IDX (mPhysicalType m) formatIndex rotIndex) of
              Some node \<Rightarrow> node scaleIndex
            | None \<Rightarrow> 0)
         else 0)
      else 0)"

text \<open>\<open>check\<close> is the source image of the layer being tried, when there is one.\<close>

definition getPPC ::
  "'b platform_scheme \<Rightarrow> ppc_tables \<Rightarrow> 'a mpp_scheme \<Rightarrow> exynos_image \<Rightarrow> exynos_image \<Rightarrow> exynos_image
    \<Rightarrow> exynos_image option \<Rightarrow> rat" where
  "getPPC pf tabs m src dst criteria check =
    (if mPhysicalType m = MPP_G2D \<and> layerFlags src AND EXYNOS_HWC_DIM_LAYER \<noteq> 0 then f32 G2D_BASE_PPC_COLORFILL
     else
       (let (formatIndex, rot, scaleIndex) = getPPCIndex pf tabs m src dst criteria;
            rotIndex = (if rot = PPC_ROT_NO \<and>
                (case check of None \<Rightarrow> False | Some c \<Rightarrow> transform c AND pf_rot_90 pf \<noteq> 0) then PPC_ROT else rot);
            ppc = ppc_lookup tabs m formatIndex rotIndex scaleIndex
        in if ppc = 0 then f32 (f64 (1 / 1000000)) else ppc))"

section \<open>Cycles and capacity\<close>

definition getMPPClock :: "'a mpp_scheme \<Rightarrow> u32" where
  "getMPPClock m =
    (if mPhysicalType m = MPP_G2D then G2D_CLOCK
     else if mPhysicalType m = MPP_MSC then MSC_CLOCK
     else 0)"

text \<open>Conversions and operators of C++ on the types the code uses.\<close>

definition fl_u32 :: "u32 \<Rightarrow> rat" where "fl_u32 x = f32 (of_nat (unat x))"
definition fl_add :: "rat \<Rightarrow> rat \<Rightarrow> rat" where "fl_add a b = f32 (a + b)"
definition fl_sub :: "rat \<Rightarrow> rat \<Rightarrow> rat" where "fl_sub a b = f32 (a - b)"
definition fl_mul :: "rat \<Rightarrow> rat \<Rightarrow> rat" where "fl_mul a b = f32 (a * b)"
definition fl_div :: "rat \<Rightarrow> rat \<Rightarrow> rat" where "fl_div a b = f32 (a / b)"

text \<open>\<open>(w * h) / G2D_BASE_PPC_COLORFILL\<close>, a \<open>double\<close>.\<close>

definition colorfill_cycles :: "DisplayInfo \<Rightarrow> rat" where
  "colorfill_cycles d = f64 (of_nat (unat (xres d * yres d)) / G2D_BASE_PPC_COLORFILL)"

definition maxResolution :: "exynos_image \<Rightarrow> exynos_image \<Rightarrow> u32" where
  "maxResolution src dst = max (resolution src) (resolution dst)"

definition getRequiredBaseCycles ::
  "'b platform_scheme \<Rightarrow> ppc_tables \<Rightarrow> 'a mpp_scheme \<Rightarrow> exynos_image \<Rightarrow> exynos_image \<Rightarrow> rat" where
  "getRequiredBaseCycles pf tabs m src dst =
    (if mPhysicalType m \<noteq> MPP_G2D then 0
     else fl_div (fl_u32 (maxResolution src dst)) (getPPC pf tabs m src dst src None))"

text \<open>Whether only the cycles of the new layer have to be added: no change of rotation.\<close>

definition only_current :: "'b platform_scheme \<Rightarrow> 'a mpp_scheme \<Rightarrow> exynos_image \<Rightarrow> bool" where
  "only_current pf m src \<longleftrightarrow>
     mAssignedSources m = [] \<or> mRotatedSrcCropBW m \<noteq> 0 \<or>
     (mRotatedSrcCropBW m = 0 \<and> transform src AND pf_rot_90 pf = 0)"

definition is2StepBlendingRequired :: bool where "is2StepBlendingRequired = False"

definition getRequiredCapacity ::
  "'b platform_scheme \<Rightarrow> ppc_tables \<Rightarrow> store \<Rightarrow> 'a mpp_scheme \<Rightarrow> DisplayInfo \<Rightarrow> exynos_image \<Rightarrow> exynos_image \<Rightarrow> rat" where
  "getRequiredCapacity pf tabs st m display src dst =
    (if mPhysicalType m = MPP_G2D then
       (let baseCycles =
          (if only_current pf m src then
             (let cur = (if mAssignedSources m = [] \<and> di_id (displayIdentifier display) \<noteq> UINT32_MAX
                            \<and> mMaxSrcLayerNum m > 1
                         then f32 (colorfill_cycles display) else 0);
                  cur = fl_add cur (getRequiredBaseCycles pf tabs m src dst)
              in fl_add (mUsedBaseCycles m) cur)
           else
             (let base = (if di_id (displayIdentifier display) \<noteq> UINT32_MAX \<and> mMaxSrcLayerNum m > 1
                          then f32 (0 + colorfill_cycles display) else 0);
                  base = foldl (\<lambda>acc a.
                      let s = st a in
                      fl_add acc (fl_div (fl_u32 (maxResolution (mSrcImg s) (mMidImg s)))
                        (getPPC pf tabs m (mSrcImg s) (mMidImg s) (mSrcImg s) (Some src))))
                    base (mAssignedSources m)
              in fl_add base (fl_div (fl_u32 (maxResolution src dst)) (getPPC pf tabs m src dst src (Some src)))))
        in fl_div baseCycles (fl_u32 (getMPPClock m)))
     else if mPhysicalType m = MPP_MSC then
       (let srcPPC = getPPC pf tabs m src dst src None;
            dstPPC = getPPC pf tabs m src dst dst None;
            srcCapacity = fl_div (fl_u32 (resolution src)) (fl_mul (fl_u32 (getMPPClock m)) srcPPC);
            dstCapacity = fl_div (fl_u32 (resolution dst)) (fl_mul (fl_u32 (getMPPClock m)) dstPPC);
            capacity = fl_add (mUsedCapacity m) (max srcCapacity dstCapacity)
        in if mLogicalType m = MPP_LOGICAL_MSC_COMBO \<and> mMaxSrcLayerNum m > 1 \<and> mAssignedSources m \<noteq> []
              \<and> is2StepBlendingRequired
           then fl_add capacity (max srcCapacity dstCapacity) else capacity)
     else 0)"

definition getAssignedCapacity ::
  "'b platform_scheme \<Rightarrow> ppc_tables \<Rightarrow> store \<Rightarrow> 'a mpp_scheme \<Rightarrow> rat" where
  "getAssignedCapacity pf tabs st m =
    (if mPhysicalType m \<noteq> MPP_G2D then 0
     else if di_id (displayIdentifier (mAssignedDisplayInfo m)) \<noteq> UINT32_MAX
          \<and> di_type (displayIdentifier (mAssignedDisplayInfo m)) = pf_display_virtual pf then 0
     else
       (let base = (if di_id (displayIdentifier (mAssignedDisplayInfo m)) \<noteq> UINT32_MAX \<and> mMaxSrcLayerNum m > 1
                    then f32 (0 + colorfill_cycles (mAssignedDisplayInfo m)) else 0);
            base = foldl (\<lambda>acc a.
                let s = st a;
                    ppc = (if layerFlags (mSrcImg s) AND EXYNOS_HWC_DIM_LAYER \<noteq> 0 then f32 G2D_BASE_PPC_COLORFILL
                           else getPPC pf tabs m (mSrcImg s) (mMidImg s) (mSrcImg s) (Some (mSrcImg s)));
                    srcCycles = fl_div (fl_u32 (maxResolution (mSrcImg s) (mMidImg s))) ppc
                in if hasHdrInfo pf (mSrcImg s) \<or> getDrmMode pf (usageFlags (mSrcImg s)) \<noteq> NO_DRM then acc
                   else fl_add acc srcCycles)
              base (mAssignedSources m)
        in fl_div base (fl_u32 (getMPPClock m))))"

section \<open>Updating the used capacity\<close>

definition resetUsedCapacity :: "'a mpp_scheme \<Rightarrow> 'a mpp_scheme" where
  "resetUsedCapacity m =
     m\<lparr>mUsedCapacity := 0, mUsedBaseCycles := 0, mRotatedSrcCropBW := 0, mNoRotatedSrcCropBW := 0\<rparr>"

definition add_crop_bw :: "'b platform_scheme \<Rightarrow> exynos_image \<Rightarrow> 'a mpp_scheme \<Rightarrow> 'a mpp_scheme" where
  "add_crop_bw pf img m =
    (if transform img AND pf_rot_90 pf = 0
     then m\<lparr>mNoRotatedSrcCropBW := mNoRotatedSrcCropBW m + resolution img\<rparr>
     else m\<lparr>mRotatedSrcCropBW := mRotatedSrcCropBW m + resolution img\<rparr>)"

text \<open>The value is whether the caller has to call \<open>updateUsedCapacity\<close>.\<close>

definition addCapacity ::
  "'b platform_scheme \<Rightarrow> ppc_tables \<Rightarrow> store \<Rightarrow> nat option \<Rightarrow> 'a mpp_scheme \<Rightarrow> bool \<times> 'a mpp_scheme" where
  "addCapacity pf tabs st source m =
    (case source of
       None \<Rightarrow> (False, m)
     | Some a \<Rightarrow>
        (if mCapacity m = -1 then (False, m)
         else if mPhysicalType m = MPP_G2D then
           (if \<not> only_current pf m (mSrcImg (st a)) then (True, m)
            else
              (let m = (if mMaxSrcLayerNum m > 1 \<and> mAssignedSources m = []
                           \<and> di_id (displayIdentifier (mAssignedDisplayInfo m)) \<noteq> UINT32_MAX
                        then m\<lparr>mUsedBaseCycles := f32 (f64 (mUsedBaseCycles m + colorfill_cycles (mAssignedDisplayInfo m)))\<rparr>
                        else m);
                   baseCycles = getRequiredBaseCycles pf tabs m (mSrcImg (st a)) (mMidImg (st a));
                   m = m\<lparr>mUsedBaseCycles := fl_add (mUsedBaseCycles m) baseCycles\<rparr>;
                   m = add_crop_bw pf (mSrcImg (st a)) m
               in (False, m\<lparr>mUsedCapacity := fl_div (mUsedBaseCycles m) (fl_u32 (getMPPClock m))\<rparr>)))
         else if mPhysicalType m = MPP_MSC then
           (False, m\<lparr>mUsedCapacity :=
              getRequiredCapacity pf tabs st m (mAssignedDisplayInfo m) (mSrcImg (st a)) (mMidImg (st a))\<rparr>)
         else (False, m)))"

definition removeCapacity ::
  "'b platform_scheme \<Rightarrow> ppc_tables \<Rightarrow> store \<Rightarrow> nat option \<Rightarrow> 'a mpp_scheme \<Rightarrow> bool \<times> 'a mpp_scheme" where
  "removeCapacity pf tabs st source m =
    (case source of
       None \<Rightarrow> (False, m)
     | Some a \<Rightarrow>
        (if mCapacity m = -1 then (False, m)
         else if mPhysicalType m = MPP_G2D then
           (let srcResolution = resolution (mSrcImg (st a));
                prev = mRotatedSrcCropBW m;
                m = (if transform (mSrcImg (st a)) = 0
                     then m\<lparr>mNoRotatedSrcCropBW := mNoRotatedSrcCropBW m - srcResolution\<rparr>
                     else m\<lparr>mRotatedSrcCropBW := mRotatedSrcCropBW m - srcResolution\<rparr>)
            in if prev > 0 \<and> mRotatedSrcCropBW m = 0 then (True, m)
               else
                 (let baseCycles = getRequiredBaseCycles pf tabs m (mSrcImg (st a)) (mMidImg (st a));
                      m = m\<lparr>mUsedBaseCycles := fl_sub (mUsedBaseCycles m) baseCycles\<rparr>
                  in (False, m\<lparr>mUsedCapacity := fl_div (mUsedBaseCycles m) (fl_u32 (getMPPClock m))\<rparr>)))
         else if mPhysicalType m = MPP_MSC then
           (let src = mSrcImg (st a); dst = mDstImg (st a);
                srcCapacity = fl_div (fl_u32 (resolution src)) (getPPC pf tabs m src dst src None);
                dstCapacity = fl_div (fl_u32 (resolution dst)) (getPPC pf tabs m src dst dst None)
            in (False, m\<lparr>mUsedCapacity := fl_sub (mUsedCapacity m) (max srcCapacity dstCapacity)\<rparr>))
         else (False, m)))"

text \<open>A \<open>float\<close> converted to an integer loses its fraction.\<close>

definition trunc_int :: "rat \<Rightarrow> int" where
  "trunc_int x = (if x < 0 then \<lceil>x\<rceil> else \<lfloor>x\<rfloor>)"

text \<open>
  The recomputation of everything; its result is the used capacity cut to an integer. The function
  adds the colour-fill cycles to a fresh 0, as the code does.
\<close>

definition updateUsedCapacity ::
  "'b platform_scheme \<Rightarrow> ppc_tables \<Rightarrow> store \<Rightarrow> 'a mpp_scheme \<Rightarrow> int \<times> 'a mpp_scheme" where
  "updateUsedCapacity pf tabs st m =
    (if mCapacity m = -1 then (NO_ERROR, m)
     else
       (let m = m\<lparr>mUsedCapacity := 0, mRotatedSrcCropBW := 0, mNoRotatedSrcCropBW := 0\<rparr>;
            m = (if mPhysicalType m = MPP_G2D
                    \<and> di_id (displayIdentifier (mAssignedDisplayInfo m)) \<noteq> UINT32_MAX
                    \<and> mAssignedSources m \<noteq> []
                 then
                   (let cycles = (if mMaxSrcLayerNum m > 1 then f32 (0 + colorfill_cycles (mAssignedDisplayInfo m)) else 0);
                        m = foldl (\<lambda>m a. add_crop_bw pf (mSrcImg (st a)) m) m (mAssignedSources m);
                        cycles = foldl (\<lambda>acc a.
                            let s = st a in
                            fl_add acc (fl_div (fl_u32 (maxResolution (mSrcImg s) (mMidImg s)))
                              (getPPC pf tabs m (mSrcImg s) (mMidImg s) (mSrcImg s) None)))
                          cycles (mAssignedSources m)
                    in m\<lparr>mUsedBaseCycles := cycles,
                         mUsedCapacity := fl_div cycles (fl_u32 (getMPPClock m))\<rparr>)
                 else m)
        in (trunc_int (mUsedCapacity m), m)))"

section \<open>Is there room for a layer\<close>

definition isCapacityExceptionCondition ::
  "'b platform_scheme \<Rightarrow> 'a mpp_scheme \<Rightarrow> rat \<Rightarrow> rat \<Rightarrow> exynos_image \<Rightarrow> bool" where
  "isCapacityExceptionCondition pf m totalUsedCapacity requiredCapacity src =
    (if hasHdrInfo pf src \<and> totalUsedCapacity = 0
        \<and> requiredCapacity < f64 (mCapacity m * MPP_HDR_MARGIN)
     then True else False)"

definition hasEnoughCapa ::
  "'b platform_scheme \<Rightarrow> ppc_tables \<Rightarrow> store \<Rightarrow> 'a mpp_scheme \<Rightarrow> DisplayInfo \<Rightarrow> exynos_image \<Rightarrow> exynos_image
    \<Rightarrow> rat \<Rightarrow> bool" where
  "hasEnoughCapa pf tabs st m display src dst totalUsedCapacity =
    (if mCapacity m = -1 then True
     else
       (let total = fl_sub totalUsedCapacity (mUsedCapacity m);
            total = (if di_id (displayIdentifier (mReservedDisplayInfo m)) = di_id (displayIdentifier display)
                        \<and> mPreAssignedCapacity m > 0
                     then fl_sub total (mPreAssignedCapacity m) else total);
            required = getRequiredCapacity pf tabs st m display src dst
        in if mCapacity m \<ge> fl_add total required then True
           else if isCapacityExceptionCondition pf m total required src then True
           else False))"

section \<open>Properties\<close>

subsection \<open>Pixels per clock\<close>

lemma base_ppc_pos [simp]: "0 < f32 G2D_BASE_PPC_COLORFILL" "0 < f32 (f64 (1 / 1000000))"
  by (simp_all add: f32_pos f64_pos G2D_BASE_PPC_COLORFILL_def)

text \<open>
  The pixels per clock a layer is processed with are never zero, whatever the
  tables hold, so no cycle count divides by zero; with tables of non-negative values they are positive.
\<close>

lemma getPPC_cases:
  obtains "getPPC pf tabs m src dst criteria check = f32 G2D_BASE_PPC_COLORFILL"
  | f r i where "getPPC pf tabs m src dst criteria check =
      (if ppc_lookup tabs m f r i = 0 then f32 (f64 (1 / 1000000)) else ppc_lookup tabs m f r i)"
  unfolding getPPC_def getPPCIndex_def Let_def prod.case
  by (cases "mPhysicalType m = MPP_G2D \<and> layerFlags src AND EXYNOS_HWC_DIM_LAYER \<noteq> 0") (simp_all only: if_True if_False simp_thms)

theorem getPPC_nonzero:
  "getPPC pf tabs m src dst criteria check \<noteq> 0 \<and>
   ((\<forall>k node i. ppc_mpp tabs k = Some node \<longrightarrow> 0 \<le> node i) \<longrightarrow> 0 < getPPC pf tabs m src dst criteria check)"
proof -
  have pos: "f32 G2D_BASE_PPC_COLORFILL \<noteq> 0" "f32 (f64 (1 / 1000000)) \<noteq> 0"
    "0 \<le> f32 G2D_BASE_PPC_COLORFILL" "0 \<le> f32 (f64 (1 / 1000000))"
    using base_ppc_pos by (metis less_irrefl less_imp_le)+
  have look: "0 \<le> ppc_lookup tabs m f r i" if "\<forall>k node i. ppc_mpp tabs k = Some node \<longrightarrow> 0 \<le> node i" for f r i
    using that by (simp add: ppc_lookup_def split: option.split)
  show ?thesis
    by (rule getPPC_cases[of pf tabs m src dst criteria check]) (use pos look in \<open>auto simp: less_le\<close>)
qed

text \<open>
  What the scaler driver reports for a format or rotation the compiled-in table has
  no row for is never used: two updates that agree on the compiled-in rows cost every layer the same.
\<close>

theorem stale_ppc_table:
  assumes "\<forall>k. ppc_helper tabs k \<noteq> None \<longrightarrow> t1 k = t2 k"
  shows "getPPC pf (updatePPCTable t1 tabs) m src dst criteria check =
    getPPC pf (updatePPCTable t2 tabs) m src dst criteria check"
proof -
  have has: "hasPPC (updatePPCTable t tabs) = hasPPC tabs" for t
    by (simp add: hasPPC_def updatePPCTable_def fun_eq_iff)
  have f: "ppc_format_index (updatePPCTable t tabs) = ppc_format_index tabs" for t
    by (simp add: ppc_format_index_def has fun_eq_iff)
  have "ppc_lookup (updatePPCTable t1 tabs) m f r i = ppc_lookup (updatePPCTable t2 tabs) m f r i" for f r i
    using assms by (simp add: ppc_lookup_def has) (simp add: hasPPC_def updatePPCTable_def)
  then show ?thesis by (simp add: getPPC_def getPPCIndex_def f)
qed

text \<open>
  For the 2D engine the scale index tells the ratio of the source's pixels to
  the destination's: same, up to 4, 9, 16 times more, beyond, or up to 4 times fewer and beyond, as long
  as sixteen times the pixels fit in 32 bits.
\<close>

theorem scale_index_meaning:
  assumes g2d: "mPhysicalType m = MPP_G2D"
    and small: "unat (resolution src) * 16 < 2 ^ 32" "unat (resolution dst) * 16 < 2 ^ 32"
  shows "let s = unat (resolution src); d = unat (resolution dst); i = ppc_scale_index m src dst in
    (i = PPC_SCALE_NO \<longleftrightarrow> s = d) \<and>
    (i = PPC_SCALE_DOWN_1_4 \<longleftrightarrow> d < s \<and> s < 4 * d) \<and>
    (i = PPC_SCALE_DOWN_4_9 \<longleftrightarrow> d < s \<and> 4 * d \<le> s \<and> s < 9 * d) \<and>
    (i = PPC_SCALE_DOWN_9_16 \<longleftrightarrow> d < s \<and> 9 * d \<le> s \<and> s < 16 * d) \<and>
    (i = PPC_SCALE_DOWN_16 \<longleftrightarrow> d < s \<and> 16 * d \<le> s) \<and>
    (i = PPC_SCALE_UP_1_4 \<longleftrightarrow> s < d \<and> d < 4 * s) \<and>
    (i = PPC_SCALE_UP_4 \<longleftrightarrow> s < d \<and> 4 * s \<le> d)"
proof -
  have mult: "unat (x * of_nat k) = unat x * k" if "unat x * 16 < 2 ^ 32" "k \<le> 16" for x :: u32 and k :: nat
  proof -
    have "unat x * k \<le> unat x * 16" using that(2) by simp
    with that(1) have "unat x * k < 2 ^ 32" by linarith
    moreover have "k < 2 ^ 32" using that(2) by simp
    ultimately show ?thesis by (simp add: unat_word_ariths unat_of_nat)
  qed
  note mults = mult[of _ 4, simplified] mult[of _ 9, simplified] mult[of _ 16, simplified]
  show ?thesis
    unfolding ppc_scale_index_def Let_def
    using g2d small
    by (simp add: mults word_less_nat_alt word_le_nat_alt word_unat_eq_iff code_consts)
qed

subsection \<open>The crop counters\<close>

lemma unat_uminus_nonzero:
  fixes x :: u32
  assumes "x \<noteq> 0"
  shows "unat (- x) = 2 ^ 32 - unat x"
proof -
  have "unat (- x) + unat x < 2 * 2 ^ 32" "0 < unat x" "unat x < 2 ^ 32"
    using unsigned_less[of "- x", where 'a = nat] unsigned_less[of x, where 'a = nat] assms
    by (simp_all add: unat_gt_0)
  moreover have "(unat (- x) + unat x) mod 2 ^ 32 = 0"
    using unat_word_ariths(1)[of "- x" x] by simp
  then obtain k where "unat (- x) + unat x = 2 ^ 32 * k" by (auto elim!: dvdE)
  ultimately have "k = 1" by (cases k) auto
  with \<open>unat (- x) + unat x = 2 ^ 32 * k\<close> show ?thesis by simp
qed

text \<open>What the two counters stand for: the pixels of the turned and of the other sources.\<close>

abbreviation turned :: "'b platform_scheme \<Rightarrow> exynos_image \<Rightarrow> bool" where
  "turned pf i \<equiv> transform i AND pf_rot_90 pf \<noteq> 0"

definition crop_sum :: "(exynos_image \<Rightarrow> bool) \<Rightarrow> store \<Rightarrow> nat list \<Rightarrow> u32" where
  "crop_sum P st as = sum_list (map (\<lambda>a. resolution (mSrcImg (st a))) (filter (\<lambda>a. P (mSrcImg (st a))) as))"

definition counters_ok :: "'b platform_scheme \<Rightarrow> store \<Rightarrow> 'a mpp_scheme \<Rightarrow> bool" where
  "counters_ok pf st m \<longleftrightarrow>
     mRotatedSrcCropBW m = crop_sum (\<lambda>i. transform i AND pf_rot_90 pf \<noteq> 0) st (mAssignedSources m) \<and>
     mNoRotatedSrcCropBW m = crop_sum (\<lambda>i. transform i AND pf_rot_90 pf = 0) st (mAssignedSources m)"

lemma crop_sum_simps [simp]:
  "crop_sum P st [] = 0"
  "crop_sum P st (a # as) = (if P (mSrcImg (st a)) then resolution (mSrcImg (st a)) else 0) + crop_sum P st as"
  "crop_sum P st (as @ bs) = crop_sum P st as + crop_sum P st bs"
  by (simp_all add: crop_sum_def)

lemma counters_reset [simp]: "mAssignedSources m = [] \<Longrightarrow> counters_ok pf st (resetUsedCapacity m)"
  by (simp add: counters_ok_def resetUsedCapacity_def)

lemma add_crop_bw_frame [state_frame, simp]:
  "mAssignedSources (add_crop_bw pf img m) = mAssignedSources m"
  "mUsedBaseCycles (add_crop_bw pf img m) = mUsedBaseCycles m"
  "mPhysicalType (add_crop_bw pf img m) = mPhysicalType m"
  by (simp_all add: add_crop_bw_def)

lemma add_crop_bw_counters [simp]:
  "mRotatedSrcCropBW (add_crop_bw pf img m) =
     mRotatedSrcCropBW m + (if transform img AND pf_rot_90 pf \<noteq> 0 then resolution img else 0)"
  "mNoRotatedSrcCropBW (add_crop_bw pf img m) =
     mNoRotatedSrcCropBW m + (if transform img AND pf_rot_90 pf = 0 then resolution img else 0)"
  by (simp_all add: add_crop_bw_def)

lemma fold_crop_bw:
  "mRotatedSrcCropBW (foldl (\<lambda>m a. add_crop_bw pf (mSrcImg (st a)) m) m as)
      = mRotatedSrcCropBW m + crop_sum (\<lambda>i. transform i AND pf_rot_90 pf \<noteq> 0) st as"
  "mNoRotatedSrcCropBW (foldl (\<lambda>m a. add_crop_bw pf (mSrcImg (st a)) m) m as)
      = mNoRotatedSrcCropBW m + crop_sum (\<lambda>i. transform i AND pf_rot_90 pf = 0) st as"
  "mAssignedSources (foldl (\<lambda>m a. add_crop_bw pf (mSrcImg (st a)) m) m as) = mAssignedSources m"
  by (induction as arbitrary: m) (simp_all add: add.assoc)

lemma addCapacity_frame [state_frame]:
  "mAssignedSources (snd (addCapacity pf tabs st a m)) = mAssignedSources m"
  "mAssignedDisplayInfo (snd (addCapacity pf tabs st a m)) = mAssignedDisplayInfo m"
  "mPhysicalType (snd (addCapacity pf tabs st a m)) = mPhysicalType m"
  "mCapacity (snd (addCapacity pf tabs st a m)) = mCapacity m"
  "mAssignedState (snd (addCapacity pf tabs st a m)) = mAssignedState m"
  "mMPPType (snd (addCapacity pf tabs st a m)) = mMPPType m"
  "mMaxSrcLayerNum (snd (addCapacity pf tabs st a m)) = mMaxSrcLayerNum m"
  "self (snd (addCapacity pf tabs st a m)) = self m"
  by (simp_all add: addCapacity_def add_crop_bw_def Let_def split: option.split)

lemma removeCapacity_frame [state_frame]:
  "mAssignedSources (snd (removeCapacity pf tabs st a m)) = mAssignedSources m"
  "mAssignedDisplayInfo (snd (removeCapacity pf tabs st a m)) = mAssignedDisplayInfo m"
  "mPhysicalType (snd (removeCapacity pf tabs st a m)) = mPhysicalType m"
  "mCapacity (snd (removeCapacity pf tabs st a m)) = mCapacity m"
  "mAssignedState (snd (removeCapacity pf tabs st a m)) = mAssignedState m"
  "mMaxSrcLayerNum (snd (removeCapacity pf tabs st a m)) = mMaxSrcLayerNum m"
  "mMPPType (snd (removeCapacity pf tabs st a m)) = mMPPType m"
  "self (snd (removeCapacity pf tabs st a m)) = self m"
  by (simp_all add: removeCapacity_def Let_def split: option.split)

lemma foldl_crop_frame [state_frame]:
  "mAssignedDisplayInfo (foldl (\<lambda>m a. add_crop_bw pf (mSrcImg (st a)) m) m as) = mAssignedDisplayInfo m"
  "mPhysicalType (foldl (\<lambda>m a. add_crop_bw pf (mSrcImg (st a)) m) m as) = mPhysicalType m"
  "mCapacity (foldl (\<lambda>m a. add_crop_bw pf (mSrcImg (st a)) m) m as) = mCapacity m"
  "mAssignedState (foldl (\<lambda>m a. add_crop_bw pf (mSrcImg (st a)) m) m as) = mAssignedState m"
  "mMaxSrcLayerNum (foldl (\<lambda>m a. add_crop_bw pf (mSrcImg (st a)) m) m as) = mMaxSrcLayerNum m"
  "mMPPType (foldl (\<lambda>m a. add_crop_bw pf (mSrcImg (st a)) m) m as) = mMPPType m"
  "self (foldl (\<lambda>m a. add_crop_bw pf (mSrcImg (st a)) m) m as) = self m"
  by (induction as arbitrary: m) (simp_all add: add_crop_bw_def)

lemma updateUsedCapacity_frame [state_frame]:
  "mAssignedSources (snd (updateUsedCapacity pf tabs st m)) = mAssignedSources m"
  "mAssignedDisplayInfo (snd (updateUsedCapacity pf tabs st m)) = mAssignedDisplayInfo m"
  "mPhysicalType (snd (updateUsedCapacity pf tabs st m)) = mPhysicalType m"
  "mCapacity (snd (updateUsedCapacity pf tabs st m)) = mCapacity m"
  "mAssignedState (snd (updateUsedCapacity pf tabs st m)) = mAssignedState m"
  "mMaxSrcLayerNum (snd (updateUsedCapacity pf tabs st m)) = mMaxSrcLayerNum m"
  "mMPPType (snd (updateUsedCapacity pf tabs st m)) = mMPPType m"
  "self (snd (updateUsedCapacity pf tabs st m)) = self m"
  by (simp_all add: updateUsedCapacity_def Let_def fold_crop_bw foldl_crop_frame)

definition counted :: "'a mpp_scheme \<Rightarrow> bool" where
  "counted m \<longleftrightarrow> mPhysicalType m = MPP_G2D \<and> mCapacity m \<noteq> -1"

lemma addCapacity_counters:
  assumes "counted m" "\<not> fst (addCapacity pf tabs st (Some a) m)"
  shows "mRotatedSrcCropBW (snd (addCapacity pf tabs st (Some a) m))
      = mRotatedSrcCropBW m + (if turned pf (mSrcImg (st a)) then resolution (mSrcImg (st a)) else 0)"
    "mNoRotatedSrcCropBW (snd (addCapacity pf tabs st (Some a) m))
      = mNoRotatedSrcCropBW m + (if turned pf (mSrcImg (st a)) then 0 else resolution (mSrcImg (st a)))"
  using assms by (simp_all add: addCapacity_def counted_def Let_def split: if_splits)

lemma removeCapacity_counters:
  assumes "counted m"
  shows "mRotatedSrcCropBW (snd (removeCapacity pf tabs st (Some a) m))
      = mRotatedSrcCropBW m - (if transform (mSrcImg (st a)) \<noteq> 0 then resolution (mSrcImg (st a)) else 0)"
    "mNoRotatedSrcCropBW (snd (removeCapacity pf tabs st (Some a) m))
      = mNoRotatedSrcCropBW m - (if transform (mSrcImg (st a)) \<noteq> 0 then 0 else resolution (mSrcImg (st a)))"
  using assms by (simp_all add: removeCapacity_def counted_def Let_def)

text \<open>A recomputation makes the counters right, whatever they held.\<close>

lemma updateUsedCapacity_counters:
  assumes "counted m" "display_set (mAssignedDisplayInfo m)" "mAssignedSources m \<noteq> []"
  shows "counters_ok pf st (snd (updateUsedCapacity pf tabs st m))"
  using assms
  by (simp add: updateUsedCapacity_def counters_ok_def counted_def display_set_def Let_def fold_crop_bw)

text \<open>
  Adding a layer's cost and taking it away again restores both crop counters, for a
  layer that is not transformed or is turned by a quarter.
\<close>

theorem add_then_remove:
  fixes m :: "'a mpp_scheme"
  assumes "counted m" "\<not> fst (addCapacity pf tabs st (Some a) m)"
    and "transform (mSrcImg (st a)) = 0 \<or> turned pf (mSrcImg (st a))"
  shows "let m2 = snd (removeCapacity pf tabs st (Some a) (snd (addCapacity pf tabs st (Some a) m))) in
    mRotatedSrcCropBW m2 = mRotatedSrcCropBW m \<and> mNoRotatedSrcCropBW m2 = mNoRotatedSrcCropBW m"
proof -
  have "counted (snd (addCapacity pf tabs st (Some a) m))"
    using assms(1) by (simp add: counted_def addCapacity_frame)
  with assms show ?thesis
    by (auto simp: Let_def removeCapacity_counters addCapacity_counters)
qed

text \<open>
  C36: but a layer that is only flipped is counted as not turned when it is added and
  as turned when it is removed. Removing the only layer leaves the turned counter wrapped around
  below zero, so from then on every layer is costed as turned.
\<close>

theorem flip_remove_corrupts:
  fixes m :: "'a mpp_scheme"
  assumes "counted m" "\<not> fst (addCapacity pf tabs st (Some a) m)"
    and flip: "transform (mSrcImg (st a)) \<noteq> 0" "\<not> turned pf (mSrcImg (st a))"
    and clear: "mRotatedSrcCropBW m = 0" and size: "resolution (mSrcImg (st a)) \<noteq> 0"
  shows "let m2 = snd (removeCapacity pf tabs st (Some a) (snd (addCapacity pf tabs st (Some a) m))) in
    unat (mRotatedSrcCropBW m2) = 2 ^ 32 - unat (resolution (mSrcImg (st a))) \<and>
    mNoRotatedSrcCropBW m2 = mNoRotatedSrcCropBW m + resolution (mSrcImg (st a)) \<and>
    fst (snd (getPPCIndex pf tabs m2 src dst criteria)) = PPC_ROT"
proof -
  let ?r = "resolution (mSrcImg (st a))"
  define m2 where "m2 = snd (removeCapacity pf tabs st (Some a) (snd (addCapacity pf tabs st (Some a) m)))"
  have "counted (snd (addCapacity pf tabs st (Some a) m))"
    using assms(1) by (simp add: counted_def addCapacity_frame)
  with assms have rot: "mRotatedSrcCropBW m2 = - ?r" and no: "mNoRotatedSrcCropBW m2 = mNoRotatedSrcCropBW m + ?r"
    by (auto simp: m2_def removeCapacity_counters addCapacity_counters)
  have "unat (- ?r) = 2 ^ 32 - unat ?r"
    using size by (rule unat_uminus_nonzero)
  moreover have "mRotatedSrcCropBW m2 > 0"
    using rot size by (simp add: word_neq_0_conv[symmetric])
  ultimately show ?thesis
    using rot no by (simp add: m2_def[symmetric] Let_def getPPCIndex_def)
qed

text \<open>A 2D engine with an empty list, and sources for the witnesses.\<close>

definition sample_g2d :: mpp where
  "sample_g2d = mpp_caps.extend (sample_caps\<lparr>mMPPType := MPP_TYPE_M2M, mPhysicalType := MPP_G2D,
       mLogicalType := MPP_LOGICAL_G2D_COMBO, mMaxSrcLayerNum := 15\<rparr>)
     (mpp.fields 7 0 0 (-1) True MPP_HW_STATE_IDLE (-1) MPP_ASSIGN_STATE_FREE 0 display_reset []
       MPP_ASSIGN_STATE_FREE (-1) display_reset 8 0 0 0 0 0 False)"

definition sample_tabs :: ppc_tables where
  "sample_tabs = \<lparr>ppc_helper = Map.empty, ppc_mpp = Map.empty\<rparr>"

definition sample_source :: "u32 \<Rightarrow> mpp_source" where
  "sample_source tr = (source_init 2)\<lparr>mSrcImg := sample_layer\<lparr>transform := tr\<rparr>, mDstImg := sample_target,
     mMidImg := sample_target\<rparr>"

lemma sample_g2d_simps [simp]:
  "mPhysicalType sample_g2d = MPP_G2D" "mCapacity sample_g2d = 8" "mAssignedSources sample_g2d = []"
  "mRotatedSrcCropBW sample_g2d = 0" "mNoRotatedSrcCropBW sample_g2d = 0" "mMaxSrcLayerNum sample_g2d = 15"
  "mAssignedState sample_g2d = MPP_ASSIGN_STATE_FREE" "mMPPType sample_g2d = MPP_TYPE_M2M" "self sample_g2d = 7"
  by (simp_all add: sample_g2d_def mpp_caps.defs mpp.defs)

lemma sample_source_simps [simp]:
  "transform (mSrcImg (sample_source t)) = t" "resolution (mSrcImg (sample_source t)) = 3686400"
  by (simp_all add: sample_source_def resolution_def sample_layer_def)

lemma sample_g2d_counted: "counted sample_g2d"
  by (simp add: counted_def)

lemma sample_add:
  "\<not> fst (addCapacity pf tabs (\<lambda>_. sample_source t) (Some a) sample_g2d)"
  by (simp add: addCapacity_def only_current_def Let_def)

theorem getPPC_nonzero_witness:
  "0 < getPPC sample_platform \<lparr>ppc_helper = Map.empty, ppc_mpp = [PPC_IDX MPP_G2D PPC_FORMAT_RGB32 PPC_ROT_NO \<mapsto> (\<lambda>_. 2)]\<rparr>
     sample_g2d sample_layer sample_target sample_layer None"
proof -
  let ?tabs = "\<lparr>ppc_helper = Map.empty, ppc_mpp = [PPC_IDX MPP_G2D PPC_FORMAT_RGB32 PPC_ROT_NO \<mapsto> (\<lambda>_. 2)]\<rparr>
    :: ppc_tables"
  have "\<forall>k node i. ppc_mpp ?tabs k = Some node \<longrightarrow> 0 \<le> node i" by auto
  with getPPC_nonzero[of sample_platform ?tabs sample_g2d sample_layer sample_target sample_layer None] show ?thesis by blast
qed

theorem stale_ppc_table_witness:
  "getPPC sample_platform (updatePPCTable [0 \<mapsto> (\<lambda>_. 2)] \<lparr>ppc_helper = Map.empty, ppc_mpp = Map.empty\<rparr>)
     sample_g2d sample_layer sample_target sample_layer None =
   getPPC sample_platform (updatePPCTable Map.empty \<lparr>ppc_helper = Map.empty, ppc_mpp = Map.empty\<rparr>)
     sample_g2d sample_layer sample_target sample_layer None"
  by (rule stale_ppc_table) simp

theorem scale_index_meaning_witness:
  "ppc_scale_index sample_g2d sample_layer sample_target = PPC_SCALE_DOWN_4_9"
proof -
  have r: "resolution sample_layer = 3686400" "resolution sample_target = 921600"
    by (simp_all add: resolution_def sample_layer_def sample_target_def image_reset_def)
  have "unat (resolution sample_layer) * 16 < 2 ^ 32" "unat (resolution sample_target) * 16 < 2 ^ 32"
    by (simp_all add: r)
  from scale_index_meaning[OF sample_g2d_simps(1) this] show ?thesis by (simp add: Let_def r)
qed

theorem add_then_remove_witness:
  "mNoRotatedSrcCropBW (snd (removeCapacity sample_platform sample_tabs (\<lambda>_. sample_source 4) (Some 1)
     (snd (addCapacity sample_platform sample_tabs (\<lambda>_. sample_source 4) (Some 1) sample_g2d)))) = 0"
  using add_then_remove[OF sample_g2d_counted sample_add, of 4 sample_platform sample_tabs 1]
  by (simp add: Let_def sample_platform_def)

theorem flip_remove_corrupts_witness:
  "unat (mRotatedSrcCropBW (snd (removeCapacity sample_platform sample_tabs (\<lambda>_. sample_source 1) (Some 1)
     (snd (addCapacity sample_platform sample_tabs (\<lambda>_. sample_source 1) (Some 1) sample_g2d))))) = 4291280896"
  using flip_remove_corrupts[OF sample_g2d_counted sample_add, of 1 sample_platform sample_tabs 1]
  by (simp add: Let_def sample_platform_def)

text \<open>
  The scaler's used capacity is not restored by removing a layer: what is
  taken away is not divided by the clock, so after adding and removing one layer it is negative, and
  the resource accepts more work than it can do.
\<close>

lemma getPPC_used [simp]:
  "getPPC pf tabs (m\<lparr>mUsedCapacity := c\<rparr>) src dst criteria check = getPPC pf tabs m src dst criteria check"
proof -
  have f: "mPhysicalType (m\<lparr>mUsedCapacity := c\<rparr>) = mPhysicalType m"
    "mRotatedSrcCropBW (m\<lparr>mUsedCapacity := c\<rparr>) = mRotatedSrcCropBW m" by simp_all
  show ?thesis
    unfolding getPPC_def getPPCIndex_def ppc_format_index_def ppc_scale_index_def ppc_lookup_def f ..
qed

lemma fl_u32_nonneg: "0 \<le> fl_u32 x"
  and fl_u32_pos: "x \<noteq> 0 \<Longrightarrow> 0 < fl_u32 x"
  by (simp_all add: fl_u32_def f32_nonneg f32_pos unat_gt_0 del: of_nat_unat)

lemma per_clock_small:
  assumes "0 \<le> a" "0 < p"
  shows "fl_div a (fl_mul 534000 p) \<le> fl_div a p / 60000" "0 \<le> fl_div a p"
proof -
  have "f32 (a / f32 (534000 * p)) \<le> f32 (a / p) / 60000 \<and> 0 \<le> f32 (a / p)"
  proof (cases "a = 0")
    case False
    with assms have a: "0 < a" by simp
    let ?q = "f32 (534000 * p)"
    have q: "534000 * p / 2 \<le> ?q" using f32_bounds[of "534000 * p"] assms by simp
    with assms have "0 < ?q" by linarith
    with a have "f32 (a / ?q) \<le> 2 * (a / ?q)" using f32_bounds[of "a / ?q"] by simp
    also have "\<dots> \<le> 2 * (a / (534000 * p / 2))"
      using a assms q by (intro mult_left_mono divide_left_mono) (simp_all add: \<open>0 < ?q\<close>)
    also have "\<dots> \<le> (a / p / 2) / 60000" using a assms by (simp add: field_simps)
    also have "\<dots> \<le> f32 (a / p) / 60000" using f32_bounds[of "a / p"] a assms by (simp add: divide_right_mono)
    finally show ?thesis using f32_nonneg[of "a / p"] a assms by simp
  qed simp
  then show "fl_div a (fl_mul 534000 p) \<le> fl_div a p / 60000" "0 \<le> fl_div a p"
    by (simp_all add: fl_div_def fl_mul_def)
qed

theorem msc_remove_overshoots:
  fixes m :: "'a mpp_scheme"
  assumes msc: "mPhysicalType m = MPP_MSC" "mCapacity m \<noteq> -1" and empty: "mUsedCapacity m = 0"
    and same: "mMidImg (st a) = mDstImg (st a)" and size: "resolution (mSrcImg (st a)) \<noteq> 0"
    and tabs: "\<forall>k node i. ppc_mpp tabs k = Some node \<longrightarrow> 0 \<le> node i"
  shows "mUsedCapacity (snd (removeCapacity pf tabs st (Some a) (snd (addCapacity pf tabs st (Some a) m)))) < 0"
proof -
  define src dst where "src = mSrcImg (st a)" and "dst = mDstImg (st a)"
  define sp dp where "sp = getPPC pf tabs m src dst src None" and "dp = getPPC pf tabs m src dst dst None"
  have p: "0 < sp" "0 < dp" using getPPC_nonzero[of pf tabs m] tabs by (auto simp: sp_def dp_def)
  define s d where "s = fl_div (fl_u32 (resolution src)) sp" and "d = fl_div (fl_u32 (resolution dst)) dp"
  have clock: "fl_u32 (getMPPClock m) = 534000"
    using f32_nat[of 534000] msc by (simp add: fl_u32_def getMPPClock_def code_consts)
  have ndist: "MPP_MSC \<noteq> MPP_G2D" by (simp add: code_consts)
  define s' d' where "s' = fl_div (fl_u32 (resolution src)) (fl_mul 534000 sp)"
    and "d' = fl_div (fl_u32 (resolution dst)) (fl_mul 534000 dp)"
  have "0 < fl_u32 (resolution src)"
    using size by (simp add: src_def fl_u32_pos)
  then have "0 < s" using p by (simp add: s_def fl_div_def f32_pos)
  moreover have "s' \<le> s / 60000" "d' \<le> d / 60000"
    using per_clock_small[OF fl_u32_nonneg p(1)] per_clock_small[OF fl_u32_nonneg p(2)] by (simp_all add: s_def d_def s'_def d'_def)
  ultimately have le: "max s' d' \<le> max s d / 60000" "0 < max s d" by (auto simp: max_def)
  have "0 < fl_mul 534000 sp" using p by (simp add: fl_mul_def f32_pos)
  then have "0 < s'" using \<open>0 < fl_u32 (resolution src)\<close> by (simp add: s'_def fl_div_def f32_pos)
  then have "0 < max s' d'" by simp
  then have "fl_add 0 (max s' d') \<le> 2 * max s' d'"
    using f32_bounds[of "max s' d'"] by (simp add: fl_add_def)
  with le have "fl_add 0 (max s' d') - max s d < 0" by linarith
  then have "fl_sub (fl_add 0 (max s' d')) (max s d) < 0" by (simp add: fl_sub_def f32_neg)
  moreover have "mUsedCapacity (snd (removeCapacity pf tabs st (Some a) (snd (addCapacity pf tabs st (Some a) m))))
      = fl_sub (fl_add 0 (max s' d')) (max s d)"
    using msc ndist clock same empty
    by (simp add: removeCapacity_def addCapacity_def getRequiredCapacity_def is2StepBlendingRequired_def Let_def
        s_def d_def s'_def d'_def sp_def dp_def src_def dst_def)
  ultimately show ?thesis by simp
qed

theorem msc_remove_overshoots_witness:
  "mUsedCapacity (snd (removeCapacity sample_platform \<lparr>ppc_helper = Map.empty, ppc_mpp = Map.empty\<rparr>
     (\<lambda>_. sample_source 0) (Some 1)
     (snd (addCapacity sample_platform \<lparr>ppc_helper = Map.empty, ppc_mpp = Map.empty\<rparr>
       (\<lambda>_. sample_source 0) (Some 1) (sample_g2d\<lparr>mPhysicalType := MPP_MSC\<rparr>))))) < 0"
  by (rule msc_remove_overshoots)
    (simp_all add: sample_source_def resolution_def sample_layer_def sample_g2d_def mpp_caps.defs mpp.defs)

end
