(* ===== verification/MppAssign.thy ===== *)
theory MppAssign
  imports MppCapacity "HOL-Library.Multiset"
begin

text \<open>
  Assigning sources to a resource: \<open>resetMPP\<close>, both \<open>resetAssignedState\<close>, \<open>reserveMPP\<close>, \<open>assignMPP\<close>,
  \<open>isAssignableState\<close> and \<open>isAssignable\<close> of \<open>resources/ExynosMPP.cpp\<close>. An operation works on the
  store of sources and the resource, because assigning writes the resource's address into the
  source. The locale \<open>source_pool\<close> states the contract the resource manager uses (a resource is a
  set of sources with insertion, removal and clearing); it is interpreted on these operations.
\<close>

section \<open>Operations\<close>

type_synonym pool = "store \<times> mpp"

definition set_otf :: "nat option \<Rightarrow> nat \<Rightarrow> store \<Rightarrow> store" where
  "set_otf v a st = st(a := (st a)\<lparr>mOtfMPP := v\<rparr>)"

definition set_m2m :: "nat option \<Rightarrow> nat \<Rightarrow> store \<Rightarrow> store" where
  "set_m2m v a st = st(a := (st a)\<lparr>mM2mMPP := v\<rparr>)"

definition exynosMPPSourceComp :: "mpp_source \<Rightarrow> mpp_source \<Rightarrow> bool" where
  "exynosMPPSourceComp l r = (zOrder (mSrcImg l) < zOrder (mSrcImg r))"

definition resetMPP :: "pool \<Rightarrow> pool" where
  "resetMPP = (\<lambda>(st, m).
     (st, (resetUsedCapacity (m\<lparr>mAssignedState := MPP_ASSIGN_STATE_FREE, mAssignedDisplayInfo := display_reset,
            mAssignedSources := []\<rparr>))\<lparr>mHWBusyFlag := False\<rparr>))"

text \<open>The tail both reset functions share: an assigned resource without sources is released.\<close>

definition release_if_empty :: "mpp \<Rightarrow> mpp" where
  "release_if_empty m =
    (if mAssignedState m AND MPP_ASSIGN_STATE_ASSIGNED \<noteq> 0 \<and> length (mAssignedSources m) = 0
     then m\<lparr>mAssignedState := mAssignedState m AND NOT MPP_ASSIGN_STATE_ASSIGNED,
            mAssignedDisplayInfo := display_reset\<rparr>
     else m)"

definition clear_links :: "nat \<Rightarrow> nat \<Rightarrow> store \<Rightarrow> store" where
  "clear_links me a st =
    (let st = (if mOtfMPP (st a) = Some me then set_otf None a st else st)
     in if mM2mMPP (st a) = Some me then set_m2m None a st else st)"

text \<open>All sources, from the last to the first.\<close>

definition resetAssignedState :: "pool \<Rightarrow> pool" where
  "resetAssignedState = (\<lambda>(st, m).
     (let st = fold (clear_links (self m)) (rev (mAssignedSources m)) st;
          m = m\<lparr>mAssignedSources := []\<rparr>
      in (st, resetUsedCapacity (release_if_empty m))))"

text \<open>The list without its last occurrence of \<open>a\<close>.\<close>

definition remove_last :: "nat \<Rightarrow> nat list \<Rightarrow> nat list" where
  "remove_last a xs = rev (remove1 a (rev xs))"

definition resetAssignedState1 :: "platform \<Rightarrow> ppc_tables \<Rightarrow> nat \<Rightarrow> pool \<Rightarrow> pool" where
  "resetAssignedState1 pf tabs a = (\<lambda>(st, m).
     (if a \<in> set (mAssignedSources m) then
        (let st = (if mM2mMPP (st a) = Some (self m) then set_m2m None a st else st);
             (needUpdateCapacity, m) = removeCapacity pf tabs st (Some a) m;
             m = m\<lparr>mAssignedSources := remove_last a (mAssignedSources m)\<rparr>;
             m = (if needUpdateCapacity then snd (updateUsedCapacity pf tabs st m) else m)
         in (st, release_if_empty m))
      else (st, release_if_empty m)))"

definition reserveMPP :: "DisplayInfo \<Rightarrow> pool \<Rightarrow> pool" where
  "reserveMPP display = (\<lambda>(st, m).
     (st, m\<lparr>mAssignedState := mAssignedState m OR MPP_ASSIGN_STATE_RESERVED, mReservedDisplayInfo := display\<rparr>))"

text \<open>
  \<open>std::sort\<close> leaves the order of sources with equal z-order open; the model keeps them in the order
  they had.
\<close>

definition assignMPP :: "platform \<Rightarrow> ppc_tables \<Rightarrow> DisplayInfo \<Rightarrow> nat \<Rightarrow> pool \<Rightarrow> int \<times> pool" where
  "assignMPP pf tabs display a = (\<lambda>(st, m).
    (let m = m\<lparr>mAssignedState := mAssignedState m OR MPP_ASSIGN_STATE_ASSIGNED\<rparr>
     in if mMPPType m \<noteq> MPP_TYPE_OTF \<and> mMPPType m \<noteq> MPP_TYPE_M2M then (- EINVAL, st, m)
        else
          (let st = (if mMPPType m = MPP_TYPE_OTF then set_otf (Some (self m)) a st
                     else set_m2m (Some (self m)) a st);
               m = m\<lparr>mAssignedDisplayInfo := display\<rparr>;
               (needUpdateCapacity, m) = addCapacity pf tabs st (Some a) m;
               m = m\<lparr>mAssignedSources := mAssignedSources m @ [a]\<rparr>;
               m = (if needUpdateCapacity then snd (updateUsedCapacity pf tabs st m) else m);
               m = (if mMaxSrcLayerNum m > 1
                    then m\<lparr>mAssignedSources := sort_key (\<lambda>b. zOrder (mSrcImg (st b))) (mAssignedSources m)\<rparr>
                    else m)
           in (NO_ERROR, st, m))))"

definition getSrcMaxBlendingNum :: "'a mpp_caps_scheme \<Rightarrow> u32" where
  "getSrcMaxBlendingNum m = mMaxSrcLayerNum m"

definition getAssignedSourceNum :: "'a mpp_scheme \<Rightarrow> u32" where
  "getAssignedSourceNum m = of_nat (length (mAssignedSources m))"

definition isAssignableState :: "'a mpp_scheme \<Rightarrow> DisplayInfo \<Rightarrow> bool" where
  "isAssignableState m display =
    (if mDisableByUserScenario m \<noteq> 0 then False
     else
       (let isAssignable = False;
            isAssignable =
              (if mAssignedState m = MPP_ASSIGN_STATE_FREE then
                 (if mHWState m = MPP_HW_STATE_IDLE then True
                  else
                    (if mPrevAssignedDisplayType m < 0
                        \<or> of_int (mPrevAssignedDisplayType m) = di_type (displayIdentifier display)
                     then True else False))
               else isAssignable);
            assigned = (mAssignedState m AND MPP_ASSIGN_STATE_ASSIGNED \<noteq> 0);
            reserved = (mAssignedState m AND MPP_ASSIGN_STATE_RESERVED \<noteq> 0);
            same = (di_id (displayIdentifier (mReservedDisplayInfo m)) = di_id (displayIdentifier display));
            room = (length (mAssignedSources m) < unat (getSrcMaxBlendingNum m))
        in if assigned \<and> reserved then (if same then (if room then True else False) else False)
           else if assigned \<and> \<not> reserved then (if room then True else False)
           else if reserved then (if same then True else False)
           else isAssignable))"

definition isAssignable ::
  "platform \<Rightarrow> ppc_tables \<Rightarrow> store \<Rightarrow> mpp \<Rightarrow> DisplayInfo \<Rightarrow> exynos_image \<Rightarrow> exynos_image \<Rightarrow> rat \<Rightarrow> bool" where
  "isAssignable pf tabs st m display src dst totalUsedCapacity \<longleftrightarrow>
     isAssignableState m display \<and> hasEnoughCapa pf tabs st m display src dst totalUsedCapacity"

section \<open>The contract of a pool of sources\<close>

datatype pool_op = Ins nat | Del nat | Clear

fun op_set :: "nat set \<Rightarrow> pool_op \<Rightarrow> nat set" where
  "op_set S (Ins a) = insert a S"
| "op_set S (Del a) = S - {a}"
| "op_set S Clear = {}"

primrec run_ops :: "(pool_op \<Rightarrow> 's \<Rightarrow> 's) \<Rightarrow> pool_op list \<Rightarrow> 's \<Rightarrow> 's" where
  "run_ops do_op [] s = s"
| "run_ops do_op (p # ps) s = run_ops do_op ps (do_op p s)"

primrec legal_ops :: "(pool_op \<Rightarrow> 's \<Rightarrow> bool) \<Rightarrow> (pool_op \<Rightarrow> 's \<Rightarrow> 's) \<Rightarrow> pool_op list \<Rightarrow> 's \<Rightarrow> bool" where
  "legal_ops ok do_op [] s = True"
| "legal_ops ok do_op (p # ps) s \<longleftrightarrow> ok p s \<and> legal_ops ok do_op ps (do_op p s)"

text \<open>\<open>ok\<close> says which operations the caller may issue; \<open>inv\<close> is kept by those.\<close>

locale source_pool =
  fixes inv :: "'s \<Rightarrow> bool"
    and ok :: "pool_op \<Rightarrow> 's \<Rightarrow> bool"
    and members :: "'s \<Rightarrow> nat list"
    and do_op :: "pool_op \<Rightarrow> 's \<Rightarrow> 's"
  assumes inv_op: "inv s \<Longrightarrow> ok p s \<Longrightarrow> inv (do_op p s)"
    and members_op: "inv s \<Longrightarrow> ok p s \<Longrightarrow> set (members (do_op p s)) = op_set (set (members s)) p"
    and members_distinct: "inv s \<Longrightarrow> distinct (members s)"
begin

lemma run_inv: "inv s \<Longrightarrow> legal_ops ok do_op ps s \<Longrightarrow> inv (run_ops do_op ps s)"
  by (induction ps arbitrary: s) (simp_all add: inv_op)

lemma run_members:
  "inv s \<Longrightarrow> legal_ops ok do_op ps s \<Longrightarrow> set (members (run_ops do_op ps s)) = foldl op_set (set (members s)) ps"
  by (induction ps arbitrary: s) (simp_all add: inv_op members_op)

lemma run_length:
  "inv s \<Longrightarrow> legal_ops ok do_op ps s \<Longrightarrow>
    length (members (run_ops do_op ps s)) = card (foldl op_set (set (members s)) ps)"
  using run_members[of s ps] members_distinct[OF run_inv[of s ps]] distinct_card by metis

end

section \<open>The invariant of a resource\<close>

definition my_link :: "mpp \<Rightarrow> mpp_source \<Rightarrow> nat option" where
  "my_link m s = (if mMPPType m = MPP_TYPE_OTF then mOtfMPP s else mM2mMPP s)"

definition assigned_bit :: "'a mpp_scheme \<Rightarrow> bool" where
  "assigned_bit m \<longleftrightarrow> mAssignedState m AND MPP_ASSIGN_STATE_ASSIGNED \<noteq> 0"

abbreviation z_of :: "store \<Rightarrow> nat \<Rightarrow> u32" where
  "z_of st a \<equiv> zOrder (mSrcImg (st a))"

definition pool_inv :: "platform \<Rightarrow> pool \<Rightarrow> bool" where
  "pool_inv pf = (\<lambda>(st, m).
     (mMPPType m = MPP_TYPE_OTF \<or> mMPPType m = MPP_TYPE_M2M) \<and>
     distinct (mAssignedSources m) \<and>
     (\<forall>a\<in>set (mAssignedSources m). my_link m (st a) = Some (self m)) \<and>
     (assigned_bit m \<longleftrightarrow> mAssignedSources m \<noteq> []) \<and>
     (assigned_bit m \<longrightarrow> display_set (mAssignedDisplayInfo m)) \<and>
     (mMaxSrcLayerNum m > 1 \<longrightarrow> sorted (map (z_of st) (mAssignedSources m))) \<and>
     1 \<le> mMaxSrcLayerNum m \<and> length (mAssignedSources m) \<le> unat (mMaxSrcLayerNum m) \<and>
     (counted m \<longrightarrow> counters_ok pf st m))"

definition pool_ok :: "platform \<Rightarrow> DisplayInfo \<Rightarrow> pool_op \<Rightarrow> pool \<Rightarrow> bool" where
  "pool_ok pf display p = (\<lambda>(st, m).
     (case p of
        Ins a \<Rightarrow> a \<notin> set (mAssignedSources m) \<and> isAssignableState m display \<and> display_set display
      | Del a \<Rightarrow> transform (mSrcImg (st a)) = 0 \<or> turned pf (mSrcImg (st a))
      | Clear \<Rightarrow> True))"

definition pool_do :: "platform \<Rightarrow> ppc_tables \<Rightarrow> DisplayInfo \<Rightarrow> pool_op \<Rightarrow> pool \<Rightarrow> pool" where
  "pool_do pf tabs display p s =
     (case p of
        Ins a \<Rightarrow> snd (assignMPP pf tabs display a s)
      | Del a \<Rightarrow> resetAssignedState1 pf tabs a s
      | Clear \<Rightarrow> resetAssignedState s)"

subsection \<open>Crop sums of lists\<close>

lemma crop_sum_mset: "mset xs = mset ys \<Longrightarrow> crop_sum P st xs = crop_sum P st ys"
proof -
  assume "mset xs = mset ys"
  then have "mset (map (\<lambda>a. resolution (mSrcImg (st a))) (filter (\<lambda>a. P (mSrcImg (st a))) xs))
      = mset (map (\<lambda>a. resolution (mSrcImg (st a))) (filter (\<lambda>a. P (mSrcImg (st a))) ys))" by simp
  then show ?thesis unfolding crop_sum_def by (metis sum_mset_sum_list)
qed

lemma crop_sum_store: "(\<And>a. mSrcImg (st a) = mSrcImg (st' a)) \<Longrightarrow> crop_sum P st = crop_sum P st'"
  by (simp add: crop_sum_def fun_eq_iff)

lemma crop_sum_remove:
  assumes "distinct xs" "a \<in> set xs"
  shows "crop_sum P st (removeAll a xs) = crop_sum P st xs - (if P (mSrcImg (st a)) then resolution (mSrcImg (st a)) else 0)"
proof -
  have "mset xs = mset (a # removeAll a xs)"
    using assms distinct_remove1_removeAll[of xs a] by (metis insert_DiffM mset.simps(2) mset_remove1 set_mset_mset)
  from crop_sum_mset[OF this, of P st] show ?thesis by simp
qed

lemma remove_last_distinct: "distinct xs \<Longrightarrow> remove_last a xs = removeAll a xs"
  by (simp add: remove_last_def distinct_remove1_removeAll removeAll_filter_not_eq flip: rev_filter)

subsection \<open>What each operation does to the fields\<close>

lemma set_otf_img [simp]: "mSrcImg (set_otf v a st b) = mSrcImg (st b)"
  and set_m2m_img [simp]: "mSrcImg (set_m2m v a st b) = mSrcImg (st b)"
  by (simp_all add: set_otf_def set_m2m_def)

lemma set_otf_links [simp]:
  "mOtfMPP (set_otf v a st b) = (if b = a then v else mOtfMPP (st b))" "mM2mMPP (set_otf v a st b) = mM2mMPP (st b)"
  "mM2mMPP (set_m2m v a st b) = (if b = a then v else mM2mMPP (st b))" "mOtfMPP (set_m2m v a st b) = mOtfMPP (st b)"
  by (simp_all add: set_otf_def set_m2m_def)

lemma bit_assigned [simp]:
  "MPP_ASSIGN_STATE_ASSIGNED \<noteq> 0"
  "(x OR MPP_ASSIGN_STATE_ASSIGNED) AND MPP_ASSIGN_STATE_ASSIGNED \<noteq> 0"
  "(x AND NOT MPP_ASSIGN_STATE_ASSIGNED) AND MPP_ASSIGN_STATE_ASSIGNED = 0"
  by (simp_all add: code_consts bit.conj_disj_distrib2 and.assoc)

text \<open>The resource just before the list is sorted.\<close>

definition assign_unsorted :: "platform \<Rightarrow> ppc_tables \<Rightarrow> DisplayInfo \<Rightarrow> nat \<Rightarrow> store \<Rightarrow> mpp \<Rightarrow> mpp" where
  "assign_unsorted pf tabs display a st m =
    (let m = m\<lparr>mAssignedState := mAssignedState m OR MPP_ASSIGN_STATE_ASSIGNED, mAssignedDisplayInfo := display\<rparr>;
         m1 = snd (addCapacity pf tabs st (Some a) m);
         m2 = m1\<lparr>mAssignedSources := mAssignedSources m @ [a]\<rparr>
     in if fst (addCapacity pf tabs st (Some a) m) then snd (updateUsedCapacity pf tabs st m2) else m2)"

lemma assign_unsorted_fields:
  "mAssignedSources (assign_unsorted pf tabs display a st m) = mAssignedSources m @ [a]"
    "mAssignedDisplayInfo (assign_unsorted pf tabs display a st m) = display"
    "mAssignedState (assign_unsorted pf tabs display a st m) = mAssignedState m OR MPP_ASSIGN_STATE_ASSIGNED"
    "mPhysicalType (assign_unsorted pf tabs display a st m) = mPhysicalType m"
    "mCapacity (assign_unsorted pf tabs display a st m) = mCapacity m"
    "mMaxSrcLayerNum (assign_unsorted pf tabs display a st m) = mMaxSrcLayerNum m"
    "mMPPType (assign_unsorted pf tabs display a st m) = mMPPType m"
    "self (assign_unsorted pf tabs display a st m) = self m"
  by (simp_all add: assign_unsorted_def Let_def addCapacity_frame updateUsedCapacity_frame)

lemma assign_eq:
  assumes "mMPPType m = MPP_TYPE_OTF \<or> mMPPType m = MPP_TYPE_M2M"
  shows "assignMPP pf tabs display a (st, m) =
    (let st = (if mMPPType m = MPP_TYPE_OTF then set_otf (Some (self m)) a st else set_m2m (Some (self m)) a st);
         m = assign_unsorted pf tabs display a st m;
         m = (if mMaxSrcLayerNum m > 1
              then m\<lparr>mAssignedSources := sort_key (z_of st) (mAssignedSources m)\<rparr> else m)
     in (NO_ERROR, st, m))"
proof -
  have "MPP_TYPE_OTF \<noteq> MPP_TYPE_M2M" by (simp add: code_consts)
  with assms consider "mMPPType m = MPP_TYPE_OTF" | "mMPPType m = MPP_TYPE_M2M" "MPP_TYPE_M2M \<noteq> MPP_TYPE_OTF" by auto
  then show ?thesis
    by cases (simp_all add: assignMPP_def assign_unsorted_def Let_def split_beta addCapacity_frame
      updateUsedCapacity_frame)
qed

subsection \<open>Each operation keeps the invariant\<close>

lemma counters_set_sources:
  "mset xs = mset (mAssignedSources m) \<Longrightarrow> counters_ok pf st (m\<lparr>mAssignedSources := xs\<rparr>) = counters_ok pf st m"
  by (simp add: counters_ok_def crop_sum_mset[of xs "mAssignedSources m"])

lemma counters_store:
  "(\<And>a. mSrcImg (st a) = mSrcImg (st' a)) \<Longrightarrow> counters_ok pf st m = counters_ok pf st' m"
proof -
  assume "\<And>a. mSrcImg (st a) = mSrcImg (st' a)"
  then have "crop_sum P st = crop_sum P st'" for P by (rule crop_sum_store)
  from this[of "turned pf"] this[of "\<lambda>i. transform i AND pf_rot_90 pf = 0"]
  show ?thesis unfolding counters_ok_def by (simp only:)
qed

lemma counted_cong: "mPhysicalType m = mPhysicalType m' \<Longrightarrow> mCapacity m = mCapacity m' \<Longrightarrow> counted m = counted m'"
  by (simp add: counted_def)

lemma assign_counters:
  assumes "counted m" "counters_ok pf st m" "display_set display"
  shows "counters_ok pf st (assign_unsorted pf tabs display a st m)"
proof -
  define m1 where "m1 = m\<lparr>mAssignedState := mAssignedState m OR MPP_ASSIGN_STATE_ASSIGNED, mAssignedDisplayInfo := display\<rparr>"
  let ?add = "addCapacity pf tabs st (Some a) m1"
  have c: "counted m1" "counted (snd ?add\<lparr>mAssignedSources := mAssignedSources m @ [a]\<rparr>)"
    using assms(1) by (simp_all add: m1_def counted_def addCapacity_frame)
  show ?thesis
  proof (cases "fst ?add")
    case True
    have "counters_ok pf st (snd (updateUsedCapacity pf tabs st (snd ?add\<lparr>mAssignedSources := mAssignedSources m @ [a]\<rparr>)))"
      by (rule updateUsedCapacity_counters[OF c(2)]) (use assms in \<open>simp_all add: addCapacity_frame m1_def\<close>)
    with True show ?thesis by (simp add: assign_unsorted_def Let_def m1_def)
  next
    case False
    from assms(2) have "counters_ok pf st m1" by (simp add: m1_def counters_ok_def)
    with False addCapacity_counters[OF c(1) False]
    have "counters_ok pf st (snd ?add\<lparr>mAssignedSources := mAssignedSources m @ [a]\<rparr>)"
      by (simp add: counters_ok_def m1_def)
    with False show ?thesis by (simp add: assign_unsorted_def Let_def m1_def)
  qed
qed

lemma assignable_room:
  assumes "pool_inv pf (st, m)" "isAssignableState m display"
  shows "length (mAssignedSources m) < unat (mMaxSrcLayerNum m)"
proof -
  have pos: "0 < unat (mMaxSrcLayerNum m)"
    using assms(1) by (simp add: pool_inv_def word_le_nat_alt)
  show ?thesis
    using assms pos
    by (cases "assigned_bit m")
      (auto simp: pool_inv_def isAssignableState_def assigned_bit_def Let_def getSrcMaxBlendingNum_def split: if_splits)
qed

lemma assign_inv:
  assumes inv: "pool_inv pf (st, m)" and new: "a \<notin> set (mAssignedSources m)"
    and free: "isAssignableState m display" and disp: "display_set display"
  shows "pool_inv pf (snd (assignMPP pf tabs display a (st, m))) \<and>
    set (mAssignedSources (snd (snd (assignMPP pf tabs display a (st, m))))) = insert a (set (mAssignedSources m))"
proof -
  define st' where "st' = (if mMPPType m = MPP_TYPE_OTF then set_otf (Some (self m)) a st else set_m2m (Some (self m)) a st)"
  define m1 where "m1 = assign_unsorted pf tabs display a st' m"
  define m2 where "m2 = (if mMaxSrcLayerNum m1 > 1
      then m1\<lparr>mAssignedSources := sort_key (z_of st') (mAssignedSources m1)\<rparr> else m1)"
  have ty: "mMPPType m = MPP_TYPE_OTF \<or> mMPPType m = MPP_TYPE_M2M" using inv by (simp add: pool_inv_def)
  have res: "snd (assignMPP pf tabs display a (st, m)) = (st', m2)"
    using assign_eq[OF ty, of pf tabs display a st] by (simp add: st'_def m1_def m2_def Let_def)
  have img: "mSrcImg (st' b) = mSrcImg (st b)" for b by (simp add: st'_def)
  note f = assign_unsorted_fields[of pf tabs display a st' m, folded m1_def]
  have ms: "mset (mAssignedSources m2) = add_mset a (mset (mAssignedSources m))"
    by (simp add: m2_def f)
  have same: "mMaxSrcLayerNum m2 = mMaxSrcLayerNum m" "self m2 = self m" "mAssignedDisplayInfo m2 = display"
    "mAssignedState m2 = mAssignedState m OR MPP_ASSIGN_STATE_ASSIGNED" "mMPPType m2 = mMPPType m"
    by (simp_all add: m2_def f)
  have link: "my_link m2 (st' b) = Some (self m2)" if "b = a \<or> my_link m (st b) = Some (self m)" for b
    using that ty by (auto simp: my_link_def same st'_def)
  have sorted: "sorted (map (z_of st') (mAssignedSources m2))" if "mMaxSrcLayerNum m2 > 1"
    using that unfolding same by (simp add: m2_def f)
  have cnt: "counters_ok pf st' m2" if "counted m2"
  proof -
    have "counted m" using that by (simp add: counted_def m2_def f split: if_splits)
    moreover from this inv have "counters_ok pf st' m"
      using counters_store[of st st' pf m] by (simp add: pool_inv_def img)
    ultimately have "counters_ok pf st' m1" unfolding m1_def using disp by (intro assign_counters)
    then show ?thesis by (simp add: m2_def counters_set_sources)
  qed
  have sets: "set (mAssignedSources m2) = insert a (set (mAssignedSources m))"
    using ms by (metis set_mset_add_mset_insert set_mset_mset)
  have dist: "distinct (mAssignedSources m2)"
  proof -
    have "distinct (a # mAssignedSources m)" using inv new by (simp add: pool_inv_def)
    moreover have "mset (a # mAssignedSources m) = mset (mAssignedSources m2)" using ms by simp
    ultimately show ?thesis by (metis mset_eq_imp_distinct_iff)
  qed
  have "length (mAssignedSources m2) = Suc (length (mAssignedSources m))"
    using arg_cong[OF ms, of size] by simp
  then have len: "length (mAssignedSources m2) \<le> unat (mMaxSrcLayerNum m2)"
    using assignable_room[OF inv free] by (simp add: same)
  have bit: "assigned_bit m2" by (simp add: same assigned_bit_def)
  have ne: "mAssignedSources m2 \<noteq> []" using sets by auto
  have ty2: "mMPPType m2 = MPP_TYPE_OTF \<or> mMPPType m2 = MPP_TYPE_M2M" and d2: "display_set (mAssignedDisplayInfo m2)"
    and one: "1 \<le> mMaxSrcLayerNum m2"
    using inv disp by (simp_all add: same pool_inv_def)
  have links: "\<forall>b\<in>set (mAssignedSources m2). my_link m2 (st' b) = Some (self m2)"
    using link inv by (auto simp: sets pool_inv_def)
  have "pool_inv pf (st', m2)"
    unfolding pool_inv_def prod.case using ty2 d2 one bit ne links dist sorted cnt len by blast
  with sets show ?thesis by (simp add: res)
qed

text \<open>Removing one source, and releasing the resource when it was the last.\<close>

lemma release_fields [simp]:
  "mAssignedSources (release_if_empty m) = mAssignedSources m"
  "mMPPType (release_if_empty m) = mMPPType m" "self (release_if_empty m) = self m"
  "mMaxSrcLayerNum (release_if_empty m) = mMaxSrcLayerNum m"
  "counted (release_if_empty m) = counted m" "counters_ok pf st (release_if_empty m) = counters_ok pf st m"
  "mReservedDisplayInfo (release_if_empty m) = mReservedDisplayInfo m"
  by (simp_all add: release_if_empty_def counted_def counters_ok_def)

lemma release_bit:
  "assigned_bit (release_if_empty m) \<longleftrightarrow> assigned_bit m \<and> mAssignedSources m \<noteq> []"
  "mAssignedSources m \<noteq> [] \<Longrightarrow> mAssignedDisplayInfo (release_if_empty m) = mAssignedDisplayInfo m"
  by (auto simp: release_if_empty_def assigned_bit_def)

lemma update_counters_any:
  assumes "counted m" "mAssignedSources m \<noteq> [] \<longrightarrow> display_set (mAssignedDisplayInfo m)"
  shows "counters_ok pf st (snd (updateUsedCapacity pf tabs st m))"
proof (cases "mAssignedSources m = []")
  case True
  then show ?thesis
    using assms(1) by (simp add: counters_ok_def updateUsedCapacity_def counted_def)
qed (use assms in \<open>simp add: updateUsedCapacity_counters\<close>)

lemma remove_inv:
  assumes inv: "pool_inv pf (st, m)"
    and plain: "transform (mSrcImg (st a)) = 0 \<or> turned pf (mSrcImg (st a))"
  shows "pool_inv pf (resetAssignedState1 pf tabs a (st, m)) \<and>
    set (mAssignedSources (snd (resetAssignedState1 pf tabs a (st, m)))) = set (mAssignedSources m) - {a}"
proof (cases "a \<in> set (mAssignedSources m)")
  case False
  have "pool_inv pf (st, release_if_empty m)"
    using inv by (auto simp: pool_inv_def release_bit my_link_def)
  with False show ?thesis by (simp add: resetAssignedState1_def)
next
  case True
  define st' where "st' = (if mM2mMPP (st a) = Some (self m) then set_m2m None a st else st)"
  have img: "mSrcImg (st' b) = mSrcImg (st b)" for b by (simp add: st'_def)
  define m1 where "m1 = (snd (removeCapacity pf tabs st' (Some a) m))\<lparr>mAssignedSources := removeAll a (mAssignedSources m)\<rparr>"
  define m2 where "m2 = (if fst (removeCapacity pf tabs st' (Some a) m) then snd (updateUsedCapacity pf tabs st' m1) else m1)"
  have dist: "distinct (mAssignedSources m)" using inv by (simp add: pool_inv_def)
  have res: "resetAssignedState1 pf tabs a (st, m) = (st', release_if_empty m2)"
    using True dist
    by (simp add: resetAssignedState1_def st'_def m1_def m2_def Let_def split_beta remove_last_distinct removeCapacity_frame)
  have f: "mAssignedSources m2 = removeAll a (mAssignedSources m)" "mMPPType m2 = mMPPType m" "self m2 = self m"
    "mMaxSrcLayerNum m2 = mMaxSrcLayerNum m" "mAssignedState m2 = mAssignedState m"
    "mAssignedDisplayInfo m2 = mAssignedDisplayInfo m" "counted m2 = counted m" "assigned_bit m2 = assigned_bit m"
    by (simp_all add: assigned_bit_def m2_def m1_def counted_def removeCapacity_frame updateUsedCapacity_frame)
  have bit: "assigned_bit m" "display_set (mAssignedDisplayInfo m)"
    using inv True by (auto simp: pool_inv_def)
  have cnt: "counters_ok pf st' m2" if c: "counted m"
  proof (cases "fst (removeCapacity pf tabs st' (Some a) m)")
    case upd: True
    have "counted m1" using c by (simp add: m1_def counted_def removeCapacity_frame)
    from update_counters_any[OF this] upd bit show ?thesis
      by (simp add: m2_def) (simp add: m1_def removeCapacity_frame)
  next
    case False
    have "counters_ok pf st' m"
      using inv c counters_store[of st st' pf m] by (simp add: pool_inv_def img)
    then show ?thesis
      using False plain removeCapacity_counters[OF c, of pf tabs st' a] dist True
      by (auto simp: m2_def m1_def counters_ok_def crop_sum_remove img)
  qed
  have srt: "mMaxSrcLayerNum m2 > 1 \<longrightarrow> sorted (map (z_of st') (mAssignedSources m2))"
    using inv by (auto simp: pool_inv_def f img removeAll_filter_not_eq sorted_filter)
  have "length (mAssignedSources m) \<le> unat (mMaxSrcLayerNum m)" using inv by (simp add: pool_inv_def)
  then have len: "length (mAssignedSources m2) \<le> unat (mMaxSrcLayerNum m)"
    unfolding f by (rule order_trans[rotated]) (simp add: removeAll_filter_not_eq)
  have links: "\<forall>b\<in>set (mAssignedSources m2). my_link (release_if_empty m2) (st' b) = Some (self m)"
    using inv by (auto simp: pool_inv_def f my_link_def st'_def)
  have "pool_inv pf (st', release_if_empty m2)"
    using inv bit dist links srt len cnt
    by (auto simp: pool_inv_def release_bit f distinct_removeAll)
  then show ?thesis by (simp add: res f)
qed

lemma clear_links_fields:
  "mSrcImg (clear_links me a st b) = mSrcImg (st b)"
  "mOtfMPP (clear_links me a st b) = (if b = a \<and> mOtfMPP (st b) = Some me then None else mOtfMPP (st b))"
  "mM2mMPP (clear_links me a st b) = (if b = a \<and> mM2mMPP (st b) = Some me then None else mM2mMPP (st b))"
  by (cases "b = a"; simp add: clear_links_def Let_def set_otf_def set_m2m_def)+

lemma fold_links:
  "mSrcImg (fold (clear_links me) xs st b) = mSrcImg (st b)"
  "mOtfMPP (fold (clear_links me) xs st b) = (if b \<in> set xs \<and> mOtfMPP (st b) = Some me then None else mOtfMPP (st b))"
  "mM2mMPP (fold (clear_links me) xs st b) = (if b \<in> set xs \<and> mM2mMPP (st b) = Some me then None else mM2mMPP (st b))"
  by (induction xs arbitrary: st) (auto simp: clear_links_fields)

lemma clear_inv:
  assumes "pool_inv pf (st, m)"
  shows "pool_inv pf (resetAssignedState (st, m)) \<and> mAssignedSources (snd (resetAssignedState (st, m))) = []"
proof -
  define m2 where "m2 = resetUsedCapacity (release_if_empty (m\<lparr>mAssignedSources := []\<rparr>))"
  have f: "mAssignedSources m2 = []" "mMPPType m2 = mMPPType m" "mMaxSrcLayerNum m2 = mMaxSrcLayerNum m"
    "\<not> assigned_bit m2" "counters_ok pf st' m2" for st'
    by (simp_all add: m2_def resetUsedCapacity_def release_if_empty_def counters_ok_def assigned_bit_def)
  have "snd (resetAssignedState (st, m)) = m2"
    by (simp add: resetAssignedState_def m2_def Let_def)
  moreover have "pool_inv pf (st', m2)" for st'
    using assms by (auto simp: pool_inv_def f)
  ultimately show ?thesis using f(1) by (metis prod.collapse)
qed

section \<open>Properties\<close>

interpretation mp: source_pool "pool_inv pf" "pool_ok pf display" "\<lambda>s. mAssignedSources (snd s)"
    "pool_do pf tabs display" for pf display tabs
proof (unfold_locales, goal_cases)
  case (1 s p)
  then show ?case
    using assign_inv remove_inv clear_inv
    by (cases s; cases p) (simp_all add: pool_ok_def pool_do_def)
next
  case (2 s p)
  then show ?case
    using assign_inv remove_inv clear_inv
    by (cases s; cases p) (simp_all add: pool_ok_def pool_do_def)
next
  case (3 s)
  then show ?case by (cases s) (simp add: pool_inv_def)
qed

text \<open>
  C23: a resource driven by legal requests (a new source when it is assignable, the
  removal of a source that is not only flipped, clearing) is a set of sources: its list holds each of
  them once, it never holds more than the hardware can blend, and the invariant is kept.
\<close>

theorem mpp_refines_set:
  assumes "pool_inv pf s" "legal_ops (pool_ok pf display) (pool_do pf tabs display) ops s"
  shows "let t = run_ops (pool_do pf tabs display) ops s;
             members = foldl op_set (set (mAssignedSources (snd s))) ops in
    pool_inv pf t \<and> set (mAssignedSources (snd t)) = members \<and>
    length (mAssignedSources (snd t)) = card members \<and> card members \<le> unat (mMaxSrcLayerNum (snd t))"
proof -
  define t where "t = run_ops (pool_do pf tabs display) ops s"
  have inv: "pool_inv pf t" unfolding t_def by (rule mp.run_inv[OF assms])
  then have "length (mAssignedSources (snd t)) \<le> unat (mMaxSrcLayerNum (snd t))"
    by (cases t) (simp add: pool_inv_def)
  with inv mp.run_members[OF assms] mp.run_length[OF assms] show ?thesis
    by (simp add: Let_def t_def)
qed

lemma sample_pool_inv: "pool_inv sample_platform (\<lambda>_. sample_source 0, sample_g2d)"
  by (simp add: pool_inv_def assigned_bit_def counters_ok_def MPP_TYPE_OTF_def MPP_TYPE_M2M_def
      MPP_ASSIGN_STATE_FREE_def)

definition sample_display :: DisplayInfo where
  "sample_display = display_reset\<lparr>displayIdentifier := \<lparr>di_id = 0, di_type = 0, di_index = 0\<rparr>, xres := 1440, yres := 3040\<rparr>"

lemma sample_display_set [simp]: "display_set sample_display"
  by (simp add: display_set_def sample_display_def UINT32_MAX_def)

lemma sample_assignable: "isAssignableState sample_g2d display"
  by (simp add: isAssignableState_def sample_g2d_def mpp_caps.defs mpp.defs code_consts)

theorem mpp_refines_set_witness:
  "let t = run_ops (pool_do sample_platform sample_tabs sample_display) [Ins 1] (\<lambda>_. sample_source 0, sample_g2d) in
   pool_inv sample_platform t \<and> set (mAssignedSources (snd t)) = {1}"
proof -
  have "legal_ops (pool_ok sample_platform sample_display) (pool_do sample_platform sample_tabs sample_display) [Ins 1]
      (\<lambda>_. sample_source 0, sample_g2d)"
    by (simp add: pool_ok_def sample_assignable)
  from mpp_refines_set[OF sample_pool_inv this] show ?thesis by (simp add: Let_def)
qed

text \<open>
  A resource switched off by a scenario, reserved for another display, or full
  is never assignable; a free one whose hardware still runs is assignable only to the display that
  used it last.
\<close>

theorem assignable_rules:
  assumes "isAssignableState m display"
  shows "mDisableByUserScenario m = 0 \<and>
    (mAssignedState m AND MPP_ASSIGN_STATE_RESERVED \<noteq> 0 \<longrightarrow>
       di_id (displayIdentifier (mReservedDisplayInfo m)) = di_id (displayIdentifier display)) \<and>
    (mAssignedState m AND MPP_ASSIGN_STATE_ASSIGNED \<noteq> 0 \<longrightarrow>
       length (mAssignedSources m) < unat (mMaxSrcLayerNum m)) \<and>
    (mAssignedState m = MPP_ASSIGN_STATE_FREE \<and> mHWState m \<noteq> MPP_HW_STATE_IDLE \<and> 0 \<le> mPrevAssignedDisplayType m \<longrightarrow>
       of_int (mPrevAssignedDisplayType m) = di_type (displayIdentifier display))"
  using assms by (auto simp: isAssignableState_def Let_def getSrcMaxBlendingNum_def MPP_ASSIGN_STATE_FREE_def
      split: if_splits)

theorem assignable_rules_witness: "mDisableByUserScenario sample_g2d = 0"
  using assignable_rules[OF sample_assignable] by blast

text \<open>
  \<open>resetAssignedState\<close> empties the resource, leaves no listed source pointing at it
  and touches no other link, and keeps a reservation.
\<close>

theorem reset_unlinks:
  "let (st', m') = resetAssignedState (st, m) in
    mAssignedSources m' = [] \<and>
    (\<forall>a. (mOtfMPP (st' a) = (if a \<in> set (mAssignedSources m) \<and> mOtfMPP (st a) = Some (self m) then None else mOtfMPP (st a))) \<and>
         (mM2mMPP (st' a) = (if a \<in> set (mAssignedSources m) \<and> mM2mMPP (st a) = Some (self m) then None else mM2mMPP (st a)))) \<and>
    (mAssignedState m' AND MPP_ASSIGN_STATE_RESERVED = mAssignedState m AND MPP_ASSIGN_STATE_RESERVED) \<and>
    mAssignedState m' AND MPP_ASSIGN_STATE_ASSIGNED = 0"
proof -
  have keep: "(x AND NOT MPP_ASSIGN_STATE_ASSIGNED) AND MPP_ASSIGN_STATE_RESERVED = x AND MPP_ASSIGN_STATE_RESERVED" for x
    by (simp add: code_consts and.assoc)
  show ?thesis
    using keep by (simp add: resetAssignedState_def Let_def fold_links release_if_empty_def resetUsedCapacity_def)
qed

end
