(* ===== verification/SocTables.thy ===== *)
theory SocTables
  imports MppAssign
begin

text \<open>
  The restriction tables of the chips (\<open>ExynosResourceRestriction.h\<close> of each chip's directory), row by
  row: the attributes of each hardware type, the formats it takes, its size limits for RGB and YUV
  images and its pixels per clock. The headers of exynos9830 and essi have the text of exynos2100's;
  exynos7885, exynos9610 and exynos9810 have no feature table.
\<close>

section \<open>Rows\<close>

record feature_support_t =
  fs_hwType :: u32
  fs_attr :: u64

definition fs :: "u32 \<Rightarrow> u64 \<Rightarrow> feature_support_t" where
  "fs hw attr = \<lparr>fs_hwType = hw, fs_attr = attr\<rparr>"

type_synonym restriction_size_element = "restriction_key \<times> restriction_size"

definition rkey :: "u32 \<Rightarrow> u32 \<Rightarrow> int \<Rightarrow> u32 \<Rightarrow> restriction_key" where
  "rkey hw node fmt res = \<lparr>hwType = hw, nodeType = node, key_format = fmt, key_reserved = res\<rparr>"

definition HAL_PIXEL_FORMAT_NONE :: int where "HAL_PIXEL_FORMAT_NONE = 0"

text \<open>The sixteen numbers of a row, in the order of the struct.\<close>

definition rsize :: "u32 list \<Rightarrow> restriction_size" where
  "rsize v = \<lparr>maxDownScale = v ! 0, maxUpScale = v ! 1, maxFullWidth = v ! 2, maxFullHeight = v ! 3,
     minFullWidth = v ! 4, minFullHeight = v ! 5, fullWidthAlign = v ! 6, fullHeightAlign = v ! 7,
     maxCropWidth = v ! 8, maxCropHeight = v ! 9, minCropWidth = v ! 10, minCropHeight = v ! 11,
     cropXAlign = v ! 12, cropYAlign = v ! 13, cropWidthAlign = v ! 14, cropHeightAlign = v ! 15\<rparr>"

text \<open>
  A table of pixels per clock as the map it initialises: the decimal literals are doubles stored as
  floats, and the values a row leaves out are zero.
\<close>

definition ppc_map :: "(u32 \<times> rat list) list \<Rightarrow> u32 \<rightharpoonup> (nat \<Rightarrow> rat)" where
  "ppc_map tab k = map_option (\<lambda>vs i. if i < length vs then f32 (f64 (vs ! i)) else 0) (map_of tab k)"

section \<open>exynos2100\<close>

definition exynos2100_feature_table :: "feature_support_t list" where
  "exynos2100_feature_table =
    [fs MPP_DPP_G (MPP_ATTR_BLOCK_MODE OR MPP_ATTR_WINDOW_UPDATE OR MPP_ATTR_DIM),
     fs MPP_DPP_GF (MPP_ATTR_AFBC OR MPP_ATTR_BLOCK_MODE OR MPP_ATTR_WINDOW_UPDATE OR MPP_ATTR_DIM),
     fs MPP_DPP_VG (MPP_ATTR_BLOCK_MODE OR MPP_ATTR_WINDOW_UPDATE OR MPP_ATTR_DIM),
     fs MPP_DPP_VGS (MPP_ATTR_BLOCK_MODE OR MPP_ATTR_WINDOW_UPDATE OR MPP_ATTR_SCALE OR MPP_ATTR_DIM),
     fs MPP_DPP_VGF (MPP_ATTR_AFBC OR MPP_ATTR_BLOCK_MODE OR MPP_ATTR_WINDOW_UPDATE OR MPP_ATTR_DIM),
     fs MPP_DPP_VGFS (MPP_ATTR_AFBC OR MPP_ATTR_BLOCK_MODE OR MPP_ATTR_WINDOW_UPDATE OR MPP_ATTR_SCALE OR MPP_ATTR_DIM),
     fs MPP_DPP_VGRFS (MPP_ATTR_AFBC OR MPP_ATTR_BLOCK_MODE OR MPP_ATTR_WINDOW_UPDATE OR MPP_ATTR_SCALE OR MPP_ATTR_FLIP_H OR MPP_ATTR_FLIP_V OR MPP_ATTR_ROT_90 OR MPP_ATTR_DIM),
     fs MPP_MSC (MPP_ATTR_FLIP_H OR MPP_ATTR_FLIP_V OR MPP_ATTR_ROT_90),
     fs MPP_G2D (MPP_ATTR_AFBC OR MPP_ATTR_FLIP_H OR MPP_ATTR_FLIP_V OR MPP_ATTR_ROT_90 OR MPP_ATTR_USE_CAPA OR MPP_ATTR_DIM)]"

definition exynos2100_format_table :: "hal_env \<Rightarrow> restriction_key list" where
  "exynos2100_format_table hal =
    [rkey MPP_DPP_GF NODE_NONE (hal HAL_PIXEL_FORMAT_RGB_565) 0,
     rkey MPP_DPP_GF NODE_NONE (hal HAL_PIXEL_FORMAT_RGBA_8888) 0,
     rkey MPP_DPP_GF NODE_NONE (hal HAL_PIXEL_FORMAT_RGBX_8888) 0,
     rkey MPP_DPP_GF NODE_NONE (hal HAL_PIXEL_FORMAT_BGRA_8888) 0,
     rkey MPP_DPP_GF NODE_NONE (hal HAL_PIXEL_FORMAT_RGBA_1010102) 0,
     rkey MPP_DPP_VG NODE_NONE (hal HAL_PIXEL_FORMAT_RGB_565) 0,
     rkey MPP_DPP_VG NODE_NONE (hal HAL_PIXEL_FORMAT_RGBA_8888) 0,
     rkey MPP_DPP_VG NODE_NONE (hal HAL_PIXEL_FORMAT_RGBX_8888) 0,
     rkey MPP_DPP_VG NODE_NONE (hal HAL_PIXEL_FORMAT_BGRA_8888) 0,
     rkey MPP_DPP_VG NODE_NONE (hal HAL_PIXEL_FORMAT_RGBA_1010102) 0,
     rkey MPP_DPP_VG NODE_NONE (hal HAL_PIXEL_FORMAT_EXYNOS_YCbCr_420_SP_M) 0,
     rkey MPP_DPP_VG NODE_NONE (hal HAL_PIXEL_FORMAT_EXYNOS_YCbCr_420_SP_M_PRIV) 0,
     rkey MPP_DPP_VG NODE_NONE (hal HAL_PIXEL_FORMAT_EXYNOS_YCrCb_420_SP_M) 0,
     rkey MPP_DPP_VG NODE_NONE (hal HAL_PIXEL_FORMAT_EXYNOS_YCrCb_420_SP_M_FULL) 0,
     rkey MPP_DPP_VG NODE_NONE (hal HAL_PIXEL_FORMAT_EXYNOS_YCbCr_420_SPN) 0,
     rkey MPP_DPP_VG NODE_NONE (hal HAL_PIXEL_FORMAT_EXYNOS_YCbCr_420_SP_M_S10B) 0,
     rkey MPP_DPP_VG NODE_NONE (hal HAL_PIXEL_FORMAT_EXYNOS_YCbCr_420_SPN_S10B) 0,
     rkey MPP_DPP_VG NODE_NONE (hal HAL_PIXEL_FORMAT_EXYNOS_YCbCr_P010_M) 0,
     rkey MPP_DPP_VG NODE_NONE (hal HAL_PIXEL_FORMAT_YCBCR_P010) 0,
     rkey MPP_DPP_VGS NODE_NONE (hal HAL_PIXEL_FORMAT_RGB_565) 0,
     rkey MPP_DPP_VGS NODE_NONE (hal HAL_PIXEL_FORMAT_RGBA_8888) 0,
     rkey MPP_DPP_VGS NODE_NONE (hal HAL_PIXEL_FORMAT_RGBX_8888) 0,
     rkey MPP_DPP_VGS NODE_NONE (hal HAL_PIXEL_FORMAT_BGRA_8888) 0,
     rkey MPP_DPP_VGS NODE_NONE (hal HAL_PIXEL_FORMAT_RGBA_1010102) 0,
     rkey MPP_DPP_VGS NODE_NONE (hal HAL_PIXEL_FORMAT_EXYNOS_YCbCr_420_SP_M) 0,
     rkey MPP_DPP_VGS NODE_NONE (hal HAL_PIXEL_FORMAT_EXYNOS_YCbCr_420_SP_M_PRIV) 0,
     rkey MPP_DPP_VGS NODE_NONE (hal HAL_PIXEL_FORMAT_EXYNOS_YCrCb_420_SP_M) 0,
     rkey MPP_DPP_VGS NODE_NONE (hal HAL_PIXEL_FORMAT_EXYNOS_YCrCb_420_SP_M_FULL) 0,
     rkey MPP_DPP_VGS NODE_NONE (hal HAL_PIXEL_FORMAT_EXYNOS_YCbCr_420_SPN) 0,
     rkey MPP_DPP_VGS NODE_NONE (hal HAL_PIXEL_FORMAT_EXYNOS_YCbCr_420_SP_M_S10B) 0,
     rkey MPP_DPP_VGS NODE_NONE (hal HAL_PIXEL_FORMAT_EXYNOS_YCbCr_420_SPN_S10B) 0,
     rkey MPP_DPP_VGS NODE_NONE (hal HAL_PIXEL_FORMAT_EXYNOS_YCbCr_P010_M) 0,
     rkey MPP_DPP_VGS NODE_NONE (hal HAL_PIXEL_FORMAT_YCBCR_P010) 0,
     rkey MPP_DPP_VGF NODE_NONE (hal HAL_PIXEL_FORMAT_RGB_565) 0,
     rkey MPP_DPP_VGF NODE_NONE (hal HAL_PIXEL_FORMAT_RGBA_8888) 0,
     rkey MPP_DPP_VGF NODE_NONE (hal HAL_PIXEL_FORMAT_RGBX_8888) 0,
     rkey MPP_DPP_VGF NODE_NONE (hal HAL_PIXEL_FORMAT_BGRA_8888) 0,
     rkey MPP_DPP_VGF NODE_NONE (hal HAL_PIXEL_FORMAT_RGBA_1010102) 0,
     rkey MPP_DPP_VGF NODE_NONE (hal HAL_PIXEL_FORMAT_EXYNOS_YCbCr_420_SP_M) 0,
     rkey MPP_DPP_VGF NODE_NONE (hal HAL_PIXEL_FORMAT_EXYNOS_YCbCr_420_SP_M_PRIV) 0,
     rkey MPP_DPP_VGF NODE_NONE (hal HAL_PIXEL_FORMAT_EXYNOS_YCrCb_420_SP_M) 0,
     rkey MPP_DPP_VGF NODE_NONE (hal HAL_PIXEL_FORMAT_EXYNOS_YCrCb_420_SP_M_FULL) 0,
     rkey MPP_DPP_VGF NODE_NONE (hal HAL_PIXEL_FORMAT_EXYNOS_YCbCr_420_SPN) 0,
     rkey MPP_DPP_VGF NODE_NONE (hal HAL_PIXEL_FORMAT_EXYNOS_YCbCr_420_SP_M_S10B) 0,
     rkey MPP_DPP_VGF NODE_NONE (hal HAL_PIXEL_FORMAT_EXYNOS_YCbCr_420_SPN_S10B) 0,
     rkey MPP_DPP_VGF NODE_NONE (hal HAL_PIXEL_FORMAT_EXYNOS_YCbCr_P010_M) 0,
     rkey MPP_DPP_VGF NODE_NONE (hal HAL_PIXEL_FORMAT_YCBCR_P010) 0,
     rkey MPP_DPP_VGRFS NODE_NONE (hal HAL_PIXEL_FORMAT_RGB_565) 0,
     rkey MPP_DPP_VGRFS NODE_NONE (hal HAL_PIXEL_FORMAT_RGBA_8888) 0,
     rkey MPP_DPP_VGRFS NODE_NONE (hal HAL_PIXEL_FORMAT_RGBX_8888) 0,
     rkey MPP_DPP_VGRFS NODE_NONE (hal HAL_PIXEL_FORMAT_BGRA_8888) 0,
     rkey MPP_DPP_VGRFS NODE_NONE (hal HAL_PIXEL_FORMAT_RGBA_1010102) 0,
     rkey MPP_DPP_VGRFS NODE_NONE (hal HAL_PIXEL_FORMAT_EXYNOS_YCbCr_420_SP_M) 0,
     rkey MPP_DPP_VGRFS NODE_NONE (hal HAL_PIXEL_FORMAT_EXYNOS_YCbCr_420_SP_M_PRIV) 0,
     rkey MPP_DPP_VGRFS NODE_NONE (hal HAL_PIXEL_FORMAT_EXYNOS_YCrCb_420_SP_M) 0,
     rkey MPP_DPP_VGRFS NODE_NONE (hal HAL_PIXEL_FORMAT_EXYNOS_YCrCb_420_SP_M_FULL) 0,
     rkey MPP_DPP_VGRFS NODE_NONE (hal HAL_PIXEL_FORMAT_EXYNOS_YCbCr_420_SPN) 0,
     rkey MPP_DPP_VGRFS NODE_NONE (hal HAL_PIXEL_FORMAT_EXYNOS_YCbCr_420_SP_M_S10B) 0,
     rkey MPP_DPP_VGRFS NODE_NONE (hal HAL_PIXEL_FORMAT_EXYNOS_YCbCr_420_SPN_S10B) 0,
     rkey MPP_DPP_VGRFS NODE_NONE (hal HAL_PIXEL_FORMAT_EXYNOS_YCbCr_P010_M) 0,
     rkey MPP_DPP_VGRFS NODE_NONE (hal HAL_PIXEL_FORMAT_YCBCR_P010) 0,
     rkey MPP_MSC NODE_NONE (hal HAL_PIXEL_FORMAT_EXYNOS_YCbCr_420_SP_M) 0,
     rkey MPP_MSC NODE_NONE (hal HAL_PIXEL_FORMAT_EXYNOS_YCbCr_420_SP_M_PRIV) 0,
     rkey MPP_MSC NODE_NONE (hal HAL_PIXEL_FORMAT_EXYNOS_YCbCr_420_SP_M_TILED) 0,
     rkey MPP_MSC NODE_NONE (hal HAL_PIXEL_FORMAT_EXYNOS_YCrCb_420_SP_M) 0,
     rkey MPP_MSC NODE_NONE (hal HAL_PIXEL_FORMAT_EXYNOS_YCrCb_420_SP_M_FULL) 0,
     rkey MPP_MSC NODE_NONE (hal HAL_PIXEL_FORMAT_EXYNOS_YCbCr_420_SPN) 0,
     rkey MPP_MSC NODE_NONE (hal HAL_PIXEL_FORMAT_EXYNOS_YCbCr_420_SP_M_S10B) 0,
     rkey MPP_MSC NODE_NONE (hal HAL_PIXEL_FORMAT_EXYNOS_YCbCr_420_SPN_S10B) 0,
     rkey MPP_MSC NODE_NONE (hal HAL_PIXEL_FORMAT_EXYNOS_YCbCr_P010_M) 0,
     rkey MPP_MSC NODE_NONE (hal HAL_PIXEL_FORMAT_YCBCR_P010) 0,
     rkey MPP_MSC NODE_NONE (hal HAL_PIXEL_FORMAT_YCrCb_420_SP) 0,
     rkey MPP_MSC NODE_NONE (hal HAL_PIXEL_FORMAT_YV12) 0,
     rkey MPP_MSC NODE_NONE (hal HAL_PIXEL_FORMAT_EXYNOS_YV12_M) 0,
     rkey MPP_MSC NODE_NONE (hal HAL_PIXEL_FORMAT_EXYNOS_YCbCr_420_P_M) 0,
     rkey MPP_MSC NODE_NONE (hal HAL_PIXEL_FORMAT_EXYNOS_YCbCr_420_PN) 0,
     rkey MPP_MSC NODE_NONE (hal HAL_PIXEL_FORMAT_EXYNOS_YCbCr_420_SPN_TILED) 0,
     rkey MPP_G2D NODE_NONE (hal HAL_PIXEL_FORMAT_RGB_565) 0,
     rkey MPP_G2D NODE_NONE (hal HAL_PIXEL_FORMAT_RGB_888) 0,
     rkey MPP_G2D NODE_NONE (hal HAL_PIXEL_FORMAT_RGBA_8888) 0,
     rkey MPP_G2D NODE_NONE (hal HAL_PIXEL_FORMAT_RGBX_8888) 0,
     rkey MPP_G2D NODE_NONE (hal HAL_PIXEL_FORMAT_BGRA_8888) 0,
     rkey MPP_G2D NODE_NONE (hal HAL_PIXEL_FORMAT_RGBA_1010102) 0,
     rkey MPP_G2D NODE_NONE (hal HAL_PIXEL_FORMAT_EXYNOS_YCbCr_420_SP_M) 0,
     rkey MPP_G2D NODE_NONE (hal HAL_PIXEL_FORMAT_EXYNOS_YCbCr_420_SP_M_PRIV) 0,
     rkey MPP_G2D NODE_NONE (hal HAL_PIXEL_FORMAT_EXYNOS_YCbCr_420_SP_M_TILED) 0,
     rkey MPP_G2D NODE_NONE (hal HAL_PIXEL_FORMAT_EXYNOS_YCrCb_420_SP_M) 0,
     rkey MPP_G2D NODE_NONE (hal HAL_PIXEL_FORMAT_EXYNOS_YCrCb_420_SP_M_FULL) 0,
     rkey MPP_G2D NODE_NONE (hal HAL_PIXEL_FORMAT_EXYNOS_YCbCr_420_SPN) 0,
     rkey MPP_G2D NODE_NONE (hal HAL_PIXEL_FORMAT_EXYNOS_YCbCr_420_SP_M_S10B) 0,
     rkey MPP_G2D NODE_NONE (hal HAL_PIXEL_FORMAT_EXYNOS_YCbCr_420_SPN_S10B) 0,
     rkey MPP_G2D NODE_NONE (hal HAL_PIXEL_FORMAT_EXYNOS_YCbCr_P010_M) 0,
     rkey MPP_G2D NODE_NONE (hal HAL_PIXEL_FORMAT_YCrCb_420_SP) 0,
     rkey MPP_G2D NODE_NONE (hal HAL_PIXEL_FORMAT_EXYNOS_YCbCr_420_SPN_TILED) 0]"

definition exynos2100_size_table_rgb :: "restriction_size_element list" where
  "exynos2100_size_table_rgb =
    [(rkey MPP_DPP_GF NODE_SRC HAL_PIXEL_FORMAT_NONE 0, rsize [1, 1, 65535, 8191, 16, 16, 1, 1, 4096, 4096, 16, 16, 1, 1, 1, 1]),
     (rkey MPP_DPP_VG NODE_SRC HAL_PIXEL_FORMAT_NONE 0, rsize [1, 1, 65535, 8191, 16, 16, 1, 1, 4096, 4096, 16, 16, 1, 1, 1, 1]),
     (rkey MPP_DPP_VGS NODE_SRC HAL_PIXEL_FORMAT_NONE 0, rsize [2, 8, 65535, 8191, 16, 16, 1, 1, 4096, 4096, 16, 16, 1, 1, 1, 1]),
     (rkey MPP_DPP_VGF NODE_SRC HAL_PIXEL_FORMAT_NONE 0, rsize [1, 1, 65535, 8191, 16, 16, 1, 1, 4096, 4096, 16, 16, 1, 1, 1, 1]),
     (rkey MPP_DPP_VGRFS NODE_SRC HAL_PIXEL_FORMAT_NONE 0, rsize [2, 8, 65535, 8191, 16, 16, 1, 1, 4096, 4096, 16, 16, 1, 1, 1, 1]),
     (rkey MPP_DPP_GF NODE_DST HAL_PIXEL_FORMAT_NONE 0, rsize [1, 1, 65535, 8191, 16, 16, 1, 1, 4096, 4096, 16, 16, 1, 1, 1, 1]),
     (rkey MPP_DPP_VG NODE_DST HAL_PIXEL_FORMAT_NONE 0, rsize [1, 1, 65535, 8191, 16, 16, 1, 1, 4096, 4096, 16, 16, 1, 1, 1, 1]),
     (rkey MPP_DPP_VGS NODE_DST HAL_PIXEL_FORMAT_NONE 0, rsize [2, 8, 65535, 8191, 16, 16, 1, 1, 4096, 4096, 16, 16, 1, 1, 1, 1]),
     (rkey MPP_DPP_VGF NODE_DST HAL_PIXEL_FORMAT_NONE 0, rsize [1, 1, 65535, 8191, 16, 16, 1, 1, 4096, 4096, 16, 16, 1, 1, 1, 1]),
     (rkey MPP_DPP_VGRFS NODE_DST HAL_PIXEL_FORMAT_NONE 0, rsize [2, 8, 65535, 8191, 16, 16, 1, 1, 4096, 4096, 16, 16, 1, 1, 1, 1]),
     (rkey MPP_G2D NODE_NONE HAL_PIXEL_FORMAT_NONE 0, rsize [8192, 8192, 8192, 8192, 1, 1, 1, 1, 8192, 8192, 1, 1, 1, 1, 1, 1])]"

definition exynos2100_size_table_yuv :: "restriction_size_element list" where
  "exynos2100_size_table_yuv =
    [(rkey MPP_DPP_GF NODE_SRC HAL_PIXEL_FORMAT_NONE 0, rsize [1, 1, 65534, 8190, 32, 32, 2, 2, 4096, 4096, 32, 32, 2, 2, 2, 2]),
     (rkey MPP_DPP_VG NODE_SRC HAL_PIXEL_FORMAT_NONE 0, rsize [1, 1, 65534, 8190, 32, 32, 2, 2, 4096, 4096, 32, 32, 2, 2, 2, 2]),
     (rkey MPP_DPP_VGS NODE_SRC HAL_PIXEL_FORMAT_NONE 0, rsize [2, 8, 65534, 8190, 32, 32, 2, 2, 4096, 4096, 32, 32, 2, 2, 2, 2]),
     (rkey MPP_DPP_VGF NODE_SRC HAL_PIXEL_FORMAT_NONE 0, rsize [1, 1, 65534, 8190, 32, 32, 2, 2, 4096, 4096, 32, 32, 2, 2, 2, 2]),
     (rkey MPP_DPP_VGRFS NODE_SRC HAL_PIXEL_FORMAT_NONE 0, rsize [2, 8, 65534, 8190, 32, 32, 2, 2, 4096, 4096, 32, 32, 2, 2, 2, 2]),
     (rkey MPP_MSC NODE_SRC HAL_PIXEL_FORMAT_NONE 0, rsize [16, 64, 8192, 8192, 16, 16, 2, 2, 4096, 4096, 16, 16, 2, 2, 2, 2]),
     (rkey MPP_G2D NODE_SRC HAL_PIXEL_FORMAT_NONE 0, rsize [4, 8192, 8192, 8192, 2, 2, 2, 2, 8192, 8192, 1, 1, 1, 1, 1, 1]),
     (rkey MPP_DPP_GF NODE_DST HAL_PIXEL_FORMAT_NONE 0, rsize [1, 1, 65535, 8191, 16, 16, 1, 1, 4096, 4096, 16, 16, 1, 1, 1, 1]),
     (rkey MPP_DPP_VG NODE_DST HAL_PIXEL_FORMAT_NONE 0, rsize [1, 1, 65535, 8191, 16, 16, 1, 1, 4096, 4096, 16, 16, 1, 1, 1, 1]),
     (rkey MPP_DPP_VGS NODE_DST HAL_PIXEL_FORMAT_NONE 0, rsize [2, 8, 65535, 8191, 16, 16, 1, 1, 4096, 4096, 16, 16, 1, 1, 1, 1]),
     (rkey MPP_DPP_VGF NODE_DST HAL_PIXEL_FORMAT_NONE 0, rsize [1, 1, 65535, 8191, 16, 16, 1, 1, 4096, 4096, 16, 16, 1, 1, 1, 1]),
     (rkey MPP_DPP_VGRFS NODE_DST HAL_PIXEL_FORMAT_NONE 0, rsize [2, 8, 65535, 8191, 16, 16, 1, 1, 4096, 4096, 16, 16, 1, 1, 1, 1]),
     (rkey MPP_MSC NODE_DST HAL_PIXEL_FORMAT_NONE 0, rsize [16, 64, 8192, 8192, 4, 4, 2, 2, 8192, 8192, 4, 4, 2, 2, 2, 2]),
     (rkey MPP_G2D NODE_DST HAL_PIXEL_FORMAT_NONE 0, rsize [8192, 8192, 8192, 8192, 2, 2, 2, 2, 8192, 8192, 2, 2, 2, 2, 2, 2])]"

definition exynos2100_ppc_table :: "(u32 \<times> rat list) list" where
  "exynos2100_ppc_table =
    [(PPC_IDX MPP_G2D PPC_FORMAT_YUV420 PPC_ROT_NO, [29 / 10, 13 / 5, 17 / 5, 51 / 10, 119 / 10, 13 / 5, 3]),
     (PPC_IDX MPP_G2D PPC_FORMAT_YUV420 PPC_ROT, [2, 19 / 10, 33 / 10, 26 / 5, 7, 19 / 10, 16 / 5]),
     (PPC_IDX MPP_G2D PPC_FORMAT_YUV8_2 PPC_ROT_NO, [19 / 10, 19 / 10, 27 / 10, 31 / 10, 41 / 10, 7 / 5, 12 / 5]),
     (PPC_IDX MPP_G2D PPC_FORMAT_YUV8_2 PPC_ROT, [9 / 10, 9 / 10, 11 / 5, 2, 37 / 10, 9 / 10, 5 / 2]),
     (PPC_IDX MPP_G2D PPC_FORMAT_YUV422 PPC_ROT_NO, [31 / 10, 11 / 5, 18 / 5, 51 / 10, 7, 11 / 5, 17 / 5]),
     (PPC_IDX MPP_G2D PPC_FORMAT_YUV422 PPC_ROT, [27 / 10, 2, 3, 26 / 5, 13 / 2, 2, 33 / 10]),
     (PPC_IDX MPP_G2D PPC_FORMAT_RGB32 PPC_ROT_NO, [31 / 10, 11 / 5, 18 / 5, 51 / 10, 7, 11 / 5, 17 / 5]),
     (PPC_IDX MPP_G2D PPC_FORMAT_RGB32 PPC_ROT, [27 / 10, 2, 3, 26 / 5, 13 / 2, 2, 33 / 10]),
     (PPC_IDX MPP_G2D PPC_FORMAT_AFBC PPC_ROT_NO, [3, 8 / 5, 8 / 5, 12 / 5, 16 / 5, 8 / 5, 14 / 5]),
     (PPC_IDX MPP_G2D PPC_FORMAT_AFBC PPC_ROT, [3, 8 / 5, 8 / 5, 12 / 5, 16 / 5, 8 / 5, 14 / 5]),
     (PPC_IDX MPP_MSC PPC_FORMAT_YUV420 PPC_ROT_NO, [237 / 50]),
     (PPC_IDX MPP_MSC PPC_FORMAT_YUV420 PPC_ROT, [111 / 25]),
     (PPC_IDX MPP_MSC PPC_FORMAT_YUV422 PPC_ROT_NO, [173 / 50]),
     (PPC_IDX MPP_MSC PPC_FORMAT_YUV422 PPC_ROT, [169 / 50]),
     (PPC_IDX MPP_MSC PPC_FORMAT_P010 PPC_ROT_NO, [91 / 25]),
     (PPC_IDX MPP_MSC PPC_FORMAT_P010 PPC_ROT, [16 / 5]),
     (PPC_IDX MPP_MSC PPC_FORMAT_YUV8_2 PPC_ROT_NO, [461 / 100]),
     (PPC_IDX MPP_MSC PPC_FORMAT_YUV8_2 PPC_ROT, [459 / 100]),
     (PPC_IDX MPP_MSC PPC_FORMAT_RGB32 PPC_ROT_NO, [9 / 5]),
     (PPC_IDX MPP_MSC PPC_FORMAT_RGB32 PPC_ROT, [37 / 20]),
     (PPC_IDX MPP_MSC PPC_FORMAT_SBWC PPC_ROT_NO, [199 / 100]),
     (PPC_IDX MPP_MSC PPC_FORMAT_SBWC PPC_ROT, [19 / 10])]"

section \<open>exynos3830\<close>

definition exynos3830_feature_table :: "feature_support_t list" where
  "exynos3830_feature_table =
    [fs MPP_DPP_G (MPP_ATTR_BLOCK_MODE OR MPP_ATTR_WINDOW_UPDATE OR MPP_ATTR_DIM),
     fs MPP_DPP_GF (MPP_ATTR_AFBC OR MPP_ATTR_BLOCK_MODE OR MPP_ATTR_WINDOW_UPDATE OR MPP_ATTR_DIM),
     fs MPP_DPP_VG (MPP_ATTR_BLOCK_MODE OR MPP_ATTR_WINDOW_UPDATE OR MPP_ATTR_DIM),
     fs MPP_DPP_VGS (MPP_ATTR_BLOCK_MODE OR MPP_ATTR_WINDOW_UPDATE OR MPP_ATTR_SCALE OR MPP_ATTR_DIM),
     fs MPP_DPP_VGF (MPP_ATTR_AFBC OR MPP_ATTR_BLOCK_MODE OR MPP_ATTR_WINDOW_UPDATE OR MPP_ATTR_DIM),
     fs MPP_DPP_VGFS (MPP_ATTR_AFBC OR MPP_ATTR_BLOCK_MODE OR MPP_ATTR_WINDOW_UPDATE OR MPP_ATTR_SCALE OR MPP_ATTR_DIM),
     fs MPP_DPP_VGRFS (MPP_ATTR_AFBC OR MPP_ATTR_BLOCK_MODE OR MPP_ATTR_WINDOW_UPDATE OR MPP_ATTR_SCALE OR MPP_ATTR_FLIP_H OR MPP_ATTR_FLIP_V OR MPP_ATTR_ROT_90 OR MPP_ATTR_DIM),
     fs MPP_MSC (MPP_ATTR_FLIP_H OR MPP_ATTR_FLIP_V OR MPP_ATTR_ROT_90),
     fs MPP_G2D (MPP_ATTR_AFBC OR MPP_ATTR_FLIP_H OR MPP_ATTR_FLIP_V OR MPP_ATTR_ROT_90 OR MPP_ATTR_USE_CAPA OR MPP_ATTR_DIM)]"

definition exynos3830_format_table :: "hal_env \<Rightarrow> restriction_key list" where
  "exynos3830_format_table hal =
    [rkey MPP_DPP_G NODE_NONE (hal HAL_PIXEL_FORMAT_RGB_565) 0,
     rkey MPP_DPP_G NODE_NONE (hal HAL_PIXEL_FORMAT_RGBA_8888) 0,
     rkey MPP_DPP_G NODE_NONE (hal HAL_PIXEL_FORMAT_RGBX_8888) 0,
     rkey MPP_DPP_G NODE_NONE (hal HAL_PIXEL_FORMAT_BGRA_8888) 0,
     rkey MPP_DPP_VG NODE_NONE (hal HAL_PIXEL_FORMAT_RGB_565) 0,
     rkey MPP_DPP_VG NODE_NONE (hal HAL_PIXEL_FORMAT_RGBA_8888) 0,
     rkey MPP_DPP_VG NODE_NONE (hal HAL_PIXEL_FORMAT_RGBX_8888) 0,
     rkey MPP_DPP_VG NODE_NONE (hal HAL_PIXEL_FORMAT_BGRA_8888) 0,
     rkey MPP_DPP_VG NODE_NONE (hal HAL_PIXEL_FORMAT_EXYNOS_YCbCr_420_SP_M) 0,
     rkey MPP_DPP_VG NODE_NONE (hal HAL_PIXEL_FORMAT_EXYNOS_YCbCr_420_SP_M_PRIV) 0,
     rkey MPP_DPP_VG NODE_NONE (hal HAL_PIXEL_FORMAT_EXYNOS_YCrCb_420_SP_M) 0,
     rkey MPP_DPP_VG NODE_NONE (hal HAL_PIXEL_FORMAT_EXYNOS_YCrCb_420_SP_M_FULL) 0,
     rkey MPP_DPP_VG NODE_NONE (hal HAL_PIXEL_FORMAT_EXYNOS_YCbCr_420_SPN) 0,
     rkey MPP_DPP_VG NODE_NONE (hal HAL_PIXEL_FORMAT_EXYNOS_YCbCr_420_SP_M_S10B) 0,
     rkey MPP_DPP_VG NODE_NONE (hal HAL_PIXEL_FORMAT_EXYNOS_YCbCr_420_SPN_S10B) 0,
     rkey MPP_MSC NODE_NONE (hal HAL_PIXEL_FORMAT_RGB_565) 0,
     rkey MPP_MSC NODE_NONE (hal HAL_PIXEL_FORMAT_RGB_888) 0,
     rkey MPP_MSC NODE_NONE (hal HAL_PIXEL_FORMAT_RGBA_8888) 0,
     rkey MPP_MSC NODE_NONE (hal HAL_PIXEL_FORMAT_RGBX_8888) 0,
     rkey MPP_MSC NODE_NONE (hal HAL_PIXEL_FORMAT_BGRA_8888) 0,
     rkey MPP_MSC NODE_NONE (hal HAL_PIXEL_FORMAT_EXYNOS_YCbCr_420_SP_M) 0,
     rkey MPP_MSC NODE_NONE (hal HAL_PIXEL_FORMAT_EXYNOS_YCbCr_420_SP_M_PRIV) 0,
     rkey MPP_MSC NODE_NONE (hal HAL_PIXEL_FORMAT_EXYNOS_YCbCr_420_SP_M_TILED) 0,
     rkey MPP_MSC NODE_NONE (hal HAL_PIXEL_FORMAT_EXYNOS_YCrCb_420_SP_M) 0,
     rkey MPP_MSC NODE_NONE (hal HAL_PIXEL_FORMAT_EXYNOS_YCrCb_420_SP_M_FULL) 0,
     rkey MPP_MSC NODE_NONE (hal HAL_PIXEL_FORMAT_EXYNOS_YCbCr_420_SPN) 0,
     rkey MPP_MSC NODE_NONE (hal HAL_PIXEL_FORMAT_EXYNOS_YCbCr_420_SP_M_S10B) 0,
     rkey MPP_MSC NODE_NONE (hal HAL_PIXEL_FORMAT_EXYNOS_YCbCr_420_SPN_S10B) 0,
     rkey MPP_MSC NODE_NONE (hal HAL_PIXEL_FORMAT_YCrCb_420_SP) 0,
     rkey MPP_MSC NODE_NONE (hal HAL_PIXEL_FORMAT_YV12) 0,
     rkey MPP_MSC NODE_NONE (hal HAL_PIXEL_FORMAT_EXYNOS_YV12_M) 0,
     rkey MPP_MSC NODE_NONE (hal HAL_PIXEL_FORMAT_EXYNOS_YCbCr_420_P_M) 0,
     rkey MPP_MSC NODE_NONE (hal HAL_PIXEL_FORMAT_EXYNOS_YCbCr_420_PN) 0,
     rkey MPP_MSC NODE_NONE (hal HAL_PIXEL_FORMAT_EXYNOS_YCbCr_420_SPN_TILED) 0]"

definition exynos3830_size_table_rgb :: "restriction_size_element list" where
  "exynos3830_size_table_rgb =
    [(rkey MPP_DPP_G NODE_SRC HAL_PIXEL_FORMAT_NONE 0, rsize [1, 1, 65535, 8191, 16, 16, 1, 1, 4096, 4096, 16, 16, 1, 1, 1, 1]),
     (rkey MPP_DPP_VG NODE_SRC HAL_PIXEL_FORMAT_NONE 0, rsize [1, 1, 65535, 8191, 16, 16, 1, 1, 4096, 4096, 16, 16, 1, 1, 1, 1]),
     (rkey MPP_MSC NODE_SRC HAL_PIXEL_FORMAT_NONE 0, rsize [16, 8, 8192, 8192, 16, 16, 1, 1, 8192, 8192, 16, 16, 1, 1, 1, 1]),
     (rkey MPP_DPP_G NODE_DST HAL_PIXEL_FORMAT_NONE 0, rsize [1, 1, 65535, 8191, 16, 16, 1, 1, 4096, 4096, 16, 16, 1, 1, 1, 1]),
     (rkey MPP_DPP_VG NODE_DST HAL_PIXEL_FORMAT_NONE 0, rsize [1, 1, 65535, 8191, 16, 16, 1, 1, 4096, 4096, 16, 16, 1, 1, 1, 1]),
     (rkey MPP_MSC NODE_DST HAL_PIXEL_FORMAT_NONE 0, rsize [16, 8, 8192, 8192, 4, 4, 1, 1, 8192, 8192, 4, 4, 1, 1, 1, 1])]"

definition exynos3830_size_table_yuv :: "restriction_size_element list" where
  "exynos3830_size_table_yuv =
    [(rkey MPP_DPP_G NODE_SRC HAL_PIXEL_FORMAT_NONE 0, rsize [1, 1, 65534, 8190, 32, 32, 2, 2, 4096, 4096, 32, 32, 2, 2, 2, 2]),
     (rkey MPP_DPP_VG NODE_SRC HAL_PIXEL_FORMAT_NONE 0, rsize [1, 1, 65534, 8190, 32, 32, 2, 2, 4096, 4096, 32, 32, 2, 2, 2, 2]),
     (rkey MPP_MSC NODE_SRC HAL_PIXEL_FORMAT_NONE 0, rsize [16, 8, 8192, 8192, 16, 16, 2, 2, 8192, 8192, 16, 16, 2, 2, 2, 2]),
     (rkey MPP_DPP_G NODE_DST HAL_PIXEL_FORMAT_NONE 0, rsize [1, 1, 65535, 8191, 16, 16, 1, 1, 4096, 4096, 16, 16, 1, 1, 1, 1]),
     (rkey MPP_DPP_VG NODE_DST HAL_PIXEL_FORMAT_NONE 0, rsize [1, 1, 65535, 8191, 16, 16, 1, 1, 4096, 4096, 16, 16, 1, 1, 1, 1]),
     (rkey MPP_MSC NODE_DST HAL_PIXEL_FORMAT_NONE 0, rsize [16, 8, 8192, 8192, 4, 4, 2, 2, 8192, 8192, 4, 4, 2, 2, 2, 2])]"

definition exynos3830_ppc_table :: "(u32 \<times> rat list) list" where
  "exynos3830_ppc_table =
    [(PPC_IDX MPP_MSC PPC_FORMAT_YUV420 PPC_ROT_NO, [4 / 5]),
     (PPC_IDX MPP_MSC PPC_FORMAT_YUV420 PPC_ROT, [4 / 5]),
     (PPC_IDX MPP_MSC PPC_FORMAT_YUV422 PPC_ROT_NO, [4 / 5]),
     (PPC_IDX MPP_MSC PPC_FORMAT_YUV422 PPC_ROT, [4 / 5]),
     (PPC_IDX MPP_MSC PPC_FORMAT_RGB32 PPC_ROT_NO, [4 / 5]),
     (PPC_IDX MPP_MSC PPC_FORMAT_RGB32 PPC_ROT, [4 / 5])]"

section \<open>exynos7885\<close>

definition exynos7885_format_table :: "hal_env \<Rightarrow> restriction_key list" where
  "exynos7885_format_table hal =
    [rkey MPP_DPP_G NODE_NONE (hal HAL_PIXEL_FORMAT_RGB_565) 0,
     rkey MPP_DPP_G NODE_NONE (hal HAL_PIXEL_FORMAT_RGBA_8888) 0,
     rkey MPP_DPP_G NODE_NONE (hal HAL_PIXEL_FORMAT_RGBX_8888) 0,
     rkey MPP_DPP_G NODE_NONE (hal HAL_PIXEL_FORMAT_BGRA_8888) 0,
     rkey MPP_DPP_GF NODE_NONE (hal HAL_PIXEL_FORMAT_RGB_565) 0,
     rkey MPP_DPP_GF NODE_NONE (hal HAL_PIXEL_FORMAT_RGBA_8888) 0,
     rkey MPP_DPP_GF NODE_NONE (hal HAL_PIXEL_FORMAT_RGBX_8888) 0,
     rkey MPP_DPP_GF NODE_NONE (hal HAL_PIXEL_FORMAT_BGRA_8888) 0,
     rkey MPP_DPP_VG NODE_NONE (hal HAL_PIXEL_FORMAT_RGB_565) 0,
     rkey MPP_DPP_VG NODE_NONE (hal HAL_PIXEL_FORMAT_RGBA_8888) 0,
     rkey MPP_DPP_VG NODE_NONE (hal HAL_PIXEL_FORMAT_RGBX_8888) 0,
     rkey MPP_DPP_VG NODE_NONE (hal HAL_PIXEL_FORMAT_BGRA_8888) 0,
     rkey MPP_DPP_VG NODE_NONE (hal HAL_PIXEL_FORMAT_EXYNOS_YCbCr_420_SP_M) 0,
     rkey MPP_DPP_VG NODE_NONE (hal HAL_PIXEL_FORMAT_EXYNOS_YCbCr_420_SP_M_PRIV) 0,
     rkey MPP_DPP_VG NODE_NONE (hal HAL_PIXEL_FORMAT_EXYNOS_YCrCb_420_SP_M) 0,
     rkey MPP_DPP_VG NODE_NONE (hal HAL_PIXEL_FORMAT_EXYNOS_YCrCb_420_SP_M_FULL) 0,
     rkey MPP_DPP_VG NODE_NONE (hal HAL_PIXEL_FORMAT_EXYNOS_YCbCr_420_SPN) 0,
     rkey MPP_MSC NODE_NONE (hal HAL_PIXEL_FORMAT_RGB_565) 0,
     rkey MPP_MSC NODE_NONE (hal HAL_PIXEL_FORMAT_RGB_888) 0,
     rkey MPP_MSC NODE_NONE (hal HAL_PIXEL_FORMAT_RGBA_8888) 0,
     rkey MPP_MSC NODE_NONE (hal HAL_PIXEL_FORMAT_RGBX_8888) 0,
     rkey MPP_MSC NODE_NONE (hal HAL_PIXEL_FORMAT_BGRA_8888) 0,
     rkey MPP_MSC NODE_NONE (hal HAL_PIXEL_FORMAT_EXYNOS_YCbCr_420_SP_M) 0,
     rkey MPP_MSC NODE_NONE (hal HAL_PIXEL_FORMAT_EXYNOS_YCbCr_420_SP_M_PRIV) 0,
     rkey MPP_MSC NODE_NONE (hal HAL_PIXEL_FORMAT_EXYNOS_YCbCr_420_SP_M_TILED) 0,
     rkey MPP_MSC NODE_NONE (hal HAL_PIXEL_FORMAT_EXYNOS_YCrCb_420_SP_M) 0,
     rkey MPP_MSC NODE_NONE (hal HAL_PIXEL_FORMAT_EXYNOS_YCrCb_420_SP_M_FULL) 0,
     rkey MPP_MSC NODE_NONE (hal HAL_PIXEL_FORMAT_EXYNOS_YCbCr_420_SPN) 0,
     rkey MPP_MSC NODE_NONE (hal HAL_PIXEL_FORMAT_YCrCb_420_SP) 0,
     rkey MPP_MSC NODE_NONE (hal HAL_PIXEL_FORMAT_YV12) 0,
     rkey MPP_MSC NODE_NONE (hal HAL_PIXEL_FORMAT_EXYNOS_YV12_M) 0,
     rkey MPP_MSC NODE_NONE (hal HAL_PIXEL_FORMAT_EXYNOS_YCbCr_420_P_M) 0,
     rkey MPP_MSC NODE_NONE (hal HAL_PIXEL_FORMAT_EXYNOS_YCbCr_420_PN) 0,
     rkey MPP_MSC NODE_NONE (hal HAL_PIXEL_FORMAT_EXYNOS_YCbCr_420_SPN_TILED) 0,
     rkey MPP_G2D NODE_NONE (hal HAL_PIXEL_FORMAT_RGB_565) 0,
     rkey MPP_G2D NODE_NONE (hal HAL_PIXEL_FORMAT_RGB_888) 0,
     rkey MPP_G2D NODE_NONE (hal HAL_PIXEL_FORMAT_RGBA_8888) 0,
     rkey MPP_G2D NODE_NONE (hal HAL_PIXEL_FORMAT_RGBX_8888) 0,
     rkey MPP_G2D NODE_NONE (hal HAL_PIXEL_FORMAT_BGRA_8888) 0,
     rkey MPP_G2D NODE_NONE (hal HAL_PIXEL_FORMAT_EXYNOS_YCbCr_420_SP_M) 0,
     rkey MPP_G2D NODE_NONE (hal HAL_PIXEL_FORMAT_EXYNOS_YCbCr_420_SP_M_PRIV) 0,
     rkey MPP_G2D NODE_NONE (hal HAL_PIXEL_FORMAT_EXYNOS_YCbCr_420_SP_M_TILED) 0,
     rkey MPP_G2D NODE_NONE (hal HAL_PIXEL_FORMAT_EXYNOS_YCrCb_420_SP_M) 0,
     rkey MPP_G2D NODE_NONE (hal HAL_PIXEL_FORMAT_EXYNOS_YCrCb_420_SP_M_FULL) 0,
     rkey MPP_G2D NODE_NONE (hal HAL_PIXEL_FORMAT_EXYNOS_YCbCr_420_SPN) 0,
     rkey MPP_G2D NODE_NONE (hal HAL_PIXEL_FORMAT_YCrCb_420_SP) 0,
     rkey MPP_G2D NODE_NONE (hal HAL_PIXEL_FORMAT_EXYNOS_YCbCr_420_SPN_TILED) 0]"

definition exynos7885_size_table_rgb :: "restriction_size_element list" where
  "exynos7885_size_table_rgb =
    [(rkey MPP_DPP_G NODE_SRC HAL_PIXEL_FORMAT_NONE 0, rsize [1, 1, 65535, 8191, 16, 16, 1, 1, 4096, 4096, 16, 16, 1, 1, 1, 1]),
     (rkey MPP_DPP_GF NODE_SRC HAL_PIXEL_FORMAT_NONE 0, rsize [1, 1, 65535, 8191, 16, 16, 1, 1, 4096, 4096, 16, 16, 1, 1, 1, 1]),
     (rkey MPP_DPP_VG NODE_SRC HAL_PIXEL_FORMAT_NONE 0, rsize [1, 1, 65535, 8191, 16, 16, 1, 1, 2047, 2047, 16, 16, 1, 1, 1, 1]),
     (rkey MPP_MSC NODE_SRC HAL_PIXEL_FORMAT_NONE 0, rsize [16, 8, 8192, 8192, 16, 16, 1, 1, 8192, 8192, 16, 16, 1, 1, 1, 1]),
     (rkey MPP_DPP_G NODE_DST HAL_PIXEL_FORMAT_NONE 0, rsize [1, 1, 65535, 8191, 16, 16, 1, 1, 4096, 4096, 16, 16, 1, 1, 1, 1]),
     (rkey MPP_DPP_GF NODE_DST HAL_PIXEL_FORMAT_NONE 0, rsize [1, 1, 65535, 8191, 16, 16, 1, 1, 4096, 4096, 16, 16, 1, 1, 1, 1]),
     (rkey MPP_DPP_VG NODE_DST HAL_PIXEL_FORMAT_NONE 0, rsize [1, 1, 65535, 8191, 16, 16, 1, 1, 2047, 2047, 16, 16, 1, 1, 1, 1]),
     (rkey MPP_MSC NODE_DST HAL_PIXEL_FORMAT_NONE 0, rsize [16, 8, 8192, 8192, 4, 4, 1, 1, 8192, 8192, 4, 4, 1, 1, 1, 1]),
     (rkey MPP_G2D NODE_NONE HAL_PIXEL_FORMAT_NONE 0, rsize [8192, 8192, 8192, 8192, 1, 1, 1, 1, 8192, 8192, 1, 1, 1, 1, 1, 1])]"

definition exynos7885_size_table_yuv :: "restriction_size_element list" where
  "exynos7885_size_table_yuv =
    [(rkey MPP_DPP_G NODE_SRC HAL_PIXEL_FORMAT_NONE 0, rsize [1, 1, 65534, 8190, 32, 32, 2, 2, 4096, 4096, 32, 32, 2, 2, 2, 2]),
     (rkey MPP_DPP_GF NODE_SRC HAL_PIXEL_FORMAT_NONE 0, rsize [1, 1, 65534, 8190, 32, 32, 2, 2, 4096, 4096, 32, 32, 2, 2, 2, 2]),
     (rkey MPP_DPP_VG NODE_SRC HAL_PIXEL_FORMAT_NONE 0, rsize [1, 1, 65534, 8190, 32, 32, 2, 2, 2047, 2047, 32, 32, 2, 2, 2, 2]),
     (rkey MPP_MSC NODE_SRC HAL_PIXEL_FORMAT_NONE 0, rsize [16, 8, 8192, 8192, 16, 16, 2, 2, 8192, 8192, 16, 16, 2, 2, 2, 2]),
     (rkey MPP_G2D NODE_SRC HAL_PIXEL_FORMAT_NONE 0, rsize [4, 8192, 8192, 8192, 2, 2, 2, 2, 8192, 8192, 1, 1, 1, 1, 1, 1]),
     (rkey MPP_DPP_G NODE_DST HAL_PIXEL_FORMAT_NONE 0, rsize [1, 1, 65535, 8191, 16, 16, 1, 1, 4096, 4096, 16, 16, 1, 1, 1, 1]),
     (rkey MPP_DPP_GF NODE_DST HAL_PIXEL_FORMAT_NONE 0, rsize [1, 1, 65535, 8191, 16, 16, 1, 1, 4096, 4096, 16, 16, 1, 1, 1, 1]),
     (rkey MPP_DPP_VG NODE_DST HAL_PIXEL_FORMAT_NONE 0, rsize [1, 1, 65535, 8191, 16, 16, 1, 1, 2047, 2047, 16, 16, 1, 1, 1, 1]),
     (rkey MPP_MSC NODE_DST HAL_PIXEL_FORMAT_NONE 0, rsize [16, 8, 8192, 8192, 4, 4, 2, 2, 8192, 8192, 4, 4, 2, 2, 2, 2]),
     (rkey MPP_G2D NODE_DST HAL_PIXEL_FORMAT_NONE 0, rsize [8192, 8192, 8192, 8192, 2, 2, 2, 2, 8192, 8192, 2, 2, 2, 2, 2, 2])]"

definition exynos7885_ppc_table :: "(u32 \<times> rat list) list" where
  "exynos7885_ppc_table =
    [(PPC_IDX MPP_G2D PPC_FORMAT_YUV420 PPC_ROT_NO, [7 / 5, 13 / 10, 17 / 10, 5 / 2, 59 / 10, 13 / 10, 3 / 2]),
     (PPC_IDX MPP_G2D PPC_FORMAT_YUV420 PPC_ROT, [1, 9 / 10, 8 / 5, 13 / 5, 7 / 2, 9 / 10, 8 / 5]),
     (PPC_IDX MPP_G2D PPC_FORMAT_YUV8_2 PPC_ROT_NO, [9 / 10, 9 / 10, 13 / 10, 3 / 2, 2, 7 / 10, 6 / 5]),
     (PPC_IDX MPP_G2D PPC_FORMAT_YUV8_2 PPC_ROT, [2 / 5, 2 / 5, 11 / 10, 1, 9 / 5, 2 / 5, 6 / 5]),
     (PPC_IDX MPP_G2D PPC_FORMAT_YUV422 PPC_ROT_NO, [3 / 2, 11 / 10, 9 / 5, 5 / 2, 7 / 2, 11 / 10, 17 / 10]),
     (PPC_IDX MPP_G2D PPC_FORMAT_YUV422 PPC_ROT, [13 / 10, 1, 3 / 2, 13 / 5, 16 / 5, 1, 8 / 5]),
     (PPC_IDX MPP_G2D PPC_FORMAT_RGB32 PPC_ROT_NO, [3 / 2, 11 / 10, 9 / 5, 5 / 2, 7 / 2, 11 / 10, 17 / 10]),
     (PPC_IDX MPP_G2D PPC_FORMAT_RGB32 PPC_ROT, [13 / 10, 1, 3 / 2, 13 / 5, 16 / 5, 1, 8 / 5]),
     (PPC_IDX MPP_MSC PPC_FORMAT_YUV420 PPC_ROT_NO, [1 / 10000]),
     (PPC_IDX MPP_MSC PPC_FORMAT_YUV420 PPC_ROT, [1 / 10000]),
     (PPC_IDX MPP_MSC PPC_FORMAT_YUV422 PPC_ROT_NO, [1 / 10000]),
     (PPC_IDX MPP_MSC PPC_FORMAT_YUV422 PPC_ROT, [1 / 10000]),
     (PPC_IDX MPP_MSC PPC_FORMAT_P010 PPC_ROT_NO, [1 / 10000]),
     (PPC_IDX MPP_MSC PPC_FORMAT_P010 PPC_ROT, [1 / 10000]),
     (PPC_IDX MPP_MSC PPC_FORMAT_YUV8_2 PPC_ROT_NO, [1 / 10000]),
     (PPC_IDX MPP_MSC PPC_FORMAT_YUV8_2 PPC_ROT, [1 / 10000]),
     (PPC_IDX MPP_MSC PPC_FORMAT_RGB32 PPC_ROT_NO, [1 / 10000]),
     (PPC_IDX MPP_MSC PPC_FORMAT_RGB32 PPC_ROT, [1 / 10000])]"

section \<open>exynos9610\<close>

definition exynos9610_format_table :: "hal_env \<Rightarrow> restriction_key list" where
  "exynos9610_format_table hal =
    [rkey MPP_DPP_G NODE_NONE (hal HAL_PIXEL_FORMAT_RGB_565) 0,
     rkey MPP_DPP_G NODE_NONE (hal HAL_PIXEL_FORMAT_RGBA_8888) 0,
     rkey MPP_DPP_G NODE_NONE (hal HAL_PIXEL_FORMAT_RGBX_8888) 0,
     rkey MPP_DPP_G NODE_NONE (hal HAL_PIXEL_FORMAT_BGRA_8888) 0,
     rkey MPP_DPP_G NODE_NONE (hal HAL_PIXEL_FORMAT_RGBA_1010102) 0,
     rkey MPP_DPP_GF NODE_NONE (hal HAL_PIXEL_FORMAT_RGB_565) 0,
     rkey MPP_DPP_GF NODE_NONE (hal HAL_PIXEL_FORMAT_RGBA_8888) 0,
     rkey MPP_DPP_GF NODE_NONE (hal HAL_PIXEL_FORMAT_RGBX_8888) 0,
     rkey MPP_DPP_GF NODE_NONE (hal HAL_PIXEL_FORMAT_BGRA_8888) 0,
     rkey MPP_DPP_GF NODE_NONE (hal HAL_PIXEL_FORMAT_RGBA_1010102) 0,
     rkey MPP_DPP_VGS NODE_NONE (hal HAL_PIXEL_FORMAT_RGB_565) 0,
     rkey MPP_DPP_VGS NODE_NONE (hal HAL_PIXEL_FORMAT_RGBA_8888) 0,
     rkey MPP_DPP_VGS NODE_NONE (hal HAL_PIXEL_FORMAT_RGBX_8888) 0,
     rkey MPP_DPP_VGS NODE_NONE (hal HAL_PIXEL_FORMAT_BGRA_8888) 0,
     rkey MPP_DPP_VGS NODE_NONE (hal HAL_PIXEL_FORMAT_RGBA_1010102) 0,
     rkey MPP_DPP_VGS NODE_NONE (hal HAL_PIXEL_FORMAT_EXYNOS_YCbCr_420_SP_M) 0,
     rkey MPP_DPP_VGS NODE_NONE (hal HAL_PIXEL_FORMAT_EXYNOS_YCbCr_420_SP_M_PRIV) 0,
     rkey MPP_DPP_VGS NODE_NONE (hal HAL_PIXEL_FORMAT_EXYNOS_YCrCb_420_SP_M) 0,
     rkey MPP_DPP_VGS NODE_NONE (hal HAL_PIXEL_FORMAT_EXYNOS_YCrCb_420_SP_M_FULL) 0,
     rkey MPP_DPP_VGS NODE_NONE (hal HAL_PIXEL_FORMAT_EXYNOS_YCbCr_420_SPN) 0,
     rkey MPP_DPP_VGS NODE_NONE (hal HAL_PIXEL_FORMAT_EXYNOS_YCbCr_420_SP_M_S10B) 0,
     rkey MPP_DPP_VGS NODE_NONE (hal HAL_PIXEL_FORMAT_EXYNOS_YCbCr_420_SPN_S10B) 0,
     rkey MPP_MSC NODE_NONE (hal HAL_PIXEL_FORMAT_RGB_565) 0,
     rkey MPP_MSC NODE_NONE (hal HAL_PIXEL_FORMAT_RGB_888) 0,
     rkey MPP_MSC NODE_NONE (hal HAL_PIXEL_FORMAT_RGBA_8888) 0,
     rkey MPP_MSC NODE_NONE (hal HAL_PIXEL_FORMAT_RGBX_8888) 0,
     rkey MPP_MSC NODE_NONE (hal HAL_PIXEL_FORMAT_BGRA_8888) 0,
     rkey MPP_MSC NODE_NONE (hal HAL_PIXEL_FORMAT_EXYNOS_YCbCr_420_SP_M) 0,
     rkey MPP_MSC NODE_NONE (hal HAL_PIXEL_FORMAT_EXYNOS_YCbCr_420_SP_M_PRIV) 0,
     rkey MPP_MSC NODE_NONE (hal HAL_PIXEL_FORMAT_EXYNOS_YCbCr_420_SP_M_TILED) 0,
     rkey MPP_MSC NODE_NONE (hal HAL_PIXEL_FORMAT_EXYNOS_YCrCb_420_SP_M) 0,
     rkey MPP_MSC NODE_NONE (hal HAL_PIXEL_FORMAT_EXYNOS_YCrCb_420_SP_M_FULL) 0,
     rkey MPP_MSC NODE_NONE (hal HAL_PIXEL_FORMAT_EXYNOS_YCbCr_420_SPN) 0,
     rkey MPP_MSC NODE_NONE (hal HAL_PIXEL_FORMAT_EXYNOS_YCbCr_420_SP_M_S10B) 0,
     rkey MPP_MSC NODE_NONE (hal HAL_PIXEL_FORMAT_EXYNOS_YCbCr_420_SPN_S10B) 0,
     rkey MPP_MSC NODE_NONE (hal HAL_PIXEL_FORMAT_YCrCb_420_SP) 0,
     rkey MPP_MSC NODE_NONE (hal HAL_PIXEL_FORMAT_YV12) 0,
     rkey MPP_MSC NODE_NONE (hal HAL_PIXEL_FORMAT_EXYNOS_YV12_M) 0,
     rkey MPP_MSC NODE_NONE (hal HAL_PIXEL_FORMAT_EXYNOS_YCbCr_420_P_M) 0,
     rkey MPP_MSC NODE_NONE (hal HAL_PIXEL_FORMAT_EXYNOS_YCbCr_420_PN) 0,
     rkey MPP_MSC NODE_NONE (hal HAL_PIXEL_FORMAT_EXYNOS_YCbCr_420_SPN_TILED) 0,
     rkey MPP_G2D NODE_NONE (hal HAL_PIXEL_FORMAT_RGB_565) 0,
     rkey MPP_G2D NODE_NONE (hal HAL_PIXEL_FORMAT_RGB_888) 0,
     rkey MPP_G2D NODE_NONE (hal HAL_PIXEL_FORMAT_RGBA_8888) 0,
     rkey MPP_G2D NODE_NONE (hal HAL_PIXEL_FORMAT_RGBX_8888) 0,
     rkey MPP_G2D NODE_NONE (hal HAL_PIXEL_FORMAT_BGRA_8888) 0,
     rkey MPP_G2D NODE_NONE (hal HAL_PIXEL_FORMAT_RGBA_1010102) 0,
     rkey MPP_G2D NODE_NONE (hal HAL_PIXEL_FORMAT_EXYNOS_YCbCr_420_SP_M) 0,
     rkey MPP_G2D NODE_NONE (hal HAL_PIXEL_FORMAT_EXYNOS_YCbCr_420_SP_M_PRIV) 0,
     rkey MPP_G2D NODE_NONE (hal HAL_PIXEL_FORMAT_EXYNOS_YCbCr_420_SP_M_TILED) 0,
     rkey MPP_G2D NODE_NONE (hal HAL_PIXEL_FORMAT_EXYNOS_YCrCb_420_SP_M) 0,
     rkey MPP_G2D NODE_NONE (hal HAL_PIXEL_FORMAT_EXYNOS_YCrCb_420_SP_M_FULL) 0,
     rkey MPP_G2D NODE_NONE (hal HAL_PIXEL_FORMAT_EXYNOS_YCbCr_420_SPN) 0,
     rkey MPP_G2D NODE_NONE (hal HAL_PIXEL_FORMAT_EXYNOS_YCbCr_420_SP_M_S10B) 0,
     rkey MPP_G2D NODE_NONE (hal HAL_PIXEL_FORMAT_EXYNOS_YCbCr_420_SPN_S10B) 0,
     rkey MPP_G2D NODE_NONE (hal HAL_PIXEL_FORMAT_YCrCb_420_SP) 0,
     rkey MPP_G2D NODE_NONE (hal HAL_PIXEL_FORMAT_EXYNOS_YCbCr_420_SPN_TILED) 0]"

definition exynos9610_size_table_rgb :: "restriction_size_element list" where
  "exynos9610_size_table_rgb =
    [(rkey MPP_DPP_G NODE_SRC HAL_PIXEL_FORMAT_NONE 0, rsize [1, 1, 65535, 8191, 16, 16, 1, 1, 4096, 4096, 16, 16, 1, 1, 1, 1]),
     (rkey MPP_DPP_GF NODE_SRC HAL_PIXEL_FORMAT_NONE 0, rsize [1, 1, 65535, 8191, 16, 16, 1, 1, 4096, 4096, 16, 16, 1, 1, 1, 1]),
     (rkey MPP_DPP_VGS NODE_SRC HAL_PIXEL_FORMAT_NONE 0, rsize [2, 8, 65535, 8191, 16, 16, 1, 1, 4096, 4096, 16, 16, 1, 1, 1, 1]),
     (rkey MPP_MSC NODE_SRC HAL_PIXEL_FORMAT_NONE 0, rsize [16, 64, 8192, 8192, 16, 16, 1, 1, 8192, 8192, 16, 16, 1, 1, 1, 1]),
     (rkey MPP_DPP_G NODE_DST HAL_PIXEL_FORMAT_NONE 0, rsize [1, 1, 65535, 8191, 16, 16, 1, 1, 4096, 4096, 16, 16, 1, 1, 1, 1]),
     (rkey MPP_DPP_GF NODE_DST HAL_PIXEL_FORMAT_NONE 0, rsize [1, 1, 65535, 8191, 16, 16, 1, 1, 4096, 4096, 16, 16, 1, 1, 1, 1]),
     (rkey MPP_DPP_VGS NODE_DST HAL_PIXEL_FORMAT_NONE 0, rsize [2, 8, 65535, 8191, 16, 16, 1, 1, 4096, 4096, 16, 16, 1, 1, 1, 1]),
     (rkey MPP_MSC NODE_DST HAL_PIXEL_FORMAT_NONE 0, rsize [16, 64, 8192, 8192, 4, 4, 1, 1, 8192, 8192, 4, 4, 1, 1, 1, 1]),
     (rkey MPP_G2D NODE_NONE HAL_PIXEL_FORMAT_NONE 0, rsize [8192, 8192, 8192, 8192, 1, 1, 1, 1, 8192, 8192, 1, 1, 1, 1, 1, 1])]"

definition exynos9610_size_table_yuv :: "restriction_size_element list" where
  "exynos9610_size_table_yuv =
    [(rkey MPP_DPP_G NODE_SRC HAL_PIXEL_FORMAT_NONE 0, rsize [1, 1, 65534, 8190, 32, 32, 2, 2, 4096, 4096, 32, 32, 2, 2, 2, 2]),
     (rkey MPP_DPP_GF NODE_SRC HAL_PIXEL_FORMAT_NONE 0, rsize [1, 1, 65534, 8190, 32, 32, 2, 2, 4096, 4096, 32, 32, 2, 2, 2, 2]),
     (rkey MPP_DPP_VGS NODE_SRC HAL_PIXEL_FORMAT_NONE 0, rsize [2, 8, 65534, 8190, 32, 32, 2, 2, 4096, 4096, 32, 32, 2, 2, 2, 2]),
     (rkey MPP_MSC NODE_SRC HAL_PIXEL_FORMAT_NONE 0, rsize [16, 64, 8192, 8192, 16, 16, 2, 2, 8192, 8192, 16, 16, 2, 2, 2, 2]),
     (rkey MPP_G2D NODE_SRC HAL_PIXEL_FORMAT_NONE 0, rsize [4, 8192, 8192, 8192, 2, 2, 2, 2, 8192, 8192, 1, 1, 1, 1, 1, 1]),
     (rkey MPP_DPP_G NODE_DST HAL_PIXEL_FORMAT_NONE 0, rsize [1, 1, 65535, 8191, 16, 16, 1, 1, 4096, 4096, 16, 16, 1, 1, 1, 1]),
     (rkey MPP_DPP_GF NODE_DST HAL_PIXEL_FORMAT_NONE 0, rsize [1, 1, 65535, 8191, 16, 16, 1, 1, 4096, 4096, 16, 16, 1, 1, 1, 1]),
     (rkey MPP_DPP_VGS NODE_DST HAL_PIXEL_FORMAT_NONE 0, rsize [2, 8, 65535, 8191, 16, 16, 1, 1, 4096, 4096, 16, 16, 1, 1, 1, 1]),
     (rkey MPP_MSC NODE_DST HAL_PIXEL_FORMAT_NONE 0, rsize [16, 64, 8192, 8192, 4, 4, 2, 2, 8192, 8192, 4, 4, 2, 2, 2, 2]),
     (rkey MPP_G2D NODE_DST HAL_PIXEL_FORMAT_NONE 0, rsize [8192, 8192, 8192, 8192, 2, 2, 2, 2, 8192, 8192, 2, 2, 2, 2, 2, 2])]"

definition exynos9610_ppc_table :: "(u32 \<times> rat list) list" where
  "exynos9610_ppc_table =
    [(PPC_IDX MPP_G2D PPC_FORMAT_YUV420 PPC_ROT_NO, [7 / 5, 13 / 10, 17 / 10, 5 / 2, 59 / 10, 13 / 10, 3 / 2]),
     (PPC_IDX MPP_G2D PPC_FORMAT_YUV420 PPC_ROT, [1, 9 / 10, 8 / 5, 13 / 5, 7 / 2, 9 / 10, 8 / 5]),
     (PPC_IDX MPP_G2D PPC_FORMAT_YUV8_2 PPC_ROT_NO, [9 / 10, 9 / 10, 13 / 10, 3 / 2, 2, 7 / 10, 6 / 5]),
     (PPC_IDX MPP_G2D PPC_FORMAT_YUV8_2 PPC_ROT, [2 / 5, 2 / 5, 11 / 10, 1, 9 / 5, 2 / 5, 6 / 5]),
     (PPC_IDX MPP_G2D PPC_FORMAT_YUV422 PPC_ROT_NO, [3 / 2, 11 / 10, 9 / 5, 5 / 2, 7 / 2, 11 / 10, 17 / 10]),
     (PPC_IDX MPP_G2D PPC_FORMAT_YUV422 PPC_ROT, [13 / 10, 1, 3 / 2, 13 / 5, 16 / 5, 1, 8 / 5]),
     (PPC_IDX MPP_G2D PPC_FORMAT_RGB32 PPC_ROT_NO, [3 / 2, 11 / 10, 9 / 5, 5 / 2, 7 / 2, 11 / 10, 17 / 10]),
     (PPC_IDX MPP_G2D PPC_FORMAT_RGB32 PPC_ROT, [13 / 10, 1, 3 / 2, 13 / 5, 16 / 5, 1, 8 / 5]),
     (PPC_IDX MPP_MSC PPC_FORMAT_YUV420 PPC_ROT_NO, [1 / 10000]),
     (PPC_IDX MPP_MSC PPC_FORMAT_YUV420 PPC_ROT, [1 / 10000]),
     (PPC_IDX MPP_MSC PPC_FORMAT_YUV422 PPC_ROT_NO, [1 / 10000]),
     (PPC_IDX MPP_MSC PPC_FORMAT_YUV422 PPC_ROT, [1 / 10000]),
     (PPC_IDX MPP_MSC PPC_FORMAT_P010 PPC_ROT_NO, [1 / 10000]),
     (PPC_IDX MPP_MSC PPC_FORMAT_P010 PPC_ROT, [1 / 10000]),
     (PPC_IDX MPP_MSC PPC_FORMAT_YUV8_2 PPC_ROT_NO, [1 / 10000]),
     (PPC_IDX MPP_MSC PPC_FORMAT_YUV8_2 PPC_ROT, [1 / 10000]),
     (PPC_IDX MPP_MSC PPC_FORMAT_RGB32 PPC_ROT_NO, [1 / 10000]),
     (PPC_IDX MPP_MSC PPC_FORMAT_RGB32 PPC_ROT, [1 / 10000])]"

section \<open>exynos9630\<close>

definition exynos9630_feature_table :: "feature_support_t list" where
  "exynos9630_feature_table =
    [fs MPP_DPP_G (MPP_ATTR_BLOCK_MODE OR MPP_ATTR_WINDOW_UPDATE OR MPP_ATTR_DIM),
     fs MPP_DPP_GF (MPP_ATTR_AFBC OR MPP_ATTR_BLOCK_MODE OR MPP_ATTR_WINDOW_UPDATE OR MPP_ATTR_DIM),
     fs MPP_DPP_VGS (MPP_ATTR_BLOCK_MODE OR MPP_ATTR_WINDOW_UPDATE OR MPP_ATTR_SCALE OR MPP_ATTR_DIM),
     fs MPP_MSC (MPP_ATTR_FLIP_H OR MPP_ATTR_FLIP_V OR MPP_ATTR_ROT_90 OR MPP_ATTR_USE_CAPA),
     fs MPP_G2D (MPP_ATTR_AFBC OR MPP_ATTR_FLIP_H OR MPP_ATTR_FLIP_V OR MPP_ATTR_ROT_90 OR MPP_ATTR_HDR10 OR MPP_ATTR_USE_CAPA OR MPP_ATTR_DIM)]"

definition exynos9630_format_table :: "hal_env \<Rightarrow> restriction_key list" where
  "exynos9630_format_table hal =
    [rkey MPP_DPP_G NODE_NONE (hal HAL_PIXEL_FORMAT_RGB_565) 0,
     rkey MPP_DPP_G NODE_NONE (hal HAL_PIXEL_FORMAT_RGBA_8888) 0,
     rkey MPP_DPP_G NODE_NONE (hal HAL_PIXEL_FORMAT_RGBX_8888) 0,
     rkey MPP_DPP_G NODE_NONE (hal HAL_PIXEL_FORMAT_BGRA_8888) 0,
     rkey MPP_DPP_G NODE_NONE (hal HAL_PIXEL_FORMAT_RGBA_1010102) 0,
     rkey MPP_DPP_GF NODE_NONE (hal HAL_PIXEL_FORMAT_RGB_565) 0,
     rkey MPP_DPP_GF NODE_NONE (hal HAL_PIXEL_FORMAT_RGBA_8888) 0,
     rkey MPP_DPP_GF NODE_NONE (hal HAL_PIXEL_FORMAT_RGBX_8888) 0,
     rkey MPP_DPP_GF NODE_NONE (hal HAL_PIXEL_FORMAT_BGRA_8888) 0,
     rkey MPP_DPP_GF NODE_NONE (hal HAL_PIXEL_FORMAT_RGBA_1010102) 0,
     rkey MPP_DPP_VGS NODE_NONE (hal HAL_PIXEL_FORMAT_RGB_565) 0,
     rkey MPP_DPP_VGS NODE_NONE (hal HAL_PIXEL_FORMAT_RGBA_8888) 0,
     rkey MPP_DPP_VGS NODE_NONE (hal HAL_PIXEL_FORMAT_RGBX_8888) 0,
     rkey MPP_DPP_VGS NODE_NONE (hal HAL_PIXEL_FORMAT_BGRA_8888) 0,
     rkey MPP_DPP_VGS NODE_NONE (hal HAL_PIXEL_FORMAT_RGBA_1010102) 0,
     rkey MPP_DPP_VGS NODE_NONE (hal HAL_PIXEL_FORMAT_EXYNOS_YCbCr_420_SP_M) 0,
     rkey MPP_DPP_VGS NODE_NONE (hal HAL_PIXEL_FORMAT_EXYNOS_YCbCr_420_SP_M_PRIV) 0,
     rkey MPP_DPP_VGS NODE_NONE (hal HAL_PIXEL_FORMAT_EXYNOS_YCrCb_420_SP_M) 0,
     rkey MPP_DPP_VGS NODE_NONE (hal HAL_PIXEL_FORMAT_EXYNOS_YCrCb_420_SP_M_FULL) 0,
     rkey MPP_DPP_VGS NODE_NONE (hal HAL_PIXEL_FORMAT_EXYNOS_YCbCr_420_SPN) 0,
     rkey MPP_DPP_VGS NODE_NONE (hal HAL_PIXEL_FORMAT_EXYNOS_YCbCr_420_SP_M_S10B) 0,
     rkey MPP_DPP_VGS NODE_NONE (hal HAL_PIXEL_FORMAT_EXYNOS_YCbCr_420_SPN_S10B) 0,
     rkey MPP_MSC NODE_NONE (hal HAL_PIXEL_FORMAT_RGB_565) 0,
     rkey MPP_MSC NODE_NONE (hal HAL_PIXEL_FORMAT_RGB_888) 0,
     rkey MPP_MSC NODE_NONE (hal HAL_PIXEL_FORMAT_RGBA_8888) 0,
     rkey MPP_MSC NODE_NONE (hal HAL_PIXEL_FORMAT_RGBX_8888) 0,
     rkey MPP_MSC NODE_NONE (hal HAL_PIXEL_FORMAT_BGRA_8888) 0,
     rkey MPP_MSC NODE_NONE (hal HAL_PIXEL_FORMAT_EXYNOS_YCbCr_420_SP_M) 0,
     rkey MPP_MSC NODE_NONE (hal HAL_PIXEL_FORMAT_EXYNOS_YCbCr_420_SP_M_PRIV) 0,
     rkey MPP_MSC NODE_NONE (hal HAL_PIXEL_FORMAT_EXYNOS_YCbCr_420_SP_M_TILED) 0,
     rkey MPP_MSC NODE_NONE (hal HAL_PIXEL_FORMAT_EXYNOS_YCrCb_420_SP_M) 0,
     rkey MPP_MSC NODE_NONE (hal HAL_PIXEL_FORMAT_EXYNOS_YCrCb_420_SP_M_FULL) 0,
     rkey MPP_MSC NODE_NONE (hal HAL_PIXEL_FORMAT_EXYNOS_YCbCr_420_SPN) 0,
     rkey MPP_MSC NODE_NONE (hal HAL_PIXEL_FORMAT_EXYNOS_YCbCr_420_SP_M_S10B) 0,
     rkey MPP_MSC NODE_NONE (hal HAL_PIXEL_FORMAT_EXYNOS_YCbCr_420_SPN_S10B) 0,
     rkey MPP_MSC NODE_NONE (hal HAL_PIXEL_FORMAT_YCrCb_420_SP) 0,
     rkey MPP_MSC NODE_NONE (hal HAL_PIXEL_FORMAT_YV12) 0,
     rkey MPP_MSC NODE_NONE (hal HAL_PIXEL_FORMAT_EXYNOS_YV12_M) 0,
     rkey MPP_MSC NODE_NONE (hal HAL_PIXEL_FORMAT_EXYNOS_YCbCr_420_P_M) 0,
     rkey MPP_MSC NODE_NONE (hal HAL_PIXEL_FORMAT_EXYNOS_YCbCr_420_PN) 0,
     rkey MPP_MSC NODE_NONE (hal HAL_PIXEL_FORMAT_EXYNOS_YCbCr_420_SPN_TILED) 0,
     rkey MPP_G2D NODE_NONE (hal HAL_PIXEL_FORMAT_RGB_565) 0,
     rkey MPP_G2D NODE_NONE (hal HAL_PIXEL_FORMAT_RGB_888) 0,
     rkey MPP_G2D NODE_NONE (hal HAL_PIXEL_FORMAT_RGBA_8888) 0,
     rkey MPP_G2D NODE_NONE (hal HAL_PIXEL_FORMAT_RGBX_8888) 0,
     rkey MPP_G2D NODE_NONE (hal HAL_PIXEL_FORMAT_BGRA_8888) 0,
     rkey MPP_G2D NODE_NONE (hal HAL_PIXEL_FORMAT_RGBA_1010102) 0,
     rkey MPP_G2D NODE_NONE (hal HAL_PIXEL_FORMAT_EXYNOS_YCbCr_420_SP_M) 0,
     rkey MPP_G2D NODE_NONE (hal HAL_PIXEL_FORMAT_EXYNOS_YCbCr_420_SP_M_PRIV) 0,
     rkey MPP_G2D NODE_NONE (hal HAL_PIXEL_FORMAT_EXYNOS_YCbCr_420_SP_M_TILED) 0,
     rkey MPP_G2D NODE_NONE (hal HAL_PIXEL_FORMAT_EXYNOS_YCrCb_420_SP_M) 0,
     rkey MPP_G2D NODE_NONE (hal HAL_PIXEL_FORMAT_EXYNOS_YCrCb_420_SP_M_FULL) 0,
     rkey MPP_G2D NODE_NONE (hal HAL_PIXEL_FORMAT_EXYNOS_YCbCr_420_SPN) 0,
     rkey MPP_G2D NODE_NONE (hal HAL_PIXEL_FORMAT_EXYNOS_YCbCr_420_SP_M_S10B) 0,
     rkey MPP_G2D NODE_NONE (hal HAL_PIXEL_FORMAT_EXYNOS_YCbCr_420_SPN_S10B) 0,
     rkey MPP_G2D NODE_NONE (hal HAL_PIXEL_FORMAT_YCrCb_420_SP) 0,
     rkey MPP_G2D NODE_NONE (hal HAL_PIXEL_FORMAT_EXYNOS_YCbCr_420_SPN_TILED) 0]"

definition exynos9630_size_table_rgb :: "restriction_size_element list" where
  "exynos9630_size_table_rgb =
    [(rkey MPP_DPP_G NODE_SRC HAL_PIXEL_FORMAT_NONE 0, rsize [1, 1, 65535, 8191, 16, 16, 1, 1, 4096, 4096, 16, 16, 1, 1, 1, 1]),
     (rkey MPP_DPP_GF NODE_SRC HAL_PIXEL_FORMAT_NONE 0, rsize [1, 1, 65535, 8191, 16, 16, 1, 1, 4096, 4096, 16, 16, 1, 1, 1, 1]),
     (rkey MPP_DPP_VGS NODE_SRC HAL_PIXEL_FORMAT_NONE 0, rsize [2, 8, 65535, 8191, 16, 16, 1, 1, 4096, 4096, 16, 16, 1, 1, 1, 1]),
     (rkey MPP_MSC NODE_SRC HAL_PIXEL_FORMAT_NONE 0, rsize [16, 64, 8192, 8192, 16, 16, 1, 1, 8192, 8192, 16, 16, 1, 1, 1, 1]),
     (rkey MPP_DPP_G NODE_DST HAL_PIXEL_FORMAT_NONE 0, rsize [1, 1, 65535, 8191, 16, 16, 1, 1, 4096, 4096, 16, 16, 1, 1, 1, 1]),
     (rkey MPP_DPP_GF NODE_DST HAL_PIXEL_FORMAT_NONE 0, rsize [1, 1, 65535, 8191, 16, 16, 1, 1, 4096, 4096, 16, 16, 1, 1, 1, 1]),
     (rkey MPP_DPP_VGS NODE_DST HAL_PIXEL_FORMAT_NONE 0, rsize [2, 8, 65535, 8191, 16, 16, 1, 1, 4096, 4096, 16, 16, 1, 1, 1, 1]),
     (rkey MPP_MSC NODE_DST HAL_PIXEL_FORMAT_NONE 0, rsize [16, 64, 8192, 8192, 4, 4, 1, 1, 8192, 8192, 4, 4, 1, 1, 1, 1]),
     (rkey MPP_G2D NODE_NONE HAL_PIXEL_FORMAT_NONE 0, rsize [8192, 8192, 8192, 8192, 1, 1, 1, 1, 8192, 8192, 1, 1, 1, 1, 1, 1])]"

definition exynos9630_size_table_yuv :: "restriction_size_element list" where
  "exynos9630_size_table_yuv =
    [(rkey MPP_DPP_G NODE_SRC HAL_PIXEL_FORMAT_NONE 0, rsize [1, 1, 65534, 8190, 32, 32, 2, 2, 4096, 4096, 32, 32, 2, 2, 2, 2]),
     (rkey MPP_DPP_GF NODE_SRC HAL_PIXEL_FORMAT_NONE 0, rsize [1, 1, 65534, 8190, 32, 32, 2, 2, 4096, 4096, 32, 32, 2, 2, 2, 2]),
     (rkey MPP_DPP_VGS NODE_SRC HAL_PIXEL_FORMAT_NONE 0, rsize [2, 8, 65534, 8190, 32, 32, 2, 2, 4096, 4096, 32, 32, 2, 2, 2, 2]),
     (rkey MPP_MSC NODE_SRC HAL_PIXEL_FORMAT_NONE 0, rsize [16, 64, 8192, 8192, 16, 16, 2, 2, 8192, 8192, 16, 16, 2, 2, 2, 2]),
     (rkey MPP_G2D NODE_SRC HAL_PIXEL_FORMAT_NONE 0, rsize [4, 8192, 8192, 8192, 2, 2, 2, 2, 8192, 8192, 1, 1, 1, 1, 1, 1]),
     (rkey MPP_DPP_G NODE_DST HAL_PIXEL_FORMAT_NONE 0, rsize [1, 1, 65535, 8191, 16, 16, 1, 1, 4096, 4096, 16, 16, 1, 1, 1, 1]),
     (rkey MPP_DPP_GF NODE_DST HAL_PIXEL_FORMAT_NONE 0, rsize [1, 1, 65535, 8191, 16, 16, 1, 1, 4096, 4096, 16, 16, 1, 1, 1, 1]),
     (rkey MPP_DPP_VGS NODE_DST HAL_PIXEL_FORMAT_NONE 0, rsize [2, 8, 65535, 8191, 16, 16, 1, 1, 4096, 4096, 16, 16, 1, 1, 1, 1]),
     (rkey MPP_MSC NODE_DST HAL_PIXEL_FORMAT_NONE 0, rsize [16, 64, 8192, 8192, 4, 4, 2, 2, 8192, 8192, 4, 4, 2, 2, 2, 2]),
     (rkey MPP_G2D NODE_DST HAL_PIXEL_FORMAT_NONE 0, rsize [8192, 8192, 8192, 8192, 2, 2, 2, 2, 8192, 8192, 2, 2, 2, 2, 2, 2])]"

definition exynos9630_ppc_table :: "(u32 \<times> rat list) list" where
  "exynos9630_ppc_table =
    [(PPC_IDX MPP_G2D PPC_FORMAT_YUV420 PPC_ROT_NO, [7 / 5, 13 / 10, 17 / 10, 5 / 2, 59 / 10, 13 / 10, 3 / 2]),
     (PPC_IDX MPP_G2D PPC_FORMAT_YUV420 PPC_ROT, [1, 9 / 10, 8 / 5, 13 / 5, 7 / 2, 9 / 10, 8 / 5]),
     (PPC_IDX MPP_G2D PPC_FORMAT_YUV422 PPC_ROT_NO, [3 / 2, 11 / 10, 9 / 5, 5 / 2, 7 / 2, 11 / 10, 17 / 10]),
     (PPC_IDX MPP_G2D PPC_FORMAT_YUV422 PPC_ROT, [13 / 10, 1, 3 / 2, 13 / 5, 16 / 5, 1, 8 / 5]),
     (PPC_IDX MPP_G2D PPC_FORMAT_RGB32 PPC_ROT_NO, [3 / 2, 11 / 10, 9 / 5, 5 / 2, 7 / 2, 11 / 10, 17 / 10]),
     (PPC_IDX MPP_G2D PPC_FORMAT_RGB32 PPC_ROT, [13 / 10, 1, 3 / 2, 13 / 5, 16 / 5, 1, 8 / 5]),
     (PPC_IDX MPP_G2D PPC_FORMAT_YUV8_2 PPC_ROT_NO, [9 / 10, 9 / 10, 13 / 10, 3 / 2, 2, 7 / 10, 6 / 5]),
     (PPC_IDX MPP_G2D PPC_FORMAT_YUV8_2 PPC_ROT, [2 / 5, 2 / 5, 11 / 10, 1, 9 / 5, 2 / 5, 6 / 5]),
     (PPC_IDX MPP_G2D PPC_FORMAT_AFBC PPC_ROT_NO, [3 / 2, 4 / 5, 4 / 5, 6 / 5, 8 / 5, 4 / 5, 7 / 5]),
     (PPC_IDX MPP_G2D PPC_FORMAT_AFBC PPC_ROT, [3 / 2, 4 / 5, 4 / 5, 6 / 5, 8 / 5, 4 / 5, 7 / 5]),
     (PPC_IDX MPP_MSC PPC_FORMAT_YUV420 PPC_ROT_NO, [27 / 5]),
     (PPC_IDX MPP_MSC PPC_FORMAT_YUV420 PPC_ROT, [243 / 50]),
     (PPC_IDX MPP_MSC PPC_FORMAT_YUV422 PPC_ROT_NO, [18 / 5]),
     (PPC_IDX MPP_MSC PPC_FORMAT_YUV422 PPC_ROT, [81 / 25]),
     (PPC_IDX MPP_MSC PPC_FORMAT_P010 PPC_ROT_NO, [243 / 50]),
     (PPC_IDX MPP_MSC PPC_FORMAT_P010 PPC_ROT, [437 / 100]),
     (PPC_IDX MPP_MSC PPC_FORMAT_YUV8_2 PPC_ROT_NO, [437 / 100]),
     (PPC_IDX MPP_MSC PPC_FORMAT_YUV8_2 PPC_ROT, [197 / 50]),
     (PPC_IDX MPP_MSC PPC_FORMAT_RGB32 PPC_ROT_NO, [9 / 5]),
     (PPC_IDX MPP_MSC PPC_FORMAT_RGB32 PPC_ROT, [81 / 50])]"

section \<open>exynos9810\<close>

definition exynos9810_format_table :: "hal_env \<Rightarrow> restriction_key list" where
  "exynos9810_format_table hal =
    [rkey MPP_DPP_G NODE_NONE (hal HAL_PIXEL_FORMAT_RGB_565) 0,
     rkey MPP_DPP_G NODE_NONE (hal HAL_PIXEL_FORMAT_RGBA_8888) 0,
     rkey MPP_DPP_G NODE_NONE (hal HAL_PIXEL_FORMAT_RGBX_8888) 0,
     rkey MPP_DPP_G NODE_NONE (hal HAL_PIXEL_FORMAT_BGRA_8888) 0,
     rkey MPP_DPP_G NODE_NONE (hal HAL_PIXEL_FORMAT_RGBA_1010102) 0,
     rkey MPP_DPP_VG NODE_NONE (hal HAL_PIXEL_FORMAT_RGB_565) 0,
     rkey MPP_DPP_VG NODE_NONE (hal HAL_PIXEL_FORMAT_RGBA_8888) 0,
     rkey MPP_DPP_VG NODE_NONE (hal HAL_PIXEL_FORMAT_RGBX_8888) 0,
     rkey MPP_DPP_VG NODE_NONE (hal HAL_PIXEL_FORMAT_BGRA_8888) 0,
     rkey MPP_DPP_VG NODE_NONE (hal HAL_PIXEL_FORMAT_RGBA_1010102) 0,
     rkey MPP_DPP_VG NODE_NONE (hal HAL_PIXEL_FORMAT_EXYNOS_YCbCr_420_SP_M) 0,
     rkey MPP_DPP_VG NODE_NONE (hal HAL_PIXEL_FORMAT_EXYNOS_YCbCr_420_SP_M_PRIV) 0,
     rkey MPP_DPP_VG NODE_NONE (hal HAL_PIXEL_FORMAT_EXYNOS_YCrCb_420_SP_M) 0,
     rkey MPP_DPP_VG NODE_NONE (hal HAL_PIXEL_FORMAT_EXYNOS_YCrCb_420_SP_M_FULL) 0,
     rkey MPP_DPP_VG NODE_NONE (hal HAL_PIXEL_FORMAT_EXYNOS_YCbCr_420_SPN) 0,
     rkey MPP_DPP_VG NODE_NONE (hal HAL_PIXEL_FORMAT_EXYNOS_YCbCr_420_SP_M_S10B) 0,
     rkey MPP_DPP_VG NODE_NONE (hal HAL_PIXEL_FORMAT_EXYNOS_YCbCr_420_SPN_S10B) 0,
     rkey MPP_DPP_VGFS NODE_NONE (hal HAL_PIXEL_FORMAT_RGB_565) 0,
     rkey MPP_DPP_VGFS NODE_NONE (hal HAL_PIXEL_FORMAT_RGBA_8888) 0,
     rkey MPP_DPP_VGFS NODE_NONE (hal HAL_PIXEL_FORMAT_RGBX_8888) 0,
     rkey MPP_DPP_VGFS NODE_NONE (hal HAL_PIXEL_FORMAT_BGRA_8888) 0,
     rkey MPP_DPP_VGFS NODE_NONE (hal HAL_PIXEL_FORMAT_RGBA_1010102) 0,
     rkey MPP_DPP_VGFS NODE_NONE (hal HAL_PIXEL_FORMAT_EXYNOS_YCbCr_420_SP_M) 0,
     rkey MPP_DPP_VGFS NODE_NONE (hal HAL_PIXEL_FORMAT_EXYNOS_YCbCr_420_SP_M_PRIV) 0,
     rkey MPP_DPP_VGFS NODE_NONE (hal HAL_PIXEL_FORMAT_EXYNOS_YCrCb_420_SP_M) 0,
     rkey MPP_DPP_VGFS NODE_NONE (hal HAL_PIXEL_FORMAT_EXYNOS_YCrCb_420_SP_M_FULL) 0,
     rkey MPP_DPP_VGFS NODE_NONE (hal HAL_PIXEL_FORMAT_EXYNOS_YCbCr_420_SPN) 0,
     rkey MPP_DPP_VGFS NODE_NONE (hal HAL_PIXEL_FORMAT_EXYNOS_YCbCr_420_SP_M_S10B) 0,
     rkey MPP_DPP_VGFS NODE_NONE (hal HAL_PIXEL_FORMAT_EXYNOS_YCbCr_420_SPN_S10B) 0,
     rkey MPP_DPP_VGRFS NODE_NONE (hal HAL_PIXEL_FORMAT_RGB_565) 0,
     rkey MPP_DPP_VGRFS NODE_NONE (hal HAL_PIXEL_FORMAT_RGBA_8888) 0,
     rkey MPP_DPP_VGRFS NODE_NONE (hal HAL_PIXEL_FORMAT_RGBX_8888) 0,
     rkey MPP_DPP_VGRFS NODE_NONE (hal HAL_PIXEL_FORMAT_BGRA_8888) 0,
     rkey MPP_DPP_VGRFS NODE_NONE (hal HAL_PIXEL_FORMAT_RGBA_1010102) 0,
     rkey MPP_DPP_VGRFS NODE_NONE (hal HAL_PIXEL_FORMAT_EXYNOS_YCbCr_420_SP_M) 0,
     rkey MPP_DPP_VGRFS NODE_NONE (hal HAL_PIXEL_FORMAT_EXYNOS_YCbCr_420_SP_M_PRIV) 0,
     rkey MPP_DPP_VGRFS NODE_NONE (hal HAL_PIXEL_FORMAT_EXYNOS_YCrCb_420_SP_M) 0,
     rkey MPP_DPP_VGRFS NODE_NONE (hal HAL_PIXEL_FORMAT_EXYNOS_YCrCb_420_SP_M_FULL) 0,
     rkey MPP_DPP_VGRFS NODE_NONE (hal HAL_PIXEL_FORMAT_EXYNOS_YCbCr_420_SPN) 0,
     rkey MPP_DPP_VGRFS NODE_NONE (hal HAL_PIXEL_FORMAT_EXYNOS_YCbCr_420_SP_M_S10B) 0,
     rkey MPP_DPP_VGRFS NODE_NONE (hal HAL_PIXEL_FORMAT_EXYNOS_YCbCr_420_SPN_S10B) 0,
     rkey MPP_MSC NODE_NONE (hal HAL_PIXEL_FORMAT_RGB_565) 0,
     rkey MPP_MSC NODE_NONE (hal HAL_PIXEL_FORMAT_RGB_888) 0,
     rkey MPP_MSC NODE_NONE (hal HAL_PIXEL_FORMAT_RGBA_8888) 0,
     rkey MPP_MSC NODE_NONE (hal HAL_PIXEL_FORMAT_RGBX_8888) 0,
     rkey MPP_MSC NODE_NONE (hal HAL_PIXEL_FORMAT_BGRA_8888) 0,
     rkey MPP_MSC NODE_NONE (hal HAL_PIXEL_FORMAT_EXYNOS_YCbCr_420_SP_M) 0,
     rkey MPP_MSC NODE_NONE (hal HAL_PIXEL_FORMAT_EXYNOS_YCbCr_420_SP_M_PRIV) 0,
     rkey MPP_MSC NODE_NONE (hal HAL_PIXEL_FORMAT_EXYNOS_YCbCr_420_SP_M_TILED) 0,
     rkey MPP_MSC NODE_NONE (hal HAL_PIXEL_FORMAT_EXYNOS_YCrCb_420_SP_M) 0,
     rkey MPP_MSC NODE_NONE (hal HAL_PIXEL_FORMAT_EXYNOS_YCrCb_420_SP_M_FULL) 0,
     rkey MPP_MSC NODE_NONE (hal HAL_PIXEL_FORMAT_EXYNOS_YCbCr_420_SPN) 0,
     rkey MPP_MSC NODE_NONE (hal HAL_PIXEL_FORMAT_EXYNOS_YCbCr_420_SP_M_S10B) 0,
     rkey MPP_MSC NODE_NONE (hal HAL_PIXEL_FORMAT_EXYNOS_YCbCr_420_SPN_S10B) 0,
     rkey MPP_MSC NODE_NONE (hal HAL_PIXEL_FORMAT_YCrCb_420_SP) 0,
     rkey MPP_MSC NODE_NONE (hal HAL_PIXEL_FORMAT_YV12) 0,
     rkey MPP_MSC NODE_NONE (hal HAL_PIXEL_FORMAT_EXYNOS_YV12_M) 0,
     rkey MPP_MSC NODE_NONE (hal HAL_PIXEL_FORMAT_EXYNOS_YCbCr_420_P_M) 0,
     rkey MPP_MSC NODE_NONE (hal HAL_PIXEL_FORMAT_EXYNOS_YCbCr_420_PN) 0,
     rkey MPP_MSC NODE_NONE (hal HAL_PIXEL_FORMAT_EXYNOS_YCbCr_420_SPN_TILED) 0,
     rkey MPP_G2D NODE_NONE (hal HAL_PIXEL_FORMAT_RGB_565) 0,
     rkey MPP_G2D NODE_NONE (hal HAL_PIXEL_FORMAT_RGB_888) 0,
     rkey MPP_G2D NODE_NONE (hal HAL_PIXEL_FORMAT_RGBA_8888) 0,
     rkey MPP_G2D NODE_NONE (hal HAL_PIXEL_FORMAT_RGBX_8888) 0,
     rkey MPP_G2D NODE_NONE (hal HAL_PIXEL_FORMAT_BGRA_8888) 0,
     rkey MPP_G2D NODE_NONE (hal HAL_PIXEL_FORMAT_RGBA_1010102) 0,
     rkey MPP_G2D NODE_NONE (hal HAL_PIXEL_FORMAT_EXYNOS_YCbCr_420_SP_M) 0,
     rkey MPP_G2D NODE_NONE (hal HAL_PIXEL_FORMAT_EXYNOS_YCbCr_420_SP_M_PRIV) 0,
     rkey MPP_G2D NODE_NONE (hal HAL_PIXEL_FORMAT_EXYNOS_YCbCr_420_SP_M_TILED) 0,
     rkey MPP_G2D NODE_NONE (hal HAL_PIXEL_FORMAT_EXYNOS_YCrCb_420_SP_M) 0,
     rkey MPP_G2D NODE_NONE (hal HAL_PIXEL_FORMAT_EXYNOS_YCrCb_420_SP_M_FULL) 0,
     rkey MPP_G2D NODE_NONE (hal HAL_PIXEL_FORMAT_EXYNOS_YCbCr_420_SPN) 0,
     rkey MPP_G2D NODE_NONE (hal HAL_PIXEL_FORMAT_EXYNOS_YCbCr_420_SP_M_S10B) 0,
     rkey MPP_G2D NODE_NONE (hal HAL_PIXEL_FORMAT_EXYNOS_YCbCr_420_SPN_S10B) 0,
     rkey MPP_G2D NODE_NONE (hal HAL_PIXEL_FORMAT_YCrCb_420_SP) 0,
     rkey MPP_G2D NODE_NONE (hal HAL_PIXEL_FORMAT_EXYNOS_YCbCr_420_SPN_TILED) 0]"

definition exynos9810_size_table_rgb :: "restriction_size_element list" where
  "exynos9810_size_table_rgb =
    [(rkey MPP_DPP_G NODE_SRC HAL_PIXEL_FORMAT_NONE 0, rsize [1, 1, 65535, 8191, 16, 16, 1, 1, 4096, 4096, 16, 16, 1, 1, 1, 1]),
     (rkey MPP_DPP_VG NODE_SRC HAL_PIXEL_FORMAT_NONE 0, rsize [1, 1, 65535, 8191, 16, 16, 1, 1, 4096, 4096, 16, 16, 1, 1, 1, 1]),
     (rkey MPP_DPP_VGFS NODE_SRC HAL_PIXEL_FORMAT_NONE 0, rsize [2, 8, 65535, 8191, 16, 16, 1, 1, 4096, 4096, 16, 16, 1, 1, 1, 1]),
     (rkey MPP_DPP_VGRFS NODE_SRC HAL_PIXEL_FORMAT_NONE 0, rsize [2, 8, 65535, 8191, 16, 16, 1, 1, 4096, 4096, 16, 16, 1, 1, 1, 1]),
     (rkey MPP_MSC NODE_SRC HAL_PIXEL_FORMAT_NONE 0, rsize [16, 64, 8192, 8192, 16, 16, 1, 1, 8192, 8192, 16, 16, 1, 1, 1, 1]),
     (rkey MPP_DPP_G NODE_DST HAL_PIXEL_FORMAT_NONE 0, rsize [1, 1, 65535, 8191, 16, 16, 1, 1, 4096, 4096, 16, 16, 1, 1, 1, 1]),
     (rkey MPP_DPP_VG NODE_DST HAL_PIXEL_FORMAT_NONE 0, rsize [1, 1, 65535, 8191, 16, 16, 1, 1, 4096, 4096, 16, 16, 1, 1, 1, 1]),
     (rkey MPP_DPP_VGFS NODE_DST HAL_PIXEL_FORMAT_NONE 0, rsize [2, 8, 65535, 8191, 16, 16, 1, 1, 4096, 4096, 16, 16, 1, 1, 1, 1]),
     (rkey MPP_DPP_VGRFS NODE_DST HAL_PIXEL_FORMAT_NONE 0, rsize [2, 8, 65535, 8191, 16, 16, 1, 1, 4096, 4096, 16, 16, 1, 1, 1, 1]),
     (rkey MPP_MSC NODE_DST HAL_PIXEL_FORMAT_NONE 0, rsize [16, 64, 8192, 8192, 4, 4, 1, 1, 8192, 8192, 4, 4, 1, 1, 1, 1]),
     (rkey MPP_G2D NODE_NONE HAL_PIXEL_FORMAT_NONE 0, rsize [8192, 8192, 8192, 8192, 1, 1, 1, 1, 8192, 8192, 1, 1, 1, 1, 1, 1])]"

definition exynos9810_size_table_yuv :: "restriction_size_element list" where
  "exynos9810_size_table_yuv =
    [(rkey MPP_DPP_G NODE_SRC HAL_PIXEL_FORMAT_NONE 0, rsize [1, 1, 65534, 8190, 32, 32, 2, 2, 4096, 4096, 32, 32, 2, 2, 2, 2]),
     (rkey MPP_DPP_VG NODE_SRC HAL_PIXEL_FORMAT_NONE 0, rsize [1, 1, 65534, 8190, 32, 32, 2, 2, 4096, 4096, 32, 32, 2, 2, 2, 2]),
     (rkey MPP_DPP_VGFS NODE_SRC HAL_PIXEL_FORMAT_NONE 0, rsize [2, 8, 65534, 8190, 32, 32, 2, 2, 4096, 4096, 32, 32, 2, 2, 2, 2]),
     (rkey MPP_DPP_VGRFS NODE_SRC HAL_PIXEL_FORMAT_NONE 0, rsize [2, 8, 65534, 8190, 32, 32, 2, 2, 4096, 4096, 32, 32, 2, 2, 2, 2]),
     (rkey MPP_MSC NODE_SRC HAL_PIXEL_FORMAT_NONE 0, rsize [16, 64, 8192, 8192, 16, 16, 2, 2, 8192, 8192, 16, 16, 2, 2, 2, 2]),
     (rkey MPP_G2D NODE_SRC HAL_PIXEL_FORMAT_NONE 0, rsize [4, 8192, 8192, 8192, 2, 2, 2, 2, 8192, 8192, 1, 1, 1, 1, 1, 1]),
     (rkey MPP_DPP_G NODE_DST HAL_PIXEL_FORMAT_NONE 0, rsize [1, 1, 65535, 8191, 16, 16, 1, 1, 4096, 4096, 16, 16, 1, 1, 1, 1]),
     (rkey MPP_DPP_VG NODE_DST HAL_PIXEL_FORMAT_NONE 0, rsize [1, 1, 65535, 8191, 16, 16, 1, 1, 4096, 4096, 16, 16, 1, 1, 1, 1]),
     (rkey MPP_DPP_VGFS NODE_DST HAL_PIXEL_FORMAT_NONE 0, rsize [2, 8, 65535, 8191, 16, 16, 1, 1, 4096, 4096, 16, 16, 1, 1, 1, 1]),
     (rkey MPP_DPP_VGRFS NODE_DST HAL_PIXEL_FORMAT_NONE 0, rsize [2, 8, 65535, 8191, 16, 16, 1, 1, 4096, 4096, 16, 16, 1, 1, 1, 1]),
     (rkey MPP_MSC NODE_DST HAL_PIXEL_FORMAT_NONE 0, rsize [16, 64, 8192, 8192, 4, 4, 2, 2, 8192, 8192, 4, 4, 2, 2, 2, 2]),
     (rkey MPP_G2D NODE_DST HAL_PIXEL_FORMAT_NONE 0, rsize [8192, 8192, 8192, 8192, 2, 2, 2, 2, 8192, 8192, 2, 2, 2, 2, 2, 2])]"

definition exynos9810_ppc_table :: "(u32 \<times> rat list) list" where
  "exynos9810_ppc_table =
    [(PPC_IDX MPP_G2D PPC_FORMAT_YUV420 PPC_ROT_NO, [29 / 10, 13 / 5, 17 / 5, 51 / 10, 119 / 10, 13 / 5, 3]),
     (PPC_IDX MPP_G2D PPC_FORMAT_YUV420 PPC_ROT, [2, 19 / 10, 33 / 10, 26 / 5, 7, 19 / 10, 16 / 5]),
     (PPC_IDX MPP_G2D PPC_FORMAT_YUV8_2 PPC_ROT_NO, [19 / 10, 19 / 10, 27 / 10, 31 / 10, 41 / 10, 7 / 5, 12 / 5]),
     (PPC_IDX MPP_G2D PPC_FORMAT_YUV8_2 PPC_ROT, [9 / 10, 9 / 10, 11 / 5, 2, 37 / 10, 9 / 10, 5 / 2]),
     (PPC_IDX MPP_G2D PPC_FORMAT_YUV422 PPC_ROT_NO, [31 / 10, 11 / 5, 18 / 5, 51 / 10, 7, 11 / 5, 17 / 5]),
     (PPC_IDX MPP_G2D PPC_FORMAT_YUV422 PPC_ROT, [27 / 10, 2, 3, 26 / 5, 13 / 2, 2, 33 / 10]),
     (PPC_IDX MPP_G2D PPC_FORMAT_RGB32 PPC_ROT_NO, [31 / 10, 11 / 5, 18 / 5, 51 / 10, 7, 11 / 5, 17 / 5]),
     (PPC_IDX MPP_G2D PPC_FORMAT_RGB32 PPC_ROT, [27 / 10, 2, 3, 26 / 5, 13 / 2, 2, 33 / 10]),
     (PPC_IDX MPP_G2D PPC_FORMAT_AFBC PPC_ROT_NO, [3, 8 / 5, 8 / 5, 12 / 5, 16 / 5, 8 / 5, 14 / 5]),
     (PPC_IDX MPP_G2D PPC_FORMAT_AFBC PPC_ROT, [3, 8 / 5, 8 / 5, 12 / 5, 16 / 5, 8 / 5, 14 / 5]),
     (PPC_IDX MPP_MSC PPC_FORMAT_YUV420 PPC_ROT_NO, [1 / 10000]),
     (PPC_IDX MPP_MSC PPC_FORMAT_YUV420 PPC_ROT, [1 / 10000]),
     (PPC_IDX MPP_MSC PPC_FORMAT_YUV422 PPC_ROT_NO, [1 / 10000]),
     (PPC_IDX MPP_MSC PPC_FORMAT_YUV422 PPC_ROT, [1 / 10000]),
     (PPC_IDX MPP_MSC PPC_FORMAT_P010 PPC_ROT_NO, [1 / 10000]),
     (PPC_IDX MPP_MSC PPC_FORMAT_P010 PPC_ROT, [1 / 10000]),
     (PPC_IDX MPP_MSC PPC_FORMAT_YUV8_2 PPC_ROT_NO, [1 / 10000]),
     (PPC_IDX MPP_MSC PPC_FORMAT_YUV8_2 PPC_ROT, [1 / 10000]),
     (PPC_IDX MPP_MSC PPC_FORMAT_RGB32 PPC_ROT_NO, [1 / 10000]),
     (PPC_IDX MPP_MSC PPC_FORMAT_RGB32 PPC_ROT, [1 / 10000])]"

section \<open>exynos9820\<close>

definition exynos9820_feature_table :: "feature_support_t list" where
  "exynos9820_feature_table =
    [fs MPP_DPP_G (MPP_ATTR_BLOCK_MODE OR MPP_ATTR_WINDOW_UPDATE OR MPP_ATTR_DIM),
     fs MPP_DPP_GF (MPP_ATTR_AFBC OR MPP_ATTR_BLOCK_MODE OR MPP_ATTR_WINDOW_UPDATE OR MPP_ATTR_DIM),
     fs MPP_DPP_VG (MPP_ATTR_BLOCK_MODE OR MPP_ATTR_WINDOW_UPDATE OR MPP_ATTR_DIM),
     fs MPP_DPP_VGS (MPP_ATTR_BLOCK_MODE OR MPP_ATTR_WINDOW_UPDATE OR MPP_ATTR_SCALE OR MPP_ATTR_DIM),
     fs MPP_DPP_VGF (MPP_ATTR_AFBC OR MPP_ATTR_BLOCK_MODE OR MPP_ATTR_WINDOW_UPDATE OR MPP_ATTR_DIM),
     fs MPP_DPP_VGFS (MPP_ATTR_AFBC OR MPP_ATTR_BLOCK_MODE OR MPP_ATTR_WINDOW_UPDATE OR MPP_ATTR_SCALE OR MPP_ATTR_DIM),
     fs MPP_DPP_VGRFS (MPP_ATTR_AFBC OR MPP_ATTR_BLOCK_MODE OR MPP_ATTR_WINDOW_UPDATE OR MPP_ATTR_SCALE OR MPP_ATTR_FLIP_H OR MPP_ATTR_FLIP_V OR MPP_ATTR_ROT_90 OR MPP_ATTR_DIM OR MPP_ATTR_HDR10),
     fs MPP_MSC (MPP_ATTR_FLIP_H OR MPP_ATTR_FLIP_V OR MPP_ATTR_ROT_90),
     fs MPP_G2D (MPP_ATTR_AFBC OR MPP_ATTR_FLIP_H OR MPP_ATTR_FLIP_V OR MPP_ATTR_ROT_90 OR MPP_ATTR_HDR10 OR MPP_ATTR_USE_CAPA)]"

definition exynos9820_format_table :: "hal_env \<Rightarrow> restriction_key list" where
  "exynos9820_format_table hal =
    [rkey MPP_DPP_GF NODE_NONE (hal HAL_PIXEL_FORMAT_RGB_565) 0,
     rkey MPP_DPP_GF NODE_NONE (hal HAL_PIXEL_FORMAT_RGBA_8888) 0,
     rkey MPP_DPP_GF NODE_NONE (hal HAL_PIXEL_FORMAT_RGBX_8888) 0,
     rkey MPP_DPP_GF NODE_NONE (hal HAL_PIXEL_FORMAT_BGRA_8888) 0,
     rkey MPP_DPP_GF NODE_NONE (hal HAL_PIXEL_FORMAT_RGBA_1010102) 0,
     rkey MPP_DPP_VG NODE_NONE (hal HAL_PIXEL_FORMAT_RGB_565) 0,
     rkey MPP_DPP_VG NODE_NONE (hal HAL_PIXEL_FORMAT_RGBA_8888) 0,
     rkey MPP_DPP_VG NODE_NONE (hal HAL_PIXEL_FORMAT_RGBX_8888) 0,
     rkey MPP_DPP_VG NODE_NONE (hal HAL_PIXEL_FORMAT_BGRA_8888) 0,
     rkey MPP_DPP_VG NODE_NONE (hal HAL_PIXEL_FORMAT_RGBA_1010102) 0,
     rkey MPP_DPP_VG NODE_NONE (hal HAL_PIXEL_FORMAT_EXYNOS_YCbCr_420_SP_M) 0,
     rkey MPP_DPP_VG NODE_NONE (hal HAL_PIXEL_FORMAT_EXYNOS_YCbCr_420_SP_M_PRIV) 0,
     rkey MPP_DPP_VG NODE_NONE (hal HAL_PIXEL_FORMAT_EXYNOS_YCrCb_420_SP_M) 0,
     rkey MPP_DPP_VG NODE_NONE (hal HAL_PIXEL_FORMAT_EXYNOS_YCrCb_420_SP_M_FULL) 0,
     rkey MPP_DPP_VG NODE_NONE (hal HAL_PIXEL_FORMAT_EXYNOS_YCbCr_420_SPN) 0,
     rkey MPP_DPP_VG NODE_NONE (hal HAL_PIXEL_FORMAT_EXYNOS_YCbCr_420_SP_M_S10B) 0,
     rkey MPP_DPP_VG NODE_NONE (hal HAL_PIXEL_FORMAT_EXYNOS_YCbCr_420_SPN_S10B) 0,
     rkey MPP_DPP_VG NODE_NONE (hal HAL_PIXEL_FORMAT_EXYNOS_YCbCr_P010_M) 0,
     rkey MPP_DPP_VG NODE_NONE (hal HAL_PIXEL_FORMAT_YCBCR_P010) 0,
     rkey MPP_DPP_VGS NODE_NONE (hal HAL_PIXEL_FORMAT_RGB_565) 0,
     rkey MPP_DPP_VGS NODE_NONE (hal HAL_PIXEL_FORMAT_RGBA_8888) 0,
     rkey MPP_DPP_VGS NODE_NONE (hal HAL_PIXEL_FORMAT_RGBX_8888) 0,
     rkey MPP_DPP_VGS NODE_NONE (hal HAL_PIXEL_FORMAT_BGRA_8888) 0,
     rkey MPP_DPP_VGS NODE_NONE (hal HAL_PIXEL_FORMAT_RGBA_1010102) 0,
     rkey MPP_DPP_VGS NODE_NONE (hal HAL_PIXEL_FORMAT_EXYNOS_YCbCr_420_SP_M) 0,
     rkey MPP_DPP_VGS NODE_NONE (hal HAL_PIXEL_FORMAT_EXYNOS_YCbCr_420_SP_M_PRIV) 0,
     rkey MPP_DPP_VGS NODE_NONE (hal HAL_PIXEL_FORMAT_EXYNOS_YCrCb_420_SP_M) 0,
     rkey MPP_DPP_VGS NODE_NONE (hal HAL_PIXEL_FORMAT_EXYNOS_YCrCb_420_SP_M_FULL) 0,
     rkey MPP_DPP_VGS NODE_NONE (hal HAL_PIXEL_FORMAT_EXYNOS_YCbCr_420_SPN) 0,
     rkey MPP_DPP_VGS NODE_NONE (hal HAL_PIXEL_FORMAT_EXYNOS_YCbCr_420_SP_M_S10B) 0,
     rkey MPP_DPP_VGS NODE_NONE (hal HAL_PIXEL_FORMAT_EXYNOS_YCbCr_420_SPN_S10B) 0,
     rkey MPP_DPP_VGS NODE_NONE (hal HAL_PIXEL_FORMAT_EXYNOS_YCbCr_P010_M) 0,
     rkey MPP_DPP_VGS NODE_NONE (hal HAL_PIXEL_FORMAT_YCBCR_P010) 0,
     rkey MPP_DPP_VGF NODE_NONE (hal HAL_PIXEL_FORMAT_RGB_565) 0,
     rkey MPP_DPP_VGF NODE_NONE (hal HAL_PIXEL_FORMAT_RGBA_8888) 0,
     rkey MPP_DPP_VGF NODE_NONE (hal HAL_PIXEL_FORMAT_RGBX_8888) 0,
     rkey MPP_DPP_VGF NODE_NONE (hal HAL_PIXEL_FORMAT_BGRA_8888) 0,
     rkey MPP_DPP_VGF NODE_NONE (hal HAL_PIXEL_FORMAT_RGBA_1010102) 0,
     rkey MPP_DPP_VGF NODE_NONE (hal HAL_PIXEL_FORMAT_EXYNOS_YCbCr_420_SP_M) 0,
     rkey MPP_DPP_VGF NODE_NONE (hal HAL_PIXEL_FORMAT_EXYNOS_YCbCr_420_SP_M_PRIV) 0,
     rkey MPP_DPP_VGF NODE_NONE (hal HAL_PIXEL_FORMAT_EXYNOS_YCrCb_420_SP_M) 0,
     rkey MPP_DPP_VGF NODE_NONE (hal HAL_PIXEL_FORMAT_EXYNOS_YCrCb_420_SP_M_FULL) 0,
     rkey MPP_DPP_VGF NODE_NONE (hal HAL_PIXEL_FORMAT_EXYNOS_YCbCr_420_SPN) 0,
     rkey MPP_DPP_VGF NODE_NONE (hal HAL_PIXEL_FORMAT_EXYNOS_YCbCr_420_SP_M_S10B) 0,
     rkey MPP_DPP_VGF NODE_NONE (hal HAL_PIXEL_FORMAT_EXYNOS_YCbCr_420_SPN_S10B) 0,
     rkey MPP_DPP_VGF NODE_NONE (hal HAL_PIXEL_FORMAT_EXYNOS_YCbCr_P010_M) 0,
     rkey MPP_DPP_VGF NODE_NONE (hal HAL_PIXEL_FORMAT_YCBCR_P010) 0,
     rkey MPP_DPP_VGRFS NODE_NONE (hal HAL_PIXEL_FORMAT_RGB_565) 0,
     rkey MPP_DPP_VGRFS NODE_NONE (hal HAL_PIXEL_FORMAT_RGBA_8888) 0,
     rkey MPP_DPP_VGRFS NODE_NONE (hal HAL_PIXEL_FORMAT_RGBX_8888) 0,
     rkey MPP_DPP_VGRFS NODE_NONE (hal HAL_PIXEL_FORMAT_BGRA_8888) 0,
     rkey MPP_DPP_VGRFS NODE_NONE (hal HAL_PIXEL_FORMAT_RGBA_1010102) 0,
     rkey MPP_DPP_VGRFS NODE_NONE (hal HAL_PIXEL_FORMAT_EXYNOS_YCbCr_420_SP_M) 0,
     rkey MPP_DPP_VGRFS NODE_NONE (hal HAL_PIXEL_FORMAT_EXYNOS_YCbCr_420_SP_M_PRIV) 0,
     rkey MPP_DPP_VGRFS NODE_NONE (hal HAL_PIXEL_FORMAT_EXYNOS_YCrCb_420_SP_M) 0,
     rkey MPP_DPP_VGRFS NODE_NONE (hal HAL_PIXEL_FORMAT_EXYNOS_YCrCb_420_SP_M_FULL) 0,
     rkey MPP_DPP_VGRFS NODE_NONE (hal HAL_PIXEL_FORMAT_EXYNOS_YCbCr_420_SPN) 0,
     rkey MPP_DPP_VGRFS NODE_NONE (hal HAL_PIXEL_FORMAT_EXYNOS_YCbCr_420_SP_M_S10B) 0,
     rkey MPP_DPP_VGRFS NODE_NONE (hal HAL_PIXEL_FORMAT_EXYNOS_YCbCr_420_SPN_S10B) 0,
     rkey MPP_DPP_VGRFS NODE_NONE (hal HAL_PIXEL_FORMAT_EXYNOS_YCbCr_P010_M) 0,
     rkey MPP_DPP_VGRFS NODE_NONE (hal HAL_PIXEL_FORMAT_YCBCR_P010) 0,
     rkey MPP_MSC NODE_NONE (hal HAL_PIXEL_FORMAT_EXYNOS_YCbCr_420_SP_M) 0,
     rkey MPP_MSC NODE_NONE (hal HAL_PIXEL_FORMAT_EXYNOS_YCbCr_420_SP_M_PRIV) 0,
     rkey MPP_MSC NODE_NONE (hal HAL_PIXEL_FORMAT_EXYNOS_YCbCr_420_SP_M_TILED) 0,
     rkey MPP_MSC NODE_NONE (hal HAL_PIXEL_FORMAT_EXYNOS_YCrCb_420_SP_M) 0,
     rkey MPP_MSC NODE_NONE (hal HAL_PIXEL_FORMAT_EXYNOS_YCrCb_420_SP_M_FULL) 0,
     rkey MPP_MSC NODE_NONE (hal HAL_PIXEL_FORMAT_EXYNOS_YCbCr_420_SPN) 0,
     rkey MPP_MSC NODE_NONE (hal HAL_PIXEL_FORMAT_EXYNOS_YCbCr_420_SP_M_S10B) 0,
     rkey MPP_MSC NODE_NONE (hal HAL_PIXEL_FORMAT_EXYNOS_YCbCr_420_SPN_S10B) 0,
     rkey MPP_MSC NODE_NONE (hal HAL_PIXEL_FORMAT_EXYNOS_YCbCr_P010_M) 0,
     rkey MPP_MSC NODE_NONE (hal HAL_PIXEL_FORMAT_YCBCR_P010) 0,
     rkey MPP_MSC NODE_NONE (hal HAL_PIXEL_FORMAT_YCrCb_420_SP) 0,
     rkey MPP_MSC NODE_NONE (hal HAL_PIXEL_FORMAT_YV12) 0,
     rkey MPP_MSC NODE_NONE (hal HAL_PIXEL_FORMAT_EXYNOS_YV12_M) 0,
     rkey MPP_MSC NODE_NONE (hal HAL_PIXEL_FORMAT_EXYNOS_YCbCr_420_P_M) 0,
     rkey MPP_MSC NODE_NONE (hal HAL_PIXEL_FORMAT_EXYNOS_YCbCr_420_PN) 0,
     rkey MPP_MSC NODE_NONE (hal HAL_PIXEL_FORMAT_EXYNOS_YCbCr_420_SPN_TILED) 0,
     rkey MPP_G2D NODE_NONE (hal HAL_PIXEL_FORMAT_RGB_565) 0,
     rkey MPP_G2D NODE_NONE (hal HAL_PIXEL_FORMAT_RGB_888) 0,
     rkey MPP_G2D NODE_NONE (hal HAL_PIXEL_FORMAT_RGBA_8888) 0,
     rkey MPP_G2D NODE_NONE (hal HAL_PIXEL_FORMAT_RGBX_8888) 0,
     rkey MPP_G2D NODE_NONE (hal HAL_PIXEL_FORMAT_BGRA_8888) 0,
     rkey MPP_G2D NODE_NONE (hal HAL_PIXEL_FORMAT_RGBA_1010102) 0,
     rkey MPP_G2D NODE_NONE (hal HAL_PIXEL_FORMAT_EXYNOS_YCbCr_420_SP_M) 0,
     rkey MPP_G2D NODE_NONE (hal HAL_PIXEL_FORMAT_EXYNOS_YCbCr_420_SP_M_PRIV) 0,
     rkey MPP_G2D NODE_NONE (hal HAL_PIXEL_FORMAT_EXYNOS_YCbCr_420_SP_M_TILED) 0,
     rkey MPP_G2D NODE_NONE (hal HAL_PIXEL_FORMAT_EXYNOS_YCrCb_420_SP_M) 0,
     rkey MPP_G2D NODE_NONE (hal HAL_PIXEL_FORMAT_EXYNOS_YCrCb_420_SP_M_FULL) 0,
     rkey MPP_G2D NODE_NONE (hal HAL_PIXEL_FORMAT_EXYNOS_YCbCr_420_SPN) 0,
     rkey MPP_G2D NODE_NONE (hal HAL_PIXEL_FORMAT_EXYNOS_YCbCr_420_SP_M_S10B) 0,
     rkey MPP_G2D NODE_NONE (hal HAL_PIXEL_FORMAT_EXYNOS_YCbCr_420_SPN_S10B) 0,
     rkey MPP_G2D NODE_NONE (hal HAL_PIXEL_FORMAT_EXYNOS_YCbCr_P010_M) 0,
     rkey MPP_G2D NODE_NONE (hal HAL_PIXEL_FORMAT_YCrCb_420_SP) 0,
     rkey MPP_G2D NODE_NONE (hal HAL_PIXEL_FORMAT_EXYNOS_YCbCr_420_SPN_TILED) 0]"

definition exynos9820_size_table_rgb :: "restriction_size_element list" where
  "exynos9820_size_table_rgb =
    [(rkey MPP_DPP_GF NODE_SRC HAL_PIXEL_FORMAT_NONE 0, rsize [1, 1, 65535, 8191, 16, 16, 1, 1, 4096, 4096, 16, 16, 1, 1, 1, 1]),
     (rkey MPP_DPP_VG NODE_SRC HAL_PIXEL_FORMAT_NONE 0, rsize [1, 1, 65535, 8191, 16, 16, 1, 1, 4096, 4096, 16, 16, 1, 1, 1, 1]),
     (rkey MPP_DPP_VGS NODE_SRC HAL_PIXEL_FORMAT_NONE 0, rsize [2, 8, 65535, 8191, 16, 16, 1, 1, 4096, 4096, 16, 16, 1, 1, 1, 1]),
     (rkey MPP_DPP_VGF NODE_SRC HAL_PIXEL_FORMAT_NONE 0, rsize [1, 1, 65535, 8191, 16, 16, 1, 1, 4096, 4096, 16, 16, 1, 1, 1, 1]),
     (rkey MPP_DPP_VGRFS NODE_SRC HAL_PIXEL_FORMAT_NONE 0, rsize [2, 8, 65535, 8191, 16, 16, 1, 1, 4096, 4096, 16, 16, 1, 1, 1, 1]),
     (rkey MPP_DPP_GF NODE_DST HAL_PIXEL_FORMAT_NONE 0, rsize [1, 1, 65535, 8191, 16, 16, 1, 1, 4096, 4096, 16, 16, 1, 1, 1, 1]),
     (rkey MPP_DPP_VG NODE_DST HAL_PIXEL_FORMAT_NONE 0, rsize [1, 1, 65535, 8191, 16, 16, 1, 1, 4096, 4096, 16, 16, 1, 1, 1, 1]),
     (rkey MPP_DPP_VGS NODE_DST HAL_PIXEL_FORMAT_NONE 0, rsize [2, 8, 65535, 8191, 16, 16, 1, 1, 4096, 4096, 16, 16, 1, 1, 1, 1]),
     (rkey MPP_DPP_VGF NODE_DST HAL_PIXEL_FORMAT_NONE 0, rsize [1, 1, 65535, 8191, 16, 16, 1, 1, 4096, 4096, 16, 16, 1, 1, 1, 1]),
     (rkey MPP_DPP_VGRFS NODE_DST HAL_PIXEL_FORMAT_NONE 0, rsize [2, 8, 65535, 8191, 16, 16, 1, 1, 4096, 4096, 16, 16, 1, 1, 1, 1]),
     (rkey MPP_G2D NODE_NONE HAL_PIXEL_FORMAT_NONE 0, rsize [8192, 8192, 8192, 8192, 1, 1, 1, 1, 8192, 8192, 1, 1, 1, 1, 1, 1])]"

definition exynos9820_size_table_yuv :: "restriction_size_element list" where
  "exynos9820_size_table_yuv =
    [(rkey MPP_DPP_GF NODE_SRC HAL_PIXEL_FORMAT_NONE 0, rsize [1, 1, 65534, 8190, 32, 32, 2, 2, 4096, 4096, 32, 32, 2, 2, 2, 2]),
     (rkey MPP_DPP_VG NODE_SRC HAL_PIXEL_FORMAT_NONE 0, rsize [1, 1, 65534, 8190, 32, 32, 2, 2, 4096, 4096, 32, 32, 2, 2, 2, 2]),
     (rkey MPP_DPP_VGS NODE_SRC HAL_PIXEL_FORMAT_NONE 0, rsize [2, 8, 65534, 8190, 32, 32, 2, 2, 4096, 4096, 32, 32, 2, 2, 2, 2]),
     (rkey MPP_DPP_VGF NODE_SRC HAL_PIXEL_FORMAT_NONE 0, rsize [1, 1, 65534, 8190, 32, 32, 2, 2, 4096, 4096, 32, 32, 2, 2, 2, 2]),
     (rkey MPP_DPP_VGRFS NODE_SRC HAL_PIXEL_FORMAT_NONE 0, rsize [2, 8, 65534, 8190, 32, 32, 2, 2, 4096, 4096, 32, 32, 2, 2, 2, 2]),
     (rkey MPP_MSC NODE_SRC HAL_PIXEL_FORMAT_NONE 0, rsize [16, 64, 8192, 8192, 16, 16, 2, 2, 4096, 4096, 16, 16, 2, 2, 2, 2]),
     (rkey MPP_G2D NODE_SRC HAL_PIXEL_FORMAT_NONE 0, rsize [4, 8192, 8192, 8192, 2, 2, 2, 2, 8192, 8192, 1, 1, 1, 1, 1, 1]),
     (rkey MPP_DPP_GF NODE_DST HAL_PIXEL_FORMAT_NONE 0, rsize [1, 1, 65535, 8191, 16, 16, 1, 1, 4096, 4096, 16, 16, 1, 1, 1, 1]),
     (rkey MPP_DPP_VG NODE_DST HAL_PIXEL_FORMAT_NONE 0, rsize [1, 1, 65535, 8191, 16, 16, 1, 1, 4096, 4096, 16, 16, 1, 1, 1, 1]),
     (rkey MPP_DPP_VGS NODE_DST HAL_PIXEL_FORMAT_NONE 0, rsize [2, 8, 65535, 8191, 16, 16, 1, 1, 4096, 4096, 16, 16, 1, 1, 1, 1]),
     (rkey MPP_DPP_VGF NODE_DST HAL_PIXEL_FORMAT_NONE 0, rsize [1, 1, 65535, 8191, 16, 16, 1, 1, 4096, 4096, 16, 16, 1, 1, 1, 1]),
     (rkey MPP_DPP_VGRFS NODE_DST HAL_PIXEL_FORMAT_NONE 0, rsize [2, 8, 65535, 8191, 16, 16, 1, 1, 4096, 4096, 16, 16, 1, 1, 1, 1]),
     (rkey MPP_MSC NODE_DST HAL_PIXEL_FORMAT_NONE 0, rsize [16, 64, 8192, 8192, 4, 4, 2, 2, 8192, 8192, 4, 4, 2, 2, 2, 2]),
     (rkey MPP_G2D NODE_DST HAL_PIXEL_FORMAT_NONE 0, rsize [8192, 8192, 8192, 8192, 2, 2, 2, 2, 8192, 8192, 2, 2, 2, 2, 2, 2])]"

definition exynos9820_ppc_table :: "(u32 \<times> rat list) list" where
  "exynos9820_ppc_table =
    [(PPC_IDX MPP_G2D PPC_FORMAT_YUV420 PPC_ROT_NO, [29 / 10, 13 / 5, 17 / 5, 51 / 10, 119 / 10, 13 / 5, 3]),
     (PPC_IDX MPP_G2D PPC_FORMAT_YUV420 PPC_ROT, [2, 19 / 10, 33 / 10, 26 / 5, 7, 19 / 10, 16 / 5]),
     (PPC_IDX MPP_G2D PPC_FORMAT_YUV8_2 PPC_ROT_NO, [19 / 10, 19 / 10, 27 / 10, 31 / 10, 41 / 10, 7 / 5, 12 / 5]),
     (PPC_IDX MPP_G2D PPC_FORMAT_YUV8_2 PPC_ROT, [9 / 10, 9 / 10, 11 / 5, 2, 37 / 10, 9 / 10, 5 / 2]),
     (PPC_IDX MPP_G2D PPC_FORMAT_YUV422 PPC_ROT_NO, [31 / 10, 11 / 5, 18 / 5, 51 / 10, 7, 11 / 5, 17 / 5]),
     (PPC_IDX MPP_G2D PPC_FORMAT_YUV422 PPC_ROT, [27 / 10, 2, 3, 26 / 5, 13 / 2, 2, 33 / 10]),
     (PPC_IDX MPP_G2D PPC_FORMAT_RGB32 PPC_ROT_NO, [31 / 10, 11 / 5, 18 / 5, 51 / 10, 7, 11 / 5, 17 / 5]),
     (PPC_IDX MPP_G2D PPC_FORMAT_RGB32 PPC_ROT, [27 / 10, 2, 3, 26 / 5, 13 / 2, 2, 33 / 10]),
     (PPC_IDX MPP_G2D PPC_FORMAT_AFBC PPC_ROT_NO, [3, 8 / 5, 8 / 5, 12 / 5, 16 / 5, 8 / 5, 14 / 5]),
     (PPC_IDX MPP_G2D PPC_FORMAT_AFBC PPC_ROT, [3, 8 / 5, 8 / 5, 12 / 5, 16 / 5, 8 / 5, 14 / 5]),
     (PPC_IDX MPP_MSC PPC_FORMAT_YUV420 PPC_ROT_NO, [243 / 50]),
     (PPC_IDX MPP_MSC PPC_FORMAT_YUV420 PPC_ROT, [437 / 100]),
     (PPC_IDX MPP_MSC PPC_FORMAT_YUV422 PPC_ROT_NO, [81 / 25]),
     (PPC_IDX MPP_MSC PPC_FORMAT_YUV422 PPC_ROT, [73 / 25]),
     (PPC_IDX MPP_MSC PPC_FORMAT_P010 PPC_ROT_NO, [73 / 20]),
     (PPC_IDX MPP_MSC PPC_FORMAT_P010 PPC_ROT, [82 / 25]),
     (PPC_IDX MPP_MSC PPC_FORMAT_YUV8_2 PPC_ROT_NO, [389 / 100]),
     (PPC_IDX MPP_MSC PPC_FORMAT_YUV8_2 PPC_ROT, [7 / 2]),
     (PPC_IDX MPP_MSC PPC_FORMAT_RGB32 PPC_ROT_NO, [1 / 10000]),
     (PPC_IDX MPP_MSC PPC_FORMAT_RGB32 PPC_ROT, [1 / 10000])]"

section \<open>s5e9815\<close>

definition s5e9815_feature_table :: "feature_support_t list" where
  "s5e9815_feature_table =
    [fs MPP_DPP_G (MPP_ATTR_BLOCK_MODE OR MPP_ATTR_WINDOW_UPDATE OR MPP_ATTR_DIM),
     fs MPP_DPP_GF (MPP_ATTR_AFBC OR MPP_ATTR_BLOCK_MODE OR MPP_ATTR_WINDOW_UPDATE OR MPP_ATTR_DIM),
     fs MPP_DPP_VG (MPP_ATTR_BLOCK_MODE OR MPP_ATTR_WINDOW_UPDATE OR MPP_ATTR_DIM),
     fs MPP_DPP_VGS (MPP_ATTR_BLOCK_MODE OR MPP_ATTR_WINDOW_UPDATE OR MPP_ATTR_SCALE OR MPP_ATTR_DIM),
     fs MPP_DPP_VGFS (MPP_ATTR_AFBC OR MPP_ATTR_BLOCK_MODE OR MPP_ATTR_WINDOW_UPDATE OR MPP_ATTR_SCALE OR MPP_ATTR_DIM),
     fs MPP_DPP_VGRFS (MPP_ATTR_AFBC OR MPP_ATTR_BLOCK_MODE OR MPP_ATTR_WINDOW_UPDATE OR MPP_ATTR_SCALE OR MPP_ATTR_FLIP_H OR MPP_ATTR_FLIP_V OR MPP_ATTR_ROT_90 OR MPP_ATTR_DIM),
     fs MPP_MSC (MPP_ATTR_FLIP_H OR MPP_ATTR_FLIP_V OR MPP_ATTR_ROT_90 OR MPP_ATTR_USE_CAPA)]"

definition s5e9815_format_table :: "hal_env \<Rightarrow> restriction_key list" where
  "s5e9815_format_table hal =
    [rkey MPP_DPP_GF NODE_NONE (hal HAL_PIXEL_FORMAT_RGB_565) 0,
     rkey MPP_DPP_GF NODE_NONE (hal HAL_PIXEL_FORMAT_RGBA_8888) 0,
     rkey MPP_DPP_GF NODE_NONE (hal HAL_PIXEL_FORMAT_RGBX_8888) 0,
     rkey MPP_DPP_GF NODE_NONE (hal HAL_PIXEL_FORMAT_BGRA_8888) 0,
     rkey MPP_DPP_GF NODE_NONE (hal HAL_PIXEL_FORMAT_RGBA_1010102) 0,
     rkey MPP_DPP_VG NODE_NONE (hal HAL_PIXEL_FORMAT_RGB_565) 0,
     rkey MPP_DPP_VG NODE_NONE (hal HAL_PIXEL_FORMAT_RGBA_8888) 0,
     rkey MPP_DPP_VG NODE_NONE (hal HAL_PIXEL_FORMAT_RGBX_8888) 0,
     rkey MPP_DPP_VG NODE_NONE (hal HAL_PIXEL_FORMAT_BGRA_8888) 0,
     rkey MPP_DPP_VG NODE_NONE (hal HAL_PIXEL_FORMAT_RGBA_1010102) 0,
     rkey MPP_DPP_VG NODE_NONE (hal HAL_PIXEL_FORMAT_EXYNOS_YCbCr_420_SP_M) 0,
     rkey MPP_DPP_VG NODE_NONE (hal HAL_PIXEL_FORMAT_EXYNOS_YCbCr_420_SP_M_PRIV) 0,
     rkey MPP_DPP_VG NODE_NONE (hal HAL_PIXEL_FORMAT_EXYNOS_YCrCb_420_SP_M) 0,
     rkey MPP_DPP_VG NODE_NONE (hal HAL_PIXEL_FORMAT_EXYNOS_YCrCb_420_SP_M_FULL) 0,
     rkey MPP_DPP_VG NODE_NONE (hal HAL_PIXEL_FORMAT_EXYNOS_YCbCr_420_SPN) 0,
     rkey MPP_DPP_VG NODE_NONE (hal HAL_PIXEL_FORMAT_EXYNOS_YCbCr_420_SP_M_S10B) 0,
     rkey MPP_DPP_VG NODE_NONE (hal HAL_PIXEL_FORMAT_EXYNOS_YCbCr_420_SPN_S10B) 0,
     rkey MPP_DPP_VG NODE_NONE (hal HAL_PIXEL_FORMAT_EXYNOS_YCbCr_P010_M) 0,
     rkey MPP_DPP_VG NODE_NONE (hal HAL_PIXEL_FORMAT_YCBCR_P010) 0,
     rkey MPP_DPP_VGS NODE_NONE (hal HAL_PIXEL_FORMAT_RGB_565) 0,
     rkey MPP_DPP_VGS NODE_NONE (hal HAL_PIXEL_FORMAT_RGBA_8888) 0,
     rkey MPP_DPP_VGS NODE_NONE (hal HAL_PIXEL_FORMAT_RGBX_8888) 0,
     rkey MPP_DPP_VGS NODE_NONE (hal HAL_PIXEL_FORMAT_BGRA_8888) 0,
     rkey MPP_DPP_VGS NODE_NONE (hal HAL_PIXEL_FORMAT_RGBA_1010102) 0,
     rkey MPP_DPP_VGS NODE_NONE (hal HAL_PIXEL_FORMAT_EXYNOS_YCbCr_420_SP_M) 0,
     rkey MPP_DPP_VGS NODE_NONE (hal HAL_PIXEL_FORMAT_EXYNOS_YCbCr_420_SP_M_PRIV) 0,
     rkey MPP_DPP_VGS NODE_NONE (hal HAL_PIXEL_FORMAT_EXYNOS_YCrCb_420_SP_M) 0,
     rkey MPP_DPP_VGS NODE_NONE (hal HAL_PIXEL_FORMAT_EXYNOS_YCrCb_420_SP_M_FULL) 0,
     rkey MPP_DPP_VGS NODE_NONE (hal HAL_PIXEL_FORMAT_EXYNOS_YCbCr_420_SPN) 0,
     rkey MPP_DPP_VGS NODE_NONE (hal HAL_PIXEL_FORMAT_EXYNOS_YCbCr_420_SP_M_S10B) 0,
     rkey MPP_DPP_VGS NODE_NONE (hal HAL_PIXEL_FORMAT_EXYNOS_YCbCr_420_SPN_S10B) 0,
     rkey MPP_DPP_VGS NODE_NONE (hal HAL_PIXEL_FORMAT_EXYNOS_YCbCr_P010_M) 0,
     rkey MPP_DPP_VGS NODE_NONE (hal HAL_PIXEL_FORMAT_YCBCR_P010) 0,
     rkey MPP_DPP_VGF NODE_NONE (hal HAL_PIXEL_FORMAT_RGB_565) 0,
     rkey MPP_DPP_VGF NODE_NONE (hal HAL_PIXEL_FORMAT_RGBA_8888) 0,
     rkey MPP_DPP_VGF NODE_NONE (hal HAL_PIXEL_FORMAT_RGBX_8888) 0,
     rkey MPP_DPP_VGF NODE_NONE (hal HAL_PIXEL_FORMAT_BGRA_8888) 0,
     rkey MPP_DPP_VGF NODE_NONE (hal HAL_PIXEL_FORMAT_RGBA_1010102) 0,
     rkey MPP_DPP_VGF NODE_NONE (hal HAL_PIXEL_FORMAT_EXYNOS_YCbCr_420_SP_M) 0,
     rkey MPP_DPP_VGF NODE_NONE (hal HAL_PIXEL_FORMAT_EXYNOS_YCbCr_420_SP_M_PRIV) 0,
     rkey MPP_DPP_VGF NODE_NONE (hal HAL_PIXEL_FORMAT_EXYNOS_YCrCb_420_SP_M) 0,
     rkey MPP_DPP_VGF NODE_NONE (hal HAL_PIXEL_FORMAT_EXYNOS_YCrCb_420_SP_M_FULL) 0,
     rkey MPP_DPP_VGF NODE_NONE (hal HAL_PIXEL_FORMAT_EXYNOS_YCbCr_420_SPN) 0,
     rkey MPP_DPP_VGF NODE_NONE (hal HAL_PIXEL_FORMAT_EXYNOS_YCbCr_420_SP_M_S10B) 0,
     rkey MPP_DPP_VGF NODE_NONE (hal HAL_PIXEL_FORMAT_EXYNOS_YCbCr_420_SPN_S10B) 0,
     rkey MPP_DPP_VGF NODE_NONE (hal HAL_PIXEL_FORMAT_EXYNOS_YCbCr_P010_M) 0,
     rkey MPP_DPP_VGF NODE_NONE (hal HAL_PIXEL_FORMAT_YCBCR_P010) 0,
     rkey MPP_DPP_VGRFS NODE_NONE (hal HAL_PIXEL_FORMAT_RGB_565) 0,
     rkey MPP_DPP_VGRFS NODE_NONE (hal HAL_PIXEL_FORMAT_RGBA_8888) 0,
     rkey MPP_DPP_VGRFS NODE_NONE (hal HAL_PIXEL_FORMAT_RGBX_8888) 0,
     rkey MPP_DPP_VGRFS NODE_NONE (hal HAL_PIXEL_FORMAT_BGRA_8888) 0,
     rkey MPP_DPP_VGRFS NODE_NONE (hal HAL_PIXEL_FORMAT_RGBA_1010102) 0,
     rkey MPP_DPP_VGRFS NODE_NONE (hal HAL_PIXEL_FORMAT_EXYNOS_YCbCr_420_SP_M) 0,
     rkey MPP_DPP_VGRFS NODE_NONE (hal HAL_PIXEL_FORMAT_EXYNOS_YCbCr_420_SP_M_PRIV) 0,
     rkey MPP_DPP_VGRFS NODE_NONE (hal HAL_PIXEL_FORMAT_EXYNOS_YCrCb_420_SP_M) 0,
     rkey MPP_DPP_VGRFS NODE_NONE (hal HAL_PIXEL_FORMAT_EXYNOS_YCrCb_420_SP_M_FULL) 0,
     rkey MPP_DPP_VGRFS NODE_NONE (hal HAL_PIXEL_FORMAT_EXYNOS_YCbCr_420_SPN) 0,
     rkey MPP_DPP_VGRFS NODE_NONE (hal HAL_PIXEL_FORMAT_EXYNOS_YCbCr_420_SP_M_S10B) 0,
     rkey MPP_DPP_VGRFS NODE_NONE (hal HAL_PIXEL_FORMAT_EXYNOS_YCbCr_420_SPN_S10B) 0,
     rkey MPP_DPP_VGRFS NODE_NONE (hal HAL_PIXEL_FORMAT_EXYNOS_YCbCr_P010_M) 0,
     rkey MPP_DPP_VGRFS NODE_NONE (hal HAL_PIXEL_FORMAT_YCBCR_P010) 0,
     rkey MPP_MSC NODE_NONE (hal HAL_PIXEL_FORMAT_EXYNOS_YCbCr_420_SP_M) 0,
     rkey MPP_MSC NODE_NONE (hal HAL_PIXEL_FORMAT_EXYNOS_YCbCr_420_SP_M_PRIV) 0,
     rkey MPP_MSC NODE_NONE (hal HAL_PIXEL_FORMAT_EXYNOS_YCbCr_420_SP_M_TILED) 0,
     rkey MPP_MSC NODE_NONE (hal HAL_PIXEL_FORMAT_EXYNOS_YCrCb_420_SP_M) 0,
     rkey MPP_MSC NODE_NONE (hal HAL_PIXEL_FORMAT_EXYNOS_YCrCb_420_SP_M_FULL) 0,
     rkey MPP_MSC NODE_NONE (hal HAL_PIXEL_FORMAT_EXYNOS_YCbCr_420_SPN) 0,
     rkey MPP_MSC NODE_NONE (hal HAL_PIXEL_FORMAT_EXYNOS_YCbCr_420_SP_M_S10B) 0,
     rkey MPP_MSC NODE_NONE (hal HAL_PIXEL_FORMAT_EXYNOS_YCbCr_420_SPN_S10B) 0,
     rkey MPP_MSC NODE_NONE (hal HAL_PIXEL_FORMAT_EXYNOS_YCbCr_P010_M) 0,
     rkey MPP_MSC NODE_NONE (hal HAL_PIXEL_FORMAT_YCBCR_P010) 0,
     rkey MPP_MSC NODE_NONE (hal HAL_PIXEL_FORMAT_YCrCb_420_SP) 0,
     rkey MPP_MSC NODE_NONE (hal HAL_PIXEL_FORMAT_YV12) 0,
     rkey MPP_MSC NODE_NONE (hal HAL_PIXEL_FORMAT_EXYNOS_YV12_M) 0,
     rkey MPP_MSC NODE_NONE (hal HAL_PIXEL_FORMAT_EXYNOS_YCbCr_420_P_M) 0,
     rkey MPP_MSC NODE_NONE (hal HAL_PIXEL_FORMAT_EXYNOS_YCbCr_420_PN) 0,
     rkey MPP_MSC NODE_NONE (hal HAL_PIXEL_FORMAT_EXYNOS_YCbCr_420_SPN_TILED) 0,
     rkey MPP_G2D NODE_NONE (hal HAL_PIXEL_FORMAT_RGB_565) 0,
     rkey MPP_G2D NODE_NONE (hal HAL_PIXEL_FORMAT_RGB_888) 0,
     rkey MPP_G2D NODE_NONE (hal HAL_PIXEL_FORMAT_RGBA_8888) 0,
     rkey MPP_G2D NODE_NONE (hal HAL_PIXEL_FORMAT_RGBX_8888) 0,
     rkey MPP_G2D NODE_NONE (hal HAL_PIXEL_FORMAT_BGRA_8888) 0,
     rkey MPP_G2D NODE_NONE (hal HAL_PIXEL_FORMAT_RGBA_1010102) 0,
     rkey MPP_G2D NODE_NONE (hal HAL_PIXEL_FORMAT_EXYNOS_YCbCr_420_SP_M) 0,
     rkey MPP_G2D NODE_NONE (hal HAL_PIXEL_FORMAT_EXYNOS_YCbCr_420_SP_M_PRIV) 0,
     rkey MPP_G2D NODE_NONE (hal HAL_PIXEL_FORMAT_EXYNOS_YCbCr_420_SP_M_TILED) 0,
     rkey MPP_G2D NODE_NONE (hal HAL_PIXEL_FORMAT_EXYNOS_YCrCb_420_SP_M) 0,
     rkey MPP_G2D NODE_NONE (hal HAL_PIXEL_FORMAT_EXYNOS_YCrCb_420_SP_M_FULL) 0,
     rkey MPP_G2D NODE_NONE (hal HAL_PIXEL_FORMAT_EXYNOS_YCbCr_420_SPN) 0,
     rkey MPP_G2D NODE_NONE (hal HAL_PIXEL_FORMAT_EXYNOS_YCbCr_420_SP_M_S10B) 0,
     rkey MPP_G2D NODE_NONE (hal HAL_PIXEL_FORMAT_EXYNOS_YCbCr_420_SPN_S10B) 0,
     rkey MPP_G2D NODE_NONE (hal HAL_PIXEL_FORMAT_EXYNOS_YCbCr_P010_M) 0,
     rkey MPP_G2D NODE_NONE (hal HAL_PIXEL_FORMAT_YCrCb_420_SP) 0,
     rkey MPP_G2D NODE_NONE (hal HAL_PIXEL_FORMAT_EXYNOS_YCbCr_420_SPN_TILED) 0]"

definition s5e9815_size_table_rgb :: "restriction_size_element list" where
  "s5e9815_size_table_rgb =
    [(rkey MPP_DPP_GF NODE_SRC HAL_PIXEL_FORMAT_NONE 0, rsize [1, 1, 65535, 8191, 16, 16, 1, 1, 4096, 4096, 16, 16, 1, 1, 1, 1]),
     (rkey MPP_DPP_VG NODE_SRC HAL_PIXEL_FORMAT_NONE 0, rsize [1, 1, 65535, 8191, 16, 16, 1, 1, 4096, 4096, 16, 16, 1, 1, 1, 1]),
     (rkey MPP_DPP_VGS NODE_SRC HAL_PIXEL_FORMAT_NONE 0, rsize [2, 8, 65535, 8191, 16, 16, 1, 1, 4096, 4096, 16, 16, 1, 1, 1, 1]),
     (rkey MPP_DPP_VGF NODE_SRC HAL_PIXEL_FORMAT_NONE 0, rsize [1, 1, 65535, 8191, 16, 16, 1, 1, 4096, 4096, 16, 16, 1, 1, 1, 1]),
     (rkey MPP_DPP_VGRFS NODE_SRC HAL_PIXEL_FORMAT_NONE 0, rsize [2, 8, 65535, 8191, 16, 16, 1, 1, 4096, 4096, 16, 16, 1, 1, 1, 1]),
     (rkey MPP_DPP_GF NODE_DST HAL_PIXEL_FORMAT_NONE 0, rsize [1, 1, 65535, 8191, 16, 16, 1, 1, 4096, 4096, 16, 16, 1, 1, 1, 1]),
     (rkey MPP_DPP_VG NODE_DST HAL_PIXEL_FORMAT_NONE 0, rsize [1, 1, 65535, 8191, 16, 16, 1, 1, 4096, 4096, 16, 16, 1, 1, 1, 1]),
     (rkey MPP_DPP_VGS NODE_DST HAL_PIXEL_FORMAT_NONE 0, rsize [2, 8, 65535, 8191, 16, 16, 1, 1, 4096, 4096, 16, 16, 1, 1, 1, 1]),
     (rkey MPP_DPP_VGF NODE_DST HAL_PIXEL_FORMAT_NONE 0, rsize [1, 1, 65535, 8191, 16, 16, 1, 1, 4096, 4096, 16, 16, 1, 1, 1, 1]),
     (rkey MPP_DPP_VGRFS NODE_DST HAL_PIXEL_FORMAT_NONE 0, rsize [2, 8, 65535, 8191, 16, 16, 1, 1, 4096, 4096, 16, 16, 1, 1, 1, 1]),
     (rkey MPP_G2D NODE_NONE HAL_PIXEL_FORMAT_NONE 0, rsize [8192, 8192, 8192, 8192, 1, 1, 1, 1, 8192, 8192, 1, 1, 1, 1, 1, 1])]"

definition s5e9815_size_table_yuv :: "restriction_size_element list" where
  "s5e9815_size_table_yuv =
    [(rkey MPP_DPP_GF NODE_SRC HAL_PIXEL_FORMAT_NONE 0, rsize [1, 1, 65534, 8190, 32, 32, 2, 2, 4096, 4096, 32, 32, 2, 2, 2, 2]),
     (rkey MPP_DPP_VG NODE_SRC HAL_PIXEL_FORMAT_NONE 0, rsize [1, 1, 65534, 8190, 32, 32, 2, 2, 4096, 4096, 32, 32, 2, 2, 2, 2]),
     (rkey MPP_DPP_VGS NODE_SRC HAL_PIXEL_FORMAT_NONE 0, rsize [2, 8, 65534, 8190, 32, 32, 2, 2, 4096, 4096, 32, 32, 2, 2, 2, 2]),
     (rkey MPP_DPP_VGF NODE_SRC HAL_PIXEL_FORMAT_NONE 0, rsize [1, 1, 65534, 8190, 32, 32, 2, 2, 4096, 4096, 32, 32, 2, 2, 2, 2]),
     (rkey MPP_DPP_VGRFS NODE_SRC HAL_PIXEL_FORMAT_NONE 0, rsize [2, 8, 65534, 8190, 32, 32, 2, 2, 4096, 4096, 32, 32, 2, 2, 2, 2]),
     (rkey MPP_MSC NODE_SRC HAL_PIXEL_FORMAT_NONE 0, rsize [16, 64, 8192, 8192, 16, 16, 2, 2, 4096, 4096, 16, 16, 2, 2, 2, 2]),
     (rkey MPP_G2D NODE_SRC HAL_PIXEL_FORMAT_NONE 0, rsize [4, 8192, 8192, 8192, 2, 2, 2, 2, 8192, 8192, 1, 1, 1, 1, 1, 1]),
     (rkey MPP_DPP_GF NODE_DST HAL_PIXEL_FORMAT_NONE 0, rsize [1, 1, 65535, 8191, 16, 16, 1, 1, 4096, 4096, 16, 16, 1, 1, 1, 1]),
     (rkey MPP_DPP_VG NODE_DST HAL_PIXEL_FORMAT_NONE 0, rsize [1, 1, 65535, 8191, 16, 16, 1, 1, 4096, 4096, 16, 16, 1, 1, 1, 1]),
     (rkey MPP_DPP_VGS NODE_DST HAL_PIXEL_FORMAT_NONE 0, rsize [2, 8, 65535, 8191, 16, 16, 1, 1, 4096, 4096, 16, 16, 1, 1, 1, 1]),
     (rkey MPP_DPP_VGF NODE_DST HAL_PIXEL_FORMAT_NONE 0, rsize [1, 1, 65535, 8191, 16, 16, 1, 1, 4096, 4096, 16, 16, 1, 1, 1, 1]),
     (rkey MPP_DPP_VGRFS NODE_DST HAL_PIXEL_FORMAT_NONE 0, rsize [2, 8, 65535, 8191, 16, 16, 1, 1, 4096, 4096, 16, 16, 1, 1, 1, 1]),
     (rkey MPP_MSC NODE_DST HAL_PIXEL_FORMAT_NONE 0, rsize [16, 64, 8192, 8192, 4, 4, 2, 2, 8192, 8192, 4, 4, 2, 2, 2, 2]),
     (rkey MPP_G2D NODE_DST HAL_PIXEL_FORMAT_NONE 0, rsize [8192, 8192, 8192, 8192, 2, 2, 2, 2, 8192, 8192, 2, 2, 2, 2, 2, 2])]"

definition s5e9815_ppc_table :: "(u32 \<times> rat list) list" where
  "s5e9815_ppc_table =
    [(PPC_IDX MPP_G2D PPC_FORMAT_YUV420 PPC_ROT_NO, [29 / 10, 13 / 5, 17 / 5, 51 / 10, 119 / 10, 13 / 5, 3]),
     (PPC_IDX MPP_G2D PPC_FORMAT_YUV420 PPC_ROT, [2, 19 / 10, 33 / 10, 26 / 5, 7, 19 / 10, 16 / 5]),
     (PPC_IDX MPP_G2D PPC_FORMAT_YUV8_2 PPC_ROT_NO, [19 / 10, 19 / 10, 27 / 10, 31 / 10, 41 / 10, 7 / 5, 12 / 5]),
     (PPC_IDX MPP_G2D PPC_FORMAT_YUV8_2 PPC_ROT, [9 / 10, 9 / 10, 11 / 5, 2, 37 / 10, 9 / 10, 5 / 2]),
     (PPC_IDX MPP_G2D PPC_FORMAT_YUV422 PPC_ROT_NO, [31 / 10, 11 / 5, 18 / 5, 51 / 10, 7, 11 / 5, 17 / 5]),
     (PPC_IDX MPP_G2D PPC_FORMAT_YUV422 PPC_ROT, [27 / 10, 2, 3, 26 / 5, 13 / 2, 2, 33 / 10]),
     (PPC_IDX MPP_G2D PPC_FORMAT_RGB32 PPC_ROT_NO, [31 / 10, 11 / 5, 18 / 5, 51 / 10, 7, 11 / 5, 17 / 5]),
     (PPC_IDX MPP_G2D PPC_FORMAT_RGB32 PPC_ROT, [27 / 10, 2, 3, 26 / 5, 13 / 2, 2, 33 / 10]),
     (PPC_IDX MPP_G2D PPC_FORMAT_AFBC PPC_ROT_NO, [3, 8 / 5, 8 / 5, 12 / 5, 16 / 5, 8 / 5, 14 / 5]),
     (PPC_IDX MPP_G2D PPC_FORMAT_AFBC PPC_ROT, [3, 8 / 5, 8 / 5, 12 / 5, 16 / 5, 8 / 5, 14 / 5]),
     (PPC_IDX MPP_MSC PPC_FORMAT_YUV420 PPC_ROT_NO, [237 / 50]),
     (PPC_IDX MPP_MSC PPC_FORMAT_YUV420 PPC_ROT, [111 / 25]),
     (PPC_IDX MPP_MSC PPC_FORMAT_YUV422 PPC_ROT_NO, [173 / 50]),
     (PPC_IDX MPP_MSC PPC_FORMAT_YUV422 PPC_ROT, [169 / 50]),
     (PPC_IDX MPP_MSC PPC_FORMAT_P010 PPC_ROT_NO, [91 / 25]),
     (PPC_IDX MPP_MSC PPC_FORMAT_P010 PPC_ROT, [16 / 5]),
     (PPC_IDX MPP_MSC PPC_FORMAT_YUV8_2 PPC_ROT_NO, [461 / 100]),
     (PPC_IDX MPP_MSC PPC_FORMAT_YUV8_2 PPC_ROT, [459 / 100]),
     (PPC_IDX MPP_MSC PPC_FORMAT_RGB32 PPC_ROT_NO, [9 / 5]),
     (PPC_IDX MPP_MSC PPC_FORMAT_RGB32 PPC_ROT, [37 / 20]),
     (PPC_IDX MPP_MSC PPC_FORMAT_SBWC PPC_ROT_NO, [199 / 100]),
     (PPC_IDX MPP_MSC PPC_FORMAT_SBWC PPC_ROT, [19 / 10])]"

section \<open>The chips\<close>

datatype (plugins only: code) soc =
    SOC_exynos2100 | SOC_exynos3830 | SOC_exynos7885 | SOC_exynos9610 | SOC_exynos9630 | SOC_exynos9810 | SOC_exynos9820 | SOC_s5e9815

fun soc_format_table :: "soc \<Rightarrow> hal_env \<Rightarrow> restriction_key list" where
  "soc_format_table SOC_exynos2100 = exynos2100_format_table"
| "soc_format_table SOC_exynos3830 = exynos3830_format_table"
| "soc_format_table SOC_exynos7885 = exynos7885_format_table"
| "soc_format_table SOC_exynos9610 = exynos9610_format_table"
| "soc_format_table SOC_exynos9630 = exynos9630_format_table"
| "soc_format_table SOC_exynos9810 = exynos9810_format_table"
| "soc_format_table SOC_exynos9820 = exynos9820_format_table"
| "soc_format_table SOC_s5e9815 = s5e9815_format_table"

fun soc_size_table_rgb :: "soc \<Rightarrow> restriction_size_element list" where
  "soc_size_table_rgb SOC_exynos2100 = exynos2100_size_table_rgb"
| "soc_size_table_rgb SOC_exynos3830 = exynos3830_size_table_rgb"
| "soc_size_table_rgb SOC_exynos7885 = exynos7885_size_table_rgb"
| "soc_size_table_rgb SOC_exynos9610 = exynos9610_size_table_rgb"
| "soc_size_table_rgb SOC_exynos9630 = exynos9630_size_table_rgb"
| "soc_size_table_rgb SOC_exynos9810 = exynos9810_size_table_rgb"
| "soc_size_table_rgb SOC_exynos9820 = exynos9820_size_table_rgb"
| "soc_size_table_rgb SOC_s5e9815 = s5e9815_size_table_rgb"

fun soc_size_table_yuv :: "soc \<Rightarrow> restriction_size_element list" where
  "soc_size_table_yuv SOC_exynos2100 = exynos2100_size_table_yuv"
| "soc_size_table_yuv SOC_exynos3830 = exynos3830_size_table_yuv"
| "soc_size_table_yuv SOC_exynos7885 = exynos7885_size_table_yuv"
| "soc_size_table_yuv SOC_exynos9610 = exynos9610_size_table_yuv"
| "soc_size_table_yuv SOC_exynos9630 = exynos9630_size_table_yuv"
| "soc_size_table_yuv SOC_exynos9810 = exynos9810_size_table_yuv"
| "soc_size_table_yuv SOC_exynos9820 = exynos9820_size_table_yuv"
| "soc_size_table_yuv SOC_s5e9815 = s5e9815_size_table_yuv"

fun soc_ppc_table :: "soc \<Rightarrow> (u32 \<times> rat list) list" where
  "soc_ppc_table SOC_exynos2100 = exynos2100_ppc_table"
| "soc_ppc_table SOC_exynos3830 = exynos3830_ppc_table"
| "soc_ppc_table SOC_exynos7885 = exynos7885_ppc_table"
| "soc_ppc_table SOC_exynos9610 = exynos9610_ppc_table"
| "soc_ppc_table SOC_exynos9630 = exynos9630_ppc_table"
| "soc_ppc_table SOC_exynos9810 = exynos9810_ppc_table"
| "soc_ppc_table SOC_exynos9820 = exynos9820_ppc_table"
| "soc_ppc_table SOC_s5e9815 = s5e9815_ppc_table"

lemmas soc_size_tables = exynos2100_size_table_rgb_def exynos2100_size_table_yuv_def
  exynos3830_size_table_rgb_def exynos3830_size_table_yuv_def
  exynos7885_size_table_rgb_def exynos7885_size_table_yuv_def
  exynos9610_size_table_rgb_def exynos9610_size_table_yuv_def
  exynos9630_size_table_rgb_def exynos9630_size_table_yuv_def
  exynos9810_size_table_rgb_def exynos9810_size_table_yuv_def
  exynos9820_size_table_rgb_def exynos9820_size_table_yuv_def
  s5e9815_size_table_rgb_def s5e9815_size_table_yuv_def

lemmas soc_ppc_tables = exynos2100_ppc_table_def
  exynos3830_ppc_table_def
  exynos7885_ppc_table_def
  exynos9610_ppc_table_def
  exynos9630_ppc_table_def
  exynos9810_ppc_table_def
  exynos9820_ppc_table_def
  s5e9815_ppc_table_def

lemmas soc_format_tables = exynos2100_format_table_def
  exynos3830_format_table_def
  exynos7885_format_table_def
  exynos9610_format_table_def
  exynos9630_format_table_def
  exynos9810_format_table_def
  exynos9820_format_table_def
  s5e9815_format_table_def

end
