(* ===== verification/MppConfigure.thy ===== *)
theory MppConfigure
  imports SocTables
begin

text \<open>
  How the resource manager (\<open>device/ExynosResourceManager.cpp\<close>) fills in what each resource can do:
  from the chip's tables (\<open>updateRestrictions\<close>), from what the display driver reports
  (\<open>makeDPURestrictions\<close>) or from the 2D library (\<open>makeAcrylRestrictions\<close>), and the questions it
  answers from it. The two vectors of resources are lists; a look-up that yields the null pointer is
  \<open>None\<close>, and so is a function that dereferences it or writes past a fixed array.
\<close>

section \<open>The manager's resources\<close>

record resource_manager =
  mOtfMPPs :: "mpp list"
  mM2mMPPs :: "mpp list"

definition rm_addFormatRestrictions :: "restriction_key \<Rightarrow> resource_manager \<Rightarrow> resource_manager" where
  "rm_addFormatRestrictions node rm =
    (let add = map (\<lambda>mpp. if hwType node = mPhysicalType mpp then addFormatRestrictions node mpp else mpp) in
     if hwType node < MPP_DPP_NUM then rm\<lparr>mOtfMPPs := add (mOtfMPPs rm)\<rparr>
     else rm\<lparr>mM2mMPPs := add (mM2mMPPs rm)\<rparr>)"

definition rm_addSizeRestrictions ::
  "u32 \<Rightarrow> restriction_size \<Rightarrow> restriction_size \<Rightarrow> nat \<Rightarrow> resource_manager \<Rightarrow> resource_manager" where
  "rm_addSizeRestrictions mppId src_size dst_size fmt rm =
    (let add = map (\<lambda>mpp. if mppId = mPhysicalType mpp then addSizeRestrictions src_size dst_size fmt mpp else mpp) in
     if mppId < MPP_DPP_NUM then rm\<lparr>mOtfMPPs := add (mOtfMPPs rm)\<rparr>
     else rm\<lparr>mM2mMPPs := add (mM2mMPPs rm)\<rparr>)"

definition getPhysicalType :: "int \<Rightarrow> resource_manager \<Rightarrow> u32" where
  "getPhysicalType ch rm =
    (case List.find (\<lambda>mpp. mChId mpp = ch) (mOtfMPPs rm) of
       Some mpp \<Rightarrow> mPhysicalType mpp
     | None \<Rightarrow> MPP_P_TYPE_MAX)"

definition getOtfMPPWithChannel :: "int \<Rightarrow> resource_manager \<Rightarrow> mpp option" where
  "getOtfMPPWithChannel ch rm = List.find (\<lambda>mpp. mChId mpp = ch) (mOtfMPPs rm)"

text \<open>An update of the first resource with the channel, what a write through the pointer does.\<close>

fun upd_channel :: "int \<Rightarrow> (mpp \<Rightarrow> mpp) \<Rightarrow> mpp list \<Rightarrow> mpp list" where
  "upd_channel ch f [] = []"
| "upd_channel ch f (mpp # mpps) = (if mChId mpp = ch then f mpp # mpps else mpp # upd_channel ch f mpps)"

section \<open>From the chip's tables\<close>

text \<open>
  The row with the destination limits of row \<open>j\<close>: the row itself when it is for both nodes, otherwise
  the last row with the destination's key; -1 when there is none.
\<close>

definition dst_index :: "restriction_size_element list \<Rightarrow> nat \<Rightarrow> int" where
  "dst_index tab j =
    (let cur = fst (tab ! j) in
     if nodeType cur = NODE_NONE then int j
     else
       (let dstKey = \<lparr>hwType = hwType cur, nodeType = NODE_DST, key_format = key_format cur,
                      key_reserved = key_reserved cur\<rparr>
        in foldl (\<lambda>d k. if fst (tab ! k) = dstKey then int k else d) (-1) [0..<length tab]))"

definition update_row ::
  "nat \<Rightarrow> restriction_size_element list \<Rightarrow> resource_manager \<Rightarrow> nat \<Rightarrow> resource_manager" where
  "update_row i tab rm j =
    (let cur = tab ! j; dstIndex = dst_index tab j in
     if nodeType (fst cur) = NODE_DST then rm
     else if dstIndex > 0 then
       rm_addSizeRestrictions (hwType (fst cur)) (snd cur) (snd (tab ! nat dstIndex)) i rm
     else rm)"

definition updateRestrictions ::
  "restriction_key list \<Rightarrow> restriction_size_element list list \<Rightarrow> resource_manager \<Rightarrow> resource_manager" where
  "updateRestrictions format_table tables rm =
     foldl (\<lambda>rm i. foldl (update_row i (tables ! i)) rm [0..<length (tables ! i)])
       (foldl (\<lambda>rm key. rm_addFormatRestrictions key rm) rm format_table)
       [0..<length tables]"

definition soc_tables_of :: "soc \<Rightarrow> restriction_size_element list list" where
  "soc_tables_of soc = [soc_size_table_rgb soc, soc_size_table_yuv soc]"

definition updateMPPFeature :: "feature_support_t list \<Rightarrow> bool \<Rightarrow> resource_manager \<Rightarrow> resource_manager" where
  "updateMPPFeature feature_table updateOtfMPP rm =
    foldl (\<lambda>rm feature.
        let set_attr = map (\<lambda>mpp. if mPhysicalType mpp = fs_hwType feature then mpp\<lparr>mAttr := fs_attr feature\<rparr> else mpp);
            rm = rm\<lparr>mM2mMPPs := set_attr (mM2mMPPs rm)\<rparr>
        in if \<not> updateOtfMPP then rm else rm\<lparr>mOtfMPPs := set_attr (mOtfMPPs rm)\<rparr>)
      rm feature_table"

section \<open>From the display driver\<close>

text \<open>Attribute bits of the driver and the resource attributes they stand for.\<close>

definition dpu_attr_map_table :: "(nat \<times> u64) list" where
  "dpu_attr_map_table =
    [(0, MPP_ATTR_AFBC), (0, MPP_ATTR_SAJC), (1, MPP_ATTR_BLOCK_MODE),
     (2, MPP_ATTR_FLIP_H OR MPP_ATTR_FLIP_V), (3, MPP_ATTR_ROT_90), (5, MPP_ATTR_SCALE),
     (6, MPP_ATTR_HDR10), (7, MPP_ATTR_HDR10), (11, MPP_ATTR_HDR10PLUS), (8, MPP_ATTR_HDR10PLUS),
     (9, MPP_ATTR_WCG)]"

definition sw_feature_table :: "u32 \<rightharpoonup> u64" where
  "sw_feature_table = map_of
    [(MPP_DPP_G, MPP_ATTR_DIM), (MPP_DPP_GF, MPP_ATTR_DIM), (MPP_DPP_VG, MPP_ATTR_DIM), (MPP_DPP_VGS, MPP_ATTR_DIM),
     (MPP_DPP_VGF, MPP_ATTR_DIM), (MPP_DPP_VGFS, MPP_ATTR_DIM), (MPP_DPP_VGRFS, MPP_ATTR_DIM)]"

definition dpu_attrs :: "u64 \<Rightarrow> u32 \<Rightarrow> u64" where
  "dpu_attrs dpuAttr hw =
    (let attr = foldl (\<lambda>attr (bit, hwc). if dpuAttr AND push_bit bit 1 \<noteq> 0 then attr OR hwc else attr)
           0 dpu_attr_map_table
     in case sw_feature_table hw of Some sw \<Rightarrow> attr OR sw | None \<Rightarrow> attr)"

definition setDPUFeature :: "u64 \<Rightarrow> mpp \<Rightarrow> mpp" where
  "setDPUFeature dpuAttr mpp = mpp\<lparr>mAttr := dpu_attrs dpuAttr (mPhysicalType mpp)\<rparr>"

text \<open>What the driver reports for one channel.\<close>

record dpp_ch_restriction =
  ch_attr :: u64
  ch_formats :: "int list"
  ch_restriction :: dpp_restriction

text \<open>Which channels repeat the attributes of an earlier one; the array has sixteen entries.\<close>

definition overlaps :: "dpp_ch_restriction list \<Rightarrow> nat \<Rightarrow> bool" where
  "overlaps chs i \<longleftrightarrow> ch_attr (chs ! i) \<in> set (map ch_attr (take i chs))"

definition dpu_formats :: "bool \<Rightarrow> dpp_ch_restriction list \<Rightarrow> resource_manager \<Rightarrow> nat \<Rightarrow> resource_manager" where
  "dpu_formats checkOverlap chs rm i =
    (if checkOverlap \<and> overlaps chs i then rm
     else if getOtfMPPWithChannel (int i) rm = None then rm
     else
       (let hw = getPhysicalType (int i) rm in
        foldl (\<lambda>rm f.
            let key = \<lparr>hwType = hw, nodeType = NODE_NONE, key_format = f, key_reserved = 0\<rparr>
            in if checkOverlap then rm_addFormatRestrictions key rm
               else rm\<lparr>mOtfMPPs := upd_channel (int i) (addFormatRestrictions key) (mOtfMPPs rm)\<rparr>)
          rm (ch_formats (chs ! i))))"

text \<open>
  The second loop. Without \<open>checkOverlap\<close> the resource of the channel is written to; the code tests
  the pointer before it writes the RGB limits but not before it writes the YUV limits.
\<close>

definition dpu_sizes ::
  "bool \<Rightarrow> dpp_ch_restriction list \<Rightarrow> resource_manager option \<Rightarrow> nat \<Rightarrow> resource_manager option" where
  "dpu_sizes checkOverlap chs orm i =
    (case orm of
       None \<Rightarrow> None
     | Some rm \<Rightarrow>
        (if checkOverlap \<and> overlaps chs i then Some rm
         else
           (let r = ch_restriction (chs ! i);
                (rSrc, rDst) = convertSizeRestriction r;
                (ySrc, yDst) = convertYUVSizeRestriction r (rSrc, rDst)
            in if checkOverlap then
                 (let hw = getPhysicalType (int i) rm in
                  Some (rm_addSizeRestrictions hw ySrc yDst RESTRICTION_YUV
                         (rm_addSizeRestrictions hw rSrc rDst RESTRICTION_RGB rm)))
               else if getOtfMPPWithChannel (int i) rm = None then None
               else
                 (let upd = (\<lambda>mpp. setDPUFeature (ch_attr (chs ! i))
                        (addSizeRestrictions ySrc yDst RESTRICTION_YUV
                          (addSizeRestrictions rSrc rDst RESTRICTION_RGB mpp)))
                  in Some (rm\<lparr>mOtfMPPs := upd_channel (int i) upd (mOtfMPPs rm)\<rparr>)))))"

definition makeDPURestrictions ::
  "dpp_ch_restriction list \<Rightarrow> bool \<Rightarrow> resource_manager \<Rightarrow> resource_manager option" where
  "makeDPURestrictions chs checkOverlap rm =
    (if checkOverlap \<and> length chs > 16 then None
     else foldl (dpu_sizes checkOverlap chs)
            (Some (foldl (dpu_formats checkOverlap chs) rm [0..<length chs])) [0..<length chs])"

section \<open>What loading the tables does to one resource\<close>

definition rm_map :: "(mpp \<Rightarrow> mpp) \<Rightarrow> resource_manager \<Rightarrow> resource_manager" where
  "rm_map f rm = rm\<lparr>mOtfMPPs := map f (mOtfMPPs rm), mM2mMPPs := map f (mM2mMPPs rm)\<rparr>"

text \<open>The display pipes are in one vector and the memory-to-memory engines in the other.\<close>

definition rm_wf :: "resource_manager \<Rightarrow> bool" where
  "rm_wf rm \<longleftrightarrow> (\<forall>m\<in>set (mOtfMPPs rm). mPhysicalType m < MPP_DPP_NUM) \<and>
     (\<forall>m\<in>set (mM2mMPPs rm). \<not> mPhysicalType m < MPP_DPP_NUM)"

definition load_format :: "mpp \<Rightarrow> restriction_key \<Rightarrow> mpp" where
  "load_format m key = (if hwType key = mPhysicalType m then addFormatRestrictions key m else m)"

definition row_for :: "restriction_size_element list \<Rightarrow> u32 \<Rightarrow> nat \<Rightarrow> bool" where
  "row_for tab hw j \<longleftrightarrow> nodeType (fst (tab ! j)) \<noteq> NODE_DST \<and> hwType (fst (tab ! j)) = hw \<and> dst_index tab j > 0"

definition load_row :: "nat \<Rightarrow> restriction_size_element list \<Rightarrow> mpp \<Rightarrow> nat \<Rightarrow> mpp" where
  "load_row i tab m j =
    (if row_for tab (mPhysicalType m) j
     then addSizeRestrictions (snd (tab ! j)) (snd (tab ! nat (dst_index tab j))) i m else m)"

lemma rm_map_simps [simp]: "rm_map (\<lambda>m. m) rm = rm" "rm_map f (rm_map g rm) = rm_map (\<lambda>m. f (g m)) rm"
  by (simp_all add: rm_map_def comp_def)

lemma phys_add [simp]:
  "mPhysicalType (addFormatRestrictions k m) = mPhysicalType m"
  "mPhysicalType (addSizeRestrictions s d i m) = mPhysicalType m"
  by (simp_all add: addFormatRestrictions_def addSizeRestrictions_def)

lemma load_phys [simp]:
  "mPhysicalType (load_format m k) = mPhysicalType m" "mPhysicalType (load_row i tab m j) = mPhysicalType m"
  by (simp_all add: load_format_def load_row_def)

lemma foldl_load_format_phys [simp]: "mPhysicalType (foldl load_format m ks) = mPhysicalType m"
  by (induction ks arbitrary: m) simp_all

lemma foldl_load_row_phys [simp]: "mPhysicalType (foldl (load_row i tab) m js) = mPhysicalType m"
  by (induction js arbitrary: m) simp_all

text \<open>A change of the resources of one vector only, when it matches nothing in the other.\<close>

lemma rm_map_otf:
  "(\<And>m. m \<in> set (mM2mMPPs rm) \<Longrightarrow> f m = m) \<Longrightarrow> rm_map f rm = rm\<lparr>mOtfMPPs := map f (mOtfMPPs rm)\<rparr>"
proof -
  assume "\<And>m. m \<in> set (mM2mMPPs rm) \<Longrightarrow> f m = m"
  then have "map f (mM2mMPPs rm) = mM2mMPPs rm" by (simp add: map_idI)
  then show ?thesis by (cases rm) (simp add: rm_map_def)
qed

lemma rm_map_m2m:
  "(\<And>m. m \<in> set (mOtfMPPs rm) \<Longrightarrow> f m = m) \<Longrightarrow> rm_map f rm = rm\<lparr>mM2mMPPs := map f (mM2mMPPs rm)\<rparr>"
proof -
  assume "\<And>m. m \<in> set (mOtfMPPs rm) \<Longrightarrow> f m = m"
  then have "map f (mOtfMPPs rm) = mOtfMPPs rm" by (simp add: map_idI)
  then show ?thesis by (cases rm) (simp add: rm_map_def)
qed

lemma rm_wf_map: "rm_wf rm \<Longrightarrow> (\<And>m. mPhysicalType (f m) = mPhysicalType m) \<Longrightarrow> rm_wf (rm_map f rm)"
  by (auto simp: rm_wf_def rm_map_def)

lemma add_format_map:
  assumes "rm_wf rm"
  shows "rm_addFormatRestrictions k rm = rm_map (\<lambda>m. load_format m k) rm"
proof (cases "hwType k < MPP_DPP_NUM")
  case True
  with assms show ?thesis
    by (subst rm_map_otf) (auto simp: rm_addFormatRestrictions_def rm_wf_def load_format_def)
next
  case False
  with assms show ?thesis
    by (subst rm_map_m2m) (auto simp: rm_addFormatRestrictions_def rm_wf_def load_format_def)
qed

lemma add_size_map:
  assumes "rm_wf rm"
  shows "rm_addSizeRestrictions hw s d i rm =
    rm_map (\<lambda>m. if hw = mPhysicalType m then addSizeRestrictions s d i m else m) rm"
proof (cases "hw < MPP_DPP_NUM")
  case True
  with assms show ?thesis
    by (subst rm_map_otf) (auto simp: rm_addSizeRestrictions_def rm_wf_def)
next
  case False
  with assms show ?thesis
    by (subst rm_map_m2m) (auto simp: rm_addSizeRestrictions_def rm_wf_def)
qed

lemma update_row_map:
  assumes "rm_wf rm"
  shows "update_row i tab rm j = rm_map (\<lambda>m. load_row i tab m j) rm"
proof (cases "nodeType (fst (tab ! j)) = NODE_DST \<or> \<not> dst_index tab j > 0")
  case True
  then have "(\<lambda>m. load_row i tab m j) = (\<lambda>m. m)" by (auto simp: load_row_def row_for_def fun_eq_iff)
  with True show ?thesis by (auto simp: update_row_def Let_def)
next
  case False
  then have "(\<lambda>m. load_row i tab m j) =
      (\<lambda>m. if hwType (fst (tab ! j)) = mPhysicalType m
           then addSizeRestrictions (snd (tab ! j)) (snd (tab ! nat (dst_index tab j))) i m else m)"
    by (auto simp: load_row_def row_for_def fun_eq_iff)
  with False show ?thesis by (simp only: add_size_map[OF assms] update_row_def Let_def) simp
qed

lemma foldl_rm_map:
  assumes "rm_wf rm" and "\<And>rm x. rm_wf rm \<Longrightarrow> step rm x = rm_map (\<lambda>m. f m x) rm"
    and "\<And>m x. mPhysicalType (f m x) = mPhysicalType m"
  shows "foldl step rm xs = rm_map (\<lambda>m. foldl f m xs) rm \<and> rm_wf (foldl step rm xs)"
  using assms(1)
proof (induction xs arbitrary: rm)
  case (Cons x xs)
  from Cons.prems have "rm_wf (rm_map (\<lambda>m. f m x) rm)" by (rule rm_wf_map) (rule assms(3))
  note ih = Cons.IH[OF this]
  have step: "step rm x = rm_map (\<lambda>m. f m x) rm" by (rule assms(2)[OF Cons.prems])
  show ?case unfolding foldl_Cons step by (rule ih[unfolded rm_map_simps(2)])
qed simp

definition load_mpp :: "restriction_key list \<Rightarrow> restriction_size_element list list \<Rightarrow> mpp \<Rightarrow> mpp" where
  "load_mpp format_table tables m =
     foldl (\<lambda>m i. foldl (load_row i (tables ! i)) m [0..<length (tables ! i)])
       (foldl load_format m format_table) [0..<length tables]"

text \<open>
  Loading the tables treats every resource on its own: the loops over
  table rows, each searching both vectors, leave each resource as if it alone had read the tables.
\<close>

lemma updateRestrictions_map:
  assumes "rm_wf rm"
  shows "updateRestrictions format_table tables rm = rm_map (load_mpp format_table tables) rm \<and>
    rm_wf (updateRestrictions format_table tables rm)"
proof -
  define rm1 where "rm1 = foldl (\<lambda>rm key. rm_addFormatRestrictions key rm) rm format_table"
  have 1: "rm1 = rm_map (\<lambda>m. foldl load_format m format_table) rm \<and> rm_wf rm1"
    unfolding rm1_def by (rule foldl_rm_map[OF assms add_format_map load_phys(1)])
  have row: "foldl (update_row i tab) rm js = rm_map (\<lambda>m. foldl (load_row i tab) m js) rm" if "rm_wf rm" for i tab rm js
    by (rule foldl_rm_map[OF that update_row_map load_phys(2), THEN conjunct1])
  have a: "updateRestrictions format_table tables rm =
      foldl (\<lambda>rm i. foldl (update_row i (tables ! i)) rm [0..<length (tables ! i)]) rm1 [0..<length tables]"
    by (simp add: updateRestrictions_def rm1_def)
  have b: "foldl (\<lambda>rm i. foldl (update_row i (tables ! i)) rm [0..<length (tables ! i)]) rm1 [0..<length tables]
      = rm_map (\<lambda>m. foldl (\<lambda>m i. foldl (load_row i (tables ! i)) m [0..<length (tables ! i)]) m [0..<length tables]) rm1 \<and>
      rm_wf (foldl (\<lambda>rm i. foldl (update_row i (tables ! i)) rm [0..<length (tables ! i)]) rm1 [0..<length tables])"
    by (rule foldl_rm_map[OF conjunct2[OF 1]]) (simp_all only: row foldl_load_row_phys)
  have c: "rm_map (\<lambda>m. foldl (\<lambda>m i. foldl (load_row i (tables ! i)) m [0..<length (tables ! i)]) m [0..<length tables]) rm1
      = rm_map (load_mpp format_table tables) rm"
    by (simp only: conjunct1[OF 1] rm_map_simps(2)) (simp only: load_mpp_def[abs_def])
  show ?thesis unfolding a by (rule b[unfolded c])
qed

section \<open>What a chip's tables promise\<close>

lemma foldl_last_index:
  "foldl (\<lambda>d k. if P k then int k else d) d0 ks = d0 \<or>
   (\<exists>k\<in>set ks. foldl (\<lambda>d k. if P k then int k else d) d0 ks = int k)"
  by (induction ks rule: rev_induct) auto

lemma dst_index_range:
  assumes "dst_index tab j > 0" "j < length tab"
  shows "nat (dst_index tab j) < length tab"
  using assms foldl_last_index[of "\<lambda>k. fst (tab ! k) = \<lparr>hwType = hwType (fst (tab ! j)), nodeType = NODE_DST,
        key_format = key_format (fst (tab ! j)), key_reserved = key_reserved (fst (tab ! j))\<rparr>" "-1" "[0..<length tab]"]
  by (auto simp: dst_index_def Let_def split: if_splits)

text \<open>The row whose limits a resource ends up with: the last one for its hardware type.\<close>

definition limits_row :: "restriction_size_element list \<Rightarrow> u32 \<Rightarrow> nat option" where
  "limits_row tab hw = List.find (row_for tab hw) (rev [0..<length tab])"

lemma find_rev_snoc: "List.find P (rev (xs @ [x])) = (if P x then Some x else List.find P (rev xs))"
  by simp

lemma load_rows:
  "mSrcSizeRestrictions (foldl (load_row i tab) m js) =
     (case List.find (row_for tab (mPhysicalType m)) (rev js) of
        None \<Rightarrow> mSrcSizeRestrictions m
      | Some j \<Rightarrow> (mSrcSizeRestrictions m)(i := snd (tab ! j)))"
  "mDstSizeRestrictions (foldl (load_row i tab) m js) =
     (case List.find (row_for tab (mPhysicalType m)) (rev js) of
        None \<Rightarrow> mDstSizeRestrictions m
      | Some j \<Rightarrow> (mDstSizeRestrictions m)(i := snd (tab ! nat (dst_index tab j))))"
  by (induction js rule: rev_induct)
    (auto simp: load_row_def addSizeRestrictions_def split: option.splits)

lemma load_rows_formats [simp]: "mFormatRestrictions (foldl (load_row i tab) m js) = mFormatRestrictions m"
  by (induction js arbitrary: m) (simp_all add: load_row_def addSizeRestrictions_def)

lemma load_formats:
  "mFormatRestrictions (foldl load_format m ks) =
     mFormatRestrictions m @ filter (\<lambda>k. hwType k = mPhysicalType m) ks"
  "mSrcSizeRestrictions (foldl load_format m ks) = mSrcSizeRestrictions m"
  "mDstSizeRestrictions (foldl load_format m ks) = mDstSizeRestrictions m"
  by (induction ks arbitrary: m) (simp_all add: load_format_def addFormatRestrictions_def)

definition loaded_limits ::
  "(nat \<Rightarrow> nat) \<Rightarrow> restriction_size_element list \<Rightarrow> u32 \<Rightarrow> restriction_size \<Rightarrow> restriction_size" where
  "loaded_limits pick tab hw old = (case limits_row tab hw of None \<Rightarrow> old | Some j \<Rightarrow> snd (tab ! pick j))"

lemma load_mpp_two:
  fixes rgb yuv :: "restriction_size_element list"
  defines "m' \<equiv> \<lambda>m fmts. load_mpp fmts [rgb, yuv] m"
  shows "mFormatRestrictions (m' m fmts) = mFormatRestrictions m @ filter (\<lambda>k. hwType k = mPhysicalType m) fmts"
    "mSrcSizeRestrictions (m' m fmts) RESTRICTION_RGB =
       loaded_limits (\<lambda>j. j) rgb (mPhysicalType m) (mSrcSizeRestrictions m RESTRICTION_RGB)"
    "mSrcSizeRestrictions (m' m fmts) RESTRICTION_YUV =
       loaded_limits (\<lambda>j. j) yuv (mPhysicalType m) (mSrcSizeRestrictions m RESTRICTION_YUV)"
    "mDstSizeRestrictions (m' m fmts) RESTRICTION_RGB =
       loaded_limits (\<lambda>j. nat (dst_index rgb j)) rgb (mPhysicalType m) (mDstSizeRestrictions m RESTRICTION_RGB)"
    "mDstSizeRestrictions (m' m fmts) RESTRICTION_YUV =
       loaded_limits (\<lambda>j. nat (dst_index yuv j)) yuv (mPhysicalType m) (mDstSizeRestrictions m RESTRICTION_YUV)"
proof -
  have two: "[0..<length [rgb, yuv]] = [0, 1]" by (simp add: upt_rec)
  show "mFormatRestrictions (m' m fmts) = mFormatRestrictions m @ filter (\<lambda>k. hwType k = mPhysicalType m) fmts"
    "mSrcSizeRestrictions (m' m fmts) RESTRICTION_RGB =
       loaded_limits (\<lambda>j. j) rgb (mPhysicalType m) (mSrcSizeRestrictions m RESTRICTION_RGB)"
    "mSrcSizeRestrictions (m' m fmts) RESTRICTION_YUV =
       loaded_limits (\<lambda>j. j) yuv (mPhysicalType m) (mSrcSizeRestrictions m RESTRICTION_YUV)"
    "mDstSizeRestrictions (m' m fmts) RESTRICTION_RGB =
       loaded_limits (\<lambda>j. nat (dst_index rgb j)) rgb (mPhysicalType m) (mDstSizeRestrictions m RESTRICTION_RGB)"
    "mDstSizeRestrictions (m' m fmts) RESTRICTION_YUV =
       loaded_limits (\<lambda>j. nat (dst_index yuv j)) yuv (mPhysicalType m) (mDstSizeRestrictions m RESTRICTION_YUV)"
    unfolding m'_def load_mpp_def two
    by (simp_all add: load_rows load_formats loaded_limits_def limits_row_def RESTRICTION_RGB_def RESTRICTION_YUV_def
        split: option.splits)
qed

text \<open>
  The contract of a chip's tables, from which the manager's results follow: no row has a zero
  alignment, every source row has its destination row, and the table of pixels per clock has a
  positive entry for every look-up of a memory-to-memory engine the chip has.
\<close>

definition ppc_entry_ok :: "u32 \<Rightarrow> rat list option \<Rightarrow> bool" where
  "ppc_entry_ok hw e \<longleftrightarrow>
     (case e of None \<Rightarrow> False
      | Some vs \<Rightarrow> (if hw = MPP_G2D then length vs = PPC_SCALE_MAX else vs \<noteq> []) \<and> list_all (\<lambda>v. 0 < v) vs)"

definition ppc_yuv_formats :: "u32 list" where
  "ppc_yuv_formats = [PPC_FORMAT_YUV420, PPC_FORMAT_YUV422, PPC_FORMAT_YUV8_2, PPC_FORMAT_P010, PPC_FORMAT_SBWC,
     PPC_FORMAT_AFBC]"

definition ppc_ok :: "(u32 \<times> rat list) list \<Rightarrow> u32 \<Rightarrow> bool" where
  "ppc_ok tab hw \<longleftrightarrow>
     list_all (\<lambda>f. f \<noteq> PPC_FORMAT_RGB32 \<and> map_of tab (PPC_IDX hw f PPC_ROT_NO) = None \<or>
         list_all (\<lambda>r. ppc_entry_ok hw (map_of tab (PPC_IDX hw f r))) [PPC_ROT_NO, PPC_ROT])
       (PPC_FORMAT_RGB32 # ppc_yuv_formats)"

definition has_source_row :: "restriction_size_element list \<Rightarrow> u32 \<Rightarrow> bool" where
  "has_source_row tab hw \<longleftrightarrow> list_ex (\<lambda>r. hwType (fst r) = hw \<and> nodeType (fst r) \<noteq> NODE_DST) tab"

locale chip_tables =
  fixes fmts :: "restriction_key list"
    and rgb yuv :: "restriction_size_element list"
    and ppc :: "(u32 \<times> rat list) list"
  assumes aligned: "list_all (\<lambda>r. aligns_nonzero (snd r)) (rgb @ yuv)"
    and paired: "\<forall>tab\<in>{rgb, yuv}. \<forall>j<length tab. nodeType (fst (tab ! j)) \<noteq> NODE_DST \<longrightarrow> dst_index tab j > 0"
    and ppc: "list_all (\<lambda>hw. list_all (\<lambda>k. hwType k \<noteq> hw) fmts \<or> ppc_ok ppc hw) [MPP_MSC, MPP_G2D]"
begin

lemma row_aligned: "tab \<in> {rgb, yuv} \<Longrightarrow> j < length tab \<Longrightarrow> aligns_nonzero (snd (tab ! j))"
  using aligned by (auto simp: list_all_iff)

lemma row_taken:
  assumes "tab \<in> {rgb, yuv}" "has_source_row tab hw"
  shows "limits_row tab hw \<noteq> None"
proof -
  obtain j where j: "j < length tab" "hwType (fst (tab ! j)) = hw" "nodeType (fst (tab ! j)) \<noteq> NODE_DST"
    using assms(2) by (auto simp: has_source_row_def list_ex_length)
  with assms(1) paired have "row_for tab hw j" by (auto simp: row_for_def)
  with j(1) show ?thesis by (auto simp: limits_row_def find_None_iff)
qed

lemma limits_aligned:
  assumes "tab \<in> {rgb, yuv}" "has_source_row tab hw \<or> aligns_nonzero old"
  shows "aligns_nonzero (loaded_limits (\<lambda>j. j) tab hw old)"
    "aligns_nonzero (loaded_limits (\<lambda>j. nat (dst_index tab j)) tab hw old)"
proof -
  have "j < length tab \<and> nat (dst_index tab j) < length tab" if "limits_row tab hw = Some j" for j
    using that find_in_set[of "row_for tab hw" "rev [0..<length tab]" j] dst_index_range[of tab j]
    by (auto simp: limits_row_def row_for_def)
  then show "aligns_nonzero (loaded_limits (\<lambda>j. j) tab hw old)"
    "aligns_nonzero (loaded_limits (\<lambda>j. nat (dst_index tab j)) tab hw old)"
    using assms row_aligned row_taken[OF assms(1), of hw] by (auto simp: loaded_limits_def split: option.split)
qed

text \<open>A resource with rows in both tables has no zero alignment once loaded, whatever it had before.\<close>

lemma load_caps_ok:
  assumes "has_source_row rgb (mPhysicalType m)" "has_source_row yuv (mPhysicalType m)"
  shows "caps_ok (load_mpp fmts [rgb, yuv] m)"
  using assms limits_aligned[of rgb] limits_aligned[of yuv]
  by (auto simp: caps_ok_def RESTRICTION_MAX_def less_Suc_eq numeral_2_eq_2
      load_mpp_two[unfolded RESTRICTION_RGB_def RESTRICTION_YUV_def One_nat_def])

lemma engine_ppc:
  "hw \<in> {MPP_MSC, MPP_G2D} \<Longrightarrow> k \<in> set fmts \<Longrightarrow> hwType k = hw \<Longrightarrow> ppc_ok ppc hw"
  using ppc by (auto simp: list_all_iff)

end

text \<open>The tables of every chip keep the contract.\<close>

lemma soc_aligned:
  "list_all (\<lambda>r. aligns_nonzero (snd r)) (soc_size_table_rgb soc @ soc_size_table_yuv soc)"
  by (cases soc) (simp_all add: soc_size_tables rsize_def aligns_nonzero_def)

definition paired_upto :: "restriction_size_element list \<Rightarrow> bool" where
  "paired_upto tab \<longleftrightarrow>
     list_all (\<lambda>j. nodeType (fst (tab ! j)) = NODE_DST \<or> dst_index tab j > 0) [0..<length tab]"

lemma paired_upto_rgb: "paired_upto (soc_size_table_rgb soc)"
  by (cases soc) (simp_all only: soc_size_table_rgb.simps, code_simp+)

lemma paired_upto_yuv: "paired_upto (soc_size_table_yuv soc)"
  by (cases soc) (simp_all only: soc_size_table_yuv.simps, code_simp+)

lemma paired_rgb_yuv:
  "\<forall>tab\<in>{soc_size_table_rgb soc, soc_size_table_yuv soc}. \<forall>j<length tab.
     nodeType (fst (tab ! j)) \<noteq> NODE_DST \<longrightarrow> dst_index tab j > 0"
  using paired_upto_rgb[of soc] paired_upto_yuv[of soc] by (auto simp: paired_upto_def list_all_iff)

lemma exynos3830_no_g2d: "list_all (\<lambda>k. hwType k \<noteq> MPP_G2D) (soc_format_table SOC_exynos3830 hal)"
  by (simp add: exynos3830_format_table_def rkey_def code_consts)

lemma soc_ppc_msc: "ppc_ok (soc_ppc_table soc) MPP_MSC"
  by (cases soc) (simp_all add: soc_ppc_tables ppc_ok_def ppc_entry_ok_def ppc_yuv_formats_def PPC_IDX_def code_consts)

lemma soc_ppc_g2d:
  "list_all (\<lambda>k. hwType k \<noteq> MPP_G2D) (soc_format_table soc hal) \<or> ppc_ok (soc_ppc_table soc) MPP_G2D"
proof (cases "soc = SOC_exynos3830")
  case True
  then show ?thesis using exynos3830_no_g2d by simp
next
  case False
  then have "ppc_ok (soc_ppc_table soc) MPP_G2D"
    by (cases soc) (simp_all add: soc_ppc_tables ppc_ok_def ppc_entry_ok_def ppc_yuv_formats_def PPC_IDX_def code_consts)
  then show ?thesis ..
qed

interpretation soc: chip_tables "soc_format_table soc hal" "soc_size_table_rgb soc" "soc_size_table_yuv soc"
  "soc_ppc_table soc" for soc hal
proof unfold_locales
  show "list_all (\<lambda>r. aligns_nonzero (snd r)) (soc_size_table_rgb soc @ soc_size_table_yuv soc)"
    by (rule soc_aligned)
  show "\<forall>tab\<in>{soc_size_table_rgb soc, soc_size_table_yuv soc}. \<forall>j<length tab.
      nodeType (fst (tab ! j)) \<noteq> NODE_DST \<longrightarrow> dst_index tab j > 0"
    by (rule paired_rgb_yuv)
  show "list_all (\<lambda>hw. list_all (\<lambda>k. hwType k \<noteq> hw) (soc_format_table soc hal) \<or> ppc_ok (soc_ppc_table soc) hw)
      [MPP_MSC, MPP_G2D]"
    using soc_ppc_msc soc_ppc_g2d by simp
qed

section \<open>What the tables give every chip\<close>

lemma ppc_format_index_range:
  "ppc_format_index tabs m src c = PPC_FORMAT_RGB32 \<or>
   ppc_format_index tabs m src c \<in> set ppc_yuv_formats \<and>
   hasPPC tabs (mPhysicalType m) (ppc_format_index tabs m src c) PPC_ROT_NO"
  by (simp add: ppc_format_index_def Let_def ppc_yuv_formats_def)

definition ppc_rot :: "'b platform_scheme \<Rightarrow> 'a mpp_scheme \<Rightarrow> exynos_image \<Rightarrow> exynos_image option \<Rightarrow> u32" where
  "ppc_rot pf m criteria check =
     (if transform criteria AND pf_rot_90 pf \<noteq> 0 \<or> mRotatedSrcCropBW m > 0 \<or>
         (case check of None \<Rightarrow> False | Some c \<Rightarrow> transform c AND pf_rot_90 pf \<noteq> 0) then PPC_ROT else PPC_ROT_NO)"

definition loaded_ppc :: "(u32 \<times> rat list) list \<Rightarrow> ppc_tables" where
  "loaded_ppc tab = \<lparr>ppc_helper = ppc_map tab, ppc_mpp = ppc_map tab\<rparr>"

lemma hasPPC_loaded: "hasPPC (loaded_ppc tab) hw f r \<longleftrightarrow> map_of tab (PPC_IDX hw f r) \<noteq> None"
  by (simp add: hasPPC_def loaded_ppc_def ppc_map_def)

lemma ppc_ok_lookup:
  assumes "ppc_ok tab hw" "f \<in> set (PPC_FORMAT_RGB32 # ppc_yuv_formats)"
    "f = PPC_FORMAT_RGB32 \<or> map_of tab (PPC_IDX hw f PPC_ROT_NO) \<noteq> None" "r \<in> set [PPC_ROT_NO, PPC_ROT]"
  shows "ppc_entry_ok hw (map_of tab (PPC_IDX hw f r))"
proof -
  have "list_all (\<lambda>r. ppc_entry_ok hw (map_of tab (PPC_IDX hw f r))) [PPC_ROT_NO, PPC_ROT]"
    using bspec[OF assms(1)[unfolded ppc_ok_def list_all_iff] assms(2)] assms(3) unfolding list_all_iff by argo
  with assms(4) show ?thesis unfolding list_all_iff by (rule bspec[rotated])
qed

lemma ppc_ok_entry:
  assumes "ppc_ok tab (mPhysicalType m)"
  shows "ppc_entry_ok (mPhysicalType m) (map_of tab (PPC_IDX (mPhysicalType m)
    (ppc_format_index (loaded_ppc tab) m src criteria) (ppc_rot pf m criteria check)))"
proof -
  let ?f = "ppc_format_index (loaded_ppc tab) m src criteria"
  have "?f \<in> set (PPC_FORMAT_RGB32 # ppc_yuv_formats)"
    and "?f = PPC_FORMAT_RGB32 \<or> map_of tab (PPC_IDX (mPhysicalType m) ?f PPC_ROT_NO) \<noteq> None"
    using ppc_format_index_range[of "loaded_ppc tab" m src criteria] by (auto simp: hasPPC_loaded)
  moreover have "ppc_rot pf m criteria check \<in> set [PPC_ROT_NO, PPC_ROT]" by (simp add: ppc_rot_def)
  ultimately show ?thesis by (rule ppc_ok_lookup[OF assms])
qed

lemma ppc_entry_ok_index:
  assumes "ppc_entry_ok (mPhysicalType m) e"
  shows "\<exists>vs. e = Some vs \<and> ppc_scale_index m src dst < length vs \<and> 0 < vs ! ppc_scale_index m src dst"
proof -
  have scale: "ppc_scale_index m src dst < (if mPhysicalType m = MPP_G2D then PPC_SCALE_MAX else 1)"
    by (simp add: ppc_scale_index_def Let_def code_consts)
  from assms obtain vs where "e = Some vs" "list_all (\<lambda>v. 0 < v) vs"
      and len: "if mPhysicalType m = MPP_G2D then length vs = PPC_SCALE_MAX else vs \<noteq> []"
    unfolding ppc_entry_ok_def by (cases e) simp_all
  moreover have "ppc_scale_index m src dst < length vs"
    using len scale by (cases "mPhysicalType m = MPP_G2D"; cases vs) simp_all
  ultimately show ?thesis by (simp add: list_all_length)
qed

lemma getPPC_unfold:
  assumes "\<not> (mPhysicalType m = MPP_G2D \<and> layerFlags src AND EXYNOS_HWC_DIM_LAYER \<noteq> 0)"
  shows "getPPC pf tabs m src dst criteria check =
    (let ppc = ppc_lookup tabs m (ppc_format_index tabs m src criteria) (ppc_rot pf m criteria check)
       (ppc_scale_index m src dst)
     in if ppc = 0 then f32 (f64 (1 / 1000000)) else ppc)"
  using assms by (auto simp: getPPC_def getPPCIndex_def ppc_rot_def Let_def split: option.splits)


text \<open>The scalers of three chips have no RGB limits.\<close>

definition scaler_without_rgb :: "soc \<Rightarrow> u32 \<Rightarrow> bool" where
  "scaler_without_rgb soc hw \<longleftrightarrow> hw = MPP_MSC \<and> soc \<in> {SOC_exynos2100, SOC_exynos9820, SOC_s5e9815}"

lemma soc_rows_all:
  "list_all (\<lambda>hw. (scaler_without_rgb soc hw \<or> has_source_row (soc_size_table_rgb soc) hw) \<and>
     has_source_row (soc_size_table_yuv soc) hw) (remdups (map hwType (soc_format_table soc hal)))"
  by (cases soc) (simp_all add: soc_size_tables soc_format_tables has_source_row_def scaler_without_rgb_def rkey_def code_consts)

lemma soc_rows:
  assumes "k \<in> set (soc_format_table soc hal)" "\<not> scaler_without_rgb soc (hwType k)"
  shows "has_source_row (soc_size_table_rgb soc) (hwType k)" "has_source_row (soc_size_table_yuv soc) (hwType k)"
  using soc_rows_all[of soc hal] assms by (auto simp: list_all_iff)

definition has_formats :: "soc \<Rightarrow> hal_env \<Rightarrow> u32 \<Rightarrow> bool" where
  "has_formats soc hal hw \<longleftrightarrow> list_ex (\<lambda>k. hwType k = hw) (soc_format_table soc hal)"


definition no_size :: restriction_size where
  "no_size = rsize (replicate 16 0)"

lemma scaler_no_row:
  assumes "soc \<in> {SOC_exynos2100, SOC_exynos9820, SOC_s5e9815}"
  shows "limits_row (soc_size_table_rgb soc) MPP_MSC = None"
proof -
  have "list_all (\<lambda>r. hwType (fst r) \<noteq> MPP_MSC) (soc_size_table_rgb soc)"
    using assms by (auto simp: soc_size_tables rkey_def code_consts)
  then show ?thesis by (auto simp: limits_row_def find_None_iff row_for_def list_all_length)
qed

lemma load_mpp_frame [simp]:
  "mPhysicalType (load_mpp fmts [rgb, yuv] m) = mPhysicalType m"
  "mTargetCompressionInfo (load_mpp fmts [rgb, yuv] m) = mTargetCompressionInfo m"
proof -
  have rows: "mPhysicalType (foldl (load_row i tab) m js) = mPhysicalType m \<and>
      mTargetCompressionInfo (foldl (load_row i tab) m js) = mTargetCompressionInfo m" for i tab js m
    by (induction js arbitrary: m) (simp_all add: load_row_def addSizeRestrictions_def)
  have fmts: "mTargetCompressionInfo (foldl load_format m fmts) = mTargetCompressionInfo m"
    by (induction fmts arbitrary: m) (simp_all add: load_format_def addFormatRestrictions_def)
  show "mPhysicalType (load_mpp fmts [rgb, yuv] m) = mPhysicalType m"
    "mTargetCompressionInfo (load_mpp fmts [rgb, yuv] m) = mTargetCompressionInfo m"
    by (simp_all add: load_mpp_def upt_rec rows fmts)
qed

text \<open>
  On those three chips a freshly constructed scaler asked for an empty RGB
  target takes a remainder by zero; any other RGB target it refuses as too wide or too high.
\<close>

theorem scaler_rgb_undefined:
  fixes soc :: soc
  assumes loaded_def: "loaded = load_mpp (soc_format_table soc hal) (soc_tables_of soc) m"
    and "scaler_without_rgb soc (mPhysicalType m)"
    and "mSrcSizeRestrictions m = (\<lambda>_. no_size)" "mDstSizeRestrictions m = (\<lambda>_. no_size)"
    and "ci_type (mTargetCompressionInfo m) = COMP_TYPE_NONE"
    and "fmt_isRgb (exynosFormat dst)"
  shows "isSupported h pf loaded display src dst =
    (if img_w dst > 0 then Some (- eMPPExeedMaxDstWidth)
     else if img_h dst > 0 then Some (- eMPPExeedMaxDstHeight) else None)"
proof -
  have none: "limits_row (soc_size_table_rgb soc) MPP_MSC = None"
    using assms(2) scaler_no_row by (auto simp: scaler_without_rgb_def)
  have cls: "getRestrictionClassification dst = RESTRICTION_RGB"
    using assms(6) by (simp add: getRestrictionClassification_def RESTRICTION_RGB_def)
  have lims: "mDstSizeRestrictions loaded (getRestrictionClassification dst) = no_size"
    using assms(2,4) none
    by (simp add: cls loaded_def soc_tables_of_def load_mpp_two loaded_limits_def scaler_without_rgb_def)
  have frame: "mPhysicalType loaded = MPP_MSC" "ci_type (mTargetCompressionInfo loaded) = COMP_TYPE_NONE"
    using assms(2,5) by (simp_all add: loaded_def soc_tables_of_def scaler_without_rgb_def)
  have check: "checkDstSize pf loaded dst =
      (if img_w dst > 0 then Some (- eMPPExeedMaxDstWidth)
       else if img_h dst > 0 then Some (- eMPPExeedMaxDstHeight) else None)"
    by (simp add: checkDstSize_def mpp_getters lims frame no_size_def rsize_def c_rem_nz_def c_or_def c_if_def
        code_consts)
  have stop: "c_fail (if a then Some (- eMPPExeedMaxDstWidth) else if b then Some (- eMPPExeedMaxDstHeight) else None) k
      = (if a then Some (- eMPPExeedMaxDstWidth) else if b then Some (- eMPPExeedMaxDstHeight) else None)" for a b k
    by (simp add: c_fail_def int32_of_def code_consts)
  show ?thesis unfolding isSupported_def check by (rule stop)
qed

section \<open>The properties at work\<close>

definition sample_mpp :: "u32 \<Rightarrow> mpp" where
  "sample_mpp hw = sample_g2d\<lparr>mPhysicalType := hw, mSrcSizeRestrictions := \<lambda>_. no_size,
     mDstSizeRestrictions := \<lambda>_. no_size, mTargetCompressionInfo := \<lparr>ci_type = COMP_TYPE_NONE, SAJCMaxBlockSize = 0, SAJCHeaderOffset = 0\<rparr>\<rparr>"

definition sample_rm :: resource_manager where
  "sample_rm = \<lparr>mOtfMPPs = [sample_mpp MPP_DPP_VGRFS], mM2mMPPs = [sample_mpp MPP_G2D]\<rparr>"

lemma sample_mpp_simps [simp]:
  "mPhysicalType (sample_mpp hw) = hw" "mSrcSizeRestrictions (sample_mpp hw) = (\<lambda>_. no_size)"
  "mDstSizeRestrictions (sample_mpp hw) = (\<lambda>_. no_size)"
  "ci_type (mTargetCompressionInfo (sample_mpp hw)) = COMP_TYPE_NONE"
  by (simp_all add: sample_mpp_def)

lemma sample_rm_ok:
  "rm_wf sample_rm"
  "\<forall>m\<in>set (mOtfMPPs sample_rm @ mM2mMPPs sample_rm).
      has_formats SOC_exynos2100 hal (mPhysicalType m) \<and> \<not> scaler_without_rgb SOC_exynos2100 (mPhysicalType m)"
  by (simp_all add: rm_wf_def sample_rm_def has_formats_def scaler_without_rgb_def exynos2100_format_table_def
      rkey_def code_consts)


theorem scaler_rgb_undefined_witness:
  "isSupported sample_hooks sample_platform
     (load_mpp (soc_format_table SOC_s5e9815 (\<lambda>_. 0)) (soc_tables_of SOC_s5e9815) (sample_mpp MPP_MSC))
     display_reset sample_layer (sample_target\<lparr>img_w := 0, img_h := 0\<rparr>) = None"
proof -
  have "scaler_without_rgb SOC_s5e9815 (mPhysicalType (sample_mpp MPP_MSC))"
    by (simp add: scaler_without_rgb_def)
  moreover have "fmt_isRgb (exynosFormat (sample_target\<lparr>img_w := 0, img_h := 0\<rparr>))"
    using rgb_0(1) by (simp add: sample_target_def sample_layer_def)
  ultimately show ?thesis by (subst scaler_rgb_undefined[OF refl]) simp_all
qed

lemma exynos9810_g2d: "has_formats SOC_exynos9810 hal MPP_G2D"
  by (simp add: has_formats_def exynos9810_format_table_def rkey_def code_consts)


end
