(* ===== verification/FenceTracer.thy ===== *)
theory FenceTracer
  imports HwcHelper "HOL-Library.AList"
begin

text \<open>
  The fence tracer (\<open>utils/ExynosFenceTracer.cpp\<close>, \<open>utils/ExynosFenceTracer.h\<close>): it records for every
  file descriptor of a fence who took it and who gave it away, and reports at the end of a frame the
  descriptors of a display that were taken more often than given away. \<open>mFenceInfo\<close> is an
  association list (the C++ map is unordered and only counted or searched). The time stamps, the log
  texts and the log file are not part of the model. \<open>closed_fds\<close> lists the descriptors handed to
  \<open>close\<close>, the newest first; the descriptor \<open>dup\<close> returns is an argument.
\<close>

section \<open>The data\<close>

datatype fence_dir = FENCE_FROM | FENCE_TO | FENCE_DUP | FENCE_CLOSE | FENCE_DIR_MAX

definition MAX_FENCE_THRESHOLD :: nat where [code_consts]: "MAX_FENCE_THRESHOLD = 500"
definition MAX_FENCE_SEQUENCE :: nat where [code_consts]: "MAX_FENCE_SEQUENCE = 3"

definition FENCE_TYPE_SRC_RELEASE :: u32 where [code_consts]: "FENCE_TYPE_SRC_RELEASE = 1"
definition FENCE_TYPE_SRC_ACQUIRE :: u32 where [code_consts]: "FENCE_TYPE_SRC_ACQUIRE = 2"
definition FENCE_TYPE_DST_ACQUIRE :: u32 where [code_consts]: "FENCE_TYPE_DST_ACQUIRE = 4"
definition FENCE_TYPE_SRC_DUP_ACQUIRE :: u32 where [code_consts]: "FENCE_TYPE_SRC_DUP_ACQUIRE = 11"
definition FENCE_TYPE_ALL :: u32 where [code_consts]: "FENCE_TYPE_ALL = 12"
definition FENCE_TYPE_UNDEFINED :: u32 where [code_consts]: "FENCE_TYPE_UNDEFINED = 13"
definition FENCE_IP_MSC :: u32 where [code_consts]: "FENCE_IP_MSC = 1"
definition FENCE_IP_G2D :: u32 where [code_consts]: "FENCE_IP_G2D = 2"
definition FENCE_IP_FB :: u32 where [code_consts]: "FENCE_IP_FB = 3"
definition FENCE_IP_LAYER :: u32 where [code_consts]: "FENCE_IP_LAYER = 4"
definition FENCE_IP_UNDEFINED :: u32 where [code_consts]: "FENCE_IP_UNDEFINED = 6"
definition FENCE_IP_ALL :: u32 where [code_consts]: "FENCE_IP_ALL = 7"

record fence_trace =
  ft_dir :: fence_dir
  ft_type :: u32
  ft_ip :: u32
  ft_curFlag :: int
  ft_usage :: int
  ft_isLast :: bool

record fence_info =
  fi_displayId :: u32
  fi_seq :: "fence_trace list"
  fi_seq_no :: nat
  fi_last_dir :: fence_dir
  fi_usage :: int
  fi_pendingAllowed :: bool
  fi_leaking :: bool

text \<open>What \<open>info = {}\<close> stores.\<close>

definition fence_info_zero :: fence_info where
  "fence_info_zero = \<lparr>fi_displayId = 0,
     fi_seq = replicate MAX_FENCE_SEQUENCE
       \<lparr>ft_dir = FENCE_FROM, ft_type = 0, ft_ip = 0, ft_curFlag = 0, ft_usage = 0, ft_isLast = False\<rparr>,
     fi_seq_no = 0, fi_last_dir = FENCE_FROM, fi_usage = 0, fi_pendingAllowed = False, fi_leaking = False\<rparr>"

record fence_tracer =
  mFenceInfo :: "(int \<times> fence_info) list"
  closed_fds :: "int list"

definition tracer_init :: fence_tracer where
  "tracer_init = \<lparr>mFenceInfo = [], closed_fds = []\<rparr>"

section \<open>Recording\<close>

definition fence_valid :: "int \<Rightarrow> bool" where
  "fence_valid fence = (if fence = -1 then False else if fence < 3 then True else True)"

definition writeFenceInfo ::
  "fence_info \<Rightarrow> u32 \<Rightarrow> u32 \<Rightarrow> fence_dir \<Rightarrow> bool \<Rightarrow> fence_info" where
  "writeFenceInfo info type ip direction pendingAllowed =
    (let seqs = (fi_seq info)[fi_seq_no info := (fi_seq info ! fi_seq_no info)\<lparr>ft_isLast := False\<rparr>];
         no = fi_seq_no info + 1;
         no = (if no \<ge> MAX_FENCE_SEQUENCE then 0 else no);
         seqs = seqs[no := (seqs ! no)\<lparr>ft_isLast := True, ft_dir := direction, ft_type := type, ft_ip := ip,
                                      ft_curFlag := 1\<rparr>]
     in info\<lparr>fi_seq := seqs, fi_seq_no := no, fi_pendingAllowed := pendingAllowed\<rparr>)"

definition fence_lookup :: "int \<Rightarrow> fence_tracer \<Rightarrow> fence_info" where
  "fence_lookup fd t = (case map_of (mFenceInfo t) fd of None \<Rightarrow> fence_info_zero | Some info \<Rightarrow> info)"

definition fence_store :: "int \<Rightarrow> fence_info \<Rightarrow> fence_tracer \<Rightarrow> fence_tracer" where
  "fence_store fd info t = t\<lparr>mFenceInfo := AList.update fd info (mFenceInfo t)\<rparr>"

definition changeFenceInfoState ::
  "int \<Rightarrow> DisplayIdentifier \<Rightarrow> u32 \<Rightarrow> u32 \<Rightarrow> fence_dir \<Rightarrow> bool \<Rightarrow> fence_tracer \<Rightarrow> fence_tracer" where
  "changeFenceInfoState fd display type ip direction pendingAllowed t =
    (if \<not> fence_valid fd then t
     else
       (let info = (fence_lookup fd t)\<lparr>fi_displayId := di_id display\<rparr>
        in fence_store fd (writeFenceInfo info type ip direction pendingAllowed) t))"

text \<open>The new usage count after one direction.\<close>

definition fence_count :: "fence_dir \<Rightarrow> int \<Rightarrow> int" where
  "fence_count direction usage =
    (if direction = FENCE_FROM \<or> direction = FENCE_DUP then usage + 1
     else if direction = FENCE_TO \<or> direction = FENCE_CLOSE then
       (let usage = usage - 1 in if direction = FENCE_CLOSE \<and> usage < 0 then 0 else usage)
     else usage)"

definition setFenceInfo ::
  "int \<Rightarrow> DisplayIdentifier \<Rightarrow> u32 \<Rightarrow> u32 \<Rightarrow> fence_dir \<Rightarrow> bool \<Rightarrow> fence_tracer \<Rightarrow> fence_tracer" where
  "setFenceInfo fd display type ip direction pendingAllowed t =
    (if \<not> fence_valid fd then t
     else
       (let info = (fence_lookup fd t)\<lparr>fi_displayId := di_id display\<rparr>;
            info = writeFenceInfo info type ip direction pendingAllowed;
            info = info\<lparr>fi_usage := fence_count (ft_dir (fi_seq info ! fi_seq_no info)) (fi_usage info)\<rparr>;
            info = info\<lparr>fi_seq := (fi_seq info)[fi_seq_no info :=
                     (fi_seq info ! fi_seq_no info)\<lparr>ft_usage := fi_usage info\<rparr>]\<rparr>;
            info = (if fi_usage info = 0 then info\<lparr>fi_pendingAllowed := False\<rparr> else info);
            info = info\<lparr>fi_last_dir := direction\<rparr>
        in fence_store fd info t))"

definition fence_close :: "int \<Rightarrow> DisplayIdentifier \<Rightarrow> u32 \<Rightarrow> u32 \<Rightarrow> fence_tracer \<Rightarrow> int \<times> fence_tracer" where
  "fence_close fence display type ip t =
    (let t = setFenceInfo fence display type ip FENCE_CLOSE False t;
         (ret, closes) = hwcFdClose fence
     in (ret, case closes of None \<Rightarrow> t | Some fd \<Rightarrow> t\<lparr>closed_fds := fd # closed_fds t\<rparr>))"

text \<open>\<open>dup_ret\<close> is what \<open>dup\<close> returns.\<close>

definition hwc_dup ::
  "(int \<Rightarrow> int) \<Rightarrow> int \<Rightarrow> DisplayIdentifier \<Rightarrow> u32 \<Rightarrow> u32 \<Rightarrow> bool \<Rightarrow> fence_tracer \<Rightarrow> int \<times> fence_tracer" where
  "hwc_dup dup_ret fd display type ip pendingAllowed t =
    (let dup_fd = (if fd \<ge> 3 then dup_ret fd else -1)
     in (dup_fd, setFenceInfo dup_fd display type ip FENCE_FROM pendingAllowed t))"

text \<open>\<open>hwcFenceDebug\<close> is the debug setting per block: a fence it names is closed at once.\<close>

definition checkFenceDebug ::
  "(u32 \<Rightarrow> u32) \<Rightarrow> DisplayIdentifier \<Rightarrow> u32 \<Rightarrow> u32 \<Rightarrow> int \<Rightarrow> fence_tracer \<Rightarrow> int \<times> fence_tracer" where
  "checkFenceDebug hwcFenceDebug display fence_type ip_type fence t =
    (if hwcFenceDebug ip_type AND push_bit (unat fence_type) 1 \<noteq> 0 \<and> fence_valid fence
     then fence_close fence display FENCE_TYPE_ALL FENCE_IP_ALL t
     else (fence, t))"

section \<open>Checking\<close>

definition unbalanced :: "fence_info \<Rightarrow> bool" where
  "unbalanced info \<longleftrightarrow> fi_usage info \<ge> 1 \<or> fi_usage info \<le> -1"

definition fenceWarn :: "nat \<Rightarrow> fence_tracer \<Rightarrow> bool" where
  "fenceWarn threshold t \<longleftrightarrow> length (filter (\<lambda>(fd, info). unbalanced info) (mFenceInfo t)) > threshold"

definition resetFenceCurFlag :: "fence_tracer \<Rightarrow> fence_tracer" where
  "resetFenceCurFlag t = t\<lparr>mFenceInfo := map (\<lambda>(fd, info).
     (fd, if fi_usage info = 0 then info\<lparr>fi_seq := map (\<lambda>s. s\<lparr>ft_curFlag := 0\<rparr>) (fi_seq info)\<rparr> else info))
     (mFenceInfo t)\<rparr>"

text \<open>
  The loop marks a copy of each entry (\<open>hwc_fence_info_t info = mFenceInfo.at(i)\<close>) as leaking, so the
  tracer it leaves behind is the one it found; the value lists the descriptors it prints.
\<close>

definition dumpNCheckLeak :: "fence_tracer \<Rightarrow> int list \<times> fence_tracer" where
  "dumpNCheckLeak t =
    (concat (map (\<lambda>(fd, info).
       if unbalanced info \<and> \<not> fi_pendingAllowed info then
         (if \<not> fi_leaking info then (let info = info\<lparr>fi_leaking := True\<rparr> in [fd]) else [])
       else []) (mFenceInfo t)), t)"

definition validateFencePerFrame :: "DisplayIdentifier \<Rightarrow> fence_tracer \<Rightarrow> bool \<times> fence_tracer" where
  "validateFencePerFrame display t =
    (let ret = \<not> list_ex (\<lambda>(fd, info). fi_displayId info = di_id display \<and> unbalanced info
                   \<and> \<not> fi_pendingAllowed info \<and> \<not> fi_leaking info) (mFenceInfo t)
     in (ret, if \<not> ret then snd (dumpNCheckLeak t) else t))"

definition validateFences :: "DisplayIdentifier \<Rightarrow> fence_tracer \<Rightarrow> bool \<times> fence_tracer" where
  "validateFences display t =
    (let (ok, t) = validateFencePerFrame display t
     in (\<not> (\<not> ok \<and> fenceWarn MAX_FENCE_THRESHOLD t), t))"

definition getM2MIPFenceType :: "u32 \<Rightarrow> u32" where
  "getM2MIPFenceType physicalType =
    (if physicalType = MPP_MSC then FENCE_IP_MSC
     else if physicalType = MPP_G2D then FENCE_IP_MSC
     else FENCE_IP_UNDEFINED)"

section \<open>A frame's records\<close>

text \<open>
  What happened to the descriptors in a frame: \<open>(fd, display, direction, pendingAllowed)\<close>. A list of
  such events is legal when no descriptor is given away or closed more often than it was taken.
\<close>

type_synonym fence_event = "int \<times> DisplayIdentifier \<times> fence_dir \<times> bool"

definition fence_run :: "fence_event list \<Rightarrow> fence_tracer \<Rightarrow> fence_tracer" where
  "fence_run events t = fold (\<lambda>(fd, display, direction, pending) t.
     setFenceInfo fd display FENCE_TYPE_ALL FENCE_IP_ALL direction pending t) events t"

definition taken :: "int \<Rightarrow> fence_event list \<Rightarrow> nat" where
  "taken fd events = length (filter (\<lambda>(fd', _, d, _). fd' = fd \<and> (d = FENCE_FROM \<or> d = FENCE_DUP)) events)"

definition given :: "int \<Rightarrow> fence_event list \<Rightarrow> nat" where
  "given fd events = length (filter (\<lambda>(fd', _, d, _). fd' = fd \<and> (d = FENCE_TO \<or> d = FENCE_CLOSE)) events)"

definition fence_legal :: "fence_event list \<Rightarrow> bool" where
  "fence_legal events \<longleftrightarrow> (\<forall>n \<le> length events. \<forall>(fd, e) \<in> set events. given fd (take n events) \<le> taken fd (take n events))"

text \<open>The last event of a descriptor, if it has one.\<close>

definition last_event :: "int \<Rightarrow> fence_event list \<Rightarrow> fence_event option" where
  "last_event fd events = find (\<lambda>(fd', _). fd' = fd) (rev events)"

section \<open>The entries after one record\<close>

lemma fence_valid_iff [simp]: "fence_valid fd \<longleftrightarrow> fd \<noteq> -1"
  by (simp add: fence_valid_def)

definition entry_wf :: "fence_info \<Rightarrow> bool" where
  "entry_wf info \<longleftrightarrow> length (fi_seq info) = MAX_FENCE_SEQUENCE \<and> fi_seq_no info < MAX_FENCE_SEQUENCE"

definition tracer_wf :: "fence_tracer \<Rightarrow> bool" where
  "tracer_wf t \<longleftrightarrow> distinct (map fst (mFenceInfo t)) \<and> (\<forall>fd info. map_of (mFenceInfo t) fd = Some info \<longrightarrow> entry_wf info)"

lemma tracer_init_wf [simp]: "tracer_wf tracer_init"
  by (simp add: tracer_wf_def tracer_init_def)

lemma lookup_wf: "tracer_wf t \<Longrightarrow> entry_wf (fence_lookup fd t)"
  by (auto simp: fence_lookup_def tracer_wf_def entry_wf_def fence_info_zero_def code_consts
      split: option.split)

lemma store_wf: "tracer_wf t \<Longrightarrow> entry_wf info \<Longrightarrow> tracer_wf (fence_store fd info t)"
  by (simp add: tracer_wf_def fence_store_def distinct_update update_conv')

lemma store_lookup [simp]: "fence_lookup fd' (fence_store fd info t) = (if fd' = fd then info else fence_lookup fd' t)"
  by (simp add: fence_lookup_def fence_store_def update_conv')

text \<open>What one call of \<open>setFenceInfo\<close> leaves in the entry.\<close>

lemma setFenceInfo_entry:
  assumes "tracer_wf t" "fd \<noteq> -1"
    and info: "info = fence_lookup fd (setFenceInfo fd display type ip direction pendingAllowed t)"
  shows "entry_wf info" "fi_usage info = fence_count direction (fi_usage (fence_lookup fd t))"
    "fi_displayId info = di_id display" "fi_leaking info = fi_leaking (fence_lookup fd t)"
    "fi_pendingAllowed info \<longleftrightarrow> pendingAllowed \<and> fence_count direction (fi_usage (fence_lookup fd t)) \<noteq> 0"
    "fi_last_dir info = direction"
  using lookup_wf[OF assms(1), of fd] assms(2)
  unfolding info setFenceInfo_def writeFenceInfo_def
  by (auto simp: Let_def entry_wf_def code_consts)

lemma setFenceInfo_other:
  "fd' \<noteq> fd \<Longrightarrow> fence_lookup fd' (setFenceInfo fd display type ip direction pendingAllowed t) = fence_lookup fd' t"
  by (simp add: setFenceInfo_def Let_def)

lemma setFenceInfo_wf:
  assumes "tracer_wf t"
  shows "tracer_wf (setFenceInfo fd display type ip direction pendingAllowed t)"
proof (cases "fd = -1")
  case True
  then show ?thesis using assms by (simp add: setFenceInfo_def)
next
  case False
  obtain info where eq: "setFenceInfo fd display type ip direction pendingAllowed t = fence_store fd info t"
    using False by (simp add: setFenceInfo_def Let_def)
  from setFenceInfo_entry(1)[where display = display and type = type and ip = ip and direction = direction
        and pendingAllowed = pendingAllowed, OF assms False refl] eq
  have "entry_wf info" by simp
  then show ?thesis unfolding eq by (rule store_wf[OF assms])
qed

lemma fence_run_snoc:
  "fence_run (events @ [(fd, display, direction, pending)]) t =
     setFenceInfo fd display FENCE_TYPE_ALL FENCE_IP_ALL direction pending (fence_run events t)"
  by (simp add: fence_run_def)

lemma fence_run_wf: "tracer_wf (fence_run events tracer_init)"
  by (induction events rule: rev_induct)
    (auto simp: fence_run_snoc setFenceInfo_wf split: prod.splits, simp add: fence_run_def)

lemma legal_snoc: "fence_legal (events @ [e]) \<Longrightarrow> fence_legal events"
  unfolding fence_legal_def
proof (intro allI impI ballI)
  fix n x
  assume *: "\<forall>n\<le>length (events @ [e]). \<forall>(fd, e') \<in> set (events @ [e]).
      given fd (take n (events @ [e])) \<le> taken fd (take n (events @ [e]))"
    and n: "n \<le> length events" and x: "x \<in> set events"
  have "case x of (fd, e') \<Rightarrow> given fd (take n (events @ [e])) \<le> taken fd (take n (events @ [e]))"
    using *[rule_format, of n x] n x by simp
  then show "case x of (fd, e') \<Rightarrow> given fd (take n events) \<le> taken fd (take n events)"
    using n by simp
qed

lemma count_snoc:
  "taken fd (events @ [(fd', display, direction, pending)]) =
     taken fd events + (if fd' = fd \<and> (direction = FENCE_FROM \<or> direction = FENCE_DUP) then 1 else 0)"
  "given fd (events @ [(fd', display, direction, pending)]) =
     given fd events + (if fd' = fd \<and> (direction = FENCE_TO \<or> direction = FENCE_CLOSE) then 1 else 0)"
  by (auto simp: taken_def given_def)

lemma legal_last:
  assumes "fence_legal (events @ [(fd, e)])"
  shows "given fd (events @ [(fd, e)]) \<le> taken fd (events @ [(fd, e)])"
  using assms[unfolded fence_legal_def, rule_format, of "length (events @ [(fd, e)])" "(fd, e)"] by simp

text \<open>The counter of a descriptor is what was taken and not yet given away.\<close>

lemma usage_balance:
  assumes "fence_legal events" "fd \<noteq> -1"
  shows "fi_usage (fence_lookup fd (fence_run events tracer_init)) = int (taken fd events) - int (given fd events)"
  using assms(1)
proof (induction events rule: rev_induct)
  case Nil
  then show ?case
    by (simp add: fence_run_def fence_lookup_def tracer_init_def fence_info_zero_def taken_def given_def)
next
  case (snoc e events)
  obtain fd' display direction pending where e: "e = (fd', display, direction, pending)"
    by (metis prod_cases4)
  have IH: "fi_usage (fence_lookup fd (fence_run events tracer_init)) = int (taken fd events) - int (given fd events)"
    using snoc legal_snoc by blast
  show ?case
  proof (cases "fd' = fd")
    case False
    then show ?thesis using IH by (simp add: e fence_run_snoc setFenceInfo_other count_snoc)
  next
    case True
    have le: "given fd (events @ [e]) \<le> taken fd (events @ [e])"
      using legal_last snoc.prems unfolding e True by blast
    have "fi_usage (fence_lookup fd (fence_run (events @ [e]) tracer_init)) =
        fence_count direction (int (taken fd events) - int (given fd events))"
      unfolding e True fence_run_snoc setFenceInfo_entry(2)[OF fence_run_wf assms(2) refl] IH ..
    with le show ?thesis
      by (cases direction) (auto simp: e True count_snoc fence_count_def Let_def)
  qed
qed

lemma last_event_snoc:
  "last_event fd (events @ [(fd', r)]) = (if fd' = fd then Some (fd', r) else last_event fd events)"
  by (simp add: last_event_def)

lemma run_known:
  assumes "fd \<noteq> -1"
  shows "map_of (mFenceInfo (fence_run events tracer_init)) fd = None \<longleftrightarrow> last_event fd events = None"
proof (induction events rule: rev_induct)
  case Nil
  then show ?case by (simp add: fence_run_def tracer_init_def last_event_def)
next
  case (snoc e events)
  obtain fd' display direction pending where e: "e = (fd', display, direction, pending)"
    by (metis prod_cases4)
  show ?case
    using snoc assms by (auto simp: e fence_run_snoc setFenceInfo_def Let_def fence_store_def update_conv' last_event_snoc)
qed

lemma never_leaking: "\<not> fi_leaking (fence_lookup fd (fence_run events tracer_init))"
proof (induction events rule: rev_induct)
  case Nil
  then show ?case by (simp add: fence_run_def fence_lookup_def tracer_init_def fence_info_zero_def)
next
  case (snoc e events)
  obtain fd' display direction pending where e: "e = (fd', display, direction, pending)"
    by (metis prod_cases4)
  show ?case
  proof (cases "fd' = fd \<and> fd \<noteq> -1")
    case True
    then show ?thesis
      using snoc setFenceInfo_entry(4)[OF fence_run_wf _ refl] by (simp add: e fence_run_snoc)
  next
    case False
    then show ?thesis
      using snoc by (cases "fd' = fd") (auto simp: e fence_run_snoc setFenceInfo_other, simp add: setFenceInfo_def)
  qed
qed

lemma run_last:
  assumes "fd \<noteq> -1" "last_event fd events = Some (fd', display, direction, pending)" "fence_legal events"
  defines "info \<equiv> fence_lookup fd (fence_run events tracer_init)"
  shows "fi_displayId info = di_id display \<and>
    (fi_pendingAllowed info \<longleftrightarrow> pending \<and> fi_usage info \<noteq> 0) \<and> \<not> fi_leaking info"
  using assms(2,3) unfolding info_def
proof (induction events rule: rev_induct)
  case Nil
  then show ?case by (simp add: last_event_def)
next
  case (snoc e events)
  obtain fd2 display2 direction2 pending2 where e: "e = (fd2, display2, direction2, pending2)"
    by (metis prod_cases4)
  show ?case
  proof (cases "fd2 = fd")
    case False
    then show ?thesis using snoc legal_snoc by (simp add: e fence_run_snoc setFenceInfo_other last_event_snoc)
  next
    case True
    note E = setFenceInfo_entry[where display = display2 and type = FENCE_TYPE_ALL and ip = FENCE_IP_ALL
        and direction = direction2 and pendingAllowed = pending2, OF fence_run_wf[of events] assms(1) refl]
    have "fd' = fd" "display2 = display" "pending2 = pending"
      using snoc.prems(1) by (auto simp: e True last_event_snoc)
    then show ?thesis
      using E(2,3,5) never_leaking[of fd events] unfolding e True fence_run_snoc E(4) by simp
  qed
qed

section \<open>Properties\<close>

lemma unbalanced_iff [simp]: "unbalanced info \<longleftrightarrow> fi_usage info \<noteq> 0"
  by (auto simp: unbalanced_def)

lemma run_no_minus1: "map_of (mFenceInfo (fence_run events tracer_init)) (-1) = None"
proof (induction events rule: rev_induct)
  case Nil
  then show ?case by (simp add: fence_run_def tracer_init_def)
next
  case (snoc e events)
  then show ?case
    by (cases e) (auto simp: fence_run_snoc setFenceInfo_def Let_def fence_store_def update_conv')
qed

text \<open>
  C39: after any legal sequence of taking, passing on and closing fences the check of a
  display reports success exactly when every descriptor the display used last has been given away or
  closed as often as it was taken, or its last user may keep it over the frame.
\<close>

theorem leak_check_exact:
  assumes "fence_legal events"
  shows "fst (validateFencePerFrame display (fence_run events tracer_init)) \<longleftrightarrow>
    (\<forall>fd d direction pending. fd \<noteq> -1 \<and> last_event fd events = Some (fd, d, direction, pending) \<and> di_id d = di_id display \<longrightarrow>
       given fd events = taken fd events \<or> pending)"
proof -
  let ?t = "fence_run events tracer_init"
  have known: "(fd, info) \<in> set (mFenceInfo ?t) \<longleftrightarrow> map_of (mFenceInfo ?t) fd = Some info" for fd info
    using fence_run_wf[of events] by (simp add: tracer_wf_def)
  have entry: "fi_displayId info = di_id d \<and> fi_usage info = int (taken fd events) - int (given fd events) \<and>
      (fi_pendingAllowed info \<longleftrightarrow> pending \<and> fi_usage info \<noteq> 0) \<and> \<not> fi_leaking info"
    if "map_of (mFenceInfo ?t) fd = Some info" "last_event fd events = Some (fd', d, direction, pending)" for fd fd' info d direction pending
  proof -
    have "fd \<noteq> -1" using that(1) run_no_minus1[of events] by auto
    moreover have "info = fence_lookup fd ?t" using that(1) by (simp add: fence_lookup_def)
    ultimately show ?thesis
      using run_last[OF _ that(2) assms] usage_balance[OF assms, of fd] by simp
  qed
  show ?thesis (is "?L \<longleftrightarrow> ?R")
  proof
    assume L: ?L
    show ?R
    proof (intro allI impI, elim conjE)
      fix fd d direction pending
      assume fd: "fd \<noteq> -1" and l: "last_event fd events = Some (fd, d, direction, pending)" and "di_id d = di_id display"
      then obtain info where i: "map_of (mFenceInfo ?t) fd = Some info"
        using run_known[OF fd, of events] by (cases "map_of (mFenceInfo ?t) fd") auto
      with L have "\<not> (fi_displayId info = di_id display \<and> fi_usage info \<noteq> 0 \<and> \<not> fi_pendingAllowed info \<and> \<not> fi_leaking info)"
        using known by (force simp: validateFencePerFrame_def Let_def list_ex_iff)
      with entry[OF i l] \<open>di_id d = di_id display\<close> show "given fd events = taken fd events \<or> pending" by auto
    qed
  next
    assume R: ?R
    show ?L
    proof (rule ccontr)
      assume "\<not> ?L"
      then obtain fd info where i: "map_of (mFenceInfo ?t) fd = Some info"
        and bad: "fi_displayId info = di_id display" "fi_usage info \<noteq> 0" "\<not> fi_pendingAllowed info"
        using known by (auto simp: validateFencePerFrame_def Let_def list_ex_iff)
      have fd: "fd \<noteq> -1" using i run_no_minus1[of events] by auto
      then obtain fd' d direction pending where l: "last_event fd events = Some (fd', d, direction, pending)"
        using run_known[OF fd, of events] i by (cases "last_event fd events") auto
      have "fd' = fd" using l by (auto simp: last_event_def find_Some_iff)
      with R[rule_format, of fd d direction pending] fd l bad entry[OF i l] show False by auto
    qed
  qed
qed

theorem leak_check_exact_witness:
  "\<not> fst (validateFencePerFrame (displayIdentifier display_reset)
      (fence_run [(7, displayIdentifier display_reset, FENCE_FROM, False)] tracer_init))"
proof -
  let ?e = "[(7, displayIdentifier display_reset, FENCE_FROM, False)] :: fence_event list"
  have "fence_legal ?e" by (auto simp: fence_legal_def given_def taken_def le_Suc_eq)
  from leak_check_exact[OF this, of "displayIdentifier display_reset"] show ?thesis
    by (auto simp: last_event_def given_def taken_def)
qed

text \<open>
  A leak stays a leak in every later frame: the mark that should report it once is set on a copy.
\<close>

lemma leak_reported_again:
  assumes "\<not> fst (validateFencePerFrame display t)"
  shows "snd (validateFencePerFrame display t) = t"
  by (simp add: validateFencePerFrame_def dumpNCheckLeak_def Let_def)

text \<open>The fences of the 2D engine are booked under the scaler.\<close>

lemma g2d_fence_type: "getM2MIPFenceType MPP_G2D = FENCE_IP_MSC \<and> FENCE_IP_MSC \<noteq> FENCE_IP_G2D"
  by (simp add: getM2MIPFenceType_def code_consts)

end
