(* ===== verification/HwcLayer.thy ===== *)
theory HwcLayer
  imports FenceTracer MppAssign
begin

text \<open>
  A layer of a display (\<open>display/ExynosLayer.cpp\<close>): the properties SurfaceFlinger sets, the
  preprocessing at the start of a validation and the images the resource code works on. The
  \<open>ExynosMPPSource\<close> part of the object (its images and the resources it is assigned to) lies in
  the store at the address \<open>lay_source\<close>. Of the video metadata only the type word is modelled: the
  colour primaries and luminances are copied and never read by the modelled code. Floats are
  rationals as in \<open>Float32\<close>; \<open>int\<close> values are unbounded.
\<close>

section \<open>The data\<close>

datatype hwc2_composition =
    HWC2_COMPOSITION_INVALID | HWC2_COMPOSITION_CLIENT | HWC2_COMPOSITION_DEVICE
  | HWC2_COMPOSITION_SOLID_COLOR | HWC2_COMPOSITION_CURSOR | HWC2_COMPOSITION_EXYNOS
  | HWC2_COMPOSITION_OTHER int

datatype overlay_priority = ePriorityNone | ePriorityLow | ePriorityMid | ePriorityHigh | ePriorityMax

text \<open>The number of an enumerator, which the code compares and counts down with.\<close>

definition priority_code :: "overlay_priority \<Rightarrow> nat" where
  "priority_code p = (case p of ePriorityNone \<Rightarrow> 0 | ePriorityLow \<Rightarrow> 1 | ePriorityMid \<Rightarrow> 2
     | ePriorityHigh \<Rightarrow> 3 | ePriorityMax \<Rightarrow> 4)"

lemma priority_code_inj: "priority_code p = priority_code q \<longleftrightarrow> p = q"
  by (cases p; cases q) (simp_all add: priority_code_def)

instantiation overlay_priority :: linorder
begin

definition less_eq_overlay_priority :: "overlay_priority \<Rightarrow> overlay_priority \<Rightarrow> bool" where
  "less_eq_overlay_priority p q \<longleftrightarrow> priority_code p \<le> priority_code q"

definition less_overlay_priority :: "overlay_priority \<Rightarrow> overlay_priority \<Rightarrow> bool" where
  "less_overlay_priority p q \<longleftrightarrow> priority_code p < priority_code q"

instance
  by standard (auto simp: less_eq_overlay_priority_def less_overlay_priority_def priority_code_inj)

end

record hwc_frect =
  frect_left :: rat
  frect_top :: rat
  frect_right :: rat
  frect_bottom :: rat

definition RECT_WIDTH :: "hwc_rect \<Rightarrow> int" where "RECT_WIDTH r = rect_right r - rect_left r"
definition RECT_HEIGHT :: "hwc_rect \<Rightarrow> int" where "RECT_HEIGHT r = rect_bottom r - rect_top r"
definition FRECT_WIDTH :: "hwc_frect \<Rightarrow> int" where
  "FRECT_WIDTH r = trunc_int (fl_sub (frect_right r) (frect_left r))"
definition FRECT_HEIGHT :: "hwc_frect \<Rightarrow> int" where
  "FRECT_HEIGHT r = trunc_int (fl_sub (frect_bottom r) (frect_top r))"

record pre_processed_layer_info =
  pp_sourceCrop :: hwc_frect
  pp_displayFrame :: hwc_rect
  pp_interlacedType :: int
  pp_mUsePrivateFormat :: bool
  pp_mPrivateFormat :: ExynosFormat

record layer =
  lay_source :: nat
  lay_display :: DisplayInfo
  mSfCompositionType :: hwc2_composition
  mCompositionType :: hwc2_composition
  mExynosCompositionType :: hwc2_composition
  mValidateCompositionType :: hwc2_composition
  mValidateExynosCompositionType :: hwc2_composition
  mOverlayInfo :: u32
  mSupportedMPPFlag :: u32
  mCheckMPPFlag :: "u32 \<rightharpoonup> u64"
  mOverlayPriority :: overlay_priority
  mGeometryChanged :: u64
  mWindowIndex :: int
  mCompressionInfo :: compressionInfo_t
  mAcquireFence :: int
  mPrevAcquireFence :: int
  mReleaseFence :: int
  mLayerBuffer :: buffer_handle
  mLayerFormat :: ExynosFormat
  mDamageRects :: "hwc_rect list"
  mBlending :: int
  mDisplayFrame :: hwc_rect
  mPlaneAlpha :: rat
  mSourceCrop :: hwc_frect
  mTransform :: int
  mZOrder :: u32
  mColor :: hwc_color_t
  mDataSpace :: u32
  mPreprocessedInfo :: pre_processed_layer_info
  mLayerFlag :: u32
  mIsHdrLayer :: bool
  mIsHdr10PlusLayer :: bool
  mIsHdrFrameworkPath :: bool
  mIsHdr10PlusFrameworkPath :: bool
  mMetaParcel :: "u32 option"
  mLayerColorTransform :: bool

text \<open>\<open>mMetaParcel\<close> is the type word of the mapped metadata, or null.\<close>

subsection \<open>What Android's headers and the allocator provide\<close>

datatype (plugins only: code) color_mode =
    CM_NATIVE | CM_STANDARD_BT601_625 | CM_STANDARD_BT601_625_UNADJUSTED | CM_STANDARD_BT601_525
  | CM_STANDARD_BT601_525_UNADJUSTED | CM_STANDARD_BT709 | CM_DCI_P3 | CM_SRGB | CM_ADOBE_RGB
  | CM_DISPLAY_P3

datatype (plugins only: code) dataspace_name =
    DS_V0_SRGB_LINEAR | DS_V0_SRGB | DS_V0_JFIF | DS_V0_BT601_625 | DS_V0_BT601_525 | DS_V0_BT709
  | DS_SRGB_LINEAR | DS_SRGB | DS_JFIF | DS_BT601_625 | DS_BT601_525 | DS_BT709 | DS_ARBITRARY
  | DS_DCI_P3 | DS_ADOBE_RGB | DS_DISPLAY_P3

text \<open>Further numbers of Android's headers, and the reports of a buffer's metadata.\<close>

record android =
  an_color_mode :: "color_mode \<Rightarrow> u32"
  an_dataspace :: "dataspace_name \<Rightarrow> u32"
  an_range_mask :: u32
  an_range_limited :: u32
  an_field_none :: int
  an_field_interlaced_tb :: int
  an_field_interlaced_bt :: int
  an_info_invalid :: u32
  an_info_hdr_static :: u32
  an_info_interlaced :: u32
  an_info_check_pixel_format :: u32

record gralloc_meta =
  gm_fd :: int
  gm_fd1 :: int
  gm_fd2 :: int
  gm_size :: int
  gm_size1 :: int
  gm_buffer_id :: u64
  gm_format :: int
  gm_stride :: int
  gm_vstride :: int
  gm_usage :: u64
  gm_producer_usage :: u64
  gm_is_afbc :: bool
  gm_is_sajc :: bool
  gm_block_size :: u32
  gm_key_offset :: u32

record video_meta =
  vm_eType :: u32
  vm_nInterlacedType :: int
  vm_nPixelFormat :: int

text \<open>
  \<open>gr_null_format\<close> is what the allocator reports as the format of the null handle. \<open>gr_video\<close> gives
  the result of \<open>get_video_metadata\<close>: \<open>None\<close> when the mapping failed, \<open>Some None\<close> for no metadata.
  \<open>gr_static\<close> tells whether the buffer carries static HDR values, \<open>gr_dynamic\<close> whether it carries
  dynamic ones and, if so, whether they parse. \<open>gr_alloc\<close> is the type word of freshly allocated
  metadata, \<open>None\<close> when the allocation fails.
\<close>

record gralloc =
  gr_meta :: "nat \<Rightarrow> gralloc_meta"
  gr_null_format :: int
  gr_video :: "nat \<Rightarrow> video_meta option option"
  gr_static :: "nat \<Rightarrow> bool"
  gr_dynamic :: "nat \<Rightarrow> bool option"
  gr_alloc :: "u32 option"

subsection \<open>Constants\<close>

definition EXYNOS_HWC_FORCE_CLIENT_WFD :: u32 where [code_consts]: "EXYNOS_HWC_FORCE_CLIENT_WFD = 2"
definition EXYNOS_HWC_FORCE_CLIENT_HDR_META_ERROR :: u32 where
  [code_consts]: "EXYNOS_HWC_FORCE_CLIENT_HDR_META_ERROR = 4"
definition GEOMETRY_LAYER_TYPE_CHANGED :: u64 where [code_consts]: "GEOMETRY_LAYER_TYPE_CHANGED = 0x1"
definition GEOMETRY_LAYER_DATASPACE_CHANGED :: u64 where [code_consts]: "GEOMETRY_LAYER_DATASPACE_CHANGED = 0x2"
definition GEOMETRY_LAYER_DISPLAYFRAME_CHANGED :: u64 where [code_consts]: "GEOMETRY_LAYER_DISPLAYFRAME_CHANGED = 0x4"
definition GEOMETRY_LAYER_SOURCECROP_CHANGED :: u64 where [code_consts]: "GEOMETRY_LAYER_SOURCECROP_CHANGED = 0x8"
definition GEOMETRY_LAYER_TRANSFORM_CHANGED :: u64 where [code_consts]: "GEOMETRY_LAYER_TRANSFORM_CHANGED = 0x10"
definition GEOMETRY_LAYER_ZORDER_CHANGED :: u64 where [code_consts]: "GEOMETRY_LAYER_ZORDER_CHANGED = 0x20"
definition GEOMETRY_LAYER_PRIORITY_CHANGED :: u64 where [code_consts]: "GEOMETRY_LAYER_PRIORITY_CHANGED = 0x100"
definition GEOMETRY_LAYER_COMPRESSED_CHANGED :: u64 where [code_consts]: "GEOMETRY_LAYER_COMPRESSED_CHANGED = 0x200"
definition GEOMETRY_LAYER_BLEND_CHANGED :: u64 where [code_consts]: "GEOMETRY_LAYER_BLEND_CHANGED = 0x400"
definition GEOMETRY_LAYER_FORMAT_CHANGED :: u64 where [code_consts]: "GEOMETRY_LAYER_FORMAT_CHANGED = 0x800"
definition GEOMETRY_LAYER_DRM_CHANGED :: u64 where [code_consts]: "GEOMETRY_LAYER_DRM_CHANGED = 0x1000"
definition GEOMETRY_LAYER_HDR_META_CHANGED :: u64 where [code_consts]: "GEOMETRY_LAYER_HDR_META_CHANGED = 0x2000"
definition GEOMETRY_LAYER_UNKNOWN_CHANGED :: u64 where [code_consts]: "GEOMETRY_LAYER_UNKNOWN_CHANGED = 0x4000"
definition MIN_WIDTH_USING_VIRTUAL_8K :: rat where [code_consts]: "MIN_WIDTH_USING_VIRTUAL_8K = 4096"

text \<open>The numbers of the HWC2 error codes are the callers' business: only which error matters.\<close>

datatype hwc2_error =
  HWC2_ERROR_NONE | HWC2_ERROR_BAD_LAYER | HWC2_ERROR_BAD_PARAMETER | HWC2_ERROR_UNSUPPORTED

section \<open>Construction\<close>

definition zero_rect :: hwc_rect where
  "zero_rect = \<lparr>rect_left = 0, rect_top = 0, rect_right = 0, rect_bottom = 0\<rparr>"
definition zero_frect :: hwc_frect where
  "zero_frect = \<lparr>frect_left = 0, frect_top = 0, frect_right = 0, frect_bottom = 0\<rparr>"

text \<open>
  The preprocessed information is cleared with \<open>memset\<close>, so the private format is the table's
  first row. \<open>blend_none\<close> is the code of \<open>HWC2_BLEND_MODE_NONE\<close>.
\<close>

definition layer_new :: "nat \<Rightarrow> int \<Rightarrow> DisplayInfo \<Rightarrow> layer" where
  "layer_new source blend_none displayInfo = \<lparr>lay_source = source, lay_display = displayInfo,
     mSfCompositionType = HWC2_COMPOSITION_INVALID, mCompositionType = HWC2_COMPOSITION_INVALID,
     mExynosCompositionType = HWC2_COMPOSITION_INVALID, mValidateCompositionType = HWC2_COMPOSITION_INVALID,
     mValidateExynosCompositionType = HWC2_COMPOSITION_INVALID, mOverlayInfo = 0, mSupportedMPPFlag = 0,
     mCheckMPPFlag = Map.empty, mOverlayPriority = ePriorityLow, mGeometryChanged = 0, mWindowIndex = -1,
     mCompressionInfo = \<lparr>ci_type = COMP_TYPE_NONE, SAJCMaxBlockSize = 0, SAJCHeaderOffset = 0\<rparr>,
     mAcquireFence = -1, mPrevAcquireFence = -1, mReleaseFence = -1, mLayerBuffer = None,
     mLayerFormat = format_default, mDamageRects = [], mBlending = blend_none, mDisplayFrame = zero_rect,
     mPlaneAlpha = 0, mSourceCrop = zero_frect, mTransform = 0, mZOrder = 1000,
     mColor = \<lparr>color_r = 0, color_g = 0, color_b = 0, color_a = 0\<rparr>, mDataSpace = 0,
     mPreprocessedInfo = \<lparr>pp_sourceCrop = zero_frect, pp_displayFrame = zero_rect, pp_interlacedType = 0,
        pp_mUsePrivateFormat = False, pp_mPrivateFormat = ExynosFormat 0\<rparr>,
     mLayerFlag = 0, mIsHdrLayer = False, mIsHdr10PlusLayer = False, mIsHdrFrameworkPath = False,
     mIsHdr10PlusFrameworkPath = False, mMetaParcel = None, mLayerColorTransform = False\<rparr>"

section \<open>Helpers\<close>

definition colorModeToDataspace :: "'b platform_scheme \<Rightarrow> android \<Rightarrow> u32 \<Rightarrow> u32" where
  "colorModeToDataspace pf an mode =
    (if mode = an_color_mode an CM_STANDARD_BT601_625 then pf_standard pf STANDARD_BT601_625
     else if mode = an_color_mode an CM_STANDARD_BT601_625_UNADJUSTED then pf_standard pf STANDARD_BT601_625_UNADJUSTED
     else if mode = an_color_mode an CM_STANDARD_BT601_525 then pf_standard pf STANDARD_BT601_525
     else if mode = an_color_mode an CM_STANDARD_BT601_525_UNADJUSTED then pf_standard pf STANDARD_BT601_525_UNADJUSTED
     else if mode = an_color_mode an CM_STANDARD_BT709 then pf_standard pf STANDARD_BT709
     else if mode = an_color_mode an CM_DCI_P3 then an_dataspace an DS_DCI_P3
     else if mode = an_color_mode an CM_ADOBE_RGB then an_dataspace an DS_ADOBE_RGB
     else if mode = an_color_mode an CM_DISPLAY_P3 then an_dataspace an DS_DISPLAY_P3
     else if mode = an_color_mode an CM_SRGB then an_dataspace an DS_V0_SRGB
     else 0)"

definition hasHdrInfo_ds :: "'b platform_scheme \<Rightarrow> u32 \<Rightarrow> bool" where
  "hasHdrInfo_ds pf ds = hasHdrInfo pf (image_reset\<lparr>dataSpace := ds\<rparr>)"

definition is8KVideo :: "hal_env \<Rightarrow> int \<Rightarrow> hwc_frect \<Rightarrow> bool" where
  "is8KVideo hal fmt crop =
    (if isFormatYUV hal fmt then
       (if fl_sub (frect_right crop) (frect_left crop) > MIN_WIDTH_USING_VIRTUAL_8K then True else False)
     else False)"

definition isSrcCropFloat :: "hwc_frect \<Rightarrow> bool" where
  "isSrcCropFloat r \<longleftrightarrow>
     frect_left r \<noteq> of_int (trunc_int (frect_left r)) \<or> frect_top r \<noteq> of_int (trunc_int (frect_top r)) \<or>
     frect_right r \<noteq> of_int (trunc_int (frect_right r)) \<or> frect_bottom r \<noteq> of_int (trunc_int (frect_bottom r))"

text \<open>\<open>buffer_meta\<close> is the metadata object the code builds for a non-null handle.\<close>

definition buffer_meta :: "gralloc \<Rightarrow> buffer_handle \<Rightarrow> gralloc_meta" where
  "buffer_meta gr handle = gr_meta gr (case handle of None \<Rightarrow> 0 | Some b \<Rightarrow> b)"

definition buffer_format :: "gralloc \<Rightarrow> buffer_handle \<Rightarrow> int" where
  "buffer_format gr handle = (case handle of None \<Rightarrow> gr_null_format gr | Some b \<Rightarrow> gm_format (gr_meta gr b))"

definition buffer_compression :: "gralloc \<Rightarrow> buffer_handle \<Rightarrow> compressionInfo_t" where
  "buffer_compression gr = getCompressionInfo (\<lambda>b. gm_is_afbc (gr_meta gr b)) (\<lambda>b. gm_is_sajc (gr_meta gr b))
     (\<lambda>b. gm_block_size (gr_meta gr b)) (\<lambda>b. gm_key_offset (gr_meta gr b))"

definition layer_isDimLayer :: "layer \<Rightarrow> bool" where
  "layer_isDimLayer l = (if mLayerFlag l AND EXYNOS_HWC_DIM_LAYER \<noteq> 0 then True else False)"

definition isDrm :: "'b platform_scheme \<Rightarrow> gralloc \<Rightarrow> layer \<Rightarrow> bool" where
  "isDrm pf gr l \<longleftrightarrow> mLayerBuffer l \<noteq> None \<and> getDrmMode pf (gm_usage (buffer_meta gr (mLayerBuffer l))) \<noteq> NO_DRM"

text \<open>
  \<open>setGeometryChanged\<close> adds a bit to the layer's word and to the word its caller passes. A setter's
  state is the pair of both.
\<close>

type_synonym layer_geo = "layer \<times> u64"

definition setGeometryChanged :: "u64 \<Rightarrow> layer_geo \<Rightarrow> layer_geo" where
  "setGeometryChanged changedBit = (\<lambda>(l, geo).
     (l\<lparr>mGeometryChanged := mGeometryChanged l OR changedBit\<rparr>, geo OR changedBit))"

definition clearGeometryChanged :: "layer \<Rightarrow> layer" where
  "clearGeometryChanged l = l\<lparr>mGeometryChanged := 0\<rparr>"

section \<open>Metadata\<close>

definition allocMetaParcel :: "gralloc \<Rightarrow> layer \<Rightarrow> bool \<times> layer" where
  "allocMetaParcel gr l =
    (if mMetaParcel l \<noteq> None then (True, l)
     else case gr_alloc gr of None \<Rightarrow> (False, l) | Some t \<Rightarrow> (True, l\<lparr>mMetaParcel := Some t\<rparr>))"

definition or_eType :: "u32 \<Rightarrow> layer \<Rightarrow> layer" where
  "or_eType b l = l\<lparr>mMetaParcel := map_option (\<lambda>t. t OR b) (mMetaParcel l)\<rparr>"

definition handleHdrStaticMetaData :: "android \<Rightarrow> gralloc \<Rightarrow> nat \<Rightarrow> video_meta \<Rightarrow> layer \<Rightarrow> layer" where
  "handleHdrStaticMetaData an gr b meta l =
    (let (ok, l) = (if gr_static gr b then allocMetaParcel gr l else (False, l))
     in if ok then or_eType (an_info_hdr_static an) (l\<lparr>mIsHdrFrameworkPath := True\<rparr>)
        else
          (let (ok, l) = (if \<not> mIsHdrFrameworkPath l \<and> vm_eType meta AND an_info_hdr_static an \<noteq> 0
                          then allocMetaParcel gr l else (False, l))
           in if ok then or_eType (an_info_hdr_static an) l else l))"

definition handleHdrDynamicMetaData ::
  "'b platform_scheme \<Rightarrow> gralloc \<Rightarrow> nat \<Rightarrow> video_meta \<Rightarrow> layer_geo \<Rightarrow> layer_geo" where
  "handleHdrDynamicMetaData pf gr b meta = (\<lambda>(l, geo).
    (let (ok, l) = (if gr_dynamic gr b \<noteq> None then allocMetaParcel gr l else (False, l))
     in if ok then
          (let l = or_eType (pf_info_type_hdr_dynamic pf) l;
               prevFlag = mLayerFlag l AND EXYNOS_HWC_FORCE_CLIENT_HDR_META_ERROR;
               l = (if gr_dynamic gr b \<noteq> Some True
                    then l\<lparr>mLayerFlag := mLayerFlag l OR EXYNOS_HWC_FORCE_CLIENT_HDR_META_ERROR,
                           mIsHdr10PlusFrameworkPath := False, mIsHdr10PlusLayer := False\<rparr>
                    else l\<lparr>mLayerFlag := mLayerFlag l AND NOT EXYNOS_HWC_FORCE_CLIENT_HDR_META_ERROR,
                           mIsHdr10PlusFrameworkPath := True, mIsHdr10PlusLayer := True\<rparr>)
           in (l, if prevFlag \<noteq> mLayerFlag l AND EXYNOS_HWC_FORCE_CLIENT_HDR_META_ERROR
                  then geo OR GEOMETRY_LAYER_HDR_META_CHANGED else geo))
        else
          (let (ok, l) = (if \<not> mIsHdr10PlusFrameworkPath l \<and> vm_eType meta AND pf_info_type_hdr_dynamic pf \<noteq> 0
                          then allocMetaParcel gr l else (False, l))
           in (if ok then (or_eType (pf_info_type_hdr_dynamic pf) l)\<lparr>mIsHdr10PlusLayer := True\<rparr> else l, geo))))"

text \<open>The crop of an interlaced picture: one field of it, side by side for bottom-first order.\<close>

definition interlaced_crop :: "android \<Rightarrow> int \<Rightarrow> int \<Rightarrow> hwc_frect \<Rightarrow> hwc_frect \<Rightarrow> hwc_frect" where
  "interlaced_crop an type stride src crop =
    (let crop = (if type = an_field_interlaced_bt an \<and> trunc_int (frect_left src) < stride
                 then crop\<lparr>frect_left := f32 (of_int (trunc_int (frect_left src) + stride)),
                           frect_right := f32 (of_int (trunc_int (frect_right src) + stride))\<rparr>
                 else crop)
     in if type = an_field_interlaced_tb an \<or> type = an_field_interlaced_bt an
        then crop\<lparr>frect_top := f32 (of_int (trunc_int (frect_top src) sdiv 2)),
                  frect_bottom := f32 (of_int (trunc_int (frect_bottom src) sdiv 2))\<rparr>
        else crop)"

text \<open>The value is the status and the geometry bits the metadata raises.\<close>

definition handleMetaData ::
  "'b platform_scheme \<Rightarrow> android \<Rightarrow> gralloc \<Rightarrow> nat \<Rightarrow> layer \<Rightarrow> int \<times> layer_geo" where
  "handleMetaData pf an gr b l =
    (case gr_video gr b of
       None \<Rightarrow> (- EFAULT, l, 0)
     | Some None \<Rightarrow> (NO_ERROR, l, 0)
     | Some (Some meta) \<Rightarrow>
        (let l = handleHdrStaticMetaData an gr b meta l;
             (l, geo) = handleHdrDynamicMetaData pf gr b meta (l, 0);
             pp = mPreprocessedInfo l;
             pp = (if vm_eType meta AND an_info_interlaced an \<noteq> 0
                   then pp\<lparr>pp_interlacedType := vm_nInterlacedType meta,
                           pp_sourceCrop := interlaced_crop an (vm_nInterlacedType meta) (gm_stride (gr_meta gr b))
                             (mSourceCrop l) (pp_sourceCrop pp)\<rparr>
                   else pp);
             prev = pp_mUsePrivateFormat pp;
             pp = (if isFormatYUV (pf_hal pf) (gm_format (gr_meta gr b))
                      \<and> vm_eType meta AND an_info_check_pixel_format an \<noteq> 0
                   then pp\<lparr>pp_mUsePrivateFormat := True,
                           pp_mPrivateFormat := format_of (pf_hal pf) (vm_nPixelFormat meta)\<rparr>
                   else pp\<lparr>pp_mUsePrivateFormat := False, pp_mPrivateFormat := mLayerFormat l\<rparr>)
         in (NO_ERROR, l\<lparr>mPreprocessedInfo := pp\<rparr>,
             if prev \<noteq> pp_mUsePrivateFormat pp then geo OR GEOMETRY_LAYER_FORMAT_CHANGED else geo)))"

definition clearHdrDynamicType :: "'b platform_scheme \<Rightarrow> layer \<Rightarrow> int \<times> layer" where
  "clearHdrDynamicType pf l =
    (case mMetaParcel l of
       Some t \<Rightarrow> if t AND pf_info_type_hdr_dynamic pf \<noteq> 0
                 then (NO_ERROR, l\<lparr>mMetaParcel := Some (t AND NOT (pf_info_type_hdr_dynamic pf))\<rparr>) else (-1, l)
     | None \<Rightarrow> (-1, l))"

definition restoreHdrDynamicType :: "'b platform_scheme \<Rightarrow> layer \<Rightarrow> int \<times> layer" where
  "restoreHdrDynamicType pf l =
    (case mMetaParcel l of
       Some t \<Rightarrow> if mIsHdr10PlusLayer l \<and> t AND pf_info_type_hdr_dynamic pf = 0
                 then (NO_ERROR, l\<lparr>mMetaParcel := Some (t OR pf_info_type_hdr_dynamic pf)\<rparr>) else (-1, l)
     | None \<Rightarrow> (-1, l))"

section \<open>Preprocessing\<close>

definition alignSourceCrop :: "restriction_size \<Rightarrow> layer \<Rightarrow> layer" where
  "alignSourceCrop src l =
    (let crop = pp_sourceCrop (mPreprocessedInfo l);
         crop = crop\<lparr>frect_left := f32 (of_int (pixel_align (trunc_int (frect_left crop)) (sint (cropXAlign src))))\<rparr>;
         crop = crop\<lparr>frect_top := f32 (of_int (pixel_align (trunc_int (frect_top crop)) (sint (cropYAlign src))))\<rparr>;
         crop = crop\<lparr>frect_right := fl_add (frect_left crop)
                  (f32 (of_int (pixel_align_down (FRECT_WIDTH crop) (sint (cropWidthAlign src)))))\<rparr>;
         crop = crop\<lparr>frect_bottom := fl_add (frect_top crop)
                  (f32 (of_int (pixel_align_down (FRECT_HEIGHT crop) (sint (cropHeightAlign src)))))\<rparr>
     in l\<lparr>mPreprocessedInfo := (mPreprocessedInfo l)\<lparr>pp_sourceCrop := crop\<rparr>\<rparr>)"

definition alignDisplayFrame :: "restriction_size \<Rightarrow> layer \<Rightarrow> layer" where
  "alignDisplayFrame src l =
    (let frame = mDisplayFrame l;
         w_align = sint (cropWidthAlign src); h_align = sint (cropHeightAlign src);
         x = int (unat (xres (lay_display l))); y = int (unat (yres (lay_display l)));
         r = pp_displayFrame (mPreprocessedInfo l);
         r = r\<lparr>rect_right := rect_left frame + pixel_align (RECT_WIDTH frame) w_align\<rparr>;
         r = r\<lparr>rect_bottom := rect_top frame + pixel_align (RECT_HEIGHT frame) h_align\<rparr>;
         r = (if rect_right r > x
              then r\<lparr>rect_left := x - pixel_align (RECT_WIDTH r) w_align, rect_right := x\<rparr> else r);
         r = (if rect_bottom r > y
              then r\<lparr>rect_top := y - pixel_align_down (RECT_HEIGHT r) h_align, rect_bottom := y\<rparr> else r)
     in l\<lparr>mPreprocessedInfo := (mPreprocessedInfo l)\<lparr>pp_displayFrame := r\<rparr>\<rparr>)"

definition resizeDisplayFrame :: "restriction_size \<Rightarrow> layer \<Rightarrow> layer" where
  "resizeDisplayFrame dst l =
    (let frame = mDisplayFrame l;
         min_w = minCropWidth dst; min_h = minCropHeight dst;
         x = int (unat (xres (lay_display l))); y = int (unat (yres (lay_display l)));
         r = pp_displayFrame (mPreprocessedInfo l);
         r = (if (of_int (RECT_WIDTH frame) :: u32) < min_w then
                (let r = r\<lparr>rect_right := rect_left frame + pixel_align (RECT_WIDTH frame) (sint min_w)\<rparr>
                 in if rect_right r > x
                    then r\<lparr>rect_left := x - pixel_align (RECT_WIDTH r) (sint min_w), rect_right := x\<rparr> else r)
              else r);
         r = (if (of_int (RECT_HEIGHT frame) :: u32) < min_h then
                (let r = r\<lparr>rect_bottom := rect_top frame + pixel_align (RECT_HEIGHT frame) (sint min_h)\<rparr>
                 in if rect_bottom r > y
                    then r\<lparr>rect_top := y - pixel_align (RECT_HEIGHT r) (sint min_h), rect_bottom := y\<rparr> else r)
              else r)
     in l\<lparr>mPreprocessedInfo := (mPreprocessedInfo l)\<lparr>pp_displayFrame := r\<rparr>\<rparr>)"

text \<open>The crop of a YUV layer is widened to whole pixels: \<open>0.9\<close> is a \<open>double\<close>.\<close>

definition whole_crop :: "hwc_frect \<Rightarrow> hwc_frect" where
  "whole_crop c = \<lparr>frect_left = f32 (of_int (trunc_int (frect_left c))),
     frect_top = f32 (of_int (trunc_int (frect_top c))),
     frect_right = f32 (of_int (trunc_int (f64 (frect_right c + f64 (9 / 10))))),
     frect_bottom = f32 (of_int (trunc_int (f64 (frect_bottom c + f64 (9 / 10)))))\<rparr>"

definition layer_priority :: "'b platform_scheme \<Rightarrow> gralloc \<Rightarrow> nat \<Rightarrow> layer \<Rightarrow> overlay_priority" where
  "layer_priority pf gr b l =
    (if getDrmMode pf (gm_usage (gr_meta gr b)) \<noteq> NO_DRM then ePriorityMax
     else if is8KVideo (pf_hal pf) (gm_format (gr_meta gr b)) (mSourceCrop l) then ePriorityMax
     else if fmt_isYUV (mLayerFormat l) \<or> mIsHdrLayer l then ePriorityHigh
     else if cursorSupport (lay_display l) \<and> mCompositionType l = HWC2_COMPOSITION_CURSOR then ePriorityMid
     else ePriorityLow)"

text \<open>The callback that runs when \<open>doPreProcess\<close> returns.\<close>

definition setPriority :: "overlay_priority \<Rightarrow> layer_geo \<Rightarrow> layer_geo" where
  "setPriority p = (\<lambda>(l, geo).
    (let (l, geo) = (if mOverlayPriority l \<noteq> p then setGeometryChanged GEOMETRY_LAYER_PRIORITY_CHANGED (l, geo) else (l, geo))
     in (l\<lparr>mOverlayPriority := p\<rparr>, geo)))"

definition preprocess_yuv ::
  "'b platform_scheme \<Rightarrow> android \<Rightarrow> gralloc \<Rightarrow> restriction_size \<Rightarrow> nat \<Rightarrow> layer_geo \<Rightarrow> layer_geo" where
  "preprocess_yuv pf an gr src b = (\<lambda>(l, geo).
    (let l = l\<lparr>mPreprocessedInfo := (mPreprocessedInfo l)\<lparr>pp_sourceCrop := whole_crop (mSourceCrop l)\<rparr>\<rparr>;
         (ret, l, changed) = handleMetaData pf an gr b l;
         (l, geo) = (if ret = NO_ERROR \<and> changed \<noteq> 0 then setGeometryChanged changed (l, geo) else (l, geo))
     in (alignSourceCrop src l, geo)))"

text \<open>The assignments it starts with, the treatment of the content, and the whole.\<close>

definition preprocess_reset :: "android \<Rightarrow> layer \<Rightarrow> layer" where
  "preprocess_reset an l =
    (let l = l\<lparr>mIsHdrLayer := False, mLayerFlag := 0,
               mPreprocessedInfo := (mPreprocessedInfo l)\<lparr>pp_sourceCrop := mSourceCrop l,
                 pp_displayFrame := mDisplayFrame l, pp_interlacedType := an_field_none an\<rparr>\<rparr>
     in l\<lparr>mLayerFlag := (if mCompositionType l = HWC2_COMPOSITION_SOLID_COLOR
                         then mLayerFlag l OR EXYNOS_HWC_DIM_LAYER
                         else mLayerFlag l AND NOT EXYNOS_HWC_DIM_LAYER)\<rparr>)"

definition preprocess_content ::
  "'b platform_scheme \<Rightarrow> android \<Rightarrow> gralloc \<Rightarrow> restriction_size \<Rightarrow> restriction_size \<Rightarrow> nat \<Rightarrow> layer_geo \<Rightarrow> layer_geo" where
  "preprocess_content pf an gr src dst b = (\<lambda>(l, geo).
     (let (l, geo) = (if fmt_isYUV (mLayerFormat l) then preprocess_yuv pf an gr src b (l, geo)
                      else (l\<lparr>mPreprocessedInfo := (mPreprocessedInfo l)\<lparr>pp_mUsePrivateFormat := False\<rparr>\<rparr>, geo));
          drm = (getDrmMode pf (gm_usage (gr_meta gr b)) \<noteq> NO_DRM);
          l = (if drm \<or> mIsHdrLayer l then
                 (let l = (if adjustDisplayFrame (lay_display l) then alignDisplayFrame src l else l)
                  in if drm then resizeDisplayFrame dst l else l)
               else l)
      in (l, geo)))"

definition doPreProcess ::
  "'b platform_scheme \<Rightarrow> android \<Rightarrow> gralloc \<Rightarrow> restriction_size \<Rightarrow> restriction_size \<Rightarrow> layer_geo \<Rightarrow> layer_geo" where
  "doPreProcess pf an gr src dst = (\<lambda>(l, geo).
    (let l = preprocess_reset an l
     in case mLayerBuffer l of
          None \<Rightarrow> setPriority ePriorityLow (l, geo)
        | Some b \<Rightarrow>
           (let l = (if hasHdrInfo_ds pf (mDataSpace l) then l\<lparr>mIsHdrLayer := True\<rparr> else l);
                s = preprocess_content pf an gr src dst b (l, geo)
            in setPriority (layer_priority pf gr b (fst s)) s)))"

section \<open>The properties a client sets\<close>

definition setLayerDataspace :: "'b platform_scheme \<Rightarrow> android \<Rightarrow> gralloc \<Rightarrow> u32 \<Rightarrow> layer_geo \<Rightarrow> layer_geo" where
  "setLayerDataspace pf an gr ds = (\<lambda>(l, geo).
    (let current =
       (if mLayerBuffer l \<noteq> None \<and>
           buffer_format gr (mLayerBuffer l) = pf_hal pf HAL_PIXEL_FORMAT_EXYNOS_YCrCb_420_SP_M_FULL
        then an_dataspace an DS_V0_JFIF
        else if ds = an_dataspace an DS_SRGB_LINEAR then an_dataspace an DS_V0_SRGB_LINEAR
        else if ds = an_dataspace an DS_SRGB then an_dataspace an DS_V0_SRGB
        else if ds = an_dataspace an DS_JFIF then an_dataspace an DS_V0_JFIF
        else if ds = an_dataspace an DS_BT601_625 then an_dataspace an DS_V0_BT601_625
        else if ds = an_dataspace an DS_BT601_525 then an_dataspace an DS_V0_BT601_525
        else if ds = an_dataspace an DS_BT709 then an_dataspace an DS_V0_BT709
        else if ds = an_dataspace an DS_ARBITRARY then 0
        else ds);
         (l, geo) = (if current \<noteq> mDataSpace l then setGeometryChanged GEOMETRY_LAYER_DATASPACE_CHANGED (l, geo) else (l, geo))
     in (l\<lparr>mDataSpace := current\<rparr>, geo)))"

text \<open>The fences of a layer when a buffer arrives: the old ones are closed, the new one is duplicated.\<close>

definition renew_fences ::
  "(int \<Rightarrow> int) \<Rightarrow> (u32 \<Rightarrow> u32) \<Rightarrow> int \<Rightarrow> layer \<times> fence_tracer \<Rightarrow> layer \<times> fence_tracer" where
  "renew_fences dup_ret debug acquireFence = (\<lambda>(l, t).
    (let d = displayIdentifier (lay_display l);
         (prev, t) = fence_close (mPrevAcquireFence l) d FENCE_TYPE_SRC_DUP_ACQUIRE FENCE_IP_UNDEFINED t;
         (acq, t) = fence_close (mAcquireFence l) d FENCE_TYPE_SRC_ACQUIRE FENCE_IP_UNDEFINED t;
         (acq, t) = checkFenceDebug debug d FENCE_TYPE_SRC_ACQUIRE FENCE_IP_LAYER acquireFence t;
         t = setFenceInfo acq d FENCE_TYPE_SRC_ACQUIRE FENCE_IP_LAYER FENCE_FROM False t;
         (dup_fd, t) = hwc_dup dup_ret acq d FENCE_TYPE_SRC_DUP_ACQUIRE FENCE_IP_LAYER True t;
         (prev, t) = checkFenceDebug debug d FENCE_TYPE_SRC_DUP_ACQUIRE FENCE_IP_LAYER dup_fd t
     in (l\<lparr>mAcquireFence := acq, mPrevAcquireFence := prev, mReleaseFence := -1\<rparr>, t)))"

definition setLayerBuffer ::
  "'b platform_scheme \<Rightarrow> android \<Rightarrow> gralloc \<Rightarrow> (int \<Rightarrow> int) \<Rightarrow> (u32 \<Rightarrow> u32) \<Rightarrow> buffer_handle \<Rightarrow> int
    \<Rightarrow> layer \<times> u64 \<times> fence_tracer \<Rightarrow> hwc2_error \<times> layer \<times> u64 \<times> fence_tracer" where
  "setLayerBuffer pf an gr dup_ret debug buffer acquireFence = (\<lambda>(l, geo, t).
    (if buffer \<noteq> None \<and> gm_fd (buffer_meta gr buffer) < 0 then (HWC2_ERROR_BAD_LAYER, l, geo, t)
     else
       (let halFormat = buffer_format gr buffer;
            (l, geo) =
              (if mLayerBuffer l = None \<or> buffer = None then setGeometryChanged GEOMETRY_LAYER_UNKNOWN_CHANGED (l, geo)
               else
                 (let s = (if getDrmMode pf (gm_producer_usage (buffer_meta gr (mLayerBuffer l)))
                              \<noteq> getDrmMode pf (gm_producer_usage (buffer_meta gr buffer))
                           then setGeometryChanged GEOMETRY_LAYER_DRM_CHANGED (l, geo) else (l, geo))
                  in if buffer_format gr (mLayerBuffer l) \<noteq> halFormat
                     then setGeometryChanged GEOMETRY_LAYER_FORMAT_CHANGED s else s));
            (l, t) = renew_fences dup_ret debug acquireFence (l, t);
            prevType = ci_type (mCompressionInfo l);
            l = l\<lparr>mCompressionInfo := buffer_compression gr buffer\<rparr>;
            (l, geo) = (if ci_type (mCompressionInfo l) \<noteq> prevType
                        then setGeometryChanged GEOMETRY_LAYER_COMPRESSED_CHANGED (l, geo) else (l, geo));
            (l, geo) =
              (if buffer \<noteq> None then
                 (if buffer_format gr buffer = pf_hal pf HAL_PIXEL_FORMAT_EXYNOS_YCrCb_420_SP_M_FULL
                  then setLayerDataspace pf an gr (an_dataspace an DS_V0_JFIF) (l, geo) else (l, geo))
               else setLayerDataspace pf an gr 0 (l, geo))
        in (HWC2_ERROR_NONE,
            l\<lparr>mLayerBuffer := buffer, mLayerFormat := format_init (pf_hal pf) halFormat (ci_type (mCompressionInfo l))\<rparr>,
            geo, t))))"

definition setLayerSurfaceDamage :: "hwc_rect list \<Rightarrow> layer \<Rightarrow> layer" where
  "setLayerSurfaceDamage damage l = l\<lparr>mDamageRects := damage\<rparr>"

definition setLayerBlendMode :: "int \<Rightarrow> layer_geo \<Rightarrow> hwc2_error \<times> layer_geo" where
  "setLayerBlendMode mode = (\<lambda>(l, geo).
    (if mode < 0 then (HWC2_ERROR_BAD_PARAMETER, l, geo)
     else
       (let (l, geo) = (if mBlending l \<noteq> mode then setGeometryChanged GEOMETRY_LAYER_BLEND_CHANGED (l, geo) else (l, geo))
        in (HWC2_ERROR_NONE, l\<lparr>mBlending := mode\<rparr>, geo))))"

definition setLayerColor :: "hwc_color_t \<Rightarrow> layer \<Rightarrow> layer" where
  "setLayerColor color l = l\<lparr>mColor := color\<rparr>"

text \<open>The enumerators are not negative, so only an unnamed number can be.\<close>

definition negative_type :: "hwc2_composition \<Rightarrow> bool" where
  "negative_type type = (case type of HWC2_COMPOSITION_OTHER n \<Rightarrow> n < 0 | _ \<Rightarrow> False)"

definition setLayerCompositionType :: "hwc2_composition \<Rightarrow> layer_geo \<Rightarrow> hwc2_error \<times> layer_geo" where
  "setLayerCompositionType type = (\<lambda>(l, geo).
    (if negative_type type then (HWC2_ERROR_BAD_PARAMETER, l, geo)
     else
       (let (l, geo) = (if type \<noteq> mSfCompositionType l then setGeometryChanged GEOMETRY_LAYER_TYPE_CHANGED (l, geo) else (l, geo))
        in (HWC2_ERROR_NONE, l\<lparr>mSfCompositionType := type, mCompositionType := type\<rparr>, geo))))"

definition setLayerDisplayFrame :: "hwc_rect \<Rightarrow> layer_geo \<Rightarrow> layer_geo" where
  "setLayerDisplayFrame frame = (\<lambda>(l, geo).
    (let old = mDisplayFrame l;
         (l, geo) = (if rect_left frame \<noteq> rect_left old \<or> rect_top frame \<noteq> rect_top old
                        \<or> rect_right frame \<noteq> rect_right old \<or> rect_bottom frame \<noteq> rect_bottom old
                     then setGeometryChanged GEOMETRY_LAYER_DISPLAYFRAME_CHANGED (l, geo) else (l, geo))
     in (l\<lparr>mDisplayFrame := frame\<rparr>, geo)))"

definition setLayerPlaneAlpha :: "rat \<Rightarrow> layer \<Rightarrow> hwc2_error \<times> layer" where
  "setLayerPlaneAlpha alpha l =
    (if alpha < 0 then (HWC2_ERROR_BAD_LAYER, l) else (HWC2_ERROR_NONE, l\<lparr>mPlaneAlpha := alpha\<rparr>))"

definition setLayerSourceCrop :: "hwc_frect \<Rightarrow> layer_geo \<Rightarrow> layer_geo" where
  "setLayerSourceCrop crop = (\<lambda>(l, geo).
    (let old = mSourceCrop l in
     if frect_left crop \<noteq> frect_left old \<or> frect_top crop \<noteq> frect_top old
        \<or> frect_right crop \<noteq> frect_right old \<or> frect_bottom crop \<noteq> frect_bottom old
     then
       (let (l, geo) = (if (mLayerBuffer l \<noteq> None \<and> fmt_isYUV (mLayerFormat l))
                           \<or> FRECT_WIDTH crop \<noteq> FRECT_WIDTH old \<or> FRECT_HEIGHT crop \<noteq> FRECT_HEIGHT old
                        then setGeometryChanged GEOMETRY_LAYER_SOURCECROP_CHANGED (l, geo) else (l, geo))
        in (l\<lparr>mSourceCrop := crop\<rparr>, geo))
     else (l, geo)))"

definition setLayerTransform :: "int \<Rightarrow> layer_geo \<Rightarrow> layer_geo" where
  "setLayerTransform tr = (\<lambda>(l, geo).
    (if mTransform l \<noteq> tr
     then (let (l, geo) = setGeometryChanged GEOMETRY_LAYER_TRANSFORM_CHANGED (l, geo) in (l\<lparr>mTransform := tr\<rparr>, geo))
     else (l, geo)))"

definition setLayerZOrder :: "u32 \<Rightarrow> layer_geo \<Rightarrow> layer_geo" where
  "setLayerZOrder z = (\<lambda>(l, geo).
    (if mZOrder l \<noteq> z
     then (let (l, geo) = setGeometryChanged GEOMETRY_LAYER_ZORDER_CHANGED (l, geo) in (l\<lparr>mZOrder := z\<rparr>, geo))
     else (l, geo)))"

text \<open>The identity has ones where the row is the column; only whether the matrix differs is kept.\<close>

definition setLayerColorTransform :: "(nat \<Rightarrow> rat) \<Rightarrow> layer \<Rightarrow> layer" where
  "setLayerColorTransform mat l = l\<lparr>mLayerColorTransform :=
     list_ex (\<lambda>i. let height = i div 4; width = i mod 4 in
        (width = height \<and> mat i \<noteq> 1) \<or> (width \<noteq> height \<and> mat i \<noteq> 0)) [0..<16]\<rparr>"

section \<open>The images of a layer\<close>

text \<open>The loop that makes the height of an interlaced field even and at most the buffer's.\<close>

function interlaced_height :: "u32 \<Rightarrow> u32 \<Rightarrow> u32" where
  "interlaced_height full h = (if h mod 2 \<noteq> 0 \<or> h > full then interlaced_height full (h - 1) else h)"
  by pat_completeness auto

termination
proof (relation "measure (\<lambda>(full, h). unat h)")
  fix full h :: u32
  assume "h mod 2 \<noteq> 0 \<or> h > full"
  then have "h \<noteq> 0" by (auto simp: not_less)
  then show "((full, h - 1), (full, h)) \<in> measure (\<lambda>(full, h). unat h)"
    by (simp add: measure_unat)
qed simp

declare interlaced_height.simps [simp del]

definition is_interlaced :: "android \<Rightarrow> layer \<Rightarrow> bool" where
  "is_interlaced an l \<longleftrightarrow> pp_interlacedType (mPreprocessedInfo l) = an_field_interlaced_tb an \<or>
     pp_interlacedType (mPreprocessedInfo l) = an_field_interlaced_bt an"

text \<open>The fields both kinds of source image share.\<close>

definition src_common :: "layer \<Rightarrow> exynos_image \<Rightarrow> exynos_image" where
  "src_common l img = img\<lparr>layerFlags := mLayerFlag l, acquireFenceFd := mAcquireFence l, releaseFenceFd := -1,
     blending := of_int (mBlending l), transform := of_int (mTransform l), compressionInfo := mCompressionInfo l,
     planeAlpha := mPlaneAlpha l, zOrder := mZOrder l, img_color := mColor l\<rparr>"

definition dim_src_image :: "'b platform_scheme \<Rightarrow> android \<Rightarrow> layer \<Rightarrow> exynos_image \<Rightarrow> exynos_image" where
  "dim_src_image pf an l img =
    (let frame = pp_displayFrame (mPreprocessedInfo l);
         img = img\<lparr>exynosFormat := format_of (pf_hal pf) (pf_hal pf HAL_PIXEL_FORMAT_RGBA_8888), usageFlags := 0xb00,
                   bufferHandle := None, img_x := of_int (rect_left frame), img_y := of_int (rect_top frame),
                   img_w := of_int (rect_right frame - rect_left frame),
                   img_h := of_int (rect_bottom frame - rect_top frame)\<rparr>;
         img = (if display_set (lay_display l)
                then img\<lparr>fullWidth := xres (lay_display l), fullHeight := yres (lay_display l)\<rparr>
                else img\<lparr>fullWidth := 1440, fullHeight := 2560\<rparr>)
     in (src_common l img)\<lparr>dataSpace := an_dataspace an DS_V0_SRGB\<rparr>)"

definition src_buffer ::
  "'b platform_scheme \<Rightarrow> android \<Rightarrow> gralloc \<Rightarrow> layer \<Rightarrow> exynos_image \<Rightarrow> exynos_image" where
  "src_buffer pf an gr l img =
    (case mLayerBuffer l of
       None \<Rightarrow> img\<lparr>fullWidth := 0, fullHeight := 0, exynosFormat := format_default, usageFlags := 0, bufferHandle := None\<rparr>
     | Some b \<Rightarrow>
        (let gmeta = gr_meta gr b;
             img = (if is_interlaced an l
                    then img\<lparr>fullWidth := of_int (gm_stride gmeta * 2),
                             fullHeight := of_int (pixel_align_down (gm_vstride gmeta sdiv 2) 2)\<rparr>
                    else img\<lparr>fullWidth := of_int (gm_stride gmeta), fullHeight := of_int (gm_vstride gmeta)\<rparr>)
         in img\<lparr>exynosFormat := (if \<not> pp_mUsePrivateFormat (mPreprocessedInfo l) then mLayerFormat l
                                 else pp_mPrivateFormat (mPreprocessedInfo l)),
                usageFlags := gm_producer_usage gmeta, bufferHandle := Some b\<rparr>))"

definition setSrcExynosImage ::
  "'b platform_scheme \<Rightarrow> android \<Rightarrow> gralloc \<Rightarrow> layer \<Rightarrow> exynos_image \<Rightarrow> exynos_image" where
  "setSrcExynosImage pf an gr l img =
    (if layer_isDimLayer l then dim_src_image pf an l img
     else
       (let img = src_buffer pf an gr l img;
            crop = pp_sourceCrop (mPreprocessedInfo l);
            img = img\<lparr>img_x := of_int (trunc_int (frect_left crop)), img_y := of_int (trunc_int (frect_top crop)),
                      img_w := of_int (trunc_int (frect_right crop) - trunc_int (frect_left crop)),
                      img_h := of_int (trunc_int (frect_bottom crop) - trunc_int (frect_top crop))\<rparr>;
            img = (if is_interlaced an l then img\<lparr>img_h := interlaced_height (fullHeight img) (img_h img)\<rparr> else img);
            img = (src_common l img)\<lparr>dataSpace := getRefinedDataspace (pf_hal pf) (an_dataspace an DS_V0_SRGB)
                     (an_dataspace an DS_V0_BT709) (fmt_halFormat (pf_hal pf) (exynosFormat img)) (mDataSpace l)\<rparr>;
            img = img\<lparr>metaType := (case mMetaParcel l of None \<Rightarrow> an_info_invalid an | Some t \<Rightarrow> t)\<rparr>
        in img\<lparr>needColorTransform := mLayerColorTransform l\<rparr>))"

definition hdr_target_dataspace :: "'b platform_scheme \<Rightarrow> android \<Rightarrow> u32" where
  "hdr_target_dataspace pf an = pf_standard pf STANDARD_DCI_P3 OR pf_transfer pf TRANSFER_GAMMA2_2 OR an_range_limited an"

definition setDstExynosImage ::
  "'b platform_scheme \<Rightarrow> android \<Rightarrow> gralloc \<Rightarrow> layer \<Rightarrow> exynos_image \<Rightarrow> exynos_image" where
  "setDstExynosImage pf an gr l img =
    (let frame = pp_displayFrame (mPreprocessedInfo l); d = lay_display l;
         img = img\<lparr>usageFlags := (case mLayerBuffer l of None \<Rightarrow> 0 | Some b \<Rightarrow> gm_producer_usage (gr_meta gr b))\<rparr>;
         img = (if layer_isDimLayer l then img\<lparr>usageFlags := 0xb00\<rparr> else img);
         img = img\<lparr>exynosFormat := format_of (pf_hal pf) (pf_hal pf HAL_PIXEL_FORMAT_RGBA_8888),
                   img_x := of_int (rect_left frame), img_y := of_int (rect_top frame),
                   img_w := of_int (rect_right frame - rect_left frame),
                   img_h := of_int (rect_bottom frame - rect_top frame), layerFlags := mLayerFlag l,
                   acquireFenceFd := -1, releaseFenceFd := -1, bufferHandle := None, dataSpace := 0\<rparr>;
         img = (if display_set d then
                  (let img = img\<lparr>fullWidth := xres d, fullHeight := yres d\<rparr>
                   in if colorMode d \<noteq> 0 then img\<lparr>dataSpace := colorModeToDataspace pf an (colorMode d)\<rparr>
                      else if hasHdrInfo_ds pf (mDataSpace l) then
                        (if di_type (displayIdentifier d) = pf_display_external pf then
                           (if sinkHdrSupported d then img\<lparr>dataSpace := 0\<rparr>
                            else img\<lparr>dataSpace := hdr_target_dataspace pf an\<rparr>)
                         else img\<lparr>dataSpace := hdr_target_dataspace pf an\<rparr>)
                      else img)
                else img)
     in img\<lparr>blending := of_int (mBlending l), transform := of_int (mTransform l),
            compressionInfo := (compressionInfo img)\<lparr>ci_type := COMP_TYPE_NONE\<rparr>, planeAlpha := mPlaneAlpha l,
            zOrder := mZOrder l, img_color := mColor l,
            metaType := (case mMetaParcel l of None \<Rightarrow> an_info_invalid an | Some t \<Rightarrow> t)\<rparr>)"

text \<open>Both images from cleared ones, and the start of a validation of the layer.\<close>

definition layer_src :: "'b platform_scheme \<Rightarrow> android \<Rightarrow> gralloc \<Rightarrow> layer \<Rightarrow> exynos_image" where
  "layer_src pf an gr l = setSrcExynosImage pf an gr l image_reset"

definition layer_dst :: "'b platform_scheme \<Rightarrow> android \<Rightarrow> gralloc \<Rightarrow> layer \<Rightarrow> exynos_image" where
  "layer_dst pf an gr l = setDstExynosImage pf an gr l image_reset"

definition resetValidateData ::
  "'b platform_scheme \<Rightarrow> android \<Rightarrow> gralloc \<Rightarrow> layer \<times> store \<Rightarrow> layer \<times> store" where
  "resetValidateData pf an gr = (\<lambda>(l, st).
    (let a = lay_source l;
         l = l\<lparr>mValidateCompositionType := HWC2_COMPOSITION_INVALID, mOverlayInfo := 0, mWindowIndex := -1\<rparr>;
         s = (st a)\<lparr>mOtfMPP := None, mM2mMPP := None\<rparr>;
         s = s\<lparr>mSrcImg := setSrcExynosImage pf an gr l (mSrcImg s)\<rparr>;
         s = s\<lparr>mDstImg := setDstExynosImage pf an gr l (mDstImg s)\<rparr>
     in (l, st(a := s))))"

section \<open>What the operations keep\<close>

text \<open>The fields of a layer that preprocessing reads but never writes.\<close>

definition same_request :: "layer \<Rightarrow> layer \<Rightarrow> bool" where
  "same_request l l' \<longleftrightarrow> lay_source l' = lay_source l \<and> lay_display l' = lay_display l \<and>
     mCompositionType l' = mCompositionType l \<and> mLayerBuffer l' = mLayerBuffer l \<and>
     mLayerFormat l' = mLayerFormat l \<and> mSourceCrop l' = mSourceCrop l \<and> mDisplayFrame l' = mDisplayFrame l \<and>
     mDataSpace l' = mDataSpace l \<and> mIsHdrLayer l' = mIsHdrLayer l \<and> mOverlayPriority l' = mOverlayPriority l"

lemma same_request_refl [simp]: "same_request l l"
  by (simp add: same_request_def)

lemma same_request_trans: "same_request l l' \<Longrightarrow> same_request l' l'' \<Longrightarrow> same_request l l''"
  by (simp add: same_request_def)

lemma setGeometryChanged_same [simp]: "same_request l (fst (setGeometryChanged b (l, g)))"
  by (simp add: setGeometryChanged_def same_request_def)

lemma allocMetaParcel_same [simp]: "same_request l (snd (allocMetaParcel gr l))"
  by (simp add: allocMetaParcel_def same_request_def split: option.split)

lemma or_eType_same [simp]: "same_request l (or_eType b l)"
  by (simp add: or_eType_def same_request_def)

lemma static_same [simp]: "same_request l (handleHdrStaticMetaData an gr b meta l)"
  by (simp add: handleHdrStaticMetaData_def Let_def allocMetaParcel_def or_eType_def same_request_def
      split: option.split)

lemma dynamic_same [simp]: "same_request l (fst (handleHdrDynamicMetaData pf gr b meta (l, geo)))"
  by (simp add: handleHdrDynamicMetaData_def Let_def allocMetaParcel_def or_eType_def same_request_def
      split: option.split)

lemma handleMetaData_same [simp]: "same_request l (fst (snd (handleMetaData pf an gr b l)))"
proof -
  have "same_request l (fst (handleHdrDynamicMetaData pf gr b meta (handleHdrStaticMetaData an gr b meta l, 0)))" for meta
    by (rule same_request_trans[OF static_same dynamic_same])
  then show ?thesis
    by (simp add: handleMetaData_def Let_def same_request_def split: option.split prod.split)
      (metis fst_conv)
qed

lemma alignSourceCrop_same [simp]: "same_request l (alignSourceCrop src l)"
  by (simp add: alignSourceCrop_def Let_def same_request_def)

lemma preprocess_yuv_same [simp]: "same_request l (fst (preprocess_yuv pf an gr src b (l, geo)))"
proof -
  define l1 where "l1 = l\<lparr>mPreprocessedInfo := (mPreprocessedInfo l)\<lparr>pp_sourceCrop := whole_crop (mSourceCrop l)\<rparr>\<rparr>"
  obtain ret l2 ch where h: "handleMetaData pf an gr b l1 = (ret, l2, ch)" by (metis prod_cases3)
  have "same_request l l1" by (simp add: l1_def same_request_def)
  moreover have "same_request l1 l2" using handleMetaData_same[of l1 pf an gr b] h by simp
  ultimately have l2: "same_request l l2" by (rule same_request_trans)
  define s where "s = (if ret = NO_ERROR \<and> ch \<noteq> 0 then setGeometryChanged ch (l2, geo) else (l2, geo))"
  have "same_request l (fst s)" using l2 same_request_trans[OF l2 setGeometryChanged_same] by (simp add: s_def)
  moreover have "preprocess_yuv pf an gr src b (l, geo) = (alignSourceCrop src (fst s), snd s)"
    by (simp add: preprocess_yuv_def l1_def[symmetric] h s_def Let_def split_beta)
  ultimately show ?thesis using same_request_trans[OF _ alignSourceCrop_same] by simp
qed

lemma frames_same [simp]:
  "same_request l (alignDisplayFrame src l)" "same_request l (resizeDisplayFrame dst l)"
  by (simp_all add: alignDisplayFrame_def resizeDisplayFrame_def Let_def same_request_def)

section \<open>Properties\<close>

text \<open>The priority a layer's content asks for.\<close>

definition content_priority :: "'b platform_scheme \<Rightarrow> gralloc \<Rightarrow> layer \<Rightarrow> overlay_priority" where
  "content_priority pf gr l =
    (if isDrm pf gr l \<or> (mLayerBuffer l \<noteq> None \<and>
        is8KVideo (pf_hal pf) (gm_format (buffer_meta gr (mLayerBuffer l))) (mSourceCrop l)) then ePriorityMax
     else if mLayerBuffer l \<noteq> None \<and> (fmt_isYUV (mLayerFormat l) \<or> hasHdrInfo_ds pf (mDataSpace l)) then ePriorityHigh
     else if mLayerBuffer l \<noteq> None \<and> cursorSupport (lay_display l) \<and> mCompositionType l = HWC2_COMPOSITION_CURSOR
     then ePriorityMid else ePriorityLow)"

lemma setPriority_fields:
  "mOverlayPriority (fst (setPriority p (l, geo))) = p"
  "mOverlayPriority l \<noteq> p \<Longrightarrow> GEOMETRY_LAYER_PRIORITY_CHANGED AND snd (setPriority p (l, geo)) = GEOMETRY_LAYER_PRIORITY_CHANGED"
  by (simp_all add: setPriority_def setGeometryChanged_def Let_def bit.conj_disj_distrib)

lemma preprocess_content_same: "same_request l (fst (preprocess_content pf an gr src dst b (l, geo)))"
proof -
  define s where "s = (if fmt_isYUV (mLayerFormat l) then preprocess_yuv pf an gr src b (l, geo)
      else (l\<lparr>mPreprocessedInfo := (mPreprocessedInfo l)\<lparr>pp_mUsePrivateFormat := False\<rparr>\<rparr>, geo))"
  have s: "same_request l (fst s)" by (simp add: s_def) (simp add: same_request_def)
  have "same_request (fst s) (fst (preprocess_content pf an gr src dst b (l, geo)))"
    unfolding preprocess_content_def
    by (simp add: s_def[symmetric] Let_def same_request_trans[OF frames_same(1) frames_same(2)] split: prod.split)
  with s show ?thesis by (rule same_request_trans)
qed

text \<open>The layer after the assignments \<open>doPreProcess\<close> starts with.\<close>

definition start_layer :: "'b platform_scheme \<Rightarrow> android \<Rightarrow> layer \<Rightarrow> layer" where
  "start_layer pf an l = l\<lparr>mIsHdrLayer := hasHdrInfo_ds pf (mDataSpace l),
     mLayerFlag := (if mCompositionType l = HWC2_COMPOSITION_SOLID_COLOR then EXYNOS_HWC_DIM_LAYER else 0),
     mPreprocessedInfo := (mPreprocessedInfo l)\<lparr>pp_sourceCrop := mSourceCrop l, pp_displayFrame := mDisplayFrame l,
       pp_interlacedType := an_field_none an\<rparr>\<rparr>"

lemma doPreProcess_buffer:
  assumes "mLayerBuffer l = Some b"
  shows "doPreProcess pf an gr src dst (l, geo) =
    (let s = preprocess_content pf an gr src dst b (start_layer pf an l, geo)
     in setPriority (layer_priority pf gr b (fst s)) s)"
proof -
  have "mLayerBuffer (preprocess_reset an l) = Some b" using assms by (simp add: preprocess_reset_def Let_def)
  moreover have "(if hasHdrInfo_ds pf (mDataSpace (preprocess_reset an l))
      then (preprocess_reset an l)\<lparr>mIsHdrLayer := True\<rparr> else preprocess_reset an l) = start_layer pf an l"
    by (simp add: preprocess_reset_def start_layer_def Let_def)
  ultimately show ?thesis by (simp add: doPreProcess_def Let_def)
qed

text \<open>
  Preprocessing gives a layer the priority its content asks for: protected
  and 8K video must have an overlay, other video and HDR should, a cursor comes before plain layers;
  and a changed priority is reported as a geometry change.
\<close>

theorem preprocess_priority:
  "let (l', geo') = doPreProcess pf an gr src dst (l, geo) in
    mOverlayPriority l' = content_priority pf gr l \<and>
    (mOverlayPriority l \<noteq> mOverlayPriority l' \<longrightarrow>
       GEOMETRY_LAYER_PRIORITY_CHANGED AND geo' = GEOMETRY_LAYER_PRIORITY_CHANGED)"
proof (cases "mLayerBuffer l")
  case None
  then show ?thesis
    by (simp add: doPreProcess_def preprocess_reset_def content_priority_def isDrm_def Let_def setPriority_def
        setGeometryChanged_def bit.conj_disj_distrib)
next
  case (Some b)
  obtain l2 g2 where s: "preprocess_content pf an gr src dst b (start_layer pf an l, geo) = (l2, g2)" by fastforce
  have "same_request (start_layer pf an l) l2"
    using preprocess_content_same[of "start_layer pf an l" pf an gr src dst b geo] s by simp
  then have keep: "mOverlayPriority l2 = mOverlayPriority l" "layer_priority pf gr b l2 = content_priority pf gr l"
    using Some by (auto simp: same_request_def start_layer_def layer_priority_def content_priority_def isDrm_def buffer_meta_def)
  have "doPreProcess pf an gr src dst (l, geo) = setPriority (content_priority pf gr l) (l2, g2)"
    using doPreProcess_buffer[OF Some, of pf an gr src dst geo] s keep(2) by (simp add: Let_def)
  then show ?thesis using setPriority_fields keep(1) by (simp add: split_beta)
qed

subsection \<open>Broken dynamic metadata\<close>

definition hdr_error :: "layer \<Rightarrow> bool" where
  "hdr_error l \<longleftrightarrow> mLayerFlag l AND EXYNOS_HWC_FORCE_CLIENT_HDR_META_ERROR \<noteq> 0"

definition hdr_bit :: "u64 \<Rightarrow> bool" where
  "hdr_bit geo \<longleftrightarrow> geo AND GEOMETRY_LAYER_HDR_META_CHANGED \<noteq> 0"

lemma hdr_bit_or: "hdr_bit (x OR y) \<longleftrightarrow> hdr_bit x \<or> hdr_bit y"
  by (simp add: hdr_bit_def bit.conj_disj_distrib2 or_eq_0_iff)

lemma hdr_bit_consts [simp]:
  "\<not> hdr_bit 0" "hdr_bit GEOMETRY_LAYER_HDR_META_CHANGED" "\<not> hdr_bit GEOMETRY_LAYER_FORMAT_CHANGED"
  "\<not> hdr_bit GEOMETRY_LAYER_PRIORITY_CHANGED"
  by (simp_all add: hdr_bit_def code_consts)

lemma static_flag [simp]: "mLayerFlag (handleHdrStaticMetaData an gr b meta l) = mLayerFlag l"
  by (simp add: handleHdrStaticMetaData_def Let_def allocMetaParcel_def or_eType_def split: option.split)

lemma dynamic_flag:
  assumes "\<not> hdr_error l" "gr_dynamic gr b = Some ok" "gr_alloc gr \<noteq> None"
  shows "hdr_error (fst (handleHdrDynamicMetaData pf gr b meta (l, geo))) \<longleftrightarrow> \<not> ok"
    "hdr_bit (snd (handleHdrDynamicMetaData pf gr b meta (l, geo))) \<longleftrightarrow> hdr_bit geo \<or> \<not> ok"
proof -
  have alloc: "\<exists>l'. allocMetaParcel gr l = (True, l') \<and> mLayerFlag l' = mLayerFlag l"
    using assms(3) by (auto simp: allocMetaParcel_def)
  then obtain l' where l': "allocMetaParcel gr l = (True, l')" "mLayerFlag l' = mLayerFlag l" by blast
  have bits: "(x OR EXYNOS_HWC_FORCE_CLIENT_HDR_META_ERROR) AND EXYNOS_HWC_FORCE_CLIENT_HDR_META_ERROR \<noteq> 0"
    "(x AND NOT EXYNOS_HWC_FORCE_CLIENT_HDR_META_ERROR) AND EXYNOS_HWC_FORCE_CLIENT_HDR_META_ERROR = 0" for x :: u32
    by (simp_all add: code_consts bit.conj_disj_distrib2 and.assoc or_eq_0_iff)
  have flag: "mLayerFlag (or_eType v l') = mLayerFlag l" for v
    using l'(2) by (simp add: or_eType_def)
  show "hdr_error (fst (handleHdrDynamicMetaData pf gr b meta (l, geo))) \<longleftrightarrow> \<not> ok"
    using assms(2) l'(1) bits by (simp add: handleHdrDynamicMetaData_def Let_def hdr_error_def)
  show "hdr_bit (snd (handleHdrDynamicMetaData pf gr b meta (l, geo))) \<longleftrightarrow> hdr_bit geo \<or> \<not> ok"
    using assms(1,2) l'(1) bits flag
    by (simp add: handleHdrDynamicMetaData_def Let_def hdr_error_def) (simp add: hdr_bit_or)
qed

lemma handleMetaData_flag:
  assumes "\<not> hdr_error l" "gr_dynamic gr b = Some ok" "gr_alloc gr \<noteq> None" "gr_video gr b = Some (Some meta)"
  shows "fst (handleMetaData pf an gr b l) = NO_ERROR"
    "hdr_error (fst (snd (handleMetaData pf an gr b l))) \<longleftrightarrow> \<not> ok"
    "hdr_bit (snd (snd (handleMetaData pf an gr b l))) \<longleftrightarrow> \<not> ok"
proof -
  define l1 where "l1 = handleHdrStaticMetaData an gr b meta l"
  have l1: "\<not> hdr_error l1" using assms(1) by (simp add: l1_def hdr_error_def)
  obtain l2 geo where d: "handleHdrDynamicMetaData pf gr b meta (l1, 0) = (l2, geo)" by fastforce
  have l2: "hdr_error l2 \<longleftrightarrow> \<not> ok" "hdr_bit geo \<longleftrightarrow> \<not> ok"
    using dynamic_flag[OF l1 assms(2,3), where pf = pf and meta = meta and geo = 0] d by simp_all
  have upd: "hdr_error (l2\<lparr>mPreprocessedInfo := q\<rparr>) \<longleftrightarrow> hdr_error l2" for q by (simp add: hdr_error_def)
  show "fst (handleMetaData pf an gr b l) = NO_ERROR"
    using assms(4) d by (simp add: handleMetaData_def l1_def Let_def)
  show "hdr_error (fst (snd (handleMetaData pf an gr b l))) \<longleftrightarrow> \<not> ok"
    using assms(4) d l2(1) by (simp add: handleMetaData_def l1_def Let_def upd)
  show "hdr_bit (snd (snd (handleMetaData pf an gr b l))) \<longleftrightarrow> \<not> ok"
    using assms(4) d l2(2) by (simp add: handleMetaData_def l1_def Let_def) (simp add: hdr_bit_or)
qed

lemma geometry_hdr:
  "hdr_error (fst (setGeometryChanged c (l, geo))) \<longleftrightarrow> hdr_error l"
  "hdr_bit (snd (setGeometryChanged c (l, geo))) \<longleftrightarrow> hdr_bit geo \<or> hdr_bit c"
  by (simp_all add: setGeometryChanged_def hdr_error_def) (simp add: hdr_bit_or)

lemma frame_hdr [simp]:
  "hdr_error (alignSourceCrop src l) = hdr_error l" "hdr_error (alignDisplayFrame src l) = hdr_error l"
  "hdr_error (resizeDisplayFrame dst l) = hdr_error l"
  by (simp_all add: hdr_error_def alignSourceCrop_def alignDisplayFrame_def resizeDisplayFrame_def Let_def)

lemma preprocess_yuv_hdr:
  assumes "\<not> hdr_error l" "gr_dynamic gr b = Some ok" "gr_alloc gr \<noteq> None" "gr_video gr b = Some (Some meta)"
  shows "hdr_error (fst (preprocess_yuv pf an gr src b (l, 0))) \<longleftrightarrow> \<not> ok"
    "hdr_bit (snd (preprocess_yuv pf an gr src b (l, 0))) \<longleftrightarrow> \<not> ok"
proof -
  define l1 where "l1 = l\<lparr>mPreprocessedInfo := (mPreprocessedInfo l)\<lparr>pp_sourceCrop := whole_crop (mSourceCrop l)\<rparr>\<rparr>"
  obtain ret l2 ch where h: "handleMetaData pf an gr b l1 = (ret, l2, ch)" by (metis prod_cases3)
  have "\<not> hdr_error l1" using assms(1) by (simp add: l1_def hdr_error_def)
  from handleMetaData_flag[OF this assms(2-4), of pf an] h
  have ret: "ret = NO_ERROR" "hdr_error l2 \<longleftrightarrow> \<not> ok" "hdr_bit ch \<longleftrightarrow> \<not> ok" by simp_all
  have eq: "preprocess_yuv pf an gr src b (l, 0) =
      (let (l, geo) = (if ch \<noteq> 0 then setGeometryChanged ch (l2, 0) else (l2, 0)) in (alignSourceCrop src l, geo))"
    by (simp add: preprocess_yuv_def l1_def[symmetric] h ret(1) Let_def)
  show "hdr_error (fst (preprocess_yuv pf an gr src b (l, 0))) \<longleftrightarrow> \<not> ok"
    unfolding eq using ret(2) by (simp add: split_beta geometry_hdr)
  show "hdr_bit (snd (preprocess_yuv pf an gr src b (l, 0))) \<longleftrightarrow> \<not> ok"
    unfolding eq using ret(3) by (auto simp: split_beta geometry_hdr)
qed

text \<open>
  The state of broken dynamic metadata is lost between frames, because
  preprocessing clears the flags before it compares: a buffer whose metadata does not parse reports
  a geometry change on every frame, and the first good buffer after a broken one reports none, so
  nothing makes the composer reconsider the layer it had to give to the client.
\<close>

theorem hdr_error_forgotten:
  assumes "mLayerBuffer l = Some b" "fmt_isYUV (mLayerFormat l)" "gr_video gr b = Some (Some meta)"
    "gr_alloc gr \<noteq> None" "gr_dynamic gr b = Some ok"
  shows "let (l', geo') = doPreProcess pf an gr src dst (l, 0) in
    (hdr_error l' \<longleftrightarrow> \<not> ok) \<and> (hdr_bit geo' \<longleftrightarrow> \<not> ok)"
proof -
  let ?l = "start_layer pf an l"
  have l: "\<not> hdr_error ?l" "fmt_isYUV (mLayerFormat ?l)"
    using assms(2) by (simp_all add: start_layer_def hdr_error_def code_consts)
  obtain l2 g2 where p: "preprocess_yuv pf an gr src b (?l, 0) = (l2, g2)" by fastforce
  have c: "hdr_error (fst (preprocess_content pf an gr src dst b (?l, 0))) \<longleftrightarrow> \<not> ok"
    "hdr_bit (snd (preprocess_content pf an gr src dst b (?l, 0))) \<longleftrightarrow> \<not> ok"
    using preprocess_yuv_hdr[OF l(1) assms(5,4,3), of pf an src] l(2) p
    by (simp_all add: preprocess_content_def Let_def)
  have pr: "hdr_error (fst (setPriority q s)) \<longleftrightarrow> hdr_error (fst s)"
    "hdr_bit (snd (setPriority q s)) \<longleftrightarrow> hdr_bit (snd s)" for q s
    by (cases s; simp add: setPriority_def Let_def split_beta geometry_hdr)
      (cases s; simp add: setPriority_def setGeometryChanged_def hdr_error_def hdr_bit_or Let_def)+
  show ?thesis
    using c pr by (simp add: doPreProcess_buffer[OF assms(1)] Let_def split_beta)
qed

definition sample_android :: android where
  "sample_android = \<lparr>an_color_mode = (\<lambda>_. 0), an_dataspace = (\<lambda>_. 0), an_range_mask = 0, an_range_limited = 0,
     an_field_none = 1, an_field_interlaced_tb = 8, an_field_interlaced_bt = 9, an_info_invalid = 0,
     an_info_hdr_static = 1, an_info_interlaced = 4, an_info_check_pixel_format = 8\<rparr>"

definition sample_gralloc :: "bool \<Rightarrow> gralloc" where
  "sample_gralloc ok = \<lparr>gr_meta = (\<lambda>_. \<lparr>gm_fd = 3, gm_fd1 = -1, gm_fd2 = -1, gm_size = 8294400, gm_size1 = 0,
     gm_buffer_id = 7, gm_format = 0, gm_stride = 1920, gm_vstride = 1080, gm_usage = 0,
     gm_producer_usage = 0, gm_is_afbc = False, gm_is_sajc = False, gm_block_size = 0, gm_key_offset = 0\<rparr>),
     gr_null_format = 0,
     gr_video = (\<lambda>_. Some (Some \<lparr>vm_eType = 0, vm_nInterlacedType = 0, vm_nPixelFormat = 0\<rparr>)),
     gr_static = (\<lambda>_. False), gr_dynamic = (\<lambda>_. Some ok), gr_alloc = Some 0\<rparr>"

definition sample_video :: layer where
  "sample_video = (layer_new 0 0 display_reset)\<lparr>mLayerBuffer := Some 7,
     mLayerFormat := ExynosFormat (find_index (\<lambda>d. type_flags d AND FORMAT_YUV_MASK \<noteq> 0) exynos_format_desc)\<rparr>"

theorem preprocess_priority_witness:
  "let l = (layer_new 0 0 display_reset)\<lparr>mOverlayPriority := ePriorityMax\<rparr>;
       (l', geo') = doPreProcess sample_platform sample_android (sample_gralloc True) restriction_size_default
         restriction_size_default (l, 0)
   in mOverlayPriority l' = ePriorityLow \<and> GEOMETRY_LAYER_PRIORITY_CHANGED AND geo' = GEOMETRY_LAYER_PRIORITY_CHANGED"
proof -
  define l where "l = (layer_new 0 0 display_reset)\<lparr>mOverlayPriority := ePriorityMax\<rparr>"
  have p: "content_priority sample_platform (sample_gralloc True) l = ePriorityLow" "mOverlayPriority l = ePriorityMax"
    by (simp_all add: l_def content_priority_def isDrm_def layer_new_def)
  obtain l' geo' where d: "doPreProcess sample_platform sample_android (sample_gralloc True) restriction_size_default
      restriction_size_default (l, 0) = (l', geo')" by (metis prod.exhaust)
  show ?thesis
    using preprocess_priority[of sample_platform sample_android "sample_gralloc True" restriction_size_default
        restriction_size_default l 0]
    unfolding l_def[symmetric] Let_def d p by simp
qed

theorem hdr_error_forgotten_witness:
  "\<not> hdr_bit (snd (doPreProcess sample_platform sample_android (sample_gralloc True) restriction_size_default
      restriction_size_default (sample_video\<lparr>mLayerFlag := EXYNOS_HWC_FORCE_CLIENT_HDR_META_ERROR\<rparr>, 0)))"
proof -
  let ?l = "sample_video\<lparr>mLayerFlag := EXYNOS_HWC_FORCE_CLIENT_HDR_META_ERROR\<rparr>"
  have f: "mLayerBuffer ?l = Some 7" "fmt_isYUV (mLayerFormat ?l)"
    by (simp add: sample_video_def, simp add: sample_video_def, code_simp)
  have g: "gr_video (sample_gralloc True) 7 = Some (Some \<lparr>vm_eType = 0, vm_nInterlacedType = 0, vm_nPixelFormat = 0\<rparr>)"
    "gr_alloc (sample_gralloc True) \<noteq> None" "gr_dynamic (sample_gralloc True) 7 = Some True"
    by (simp_all add: sample_gralloc_def)
  obtain l' geo' where d: "doPreProcess sample_platform sample_android (sample_gralloc True) restriction_size_default
      restriction_size_default (?l, 0) = (l', geo')" by (metis prod.exhaust)
  show ?thesis
    using hdr_error_forgotten[where pf = sample_platform and an = sample_android and src = restriction_size_default
        and dst = restriction_size_default, OF f g] unfolding d by simp
qed

subsection \<open>Aligned frames\<close>

lemma align_up:
  fixes x a :: int
  assumes "0 \<le> x" "0 < a"
  shows "x \<le> pixel_align x a" "a dvd pixel_align x a" "pixel_align x a < x + a"
proof -
  have m: "0 \<le> x mod a" "x mod a < a" using assms by simp_all
  have d: "a dvd x - x mod a" by (simp add: minus_mod_eq_div_mult)
  have v: "pixel_align x a = (if x mod a \<noteq> 0 then x - x mod a + a else x)"
    using assms by (simp add: pixel_align_def smod_nonneg)
  show "x \<le> pixel_align x a" "pixel_align x a < x + a"
    unfolding v using m assms(2) by (cases "x mod a = 0"; simp; linarith)+
  show "a dvd pixel_align x a"
    unfolding v using d by (cases "x mod a = 0") (simp_all add: dvd_add)
qed

lemma align_multiple:
  assumes "0 \<le> (x :: int)" "0 < a" "a dvd x"
  shows "pixel_align x a = x" "pixel_align_down x a = x"
  using assms by (simp_all add: pixel_align_def pixel_align_down_def smod_nonneg)

definition frame_in :: "int \<Rightarrow> int \<Rightarrow> hwc_rect \<Rightarrow> bool" where
  "frame_in x y r \<longleftrightarrow> 0 \<le> rect_left r \<and> rect_left r \<le> rect_right r \<and> rect_right r \<le> x \<and>
     0 \<le> rect_top r \<and> rect_top r \<le> rect_bottom r \<and> rect_bottom r \<le> y"

text \<open>
  C40: the frame of a protected or HDR layer that lies on the display is widened to
  the least aligned size and moved back onto the display; the result lies on the display exactly when
  the aligned size is not larger than the display itself, and otherwise starts at a negative position.
\<close>

theorem aligned_frame_fits:
  assumes "frame_in x y (mDisplayFrame l)" "pp_displayFrame (mPreprocessedInfo l) = mDisplayFrame l"
    "x = int (unat (xres (lay_display l)))" "y = int (unat (yres (lay_display l)))"
    "0 < sint (cropWidthAlign src)" "0 < sint (cropHeightAlign src)"
  shows "let r = pp_displayFrame (mPreprocessedInfo (alignDisplayFrame src l));
             w = pixel_align (RECT_WIDTH (mDisplayFrame l)) (sint (cropWidthAlign src));
             h = pixel_align (RECT_HEIGHT (mDisplayFrame l)) (sint (cropHeightAlign src)) in
    RECT_WIDTH r = w \<and> RECT_HEIGHT r = h \<and> rect_right r \<le> x \<and> rect_bottom r \<le> y \<and>
    (frame_in x y r \<longleftrightarrow> w \<le> x \<and> h \<le> y) \<and> (x < w \<longrightarrow> rect_left r < 0)"
proof -
  let ?f = "mDisplayFrame l"
  define w where "w = pixel_align (RECT_WIDTH ?f) (sint (cropWidthAlign src))"
  define h where "h = pixel_align (RECT_HEIGHT ?f) (sint (cropHeightAlign src))"
  have in_f: "0 \<le> RECT_WIDTH ?f" "0 \<le> RECT_HEIGHT ?f" "0 \<le> rect_left ?f" "0 \<le> rect_top ?f"
    using assms(1) by (simp_all add: frame_in_def RECT_WIDTH_def RECT_HEIGHT_def)
  note w = align_up[OF in_f(1) assms(5), folded w_def] and h = align_up[OF in_f(2) assms(6), folded h_def]
  have multiple: "pixel_align w (sint (cropWidthAlign src)) = w" "pixel_align_down h (sint (cropHeightAlign src)) = h"
    using align_multiple[OF _ assms(5) w(2)] align_multiple[OF _ assms(6) h(2)] w(1) h(1) in_f by simp_all
  have val: "pixel_align (rect_right ?f - rect_left ?f) (sint (cropWidthAlign src)) = w"
    "pixel_align (rect_bottom ?f - rect_top ?f) (sint (cropHeightAlign src)) = h"
    by (simp_all add: w_def h_def RECT_WIDTH_def RECT_HEIGHT_def)
  define r where "r = pp_displayFrame (mPreprocessedInfo (alignDisplayFrame src l))"
  have r: "rect_left r = (if rect_left ?f + w > x then x - w else rect_left ?f)"
    "rect_right r = (if rect_left ?f + w > x then x else rect_left ?f + w)"
    "rect_top r = (if rect_top ?f + h > y then y - h else rect_top ?f)"
    "rect_bottom r = (if rect_top ?f + h > y then y else rect_top ?f + h)"
    using multiple assms(2) val
    by (simp_all add: r_def alignDisplayFrame_def Let_def assms(3,4) RECT_WIDTH_def RECT_HEIGHT_def)
  have "RECT_WIDTH r = w" "RECT_HEIGHT r = h" "rect_right r \<le> x" "rect_bottom r \<le> y"
    by (simp_all add: RECT_WIDTH_def RECT_HEIGHT_def r)
  moreover have "frame_in x y r \<longleftrightarrow> w \<le> x \<and> h \<le> y" "x < w \<longrightarrow> rect_left r < 0"
    using in_f w(1) h(1) by (auto simp: frame_in_def r)
  ultimately show ?thesis by (simp add: Let_def r_def w_def h_def)
qed

subsection \<open>Interlaced pictures\<close>

text \<open>The loop ends with the largest even height that is neither above the crop nor the buffer.\<close>

lemma interlaced_height_value:
  "unat (interlaced_height full h) = 2 * (min (unat h) (unat full) div 2)"
proof (induction full h rule: interlaced_height.induct)
  case (1 full h)
  have odd: "h mod 2 \<noteq> 0 \<longleftrightarrow> unat h mod 2 \<noteq> 0"
    by (simp add: unat_mod word_unat_eq_iff)
  show ?case
  proof (cases "h mod 2 \<noteq> 0 \<or> h > full")
    case True
    then have "h \<noteq> 0" by (auto simp: not_less)
    then have dec: "unat (h - 1) = unat h - 1" "0 < unat h" by (simp_all add: unat_minus_one unat_gt_0)
    have "unat h mod 2 \<noteq> 0 \<or> unat full < unat h" using True odd by (simp add: word_less_nat_alt)
    then have "min (unat h - 1) (unat full) div 2 = min (unat h) (unat full) div 2"
      using dec(2) by (auto simp: min_def) presburger+
    with 1[OF True] dec True show ?thesis by (simp add: interlaced_height.simps[of full h])
  next
    case False
    then have "unat h mod 2 = 0" "unat h \<le> unat full" using odd by (simp_all add: not_less word_le_nat_alt)
    with False show ?thesis by (simp add: interlaced_height.simps[of full h] min_def) presburger
  qed
qed

theorem aligned_frame_fits_witness:
  "let l = (layer_new 0 0 (display_reset\<lparr>xres := 1080, yres := 2340\<rparr>))\<lparr>mDisplayFrame :=
         \<lparr>rect_left = 0, rect_top = 0, rect_right = 1080, rect_bottom = 608\<rparr>,
       mPreprocessedInfo := (mPreprocessedInfo (layer_new 0 0 display_reset))\<lparr>pp_displayFrame :=
         \<lparr>rect_left = 0, rect_top = 0, rect_right = 1080, rect_bottom = 608\<rparr>\<rparr>\<rparr>;
       src = restriction_size_default\<lparr>cropWidthAlign := 16, cropHeightAlign := 16\<rparr> in
   rect_left (pp_displayFrame (mPreprocessedInfo (alignDisplayFrame src l))) < 0"
proof -
  define f where "f = \<lparr>rect_left = 0, rect_top = 0, rect_right = 1080, rect_bottom = 608\<rparr>"
  define l where "l = (layer_new 0 0 (display_reset\<lparr>xres := 1080, yres := 2340\<rparr>))\<lparr>mDisplayFrame := f,
       mPreprocessedInfo := (mPreprocessedInfo (layer_new 0 0 display_reset))\<lparr>pp_displayFrame := f\<rparr>\<rparr>"
  define src where "src = restriction_size_default\<lparr>cropWidthAlign := 16, cropHeightAlign := 16\<rparr>"
  have h: "frame_in 1080 2340 (mDisplayFrame l)" "pp_displayFrame (mPreprocessedInfo l) = mDisplayFrame l"
    "1080 = int (unat (xres (lay_display l)))" "2340 = int (unat (yres (lay_display l)))"
    "0 < sint (cropWidthAlign src)" "0 < sint (cropHeightAlign src)" "mDisplayFrame l = f" "cropWidthAlign src = 16"
    by (simp_all add: l_def src_def f_def frame_in_def layer_new_def)
  have "pixel_align (RECT_WIDTH f) 16 = 1088" by (simp add: f_def RECT_WIDTH_def pixel_align_def smod_nonneg)
  with aligned_frame_fits[OF h(1-6)] h(7,8) have "rect_left (pp_displayFrame (mPreprocessedInfo (alignDisplayFrame src l))) < 0"
    by (simp add: Let_def)
  then show ?thesis by (simp add: l_def src_def f_def)
qed

subsection \<open>Reported changes\<close>

text \<open>The requests of a client that can change what the resources have to do, and the bit of each.\<close>

datatype layer_request =
    Req_blend int | Req_type hwc2_composition | Req_dataspace u32 | Req_frame hwc_rect | Req_crop hwc_frect
  | Req_transform int | Req_zorder u32

definition request_do :: "'b platform_scheme \<Rightarrow> android \<Rightarrow> gralloc \<Rightarrow> layer_request \<Rightarrow> layer_geo \<Rightarrow> layer_geo" where
  "request_do pf an gr r s = (case r of
     Req_blend mode \<Rightarrow> snd (setLayerBlendMode mode s)
   | Req_type type \<Rightarrow> snd (setLayerCompositionType type s)
   | Req_dataspace ds \<Rightarrow> setLayerDataspace pf an gr ds s
   | Req_frame f \<Rightarrow> setLayerDisplayFrame f s
   | Req_crop c \<Rightarrow> setLayerSourceCrop c s
   | Req_transform t \<Rightarrow> setLayerTransform t s
   | Req_zorder z \<Rightarrow> setLayerZOrder z s)"

definition request_bit :: "layer_request \<Rightarrow> u64" where
  "request_bit r = (case r of
     Req_blend _ \<Rightarrow> GEOMETRY_LAYER_BLEND_CHANGED | Req_type _ \<Rightarrow> GEOMETRY_LAYER_TYPE_CHANGED
   | Req_dataspace _ \<Rightarrow> GEOMETRY_LAYER_DATASPACE_CHANGED | Req_frame _ \<Rightarrow> GEOMETRY_LAYER_DISPLAYFRAME_CHANGED
   | Req_crop _ \<Rightarrow> GEOMETRY_LAYER_SOURCECROP_CHANGED | Req_transform _ \<Rightarrow> GEOMETRY_LAYER_TRANSFORM_CHANGED
   | Req_zorder _ \<Rightarrow> GEOMETRY_LAYER_ZORDER_CHANGED)"

text \<open>A crop of an RGB layer that only moves: same whole-pixel size.\<close>

definition silent_move :: "layer_request \<Rightarrow> layer \<Rightarrow> bool" where
  "silent_move r l = (case r of
     Req_crop c \<Rightarrow> \<not> (mLayerBuffer l \<noteq> None \<and> fmt_isYUV (mLayerFormat l)) \<and>
       FRECT_WIDTH c = FRECT_WIDTH (mSourceCrop l) \<and> FRECT_HEIGHT c = FRECT_HEIGHT (mSourceCrop l)
   | _ \<Rightarrow> False)"

lemma request_upd:
  "l\<lparr>mBlending := v1\<rparr> = l \<longleftrightarrow> mBlending l = v1"
  "l\<lparr>mSfCompositionType := v2, mCompositionType := v3\<rparr> = l \<longleftrightarrow> mSfCompositionType l = v2 \<and> mCompositionType l = v3"
  "l\<lparr>mDataSpace := v4\<rparr> = l \<longleftrightarrow> mDataSpace l = v4" "l\<lparr>mDisplayFrame := v5\<rparr> = l \<longleftrightarrow> mDisplayFrame l = v5"
  "l\<lparr>mSourceCrop := v6\<rparr> = l \<longleftrightarrow> mSourceCrop l = v6" "l\<lparr>mTransform := v7\<rparr> = l \<longleftrightarrow> mTransform l = v7"
  "l\<lparr>mZOrder := v8\<rparr> = l \<longleftrightarrow> mZOrder l = v8" for l :: layer
  by (cases l; auto)+

text \<open>
  A request that changes a layer adds its bit, and only its bit, to the geometry
  words of the layer and of the display, unless it merely moves the crop of an RGB layer; a request
  that changes nothing adds no bit. So skipping a validation on an unchanged geometry word never
  uses the assignment of another request.
\<close>

theorem request_reported:
  assumes "mCompositionType l = mSfCompositionType l"
  shows "let (l', geo') = request_do pf an gr r (l, geo); plain = l'\<lparr>mGeometryChanged := mGeometryChanged l\<rparr> in
    (if plain = l \<or> silent_move r l then mGeometryChanged l' = mGeometryChanged l \<and> geo' = geo
     else mGeometryChanged l' = mGeometryChanged l OR request_bit r \<and> geo' = geo OR request_bit r)"
proof -
  have rect: "(a :: hwc_rect) = b \<longleftrightarrow> rect_left a = rect_left b \<and> rect_top a = rect_top b \<and> rect_right a = rect_right b \<and>
      rect_bottom a = rect_bottom b" for a b by (cases a; cases b) simp
  have frect: "(a :: hwc_frect) = b \<longleftrightarrow> frect_left a = frect_left b \<and> frect_top a = frect_top b \<and> frect_right a = frect_right b \<and>
      frect_bottom a = frect_bottom b" for a b by (cases a; cases b) simp
  show ?thesis
  proof (cases r)
    case (Req_crop c)
    then show ?thesis
      by (cases "c = mSourceCrop l")
        (auto simp: request_do_def request_bit_def silent_move_def setLayerSourceCrop_def setGeometryChanged_def Let_def
          request_upd frect[of _ "mSourceCrop l"])
  next
    case (Req_frame f)
    then show ?thesis
      by (cases "f = mDisplayFrame l")
        (auto simp: request_do_def request_bit_def silent_move_def setLayerDisplayFrame_def setGeometryChanged_def Let_def
          request_upd rect[of _ "mDisplayFrame l"])
  qed (use assms in \<open>auto simp: request_do_def request_bit_def silent_move_def setLayerBlendMode_def
      setLayerCompositionType_def setLayerDataspace_def setLayerTransform_def setLayerZOrder_def
      setGeometryChanged_def Let_def request_upd\<close>)
qed

theorem request_reported_witness:
  "snd (request_do sample_platform sample_android (sample_gralloc True) (Req_zorder 5) (layer_new 0 0 display_reset, 0))
     = GEOMETRY_LAYER_ZORDER_CHANGED"
proof -
  have "mCompositionType (layer_new 0 0 display_reset) = mSfCompositionType (layer_new 0 0 display_reset)"
    by (simp add: layer_new_def)
  from request_reported[where r = "Req_zorder 5" and geo = 0 and pf = sample_platform and an = sample_android
      and gr = "sample_gralloc True", OF this]
  show ?thesis
    by (simp add: request_do_def setLayerZOrder_def setGeometryChanged_def layer_new_def silent_move_def
        request_bit_def Let_def)
qed

end
