(* ===== verification/HwcDisplay.thy ===== *)
theory HwcDisplay
  imports HwcLayer
begin

text \<open>
  How a display groups its layers (\<open>display/ExynosDisplay.cpp\<close>): the client composition (the GPU
  draws a range of layers into one buffer), the Exynos composition (the 2D engine does) and the layers
  that get a window of the display controller of their own. \<open>hwc\<close> is the state these operations and
  the resource manager share: the display's fields, the resources by address with the manager's two
  lists of addresses, and the store of sources. A pointer is an address; the layers are in z-order.
\<close>

section \<open>The state\<close>

datatype composition_target = COMPOSITION_NONE | COMPOSITION_CLIENT | COMPOSITION_EXYNOS | COMPOSITION_MAX

text \<open>\<open>cmp_source\<close> is the address of the \<open>ExynosMPPSource\<close> part.\<close>

record composition_info =
  cmp_source :: nat
  cmp_mType :: composition_target
  mHasCompositionLayer :: bool
  mFirstIndex :: int
  mLastIndex :: int
  cmp_mTargetBuffer :: buffer_handle
  cmp_mDataSpace :: u32
  cmp_mAcquireFence :: int
  cmp_mReleaseFence :: int
  cmp_mWindowIndex :: int
  cmp_mCompressionInfo :: compressionInfo_t
  mBlendingMPP :: "nat option"
  cmp_mFormat :: ExynosFormat

text \<open>
  \<open>hw_acrylic\<close> tells which resources have an accelerator handle, \<open>hw_answers\<close> the answers of the 2D
  engine's driver to the coming requests for priority (0: granted, 1: busy, negative: failed; granted
  when the list is empty). \<open>forceGpu\<close> is the debug switch of \<open>exynosHWCControl\<close>.
\<close>

record hwc =
  hw_sources :: store
  hw_mpps :: "nat \<Rightarrow> mpp"
  mOtfMPPs_list :: "nat list"
  mM2mMPPs_list :: "nat list"
  hw_acrylic :: "nat \<Rightarrow> bool"
  hw_answers :: "int list"
  hw_tracer :: fence_tracer
  forceGpu :: bool
  mLayers :: "layer list"
  mClientCompositionInfo :: composition_info
  mExynosCompositionInfo :: composition_info
  mWindowNumUsed :: u32
  mMaxWindowNum :: u32
  mBaseWindowIndex :: u32
  mUseDpu :: bool
  mXres :: u32
  mYres :: u32
  mColorMode :: u32
  mDisplayInfo :: DisplayInfo
  mDisplayId :: u32
  mDisplayType :: u32
  mPlugState :: bool
  mSinkHdrSupported :: bool
  mHasHdr10PlusLayer :: bool
  mCursorIndex :: int
  ctl_cursorSupport :: bool
  ctl_useMaxG2DSrc :: bool
  ctl_enableExynosCompositionOptimization :: bool
  mColorTransformHint :: int
  mUseDynamicRecomp :: bool
  mDynamicRecompToClient :: bool

text \<open>
  What does not change while resources are assigned. \<open>ev_bootanim\<close>: the build sends everything to the
  GPU during the boot animation, and it is running. \<open>ev_color_transform\<close>: the build has
  \<open>HWC_SUPPORT_COLOR_TRANSFORM\<close>; \<open>ev_identity\<close> is the code of the identity transform. \<open>ev_plugged\<close>:
  the display with this identifier exists and is plugged in; \<open>ev_virtual\<close>: the resource is meant for
  virtual displays (\<open>mPreAssignDisplayInfo\<close>).
\<close>

record hwc_env =
  ev_pf :: platform
  ev_an :: android
  ev_gr :: gralloc
  ev_tabs :: ppc_tables
  ev_hooks :: "nat \<Rightarrow> mpp_hooks"
  ev_bootanim :: bool
  ev_color_transform :: bool
  ev_identity :: int
  ev_plugged :: "u32 \<Rightarrow> bool"
  ev_virtual :: "nat \<Rightarrow> bool"

definition EXYNOS_ERROR_CHANGED :: int where [code_consts]: "EXYNOS_ERROR_CHANGED = 1"

definition eSkipLayer :: u32 where [code_consts]: "eSkipLayer = 0x00000001"
definition eInvalidHandle :: u32 where [code_consts]: "eInvalidHandle = 0x00000002"
definition eHasFloatSrcCrop :: u32 where [code_consts]: "eHasFloatSrcCrop = 0x00000004"
definition eUpdateExynosComposition :: u32 where [code_consts]: "eUpdateExynosComposition = 0x00000008"
definition eDynamicRecomposition :: u32 where [code_consts]: "eDynamicRecomposition = 0x00000010"
definition eForceFbEnabled :: u32 where [code_consts]: "eForceFbEnabled = 0x00000020"
definition eSandwitchedBetweenGLES :: u32 where [code_consts]: "eSandwitchedBetweenGLES = 0x00000040"
definition eSandwitchedBetweenEXYNOS :: u32 where [code_consts]: "eSandwitchedBetweenEXYNOS = 0x00000080"
definition eInsufficientWindow :: u32 where [code_consts]: "eInsufficientWindow = 0x00000100"
definition eInsufficientMPP :: u32 where [code_consts]: "eInsufficientMPP = 0x00000200"
definition eDimLayer :: u32 where [code_consts]: "eDimLayer = 0x00001000"
definition eResourcePendingWork :: u32 where [code_consts]: "eResourcePendingWork = 0x00002000"
definition eUnSupportedColorTransform :: u32 where [code_consts]: "eUnSupportedColorTransform = 0x00008000"
definition eInvalidVideoMetaData :: u32 where [code_consts]: "eInvalidVideoMetaData = 0x00010000"
definition eInvalidDispFrame :: u32 where [code_consts]: "eInvalidDispFrame = 0x00020000"
definition eExceedMaxLayerNum :: u32 where [code_consts]: "eExceedMaxLayerNum = 0x00040000"
definition eFroceClientLayer :: u32 where [code_consts]: "eFroceClientLayer = 0x00080000"
definition eRemoveDynamicMetadata :: u32 where [code_consts]: "eRemoveDynamicMetadata = 0x00100000"
definition eMPPUnsupported :: u32 where [code_consts]: "eMPPUnsupported = 0x40000000"
definition eUnknown :: u32 where [code_consts]: "eUnknown = 0x80000000"

section \<open>Access\<close>

definition cmp_info :: "composition_target \<Rightarrow> hwc \<Rightarrow> composition_info" where
  "cmp_info t w = (if t = COMPOSITION_CLIENT then mClientCompositionInfo w else mExynosCompositionInfo w)"

definition upd_info :: "composition_target \<Rightarrow> (composition_info \<Rightarrow> composition_info) \<Rightarrow> hwc \<Rightarrow> hwc" where
  "upd_info t f w = (if t = COMPOSITION_CLIENT then w\<lparr>mClientCompositionInfo := f (mClientCompositionInfo w)\<rparr>
                     else w\<lparr>mExynosCompositionInfo := f (mExynosCompositionInfo w)\<rparr>)"

definition upd_layer :: "nat \<Rightarrow> (layer \<Rightarrow> layer) \<Rightarrow> hwc \<Rightarrow> hwc" where
  "upd_layer i f w = w\<lparr>mLayers := (mLayers w)[i := f (mLayers w ! i)]\<rparr>"

definition upd_source :: "nat \<Rightarrow> (mpp_source \<Rightarrow> mpp_source) \<Rightarrow> hwc \<Rightarrow> hwc" where
  "upd_source a f w = w\<lparr>hw_sources := (hw_sources w)(a := f (hw_sources w a))\<rparr>"

definition layer_type :: "nat \<Rightarrow> hwc \<Rightarrow> hwc2_composition" where
  "layer_type i w = mValidateCompositionType (mLayers w ! i)"

definition set_layer_type :: "nat \<Rightarrow> hwc2_composition \<Rightarrow> hwc \<Rightarrow> hwc" where
  "set_layer_type i t = upd_layer i (\<lambda>l. l\<lparr>mValidateCompositionType := t\<rparr>)"

definition or_overlay :: "nat \<Rightarrow> u32 \<Rightarrow> hwc \<Rightarrow> hwc" where
  "or_overlay i b = upd_layer i (\<lambda>l. l\<lparr>mOverlayInfo := mOverlayInfo l OR b\<rparr>)"

text \<open>An operation of a resource, which works on the store and the resource.\<close>

definition on_mpp :: "nat \<Rightarrow> (pool \<Rightarrow> pool) \<Rightarrow> hwc \<Rightarrow> hwc" where
  "on_mpp a f w = (let (st, m) = f (hw_sources w, hw_mpps w a)
                   in w\<lparr>hw_sources := st, hw_mpps := (hw_mpps w)(a := m)\<rparr>)"

definition assign_mpp :: "hwc_env \<Rightarrow> nat \<Rightarrow> nat \<Rightarrow> hwc \<Rightarrow> int \<times> hwc" where
  "assign_mpp ev a source w =
    (let (ret, st, m) = assignMPP (ev_pf ev) (ev_tabs ev) (mDisplayInfo w) source (hw_sources w, hw_mpps w a)
     in (ret, w\<lparr>hw_sources := st, hw_mpps := (hw_mpps w)(a := m)\<rparr>))"

text \<open>The layer's \<open>resetAssignedResource\<close>.\<close>

definition resetAssignedResource :: "hwc_env \<Rightarrow> nat \<Rightarrow> hwc \<Rightarrow> hwc" where
  "resetAssignedResource ev i w =
    (let a = lay_source (mLayers w ! i);
         w = (case mM2mMPP (hw_sources w a) of None \<Rightarrow> w
              | Some m \<Rightarrow> upd_source a (\<lambda>s. s\<lparr>mM2mMPP := None\<rparr>)
                           (on_mpp m (resetAssignedState1 (ev_pf ev) (ev_tabs ev) a) w))
     in case mOtfMPP (hw_sources w a) of None \<Rightarrow> w
        | Some m \<Rightarrow> upd_source a (\<lambda>s. s\<lparr>mOtfMPP := None\<rparr>) (on_mpp m resetAssignedState w))"

section \<open>Composition targets\<close>

definition close_if_open :: "DisplayIdentifier \<Rightarrow> int \<Rightarrow> fence_tracer \<Rightarrow> fence_tracer" where
  "close_if_open d fence t =
    (if fence \<ge> 0 then snd (fence_close fence d FENCE_TYPE_UNDEFINED FENCE_IP_UNDEFINED t) else t)"

definition initializeInfos :: "composition_target \<Rightarrow> hwc \<Rightarrow> hwc" where
  "initializeInfos t w =
    (let c = cmp_info t w;
         d = displayIdentifier (mDisplayInfo w);
         tracer = close_if_open d (cmp_mReleaseFence c) (close_if_open d (cmp_mAcquireFence c) (hw_tracer w));
         exynos = (cmp_mType c = COMPOSITION_EXYNOS);
         c = c\<lparr>mHasCompositionLayer := False, mFirstIndex := -1, mLastIndex := -1, cmp_mTargetBuffer := None,
               cmp_mDataSpace := (if exynos then 0 else cmp_mDataSpace c), cmp_mAcquireFence := -1,
               cmp_mReleaseFence := -1, cmp_mWindowIndex := -1\<rparr>;
         w = upd_source (cmp_source c) (\<lambda>s. s\<lparr>mOtfMPP := None,
               mM2mMPP := (if exynos \<and> mM2mMPP s = None then mBlendingMPP c else mM2mMPP s)\<rparr>) w
     in upd_info t (\<lambda>_. c) (w\<lparr>hw_tracer := tracer\<rparr>))"

text \<open>The images of a composition target; the caller's images keep what is not written.\<close>

definition target_src_base :: "hwc_env \<Rightarrow> hwc \<Rightarrow> exynos_image \<Rightarrow> exynos_image" where
  "target_src_base ev w img = img\<lparr>fullWidth := mXres w, fullHeight := mYres w, img_x := 0, img_y := 0,
     img_w := mXres w, img_h := mYres w, layerFlags := 0, releaseFenceFd := -1,
     blending := pf_blend (ev_pf ev) BLEND_MODE_PREMULTIPLIED, transform := 0, planeAlpha := 1, zOrder := 0\<rparr>"

definition target_dst_base :: "hwc_env \<Rightarrow> hwc \<Rightarrow> u32 \<Rightarrow> exynos_image \<Rightarrow> exynos_image" where
  "target_dst_base ev w src_ds img = img\<lparr>fullWidth := mXres w, fullHeight := mYres w, img_x := 0, img_y := 0,
     img_w := mXres w, img_h := mYres w, bufferHandle := None,
     exynosFormat := format_of (pf_hal (ev_pf ev)) (pf_hal (ev_pf ev) HAL_PIXEL_FORMAT_RGBA_8888), usageFlags := 0,
     layerFlags := 0, acquireFenceFd := -1, releaseFenceFd := -1,
     dataSpace := (if mColorMode w \<noteq> 0 then colorModeToDataspace (ev_pf ev) (ev_an ev) (mColorMode w) else src_ds),
     blending := pf_blend (ev_pf ev) BLEND_MODE_NONE, transform := 0, planeAlpha := 1, zOrder := 0\<rparr>"

definition target_src_info :: "hwc_env \<Rightarrow> composition_target \<Rightarrow> hwc \<Rightarrow> exynos_image \<Rightarrow> exynos_image" where
  "target_src_info ev t w img =
    (let c = cmp_info t w;
         img = (case cmp_mTargetBuffer c of
                  Some b \<Rightarrow> img\<lparr>bufferHandle := Some b, exynosFormat := cmp_mFormat c,
                               usageFlags := gm_producer_usage (gr_meta (ev_gr ev) b)\<rparr>
                | None \<Rightarrow> img\<lparr>bufferHandle := None, usageFlags := 0,
                    exynosFormat := format_of (pf_hal (ev_pf ev)) (pf_hal (ev_pf ev) HAL_PIXEL_FORMAT_RGBA_8888)\<rparr>);
         img = img\<lparr>acquireFenceFd := cmp_mAcquireFence c, dataSpace := cmp_mDataSpace c,
                   compressionInfo := cmp_mCompressionInfo c\<rparr>
     in if t = COMPOSITION_CLIENT \<and> \<not> mUseDpu w
        then img\<lparr>zOrder := (if mLastIndex c < mLastIndex (mExynosCompositionInfo w) then 0 else 1000)\<rparr> else img)"

definition setCompositionTargetExynosImage ::
  "hwc_env \<Rightarrow> composition_target \<Rightarrow> hwc \<Rightarrow> exynos_image \<times> exynos_image \<Rightarrow> int \<times> exynos_image \<times> exynos_image" where
  "setCompositionTargetExynosImage ev t w = (\<lambda>(src, dst).
    (if t = COMPOSITION_NONE \<or> t = COMPOSITION_MAX then (- EINVAL, src, dst)
     else
       (let src = target_src_base ev w src;
            dst = target_dst_base ev w (dataSpace src) dst
        in (NO_ERROR, target_src_info ev t w src,
            dst\<lparr>compressionInfo := cmp_mCompressionInfo (cmp_info t w)\<rparr>))))"

definition set_target_images :: "composition_target \<Rightarrow> exynos_image \<Rightarrow> exynos_image \<Rightarrow> hwc \<Rightarrow> hwc" where
  "set_target_images t src dst w = upd_source (cmp_source (cmp_info t w)) (setExynosImage src dst) w"

definition initializeValidateInfos :: "hwc_env \<Rightarrow> hwc \<Rightarrow> hwc" where
  "initializeValidateInfos ev w =
    (let cursor = fold (\<lambda>i c. if ctl_cursorSupport w \<and> mCompositionType (mLayers w ! i) = HWC2_COMPOSITION_CURSOR
                              then int i else c) [0..<length (mLayers w)] (-1);
         w = w\<lparr>mCursorIndex := cursor,
               mLayers := map (\<lambda>l. l\<lparr>mValidateCompositionType := HWC2_COMPOSITION_INVALID, mOverlayInfo := 0\<rparr>) (mLayers w)\<rparr>;
         w = initializeInfos COMPOSITION_CLIENT w;
         (_, src, dst) = setCompositionTargetExynosImage ev COMPOSITION_CLIENT w (image_reset, image_reset);
         w = set_target_images COMPOSITION_CLIENT src dst w;
         w = initializeInfos COMPOSITION_EXYNOS w;
         (_, src, dst) = setCompositionTargetExynosImage ev COMPOSITION_EXYNOS w (src, dst)
     in set_target_images COMPOSITION_EXYNOS src dst w)"

section \<open>Ranges of layers\<close>

text \<open>The layers a client range encloses join it, except opaque ones of high priority.\<close>

definition keeps_overlay :: "layer \<Rightarrow> bool" where
  "keeps_overlay l \<longleftrightarrow> mPlaneAlpha l = 1 \<and> mOverlayPriority l \<ge> ePriorityHigh"

definition sandwich_client :: "hwc_env \<Rightarrow> nat \<Rightarrow> hwc \<times> bool \<Rightarrow> hwc \<times> bool" where
  "sandwich_client ev i = (\<lambda>(w, exynosCompositionChanged).
    (if keeps_overlay (mLayers w ! i) then (w, exynosCompositionChanged)
     else if layer_type i w \<noteq> HWC2_COMPOSITION_CLIENT then
       (let changed = (exynosCompositionChanged \<or> layer_type i w = HWC2_COMPOSITION_EXYNOS);
            w = (if layer_type i w = HWC2_COMPOSITION_DEVICE then w\<lparr>mWindowNumUsed := mWindowNumUsed w - 1\<rparr> else w);
            w = resetAssignedResource ev i w;
            w = set_layer_type i HWC2_COMPOSITION_CLIENT w
        in (or_overlay i eSandwitchedBetweenGLES w, changed))
     else (w, exynosCompositionChanged)))"

text \<open>The first and last layer the 2D engine still composes.\<close>

definition exynos_layers :: "hwc \<Rightarrow> nat list" where
  "exynos_layers w = filter (\<lambda>i. layer_type i w = HWC2_COMPOSITION_EXYNOS) [0..<length (mLayers w)]"

definition shrink_exynos :: "hwc \<Rightarrow> int \<times> hwc" where
  "shrink_exynos w =
    (case exynos_layers w of
       [] \<Rightarrow> (EXYNOS_ERROR_CHANGED, initializeInfos COMPOSITION_EXYNOS w)
     | is \<Rightarrow> (NO_ERROR, upd_info COMPOSITION_EXYNOS (\<lambda>c. c\<lparr>mFirstIndex := int (hd is), mLastIndex := int (last is)\<rparr>) w))"

text \<open>The value is the return code, what \<open>isExynosCompositionChanged\<close> is set to, and the state.\<close>

definition addClientCompositionLayer :: "hwc_env \<Rightarrow> nat \<Rightarrow> hwc \<Rightarrow> int \<times> bool \<times> hwc" where
  "addClientCompositionLayer ev layerIndex w =
    (let c = mClientCompositionInfo w; n = int layerIndex in
     if \<not> mHasCompositionLayer c then
       (EXYNOS_ERROR_CHANGED, False,
        upd_info COMPOSITION_CLIENT (\<lambda>c. c\<lparr>mFirstIndex := n, mLastIndex := n, mHasCompositionLayer := True\<rparr>) w)
     else
       (let w = upd_info COMPOSITION_CLIENT (\<lambda>c. c\<lparr>mFirstIndex := min (mFirstIndex c) n, mLastIndex := max (mLastIndex c) n\<rparr>) w;
            first = mFirstIndex (mClientCompositionInfo w); last_i = mLastIndex (mClientCompositionInfo w)
        in if first < 0 \<or> last_i < 0 then (- EINVAL, False, w)
           else
             (let (w, changed) = fold (sandwich_client ev) [nat first + 1..<nat last_i] (w, False);
                  e = mExynosCompositionInfo w
              in if \<not> changed then (NO_ERROR, False, w)
                 else if mFirstIndex e < 0 \<or> mLastIndex e < 0 then (- EINVAL, False, w)
                 else (let (ret, w) = shrink_exynos w in (ret, True, w)))))"

definition removeClientCompositionLayer :: "hwc_env \<Rightarrow> nat \<Rightarrow> hwc \<Rightarrow> int \<times> hwc" where
  "removeClientCompositionLayer ev layerIndex w =
    (let c = mClientCompositionInfo w; n = int layerIndex in
     if \<not> mHasCompositionLayer c \<or> (mFirstIndex c \<noteq> n \<and> mLastIndex c \<noteq> n) then (- EINVAL, w)
     else if mFirstIndex c = mLastIndex c then
       (case mOtfMPP (hw_sources w (cmp_source c)) of
          None \<Rightarrow> (- EINVAL, w)
        | Some m \<Rightarrow>
            (let w = initializeInfos COMPOSITION_CLIENT (on_mpp m resetAssignedState w)
             in (NO_ERROR, w\<lparr>mWindowNumUsed := mWindowNumUsed w - 1\<rparr>)))
     else if n = mFirstIndex c then (NO_ERROR, upd_info COMPOSITION_CLIENT (\<lambda>c. c\<lparr>mFirstIndex := mFirstIndex c + 1\<rparr>) w)
     else (NO_ERROR, upd_info COMPOSITION_CLIENT (\<lambda>c. c\<lparr>mLastIndex := mLastIndex c - 1\<rparr>) w))"

section \<open>The composition of the 2D engine\<close>

definition set_images :: "nat \<Rightarrow> exynos_image \<Rightarrow> exynos_image \<Rightarrow> hwc \<Rightarrow> hwc" where
  "set_images i src dst w =
     upd_source (lay_source (mLayers w ! i)) (\<lambda>s. setExynosMidImage dst (setExynosImage src dst s)) w"

definition supports_layer :: "nat \<Rightarrow> nat \<Rightarrow> hwc \<Rightarrow> bool" where
  "supports_layer a i w \<longleftrightarrow> mSupportedMPPFlag (mLayers w ! i) AND mLogicalType (hw_mpps w a) \<noteq> 0"

definition src_of :: "hwc_env \<Rightarrow> nat \<Rightarrow> hwc \<Rightarrow> exynos_image" where
  "src_of ev i w = layer_src (ev_pf ev) (ev_an ev) (ev_gr ev) (mLayers w ! i)"

definition dst_of :: "hwc_env \<Rightarrow> nat \<Rightarrow> hwc \<Rightarrow> exynos_image" where
  "dst_of ev i w = layer_dst (ev_pf ev) (ev_an ev) (ev_gr ev) (mLayers w ! i)"

text \<open>
  One layer between the first and the last layer of the 2D engine. \<open>capa\<close> is the capacity used by
  the other resources of the engine. The state holds the indices of high-priority layers, whether the
  range is invalid, and the change flag.
\<close>

record sandwich =
  sw_hwc :: hwc
  sw_high :: "nat list"
  sw_invalid :: bool
  sw_change :: int

text \<open>The layer goes to the client, for the 2D engine cannot take it.\<close>

definition sandwich_to_client :: "hwc_env \<Rightarrow> nat \<Rightarrow> sandwich \<Rightarrow> int \<times> sandwich" where
  "sandwich_to_client ev i s =
    (let w = set_layer_type i HWC2_COMPOSITION_CLIENT (resetAssignedResource ev i (sw_hwc s));
         (ret, _, w) = addClientCompositionLayer ev i w;
         s = s\<lparr>sw_hwc := w, sw_invalid := True\<rparr>
     in if ret < 0 then (ret, s) else (NO_ERROR, s\<lparr>sw_change := or (sw_change s) ret\<rparr>))"

text \<open>The layer joins the 2D engine's composition.\<close>

definition sandwich_to_exynos :: "hwc_env \<Rightarrow> nat \<Rightarrow> nat \<Rightarrow> sandwich \<Rightarrow> int \<times> sandwich" where
  "sandwich_to_exynos ev a i s =
    (let w = resetAssignedResource ev i (or_overlay i eSandwitchedBetweenEXYNOS (sw_hwc s));
         (ret, w) = assign_mpp ev a (lay_source (mLayers w ! i)) w
     in if ret \<noteq> NO_ERROR then (ret, s\<lparr>sw_hwc := w\<rparr>)
        else
          (let w = (if layer_type i w = HWC2_COMPOSITION_DEVICE then w\<lparr>mWindowNumUsed := mWindowNumUsed w - 1\<rparr> else w);
               w = set_layer_type i HWC2_COMPOSITION_EXYNOS w;
               w = upd_info COMPOSITION_EXYNOS (\<lambda>c. c\<lparr>mFirstIndex := min (mFirstIndex c) (int i),
                                                       mLastIndex := max (mLastIndex c) (int i)\<rparr>) w
           in (NO_ERROR, s\<lparr>sw_hwc := w\<rparr>)))"

definition sandwich_exynos :: "hwc_env \<Rightarrow> nat \<Rightarrow> rat \<Rightarrow> nat \<Rightarrow> sandwich \<Rightarrow> int \<times> sandwich" where
  "sandwich_exynos ev a capa i s =
    (let w = sw_hwc s in
     if mOverlayPriority (mLayers w ! i) \<ge> ePriorityHigh then (NO_ERROR, s\<lparr>sw_high := sw_high s @ [i]\<rparr>)
     else if layer_type i w = HWC2_COMPOSITION_EXYNOS then (NO_ERROR, s)
     else
       (let src = src_of ev i w; dst = dst_of ev i w;
            w = set_images i src dst w;
            s = s\<lparr>sw_hwc := w\<rparr>;
            assignable = (if supports_layer a i w
              then isAssignable (ev_pf ev) (ev_tabs ev) (hw_sources w) (hw_mpps w a) (mDisplayInfo w) src dst
                     (fl_add capa (mUsedCapacity (hw_mpps w a)))
              else False)
        in if layer_type i w = HWC2_COMPOSITION_CLIENT then (NO_ERROR, s\<lparr>sw_invalid := True\<rparr>)
           else if \<not> supports_layer a i w \<or> \<not> assignable then sandwich_to_client ev i s
           else if layer_type i w = HWC2_COMPOSITION_DEVICE \<or> layer_type i w = HWC2_COMPOSITION_INVALID
           then sandwich_to_exynos ev a i s
           else (NO_ERROR, s)))"

text \<open>
  The loop over the range, whose last index the body can change: the indices from the first on, as
  long as they are not above the current last index.
\<close>

fun sandwich_loop :: "hwc_env \<Rightarrow> nat \<Rightarrow> rat \<Rightarrow> nat list \<Rightarrow> sandwich \<Rightarrow> int \<times> sandwich" where
  "sandwich_loop ev a capa [] s = (NO_ERROR, s)"
| "sandwich_loop ev a capa (i # is) s =
    (if int i > mLastIndex (mExynosCompositionInfo (sw_hwc s)) then (NO_ERROR, s)
     else
       (let (ret, s) = sandwich_exynos ev a capa i s
        in if ret \<noteq> NO_ERROR then (ret, s) else sandwich_loop ev a capa is s))"

definition handleSandwitchedExynosCompositionLayer :: "hwc_env \<Rightarrow> rat \<Rightarrow> nat \<Rightarrow> hwc \<Rightarrow> int \<times> sandwich" where
  "handleSandwitchedExynosCompositionLayer ev totalUsedCapa a w =
     sandwich_loop ev a (fl_sub totalUsedCapa (mUsedCapacity (hw_mpps w a)))
       [nat (mFirstIndex (mExynosCompositionInfo w))..<length (mLayers w)]
       \<lparr>sw_hwc = w, sw_high = [], sw_invalid = False, sw_change = NO_ERROR\<rparr>"

text \<open>The client composition lies inside that of the 2D engine: the shorter side joins the client.\<close>

definition nested_side :: "hwc_env \<Rightarrow> bool \<Rightarrow> int \<times> hwc \<Rightarrow> int \<times> int \<times> hwc" where
  "nested_side ev first = (\<lambda>(changeFlag, w).
    (let e = mExynosCompositionInfo w;
         i = nat (if first then mFirstIndex e else mLastIndex e);
         w = set_layer_type i HWC2_COMPOSITION_CLIENT (resetAssignedResource ev i w);
         (ret, exynosChanged, w) = addClientCompositionLayer ev i w
     in if ret < 0 then (ret, changeFlag, w)
        else
          (let c = mClientCompositionInfo w;
               w = (if exynosChanged then w
                    else upd_info COMPOSITION_EXYNOS (\<lambda>e. if first then e\<lparr>mFirstIndex := mLastIndex c + 1\<rparr>
                                                        else e\<lparr>mLastIndex := mFirstIndex c - 1\<rparr>) w)
           in (NO_ERROR, or changeFlag ret, w))))"

definition handleNestedClientCompositionLayer :: "hwc_env \<Rightarrow> int \<times> hwc \<Rightarrow> int \<times> int \<times> hwc" where
  "handleNestedClientCompositionLayer ev = (\<lambda>(changeFlag, w).
    (let c = mClientCompositionInfo w; e = mExynosCompositionInfo w in
     if \<not> mHasCompositionLayer c \<or> mFirstIndex e \<ge> mFirstIndex c \<or> mFirstIndex c \<ge> mLastIndex e \<or>
        mFirstIndex e \<ge> mLastIndex c \<or> mLastIndex c \<ge> mLastIndex e
     then (NO_ERROR, changeFlag, w)
     else nested_side ev (mFirstIndex c - mFirstIndex e < mLastIndex e - mLastIndex c) (changeFlag, w)))"

definition index_valid :: "hwc \<Rightarrow> bool" where
  "index_valid w \<longleftrightarrow>
    (let e = mExynosCompositionInfo w; n = int (length (mLayers w)) in
     mFirstIndex e \<ge> 0 \<and> mFirstIndex e < n \<and> mLastIndex e \<ge> 0 \<and> mLastIndex e < n \<and> mFirstIndex e \<le> mLastIndex e)"

text \<open>High-priority layers at the ends of the range leave it.\<close>

definition trim_high :: "nat \<Rightarrow> hwc \<Rightarrow> hwc" where
  "trim_high h w = upd_info COMPOSITION_EXYNOS (\<lambda>e.
     if int h = mFirstIndex e then e\<lparr>mFirstIndex := mFirstIndex e + 1\<rparr>
     else if int h = mLastIndex e then e\<lparr>mLastIndex := mLastIndex e - 1\<rparr> else e) w"

text \<open>The whole range goes to the client, but for its layers of high priority.\<close>

definition dissolve_layer :: "hwc_env \<Rightarrow> nat \<Rightarrow> hwc \<Rightarrow> hwc" where
  "dissolve_layer ev i w =
    (if mOverlayPriority (mLayers w ! i) \<ge> ePriorityHigh then w
     else snd (snd (addClientCompositionLayer ev i
            (set_layer_type i HWC2_COMPOSITION_CLIENT (resetAssignedResource ev i w)))))"

text \<open>
  The last test of the source is \<open>highPriorityCheck && (m2mMPP->mLogicalType = MPP_LOGICAL_G2D_RGB)\<close>:
  an assignment, whose value is not zero.
\<close>

definition dissolve_exynos :: "hwc_env \<Rightarrow> nat \<Rightarrow> nat list \<Rightarrow> int \<times> hwc \<Rightarrow> int \<times> hwc" where
  "dissolve_exynos ev a highs = (\<lambda>(changeFlag, w).
    (let e = mExynosCompositionInfo w;
         check = list_ex (\<lambda>h. mFirstIndex e < int h \<and> int h < mLastIndex e) highs
     in if check then
          (let w = w\<lparr>hw_mpps := (hw_mpps w)(a := (hw_mpps w a)\<lparr>mLogicalType := MPP_LOGICAL_G2D_RGB\<rparr>)\<rparr>;
               w = fold (dissolve_layer ev) [nat (mFirstIndex e)..<nat (mLastIndex e + 1)] w
           in (EXYNOS_ERROR_CHANGED, initializeInfos COMPOSITION_EXYNOS w))
        else (changeFlag, w)))"

definition finish_exynos :: "hwc_env \<Rightarrow> nat \<Rightarrow> nat list \<Rightarrow> int \<times> hwc \<Rightarrow> int \<times> hwc" where
  "finish_exynos ev a highs = (\<lambda>(changeFlag, w).
    (let w = (if mLogicalType (hw_mpps w a) = MPP_LOGICAL_G2D_RGB then fold trim_high highs w else w);
         (changeFlag, w) = (if \<not> index_valid w then (EXYNOS_ERROR_CHANGED, initializeInfos COMPOSITION_EXYNOS w)
                            else (changeFlag, w))
     in dissolve_exynos ev a highs (changeFlag, w)))"

definition addExynosCompositionLayer :: "hwc_env \<Rightarrow> nat \<Rightarrow> rat \<Rightarrow> hwc \<Rightarrow> int \<times> hwc" where
  "addExynosCompositionLayer ev layerIndex totalUsedCapa w =
    (let n = int layerIndex in
     if \<not> mHasCompositionLayer (mExynosCompositionInfo w) then
       (EXYNOS_ERROR_CHANGED,
        upd_info COMPOSITION_EXYNOS (\<lambda>c. c\<lparr>mFirstIndex := n, mLastIndex := n, mHasCompositionLayer := True\<rparr>) w)
     else
       (let w = upd_info COMPOSITION_EXYNOS (\<lambda>c. c\<lparr>mFirstIndex := min (mFirstIndex c) n, mLastIndex := max (mLastIndex c) n\<rparr>) w
        in case mM2mMPP (hw_sources w (cmp_source (mExynosCompositionInfo w))) of
             None \<Rightarrow> (- EINVAL, w)
           | Some a \<Rightarrow>
              (if \<not> index_valid w then (- EINVAL, w)
               else
                 (let (ret, s) = handleSandwitchedExynosCompositionLayer ev totalUsedCapa a w in
                  if ret \<noteq> NO_ERROR then (ret, sw_hwc s)
                  else
                    (let (ret, changeFlag, w) = (if sw_invalid s then handleNestedClientCompositionLayer ev (sw_change s, sw_hwc s)
                                                 else (NO_ERROR, sw_change s, sw_hwc s))
                     in if ret \<noteq> NO_ERROR then (ret, w) else finish_exynos ev a (sw_high s) (changeFlag, w))))))"

section \<open>How the state evolves\<close>

text \<open>
  \<open>evolves T w w'\<close>: the display keeps its layers with their priorities, and a layer that has one of the
  three composition types keeps one of them; with \<open>T\<close> the resources also keep their logical types.
\<close>

definition typed :: "hwc2_composition \<Rightarrow> bool" where
  "typed t \<longleftrightarrow> t = HWC2_COMPOSITION_CLIENT \<or> t = HWC2_COMPOSITION_DEVICE \<or> t = HWC2_COMPOSITION_EXYNOS"

lemma typed_simps [simp]:
  "typed HWC2_COMPOSITION_CLIENT" "typed HWC2_COMPOSITION_DEVICE" "typed HWC2_COMPOSITION_EXYNOS"
  "\<not> typed HWC2_COMPOSITION_INVALID"
  by (simp_all add: typed_def)

definition evolves :: "bool \<Rightarrow> hwc \<Rightarrow> hwc \<Rightarrow> bool" where
  "evolves T w w' \<longleftrightarrow> length (mLayers w') = length (mLayers w) \<and> mUseDpu w' = mUseDpu w \<and>
     (\<forall>i < length (mLayers w). mOverlayPriority (mLayers w' ! i) = mOverlayPriority (mLayers w ! i) \<and>
        (typed (layer_type i w) \<longrightarrow> typed (layer_type i w'))) \<and>
     (T \<longrightarrow> (\<forall>a. mLogicalType (hw_mpps w' a) = mLogicalType (hw_mpps w a)))"

lemma evolves_refl [simp, intro!]: "evolves T w w"
  by (simp add: evolves_def)

lemma evolves_trans: "evolves T w w' \<Longrightarrow> evolves T w' w'' \<Longrightarrow> evolves T w w''"
  by (auto simp: evolves_def)

lemma evolves_weaken: "evolves T w w' \<Longrightarrow> evolves False w w'"
  by (simp add: evolves_def)

text \<open>Rules for chains of operations, each adding one operation at the end.\<close>

named_theorems evolve

lemma evolves_chain: "(\<And>w. evolves T w (f w)) \<Longrightarrow> evolves T w0 w \<Longrightarrow> evolves T w0 (f w)"
  using evolves_trans by blast

lemma evolves_if [evolve]: "(b \<Longrightarrow> evolves T w0 x) \<Longrightarrow> (\<not> b \<Longrightarrow> evolves T w0 y) \<Longrightarrow> evolves T w0 (if b then x else y)"
  by simp

lemma evolves_fold [evolve]:
  "(\<And>x w. evolves T w (f x w)) \<Longrightarrow> evolves T w0 w \<Longrightarrow> evolves T w0 (fold f xs w)"
proof (induction xs arbitrary: w)
  case (Cons x xs)
  have "evolves T w0 (f x w)" using Cons.prems by (blast intro: evolves_trans)
  with Cons show ?case by simp
qed simp

lemma evolves_upd_source [evolve]: "evolves T w0 w \<Longrightarrow> evolves T w0 (upd_source a f w)"
  by (simp add: evolves_def upd_source_def layer_type_def)

lemma evolves_upd_info [evolve]: "evolves T w0 w \<Longrightarrow> evolves T w0 (upd_info t f w)"
  by (simp add: evolves_def upd_info_def layer_type_def)

lemma evolves_scalars [evolve]:
  "evolves T w0 w \<Longrightarrow> evolves T w0 (w\<lparr>mWindowNumUsed := x1\<rparr>)"
  "evolves T w0 w \<Longrightarrow> evolves T w0 (w\<lparr>hw_tracer := x2\<rparr>)"
  "evolves T w0 w \<Longrightarrow> evolves T w0 (w\<lparr>hw_answers := x3\<rparr>)"
  "evolves T w0 w \<Longrightarrow> evolves T w0 (w\<lparr>hw_sources := x4\<rparr>)"
  by (simp_all add: evolves_def layer_type_def)

lemma evolves_upd_layer:
  assumes "\<And>l. mOverlayPriority (f l) = mOverlayPriority l"
    "\<And>l. typed (mValidateCompositionType l) \<Longrightarrow> typed (mValidateCompositionType (f l))"
    "evolves T w0 w"
  shows "evolves T w0 (upd_layer i f w)"
proof -
  have nth: "mLayers (upd_layer i f w) ! j = (if j = i \<and> j < length (mLayers w) then f (mLayers w ! j) else mLayers w ! j)" for j
    by (cases "j = i"; cases "j < length (mLayers w)") (simp_all add: upd_layer_def list_update_beyond)
  have rest: "length (mLayers (upd_layer i f w)) = length (mLayers w)" "mUseDpu (upd_layer i f w) = mUseDpu w"
    "hw_mpps (upd_layer i f w) = hw_mpps w"
    by (simp_all add: upd_layer_def)
  show ?thesis
    using assms unfolding evolves_def layer_type_def by (simp add: nth rest)
qed

lemma evolves_type [evolve]: "typed t \<Longrightarrow> evolves T w0 w \<Longrightarrow> evolves T w0 (set_layer_type i t w)"
  unfolding set_layer_type_def by (rule evolves_upd_layer) auto

lemma evolves_overlay [evolve]: "evolves T w0 w \<Longrightarrow> evolves T w0 (or_overlay i b w)"
  unfolding or_overlay_def by (rule evolves_upd_layer) auto

lemma evolves_on_mpp:
  assumes "\<And>st m. mLogicalType (snd (f (st, m))) = mLogicalType m" "evolves T w0 w"
  shows "evolves T w0 (on_mpp a f w)"
  using assms by (simp add: evolves_def on_mpp_def layer_type_def split_beta)

lemma release_logical [simp]: "mLogicalType (release_if_empty m) = mLogicalType m"
  by (simp add: release_if_empty_def)

lemma crop_logical [simp]:
  "mLogicalType (foldl (\<lambda>m a. add_crop_bw pf (mSrcImg (st a)) m) m xs) = mLogicalType m"
  by (induction xs arbitrary: m) (simp_all add: add_crop_bw_def)

lemma capacity_logical [simp]:
  "mLogicalType (resetUsedCapacity m) = mLogicalType m"
  "mLogicalType (snd (addCapacity pf tabs st source m)) = mLogicalType m"
  "mLogicalType (snd (removeCapacity pf tabs st source m)) = mLogicalType m"
  "mLogicalType (snd (updateUsedCapacity pf tabs st m)) = mLogicalType m"
proof -
  show "mLogicalType (resetUsedCapacity m) = mLogicalType m" by (simp add: resetUsedCapacity_def)
  show "mLogicalType (snd (addCapacity pf tabs st source m)) = mLogicalType m"
    by (simp add: addCapacity_def Let_def add_crop_bw_def split: option.split)
  show "mLogicalType (snd (removeCapacity pf tabs st source m)) = mLogicalType m"
    by (simp add: removeCapacity_def Let_def split: option.split)
  show "mLogicalType (snd (updateUsedCapacity pf tabs st m)) = mLogicalType m"
    by (simp add: updateUsedCapacity_def Let_def)
qed

lemma reset_logical [simp]:
  "mLogicalType (snd (resetAssignedState (st, m))) = mLogicalType m"
  "mLogicalType (snd (resetAssignedState1 pf tabs a (st, m))) = mLogicalType m"
  "mLogicalType (snd (snd (assignMPP pf tabs d a (st, m)))) = mLogicalType m"
  by (simp_all add: resetAssignedState_def resetAssignedState1_def assignMPP_def Let_def split_beta)

lemma evolves_reset [evolve]: "evolves T w0 w \<Longrightarrow> evolves T w0 (on_mpp a resetAssignedState w)"
  by (rule evolves_on_mpp) simp_all

lemma evolves_reset1 [evolve]: "evolves T w0 w \<Longrightarrow> evolves T w0 (on_mpp a (resetAssignedState1 pf tabs s) w)"
  by (rule evolves_on_mpp) simp_all

lemma evolves_assign [evolve]: "evolves T w0 w \<Longrightarrow> evolves T w0 (snd (assign_mpp ev a s w))"
  by (simp add: evolves_def assign_mpp_def layer_type_def split_beta)

lemma evolves_option [evolve]:
  "(x = None \<Longrightarrow> evolves T w0 y) \<Longrightarrow> (\<And>z. x = Some z \<Longrightarrow> evolves T w0 (f z)) \<Longrightarrow> evolves T w0 (case x of None \<Rightarrow> y | Some z \<Rightarrow> f z)"
  by (simp split: option.split)

lemma evolves_resource [evolve]: "evolves T w0 w \<Longrightarrow> evolves T w0 (resetAssignedResource ev i w)"
  unfolding resetAssignedResource_def Let_def by (intro evolve)

lemma evolves_init [evolve]: "evolves T w0 w \<Longrightarrow> evolves T w0 (initializeInfos t w)"
  unfolding initializeInfos_def Let_def by (intro evolve)

text \<open>Results that are pairs or triples, and the records of the loop.\<close>

lemma evolves_snd_if [evolve]:
  "(b \<Longrightarrow> evolves T w0 (snd x)) \<Longrightarrow> (\<not> b \<Longrightarrow> evolves T w0 (snd y)) \<Longrightarrow> evolves T w0 (snd (if b then x else y))"
  "(b \<Longrightarrow> evolves T w0 (snd (snd u))) \<Longrightarrow> (\<not> b \<Longrightarrow> evolves T w0 (snd (snd v))) \<Longrightarrow>
     evolves T w0 (snd (snd (if b then u else v)))"
  "(b \<Longrightarrow> evolves T w0 (sw_hwc (snd r))) \<Longrightarrow> (\<not> b \<Longrightarrow> evolves T w0 (sw_hwc (snd r'))) \<Longrightarrow>
     evolves T w0 (sw_hwc (snd (if b then r else r')))"
  "(b \<Longrightarrow> evolves T w0 (fst q)) \<Longrightarrow> (\<not> b \<Longrightarrow> evolves T w0 (fst q')) \<Longrightarrow> evolves T w0 (fst (if b then q else q'))"
  by simp_all

lemma evolves_snd_pair [evolve]:
  "evolves T w0 w \<Longrightarrow> evolves T w0 (snd (r, w))"
  "evolves T w0 w \<Longrightarrow> evolves T w0 (snd (snd (r, c, w)))"
  "evolves T w0 (sw_hwc s) \<Longrightarrow> evolves T w0 (sw_hwc (snd (r, s)))"
  "evolves T w0 w \<Longrightarrow> evolves T w0 (fst (w, r'))"
  by simp_all

lemma evolves_sandwich_fields [evolve]:
  "evolves T w0 w \<Longrightarrow> evolves T w0 (sw_hwc (s\<lparr>sw_hwc := w\<rparr>))"
  "evolves T w0 (sw_hwc s) \<Longrightarrow> evolves T w0 (sw_hwc (s\<lparr>sw_high := h\<rparr>))"
  "evolves T w0 (sw_hwc s) \<Longrightarrow> evolves T w0 (sw_hwc (s\<lparr>sw_invalid := b\<rparr>))"
  "evolves T w0 (sw_hwc s) \<Longrightarrow> evolves T w0 (sw_hwc (s\<lparr>sw_change := c\<rparr>))"
  by simp_all

lemma evolves_option_snd [evolve]:
  "(x = None \<Longrightarrow> evolves T w0 (snd y)) \<Longrightarrow> (\<And>z. x = Some z \<Longrightarrow> evolves T w0 (snd (f z))) \<Longrightarrow>
     evolves T w0 (snd (case x of None \<Rightarrow> y | Some z \<Rightarrow> f z))"
  by (simp split: option.split)

lemma evolves_list_snd [evolve]:
  "(xs = [] \<Longrightarrow> evolves T w0 (snd y)) \<Longrightarrow> (\<And>z zs. xs = z # zs \<Longrightarrow> evolves T w0 (snd (f z zs))) \<Longrightarrow>
     evolves T w0 (snd (case xs of [] \<Rightarrow> y | z # zs \<Rightarrow> f z zs))"
  by (simp split: list.split)

lemma evolves_sandwich_client [evolve]: "evolves T w0 (fst p) \<Longrightarrow> evolves T w0 (fst (sandwich_client ev i p))"
  unfolding sandwich_client_def Let_def split_beta by (intro evolve) simp_all

lemma evolves_sandwich_fold [evolve]:
  "evolves T w0 (fst p) \<Longrightarrow> evolves T w0 (fst (fold (sandwich_client ev) xs p))"
proof (induction xs arbitrary: p)
  case (Cons x xs)
  from Cons.IH[OF evolves_sandwich_client[OF Cons.prems]] show ?case by simp
qed simp

lemma evolves_shrink [evolve]: "evolves T w0 w \<Longrightarrow> evolves T w0 (snd (shrink_exynos w))"
  unfolding shrink_exynos_def by (intro evolve)

lemma evolves_add_client [evolve]:
  "evolves T w0 w \<Longrightarrow> evolves T w0 (snd (snd (addClientCompositionLayer ev i w)))"
  unfolding addClientCompositionLayer_def Let_def split_beta by (intro evolve) simp_all

lemma evolves_remove_client [evolve]:
  "evolves T w0 w \<Longrightarrow> evolves T w0 (snd (removeClientCompositionLayer ev i w))"
  unfolding removeClientCompositionLayer_def Let_def split_beta by (intro evolve) simp_all

lemma evolves_images [evolve]: "evolves T w0 w \<Longrightarrow> evolves T w0 (set_images i src dst w)"
  unfolding set_images_def by (intro evolve)

lemma evolves_to_client [evolve]:
  "evolves T w0 (sw_hwc s) \<Longrightarrow> evolves T w0 (sw_hwc (snd (sandwich_to_client ev i s)))"
  unfolding sandwich_to_client_def Let_def split_beta by (intro evolve) simp_all

lemma evolves_to_exynos [evolve]:
  "evolves T w0 (sw_hwc s) \<Longrightarrow> evolves T w0 (sw_hwc (snd (sandwich_to_exynos ev a i s)))"
  unfolding sandwich_to_exynos_def Let_def split_beta by (intro evolve) simp_all

lemma evolves_sandwich_exynos [evolve]:
  "evolves T w0 (sw_hwc s) \<Longrightarrow> evolves T w0 (sw_hwc (snd (sandwich_exynos ev a capa i s)))"
  unfolding sandwich_exynos_def Let_def by (intro evolve)

lemma evolves_sandwich_loop [evolve]:
  "evolves T w0 (sw_hwc s) \<Longrightarrow> evolves T w0 (sw_hwc (snd (sandwich_loop ev a capa is s)))"
proof (induction "is" arbitrary: s)
  case (Cons i "is")
  have "evolves T w0 (sw_hwc (snd (sandwich_exynos ev a capa i s)))"
    by (rule evolves_sandwich_exynos) (rule Cons.prems)
  with Cons.IH Cons.prems show ?case by (simp add: split_beta)
qed simp

lemma evolves_sandwiched [evolve]:
  "evolves T w0 w \<Longrightarrow> evolves T w0 (sw_hwc (snd (handleSandwitchedExynosCompositionLayer ev capa a w)))"
  unfolding handleSandwitchedExynosCompositionLayer_def by (intro evolve) simp

lemma evolves_nested_side [evolve]:
  "evolves T w0 (snd p) \<Longrightarrow> evolves T w0 (snd (snd (nested_side ev first p)))"
  unfolding nested_side_def Let_def split_beta by (intro evolve) simp_all

lemma evolves_nested [evolve]:
  "evolves T w0 (snd p) \<Longrightarrow> evolves T w0 (snd (snd (handleNestedClientCompositionLayer ev p)))"
  unfolding handleNestedClientCompositionLayer_def Let_def split_beta by (intro evolve) simp_all

lemma evolves_trim [evolve]: "evolves T w0 w \<Longrightarrow> evolves T w0 (trim_high h w)"
  unfolding trim_high_def by (intro evolve)

lemma evolves_dissolve_layer [evolve]: "evolves T w0 w \<Longrightarrow> evolves T w0 (dissolve_layer ev i w)"
  unfolding dissolve_layer_def by (intro evolve) simp_all

lemma evolves_set_logical [evolve]:
  "evolves False w0 w \<Longrightarrow> evolves False w0 (w\<lparr>hw_mpps := (hw_mpps w)(a := m)\<rparr>)"
  by (simp add: evolves_def layer_type_def)

lemma evolves_dissolve [evolve]:
  "evolves False w0 (snd p) \<Longrightarrow> evolves False w0 (snd (dissolve_exynos ev a highs p))"
  unfolding dissolve_exynos_def Let_def split_beta by (intro evolve) simp_all

lemma evolves_finish [evolve]:
  "evolves False w0 (snd p) \<Longrightarrow> evolves False w0 (snd (finish_exynos ev a highs p))"
  unfolding finish_exynos_def Let_def split_beta by (intro evolve) simp_all

lemma evolves_add_exynos [evolve]:
  "evolves False w0 w \<Longrightarrow> evolves False w0 (snd (addExynosCompositionLayer ev i capa w))"
  unfolding addExynosCompositionLayer_def Let_def split_beta by (intro evolve) simp_all

section \<open>The range of the client composition\<close>

text \<open>Giving back a layer's resources touches neither the layers nor the compositions.\<close>

lemma upd_fields [simp]:
  "mLayers (upd_source a f w) = mLayers w" "mLayers (on_mpp a g w) = mLayers w" "mLayers (upd_info t h w) = mLayers w"
  "mWindowNumUsed (upd_source a f w) = mWindowNumUsed w" "mWindowNumUsed (on_mpp a g w) = mWindowNumUsed w"
  "mWindowNumUsed (upd_info t h w) = mWindowNumUsed w"
  "mClientCompositionInfo (upd_source a f w) = mClientCompositionInfo w"
  "mClientCompositionInfo (on_mpp a g w) = mClientCompositionInfo w"
  "mClientCompositionInfo (upd_info COMPOSITION_EXYNOS h w) = mClientCompositionInfo w"
  "mClientCompositionInfo (upd_info COMPOSITION_CLIENT h w) = h (mClientCompositionInfo w)"
  by (simp_all add: upd_source_def on_mpp_def upd_info_def split_beta)

lemma upd_layer_fields [simp]:
  "mWindowNumUsed (upd_layer i f w) = mWindowNumUsed w" "length (mLayers (upd_layer i f w)) = length (mLayers w)"
  "mClientCompositionInfo (upd_layer i f w) = mClientCompositionInfo w"
  by (simp_all add: upd_layer_def)

lemma resource_fields [simp]:
  "mLayers (resetAssignedResource ev i w) = mLayers w"
  "mWindowNumUsed (resetAssignedResource ev i w) = mWindowNumUsed w"
  "mClientCompositionInfo (resetAssignedResource ev i w) = mClientCompositionInfo w"
  by (simp_all add: resetAssignedResource_def Let_def split: option.split)

lemma shrink_fields [simp]:
  "mLayers (snd (shrink_exynos w)) = mLayers w" "mWindowNumUsed (snd (shrink_exynos w)) = mWindowNumUsed w"
  "mClientCompositionInfo (snd (shrink_exynos w)) = mClientCompositionInfo w"
  by (simp_all add: shrink_exynos_def initializeInfos_def Let_def split: list.split)

text \<open>The layers of \<open>is\<close> that a client range swallows, and how many windows that frees.\<close>

definition swallows :: "hwc \<Rightarrow> nat \<Rightarrow> bool" where
  "swallows w j \<longleftrightarrow> \<not> keeps_overlay (mLayers w ! j)"

definition freed :: "hwc \<Rightarrow> nat list \<Rightarrow> nat" where
  "freed w is = length (filter (\<lambda>j. swallows w j \<and> layer_type j w = HWC2_COMPOSITION_DEVICE) is)"

lemma nth_upd_layer:
  "i < length (mLayers w) \<Longrightarrow> mLayers (upd_layer i f w) ! j = (if j = i then f (mLayers w ! i) else mLayers w ! j)"
  by (cases "j = i") (simp_all add: upd_layer_def)

lemma sandwich_client_effect:
  assumes step: "sandwich_client ev i (w, c) = (w', d)" and i: "i < length (mLayers w)"
  shows "length (mLayers w') = length (mLayers w)" "mClientCompositionInfo w' = mClientCompositionInfo w"
    "swallows w' j = swallows w j"
    "layer_type j w' = (if j = i \<and> swallows w i then HWC2_COMPOSITION_CLIENT else layer_type j w)"
    "mWindowNumUsed w' = mWindowNumUsed w - of_nat (freed w [i])"
  using i arg_cong[OF step, of fst, symmetric]
  by (simp_all add: sandwich_client_def Let_def set_layer_type_def or_overlay_def layer_type_def swallows_def
      keeps_overlay_def nth_upd_layer freed_def)

lemma sandwich_fold_effect:
  assumes "fold (sandwich_client ev) is (w, c) = (w', d)" "distinct is" "\<forall>i \<in> set is. i < length (mLayers w)"
  shows "length (mLayers w') = length (mLayers w) \<and> mClientCompositionInfo w' = mClientCompositionInfo w \<and>
    (\<forall>j. swallows w' j = swallows w j \<and>
      layer_type j w' = (if j \<in> set is \<and> swallows w j then HWC2_COMPOSITION_CLIENT else layer_type j w)) \<and>
    mWindowNumUsed w' = mWindowNumUsed w - of_nat (freed w is)"
  using assms
proof (induction "is" arbitrary: w c)
  case (Cons i "is")
  obtain v e where v: "sandwich_client ev i (w, c) = (v, e)" by (metis prod.exhaust)
  have i: "i < length (mLayers w)" using Cons.prems by simp
  note e = sandwich_client_effect[OF v i]
  have f: "freed v is = freed w is"
    unfolding freed_def using Cons.prems(2) e(3,4) by (auto intro!: arg_cong[where f = length] filter_cong)
  have g: "freed w (i # is) = freed w [i] + freed w is" by (simp add: freed_def)
  have IH: "length (mLayers w') = length (mLayers v) \<and> mClientCompositionInfo w' = mClientCompositionInfo v \<and>
    (\<forall>j. swallows w' j = swallows v j \<and>
      layer_type j w' = (if j \<in> set is \<and> swallows v j then HWC2_COMPOSITION_CLIENT else layer_type j v)) \<and>
    mWindowNumUsed w' = mWindowNumUsed v - of_nat (freed v is)"
    by (rule Cons.IH[of v e]) (use Cons.prems v e(1) in simp_all)
  show ?case
    unfolding g using IH e f Cons.prems(2) by auto
qed (auto simp: freed_def)

text \<open>The least range that holds a composition's layers and one more, and the layers it encloses.\<close>

definition joined_range :: "nat \<Rightarrow> composition_info \<Rightarrow> int \<times> int" where
  "joined_range i c = (if mHasCompositionLayer c then (min (mFirstIndex c) (int i), max (mLastIndex c) (int i)) else (int i, int i))"

definition enclosed :: "int \<times> int \<Rightarrow> nat list" where
  "enclosed r = [nat (fst r) + 1..<nat (snd r)]"

lemma add_client_first:
  assumes "\<not> mHasCompositionLayer (mClientCompositionInfo w)"
  shows "addClientCompositionLayer ev i w = (EXYNOS_ERROR_CHANGED, False,
    upd_info COMPOSITION_CLIENT (\<lambda>c. c\<lparr>mFirstIndex := int i, mLastIndex := int i, mHasCompositionLayer := True\<rparr>) w)"
  using assms by (simp add: addClientCompositionLayer_def Let_def)

lemma add_client_more:
  assumes has: "mHasCompositionLayer (mClientCompositionInfo w)" and h: "joined_range i (mClientCompositionInfo w) = (lo, hi)"
    and add: "addClientCompositionLayer ev i w = (ret, ch, w')" and ret: "0 \<le> ret" and lo: "0 \<le> lo" "0 \<le> hi"
  obtains v d where "fold (sandwich_client ev) (enclosed (lo, hi))
      (upd_info COMPOSITION_CLIENT (\<lambda>c. c\<lparr>mFirstIndex := lo, mLastIndex := hi\<rparr>) w, False) = (v, d)"
    "w' = v \<or> w' = snd (shrink_exynos v)"
proof -
  have bounds: "lo = min (mFirstIndex (mClientCompositionInfo w)) (int i)" "hi = max (mLastIndex (mClientCompositionInfo w)) (int i)"
    using h has by (simp_all add: joined_range_def)
  have set: "upd_info COMPOSITION_CLIENT (\<lambda>c. c\<lparr>mFirstIndex := min (mFirstIndex c) (int i), mLastIndex := max (mLastIndex c) (int i)\<rparr>) w
    = upd_info COMPOSITION_CLIENT (\<lambda>c. c\<lparr>mFirstIndex := lo, mLastIndex := hi\<rparr>) w"
    by (simp add: upd_info_def bounds)
  obtain v d where v: "fold (sandwich_client ev) (enclosed (lo, hi))
      (upd_info COMPOSITION_CLIENT (\<lambda>c. c\<lparr>mFirstIndex := lo, mLastIndex := hi\<rparr>) w, False) = (v, d)"
    by (metis prod.exhaust)
  have "w' = v \<or> w' = snd (shrink_exynos v)"
    using add ret lo has v unfolding addClientCompositionLayer_def Let_def set enclosed_def
    by (simp add: split_beta EINVAL_def split: if_splits)
  with v that show ?thesis by blast
qed

text \<open>
  C17: adding a layer to the client's composition, when it succeeds, makes its range the least one that
  holds the old range and the layer. The layers strictly inside, other than opaque ones of high priority,
  become client layers and free their windows; no other layer changes its type.
\<close>

theorem client_range:
  assumes h: "joined_range i (mClientCompositionInfo w) = (lo, hi)" and inside: "0 \<le> lo" "lo \<le> hi" "hi < int (length (mLayers w))"
    and add: "addClientCompositionLayer ev i w = (ret, ch, w')" and ret: "0 \<le> ret"
  shows "mHasCompositionLayer (mClientCompositionInfo w') \<and> mFirstIndex (mClientCompositionInfo w') = lo \<and>
    mLastIndex (mClientCompositionInfo w') = hi \<and>
    (\<forall>j. layer_type j w' = (if j \<in> set (enclosed (lo, hi)) \<and> \<not> keeps_overlay (mLayers w ! j)
                          then HWC2_COMPOSITION_CLIENT else layer_type j w)) \<and>
    mWindowNumUsed w' = mWindowNumUsed w - of_nat (freed w (enclosed (lo, hi)))"
proof (cases "mHasCompositionLayer (mClientCompositionInfo w)")
  case True
  obtain v d where v: "fold (sandwich_client ev) (enclosed (lo, hi))
      (upd_info COMPOSITION_CLIENT (\<lambda>c. c\<lparr>mFirstIndex := lo, mLastIndex := hi\<rparr>) w, False) = (v, d)"
    and w': "w' = v \<or> w' = snd (shrink_exynos v)"
    using add_client_more[OF True h add ret] inside by auto
  let ?u = "upd_info COMPOSITION_CLIENT (\<lambda>c. c\<lparr>mFirstIndex := lo, mLastIndex := hi\<rparr>) w"
  have same: "\<And>j. swallows ?u j = (\<not> keeps_overlay (mLayers w ! j))" "\<And>j. layer_type j ?u = layer_type j w"
    "freed ?u (enclosed (lo, hi)) = freed w (enclosed (lo, hi))"
    by (simp_all add: swallows_def layer_type_def freed_def)
  have d: "distinct (enclosed (lo, hi))" "\<forall>i \<in> set (enclosed (lo, hi)). i < length (mLayers ?u)"
    using inside by (auto simp: enclosed_def)
  have e: "mClientCompositionInfo v = mClientCompositionInfo ?u"
    "\<forall>j. layer_type j v = (if j \<in> set (enclosed (lo, hi)) \<and> swallows ?u j then HWC2_COMPOSITION_CLIENT else layer_type j ?u)"
    "mWindowNumUsed v = mWindowNumUsed ?u - of_nat (freed ?u (enclosed (lo, hi)))"
    using sandwich_fold_effect[OF v] d by blast+
  have "mClientCompositionInfo w' = mClientCompositionInfo v" "mLayers w' = mLayers v" "mWindowNumUsed w' = mWindowNumUsed v"
    using w' by auto
  then show ?thesis using True e same by (simp add: layer_type_def)
next
  case False
  have "lo = int i" "hi = int i" using h False by (simp_all add: joined_range_def)
  then show ?thesis
    using add unfolding add_client_first[OF False] by (auto simp: layer_type_def enclosed_def freed_def)
qed

text \<open>A display of 1440 by 3040 with four windows, one 2D engine at address 7 and no display pipe.\<close>

definition sample_env :: hwc_env where
  "sample_env = \<lparr>ev_pf = sample_platform, ev_an = sample_android, ev_gr = sample_gralloc True, ev_tabs = sample_tabs,
     ev_hooks = (\<lambda>_. sample_hooks), ev_bootanim = False, ev_color_transform = False, ev_identity = 0,
     ev_plugged = (\<lambda>_. False), ev_virtual = (\<lambda>_. False)\<rparr>"

definition sample_info :: "nat \<Rightarrow> composition_target \<Rightarrow> composition_info" where
  "sample_info a t = \<lparr>cmp_source = a, cmp_mType = t, mHasCompositionLayer = False, mFirstIndex = -1, mLastIndex = -1,
     cmp_mTargetBuffer = None, cmp_mDataSpace = 0, cmp_mAcquireFence = -1, cmp_mReleaseFence = -1,
     cmp_mWindowIndex = -1, cmp_mCompressionInfo = \<lparr>ci_type = COMP_TYPE_NONE, SAJCMaxBlockSize = 0, SAJCHeaderOffset = 0\<rparr>,
     mBlendingMPP = None, cmp_mFormat = format_default\<rparr>"

definition sample_hwc :: "layer list \<Rightarrow> hwc" where
  "sample_hwc ls = \<lparr>hw_sources = (\<lambda>_. source_init 2), hw_mpps = (\<lambda>_. sample_g2d), mOtfMPPs_list = [],
     mM2mMPPs_list = [7], hw_acrylic = (\<lambda>_. True), hw_answers = [], hw_tracer = tracer_init, forceGpu = False,
     mLayers = ls, mClientCompositionInfo = sample_info 100 COMPOSITION_CLIENT,
     mExynosCompositionInfo = sample_info 101 COMPOSITION_EXYNOS, mWindowNumUsed = 2, mMaxWindowNum = 4,
     mBaseWindowIndex = 1, mUseDpu = True, mXres = 1440, mYres = 3040, mColorMode = 0, mDisplayInfo = sample_display,
     mDisplayId = 0, mDisplayType = 0, mPlugState = True, mSinkHdrSupported = False, mHasHdr10PlusLayer = False,
     mCursorIndex = -1, ctl_cursorSupport = False, ctl_useMaxG2DSrc = False,
     ctl_enableExynosCompositionOptimization = True, mColorTransformHint = 0, mUseDynamicRecomp = False,
     mDynamicRecompToClient = False\<rparr>"

definition sample_typed :: "nat \<Rightarrow> hwc2_composition \<Rightarrow> layer" where
  "sample_typed a t = (layer_new a 0 sample_display)\<lparr>mValidateCompositionType := t\<rparr>"

theorem client_range_witness:
  "let w = (sample_hwc [sample_typed 0 HWC2_COMPOSITION_CLIENT, sample_typed 1 HWC2_COMPOSITION_DEVICE,
              sample_typed 2 HWC2_COMPOSITION_CLIENT])
           \<lparr>mClientCompositionInfo := (sample_info 100 COMPOSITION_CLIENT)
              \<lparr>mHasCompositionLayer := True, mFirstIndex := 0, mLastIndex := 0\<rparr>\<rparr>;
       w' = snd (snd (addClientCompositionLayer sample_env 2 w))
   in layer_type 1 w' = HWC2_COMPOSITION_CLIENT \<and> mWindowNumUsed w' = 1"
proof -
  define c where "c = (sample_info 100 COMPOSITION_CLIENT)\<lparr>mHasCompositionLayer := True, mFirstIndex := 0, mLastIndex := 0\<rparr>"
  define ls where "ls = [sample_typed 0 HWC2_COMPOSITION_CLIENT, sample_typed 1 HWC2_COMPOSITION_DEVICE,
              sample_typed 2 HWC2_COMPOSITION_CLIENT]"
  define w where "w = (sample_hwc ls)\<lparr>mClientCompositionInfo := c\<rparr>"
  have f: "mClientCompositionInfo w = c" "mLayers w = ls" "mWindowNumUsed w = 2" "length ls = 3"
    by (simp_all add: w_def sample_hwc_def ls_def)
  have h: "joined_range 2 (mClientCompositionInfo w) = (0, 2)" unfolding f by (simp add: joined_range_def c_def)
  obtain ret ch w' where add: "addClientCompositionLayer sample_env 2 w = (ret, ch, w')" by (metis prod.exhaust)
  have ret: "0 \<le> ret"
    using add unfolding addClientCompositionLayer_def Let_def f
    by (simp add: c_def ls_def w_def sample_hwc_def sandwich_client_def upd_info_def layer_type_def sample_typed_def
        code_consts Let_def upt_conv_Cons resetAssignedResource_def source_init_def set_layer_type_def
        or_overlay_def upd_layer_def split: if_splits)
  have k: "\<not> keeps_overlay (ls ! Suc 0)" by (simp add: keeps_overlay_def ls_def sample_typed_def layer_new_def)
  have "freed w [Suc 0..<2] = 1"
    using k by (simp add: freed_def upt_conv_Cons swallows_def f layer_type_def, simp add: ls_def sample_typed_def)
  with k show ?thesis
    using client_range[OF h _ _ _ add ret] unfolding c_def[symmetric] ls_def[symmetric] Let_def w_def[symmetric] add
    by (simp add: f enclosed_def)
qed

section \<open>The type of the 2D engine\<close>

lemma finish_overwrites:
  assumes valid: "index_valid w" and type: "mLogicalType (hw_mpps w a) \<noteq> MPP_LOGICAL_G2D_RGB"
    and h: "h \<in> set highs" "mFirstIndex (mExynosCompositionInfo w) < int h" "int h < mLastIndex (mExynosCompositionInfo w)"
    and fin: "finish_exynos ev a highs (flag, w) = (ret, w')"
  shows "ret = EXYNOS_ERROR_CHANGED" "mLogicalType (hw_mpps w' a) = MPP_LOGICAL_G2D_RGB" "mUseDpu w' = mUseDpu w"
proof -
  define v where "v = w\<lparr>hw_mpps := (hw_mpps w)(a := (hw_mpps w a)\<lparr>mLogicalType := MPP_LOGICAL_G2D_RGB\<rparr>)\<rparr>"
  have "list_ex (\<lambda>h. mFirstIndex (mExynosCompositionInfo w) < int h \<and> int h < mLastIndex (mExynosCompositionInfo w)) highs"
    using h by (auto simp: list_ex_iff)
  then have res: "ret = EXYNOS_ERROR_CHANGED" "w' = initializeInfos COMPOSITION_EXYNOS (fold (dissolve_layer ev)
      [nat (mFirstIndex (mExynosCompositionInfo w))..<nat (mLastIndex (mExynosCompositionInfo w) + 1)] v)"
    using fin valid type by (simp_all add: finish_exynos_def dissolve_exynos_def Let_def v_def)
  have "evolves True v w'" unfolding res(2) by (intro evolve) simp_all
  then show "mLogicalType (hw_mpps w' a) = MPP_LOGICAL_G2D_RGB" "mUseDpu w' = mUseDpu w"
    by (simp_all add: evolves_def v_def)
  show "ret = EXYNOS_ERROR_CHANGED" by (rule res(1))
qed

end
