(* ===== verification/ResourceAssign.thy ===== *)
theory ResourceAssign
  imports HwcDisplay
begin

text \<open>
  How the resource manager gives every layer of a display a way to the screen
  (\<open>device/ExynosResourceManager.cpp\<close>, \<open>assignResource\<close> and what it calls): a window of its own
  through a display pipe, perhaps after a scaler; the 2D engine's composition; or the client's.
  Hooks that the base class leaves empty (\<open>otfMppReordering\<close>, \<open>calculateHWResourceAmount\<close>,
  \<open>isHWResourceAvailable\<close>) do nothing here either, and the build options for a dedicated top window
  are off. A check that would divide by a zero alignment (\<open>isSupported\<close> is \<open>None\<close>) counts as a
  refusal; the component of the resources shows when that cannot happen.
\<close>

definition ASSIGN_RESOURCE_TRY_COUNT :: nat where [code_consts]: "ASSIGN_RESOURCE_TRY_COUNT = 100"
definition MAX_OVERLAY_LAYER_NUM :: nat where [code_consts]: "MAX_OVERLAY_LAYER_NUM = 30"

section \<open>Asking the resources\<close>

definition same_block :: "mpp \<Rightarrow> mpp \<Rightarrow> bool" where
  "same_block m m' \<longleftrightarrow> mPhysicalType m = mPhysicalType m' \<and> mPhysicalIndex m = mPhysicalIndex m'"

text \<open>The capacity the resources of one hardware block use together.\<close>

definition getResourceUsedCapa :: "nat \<Rightarrow> hwc \<Rightarrow> rat" where
  "getResourceUsedCapa a w =
    (let m = hw_mpps w a in
     if mCapacity m < 0 then 0
     else if mMPPType m = MPP_TYPE_OTF then
       fold (\<lambda>b acc. if same_block m (hw_mpps w b) then fl_add acc (mUsedCapacity (hw_mpps w b)) else acc)
         (mOtfMPPs_list w) 0
     else
       fold (\<lambda>b acc. if same_block m (hw_mpps w b)
                     then fl_add (fl_add acc (mUsedCapacity (hw_mpps w b))) (mPreAssignedCapacity (hw_mpps w b)) else acc)
         (mM2mMPPs_list w) 0)"

definition rm_isAssignable :: "hwc_env \<Rightarrow> nat \<Rightarrow> hwc \<Rightarrow> exynos_image \<Rightarrow> exynos_image \<Rightarrow> bool" where
  "rm_isAssignable ev a w src dst =
     isAssignable (ev_pf ev) (ev_tabs ev) (hw_sources w) (hw_mpps w a) (mDisplayInfo w) src dst (getResourceUsedCapa a w)"

definition mpp_supports :: "hwc_env \<Rightarrow> nat \<Rightarrow> hwc \<Rightarrow> exynos_image \<Rightarrow> exynos_image \<Rightarrow> int option" where
  "mpp_supports ev a w src dst = isSupported (ev_hooks ev a) (ev_pf ev) (hw_mpps w a) (mDisplayInfo w) src dst"

fun first_some :: "('a \<Rightarrow> 'b option) \<Rightarrow> 'a list \<Rightarrow> 'b option" where
  "first_some f [] = None"
| "first_some f (x # xs) = (case f x of None \<Rightarrow> first_some f xs | Some y \<Rightarrow> Some y)"

section \<open>Which resources could process a layer\<close>

definition defaultMppDstFormat :: "hwc_env \<Rightarrow> ExynosFormat" where
  "defaultMppDstFormat ev = format_of (pf_hal (ev_pf ev)) (pf_hal (ev_pf ev) HAL_PIXEL_FORMAT_RGBA_8888)"
definition defaultMppDstYuvFormat :: "hwc_env \<Rightarrow> ExynosFormat" where
  "defaultMppDstYuvFormat ev = format_of (pf_hal (ev_pf ev)) (pf_hal (ev_pf ev) HAL_PIXEL_FORMAT_EXYNOS_YCbCr_420_SPN)"
definition defaultMppDstUncompYuvFormat :: "hwc_env \<Rightarrow> ExynosFormat" where
  "defaultMppDstUncompYuvFormat ev =
     format_of (pf_hal (ev_pf ev)) (pf_hal (ev_pf ev) HAL_PIXEL_FORMAT_EXYNOS_YCbCr_420_SPN)"
definition exynosFormatP010 :: "hwc_env \<Rightarrow> ExynosFormat" where
  "exynosFormatP010 ev = format_of (pf_hal (ev_pf ev)) (pf_hal (ev_pf ev) HAL_PIXEL_FORMAT_YCBCR_P010)"
definition exynosFormatRgba10 :: "hwc_env \<Rightarrow> ExynosFormat" where
  "exynosFormatRgba10 ev = format_of (pf_hal (ev_pf ev)) (pf_hal (ev_pf ev) HAL_PIXEL_FORMAT_RGBA_1010102)"

text \<open>One resource's verdict: first with an RGB target, then, if only the format was wrong, with YUV.\<close>

definition supported_flag :: "hwc_env \<Rightarrow> hwc \<Rightarrow> exynos_image \<Rightarrow> exynos_image \<Rightarrow> exynos_image \<Rightarrow> nat \<Rightarrow> layer \<Rightarrow> layer" where
  "supported_flag ev w src dst dst_yuv a l =
    (let t = mLogicalType (hw_mpps w a);
         ret = mpp_supports ev a w src dst;
         ret = (if ret = Some (- eMPPUnsupportedFormat) then mpp_supports ev a w src dst_yuv else ret)
     in if ret = Some NO_ERROR then l\<lparr>mSupportedMPPFlag := mSupportedMPPFlag l OR t\<rparr>
        else case ret of
               None \<Rightarrow> l
             | Some r \<Rightarrow> if r < 0 then l\<lparr>mCheckMPPFlag := (mCheckMPPFlag l)(t \<mapsto>
                           (case mCheckMPPFlag l t of None \<Rightarrow> 0 | Some f \<Rightarrow> f) OR of_int (- r))\<rparr> else l)"

definition update_layer_flags :: "hwc_env \<Rightarrow> nat \<Rightarrow> hwc \<Rightarrow> hwc" where
  "update_layer_flags ev i w =
    (if mGeometryChanged (mLayers w ! i) = 0 then w
     else
       (let src = src_of ev i w;
            dst = (dst_of ev i w)\<lparr>exynosFormat := defaultMppDstFormat ev\<rparr>;
            dst_yuv = (dst_of ev i w)\<lparr>exynosFormat := defaultMppDstYuvFormat ev\<rparr>
        in upd_layer i (\<lambda>l. fold (supported_flag ev w src dst dst_yuv) (mOtfMPPs_list w @ mM2mMPPs_list w)
             (l\<lparr>mSupportedMPPFlag := 0, mCheckMPPFlag := Map.empty\<rparr>)) w))"

definition updateSupportedMPPFlag :: "hwc_env \<Rightarrow> hwc \<Rightarrow> int \<times> hwc" where
  "updateSupportedMPPFlag ev w = (NO_ERROR, fold (update_layer_flags ev) [0..<length (mLayers w)] w)"

section \<open>Is the layer fit for an overlay\<close>

definition validateLayer :: "hwc_env \<Rightarrow> nat \<Rightarrow> hwc \<Rightarrow> u32" where
  "validateLayer ev i w =
    (let l = mLayers w ! i; frame = pp_displayFrame (mPreprocessedInfo l) in
     if ev_bootanim ev then eForceFbEnabled
     else if forceGpu w then eForceFbEnabled
     else if mLayerFlag l AND EXYNOS_HWC_FORCE_CLIENT_WFD \<noteq> 0 then eFroceClientLayer
     else if mLayerFlag l AND EXYNOS_HWC_FORCE_CLIENT_HDR_META_ERROR \<noteq> 0 then eInvalidVideoMetaData
     else if length (mLayers w) \<ge> MAX_OVERLAY_LAYER_NUM \<and> mOverlayPriority l < ePriorityHigh then eExceedMaxLayerNum
     else if mUseDynamicRecomp w \<and> mDynamicRecompToClient w then eDynamicRecomposition
     else if mCompositionType l = HWC2_COMPOSITION_CLIENT then eSkipLayer
     else if \<not> ev_color_transform ev \<and> mColorTransformHint w \<noteq> ev_identity ev then eUnSupportedColorTransform
     else if ev_color_transform ev \<and> mColorTransformHint w < 0 \<and> mOverlayPriority l < ePriorityHigh
     then eUnSupportedColorTransform
     else if layer_isDimLayer l then eDimLayer
     else if mLayerBuffer l = None then eInvalidHandle
     else if isSrcCropFloat (pp_sourceCrop (mPreprocessedInfo l)) then eHasFloatSrcCrop
     else if rect_left frame < 0 \<or> rect_top frame < 0 \<or> rect_right frame > sint (mXres w)
             \<or> rect_bottom frame > sint (mYres w) then eInvalidDispFrame
     else 0)"

section \<open>What a scaler could deliver\<close>

definition align_u32 :: "u32 \<Rightarrow> u32 \<Rightarrow> u32" where
  "align_u32 x a = of_int (pixel_align (sint x) (sint a))"

definition getHDR10OtfMPP :: "hwc \<Rightarrow> nat option" where
  "getHDR10OtfMPP w = find (\<lambda>a. mAttr (hw_mpps w a) AND MPP_ATTR_HDR10 \<noteq> 0) (mOtfMPPs_list w)"

definition ceil_ratio :: "u32 \<Rightarrow> u32 \<Rightarrow> u32" where
  "ceil_ratio n r = of_int \<lceil>fl_div (fl_u32 n) (fl_u32 r)\<rceil>"

text \<open>One side of the middle picture of an upscale: the source's, unless the pipe cannot reach the target from it.\<close>

definition scale_side :: "u32 \<Rightarrow> u32 \<Rightarrow> u32 \<Rightarrow> u32 \<Rightarrow> u32" where
  "scale_side side target ratio a =
    (let s = align_u32 side a in if s * ratio < target then align_u32 (ceil_ratio target ratio) a else s)"

definition scale_format :: "hwc_env \<Rightarrow> exynos_image \<Rightarrow> ExynosFormat" where
  "scale_format ev src =
    (if hasHdrInfo (ev_pf ev) src then
       (if fmt_isYUV (exynosFormat src) then exynosFormatP010 ev else exynosFormatRgba10 ev)
     else
       (if fmt_isYUV (exynosFormat src) then defaultMppDstYuvFormat ev else defaultMppDstFormat ev))"

definition uncompressed_too :: "hwc_env \<Rightarrow> exynos_image \<Rightarrow> exynos_image list" where
  "uncompressed_too ev img = (if fmt_isSBWC (exynosFormat img)
     then [img, img\<lparr>exynosFormat := defaultMppDstUncompYuvFormat ev\<rparr>] else [img])"

definition is_perpendicular :: "hwc_env \<Rightarrow> exynos_image \<Rightarrow> bool" where
  "is_perpendicular ev img \<longleftrightarrow> transform img AND pf_rot_90 (ev_pf ev) \<noteq> 0"

text \<open>The middle pictures for an upscale done by the first pipe that can scale up; \<open>src\<close> is not turned any more.\<close>

definition scale_candidates :: "hwc_env \<Rightarrow> hwc \<Rightarrow> bool \<Rightarrow> exynos_image \<Rightarrow> exynos_image \<Rightarrow> exynos_image list" where
  "scale_candidates ev w perpendicular src dst =
    (case find (\<lambda>a. getMaxUpscale (hw_mpps w a) src > 1) (mOtfMPPs_list w) of
       None \<Rightarrow> []
     | Some a \<Rightarrow>
        (let m = hw_mpps w a;
             ratio = getMaxUpscale m src;
             wa = getSrcCropWidthAlign (ev_pf ev) m src; ha = getSrcCropHeightAlign (ev_pf ev) m src
         in uncompressed_too ev (dst\<lparr>exynosFormat := scale_format ev src, img_x := 0, img_y := 0,
              img_w := scale_side (if perpendicular then img_h src else img_w src) (img_w dst) ratio wa,
              img_h := scale_side (if perpendicular then img_w src else img_h src) (img_h dst) ratio ha\<rparr>)))"

text \<open>The middle picture of an HDR layer, aligned for the pipe that tone-maps it.\<close>

definition hdr_middle :: "hwc_env \<Rightarrow> hwc \<Rightarrow> exynos_image \<Rightarrow> exynos_image \<Rightarrow> exynos_image list \<times> exynos_image" where
  "hdr_middle ev w src dst =
    (let pf = ev_pf ev;
         dst = dst\<lparr>exynosFormat := (if fmt_isYUV (exynosFormat src) then exynosFormatP010 ev else exynosFormatRgba10 ev),
                   dataSpace := dataSpace src\<rparr>;
         (wa, ha) = (case getHDR10OtfMPP w of None \<Rightarrow> (1, 1)
                     | Some a \<Rightarrow> (getSrcCropWidthAlign pf (hw_mpps w a) dst, getSrcCropHeightAlign pf (hw_mpps w a) dst));
         aligned = dst\<lparr>img_w := align_u32 (img_w dst) wa, img_h := align_u32 (img_h dst) ha\<rparr>
     in if fmt_isYUV (exynosFormat src) \<and> fmt_is10Bit (exynosFormat src)
        then ([aligned], aligned\<lparr>exynosFormat := exynosFormatRgba10 ev, img_w := img_w dst, img_h := img_h dst\<rparr>)
        else ([], aligned))"

text \<open>An RGB565 picture that is scaled is delivered with eight bits per channel.\<close>

definition rgb565_middle :: "hwc_env \<Rightarrow> exynos_image \<Rightarrow> exynos_image \<Rightarrow> exynos_image" where
  "rgb565_middle ev src dst =
    (let hal = pf_hal (ev_pf ev);
         is565 = (\<lambda>img. fmt_halFormat hal (exynosFormat img) = hal HAL_PIXEL_FORMAT_RGB_565);
         (dw, dh) = (if is_perpendicular ev src then (img_h dst, img_w dst) else (img_w dst, img_h dst))
     in if is565 src \<and> is565 dst \<and> (img_w src \<noteq> dw \<or> img_h src \<noteq> dh)
        then dst\<lparr>exynosFormat := defaultMppDstFormat ev\<rparr> else dst)"

definition hdr_g2d_dataspace :: "hwc_env \<Rightarrow> hwc \<Rightarrow> u32" where
  "hdr_g2d_dataspace ev w =
    (if mColorMode w = 0 then
       ((an_dataspace (ev_an ev) DS_DCI_P3 AND NOT (pf_transfer_mask (ev_pf ev)) OR pf_transfer (ev_pf ev) TRANSFER_GAMMA2_2)
          AND NOT (an_range_mask (ev_an ev))) OR an_range_limited (ev_an ev)
     else colorModeToDataspace (ev_pf ev) (ev_an ev) (mColorMode w))"

text \<open>The pictures the 2D engine could deliver with the dataspace converted.\<close>

definition converted :: "hwc_env \<Rightarrow> hwc \<Rightarrow> exynos_image \<Rightarrow> exynos_image \<Rightarrow> exynos_image list" where
  "converted ev w src dst =
    (if hasHdrInfo (ev_pf ev) src then
       [dst\<lparr>exynosFormat := exynosFormatRgba10 ev,
            dataSpace := (if mDisplayType w = pf_display_external (ev_pf ev) \<and> mPlugState w \<and> mSinkHdrSupported w
                          then dataSpace src else hdr_g2d_dataspace ev w)\<rparr>]
     else if fmt_isYUV (exynosFormat src) then
       [dst\<lparr>exynosFormat := defaultMppDstFormat ev,
            dataSpace := (if mColorMode w = 0 then dataSpace src
                          else colorModeToDataspace (ev_pf ev) (ev_an ev) (mColorMode w))\<rparr>]
     else [])"

definition getCandidateM2mMPPOutImages :: "hwc_env \<Rightarrow> nat \<Rightarrow> hwc \<Rightarrow> exynos_image list" where
  "getCandidateM2mMPPOutImages ev i w =
    (let src = src_of ev i w;
         dst = (dst_of ev i w)\<lparr>transform := 0, img_x := 0, img_y := 0, exynosFormat := exynosFormat src,
                               dataSpace := dataSpace src\<rparr>;
         perpendicular = is_perpendicular ev src;
         (dw, dh) = (if perpendicular then (img_h dst, img_w dst) else (img_w dst, img_h dst));
         up = (dw > img_w src \<and> dh > img_h src);
         src = (if up then src\<lparr>transform := 0\<rparr> else src);
         scaled = (if up then scale_candidates ev w perpendicular src dst else []);
         dst = (if fmt_isYUV (exynosFormat src) \<and> \<not> hasHdrInfo (ev_pf ev) src
                then dst\<lparr>exynosFormat := defaultMppDstYuvFormat ev\<rparr> else dst);
         (hdr, dst) = (if hasHdrInfo (ev_pf ev) src then hdr_middle ev w src dst else ([], dst));
         dst = rgb565_middle ev src dst;
         plain = uncompressed_too ev dst;
         images = scaled @ hdr @ plain @ converted ev w src (last plain)
     in map (\<lambda>img. img\<lparr>needColorTransform := (if dataSpace img = dataSpace src then needColorTransform src else False)\<rparr>) images)"

section \<open>Choosing for one layer\<close>

text \<open>A window through a pipe; one through a scaler and a pipe, with the middle picture; or the 2D engine.\<close>

datatype choice = By_otf nat | By_m2m nat nat exynos_image | By_engine nat

definition layer_fits_otf :: "hwc_env \<Rightarrow> nat \<Rightarrow> hwc \<Rightarrow> exynos_image \<Rightarrow> exynos_image \<Rightarrow> nat \<Rightarrow> bool" where
  "layer_fits_otf ev i w src dst a \<longleftrightarrow>
     supports_layer a i w \<and> rm_isAssignable ev a w src dst \<and> mpp_supports ev a w src dst = Some NO_ERROR"

definition otf_takes :: "hwc_env \<Rightarrow> hwc \<Rightarrow> exynos_image \<Rightarrow> exynos_image \<Rightarrow> nat \<Rightarrow> bool" where
  "otf_takes ev w src dst a \<longleftrightarrow> mpp_supports ev a w src dst = Some NO_ERROR \<and> rm_isAssignable ev a w src dst"

definition m2m_delivers :: "hwc_env \<Rightarrow> hwc \<Rightarrow> exynos_image \<Rightarrow> exynos_image \<Rightarrow> nat \<Rightarrow> bool" where
  "m2m_delivers ev w src mid a \<longleftrightarrow> mpp_supports ev a w src mid = Some NO_ERROR \<and>
     hasEnoughCapa (ev_pf ev) (ev_tabs ev) (hw_sources w) (hw_mpps w a) (mDisplayInfo w) src mid (getResourceUsedCapa a w)"

definition m2m_skipped :: "nat \<Rightarrow> bool \<Rightarrow> hwc \<Rightarrow> bool" where
  "m2m_skipped a no_window w \<longleftrightarrow>
    (let t = mLogicalType (hw_mpps w a) in
     (mUseDpu w \<and> (t = MPP_LOGICAL_G2D_COMBO \<or> t = MPP_LOGICAL_MSC_COMBO)) \<or>
     (\<not> mUseDpu w \<and> t = MPP_LOGICAL_G2D_RGB) \<or>
     (no_window \<and> \<not> (mMaxSrcLayerNum (hw_mpps w a) > 1)))"

text \<open>A candidate picture: the scaler must deliver it and some pipe must show it.\<close>

definition via_candidate ::
  "hwc_env \<Rightarrow> hwc \<Rightarrow> exynos_image \<Rightarrow> exynos_image \<Rightarrow> nat \<Rightarrow> exynos_image \<Rightarrow> choice option" where
  "via_candidate ev w src dst a mid =
    (let mid = mid\<lparr>transform := 0\<rparr>;
         otf_dst = dst\<lparr>exynosFormat := defaultMppDstFormat ev, transform := 0\<rparr>;
         m2m_src = (if needColorTransform mid then src\<lparr>needColorTransform := False\<rparr> else src)
     in if \<not> m2m_delivers ev w m2m_src mid a then None
        else map_option (\<lambda>k. By_m2m a k mid) (find (otf_takes ev w mid otf_dst) (mOtfMPPs_list w)))"

definition m2m_choice ::
  "hwc_env \<Rightarrow> nat \<Rightarrow> bool \<Rightarrow> hwc \<Rightarrow> exynos_image \<Rightarrow> exynos_image \<Rightarrow> nat \<Rightarrow> choice option" where
  "m2m_choice ev i no_window w src dst a =
    (if m2m_skipped a no_window w \<or> \<not> isAssignableState (hw_mpps w a) (mDisplayInfo w) then None
     else if \<not> (mMaxSrcLayerNum (hw_mpps w a) > 1) then
       first_some (via_candidate ev w src dst a) (getCandidateM2mMPPOutImages ev i w)
     else if supports_layer a i w \<and>
             hasEnoughCapa (ev_pf ev) (ev_tabs ev) (hw_sources w) (hw_mpps w a) (mDisplayInfo w) src dst
               (getResourceUsedCapa a w)
     then Some (By_engine a) else None)"

text \<open>The flags \<open>assignLayer\<close> works with: the layer's own, and whether the windows are used up.\<close>

definition validate_flags :: "hwc_env \<Rightarrow> nat \<Rightarrow> hwc \<Rightarrow> u32" where
  "validate_flags ev i w = (if mUseDpu w \<and> mWindowNumUsed w \<ge> mMaxWindowNum w
     then validateLayer ev i w OR eInsufficientWindow else validateLayer ev i w)"

definition layer_choice :: "hwc_env \<Rightarrow> nat \<Rightarrow> hwc \<Rightarrow> choice option" where
  "layer_choice ev i w =
    (let src = src_of ev i w; dst = dst_of ev i w; flags = validate_flags ev i w;
         no_window = (flags AND eInsufficientWindow \<noteq> 0)
     in if flags = 0 \<or> no_window \<or> flags AND eDimLayer \<noteq> 0 then
          (case (if mUseDpu w \<and> \<not> no_window then find (layer_fits_otf ev i w src dst) (mOtfMPPs_list w) else None) of
             Some a \<Rightarrow> Some (By_otf a)
           | None \<Rightarrow> first_some (m2m_choice ev i no_window w src dst) (mM2mMPPs_list w))
        else None)"

text \<open>
  The result is the choice (none: the client composes), the reason for the client, and the state: the
  layer's images are set, and an HDR10+ layer without resource loses its dynamic metadata.
\<close>

definition assignLayer :: "hwc_env \<Rightarrow> nat \<Rightarrow> hwc \<Rightarrow> choice option \<times> u32 \<times> hwc" where
  "assignLayer ev i w =
    (let src = src_of ev i w; w = set_images i src (dst_of ev i w) w
     in case layer_choice ev i w of
          Some c \<Rightarrow> (Some c, 0, w)
        | None \<Rightarrow>
           (let flags = validate_flags ev i w;
                info = (if flags \<noteq> 0 then flags else eMPPUnsupported)
            in if \<not> hasHdr10Plus (ev_pf ev) src then (None, info, w)
               else if mOverlayInfo (mLayers w ! i) AND eSkipLayer \<noteq> 0 then (None, info, w)
               else
                 (let (ret, l) = clearHdrDynamicType (ev_pf ev) (mLayers w ! i)
                  in if ret \<noteq> NO_ERROR then (None, info, w)
                     else (None, eRemoveDynamicMetadata, upd_layer i (\<lambda>_. l) w))))"

section \<open>Assigning the layers of one priority\<close>

text \<open>A window: the pipe, then the scaler, then the middle picture. Errors leave what was done.\<close>

definition take_otf :: "hwc_env \<Rightarrow> nat \<Rightarrow> nat option \<Rightarrow> hwc \<Rightarrow> int \<times> hwc" where
  "take_otf ev i otf w =
    (case otf of None \<Rightarrow> (NO_ERROR, w) | Some a \<Rightarrow> assign_mpp ev a (lay_source (mLayers w ! i)) w)"

definition take_m2m :: "hwc_env \<Rightarrow> nat \<Rightarrow> (nat \<times> exynos_image) option \<Rightarrow> hwc \<Rightarrow> int \<times> hwc" where
  "take_m2m ev i m2m w =
    (case m2m of None \<Rightarrow> (NO_ERROR, w)
     | Some (a, mid) \<Rightarrow>
        (let (ret, w) = assign_mpp ev a (lay_source (mLayers w ! i)) w
         in if ret \<noteq> NO_ERROR then (ret, w)
            else (ret, upd_source (lay_source (mLayers w ! i)) (setExynosMidImage mid) w)))"

definition take_window :: "hwc_env \<Rightarrow> nat \<Rightarrow> nat option \<Rightarrow> (nat \<times> exynos_image) option \<Rightarrow> hwc \<Rightarrow> int \<times> hwc" where
  "take_window ev i otf m2m w =
    (let (ret, w) = take_otf ev i otf w
     in if ret \<noteq> NO_ERROR then (ret, w)
        else
          (let (ret, w) = take_m2m ev i m2m w
           in if ret \<noteq> NO_ERROR then (ret, w)
              else
                (let w = set_layer_type i HWC2_COMPOSITION_DEVICE w
                 in (ret, w\<lparr>mWindowNumUsed := mWindowNumUsed w + 1\<rparr>))))"

definition choice_otf :: "choice \<Rightarrow> nat option" where
  "choice_otf c = (case c of By_otf a \<Rightarrow> Some a | By_m2m a k mid \<Rightarrow> Some k | By_engine a \<Rightarrow> None)"

definition choice_m2m :: "choice \<Rightarrow> (nat \<times> exynos_image) option" where
  "choice_m2m c = (case c of By_m2m a k mid \<Rightarrow> Some (a, mid) | _ \<Rightarrow> None)"

definition take_engine :: "hwc_env \<Rightarrow> nat \<Rightarrow> nat \<Rightarrow> hwc \<Rightarrow> int \<times> hwc" where
  "take_engine ev i a w =
    (let (ret, w) = assign_mpp ev a (lay_source (mLayers w ! i)) w
     in if ret \<noteq> NO_ERROR then (ret, w)
        else
          (let capa = getResourceUsedCapa a w
           in addExynosCompositionLayer ev i capa (set_layer_type i HWC2_COMPOSITION_EXYNOS w)))"

definition give_to_client :: "hwc_env \<Rightarrow> nat \<Rightarrow> u32 \<Rightarrow> hwc \<Rightarrow> int \<times> hwc" where
  "give_to_client ev i info w =
    (let w = or_overlay i (if info \<noteq> 0 then info else eMPPUnsupported) w;
         (ret, _, w) = addClientCompositionLayer ev i (set_layer_type i HWC2_COMPOSITION_CLIENT w)
     in (ret, w))"

text \<open>One step of the loop: go on with the return code so far, return, or reassign everything.\<close>

datatype loop_step = Go_on int | Return int | Reassign

definition assign_one :: "hwc_env \<Rightarrow> overlay_priority \<Rightarrow> nat \<Rightarrow> int \<times> hwc \<Rightarrow> loop_step \<times> hwc" where
  "assign_one ev p i = (\<lambda>(ret, w).
    (if layer_type i w = HWC2_COMPOSITION_CLIENT \<or> layer_type i w = HWC2_COMPOSITION_EXYNOS
        \<or> mOverlayPriority (mLayers w ! i) \<noteq> p
     then (Go_on ret, w)
     else
       (let (c, info, w) = assignLayer ev i w
        in case c of
             None \<Rightarrow>
               (if info AND eRemoveDynamicMetadata \<noteq> 0 then (Reassign, w)
                else
                  (let (ret, w) = give_to_client ev i info w
                   in (if ret = EXYNOS_ERROR_CHANGED \<or> ret < 0 then Return ret else Go_on ret, w)))
           | Some (By_engine a) \<Rightarrow>
               (let (ret, w) = take_engine ev i a w
                in (if ret = EXYNOS_ERROR_CHANGED \<or> ret < 0 then Return ret else Go_on ret, w))
           | Some c \<Rightarrow>
               (let (ret, w) = take_window ev i (choice_otf c) (choice_m2m c) w
                in (if ret \<noteq> NO_ERROR then Return ret else Go_on ret, w)))))"

text \<open>Everything the compositions hold is given back before all layers are assigned anew.\<close>

definition reset_link :: "nat option \<Rightarrow> hwc \<Rightarrow> hwc" where
  "reset_link a w = (case a of None \<Rightarrow> w | Some m \<Rightarrow> on_mpp m resetAssignedState w)"

definition reassign_all :: "hwc_env \<Rightarrow> hwc \<Rightarrow> int \<times> hwc" where
  "reassign_all ev w =
    (let c = mClientCompositionInfo w;
         w = (if mHasCompositionLayer c then reset_link (mOtfMPP (hw_sources w (cmp_source c))) w else w);
         e = mExynosCompositionInfo w;
         w = (if mHasCompositionLayer e then
                (let w = reset_link (mOtfMPP (hw_sources w (cmp_source e))) w
                 in reset_link (mM2mMPP (hw_sources w (cmp_source e))) w)
              else w)
     in (EXYNOS_ERROR_CHANGED, initializeValidateInfos ev w))"

fun assign_list :: "hwc_env \<Rightarrow> overlay_priority \<Rightarrow> nat list \<Rightarrow> int \<times> hwc \<Rightarrow> int \<times> hwc" where
  "assign_list ev p [] s = s"
| "assign_list ev p (i # is) s =
    (case assign_one ev p i s of
       (Go_on ret, w) \<Rightarrow> assign_list ev p is (ret, w)
     | (Return ret, w) \<Rightarrow> (ret, w)
     | (Reassign, w) \<Rightarrow> reassign_all ev w)"

definition assignLayers :: "hwc_env \<Rightarrow> overlay_priority \<Rightarrow> hwc \<Rightarrow> int \<times> hwc" where
  "assignLayers ev p w = assign_list ev p [0..<length (mLayers w)] (NO_ERROR, w)"

section \<open>Composition targets\<close>

definition set_target_all :: "composition_target \<Rightarrow> exynos_image \<Rightarrow> exynos_image \<Rightarrow> hwc \<Rightarrow> hwc" where
  "set_target_all t src dst w =
     upd_source (cmp_source (cmp_info t w)) (\<lambda>s. setExynosMidImage dst (setExynosImage src dst s)) w"

fun target_loop :: "hwc_env \<Rightarrow> composition_target \<Rightarrow> exynos_image \<Rightarrow> exynos_image \<Rightarrow> nat list \<Rightarrow> hwc \<Rightarrow> int \<times> hwc" where
  "target_loop ev t src dst [] w = (int (unat eInsufficientMPP), w)"
| "target_loop ev t src dst (a # as) w =
    (let w = set_target_all t src dst w
     in if otf_takes ev w src dst a then
          (let source = cmp_source (cmp_info t w); (ret, w) = assign_mpp ev a source w
           in if ret \<noteq> NO_ERROR then (ret, w)
              else
                (let w = upd_source source (\<lambda>s. s\<lparr>mOtfMPP := Some a\<rparr>) w
                 in (NO_ERROR, w\<lparr>mWindowNumUsed := mWindowNumUsed w + 1\<rparr>)))
        else target_loop ev t src dst as w)"

definition assignCompositionTarget :: "hwc_env \<Rightarrow> composition_target \<Rightarrow> hwc \<Rightarrow> int \<times> hwc" where
  "assignCompositionTarget ev t w =
    (if t \<noteq> COMPOSITION_CLIENT \<and> t \<noteq> COMPOSITION_EXYNOS then (- EINVAL, w)
     else
       (let c = cmp_info t w in
        if \<not> mHasCompositionLayer c then (NO_ERROR, w)
        else
          (let (_, src, dst) = setCompositionTargetExynosImage ev t w (image_reset, image_reset) in
           if t = COMPOSITION_EXYNOS \<and> mM2mMPP (hw_sources w (cmp_source c)) = None
           then (int (unat eInsufficientMPP), w)
           else if mFirstIndex c < 0 \<or> mLastIndex c < 0 then (- EINVAL, w)
           else if \<not> mUseDpu w then (NO_ERROR, w)
           else if mUseDpu w \<and> mWindowNumUsed w \<ge> mMaxWindowNum w then (int (unat eInsufficientMPP), w)
           else target_loop ev t src dst (mOtfMPPs_list w) w)))"

section \<open>One attempt\<close>

definition mpp_of_display :: "nat \<Rightarrow> hwc \<Rightarrow> bool" where
  "mpp_of_display a w \<longleftrightarrow> di_id (displayIdentifier (mAssignedDisplayInfo (hw_mpps w a))) = mDisplayId w"

definition resetAssignedResources :: "bool \<Rightarrow> hwc \<Rightarrow> int \<times> hwc" where
  "resetAssignedResources forceReset w =
    (let w = fold (\<lambda>a w. if mpp_of_display a w then on_mpp a resetAssignedState w else w) (mOtfMPPs_list w) w;
         w = fold (\<lambda>a w. if \<not> mpp_of_display a w then w
                         else if \<not> forceReset \<and> mMaxSrcLayerNum (hw_mpps w a) > 1 then w
                         else on_mpp a resetAssignedState w) (mM2mMPPs_list w) w
     in (NO_ERROR, w\<lparr>mWindowNumUsed := 0\<rparr>))"

text \<open>The next answer of the driver; only a 2D engine with a handle can be asked.\<close>

definition mpp_prioritize :: "nat \<Rightarrow> hwc \<Rightarrow> int \<times> hwc" where
  "mpp_prioritize a w =
    (if mPhysicalType (hw_mpps w a) \<noteq> MPP_G2D \<or> \<not> hw_acrylic w a then (-1, w)
     else
       (let ret = (case hw_answers w of [] \<Rightarrow> 0 | r # _ \<Rightarrow> r);
            w = w\<lparr>hw_answers := tl (hw_answers w)\<rparr>
        in (ret, if ret = 1 then w\<lparr>hw_mpps := (hw_mpps w)(a := (hw_mpps w a)\<lparr>mHWBusyFlag := True\<rparr>)\<rparr> else w)))"

definition DISABLE_PRIORITY :: u32 where [code_consts]: "DISABLE_PRIORITY = 4"

definition setDisableByUserScenario :: "nat \<Rightarrow> u32 \<Rightarrow> hwc \<Rightarrow> hwc" where
  "setDisableByUserScenario a b w =
     w\<lparr>hw_mpps := (hw_mpps w)(a := (hw_mpps w a)\<lparr>mDisableByUserScenario := mDisableByUserScenario (hw_mpps w a) OR b\<rparr>)\<rparr>"

text \<open>A layer whose engine is busy loses it and is marked; it is looked at again in the next attempt.\<close>

definition pending_layer :: "hwc_env \<Rightarrow> nat \<Rightarrow> nat \<Rightarrow> hwc \<Rightarrow> hwc" where
  "pending_layer ev a i w =
    (let w = set_layer_type i HWC2_COMPOSITION_DEVICE (or_overlay i eResourcePendingWork (resetAssignedResource ev i w))
     in upd_layer i (\<lambda>l. l\<lparr>mCheckMPPFlag := (mCheckMPPFlag l)(mLogicalType (hw_mpps w a) \<mapsto> of_int eMPPHWBusy)\<rparr>) w)"

definition prioritize_layer :: "hwc_env \<Rightarrow> nat \<Rightarrow> int \<times> hwc \<Rightarrow> int \<times> hwc" where
  "prioritize_layer ev i = (\<lambda>(ret, w).
    (case mM2mMPP (hw_sources w (lay_source (mLayers w ! i))) of
       None \<Rightarrow> (ret, w)
     | Some a \<Rightarrow>
        (if layer_type i w = HWC2_COMPOSITION_DEVICE \<and> mPhysicalType (hw_mpps w a) = MPP_G2D then
           (let (check, w) = mpp_prioritize a w
            in if check = NO_ERROR \<or> check < 0 then (ret, w)
               else (EXYNOS_ERROR_CHANGED, setDisableByUserScenario a DISABLE_PRIORITY (pending_layer ev a i w)))
         else (ret, w))))"

definition prioritize_engine :: "hwc_env \<Rightarrow> nat \<Rightarrow> int \<times> hwc \<Rightarrow> int \<times> hwc" where
  "prioritize_engine ev a = (\<lambda>(ret, w).
    (if \<not> hw_acrylic w a then (ret, w)
     else
       (let (check, w) = mpp_prioritize a w
        in if check = NO_ERROR \<or> check < 0 then (ret, w)
           else
             (let e = mExynosCompositionInfo w;
                  w = (if mFirstIndex e \<ge> 0
                       then fold (pending_layer ev a) [nat (mFirstIndex e)..<nat (mLastIndex e + 1)] w else w);
                  w = initializeInfos COMPOSITION_EXYNOS w;
                  w = w\<lparr>hw_mpps := (hw_mpps w)(a := resetUsedCapacity (hw_mpps w a))\<rparr>
              in (EXYNOS_ERROR_CHANGED, setDisableByUserScenario a DISABLE_PRIORITY w)))))"

definition setResourcePriority :: "hwc_env \<Rightarrow> hwc \<Rightarrow> int \<times> hwc" where
  "setResourcePriority ev w =
    (case mM2mMPP (hw_sources w (cmp_source (mExynosCompositionInfo w))) of
       None \<Rightarrow> (NO_ERROR, w)
     | Some a \<Rightarrow>
        (if mPhysicalType (hw_mpps w a) = MPP_MSC then (NO_ERROR, w)
         else
           (let (ret, w) = fold (prioritize_layer ev) [0..<length (mLayers w)] (NO_ERROR, w);
                e = mExynosCompositionInfo w
            in if \<not> mHasCompositionLayer e then (ret, w)
               else case mM2mMPP (hw_sources w (cmp_source e)) of
                      None \<Rightarrow> (ret, w)
                    | Some a \<Rightarrow> prioritize_engine ev a (ret, w))))"

text \<open>The 2D engine's composition got no window: all its layers go to the client.\<close>

fun engine_to_client :: "hwc_env \<Rightarrow> nat list \<Rightarrow> hwc \<Rightarrow> int \<times> hwc" where
  "engine_to_client ev [] w = (NO_ERROR, w)"
| "engine_to_client ev (i # is) w =
    (let w = or_overlay i eInsufficientMPP (resetAssignedResource ev i w);
         w = set_layer_type i HWC2_COMPOSITION_CLIENT w;
         (ret, _, w) = addClientCompositionLayer ev i w
     in if ret \<noteq> NO_ERROR \<and> ret \<noteq> EXYNOS_ERROR_CHANGED then (ret, w) else engine_to_client ev is w)"

text \<open>
  An attempt either returns from \<open>assignResourceInternal\<close> at once or ends with the code its loop tests.
\<close>

datatype attempt = Leave int | Ended int

definition round_engine :: "hwc_env \<Rightarrow> hwc \<Rightarrow> attempt \<times> hwc" where
  "round_engine ev w =
    (let (ret, w) = assignCompositionTarget ev COMPOSITION_EXYNOS w
     in if ret = NO_ERROR then (Ended NO_ERROR, w)
        else if ret \<noteq> int (unat eInsufficientMPP) then (Leave ret, w)
        else
          (let e = mExynosCompositionInfo w;
               (ret, w) = engine_to_client ev [nat (mFirstIndex e)..<nat (mLastIndex e + 1)] w
           in if ret \<noteq> NO_ERROR then (Leave ret, w)
              else (Ended EXYNOS_ERROR_CHANGED, initializeInfos COMPOSITION_EXYNOS w)))"

fun round_low :: "hwc_env \<Rightarrow> overlay_priority list \<Rightarrow> hwc \<Rightarrow> attempt \<times> hwc" where
  "round_low ev [] w = (Ended NO_ERROR, w)"
| "round_low ev (p # ps) w =
    (let (ret, w) = assignLayers ev p w
     in if ret = EXYNOS_ERROR_CHANGED then (Ended ret, w)
        else if ret \<noteq> NO_ERROR then (Leave ret, w)
        else round_low ev ps w)"

definition round_rest :: "hwc_env \<Rightarrow> hwc \<Rightarrow> attempt \<times> hwc" where
  "round_rest ev w =
    (case round_engine ev w of
       (Leave ret, w) \<Rightarrow> (Leave ret, w)
     | (Ended ret, w) \<Rightarrow>
        (case (if ret = NO_ERROR then round_low ev [ePriorityMid, ePriorityLow] w else (Ended ret, w)) of
           (Leave ret, w) \<Rightarrow> (Leave ret, w)
         | (Ended ret, w) \<Rightarrow>
            (if ret = NO_ERROR then (let (ret, w) = setResourcePriority ev w in (Ended ret, w)) else (Ended ret, w))))"

definition assign_round :: "hwc_env \<Rightarrow> hwc \<Rightarrow> attempt \<times> hwc" where
  "assign_round ev w =
    (let (_, w) = resetAssignedResources False w;
         (ret, w) = assignCompositionTarget ev COMPOSITION_CLIENT w
     in if ret \<noteq> NO_ERROR then (Leave ret, w)
        else
          (let (ret, w) = assignLayers ev ePriorityMax w
           in if ret \<noteq> NO_ERROR then (if ret = EXYNOS_ERROR_CHANGED then Ended ret else Leave ret, w)
              else
                (let (ret, w) = assignLayers ev ePriorityHigh w
                 in if ret \<noteq> NO_ERROR then (if ret = EXYNOS_ERROR_CHANGED then Ended ret else Leave ret, w)
                    else round_rest ev w)))"

text \<open>The loop; its result has the number of attempts made.\<close>

function assign_loop :: "hwc_env \<Rightarrow> nat \<Rightarrow> hwc \<Rightarrow> attempt \<times> nat \<times> hwc" where
  "assign_loop ev retry_count w =
    (case assign_round ev w of
       (Leave ret, w) \<Rightarrow> (Leave ret, retry_count, w)
     | (Ended ret, w) \<Rightarrow>
        (if ret = EXYNOS_ERROR_CHANGED \<and> retry_count + 1 < ASSIGN_RESOURCE_TRY_COUNT
         then assign_loop ev (retry_count + 1) w else (Ended ret, retry_count + 1, w)))"
  by pat_completeness auto

termination by (relation "measure (\<lambda>(ev, n, w). ASSIGN_RESOURCE_TRY_COUNT - n)") auto

declare assign_loop.simps [simp del]

section \<open>After the assignment\<close>

text \<open>A layer next to the 2D engine's range joins it when the engine can take it. The two images are the
  caller's variables, reused from layer to layer.\<close>

definition join_images :: "hwc_env \<Rightarrow> nat \<Rightarrow> hwc \<Rightarrow> exynos_image \<times> exynos_image \<Rightarrow> exynos_image \<times> exynos_image" where
  "join_images ev i w = (\<lambda>(src, dst).
     (setSrcExynosImage (ev_pf ev) (ev_an ev) (ev_gr ev) (mLayers w ! i) src,
      setDstExynosImage (ev_pf ev) (ev_an ev) (ev_gr ev) (mLayers w ! i) dst))"

definition can_join :: "hwc_env \<Rightarrow> nat \<Rightarrow> nat \<Rightarrow> hwc \<Rightarrow> exynos_image \<Rightarrow> exynos_image \<Rightarrow> bool" where
  "can_join ev a i w src dst \<longleftrightarrow>
     layer_type i w \<noteq> HWC2_COMPOSITION_CLIENT \<and>
     (\<not> ctl_cursorSupport w \<or> mCompositionType (mLayers w ! i) \<noteq> HWC2_COMPOSITION_CURSOR) \<and>
     supports_layer a i w \<and> rm_isAssignable ev a w src dst"

definition join_engine :: "hwc_env \<Rightarrow> nat \<Rightarrow> nat \<Rightarrow> exynos_image \<Rightarrow> hwc \<Rightarrow> int \<times> hwc" where
  "join_engine ev a i dst w =
    (let w = or_overlay i eUpdateExynosComposition (resetAssignedResource ev i w);
         (ret, w) = assign_mpp ev a (lay_source (mLayers w ! i)) w
     in if ret \<noteq> NO_ERROR then (ret, w)
        else
          (let w = upd_source (lay_source (mLayers w ! i)) (setExynosMidImage dst) w;
               (_, w) = addExynosCompositionLayer ev i (getResourceUsedCapa a w) w
           in (NO_ERROR, set_layer_type i HWC2_COMPOSITION_EXYNOS w)))"

fun join_loop ::
  "hwc_env \<Rightarrow> nat \<Rightarrow> nat list \<Rightarrow> u32 \<times> (exynos_image \<times> exynos_image) \<times> hwc
    \<Rightarrow> int \<times> u32 \<times> (exynos_image \<times> exynos_image) \<times> hwc" where
  "join_loop ev a [] s = (NO_ERROR, s)"
| "join_loop ev a (i # is) (remainNum, images, w) =
    (let (src, dst) = join_images ev i w images;
         w = upd_source (lay_source (mLayers w ! i)) (setExynosImage src dst) w
     in if \<not> can_join ev a i w src dst then (NO_ERROR, remainNum, (src, dst), w)
        else
          (let (ret, w) = join_engine ev a i dst w
           in if ret \<noteq> NO_ERROR then (ret, remainNum, (src, dst), w)
              else if remainNum - 1 = 0 then (NO_ERROR, 0, (src, dst), w)
              else join_loop ev a is (remainNum - 1, (src, dst), w)))"

definition fill_engine :: "hwc_env \<Rightarrow> nat \<Rightarrow> hwc \<Rightarrow> int \<times> hwc" where
  "fill_engine ev a w =
    (let e = mExynosCompositionInfo w;
         firstIndex = nat (mFirstIndex e); lastIndex = nat (mLastIndex e);
         remainNum = mMaxSrcLayerNum (hw_mpps w a) - of_int (mLastIndex e - mFirstIndex e + 1);
         s = (remainNum, (image_reset, image_reset), w);
         (ret, s) = (if remainNum > 0 then join_loop ev a [lastIndex + 1..<length (mLayers w)] s else (NO_ERROR, s))
     in if ret \<noteq> NO_ERROR then (ret, snd (snd s))
        else
          (let (ret, s) = (if fst s > 0 then join_loop ev a (rev [0..<firstIndex]) s else (NO_ERROR, s))
           in (ret, snd (snd s))))"

text \<open>A composition of one layer is none: the pipe of the target shows the layer, if it can.\<close>

definition single_layer :: "hwc_env \<Rightarrow> hwc \<Rightarrow> int \<times> hwc" where
  "single_layer ev w =
    (let e = mExynosCompositionInfo w; i = nat (mFirstIndex e) in
     case mOtfMPP (hw_sources w (cmp_source e)) of
       None \<Rightarrow> (NO_ERROR, w)
     | Some a \<Rightarrow>
        (if ctl_enableExynosCompositionOptimization w \<and> mFirstIndex e \<ge> 0 \<and> mFirstIndex e = mLastIndex e
            \<and> supports_layer a i w \<and> isSupportedCompression (hw_mpps w a) (src_of ev i w)
         then
           (let w = set_layer_type i HWC2_COMPOSITION_DEVICE (resetAssignedResource ev i w);
                w = on_mpp a resetAssignedState (initializeInfos COMPOSITION_EXYNOS w)
            in assign_mpp ev a (lay_source (mLayers w ! i)) w)
         else (NO_ERROR, w)))"

definition updateExynosComposition :: "hwc_env \<Rightarrow> hwc \<Rightarrow> int \<times> hwc" where
  "updateExynosComposition ev w =
    (let e = mExynosCompositionInfo w in
     if \<not> mHasCompositionLayer e then (NO_ERROR, w)
     else case mM2mMPP (hw_sources w (cmp_source e)) of
            None \<Rightarrow> (NO_ERROR, w)
          | Some a \<Rightarrow>
             (let (ret, w) = (if ctl_useMaxG2DSrc w then fill_engine ev a w else (NO_ERROR, w))
              in if ret \<noteq> NO_ERROR then (ret, w) else single_layer ev w))"

definition changeLayerFromClientToDevice ::
  "hwc_env \<Rightarrow> nat \<Rightarrow> nat option \<Rightarrow> (nat \<times> exynos_image) option \<Rightarrow> hwc \<Rightarrow> int \<times> hwc" where
  "changeLayerFromClientToDevice ev i otf m2m w =
    (let (ret, w) = removeClientCompositionLayer ev i w
     in if ret \<noteq> NO_ERROR then (ret, w) else take_window ev i otf m2m w)"

text \<open>
  The client's range is cut from one end while its end layer can get a window: \<open>shrink\<close> moves the end
  over a layer that has an overlay already.
\<close>

definition end_layer :: "nat \<Rightarrow> hwc \<Rightarrow> bool" where
  "end_layer i w \<longleftrightarrow> mOverlayPriority (mLayers w ! i) \<ge> ePriorityHigh \<and> layer_type i w = HWC2_COMPOSITION_DEVICE"

definition is_g2d :: "choice \<Rightarrow> hwc \<Rightarrow> bool" where
  "is_g2d c w \<longleftrightarrow> (case choice_m2m c of Some (a, _) \<Rightarrow> mPhysicalType (hw_mpps w a) = MPP_G2D | None \<Rightarrow> False)"

fun cut_client :: "hwc_env \<Rightarrow> (composition_info \<Rightarrow> composition_info) \<Rightarrow> nat list \<Rightarrow> hwc \<Rightarrow> int \<times> hwc" where
  "cut_client ev shrink [] w = (NO_ERROR, w)"
| "cut_client ev shrink (i # is) w =
    (if end_layer i w then cut_client ev shrink is (upd_info COMPOSITION_CLIENT shrink w)
     else
       (let (c, _, w) = assignLayer ev i w
        in case c of
             None \<Rightarrow> (NO_ERROR, w)
           | Some (By_engine a) \<Rightarrow> (NO_ERROR, w)
           | Some c \<Rightarrow>
              (if is_g2d c w then (NO_ERROR, w)
               else
                 (let (ret, w) = changeLayerFromClientToDevice ev i (choice_otf c) (choice_m2m c) w
                  in if ret \<noteq> NO_ERROR then (ret, w) else cut_client ev shrink is w))))"

definition updateClientComposition :: "hwc_env \<Rightarrow> hwc \<Rightarrow> int \<times> hwc" where
  "updateClientComposition ev w =
    (if \<not> mUseDpu w then (NO_ERROR, w)
     else if forceGpu w \<or> \<not> mHasCompositionLayer (mClientCompositionInfo w) then (NO_ERROR, w)
     else
       (let c = mClientCompositionInfo w;
            (ret, w) = cut_client ev (\<lambda>c. c\<lparr>mFirstIndex := mFirstIndex c + 1\<rparr>)
                         [nat (mFirstIndex c)..<nat (mLastIndex c + 1)] w
        in if ret \<noteq> NO_ERROR then (ret, w)
           else cut_client ev (\<lambda>c. c\<lparr>mLastIndex := mLastIndex c - 1\<rparr>)
                  (rev [0..<nat (mLastIndex (mClientCompositionInfo w) + 1)]) w))"

section \<open>The whole assignment\<close>

definition skip_layer :: "hwc_env \<Rightarrow> nat \<Rightarrow> int \<times> hwc \<Rightarrow> int \<times> hwc" where
  "skip_layer ev i = (\<lambda>(ret, w).
    (if ret < 0 \<or> mCompositionType (mLayers w ! i) \<noteq> HWC2_COMPOSITION_CLIENT then (ret, w)
     else
       (let w = set_layer_type i HWC2_COMPOSITION_CLIENT (or_overlay i eSkipLayer w);
            (ret, _, w) = addClientCompositionLayer ev i w
        in (if ret = EXYNOS_ERROR_CHANGED then NO_ERROR else ret, w))))"

definition assignResourceInternal :: "hwc_env \<Rightarrow> hwc \<Rightarrow> int \<times> hwc" where
  "assignResourceInternal ev w =
    (let (ret, w) = fold (skip_layer ev) [0..<length (mLayers w)] (NO_ERROR, w)
     in if ret \<noteq> NO_ERROR then (ret, w)
        else
          (case assign_loop ev 0 w of
             (Leave ret, _, w) \<Rightarrow> (ret, w)
           | (Ended ret, retry_count, w) \<Rightarrow>
              (if retry_count = ASSIGN_RESOURCE_TRY_COUNT then (sint eUnknown, w)
               else
                 (let (ret, w) = updateExynosComposition ev w
                  in if ret \<noteq> NO_ERROR then (ret, w) else updateClientComposition ev w))))"

text \<open>Windows are numbered from the bottom; a composition takes the place of its last layer.\<close>

definition window_step :: "nat \<Rightarrow> u32 \<times> hwc \<Rightarrow> u32 \<times> hwc" where
  "window_step i = (\<lambda>(windowIndex, w).
    (let t = layer_type i w in
     if t = HWC2_COMPOSITION_DEVICE then (windowIndex + 1, upd_layer i (\<lambda>l. l\<lparr>mWindowIndex := sint windowIndex\<rparr>) w)
     else if t = HWC2_COMPOSITION_CLIENT \<or> t = HWC2_COMPOSITION_EXYNOS then
       (let target = (if t = HWC2_COMPOSITION_CLIENT then COMPOSITION_CLIENT else COMPOSITION_EXYNOS);
            c = cmp_info target w
        in if \<not> mHasCompositionLayer c \<or> mFirstIndex c < 0 \<or> mLastIndex c < 0 then (windowIndex, w)
           else if int i \<noteq> mLastIndex c then (windowIndex, w)
           else (windowIndex + 1, upd_info target (\<lambda>c. c\<lparr>cmp_mWindowIndex := sint windowIndex\<rparr>) w))
     else (windowIndex, w)))"

definition assignWindow :: "hwc \<Rightarrow> int \<times> hwc" where
  "assignWindow w =
    (if \<not> mUseDpu w then (NO_ERROR, w)
     else (NO_ERROR, snd (fold window_step [0..<length (mLayers w)] (mBaseWindowIndex w, w))))"

text \<open>HDR10+ layers beyond the number of resources for them are shown as HDR10.\<close>

definition hdr10plus_resources :: "hwc_env \<Rightarrow> hwc \<Rightarrow> nat" where
  "hdr10plus_resources ev w =
    (let has = (\<lambda>a. mAttr (hw_mpps w a) AND MPP_ATTR_HDR10PLUS \<noteq> 0);
         reserved = (\<lambda>a. di_id (displayIdentifier (mReservedDisplayInfo (hw_mpps w a))))
     in length (filter (\<lambda>a. \<not> (reserved a \<noteq> UINT32_MAX \<and> reserved a \<noteq> mDisplayId w \<and> ev_plugged ev (reserved a)) \<and> has a)
                 (mOtfMPPs_list w))
      + length (filter (\<lambda>a. reserved a = mDisplayId w \<and> has a) (mM2mMPPs_list w)))"

definition set_plain_images :: "hwc_env \<Rightarrow> nat \<Rightarrow> hwc \<Rightarrow> hwc" where
  "set_plain_images ev i w = upd_source (lay_source (mLayers w ! i)) (setExynosImage (src_of ev i w) (dst_of ev i w)) w"

definition hdr10plus_layer :: "hwc_env \<Rightarrow> nat \<Rightarrow> nat \<Rightarrow> nat \<times> hwc \<Rightarrow> nat \<times> hwc" where
  "hdr10plus_layer ev mpp_cnt i = (\<lambda>(layer_cnt, w).
    (if \<not> mIsHdr10PlusLayer (mLayers w ! i) then (layer_cnt, w)
     else
       (let layer_cnt = layer_cnt + 1;
            plus = hasHdr10Plus (ev_pf ev) (src_of ev i w);
            (ret, l) = (if layer_cnt > mpp_cnt
                        then (if plus then clearHdrDynamicType (ev_pf ev) (mLayers w ! i) else (-1, mLayers w ! i))
                        else (if \<not> plus then restoreHdrDynamicType (ev_pf ev) (mLayers w ! i) else (-1, mLayers w ! i)))
        in (layer_cnt, if ret = NO_ERROR then set_plain_images ev i (upd_layer i (\<lambda>_. l) w) else w))))"

definition processHdr10plusToHdr10 :: "hwc_env \<Rightarrow> hwc \<Rightarrow> hwc" where
  "processHdr10plusToHdr10 ev w =
     snd (fold (hdr10plus_layer ev (hdr10plus_resources ev w)) [0..<length (mLayers w)] (0, w))"

definition reset_layer :: "hwc_env \<Rightarrow> nat \<Rightarrow> hwc \<Rightarrow> hwc" where
  "reset_layer ev i w =
    (let (l, st) = resetValidateData (ev_pf ev) (ev_an ev) (ev_gr ev) (mLayers w ! i, hw_sources w)
     in upd_layer i (\<lambda>_. l) (w\<lparr>hw_sources := st\<rparr>))"

definition clear_preassigned :: "nat \<Rightarrow> hwc \<Rightarrow> hwc" where
  "clear_preassigned a w =
    (if di_id (displayIdentifier (mReservedDisplayInfo (hw_mpps w a))) = mDisplayId w
     then w\<lparr>hw_mpps := (hw_mpps w)(a := (hw_mpps w a)\<lparr>mPreAssignedCapacity := 0\<rparr>)\<rparr> else w)"

text \<open>
  A display without controller: the client's buffer becomes a source of the 2D engine. \<open>None\<close> is the
  null pointer the code follows when there is no engine.
\<close>

definition setClientTargetBufferToExynosCompositor :: "hwc_env \<Rightarrow> hwc \<Rightarrow> (int \<times> hwc) option" where
  "setClientTargetBufferToExynosCompositor ev w =
    (if \<not> mHasCompositionLayer (mClientCompositionInfo w) then Some (NO_ERROR, w)
     else
       (let e_src = cmp_source (mExynosCompositionInfo w); c_src = cmp_source (mClientCompositionInfo w);
            w = (if mM2mMPP (hw_sources w e_src) = None
                 then case find (\<lambda>a. mMaxSrcLayerNum (hw_mpps w a) > 1 \<and> ev_virtual ev a) (mM2mMPPs_list w) of
                        None \<Rightarrow> w
                      | Some a \<Rightarrow> upd_source e_src (\<lambda>s. s\<lparr>mM2mMPP := Some a\<rparr>) w
                 else w);
            (_, src, dst) = setCompositionTargetExynosImage ev COMPOSITION_CLIENT w (image_reset, image_reset);
            w = set_target_all COMPOSITION_CLIENT src dst w
        in case mM2mMPP (hw_sources w e_src) of
             None \<Rightarrow> None
           | Some a \<Rightarrow>
              (let (ret, w) = assign_mpp ev a c_src w
               in if ret \<noteq> NO_ERROR then Some (ret, w)
                  else
                    (let had = mHasCompositionLayer (mExynosCompositionInfo w);
                         w = upd_info COMPOSITION_EXYNOS (\<lambda>e. e\<lparr>mHasCompositionLayer := True\<rparr>) w
                     in Some (NO_ERROR, if had then w else snd (setResourcePriority ev w))))))"

definition assignResource :: "hwc_env \<Rightarrow> hwc \<Rightarrow> (int \<times> hwc) option" where
  "assignResource ev w =
    (let w = fold (reset_layer ev) [0..<length (mLayers w)] w;
         w = initializeValidateInfos ev w;
         w = (if mHasHdr10PlusLayer w then processHdr10plusToHdr10 ev w else w);
         w = fold clear_preassigned (mM2mMPPs_list w) w;
         (_, w) = updateSupportedMPPFlag ev w;
         (ret, w) = assignResourceInternal ev w
     in if ret \<noteq> NO_ERROR then Some (ret, w)
        else
          (let (_, w) = assignWindow w
           in if mUseDpu w then Some (NO_ERROR, w)
              else case setClientTargetBufferToExynosCompositor ev w of
                     None \<Rightarrow> None | Some (ret, w) \<Rightarrow> Some (ret, w)))"

section \<open>What an assignment keeps\<close>

text \<open>The rules of \<open>evolve\<close> for the operations above; none loses a layer's composition type.\<close>

lemma hdr_type_fields [simp]:
  "mOverlayPriority (snd (clearHdrDynamicType pf l)) = mOverlayPriority l"
  "mValidateCompositionType (snd (clearHdrDynamicType pf l)) = mValidateCompositionType l"
  by (simp_all add: clearHdrDynamicType_def split: option.split)

lemma evolves_replace_layer:
  assumes "evolves T w0 w" "mOverlayPriority l = mOverlayPriority (mLayers w ! i)"
    "mValidateCompositionType l = mValidateCompositionType (mLayers w ! i)"
  shows "evolves T w0 (upd_layer i (\<lambda>_. l) w)"
proof (cases "i < length (mLayers w)")
  case True
  have "mLayers (upd_layer i (\<lambda>_. l) w) ! j = (if j = i then l else mLayers w ! j)" for j
    by (rule nth_upd_layer[OF True])
  then show ?thesis
    using assms by (auto simp: evolves_def layer_type_def upd_layer_def)
next
  case False
  then have "upd_layer i (\<lambda>_. l) w = w" by (simp add: upd_layer_def list_update_beyond)
  with assms show ?thesis by simp
qed

lemma evolves_assignLayer [evolve]: "evolves T w0 w \<Longrightarrow> evolves T w0 (snd (snd (assignLayer ev i w)))"
proof -
  assume w: "evolves T w0 w"
  define v where "v = set_images i (src_of ev i w) (dst_of ev i w) w"
  have v: "evolves T w0 v" unfolding v_def by (intro evolve) (rule w)
  then have "evolves T w0 (upd_layer i (\<lambda>_. snd (clearHdrDynamicType (ev_pf ev) (mLayers v ! i))) v)"
    by (rule evolves_replace_layer) simp_all
  with v show ?thesis
    unfolding assignLayer_def Let_def v_def[symmetric] by (simp add: split_beta split: option.split)
qed

lemma evolves_take_otf [evolve]: "evolves T w0 w \<Longrightarrow> evolves T w0 (snd (take_otf ev i otf w))"
  unfolding take_otf_def by (intro evolve)

lemma evolves_take_m2m [evolve]: "evolves T w0 w \<Longrightarrow> evolves T w0 (snd (take_m2m ev i m2m w))"
  unfolding take_m2m_def Let_def split_beta by (intro evolve)

lemma evolves_take_window [evolve]: "evolves T w0 w \<Longrightarrow> evolves T w0 (snd (take_window ev i otf m2m w))"
  unfolding take_window_def Let_def split_beta by (intro evolve) simp_all

lemma evolves_take_engine [evolve]: "evolves False w0 w \<Longrightarrow> evolves False w0 (snd (take_engine ev i a w))"
  unfolding take_engine_def Let_def split_beta by (intro evolve) simp_all

lemma evolves_give [evolve]: "evolves T w0 w \<Longrightarrow> evolves T w0 (snd (give_to_client ev i info w))"
  unfolding give_to_client_def Let_def split_beta by (intro evolve) simp_all

text \<open>A layer that is dealt with has a type afterwards.\<close>

lemma typed_evolves: "evolves T w w' \<Longrightarrow> i < length (mLayers w) \<Longrightarrow> typed (layer_type i w) \<Longrightarrow> typed (layer_type i w')"
  by (simp add: evolves_def)

lemma layer_type_set [simp]: "i < length (mLayers w) \<Longrightarrow> layer_type i (set_layer_type i t w) = t"
  by (simp add: layer_type_def set_layer_type_def nth_upd_layer)

lemma evolves_length: "evolves T w w' \<Longrightarrow> length (mLayers w') = length (mLayers w)"
  by (simp add: evolves_def)

lemma assign_mpp_ret: "fst (assign_mpp ev a s w) = NO_ERROR \<or> fst (assign_mpp ev a s w) < 0"
  by (simp add: assign_mpp_def assignMPP_def Let_def split_beta EINVAL_def)

lemma take_window_typed:
  assumes "i < length (mLayers w)" "take_window ev i otf m2m w = (NO_ERROR, w')"
  shows "typed (layer_type i w')"
proof -
  obtain r1 w1 where 1: "take_otf ev i otf w = (r1, w1)" by (metis prod.exhaust)
  obtain r2 w2 where 2: "take_m2m ev i m2m w1 = (r2, w2)" by (metis prod.exhaust)
  have "evolves True w w2"
    using evolves_take_m2m[OF evolves_take_otf[OF evolves_refl], of True w ev i m2m ev i otf] by (simp add: 1 2)
  then have "i < length (mLayers w2)" using assms(1) by (simp add: evolves_length)
  then show ?thesis
    using assms(2) by (auto simp: take_window_def 1 2 layer_type_def set_layer_type_def nth_upd_layer split: if_splits)
qed

lemma give_typed:
  assumes "i < length (mLayers w)"
  shows "typed (layer_type i (snd (give_to_client ev i info w)))"
proof -
  define v where "v = set_layer_type i HWC2_COMPOSITION_CLIENT (or_overlay i (if info \<noteq> 0 then info else eMPPUnsupported) w)"
  have i: "i < length (mLayers v)" using assms by (simp add: v_def set_layer_type_def or_overlay_def)
  have "evolves True v (snd (give_to_client ev i info w))"
    unfolding give_to_client_def Let_def split_beta v_def[symmetric] snd_conv by (intro evolve evolves_refl)
  then show ?thesis
    using i by (rule typed_evolves) (simp add: v_def or_overlay_def assms)
qed

lemma take_engine_typed:
  assumes i: "i < length (mLayers w)" and take: "take_engine ev i a w = (ret, w')" and ret: "0 \<le> ret"
  shows "typed (layer_type i w')"
proof -
  obtain r1 w1 where 1: "assign_mpp ev a (lay_source (mLayers w ! i)) w = (r1, w1)" by (metis prod.exhaust)
  define v where "v = set_layer_type i HWC2_COMPOSITION_EXYNOS w1"
  have "evolves True w w1" using evolves_assign[OF evolves_refl, of True w ev a] 1 by (metis snd_conv)
  then have i1: "i < length (mLayers w1)" using i by (simp add: evolves_length)
  have "r1 = NO_ERROR" using take ret assign_mpp_ret[of ev a "lay_source (mLayers w ! i)" w]
    by (auto simp: take_engine_def 1 Let_def split: if_splits)
  then have "evolves False v w'"
    using take unfolding take_engine_def 1 Let_def by (simp add: v_def[symmetric]) (metis evolves_add_exynos evolves_refl snd_conv)
  then show ?thesis
    by (rule typed_evolves) (use i1 in \<open>simp_all add: v_def set_layer_type_def, simp add: layer_type_def nth_upd_layer\<close>)
qed

text \<open>The loop over the layers: success means that every layer of the priority has a type.\<close>

lemma assign_one_go_on:
  assumes i: "i < length (mLayers w)" and one: "assign_one ev p i (ret, w) = (Go_on r, w')"
  shows "evolves False w w' \<and> (mOverlayPriority (mLayers w ! i) = p \<longrightarrow> typed (layer_type i w'))"
proof (cases "layer_type i w = HWC2_COMPOSITION_CLIENT \<or> layer_type i w = HWC2_COMPOSITION_EXYNOS
    \<or> mOverlayPriority (mLayers w ! i) \<noteq> p")
  case True
  then have "w' = w" using one by (simp add: assign_one_def)
  with True show ?thesis by (auto simp: typed_def)
next
  case False
  obtain c info v where v: "assignLayer ev i w = (c, info, v)" by (metis prod.exhaust)
  have e: "evolves False w v" using evolves_assignLayer[OF evolves_refl, of False w ev i] by (simp add: v)
  then have iv: "i < length (mLayers v)" using i by (simp add: evolves_length)
  note step = one[unfolded assign_one_def prod.case v Let_def if_not_P[OF False]]
  show ?thesis
  proof (cases c)
    case None
    obtain r1 w1 where g: "give_to_client ev i info v = (r1, w1)" by (metis prod.exhaust)
    have "w' = w1" using step None by (simp add: g split: if_splits)
    then show ?thesis
      using evolves_give[OF e, of ev i info] give_typed[OF iv, of ev info] by (simp add: g)
  next
    case (Some k)
    show ?thesis
    proof (cases "\<exists>a. k = By_engine a")
      case True
      then obtain a where k: "k = By_engine a" by blast
      obtain r1 w1 where g: "take_engine ev i a v = (r1, w1)" by (metis prod.exhaust)
      have h: "w' = w1" "0 \<le> r1" using step Some k by (simp_all add: g split: if_splits)
      show ?thesis
        using evolves_take_engine[OF e, of ev i a] take_engine_typed[OF iv g h(2)] by (simp add: g h)
    next
      case False
      obtain r1 w1 where g: "take_window ev i (choice_otf k) (choice_m2m k) v = (r1, w1)" by (metis prod.exhaust)
      have h: "w' = w1 \<and> r1 = NO_ERROR"
        using step Some False g by (cases k) (auto split: if_splits)
      then show ?thesis
        using evolves_take_window[OF e, of ev i "choice_otf k" "choice_m2m k"] take_window_typed[OF iv] g by simp
    qed
  qed
qed

lemma changed_is_error [simp]: "NO_ERROR \<noteq> EXYNOS_ERROR_CHANGED" "EXYNOS_ERROR_CHANGED \<noteq> NO_ERROR"
  by (simp_all add: code_consts)

lemma assign_one_return: "assign_one ev p i s = (Return r, w') \<Longrightarrow> r \<noteq> NO_ERROR"
  by (cases s) (auto simp: assign_one_def Let_def code_consts split: if_splits prod.splits option.splits choice.splits)

lemma assign_list_success:
  assumes "assign_list ev p is (ret, w) = (NO_ERROR, w')" "\<forall>i \<in> set is. i < length (mLayers w)"
  shows "evolves False w w' \<and> (\<forall>i \<in> set is. mOverlayPriority (mLayers w ! i) = p \<longrightarrow> typed (layer_type i w'))"
  using assms
proof (induction "is" arbitrary: ret w)
  case (Cons i "is")
  obtain s v where one: "assign_one ev p i (ret, w) = (s, v)" by (metis prod.exhaust)
  show ?case
  proof (cases s)
    case (Go_on r)
    have h: "evolves False w v" "mOverlayPriority (mLayers w ! i) = p \<longrightarrow> typed (layer_type i v)"
      using assign_one_go_on[OF _ one[unfolded Go_on]] Cons.prems(2) by simp_all
    have IH: "evolves False v w'" "\<forall>i \<in> set is. mOverlayPriority (mLayers v ! i) = p \<longrightarrow> typed (layer_type i w')"
      using Cons.IH[of r v] Cons.prems h(1) by (simp_all add: one Go_on evolves_length)
    have prio: "\<And>j. j < length (mLayers w) \<Longrightarrow> mOverlayPriority (mLayers v ! j) = mOverlayPriority (mLayers w ! j)"
      using h(1) by (simp add: evolves_def)
    have i: "i < length (mLayers v)" using Cons.prems(2) h(1) by (simp add: evolves_length)
    show ?thesis
      using evolves_trans[OF h(1) IH(1)] IH h(2) prio Cons.prems(2) typed_evolves[OF IH(1) i] by auto
  next
    case (Return r)
    then show ?thesis using Cons.prems(1) assign_one_return[OF one[unfolded Return]] by (simp add: one)
  next
    case Reassign
    then show ?thesis using Cons.prems(1) by (simp add: one reassign_all_def Let_def code_consts)
  qed
qed simp

lemma assignLayers_success:
  assumes "assignLayers ev p w = (NO_ERROR, w')"
  shows "evolves False w w'" "i < length (mLayers w) \<Longrightarrow> mOverlayPriority (mLayers w ! i) = p \<Longrightarrow> typed (layer_type i w')"
  using assign_list_success[OF assms[unfolded assignLayers_def]] by auto

text \<open>The other parts of an attempt, and what follows the attempts.\<close>

lemma evolves_set_target [evolve]: "evolves T w0 w \<Longrightarrow> evolves T w0 (set_target_all t src dst w)"
  unfolding set_target_all_def by (intro evolve)

lemma evolves_target_loop [evolve]: "evolves T w0 w \<Longrightarrow> evolves T w0 (snd (target_loop ev t src dst as w))"
proof (induction as arbitrary: w)
  case (Cons a as)
  have w: "evolves T w0 (set_target_all t src dst w)" by (intro evolve) (rule Cons.prems)
  have "evolves T w0 (snd (assign_mpp ev a s (set_target_all t src dst w)))" for s by (intro evolve) (rule Cons.prems)
  with Cons.IH[OF w] w show ?case by (auto simp: Let_def split_beta intro!: evolve)
qed simp

lemma evolves_target [evolve]: "evolves T w0 w \<Longrightarrow> evolves T w0 (snd (assignCompositionTarget ev t w))"
  unfolding assignCompositionTarget_def Let_def split_beta by (intro evolve) simp_all

lemma evolves_disable [evolve]: "evolves T w0 w \<Longrightarrow> evolves T w0 (setDisableByUserScenario a b w)"
  by (simp add: setDisableByUserScenario_def evolves_def layer_type_def)

lemma evolves_busy [evolve]:
  "evolves T w0 w \<Longrightarrow> evolves T w0 (w\<lparr>hw_mpps := (hw_mpps w)(a := (hw_mpps w a)\<lparr>mHWBusyFlag := b\<rparr>)\<rparr>)"
  "evolves T w0 w \<Longrightarrow> evolves T w0 (w\<lparr>hw_mpps := (hw_mpps w)(a := resetUsedCapacity (hw_mpps w a))\<rparr>)"
  by (simp_all add: evolves_def layer_type_def)

lemma evolves_prioritize [evolve]: "evolves T w0 w \<Longrightarrow> evolves T w0 (snd (mpp_prioritize a w))"
proof -
  assume "evolves T w0 w"
  then have "evolves T w0 (w\<lparr>hw_answers := x\<rparr>)" for x by (intro evolve)
  from evolves_busy(1)[OF this] this \<open>evolves T w0 w\<close> show ?thesis
    by (simp add: mpp_prioritize_def Let_def)
qed

lemma evolves_pending [evolve]: "evolves T w0 w \<Longrightarrow> evolves T w0 (pending_layer ev a i w)"
  unfolding pending_layer_def Let_def
  by (rule evolves_upd_layer, simp, simp, intro evolve) simp_all

lemma evolves_prioritize_layer [evolve]: "evolves T w0 (snd p) \<Longrightarrow> evolves T w0 (snd (prioritize_layer ev i p))"
  unfolding prioritize_layer_def Let_def split_beta by (intro evolve)

lemma evolves_fold_snd: "(\<And>x p. evolves T w0 (snd p) \<Longrightarrow> evolves T w0 (snd (f x p))) \<Longrightarrow> evolves T w0 (snd p) \<Longrightarrow>
    evolves T w0 (snd (fold f xs p))"
  by (induction xs arbitrary: p) simp_all

lemma evolves_prioritize_fold [evolve]:
  "evolves T w0 (snd p) \<Longrightarrow> evolves T w0 (snd (fold (prioritize_layer ev) xs p))"
  by (rule evolves_fold_snd) (rule evolves_prioritize_layer)

lemma evolves_prioritize_engine [evolve]: "evolves T w0 (snd p) \<Longrightarrow> evolves T w0 (snd (prioritize_engine ev a p))"
  unfolding prioritize_engine_def Let_def split_beta by (intro evolve evolves_refl)

lemma evolves_priority [evolve]: "evolves T w0 w \<Longrightarrow> evolves T w0 (snd (setResourcePriority ev w))"
  unfolding setResourcePriority_def Let_def split_beta by (intro evolve) simp_all

lemma evolves_engine_to_client [evolve]: "evolves T w0 w \<Longrightarrow> evolves T w0 (snd (engine_to_client ev is w))"
proof (induction "is" arbitrary: w)
  case (Cons i "is")
  have "evolves T w0 (snd (snd (addClientCompositionLayer ev i (set_layer_type i HWC2_COMPOSITION_CLIENT
      (or_overlay i eInsufficientMPP (resetAssignedResource ev i w))))))"
    by (intro evolve Cons.prems) simp
  with Cons.IH show ?case by (simp add: Let_def split_beta)
qed simp

text \<open>
  An attempt ends with success or with a change, and with success only when every priority was assigned.
\<close>

definition settled :: "overlay_priority set \<Rightarrow> hwc \<Rightarrow> bool" where
  "settled P w \<longleftrightarrow> (\<forall>i < length (mLayers w). mOverlayPriority (mLayers w ! i) \<in> P \<longrightarrow> typed (layer_type i w))"

lemma settled_evolves: "settled P w \<Longrightarrow> evolves T w w' \<Longrightarrow> settled P w'"
  by (simp add: settled_def evolves_def)

lemma settled_assignLayers:
  assumes "settled P w" "assignLayers ev p w = (NO_ERROR, w')"
  shows "settled (insert p P) w'"
proof -
  note e = assignLayers_success[OF assms(2)]
  have "mOverlayPriority (mLayers w' ! i) = mOverlayPriority (mLayers w ! i)" if "i < length (mLayers w)" for i
    using e(1) that by (simp add: evolves_def)
  with e settled_evolves[OF assms(1) e(1)] show ?thesis
    unfolding settled_def by (metis evolves_length insertE)
qed

lemma settled_round_low:
  "settled P w \<Longrightarrow> round_low ev ps w = (Ended NO_ERROR, w') \<Longrightarrow> settled (P \<union> set ps) w'"
proof (induction ps arbitrary: P w)
  case (Cons p ps)
  obtain r v where a: "assignLayers ev p w = (r, v)" by (metis prod.exhaust)
  have r: "r = NO_ERROR" "round_low ev ps v = (Ended NO_ERROR, w')"
    using Cons.prems(2) by (auto simp: a split: if_splits)
  have "settled (insert p P) v" using settled_assignLayers[OF Cons.prems(1)] a r(1) by simp
  from Cons.IH[OF this r(2)] show ?case by (simp add: insert_commute)
qed simp

lemma round_engine_success: "round_engine ev w = (Ended NO_ERROR, w') \<Longrightarrow> evolves False w w'"
proof -
  assume r: "round_engine ev w = (Ended NO_ERROR, w')"
  obtain c v where a: "assignCompositionTarget ev COMPOSITION_EXYNOS w = (c, v)" by (metis prod.exhaust)
  have "w' = v" using r by (auto simp: round_engine_def a Let_def split: if_splits prod.splits)
  then show ?thesis using evolves_target[OF evolves_refl, of False w ev COMPOSITION_EXYNOS] by (simp add: a)
qed

lemma settled_round_rest:
  assumes "settled P w" "round_rest ev w = (Ended NO_ERROR, w')"
  shows "settled (P \<union> {ePriorityMid, ePriorityLow}) w'"
proof -
  obtain c v where e: "round_engine ev w = (c, v)" by (metis prod.exhaust)
  have c: "c = Ended NO_ERROR"
    using assms(2) by (cases c) (auto simp: round_rest_def e split: if_splits)
  obtain d u where l: "round_low ev [ePriorityMid, ePriorityLow] v = (d, u)" by (metis prod.exhaust)
  have d: "d = Ended NO_ERROR" using assms(2) by (cases d) (auto simp: round_rest_def e c l simp del: round_low.simps split: if_splits)
  have w': "w' = snd (setResourcePriority ev u)"
    using assms(2) by (simp add: round_rest_def e c l d split_beta del: round_low.simps)
  have "settled P v" using assms(1) round_engine_success[OF e[unfolded c]] by (rule settled_evolves)
  then have "settled (P \<union> set [ePriorityMid, ePriorityLow]) u" by (rule settled_round_low) (use l d in simp)
  then show ?thesis
    unfolding w' using evolves_priority[OF evolves_refl] by (auto intro: settled_evolves)
qed

lemma settled_round:
  assumes "assign_round ev w = (Ended NO_ERROR, w')"
  shows "settled (- {ePriorityNone}) w'"
proof -
  obtain c v where t: "assignCompositionTarget ev COMPOSITION_CLIENT (snd (resetAssignedResources False w)) = (c, v)"
    by (metis prod.exhaust)
  obtain r1 w1 where 1: "assignLayers ev ePriorityMax v = (r1, w1)" by (metis prod.exhaust)
  obtain r2 w2 where 2: "assignLayers ev ePriorityHigh w1 = (r2, w2)" by (metis prod.exhaust)
  have r: "r1 = NO_ERROR" "r2 = NO_ERROR" "round_rest ev w2 = (Ended NO_ERROR, w')"
    using assms by (auto simp: assign_round_def t 1 2 split_beta split: if_splits)
  have "settled {} v" by (simp add: settled_def)
  from settled_assignLayers[OF this 1[unfolded r(1)]] have "settled {ePriorityMax} w1" .
  from settled_round_rest[OF settled_assignLayers[OF this 2[unfolded r(2)]] r(3)]
  show ?thesis
  proof (rule back_subst[where P = "\<lambda>P. settled P w'"])
    show "{ePriorityHigh, ePriorityMax} \<union> {ePriorityMid, ePriorityLow} = - {ePriorityNone}"
      using overlay_priority.exhaust by auto
  qed
qed

lemma round_codes:
  assumes "assign_round ev w = (Ended ret, w')"
  shows "ret = NO_ERROR \<or> ret = EXYNOS_ERROR_CHANGED"
proof -
  have prio: "fst (setResourcePriority ev v) = NO_ERROR \<or> fst (setResourcePriority ev v) = EXYNOS_ERROR_CHANGED" for v
  proof -
    have layer: "fst p = NO_ERROR \<or> fst p = EXYNOS_ERROR_CHANGED \<Longrightarrow>
        fst (prioritize_layer ev i p) = NO_ERROR \<or> fst (prioritize_layer ev i p) = EXYNOS_ERROR_CHANGED" for i p
      by (auto simp: prioritize_layer_def Let_def split_beta split: option.split)
    have engine: "fst p = NO_ERROR \<or> fst p = EXYNOS_ERROR_CHANGED \<Longrightarrow>
        fst (prioritize_engine ev a p) = NO_ERROR \<or> fst (prioritize_engine ev a p) = EXYNOS_ERROR_CHANGED" for a p
      by (auto simp: prioritize_engine_def Let_def split_beta)
    have loop: "fst p = NO_ERROR \<or> fst p = EXYNOS_ERROR_CHANGED \<Longrightarrow>
        fst (fold (prioritize_layer ev) xs p) = NO_ERROR \<or> fst (fold (prioritize_layer ev) xs p) = EXYNOS_ERROR_CHANGED" for xs p
      using layer by (induction xs arbitrary: p) simp_all
    show ?thesis
      unfolding setResourcePriority_def Let_def split_beta
      using loop[of "(NO_ERROR, v)" "[0..<length (mLayers v)]"] engine by (auto split: option.split)
  qed
  have low: "round_low ev ps v = (Ended r, u) \<Longrightarrow> r = NO_ERROR \<or> r = EXYNOS_ERROR_CHANGED" for ps v r u
    by (induction ps arbitrary: v) (auto split: if_splits prod.splits)
  have eng: "round_engine ev v = (Ended r, u) \<Longrightarrow> r = NO_ERROR \<or> r = EXYNOS_ERROR_CHANGED" for v r u
    by (auto simp: round_engine_def Let_def split: if_splits prod.splits)
  have rest: "round_rest ev v = (Ended r, u) \<Longrightarrow> r = NO_ERROR \<or> r = EXYNOS_ERROR_CHANGED" for v r u
    using prio low eng
    by (auto simp: round_rest_def Let_def split_beta split: if_splits prod.splits attempt.splits simp del: round_low.simps)
      (metis prod.collapse)+
  show ?thesis
    using assms rest by (auto simp: assign_round_def Let_def split_beta split: if_splits prod.splits)
qed

lemma loop_success:
  assumes "assign_loop ev n w = (Ended ret, m, w')" "m \<noteq> ASSIGN_RESOURCE_TRY_COUNT" "n < ASSIGN_RESOURCE_TRY_COUNT"
  shows "settled (- {ePriorityNone}) w'"
  using assms
proof (induction ev n w rule: assign_loop.induct)
  case (1 ev n w)
  obtain a v where r: "assign_round ev w = (a, v)" by (metis prod.exhaust)
  obtain c where a: "a = Ended c" using "1.prems"(1) by (cases a) (simp_all add: assign_loop.simps[of ev n w] r)
  show ?case
  proof (cases "c = EXYNOS_ERROR_CHANGED \<and> n + 1 < ASSIGN_RESOURCE_TRY_COUNT")
    case True
    then show ?thesis
      using "1.IH"[OF r[symmetric] a True] "1.prems" by (simp add: assign_loop.simps[of ev n w] r a)
  next
    case False
    then have "w' = v" "m = n + 1" using "1.prems"(1) by (auto simp: assign_loop.simps[of ev n w] r a)
    with False "1.prems"(2,3) have "c \<noteq> EXYNOS_ERROR_CHANGED" by auto
    then have "c = NO_ERROR" using round_codes r a by blast
    then show ?thesis using settled_round r a \<open>w' = v\<close> by blast
  qed
qed

text \<open>An attempt that leaves at once leaves with an error.\<close>

lemma low_leaves: "round_low ev ps w = (Leave r, w') \<Longrightarrow> r \<noteq> NO_ERROR"
  by (induction ps arbitrary: w) (auto split: if_splits prod.splits)

lemma engine_leaves: "round_engine ev w = (Leave r, w') \<Longrightarrow> r \<noteq> NO_ERROR"
  by (auto simp: round_engine_def Let_def split: if_splits prod.splits)

lemma rest_leaves: "round_rest ev w = (Leave r, w') \<Longrightarrow> r \<noteq> NO_ERROR"
  using low_leaves engine_leaves
  by (auto simp: round_rest_def Let_def split_beta split: if_splits prod.splits attempt.splits simp del: round_low.simps)
    (metis prod.collapse)+

lemma round_leaves: "assign_round ev w = (Leave r, w') \<Longrightarrow> r \<noteq> NO_ERROR"
  using rest_leaves by (auto simp: assign_round_def Let_def split_beta split: if_splits prod.splits)

lemma loop_leaves: "assign_loop ev n w = (Leave r, m, w') \<Longrightarrow> r \<noteq> NO_ERROR"
proof (induction ev n w rule: assign_loop.induct)
  case (1 ev n w)
  show ?case
    using "1.IH" "1.prems" round_leaves
    by (auto simp: assign_loop.simps[of ev n w] split: prod.splits attempt.splits if_splits)
qed

lemma evolves_join_engine [evolve]: "evolves False w0 w \<Longrightarrow> evolves False w0 (snd (join_engine ev a i dst w))"
  unfolding join_engine_def Let_def split_beta by (intro evolve) simp_all

lemma evolves_join_loop:
  "evolves False w0 (snd (snd s)) \<Longrightarrow> evolves False w0 (snd (snd (snd (join_loop ev a is s))))"
proof (induction "is" arbitrary: s)
  case (Cons i "is")
  obtain n images w where s: "s = (n, images, w)" by (metis prod.exhaust)
  obtain src dst where j: "join_images ev i w images = (src, dst)" by (metis prod.exhaust)
  define v where "v = upd_source (lay_source (mLayers w ! i)) (setExynosImage src dst) w"
  have v: "evolves False w0 v" unfolding v_def by (intro evolve) (use Cons.prems s in simp)
  obtain r u where e: "join_engine ev a i dst v = (r, u)" by (metis prod.exhaust)
  have "evolves False w0 u" using evolves_join_engine[OF v, of ev a i dst] by (simp add: e)
  with v Cons.IH show ?case
    unfolding s by (simp add: j Let_def e v_def[symmetric])
qed simp

lemma evolves_fill [evolve]: "evolves False w0 w \<Longrightarrow> evolves False w0 (snd (fill_engine ev a w))"
  unfolding fill_engine_def Let_def split_beta by (simp add: evolves_join_loop)

lemma evolves_single [evolve]: "evolves False w0 w \<Longrightarrow> evolves False w0 (snd (single_layer ev w))"
  unfolding single_layer_def Let_def by (intro evolve) simp_all

lemma evolves_update_exynos [evolve]: "evolves False w0 w \<Longrightarrow> evolves False w0 (snd (updateExynosComposition ev w))"
  unfolding updateExynosComposition_def Let_def split_beta by (intro evolve) simp_all

lemma evolves_to_device [evolve]:
  "evolves False w0 w \<Longrightarrow> evolves False w0 (snd (changeLayerFromClientToDevice ev i otf m2m w))"
  unfolding changeLayerFromClientToDevice_def Let_def split_beta by (intro evolve)

lemma evolves_cut [evolve]: "evolves False w0 w \<Longrightarrow> evolves False w0 (snd (cut_client ev shrink is w))"
proof (induction "is" arbitrary: w)
  case (Cons i "is")
  obtain c info v where v: "assignLayer ev i w = (c, info, v)" by (metis prod.exhaust)
  have e: "evolves False w0 v" using evolves_assignLayer[OF Cons.prems, of ev i] by (simp add: v)
  have d: "evolves False w0 (snd (changeLayerFromClientToDevice ev i otf m2m v))" for otf m2m
    by (intro evolve) (rule e)
  have s: "evolves False w0 (upd_info COMPOSITION_CLIENT shrink w)" by (intro evolve) (rule Cons.prems)
  show ?case
    using Cons.IH[OF s] Cons.IH[OF d] d e
    by (auto simp: v Let_def split_beta split: option.split choice.split)
qed simp

lemma evolves_update_client [evolve]: "evolves False w0 w \<Longrightarrow> evolves False w0 (snd (updateClientComposition ev w))"
  unfolding updateClientComposition_def Let_def split_beta by (intro evolve) simp_all


text \<open>One layer the client must draw, on a display without a controller.\<close>

definition sample_skip :: hwc where
  "sample_skip = (sample_hwc [(sample_typed 0 HWC2_COMPOSITION_INVALID)\<lparr>mCompositionType := HWC2_COMPOSITION_CLIENT\<rparr>])
     \<lparr>mUseDpu := False\<rparr>"

definition sample_skipped :: hwc where
  "sample_skipped = sample_skip\<lparr>mLayers := [(sample_typed 0 HWC2_COMPOSITION_CLIENT)
       \<lparr>mCompositionType := HWC2_COMPOSITION_CLIENT, mOverlayInfo := eSkipLayer\<rparr>],
     mClientCompositionInfo := (sample_info 100 COMPOSITION_CLIENT)
       \<lparr>mHasCompositionLayer := True, mFirstIndex := 0, mLastIndex := 0\<rparr>\<rparr>"

lemma sample_skip_step:
  "length (mLayers sample_skip) = 1" "skip_layer sample_env 0 (NO_ERROR, sample_skip) = (NO_ERROR, sample_skipped)"
  by (simp add: sample_skip_def sample_hwc_def,
      simp add: sample_skip_def sample_skipped_def sample_hwc_def skip_layer_def or_overlay_def set_layer_type_def upd_layer_def
        sample_typed_def addClientCompositionLayer_def upd_info_def sample_info_def layer_new_def Let_def code_consts)

lemma sample_skipped_fields [simp]:
  "length (mLayers sample_skipped) = 1" "layer_type 0 sample_skipped = HWC2_COMPOSITION_CLIENT"
  "mUseDpu sample_skipped = False" "hw_sources sample_skipped = (\<lambda>_. source_init 2)" "mOtfMPPs_list sample_skipped = []"
  "mM2mMPPs_list sample_skipped = [7]" "hw_mpps sample_skipped = (\<lambda>_. sample_g2d)" "mDisplayId sample_skipped = 0"
  "mHasCompositionLayer (mExynosCompositionInfo sample_skipped) = False"
  "cmp_info COMPOSITION_CLIENT sample_skipped = (sample_info 100 COMPOSITION_CLIENT)
     \<lparr>mHasCompositionLayer := True, mFirstIndex := 0, mLastIndex := 0\<rparr>"
  by (simp_all add: sample_skipped_def sample_skip_def sample_hwc_def sample_typed_def layer_type_def sample_info_def cmp_info_def)

lemma sample_skipped_windows [simp]:
  "length (mLayers (sample_skipped\<lparr>mWindowNumUsed := n\<rparr>)) = 1"
  "layer_type i (sample_skipped\<lparr>mWindowNumUsed := n\<rparr>) = layer_type i sample_skipped"
  "cmp_info t (sample_skipped\<lparr>mWindowNumUsed := n\<rparr>) = cmp_info t sample_skipped"
  by (simp_all add: layer_type_def cmp_info_def)

lemma sample_skip_round: "assign_round sample_env sample_skipped = (Ended NO_ERROR, sample_skipped\<lparr>mWindowNumUsed := 0\<rparr>)"
proof -
  let ?w = "sample_skipped\<lparr>mWindowNumUsed := 0\<rparr>"
  have reset: "snd (resetAssignedResources False sample_skipped) = ?w"
    by (simp add: resetAssignedResources_def mpp_of_display_def sample_g2d_def mpp_caps.defs mpp.defs display_reset_def UINT32_MAX_def Let_def)
  have client: "assignCompositionTarget sample_env COMPOSITION_CLIENT ?w = (NO_ERROR, ?w)"
    by (simp add: assignCompositionTarget_def split_beta Let_def)
  have engine: "assignCompositionTarget sample_env COMPOSITION_EXYNOS ?w = (NO_ERROR, ?w)"
    by (simp add: assignCompositionTarget_def Let_def, simp add: cmp_info_def)
  have layers: "assignLayers sample_env p ?w = (NO_ERROR, ?w)" for p
    by (simp add: assignLayers_def assign_one_def)
  have prio: "setResourcePriority sample_env ?w = (NO_ERROR, ?w)"
    by (simp add: setResourcePriority_def source_init_def)
  show ?thesis
    using reset client engine layers prio
    by (simp add: assign_round_def round_rest_def round_engine_def split_beta Let_def)
qed

lemma sample_skip_ok: "assignResourceInternal sample_env sample_skip = (NO_ERROR, sample_skipped\<lparr>mWindowNumUsed := 0\<rparr>)"
  unfolding assignResourceInternal_def
  by (simp add: sample_skip_step[unfolded NO_ERROR_def] assign_loop.simps sample_skip_round[unfolded NO_ERROR_def]
      updateExynosComposition_def updateClientComposition_def Let_def code_consts)


end
