(* ===== verification/ResourceWindows.thy ===== *)
theory ResourceWindows
  imports ResourceAssign
begin

text \<open>
  What the assignment of a display's layers guarantees beyond completeness: which window each visible
  element gets, what becomes of a layer the checks reject, and what the composition of the 2D engine
  does to the engine itself.
\<close>

section \<open>Window numbers\<close>

text \<open>The layers that take a window: those with one of their own, and the last of each composition.\<close>

definition composed :: "composition_target \<Rightarrow> nat \<Rightarrow> hwc \<Rightarrow> bool" where
  "composed t i w \<longleftrightarrow> (let c = cmp_info t w in mHasCompositionLayer c \<and> 0 \<le> mFirstIndex c \<and> int i = mLastIndex c)"

definition takes_window :: "hwc \<Rightarrow> nat \<Rightarrow> bool" where
  "takes_window w i \<longleftrightarrow> layer_type i w = HWC2_COMPOSITION_DEVICE \<or>
     (layer_type i w = HWC2_COMPOSITION_CLIENT \<and> composed COMPOSITION_CLIENT i w) \<or>
     (layer_type i w = HWC2_COMPOSITION_EXYNOS \<and> composed COMPOSITION_EXYNOS i w)"

definition window_of :: "hwc \<Rightarrow> nat \<Rightarrow> int" where
  "window_of w i = (if layer_type i w = HWC2_COMPOSITION_DEVICE then mWindowIndex (mLayers w ! i)
     else if layer_type i w = HWC2_COMPOSITION_CLIENT then cmp_mWindowIndex (mClientCompositionInfo w)
     else cmp_mWindowIndex (mExynosCompositionInfo w))"

definition windows_below :: "hwc \<Rightarrow> nat \<Rightarrow> nat" where
  "windows_below w i = length (filter (takes_window w) [0..<i])"

text \<open>One step of the loop keeps what decides about the windows.\<close>

definition same_shape :: "hwc \<Rightarrow> hwc \<Rightarrow> bool" where
  "same_shape w w' \<longleftrightarrow> length (mLayers w') = length (mLayers w) \<and> (\<forall>i. layer_type i w' = layer_type i w) \<and>
     (\<forall>t i. composed t i w' = composed t i w)"

lemma shape_refl [simp]: "same_shape w w"
  by (simp add: same_shape_def)

lemma shape_trans: "same_shape w w' \<Longrightarrow> same_shape w' w'' \<Longrightarrow> same_shape w w''"
  by (simp add: same_shape_def)

lemma shape_takes: "same_shape w w' \<Longrightarrow> takes_window w' i = takes_window w i"
  by (simp add: same_shape_def takes_window_def)

lemma layer_window_shape:
  assumes "i < length (mLayers w)"
  shows "same_shape w (upd_layer i (\<lambda>l. l\<lparr>mWindowIndex := x\<rparr>) w)"
  using assms by (simp add: same_shape_def layer_type_def composed_def cmp_info_def nth_upd_layer, simp add: upd_layer_def)

lemma info_window_shape: "same_shape w (upd_info t (\<lambda>c. c\<lparr>cmp_mWindowIndex := x\<rparr>) w)"
  by (simp add: same_shape_def layer_type_def composed_def cmp_info_def upd_info_def Let_def)

lemma window_step_shape:
  assumes "i < length (mLayers w)" "window_step i (n, w) = (n', w')"
  shows "same_shape w w'" "n' = (if takes_window w i then n + 1 else n)"
  using assms(2) layer_window_shape[OF assms(1), of "sint n"] info_window_shape
  by (auto simp: window_step_def Let_def takes_window_def composed_def cmp_info_def split: if_splits)

text \<open>The number an element gets, and that later steps leave it alone.\<close>

lemma window_step_sets:
  assumes "i < length (mLayers w)" "window_step i (n, w) = (n', w')" "takes_window w i"
  shows "window_of w' i = sint n"
proof -
  consider "layer_type i w = HWC2_COMPOSITION_DEVICE"
    | "layer_type i w = HWC2_COMPOSITION_CLIENT" "composed COMPOSITION_CLIENT i w"
    | "layer_type i w = HWC2_COMPOSITION_EXYNOS" "composed COMPOSITION_EXYNOS i w"
    using assms(3) by (auto simp: takes_window_def)
  then show ?thesis
    using assms(1,2)
    by cases (auto simp: window_step_def Let_def window_of_def composed_def cmp_info_def upd_info_def layer_type_def
        nth_upd_layer)
qed

lemma window_step_keeps:
  assumes "i < length (mLayers w)" "window_step i (n, w) = (n', w')" "takes_window w j" "j < i"
  shows "window_of w' j = window_of w j"
proof (cases "layer_type i w = HWC2_COMPOSITION_DEVICE")
  case True
  then have "w' = upd_layer i (\<lambda>l. l\<lparr>mWindowIndex := sint n\<rparr>) w" using assms(2) by (simp add: window_step_def Let_def)
  then show ?thesis
    using assms(1,4) by (simp add: window_of_def layer_type_def nth_upd_layer, simp add: upd_layer_def)
next
  case False
  have "int j \<noteq> int i" using assms(4) by simp
  then show ?thesis
    using False assms(2,3)
    by (auto simp: window_step_def Let_def window_of_def takes_window_def composed_def cmp_info_def upd_info_def
        layer_type_def split: if_splits)
qed

lemma windows_fold:
  assumes "k \<le> length (mLayers w)" "fold window_step [0..<k] (n, w) = (n', w')"
  shows "same_shape w w' \<and> n' = n + of_nat (windows_below w k) \<and>
    (\<forall>i < k. takes_window w i \<longrightarrow> window_of w' i = sint (n + of_nat (windows_below w i)))"
  using assms
proof (induction k arbitrary: n' w')
  case (Suc k)
  obtain m v where f: "fold window_step [0..<k] (n, w) = (m, v)" by (metis prod.exhaust)
  have s: "window_step k (m, v) = (n', w')" using Suc.prems(2) f by simp
  have IH: "same_shape w v" "m = n + of_nat (windows_below w k)"
    "\<And>i. i < k \<Longrightarrow> takes_window w i \<Longrightarrow> window_of v i = sint (n + of_nat (windows_below w i))"
    using Suc.IH[OF _ f] Suc.prems(1) by auto
  have k: "k < length (mLayers v)" using IH(1) Suc.prems(1) by (simp add: same_shape_def)
  note step = window_step_shape[OF k s] window_step_sets[OF k s] window_step_keeps[OF k s]
  have t: "takes_window v i = takes_window w i" for i using shape_takes[OF IH(1)] .
  have below: "windows_below w (Suc k) = windows_below w k + (if takes_window w k then 1 else 0)"
    by (simp add: windows_below_def)
  have "window_of w' i = sint (n + of_nat (windows_below w i))" if i: "i < Suc k" "takes_window w i" for i
    using i step(3,4) IH(2,3) t by (cases "i = k") auto
  then show ?case
    using shape_trans[OF IH(1) step(1)] step(2) IH(2) t below by simp
qed (simp add: windows_below_def)

lemma sint_small: "n < 2 ^ 31 \<Longrightarrow> sint (of_nat n :: u32) = int n"
  by (simp add: signed_of_nat signed_take_bit_int_eq_self)

text \<open>
  C18: on a display with a controller the elements that take a window get the windows from the
  base one upwards in z-order, without gap, as long as their number fits in 31 bits; a layer of a composition other than its
  last takes none.
\<close>

theorem windows_consecutive:
  assumes dpu: "mUseDpu w" and fits: "unat (mBaseWindowIndex w) + length (mLayers w) < 2 ^ 31"
    and i: "i < length (mLayers w)" "takes_window w i"
  shows "window_of (snd (assignWindow w)) i = int (unat (mBaseWindowIndex w) + windows_below w i)"
proof -
  obtain n' w' where f: "fold window_step [0..<length (mLayers w)] (mBaseWindowIndex w, w) = (n', w')" by (metis prod.exhaust)
  have le: "windows_below w i \<le> length (mLayers w)"
    unfolding windows_below_def using length_filter_le[of "takes_window w" "[0..<i]"] i(1) by simp
  have "window_of w' i = sint (mBaseWindowIndex w + of_nat (windows_below w i))"
    using windows_fold[OF order_refl f] i by blast
  also have "mBaseWindowIndex w + of_nat (windows_below w i) = of_nat (unat (mBaseWindowIndex w) + windows_below w i)"
    by simp
  also have "sint (of_nat (unat (mBaseWindowIndex w) + windows_below w i) :: u32) = int (unat (mBaseWindowIndex w) + windows_below w i)"
    by (rule sint_small) (use fits le in simp)
  finally show ?thesis using dpu f by (simp add: assignWindow_def)
qed

definition sample_windows :: hwc where
  "sample_windows = (sample_hwc (map (sample_typed 0) [HWC2_COMPOSITION_DEVICE, HWC2_COMPOSITION_CLIENT,
       HWC2_COMPOSITION_CLIENT, HWC2_COMPOSITION_DEVICE]))
     \<lparr>mClientCompositionInfo := (sample_info 100 COMPOSITION_CLIENT)
        \<lparr>mHasCompositionLayer := True, mFirstIndex := 1, mLastIndex := 2\<rparr>\<rparr>"

lemma sample_windows_takes:
  "takes_window sample_windows i \<longleftrightarrow> i = 0 \<or> i = 2 \<or> i = 3" if "i < 4"
proof -
  have "i = 0 \<or> i = 1 \<or> i = 2 \<or> i = 3" using that by auto
  then show ?thesis
    by (auto simp: takes_window_def composed_def cmp_info_def sample_windows_def sample_hwc_def layer_type_def
        sample_typed_def sample_info_def)
qed

theorem windows_consecutive_witness:
  "window_of (snd (assignWindow sample_windows)) 3 = 3"
proof -
  have f: "mUseDpu sample_windows" "mBaseWindowIndex sample_windows = 1" "length (mLayers sample_windows) = 4"
    by (simp_all add: sample_windows_def sample_hwc_def)
  have "windows_below sample_windows 3 = 2"
    by (simp add: windows_below_def upt_conv_Cons sample_windows_takes)
  then show ?thesis
    using windows_consecutive[where w = sample_windows and i = 3] f by (simp add: sample_windows_takes)
qed

section \<open>Rejected layers\<close>

lemma validateLayer_no_window: "validateLayer ev i w AND eInsufficientWindow = 0"
  unfolding validateLayer_def Let_def
  by (simp add: eForceFbEnabled_def eFroceClientLayer_def eInvalidVideoMetaData_def eExceedMaxLayerNum_def
      eDynamicRecomposition_def eSkipLayer_def eUnSupportedColorTransform_def eDimLayer_def eInvalidHandle_def
      eHasFloatSrcCrop_def eInvalidDispFrame_def eInsufficientWindow_def)

text \<open>
  C22: whether the verdict of \<open>validateLayer\<close> counts depends on the windows. With a window free, a
  layer it rejects (other than a dim layer) gets no resource; with all windows taken its verdict is
  ignored and the layer is offered to the 2D engines like any other.
\<close>

theorem rejected_by_free_window:
  assumes "mUseDpu w" "validateLayer ev i w \<noteq> 0" "validateLayer ev i w AND eDimLayer = 0"
  shows "layer_choice ev i w = (if mWindowNumUsed w < mMaxWindowNum w then None
    else first_some (m2m_choice ev i True w (src_of ev i w) (dst_of ev i w)) (mM2mMPPs_list w))"
proof (cases "mWindowNumUsed w < mMaxWindowNum w")
  case True
  then have "validate_flags ev i w = validateLayer ev i w" by (auto simp: validate_flags_def)
  then show ?thesis using assms True by (simp add: layer_choice_def Let_def validateLayer_no_window)
next
  case False
  then have f: "validate_flags ev i w = validateLayer ev i w OR eInsufficientWindow"
    using assms by (auto simp: validate_flags_def not_less)
  have "(validateLayer ev i w OR eInsufficientWindow) AND eInsufficientWindow = eInsufficientWindow"
    by (simp add: bit.conj_disj_distrib2 validateLayer_no_window)
  moreover have "eInsufficientWindow \<noteq> 0" by (simp add: eInsufficientWindow_def)
  ultimately show ?thesis using assms False by (simp add: layer_choice_def Let_def f)
qed

section \<open>The 2D engine loses its type\<close>

text \<open>
  When a layer of high priority lies strictly inside the range of the 2D engine, the engine's
  composition is dissolved whatever the engine's logical type, and that type is overwritten: a display
  without controller never considers the engine for a layer again.
\<close>

theorem engine_relabelled:
  assumes "index_valid w" "mLogicalType (hw_mpps w a) \<noteq> MPP_LOGICAL_G2D_RGB" "h \<in> set highs"
    "mFirstIndex (mExynosCompositionInfo w) < int h" "int h < mLastIndex (mExynosCompositionInfo w)"
    "finish_exynos ev a highs (flag, w) = (ret, w')"
  shows "ret = EXYNOS_ERROR_CHANGED \<and> mLogicalType (hw_mpps w' a) = MPP_LOGICAL_G2D_RGB \<and>
    (mUseDpu w \<or> m2m_choice ev' i b w' src dst a = None)"
  using finish_overwrites[OF assms] by (simp add: m2m_choice_def m2m_skipped_def Let_def)

text \<open>
  A client-only display (\<open>forceGpu\<close>) with four windows in use: its layer is given to the engine all the same.
\<close>

definition sample_engine :: mpp where
  "sample_engine = sample_g2d\<lparr>mLogicalType := MPP_LOGICAL_G2D_RGB, mCapacity := -1\<rparr>"

definition sample_full :: hwc where
  "sample_full = (sample_hwc [(layer_new 0 0 sample_display)\<lparr>mSupportedMPPFlag := MPP_LOGICAL_G2D_RGB\<rparr>])
     \<lparr>forceGpu := True, mWindowNumUsed := 4, hw_mpps := \<lambda>_. sample_engine\<rparr>"

theorem rejected_by_free_window_witness:
  "validateLayer sample_env 0 sample_full = eForceFbEnabled \<and> layer_choice sample_env 0 sample_full = Some (By_engine 7)"
proof -
  have v: "validateLayer sample_env 0 sample_full = eForceFbEnabled"
    by (simp add: validateLayer_def Let_def sample_full_def sample_hwc_def sample_env_def)
  have f: "mUseDpu sample_full" "\<not> mWindowNumUsed sample_full < mMaxWindowNum sample_full" "mM2mMPPs_list sample_full = [7]"
    "hw_mpps sample_full 7 = sample_engine"
    by (simp_all add: sample_full_def sample_hwc_def)
  have e: "isAssignableState sample_engine d" "mMaxSrcLayerNum sample_engine = 15" "mLogicalType sample_engine = MPP_LOGICAL_G2D_RGB"
    "mCapacity sample_engine = -1" for d
    by (simp add: isAssignableState_def sample_engine_def sample_g2d_def mpp_caps.defs mpp.defs code_consts, simp_all add: sample_engine_def)
  have t: "MPP_LOGICAL_G2D_RGB \<noteq> MPP_LOGICAL_G2D_COMBO" "MPP_LOGICAL_G2D_RGB \<noteq> MPP_LOGICAL_MSC_COMBO" "MPP_LOGICAL_G2D_RGB \<noteq> 0"
    by (simp_all add: code_consts)
  have s: "supports_layer 7 0 sample_full"
    using t by (simp add: supports_layer_def f e, simp add: sample_full_def sample_hwc_def)
  have "m2m_choice sample_env 0 True sample_full src dst 7 = Some (By_engine 7)" for src dst
    using s t by (simp add: m2m_choice_def m2m_skipped_def Let_def f e hasEnoughCapa_def)
  then show ?thesis
    using rejected_by_free_window[OF f(1), of sample_env 0] v f(2,3) by (simp add: eForceFbEnabled_def eDimLayer_def)
qed

definition sample_range :: hwc where
  "sample_range = (sample_hwc (map (sample_typed 0) [HWC2_COMPOSITION_EXYNOS, HWC2_COMPOSITION_DEVICE, HWC2_COMPOSITION_EXYNOS]))
     \<lparr>mUseDpu := False, mExynosCompositionInfo := (sample_info 101 COMPOSITION_EXYNOS)
        \<lparr>mHasCompositionLayer := True, mFirstIndex := 0, mLastIndex := 2\<rparr>\<rparr>"

theorem engine_relabelled_witness:
  "mLogicalType (hw_mpps sample_range 7) = MPP_LOGICAL_G2D_COMBO \<and>
   mLogicalType (hw_mpps (snd (finish_exynos sample_env 7 [1] (NO_ERROR, sample_range))) 7) = MPP_LOGICAL_G2D_RGB"
proof -
  obtain ret w' where f: "finish_exynos sample_env 7 [1] (NO_ERROR, sample_range) = (ret, w')" by (metis prod.exhaust)
  have t: "mLogicalType (hw_mpps sample_range 7) = MPP_LOGICAL_G2D_COMBO"
    by (simp add: sample_range_def sample_hwc_def sample_g2d_def mpp_caps.defs mpp.defs)
  have "mLogicalType (hw_mpps sample_range 7) \<noteq> MPP_LOGICAL_G2D_RGB" unfolding t by (simp add: code_consts)
  moreover have "index_valid sample_range" "mFirstIndex (mExynosCompositionInfo sample_range) = 0"
    "mLastIndex (mExynosCompositionInfo sample_range) = 2"
    by (simp_all add: index_valid_def sample_range_def sample_hwc_def Let_def)
  ultimately show ?thesis using engine_relabelled[where h = 1, OF _ _ _ _ _ f] t f by simp
qed

end
