(* ===== verification/AcrylCapability.thy ===== *)
theory AcrylCapability
  imports HwcHelper
begin

text \<open>
  What a 2D accelerator can do (\<open>base/libacryl/include/hardware/exynos/acryl.h\<close>, class
  \<open>HW2DCapability\<close>) and the capability tables of the accelerators (\<open>acrylic_factory.cpp\<close>).
  Coordinates are C's \<open>int16_t\<close>: integers, with \<open>int16_of\<close> where a wider value is stored. A
  division by zero is \<open>None\<close>.
\<close>

section \<open>Coordinates\<close>

definition int16_of :: "int \<Rightarrow> int" where
  "int16_of x = (x + 0x8000) mod 0x10000 - 0x8000"

lemma int16_of_small [simp]: "-0x8000 \<le> x \<Longrightarrow> x < 0x8000 \<Longrightarrow> int16_of x = x"
  by (simp add: int16_of_def)

lemma int16_of_range: "-0x8000 \<le> int16_of x" "int16_of x < 0x8000"
  by (simp_all add: int16_of_def)

record hw2d_coord =
  hori :: int
  vert :: int

record hw2d_rect =
  pos :: hw2d_coord
  size :: hw2d_coord

definition coord :: "int \<Rightarrow> int \<Rightarrow> hw2d_coord" where
  "coord h v = \<lparr>hori = h, vert = v\<rparr>"

lemma coord_simps [simp]: "hori (coord h v) = h" "vert (coord h v) = v"
  by (simp_all add: coord_def)

definition swap_coord :: "hw2d_coord \<Rightarrow> hw2d_coord" where
  "swap_coord xy = \<lparr>hori = vert xy, vert = hori xy\<rparr>"

text \<open>\<open>rect > xy\<close>: the rectangle does not end inside the area; no test of where it begins.\<close>

definition rect_exceeds :: "hw2d_rect \<Rightarrow> hw2d_coord \<Rightarrow> bool" where
  "rect_exceeds rect xy =
     (if hori (pos rect) + hori (size rect) > hori xy then True
      else if vert (pos rect) + vert (size rect) > vert xy then True
      else False)"

definition area_is_zero :: "hw2d_rect \<Rightarrow> bool" where
  "area_is_zero rect = (hori (size rect) = 0 \<and> vert (size rect) = 0)"

section \<open>Names of the platform\<close>

text \<open>Dataspace and blending numbers the headers of the platform give.\<close>

datatype (plugins only: code) ds_range = RANGE_FULL | RANGE_LIMITED

datatype (plugins only: code) ds_legacy =
  DS_SRGB | DS_SRGB_LINEAR | DS_JFIF | DS_BT601_525 | DS_BT601_625 | DS_BT709

record acryl_platform = platform +
  pf_range :: "ds_range \<Rightarrow> u32"
  pf_legacy :: "ds_legacy \<Rightarrow> u32"
  pf_range_mask :: u32
  pf_standard_shift :: nat
  pf_hwc1_blend :: "blend_mode \<Rightarrow> u32"

definition TRANSFORM_FLIP_H :: u32 where [code_consts]: "TRANSFORM_FLIP_H = 1"
definition TRANSFORM_FLIP_V :: u32 where [code_consts]: "TRANSFORM_FLIP_V = 2"
definition TRANSFORM_FLIP_HV :: u32 where [code_consts]: "TRANSFORM_FLIP_HV = 3"
definition TRANSFORM_ROT_90 :: u32 where [code_consts]: "TRANSFORM_ROT_90 = 4"
definition TRANSFORM_ROT_180 :: u32 where [code_consts]: "TRANSFORM_ROT_180 = 8"
definition TRANSFORM_ROT_270 :: u32 where [code_consts]: "TRANSFORM_ROT_270 = 16"
definition TRANSFORM_ROT_ALL :: u32 where [code_consts]: "TRANSFORM_ROT_ALL = 28"
definition TRANSFORM_ALL :: u32 where [code_consts]: "TRANSFORM_ALL = 31"

definition BLEND_NONE :: u32 where [code_consts]: "BLEND_NONE = 1"
definition BLEND_SRC_COPY :: u32 where [code_consts]: "BLEND_SRC_COPY = 2"
definition BLEND_SRC_OVER :: u32 where [code_consts]: "BLEND_SRC_OVER = 4"

definition FEATURE_PLANE_ALPHA :: u32 where [code_consts]: "FEATURE_PLANE_ALPHA = push_bit 0 1"
definition FEATURE_AFBC_ENCODE :: u32 where [code_consts]: "FEATURE_AFBC_ENCODE = push_bit 4 1"
definition FEATURE_AFBC_DECODE :: u32 where [code_consts]: "FEATURE_AFBC_DECODE = push_bit 5 1"
definition FEATURE_UORDER_READ :: u32 where [code_consts]: "FEATURE_UORDER_READ = push_bit 6 1"
definition FEATURE_UORDER_WRITE :: u32 where [code_consts]: "FEATURE_UORDER_WRITE = push_bit 7 1"
definition FEATURE_OTF_READ :: u32 where [code_consts]: "FEATURE_OTF_READ = push_bit 8 1"
definition FEATURE_OTF_WRITE :: u32 where [code_consts]: "FEATURE_OTF_WRITE = push_bit 9 1"
definition FEATURE_SOLIDCOLOR :: u32 where [code_consts]: "FEATURE_SOLIDCOLOR = push_bit 10 1"

definition RESAMPLING_FRACTION_BITS :: nat where [code_consts]: "RESAMPLING_FRACTION_BITS = 20"

section \<open>Capabilities\<close>

record stHW2DCapability =
  max_upsampling_num :: hw2d_coord
  max_downsampling_factor :: hw2d_coord
  max_upsizing_num :: hw2d_coord
  max_downsizing_factor :: hw2d_coord
  min_src_dimension :: hw2d_coord
  max_src_dimension :: hw2d_coord
  min_dst_dimension :: hw2d_coord
  max_dst_dimension :: hw2d_coord
  min_pix_align :: hw2d_coord
  rescaling_count :: int
  compositing_mode :: u32
  transform_type :: u32
  auxiliary_feature :: u32
  max_layers :: nat
  pixformats :: "u32 list"
  dataspaces :: "u32 list"
  base_align :: u64

definition supportedFlip :: "stHW2DCapability \<Rightarrow> u32" where
  "supportedFlip cap = transform_type cap AND TRANSFORM_FLIP_HV"

definition supportedRotation :: "stHW2DCapability \<Rightarrow> u32" where
  "supportedRotation cap = transform_type cap AND TRANSFORM_ROT_ALL"

definition isFormatSupported :: "stHW2DCapability \<Rightarrow> u32 \<Rightarrow> bool" where
  "isFormatSupported cap fmt = list_ex (\<lambda>f. f = fmt) (pixformats cap)"

definition isDataspaceSupported :: "'a platform_scheme \<Rightarrow> stHW2DCapability \<Rightarrow> u32 \<Rightarrow> bool" where
  "isDataspaceSupported pf cap ds =
    (let ds = ds AND NOT (pf_transfer_mask pf) in list_ex (\<lambda>d. d = ds) (dataspaces cap))"

definition getHWCTransformMask :: "'a platform_scheme \<Rightarrow> stHW2DCapability \<Rightarrow> u32" where
  "getHWCTransformMask pf cap =
    (let mask = 0;
         mask = (if transform_type cap AND TRANSFORM_FLIP_H \<noteq> 0 then mask OR pf_flip_h pf else mask);
         mask = (if transform_type cap AND TRANSFORM_FLIP_V \<noteq> 0 then mask OR pf_flip_v pf else mask);
         mask = (if transform_type cap AND TRANSFORM_ROT_90 \<noteq> 0 then mask OR pf_rot_90 pf else mask);
         mask = (if transform_type cap AND TRANSFORM_ROT_180 \<noteq> 0 then mask OR pf_rot_180 pf else mask);
         mask = (if transform_type cap AND TRANSFORM_ROT_270 \<noteq> 0 then mask OR pf_rot_270 pf else mask)
     in mask)"

definition isFeatureSupported :: "stHW2DCapability \<Rightarrow> u32 \<Rightarrow> bool" where
  "isFeatureSupported cap feature = (auxiliary_feature cap AND feature \<noteq> 0)"

definition supportedRescalingCount :: "stHW2DCapability \<Rightarrow> int" where
  "supportedRescalingCount cap = rescaling_count cap + 1"

subsection \<open>Scaling\<close>

text \<open>
  The two private checks on one axis, with the factor in twenty fraction bits. Both divide with C's
  truncating division: by the size to scale to and by the reciprocal of the enlarging limit.
\<close>

definition c_sdiv :: "int \<Rightarrow> int \<Rightarrow> int option" where
  "c_sdiv a b = (if b = 0 then None else Some (a sdiv b))"

definition axis_resampling :: "int \<Rightarrow> int \<Rightarrow> int \<Rightarrow> int \<Rightarrow> bool option" where
  "axis_resampling fr tt upfactor downfactor =
    (case c_sdiv (fr * 2 ^ RESAMPLING_FRACTION_BITS) tt of
       None \<Rightarrow> None
     | Some factor \<Rightarrow>
        (if factor > downfactor * 2 ^ RESAMPLING_FRACTION_BITS then Some False
         else
          (case c_sdiv (2 ^ RESAMPLING_FRACTION_BITS) upfactor of
             None \<Rightarrow> None
           | Some least \<Rightarrow> (if factor < least then Some False else Some True))))"

definition axis_resizing :: "int \<Rightarrow> int \<Rightarrow> int \<Rightarrow> int \<Rightarrow> bool option" where
  "axis_resizing fr tt upfactor downfactor =
    (if fr < tt \<and> upfactor = 0 then Some True
     else if fr > tt \<and> downfactor = 0 then Some True
     else axis_resampling fr tt upfactor downfactor)"

definition supportedHResampling :: "stHW2DCapability \<Rightarrow> int \<Rightarrow> int \<Rightarrow> int \<Rightarrow> bool option" where
  "supportedHResampling cap fr tt count =
    axis_resampling fr tt (int16_of (hori (max_upsampling_num cap) * count))
      (int16_of (hori (max_downsampling_factor cap) * count))"

definition supportedVResampling :: "stHW2DCapability \<Rightarrow> int \<Rightarrow> int \<Rightarrow> int \<Rightarrow> bool option" where
  "supportedVResampling cap fr tt count =
    axis_resampling fr tt (int16_of (vert (max_upsampling_num cap) * count))
      (int16_of (vert (max_downsampling_factor cap) * count))"

text \<open>C's \<open>&&\<close>: the second operand is computed only when the first is true.\<close>

definition c_and :: "bool option \<Rightarrow> bool option \<Rightarrow> bool option" where
  "c_and p q = (case p of None \<Rightarrow> None | Some True \<Rightarrow> q | Some False \<Rightarrow> Some False)"

definition turned_to :: "'a platform_scheme \<Rightarrow> u32 \<Rightarrow> hw2d_coord \<Rightarrow> hw2d_coord" where
  "turned_to pf tr tt = (if tr AND pf_rot_90 pf \<noteq> 0 then swap_coord tt else tt)"

definition supportedResampling ::
  "'a platform_scheme \<Rightarrow> stHW2DCapability \<Rightarrow> hw2d_coord \<Rightarrow> hw2d_coord \<Rightarrow> u32 \<Rightarrow> bool option" where
  "supportedResampling pf cap fr tt tr =
    (let count = int16_of (supportedRescalingCount cap); tt = turned_to pf tr tt in
     c_and (supportedHResampling cap (hori fr) (hori tt) count)
       (supportedVResampling cap (vert fr) (vert tt) count))"

definition supportedHWResampling ::
  "'a platform_scheme \<Rightarrow> stHW2DCapability \<Rightarrow> hw2d_coord \<Rightarrow> hw2d_coord \<Rightarrow> u32 \<Rightarrow> bool option" where
  "supportedHWResampling pf cap fr tt tr =
    (let tt = turned_to pf tr tt in
     c_and (supportedHResampling cap (hori fr) (hori tt) 1) (supportedVResampling cap (vert fr) (vert tt) 1))"

definition supportedHResizing :: "stHW2DCapability \<Rightarrow> int \<Rightarrow> int \<Rightarrow> bool option" where
  "supportedHResizing cap fr tt =
    axis_resizing fr tt (hori (max_upsizing_num cap)) (hori (max_downsizing_factor cap))"

definition supportedVResizing :: "stHW2DCapability \<Rightarrow> int \<Rightarrow> int \<Rightarrow> bool option" where
  "supportedVResizing cap fr tt =
    axis_resizing fr tt (vert (max_upsizing_num cap)) (vert (max_downsizing_factor cap))"

definition supportedResizing ::
  "'a platform_scheme \<Rightarrow> stHW2DCapability \<Rightarrow> hw2d_coord \<Rightarrow> hw2d_coord \<Rightarrow> u32 \<Rightarrow> bool option" where
  "supportedResizing pf cap fr tt tr =
    (let tt = turned_to pf tr tt in
     c_and (supportedHResizing cap (hori fr) (hori tt)) (supportedVResizing cap (vert fr) (vert tt)))"

section \<open>The accelerators\<close>

datatype (plugins only: code) compositor_class =
    AcrylicCompositorM2M1SHOT2_G2D | AcrylicCompositorG2D9810 | AcrylicCompositorMSCL9810
  | AcrylicCompositorMSCL3830 | AcrylicCompositorDummy

definition all_fimg2d_formats :: "hal_name list" where
  "all_fimg2d_formats =
    [HAL_PIXEL_FORMAT_RGBA_8888,
     HAL_PIXEL_FORMAT_BGRA_8888,
     HAL_PIXEL_FORMAT_RGBX_8888,
     HAL_PIXEL_FORMAT_RGB_888,
     HAL_PIXEL_FORMAT_RGB_565,
     HAL_PIXEL_FORMAT_YCrCb_420_SP,
     HAL_PIXEL_FORMAT_EXYNOS_YCrCb_420_SP_M,
     HAL_PIXEL_FORMAT_EXYNOS_YCrCb_420_SP_M_FULL,
     HAL_PIXEL_FORMAT_EXYNOS_YCbCr_420_SP,
     HAL_PIXEL_FORMAT_EXYNOS_YCbCr_420_SPN,
     HAL_PIXEL_FORMAT_EXYNOS_YCbCr_420_SP_M,
     HAL_PIXEL_FORMAT_EXYNOS_YCbCr_420_SP_M_PRIV,
     HAL_PIXEL_FORMAT_EXYNOS_YCbCr_420_SPN_S10B,
     HAL_PIXEL_FORMAT_EXYNOS_YCbCr_420_SP_M_S10B,
     HAL_PIXEL_FORMAT_YCbCr_422_I,
     HAL_PIXEL_FORMAT_EXYNOS_YCrCb_422_I,
     HAL_PIXEL_FORMAT_YCbCr_422_SP]"

definition all_fimg2d_hdr_formats :: "hal_name list" where
  "all_fimg2d_hdr_formats =
    [HAL_PIXEL_FORMAT_RGBA_8888,
     HAL_PIXEL_FORMAT_BGRA_8888,
     HAL_PIXEL_FORMAT_RGBA_1010102,
     HAL_PIXEL_FORMAT_RGBX_8888,
     HAL_PIXEL_FORMAT_RGB_888,
     HAL_PIXEL_FORMAT_RGB_565,
     HAL_PIXEL_FORMAT_YCrCb_420_SP,
     HAL_PIXEL_FORMAT_EXYNOS_YCrCb_420_SP_M,
     HAL_PIXEL_FORMAT_EXYNOS_YCrCb_420_SP_M_FULL,
     HAL_PIXEL_FORMAT_EXYNOS_YCbCr_420_SP,
     HAL_PIXEL_FORMAT_EXYNOS_YCbCr_420_SPN,
     HAL_PIXEL_FORMAT_EXYNOS_YCbCr_420_SP_M,
     HAL_PIXEL_FORMAT_EXYNOS_YCbCr_420_SP_M_PRIV,
     HAL_PIXEL_FORMAT_EXYNOS_YCbCr_420_SPN_S10B,
     HAL_PIXEL_FORMAT_EXYNOS_YCbCr_420_SP_M_S10B,
     HAL_PIXEL_FORMAT_YCbCr_422_I,
     HAL_PIXEL_FORMAT_EXYNOS_YCrCb_422_I,
     HAL_PIXEL_FORMAT_YCbCr_422_SP,
     HAL_PIXEL_FORMAT_YCBCR_P010,
     HAL_PIXEL_FORMAT_EXYNOS_YCbCr_P010_M]"

definition all_fimg2d_sbwc_lossy_formats :: "hal_name list" where
  "all_fimg2d_sbwc_lossy_formats =
    [HAL_PIXEL_FORMAT_RGBA_8888,
     HAL_PIXEL_FORMAT_BGRA_8888,
     HAL_PIXEL_FORMAT_RGBA_1010102,
     HAL_PIXEL_FORMAT_RGBX_8888,
     HAL_PIXEL_FORMAT_RGB_888,
     HAL_PIXEL_FORMAT_RGB_565,
     HAL_PIXEL_FORMAT_YCrCb_420_SP,
     HAL_PIXEL_FORMAT_EXYNOS_YCrCb_420_SP_M,
     HAL_PIXEL_FORMAT_EXYNOS_YCrCb_420_SP_M_FULL,
     HAL_PIXEL_FORMAT_EXYNOS_YCbCr_420_SP,
     HAL_PIXEL_FORMAT_EXYNOS_YCbCr_420_SPN,
     HAL_PIXEL_FORMAT_EXYNOS_YCbCr_420_SP_M,
     HAL_PIXEL_FORMAT_EXYNOS_YCbCr_420_SP_M_PRIV,
     HAL_PIXEL_FORMAT_EXYNOS_YCbCr_420_SPN_S10B,
     HAL_PIXEL_FORMAT_EXYNOS_YCbCr_420_SP_M_S10B,
     HAL_PIXEL_FORMAT_YCbCr_422_I,
     HAL_PIXEL_FORMAT_EXYNOS_YCrCb_422_I,
     HAL_PIXEL_FORMAT_YCbCr_422_SP,
     HAL_PIXEL_FORMAT_YCBCR_P010,
     HAL_PIXEL_FORMAT_EXYNOS_YCbCr_P010_M,
     HAL_PIXEL_FORMAT_EXYNOS_YCbCr_420_SP_M_SBWC,
     HAL_PIXEL_FORMAT_EXYNOS_YCbCr_420_SPN_SBWC,
     HAL_PIXEL_FORMAT_EXYNOS_YCbCr_420_SP_M_10B_SBWC,
     HAL_PIXEL_FORMAT_EXYNOS_YCbCr_420_SPN_10B_SBWC,
     HAL_PIXEL_FORMAT_EXYNOS_YCrCb_420_SP_M_SBWC,
     HAL_PIXEL_FORMAT_EXYNOS_YCrCb_420_SP_M_10B_SBWC,
     HAL_PIXEL_FORMAT_EXYNOS_YCbCr_420_SP_M_SBWC_L50,
     HAL_PIXEL_FORMAT_EXYNOS_YCbCr_420_SP_M_10B_SBWC_L40,
     HAL_PIXEL_FORMAT_EXYNOS_YCbCr_420_SP_M_10B_SBWC_L80]"

definition all_fimg2d_sbwc_formats :: "hal_name list" where
  "all_fimg2d_sbwc_formats =
    [HAL_PIXEL_FORMAT_RGBA_8888,
     HAL_PIXEL_FORMAT_BGRA_8888,
     HAL_PIXEL_FORMAT_RGBA_1010102,
     HAL_PIXEL_FORMAT_RGBX_8888,
     HAL_PIXEL_FORMAT_RGB_888,
     HAL_PIXEL_FORMAT_RGB_565,
     HAL_PIXEL_FORMAT_YCrCb_420_SP,
     HAL_PIXEL_FORMAT_EXYNOS_YCrCb_420_SP_M,
     HAL_PIXEL_FORMAT_EXYNOS_YCrCb_420_SP_M_FULL,
     HAL_PIXEL_FORMAT_EXYNOS_YCbCr_420_SP,
     HAL_PIXEL_FORMAT_EXYNOS_YCbCr_420_SPN,
     HAL_PIXEL_FORMAT_EXYNOS_YCbCr_420_SP_M,
     HAL_PIXEL_FORMAT_EXYNOS_YCbCr_420_SP_M_PRIV,
     HAL_PIXEL_FORMAT_EXYNOS_YCbCr_420_SPN_S10B,
     HAL_PIXEL_FORMAT_EXYNOS_YCbCr_420_SP_M_S10B,
     HAL_PIXEL_FORMAT_YCbCr_422_I,
     HAL_PIXEL_FORMAT_EXYNOS_YCrCb_422_I,
     HAL_PIXEL_FORMAT_YCbCr_422_SP,
     HAL_PIXEL_FORMAT_YCBCR_P010,
     HAL_PIXEL_FORMAT_EXYNOS_YCbCr_P010_M,
     HAL_PIXEL_FORMAT_EXYNOS_YCbCr_420_SP_M_SBWC,
     HAL_PIXEL_FORMAT_EXYNOS_YCbCr_420_SPN_SBWC,
     HAL_PIXEL_FORMAT_EXYNOS_YCbCr_420_SP_M_10B_SBWC,
     HAL_PIXEL_FORMAT_EXYNOS_YCbCr_420_SPN_10B_SBWC,
     HAL_PIXEL_FORMAT_EXYNOS_YCrCb_420_SP_M_SBWC,
     HAL_PIXEL_FORMAT_EXYNOS_YCrCb_420_SP_M_10B_SBWC]"

definition all_mscl_formats :: "hal_name list" where
  "all_mscl_formats =
    [HAL_PIXEL_FORMAT_RGBA_8888,
     HAL_PIXEL_FORMAT_BGRA_8888,
     HAL_PIXEL_FORMAT_RGBX_8888,
     HAL_PIXEL_FORMAT_RGB_565,
     HAL_PIXEL_FORMAT_YV12,
     HAL_PIXEL_FORMAT_EXYNOS_YCbCr_420_P,
     HAL_PIXEL_FORMAT_EXYNOS_YCbCr_420_P_M,
     HAL_PIXEL_FORMAT_EXYNOS_YV12_M,
     HAL_PIXEL_FORMAT_YCrCb_420_SP,
     HAL_PIXEL_FORMAT_EXYNOS_YCrCb_420_SP_M,
     HAL_PIXEL_FORMAT_EXYNOS_YCrCb_420_SP_M_FULL,
     HAL_PIXEL_FORMAT_EXYNOS_YCbCr_420_SP,
     HAL_PIXEL_FORMAT_EXYNOS_YCbCr_420_SPN,
     HAL_PIXEL_FORMAT_EXYNOS_YCbCr_420_SP_M,
     HAL_PIXEL_FORMAT_EXYNOS_YCbCr_420_SP_M_PRIV,
     HAL_PIXEL_FORMAT_EXYNOS_YCbCr_420_SPN_S10B,
     HAL_PIXEL_FORMAT_EXYNOS_YCbCr_420_SP_M_S10B,
     HAL_PIXEL_FORMAT_YCBCR_P010,
     HAL_PIXEL_FORMAT_EXYNOS_YCbCr_P010_M,
     HAL_PIXEL_FORMAT_YCbCr_422_I,
     HAL_PIXEL_FORMAT_EXYNOS_YCrCb_422_I,
     HAL_PIXEL_FORMAT_YCbCr_422_SP,
     HAL_PIXEL_FORMAT_EXYNOS_YCbCr_422_P]"

definition all_mscl_sbwc_formats :: "hal_name list" where
  "all_mscl_sbwc_formats =
    [HAL_PIXEL_FORMAT_RGBA_8888,
     HAL_PIXEL_FORMAT_BGRA_8888,
     HAL_PIXEL_FORMAT_RGBX_8888,
     HAL_PIXEL_FORMAT_RGBA_1010102,
     HAL_PIXEL_FORMAT_RGB_565,
     HAL_PIXEL_FORMAT_YV12,
     HAL_PIXEL_FORMAT_EXYNOS_YCbCr_420_P,
     HAL_PIXEL_FORMAT_EXYNOS_YCbCr_420_P_M,
     HAL_PIXEL_FORMAT_EXYNOS_YV12_M,
     HAL_PIXEL_FORMAT_YCrCb_420_SP,
     HAL_PIXEL_FORMAT_EXYNOS_YCrCb_420_SP_M,
     HAL_PIXEL_FORMAT_EXYNOS_YCrCb_420_SP_M_FULL,
     HAL_PIXEL_FORMAT_EXYNOS_YCbCr_420_SP,
     HAL_PIXEL_FORMAT_EXYNOS_YCbCr_420_SPN,
     HAL_PIXEL_FORMAT_EXYNOS_YCbCr_420_SP_M,
     HAL_PIXEL_FORMAT_EXYNOS_YCbCr_420_SP_M_PRIV,
     HAL_PIXEL_FORMAT_EXYNOS_YCbCr_420_SPN_S10B,
     HAL_PIXEL_FORMAT_EXYNOS_YCbCr_420_SP_M_S10B,
     HAL_PIXEL_FORMAT_YCBCR_P010,
     HAL_PIXEL_FORMAT_EXYNOS_YCbCr_P010_M,
     HAL_PIXEL_FORMAT_YCbCr_422_I,
     HAL_PIXEL_FORMAT_EXYNOS_YCrCb_422_I,
     HAL_PIXEL_FORMAT_YCbCr_422_SP,
     HAL_PIXEL_FORMAT_EXYNOS_YCbCr_422_P,
     HAL_PIXEL_FORMAT_EXYNOS_YCbCr_420_SP_M_SBWC,
     HAL_PIXEL_FORMAT_EXYNOS_YCbCr_420_SP_M_10B_SBWC,
     HAL_PIXEL_FORMAT_EXYNOS_YCrCb_420_SP_M_SBWC,
     HAL_PIXEL_FORMAT_EXYNOS_YCrCb_420_SP_M_10B_SBWC,
     HAL_PIXEL_FORMAT_EXYNOS_YCbCr_420_SPN_SBWC,
     HAL_PIXEL_FORMAT_EXYNOS_YCbCr_420_SPN_10B_SBWC]"

definition all_mscl_sbwc_lossy_formats :: "hal_name list" where
  "all_mscl_sbwc_lossy_formats =
    [HAL_PIXEL_FORMAT_RGBA_8888,
     HAL_PIXEL_FORMAT_BGRA_8888,
     HAL_PIXEL_FORMAT_RGBX_8888,
     HAL_PIXEL_FORMAT_RGBA_1010102,
     HAL_PIXEL_FORMAT_RGB_565,
     HAL_PIXEL_FORMAT_YV12,
     HAL_PIXEL_FORMAT_EXYNOS_YCbCr_420_P,
     HAL_PIXEL_FORMAT_EXYNOS_YCbCr_420_P_M,
     HAL_PIXEL_FORMAT_EXYNOS_YV12_M,
     HAL_PIXEL_FORMAT_YCrCb_420_SP,
     HAL_PIXEL_FORMAT_EXYNOS_YCrCb_420_SP_M,
     HAL_PIXEL_FORMAT_EXYNOS_YCrCb_420_SP_M_FULL,
     HAL_PIXEL_FORMAT_EXYNOS_YCbCr_420_SP,
     HAL_PIXEL_FORMAT_EXYNOS_YCbCr_420_SPN,
     HAL_PIXEL_FORMAT_EXYNOS_YCbCr_420_SP_M,
     HAL_PIXEL_FORMAT_EXYNOS_YCbCr_420_SP_M_PRIV,
     HAL_PIXEL_FORMAT_EXYNOS_YCbCr_420_SPN_S10B,
     HAL_PIXEL_FORMAT_EXYNOS_YCbCr_420_SP_M_S10B,
     HAL_PIXEL_FORMAT_YCBCR_P010,
     HAL_PIXEL_FORMAT_EXYNOS_YCbCr_P010_M,
     HAL_PIXEL_FORMAT_YCbCr_422_I,
     HAL_PIXEL_FORMAT_EXYNOS_YCrCb_422_I,
     HAL_PIXEL_FORMAT_YCbCr_422_SP,
     HAL_PIXEL_FORMAT_EXYNOS_YCbCr_422_P,
     HAL_PIXEL_FORMAT_EXYNOS_YCbCr_420_SP_M_SBWC,
     HAL_PIXEL_FORMAT_EXYNOS_YCbCr_420_SP_M_10B_SBWC,
     HAL_PIXEL_FORMAT_EXYNOS_YCrCb_420_SP_M_SBWC,
     HAL_PIXEL_FORMAT_EXYNOS_YCrCb_420_SP_M_10B_SBWC,
     HAL_PIXEL_FORMAT_EXYNOS_YCbCr_420_SPN_SBWC,
     HAL_PIXEL_FORMAT_EXYNOS_YCbCr_420_SPN_10B_SBWC,
     HAL_PIXEL_FORMAT_EXYNOS_YCbCr_420_SP_M_SBWC_L50,
     HAL_PIXEL_FORMAT_EXYNOS_YCbCr_420_SP_M_10B_SBWC_L40,
     HAL_PIXEL_FORMAT_EXYNOS_YCbCr_420_SP_M_SBWC_L75,
     HAL_PIXEL_FORMAT_EXYNOS_YCbCr_420_SP_M_10B_SBWC_L60,
     HAL_PIXEL_FORMAT_EXYNOS_YCbCr_420_SP_M_10B_SBWC_L80,
     HAL_PIXEL_FORMAT_EXYNOS_420_SPN_SBWC_DECOMP,
     HAL_PIXEL_FORMAT_EXYNOS_P010_N_SBWC_DECOMP]"

definition all_mscl_sbwc_v2_7_formats :: "hal_name list" where
  "all_mscl_sbwc_v2_7_formats =
    [HAL_PIXEL_FORMAT_RGBA_8888,
     HAL_PIXEL_FORMAT_BGRA_8888,
     HAL_PIXEL_FORMAT_RGBX_8888,
     HAL_PIXEL_FORMAT_RGBA_1010102,
     HAL_PIXEL_FORMAT_RGB_565,
     HAL_PIXEL_FORMAT_YV12,
     HAL_PIXEL_FORMAT_EXYNOS_YCbCr_420_P,
     HAL_PIXEL_FORMAT_EXYNOS_YCbCr_420_P_M,
     HAL_PIXEL_FORMAT_EXYNOS_YV12_M,
     HAL_PIXEL_FORMAT_YCrCb_420_SP,
     HAL_PIXEL_FORMAT_EXYNOS_YCrCb_420_SP_M,
     HAL_PIXEL_FORMAT_EXYNOS_YCrCb_420_SP_M_FULL,
     HAL_PIXEL_FORMAT_EXYNOS_YCbCr_420_SP,
     HAL_PIXEL_FORMAT_EXYNOS_YCbCr_420_SPN,
     HAL_PIXEL_FORMAT_EXYNOS_YCbCr_420_SP_M,
     HAL_PIXEL_FORMAT_EXYNOS_YCbCr_420_SP_M_PRIV,
     HAL_PIXEL_FORMAT_EXYNOS_YCbCr_420_SPN_S10B,
     HAL_PIXEL_FORMAT_EXYNOS_YCbCr_420_SP_M_S10B,
     HAL_PIXEL_FORMAT_YCBCR_P010,
     HAL_PIXEL_FORMAT_EXYNOS_YCbCr_P010_M,
     HAL_PIXEL_FORMAT_YCbCr_422_I,
     HAL_PIXEL_FORMAT_EXYNOS_YCrCb_422_I,
     HAL_PIXEL_FORMAT_YCbCr_422_SP,
     HAL_PIXEL_FORMAT_EXYNOS_YCbCr_422_P,
     HAL_PIXEL_FORMAT_EXYNOS_YCbCr_420_SP_M_SBWC,
     HAL_PIXEL_FORMAT_EXYNOS_YCbCr_420_SP_M_10B_SBWC,
     HAL_PIXEL_FORMAT_EXYNOS_YCrCb_420_SP_M_SBWC,
     HAL_PIXEL_FORMAT_EXYNOS_YCrCb_420_SP_M_10B_SBWC,
     HAL_PIXEL_FORMAT_EXYNOS_YCbCr_420_SPN_SBWC,
     HAL_PIXEL_FORMAT_EXYNOS_YCbCr_420_SPN_10B_SBWC,
     HAL_PIXEL_FORMAT_EXYNOS_YCbCr_420_SP_M_SBWC_L50,
     HAL_PIXEL_FORMAT_EXYNOS_YCbCr_420_SP_M_10B_SBWC_L40,
     HAL_PIXEL_FORMAT_EXYNOS_YCbCr_420_SP_M_SBWC_L75,
     HAL_PIXEL_FORMAT_EXYNOS_YCbCr_420_SP_M_10B_SBWC_L60,
     HAL_PIXEL_FORMAT_EXYNOS_YCbCr_420_SP_M_10B_SBWC_L80,
     HAL_PIXEL_FORMAT_EXYNOS_420_SP_M_32_SBWC_L,
     HAL_PIXEL_FORMAT_EXYNOS_420_SP_M_64_SBWC_L,
     HAL_PIXEL_FORMAT_EXYNOS_420_SPN_32_SBWC_L,
     HAL_PIXEL_FORMAT_EXYNOS_420_SPN_64_SBWC_L,
     HAL_PIXEL_FORMAT_EXYNOS_420_SP_M_10B_32_SBWC_L,
     HAL_PIXEL_FORMAT_EXYNOS_420_SP_M_10B_64_SBWC_L,
     HAL_PIXEL_FORMAT_EXYNOS_420_SPN_10B_32_SBWC_L,
     HAL_PIXEL_FORMAT_EXYNOS_420_SPN_10B_64_SBWC_L,
     HAL_PIXEL_FORMAT_EXYNOS_420_SPN_SBWC_DECOMP,
     HAL_PIXEL_FORMAT_EXYNOS_P010_N_SBWC_DECOMP,
     HAL_PIXEL_FORMAT_EXYNOS_YCbCr_420_SPN_256_SBWC,
     HAL_PIXEL_FORMAT_EXYNOS_YCbCr_420_SPN_10B_256_SBWC]"

definition blter_formats :: "hal_name list" where
  "blter_formats =
    [HAL_PIXEL_FORMAT_RGBA_8888,
     HAL_PIXEL_FORMAT_BGRA_8888,
     HAL_PIXEL_FORMAT_RGBX_8888,
     HAL_PIXEL_FORMAT_RGB_888,
     HAL_PIXEL_FORMAT_RGB_565,
     HAL_PIXEL_FORMAT_EXYNOS_YCbCr_420_P,
     HAL_PIXEL_FORMAT_EXYNOS_YCbCr_420_P_M,
     HAL_PIXEL_FORMAT_YCrCb_420_SP,
     HAL_PIXEL_FORMAT_EXYNOS_YCrCb_420_SP_M,
     HAL_PIXEL_FORMAT_EXYNOS_YCrCb_420_SP_M_FULL,
     HAL_PIXEL_FORMAT_EXYNOS_YCbCr_420_SP,
     HAL_PIXEL_FORMAT_EXYNOS_YCbCr_420_SPN,
     HAL_PIXEL_FORMAT_EXYNOS_YCbCr_420_SP_M,
     HAL_PIXEL_FORMAT_EXYNOS_YCbCr_420_SP_M_PRIV]"

definition rgb_formats :: "hal_name list" where
  "rgb_formats =
    [HAL_PIXEL_FORMAT_RGBA_8888,
     HAL_PIXEL_FORMAT_BGRA_8888,
     HAL_PIXEL_FORMAT_RGBX_8888,
     HAL_PIXEL_FORMAT_RGB_888,
     HAL_PIXEL_FORMAT_RGB_565]"

definition all_hwc_dataspaces :: "acryl_platform \<Rightarrow> u32 list" where
  "all_hwc_dataspaces pf =
    [pf_standard pf STANDARD_BT709,
     pf_standard pf STANDARD_BT709 OR pf_range pf RANGE_FULL,
     pf_standard pf STANDARD_BT709 OR pf_range pf RANGE_LIMITED,
     pf_standard pf STANDARD_BT2020,
     pf_standard pf STANDARD_BT2020 OR pf_range pf RANGE_FULL,
     pf_standard pf STANDARD_BT2020 OR pf_range pf RANGE_LIMITED,
     pf_standard pf STANDARD_BT601_625,
     pf_standard pf STANDARD_BT601_625 OR pf_range pf RANGE_FULL,
     pf_standard pf STANDARD_BT601_625 OR pf_range pf RANGE_LIMITED,
     pf_standard pf STANDARD_BT601_525,
     pf_standard pf STANDARD_BT601_525 OR pf_range pf RANGE_FULL,
     pf_standard pf STANDARD_BT601_525 OR pf_range pf RANGE_LIMITED,
     pf_standard pf STANDARD_BT601_625_UNADJUSTED,
     pf_standard pf STANDARD_BT601_625_UNADJUSTED OR pf_range pf RANGE_FULL,
     pf_standard pf STANDARD_BT601_625_UNADJUSTED OR pf_range pf RANGE_LIMITED,
     pf_standard pf STANDARD_BT601_525_UNADJUSTED,
     pf_standard pf STANDARD_BT601_525_UNADJUSTED OR pf_range pf RANGE_FULL,
     pf_standard pf STANDARD_BT601_525_UNADJUSTED OR pf_range pf RANGE_LIMITED,
     pf_standard pf STANDARD_DCI_P3,
     pf_standard pf STANDARD_DCI_P3 OR pf_range pf RANGE_FULL,
     pf_standard pf STANDARD_DCI_P3 OR pf_range pf RANGE_LIMITED,
     pf_standard pf STANDARD_FILM,
     pf_standard pf STANDARD_FILM OR pf_range pf RANGE_FULL,
     pf_standard pf STANDARD_FILM OR pf_range pf RANGE_LIMITED,
     0,
     pf_range pf RANGE_FULL,
     pf_range pf RANGE_LIMITED,
     pf_legacy pf DS_SRGB,
     pf_legacy pf DS_SRGB_LINEAR,
     pf_legacy pf DS_JFIF,
     pf_legacy pf DS_BT601_525,
     pf_legacy pf DS_BT601_625,
     pf_legacy pf DS_BT709]"

definition srgb_dataspaces :: "acryl_platform \<Rightarrow> u32 list" where
  "srgb_dataspaces pf =
    [pf_range pf RANGE_FULL,
     pf_standard pf STANDARD_BT709 OR pf_range pf RANGE_FULL,
     pf_legacy pf DS_SRGB]"

definition capability_fimg2d_8895 :: "acryl_platform \<Rightarrow> stHW2DCapability" where
  "capability_fimg2d_8895 pf =
    \<lparr>max_upsampling_num = coord 32767 32767,
      max_downsampling_factor = coord 2 2,
      max_upsizing_num = coord 32767 32767,
      max_downsizing_factor = coord 32767 32767,
      min_src_dimension = coord 1 1,
      max_src_dimension = coord 8192 8192,
      min_dst_dimension = coord 1 1,
      max_dst_dimension = coord 8192 8192,
      min_pix_align = coord 1 1,
      rescaling_count = 1,
      compositing_mode = BLEND_NONE OR BLEND_SRC_COPY OR BLEND_SRC_OVER,
      transform_type = TRANSFORM_ALL,
      auxiliary_feature = FEATURE_PLANE_ALPHA OR FEATURE_UORDER_WRITE OR FEATURE_AFBC_ENCODE OR FEATURE_AFBC_DECODE,
      max_layers = 8,
      pixformats = map (\<lambda>f. word_of_int (pf_hal pf f)) all_fimg2d_formats,
      dataspaces = all_hwc_dataspaces pf,
      base_align = 1\<rparr>"

definition capability_fimg2d_9610 :: "acryl_platform \<Rightarrow> stHW2DCapability" where
  "capability_fimg2d_9610 pf =
    \<lparr>max_upsampling_num = coord 32767 32767,
      max_downsampling_factor = coord 31767 32767,
      max_upsizing_num = coord 32767 32767,
      max_downsizing_factor = coord 32767 32767,
      min_src_dimension = coord 1 1,
      max_src_dimension = coord 8192 8192,
      min_dst_dimension = coord 1 1,
      max_dst_dimension = coord 8192 8192,
      min_pix_align = coord 1 1,
      rescaling_count = 0,
      compositing_mode = BLEND_NONE OR BLEND_SRC_COPY OR BLEND_SRC_OVER,
      transform_type = TRANSFORM_ALL,
      auxiliary_feature = FEATURE_PLANE_ALPHA OR FEATURE_UORDER_WRITE OR FEATURE_AFBC_ENCODE OR FEATURE_AFBC_DECODE OR FEATURE_OTF_WRITE OR FEATURE_SOLIDCOLOR,
      max_layers = 8,
      pixformats = map (\<lambda>f. word_of_int (pf_hal pf f)) all_fimg2d_hdr_formats,
      dataspaces = all_hwc_dataspaces pf,
      base_align = 1\<rparr>"

definition capability_fimg2d_9810 :: "acryl_platform \<Rightarrow> stHW2DCapability" where
  "capability_fimg2d_9810 pf =
    \<lparr>max_upsampling_num = coord 32767 32767,
      max_downsampling_factor = coord 31767 32767,
      max_upsizing_num = coord 32767 32767,
      max_downsizing_factor = coord 32767 32767,
      min_src_dimension = coord 1 1,
      max_src_dimension = coord 8192 8192,
      min_dst_dimension = coord 1 1,
      max_dst_dimension = coord 8192 8192,
      min_pix_align = coord 1 1,
      rescaling_count = 0,
      compositing_mode = BLEND_NONE OR BLEND_SRC_COPY OR BLEND_SRC_OVER,
      transform_type = TRANSFORM_ALL,
      auxiliary_feature = FEATURE_PLANE_ALPHA OR FEATURE_UORDER_WRITE OR FEATURE_AFBC_ENCODE OR FEATURE_AFBC_DECODE OR FEATURE_OTF_WRITE,
      max_layers = 16,
      pixformats = map (\<lambda>f. word_of_int (pf_hal pf f)) all_fimg2d_hdr_formats,
      dataspaces = all_hwc_dataspaces pf,
      base_align = 1\<rparr>"

definition capability_fimg2d_9810_blter :: "acryl_platform \<Rightarrow> stHW2DCapability" where
  "capability_fimg2d_9810_blter pf =
    \<lparr>max_upsampling_num = coord 32767 32767,
      max_downsampling_factor = coord 31767 32767,
      max_upsizing_num = coord 32767 32767,
      max_downsizing_factor = coord 32767 32767,
      min_src_dimension = coord 1 1,
      max_src_dimension = coord 16384 16384,
      min_dst_dimension = coord 1 1,
      max_dst_dimension = coord 16384 16384,
      min_pix_align = coord 1 1,
      rescaling_count = 0,
      compositing_mode = BLEND_NONE OR BLEND_SRC_COPY OR BLEND_SRC_OVER,
      transform_type = TRANSFORM_ALL,
      auxiliary_feature = FEATURE_PLANE_ALPHA OR FEATURE_UORDER_WRITE,
      max_layers = 2,
      pixformats = map (\<lambda>f. word_of_int (pf_hal pf f)) blter_formats,
      dataspaces = all_hwc_dataspaces pf,
      base_align = 1\<rparr>"

definition capability_fimg2d_L16FSBWC :: "acryl_platform \<Rightarrow> stHW2DCapability" where
  "capability_fimg2d_L16FSBWC pf =
    \<lparr>max_upsampling_num = coord 32767 32767,
      max_downsampling_factor = coord 31767 32767,
      max_upsizing_num = coord 32767 32767,
      max_downsizing_factor = coord 32767 32767,
      min_src_dimension = coord 1 1,
      max_src_dimension = coord 8192 8192,
      min_dst_dimension = coord 1 1,
      max_dst_dimension = coord 8192 8192,
      min_pix_align = coord 1 1,
      rescaling_count = 0,
      compositing_mode = BLEND_NONE OR BLEND_SRC_COPY OR BLEND_SRC_OVER,
      transform_type = TRANSFORM_ALL,
      auxiliary_feature = FEATURE_PLANE_ALPHA OR FEATURE_UORDER_WRITE OR FEATURE_AFBC_ENCODE OR FEATURE_AFBC_DECODE OR FEATURE_OTF_WRITE OR FEATURE_SOLIDCOLOR,
      max_layers = 16,
      pixformats = map (\<lambda>f. word_of_int (pf_hal pf f)) all_fimg2d_sbwc_formats,
      dataspaces = all_hwc_dataspaces pf,
      base_align = 1\<rparr>"

definition capability_fimg2d_L8FSBWCL :: "acryl_platform \<Rightarrow> stHW2DCapability" where
  "capability_fimg2d_L8FSBWCL pf =
    \<lparr>max_upsampling_num = coord 32767 32767,
      max_downsampling_factor = coord 31767 32767,
      max_upsizing_num = coord 32767 32767,
      max_downsizing_factor = coord 32767 32767,
      min_src_dimension = coord 1 1,
      max_src_dimension = coord 8192 8192,
      min_dst_dimension = coord 1 1,
      max_dst_dimension = coord 8192 8192,
      min_pix_align = coord 1 1,
      rescaling_count = 0,
      compositing_mode = BLEND_NONE OR BLEND_SRC_COPY OR BLEND_SRC_OVER,
      transform_type = TRANSFORM_ALL,
      auxiliary_feature = FEATURE_PLANE_ALPHA OR FEATURE_UORDER_WRITE OR FEATURE_AFBC_ENCODE OR FEATURE_AFBC_DECODE OR FEATURE_OTF_WRITE OR FEATURE_SOLIDCOLOR,
      max_layers = 8,
      pixformats = map (\<lambda>f. word_of_int (pf_hal pf f)) all_fimg2d_sbwc_lossy_formats,
      dataspaces = all_hwc_dataspaces pf,
      base_align = 1\<rparr>"

definition capability_fimg2d_8890 :: "acryl_platform \<Rightarrow> stHW2DCapability" where
  "capability_fimg2d_8890 pf =
    \<lparr>max_upsampling_num = coord 32767 32767,
      max_downsampling_factor = coord 2 2,
      max_upsizing_num = coord 32767 32767,
      max_downsizing_factor = coord 32767 32767,
      min_src_dimension = coord 4 4,
      max_src_dimension = coord 8192 8192,
      min_dst_dimension = coord 4 4,
      max_dst_dimension = coord 8192 8192,
      min_pix_align = coord 1 1,
      rescaling_count = 1,
      compositing_mode = BLEND_NONE OR BLEND_SRC_COPY OR BLEND_SRC_OVER,
      transform_type = TRANSFORM_ALL,
      auxiliary_feature = FEATURE_PLANE_ALPHA OR FEATURE_AFBC_DECODE,
      max_layers = 3,
      pixformats = map (\<lambda>f. word_of_int (pf_hal pf f)) rgb_formats,
      dataspaces = srgb_dataspaces pf,
      base_align = 1\<rparr>"

definition capability_mscl_9810 :: "acryl_platform \<Rightarrow> stHW2DCapability" where
  "capability_mscl_9810 pf =
    \<lparr>max_upsampling_num = coord 64 64,
      max_downsampling_factor = coord 16 16,
      max_upsizing_num = coord 64 64,
      max_downsizing_factor = coord 16 16,
      min_src_dimension = coord 16 16,
      max_src_dimension = coord 8192 8192,
      min_dst_dimension = coord 4 4,
      max_dst_dimension = coord 8192 8192,
      min_pix_align = coord 1 1,
      rescaling_count = 0,
      compositing_mode = BLEND_NONE OR BLEND_SRC_COPY OR BLEND_SRC_OVER,
      transform_type = TRANSFORM_ALL,
      auxiliary_feature = 0,
      max_layers = 1,
      pixformats = map (\<lambda>f. word_of_int (pf_hal pf f)) all_mscl_formats,
      dataspaces = all_hwc_dataspaces pf,
      base_align = 4\<rparr>"

definition capability_mscl_sbwc :: "acryl_platform \<Rightarrow> stHW2DCapability" where
  "capability_mscl_sbwc pf =
    \<lparr>max_upsampling_num = coord 64 64,
      max_downsampling_factor = coord 16 16,
      max_upsizing_num = coord 64 64,
      max_downsizing_factor = coord 16 16,
      min_src_dimension = coord 16 16,
      max_src_dimension = coord 8192 8192,
      min_dst_dimension = coord 4 4,
      max_dst_dimension = coord 8192 8192,
      min_pix_align = coord 1 1,
      rescaling_count = 0,
      compositing_mode = BLEND_NONE OR BLEND_SRC_COPY OR BLEND_SRC_OVER,
      transform_type = TRANSFORM_ALL,
      auxiliary_feature = 0,
      max_layers = 1,
      pixformats = map (\<lambda>f. word_of_int (pf_hal pf f)) all_mscl_sbwc_formats,
      dataspaces = all_hwc_dataspaces pf,
      base_align = 4\<rparr>"

definition capability_mscl_sbwcl :: "acryl_platform \<Rightarrow> stHW2DCapability" where
  "capability_mscl_sbwcl pf =
    \<lparr>max_upsampling_num = coord 64 64,
      max_downsampling_factor = coord 16 16,
      max_upsizing_num = coord 64 64,
      max_downsizing_factor = coord 16 16,
      min_src_dimension = coord 16 16,
      max_src_dimension = coord 8192 8192,
      min_dst_dimension = coord 4 4,
      max_dst_dimension = coord 8192 8192,
      min_pix_align = coord 1 1,
      rescaling_count = 0,
      compositing_mode = BLEND_NONE OR BLEND_SRC_COPY OR BLEND_SRC_OVER,
      transform_type = TRANSFORM_ALL,
      auxiliary_feature = 0,
      max_layers = 1,
      pixformats = map (\<lambda>f. word_of_int (pf_hal pf f)) all_mscl_sbwc_lossy_formats,
      dataspaces = all_hwc_dataspaces pf,
      base_align = 4\<rparr>"

definition capability_mscl_3830 :: "acryl_platform \<Rightarrow> stHW2DCapability" where
  "capability_mscl_3830 pf =
    \<lparr>max_upsampling_num = coord 64 64,
      max_downsampling_factor = coord 16 16,
      max_upsizing_num = coord 64 64,
      max_downsizing_factor = coord 16 16,
      min_src_dimension = coord 16 16,
      max_src_dimension = coord 8192 8192,
      min_dst_dimension = coord 4 4,
      max_dst_dimension = coord 8192 8192,
      min_pix_align = coord 1 1,
      rescaling_count = 0,
      compositing_mode = BLEND_NONE OR BLEND_SRC_COPY OR BLEND_SRC_OVER,
      transform_type = TRANSFORM_ALL,
      auxiliary_feature = FEATURE_PLANE_ALPHA,
      max_layers = 2,
      pixformats = map (\<lambda>f. word_of_int (pf_hal pf f)) all_mscl_formats,
      dataspaces = all_hwc_dataspaces pf,
      base_align = 4\<rparr>"

definition capability_mscl_votf :: "acryl_platform \<Rightarrow> stHW2DCapability" where
  "capability_mscl_votf pf =
    \<lparr>max_upsampling_num = coord 64 64,
      max_downsampling_factor = coord 16 16,
      max_upsizing_num = coord 64 64,
      max_downsizing_factor = coord 16 16,
      min_src_dimension = coord 16 16,
      max_src_dimension = coord 16384 16384,
      min_dst_dimension = coord 4 4,
      max_dst_dimension = coord 16384 16384,
      min_pix_align = coord 1 1,
      rescaling_count = 0,
      compositing_mode = BLEND_NONE OR BLEND_SRC_COPY OR BLEND_SRC_OVER,
      transform_type = TRANSFORM_ALL,
      auxiliary_feature = 0,
      max_layers = 1,
      pixformats = map (\<lambda>f. word_of_int (pf_hal pf f)) all_mscl_sbwc_lossy_formats,
      dataspaces = all_hwc_dataspaces pf,
      base_align = 4\<rparr>"

definition capability_mscl_sbwc_v2_7 :: "acryl_platform \<Rightarrow> stHW2DCapability" where
  "capability_mscl_sbwc_v2_7 pf =
    \<lparr>max_upsampling_num = coord 4096 4096,
      max_downsampling_factor = coord 256 256,
      max_upsizing_num = coord 4096 4096,
      max_downsizing_factor = coord 256 256,
      min_src_dimension = coord 16 16,
      max_src_dimension = coord 16384 16384,
      min_dst_dimension = coord 4 4,
      max_dst_dimension = coord 16384 16384,
      min_pix_align = coord 1 1,
      rescaling_count = 0,
      compositing_mode = BLEND_NONE OR BLEND_SRC_COPY OR BLEND_SRC_OVER,
      transform_type = TRANSFORM_ALL,
      auxiliary_feature = 0,
      max_layers = 1,
      pixformats = map (\<lambda>f. word_of_int (pf_hal pf f)) all_mscl_sbwc_v2_7_formats,
      dataspaces = all_hwc_dataspaces pf,
      base_align = 4\<rparr>"

definition createInstance :: "acryl_platform \<Rightarrow> string \<Rightarrow> (compositor_class \<times> stHW2DCapability) option" where
  "createInstance pf spec =
    (if spec = ''fimg2d_8890'' then Some (AcrylicCompositorM2M1SHOT2_G2D, capability_fimg2d_8890 pf)
     else if spec = ''fimg2d_8895'' then Some (AcrylicCompositorM2M1SHOT2_G2D, capability_fimg2d_8895 pf)
     else if spec = ''fimg2d_9610'' then Some (AcrylicCompositorG2D9810, capability_fimg2d_9610 pf)
     else if spec = ''fimg2d_9810'' then Some (AcrylicCompositorG2D9810, capability_fimg2d_9810 pf)
     else if spec = ''fimg2d_9810_blter'' then Some (AcrylicCompositorG2D9810, capability_fimg2d_9810_blter pf)
     else if spec = ''fimg2d_9820'' then Some (AcrylicCompositorG2D9810, capability_fimg2d_9810 pf)
     else if spec = ''fimg2d_L8FSBWCL'' then Some (AcrylicCompositorG2D9810, capability_fimg2d_L8FSBWCL pf)
     else if spec = ''fimg2d_L16FSBWC'' then Some (AcrylicCompositorG2D9810, capability_fimg2d_L16FSBWC pf)
     else if spec = ''mscl_9810'' then Some (AcrylicCompositorMSCL9810, capability_mscl_9810 pf)
     else if spec = ''mscl_sbwc'' then Some (AcrylicCompositorMSCL9810, capability_mscl_sbwc pf)
     else if spec = ''mscl_sbwcl'' then Some (AcrylicCompositorMSCL9810, capability_mscl_sbwcl pf)
     else if spec = ''mscl_3830'' then Some (AcrylicCompositorMSCL3830, capability_mscl_3830 pf)
     else if spec = ''mscl_votf'' then Some (AcrylicCompositorMSCL9810, capability_mscl_votf pf)
     else if spec = ''mscl_sbwc_v2_7'' then Some (AcrylicCompositorMSCL9810, capability_mscl_sbwc_v2_7 pf)
     else if spec = ''dummy'' then Some (AcrylicCompositorDummy, capability_fimg2d_8895 pf)
     else None)"

lemmas capability_tables = capability_fimg2d_8895_def
  capability_fimg2d_9610_def
  capability_fimg2d_9810_def
  capability_fimg2d_9810_blter_def
  capability_fimg2d_L16FSBWC_def
  capability_fimg2d_L8FSBWCL_def
  capability_fimg2d_8890_def
  capability_mscl_9810_def
  capability_mscl_sbwc_def
  capability_mscl_sbwcl_def
  capability_mscl_3830_def
  capability_mscl_votf_def
  capability_mscl_sbwc_v2_7_def

section \<open>What the checks mean\<close>

lemma c_and_simps [simp]:
  "c_and (Some p) q = (if p then q else Some False)"
  by (cases p) (simp_all add: c_and_def)

text \<open>The floor of a scaled quotient tells the quotient apart from a bound while the divisor is small.\<close>

lemma int_le_div_iff:
  fixes m n q :: int
  assumes "0 < q"
  shows "m \<le> n div q \<longleftrightarrow> m * q \<le> n"
proof
  assume "m \<le> n div q"
  then have "m * q \<le> n div q * q" using assms by (intro mult_right_mono) auto
  also have "\<dots> \<le> n" using assms pos_mod_sign[of q n] div_mult_mod_eq[of n q] by linarith
  finally show "m * q \<le> n" .
next
  assume "m * q \<le> n"
  then have "m * q div q \<le> n div q" using assms by (intro zdiv_mono1)
  with assms show "m \<le> n div q" by simp
qed

lemma int_div_less_iff:
  fixes m n q :: int
  shows "0 < q \<Longrightarrow> n div q < m \<longleftrightarrow> n < m * q"
  using int_le_div_iff[of q m n] by auto

lemma scaled_div_le:
  fixes fr tt d :: int
  assumes "0 < tt" "tt < 2 ^ 20"
  shows "fr * 2 ^ 20 div tt \<le> d * 2 ^ 20 \<longleftrightarrow> fr \<le> d * tt"
proof -
  have "fr * 2 ^ 20 div tt < d * 2 ^ 20 + 1 \<longleftrightarrow> fr * 2 ^ 20 < (d * 2 ^ 20 + 1) * tt"
    using assms(1) by (rule int_div_less_iff)
  also have "\<dots> \<longleftrightarrow> fr * 2 ^ 20 < d * tt * 2 ^ 20 + tt" by (simp add: algebra_simps)
  also have "\<dots> \<longleftrightarrow> fr \<le> d * tt" using assms by auto
  finally show ?thesis by auto
qed

lemma scaled_div_ge:
  fixes fr tt u :: int
  assumes "0 < fr" "0 < tt" "0 < u" "u * tt \<le> 2 ^ 20"
  shows "2 ^ 20 div u \<le> fr * 2 ^ 20 div tt \<longleftrightarrow> tt \<le> u * fr"
proof -
  define p where "p = 2 ^ 20 div u"
  define q where "q = fr * 2 ^ 20 div tt"
  have p: "p * u \<le> 2 ^ 20" "2 ^ 20 + 1 \<le> (p + 1) * u"
    using assms(3) int_div_less_iff[of u "2 ^ 20" "p + 1"] int_le_div_iff[of u p "2 ^ 20"]
    by (auto simp: p_def)
  have q: "m \<le> q \<longleftrightarrow> m * tt \<le> fr * 2 ^ 20" for m
    using assms(2) unfolding q_def by (rule int_le_div_iff)
  have "p \<le> q" if "tt \<le> u * fr"
  proof -
    have "0 \<le> p" using assms(3) by (simp add: p_def pos_imp_zdiv_nonneg_iff)
    then have "p * tt \<le> p * (u * fr)" using that by (rule mult_left_mono[rotated])
    also have "\<dots> \<le> 2 ^ 20 * fr" using p(1) assms(1) by (simp add: mult_right_mono flip: mult.assoc)
    finally show ?thesis by (simp add: q mult.commute)
  qed
  moreover have "\<not> p \<le> q" if "u * fr + 1 \<le> tt"
  proof
    assume "p \<le> q"
    have "(2 ^ 20 + 1) * tt \<le> (p + 1) * u * tt" using p(2) assms(2) by (intro mult_right_mono) auto
    also have "\<dots> \<le> (q + 1) * u * tt" using \<open>p \<le> q\<close> assms(2,3) by (intro mult_right_mono) auto
    also have "\<dots> = (q * tt) * u + u * tt" by (simp add: algebra_simps)
    also have "\<dots> \<le> (fr * 2 ^ 20) * u + 2 ^ 20"
      using q[of q] assms(3,4) by (intro add_mono mult_right_mono) auto
    also have "\<dots> = (u * fr + 1) * 2 ^ 20" by (simp add: algebra_simps)
    also have "\<dots> \<le> tt * 2 ^ 20" using that by (intro mult_right_mono) auto
    finally show False using assms(2) by (simp add: algebra_simps)
  qed
  ultimately show ?thesis unfolding p_def[symmetric] q_def[symmetric] by linarith
qed

lemma sdiv_pos: "0 \<le> a \<Longrightarrow> 0 < b \<Longrightarrow> a sdiv b = a div (b :: int)"
  by (cases "a = 0") (simp_all add: signed_divide_int_def)

lemma axis_resampling_exact:
  assumes "0 < fr" "0 < tt" "tt < 2 ^ 20" "0 < u" "u * tt \<le> 2 ^ 20"
  shows "axis_resampling fr tt u d = Some (fr \<le> d * tt \<and> tt \<le> u * fr)"
  using assms scaled_div_le[of tt fr d] scaled_div_ge[of fr tt u]
  by (auto simp: axis_resampling_def c_sdiv_def sdiv_pos RESAMPLING_FRACTION_BITS_def not_less not_le)

lemma axis_resampling_defined: "tt \<noteq> 0 \<Longrightarrow> u \<noteq> 0 \<Longrightarrow> axis_resampling fr tt u d \<noteq> None"
  by (simp add: axis_resampling_def c_sdiv_def del: not_None_eq)

lemma axis_resizing_defined: "tt \<noteq> 0 \<Longrightarrow> u \<noteq> 0 \<Longrightarrow> axis_resizing fr tt u d \<noteq> None"
  by (simp add: axis_resizing_def axis_resampling_defined del: not_None_eq)

lemma c_and_defined: "p \<noteq> None \<Longrightarrow> q \<noteq> None \<Longrightarrow> c_and p q \<noteq> None"
  by auto

lemma turned_nonzero:
  "hori xy \<noteq> 0 \<Longrightarrow> vert xy \<noteq> 0 \<Longrightarrow> hori (turned_to pf tr xy) \<noteq> 0 \<and> vert (turned_to pf tr xy) \<noteq> 0"
  by (simp add: turned_to_def swap_coord_def)


definition sample_acryl :: acryl_platform where
  "sample_acryl =
    platform.extend (sample_platform\<lparr>pf_hal := (\<lambda>_. 1)\<rparr>)
      (acryl_platform.fields (\<lambda>_. 0) (\<lambda>_. 0) 0 16
        (\<lambda>b. if b = BLEND_MODE_NONE then 0x100 else if b = BLEND_MODE_PREMULTIPLIED then 0x105 else 0x405))"


section \<open>The contract of the capability tables\<close>

text \<open>
  What the clients of a capability rely on: sizes are positive and fit in the 16 bits of a
  coordinate, no scaling limit is zero, alignments are powers of two, and at least one layer fits.
\<close>

definition coord_between :: "hw2d_coord \<Rightarrow> hw2d_coord \<Rightarrow> bool" where
  "coord_between lo hi \<longleftrightarrow> 0 < hori lo \<and> hori lo \<le> hori hi \<and> hori hi \<le> 0x4000 \<and>
     0 < vert lo \<and> vert lo \<le> vert hi \<and> vert hi \<le> 0x4000"

definition factors_nonzero :: "stHW2DCapability \<Rightarrow> bool" where
  "factors_nonzero cap \<longleftrightarrow>
     (let count = int16_of (supportedRescalingCount cap) in
      int16_of (hori (max_upsampling_num cap) * count) \<noteq> 0 \<and> int16_of (vert (max_upsampling_num cap) * count) \<noteq> 0 \<and>
      hori (max_upsizing_num cap) \<noteq> 0 \<and> vert (max_upsizing_num cap) \<noteq> 0)"

definition factory_caps :: "acryl_platform \<Rightarrow> stHW2DCapability set" where
  "factory_caps pf = {cap. \<exists>spec cls. createInstance pf spec = Some (cls, cap)}"

locale accelerators =
  fixes caps :: "stHW2DCapability set"
  assumes src_limits: "cap \<in> caps \<Longrightarrow> coord_between (min_src_dimension cap) (max_src_dimension cap)"
    and dst_limits: "cap \<in> caps \<Longrightarrow> coord_between (min_dst_dimension cap) (max_dst_dimension cap)"
    and factors: "cap \<in> caps \<Longrightarrow> factors_nonzero cap"
    and room: "cap \<in> caps \<Longrightarrow> 0 < max_layers cap"
begin

text \<open>No scaling check divides by zero, unless the size to scale to is zero.\<close>

lemma resampling_defined:
  assumes "cap \<in> caps" "hori tt \<noteq> 0" "vert tt \<noteq> 0"
  shows "supportedResampling pf cap fr tt tr \<noteq> None"
  using factors[OF assms(1)] turned_nonzero[OF assms(2,3), of pf tr]
  unfolding supportedResampling_def supportedHResampling_def supportedVResampling_def Let_def factors_nonzero_def
  by (intro c_and_defined axis_resampling_defined) simp_all

lemma resizing_defined:
  assumes "cap \<in> caps" "hori tt \<noteq> 0" "vert tt \<noteq> 0"
  shows "supportedResizing pf cap fr tt tr \<noteq> None"
  using factors[OF assms(1)] turned_nonzero[OF assms(2,3), of pf tr]
  unfolding supportedResizing_def supportedHResizing_def supportedVResizing_def Let_def factors_nonzero_def
  by (intro c_and_defined axis_resizing_defined) simp_all

end

lemma factory_cases:
  assumes "cap \<in> factory_caps pf"
  shows "cap \<in> set (map (\<lambda>f. f pf) [capability_fimg2d_8890, capability_fimg2d_8895, capability_fimg2d_9610,
    capability_fimg2d_9810, capability_fimg2d_9810_blter, capability_fimg2d_L8FSBWCL, capability_fimg2d_L16FSBWC,
    capability_mscl_9810, capability_mscl_sbwc, capability_mscl_sbwcl, capability_mscl_3830, capability_mscl_votf,
    capability_mscl_sbwc_v2_7])"
  using assms by (auto simp: factory_caps_def createInstance_def split: if_splits)

lemma factory_contract:
  "list_all (\<lambda>f. coord_between (min_src_dimension (f pf)) (max_src_dimension (f pf)) \<and>
      coord_between (min_dst_dimension (f pf)) (max_dst_dimension (f pf)) \<and> factors_nonzero (f pf) \<and>
      0 < max_layers (f pf))
    [capability_fimg2d_8890, capability_fimg2d_8895, capability_fimg2d_9610,
    capability_fimg2d_9810, capability_fimg2d_9810_blter, capability_fimg2d_L8FSBWCL, capability_fimg2d_L16FSBWC,
    capability_mscl_9810, capability_mscl_sbwc, capability_mscl_sbwcl, capability_mscl_3830, capability_mscl_votf,
    capability_mscl_sbwc_v2_7]"
  by (simp add: capability_tables coord_between_def factors_nonzero_def supportedRescalingCount_def Let_def int16_of_def)

interpretation factory: accelerators "factory_caps pf" for pf
proof unfold_locales
  fix cap
  assume "cap \<in> factory_caps pf"
  then have "coord_between (min_src_dimension cap) (max_src_dimension cap) \<and>
      coord_between (min_dst_dimension cap) (max_dst_dimension cap) \<and> factors_nonzero cap \<and> 0 < max_layers cap"
    using factory_contract[of pf] factory_cases by (fastforce simp: list_all_iff)
  then show "coord_between (min_src_dimension cap) (max_src_dimension cap)"
    "coord_between (min_dst_dimension cap) (max_dst_dimension cap)" "factors_nonzero cap" "0 < max_layers cap"
    by simp_all
qed

end
