(* ===== verification/AcrylCanvas.thy ===== *)
theory AcrylCanvas
  imports AcrylCapability
begin

text \<open>
  The images a 2D accelerator reads and writes (\<open>base/libacryl/acrylic_layer.cpp\<close>): \<open>AcrylicCanvas\<close>
  with its size, type and buffers, and \<open>AcrylicLayer\<close>, which extends it with crop, window, blending
  and transform. A setter returns its result and the changed object. The constructors leave some
  members indeterminate: they take the object whose members those are.
\<close>

section \<open>Canvas\<close>

definition ATTR_NONE :: u32 where [code_consts]: "ATTR_NONE = 0"
definition ATTR_PROTECTED :: u32 where [code_consts]: "ATTR_PROTECTED = 1"
definition ATTR_COMPRESSED :: u32 where [code_consts]: "ATTR_COMPRESSED = 2"
definition ATTR_UORDER :: u32 where [code_consts]: "ATTR_UORDER = 4"
definition ATTR_OTF :: u32 where [code_consts]: "ATTR_OTF = 8"
definition ATTR_SOLIDCOLOR :: u32 where [code_consts]: "ATTR_SOLIDCOLOR = 16"
definition ATTR_ALL_MASK :: u32 where [code_consts]: "ATTR_ALL_MASK = 0x1F"

definition SETTING_TYPE :: u32 where [code_consts]: "SETTING_TYPE = 1"
definition SETTING_BUFFER :: u32 where [code_consts]: "SETTING_BUFFER = 2"
definition SETTING_DIMENSION :: u32 where [code_consts]: "SETTING_DIMENSION = 4"
definition SETTING_STRIDE :: u32 where [code_consts]: "SETTING_STRIDE = 8"
definition SETTING_MASK_MANDATORY :: u32 where
  [code_consts]: "SETTING_MASK_MANDATORY = SETTING_TYPE OR SETTING_BUFFER OR SETTING_DIMENSION"
definition SETTING_TYPE_MODIFIED :: u32 where [code_consts]: "SETTING_TYPE_MODIFIED = 16"
definition SETTING_BUFFER_MODIFIED :: u32 where [code_consts]: "SETTING_BUFFER_MODIFIED = 32"
definition SETTING_DIMENSION_MODIFIED :: u32 where [code_consts]: "SETTING_DIMENSION_MODIFIED = 64"
definition SETTING_STRIDE_MODIFIED :: u32 where [code_consts]: "SETTING_STRIDE_MODIFIED = 128"
definition SETTING_MODIFIED_MASK :: u32 where
  [code_consts]: "SETTING_MODIFIED_MASK = SETTING_TYPE_MODIFIED OR SETTING_BUFFER_MODIFIED OR
     SETTING_DIMENSION_MODIFIED OR SETTING_STRIDE_MODIFIED"

definition MAX_HW2D_PLANES :: nat where [code_consts]: "MAX_HW2D_PLANES = 4"

datatype (plugins only: code) memory_type = MT_DMABUF | MT_USERPTR | MT_EMPTY

datatype (plugins only: code) canvas_type_t = CANVAS_SOURCE | CANVAS_TARGET

text \<open>An element of the union \<open>m\<close>: what was stored last.\<close>

datatype buffer_id = BufferFd int | BufferAddr u64

text \<open>
  \<open>mAttached\<close> says that \<open>mCompositor\<close> is not null; the capability is that of the compositor.
  \<open>mClosed\<close> is the list of the descriptors \<open>setFence\<close> has closed.
\<close>

record canvas =
  mAttached :: bool
  mImageDimension :: hw2d_coord
  mPixFormat :: u32
  mDataSpace :: u32
  mMemoryType :: memory_type
  mBuffer :: "nat \<Rightarrow> buffer_id"
  mBufferLength :: "nat \<Rightarrow> u64"
  mBufferOffset :: "nat \<Rightarrow> u32"
  mNumBuffers :: int
  mFence :: int
  mAttributes :: u32
  mSettingFlags :: u32
  mSolidColor :: u32
  mStride :: "nat \<Rightarrow> u32"
  mCanvasType :: canvas_type_t
  mClosed :: "int list"

definition set_flags :: "u32 \<Rightarrow> 'a canvas_scheme \<Rightarrow> 'a canvas_scheme" where
  "set_flags flag c = c\<lparr>mSettingFlags := mSettingFlags c OR flag\<rparr>"

definition unset_flags :: "u32 \<Rightarrow> 'a canvas_scheme \<Rightarrow> 'a canvas_scheme" where
  "unset_flags flag c = c\<lparr>mSettingFlags := mSettingFlags c AND NOT flag\<rparr>"

definition has_setting :: "'a canvas_scheme \<Rightarrow> u32 \<Rightarrow> bool" where
  "has_setting c flag \<longleftrightarrow> mSettingFlags c AND flag \<noteq> 0"

definition canvas_init :: "stHW2DCapability \<Rightarrow> canvas_type_t \<Rightarrow> 'a canvas_scheme \<Rightarrow> 'a canvas_scheme" where
  "canvas_init cap type c =
     c\<lparr>mAttached := True, mPixFormat := 0, mNumBuffers := 0, mFence := -1, mAttributes := ATTR_NONE,
       mSettingFlags := 0, mCanvasType := type, mImageDimension := min_src_dimension cap, mClosed := []\<rparr>"

definition setFence :: "int \<Rightarrow> 'a canvas_scheme \<Rightarrow> 'a canvas_scheme" where
  "setFence fence c =
    (let c = (if mFence c \<ge> 0 then c\<lparr>mClosed := mClosed c @ [mFence c]\<rparr> else c) in c\<lparr>mFence := fence\<rparr>)"

definition clearFence :: "'a canvas_scheme \<Rightarrow> 'a canvas_scheme" where
  "clearFence c = c\<lparr>mFence := -1\<rparr>"

definition isSettingOkay :: "'a canvas_scheme \<Rightarrow> bool" where
  "isSettingOkay c = (mSettingFlags c AND SETTING_MASK_MANDATORY = SETTING_MASK_MANDATORY)"

definition isProtected :: "'a canvas_scheme \<Rightarrow> bool" where
  "isProtected c = (mAttributes c AND ATTR_PROTECTED \<noteq> 0)"
definition isCompressed :: "'a canvas_scheme \<Rightarrow> bool" where
  "isCompressed c = (mAttributes c AND ATTR_COMPRESSED \<noteq> 0)"
definition isUOrder :: "'a canvas_scheme \<Rightarrow> bool" where
  "isUOrder c = (mAttributes c AND ATTR_UORDER \<noteq> 0)"
definition isOTF :: "'a canvas_scheme \<Rightarrow> bool" where
  "isOTF c = (mAttributes c AND ATTR_OTF \<noteq> 0)"
definition isSolidColor :: "'a canvas_scheme \<Rightarrow> bool" where
  "isSolidColor c = (mAttributes c AND ATTR_SOLIDCOLOR \<noteq> 0)"

definition clearSettingModified :: "'a canvas_scheme \<Rightarrow> 'a canvas_scheme" where
  "clearSettingModified c = unset_flags SETTING_MODIFIED_MASK c"

text \<open>The union read at another type than it was written is undefined.\<close>

definition getDmabuf :: "'a canvas_scheme \<Rightarrow> nat \<Rightarrow> int option" where
  "getDmabuf c i =
    (if mMemoryType c = MT_DMABUF then (case mBuffer c i of BufferFd fd \<Rightarrow> Some fd | BufferAddr _ \<Rightarrow> None)
     else Some (-1))"

definition getUserptr :: "'a canvas_scheme \<Rightarrow> nat \<Rightarrow> u64 option" where
  "getUserptr c i =
    (if mMemoryType c = MT_USERPTR then (case mBuffer c i of BufferAddr p \<Rightarrow> Some p | BufferFd _ \<Rightarrow> None)
     else Some 0)"

definition getOffset :: "'a canvas_scheme \<Rightarrow> nat \<Rightarrow> u32" where
  "getOffset c i = (if mMemoryType c = MT_DMABUF then mBufferOffset c i else 0)"

definition getBufferLength :: "'a canvas_scheme \<Rightarrow> nat \<Rightarrow> u32" where
  "getBufferLength c i = ucast (mBufferLength c i)"

definition getStride :: "'a canvas_scheme \<Rightarrow> nat \<Rightarrow> u32" where
  "getStride c i = (if has_setting c SETTING_STRIDE then mStride c i else 0)"

definition limits_of :: "stHW2DCapability \<Rightarrow> canvas_type_t \<Rightarrow> hw2d_coord \<times> hw2d_coord" where
  "limits_of cap type =
    (if type = CANVAS_SOURCE then (min_src_dimension cap, max_src_dimension cap)
     else (min_dst_dimension cap, max_dst_dimension cap))"

definition canvas_setImageDimension ::
  "stHW2DCapability \<Rightarrow> int \<Rightarrow> int \<Rightarrow> 'a canvas_scheme \<Rightarrow> bool \<times> 'a canvas_scheme" where
  "canvas_setImageDimension cap width height c =
    (if has_setting c SETTING_DIMENSION \<and> width = hori (mImageDimension c) \<and> height = vert (mImageDimension c)
     then (True, c)
     else if \<not> mAttached c then (False, c)
     else
       (let c = unset_flags SETTING_DIMENSION c;
            (minsize, maxsize) = limits_of cap (mCanvasType c) in
        if width < hori minsize \<or> height < vert minsize \<or> width > hori maxsize \<or> height > vert maxsize
        then (False, c)
        else if width AND (hori (min_pix_align cap) - 1) \<noteq> 0 \<or> height AND (vert (min_pix_align cap) - 1) \<noteq> 0
        then (False, c)
        else (True, set_flags (SETTING_DIMENSION OR SETTING_DIMENSION_MODIFIED)
                (c\<lparr>mImageDimension := coord (int16_of width) (int16_of height)\<rparr>))))"

definition setStride :: "(nat \<Rightarrow> u32) \<Rightarrow> 'a canvas_scheme \<Rightarrow> bool \<times> 'a canvas_scheme" where
  "setStride stride c =
    (let (c, modified) = foldl (\<lambda>(c, modified) i.
           if has_setting c SETTING_STRIDE \<and> mStride c i = stride i then (c, modified)
           else (c\<lparr>mStride := (mStride c)(i := stride i)\<rparr>, True))
         (c, False) [0..<MAX_HW2D_PLANES]
     in (True, if modified then set_flags (SETTING_STRIDE OR SETTING_STRIDE_MODIFIED) c else c))"

definition setImageBuffer_color ::
  "stHW2DCapability \<Rightarrow> u32 \<Rightarrow> u32 \<Rightarrow> u32 \<Rightarrow> u32 \<Rightarrow> u32 \<Rightarrow> 'a canvas_scheme \<Rightarrow> bool \<times> 'a canvas_scheme" where
  "setImageBuffer_color cap a r g b attr c =
    (if \<not> mAttached c then (False, c)
     else if mCanvasType c = CANVAS_SOURCE \<and> \<not> isFeatureSupported cap FEATURE_SOLIDCOLOR \<or> mCanvasType c = CANVAS_TARGET
     then (False, c)
     else
       (True, (set_flags (SETTING_BUFFER OR SETTING_BUFFER_MODIFIED)
          ((setFence (-1) c)\<lparr>mMemoryType := MT_EMPTY, mNumBuffers := 0,
             mAttributes := (attr AND ATTR_ALL_MASK) OR ATTR_SOLIDCOLOR\<rparr>))
          \<lparr>mSolidColor := push_bit 24 (a AND 0xFF) OR push_bit 16 (r AND 0xFF) OR push_bit 8 (g AND 0xFF) OR (b AND 0xFF)\<rparr>))"

definition setImageOTFBuffer :: "stHW2DCapability \<Rightarrow> u32 \<Rightarrow> 'a canvas_scheme \<Rightarrow> bool \<times> 'a canvas_scheme" where
  "setImageOTFBuffer cap attr c =
    (if \<not> mAttached c then (False, c)
     else if mCanvasType c = CANVAS_SOURCE \<and> \<not> isFeatureSupported cap FEATURE_OTF_READ
           \<or> mCanvasType c = CANVAS_TARGET \<and> \<not> isFeatureSupported cap FEATURE_OTF_WRITE
     then (False, c)
     else
       (True, set_flags (SETTING_BUFFER OR SETTING_BUFFER_MODIFIED)
          ((setFence (-1) c)\<lparr>mMemoryType := MT_EMPTY, mNumBuffers := 0,
             mAttributes := (attr AND ATTR_ALL_MASK) OR ATTR_OTF\<rparr>)))"

definition store_buffer ::
  "(nat \<Rightarrow> buffer_id) \<Rightarrow> (nat \<Rightarrow> u64) \<Rightarrow> (nat \<Rightarrow> u32) \<Rightarrow> 'a canvas_scheme \<Rightarrow> nat \<Rightarrow> 'a canvas_scheme" where
  "store_buffer ids len offset c i =
     c\<lparr>mBuffer := (mBuffer c)(i := ids i), mBufferLength := (mBufferLength c)(i := len i),
       mBufferOffset := (mBufferOffset c)(i := offset i)\<rparr>"

text \<open>
  Buffers as descriptors. The offset is an \<open>off_t\<close>: compared as a number, masked as an unsigned long
  and stored in 32 bits. A negative number of buffers makes both loops empty.
\<close>

definition setImageBuffer_dmabuf ::
  "stHW2DCapability \<Rightarrow> (nat \<Rightarrow> int) \<Rightarrow> (nat \<Rightarrow> u64) \<Rightarrow> (nat \<Rightarrow> int) \<Rightarrow> int \<Rightarrow> int \<Rightarrow> u32
    \<Rightarrow> 'a canvas_scheme \<Rightarrow> bool \<times> 'a canvas_scheme" where
  "setImageBuffer_dmabuf cap fd len offset num_buffers fence attr c =
    (if attr AND ATTR_OTF \<noteq> 0 then setImageOTFBuffer cap attr c
     else if \<not> mAttached c then (False, c)
     else
       (let alignmask = base_align cap - 1 in
        if num_buffers > int MAX_HW2D_PLANES then (False, c)
        else if list_ex (\<lambda>i. offset i < 0 \<or> offset i \<ge> uint (len i) \<or> word_of_int (offset i) AND alignmask \<noteq> 0)
               [0..<nat num_buffers] then (False, c)
        else
          (let c = foldl (store_buffer (\<lambda>i. BufferFd (fd i)) len (\<lambda>i. word_of_int (offset i))) c [0..<nat num_buffers] in
           (True, set_flags (SETTING_BUFFER OR SETTING_BUFFER_MODIFIED)
              ((setFence fence c)\<lparr>mMemoryType := MT_DMABUF, mNumBuffers := num_buffers,
                 mAttributes := attr AND ATTR_ALL_MASK\<rparr>)))))"

definition setImageBuffer_userptr ::
  "stHW2DCapability \<Rightarrow> (nat \<Rightarrow> u64) \<Rightarrow> (nat \<Rightarrow> u64) \<Rightarrow> int \<Rightarrow> u32 \<Rightarrow> 'a canvas_scheme \<Rightarrow> bool \<times> 'a canvas_scheme"
where
  "setImageBuffer_userptr cap addr len num_buffers attr c =
    (if attr AND ATTR_OTF \<noteq> 0 then setImageOTFBuffer cap attr c
     else if \<not> mAttached c then (False, c)
     else
       (let alignmask = base_align cap - 1 in
        if num_buffers > int MAX_HW2D_PLANES then (False, c)
        else if list_ex (\<lambda>i. addr i AND alignmask \<noteq> 0) [0..<nat num_buffers] then (False, c)
        else
          (let c = foldl (store_buffer (\<lambda>i. BufferAddr (addr i)) len (\<lambda>_. 0)) c [0..<nat num_buffers] in
           (True, set_flags (SETTING_BUFFER OR SETTING_BUFFER_MODIFIED)
              ((setFence (-1) c)\<lparr>mMemoryType := MT_USERPTR, mNumBuffers := num_buffers,
                 mAttributes := attr AND ATTR_ALL_MASK\<rparr>)))))"

definition setImageType ::
  "'b platform_scheme \<Rightarrow> stHW2DCapability \<Rightarrow> u32 \<Rightarrow> u32 \<Rightarrow> 'a canvas_scheme \<Rightarrow> bool \<times> 'a canvas_scheme" where
  "setImageType pf cap fmt dataspace c =
    (if has_setting c SETTING_TYPE \<and> mPixFormat c = fmt \<and> mDataSpace c = dataspace then (True, c)
     else if \<not> mAttached c then (False, c)
     else
       (let c = unset_flags SETTING_TYPE c in
        if \<not> isFormatSupported cap fmt then (False, c)
        else if \<not> isDataspaceSupported pf cap dataspace then (False, c)
        else (True, set_flags (SETTING_TYPE OR SETTING_TYPE_MODIFIED) (c\<lparr>mPixFormat := fmt, mDataSpace := dataspace\<rparr>))))"

section \<open>Layer\<close>

definition ATTR_NORESAMPLING :: u32 where [code_consts]: "ATTR_NORESAMPLING = 1"
definition LAYER_ATTR_ALL_MASK :: u32 where [code_consts]: "LAYER_ATTR_ALL_MASK = 1"

record acryl_layer = canvas +
  mImageRect :: hw2d_rect
  mTargetRect :: hw2d_rect
  mBlendingMode :: u32
  mTransform :: u32
  mZOrder :: int
  mCompositAttr :: u32
  mMaxLuminance :: u16
  mMinLuminance :: u16
  mPlaneAlpha :: u8
  mLayerData :: "(nat \<times> nat) option"

definition layer_init :: "acryl_platform \<Rightarrow> stHW2DCapability \<Rightarrow> acryl_layer \<Rightarrow> acryl_layer" where
  "layer_init pf cap l =
     (canvas_init cap CANVAS_SOURCE l)
     \<lparr>mBlendingMode := pf_hwc1_blend pf BLEND_MODE_NONE, mTransform := 0, mZOrder := 0, mMaxLuminance := 0,
      mMinLuminance := 0, mPlaneAlpha := 255, mLayerData := None, mTargetRect := \<lparr>pos = coord 0 0, size = coord 0 0\<rparr>\<rparr>"

text \<open>Which compositing mode of the hardware a blending number asks for; \<open>None\<close> for an unknown number.\<close>

definition blend_needs :: "acryl_platform \<Rightarrow> u32 \<Rightarrow> u32 option" where
  "blend_needs pf mode =
    (if mode = pf_hwc1_blend pf BLEND_MODE_NONE \<or> mode = pf_blend pf BLEND_MODE_NONE then Some BLEND_SRC_COPY
     else if mode = pf_hwc1_blend pf BLEND_MODE_PREMULTIPLIED \<or> mode = pf_blend pf BLEND_MODE_PREMULTIPLIED
     then Some BLEND_SRC_OVER
     else if mode = pf_hwc1_blend pf BLEND_MODE_COVERAGE \<or> mode = pf_blend pf BLEND_MODE_COVERAGE then Some BLEND_NONE
     else None)"

definition setCompositMode ::
  "acryl_platform \<Rightarrow> stHW2DCapability \<Rightarrow> u32 \<Rightarrow> u8 \<Rightarrow> int \<Rightarrow> acryl_layer \<Rightarrow> bool \<times> acryl_layer" where
  "setCompositMode pf cap mode alpha z_order l =
    (if \<not> mAttached l then (False, l)
     else
       (case blend_needs pf mode of
          None \<Rightarrow> (False, l)
        | Some needed \<Rightarrow>
           (if compositing_mode cap AND needed = 0 then (False, l)
            else (True, l\<lparr>mBlendingMode := mode, mZOrder := z_order, mPlaneAlpha := alpha\<rparr>))))"

definition get_width :: "hwc_rect \<Rightarrow> int" where "get_width r = rect_right r - rect_left r"
definition get_height :: "hwc_rect \<Rightarrow> int" where "get_height r = rect_bottom r - rect_top r"

text \<open>The tests an area has to pass, source and target alike.\<close>

definition area_bits :: "hwc_rect \<Rightarrow> int" where
  "area_bits r = rect_left r OR rect_top r OR rect_right r OR rect_bottom r"

definition area_bad :: "hw2d_coord \<Rightarrow> hwc_rect \<Rightarrow> bool" where
  "area_bad limit r =
    (if rect_left r \<ge> rect_right r \<or> rect_top r \<ge> rect_bottom r then True
     else if get_width r < hori limit \<or> get_height r < vert limit then True
     else False)"

definition to_hw2d_rect :: "hwc_rect \<Rightarrow> hw2d_rect" where
  "to_hw2d_rect r = \<lparr>pos = coord (int16_of (rect_left r)) (int16_of (rect_top r)),
     size = coord (int16_of (get_width r)) (int16_of (get_height r))\<rparr>"

definition setCompositArea ::
  "acryl_platform \<Rightarrow> stHW2DCapability \<Rightarrow> hwc_rect \<Rightarrow> hwc_rect \<Rightarrow> u32 \<Rightarrow> u32 \<Rightarrow> acryl_layer
    \<Rightarrow> (bool \<times> acryl_layer) option" where
  "setCompositArea pf cap src_area out_area tr attr l =
    (let done = Some (True, l\<lparr>mTargetRect := to_hw2d_rect out_area, mImageRect := to_hw2d_rect src_area,
           mTransform := tr, mCompositAttr := attr AND LAYER_ATTR_ALL_MASK\<rparr>) in
     if \<not> mAttached l then Some (False, l)
     else if tr AND getHWCTransformMask pf cap \<noteq> tr then Some (False, l)
     else if area_bits src_area < 0 then Some (False, l)
     else if area_bad (min_src_dimension cap) src_area then Some (False, l)
     else if rect_right src_area > hori (mImageDimension l) \<or> rect_bottom src_area > vert (mImageDimension l)
     then Some (False, l)
     else if area_bits out_area \<noteq> 0 then
       (if area_bits out_area < 0 then Some (False, l)
        else if area_bad (min_dst_dimension cap) out_area then Some (False, l)
        else
          (let src_xy = coord (int16_of (get_width src_area)) (int16_of (get_height src_area));
               out_xy = coord (int16_of (get_width out_area)) (int16_of (get_height out_area)) in
           (case (if attr AND ATTR_NORESAMPLING = 0 then supportedResampling pf cap src_xy out_xy tr
                  else supportedResizing pf cap src_xy out_xy tr) of
              None \<Rightarrow> None
            | Some scaling_ok \<Rightarrow> (if \<not> scaling_ok then Some (False, l) else done))))
     else done)"

definition layer_setImageDimension ::
  "stHW2DCapability \<Rightarrow> int \<Rightarrow> int \<Rightarrow> acryl_layer \<Rightarrow> bool \<times> acryl_layer" where
  "layer_setImageDimension cap width height l =
    (let (ok, l) = canvas_setImageDimension cap width height l in
     if \<not> ok then (False, l)
     else (True, l\<lparr>mImageRect := \<lparr>pos = coord 0 0, size = mImageDimension l\<rparr>\<rparr>))"

definition setImageRect ::
  "acryl_platform \<Rightarrow> stHW2DCapability \<Rightarrow> hwc_rect \<Rightarrow> acryl_layer \<Rightarrow> (bool \<times> acryl_layer) option" where
  "setImageRect pf cap src_area l =
    (let t = mTargetRect l;
         out_area = \<lparr>rect_left = hori (pos t), rect_top = vert (pos t),
           rect_right = hori (pos t) + hori (size t), rect_bottom = vert (pos t) + vert (size t)\<rparr>
     in setCompositArea pf cap src_area out_area (mTransform l) 0 l)"

definition setMasterDisplayLuminance :: "u16 \<Rightarrow> u16 \<Rightarrow> acryl_layer \<Rightarrow> acryl_layer" where
  "setMasterDisplayLuminance lo hi l = l\<lparr>mMaxLuminance := hi, mMinLuminance := lo\<rparr>"

text \<open>The opaque data of a layer: where they lie and how long they are.\<close>

definition setLayerData :: "nat \<Rightarrow> nat \<Rightarrow> acryl_layer \<Rightarrow> acryl_layer" where
  "setLayerData data data_len l = l\<lparr>mLayerData := Some (data, data_len)\<rparr>"

definition clearLayerData :: "acryl_layer \<Rightarrow> acryl_layer" where
  "clearLayerData l = l\<lparr>mLayerData := None\<rparr>"

end
