(* ===== verification/AcrylCompositor.thy ===== *)
theory AcrylCompositor
  imports AcrylCanvas "HOL-Library.Multiset"
begin

text \<open>
  The compositor (\<open>base/libacryl/acrylic.cpp\<close>): the list of its layers, the target canvas, and the
  check of a whole frame, \<open>validateAllLayers\<close>. Layers are objects the user and the compositor share,
  so the list holds their addresses and \<open>ac_store\<close> the objects. The calls a user can make are the
  steps of a transition system; the invariant of its reachable states is what makes a validated
  frame safe to hand to the hardware.
\<close>

section \<open>Operations\<close>

record acrylic =
  ac_canvas :: canvas
  mLayers :: "nat list"
  ac_store :: "nat \<Rightarrow> acryl_layer"
  mBackgroundColor :: "u16 \<times> u16 \<times> u16 \<times> u16"
  mHasBackgroundColor :: bool
  mMaxTargetLuminance :: u16
  mMinTargetLuminance :: u16

definition acrylic_init :: "stHW2DCapability \<Rightarrow> canvas \<Rightarrow> acrylic \<Rightarrow> acrylic" where
  "acrylic_init cap c ac =
     ac\<lparr>ac_canvas := canvas_init cap CANVAS_TARGET c, mLayers := [], mHasBackgroundColor := False,
        mMaxTargetLuminance := 100, mMinTargetLuminance := 0\<rparr>"

text \<open>\<open>a\<close> is the address of the new object and \<open>g\<close> what its memory held.\<close>

definition createLayer ::
  "acryl_platform \<Rightarrow> stHW2DCapability \<Rightarrow> nat \<Rightarrow> acryl_layer \<Rightarrow> acrylic \<Rightarrow> nat option \<times> acrylic" where
  "createLayer pf cap a g ac =
    (if length (mLayers ac) \<ge> max_layers cap then (None, ac)
     else (Some a, ac\<lparr>ac_store := (ac_store ac)(a := layer_init pf cap g), mLayers := mLayers ac @ [a]\<rparr>))"

definition removeLayer :: "nat \<Rightarrow> acrylic \<Rightarrow> acrylic" where
  "removeLayer a ac = (if a \<in> set (mLayers ac) then ac\<lparr>mLayers := remove1 a (mLayers ac)\<rparr> else ac)"

definition destroy_layer :: "nat \<Rightarrow> acrylic \<Rightarrow> acrylic" where
  "destroy_layer a ac =
    (let ac = (if mAttached (ac_store ac a) then removeLayer a ac else ac)
     in ac\<lparr>ac_store := (ac_store ac)(a := setFence (-1) (ac_store ac a))\<rparr>)"

definition destroy_acrylic :: "acrylic \<Rightarrow> acrylic" where
  "destroy_acrylic ac =
    ac\<lparr>ac_canvas := (ac_canvas ac)\<lparr>mAttached := False\<rparr>,
       ac_store := foldl (\<lambda>st a. st(a := (st a)\<lparr>mAttached := False\<rparr>)) (ac_store ac) (mLayers ac)\<rparr>"

definition prioritize :: "int \<Rightarrow> int" where
  "prioritize priority = (if priority < -1 \<or> priority > 15 then -1 else 0)"

definition setDefaultColor :: "u16 \<Rightarrow> u16 \<Rightarrow> u16 \<Rightarrow> u16 \<Rightarrow> acrylic \<Rightarrow> acrylic" where
  "setDefaultColor red green blue alpha ac = ac\<lparr>mBackgroundColor := (red, green, blue, alpha), mHasBackgroundColor := True\<rparr>"

definition clearDefaultColor :: "acrylic \<Rightarrow> acrylic" where
  "clearDefaultColor ac = ac\<lparr>mHasBackgroundColor := False\<rparr>"

definition setTargetDisplayLuminance :: "u16 \<Rightarrow> u16 \<Rightarrow> acrylic \<Rightarrow> acrylic" where
  "setTargetDisplayLuminance lo hi ac = ac\<lparr>mMaxTargetLuminance := hi, mMinTargetLuminance := lo\<rparr>"

text \<open>The loop body of \<open>validateAllLayers\<close>: does the layer pass?\<close>

definition validate_layer ::
  "acryl_platform \<Rightarrow> stHW2DCapability \<Rightarrow> hw2d_coord \<Rightarrow> acryl_layer \<Rightarrow> bool option" where
  "validate_layer pf cap xy l =
    (if \<not> isSettingOkay l then Some False
     else if isCompressed l \<and> \<not> isFeatureSupported cap FEATURE_AFBC_DECODE then Some False
     else if isUOrder l \<and> \<not> isFeatureSupported cap FEATURE_UORDER_READ then Some False
     else if mPlaneAlpha l \<noteq> 255 \<and> \<not> isFeatureSupported cap FEATURE_PLANE_ALPHA then Some False
     else
       (let rect = mTargetRect l in
        if area_is_zero rect then
          (if mCompositAttr l AND ATTR_NORESAMPLING \<noteq> 0
           then supportedResizing pf cap (size (mImageRect l)) xy (mTransform l)
           else supportedResampling pf cap (size (mImageRect l)) xy (mTransform l))
        else if rect_exceeds rect xy then Some False
        else Some True))"

fun validate_layers ::
  "acryl_platform \<Rightarrow> stHW2DCapability \<Rightarrow> hw2d_coord \<Rightarrow> bool \<Rightarrow> acryl_layer list \<Rightarrow> (bool \<times> bool) option" where
  "validate_layers pf cap xy prot [] = Some (True, prot)"
| "validate_layers pf cap xy prot (l # ls) =
    (case validate_layer pf cap xy l of
       None \<Rightarrow> None
     | Some ok \<Rightarrow> (if \<not> ok then Some (False, prot) else validate_layers pf cap xy (prot \<or> isProtected l) ls))"

definition validateAllLayers :: "acryl_platform \<Rightarrow> stHW2DCapability \<Rightarrow> acrylic \<Rightarrow> bool option" where
  "validateAllLayers pf cap ac =
    (let c = ac_canvas ac in
     if \<not> isSettingOkay c then Some False
     else if isCompressed c \<and> \<not> isFeatureSupported cap FEATURE_AFBC_ENCODE then Some False
     else if isUOrder c \<and> \<not> isFeatureSupported cap FEATURE_UORDER_WRITE then Some False
     else
       (case validate_layers pf cap (mImageDimension c) False (map (ac_store ac) (mLayers ac)) of
          None \<Rightarrow> None
        | Some (ok, prot) \<Rightarrow>
           (if \<not> ok then Some False
            else if prot \<and> \<not> isProtected c then Some False
            else Some True)))"

text \<open>\<open>std::sort\<close> by z-order: some permutation in ascending order; equal layers may change places.\<close>

definition sortLayers :: "acrylic \<Rightarrow> acrylic \<Rightarrow> bool" where
  "sortLayers ac ac' \<longleftrightarrow>
     (\<exists>ls. ac' = ac\<lparr>mLayers := ls\<rparr> \<and> mset ls = mset (mLayers ac) \<and> sorted (map (\<lambda>a. mZOrder (ac_store ac a)) ls))"

text \<open>
  \<open>importLayer\<close> copies the description of another layer. Its arrays have three elements, so more
  than three buffers (or a negative count, which reads as a huge one) overrun them.
\<close>

definition import_buffers ::
  "stHW2DCapability \<Rightarrow> acryl_layer \<Rightarrow> acryl_layer \<Rightarrow> acryl_layer option" where
  "import_buffers cap other l =
    (let attr = (if isProtected other then ATTR_PROTECTED else ATTR_NONE);
         attr = (if isCompressed other then attr OR ATTR_COMPRESSED else attr);
         n = mNumBuffers other; is = [0..<nat n] in
     if n < 0 \<or> n > 3 then None
     else if mMemoryType other = MT_DMABUF then
       (if list_ex (\<lambda>i. getDmabuf other i = None) is then None
        else Some (snd (setImageBuffer_dmabuf cap (\<lambda>i. the (getDmabuf other i)) (\<lambda>i. ucast (getBufferLength other i))
               (\<lambda>i. uint (getOffset other i)) n (mFence other) attr l)))
     else
       (if list_ex (\<lambda>i. getUserptr other i = None) is then None
        else Some (snd (setImageBuffer_userptr cap (\<lambda>i. the (getUserptr other i))
               (\<lambda>i. ucast (getBufferLength other i)) n attr l))))"

definition importLayer ::
  "acryl_platform \<Rightarrow> stHW2DCapability \<Rightarrow> bool \<Rightarrow> acryl_layer \<Rightarrow> acryl_layer \<Rightarrow> (acryl_layer \<times> acryl_layer) option" where
  "importLayer pf cap inherit_transform other l =
    (let xy = mImageDimension other;
         l = snd (canvas_setImageDimension cap (hori xy) (vert xy) l);
         l = snd (setImageType pf cap (mPixFormat other) (mDataSpace other) l) in
     (case import_buffers cap other l of
        None \<Rightarrow> None
      | Some l \<Rightarrow>
         (let other = clearFence other; l = l\<lparr>mImageRect := mImageRect other\<rparr>
          in Some (if inherit_transform then l\<lparr>mTransform := mTransform other\<rparr> else l, other))))"

section \<open>What users can do\<close>

text \<open>Everything a user can do to a canvas but change its dimension.\<close>

inductive canvas_op ::
  "acryl_platform \<Rightarrow> stHW2DCapability \<Rightarrow> 'a canvas_scheme \<Rightarrow> 'a canvas_scheme \<Rightarrow> bool" for pf cap where
  op_type: "canvas_op pf cap c (snd (setImageType pf cap fmt ds c))"
| op_stride: "canvas_op pf cap c (snd (setStride stride c))"
| op_color: "canvas_op pf cap c (snd (setImageBuffer_color cap a r g b attr c))"
| op_dmabuf: "canvas_op pf cap c (snd (setImageBuffer_dmabuf cap fd len off n fence attr c))"
| op_userptr: "canvas_op pf cap c (snd (setImageBuffer_userptr cap addr len n attr c))"
| op_otf: "canvas_op pf cap c (snd (setImageOTFBuffer cap attr c))"
| op_fence: "canvas_op pf cap c (setFence fence c)"
| op_clear_fence: "canvas_op pf cap c (clearFence c)"
| op_clear_modified: "canvas_op pf cap c (clearSettingModified c)"

text \<open>A window whose edges fit in a coordinate.\<close>

definition fits16 :: "hwc_rect \<Rightarrow> bool" where
  "fits16 r \<longleftrightarrow> rect_right r < 0x8000 \<and> rect_bottom r < 0x8000"

inductive layer_op :: "acryl_platform \<Rightarrow> stHW2DCapability \<Rightarrow> acryl_layer \<Rightarrow> acryl_layer \<Rightarrow> bool" for pf cap where
  lop_canvas: "canvas_op pf cap l l' \<Longrightarrow> layer_op pf cap l l'"
| lop_dimension: "layer_op pf cap l (snd (layer_setImageDimension cap w h l))"
| lop_mode: "layer_op pf cap l (snd (setCompositMode pf cap mode alpha z l))"
| lop_area: "setCompositArea pf cap src out tr attr l = Some (ok, l') \<Longrightarrow> fits16 out \<Longrightarrow> layer_op pf cap l l'"
| lop_image_rect: "setImageRect pf cap src l = Some (ok, l') \<Longrightarrow> layer_op pf cap l l'"
| lop_luminance: "layer_op pf cap l (setMasterDisplayLuminance lo hi l)"
| lop_data: "layer_op pf cap l (setLayerData data len l)"
| lop_clear_data: "layer_op pf cap l (clearLayerData l)"

inductive acryl_step :: "acryl_platform \<Rightarrow> stHW2DCapability \<Rightarrow> acrylic \<Rightarrow> acrylic \<Rightarrow> bool" for pf cap where
  step_create: "a \<notin> set (mLayers ac) \<Longrightarrow> acryl_step pf cap ac (snd (createLayer pf cap a g ac))"
| step_destroy: "a \<in> set (mLayers ac) \<Longrightarrow> acryl_step pf cap ac (destroy_layer a ac)"
| step_canvas: "canvas_op pf cap (ac_canvas ac) c \<Longrightarrow> acryl_step pf cap ac (ac\<lparr>ac_canvas := c\<rparr>)"
| step_dimension: "acryl_step pf cap ac (ac\<lparr>ac_canvas := snd (canvas_setImageDimension cap w h (ac_canvas ac))\<rparr>)"
| step_layer: "a \<in> set (mLayers ac) \<Longrightarrow> layer_op pf cap (ac_store ac a) l \<Longrightarrow>
    acryl_step pf cap ac (ac\<lparr>ac_store := (ac_store ac)(a := l)\<rparr>)"
| step_import: "a \<in> set (mLayers ac) \<Longrightarrow> b \<in> set (mLayers ac) \<Longrightarrow> a \<noteq> b \<Longrightarrow>
    has_setting (ac_store ac b) SETTING_DIMENSION \<Longrightarrow>
    importLayer pf cap inherit (ac_store ac b) (ac_store ac a) = Some (l, l') \<Longrightarrow>
    acryl_step pf cap ac (ac\<lparr>ac_store := (ac_store ac)(a := l, b := l')\<rparr>)"
| step_sort: "sortLayers ac ac' \<Longrightarrow> acryl_step pf cap ac ac'"
| step_color: "acryl_step pf cap ac (setDefaultColor r g b a ac)"
| step_no_color: "acryl_step pf cap ac (clearDefaultColor ac)"
| step_luminance: "acryl_step pf cap ac (setTargetDisplayLuminance lo hi ac)"

inductive acryl_reach :: "acryl_platform \<Rightarrow> stHW2DCapability \<Rightarrow> acrylic \<Rightarrow> bool" for pf cap where
  reach_init: "acryl_reach pf cap (acrylic_init cap c ac)"
| reach_step: "acryl_reach pf cap ac \<Longrightarrow> acryl_step pf cap ac ac' \<Longrightarrow> acryl_reach pf cap ac'"

inductive_cases canvas_opE: "canvas_op pf cap c c'"
inductive_cases layer_opE: "layer_op pf cap l l'"
inductive_cases acryl_stepE: "acryl_step pf cap ac ac'"

end
