(* ===== verification/AcrylSafety.thy ===== *)
theory AcrylSafety
  imports AcrylCompositor
begin

text \<open>
  The invariant of the reachable states of a compositor and what a validated frame is safe to do:
  every setting flag tells the truth about the member it stands for, the crop of a layer lies in its
  image, windows lie in the positive quadrant, and the number of layers never exceeds the hardware's.
\<close>

section \<open>Invariants\<close>

definition dimension_ok :: "stHW2DCapability \<Rightarrow> canvas_type_t \<Rightarrow> hw2d_coord \<Rightarrow> bool" where
  "dimension_ok cap type xy \<longleftrightarrow>
     (let (lo, hi) = limits_of cap type in
      hori lo \<le> hori xy \<and> hori xy \<le> hori hi \<and> vert lo \<le> vert xy \<and> vert xy \<le> vert hi) \<and>
     hori xy AND (hori (min_pix_align cap) - 1) = 0 \<and> vert xy AND (vert (min_pix_align cap) - 1) = 0"

definition buffers_ok :: "'a canvas_scheme \<Rightarrow> bool" where
  "buffers_ok c \<longleftrightarrow> mNumBuffers c \<le> 4 \<and>
     (mMemoryType c = MT_DMABUF \<longrightarrow> (\<forall>i<nat (mNumBuffers c). getDmabuf c i \<noteq> None)) \<and>
     (mMemoryType c = MT_USERPTR \<longrightarrow> (\<forall>i<nat (mNumBuffers c). getUserptr c i \<noteq> None))"

definition canvas_ok :: "'b platform_scheme \<Rightarrow> stHW2DCapability \<Rightarrow> 'a canvas_scheme \<Rightarrow> bool" where
  "canvas_ok pf cap c \<longleftrightarrow>
     0 < hori (mImageDimension c) \<and> hori (mImageDimension c) \<le> 0x4000 \<and>
     0 < vert (mImageDimension c) \<and> vert (mImageDimension c) \<le> 0x4000 \<and>
     (has_setting c SETTING_DIMENSION \<longrightarrow> dimension_ok cap (mCanvasType c) (mImageDimension c)) \<and>
     (has_setting c SETTING_TYPE \<longrightarrow>
        isFormatSupported cap (mPixFormat c) \<and> isDataspaceSupported pf cap (mDataSpace c)) \<and>
     (has_setting c SETTING_BUFFER \<longrightarrow> buffers_ok c)"

definition rect_inside :: "hw2d_rect \<Rightarrow> hw2d_coord \<Rightarrow> bool" where
  "rect_inside r xy \<longleftrightarrow> 0 \<le> hori (pos r) \<and> 0 \<le> vert (pos r) \<and> 0 < hori (size r) \<and> 0 < vert (size r) \<and>
     hori (pos r) + hori (size r) \<le> hori xy \<and> vert (pos r) + vert (size r) \<le> vert xy"

definition window_ok :: "hw2d_rect \<Rightarrow> bool" where
  "window_ok r \<longleftrightarrow> 0 \<le> hori (pos r) \<and> 0 \<le> vert (pos r) \<and>
     (size r = coord 0 0 \<and> pos r = coord 0 0 \<or> 0 < hori (size r) \<and> 0 < vert (size r)) \<and>
     hori (pos r) + hori (size r) < 0x8000 \<and> vert (pos r) + vert (size r) < 0x8000"

definition layer_ok :: "'b platform_scheme \<Rightarrow> stHW2DCapability \<Rightarrow> acryl_layer \<Rightarrow> bool" where
  "layer_ok pf cap l \<longleftrightarrow> canvas_ok pf cap l \<and> mAttached l \<and> mCanvasType l = CANVAS_SOURCE \<and>
     (has_setting l SETTING_DIMENSION \<longrightarrow> rect_inside (mImageRect l) (mImageDimension l)) \<and>
     window_ok (mTargetRect l)"

definition acryl_inv :: "acryl_platform \<Rightarrow> stHW2DCapability \<Rightarrow> acrylic \<Rightarrow> bool" where
  "acryl_inv pf cap ac \<longleftrightarrow>
     canvas_ok pf cap (ac_canvas ac) \<and> mAttached (ac_canvas ac) \<and> mCanvasType (ac_canvas ac) = CANVAS_TARGET \<and>
     distinct (mLayers ac) \<and> length (mLayers ac) \<le> max_layers cap \<and>
     (\<forall>a\<in>set (mLayers ac). layer_ok pf cap (ac_store ac a))"

section \<open>Flags\<close>

lemma has_setting_set: "has_setting (set_flags f c) g \<longleftrightarrow> has_setting c g \<or> f AND g \<noteq> 0"
  by (simp add: has_setting_def set_flags_def bit.conj_disj_distrib2 or_eq_0_iff)

lemma has_setting_unset:
  "has_setting (unset_flags f c) f = False"
  "f AND g = 0 \<Longrightarrow> has_setting (unset_flags f c) g = has_setting c g"
proof -
  show "has_setting (unset_flags f c) f = False"
    by (simp add: has_setting_def unset_flags_def and.assoc)
  assume fg: "f AND g = 0"
  have "(x AND NOT f) AND g = x AND g" for x :: u32
  proof (rule bit_eqI)
    fix n
    have "\<not> (bit f n \<and> bit g n)" using fg by (metis bit_0_eq bit_and_iff bot_apply bot_bool_def)
    then show "bit ((x AND NOT f) AND g) n = bit (x AND g) n" by (auto simp: bit_simps dest: bit_imp_le_length)
  qed
  then show "has_setting (unset_flags f c) g = has_setting c g"
    by (simp add: has_setting_def unset_flags_def)
qed

text \<open>How a setter's flags read afterwards.\<close>

lemmas flag_consts = SETTING_TYPE_def SETTING_BUFFER_def SETTING_DIMENSION_def SETTING_STRIDE_def
  SETTING_TYPE_MODIFIED_def SETTING_BUFFER_MODIFIED_def SETTING_DIMENSION_MODIFIED_def
  SETTING_STRIDE_MODIFIED_def SETTING_MODIFIED_MASK_def

lemma flags_disjoint [simp]:
  "SETTING_DIMENSION AND SETTING_TYPE = 0" "SETTING_DIMENSION AND SETTING_BUFFER = 0"
  "SETTING_TYPE AND SETTING_DIMENSION = 0" "SETTING_TYPE AND SETTING_BUFFER = 0"
  "SETTING_MODIFIED_MASK AND SETTING_DIMENSION = 0" "SETTING_MODIFIED_MASK AND SETTING_TYPE = 0"
  "SETTING_MODIFIED_MASK AND SETTING_BUFFER = 0"
  "(SETTING_DIMENSION OR SETTING_DIMENSION_MODIFIED) AND SETTING_TYPE = 0"
  "(SETTING_DIMENSION OR SETTING_DIMENSION_MODIFIED) AND SETTING_BUFFER = 0"
  "(SETTING_TYPE OR SETTING_TYPE_MODIFIED) AND SETTING_DIMENSION = 0"
  "(SETTING_TYPE OR SETTING_TYPE_MODIFIED) AND SETTING_BUFFER = 0"
  "(SETTING_BUFFER OR SETTING_BUFFER_MODIFIED) AND SETTING_DIMENSION = 0"
  "(SETTING_BUFFER OR SETTING_BUFFER_MODIFIED) AND SETTING_TYPE = 0"
  "(SETTING_STRIDE OR SETTING_STRIDE_MODIFIED) AND SETTING_DIMENSION = 0"
  "(SETTING_STRIDE OR SETTING_STRIDE_MODIFIED) AND SETTING_TYPE = 0"
  "(SETTING_STRIDE OR SETTING_STRIDE_MODIFIED) AND SETTING_BUFFER = 0"
  by (simp_all add: flag_consts)

lemma has_setting_update [simp]:
  "has_setting (c\<lparr>mFence := x1\<rparr>) f = has_setting c f"
  "has_setting (c\<lparr>mClosed := x2\<rparr>) f = has_setting c f"
  "has_setting (c\<lparr>mStride := x3\<rparr>) f = has_setting c f"
  "has_setting (c\<lparr>mPixFormat := x4\<rparr>) f = has_setting c f"
  "has_setting (c\<lparr>mDataSpace := x5\<rparr>) f = has_setting c f"
  "has_setting (c\<lparr>mImageDimension := x6\<rparr>) f = has_setting c f"
  "has_setting (c\<lparr>mMemoryType := x7\<rparr>) f = has_setting c f"
  "has_setting (c\<lparr>mNumBuffers := x8\<rparr>) f = has_setting c f"
  "has_setting (c\<lparr>mAttributes := x9\<rparr>) f = has_setting c f"
  "has_setting (c\<lparr>mBuffer := x10\<rparr>) f = has_setting c f"
  "has_setting (c\<lparr>mBufferLength := x11\<rparr>) f = has_setting c f"
  "has_setting (c\<lparr>mBufferOffset := x12\<rparr>) f = has_setting c f"
  "has_setting (c\<lparr>mSolidColor := x13\<rparr>) f = has_setting c f"
  by (simp_all add: has_setting_def)

lemma set_flags_fields [simp]:
  "mImageDimension (set_flags f c) = mImageDimension c" "mCanvasType (set_flags f c) = mCanvasType c"
  "mPixFormat (set_flags f c) = mPixFormat c" "mDataSpace (set_flags f c) = mDataSpace c"
  "mAttached (set_flags f c) = mAttached c" "mNumBuffers (set_flags f c) = mNumBuffers c"
  "mMemoryType (set_flags f c) = mMemoryType c" "mBuffer (set_flags f c) = mBuffer c"
  "mImageDimension (unset_flags f c) = mImageDimension c" "mCanvasType (unset_flags f c) = mCanvasType c"
  "mPixFormat (unset_flags f c) = mPixFormat c" "mDataSpace (unset_flags f c) = mDataSpace c"
  "mAttached (unset_flags f c) = mAttached c" "mNumBuffers (unset_flags f c) = mNumBuffers c"
  "mMemoryType (unset_flags f c) = mMemoryType c" "mBuffer (unset_flags f c) = mBuffer c"
  by (simp_all add: set_flags_def unset_flags_def)

text \<open>What an operation has to keep for the invariant, and what it may change.\<close>

definition canvas_frame :: "'a canvas_scheme \<Rightarrow> 'a canvas_scheme \<Rightarrow> bool" where
  "canvas_frame c c' \<longleftrightarrow> mAttached c' = mAttached c \<and> mCanvasType c' = mCanvasType c \<and>
     mImageDimension c' = mImageDimension c \<and> has_setting c' SETTING_DIMENSION = has_setting c SETTING_DIMENSION \<and>
     canvas.more c' = canvas.more c"

lemma buffers_ok_fields:
  "mNumBuffers c' = mNumBuffers c \<Longrightarrow> mMemoryType c' = mMemoryType c \<Longrightarrow> mBuffer c' = mBuffer c \<Longrightarrow>
   buffers_ok c' = buffers_ok c"
  by (simp add: buffers_ok_def getDmabuf_def getUserptr_def)

lemma setFence_fields [simp]:
  "mImageDimension (setFence f c) = mImageDimension c" "mCanvasType (setFence f c) = mCanvasType c"
  "mPixFormat (setFence f c) = mPixFormat c" "mDataSpace (setFence f c) = mDataSpace c"
  "mAttached (setFence f c) = mAttached c" "mNumBuffers (setFence f c) = mNumBuffers c"
  "mMemoryType (setFence f c) = mMemoryType c" "mBuffer (setFence f c) = mBuffer c"
  "has_setting (setFence f c) s = has_setting c s" "canvas.more (setFence f c) = canvas.more c"
  by (simp_all add: setFence_def Let_def)

lemma more_flags [simp]:
  "canvas.more (set_flags f c) = canvas.more c" "canvas.more (unset_flags f c) = canvas.more c"
  by (simp_all add: set_flags_def unset_flags_def)

lemma store_buffers [simp]:
  "mImageDimension (foldl (store_buffer ids len off) c [0..<n]) = mImageDimension c"
  "mCanvasType (foldl (store_buffer ids len off) c [0..<n]) = mCanvasType c"
  "mPixFormat (foldl (store_buffer ids len off) c [0..<n]) = mPixFormat c"
  "mDataSpace (foldl (store_buffer ids len off) c [0..<n]) = mDataSpace c"
  "mAttached (foldl (store_buffer ids len off) c [0..<n]) = mAttached c"
  "has_setting (foldl (store_buffer ids len off) c [0..<n]) s = has_setting c s"
  "canvas.more (foldl (store_buffer ids len off) c [0..<n]) = canvas.more c"
  "mFence (foldl (store_buffer ids len off) c [0..<n]) = mFence c"
  "mClosed (foldl (store_buffer ids len off) c [0..<n]) = mClosed c"
  "mBuffer (foldl (store_buffer ids len off) c [0..<n]) i = (if i < n then ids i else mBuffer c i)"
  by (induction n) (auto simp: store_buffer_def less_Suc_eq)

section \<open>Setters keep the invariant\<close>

text \<open>Canvas operations leave the type, the attachment and the members of a derived class alone.\<close>

lemma setImageType_keeps:
  "canvas_ok pf cap c \<Longrightarrow> canvas_ok pf cap (snd (setImageType pf cap fmt ds c)) \<and>
   canvas_frame c (snd (setImageType pf cap fmt ds c))"
  by (auto simp: setImageType_def canvas_ok_def canvas_frame_def has_setting_set has_setting_unset Let_def
      buffers_ok_def getDmabuf_def getUserptr_def)

lemma setImageOTFBuffer_keeps:
  "canvas_ok pf cap c \<Longrightarrow> canvas_ok pf cap (snd (setImageOTFBuffer cap attr c)) \<and>
   canvas_frame c (snd (setImageOTFBuffer cap attr c))"
  by (auto simp: setImageOTFBuffer_def canvas_ok_def canvas_frame_def has_setting_set buffers_ok_def)

lemma setImageBuffer_color_keeps:
  "canvas_ok pf cap c \<Longrightarrow> canvas_ok pf cap (snd (setImageBuffer_color cap a r g b attr c)) \<and>
   canvas_frame c (snd (setImageBuffer_color cap a r g b attr c))"
  by (auto simp: setImageBuffer_color_def canvas_ok_def canvas_frame_def has_setting_set buffers_ok_def)

lemma setImageBuffer_dmabuf_keeps:
  "canvas_ok pf cap c \<Longrightarrow> canvas_ok pf cap (snd (setImageBuffer_dmabuf cap fd len off n fence attr c)) \<and>
   canvas_frame c (snd (setImageBuffer_dmabuf cap fd len off n fence attr c))"
  using setImageOTFBuffer_keeps[of pf cap c attr]
  by (auto simp: setImageBuffer_dmabuf_def canvas_ok_def canvas_frame_def has_setting_set buffers_ok_def Let_def
      getDmabuf_def MAX_HW2D_PLANES_def)

lemma setImageBuffer_userptr_keeps:
  "canvas_ok pf cap c \<Longrightarrow> canvas_ok pf cap (snd (setImageBuffer_userptr cap addr len n attr c)) \<and>
   canvas_frame c (snd (setImageBuffer_userptr cap addr len n attr c))"
  using setImageOTFBuffer_keeps[of pf cap c attr]
  by (auto simp: setImageBuffer_userptr_def canvas_ok_def canvas_frame_def has_setting_set buffers_ok_def Let_def
      getUserptr_def MAX_HW2D_PLANES_def)

lemma setStride_shape:
  "\<exists>str m. setStride stride c =
     (True, if m then set_flags (SETTING_STRIDE OR SETTING_STRIDE_MODIFIED) (c\<lparr>mStride := str\<rparr>) else c\<lparr>mStride := str\<rparr>)"
proof -
  define step where "step = (\<lambda>(c :: 'a canvas_scheme, modified) i.
      if has_setting c SETTING_STRIDE \<and> mStride c i = stride i then (c, modified)
      else (c\<lparr>mStride := (mStride c)(i := stride i)\<rparr>, True))"
  have "\<exists>str m. foldl step (c, False) ks = (c\<lparr>mStride := str\<rparr>, m)" for ks
  proof (induction ks rule: rev_induct)
    case Nil
    have "c = c\<lparr>mStride := mStride c\<rparr>" by simp
    then show ?case by (metis foldl_Nil)
  next
    case (snoc k ks)
    then obtain str m where "foldl step (c, False) ks = (c\<lparr>mStride := str\<rparr>, m)" by blast
    moreover have "step (c\<lparr>mStride := str\<rparr>, m) k =
        (if has_setting c SETTING_STRIDE \<and> str k = stride k then (c\<lparr>mStride := str\<rparr>, m)
         else (c\<lparr>mStride := str(k := stride k)\<rparr>, True))" by (simp add: step_def)
    ultimately have "foldl step (c, False) (ks @ [k]) = (c\<lparr>mStride := str\<rparr>, m) \<or>
        foldl step (c, False) (ks @ [k]) = (c\<lparr>mStride := str(k := stride k)\<rparr>, True)"
      by (metis foldl_append foldl_Cons foldl_Nil)
    then show ?case by blast
  qed
  then obtain str m where "foldl step (c, False) [0..<MAX_HW2D_PLANES] = (c\<lparr>mStride := str\<rparr>, m)" by blast
  then show ?thesis
    unfolding setStride_def step_def[symmetric] by (intro exI[of _ str] exI[of _ m]) simp
qed

lemma setStride_keeps:
  "canvas_ok pf cap c \<Longrightarrow> canvas_ok pf cap (snd (setStride stride c)) \<and> canvas_frame c (snd (setStride stride c))"
  using setStride_shape[of stride c]
  by (elim exE) (simp add: canvas_ok_def canvas_frame_def has_setting_set buffers_ok_def getDmabuf_def getUserptr_def)

lemma fence_keeps:
  "canvas_ok pf cap (setFence f c) = canvas_ok pf cap c" "canvas_frame c (setFence f c)"
  "canvas_ok pf cap (clearFence c) = canvas_ok pf cap c" "canvas_frame c (clearFence c)"
  by (simp_all add: canvas_ok_def canvas_frame_def clearFence_def buffers_ok_def getDmabuf_def getUserptr_def)

lemma clearSettingModified_keeps:
  "canvas_ok pf cap (clearSettingModified c) = canvas_ok pf cap c" "canvas_frame c (clearSettingModified c)"
  by (simp_all add: canvas_ok_def canvas_frame_def clearSettingModified_def has_setting_unset buffers_ok_def
      getDmabuf_def getUserptr_def)

lemma canvas_op_keeps:
  "canvas_op pf cap c c' \<Longrightarrow> canvas_ok pf cap c \<Longrightarrow> canvas_ok pf cap c' \<and> canvas_frame c c'"
  by (erule canvas_op.cases)
    (simp_all add: setImageType_keeps setStride_keeps setImageBuffer_color_keeps setImageBuffer_dmabuf_keeps
      setImageBuffer_userptr_keeps setImageOTFBuffer_keeps fence_keeps clearSettingModified_keeps)

end
