(* ===== verification/AcrylFrame.thy ===== *)
theory AcrylFrame
  imports AcrylSafety
begin

text \<open>
  The reachable states of a compositor keep the invariant of \<open>AcrylSafety\<close>, and a frame that
  \<open>validateAllLayers\<close> accepts is safe to hand to the hardware. The accelerators' contract comes in
  through the locale of \<open>AcrylCapability\<close>.
\<close>

section \<open>Size of an image\<close>

lemma coord_eta: "coord (hori xy) (vert xy) = xy"
  by (simp add: coord_def)

lemma dimension_outcome:
  assumes lim: "coord_between (fst (limits_of cap (mCanvasType c))) (snd (limits_of cap (mCanvasType c)))"
    and ok: "canvas_ok pf cap c"
    and res: "canvas_setImageDimension cap w h c = (done, c')"
  shows "canvas_ok pf cap c' \<and> mAttached c' = mAttached c \<and> mCanvasType c' = mCanvasType c \<and>
    canvas.more c' = canvas.more c"
    and "done \<Longrightarrow> mImageDimension c' = coord w h"
    and "\<not> done \<Longrightarrow> mAttached c \<Longrightarrow> \<not> has_setting c' SETTING_DIMENSION"
proof -
  obtain lo hi where lh: "limits_of cap (mCanvasType c) = (lo, hi)" by fastforce
  have eq: "c' = c \<and> mImageDimension c = coord w h \<and> done" if "has_setting c SETTING_DIMENSION"
    "w = hori (mImageDimension c)" "h = vert (mImageDimension c)"
    using that res by (simp add: canvas_setImageDimension_def coord_def)
  have unset: "canvas_ok pf cap (unset_flags SETTING_DIMENSION c)"
    using ok by (simp add: canvas_ok_def has_setting_unset buffers_ok_def getDmabuf_def getUserptr_def)
  let ?d = "set_flags (SETTING_DIMENSION OR SETTING_DIMENSION_MODIFIED)
    ((unset_flags SETTING_DIMENSION c)\<lparr>mImageDimension := coord (int16_of w) (int16_of h)\<rparr>)"
  have alts: "c' = c \<and> done \<and> mImageDimension c = coord w h \<or>
      c' = c \<and> \<not> done \<and> \<not> mAttached c \<or>
      c' = unset_flags SETTING_DIMENSION c \<and> \<not> done \<or>
      c' = ?d \<and> done \<and> hori lo \<le> w \<and> w \<le> hori hi \<and> vert lo \<le> h \<and> h \<le> vert hi \<and>
        w AND (hori (min_pix_align cap) - 1) = 0 \<and> h AND (vert (min_pix_align cap) - 1) = 0"
    using eq res lh by (auto simp: canvas_setImageDimension_def Let_def split: if_splits)
  have fits: "canvas_ok pf cap ?d \<and> mImageDimension ?d = coord w h"
    if "hori lo \<le> w" "w \<le> hori hi" "vert lo \<le> h" "h \<le> vert hi"
      "w AND (hori (min_pix_align cap) - 1) = 0" "h AND (vert (min_pix_align cap) - 1) = 0"
  proof -
    have b: "0 < w" "w \<le> 0x4000" "0 < h" "h \<le> 0x4000"
      using lim that unfolding lh coord_between_def by auto
    then have "int16_of w = w" "int16_of h = h" by simp_all
    then show ?thesis
      using ok b that lh
      by (simp add: canvas_ok_def has_setting_set has_setting_unset dimension_ok_def buffers_ok_def getDmabuf_def
          getUserptr_def)
  qed
  show "canvas_ok pf cap c' \<and> mAttached c' = mAttached c \<and> mCanvasType c' = mCanvasType c \<and>
    canvas.more c' = canvas.more c"
    using alts ok unset fits by auto
  show "done \<Longrightarrow> mImageDimension c' = coord w h" using alts fits by auto
  show "\<not> done \<Longrightarrow> mAttached c \<Longrightarrow> \<not> has_setting c' SETTING_DIMENSION"
    using alts by (auto simp: has_setting_unset)
qed

section \<open>Layers\<close>

lemma layer_more:
  "canvas.more l' = canvas.more l \<Longrightarrow> mImageRect l' = mImageRect l \<and> mTargetRect l' = mTargetRect l"
  by (cases l; cases l') simp

lemma canvas_op_keeps_layer:
  assumes "canvas_op pf cap l l'" "layer_ok pf cap l"
  shows "layer_ok pf cap l'"
  using canvas_op_keeps[OF assms(1)] assms(2) layer_more[of l' l]
  by (auto simp: layer_ok_def canvas_frame_def)

lemma canvas_ok_layer_update [simp]:
  "canvas_ok pf cap (l\<lparr>mImageRect := r\<rparr>) = canvas_ok pf cap l"
  "canvas_ok pf cap (l\<lparr>mTargetRect := r\<rparr>) = canvas_ok pf cap l"
  "canvas_ok pf cap (l\<lparr>mTransform := t\<rparr>) = canvas_ok pf cap l"
  "canvas_ok pf cap (l\<lparr>mCompositAttr := t\<rparr>) = canvas_ok pf cap l"
  "canvas_ok pf cap (l\<lparr>mBlendingMode := t\<rparr>) = canvas_ok pf cap l"
  "canvas_ok pf cap (l\<lparr>mZOrder := z\<rparr>) = canvas_ok pf cap l"
  "canvas_ok pf cap (l\<lparr>mPlaneAlpha := a\<rparr>) = canvas_ok pf cap l"
  "canvas_ok pf cap (l\<lparr>mMaxLuminance := m\<rparr>) = canvas_ok pf cap l"
  "canvas_ok pf cap (l\<lparr>mMinLuminance := m\<rparr>) = canvas_ok pf cap l"
  "canvas_ok pf cap (l\<lparr>mLayerData := d\<rparr>) = canvas_ok pf cap l"
  by (simp_all add: canvas_ok_def has_setting_def buffers_ok_def getDmabuf_def getUserptr_def)

lemma has_setting_layer_update [simp]:
  "has_setting (l\<lparr>mImageRect := r\<rparr>) f = has_setting l f"
  "has_setting (l\<lparr>mTargetRect := r\<rparr>) f = has_setting l f"
  "has_setting (l\<lparr>mTransform := t\<rparr>) f = has_setting l f"
  "has_setting (l\<lparr>mCompositAttr := t\<rparr>) f = has_setting l f"
  "has_setting (l\<lparr>mBlendingMode := t\<rparr>) f = has_setting l f"
  "has_setting (l\<lparr>mZOrder := z\<rparr>) f = has_setting l f"
  "has_setting (l\<lparr>mPlaneAlpha := a\<rparr>) f = has_setting l f"
  "has_setting (l\<lparr>mMaxLuminance := m\<rparr>) f = has_setting l f"
  "has_setting (l\<lparr>mMinLuminance := m\<rparr>) f = has_setting l f"
  "has_setting (l\<lparr>mLayerData := d\<rparr>) f = has_setting l f"
  by (simp_all add: has_setting_def)

text \<open>An area that passes the tests stays itself when its parts are cut to 16 bits.\<close>

lemma area_passes:
  assumes "\<not> area_bits r < 0" "\<not> area_bad limit r" "fits16 r"
  shows "0 \<le> rect_left r" "0 \<le> rect_top r" "rect_left r < rect_right r" "rect_top r < rect_bottom r"
    and "to_hw2d_rect r = \<lparr>pos = coord (rect_left r) (rect_top r), size = coord (get_width r) (get_height r)\<rparr>"
proof -
  show "0 \<le> rect_left r" "0 \<le> rect_top r" using assms(1) by (simp_all add: area_bits_def)
  show "rect_left r < rect_right r" "rect_top r < rect_bottom r" using assms(2) by (simp_all add: area_bad_def split: if_split_asm)
  then show "to_hw2d_rect r = \<lparr>pos = coord (rect_left r) (rect_top r), size = coord (get_width r) (get_height r)\<rparr>"
    using assms(3) \<open>0 \<le> rect_left r\<close> \<open>0 \<le> rect_top r\<close>
    by (simp add: to_hw2d_rect_def get_width_def get_height_def fits16_def)
qed

lemma area_zero:
  assumes "area_bits r = 0"
  shows "to_hw2d_rect r = \<lparr>pos = coord 0 0, size = coord 0 0\<rparr>"
  using assms by (simp add: area_bits_def or_eq_0_iff to_hw2d_rect_def get_width_def get_height_def)

text \<open>A setter that fails changes nothing; one that succeeds writes both areas.\<close>

lemma setCompositArea_outcome:
  assumes "setCompositArea pf cap src out tr attr l = Some (ok, l')"
  shows "l' = l \<and> \<not> ok \<or>
    ok \<and> l' = l\<lparr>mTargetRect := to_hw2d_rect out, mImageRect := to_hw2d_rect src, mTransform := tr,
      mCompositAttr := attr AND LAYER_ATTR_ALL_MASK\<rparr> \<and>
    \<not> area_bits src < 0 \<and> \<not> area_bad (min_src_dimension cap) src \<and>
    rect_right src \<le> hori (mImageDimension l) \<and> rect_bottom src \<le> vert (mImageDimension l) \<and>
    (area_bits out = 0 \<or> \<not> area_bits out < 0 \<and> \<not> area_bad (min_dst_dimension cap) out)"
proof -
  define x where "x = l\<lparr>mTargetRect := to_hw2d_rect out, mImageRect := to_hw2d_rect src, mTransform := tr,
      mCompositAttr := attr AND LAYER_ATTR_ALL_MASK\<rparr>"
  show ?thesis
    using assms unfolding setCompositArea_def Let_def x_def[symmetric] by (auto split: if_splits option.splits)
qed

lemma setCompositArea_keeps:
  assumes res: "setCompositArea pf cap src out tr attr l = Some (ok, l')"
    and out: "fits16 out" and lo: "layer_ok pf cap l"
  shows "layer_ok pf cap l'"
proof -
  consider "l' = l" | "ok" "l' = l\<lparr>mTargetRect := to_hw2d_rect out, mImageRect := to_hw2d_rect src, mTransform := tr,
      mCompositAttr := attr AND LAYER_ATTR_ALL_MASK\<rparr>"
    "\<not> area_bits src < 0" "\<not> area_bad (min_src_dimension cap) src"
    "rect_right src \<le> hori (mImageDimension l)" "rect_bottom src \<le> vert (mImageDimension l)"
    "area_bits out = 0 \<or> \<not> area_bits out < 0 \<and> \<not> area_bad (min_dst_dimension cap) out"
    using setCompositArea_outcome[OF res] by blast
  then show ?thesis
  proof cases
    case 1
    then show ?thesis using lo by simp
  next
    case 2
    have "fits16 src" using 2(5,6) lo by (simp add: fits16_def layer_ok_def canvas_ok_def)
    note s = area_passes[OF 2(3,4) this]
    have "window_ok (to_hw2d_rect out)"
      using 2(7)
    proof
      assume "area_bits out = 0"
      then show ?thesis by (simp add: area_zero window_ok_def)
    next
      assume "\<not> area_bits out < 0 \<and> \<not> area_bad (min_dst_dimension cap) out"
      then show ?thesis
        using area_passes[of out "min_dst_dimension cap"] out
        by (simp add: window_ok_def get_width_def get_height_def fits16_def)
    qed
    then show ?thesis
      using lo s 2(2,5,6) by (simp add: layer_ok_def rect_inside_def get_width_def get_height_def)
  qed
qed

lemma window_fits: "window_ok r \<Longrightarrow>
    fits16 \<lparr>rect_left = hori (pos r), rect_top = vert (pos r),
      rect_right = hori (pos r) + hori (size r), rect_bottom = vert (pos r) + vert (size r)\<rparr>"
  by (auto simp: window_ok_def fits16_def)

lemma canvas_layer_mode: "canvas_ok pf cap (snd (setCompositMode pf cap mode alpha z l)) = canvas_ok pf cap l"
  by (simp add: setCompositMode_def split: option.split)

lemma setCompositMode_keeps: "layer_ok pf cap l \<Longrightarrow> layer_ok pf cap (snd (setCompositMode pf cap mode alpha z l))"
  by (simp add: setCompositMode_def layer_ok_def split: option.split)

lemma layer_setImageDimension_keeps:
  assumes "coord_between (min_src_dimension cap) (max_src_dimension cap)" and lo: "layer_ok pf cap l"
  shows "layer_ok pf cap (snd (layer_setImageDimension cap w h l))"
proof -
  obtain ok l' where r: "canvas_setImageDimension cap w h l = (ok, l')" by fastforce
  have lim: "coord_between (fst (limits_of cap (mCanvasType l))) (snd (limits_of cap (mCanvasType l)))"
    using assms by (simp add: layer_ok_def limits_of_def)
  have "canvas_ok pf cap l" using lo by (simp add: layer_ok_def)
  note out = dimension_outcome[OF lim this r]
  show ?thesis
  proof (cases ok)
    case True
    have "rect_inside \<lparr>pos = coord 0 0, size = mImageDimension l'\<rparr> (mImageDimension l')"
      using out(1) by (simp add: rect_inside_def canvas_ok_def)
    then show ?thesis
      using out(1) lo layer_more[of l' l] r True
      by (simp add: layer_setImageDimension_def layer_ok_def)
  next
    case False
    then show ?thesis
      using out lo layer_more[of l' l] r by (simp add: layer_setImageDimension_def layer_ok_def)
  qed
qed

lemma layer_op_keeps:
  assumes "coord_between (min_src_dimension cap) (max_src_dimension cap)" "layer_ok pf cap l" "layer_op pf cap l l'"
  shows "layer_ok pf cap l'"
  using assms(3)
proof cases
  case lop_canvas
  then show ?thesis using canvas_op_keeps_layer assms(2) by blast
next
  case lop_dimension
  then show ?thesis using layer_setImageDimension_keeps[OF assms(1,2)] by simp
next
  case lop_mode
  then show ?thesis using setCompositMode_keeps[OF assms(2)] by simp
next
  case lop_area
  then show ?thesis using setCompositArea_keeps assms(2) by blast
next
  case lop_image_rect
  then show ?thesis
    using setCompositArea_keeps assms(2) window_fits[of "mTargetRect l"]
    by (auto simp: setImageRect_def Let_def layer_ok_def)
next
  case lop_luminance
  then show ?thesis using assms(2) by (simp add: setMasterDisplayLuminance_def layer_ok_def)
next
  case lop_data
  then show ?thesis using assms(2) by (simp add: setLayerData_def layer_ok_def)
next
  case lop_clear_data
  then show ?thesis using assms(2) by (simp add: clearLayerData_def layer_ok_def)
qed

lemma clearFence_layer [simp]:
  "mImageRect (clearFence l) = mImageRect l" "mTransform (clearFence l) = mTransform l"
  by (simp_all add: clearFence_def)

text \<open>Importing the description of another layer whose size has been accepted.\<close>

lemma import_buffers_op: "import_buffers cap other l = Some l' \<Longrightarrow> canvas_op pf cap l l'"
  unfolding import_buffers_def Let_def by (auto split: if_splits intro: canvas_op.intros)

lemma importLayer_keeps:
  assumes lim: "coord_between (min_src_dimension cap) (max_src_dimension cap)"
    and lo: "layer_ok pf cap l" and oo: "layer_ok pf cap other" "has_setting other SETTING_DIMENSION"
    and res: "importLayer pf cap inherit other l = Some (l', other')"
  shows "layer_ok pf cap l'" "layer_ok pf cap other'"
proof -
  obtain ok l1 where l1: "canvas_setImageDimension cap (hori (mImageDimension other)) (vert (mImageDimension other)) l = (ok, l1)"
    by fastforce
  define l2 where "l2 = snd (setImageType pf cap (mPixFormat other) (mDataSpace other) l1)"
  obtain l3 where l3: "import_buffers cap other l2 = Some l3"
    and l': "l' = (if inherit then l3\<lparr>mImageRect := mImageRect other, mTransform := mTransform other\<rparr>
                   else l3\<lparr>mImageRect := mImageRect other\<rparr>)" and o': "other' = clearFence other"
    using res l1 l2_def by (auto simp: importLayer_def Let_def split: option.splits if_splits)
  have c1: "canvas_ok pf cap l1" "mAttached l1" "mCanvasType l1 = CANVAS_SOURCE" "mTargetRect l1 = mTargetRect l"
    "has_setting l1 SETTING_DIMENSION \<Longrightarrow> mImageDimension l1 = mImageDimension other"
    using dimension_outcome[of cap l pf, OF _ _ l1] lim lo layer_more[of l1 l]
    by (auto simp: layer_ok_def limits_of_def coord_eta)
  have "canvas_frame l1 l2" "canvas_ok pf cap l2"
    using setImageType_keeps[OF c1(1)] by (simp_all add: l2_def)
  moreover have "canvas_frame l2 l3" "canvas_ok pf cap l3"
    using canvas_op_keeps[OF import_buffers_op[OF l3] calculation(2)] by auto
  ultimately have "canvas_ok pf cap l3" "mAttached l3" "mCanvasType l3 = CANVAS_SOURCE" "mTargetRect l3 = mTargetRect l"
    "has_setting l3 SETTING_DIMENSION \<Longrightarrow> mImageDimension l3 = mImageDimension other"
    using c1 layer_more[of l3 l1] by (auto simp: canvas_frame_def)
  then show "layer_ok pf cap l'"
    using lo oo by (auto simp: l' layer_ok_def)
  show "layer_ok pf cap other'"
    using canvas_op_keeps_layer[OF op_clear_fence oo(1)] o' by simp
qed

section \<open>Reachable states\<close>

context accelerators
begin

lemma init_inv:
  assumes "cap \<in> caps"
  shows "acryl_inv pf cap (acrylic_init cap c ac)"
  using src_limits[OF assms] 
  by (simp add: acryl_inv_def acrylic_init_def canvas_init_def canvas_ok_def has_setting_def coord_between_def)

lemma layer_init_ok:
  assumes "cap \<in> caps"
  shows "layer_ok pf cap (layer_init pf cap g)"
  using src_limits[OF assms]
  by (simp add: layer_ok_def layer_init_def canvas_init_def canvas_ok_def has_setting_def coord_between_def window_ok_def)

lemma step_inv:
  assumes cap: "cap \<in> caps" and inv: "acryl_inv pf cap ac" and step: "acryl_step pf cap ac ac'"
  shows "acryl_inv pf cap ac'"
  using step
proof cases
  case (step_create a g)
  then show ?thesis using inv layer_init_ok[OF cap] by (auto simp: createLayer_def acryl_inv_def)
next
  case (step_destroy a)
  then show ?thesis
    using inv by (auto simp: destroy_layer_def removeLayer_def acryl_inv_def layer_ok_def length_remove1)
next
  case (step_canvas c)
  then show ?thesis using inv canvas_op_keeps by (auto simp: acryl_inv_def canvas_frame_def)
next
  case (step_dimension w h)
  obtain ok c' where r: "canvas_setImageDimension cap w h (ac_canvas ac) = (ok, c')" by fastforce
  have "coord_between (fst (limits_of cap (mCanvasType (ac_canvas ac)))) (snd (limits_of cap (mCanvasType (ac_canvas ac))))"
    using dst_limits[OF cap] inv by (simp add: acryl_inv_def limits_of_def)
  then show ?thesis
    using dimension_outcome(1)[OF _ _ r, of pf] inv step_dimension r by (simp add: acryl_inv_def)
next
  case (step_layer a l)
  then have "layer_ok pf cap l" using layer_op_keeps[OF src_limits[OF cap]] inv by (auto simp: acryl_inv_def)
  then show ?thesis using step_layer(1) inv by (auto simp: acryl_inv_def)
next
  case (step_import a b inherit l l')
  then have "layer_ok pf cap (ac_store ac a)" "layer_ok pf cap (ac_store ac b)"
    using inv by (simp_all add: acryl_inv_def)
  from importLayer_keeps[OF src_limits[OF cap] this step_import(5,6)]
  have "layer_ok pf cap l \<and> layer_ok pf cap l'" by simp
  then show ?thesis using step_import(1) inv by (auto simp: acryl_inv_def)
next
  case step_sort
  then obtain ls where ls: "ac' = ac\<lparr>mLayers := ls\<rparr>" "mset ls = mset (mLayers ac)"
    by (auto simp: sortLayers_def)
  then have "set ls = set (mLayers ac)" "distinct ls = distinct (mLayers ac)" "length ls = length (mLayers ac)"
    by (auto dest: mset_eq_setD mset_eq_imp_distinct_iff mset_eq_length)
  then show ?thesis using inv ls(1) by (simp add: acryl_inv_def)
next
  case (step_color r g b a)
  then show ?thesis using inv by (simp add: setDefaultColor_def acryl_inv_def)
next
  case step_no_color
  then show ?thesis using inv by (simp add: clearDefaultColor_def acryl_inv_def)
next
  case (step_luminance lo hi)
  then show ?thesis using inv by (simp add: setTargetDisplayLuminance_def acryl_inv_def)
qed

lemma reach_inv: "acryl_reach pf cap ac \<Longrightarrow> cap \<in> caps \<Longrightarrow> acryl_inv pf cap ac"
  by (induction rule: acryl_reach.induct) (auto intro: init_inv step_inv)

end

section \<open>Validated frames\<close>

lemma mask_settings:
  "isSettingOkay c \<Longrightarrow> has_setting c SETTING_TYPE \<and> has_setting c SETTING_BUFFER \<and> has_setting c SETTING_DIMENSION"
proof -
  assume "isSettingOkay c"
  then have m: "mSettingFlags c AND 7 = 7"
    by (simp add: isSettingOkay_def SETTING_MASK_MANDATORY_def flag_consts)
  have "mSettingFlags c AND f = f" if "f AND 7 = f" for f :: u32
    using m that by (metis and.commute and.left_commute)
  from this[of 1] this[of 2] this[of 4] show ?thesis
    by (simp add: has_setting_def flag_consts)
qed

definition layer_safe :: "acryl_platform \<Rightarrow> stHW2DCapability \<Rightarrow> hw2d_coord \<Rightarrow> acryl_layer \<Rightarrow> bool" where
  "layer_safe pf cap xy l \<longleftrightarrow>
     isFormatSupported cap (mPixFormat l) \<and> isDataspaceSupported pf cap (mDataSpace l) \<and>
     dimension_ok cap CANVAS_SOURCE (mImageDimension l) \<and> buffers_ok l \<and>
     rect_inside (mImageRect l) (mImageDimension l) \<and>
     (area_is_zero (mTargetRect l) \<or> rect_inside (mTargetRect l) xy) \<and>
     (isCompressed l \<longrightarrow> isFeatureSupported cap FEATURE_AFBC_DECODE)"

lemma validate_layer_safe:
  assumes "layer_ok pf cap l" "validate_layer pf cap xy l = Some True"
  shows "layer_safe pf cap xy l"
proof -
  have v: "isSettingOkay l" "isCompressed l \<longrightarrow> isFeatureSupported cap FEATURE_AFBC_DECODE"
    "area_is_zero (mTargetRect l) \<or> \<not> rect_exceeds (mTargetRect l) xy"
    using assms(2) by (auto simp: validate_layer_def Let_def split: if_split_asm)
  have "area_is_zero (mTargetRect l) \<or> rect_inside (mTargetRect l) xy"
    using v(3) assms(1)
    by (auto simp: layer_ok_def window_ok_def rect_exceeds_def rect_inside_def area_is_zero_def split: if_split_asm)
  then show ?thesis
    using mask_settings[OF v(1)] v(2) assms(1) by (auto simp: layer_safe_def layer_ok_def canvas_ok_def)
qed

lemma validate_layers_all:
  "validate_layers pf cap xy p ls = Some (True, q) \<Longrightarrow>
   list_all (\<lambda>l. validate_layer pf cap xy l = Some True) ls \<and> (q \<longleftrightarrow> p \<or> list_ex isProtected ls)"
  by (induction ls arbitrary: p) (auto split: option.splits if_splits)

lemma validateAllLayers_true:
  assumes "validateAllLayers pf cap ac = Some True"
  shows "isSettingOkay (ac_canvas ac)" "isCompressed (ac_canvas ac) \<longrightarrow> isFeatureSupported cap FEATURE_AFBC_ENCODE"
    and "a \<in> set (mLayers ac) \<Longrightarrow> validate_layer pf cap (mImageDimension (ac_canvas ac)) (ac_store ac a) = Some True"
    and "a \<in> set (mLayers ac) \<Longrightarrow> isProtected (ac_store ac a) \<Longrightarrow> isProtected (ac_canvas ac)"
proof -
  obtain q where q: "validate_layers pf cap (mImageDimension (ac_canvas ac)) False (map (ac_store ac) (mLayers ac)) = Some (True, q)"
      "q \<longrightarrow> isProtected (ac_canvas ac)"
    and c: "isSettingOkay (ac_canvas ac)" "isCompressed (ac_canvas ac) \<longrightarrow> isFeatureSupported cap FEATURE_AFBC_ENCODE"
    using assms by (fastforce simp: validateAllLayers_def Let_def split: if_split_asm option.split_asm)
  note all = validate_layers_all[OF q(1)]
  show "isSettingOkay (ac_canvas ac)" "isCompressed (ac_canvas ac) \<longrightarrow> isFeatureSupported cap FEATURE_AFBC_ENCODE"
    by (fact c)+
  assume a: "a \<in> set (mLayers ac)"
  then show "validate_layer pf cap (mImageDimension (ac_canvas ac)) (ac_store ac a) = Some True"
    using all by (simp add: list_all_iff)
  show "isProtected (ac_canvas ac)" if "isProtected (ac_store ac a)"
    using that a all q(2) by (auto simp: list_ex_iff)
qed

lemma validate_layer_defined:
  assumes "cap \<in> factory_caps pf" "0 < hori xy" "0 < vert xy"
  shows "validate_layer pf cap xy l \<noteq> None"
  using factory.resampling_defined[OF assms(1), of xy pf] factory.resizing_defined[OF assms(1), of xy pf] assms(2,3)
  by (simp add: validate_layer_def Let_def del: not_None_eq)

lemma validate_layers_defined:
  assumes "cap \<in> factory_caps pf" "0 < hori xy" "0 < vert xy"
  shows "validate_layers pf cap xy p ls \<noteq> None"
  using validate_layer_defined[OF assms]
  by (induction ls arbitrary: p) (auto split: option.splits simp del: not_None_eq)

section \<open>Samples\<close>

abbreviation sample_cap :: stHW2DCapability where
  "sample_cap \<equiv> capability_mscl_9810 sample_acryl"

definition blank_canvas :: canvas where
  "blank_canvas =
    \<lparr>mAttached = False, mImageDimension = coord 0 0, mPixFormat = 0, mDataSpace = 0, mMemoryType = MT_EMPTY,
     mBuffer = (\<lambda>_. BufferFd 0), mBufferLength = (\<lambda>_. 0), mBufferOffset = (\<lambda>_. 0), mNumBuffers = 0, mFence = 0,
     mAttributes = 0, mSettingFlags = 0, mSolidColor = 0, mStride = (\<lambda>_. 0), mCanvasType = CANVAS_TARGET, mClosed = []\<rparr>"

definition blank_layer :: acryl_layer where
  "blank_layer =
    canvas.extend blank_canvas
      (acryl_layer.fields \<lparr>pos = coord 0 0, size = coord 0 0\<rparr> \<lparr>pos = coord 0 0, size = coord 0 0\<rparr> 0 0 0 0 0 0 0 None)"

definition blank_acrylic :: acrylic where
  "blank_acrylic =
    \<lparr>ac_canvas = blank_canvas, mLayers = [], ac_store = (\<lambda>_. blank_layer), mBackgroundColor = (0, 0, 0, 0),
     mHasBackgroundColor = False, mMaxTargetLuminance = 0, mMinTargetLuminance = 0\<rparr>"

text \<open>One layer of 64 times 64 pixels, enlarged to the whole target of 128 times 128.\<close>

definition sample_canvas :: canvas where
  "sample_canvas =
    (let c = canvas_init sample_cap CANVAS_TARGET blank_canvas;
         c = snd (setImageType sample_acryl sample_cap 1 0 c);
         c = snd (canvas_setImageDimension sample_cap 128 128 c)
     in snd (setImageBuffer_dmabuf sample_cap (\<lambda>_. 5) (\<lambda>_. 65536) (\<lambda>_. 0) 1 (-1) 0 c))"

definition sample_image :: acryl_layer where
  "sample_image =
    (let l = layer_init sample_acryl sample_cap blank_layer;
         l = snd (setImageType sample_acryl sample_cap 1 0 l);
         l = snd (layer_setImageDimension sample_cap 64 64 l)
     in snd (setImageBuffer_dmabuf sample_cap (\<lambda>_. 4) (\<lambda>_. 16384) (\<lambda>_. 0) 1 (-1) 0 l))"

definition sample_frame :: acrylic where
  "sample_frame = blank_acrylic\<lparr>ac_canvas := sample_canvas, mLayers := [0], ac_store := (\<lambda>_. blank_layer)(0 := sample_image),
     mHasBackgroundColor := False, mMaxTargetLuminance := 100\<rparr>"

lemma sample_cap_factory: "sample_cap \<in> factory_caps sample_acryl"
proof -
  have "createInstance sample_acryl ''mscl_9810'' = Some (AcrylicCompositorMSCL9810, sample_cap)"
    by (simp add: createInstance_def)
  then show ?thesis by (auto simp: factory_caps_def)
qed

lemma sample_frame_reach: "acryl_reach sample_acryl sample_cap sample_frame"
proof -
  let ?R = "acryl_reach sample_acryl sample_cap"
  let ?init = "acrylic_init sample_cap blank_canvas blank_acrylic"
  let ?cv = "\<lambda>c. ?init\<lparr>ac_canvas := c\<rparr>"
  define c0 where "c0 = canvas_init sample_cap CANVAS_TARGET blank_canvas"
  define c1 where "c1 = snd (setImageType sample_acryl sample_cap 1 0 c0)"
  define c2 where "c2 = snd (canvas_setImageDimension sample_cap 128 128 c1)"
  have "?R (?cv c0)" using reach_init[of sample_acryl sample_cap blank_canvas blank_acrylic]
    by (simp add: c0_def acrylic_init_def blank_acrylic_def)
  from reach_step[OF this step_canvas[OF op_type[of sample_acryl sample_cap _ 1 0]]]
  have "?R (?cv c1)" by (simp add: c1_def)
  from reach_step[OF this step_dimension[of sample_acryl sample_cap _ 128 128]]
  have "?R (?cv c2)" by (simp add: c2_def)
  from reach_step[OF this step_canvas[OF op_dmabuf[of sample_acryl sample_cap _
      "\<lambda>_. 5" "\<lambda>_. 65536" "\<lambda>_. 0" 1 "-1" 0]]]
  have s: "?R (?cv sample_canvas)" by (simp add: sample_canvas_def c2_def c1_def c0_def)
  define ac where "ac = (\<lambda>l. (?cv sample_canvas)\<lparr>mLayers := [0], ac_store := (\<lambda>_. blank_layer)(0 := l)\<rparr>)"
  define l0 where "l0 = layer_init sample_acryl sample_cap blank_layer"
  define l1 where "l1 = snd (setImageType sample_acryl sample_cap 1 0 l0)"
  define l2 where "l2 = snd (layer_setImageDimension sample_cap 64 64 l1)"
  have lay: "?R (ac l')" if "?R (ac l)" "layer_op sample_acryl sample_cap l l'" for l l'
    using reach_step[OF that(1) step_layer[of 0 "ac l" sample_acryl sample_cap l']] that(2) by (simp add: ac_def)
  have "?R (ac l0)"
    using reach_step[OF s step_create[of 0 _ sample_acryl sample_cap blank_layer]]
    by (simp add: ac_def l0_def createLayer_def acrylic_init_def capability_mscl_9810_def blank_acrylic_def)
  from lay[OF this lop_canvas[OF op_type[of sample_acryl sample_cap l0 1 0]]]
  have "?R (ac l1)" by (simp add: l1_def)
  from lay[OF this lop_dimension[of sample_acryl sample_cap l1 64 64]]
  have "?R (ac l2)" by (simp add: l2_def)
  from lay[OF this lop_canvas[OF op_dmabuf[of sample_acryl sample_cap l2 "\<lambda>_. 4" "\<lambda>_. 16384" "\<lambda>_. 0" 1 "-1" 0]]]
  have "?R (ac sample_image)" by (simp add: sample_image_def l0_def l1_def l2_def)
  moreover have "ac sample_image = sample_frame"
    by (simp add: ac_def sample_frame_def acrylic_init_def blank_acrylic_def)
  ultimately show ?thesis by simp
qed

lemma sample_frame_valid: "validateAllLayers sample_acryl sample_cap sample_frame = Some True"
  by code_simp

section \<open>What a user can rely on\<close>





text \<open>
  C25: on a reachable state the check of a frame never divides by zero: it
  returns its verdict, whatever the user has set.
\<close>

theorem validateAllLayers_total:
  assumes "cap \<in> factory_caps pf" "acryl_reach pf cap ac"
  shows "validateAllLayers pf cap ac \<noteq> None"
proof -
  have "0 < hori (mImageDimension (ac_canvas ac))" "0 < vert (mImageDimension (ac_canvas ac))"
    using factory.reach_inv[OF assms(2,1)] by (simp_all add: acryl_inv_def canvas_ok_def)
  from validate_layers_defined[OF assms(1) this]
  have "validate_layers pf cap (mImageDimension (ac_canvas ac)) False (map (ac_store ac) (mLayers ac)) \<noteq> None" .
  then show ?thesis by (auto simp: validateAllLayers_def Let_def)
qed

theorem validateAllLayers_total_witness: "validateAllLayers sample_acryl sample_cap sample_frame \<noteq> None"
  using validateAllLayers_total[OF sample_cap_factory sample_frame_reach] .

text \<open>
  The rejecting paths of \<open>setCompositArea\<close> leave the layer as it was, and the
  accepting one only accepts a crop inside the image and a window that is empty or as large as the target's minimum.
\<close>

theorem setCompositArea_rejects:
  assumes "setCompositArea pf cap src out tr attr l = Some (ok, l')"
  shows "(\<not> ok \<longrightarrow> l' = l) \<and>
    (ok \<longrightarrow> tr AND getHWCTransformMask pf cap = tr \<and> 0 \<le> rect_left src \<and> rect_left src < rect_right src \<and>
       rect_right src \<le> hori (mImageDimension l) \<and> 0 \<le> rect_top src \<and> rect_top src < rect_bottom src \<and>
       rect_bottom src \<le> vert (mImageDimension l) \<and>
       (area_bits out = 0 \<or> hori (min_dst_dimension cap) \<le> get_width out \<and> vert (min_dst_dimension cap) \<le> get_height out))"
proof -
  have tr: "ok \<longrightarrow> tr AND getHWCTransformMask pf cap = tr"
    using assms unfolding setCompositArea_def Let_def by (auto split: if_split_asm)
  consider "l' = l" "\<not> ok" | "ok" "\<not> area_bits src < 0" "\<not> area_bad (min_src_dimension cap) src"
    "rect_right src \<le> hori (mImageDimension l)" "rect_bottom src \<le> vert (mImageDimension l)"
    "area_bits out = 0 \<or> \<not> area_bits out < 0 \<and> \<not> area_bad (min_dst_dimension cap) out"
    using setCompositArea_outcome[OF assms] by blast
  then show ?thesis
  proof cases
    case 1
    then show ?thesis by simp
  next
    case 2
    have "0 \<le> rect_left src" "0 \<le> rect_top src" using 2(2) by (simp_all add: area_bits_def)
    then show ?thesis using 2 tr by (auto simp: area_bad_def split: if_split_asm)
  qed
qed

theorem setCompositArea_rejects_witness:
  "rect_right \<lparr>rect_left = 0, rect_top = 0, rect_right = 64, rect_bottom = 64\<rparr> \<le> hori (mImageDimension sample_image)"
proof -
  let ?r = "\<lparr>rect_left = 0, rect_top = 0, rect_right = 64, rect_bottom = 64\<rparr>"
  have "map_option fst (setCompositArea sample_acryl sample_cap ?r ?r 0 0 sample_image) = Some True" by code_simp
  then obtain l where "setCompositArea sample_acryl sample_cap ?r ?r 0 0 sample_image = Some (True, l)" by auto
  from setCompositArea_rejects[OF this] show ?thesis by simp
qed

text \<open>
  The hypothesis on windows is needed. The setter compares 32-bit values and
  stores 16: a window at \<open>2^15\<close> is stored at a negative position, and \<open>rect_exceeds\<close>, which only looks
  at the end of a window, then lets the frame pass.
\<close>

theorem oversized_window_accepted:
  "map_option (\<lambda>(ok, l). (ok, hori (pos (mTargetRect l)), rect_exceeds (mTargetRect l) (coord 128 128),
       validate_layer sample_acryl sample_cap (coord 128 128) l))
     (setCompositArea sample_acryl sample_cap \<lparr>rect_left = 0, rect_top = 0, rect_right = 64, rect_bottom = 64\<rparr>
        \<lparr>rect_left = 0x8000, rect_top = 0, rect_right = 0x8040, rect_bottom = 64\<rparr> 0 0 sample_image)
   = Some (True, -0x8000, False, Some True)"
  by code_simp

text \<open>
  A window \<open>2^16\<close> pixels wide passes the minimum check at 32 bits and divides by
  the zero left of it in 16: the setter does not return.
\<close>

theorem window_size_wraps:
  "setCompositArea sample_acryl sample_cap \<lparr>rect_left = 0, rect_top = 0, rect_right = 64, rect_bottom = 64\<rparr>
     \<lparr>rect_left = 0, rect_top = 0, rect_right = 0x10000, rect_bottom = 64\<rparr> 0 0 sample_image = None"
  by code_simp

text \<open>
  A layer may hold four buffers, \<open>importLayer\<close> has room for three: importing a layer
  with four is never defined.
\<close>

theorem importLayer_overruns:
  assumes "mNumBuffers other > 3"
  shows "importLayer pf cap inherit other l = None"
  using assms by (simp add: importLayer_def import_buffers_def Let_def)

theorem importLayer_overruns_witness:
  "fst (setImageBuffer_dmabuf sample_cap (\<lambda>i. int i) (\<lambda>_. 16384) (\<lambda>_. 0) 4 (-1) 0 sample_image) \<and>
   importLayer sample_acryl sample_cap False
     (snd (setImageBuffer_dmabuf sample_cap (\<lambda>i. int i) (\<lambda>_. 16384) (\<lambda>_. 0) 4 (-1) 0 sample_image)) sample_image = None"
proof -
  let ?o = "setImageBuffer_dmabuf sample_cap (\<lambda>i. int i) (\<lambda>_. 16384) (\<lambda>_. 0) 4 (-1) 0 sample_image"
  have "fst ?o \<and> mNumBuffers (snd ?o) > 3" by code_simp
  then show ?thesis using importLayer_overruns[of "snd ?o"] by simp
qed

end
