(* ===== verification/MppBuffers.thy ===== *)
theory MppBuffers
  imports HwcLayer AcrylFrame
begin

text \<open>
  The buffers and fences of a memory-to-memory resource (\<open>resources/ExynosMPP.cpp\<close>): the ring of three
  destination buffers, their allocation and release, the two fences each of them waits for, the
  thread that gives buffers back, and the test whether the picture of the last frame can be shown
  again. A buffer handle and a fence are numbers; the allocator is a list of answers, and the buffers
  given back to it are listed. Preprocessor: \<open>GRALLOC_VERSION1\<close>, fences in use.
\<close>

section \<open>The state\<close>

record mpp_img_info =
  mi_bufferHandle :: buffer_handle
  mi_bufferType :: u32
  mi_format :: ExynosFormat
  mi_dataspace :: u32
  mppLayer :: "nat option"
  acrylicAcquireFenceFd :: int
  acrylicReleaseFenceFd :: int

definition img_info_reset :: mpp_img_info where
  "img_info_reset = \<lparr>mi_bufferHandle = None, mi_bufferType = 0, mi_format = format_default, mi_dataspace = 0,
     mppLayer = None, acrylicAcquireFenceFd = -1, acrylicReleaseFenceFd = -1\<rparr>"

definition NUM_MPP_DST_BUFS :: nat where [code_consts]: "NUM_MPP_DST_BUFS = 3"
definition NUM_MPP_SRC_BUFS :: nat where [code_consts]: "NUM_MPP_SRC_BUFS = 15"
definition VOTF_BUF_INDEX_MAX :: u32 where [code_consts]: "VOTF_BUF_INDEX_MAX = 15"
definition MPP_BUFFER_NORMAL :: u32 where [code_consts]: "MPP_BUFFER_NORMAL = 0"
definition MPP_BUFFER_NORMAL_DRM :: u32 where [code_consts]: "MPP_BUFFER_NORMAL_DRM = 1"
definition MPP_BUFFER_SECURE_DRM :: u32 where [code_consts]: "MPP_BUFFER_SECURE_DRM = 2"
definition MPP_BUFFER_DUMP :: u32 where [code_consts]: "MPP_BUFFER_DUMP = 3"
definition FENCE_TYPE_DST_RELEASE :: u32 where [code_consts]: "FENCE_TYPE_DST_RELEASE = 3"
definition M2M_JUSTIFIED_DST_ALIGN :: int where [code_consts]: "M2M_JUSTIFIED_DST_ALIGN = 16"
definition LLWFD :: int where [code_consts]: "LLWFD = 2"

text \<open>The images of the last frame, as many as it had sources.\<close>

record frame_info =
  srcNum :: nat
  srcInfo :: "exynos_image list"
  dstInfo :: "exynos_image list"

definition frame_info_reset :: frame_info where
  "frame_info_reset = \<lparr>srcNum = 0, srcInfo = replicate NUM_MPP_SRC_BUFS image_reset,
     dstInfo = replicate NUM_MPP_SRC_BUFS image_reset\<rparr>"

record VotfInfo =
  votf_enable :: u32
  votf_dmaIndex :: u32
  votf_trsIndex :: u32
  votf_bufIndex :: u32

definition votf_init :: VotfInfo where
  "votf_init = \<lparr>votf_enable = 0, votf_dmaIndex = UINT32_MAX, votf_trsIndex = UINT32_MAX, votf_bufIndex = UINT32_MAX\<rparr>"

text \<open>
  The bits of the allocator's usage word. \<open>me_meta\<close> gives the mastering luminances in the metadata of
  a source, \<open>None\<close> when it has none, and \<open>me_meta_size\<close> their size; \<open>me_votf\<close> says that the chip's module lets its scaler hand
  pictures on without memory; \<open>me_wait\<close> is the result of waiting for a fence; \<open>me_execute\<close> is the
  accelerator's virtual \<open>execute\<close>: from the array of fences and its state to the verdict, the array,
  the fences it closed itself and the new state, \<open>None\<close> when it divides by zero or aborts.
  \<open>me_garbage\<close> is what the memory of a new layer held.
\<close>

record usage_bits =
  ub_cpu_read_often :: u64
  ub_cpu_write_often :: u64
  ub_cpu_read_never :: u64
  ub_cpu_write_never :: u64
  ub_nozeroed :: u64
  ub_composer_overlay :: u64

type_synonym execute_fun = "int list \<Rightarrow> acrylic \<Rightarrow> (bool \<times> int list \<times> int list \<times> acrylic) option"

record m2m_env =
  me_pf :: acryl_platform
  me_cap :: stHW2DCapability
  me_an :: android
  me_gr :: gralloc
  me_usage :: usage_bits
  me_meta :: "nat \<Rightarrow> (u32 \<times> u32) option"
  me_meta_size :: nat
  me_fence_debug :: "u32 \<Rightarrow> u32"
  me_votf :: bool
  me_callback :: bool
  me_wait :: "int \<Rightarrow> int"
  me_execute :: execute_fun
  me_garbage :: acryl_layer

text \<open>
  The resource. \<open>mm_answers\<close> are the answers of the allocator to come (a failure when there are none
  left), \<open>mm_returned\<close> the buffers given back to it, \<open>mm_destroyed\<close> the numbers told to the callback,
  \<open>mm_priority\<close> the requests for priority made to the driver (\<open>-1\<close> takes it back; the answer to that is
  only logged), and \<open>mm_next\<close> is above the addresses of all layers made so far.
\<close>

record m2m =
  mm_mpp :: mpp
  mm_sources :: store
  mm_tracer :: fence_tracer
  mSrcImgs :: "mpp_img_info list"
  mDstImgs :: "mpp_img_info list"
  mCurrentDstBuf :: int
  mPrivDstBuf :: int
  mPrevFrameInfo :: frame_info
  mWasUsedPrevFrame :: bool
  mAllocOutBufFlag :: bool
  mFreeOutBufFlag :: bool
  mUseM2MSrcFence :: bool
  mCurrentTargetCompressionInfoType :: u32
  mVotfInfo :: VotfInfo
  mAcrylicHandle :: "acrylic option"
  mFreedBuffers :: "mpp_img_info list"
  mStateFences :: "int list"
  dumpMidBuf :: bool
  mm_answers :: "(int \<times> buffer_handle) list"
  mm_returned :: "nat list"
  mm_destroyed :: "u64 list"
  mm_priority :: "int list"
  mm_next :: nat

section \<open>Access\<close>

definition mm_display :: "m2m \<Rightarrow> DisplayIdentifier" where
  "mm_display m = displayIdentifier (mAssignedDisplayInfo (mm_mpp m))"

definition mm_source :: "m2m \<Rightarrow> nat \<Rightarrow> mpp_source" where
  "mm_source m i = mm_sources m (mAssignedSources (mm_mpp m) ! i)"

definition mm_count :: "m2m \<Rightarrow> nat" where
  "mm_count m = length (mAssignedSources (mm_mpp m))"

definition mm_ip :: "m2m \<Rightarrow> u32" where
  "mm_ip m = getM2MIPFenceType (mPhysicalType (mm_mpp m))"

definition cur_slot :: "m2m \<Rightarrow> nat" where
  "cur_slot m = nat (mCurrentDstBuf m)"

definition upd_dst :: "nat \<Rightarrow> (mpp_img_info \<Rightarrow> mpp_img_info) \<Rightarrow> m2m \<Rightarrow> m2m" where
  "upd_dst i f m = m\<lparr>mDstImgs := (mDstImgs m)[i := f (mDstImgs m ! i)]\<rparr>"

definition upd_src :: "nat \<Rightarrow> (mpp_img_info \<Rightarrow> mpp_img_info) \<Rightarrow> m2m \<Rightarrow> m2m" where
  "upd_src i f m = m\<lparr>mSrcImgs := (mSrcImgs m)[i := f (mSrcImgs m ! i)]\<rparr>"

definition upd_mpp :: "(mpp \<Rightarrow> mpp) \<Rightarrow> m2m \<Rightarrow> m2m" where
  "upd_mpp f m = m\<lparr>mm_mpp := f (mm_mpp m)\<rparr>"

text \<open>Closing a fence writes \<open>-1\<close> over the variable it was in; that is left to the callers here.\<close>

definition mm_close :: "int \<Rightarrow> u32 \<Rightarrow> u32 \<Rightarrow> m2m \<Rightarrow> m2m" where
  "mm_close fence type ip m = m\<lparr>mm_tracer := snd (fence_close fence (mm_display m) type ip (mm_tracer m))\<rparr>"

definition mm_check_debug :: "m2m_env \<Rightarrow> u32 \<Rightarrow> u32 \<Rightarrow> int \<Rightarrow> m2m \<Rightarrow> int \<times> m2m" where
  "mm_check_debug ev type ip fence m =
    (let (fence, t) = checkFenceDebug (me_fence_debug ev) (mm_display m) type ip fence (mm_tracer m)
     in (fence, m\<lparr>mm_tracer := t\<rparr>))"

definition mm_set_fence :: "int \<Rightarrow> u32 \<Rightarrow> fence_dir \<Rightarrow> m2m \<Rightarrow> m2m" where
  "mm_set_fence fence type dir m =
    m\<lparr>mm_tracer := setFenceInfo fence (mm_display m) type (mm_ip m) dir False (mm_tracer m)\<rparr>"

definition GET_M2M_DST_ALIGN :: "m2m_env \<Rightarrow> int \<Rightarrow> int" where
  "GET_M2M_DST_ALIGN ev fmt =
    (if fmt = pf_hal (me_pf ev) HAL_PIXEL_FORMAT_RGB_565 then M2M_JUSTIFIED_DST_ALIGN * 2 else M2M_JUSTIFIED_DST_ALIGN)"

definition DEFAULT_MPP_DST_FORMAT :: "m2m_env \<Rightarrow> int" where
  "DEFAULT_MPP_DST_FORMAT ev = pf_hal (me_pf ev) HAL_PIXEL_FORMAT_RGBA_8888"

definition defaultMppDstFormat :: "m2m_env \<Rightarrow> ExynosFormat" where
  "defaultMppDstFormat ev = format_of (pf_hal (me_pf ev)) (DEFAULT_MPP_DST_FORMAT ev)"

section \<open>Buffer types and usage\<close>

definition getBufferType :: "m2m_env \<Rightarrow> bool \<Rightarrow> u64 \<Rightarrow> u32" where
  "getBufferType ev dump usage =
    (if getDrmMode (me_pf ev) usage = SECURE_DRM then MPP_BUFFER_SECURE_DRM
     else if getDrmMode (me_pf ev) usage = NORMAL_DRM then MPP_BUFFER_NORMAL_DRM
     else if dump then MPP_BUFFER_DUMP else MPP_BUFFER_NORMAL)"

definition getBufferType_handle :: "m2m_env \<Rightarrow> bool \<Rightarrow> buffer_handle \<Rightarrow> u32" where
  "getBufferType_handle ev dump handle = getBufferType ev dump (gm_usage (buffer_meta (me_gr ev) handle))"

definition getBufferUsage :: "m2m_env \<Rightarrow> bool \<Rightarrow> u64 \<Rightarrow> u64" where
  "getBufferUsage ev dump usage =
    (let b = me_usage ev; pf = me_pf ev;
         alloc = (if getBufferType ev dump usage = MPP_BUFFER_DUMP then ub_cpu_read_often b OR ub_cpu_write_often b
                  else ub_cpu_read_never b OR ub_cpu_write_never b OR ub_nozeroed b OR ub_composer_overlay b)
     in if getDrmMode pf usage = SECURE_DRM then
          (alloc OR pf_usage_protected pf) AND NOT (pf_usage_private_nonsecure pf)
        else if getDrmMode pf usage = NORMAL_DRM then
          alloc OR pf_usage_protected pf OR pf_usage_private_nonsecure pf
        else alloc)"

section \<open>Releasing buffers\<close>

definition addFreedBuffer :: "mpp_img_info \<Rightarrow> m2m \<Rightarrow> m2m" where
  "addFreedBuffer dst m = m\<lparr>mFreedBuffers := mFreedBuffers m @ [dst]\<rparr>"

definition addStateFence :: "int \<Rightarrow> m2m \<Rightarrow> m2m" where
  "addStateFence fence m = m\<lparr>mStateFences := mStateFences m @ [fence]\<rparr>"

definition freeOutBuf :: "m2m_env \<Rightarrow> mpp_img_info \<Rightarrow> m2m \<Rightarrow> int \<times> m2m" where
  "freeOutBuf ev dst m =
    (let m = (if me_callback ev
              then m\<lparr>mm_destroyed := mm_destroyed m @ [gm_buffer_id (buffer_meta (me_gr ev) (mi_bufferHandle dst))]\<rparr>
              else m)
     in (NO_ERROR, addFreedBuffer dst m))"

text \<open>Closing the two fences of a buffer that is not used any more, and giving the buffer back.\<close>

definition close_valid :: "int \<Rightarrow> u32 \<Rightarrow> u32 \<Rightarrow> m2m \<Rightarrow> m2m" where
  "close_valid fence type ip m = (if fence_valid fence then mm_close fence type ip m else m)"

definition return_buffer :: "buffer_handle \<Rightarrow> m2m \<Rightarrow> m2m" where
  "return_buffer handle m = (case handle of None \<Rightarrow> m | Some b \<Rightarrow> m\<lparr>mm_returned := b # mm_returned m\<rparr>)"

definition retire :: "mpp_img_info \<Rightarrow> m2m \<Rightarrow> m2m" where
  "retire b m =
    return_buffer (mi_bufferHandle b)
      (close_valid (acrylicReleaseFenceFd b) FENCE_TYPE_SRC_RELEASE FENCE_IP_ALL
        (close_valid (acrylicAcquireFenceFd b) FENCE_TYPE_SRC_ACQUIRE FENCE_IP_ALL m))"

definition freeBuffers :: "m2m \<Rightarrow> m2m" where
  "freeBuffers m = fold retire (mFreedBuffers m) (m\<lparr>mFreedBuffers := []\<rparr>)"

text \<open>Waits for the fences the hardware's last jobs signal; false when a wait failed.\<close>

definition checkStateFences :: "m2m_env \<Rightarrow> m2m \<Rightarrow> bool \<times> m2m" where
  "checkStateFences ev m =
    (list_all (\<lambda>fence. \<not> (fence_valid fence \<and> me_wait ev fence < 0)) (mStateFences m),
     fold (\<lambda>fence. close_valid fence FENCE_TYPE_UNDEFINED FENCE_IP_ALL) (mStateFences m) (m\<lparr>mStateFences := []\<rparr>))"

definition set_hw_state :: "u32 \<Rightarrow> m2m \<Rightarrow> m2m" where
  "set_hw_state state = upd_mpp (\<lambda>p. p\<lparr>mHWState := state\<rparr>)"

text \<open>One round of the thread's loop, after the wait for work.\<close>

definition threadLoop_round :: "m2m_env \<Rightarrow> m2m \<Rightarrow> m2m" where
  "threadLoop_round ev m =
    (let m = (if mHWState (mm_mpp m) = MPP_HW_STATE_RUNNING \<and> mStateFences m \<noteq> [] then
                (let (ok, m) = checkStateFences ev m in if ok then set_hw_state MPP_HW_STATE_IDLE m else m)
              else if mStateFences m \<noteq> [] \<and> mHWState (mm_mpp m) \<noteq> MPP_HW_STATE_RUNNING then
                snd (checkStateFences ev m)
              else m)
     in if mFreedBuffers m \<noteq> [] then freeBuffers m else m)"

section \<open>Allocating a destination\<close>

definition allocate :: "m2m \<Rightarrow> int \<times> buffer_handle \<times> m2m" where
  "allocate m = (case mm_answers m of
     [] \<Rightarrow> (- ENOMEM, None, m)
   | (err, handle) # rest \<Rightarrow> (err, handle, m\<lparr>mm_answers := rest\<rparr>))"

text \<open>The end of \<open>allocOutBuf\<close>: the new buffer takes the slot and the old one is given away.\<close>

definition install_buffer ::
  "m2m_env \<Rightarrow> nat \<Rightarrow> buffer_handle \<Rightarrow> u64 \<Rightarrow> int \<Rightarrow> bool \<Rightarrow> mpp_img_info \<Rightarrow> m2m \<Rightarrow> m2m" where
  "install_buffer ev index handle usage fmt freed old m =
    (let m = upd_dst index (\<lambda>_. img_info_reset\<lparr>mi_bufferHandle := handle,
               mi_bufferType := getBufferType ev (dumpMidBuf m) usage,
               mi_format := format_of (pf_hal (me_pf ev)) fmt\<rparr>) m
     in if freed then m
        else if mi_bufferHandle old \<noteq> None then snd (freeOutBuf ev old m)
        else if display_set (mAssignedDisplayInfo (mm_mpp m)) then
          mm_close (acrylicReleaseFenceFd old) FENCE_TYPE_DST_RELEASE (mm_ip m)
            (mm_close (acrylicAcquireFenceFd old) FENCE_TYPE_DST_ACQUIRE (mm_ip m) m)
        else m)"

text \<open>
  The width, height, format word and usage only reach the allocator. When the first attempt fails and
  the slot holds a buffer, that buffer is given back and the attempt is repeated; when the slot holds
  none, the failure is not reported.
\<close>

definition allocOutBuf :: "m2m_env \<Rightarrow> u32 \<Rightarrow> u32 \<Rightarrow> int \<Rightarrow> u64 \<Rightarrow> nat \<Rightarrow> m2m \<Rightarrow> int \<times> m2m" where
  "allocOutBuf ev w h fmt usage index m =
    (if index \<ge> NUM_MPP_DST_BUFS then (- EINVAL, m)
     else
       (let old = mDstImgs m ! index;
            (err, handle, m) = allocate m
        in if (err \<noteq> NO_ERROR \<or> handle = None) \<and> mi_bufferHandle old \<noteq> None then
             (let (err, handle, m) = allocate (retire old m)
              in if err \<noteq> NO_ERROR \<or> handle = None then (- EINVAL, m)
                 else (NO_ERROR, install_buffer ev index handle usage fmt True img_info_reset m))
           else (NO_ERROR, install_buffer ev index handle usage fmt False old m)))"

section \<open>Comparing with the last frame\<close>

definition canUseVotf :: "m2m_env \<Rightarrow> exynos_image \<Rightarrow> m2m \<Rightarrow> bool" where
  "canUseVotf ev src m \<longleftrightarrow>
     me_votf ev \<and> mPhysicalType (mm_mpp m) = MPP_MSC \<and>
     transform src AND pf_rot_90 (me_pf ev) = 0 \<and> img_w src = 7680"

definition needDstBufRealloc :: "m2m_env \<Rightarrow> exynos_image \<Rightarrow> nat \<Rightarrow> m2m \<Rightarrow> bool" where
  "needDstBufRealloc ev dst index m =
    (if index \<ge> NUM_MPP_DST_BUFS then False
     else
       (let slot = mDstImgs m ! index; hal = pf_hal (me_pf ev) in
        if mi_bufferHandle slot = None then True
        else if \<not> display_set (mAssignedDisplayInfo (mm_mpp m)) then False
        else
          (let g = buffer_meta (me_gr ev) (mi_bufferHandle slot) in
           mPrevAssignedDisplayType (mm_mpp m) \<noteq> sint (di_type (mm_display m)) \<or>
           formatToBpp hal (gm_format g) < fmt_bpp (exynosFormat dst) \<or>
           gm_stride g * gm_vstride g < sint (fullWidth dst * fullHeight dst) \<or>
           (\<not> isFormatSBWC hal (gm_format g) \<and> fmt_isSBWC (exynosFormat dst)) \<or>
           mi_bufferType slot \<noteq> getBufferType ev (dumpMidBuf m) (usageFlags dst))))"

text \<open>What must agree for a picture to be shown again.\<close>

definition same_src_image :: "exynos_image \<Rightarrow> exynos_image \<Rightarrow> bool" where
  "same_src_image a b \<longleftrightarrow>
     bufferHandle a = bufferHandle b \<and> img_x a = img_x b \<and> img_y a = img_y b \<and> img_w a = img_w b \<and> img_h a = img_h b \<and>
     \<not> fmt_neq (exynosFormat a) (exynosFormat b) \<and> usageFlags a = usageFlags b \<and> dataSpace a = dataSpace b \<and>
     blending a = blending b \<and> transform a = transform b \<and> ci_type (compressionInfo a) = ci_type (compressionInfo b) \<and>
     planeAlpha a = planeAlpha b \<and> layerFlags a = layerFlags b \<and> img_color a = img_color b"

definition same_dst_image :: "exynos_image \<Rightarrow> exynos_image \<Rightarrow> bool" where
  "same_dst_image a b \<longleftrightarrow>
     img_x a = img_x b \<and> img_y a = img_y b \<and> img_w a = img_w b \<and> img_h a = img_h b \<and>
     \<not> fmt_neq (exynosFormat a) (exynosFormat b)"

definition prev_slot :: "m2m \<Rightarrow> int" where
  "prev_slot m = (mCurrentDstBuf m + int NUM_MPP_DST_BUFS - 1) mod int NUM_MPP_DST_BUFS"

definition canUsePrevFrame :: "m2m_env \<Rightarrow> exynos_image \<Rightarrow> m2m \<Rightarrow> bool" where
  "canUsePrevFrame ev src m =
    (if canUseVotf ev src m then False
     else if skipM2mProcessing (mAssignedDisplayInfo (mm_mpp m)) = False then False
     else if mAllocOutBufFlag m = False then False
     else if srcNum (mPrevFrameInfo m) \<noteq> mm_count m then False
     else if list_ex (\<lambda>i. \<not> (same_src_image (srcInfo (mPrevFrameInfo m) ! i) (mSrcImg (mm_source m i)) \<and>
                            same_dst_image (dstInfo (mPrevFrameInfo m) ! i) (mMidImg (mm_source m i))))
               [0..<srcNum (mPrevFrameInfo m)] then False
     else mi_bufferHandle (mDstImgs m ! nat (prev_slot m)) \<noteq> None)"

section \<open>The ring of destinations\<close>

definition slot_valid :: "int \<Rightarrow> bool" where
  "slot_valid i \<longleftrightarrow> 0 \<le> i \<and> i < int NUM_MPP_DST_BUFS"

definition increaseDstBuffIndex :: "m2m \<Rightarrow> m2m" where
  "increaseDstBuffIndex m =
    (if mAllocOutBufFlag m then m\<lparr>mCurrentDstBuf := (mCurrentDstBuf m + 1) mod int NUM_MPP_DST_BUFS\<rparr> else m)"

text \<open>The image of the current destination, or the caller's image unchanged; \<open>None\<close> without any source.\<close>

definition getDstImageInfo :: "m2m_env \<Rightarrow> m2m \<Rightarrow> exynos_image \<Rightarrow> (int \<times> exynos_image) option" where
  "getDstImageInfo ev m img =
    (if \<not> slot_valid (mCurrentDstBuf m) \<or> \<not> display_set (mAssignedDisplayInfo (mm_mpp m)) then Some (- EINVAL, img)
     else
       (let slot = mDstImgs m ! cur_slot m; d = mAssignedDisplayInfo (mm_mpp m) in
        if mi_bufferHandle slot = None then
          Some (- EFAULT, image_reset\<lparr>acquireFenceFd := -1, releaseFenceFd := -1\<rparr>)
        else if mMaxSrcLayerNum (mm_mpp m) \<le> 1 \<and> mm_count m = 0 then None
        else
          (let align = GET_M2M_DST_ALIGN ev (fmt_halFormat (pf_hal (me_pf ev)) (mi_format slot));
               img = image_reset\<lparr>bufferHandle := mi_bufferHandle slot,
                 fullWidth := word_of_int (pixel_align (sint (xres d)) align),
                 fullHeight := word_of_int (pixel_align (sint (yres d)) align)\<rparr>;
               part = (\<lambda>a. img\<lparr>img_x := img_x a, img_y := img_y a, img_w := img_w a, img_h := img_h a\<rparr>);
               img = (if mMaxSrcLayerNum (mm_mpp m) > 1 then
                        (if mm_count m = 1 then part (mDstImg (mm_source m 0))
                         else img\<lparr>img_x := 0, img_y := 0, img_w := xres d, img_h := yres d\<rparr>)
                      else (part (mMidImg (mm_source m 0)))\<lparr>needColorTransform := needColorTransform (mMidImg (mm_source m 0))\<rparr>)
           in Some (NO_ERROR, img\<lparr>exynosFormat := mi_format slot, acquireFenceFd := acrylicAcquireFenceFd slot,
                releaseFenceFd := acrylicReleaseFenceFd slot, dataSpace := mi_dataspace slot\<rparr>))))"

text \<open>
  The fence of a buffer that was on the screen goes to the slot of the frame before; the slot of this
  frame is remembered for the next call.
\<close>

definition setDstReleaseFence :: "m2m_env \<Rightarrow> int \<Rightarrow> DisplayInfo \<Rightarrow> m2m \<Rightarrow> int \<times> m2m" where
  "setDstReleaseFence ev releaseFence display m =
    (let idx = mPrivDstBuf m;
         m = (if \<not> display_set (mAssignedDisplayInfo (mm_mpp m))
              then upd_mpp (\<lambda>p. p\<lparr>mAssignedDisplayInfo := display\<rparr>) m else m)
     in if \<not> slot_valid idx then
          (- EINVAL, (mm_close releaseFence FENCE_TYPE_DST_RELEASE FENCE_IP_ALL m)\<lparr>mPrivDstBuf := mCurrentDstBuf m\<rparr>)
        else
          (let old = acrylicReleaseFenceFd (mDstImgs m ! nat idx);
               m = (if old \<ge> 0 then mm_close old FENCE_TYPE_DST_RELEASE FENCE_IP_ALL m else m);
               (fence, m) = mm_check_debug ev FENCE_TYPE_DST_RELEASE (mm_ip m) releaseFence m;
               m = upd_dst (nat idx) (\<lambda>b. b\<lparr>acrylicReleaseFenceFd := fence\<rparr>) m
           in (NO_ERROR, m\<lparr>mPrivDstBuf := mCurrentDstBuf m\<rparr>)))"

definition resetDstAcquireFence :: "m2m \<Rightarrow> int \<times> m2m" where
  "resetDstAcquireFence m =
    (if \<not> slot_valid (mCurrentDstBuf m) then (- EINVAL, m)
     else (NO_ERROR, upd_dst (cur_slot m) (\<lambda>b. b\<lparr>acrylicAcquireFenceFd := -1\<rparr>) m))"

definition setOutBuf :: "m2m_env \<Rightarrow> buffer_handle \<Rightarrow> int \<Rightarrow> DisplayInfo \<Rightarrow> m2m \<Rightarrow> int \<times> m2m" where
  "setOutBuf ev outbuf fence display m =
    (let m = upd_dst (cur_slot m) (\<lambda>b. b\<lparr>mi_bufferHandle := None\<rparr>) m;
         m = (if outbuf \<noteq> None
              then upd_dst (cur_slot m) (\<lambda>b. b\<lparr>mi_bufferHandle := outbuf,
                     mi_format := format_of (pf_hal (me_pf ev)) (buffer_format (me_gr ev) outbuf)\<rparr>) m
              else m)
     in (NO_ERROR, snd (setDstReleaseFence ev fence display m)))"

definition getSrcReleaseFence :: "nat \<Rightarrow> m2m \<Rightarrow> int" where
  "getSrcReleaseFence i m = (if i \<ge> NUM_MPP_SRC_BUFS then - EINVAL else acrylicReleaseFenceFd (mSrcImgs m ! i))"

definition resetSrcReleaseFence :: "m2m \<Rightarrow> int \<times> m2m" where
  "resetSrcReleaseFence m =
    (NO_ERROR, fold (\<lambda>i. upd_src i (\<lambda>b. b\<lparr>acrylicReleaseFenceFd := -1\<rparr>)) [0..<mm_count m] m)"

text \<open>After a failed frame: everything still held is closed.\<close>

definition close_src :: "nat \<Rightarrow> m2m \<Rightarrow> m2m" where
  "close_src i m =
    (let b = mSrcImgs m ! i;
         m = mm_close (acrylicAcquireFenceFd b) FENCE_TYPE_SRC_ACQUIRE FENCE_IP_G2D m;
         m = mm_close (acrylicReleaseFenceFd b) FENCE_TYPE_SRC_RELEASE FENCE_IP_G2D m
     in upd_src i (\<lambda>b. b\<lparr>acrylicAcquireFenceFd := -1, acrylicReleaseFenceFd := -1\<rparr>) m)"

definition mpp_closeFences :: "m2m \<Rightarrow> m2m" where
  "mpp_closeFences m =
    (let m = fold close_src [0..<mm_count m] m;
         b = mDstImgs m ! cur_slot m;
         m = mm_close (acrylicAcquireFenceFd b) FENCE_TYPE_DST_ACQUIRE FENCE_IP_G2D m;
         m = mm_close (acrylicReleaseFenceFd b) FENCE_TYPE_DST_RELEASE FENCE_IP_G2D m
     in upd_dst (cur_slot m) (\<lambda>b. b\<lparr>acrylicAcquireFenceFd := -1, acrylicReleaseFenceFd := -1\<rparr>) m)"

section \<open>Pictures that are not written to memory\<close>

definition enableVotfInfo :: "m2m \<Rightarrow> VotfInfo \<Rightarrow> int \<times> VotfInfo \<times> m2m" where
  "enableVotfInfo m info =
    (if mMPPType (mm_mpp m) \<noteq> MPP_TYPE_OTF then (- EINVAL, info, m)
     else
       (let v = (mVotfInfo m)\<lparr>votf_enable := 1, votf_bufIndex := votf_bufIndex (mVotfInfo m) + 1\<rparr>;
            v = (if votf_bufIndex v \<ge> VOTF_BUF_INDEX_MAX then v\<lparr>votf_bufIndex := 0\<rparr> else v)
        in (NO_ERROR, v, m\<lparr>mVotfInfo := v\<rparr>)))"

definition setVotfInfo :: "VotfInfo \<Rightarrow> m2m \<Rightarrow> int \<times> m2m" where
  "setVotfInfo info m =
    (if mMPPType (mm_mpp m) \<noteq> MPP_TYPE_M2M then (- EINVAL, m) else (NO_ERROR, m\<lparr>mVotfInfo := info\<rparr>))"

definition clearVotfInfo :: "m2m \<Rightarrow> int \<times> m2m" where
  "clearVotfInfo m = (NO_ERROR, m\<lparr>mVotfInfo := (mVotfInfo m)\<lparr>votf_enable := 0\<rparr>\<rparr>)"

section \<open>States of the hardware\<close>

text \<open>A request for priority that takes it back: the driver is told, its answer only logged.\<close>

definition drop_priority :: "m2m \<Rightarrow> m2m" where
  "drop_priority m =
    (if mPhysicalType (mm_mpp m) \<noteq> MPP_G2D \<or> mAcrylicHandle m = None then m
     else m\<lparr>mm_priority := mm_priority m @ [-1]\<rparr>)"

text \<open>Emptying a destination: its fences stay, the buffer is released unless the resource keeps it.\<close>

definition release_slot :: "m2m_env \<Rightarrow> nat \<Rightarrow> m2m \<Rightarrow> m2m" where
  "release_slot ev i m =
    (let old = mDstImgs m ! i;
         kept = img_info_reset\<lparr>acrylicAcquireFenceFd := acrylicAcquireFenceFd old,
                               acrylicReleaseFenceFd := acrylicReleaseFenceFd old\<rparr>;
         gone = old\<lparr>acrylicAcquireFenceFd := -1, acrylicReleaseFenceFd := -1\<rparr>
     in if mFreeOutBufFlag m then
          (let m = upd_dst i (\<lambda>_. kept) m
           in if mi_bufferHandle gone \<noteq> None \<and> mAllocOutBufFlag m then snd (freeOutBuf ev gone m) else m)
        else upd_dst i (\<lambda>_. kept\<lparr>mi_bufferHandle := mi_bufferHandle gone, mi_bufferType := mi_bufferType gone\<rparr>) m)"

definition delete_layer :: "nat \<Rightarrow> m2m \<Rightarrow> m2m" where
  "delete_layer i m =
    (case mppLayer (mSrcImgs m ! i) of None \<Rightarrow> m
     | Some a \<Rightarrow> upd_src i (\<lambda>b. b\<lparr>mppLayer := None\<rparr>) (m\<lparr>mAcrylicHandle := map_option (destroy_layer a) (mAcrylicHandle m)\<rparr>))"

definition requestHWStateChange :: "m2m_env \<Rightarrow> u32 \<Rightarrow> m2m \<Rightarrow> int \<times> m2m" where
  "requestHWStateChange ev state m =
    (NO_ERROR,
     if mHWState (mm_mpp m) = state then
       (if mPhysicalType (mm_mpp m) = MPP_G2D \<and> state = MPP_HW_STATE_IDLE \<and> \<not> mHWBusyFlag (mm_mpp m)
        then drop_priority m else m)
     else if state = MPP_HW_STATE_RUNNING then set_hw_state MPP_HW_STATE_RUNNING m
     else if state = MPP_HW_STATE_IDLE then
       (let m = (if mLastStateFenceFd (mm_mpp m) \<ge> 0 then addStateFence (mLastStateFenceFd (mm_mpp m)) m
                 else set_hw_state MPP_HW_STATE_IDLE m);
            m = upd_mpp (\<lambda>p. p\<lparr>mLastStateFenceFd := -1\<rparr>) m;
            m = (if mPhysicalType (mm_mpp m) = MPP_G2D \<and> \<not> mHWBusyFlag (mm_mpp m) then drop_priority m else m);
            m = (if mMPPType (mm_mpp m) = MPP_TYPE_M2M then fold (release_slot ev) [0..<NUM_MPP_DST_BUFS] m else m);
            m = fold delete_layer [0..<NUM_MPP_SRC_BUFS] m
        in m\<lparr>mPrevFrameInfo := frame_info_reset\<rparr>)
     else m)"

definition setHWStateFence :: "int \<Rightarrow> m2m \<Rightarrow> int \<times> m2m" where
  "setHWStateFence fence m = (NO_ERROR, upd_mpp (\<lambda>p. p\<lparr>mLastStateFenceFd := fence\<rparr>) m)"

end
