(* ===== verification/AcrylExecute.thy ===== *)
theory AcrylExecute
  imports AcrylFrame
begin

text \<open>
  Running a frame on an accelerator (\<open>execute\<close> of the 2D engine, \<open>base/libacryl/acrylic_g2d9810.cpp\<close>,
  and of the scaler, \<open>base/libacryl/acrylic_mscl9810.cpp\<close>): the checks before the driver is called and
  what happens to the fences and the settings afterwards. The words written for the driver are not
  modelled: whether they could be composed and what the driver answered is an argument. A result is
  the verdict, the array of fences, the fences closed on the way and the new state; \<open>None\<close> stands for a
  division by zero in the checks or a failed assertion.
\<close>

section \<open>The interface\<close>

type_synonym execution = "(bool \<times> int list \<times> int list \<times> acrylic) option"

text \<open>
  What a client may rely on: on a reachable state with one to \<open>most\<close> layers the call comes back, the
  array keeps its length, the state stays reachable and keeps its layers, a frame that is accepted had
  passed the checks, and the acquire fences of an accepted frame have been taken.
\<close>

locale backend =
  fixes pf :: acryl_platform and cap :: stHW2DCapability and most :: nat and exec :: "int list \<Rightarrow> acrylic \<Rightarrow> execution"
  assumes exec_total: "cap \<in> factory_caps pf \<Longrightarrow> acryl_reach pf cap ac \<Longrightarrow> mLayers ac \<noteq> [] \<Longrightarrow>
      length (mLayers ac) \<le> most \<Longrightarrow> exec fence ac \<noteq> None"
    and exec_length: "exec fence ac = Some (ok, fence', cl, ac') \<Longrightarrow> length fence' = length fence"
    and exec_reach: "acryl_reach pf cap ac \<Longrightarrow> mLayers ac \<noteq> [] \<Longrightarrow>
      exec fence ac = Some (ok, fence', cl, ac') \<Longrightarrow> acryl_reach pf cap ac'"
    and exec_layers: "exec fence ac = Some (ok, fence', cl, ac') \<Longrightarrow> mset (mLayers ac') = mset (mLayers ac)"
    and exec_checked: "exec fence ac = Some (True, fence', cl, ac') \<Longrightarrow> validateAllLayers pf cap ac = Some True"
    and exec_fences: "exec fence ac = Some (True, fence', cl, ac') \<Longrightarrow> a \<in> set (mLayers ac') \<Longrightarrow>
      mFence (ac_store ac' a) = -1"
begin

text \<open>Every layer of a frame that is accepted is safe for the hardware.\<close>

lemma accepted_layers:
  assumes "acryl_reach pf cap ac" "cap \<in> factory_caps pf" "exec fence ac = Some (True, fence', cl, ac')"
    and "a \<in> set (mLayers ac)"
  shows "layer_safe pf cap (mImageDimension (ac_canvas ac)) (ac_store ac a)"
proof -
  have "acryl_inv pf cap ac" using factory.reach_inv[OF assms(1,2)] .
  then have "layer_ok pf cap (ac_store ac a)" using assms(4) by (simp add: acryl_inv_def)
  then show ?thesis
    using validate_layer_safe validateAllLayers_true(3)[OF exec_checked[OF assms(3)] assms(4)] by blast
qed

end

section \<open>Reaching states through the layers\<close>

definition on_layer :: "nat \<Rightarrow> (acryl_layer \<Rightarrow> acryl_layer) \<Rightarrow> acrylic \<Rightarrow> acrylic" where
  "on_layer a f ac = ac\<lparr>ac_store := (ac_store ac)(a := f (ac_store ac a))\<rparr>"

lemma on_layer_fields [simp]:
  "mLayers (on_layer a f ac) = mLayers ac" "ac_canvas (on_layer a f ac) = ac_canvas ac"
  "ac_store (on_layer a f ac) b = (if b = a then f (ac_store ac a) else ac_store ac b)"
  by (simp_all add: on_layer_def)

lemma reach_layer:
  assumes "(layer_op pf cap)\<^sup>*\<^sup>* (ac_store ac a) (f (ac_store ac a))" "acryl_reach pf cap ac" "a \<in> set (mLayers ac)"
  shows "acryl_reach pf cap (on_layer a f ac)"
proof -
  have "acryl_reach pf cap (ac\<lparr>ac_store := (ac_store ac)(a := l)\<rparr>)"
    if "(layer_op pf cap)\<^sup>*\<^sup>* (ac_store ac a) l" for l
    using that
  proof (induction rule: rtranclp_induct)
    case base
    then show ?case using assms(2) by simp
  next
    case (step l l')
    let ?ac = "ac\<lparr>ac_store := (ac_store ac)(a := l)\<rparr>"
    have "acryl_step pf cap ?ac (?ac\<lparr>ac_store := (ac_store ?ac)(a := l')\<rparr>)"
      using step_layer[of a ?ac pf cap l'] step(2) assms(3) by simp
    moreover have "?ac\<lparr>ac_store := (ac_store ?ac)(a := l')\<rparr> = ac\<lparr>ac_store := (ac_store ac)(a := l')\<rparr>"
      by (cases ac) simp
    ultimately show ?case using reach_step[OF step.IH] by metis
  qed
  from this[OF assms(1)] show ?thesis by (simp only: on_layer_def)
qed

lemma reach_canvas:
  "acryl_reach pf cap ac \<Longrightarrow> canvas_op pf cap (ac_canvas ac) c \<Longrightarrow> acryl_reach pf cap (ac\<lparr>ac_canvas := c\<rparr>)"
  using reach_step step_canvas by blast

section \<open>Fences and settings\<close>

definition on_layers :: "(acryl_layer \<Rightarrow> acryl_layer) \<Rightarrow> acrylic \<Rightarrow> acrylic" where
  "on_layers f ac = fold (\<lambda>a. on_layer a f) (mLayers ac) ac"

definition drop_fences :: "acrylic \<Rightarrow> acrylic" where
  "drop_fences ac = (let ac = on_layers (setFence (-1)) ac in ac\<lparr>ac_canvas := setFence (-1) (ac_canvas ac)\<rparr>)"

definition finish_settings :: "acrylic \<Rightarrow> acrylic" where
  "finish_settings ac =
    (let ac = ac\<lparr>ac_canvas := setFence (-1) (clearSettingModified (ac_canvas ac))\<rparr>
     in on_layers (\<lambda>l. setFence (-1) (clearSettingModified l)) ac)"

section \<open>The 2D engine\<close>

text \<open>\<open>std::sort\<close> with stable ties: one of the orders the code may produce.\<close>

definition stable_sort :: "acrylic \<Rightarrow> acrylic" where
  "stable_sort ac = ac\<lparr>mLayers := sort_key (\<lambda>a. mZOrder (ac_store ac a)) (mLayers ac)\<rparr>"

text \<open>
  \<open>dv_sbwc\<close>: the format table calls the target compressed, which asks for a background;
  \<open>dv_realloc\<close>: memory for the sources was there; \<open>dv_sort\<close>: \<open>std::sort\<close>; \<open>dv_prepared\<close>: every image and
  colour conversion could be described; \<open>dv_ioctl\<close>, \<open>dv_error\<close>: the driver took the task, and the error
  flag it left; \<open>dv_fences\<close>: its release fences.
\<close>

record g2d_device =
  dv_sbwc :: "u32 \<Rightarrow> bool"
  dv_realloc :: bool
  dv_sort :: "acrylic \<Rightarrow> acrylic"
  dv_prepared :: "acrylic \<Rightarrow> bool"
  dv_ioctl :: bool
  dv_error :: bool
  dv_fences :: "nat \<Rightarrow> int"

definition executeG2D ::
  "acryl_platform \<Rightarrow> stHW2DCapability \<Rightarrow> g2d_device \<Rightarrow> int list \<Rightarrow> acrylic \<Rightarrow> (bool \<times> int list \<times> acrylic) option" where
  "executeG2D pf cap dv fence ac =
    (case validateAllLayers pf cap ac of
       None \<Rightarrow> None
     | Some valid \<Rightarrow> Some
        (if \<not> valid then (False, fence, ac)
         else
           (let count = length (mLayers ac);
                fence = map (\<lambda>i. if i \<ge> count then -1 else fence ! i) [0..<length fence];
                num_fences = min (length fence) (count + 1);
                background = (mHasBackgroundColor ac \<or> dv_sbwc dv (mPixFormat (ac_canvas ac)))
            in if background \<and> count + 1 > max_layers cap then (False, fence, ac)
               else if \<not> dv_realloc dv then (False, fence, ac)
               else
                 (let ac = dv_sort dv ac in
                  if \<not> dv_prepared dv ac \<or> \<not> dv_ioctl dv \<or> dv_error dv then (False, fence, ac)
                  else (True, map (\<lambda>i. if i < num_fences then dv_fences dv i else fence ! i) [0..<length fence],
                        finish_settings ac)))))"

definition execute_g2d :: "acryl_platform \<Rightarrow> stHW2DCapability \<Rightarrow> g2d_device \<Rightarrow> int list \<Rightarrow> acrylic \<Rightarrow> execution" where
  "execute_g2d pf cap dv fence ac =
    (case executeG2D pf cap dv fence ac of
       None \<Rightarrow> None
     | Some (ok, fence, ac) \<Rightarrow> Some (ok, fence, [], if ok then ac else drop_fences ac))"

section \<open>The scaler\<close>

text \<open>
  \<open>sv_ready\<close>: the previous job has ended and the modes of both ends could be set; \<open>sv_votf\<close>: the hardware
  can hand the picture on without memory; \<open>sv_wants_votf\<close>: the layer's data at an address ask for it;
  \<open>sv_source\<close>, \<open>sv_target\<close>: whether the driver took the buffer, and the fence it left.
\<close>

record mscl_device =
  sv_ready :: "acrylic \<Rightarrow> bool"
  sv_votf :: bool
  sv_wants_votf :: "nat \<Rightarrow> bool"
  sv_source :: "bool \<times> int"
  sv_target :: "bool \<times> int"

definition isVotf :: "mscl_device \<Rightarrow> acryl_layer \<Rightarrow> bool" where
  "isVotf dv l = (case mLayerData l of None \<Rightarrow> False | Some (data, len) \<Rightarrow> len = 16 \<and> sv_wants_votf dv data)"

text \<open>Handing one buffer to the driver: success, the release fence (the caller's value when the driver has none).\<close>

definition queueBuffer :: "bool \<Rightarrow> bool \<times> int \<Rightarrow> bool \<Rightarrow> int \<Rightarrow> 'a canvas_scheme \<Rightarrow> bool \<times> int \<times> 'a canvas_scheme" where
  "queueBuffer refused answer needReleaseFence fence c =
    (if refused then (False, fence, c)
     else if \<not> fst answer then (False, fence, setFence (-1) c)
     else (True, if mFence c \<ge> 0 \<or> needReleaseFence then snd answer else fence, setFence (-1) c))"

definition close_open :: "int \<Rightarrow> int list" where
  "close_open fd = (if fd \<ge> 0 then [fd] else [])"

text \<open>Both buffers; the fences of the array beyond the two images are cleared, unwanted ones closed.\<close>

definition queueBuffers ::
  "mscl_device \<Rightarrow> int list \<Rightarrow> acrylic \<Rightarrow> bool \<times> int list \<times> int list \<times> acrylic" where
  "queueBuffers dv fence ac =
    (let n = length fence; a = mLayers ac ! 0;
         (ok, src_fence, l) = queueBuffer False (sv_source dv) (n > 0) (-1) (ac_store ac a);
         votf = isVotf dv l;
         ac = ac\<lparr>ac_store := (ac_store ac)(a := l)\<rparr>;
         (done, dst_fence, c) = (if ok then queueBuffer (\<not> sv_votf dv \<and> votf) (sv_target dv) (n > 1) (-1) (ac_canvas ac)
                                 else (False, -1, ac_canvas ac));
         closed = (if ok \<and> \<not> done then close_open src_fence else []);
         max_fences = (if done then min n 2 else 0);
         out = map (\<lambda>i. if i < max_fences then [src_fence, dst_fence] ! i else -1) [0..<n];
         closed = (if done then concat (map (\<lambda>j. close_open ([src_fence, dst_fence] ! j)) [max_fences..<2]) else closed);
         ac = ac\<lparr>ac_canvas := setFence (-1) (clearSettingModified c),
                 ac_store := (ac_store ac)(a := setFence (-1) (clearSettingModified (ac_store ac a)))\<rparr>
     in (done, out, closed, ac))"

definition execute_mscl :: "acryl_platform \<Rightarrow> stHW2DCapability \<Rightarrow> mscl_device \<Rightarrow> int list \<Rightarrow> acrylic \<Rightarrow> execution" where
  "execute_mscl pf cap dv fence ac =
    (case validateAllLayers pf cap ac of
       None \<Rightarrow> None
     | Some valid \<Rightarrow>
        (if \<not> valid then Some (False, fence, [], ac)
         else if length (mLayers ac) \<noteq> 1 then None
         else if \<not> sv_ready dv ac then Some (False, fence, [], ac)
         else Some (queueBuffers dv fence ac)))"


section \<open>The back ends keep the contract\<close>

lemma on_layers_layers [simp]: "mLayers (on_layers f ac) = mLayers ac" "ac_canvas (on_layers f ac) = ac_canvas ac"
proof -
  have "mLayers (fold (\<lambda>a. on_layer a f) xs ac) = mLayers ac \<and>
    ac_canvas (fold (\<lambda>a. on_layer a f) xs ac) = ac_canvas ac" for xs
    by (induction xs arbitrary: ac) simp_all
  then show "mLayers (on_layers f ac) = mLayers ac" "ac_canvas (on_layers f ac) = ac_canvas ac"
    by (simp_all add: on_layers_def)
qed

lemma on_layers_reach:
  assumes "\<And>l. (layer_op pf cap)\<^sup>*\<^sup>* l (f l)" "acryl_reach pf cap ac"
  shows "acryl_reach pf cap (on_layers f ac)"
proof -
  have "acryl_reach pf cap (fold (\<lambda>a. on_layer a f) xs ac)"
    if "set xs \<subseteq> set (mLayers ac)" for xs
    using that assms(2)
  proof (induction xs arbitrary: ac)
    case (Cons a xs)
    have "acryl_reach pf cap (on_layer a f ac)"
      by (rule reach_layer[where f = f, OF assms(1) Cons.prems(2)]) (use Cons.prems(1) in simp)
    from Cons.IH[OF _ this] Cons.prems(1) show ?case by simp
  qed simp
  then show ?thesis by (simp add: on_layers_def)
qed

lemma on_layers_all:
  assumes "\<And>l. P (f l)" "a \<in> set (mLayers ac)"
  shows "P (ac_store (on_layers f ac) a)"
proof -
  let ?g = "\<lambda>a. on_layer a f"
  have "P (ac_store (fold ?g xs ac) a)" if "a \<in> set xs \<or> P (ac_store ac a)" for xs ac
    using that
  proof (induction xs arbitrary: ac)
    case (Cons b xs)
    have "a \<in> set xs \<or> P (ac_store (?g b ac) a)" using Cons.prems assms(1) by auto
    from Cons.IH[OF this] show ?case by simp
  qed simp
  then show ?thesis using assms(2) by (simp add: on_layers_def)
qed

lemma setFence_op: "(layer_op pf cap)\<^sup>*\<^sup>* l (setFence x l)"
  by (intro r_into_rtranclp lop_canvas op_fence)

lemma finish_op: "(layer_op pf cap)\<^sup>*\<^sup>* l (setFence x (clearSettingModified l))"
  by (rule converse_rtranclp_into_rtranclp[OF lop_canvas[OF op_clear_modified] setFence_op])

lemma drop_fences_reach: "acryl_reach pf cap ac \<Longrightarrow> acryl_reach pf cap (drop_fences ac)"
  unfolding drop_fences_def Let_def
  by (intro reach_canvas[OF _ op_fence] on_layers_reach setFence_op)

lemma finish_settings_reach:
  assumes "acryl_reach pf cap ac"
  shows "acryl_reach pf cap (finish_settings ac)"
proof -
  have "acryl_reach pf cap (ac\<lparr>ac_canvas := setFence (-1) (clearSettingModified (ac_canvas ac))\<rparr>)"
    using reach_canvas[OF reach_canvas[OF assms op_clear_modified] op_fence, of "-1"] by simp
  from on_layers_reach[OF finish_op this] show ?thesis by (simp add: finish_settings_def)
qed

lemma stable_sort_sorts: "sortLayers ac (stable_sort ac)"
  by (auto simp: sortLayers_def stable_sort_def)

lemma executeG2D_cases:
  assumes "executeG2D pf cap dv fence ac = Some (ok, fence', ac')" "\<And>ac. sortLayers ac (dv_sort dv ac)"
  shows "length fence' = length fence \<and> mset (mLayers ac') = mset (mLayers ac)"
    and "acryl_reach pf cap ac \<Longrightarrow> acryl_reach pf cap ac'"
    and "ok \<Longrightarrow> validateAllLayers pf cap ac = Some True \<and> (\<exists>ac0. ac' = finish_settings ac0)"
proof -
  have mset: "mset (mLayers (dv_sort dv ac)) = mset (mLayers ac)"
    using assms(2)[of ac] by (auto simp: sortLayers_def)
  have sorted: "acryl_reach pf cap (dv_sort dv ac)" if "acryl_reach pf cap ac"
    using reach_step[OF that step_sort[OF assms(2)]] .
  show "length fence' = length fence \<and> mset (mLayers ac') = mset (mLayers ac)"
    using assms(1) mset by (auto simp: executeG2D_def Let_def finish_settings_def split: option.splits if_splits)
  show "acryl_reach pf cap ac \<Longrightarrow> acryl_reach pf cap ac'"
    using assms(1) sorted finish_settings_reach
    by (auto simp: executeG2D_def Let_def split: option.splits if_splits)
  show "ok \<Longrightarrow> validateAllLayers pf cap ac = Some True \<and> (\<exists>ac0. ac' = finish_settings ac0)"
    using assms(1) by (auto simp: executeG2D_def Let_def split: option.splits if_splits)
qed

lemma finish_settings_fence: "a \<in> set (mLayers ac) \<Longrightarrow> mFence (ac_store (finish_settings ac) a) = -1"
  unfolding finish_settings_def Let_def
  by (rule on_layers_all[where P = "\<lambda>l. mFence l = -1"]) (simp_all add: setFence_def)

lemma finish_settings_layers [simp]: "mLayers (finish_settings ac) = mLayers ac"
  by (simp add: finish_settings_def)

lemma drop_fences_layers [simp]: "mLayers (drop_fences ac) = mLayers ac"
  by (simp add: drop_fences_def Let_def)

lemma validate_reachable:
  assumes "cap \<in> factory_caps pf" "acryl_reach pf cap ac"
  shows "validateAllLayers pf cap ac \<noteq> None"
proof -
  have "acryl_inv pf cap ac" using factory.reach_inv[OF assms(2,1)] .
  then have "0 < hori (mImageDimension (ac_canvas ac))" "0 < vert (mImageDimension (ac_canvas ac))"
    by (simp_all add: acryl_inv_def canvas_ok_def)
  then show ?thesis
    using validate_layers_defined[OF assms(1)] 
    by (auto simp: validateAllLayers_def Let_def simp del: not_None_eq split: option.splits prod.splits)
qed

lemma backend_g2d:
  assumes "\<And>ac. sortLayers ac (dv_sort dv ac)"
  shows "backend pf cap (max_layers cap) (execute_g2d pf cap dv)"
proof
  fix ac fence ok fence' cl ac' a
  note cs = executeG2D_cases[OF _ assms]
  have ex: "\<exists>ac1. executeG2D pf cap dv fence ac = Some (ok, fence', ac1) \<and> ac' = (if ok then ac1 else drop_fences ac1)"
    if "execute_g2d pf cap dv fence ac = Some (ok, fence', cl, ac')" for ok
    using that by (auto simp: execute_g2d_def split: option.splits)
  show "execute_g2d pf cap dv fence ac \<noteq> None" if "cap \<in> factory_caps pf" "acryl_reach pf cap ac"
    using validate_reachable[OF that] by (auto simp: execute_g2d_def executeG2D_def Let_def)
  show "length fence' = length fence" if "execute_g2d pf cap dv fence ac = Some (ok, fence', cl, ac')"
    using ex[OF that] cs(1) by auto
  show "acryl_reach pf cap ac'" if "acryl_reach pf cap ac" "execute_g2d pf cap dv fence ac = Some (ok, fence', cl, ac')"
    using ex[OF that(2)] cs(2) that(1) drop_fences_reach by auto
  show "mset (mLayers ac') = mset (mLayers ac)" if "execute_g2d pf cap dv fence ac = Some (ok, fence', cl, ac')"
    using ex[OF that] cs(1) by auto
  show "validateAllLayers pf cap ac = Some True" if "execute_g2d pf cap dv fence ac = Some (True, fence', cl, ac')"
    using ex[OF that] cs(3) by auto
  show "mFence (ac_store ac' a) = -1"
    if "execute_g2d pf cap dv fence ac = Some (True, fence', cl, ac')" "a \<in> set (mLayers ac')"
    using ex[OF that(1)] cs(3) that(2) finish_settings_fence by fastforce
qed

interpretation g2d: backend pf cap "max_layers cap" "execute_g2d pf cap (dv\<lparr>dv_sort := stable_sort\<rparr>)" for pf cap dv
  by (rule backend_g2d) (simp add: stable_sort_sorts)

lemma queueBuffer_canvas:
  assumes "queueBuffer refused answer need fence c = (ok, out, c')"
  shows "(canvas_op pf cap)\<^sup>*\<^sup>* c c'"
  using assms by (auto simp: queueBuffer_def split: if_splits intro: op_fence)

lemma canvas_ops_layer: "(canvas_op pf cap)\<^sup>*\<^sup>* l l' \<Longrightarrow> (layer_op pf cap)\<^sup>*\<^sup>* l l'"
  by (induction rule: rtranclp_induct) (auto intro: lop_canvas rtranclp.rtrancl_into_rtrancl)

lemma reach_canvas_ops:
  assumes "(canvas_op pf cap)\<^sup>*\<^sup>* (ac_canvas ac) c" "acryl_reach pf cap ac"
  shows "acryl_reach pf cap (ac\<lparr>ac_canvas := c\<rparr>)"
  using assms(1)
proof (induction rule: rtranclp_induct)
  case base
  then show ?case using assms(2) by simp
next
  case (step c c')
  from reach_canvas[OF step.IH, of c'] step(2) show ?case by simp
qed

text \<open>What the two calls of the scaler do to the state, whatever the driver answers.\<close>

lemma queueBuffers_state:
  assumes "queueBuffers dv fence ac = (ok, fence', cl, ac')"
  obtains l c where "(layer_op pf cap)\<^sup>*\<^sup>* (ac_store ac (mLayers ac ! 0)) l" "(canvas_op pf cap)\<^sup>*\<^sup>* (ac_canvas ac) c"
    "ac' = (on_layer (mLayers ac ! 0) (\<lambda>_. l) ac)\<lparr>ac_canvas := c\<rparr>" "mFence l = -1" "length fence' = length fence"
proof -
  let ?a = "mLayers ac ! 0"
  obtain ok1 f1 l where q1: "queueBuffer False (sv_source dv) (length fence > 0) (-1) (ac_store ac ?a) = (ok1, f1, l)"
    by (metis prod.exhaust)
  obtain ok2 f2 c where q2: "(if ok1 then queueBuffer (\<not> sv_votf dv \<and> isVotf dv l) (sv_target dv) (length fence > 1) (-1) (ac_canvas ac)
      else (False, -1, ac_canvas ac)) = (ok2, f2, c)"
    by (metis prod.exhaust)
  define l' where "l' = setFence (-1) (clearSettingModified l)"
  define c' where "c' = setFence (-1) (clearSettingModified c)"
  have fin: "(canvas_op pf cap)\<^sup>*\<^sup>* x (setFence (-1) (clearSettingModified x))" for x :: "'a canvas_scheme"
    by (rule converse_rtranclp_into_rtranclp[OF op_clear_modified r_into_rtranclp[of "canvas_op pf cap", OF op_fence]])
  have "(canvas_op pf cap)\<^sup>*\<^sup>* (ac_store ac ?a) l'"
    using rtranclp_trans[OF queueBuffer_canvas[OF q1] fin] by (simp add: l'_def)
  moreover have "(canvas_op pf cap)\<^sup>*\<^sup>* (ac_canvas ac) c"
    using q2 queueBuffer_canvas[of _ _ _ _ "ac_canvas ac"] by (cases ok1) auto
  then have "(canvas_op pf cap)\<^sup>*\<^sup>* (ac_canvas ac) c'"
    using rtranclp_trans[OF _ fin] by (simp add: c'_def)
  moreover have "ac' = (on_layer ?a (\<lambda>_. l') ac)\<lparr>ac_canvas := c'\<rparr> \<and> length fence' = length fence"
    using assms q1 q2
    by (cases ac) (auto simp: queueBuffers_def Let_def on_layer_def l'_def c'_def split: prod.splits if_splits)
  ultimately show thesis
    using that[of l' c'] canvas_ops_layer by (auto simp: l'_def setFence_def)
qed

lemma execute_mscl_cases:
  assumes "execute_mscl pf cap dv fence ac = Some (ok, fence', cl, ac')"
  obtains "\<not> ok" "fence' = fence" "cl = []" "ac' = ac"
  | "validateAllLayers pf cap ac = Some True" "length (mLayers ac) = 1" "queueBuffers dv fence ac = (ok, fence', cl, ac')"
  using assms by (auto simp: execute_mscl_def split: option.splits if_splits)

lemma backend_mscl: "backend pf cap 1 (execute_mscl pf cap dv)"
proof
  fix ac fence ok fence' cl ac' a
  show "execute_mscl pf cap dv fence ac \<noteq> None"
    if "cap \<in> factory_caps pf" "acryl_reach pf cap ac" "mLayers ac \<noteq> []" "length (mLayers ac) \<le> 1"
  proof -
    have "length (mLayers ac) = 1" using that(3,4) by (cases "mLayers ac") simp_all
    then show ?thesis
      using validate_reachable[OF that(1,2)] by (auto simp: execute_mscl_def simp del: not_None_eq split: option.splits)
  qed
  show "length fence' = length fence" if "execute_mscl pf cap dv fence ac = Some (ok, fence', cl, ac')"
    using that by (rule execute_mscl_cases) (auto elim: queueBuffers_state)
  show "acryl_reach pf cap ac'"
    if "acryl_reach pf cap ac" "mLayers ac \<noteq> []" "execute_mscl pf cap dv fence ac = Some (ok, fence', cl, ac')"
    using that(3)
  proof (rule execute_mscl_cases)
    assume "queueBuffers dv fence ac = (ok, fence', cl, ac')"
    then obtain l c where q: "(layer_op pf cap)\<^sup>*\<^sup>* (ac_store ac (mLayers ac ! 0)) l" "(canvas_op pf cap)\<^sup>*\<^sup>* (ac_canvas ac) c"
        "ac' = (on_layer (mLayers ac ! 0) (\<lambda>_. l) ac)\<lparr>ac_canvas := c\<rparr>"
      by (rule queueBuffers_state)
    have "mLayers ac ! 0 \<in> set (mLayers ac)" using that(2) by simp
    from reach_layer[where f = "\<lambda>_. l", OF q(1) that(1) this]
    show ?thesis using reach_canvas_ops[of pf cap _ c] q(2,3) by simp
  qed (use that(1) in simp)
  show "mset (mLayers ac') = mset (mLayers ac)" if "execute_mscl pf cap dv fence ac = Some (ok, fence', cl, ac')"
    using that by (rule execute_mscl_cases) (auto elim: queueBuffers_state)
  show "validateAllLayers pf cap ac = Some True" if "execute_mscl pf cap dv fence ac = Some (True, fence', cl, ac')"
    using that by (rule execute_mscl_cases) auto
  show "mFence (ac_store ac' a) = -1"
    if "execute_mscl pf cap dv fence ac = Some (True, fence', cl, ac')" "a \<in> set (mLayers ac')"
    using that(1)
  proof (rule execute_mscl_cases)
    assume one: "length (mLayers ac) = 1" and "queueBuffers dv fence ac = (True, fence', cl, ac')"
    from this(2) obtain l c where q: "ac' = (on_layer (mLayers ac ! 0) (\<lambda>_. l) ac)\<lparr>ac_canvas := c\<rparr>" "mFence l = -1"
      by (rule queueBuffers_state)
    have "mLayers ac = [mLayers ac ! 0]" using one by (cases "mLayers ac") simp_all
    then have "a = mLayers ac ! 0" using that(2) q(1) by (metis acrylic.select_convs(2) acrylic.simps(1) list.set(1,2) on_layer_fields(1) singletonD acrylic.surjective acrylic.update_convs(1))
    then show ?thesis using q by simp
  qed simp
qed

interpretation mscl: backend pf cap 1 "execute_mscl pf cap dv" for pf cap dv
  by (rule backend_mscl)

section \<open>No fence of the scaler is lost\<close>

text \<open>The valid release fences the driver of the scaler handed out in a call.\<close>

definition handed_out :: "mscl_device \<Rightarrow> nat \<Rightarrow> acrylic \<Rightarrow> int list" where
  "handed_out dv n ac =
    (let l = ac_store ac (mLayers ac ! 0); votf = \<not> sv_votf dv \<and> isVotf dv l in
     (if fst (sv_source dv) \<and> (n > 0 \<or> mFence l \<ge> 0) then close_open (snd (sv_source dv)) else []) @
     (if fst (sv_source dv) \<and> \<not> votf \<and> fst (sv_target dv) \<and> (n > 1 \<or> mFence (ac_canvas ac) \<ge> 0)
      then close_open (snd (sv_target dv)) else []))"

lemma isVotf_setFence [simp]: "isVotf dv (setFence x l) = isVotf dv l"
  by (simp add: isVotf_def setFence_def)

lemma upt_0_2: "[0..<2] = [0, Suc 0]" "[Suc 0..<2] = [Suc 0]"
  by (simp_all add: numeral_2_eq_2 upt_conv_Cons)

lemma queueBuffers_ledger:
  assumes "queueBuffers dv fence ac = (ok, fence', cl, ac')"
  shows "mset (concat (map close_open fence')) + mset cl = mset (handed_out dv (length fence) ac)"
proof -
  let ?a = "mLayers ac ! 0"
  have tail: "concat (map close_open (map (\<lambda>i. if i < min n 2 then [a, b] ! i else -1) [0..<n])) =
      (if n = 0 then [] else if n = 1 then close_open a else close_open a @ close_open b)" for n a b
  proof (cases "n < 2")
    case True
    then have "n = 0 \<or> n = 1" by auto
    then show ?thesis by (auto simp: close_open_def)
  next
    case False
    then have "[0..<n] = [0, 1] @ [2..<n]" by (simp add: upt_conv_Cons numeral_2_eq_2)
    moreover have "concat (map close_open (map (\<lambda>i. if i < min n 2 then [a, b] ! i else -1) [2..<n])) = []"
      by (auto simp: close_open_def)
    ultimately show ?thesis using False by (simp add: close_open_def)
  qed
  have none: "concat (map close_open (map (\<lambda>i. -1) xs)) = []" for xs :: "nat list"
    by (simp add: close_open_def)
  obtain ok1 f1 l where q1: "queueBuffer False (sv_source dv) (length fence > 0) (-1) (ac_store ac ?a) = (ok1, f1, l)"
    by (metis prod.exhaust)
  have out1: "ok1 = fst (sv_source dv)" "isVotf dv l = isVotf dv (ac_store ac ?a)"
    "f1 = (if ok1 \<and> (length fence > 0 \<or> mFence (ac_store ac ?a) \<ge> 0) then snd (sv_source dv) else -1)"
    using q1 by (auto simp: queueBuffer_def split: if_splits)
  obtain ok2 f2 c where q2: "(if ok1 then queueBuffer (\<not> sv_votf dv \<and> isVotf dv l) (sv_target dv) (length fence > 1) (-1) (ac_canvas ac)
      else (False, -1, ac_canvas ac)) = (ok2, f2, c)"
    by (metis prod.exhaust)
  have out2: "ok2 = (ok1 \<and> \<not> (\<not> sv_votf dv \<and> isVotf dv l) \<and> fst (sv_target dv))"
    "f2 = (if ok2 \<and> (length fence > 1 \<or> mFence (ac_canvas ac) \<ge> 0) then snd (sv_target dv) else -1)"
    using q2 by (auto simp: queueBuffer_def split: if_splits)
  have res: "fence' = map (\<lambda>i. if i < (if ok2 then min (length fence) 2 else 0) then [f1, f2] ! i else -1) [0..<length fence]"
    "cl = (if ok2 then concat (map (\<lambda>j. close_open ([f1, f2] ! j)) [min (length fence) 2..<2])
           else if ok1 then close_open f1 else [])"
    using assms q1 q2 by (auto simp: queueBuffers_def Let_def split: prod.splits if_splits)
  have given: "handed_out dv (length fence) ac = close_open f1 @ (if ok2 then close_open f2 else [])"
    using out1 out2 by (auto simp: handed_out_def Let_def close_open_def)
  have "mset (concat (map close_open fence')) + mset cl = mset (close_open f1 @ (if ok2 then close_open f2 else []))"
  proof (cases ok2)
    case True
    consider "length fence = 0" | "length fence = 1" | "length fence \<ge> 2" by linarith
    then show ?thesis
    proof cases
      case 3
      then have "min (length fence) 2 = 2" "fence \<noteq> []" by auto
      then show ?thesis using True tail[where a = f1 and b = f2 and n = "length fence"] 3 by (simp add: res)
    qed (use True tail[where a = f1 and b = f2 and n = "length fence"] in \<open>simp_all add: res upt_0_2\<close>)
  next
    case False
    then show ?thesis using none out1(1,3) by (auto simp: res close_open_def)
  qed
  then show ?thesis by (simp only: given)
qed

end
