(* ===== verification/MppCompose.thy ===== *)
theory MppCompose
  imports MppBuffers AcrylExecute
begin

text \<open>
  How a memory-to-memory resource processes a frame (\<open>setupLayer\<close>, \<open>setupDst\<close>, \<open>doPostProcessing\<close> of
  \<open>resources/ExynosMPP.cpp\<close>): every assigned source is described to the accelerator as one of its
  layers, the destination as its canvas, and the accelerator runs. The verdicts of the accelerator's
  setters are ignored by the code, and so here.
\<close>

section \<open>A source as a layer\<close>

definition image_rect :: "exynos_image \<Rightarrow> hwc_rect" where
  "image_rect a = \<lparr>rect_left = sint (img_x a), rect_top = sint (img_y a),
     rect_right = sint (img_x a + img_w a), rect_bottom = sint (img_y a + img_h a)\<rparr>"

definition refined_dataspace :: "m2m_env \<Rightarrow> int \<Rightarrow> u32 \<Rightarrow> u32" where
  "refined_dataspace ev fmt ds =
    getRefinedDataspace (pf_hal (me_pf ev)) (an_dataspace (me_an ev) DS_V0_SRGB) (an_dataspace (me_an ev) DS_V0_BT709) fmt ds"

text \<open>The private two-plane format is announced as the public one.\<close>

definition public_format :: "m2m_env \<Rightarrow> int \<Rightarrow> int" where
  "public_format ev fmt =
    (if fmt = pf_hal (me_pf ev) HAL_PIXEL_FORMAT_EXYNOS_YCbCr_420_SP_M_PRIV
     then pf_hal (me_pf ev) HAL_PIXEL_FORMAT_EXYNOS_YCbCr_420_SP_M else fmt)"

definition buffer_lengths :: "m2m_env \<Rightarrow> buffer_handle \<Rightarrow> int \<Rightarrow> u32 \<Rightarrow> u32 \<Rightarrow> int \<times> u64 list" where
  "buffer_lengths ev handle =
    getBufLength (pf_hal (me_pf ev))
      (\<lambda>b. (word_of_int (gm_size (gr_meta (me_gr ev) b)), word_of_int (gm_size1 (gr_meta (me_gr ev) b))))
      handle (of_nat MAX_HW2D_PLANES)"

definition buffer_fds :: "gralloc_meta \<Rightarrow> nat \<Rightarrow> int" where
  "buffer_fds g i = (if i = 0 then gm_fd g else if i = 1 then gm_fd1 g else if i = 2 then gm_fd2 g else -1)"

definition at_or_zero :: "u64 list \<Rightarrow> nat \<Rightarrow> u64" where
  "at_or_zero xs i = (if i < length xs then xs ! i else 0)"

text \<open>The numbers of the opaque data a layer can point to: the metadata of a source, the words of \<open>VotfInfo\<close>.\<close>

definition meta_address :: "nat \<Rightarrow> nat" where "meta_address a = Suc a"
definition votf_address :: nat where "votf_address = 0"

definition setVotfLayerData :: "m2m_env \<Rightarrow> m2m \<Rightarrow> acryl_layer \<Rightarrow> acryl_layer" where
  "setVotfLayerData ev m l =
    (if \<not> me_votf ev then l
     else if mPhysicalType (mm_mpp m) \<noteq> MPP_MSC \<or> votf_enable (mVotfInfo m) = 0 then l
     else setLayerData votf_address 16 l)"

text \<open>What the metadata of source \<open>a\<close> tell the accelerator.\<close>

definition setup_meta :: "m2m_env \<Rightarrow> m2m \<Rightarrow> nat \<Rightarrow> exynos_image \<Rightarrow> acryl_layer \<Rightarrow> acryl_layer" where
  "setup_meta ev m a src l =
    (let l = (case me_meta ev a of
                None \<Rightarrow> l
              | Some (lo, hi) \<Rightarrow>
                  (let l = (if hasHdrInfo (me_pf ev) src then setMasterDisplayLuminance (ucast lo) (ucast (hi div 10000)) l else l)
                   in setLayerData (meta_address a) (me_meta_size ev) l))
     in setVotfLayerData ev m l)"

definition setup_buffer ::
  "m2m_env \<Rightarrow> exynos_image \<Rightarrow> u64 list \<Rightarrow> int \<Rightarrow> u32 \<Rightarrow> acryl_layer \<Rightarrow> acryl_layer" where
  "setup_buffer ev src lengths fence attribute l =
    (if layerFlags src AND EXYNOS_HWC_DIM_LAYER \<noteq> 0 then
       (let c = img_color src in
        snd (setImageBuffer_color (me_cap ev) (ucast (color_a c)) (ucast (color_r c)) (ucast (color_g c)) (ucast (color_b c)) 0 l))
     else snd (setImageBuffer_dmabuf (me_cap ev) (buffer_fds (buffer_meta (me_gr ev) (bufferHandle src))) (at_or_zero lengths)
            (\<lambda>_. 0) (sint (fmt_bufferNum (exynosFormat src))) fence attribute l))"

definition plane_alpha_byte :: "m2m \<Rightarrow> exynos_image \<Rightarrow> u8" where
  "plane_alpha_byte m src =
    (if mMaxSrcLayerNum (mm_mpp m) > 1 then word_of_int (trunc_int (fl_mul 255 (planeAlpha src))) else 255)"

text \<open>Displays that are not built in, and YUV pictures, are scaled in one step.\<close>

definition area_attribute :: "m2m_env \<Rightarrow> m2m \<Rightarrow> exynos_image \<Rightarrow> u32" where
  "area_attribute ev m src =
    (if display_set (mAssignedDisplayInfo (mm_mpp m)) \<and>
        (di_type (mm_display m) = pf_display_virtual (me_pf ev) \<or> di_type (mm_display m) = pf_display_external (me_pf ev))
     then ATTR_NORESAMPLING
     else if fmt_isYUV (exynosFormat src) then ATTR_NORESAMPLING else 0)"

text \<open>The calls made on the layer, in their order; \<open>None\<close> is a division by zero in the last one.\<close>

definition describe_layer ::
  "m2m_env \<Rightarrow> m2m \<Rightarrow> nat \<Rightarrow> exynos_image \<Rightarrow> exynos_image \<Rightarrow> u64 list \<Rightarrow> int \<Rightarrow> u32 \<Rightarrow> acryl_layer \<Rightarrow> acryl_layer option" where
  "describe_layer ev m a src dst lengths fence attribute l =
    (let dim = (layerFlags src AND EXYNOS_HWC_DIM_LAYER \<noteq> 0);
         fmt = fmt_halFormat (pf_hal (me_pf ev)) (exynosFormat src);
         l = (if dim then l else setup_meta ev m a src l);
         l = snd (layer_setImageDimension (me_cap ev) (sint (fullWidth src)) (sint (fullHeight src)) l);
         l = snd (setImageType (me_pf ev) (me_cap ev) (word_of_int (public_format ev fmt)) (refined_dataspace ev fmt (dataSpace src)) l);
         l = setup_buffer ev src lengths fence attribute l;
         l = snd (setCompositMode (me_pf ev) (me_cap ev) (blending src) (plane_alpha_byte m src) (sint (zOrder src)) l)
     in map_option snd
          (setCompositArea (me_pf ev) (me_cap ev) (image_rect src) (image_rect dst) (transform src) (area_attribute ev m src) l))"

text \<open>A layer for slot \<open>i\<close>, made when there is none.\<close>

definition create_slot_layer :: "m2m_env \<Rightarrow> nat \<Rightarrow> m2m \<Rightarrow> nat option \<times> m2m" where
  "create_slot_layer ev i m =
    (case mppLayer (mSrcImgs m ! i) of
       Some a \<Rightarrow> (Some a, m)
     | None \<Rightarrow>
        (case mAcrylicHandle m of
           None \<Rightarrow> (None, m)
         | Some ac \<Rightarrow>
            (let (l, ac) = createLayer (me_pf ev) (me_cap ev) (mm_next m) (me_garbage ev) ac
             in (l, upd_src i (\<lambda>b. b\<lparr>mppLayer := l\<rparr>) (m\<lparr>mAcrylicHandle := Some ac, mm_next := mm_next m + 1\<rparr>)))))"

definition setupLayer :: "m2m_env \<Rightarrow> nat \<Rightarrow> m2m \<Rightarrow> (int \<times> m2m) option" where
  "setupLayer ev i m =
    (let src = mSrcImg (mm_source m i); dst = mMidImg (mm_source m i);
         dim = (layerFlags src AND EXYNOS_HWC_DIM_LAYER \<noteq> 0);
         fmt = fmt_halFormat (pf_hal (me_pf ev)) (exynosFormat src);
         (layer, m) = create_slot_layer ev i m
     in case layer of
          None \<Rightarrow> Some (- EINVAL, m)
        | Some a \<Rightarrow>
           (if \<not> dim \<and> bufferHandle src = None then Some (- EINVAL, m)
            else if fmt_bufferNum (exynosFormat src) = 0 then Some (- EINVAL, m)
            else
              (let (status, lengths) = (if dim then (NO_ERROR, [])
                                        else buffer_lengths ev (bufferHandle src) fmt (fullWidth src) (fullHeight src))
               in if status \<noteq> NO_ERROR then Some (- EINVAL, m)
                  else
                    (let type = getBufferType_handle ev (dumpMidBuf m) (bufferHandle src);
                         m = (if dim then m else upd_src i (\<lambda>b. b\<lparr>mi_bufferType := type\<rparr>) m);
                         attribute = (if dim then 0
                                      else (if type = MPP_BUFFER_SECURE_DRM then ATTR_PROTECTED else 0) OR
                                           (if ci_type (compressionInfo src) = COMP_TYPE_AFBC then ATTR_COMPRESSED else 0));
                         (fence, m) = mm_check_debug ev FENCE_TYPE_SRC_ACQUIRE (mm_ip m) (acquireFenceFd src) m;
                         m = mm_set_fence fence FENCE_TYPE_SRC_ACQUIRE FENCE_TO m
                     in case mAcrylicHandle m of
                          None \<Rightarrow> None
                        | Some ac \<Rightarrow>
                           (case describe_layer ev m (mAssignedSources (mm_mpp m) ! i) src dst lengths fence attribute (ac_store ac a) of
                              None \<Rightarrow> None
                            | Some l \<Rightarrow>
                                Some (NO_ERROR,
                                  upd_src i (\<lambda>b. b\<lparr>mi_bufferHandle := bufferHandle src, acrylicAcquireFenceFd := -1,
                                                  mi_format := format_of (pf_hal (me_pf ev)) (public_format ev fmt)\<rparr>)
                                    (m\<lparr>mAcrylicHandle := Some (on_layer a (\<lambda>_. l) ac)\<rparr>)))))))"

section \<open>The destination as the canvas\<close>

definition getDstDataspace :: "m2m_env \<Rightarrow> m2m \<Rightarrow> int \<Rightarrow> DisplayInfo \<Rightarrow> u32 \<Rightarrow> u32" where
  "getDstDataspace ev m dstFormat display dstDataspace =
    (let pf = me_pf ev;
         ds = (if mMaxSrcLayerNum (mm_mpp m) > 1 then
                 (if isFormatRgb (pf_hal pf) dstFormat then
                    (if colorMode display \<noteq> 0 then colorModeToDataspace pf (me_an ev) (colorMode display) else 0)
                  else pf_standard pf STANDARD_BT709 OR pf_transfer pf TRANSFER_GAMMA2_2 OR pf_range pf RANGE_LIMITED)
               else if mm_count m > 0 then dataSpace (mMidImg (mm_source m 0)) else dstDataspace)
     in refined_dataspace ev dstFormat ds)"

text \<open>Smallest and largest luminance; without a source the code reads past the end of its list.\<close>

definition getDstMetaInfo :: "m2m_env \<Rightarrow> m2m \<Rightarrow> u32 \<Rightarrow> (u16 \<times> u16) option" where
  "getDstMetaInfo ev m dstDataspace =
    (let d = mAssignedDisplayInfo (mm_mpp m);
         own = (word_of_int (trunc_int (fl_mul (minLuminance d) 10000)), word_of_int (trunc_int (maxLuminance d)))
     in if mm_count m = 0 then None
        else if mm_count m = 1 \<and> dataSpace (mSrcImg (mm_source m 0)) = dstDataspace then
          (case me_meta ev (mAssignedSources (mm_mpp m) ! 0) of
             None \<Rightarrow> Some own
           | Some (lo, hi) \<Rightarrow> Some (ucast lo, ucast (hi div 10000)))
        else Some own)"

definition on_canvas :: "(canvas \<Rightarrow> canvas) \<Rightarrow> acrylic \<Rightarrow> acrylic" where
  "on_canvas f ac = ac\<lparr>ac_canvas := f (ac_canvas ac)\<rparr>"

definition setCanvasDimension :: "m2m_env \<Rightarrow> int \<Rightarrow> int \<Rightarrow> acrylic \<Rightarrow> acrylic" where
  "setCanvasDimension ev w h = on_canvas (\<lambda>c. snd (canvas_setImageDimension (me_cap ev) w h c))"

definition setCanvasImageType :: "m2m_env \<Rightarrow> int \<Rightarrow> u32 \<Rightarrow> acrylic \<Rightarrow> acrylic" where
  "setCanvasImageType ev fmt ds = on_canvas (\<lambda>c. snd (setImageType (me_pf ev) (me_cap ev) (word_of_int fmt) ds c))"

definition setCanvasBuffer ::
  "m2m_env \<Rightarrow> (nat \<Rightarrow> int) \<Rightarrow> u64 list \<Rightarrow> int \<Rightarrow> int \<Rightarrow> u32 \<Rightarrow> acrylic \<Rightarrow> acrylic" where
  "setCanvasBuffer ev fds lengths num fence attribute =
    on_canvas (\<lambda>c. snd (setImageBuffer_dmabuf (me_cap ev) fds (at_or_zero lengths) (\<lambda>_. 0) num fence attribute c))"

definition setCanvasOTF :: "m2m_env \<Rightarrow> u32 \<Rightarrow> acrylic \<Rightarrow> acrylic" where
  "setCanvasOTF ev attribute = on_canvas (\<lambda>c. snd (setImageOTFBuffer (me_cap ev) attribute c))"

text \<open>Is the picture sent straight to the encoder of a low-latency wireless display?\<close>

definition to_llwfd :: "m2m_env \<Rightarrow> m2m \<Rightarrow> bool" where
  "to_llwfd ev m \<longleftrightarrow> display_set (mAssignedDisplayInfo (mm_mpp m)) \<and> di_type (mm_display m) = pf_display_virtual (me_pf ev) \<and>
     isWFDState (mAssignedDisplayInfo (mm_mpp m)) = LLWFD"

definition dst_attribute :: "m2m_env \<Rightarrow> m2m \<Rightarrow> buffer_handle \<Rightarrow> u32 \<Rightarrow> u32" where
  "dst_attribute ev m handle type =
    (if type = MPP_BUFFER_SECURE_DRM then ATTR_PROTECTED else 0) OR
    (if mMaxSrcLayerNum (mm_mpp m) > 1 \<and> gm_is_afbc (buffer_meta (me_gr ev) handle) \<and>
        mCurrentTargetCompressionInfoType m = COMP_TYPE_AFBC then ATTR_COMPRESSED else 0)"

definition setupDst :: "m2m_env \<Rightarrow> m2m \<Rightarrow> (int \<times> m2m) option" where
  "setupDst ev m =
    (let i = cur_slot m; slot = mDstImgs m ! i; d = mAssignedDisplayInfo (mm_mpp m);
         fmt = fmt_halFormat (pf_hal (me_pf ev)) (mi_format slot);
         num = fmt_bufferNum (mi_format slot);
         ds = getDstDataspace ev m fmt d (mi_dataspace slot);
         g = buffer_meta (me_gr ev) (mi_bufferHandle slot);
         (status, lengths) = buffer_lengths ev (mi_bufferHandle slot) fmt (word_of_int (gm_stride g)) (word_of_int (gm_vstride g))
     in if num = 0 then Some (- EINVAL, m)
        else if status \<noteq> NO_ERROR then Some (- EINVAL, m)
        else
          (case (mAcrylicHandle m, getDstMetaInfo ev m ds) of
             (Some ac, Some (lo, hi)) \<Rightarrow>
               (let type = getBufferType_handle ev (dumpMidBuf m) (mi_bufferHandle slot);
                    attribute = dst_attribute ev m (mi_bufferHandle slot) type;
                    align = GET_M2M_DST_ALIGN ev fmt;
                    ac = (if display_set d
                          then setCanvasDimension ev (pixel_align (sint (xres d)) align) (pixel_align (sint (yres d)) align) ac
                          else ac);
                    m = mm_set_fence (acrylicReleaseFenceFd slot) FENCE_TYPE_DST_RELEASE FENCE_TO m;
                    ac = setCanvasImageType ev fmt ds ac;
                    otf = (mLogicalType (mm_mpp m) = MPP_LOGICAL_G2D_COMBO \<and> to_llwfd ev m);
                    ac = (if otf then setCanvasImageType ev (pf_hal (me_pf ev) HAL_PIXEL_FORMAT_EXYNOS_YCbCr_420_SPN) ds ac else ac);
                    (fence, m) = (if otf then (-1, mm_close (acrylicReleaseFenceFd slot) FENCE_TYPE_DST_RELEASE (mm_ip m) m)
                                  else mm_check_debug ev FENCE_TYPE_DST_RELEASE (mm_ip m) (acrylicReleaseFenceFd slot) m);
                    ac = setCanvasBuffer ev (buffer_fds g) lengths (sint num) fence attribute ac;
                    ac = (if otf then setCanvasOTF ev attribute ac else ac);
                    ac = (if display_set d \<and> mPhysicalType (mm_mpp m) = MPP_G2D \<and> di_type (mm_display m) \<noteq> pf_display_virtual (me_pf ev)
                          then setTargetDisplayLuminance lo hi ac else ac)
                in Some (NO_ERROR, upd_dst i (\<lambda>b. b\<lparr>mi_bufferType := type, acrylicReleaseFenceFd := -1, mi_dataspace := ds\<rparr>)
                     (m\<lparr>mAcrylicHandle := Some ac\<rparr>)))
           | _ \<Rightarrow> None))"

section \<open>A frame\<close>

text \<open>The loop over the sources; the first error ends it. More sources than slots would overrun the array.\<close>

primrec setup_layers :: "m2m_env \<Rightarrow> nat list \<Rightarrow> m2m \<Rightarrow> (int \<times> m2m) option" where
  "setup_layers ev [] m = Some (NO_ERROR, m)"
| "setup_layers ev (i # is) m =
    (if i \<ge> NUM_MPP_SRC_BUFS then None
     else case setupLayer ev i m of
            None \<Rightarrow> None
          | Some (ret, m) \<Rightarrow> (if ret \<noteq> NO_ERROR then Some (ret, m) else setup_layers ev is m))"

definition slot_layer_do :: "(acryl_layer \<Rightarrow> acryl_layer) \<Rightarrow> nat \<Rightarrow> m2m \<Rightarrow> m2m" where
  "slot_layer_do f i m =
    (case mppLayer (mSrcImgs m ! i) of None \<Rightarrow> m
     | Some a \<Rightarrow> m\<lparr>mAcrylicHandle := map_option (on_layer a f) (mAcrylicHandle m)\<rparr>)"

text \<open>\<open>setAcrylFence\<close>: the variables are overwritten, nothing is closed.\<close>

definition forget_fences :: "m2m \<Rightarrow> m2m" where
  "forget_fences m =
    upd_dst (cur_slot m) (\<lambda>b. b\<lparr>acrylicAcquireFenceFd := -1\<rparr>)
      (m\<lparr>mSrcImgs := map (\<lambda>b. b\<lparr>acrylicReleaseFenceFd := -1\<rparr>) (mSrcImgs m)\<rparr>)"

text \<open>The release fence of source \<open>i\<close>, when the resource hands such fences on.\<close>

definition take_src_fence :: "m2m_env \<Rightarrow> int list \<Rightarrow> nat \<Rightarrow> m2m \<Rightarrow> m2m" where
  "take_src_fence ev out i m =
    (if mUseM2MSrcFence m then
       (let (fence, m) = mm_check_debug ev FENCE_TYPE_SRC_RELEASE (mm_ip m) (out ! i) m
        in upd_src i (\<lambda>b. b\<lparr>acrylicReleaseFenceFd := fence\<rparr>) m)
     else upd_src i (\<lambda>b. b\<lparr>acrylicReleaseFenceFd := -1\<rparr>) m)"

text \<open>What is done with the fences of a frame the accelerator accepted; the last one is the destination's.\<close>

definition note_fences :: "int list \<Rightarrow> m2m \<Rightarrow> m2m" where
  "note_fences out m =
    (let m = mm_set_fence (last out) FENCE_TYPE_DST_ACQUIRE FENCE_FROM m
     in if length out > 1 then fold (\<lambda>i. mm_set_fence (out ! i) FENCE_TYPE_SRC_RELEASE FENCE_FROM) [0..<mm_count m] m else m)"

definition close_wfd :: "m2m_env \<Rightarrow> int list \<Rightarrow> m2m \<Rightarrow> int list \<times> m2m" where
  "close_wfd ev out m =
    (if to_llwfd ev m \<and> \<not> useDpu (mAssignedDisplayInfo (mm_mpp m))
     then (out[length out - 1 := -1], mm_close (last out) FENCE_TYPE_SRC_RELEASE (mm_ip m) m)
     else (out, m))"

definition take_dst_fence :: "m2m_env \<Rightarrow> int \<Rightarrow> m2m \<Rightarrow> m2m" where
  "take_dst_fence ev fence m =
    (let old = acrylicAcquireFenceFd (mDstImgs m ! cur_slot m);
         m = (if old \<ge> 0 then mm_close old FENCE_TYPE_DST_ACQUIRE (mm_ip m) m else m);
         (fence, m) = mm_check_debug ev FENCE_TYPE_DST_ACQUIRE (mm_ip m) fence m
     in upd_dst (cur_slot m) (\<lambda>b. b\<lparr>acrylicAcquireFenceFd := fence\<rparr>) m)"

definition take_fences :: "m2m_env \<Rightarrow> int list \<Rightarrow> m2m \<Rightarrow> m2m" where
  "take_fences ev out m =
    (let (out, m) = close_wfd ev out (note_fences out m)
     in take_dst_fence ev (last out) (fold (take_src_fence ev out) [0..<mm_count m] m))"

text \<open>\<open>dumpDstBuf\<close> writes the picture to a file and clears the request for it.\<close>

definition dumpDstBuf :: "m2m \<Rightarrow> m2m" where
  "dumpDstBuf m = (if dumpMidBuf m then m\<lparr>dumpMidBuf := False\<rparr> else m)"

text \<open>The last part of \<open>doPostProcessingInternal\<close>: run the accelerator and take its fences.\<close>

definition run_accelerator :: "m2m_env \<Rightarrow> m2m \<Rightarrow> (int \<times> m2m) option" where
  "run_accelerator ev m =
    (case mAcrylicHandle m of
       None \<Rightarrow> None
     | Some ac \<Rightarrow>
        (case me_execute ev (replicate (if mUseM2MSrcFence m then mm_count m + 1 else 1) 0) ac of
           None \<Rightarrow> None
         | Some (ok, out, cl, ac) \<Rightarrow>
            (let m = fold (slot_layer_do clearLayerData) [0..<mm_count m] (m\<lparr>mAcrylicHandle := Some ac\<rparr>)
             in Some (if \<not> ok then (- EPERM, forget_fences m) else (NO_ERROR, dumpDstBuf (take_fences ev out m))))))"

text \<open>Everything before the accelerator runs: the sources, the layers left over, the destination.\<close>

definition compose_frame :: "m2m_env \<Rightarrow> m2m \<Rightarrow> (int \<times> m2m) option" where
  "compose_frame ev m =
    (case setup_layers ev [0..<mm_count m] m of
       None \<Rightarrow> None
     | Some (ret, m) \<Rightarrow>
        (if ret \<noteq> NO_ERROR then Some (ret, m)
         else
           (let m = fold delete_layer [mm_count m..<srcNum (mPrevFrameInfo m)] m
            in case mAcrylicHandle m of
                 None \<Rightarrow> None
               | Some ac \<Rightarrow>
                  (if length (mLayers ac) \<noteq> mm_count m then Some (- EINVAL, m)
                   else map_option (\<lambda>(_, m). (NO_ERROR, m)) (setupDst ev m)))))"

definition doPostProcessingInternal :: "m2m_env \<Rightarrow> m2m \<Rightarrow> (int \<times> m2m) option" where
  "doPostProcessingInternal ev m =
    (if mAcrylicHandle m = None then Some (- EINVAL, m)
     else if mPhysicalType (mm_mpp m) \<noteq> MPP_G2D \<and> mPhysicalType (mm_mpp m) \<noteq> MPP_MSC then Some (- EINVAL, m)
     else if \<not> display_set (mAssignedDisplayInfo (mm_mpp m)) then Some (- EINVAL, m)
     else case compose_frame ev m of
       None \<Rightarrow> None
     | Some (ret, m) \<Rightarrow> (if ret \<noteq> NO_ERROR then Some (ret, m) else run_accelerator ev m))"

definition save_frame_info :: "m2m \<Rightarrow> m2m" where
  "save_frame_info m =
    (let n = mm_count m; old = mPrevFrameInfo m
     in (upd_mpp (\<lambda>p. p\<lparr>mPrevAssignedDisplayType := sint (di_type (mm_display m))\<rparr>) m)
          \<lparr>mPrevFrameInfo := \<lparr>srcNum = n,
             srcInfo = map (\<lambda>i. mSrcImg (mm_source m i)) [0..<n] @ drop n (srcInfo old),
             dstInfo = map (\<lambda>i. mMidImg (mm_source m i)) [0..<n] @ drop n (dstInfo old)\<rparr>\<rparr>)"

text \<open>The destination this frame is written to; its format may be changed to that of the picture.\<close>

definition alloc_format :: "m2m_env \<Rightarrow> m2m \<Rightarrow> exynos_image \<Rightarrow> int" where
  "alloc_format ev m dst =
    (let hal = pf_hal (me_pf ev); fmt = fmt_halFormat hal (exynosFormat dst);
         fmt = (if \<not> mFreeOutBufFlag m then DEFAULT_MPP_DST_FORMAT ev else fmt)
     in if fmt = hal HAL_PIXEL_FORMAT_RGBA_1010102 \<or> fmt = hal HAL_PIXEL_FORMAT_YCBCR_P010
        then DEFAULT_MPP_DST_FORMAT ev else fmt)"

definition prepare_dst :: "m2m_env \<Rightarrow> exynos_image \<Rightarrow> m2m \<Rightarrow> int \<times> bool \<times> m2m" where
  "prepare_dst ev dst m =
    (if \<not> mAllocOutBufFlag m then (NO_ERROR, False, m)
     else
       (let realloc = needDstBufRealloc ev dst (cur_slot m) m;
            dst = (if realloc \<and> mMaxSrcLayerNum (mm_mpp m) > 1 then dst\<lparr>exynosFormat := defaultMppDstFormat ev\<rparr> else dst);
            d = mAssignedDisplayInfo (mm_mpp m); fmt = alloc_format ev m dst; align = GET_M2M_DST_ALIGN ev fmt;
            (ret, m) = (if realloc then
                          allocOutBuf ev (word_of_int (pixel_align (sint (xres d)) align)) (word_of_int (pixel_align (sint (yres d)) align))
                            fmt (usageFlags dst) (cur_slot m) m
                        else (NO_ERROR, m))
        in if ret < 0 then (ret, realloc, m)
           else (ret, realloc,
                 if fmt_neq (mi_format (mDstImgs m ! cur_slot m)) (exynosFormat dst)
                 then upd_dst (cur_slot m) (\<lambda>b. b\<lparr>mi_format := exynosFormat dst\<rparr>) m else m)))"

definition close_source_fence :: "nat \<Rightarrow> m2m \<Rightarrow> m2m" where
  "close_source_fence i m =
    (let a = mAssignedSources (mm_mpp m) ! i;
         m = mm_close (acquireFenceFd (mSrcImg (mm_sources m a))) FENCE_TYPE_SRC_ACQUIRE (mm_ip m) m
     in m\<lparr>mm_sources := (mm_sources m)(a := (mm_sources m a)\<lparr>mSrcImg := (mSrcImg (mm_sources m a))\<lparr>acquireFenceFd := -1\<rparr>\<rparr>)\<rparr>)"

definition doPostProcessing :: "m2m_env \<Rightarrow> exynos_image \<Rightarrow> exynos_image \<Rightarrow> m2m \<Rightarrow> (int \<times> m2m) option" where
  "doPostProcessing ev src dst m =
    (if mm_count m = 0 then Some (- EINVAL, save_frame_info m)
     else
       (let (ret, realloc, m) = prepare_dst ev dst m in
        if ret < 0 then Some (ret, save_frame_info m)
        else if \<not> realloc \<and> canUsePrevFrame ev src m then
          Some (0, save_frame_info
            ((fold close_source_fence [0..<mm_count m] (m\<lparr>mCurrentDstBuf := prev_slot m\<rparr>))\<lparr>mWasUsedPrevFrame := True\<rparr>))
        else case doPostProcessingInternal ev m of
               None \<Rightarrow> None
             | Some (ret, m) \<Rightarrow> Some (if ret < 0 then ret else 0, save_frame_info m)))"

definition canSkipProcessing :: "m2m_env \<Rightarrow> m2m \<Rightarrow> bool" where
  "canSkipProcessing ev m =
    (if \<not> display_set (mAssignedDisplayInfo (mm_mpp m)) \<or> mm_count m = 0 then True
     else
       (let d = mAssignedDisplayInfo (mm_mpp m); source = mm_source m 0; dst = mMidImg source;
            dst = (if mMaxSrcLayerNum (mm_mpp m) > 1
                   then image_reset\<lparr>exynosFormat := defaultMppDstFormat ev, fullWidth := xres d, fullHeight := yres d,
                          dataSpace := colorModeToDataspace (me_pf ev) (me_an ev) (colorMode d)\<rparr>
                   else dst)
        in \<not> needDstBufRealloc ev dst (cur_slot m) m \<and> canUsePrevFrame ev (mSrcImg source) m))"

end
