(* ===== verification/MppFrames.thy ===== *)
theory MppFrames
  imports MppCompose
begin

text \<open>
  What holds of a memory-to-memory resource over its frames. The accelerator's layers are exactly the
  ones its source slots point to (\<open>linked\<close>), the accelerator only ever reaches states its invariant
  covers, and the picture shown again is the picture asked for as long as no frame fails; a failed
  frame breaks both.
\<close>

section \<open>Operations that leave the layers alone\<close>

definition slot_layers :: "m2m \<Rightarrow> nat option list" where
  "slot_layers m = map mppLayer (mSrcImgs m)"

text \<open>
  What the link to the accelerator depends on, and what a frame does not change of the resource.
\<close>

definition same_links :: "m2m \<Rightarrow> m2m \<Rightarrow> bool" where
  "same_links m m' \<longleftrightarrow> slot_layers m' = slot_layers m \<and> mAcrylicHandle m' = mAcrylicHandle m \<and> mm_next m' = mm_next m"

definition same_work :: "m2m \<Rightarrow> m2m \<Rightarrow> bool" where
  "same_work m m' \<longleftrightarrow> mm_sources m' = mm_sources m \<and> mm_mpp m' = mm_mpp m \<and> mPrevFrameInfo m' = mPrevFrameInfo m \<and>
     mCurrentDstBuf m' = mCurrentDstBuf m \<and> map mi_bufferHandle (mDstImgs m') = map mi_bufferHandle (mDstImgs m) \<and>
     mFreedBuffers m' = mFreedBuffers m \<and> mm_returned m' = mm_returned m \<and> mm_answers m' = mm_answers m \<and>
     length (mSrcImgs m') = length (mSrcImgs m) \<and> mWasUsedPrevFrame m' = mWasUsedPrevFrame m \<and>
     mUseM2MSrcFence m' = mUseM2MSrcFence m \<and> mAllocOutBufFlag m' = mAllocOutBufFlag m \<and> mFreeOutBufFlag m' = mFreeOutBufFlag m"

definition keeps :: "m2m \<Rightarrow> m2m \<Rightarrow> bool" where
  "keeps m m' \<longleftrightarrow> same_links m m' \<and> same_work m m'"

lemma keeps_refl [simp]: "keeps m m" "same_work m m"
  by (simp_all add: keeps_def same_links_def same_work_def)

lemma same_work_trans: "same_work a b \<Longrightarrow> same_work b c \<Longrightarrow> same_work a c"
  by (simp add: same_work_def)

lemma keeps_trans: "keeps a b \<Longrightarrow> keeps b c \<Longrightarrow> keeps a c"
  by (simp add: keeps_def same_links_def same_work_def)

lemma keeps_work: "keeps a b \<Longrightarrow> same_work a b"
  by (simp add: keeps_def)

named_theorems frames "operations that keep the links and the work"

lemma tracer_frames [frames]:
  "keeps m (m\<lparr>mm_tracer := t\<rparr>)" "keeps m (mm_close f ty ip m)" "keeps m (close_valid f ty ip m)"
  "keeps m (mm_set_fence f ty dir m)" "keeps m (snd (mm_check_debug ev ty ip f m))"
  by (simp_all add: keeps_def same_links_def same_work_def slot_layers_def mm_close_def close_valid_def mm_set_fence_def
      mm_check_debug_def split_beta)

lemma check_debug_keeps: "mm_check_debug ev ty ip f m = (fence, m') \<Longrightarrow> keeps m m'"
  using tracer_frames(5) by (metis snd_conv)

lemma map_upd_same: "(\<And>b. g (f b) = g b) \<Longrightarrow> map g (xs[i := f (xs ! i)]) = map g xs"
  by (cases "i < length xs") (simp_all add: map_update list_update_same_conv list_update_beyond)

lemma upd_dst_keeps: "(\<And>b. mi_bufferHandle (f b) = mi_bufferHandle b) \<Longrightarrow> keeps m (upd_dst i f m)"
  using map_upd_same[of mi_bufferHandle f] by (simp add: keeps_def same_links_def same_work_def slot_layers_def upd_dst_def)

lemma upd_src_work [frames]: "same_work m (upd_src i f m)"
  by (simp add: same_work_def upd_src_def)

lemma upd_src_keeps: "(\<And>b. mppLayer (f b) = mppLayer b) \<Longrightarrow> keeps m (upd_src i f m)"
  using map_upd_same[of mppLayer f] by (simp add: keeps_def same_links_def same_work_def slot_layers_def upd_src_def)

lemma fold_keeps: "(\<And>i m. keeps m (f i m)) \<Longrightarrow> keeps m (fold f xs m)"
proof (induction xs arbitrary: m)
  case (Cons x xs)
  then show ?case using keeps_trans[of m "f x m"] by simp
qed simp

lemma fold_work: "(\<And>i m. same_work m (f i m)) \<Longrightarrow> same_work m (fold f xs m)"
proof (induction xs arbitrary: m)
  case (Cons x xs)
  then show ?case using same_work_trans[of m "f x m"] by simp
qed simp

lemma take_src_fence_keeps [frames]: "keeps m (take_src_fence ev out i m)"
proof -
  obtain fence m1 where d: "mm_check_debug ev FENCE_TYPE_SRC_RELEASE (mm_ip m) (out ! i) m = (fence, m1)" by fastforce
  show ?thesis
    using keeps_trans[OF check_debug_keeps[OF d] upd_src_keeps] d by (simp add: take_src_fence_def upd_src_keeps)
qed

lemma note_fences_keeps [frames]: "keeps m (note_fences out m)"
  by (auto simp: note_fences_def Let_def intro: keeps_trans[OF tracer_frames(4) fold_keeps] frames)

lemma close_wfd_keeps: "close_wfd ev out m = (out', m') \<Longrightarrow> keeps m m'"
  by (auto simp: close_wfd_def frames split: if_splits)

lemma take_dst_fence_keeps [frames]: "keeps m (take_dst_fence ev fence m)"
proof -
  let ?old = "acrylicAcquireFenceFd (mDstImgs m ! cur_slot m)"
  let ?m1 = "if ?old \<ge> 0 then mm_close ?old FENCE_TYPE_DST_ACQUIRE (mm_ip m) m else m"
  obtain f m2 where d: "mm_check_debug ev FENCE_TYPE_DST_ACQUIRE (mm_ip ?m1) fence ?m1 = (f, m2)" by fastforce
  have "keeps m ?m1" by (simp add: frames)
  then show ?thesis
    using keeps_trans[OF keeps_trans[OF _ check_debug_keeps[OF d]] upd_dst_keeps] d
    by (simp add: take_dst_fence_def Let_def)
qed

lemma take_fences_keeps [frames]: "keeps m (take_fences ev out m)"
proof -
  obtain out' m' where c: "close_wfd ev out (note_fences out m) = (out', m')" by fastforce
  have "keeps m m'" using keeps_trans[OF note_fences_keeps close_wfd_keeps[OF c]] .
  moreover have "keeps m' (fold (take_src_fence ev out') [0..<mm_count m'] m')"
    by (rule fold_keeps[OF take_src_fence_keeps])
  ultimately show ?thesis
    using keeps_trans[OF keeps_trans take_dst_fence_keeps] c by (simp add: take_fences_def)
qed

lemma dumpDstBuf_keeps [frames]: "keeps m (dumpDstBuf m)"
  by (simp add: dumpDstBuf_def keeps_def same_links_def same_work_def slot_layers_def)

lemma forget_fences_keeps [frames]: "keeps m (forget_fences m)"
proof -
  have "keeps m (m\<lparr>mSrcImgs := map (\<lambda>b. b\<lparr>acrylicReleaseFenceFd := -1\<rparr>) (mSrcImgs m)\<rparr>)"
    by (simp add: keeps_def same_links_def same_work_def slot_layers_def comp_def)
  from keeps_trans[OF this upd_dst_keeps] show ?thesis by (simp add: forget_fences_def)
qed

section \<open>The link between slots and layers\<close>

text \<open>
  The accelerator is in a state it can be brought into, its layers are exactly the ones the slots of
  the resource point to, no two slots share one, and no address is used twice.
\<close>

definition slot_addresses :: "m2m \<Rightarrow> nat option multiset" where
  "slot_addresses m = filter_mset (\<lambda>x. x \<noteq> None) (mset (slot_layers m))"

definition linked :: "m2m_env \<Rightarrow> m2m \<Rightarrow> bool" where
  "linked ev m \<longleftrightarrow>
     (case mAcrylicHandle m of
        None \<Rightarrow> slot_addresses m = {#}
      | Some ac \<Rightarrow> acryl_reach (me_pf ev) (me_cap ev) ac \<and> image_mset Some (mset (mLayers ac)) = slot_addresses m \<and>
          (\<forall>a\<in>set (mLayers ac). a < mm_next m))"

definition m2m_wf :: "m2m_env \<Rightarrow> m2m \<Rightarrow> bool" where
  "m2m_wf ev m \<longleftrightarrow> length (mSrcImgs m) = NUM_MPP_SRC_BUFS \<and> length (mDstImgs m) = NUM_MPP_DST_BUFS \<and>
     slot_valid (mCurrentDstBuf m) \<and> linked ev m"

text \<open>What every operation but the ones on layers leaves in place.\<close>

definition stays :: "m2m \<Rightarrow> m2m \<Rightarrow> bool" where
  "stays m m' \<longleftrightarrow> same_links m m' \<and> length (mDstImgs m') = length (mDstImgs m) \<and> mCurrentDstBuf m' = mCurrentDstBuf m \<and>
     mm_mpp m' = mm_mpp m \<and> mm_sources m' = mm_sources m \<and> mPrevFrameInfo m' = mPrevFrameInfo m"

lemma stays_refl [simp]: "stays m m"
  by (simp add: stays_def same_links_def)

lemma stays_trans: "stays a b \<Longrightarrow> stays b c \<Longrightarrow> stays a c"
  by (simp add: stays_def same_links_def)

lemma keeps_stays: "keeps m m' \<Longrightarrow> stays m m'"
  by (auto simp: keeps_def stays_def same_work_def dest: arg_cong[where f = length])

lemma links_length: "slot_layers m' = slot_layers m \<Longrightarrow> length (mSrcImgs m') = length (mSrcImgs m)"
  by (metis slot_layers_def length_map)

lemma linked_same: "same_links m m' \<Longrightarrow> linked ev m \<Longrightarrow> linked ev m'"
  by (auto simp: same_links_def linked_def slot_addresses_def split: option.splits)

lemma stays_wf:
  assumes "stays m m'" "m2m_wf ev m"
  shows "m2m_wf ev m'"
proof -
  have s: "same_links m m'" "length (mDstImgs m') = length (mDstImgs m)" "mCurrentDstBuf m' = mCurrentDstBuf m"
    using assms(1) by (auto simp: stays_def)
  have "length (mSrcImgs m') = length (mSrcImgs m)"
    using s(1) by (intro links_length) (simp add: same_links_def)
  moreover have "linked ev m'" using linked_same[OF s(1)] assms(2) by (simp add: m2m_wf_def)
  ultimately show ?thesis using s assms(2) by (simp add: m2m_wf_def)
qed

lemma stays_count [simp]: "stays m m' \<Longrightarrow> mm_count m' = mm_count m" "stays m m' \<Longrightarrow> mm_source m' = mm_source m"
  by (simp_all add: stays_def mm_count_def mm_source_def fun_eq_iff)

text \<open>A layer of a slot is one of the accelerator's.\<close>

lemma slot_in_layers:
  assumes "linked ev m" "mppLayer (mSrcImgs m ! i) = Some a" "i < length (mSrcImgs m)"
  obtains ac where "mAcrylicHandle m = Some ac" "acryl_reach (me_pf ev) (me_cap ev) ac" "a \<in> set (mLayers ac)"
proof -
  have "slot_layers m ! i = Some a" "i < length (slot_layers m)" using assms(2,3) by (simp_all add: slot_layers_def)
  then have "Some a \<in> set (slot_layers m)" by (metis nth_mem)
  then have "Some a \<in># slot_addresses m" by (simp add: slot_addresses_def)
  moreover from this obtain ac where "mAcrylicHandle m = Some ac"
    using assms(1) by (cases "mAcrylicHandle m") (simp_all add: linked_def)
  ultimately have "Some a \<in># image_mset Some (mset (mLayers ac))" "acryl_reach (me_pf ev) (me_cap ev) ac"
    using assms(1) by (simp_all add: linked_def)
  then show ?thesis using that \<open>mAcrylicHandle m = Some ac\<close> by auto
qed

lemma layers_length:
  assumes "linked ev m" "mAcrylicHandle m = Some ac"
  shows "length (mLayers ac) = length (filter (\<lambda>x. x \<noteq> None) (slot_layers m))"
proof -
  have "mset (map Some (mLayers ac)) = mset (filter (\<lambda>x. x \<noteq> None) (slot_layers m))"
    using assms by (simp add: linked_def slot_addresses_def mset_filter)
  from mset_eq_length[OF this] show ?thesis by simp
qed

text \<open>The accelerator moves to another state with the same layers.\<close>

lemma linked_moves:
  assumes "linked ev m" "mAcrylicHandle m = Some ac" "acryl_reach (me_pf ev) (me_cap ev) ac'" "mset (mLayers ac') = mset (mLayers ac)"
    and "mAcrylicHandle m' = Some ac'" "slot_layers m' = slot_layers m" "mm_next m' = mm_next m"
  shows "linked ev m'"
  using assms by (auto simp: linked_def slot_addresses_def dest: mset_eq_setD)

lemma slot_addresses_upd:
  assumes "i < length (mSrcImgs m)" "slot_layers m' = (slot_layers m)[i := x]"
  shows "slot_addresses m' + (case mppLayer (mSrcImgs m ! i) of None \<Rightarrow> {#} | Some a \<Rightarrow> {#Some a#}) =
    slot_addresses m + (case x of None \<Rightarrow> {#} | Some a \<Rightarrow> {#Some a#})"
proof -
  let ?P = "\<lambda>x :: nat option. x \<noteq> None"
  have i: "i < length (slot_layers m)" "slot_layers m ! i = mppLayer (mSrcImgs m ! i)"
    using assms(1) by (simp_all add: slot_layers_def)
  have "mset (slot_layers m') + {#slot_layers m ! i#} = mset (slot_layers m) + {#x#}"
    using assms(2) i(1) by (simp add: mset_update)
  from arg_cong[OF this, of "filter_mset ?P"] show ?thesis
    by (cases x; cases "mppLayer (mSrcImgs m ! i)") (simp_all add: slot_addresses_def i(2))
qed


section \<open>Describing a layer\<close>

lemma setup_meta_ops: "(layer_op pf cap)\<^sup>*\<^sup>* l (setup_meta ev m a src l)"
proof -
  have v: "(layer_op pf cap)\<^sup>*\<^sup>* l (setVotfLayerData ev m l)" for l
    by (auto simp: setVotfLayerData_def intro: lop_data)
  have "(layer_op pf cap)\<^sup>*\<^sup>* l (case me_meta ev a of None \<Rightarrow> l
      | Some (lo, hi) \<Rightarrow> setLayerData (meta_address a) (me_meta_size ev)
          (if hasHdrInfo (me_pf ev) src then setMasterDisplayLuminance (ucast lo) (ucast (hi div 10000)) l else l))"
    by (auto split: option.split intro: lop_data lop_luminance converse_rtranclp_into_rtranclp)
  from rtranclp_trans[OF this v] show ?thesis by (cases "me_meta ev a") (auto simp: setup_meta_def Let_def)
qed

lemma setup_buffer_op: "canvas_op pf (me_cap ev) l (setup_buffer ev src lengths fence attribute l)"
  by (simp add: setup_buffer_def Let_def op_color op_dmabuf)

text \<open>The description up to the area, and with it.\<close>

definition described ::
  "m2m_env \<Rightarrow> m2m \<Rightarrow> nat \<Rightarrow> exynos_image \<Rightarrow> u64 list \<Rightarrow> int \<Rightarrow> u32 \<Rightarrow> acryl_layer \<Rightarrow> acryl_layer" where
  "described ev m a src lengths fence attribute l =
    (let fmt = fmt_halFormat (pf_hal (me_pf ev)) (exynosFormat src);
         l = (if layerFlags src AND EXYNOS_HWC_DIM_LAYER \<noteq> 0 then l else setup_meta ev m a src l);
         l = snd (layer_setImageDimension (me_cap ev) (sint (fullWidth src)) (sint (fullHeight src)) l);
         l = snd (setImageType (me_pf ev) (me_cap ev) (word_of_int (public_format ev fmt)) (refined_dataspace ev fmt (dataSpace src)) l);
         l = setup_buffer ev src lengths fence attribute l
     in snd (setCompositMode (me_pf ev) (me_cap ev) (blending src) (plane_alpha_byte m src) (sint (zOrder src)) l))"

lemma describe_layer_alt:
  "describe_layer ev m a src dst lengths fence attribute l =
    map_option snd (setCompositArea (me_pf ev) (me_cap ev) (image_rect src) (image_rect dst) (transform src)
      (area_attribute ev m src) (described ev m a src lengths fence attribute l))"
  by (simp add: describe_layer_def described_def Let_def)

lemma described_ops:
  "(layer_op (me_pf ev) (me_cap ev))\<^sup>*\<^sup>* l (described ev m a src lengths fence attribute l)"
proof -
  let ?R = "layer_op (me_pf ev) (me_cap ev)"
  have "?R\<^sup>*\<^sup>* l (if layerFlags src AND EXYNOS_HWC_DIM_LAYER \<noteq> 0 then l else setup_meta ev m a src l)"
    by (simp add: setup_meta_ops)
  moreover have "?R\<^sup>*\<^sup>* l (snd (layer_setImageDimension (me_cap ev) w h x))" if "?R\<^sup>*\<^sup>* l x" for w h x
    using rtranclp.rtrancl_into_rtrancl[OF that lop_dimension] .
  moreover have "?R\<^sup>*\<^sup>* l (snd (setImageType (me_pf ev) (me_cap ev) fmt ds x))" if "?R\<^sup>*\<^sup>* l x" for fmt ds x
    using rtranclp.rtrancl_into_rtrancl[OF that lop_canvas[OF op_type]] .
  moreover have "?R\<^sup>*\<^sup>* l (setup_buffer ev src lengths fence attribute x)" if "?R\<^sup>*\<^sup>* l x" for x
    using rtranclp.rtrancl_into_rtrancl[OF that lop_canvas[OF setup_buffer_op]] .
  moreover have "?R\<^sup>*\<^sup>* l (snd (setCompositMode (me_pf ev) (me_cap ev) mode alpha z x))" if "?R\<^sup>*\<^sup>* l x" for mode alpha z x
    using rtranclp.rtrancl_into_rtrancl[OF that lop_mode] .
  ultimately show ?thesis by (simp add: described_def Let_def)
qed

lemma describe_layer_ops:
  assumes "describe_layer ev m a src dst lengths fence attribute l = Some l'" "fits16 (image_rect dst)"
  shows "(layer_op (me_pf ev) (me_cap ev))\<^sup>*\<^sup>* l l'"
proof -
  obtain ok where "setCompositArea (me_pf ev) (me_cap ev) (image_rect src) (image_rect dst) (transform src)
      (area_attribute ev m src) (described ev m a src lengths fence attribute l) = Some (ok, l')"
    using assms(1) by (auto simp: describe_layer_alt)
  from rtranclp.rtrancl_into_rtrancl[OF described_ops lop_area[OF this assms(2)]] show ?thesis .
qed

lemma area_defined:
  assumes cap: "cap \<in> factory_caps pf" and fits: "fits16 out"
  shows "setCompositArea pf cap src out tr attr l \<noteq> None"
proof (cases "area_bits out = 0 \<or> area_bits out < 0 \<or> area_bad (min_dst_dimension cap) out")
  case True
  then show ?thesis by (auto simp: setCompositArea_def Let_def)
next
  case False
  then have "\<not> area_bits out < 0" "\<not> area_bad (min_dst_dimension cap) out" by auto
  note a = area_passes[OF this fits]
  let ?out = "coord (int16_of (get_width out)) (int16_of (get_height out))"
  let ?src = "coord (int16_of (get_width src)) (int16_of (get_height src))"
  have "hori ?out \<noteq> 0" "vert ?out \<noteq> 0"
    using a fits by (simp_all add: get_width_def get_height_def fits16_def)
  from factory.resampling_defined[OF cap this, of pf ?src tr] factory.resizing_defined[OF cap this, of pf ?src tr]
  obtain x y where "supportedResampling pf cap ?src ?out tr = Some x" "supportedResizing pf cap ?src ?out tr = Some y"
    by (simp only: not_None_eq) blast
  then show ?thesis by (simp add: setCompositArea_def Let_def del: not_None_eq)
qed

lemma describe_layer_defined:
  assumes "me_cap ev \<in> factory_caps (me_pf ev)" "fits16 (image_rect dst)"
  obtains l' where "describe_layer ev m a src dst lengths fence attribute l = Some l'"
  using area_defined[OF assms] by (simp add: describe_layer_alt) fastforce


section \<open>A source becomes a layer\<close>

text \<open>What setting up the layers does not touch.\<close>

definition same_job :: "m2m \<Rightarrow> m2m \<Rightarrow> bool" where
  "same_job m m' \<longleftrightarrow> length (mSrcImgs m') = length (mSrcImgs m) \<and> mDstImgs m' = mDstImgs m \<and>
     mCurrentDstBuf m' = mCurrentDstBuf m \<and> mm_mpp m' = mm_mpp m \<and> mm_sources m' = mm_sources m \<and>
     mPrevFrameInfo m' = mPrevFrameInfo m \<and> mUseM2MSrcFence m' = mUseM2MSrcFence m \<and> mAllocOutBufFlag m' = mAllocOutBufFlag m"

lemma same_job_refl [simp]: "same_job m m"
  by (simp add: same_job_def)

lemma same_job_trans: "same_job a b \<Longrightarrow> same_job b c \<Longrightarrow> same_job a c"
  by (simp add: same_job_def)

lemma job_fields:
  assumes "same_job m m'"
  shows "mm_count m' = mm_count m" "mm_source m' = mm_source m" "mDstImgs m' = mDstImgs m" "mm_mpp m' = mm_mpp m"
    "mPrevFrameInfo m' = mPrevFrameInfo m" "mm_sources m' = mm_sources m" "length (mSrcImgs m') = length (mSrcImgs m)"
    "mCurrentDstBuf m' = mCurrentDstBuf m" "mAllocOutBufFlag m' = mAllocOutBufFlag m"
  using assms by (simp_all add: same_job_def mm_count_def mm_source_def fun_eq_iff)

lemma job_wf: "m2m_wf ev m \<Longrightarrow> same_job m m' \<Longrightarrow> linked ev m' \<Longrightarrow> m2m_wf ev m'"
  by (simp add: m2m_wf_def same_job_def)

lemma upd_src_job [simp]: "same_job m (upd_src i f m)"
  by (simp add: same_job_def upd_src_def)

lemma tracer_job [simp]: "same_job m (m\<lparr>mm_tracer := t\<rparr>)" "same_job m (m\<lparr>mAcrylicHandle := h\<rparr>)"
    "same_job m (m\<lparr>mAcrylicHandle := h, mm_next := n\<rparr>)"
  by (simp_all add: same_job_def)

lemma slot_layers_upd_src:
  "i < length (mSrcImgs m) \<Longrightarrow> slot_layers (upd_src i f m) = (slot_layers m)[i := mppLayer (f (mSrcImgs m ! i))]"
  by (simp add: slot_layers_def upd_src_def map_update)

lemma upd_src_other [simp]:
  "mAcrylicHandle (upd_src i f m) = mAcrylicHandle m" "mm_next (upd_src i f m) = mm_next m"
  "mm_tracer (upd_src i f m) = mm_tracer m" "mVotfInfo (upd_src i f m) = mVotfInfo m"
  by (simp_all add: upd_src_def)

text \<open>Creating the layer of a slot: it fails only when the accelerator has no place for one more.\<close>

lemma create_slot_layer_cases:
  assumes "create_slot_layer ev i m = (layer, m')" "linked ev m" "i < length (mSrcImgs m)"
  shows "same_job m m'" "linked ev m'" "\<And>j. j < length (mSrcImgs m) \<Longrightarrow> j \<noteq> i \<Longrightarrow> slot_layers m' ! j = slot_layers m ! j"
    and "layer = mppLayer (mSrcImgs m' ! i)"
proof -
  consider (old) a where "mppLayer (mSrcImgs m ! i) = Some a" "layer = Some a" "m' = m"
    | (none) "mppLayer (mSrcImgs m ! i) = None" "mAcrylicHandle m = None" "layer = None" "m' = m"
    | (made) ac l ac' where "mppLayer (mSrcImgs m ! i) = None" "mAcrylicHandle m = Some ac"
        "createLayer (me_pf ev) (me_cap ev) (mm_next m) (me_garbage ev) ac = (l, ac')" "layer = l"
        "m' = upd_src i (\<lambda>b. b\<lparr>mppLayer := l\<rparr>) (m\<lparr>mAcrylicHandle := Some ac', mm_next := mm_next m + 1\<rparr>)"
    using assms(1) by (auto simp: create_slot_layer_def split: option.splits prod.splits)
  note cases = this
  have "same_job m m' \<and> linked ev m' \<and> (\<forall>j<length (mSrcImgs m). j \<noteq> i \<longrightarrow> slot_layers m' ! j = slot_layers m ! j) \<and>
      layer = mppLayer (mSrcImgs m' ! i)"
    using cases
  proof cases
    case made
    let ?m = "m\<lparr>mAcrylicHandle := Some ac', mm_next := mm_next m + 1\<rparr>"
    have sl: "slot_layers m' = (slot_layers m)[i := l]"
      using made(5) assms(3) by (simp add: slot_layers_def upd_src_def map_update)
    have job: "same_job m m'" using made(5) by (simp add: same_job_def upd_src_def)
    have li: "layer = mppLayer (mSrcImgs m' ! i)" using made(4,5) assms(3) by (simp add: upd_src_def)
    have h: "mAcrylicHandle m' = Some ac'" "mm_next m' = mm_next m + 1" using made(5) by simp_all
    have reach: "acryl_reach (me_pf ev) (me_cap ev) ac" "image_mset Some (mset (mLayers ac)) = slot_addresses m"
      "\<forall>a\<in>set (mLayers ac). a < mm_next m"
      using assms(2) made(2) by (simp_all add: linked_def)
    then have "mm_next m \<notin> set (mLayers ac)" by auto
    from reach_step[OF reach(1) step_create[OF this, of _ _ "me_garbage ev"]]
    have "acryl_reach (me_pf ev) (me_cap ev) ac'" using made(3) by (metis snd_conv)
    moreover have "slot_addresses m' = slot_addresses m + (case l of None \<Rightarrow> {#} | Some a \<Rightarrow> {#Some a#})"
      using slot_addresses_upd[OF assms(3) sl] made(1) by simp
    moreover have "l = None \<and> ac' = ac \<or> l = Some (mm_next m) \<and> mLayers ac' = mLayers ac @ [mm_next m]"
      using made(3) by (auto simp: createLayer_def split: if_splits)
    ultimately have "linked ev m'" using reach(2,3) h by (auto simp: linked_def intro: less_SucI)
    then show ?thesis using job li sl by simp
  qed (use assms(2) in auto)
  then show "same_job m m'" "linked ev m'" "\<And>j. j < length (mSrcImgs m) \<Longrightarrow> j \<noteq> i \<Longrightarrow> slot_layers m' ! j = slot_layers m ! j"
    "layer = mppLayer (mSrcImgs m' ! i)" by auto
qed

text \<open>The part of \<open>setupLayer\<close> after its checks, on the layer at \<open>a\<close>.\<close>

lemma keeps_job: "keeps m m' \<Longrightarrow> mDstImgs m' = mDstImgs m \<Longrightarrow> same_job m m'"
  by (simp add: keeps_def same_job_def same_work_def)

lemma mm_frames_dst [simp]:
  "mDstImgs (mm_set_fence f ty dir m) = mDstImgs m" "mDstImgs (mm_close f ty ip m) = mDstImgs m"
  "mm_check_debug ev ty ip f m = (fence, m') \<Longrightarrow> mDstImgs m' = mDstImgs m"
  by (auto simp: mm_set_fence_def mm_close_def mm_check_debug_def split_beta)

lemma keeps_linked: "keeps m m' \<Longrightarrow> linked ev m \<Longrightarrow> linked ev m'"
  unfolding keeps_def by (elim conjE) (rule linked_same)

lemma keeps_links: "keeps m m' \<Longrightarrow> slot_layers m' = slot_layers m \<and> mAcrylicHandle m' = mAcrylicHandle m"
  by (simp add: keeps_def same_links_def)

definition put_layer :: "nat \<Rightarrow> (mpp_img_info \<Rightarrow> mpp_img_info) \<Rightarrow> nat \<Rightarrow> acryl_layer \<Rightarrow> acrylic \<Rightarrow> m2m \<Rightarrow> m2m" where
  "put_layer i f a l ac m = upd_src i f (m\<lparr>mAcrylicHandle := Some (on_layer a (\<lambda>_. l) ac)\<rparr>)"

text \<open>The three ways a call ends.\<close>

lemma setupLayer_elim:
  assumes "setupLayer ev i m = r"
  obtains (failed) layer m1 where "create_slot_layer ev i m = (layer, m1)" "r = Some (- EINVAL, m1)"
  | (stuck) layer m1 m2 where "create_slot_layer ev i m = (layer, m1)" "r = None" "keeps m1 m2" "layer \<noteq> None"
      "mAcrylicHandle m2 = None \<or> (\<exists>lengths fence attribute l. describe_layer ev m2 (mAssignedSources (mm_mpp m2) ! i)
         (mSrcImg (mm_source m i)) (mMidImg (mm_source m i)) lengths fence attribute l = None)"
  | (drawn) a m1 m2 ac lengths fence attribute l f where "create_slot_layer ev i m = (Some a, m1)" "keeps m1 m2"
      "mDstImgs m2 = mDstImgs m1" "mAcrylicHandle m2 = Some ac"
      "describe_layer ev m2 (mAssignedSources (mm_mpp m2) ! i) (mSrcImg (mm_source m i)) (mMidImg (mm_source m i)) lengths fence
         attribute (ac_store ac a) = Some l"
      "\<And>b. mppLayer (f b) = mppLayer b" "r = Some (NO_ERROR, put_layer i f a l ac m2)"
proof -
  let ?src = "mSrcImg (mm_source m i)" and ?dst = "mMidImg (mm_source m i)"
  let ?dim = "layerFlags ?src AND EXYNOS_HWC_DIM_LAYER \<noteq> 0"
  let ?fmt = "fmt_halFormat (pf_hal (me_pf ev)) (exynosFormat ?src)"
  obtain layer m1 where c: "create_slot_layer ev i m = (layer, m1)" by fastforce
  obtain status lengths where len: "(if ?dim then (NO_ERROR, [])
      else buffer_lengths ev (bufferHandle ?src) ?fmt (fullWidth ?src) (fullHeight ?src)) = (status, lengths)" by fastforce
  define type where "type = getBufferType_handle ev (dumpMidBuf m1) (bufferHandle ?src)"
  define m2 where "m2 = (if ?dim then m1 else upd_src i (\<lambda>b. b\<lparr>mi_bufferType := type\<rparr>) m1)"
  obtain fence m3 where d: "mm_check_debug ev FENCE_TYPE_SRC_ACQUIRE (mm_ip m2) (acquireFenceFd ?src) m2 = (fence, m3)"
    by fastforce
  define m4 where "m4 = mm_set_fence fence FENCE_TYPE_SRC_ACQUIRE FENCE_TO m3"
  define attribute where "attribute = (if ?dim then 0 else (if type = MPP_BUFFER_SECURE_DRM then ATTR_PROTECTED else 0) OR
      (if ci_type (compressionInfo ?src) = COMP_TYPE_AFBC then ATTR_COMPRESSED else 0))"
  define f :: "mpp_img_info \<Rightarrow> mpp_img_info" where "f = (\<lambda>b. b\<lparr>mi_bufferHandle := bufferHandle ?src, acrylicAcquireFenceFd := -1,
      mi_format := format_of (pf_hal (me_pf ev)) (public_format ev ?fmt)\<rparr>)"
  have "keeps m1 m2" by (simp add: m2_def upd_src_keeps)
  moreover have "keeps m2 m4"
    unfolding m4_def by (rule keeps_trans[OF check_debug_keeps[OF d] tracer_frames(4)])
  ultimately have k: "keeps m1 m4" by (rule keeps_trans)
  have dst: "mDstImgs m4 = mDstImgs m1"
    using mm_frames_dst(3)[OF d] by (simp add: m4_def m2_def upd_src_def)
  consider (e) "r = Some (- EINVAL, m1)" | (ok) a where "layer = Some a"
    "r = (case mAcrylicHandle m4 of None \<Rightarrow> None
       | Some ac \<Rightarrow> (case describe_layer ev m4 (mAssignedSources (mm_mpp m4) ! i) ?src ?dst lengths fence attribute (ac_store ac a) of
           None \<Rightarrow> None | Some l \<Rightarrow> Some (NO_ERROR, put_layer i f a l ac m4)))"
    using assms c len d unfolding setupLayer_def Let_def type_def m2_def m4_def attribute_def f_def put_layer_def
    by (auto split: option.splits if_splits)
  then show ?thesis
  proof cases
    case e
    then show ?thesis using failed c by blast
  next
    case ok
    show ?thesis
    proof (cases "mAcrylicHandle m4")
      case None
      then show ?thesis using stuck[OF c _ k] ok by simp
    next
      case (Some ac)
      show ?thesis
      proof (cases "describe_layer ev m4 (mAssignedSources (mm_mpp m4) ! i) ?src ?dst lengths fence attribute (ac_store ac a)")
        case None
        have r: "r = None" and layer: "layer \<noteq> None" using ok Some None by simp_all
        from stuck[OF c r k layer] None show ?thesis by blast
      next
        case (Some l)
        then show ?thesis
          using drawn[OF c[unfolded ok(1)] k dst \<open>mAcrylicHandle m4 = Some ac\<close> Some, of f] ok(2) \<open>mAcrylicHandle m4 = Some ac\<close>
          by (simp add: f_def)
      qed
    qed
  qed
qed

text \<open>A call leaves the link intact, and a successful one leaves a layer in the slot.\<close>

lemma put_layer_linked:
  assumes "linked ev m" "mAcrylicHandle m = Some ac" "a \<in> set (mLayers ac)" "\<And>b. mppLayer (f b) = mppLayer b"
    and "(layer_op (me_pf ev) (me_cap ev))\<^sup>*\<^sup>* (ac_store ac a) l"
  shows "linked ev (put_layer i f a l ac m)" "slot_layers (put_layer i f a l ac m) = slot_layers m"
    "same_job m (put_layer i f a l ac m)"
proof -
  let ?m = "m\<lparr>mAcrylicHandle := Some (on_layer a (\<lambda>_. l) ac)\<rparr>"
  have "acryl_reach (me_pf ev) (me_cap ev) ac" using assms(1,2) by (simp add: linked_def)
  from reach_layer[where f = "\<lambda>_. l", OF assms(5) this assms(3)]
  have "linked ev ?m" by (rule linked_moves[OF assms(1,2)]) (simp_all add: slot_layers_def)
  moreover have "keeps ?m (put_layer i f a l ac m)" unfolding put_layer_def by (rule upd_src_keeps[OF assms(4)])
  ultimately show "linked ev (put_layer i f a l ac m)" "slot_layers (put_layer i f a l ac m) = slot_layers m"
    using keeps_linked keeps_links by (simp_all add: slot_layers_def) 
  show "same_job m (put_layer i f a l ac m)"
    using same_job_trans[OF tracer_job(2) upd_src_job] by (simp add: put_layer_def)
qed

lemma setupLayer_keeps:
  assumes "setupLayer ev i m = Some (ret, m')" "linked ev m" "i < length (mSrcImgs m)"
    and "fits16 (image_rect (mMidImg (mm_source m i)))"
  shows "same_job m m'" "linked ev m'" "ret = NO_ERROR \<Longrightarrow> mppLayer (mSrcImgs m' ! i) \<noteq> None"
    and "\<And>j. j < length (mSrcImgs m) \<Longrightarrow> j \<noteq> i \<Longrightarrow> slot_layers m' ! j = slot_layers m ! j"
proof -
  have "same_job m m' \<and> linked ev m' \<and> (ret = NO_ERROR \<longrightarrow> mppLayer (mSrcImgs m' ! i) \<noteq> None) \<and>
      (\<forall>j<length (mSrcImgs m). j \<noteq> i \<longrightarrow> slot_layers m' ! j = slot_layers m ! j)"
    using assms(1)
  proof (cases rule: setupLayer_elim)
    case (failed layer m1)
    note c = create_slot_layer_cases[OF failed(1) assms(2,3)]
    show ?thesis using c failed(2) by (simp add: NO_ERROR_def EINVAL_def)
  next
    case (drawn a m1 m2 ac lengths fence attribute l f)
    note c = create_slot_layer_cases[OF drawn(1) assms(2,3)]
    have m2: "linked ev m2" "same_job m m2" "slot_layers m2 = slot_layers m1"
      using keeps_linked[OF drawn(2) c(2)] same_job_trans[OF c(1) keeps_job[OF drawn(2,3)]] keeps_links[OF drawn(2)] by simp_all
    have i: "i < length (mSrcImgs m2)" "i < length (mSrcImgs m1)" using m2(2) c(1) assms(3) by (simp_all add: same_job_def)
    then have at: "mppLayer (mSrcImgs m2 ! i) = Some a" using m2(3) c(4) by (metis length_map nth_map slot_layers_def)
    from m2(1) this i(1) have "a \<in> set (mLayers ac)"
      by (rule slot_in_layers) (simp add: drawn(4))
    note p = put_layer_linked[OF m2(1) drawn(4) this drawn(6) describe_layer_ops[OF drawn(5) assms(4)], of i]
    have m': "m' = put_layer i f a l ac m2" "ret = NO_ERROR" using drawn(7) by simp_all
    have "length (mSrcImgs m') = length (mSrcImgs m2)" using p(3) m'(1) by (simp add: same_job_def)
    then have "mppLayer (mSrcImgs m' ! i) = Some a"
      using p(2) m'(1) at i(1) by (metis length_map nth_map slot_layers_def)
    then show ?thesis using same_job_trans[OF m2(2) p(3)] p(1,2) c(3) m2(3) m' by simp
  qed simp
  then show "same_job m m'" "linked ev m'" "ret = NO_ERROR \<Longrightarrow> mppLayer (mSrcImgs m' ! i) \<noteq> None"
    "\<And>j. j < length (mSrcImgs m) \<Longrightarrow> j \<noteq> i \<Longrightarrow> slot_layers m' ! j = slot_layers m ! j" by auto
qed

lemma setupLayer_total:
  assumes "me_cap ev \<in> factory_caps (me_pf ev)" "linked ev m" "i < length (mSrcImgs m)"
    and "fits16 (image_rect (mMidImg (mm_source m i)))"
  shows "setupLayer ev i m \<noteq> None"
proof
  assume "setupLayer ev i m = None"
  then show False
  proof (cases rule: setupLayer_elim)
    case (stuck layer m1 m2)
    note c = create_slot_layer_cases[OF stuck(1) assms(2,3)]
    obtain a where "layer = Some a" using stuck(4) by auto
    then have "mppLayer (mSrcImgs m1 ! i) = Some a" using c(4) by simp
    with c(2) have "mAcrylicHandle m1 \<noteq> None"
      by (rule slot_in_layers) (use c(1) assms(3) in \<open>auto simp: same_job_def\<close>)
    then have "mAcrylicHandle m2 \<noteq> None" using keeps_links[OF stuck(3)] by simp
    then show False using stuck(5) describe_layer_defined[OF assms(1,4)] by (metis option.distinct(1))
  qed simp_all
qed

end
