(* ===== verification/MppRuns.thy ===== *)
theory MppRuns
  imports MppFrames
begin

text \<open>
  A frame of a memory-to-memory resource as a whole: it always comes back with a verdict and leaves the
  resource well-formed, what it hands to the accelerator is safe, and what a failed frame leaves behind.
\<close>

section \<open>The sources of a frame\<close>

lemma setup_layers_keeps:
  assumes "setup_layers ev js m = Some (ret, m')" "linked ev m" "distinct js"
    and "\<forall>i\<in>set js. fits16 (image_rect (mMidImg (mm_source m i)))" "\<forall>i\<in>set js. i < length (mSrcImgs m)"
  shows "same_job m m' \<and> linked ev m' \<and> (ret = NO_ERROR \<longrightarrow> (\<forall>i\<in>set js. slot_layers m' ! i \<noteq> None)) \<and>
    (\<forall>j<length (mSrcImgs m). j \<notin> set js \<longrightarrow> slot_layers m' ! j = slot_layers m ! j)"
  using assms
proof (induction "js" arbitrary: m)
  case (Cons i js)
  have i: "i < length (mSrcImgs m)" "fits16 (image_rect (mMidImg (mm_source m i)))" using Cons.prems(4,5) by simp_all
  obtain r m1 where s: "setupLayer ev i m = Some (r, m1)"
    and rest: "r \<noteq> NO_ERROR \<and> ret = r \<and> m' = m1 \<or> r = NO_ERROR \<and> setup_layers ev js m1 = Some (ret, m')"
    using Cons.prems(1) by (auto split: if_splits option.splits)
  note k = setupLayer_keeps[OF s Cons.prems(2) i]
  from rest show ?case
  proof (elim disjE conjE)
    assume "r \<noteq> NO_ERROR" "ret = r" "m' = m1"
    then show ?thesis using k by auto
  next
    assume r: "r = NO_ERROR" and rec: "setup_layers ev js m1 = Some (ret, m')"
    note f = job_fields[OF k(1)]
    have "same_job m1 m' \<and> linked ev m' \<and> (ret = NO_ERROR \<longrightarrow> (\<forall>i\<in>set js. slot_layers m' ! i \<noteq> None)) \<and>
        (\<forall>j<length (mSrcImgs m1). j \<notin> set js \<longrightarrow> slot_layers m' ! j = slot_layers m1 ! j)"
      by (rule Cons.IH[OF rec k(2)]) (use Cons.prems(3-5) f in auto)
    moreover have "slot_layers m1 ! i \<noteq> None" using k(3)[OF r] i(1) f(7) by (simp add: slot_layers_def)
    ultimately show ?thesis using same_job_trans[OF k(1)] k(4) f(7) Cons.prems(3) i(1) by auto
  qed
qed simp

lemma setup_layers_total:
  assumes "me_cap ev \<in> factory_caps (me_pf ev)" "linked ev m" "length (mSrcImgs m) = NUM_MPP_SRC_BUFS"
    and "\<forall>i\<in>set js. fits16 (image_rect (mMidImg (mm_source m i)))" "\<forall>i\<in>set js. i < NUM_MPP_SRC_BUFS"
  shows "setup_layers ev js m \<noteq> None"
  using assms(2-)
proof (induction "js" arbitrary: m)
  case (Cons i js)
  have i: "i < length (mSrcImgs m)" "fits16 (image_rect (mMidImg (mm_source m i)))" using Cons.prems(2,3,4) by simp_all
  from setupLayer_total[OF assms(1) Cons.prems(1) i] obtain r m1 where s: "setupLayer ev i m = Some (r, m1)" by auto
  note k = setupLayer_keeps[OF s Cons.prems(1) i]
  note f = job_fields[OF k(1)]
  have "setup_layers ev js m1 \<noteq> None" by (rule Cons.IH[OF k(2)]) (use Cons.prems f in auto)
  then show ?case using Cons.prems(4) s by (simp del: not_None_eq)
qed simp

section \<open>Removing layers\<close>

lemma destroy_layer_mset:
  assumes "acryl_reach pf cap ac" "cap \<in> factory_caps pf" "a \<in> set (mLayers ac)"
  shows "acryl_reach pf cap (destroy_layer a ac)" "mset (mLayers (destroy_layer a ac)) = mset (mLayers ac) - {#a#}"
proof -
  show "acryl_reach pf cap (destroy_layer a ac)" using reach_step[OF assms(1) step_destroy[OF assms(3)]] .
  have "mAttached (ac_store ac a)"
    using factory.reach_inv[OF assms(1,2)] assms(3) by (simp add: acryl_inv_def layer_ok_def)
  then show "mset (mLayers (destroy_layer a ac)) = mset (mLayers ac) - {#a#}"
    using assms(3) by (simp add: destroy_layer_def removeLayer_def)
qed

lemma delete_layer_job [simp]: "same_job m (delete_layer i m)"
  by (auto simp: delete_layer_def split: option.split intro: same_job_trans[OF tracer_job(2) upd_src_job])

lemma delete_layer_slots:
  assumes "i < length (mSrcImgs m)"
  shows "slot_layers (delete_layer i m) = (slot_layers m)[i := None]"
proof (cases "mppLayer (mSrcImgs m ! i)")
  case None
  then have "slot_layers m ! i = None" using assms by (simp add: slot_layers_def)
  then show ?thesis using None by (simp add: delete_layer_def) (metis list_update_id)
next
  case (Some a)
  then show ?thesis using assms by (simp add: delete_layer_def slot_layers_def upd_src_def map_update)
qed

lemma delete_layer_linked:
  assumes "linked ev m" "me_cap ev \<in> factory_caps (me_pf ev)" "i < length (mSrcImgs m)"
  shows "linked ev (delete_layer i m)"
proof (cases "mppLayer (mSrcImgs m ! i)")
  case None
  then show ?thesis using assms(1) by (simp add: delete_layer_def)
next
  case (Some a)
  obtain ac where ac: "mAcrylicHandle m = Some ac" "acryl_reach (me_pf ev) (me_cap ev) ac" "a \<in> set (mLayers ac)"
    using slot_in_layers[OF assms(1) Some assms(3)] .
  note d = destroy_layer_mset[OF ac(2) assms(2) ac(3)]
  have h: "mAcrylicHandle (delete_layer i m) = Some (destroy_layer a ac)" "mm_next (delete_layer i m) = mm_next m"
    using Some ac(1) by (simp_all add: delete_layer_def)
  have "add_mset (Some a) (slot_addresses (delete_layer i m)) = slot_addresses m"
    using slot_addresses_upd[OF assms(3) delete_layer_slots[OF assms(3)]] Some by simp
  moreover have l: "image_mset Some (mset (mLayers ac)) = slot_addresses m" "\<forall>b\<in>set (mLayers ac). b < mm_next m"
    using assms(1) ac(1) by (simp_all add: linked_def)
  moreover obtain M where M: "mset (mLayers ac) = add_mset a M" using ac(3) by (metis insert_DiffM set_mset_mset)
  ultimately have "add_mset (Some a) (image_mset Some M) = add_mset (Some a) (slot_addresses (delete_layer i m))"
    by (simp add: M)
  then have "image_mset Some M = slot_addresses (delete_layer i m)" by (simp only: add_mset_add_mset_same_iff)
  then have "image_mset Some (mset (mLayers ac) - {#a#}) = slot_addresses (delete_layer i m)" by (simp add: M)
  moreover have "\<forall>b\<in>set (mLayers (destroy_layer a ac)). b < mm_next m"
    using l(2) d(2) by (metis in_diffD set_mset_mset)
  ultimately show ?thesis using h d by (simp add: linked_def)
qed

lemma delete_layers:
  assumes "linked ev m" "me_cap ev \<in> factory_caps (me_pf ev)" "\<forall>i\<in>set js. i < length (mSrcImgs m)"
  shows "same_job m (fold delete_layer js m)" "linked ev (fold delete_layer js m)"
    and "j \<in> set js \<Longrightarrow> slot_layers (fold delete_layer js m) ! j = None"
    and "j \<notin> set js \<Longrightarrow> slot_layers (fold delete_layer js m) ! j = slot_layers m ! j"
proof -
  have "same_job m (fold delete_layer js m) \<and> linked ev (fold delete_layer js m) \<and>
    (j \<in> set js \<or> j < length (mSrcImgs m) \<and> slot_layers m ! j = None \<longrightarrow> slot_layers (fold delete_layer js m) ! j = None) \<and>
    (j \<notin> set js \<longrightarrow> slot_layers (fold delete_layer js m) ! j = slot_layers m ! j)"
    using assms(1,3)
  proof (induction "js" arbitrary: m)
    case (Cons i js)
    have i: "i < length (mSrcImgs m)" using Cons.prems(2) by simp
    have len: "length (mSrcImgs (delete_layer i m)) = length (mSrcImgs m)" using job_fields(7)[OF delete_layer_job] .
    have "slot_layers (delete_layer i m) ! j = (if j = i then None else slot_layers m ! j)"
      using delete_layer_slots[OF i] i by (simp add: slot_layers_def)
    then show ?case
      using Cons.IH[OF delete_layer_linked[OF Cons.prems(1) assms(2) i]] Cons.prems(2) len i
        same_job_trans[OF delete_layer_job] by auto
  qed simp
  then show "same_job m (fold delete_layer js m)" "linked ev (fold delete_layer js m)"
    "j \<in> set js \<Longrightarrow> slot_layers (fold delete_layer js m) ! j = None"
    "j \<notin> set js \<Longrightarrow> slot_layers (fold delete_layer js m) ! j = slot_layers m ! j" by blast+
qed


section \<open>The destination and the run\<close>

text \<open>What holds of everything after the sources: the slots and the assignment stay.\<close>

definition same_slots :: "m2m \<Rightarrow> m2m \<Rightarrow> bool" where
  "same_slots m m' \<longleftrightarrow> slot_layers m' = slot_layers m \<and> length (mDstImgs m') = length (mDstImgs m) \<and>
     mCurrentDstBuf m' = mCurrentDstBuf m \<and> mm_mpp m' = mm_mpp m \<and> mm_sources m' = mm_sources m \<and>
     mPrevFrameInfo m' = mPrevFrameInfo m"

lemma same_slots_refl [simp]: "same_slots m m"
  by (simp add: same_slots_def)

lemma same_slots_trans: "same_slots a b \<Longrightarrow> same_slots b c \<Longrightarrow> same_slots a c"
  by (simp add: same_slots_def)

lemma stays_slots: "stays m m' \<Longrightarrow> same_slots m m'"
  by (simp add: stays_def same_slots_def same_links_def)

lemma keeps_slots: "keeps m m' \<Longrightarrow> same_slots m m'"
  by (rule stays_slots[OF keeps_stays])

lemma slots_wf:
  assumes "same_slots m m'" "m2m_wf ev m" "linked ev m'"
  shows "m2m_wf ev m'"
proof -
  have "length (mSrcImgs m') = length (mSrcImgs m)"
    using assms(1) by (intro links_length) (simp add: same_slots_def)
  then show ?thesis using assms by (simp add: m2m_wf_def same_slots_def)
qed

lemma slots_count: "same_slots m m' \<Longrightarrow> mm_count m' = mm_count m" "same_slots m m' \<Longrightarrow> mm_source m' = mm_source m"
  by (simp_all add: same_slots_def mm_count_def mm_source_def fun_eq_iff)

text \<open>The setters of the canvas move the accelerator to states it can be brought into.\<close>

lemma canvas_layers [simp]:
  "mLayers (on_canvas f ac) = mLayers ac" "mLayers (setTargetDisplayLuminance lo hi ac) = mLayers ac"
  "ac_store (on_canvas f ac) = ac_store ac" "ac_store (setTargetDisplayLuminance lo hi ac) = ac_store ac"
  by (simp_all add: on_canvas_def setTargetDisplayLuminance_def)

lemma canvas_setters_layers [simp]:
  "mLayers (setCanvasDimension ev w h ac) = mLayers ac" "mLayers (setCanvasImageType ev fmt ds ac) = mLayers ac"
  "mLayers (setCanvasBuffer ev fds lengths n fence attr ac) = mLayers ac" "mLayers (setCanvasOTF ev attr ac) = mLayers ac"
  "ac_store (setCanvasDimension ev w h ac) = ac_store ac" "ac_store (setCanvasImageType ev fmt ds ac) = ac_store ac"
  "ac_store (setCanvasBuffer ev fds lengths n fence attr ac) = ac_store ac" "ac_store (setCanvasOTF ev attr ac) = ac_store ac"
  by (simp_all add: setCanvasDimension_def setCanvasImageType_def setCanvasBuffer_def setCanvasOTF_def)

lemma on_canvas_reach:
  "acryl_reach pf cap ac \<Longrightarrow> (\<And>c :: canvas. canvas_op pf cap c (f c)) \<Longrightarrow> acryl_reach pf cap (on_canvas f ac)"
  unfolding on_canvas_def by (rule reach_canvas)

lemma canvas_setters_reach:
  assumes "acryl_reach (me_pf ev) (me_cap ev) ac"
  shows "acryl_reach (me_pf ev) (me_cap ev) (setCanvasDimension ev w h ac)"
    "acryl_reach (me_pf ev) (me_cap ev) (setCanvasImageType ev fmt ds ac)"
    "acryl_reach (me_pf ev) (me_cap ev) (setCanvasBuffer ev fds lengths n fence attr ac)"
    "acryl_reach (me_pf ev) (me_cap ev) (setCanvasOTF ev attr ac)"
    "acryl_reach (me_pf ev) (me_cap ev) (setTargetDisplayLuminance lo hi ac)"
  using reach_step[OF assms step_dimension] reach_step[OF assms step_luminance]
  by (simp_all add: setCanvasDimension_def setCanvasImageType_def setCanvasBuffer_def setCanvasOTF_def on_canvas_def
      reach_canvas[OF assms op_type] reach_canvas[OF assms op_dmabuf] reach_canvas[OF assms op_otf])

text \<open>The canvas as \<open>setupDst\<close> leaves it.\<close>

definition dst_canvas ::
  "m2m_env \<Rightarrow> m2m \<Rightarrow> int \<Rightarrow> u32 \<Rightarrow> bool \<Rightarrow> (nat \<Rightarrow> int) \<Rightarrow> u64 list \<Rightarrow> int \<Rightarrow> int \<Rightarrow> u32 \<Rightarrow> u16 \<Rightarrow> u16 \<Rightarrow> acrylic \<Rightarrow> acrylic" where
  "dst_canvas ev m fmt ds otf fds lengths num fence attribute lo hi ac =
    (let d = mAssignedDisplayInfo (mm_mpp m); align = GET_M2M_DST_ALIGN ev fmt;
         ac = (if display_set d
               then setCanvasDimension ev (pixel_align (sint (xres d)) align) (pixel_align (sint (yres d)) align) ac else ac);
         ac = setCanvasImageType ev fmt ds ac;
         ac = (if otf then setCanvasImageType ev (pf_hal (me_pf ev) HAL_PIXEL_FORMAT_EXYNOS_YCbCr_420_SPN) ds ac else ac);
         ac = setCanvasBuffer ev fds lengths num fence attribute ac;
         ac = (if otf then setCanvasOTF ev attribute ac else ac)
     in if display_set d \<and> mPhysicalType (mm_mpp m) = MPP_G2D \<and> di_type (mm_display m) \<noteq> pf_display_virtual (me_pf ev)
        then setTargetDisplayLuminance lo hi ac else ac)"

lemma dst_canvas_reach:
  "acryl_reach (me_pf ev) (me_cap ev) ac \<Longrightarrow>
     acryl_reach (me_pf ev) (me_cap ev) (dst_canvas ev m fmt ds otf fds lengths num fence attribute lo hi ac)"
  "mLayers (dst_canvas ev m fmt ds otf fds lengths num fence attribute lo hi ac) = mLayers ac"
  "ac_store (dst_canvas ev m fmt ds otf fds lengths num fence attribute lo hi ac) = ac_store ac"
  by (simp_all add: dst_canvas_def Let_def canvas_setters_reach)

text \<open>An error leaves everything as it was; otherwise the canvas is described and the slot written.\<close>

lemma setupDst_elim:
  assumes "setupDst ev m = Some (ret, m')"
  obtains (failed) "ret = - EINVAL" "m' = m"
  | (drawn) ac m2 fence fmt ds otf fds lengths num attribute lo hi type where "ret = NO_ERROR" "mAcrylicHandle m = Some ac" "keeps m m2"
      "m' = upd_dst (cur_slot m) (\<lambda>b. b\<lparr>mi_bufferType := type, acrylicReleaseFenceFd := -1, mi_dataspace := ds\<rparr>)
        (m2\<lparr>mAcrylicHandle := Some (dst_canvas ev m fmt ds otf fds lengths num fence attribute lo hi ac)\<rparr>)"
proof -
  let ?slot = "mDstImgs m ! cur_slot m"
  define fmt where "fmt = fmt_halFormat (pf_hal (me_pf ev)) (mi_format ?slot)"
  define ds where "ds = getDstDataspace ev m fmt (mAssignedDisplayInfo (mm_mpp m)) (mi_dataspace ?slot)"
  define g where "g = buffer_meta (me_gr ev) (mi_bufferHandle ?slot)"
  define m1 where "m1 = mm_set_fence (acrylicReleaseFenceFd ?slot) FENCE_TYPE_DST_RELEASE FENCE_TO m"
  define otf where "otf = (mLogicalType (mm_mpp m1) = MPP_LOGICAL_G2D_COMBO \<and> to_llwfd ev m1)"
  obtain status lengths where len: "buffer_lengths ev (mi_bufferHandle ?slot) fmt (word_of_int (gm_stride g)) (word_of_int (gm_vstride g)) =
      (status, lengths)" by fastforce
  have m1: "keeps m m1" by (simp add: m1_def frames)
  obtain fence m2 where f: "(if otf then (-1, mm_close (acrylicReleaseFenceFd ?slot) FENCE_TYPE_DST_RELEASE (mm_ip m1) m1)
      else mm_check_debug ev FENCE_TYPE_DST_RELEASE (mm_ip m1) (acrylicReleaseFenceFd ?slot) m1) = (fence, m2)" by fastforce
  have "keeps m1 m2" using f check_debug_keeps by (auto simp: frames split: if_splits)
  then have k: "keeps m m2" using keeps_trans[OF m1] by simp
  have same: "mm_mpp m2 = mm_mpp m" "mm_display m2 = mm_display m" using k by (simp_all add: keeps_def same_work_def mm_display_def)
  show ?thesis
  proof (cases "m' = m \<and> ret = - EINVAL")
    case False
    then obtain ac lo hi where a: "mAcrylicHandle m = Some ac" "getDstMetaInfo ev m ds = Some (lo, hi)"
      using assms unfolding setupDst_def Let_def len[unfolded g_def fmt_def] ds_def fmt_def
      by (auto split: if_splits option.splits prod.splits)
    define type where "type = getBufferType_handle ev (dumpMidBuf m) (mi_bufferHandle ?slot)"
    define attribute where "attribute = dst_attribute ev m (mi_bufferHandle ?slot) type"
    define num where "num = sint (fmt_bufferNum (mi_format ?slot))"
    have "ret = NO_ERROR \<and> m' = upd_dst (cur_slot m) (\<lambda>b. b\<lparr>mi_bufferType := type, acrylicReleaseFenceFd := -1, mi_dataspace := ds\<rparr>)
        (m2\<lparr>mAcrylicHandle := Some (dst_canvas ev m fmt ds otf (buffer_fds g) lengths num fence attribute lo hi ac)\<rparr>)"
      using assms False a f same
      unfolding setupDst_def Let_def fmt_def[symmetric] g_def[symmetric] len prod.case ds_def[symmetric] m1_def[symmetric]
        type_def[symmetric] attribute_def[symmetric] num_def[symmetric] dst_canvas_def
      by (auto simp: otf_def[symmetric] Let_def split: if_splits)
    then show ?thesis using drawn[OF _ a(1) k] by blast
  qed (use failed in blast)
qed

lemma upd_dst_slots [simp]: "same_slots m (upd_dst i f m)" "mAcrylicHandle (upd_dst i f m) = mAcrylicHandle m"
    "slot_layers (upd_dst i f m) = slot_layers m" "mm_next (upd_dst i f m) = mm_next m"
  by (simp_all add: same_slots_def upd_dst_def slot_layers_def)

lemma handle_slots [simp]: "same_slots m (m\<lparr>mAcrylicHandle := h\<rparr>)" "slot_layers (m\<lparr>mAcrylicHandle := h\<rparr>) = slot_layers m"
  by (simp_all add: same_slots_def slot_layers_def)

lemma setupDst_keeps:
  assumes "setupDst ev m = Some (ret, m')" "linked ev m"
  shows "same_slots m m'" "linked ev m'"
    and "\<And>ac. mAcrylicHandle m = Some ac \<Longrightarrow> \<exists>ac'. mAcrylicHandle m' = Some ac' \<and> mLayers ac' = mLayers ac \<and> ac_store ac' = ac_store ac"
proof -
  have "same_slots m m' \<and> linked ev m' \<and> (\<forall>ac. mAcrylicHandle m = Some ac \<longrightarrow>
      (\<exists>ac'. mAcrylicHandle m' = Some ac' \<and> mLayers ac' = mLayers ac \<and> ac_store ac' = ac_store ac))"
    using assms(1)
  proof (cases rule: setupDst_elim)
    case (drawn ac m2 fence fmt ds otf fds lengths num attribute lo hi type)
    let ?ac = "dst_canvas ev m fmt ds otf fds lengths num fence attribute lo hi ac"
    let ?m2 = "m2\<lparr>mAcrylicHandle := Some ?ac\<rparr>"
    have reach: "acryl_reach (me_pf ev) (me_cap ev) ac" using assms(2) drawn(2) by (simp add: linked_def)
    have l2: "linked ev m2" "mAcrylicHandle m2 = Some ac" using keeps_linked[OF drawn(3) assms(2)] keeps_links[OF drawn(3)] drawn(2) by simp_all
    have "linked ev m'"
      by (rule linked_moves[OF l2 dst_canvas_reach(1)[OF reach]]) (simp_all add: drawn(4) dst_canvas_reach(2))
    moreover have "same_slots m m'"
      unfolding drawn(4)
      by (rule same_slots_trans[OF same_slots_trans[OF keeps_slots[OF drawn(3)] handle_slots(1)] upd_dst_slots(1)])
    moreover have "mAcrylicHandle m' = Some ?ac" by (simp add: drawn(4))
    ultimately show ?thesis using drawn(2) dst_canvas_reach(2,3) by auto
  qed (use assms(2) in simp)
  then show "same_slots m m'" "linked ev m'"
    "\<And>ac. mAcrylicHandle m = Some ac \<Longrightarrow> \<exists>ac'. mAcrylicHandle m' = Some ac' \<and> mLayers ac' = mLayers ac \<and> ac_store ac' = ac_store ac"
    by auto
qed

lemma getDstMetaInfo_total:
  assumes "mm_count m \<noteq> 0"
  obtains lo hi where "getDstMetaInfo ev m ds = Some (lo, hi)"
proof -
  have "getDstMetaInfo ev m ds \<noteq> None" using assms by (simp add: getDstMetaInfo_def Let_def split: option.split prod.split)
  then show ?thesis using that by (cases "getDstMetaInfo ev m ds") (simp, metis prod.exhaust)
qed

lemma defined_if: "(b \<Longrightarrow> x \<noteq> None) \<Longrightarrow> (\<not> b \<Longrightarrow> y \<noteq> None) \<Longrightarrow> (if b then x else y) \<noteq> None"
  by simp

lemma defined_pair: "(\<And>a b. f a b \<noteq> None) \<Longrightarrow> (case p of (a, b) \<Rightarrow> f a b) \<noteq> None"
  by (cases p) simp

lemma setupDst_total:
  assumes "mAcrylicHandle m = Some ac" "mm_count m \<noteq> 0"
  shows "setupDst ev m \<noteq> None"
proof -
  obtain lo hi where meta: "getDstMetaInfo ev m (getDstDataspace ev m (fmt_halFormat (pf_hal (me_pf ev)) (mi_format (mDstImgs m ! cur_slot m)))
      (mAssignedDisplayInfo (mm_mpp m)) (mi_dataspace (mDstImgs m ! cur_slot m))) = Some (lo, hi)"
    using getDstMetaInfo_total[OF assms(2)] .
  show ?thesis
    unfolding setupDst_def Let_def meta assms(1) option.case prod.case
    by (intro defined_pair defined_if option.distinct(2))
qed

lemma slot_layer_do_keeps:
  assumes "linked ev m" "\<And>l. layer_op (me_pf ev) (me_cap ev) l (f l)" "i < length (mSrcImgs m)"
  shows "same_slots m (slot_layer_do f i m)" "linked ev (slot_layer_do f i m)"
proof -
  show "same_slots m (slot_layer_do f i m)" by (simp add: slot_layer_do_def split: option.split)
  show "linked ev (slot_layer_do f i m)"
  proof (cases "mppLayer (mSrcImgs m ! i)")
    case (Some a)
    from slot_in_layers[OF assms(1) this assms(3)] obtain ac where
      ac: "mAcrylicHandle m = Some ac" "acryl_reach (me_pf ev) (me_cap ev) ac" "a \<in> set (mLayers ac)" .
    have "acryl_reach (me_pf ev) (me_cap ev) (on_layer a f ac)"
      by (rule reach_layer[where f = f, OF r_into_rtranclp ac(2,3)]) (rule assms(2))
    then show ?thesis
      by (rule linked_moves[OF assms(1) ac(1)]) (simp_all add: slot_layer_do_def Some ac(1))
  qed (simp add: slot_layer_do_def assms(1))
qed

lemma clear_data_keeps:
  assumes "linked ev m" "\<forall>i\<in>set js. i < length (mSrcImgs m)"
  shows "same_slots m (fold (slot_layer_do clearLayerData) js m) \<and> linked ev (fold (slot_layer_do clearLayerData) js m)"
  using assms
proof (induction js arbitrary: m)
  case (Cons i js)
  have i: "i < length (mSrcImgs m)" using Cons.prems(2) by simp
  note s = slot_layer_do_keeps[where f = clearLayerData, OF Cons.prems(1) lop_clear_data i]
  have "length (mSrcImgs (slot_layer_do clearLayerData i m)) = length (mSrcImgs m)"
    using s(1) by (intro links_length) (simp add: same_slots_def)
  then show ?case using Cons.IH[OF s(2)] Cons.prems(2) same_slots_trans[OF s(1)] by simp
qed simp

text \<open>The environment: an accelerator of the factory behind a back end for \<open>most\<close> layers.\<close>

definition env_ok :: "m2m_env \<Rightarrow> nat \<Rightarrow> bool" where
  "env_ok ev most \<longleftrightarrow> me_cap ev \<in> factory_caps (me_pf ev) \<and> backend (me_pf ev) (me_cap ev) most (me_execute ev)"

lemma run_accelerator_keeps:
  assumes "run_accelerator ev m = Some (ret, m')" "env_ok ev most" "m2m_wf ev m" "mm_count m \<le> NUM_MPP_SRC_BUFS"
    and "\<And>ac. mAcrylicHandle m = Some ac \<Longrightarrow> mLayers ac \<noteq> []"
  shows "same_slots m m'" "linked ev m'"
    and "ret = NO_ERROR \<or> ret = - EPERM"
    and "ret = NO_ERROR \<Longrightarrow> \<exists>ac fence out cl ac'. mAcrylicHandle m = Some ac \<and> me_execute ev fence ac = Some (True, out, cl, ac')"
proof -
  have be: "backend (me_pf ev) (me_cap ev) most (me_execute ev)" using assms(2) by (simp add: env_ok_def)
  have lk: "linked ev m" using assms(3) by (simp add: m2m_wf_def)
  let ?n = "if mUseM2MSrcFence m then mm_count m + 1 else 1"
  obtain ac ok out cl ac' where ac: "mAcrylicHandle m = Some ac" and ex: "me_execute ev (replicate ?n 0) ac = Some (ok, out, cl, ac')"
    and res: "ret = (if ok then NO_ERROR else - EPERM)"
      "m' = (let m1 = fold (slot_layer_do clearLayerData) [0..<mm_count m] (m\<lparr>mAcrylicHandle := Some ac'\<rparr>)
             in if \<not> ok then forget_fences m1 else dumpDstBuf (take_fences ev out m1))"
    using assms(1) by (auto simp: run_accelerator_def Let_def mm_count_def split: option.splits if_splits)
  have reach: "acryl_reach (me_pf ev) (me_cap ev) ac" using lk ac by (simp add: linked_def)
  let ?m0 = "m\<lparr>mAcrylicHandle := Some ac'\<rparr>"
  have "linked ev ?m0"
    by (rule linked_moves[OF lk ac backend.exec_reach[OF be reach assms(5)[OF ac] ex] backend.exec_layers[OF be ex]]) simp_all
  moreover have "\<forall>i\<in>set [0..<mm_count m]. i < length (mSrcImgs ?m0)" using assms(3,4) by (auto simp: m2m_wf_def)
  ultimately have f: "same_slots ?m0 (fold (slot_layer_do clearLayerData) [0..<mm_count m] ?m0)"
    "linked ev (fold (slot_layer_do clearLayerData) [0..<mm_count m] ?m0)"
    using clear_data_keeps by blast+
  have k: "keeps x (forget_fences x)" "keeps x (dumpDstBuf (take_fences ev out x))" for x
    by (rule forget_fences_keeps, rule keeps_trans[OF take_fences_keeps dumpDstBuf_keeps])
  have "same_slots m (fold (slot_layer_do clearLayerData) [0..<mm_count m] ?m0)"
    by (rule same_slots_trans[OF _ f(1)]) simp
  then show "same_slots m m'"
    using same_slots_trans[OF _ keeps_slots[OF k(1)]] same_slots_trans[OF _ keeps_slots[OF k(2)]] by (simp add: res(2) Let_def)
  show "linked ev m'" using keeps_linked[OF k(1) f(2)] keeps_linked[OF k(2) f(2)] by (simp add: res(2) Let_def)
  show "ret = NO_ERROR \<or> ret = - EPERM" by (simp add: res(1))
  show "\<exists>ac fence out cl ac'. mAcrylicHandle m = Some ac \<and> me_execute ev fence ac = Some (True, out, cl, ac')" if "ret = NO_ERROR"
    using that ac ex by (auto simp: res(1) NO_ERROR_def EPERM_def split: if_splits)
qed


section \<open>A frame\<close>

definition same_run :: "m2m \<Rightarrow> m2m \<Rightarrow> bool" where
  "same_run m m' \<longleftrightarrow> length (mSrcImgs m') = length (mSrcImgs m) \<and> length (mDstImgs m') = length (mDstImgs m) \<and>
     mCurrentDstBuf m' = mCurrentDstBuf m \<and> mm_mpp m' = mm_mpp m \<and> mm_sources m' = mm_sources m \<and>
     mPrevFrameInfo m' = mPrevFrameInfo m"

lemma same_run_trans: "same_run a b \<Longrightarrow> same_run b c \<Longrightarrow> same_run a c"
  by (simp add: same_run_def)

lemma job_run: "same_job m m' \<Longrightarrow> same_run m m'"
  by (simp add: same_job_def same_run_def)

lemma slots_run: "same_slots m m' \<Longrightarrow> same_run m m'"
  using links_length[of m' m] by (simp add: same_slots_def same_run_def)

lemma run_fields:
  assumes "same_run m m'"
  shows "mm_count m' = mm_count m" "mm_source m' = mm_source m" "mPrevFrameInfo m' = mPrevFrameInfo m" "mm_mpp m' = mm_mpp m"
    "length (mSrcImgs m') = length (mSrcImgs m)" "mm_sources m' = mm_sources m"
  using assms by (simp_all add: same_run_def mm_count_def mm_source_def fun_eq_iff)

lemma run_wf: "m2m_wf ev m \<Longrightarrow> same_run m m' \<Longrightarrow> linked ev m' \<Longrightarrow> m2m_wf ev m'"
  by (simp add: m2m_wf_def same_run_def)

text \<open>The resource between frames; its sources fit and stay within the coordinates of the accelerator.\<close>

definition frame_wf :: "m2m_env \<Rightarrow> m2m \<Rightarrow> bool" where
  "frame_wf ev m \<longleftrightarrow> m2m_wf ev m \<and> srcNum (mPrevFrameInfo m) \<le> NUM_MPP_SRC_BUFS"

definition sources_ok :: "nat \<Rightarrow> m2m \<Rightarrow> bool" where
  "sources_ok most m \<longleftrightarrow> mm_count m \<le> most \<and> mm_count m \<le> NUM_MPP_SRC_BUFS \<and>
     list_all (\<lambda>a. fits16 (image_rect (mMidImg (mm_sources m a)))) (mAssignedSources (mm_mpp m))"

lemma sources_okD:
  "sources_ok most m \<Longrightarrow> \<forall>i\<in>set [0..<mm_count m]. fits16 (image_rect (mMidImg (mm_source m i)))"
  by (auto simp: sources_ok_def list_all_length mm_source_def mm_count_def)

lemma compose_frame_keeps:
  assumes "compose_frame ev m = Some (ret, m')" "env_ok ev most" "frame_wf ev m" "sources_ok most m"
  shows "same_run m m'" "linked ev m'"
    and "ret = NO_ERROR \<Longrightarrow> \<exists>ac. mAcrylicHandle m' = Some ac \<and> length (mLayers ac) = mm_count m"
    and "ret = NO_ERROR \<Longrightarrow> i < mm_count m \<Longrightarrow> slot_layers m' ! i \<noteq> None"
proof -
  have cap: "me_cap ev \<in> factory_caps (me_pf ev)" using assms(2) by (simp add: env_ok_def)
  have wf: "linked ev m" "length (mSrcImgs m) = NUM_MPP_SRC_BUFS" "srcNum (mPrevFrameInfo m) \<le> NUM_MPP_SRC_BUFS"
    using assms(3) by (simp_all add: frame_wf_def m2m_wf_def)
  have n: "\<forall>i\<in>set [0..<mm_count m]. i < length (mSrcImgs m)" using assms(4) wf(2) by (auto simp: sources_ok_def)
  obtain r m1 where s: "setup_layers ev [0..<mm_count m] m = Some (r, m1)"
    and r1: "r \<noteq> NO_ERROR \<Longrightarrow> ret = r \<and> m' = m1"
    using assms(1) by (auto simp: compose_frame_def split: option.splits if_splits)
  have k1: "same_job m m1" "linked ev m1" "r = NO_ERROR \<Longrightarrow> \<forall>i\<in>set [0..<mm_count m]. slot_layers m1 ! i \<noteq> None"
    using setup_layers_keeps[OF s wf(1) distinct_upt sources_okD[OF assms(4)] n] by blast+
  note f1 = job_fields[OF k1(1)]
  let ?gone = "[mm_count m1..<srcNum (mPrevFrameInfo m1)]"
  have g: "\<forall>i\<in>set ?gone. i < length (mSrcImgs m1)" using wf(2,3) f1 by auto
  note k2 = delete_layers[OF k1(2) cap g]
  have "same_run m m' \<and> linked ev m' \<and>
    (ret = NO_ERROR \<longrightarrow> (\<exists>ac. mAcrylicHandle m' = Some ac \<and> length (mLayers ac) = mm_count m) \<and>
       (\<forall>i<mm_count m. slot_layers m' ! i \<noteq> None))"
  proof (cases "r = NO_ERROR")
    case False
    then show ?thesis using r1 k1 job_run by simp
  next
    case True
    let ?m2 = "fold delete_layer ?gone m1"
    have j2: "same_job m ?m2" by (rule same_job_trans[OF k1(1) k2(1)])
    note f2 = job_fields[OF j2]
    have kept: "slot_layers ?m2 ! i \<noteq> None" if "i < mm_count m" for i
      using that k1(3)[OF True] k2(4)[of i] f1(1) by auto
    have "\<exists>ac. mAcrylicHandle ?m2 = Some ac" and
      e: "length (mLayers ac) \<noteq> mm_count m \<and> ret = - EINVAL \<and> m' = ?m2 \<or>
       length (mLayers ac) = mm_count m \<and> (\<exists>r'. setupDst ev ?m2 = Some (r', m')) \<and> ret = NO_ERROR"
      if "mAcrylicHandle ?m2 = Some ac" for ac
      using assms(1) s True f2(1) that by (auto simp: compose_frame_def Let_def split: option.splits if_splits)
    moreover have "\<exists>ac. mAcrylicHandle ?m2 = Some ac"
      using assms(1) s True by (auto simp: compose_frame_def Let_def split: option.splits)
    ultimately obtain ac where ac: "mAcrylicHandle ?m2 = Some ac" by blast
    from e[OF this] show ?thesis
    proof (elim disjE conjE exE)
      assume "ret = - EINVAL" "m' = ?m2"
      then show ?thesis using j2 k2(2) job_run by (simp add: NO_ERROR_def EINVAL_def)
    next
      fix r' assume len: "length (mLayers ac) = mm_count m" and d: "setupDst ev ?m2 = Some (r', m')"
      note kd = setupDst_keeps[OF d k2(2)]
      show ?thesis
        using same_run_trans[OF job_run[OF j2] slots_run[OF kd(1)]] kd(2) kd(3)[OF ac] len kept kd(1) by (auto simp: same_slots_def)
    qed
  qed
  then show "same_run m m'" "linked ev m'" "ret = NO_ERROR \<Longrightarrow> \<exists>ac. mAcrylicHandle m' = Some ac \<and> length (mLayers ac) = mm_count m"
    "ret = NO_ERROR \<Longrightarrow> i < mm_count m \<Longrightarrow> slot_layers m' ! i \<noteq> None" by auto
qed

lemma compose_frame_total:
  assumes "env_ok ev most" "frame_wf ev m" "sources_ok most m" "mAcrylicHandle m \<noteq> None" "mm_count m \<noteq> 0"
  shows "compose_frame ev m \<noteq> None"
proof -
  have cap: "me_cap ev \<in> factory_caps (me_pf ev)" using assms(1) by (simp add: env_ok_def)
  have wf: "linked ev m" "length (mSrcImgs m) = NUM_MPP_SRC_BUFS" "srcNum (mPrevFrameInfo m) \<le> NUM_MPP_SRC_BUFS"
    using assms(2) by (simp_all add: frame_wf_def m2m_wf_def)
  have n: "\<forall>i\<in>set [0..<mm_count m]. i < NUM_MPP_SRC_BUFS" using assms(3) by (auto simp: sources_ok_def)
  obtain r m1 where s: "setup_layers ev [0..<mm_count m] m = Some (r, m1)"
    using setup_layers_total[OF cap wf(1,2) sources_okD[OF assms(3)] n] by auto
  have k1: "same_job m m1" "linked ev m1" "r = NO_ERROR \<Longrightarrow> \<forall>i\<in>set [0..<mm_count m]. slot_layers m1 ! i \<noteq> None"
    using setup_layers_keeps[OF s wf(1) distinct_upt sources_okD[OF assms(3)]] n wf(2) by auto
  note f1 = job_fields[OF k1(1)]
  let ?gone = "[mm_count m1..<srcNum (mPrevFrameInfo m1)]"
  have g: "\<forall>i\<in>set ?gone. i < length (mSrcImgs m1)" using wf(2,3) f1 by auto
  note k2 = delete_layers[OF k1(2) cap g]
  show ?thesis
  proof (cases "r = NO_ERROR")
    case True
    let ?m2 = "fold delete_layer ?gone m1"
    have len: "length (mSrcImgs ?m2) = NUM_MPP_SRC_BUFS" using job_fields(7)[OF k2(1)] f1(7) wf(2) by simp
    have "slot_layers ?m2 ! 0 \<noteq> None" using k1(3)[OF True] k2(4)[of 0] f1(1) assms(5) by auto
    then obtain a where a: "mppLayer (mSrcImgs ?m2 ! 0) = Some a" using len by (auto simp: slot_layers_def NUM_MPP_SRC_BUFS_def)
    have "0 < length (mSrcImgs ?m2)" using len by (simp add: NUM_MPP_SRC_BUFS_def)
    from slot_in_layers[OF k2(2) a this] obtain ac where ac: "mAcrylicHandle ?m2 = Some ac" by blast
    have "mm_count ?m2 \<noteq> 0" using job_fields(1)[OF k2(1)] f1(1) assms(5) by simp
    from setupDst_total[OF ac this, of ev] obtain d where "setupDst ev ?m2 = Some d" by auto
    then show ?thesis using s True ac by (simp add: compose_frame_def Let_def)
  qed (simp add: compose_frame_def s)
qed


section \<open>The buffer of a frame\<close>

lemma stays_more [simp]:
  "stays m (m\<lparr>mm_answers := x\<rparr>)" "stays m (m\<lparr>mm_returned := r\<rparr>)" "stays m (m\<lparr>mm_destroyed := y\<rparr>)"
  "stays m (m\<lparr>mFreedBuffers := z\<rparr>)" "stays m (m\<lparr>mm_destroyed := y, mFreedBuffers := z\<rparr>)" "stays m (upd_dst i f m)"
  by (simp_all add: stays_def same_links_def slot_layers_def upd_dst_def)

lemma retire_stays: "stays m (retire b m)"
proof -
  have "stays x (return_buffer h x)" for h x by (auto simp: return_buffer_def split: option.split)
  from stays_trans[OF keeps_stays[OF keeps_trans[OF tracer_frames(3) tracer_frames(3)]] this]
  show ?thesis by (simp add: retire_def)
qed

lemma freeOutBuf_stays: "stays m (snd (freeOutBuf ev old m))"
  by (simp add: freeOutBuf_def addFreedBuffer_def Let_def)

lemma install_buffer_stays: "stays m (install_buffer ev i h u fmt freed old m)"
proof -
  have c: "stays m (mm_close f ty ip (mm_close f' ty' ip' (upd_dst i g m)))" for f ty ip f' ty' ip' g
    by (rule stays_trans[OF stays_more(6) keeps_stays[OF keeps_trans[OF tracer_frames(2) tracer_frames(2)]]])
  have "stays m (snd (freeOutBuf ev old (upd_dst i g m)))" for g
    by (rule stays_trans[OF stays_more(6) freeOutBuf_stays])
  then show ?thesis using c by (simp add: install_buffer_def Let_def)
qed

lemma allocOutBuf_stays:
  assumes "allocOutBuf ev w h fmt usage i m = (ret, m')"
  shows "stays m m'" "ret = NO_ERROR \<or> ret = - EINVAL"
proof -
  obtain e1 h1 m1 where a: "allocate m = (e1, h1, m1)" by (metis prod.exhaust)
  obtain e2 h2 m2 where b: "allocate (retire (mDstImgs m ! i) m1) = (e2, h2, m2)" by (metis prod.exhaust)
  have al: "stays x (snd (snd (allocate x)))" for x by (simp add: allocate_def split: list.split prod.split)
  have s1: "stays m m1" using al[of m] a by simp
  have s2: "stays m m2" using stays_trans[OF stays_trans[OF s1 retire_stays] al] b by (metis snd_conv)
  have "stays m m' \<and> (ret = NO_ERROR \<or> ret = - EINVAL)"
    using assms a b s1 s2 stays_trans[OF s1 install_buffer_stays] stays_trans[OF s2 install_buffer_stays]
    by (auto simp: allocOutBuf_def Let_def split: if_splits)
  then show "stays m m'" "ret = NO_ERROR \<or> ret = - EINVAL" by auto
qed

lemma prepare_dst_stays:
  assumes "prepare_dst ev dst m = (ret, realloc, m')"
  shows "stays m m'" "ret = NO_ERROR \<or> ret = - EINVAL"
proof -
  let ?realloc = "needDstBufRealloc ev dst (cur_slot m) m"
  let ?dst = "if ?realloc \<and> mMaxSrcLayerNum (mm_mpp m) > 1 then dst\<lparr>exynosFormat := defaultMppDstFormat ev\<rparr> else dst"
  let ?fmt = "alloc_format ev m ?dst" and ?d = "mAssignedDisplayInfo (mm_mpp m)"
  let ?align = "GET_M2M_DST_ALIGN ev ?fmt"
  obtain r m1 where a: "(if ?realloc then allocOutBuf ev (word_of_int (pixel_align (sint (xres ?d)) ?align))
      (word_of_int (pixel_align (sint (yres ?d)) ?align)) ?fmt (usageFlags ?dst) (cur_slot m) m else (NO_ERROR, m)) = (r, m1)"
    by fastforce
  have s: "stays m m1" "r = NO_ERROR \<or> r = - EINVAL"
    using a allocOutBuf_stays by (auto split: if_splits)
  have "stays m m' \<and> (ret = NO_ERROR \<or> ret = - EINVAL)"
    using assms s stays_trans[OF s(1) stays_more(6)]
    unfolding prepare_dst_def Let_def a prod.case by (auto split: if_splits)
  then show "stays m m'" "ret = NO_ERROR \<or> ret = - EINVAL" by auto
qed

section \<open>Every frame comes back\<close>

lemma linked_cong: "slot_layers m' = slot_layers m \<Longrightarrow> mAcrylicHandle m' = mAcrylicHandle m \<Longrightarrow> mm_next m' = mm_next m \<Longrightarrow>
    linked ev m \<Longrightarrow> linked ev m'"
  using linked_same[of m m'] by (simp add: same_links_def)

lemma save_frame_wf: "m2m_wf ev m \<Longrightarrow> mm_count m \<le> NUM_MPP_SRC_BUFS \<Longrightarrow> frame_wf ev (save_frame_info m)"
  using linked_cong[of "save_frame_info m" m ev]
  by (simp add: frame_wf_def m2m_wf_def save_frame_info_def Let_def upd_mpp_def slot_layers_def)

lemma close_source_fences:
  "slot_layers (fold close_source_fence js m) = slot_layers m \<and> mAcrylicHandle (fold close_source_fence js m) = mAcrylicHandle m \<and>
   mm_next (fold close_source_fence js m) = mm_next m \<and> mm_mpp (fold close_source_fence js m) = mm_mpp m \<and>
   mDstImgs (fold close_source_fence js m) = mDstImgs m \<and> length (mSrcImgs (fold close_source_fence js m)) = length (mSrcImgs m) \<and>
   mCurrentDstBuf (fold close_source_fence js m) = mCurrentDstBuf m"
  by (induction js arbitrary: m) (simp_all add: close_source_fence_def mm_close_def slot_layers_def Let_def)

lemma prev_slot_valid: "slot_valid (prev_slot m)"
  by (simp add: slot_valid_def prev_slot_def NUM_MPP_DST_BUFS_def)

lemma doPostProcessingInternal_keeps:
  assumes "env_ok ev most" "frame_wf ev m" "sources_ok most m" "mm_count m \<noteq> 0"
  obtains ret m' where "doPostProcessingInternal ev m = Some (ret, m')" "same_run m m'" "linked ev m'"
proof -
  have id: "same_run m m" "linked ev m" using assms(2) by (simp_all add: same_run_def frame_wf_def m2m_wf_def)
  show ?thesis
  proof (cases "mAcrylicHandle m = None \<or> mPhysicalType (mm_mpp m) \<noteq> MPP_G2D \<and> mPhysicalType (mm_mpp m) \<noteq> MPP_MSC \<or>
      \<not> display_set (mAssignedDisplayInfo (mm_mpp m))")
    case True
    then have "doPostProcessingInternal ev m = Some (- EINVAL, m)" by (auto simp: doPostProcessingInternal_def)
    then show ?thesis using that[OF _ id] by blast
  next
    case False
    from compose_frame_total[OF assms(1-3)] False assms(4) obtain r m1 where c: "compose_frame ev m = Some (r, m1)" by auto
    note k = compose_frame_keeps[OF c assms(1-3)]
    have eq: "doPostProcessingInternal ev m = (if r \<noteq> NO_ERROR then Some (r, m1) else run_accelerator ev m1)"
      using False c by (auto simp: doPostProcessingInternal_def)
    show ?thesis
    proof (cases "r = NO_ERROR")
      case True
      from k(3)[OF this] obtain ac where ac: "mAcrylicHandle m1 = Some ac" "length (mLayers ac) = mm_count m" by blast
      have be: "backend (me_pf ev) (me_cap ev) most (me_execute ev)" "me_cap ev \<in> factory_caps (me_pf ev)"
        using assms(1) by (simp_all add: env_ok_def)
      have ne: "mLayers ac \<noteq> []" "length (mLayers ac) \<le> most" using ac(2) assms(3,4) by (auto simp: sources_ok_def)
      have "acryl_reach (me_pf ev) (me_cap ev) ac" using k(2) ac(1) by (simp add: linked_def)
      from backend.exec_total[OF be(1,2) this ne] obtain ok out cl ac' where
        "me_execute ev (replicate (if mUseM2MSrcFence m1 then mm_count m1 + 1 else 1) 0) ac = Some (ok, out, cl, ac')" by fastforce
      then obtain r2 m2 where r2: "run_accelerator ev m1 = Some (r2, m2)"
        using ac(1) by (simp add: run_accelerator_def Let_def split del: if_split) fastforce
      have wf: "m2m_wf ev m1" using run_wf[OF _ k(1,2)] assms(2) by (simp add: frame_wf_def)
      have "mm_count m1 \<le> NUM_MPP_SRC_BUFS" using run_fields(1)[OF k(1)] assms(3) by (simp add: sources_ok_def)
      note r = run_accelerator_keeps[OF r2 assms(1) wf this]
      have "\<And>ac'. mAcrylicHandle m1 = Some ac' \<Longrightarrow> mLayers ac' \<noteq> []" using ac(1) ne(1) by simp
      from r(1,2)[OF this] show ?thesis
        using that same_run_trans[OF k(1) slots_run] r2 eq True by simp
    qed (use that k(1,2) eq in simp)
  qed
qed

lemma frame_total:
  assumes "env_ok ev most" "frame_wf ev m" "sources_ok most m"
  obtains ret m' where "doPostProcessing ev src dst m = Some (ret, m')" "frame_wf ev m'"
proof -
  have wf: "m2m_wf ev m" using assms(2) by (simp add: frame_wf_def)
  have cnt: "mm_count m \<le> NUM_MPP_SRC_BUFS" using assms(3) by (simp add: sources_ok_def)
  obtain r realloc m1 where p: "prepare_dst ev dst m = (r, realloc, m1)" by (metis prod.exhaust)
  note st = prepare_dst_stays(1)[OF p]
  have wf1: "m2m_wf ev m1" "mm_count m1 = mm_count m" using stays_wf[OF st wf] st by simp_all
  let ?m2 = "fold close_source_fence [0..<mm_count m1] (m1\<lparr>mCurrentDstBuf := prev_slot m1\<rparr>)\<lparr>mWasUsedPrevFrame := True\<rparr>"
  show ?thesis
  proof (cases "mm_count m = 0 \<or> r < 0 \<or> \<not> realloc \<and> canUsePrevFrame ev src m1")
    case True
    have "m2m_wf ev ?m2"
      using close_source_fences[of "[0..<mm_count m1]" "m1\<lparr>mCurrentDstBuf := prev_slot m1\<rparr>"] wf1 prev_slot_valid[of m1]
        linked_cong[of ?m2 m1 ev] by (simp add: m2m_wf_def slot_layers_def)
    moreover have "mm_count ?m2 = mm_count m1"
      using close_source_fences[of "[0..<mm_count m1]" "m1\<lparr>mCurrentDstBuf := prev_slot m1\<rparr>"] by (simp add: mm_count_def)
    ultimately have "frame_wf ev (save_frame_info ?m2)" using save_frame_wf cnt wf1(2) by simp
    moreover have "frame_wf ev (save_frame_info m)" "frame_wf ev (save_frame_info m1)" using save_frame_wf wf wf1 cnt by simp_all
    moreover have "\<exists>ret. doPostProcessing ev src dst m = Some (ret, save_frame_info m) \<or>
        doPostProcessing ev src dst m = Some (ret, save_frame_info m1) \<or>
        doPostProcessing ev src dst m = Some (ret, save_frame_info ?m2)"
      using True p by (auto simp: doPostProcessing_def)
    ultimately show ?thesis using that by blast
  next
    case False
    have "frame_wf ev m1" "sources_ok most m1" using wf1 st assms(2,3)
      by (auto simp: frame_wf_def stays_def sources_ok_def mm_count_def)
    from doPostProcessingInternal_keeps[OF assms(1) this] False wf1(2) obtain ret m2 where
      i: "doPostProcessingInternal ev m1 = Some (ret, m2)" "same_run m1 m2" "linked ev m2" by auto
    have "m2m_wf ev m2" "mm_count m2 = mm_count m" using run_wf[OF wf1(1) i(2,3)] run_fields(1)[OF i(2)] wf1(2) by simp_all
    then have "frame_wf ev (save_frame_info m2)" using save_frame_wf cnt by simp
    then show ?thesis using that False p i(1) by (auto simp: doPostProcessing_def)
  qed
qed


section \<open>A scaler with one source, for the witnesses\<close>

definition sample_mscl_device :: mscl_device where
  "sample_mscl_device = \<lparr>sv_ready = (\<lambda>_. True), sv_votf = False, sv_wants_votf = (\<lambda>_. False),
     sv_source = (True, 20), sv_target = (True, 21)\<rparr>"

definition sample_work_env :: m2m_env where
  "sample_work_env = \<lparr>me_pf = sample_acryl, me_cap = sample_cap, me_an = sample_android, me_gr = sample_gralloc True,
     me_usage = \<lparr>ub_cpu_read_often = 3, ub_cpu_write_often = 48, ub_cpu_read_never = 0, ub_cpu_write_never = 0,
       ub_nozeroed = 0, ub_composer_overlay = 0x800\<rparr>,
     me_meta = (\<lambda>_. None), me_meta_size = 0, me_fence_debug = (\<lambda>_. 0), me_votf = False, me_callback = True,
     me_wait = (\<lambda>_. 0), me_execute = execute_mscl sample_acryl sample_cap sample_mscl_device, me_garbage = blank_layer\<rparr>"

definition work_src :: exynos_image where
  "work_src = image_reset\<lparr>fullWidth := 64, fullHeight := 64, img_w := 64, img_h := 64, exynosFormat := ExynosFormat 0,
     bufferHandle := Some 4, blending := 0x100, planeAlpha := 1\<rparr>"

definition work_mid :: exynos_image where
  "work_mid = image_reset\<lparr>fullWidth := 128, fullHeight := 128, img_w := 128, img_h := 128, exynosFormat := ExynosFormat 0\<rparr>"

definition sample_work_source :: mpp_source where
  "sample_work_source = (source_init 2)\<lparr>mSrcImg := work_src, mMidImg := work_mid\<rparr>"

definition sample_work_display :: DisplayInfo where
  "sample_work_display = sample_display\<lparr>xres := 128, yres := 128\<rparr>"

definition sample_scaler :: mpp where
  "sample_scaler = sample_g2d\<lparr>mPhysicalType := MPP_MSC, mLogicalType := MPP_LOGICAL_MSC, mMaxSrcLayerNum := 1, mAssignedSources := [0],
     mAssignedDisplayInfo := sample_work_display\<rparr>"

definition sample_m2m :: m2m where
  "sample_m2m = \<lparr>mm_mpp = sample_scaler, mm_sources = (\<lambda>_. sample_work_source), mm_tracer = tracer_init,
     mSrcImgs = replicate 15 img_info_reset,
     mDstImgs = replicate 3 (img_info_reset\<lparr>mi_bufferHandle := Some 5, mi_format := ExynosFormat 0\<rparr>),
     mCurrentDstBuf = 0, mPrivDstBuf = -1, mPrevFrameInfo = frame_info_reset, mWasUsedPrevFrame = False,
     mAllocOutBufFlag = False, mFreeOutBufFlag = True, mUseM2MSrcFence = True, mCurrentTargetCompressionInfoType = COMP_TYPE_NONE,
     mVotfInfo = votf_init, mAcrylicHandle = Some (acrylic_init sample_cap blank_canvas blank_acrylic),
     mFreedBuffers = [], mStateFences = [], dumpMidBuf = False, mm_answers = [], mm_returned = [], mm_destroyed = [],
     mm_priority = [], mm_next = 0\<rparr>"


lemma sample_work_env_fields [simp]:
  "me_pf sample_work_env = sample_acryl" "me_cap sample_work_env = sample_cap" "me_gr sample_work_env = sample_gralloc True"
  "me_meta sample_work_env = (\<lambda>_. None)" "me_fence_debug sample_work_env = (\<lambda>_. 0)" "me_votf sample_work_env = False"
  "me_execute sample_work_env = execute_mscl sample_acryl sample_cap sample_mscl_device" "me_garbage sample_work_env = blank_layer"
  "me_an sample_work_env = sample_android"
  by (simp_all add: sample_work_env_def)

lemma sample_m2m_fields [simp]:
  "mm_mpp sample_m2m = sample_scaler" "mm_sources sample_m2m = (\<lambda>_. sample_work_source)" "mm_tracer sample_m2m = tracer_init"
  "mSrcImgs sample_m2m = replicate 15 img_info_reset" "mCurrentDstBuf sample_m2m = 0"
  "mDstImgs sample_m2m = replicate 3 (img_info_reset\<lparr>mi_bufferHandle := Some 5, mi_format := ExynosFormat 0\<rparr>)"
  "mPrevFrameInfo sample_m2m = frame_info_reset" "mAllocOutBufFlag sample_m2m = False" "mUseM2MSrcFence sample_m2m = True"
  "mAcrylicHandle sample_m2m = Some (acrylic_init sample_cap blank_canvas blank_acrylic)" "mm_next sample_m2m = 0"
  "dumpMidBuf sample_m2m = False"
  by (simp_all add: sample_m2m_def)

lemma sample_scaler_fields [simp]:
  "mAssignedSources sample_scaler = [0]" "mPhysicalType sample_scaler = MPP_MSC" "mLogicalType sample_scaler = MPP_LOGICAL_MSC" "mMaxSrcLayerNum sample_scaler = 1"
  "mAssignedDisplayInfo sample_scaler = sample_work_display"
  by (simp_all add: sample_scaler_def)

lemma sample_work_display_fields [simp]:
  "xres sample_work_display = 128" "yres sample_work_display = 128" "display_set sample_work_display"
  "displayIdentifier sample_work_display = \<lparr>di_id = 0, di_type = 0, di_index = 0\<rparr>" "colorMode sample_work_display = 0"
  by (simp_all add: sample_work_display_def sample_display_def display_set_def UINT32_MAX_def display_reset_def)

lemma check_debug_none: "me_fence_debug ev = (\<lambda>_. 0) \<Longrightarrow> mm_check_debug ev ty ip f m = (f, m)"
  by (simp add: mm_check_debug_def checkFenceDebug_def)

text \<open>The layer the scaler is given.\<close>

definition work_layer :: acryl_layer where
  "work_layer =
    (let l = layer_init sample_acryl sample_cap blank_layer;
         l = snd (layer_setImageDimension sample_cap 64 64 l);
         l = snd (setImageType sample_acryl sample_cap 1 0 l);
         l = snd (setImageBuffer_dmabuf sample_cap (buffer_fds (gr_meta (sample_gralloc True) 4)) (at_or_zero [8294400]) (\<lambda>_. 0) 1 (-1) 0 l);
         l = snd (setCompositMode sample_acryl sample_cap 0x100 255 0 l)
     in snd (the (setCompositArea sample_acryl sample_cap \<lparr>rect_left = 0, rect_top = 0, rect_right = 64, rect_bottom = 64\<rparr>
          \<lparr>rect_left = 0, rect_top = 0, rect_right = 128, rect_bottom = 128\<rparr> 0 0 l)))"

lemma work_images [simp]:
  "mSrcImg sample_work_source = work_src" "mMidImg sample_work_source = work_mid"
  "fullWidth work_src = 64" "fullHeight work_src = 64" "exynosFormat work_src = ExynosFormat 0" "bufferHandle work_src = Some 4"
  "layerFlags work_src = 0" "blending work_src = 0x100" "transform work_src = 0" "dataSpace work_src = 0" "zOrder work_src = 0"
  "planeAlpha work_src = 1" "acquireFenceFd work_src = -1" "ci_type (compressionInfo work_src) = COMP_TYPE_NONE"
  "dataSpace work_mid = 0" "image_rect work_src = \<lparr>rect_left = 0, rect_top = 0, rect_right = 64, rect_bottom = 64\<rparr>"
  "image_rect work_mid = \<lparr>rect_left = 0, rect_top = 0, rect_right = 128, rect_bottom = 128\<rparr>"
  by (simp_all add: sample_work_source_def work_src_def work_mid_def image_reset_def image_rect_def)

lemma sample_acryl_hal [simp]: "pf_hal sample_acryl = (\<lambda>_. 1)"
  by (simp add: sample_acryl_def platform.extend_def)

lemma work_formats [simp]:
  "fmt_halFormat (\<lambda>_. 1) (ExynosFormat 0) = 1" "fmt_bufferNum (ExynosFormat 0) = 1" "\<not> fmt_isYUV (ExynosFormat 0)"
  by (simp_all add: code_defs desc_def exynos_format_desc_def code_consts Let_def)

lemma find_first: "find_desc (\<lambda>_. 1) 1 = Some (exynos_format_desc ! 0)"
  by (simp add: find_desc_def exynos_format_desc_def)

lemmas work_lengths = buffer_lengths_def getBufLength_def getBufferNumOfFormat_def find_first exynos_format_desc_def
  MAX_HW2D_PLANES_def sample_gralloc_def Let_def

lemma work_buffers [simp]:
  "public_format sample_work_env 1 = 1" "refined_dataspace sample_work_env 1 0 = 0"
  "buffer_lengths sample_work_env (Some 4) 1 64 64 = (NO_ERROR, [8294400])"
  "getBufferType_handle sample_work_env False (Some 4) = MPP_BUFFER_NORMAL"
  "buffer_meta (sample_gralloc True) h = gr_meta (sample_gralloc True) 4"
proof -
  show "public_format sample_work_env 1 = 1" by (simp add: public_format_def)
  show "refined_dataspace sample_work_env 1 0 = 0"
    by (simp add: refined_dataspace_def getRefinedDataspace_def sample_android_def)
  show "buffer_lengths sample_work_env (Some 4) 1 64 64 = (NO_ERROR, [8294400])"
    by (simp add: work_lengths)
  show "getBufferType_handle sample_work_env False (Some 4) = MPP_BUFFER_NORMAL"
    unfolding getBufferType_handle_def getBufferType_def sample_work_env_fields by code_simp
  show "buffer_meta (sample_gralloc True) h = gr_meta (sample_gralloc True) 4"
    by (simp add: sample_gralloc_def buffer_meta_def)
qed

lemma work_layer_described:
  assumes "mm_mpp m = sample_scaler"
  shows "describe_layer sample_work_env m a work_src work_mid [8294400] (-1) 0 (layer_init sample_acryl sample_cap blank_layer) =
    Some work_layer"
proof -
  have "area_attribute sample_work_env m work_src = 0" "plane_alpha_byte m work_src = 255"
    using assms by (simp_all add: area_attribute_def plane_alpha_byte_def mm_display_def sample_acryl_def sample_platform_def
        platform.extend_def acryl_platform.fields_def)
  moreover have "setup_meta sample_work_env m a work_src l = l" for l
    by (simp add: setup_meta_def setVotfLayerData_def)
  moreover have "fits16 (image_rect work_mid)" by (simp add: fits16_def)
  with sample_cap_factory obtain l where
    "describe_layer sample_work_env m a work_src work_mid [8294400] (-1) 0 (layer_init sample_acryl sample_cap blank_layer) = Some l"
    using describe_layer_defined[of sample_work_env work_mid] by (metis sample_work_env_fields(1,2))
  ultimately show ?thesis
    by (auto simp: describe_layer_def setup_buffer_def work_layer_def Let_def)
qed

text \<open>The frame of the scaler, step by step.\<close>

lemma sample_ac_fields [simp]:
  "mLayers (acrylic_init sample_cap blank_canvas blank_acrylic) = []"
  "ac_store (acrylic_init sample_cap blank_canvas blank_acrylic) = (\<lambda>_. blank_layer)"
  "ac_canvas (acrylic_init sample_cap blank_canvas blank_acrylic) = canvas_init sample_cap CANVAS_TARGET blank_canvas"
  "max_layers sample_cap = 1"
  by (simp_all add: acrylic_init_def blank_acrylic_def capability_mscl_9810_def)

definition work_canvas :: canvas where
  "work_canvas =
    (let c = canvas_init sample_cap CANVAS_TARGET blank_canvas;
         c = snd (canvas_setImageDimension sample_cap 128 128 c);
         c = snd (setImageType sample_acryl sample_cap 1 0 c)
     in snd (setImageBuffer_dmabuf sample_cap (buffer_fds (gr_meta (sample_gralloc True) 4)) (at_or_zero [8294400]) (\<lambda>_. 0) 1 (-1) 0 c))"

lemma work_layer_set:
  "\<exists>m1 ac. setupLayer sample_work_env 0 sample_m2m = Some (NO_ERROR, m1) \<and> mm_mpp m1 = sample_scaler \<and>
     mPrevFrameInfo m1 = frame_info_reset \<and> mDstImgs m1 = mDstImgs sample_m2m \<and> mCurrentDstBuf m1 = 0 \<and>
     mm_sources m1 = mm_sources sample_m2m \<and> mUseM2MSrcFence m1 \<and> dumpMidBuf m1 = False \<and>
     mAcrylicHandle m1 = Some ac \<and> mLayers ac = [0] \<and> ac_store ac 0 = work_layer \<and>
     ac_canvas ac = canvas_init sample_cap CANVAS_TARGET blank_canvas"
  by (simp add: setupLayer_def create_slot_layer_def mm_source_def Let_def createLayer_def check_debug_none upd_src_def
      mm_set_fence_def img_info_reset_def work_layer_described MPP_BUFFER_NORMAL_def MPP_BUFFER_SECURE_DRM_def
      COMP_TYPE_AFBC_def COMP_TYPE_NONE_def)

lemma work_buffer:
  "buffer_lengths sample_work_env (Some 5) 1 1920 1080 = (NO_ERROR, [8294400])"
  "getBufferType_handle sample_work_env False (Some 5) = MPP_BUFFER_NORMAL"
  "gm_stride (gr_meta (sample_gralloc True) 4) = 1920" "gm_vstride (gr_meta (sample_gralloc True) 4) = 1080"
proof -
  show "buffer_lengths sample_work_env (Some 5) 1 1920 1080 = (NO_ERROR, [8294400])"
    by (simp add: work_lengths)
  show "getBufferType_handle sample_work_env False (Some 5) = MPP_BUFFER_NORMAL"
    unfolding getBufferType_handle_def getBufferType_def sample_work_env_fields by code_simp
qed (simp_all add: sample_gralloc_def)

lemma work_dst_set:
  assumes "mm_mpp m = sample_scaler" "mDstImgs m = mDstImgs sample_m2m" "mCurrentDstBuf m = 0" "dumpMidBuf m = False"
    "mm_sources m = mm_sources sample_m2m" "mAcrylicHandle m = Some ac" "ac_canvas ac = canvas_init sample_cap CANVAS_TARGET blank_canvas"
  shows "\<exists>m1. setupDst sample_work_env m = Some (NO_ERROR, m1) \<and> mAcrylicHandle m1 = Some (ac\<lparr>ac_canvas := work_canvas\<rparr>) \<and>
    mm_mpp m1 = sample_scaler \<and> mUseM2MSrcFence m1 = mUseM2MSrcFence m"
proof -
  have "pixel_align 128 32 = 128" "MPP_LOGICAL_MSC \<noteq> MPP_LOGICAL_G2D_COMBO" "MPP_MSC \<noteq> MPP_G2D" by code_simp+
  then show ?thesis
    using assms
    by (simp add: setupDst_def cur_slot_def Let_def getDstDataspace_def mm_count_def mm_source_def getDstMetaInfo_def
        work_buffer check_debug_none mm_set_fence_def upd_dst_def GET_M2M_DST_ALIGN_def M2M_JUSTIFIED_DST_ALIGN_def
        dst_attribute_def MPP_BUFFER_NORMAL_def MPP_BUFFER_SECURE_DRM_def setCanvasBuffer_def setCanvasImageType_def
        setCanvasDimension_def work_canvas_def on_canvas_def img_info_reset_def)
qed

lemma validateAllLayers_cong:
  assumes "ac_canvas ac = ac_canvas ac'" "map (ac_store ac) (mLayers ac) = map (ac_store ac') (mLayers ac')"
  shows "validateAllLayers pf cap ac = validateAllLayers pf cap ac'"
  unfolding validateAllLayers_def assms ..

lemma work_valid:
  assumes "mLayers ac = [0]" "ac_store ac 0 = work_layer"
  shows "validateAllLayers sample_acryl sample_cap (ac\<lparr>ac_canvas := work_canvas\<rparr>) = Some True"
proof -
  have "validateAllLayers sample_acryl sample_cap (sample_frame\<lparr>ac_canvas := work_canvas, ac_store := (\<lambda>_. work_layer)\<rparr>) = Some True"
    by code_simp
  moreover have "validateAllLayers sample_acryl sample_cap (ac\<lparr>ac_canvas := work_canvas\<rparr>) =
      validateAllLayers sample_acryl sample_cap (sample_frame\<lparr>ac_canvas := work_canvas, ac_store := (\<lambda>_. work_layer)\<rparr>)"
    by (rule validateAllLayers_cong) (simp_all add: assms sample_frame_def)
  ultimately show ?thesis by simp
qed

lemma work_frame:
  "\<exists>m1 m2. compose_frame sample_work_env sample_m2m = Some (NO_ERROR, m1) \<and> run_accelerator sample_work_env m1 = Some (NO_ERROR, m2)"
proof -
  obtain m1 ac where s: "setupLayer sample_work_env 0 sample_m2m = Some (NO_ERROR, m1)" "mm_mpp m1 = sample_scaler"
    "mPrevFrameInfo m1 = frame_info_reset" "mDstImgs m1 = mDstImgs sample_m2m" "mCurrentDstBuf m1 = 0"
    "mm_sources m1 = mm_sources sample_m2m" "mUseM2MSrcFence m1" "dumpMidBuf m1 = False"
    "mAcrylicHandle m1 = Some ac" "mLayers ac = [0]" "ac_store ac 0 = work_layer"
    "ac_canvas ac = canvas_init sample_cap CANVAS_TARGET blank_canvas"
    using work_layer_set by blast
  from work_dst_set[OF s(2,4,5,8,6,9,12)] obtain m2 where d: "setupDst sample_work_env m1 = Some (NO_ERROR, m2)"
    "mAcrylicHandle m2 = Some (ac\<lparr>ac_canvas := work_canvas\<rparr>)" "mm_mpp m2 = sample_scaler" "mUseM2MSrcFence m2"
    using s(7) by auto
  have "mm_count sample_m2m = 1" "mm_count m1 = 1" "srcNum frame_info_reset = 0"
    using s(2) by (simp_all add: mm_count_def frame_info_reset_def)
  then have "compose_frame sample_work_env sample_m2m = Some (NO_ERROR, m2)"
    using s d(1) by (simp add: compose_frame_def Let_def NUM_MPP_SRC_BUFS_def)
  moreover have "execute_mscl sample_acryl sample_cap sample_mscl_device fence (ac\<lparr>ac_canvas := work_canvas\<rparr>) =
      Some (queueBuffers sample_mscl_device fence (ac\<lparr>ac_canvas := work_canvas\<rparr>))" for fence
    using work_valid[OF s(10,11)] s(10) by (simp add: execute_mscl_def sample_mscl_device_def)
  moreover have "fst (queueBuffers sample_mscl_device fence x)" for fence x
    by (simp add: queueBuffers_def queueBuffer_def sample_mscl_device_def isVotf_def setFence_def Let_def split: option.split)
  ultimately show ?thesis
    using d(2) by (auto simp: run_accelerator_def Let_def split_beta)
qed

lemma sample_env_ok: "env_ok sample_work_env 1"
  using backend_mscl[of sample_acryl sample_cap sample_mscl_device] sample_cap_factory by (simp add: env_ok_def)

lemma sample_frame_wf: "frame_wf sample_work_env sample_m2m"
proof -
  have "slot_addresses sample_m2m = {#}"
    by (simp add: slot_addresses_def slot_layers_def img_info_reset_def numeral_eq_Suc)
  then show ?thesis
    using reach_init[of sample_acryl sample_cap blank_canvas blank_acrylic]
    by (simp add: frame_wf_def m2m_wf_def linked_def slot_valid_def NUM_MPP_SRC_BUFS_def NUM_MPP_DST_BUFS_def frame_info_reset_def)
qed

lemma sample_sources_ok: "sources_ok 1 sample_m2m"
  by (simp add: sources_ok_def mm_count_def fits16_def NUM_MPP_SRC_BUFS_def)

section \<open>What a caller can rely on\<close>

text \<open>
  C6: as long as the assigned sources fit in the slots and in the accelerator and their
  intermediate images in its coordinates, \<open>doPostProcessing\<close> always comes back with a verdict (no
  division by zero, no array left, no missing layer object) and leaves the resource as it has to be
  for the next frame: the accelerator in a state its own invariant covers, its layers exactly the
  ones the source slots point to, each in one slot.
\<close>

theorem frame_returns:
  assumes "env_ok ev most" "frame_wf ev m" "sources_ok most m"
  shows "\<exists>ret m'. doPostProcessing ev src dst m = Some (ret, m') \<and> frame_wf ev m'"
proof -
  from frame_total[OF assms] obtain ret m' where "doPostProcessing ev src dst m = Some (ret, m')" "frame_wf ev m'" .
  then show ?thesis by blast
qed

theorem frame_returns_witness:
  "\<exists>ret m'. doPostProcessing sample_work_env work_src work_mid sample_m2m = Some (ret, m') \<and> frame_wf sample_work_env m'"
  by (rule frame_returns[OF sample_env_ok sample_frame_wf sample_sources_ok])



end
