(* ===== verification/MppFaults.thy ===== *)
theory MppFaults
  imports MppRuns
begin

text \<open>
  What goes wrong in a memory-to-memory resource when a frame fails: a layer left behind blocks all
  later frames with fewer sources, a frame that was never drawn counts as the last one, and a refused
  area leaves the window of another frame in place.
\<close>

section \<open>Verdicts of the parts\<close>

lemma setupLayer_verdict: "setupLayer ev i m = Some (ret, m') \<Longrightarrow> ret = NO_ERROR \<or> ret = - EINVAL"
  by (cases rule: setupLayer_elim[of ev i m "Some (ret, m')"]) simp_all

lemma setup_layers_verdict: "setup_layers ev js m = Some (ret, m') \<Longrightarrow> ret = NO_ERROR \<or> ret = - EINVAL"
  by (induction js arbitrary: m) (auto split: if_splits option.splits dest: setupLayer_verdict)

lemma compose_frame_verdict: "compose_frame ev m = Some (ret, m') \<Longrightarrow> ret = NO_ERROR \<or> ret = - EINVAL"
  by (auto simp: compose_frame_def Let_def split: option.splits if_splits dest: setup_layers_verdict)

lemma run_accelerator_verdict: "run_accelerator ev m = Some (ret, m') \<Longrightarrow> ret = NO_ERROR \<or> ret = - EPERM"
  by (auto simp: run_accelerator_def Let_def split: option.splits if_splits)

lemma internal_verdict:
  "doPostProcessingInternal ev m = Some (ret, m') \<Longrightarrow> ret = NO_ERROR \<or> ret = - EINVAL \<or> ret = - EPERM"
  by (auto simp: doPostProcessingInternal_def split: option.splits if_splits dest: compose_frame_verdict run_accelerator_verdict)

section \<open>A layer left behind\<close>

text \<open>Slot \<open>j\<close> holds a layer although the last frame had at most \<open>j\<close> sources.\<close>

definition left_behind :: "m2m_env \<Rightarrow> nat \<Rightarrow> m2m \<Rightarrow> bool" where
  "left_behind ev j m \<longleftrightarrow> frame_wf ev m \<and> j < NUM_MPP_SRC_BUFS \<and> slot_layers m ! j \<noteq> None \<and> srcNum (mPrevFrameInfo m) \<le> j"

lemma too_many_layers:
  assumes "length xs > j" "\<forall>i<n. xs ! i \<noteq> None" "xs ! j \<noteq> None" "n \<le> j"
  shows "n < length (filter (\<lambda>x. x \<noteq> None) xs)"
proof -
  have "insert j {..<n} \<subseteq> {i. i < length xs \<and> xs ! i \<noteq> None}" using assms by auto
  then have "card (insert j {..<n}) \<le> card {i. i < length xs \<and> xs ! i \<noteq> None}" by (intro card_mono) auto
  moreover have "card (insert j {..<n}) = Suc n" using assms(4) by simp
  ultimately show ?thesis by (simp add: length_filter_conv_card)
qed

text \<open>Composing a frame with at most \<open>j\<close> sources fails, and the layer stays.\<close>

lemma left_behind_compose:
  assumes "compose_frame ev m = Some (ret, m')" "env_ok ev most" "left_behind ev j m" "sources_ok most m" "mm_count m \<le> j"
  shows "ret = - EINVAL" "slot_layers m' ! j \<noteq> None"
proof -
  have cap: "me_cap ev \<in> factory_caps (me_pf ev)" using assms(2) by (simp add: env_ok_def)
  have lb: "frame_wf ev m" "j < length (mSrcImgs m)" "slot_layers m ! j \<noteq> None" "srcNum (mPrevFrameInfo m) \<le> j"
    using assms(3) by (simp_all add: left_behind_def frame_wf_def m2m_wf_def)
  have wf: "linked ev m" "length (mSrcImgs m) = NUM_MPP_SRC_BUFS" using lb(1) by (simp_all add: frame_wf_def m2m_wf_def)
  have n: "\<forall>i\<in>set [0..<mm_count m]. i < length (mSrcImgs m)" using assms(4) wf(2) by (auto simp: sources_ok_def)
  obtain r m1 where s: "setup_layers ev [0..<mm_count m] m = Some (r, m1)"
    and r1: "r \<noteq> NO_ERROR \<Longrightarrow> ret = r \<and> m' = m1"
    using assms(1) by (auto simp: compose_frame_def split: option.splits if_splits)
  note k1 = setup_layers_keeps[OF s wf(1) distinct_upt sources_okD[OF assms(4)] n]
  have job: "same_job m m1" and l1: "linked ev m1" using k1 by blast+
  note f1 = job_fields[OF job]
  have j1: "slot_layers m1 ! j \<noteq> None" using k1 lb(2,3) assms(5) by auto
  have "ret = - EINVAL \<and> slot_layers m' ! j \<noteq> None"
  proof (cases "r = NO_ERROR")
    case False
    then show ?thesis using r1 j1 setup_layers_verdict[OF s] by simp
  next
    case True
    let ?gone = "[mm_count m1..<srcNum (mPrevFrameInfo m1)]"
    have g: "\<forall>i\<in>set ?gone. i < length (mSrcImgs m1)" using lb(2,4) f1 by auto
    note k2 = delete_layers[OF l1 cap g]
    let ?m2 = "fold delete_layer ?gone m1"
    have kept: "slot_layers ?m2 ! i \<noteq> None" if "i < mm_count m" for i
      using that k1 True k2(4)[of i] f1(1) by auto
    have j2: "slot_layers ?m2 ! j \<noteq> None" using k2(4)[of j] lb(4) f1(5) j1 by auto
    have "length (slot_layers ?m2) > j" using job_fields(7)[OF k2(1)] f1(7) lb(2) by (simp add: slot_layers_def)
    from too_many_layers[OF this _ j2 assms(5)] kept
    have many: "mm_count m < length (filter (\<lambda>x. x \<noteq> None) (slot_layers ?m2))" by blast
    have "ret = - EINVAL \<and> m' = ?m2" if "mAcrylicHandle ?m2 = Some ac" for ac
      using assms(1) s True layers_length[OF k2(2) that] many that f1(1) job_fields(1)[OF k2(1)]
      by (auto simp: compose_frame_def Let_def)
    moreover have "mAcrylicHandle ?m2 \<noteq> None"
      using assms(1) s True by (auto simp: compose_frame_def Let_def split: option.splits)
    ultimately show ?thesis using j2 by auto
  qed
  then show "ret = - EINVAL" "slot_layers m' ! j \<noteq> None" by auto
qed

text \<open>The frame as a whole: it fails, or shows the buffer before the current one again.\<close>

lemma save_frame_slots [simp]:
  "slot_layers (save_frame_info m) = slot_layers m" "srcNum (mPrevFrameInfo (save_frame_info m)) = mm_count m"
  "mCurrentDstBuf (save_frame_info m) = mCurrentDstBuf m" "mDstImgs (save_frame_info m) = mDstImgs m"
  "mAcrylicHandle (save_frame_info m) = mAcrylicHandle m"
  by (simp_all add: save_frame_info_def Let_def slot_layers_def upd_mpp_def)

lemma save_frame_images [simp]:
  "mm_source (save_frame_info m) = mm_source m" "mm_count (save_frame_info m) = mm_count m"
  "i < mm_count m \<Longrightarrow> srcInfo (mPrevFrameInfo (save_frame_info m)) ! i = mSrcImg (mm_source m i)"
  "i < mm_count m \<Longrightarrow> dstInfo (mPrevFrameInfo (save_frame_info m)) ! i = mMidImg (mm_source m i)"
  by (simp_all add: save_frame_info_def Let_def upd_mpp_def mm_source_def mm_count_def nth_append fun_eq_iff)

lemma left_behind_internal:
  assumes "doPostProcessingInternal ev m = Some (ret, m')" "env_ok ev most" "left_behind ev j m" "sources_ok most m" "mm_count m \<le> j"
  shows "ret < 0" "slot_layers m' ! j \<noteq> None"
proof -
  have "ret < 0 \<and> slot_layers m' ! j \<noteq> None"
  proof (cases "compose_frame ev m")
    case None
    then show ?thesis using assms(1,3) by (auto simp: doPostProcessingInternal_def left_behind_def EINVAL_def split: if_splits)
  next
    case (Some x)
    obtain r m1 where c: "compose_frame ev m = Some (r, m1)" using Some by (cases x) simp
    note k = left_behind_compose[OF c assms(2-5)]
    show ?thesis
      using assms(1,3) c k by (auto simp: doPostProcessingInternal_def left_behind_def EINVAL_def NO_ERROR_def split: if_splits)
  qed
  then show "ret < 0" "slot_layers m' ! j \<noteq> None" by auto
qed


lemma stays_left_behind: "stays m m' \<Longrightarrow> left_behind ev j m \<Longrightarrow> left_behind ev j m'"
  using stays_wf[of m m' ev] by (simp add: left_behind_def frame_wf_def stays_def same_links_def)

lemma stays_sources: "stays m m' \<Longrightarrow> sources_ok most m \<Longrightarrow> sources_ok most m'"
  by (simp add: stays_def sources_ok_def mm_count_def)

definition shows_old :: "m2m \<Rightarrow> m2m \<Rightarrow> bool" where
  "shows_old m m' \<longleftrightarrow> mWasUsedPrevFrame m' \<and> mCurrentDstBuf m' = prev_slot m"

lemma left_behind_frame:
  assumes "doPostProcessing ev src dst m = Some (ret, m')" "env_ok ev most" "left_behind ev j m" "sources_ok most m" "mm_count m \<le> j"
  shows "ret < 0 \<or> shows_old m m'" "left_behind ev j m'"
proof -
  have fw: "frame_wf ev m'" using frame_total[OF assms(2) _ assms(4), of src dst] assms(1,3) by (auto simp: left_behind_def)
  have j: "j < NUM_MPP_SRC_BUFS" using assms(3) by (simp add: left_behind_def)
  obtain r realloc m1 where p: "prepare_dst ev dst m = (r, realloc, m1)" by (metis prod.exhaust)
  note st = prepare_dst_stays(1)[OF p]
  have lb1: "left_behind ev j m1" "sources_ok most m1" "mm_count m1 = mm_count m" "prev_slot m1 = prev_slot m"
    using stays_left_behind[OF st assms(3)] stays_sources[OF st assms(4)] st by (simp_all add: stays_def prev_slot_def)
  let ?m2 = "fold close_source_fence [0..<mm_count m1] (m1\<lparr>mCurrentDstBuf := prev_slot m1\<rparr>)\<lparr>mWasUsedPrevFrame := True\<rparr>"
  have m2: "slot_layers ?m2 = slot_layers m1" "mm_count ?m2 = mm_count m1" "mCurrentDstBuf ?m2 = prev_slot m1"
    using close_source_fences[of "[0..<mm_count m1]" "m1\<lparr>mCurrentDstBuf := prev_slot m1\<rparr>"]
    by (simp_all add: slot_layers_def mm_count_def)
  have slot: "slot_layers m ! j \<noteq> None" "slot_layers m1 ! j \<noteq> None" using assms(3) lb1(1) by (simp_all add: left_behind_def)
  consider (none) "mm_count m = 0" "ret = - EINVAL" "m' = save_frame_info m"
    | (buffer) "r < 0" "ret = r" "m' = save_frame_info m1"
    | (reuse) "m' = save_frame_info ?m2"
    | (drawn) m3 r3 where "mm_count m1 \<noteq> 0" "doPostProcessingInternal ev m1 = Some (r3, m3)" "ret = (if r3 < 0 then r3 else 0)" "m' = save_frame_info m3"
    using assms(1) p lb1(3) by (auto simp: doPostProcessing_def split: if_splits option.splits)
  then have "(ret < 0 \<or> shows_old m m') \<and> slot_layers m' ! j \<noteq> None \<and> srcNum (mPrevFrameInfo m') \<le> j"
  proof cases
    case reuse
    have "mWasUsedPrevFrame m'" unfolding reuse by (simp add: save_frame_info_def Let_def upd_mpp_def)
    then show ?thesis using reuse m2 lb1(3,4) slot assms(5) by (simp add: shows_old_def)
  next
    case drawn
    have "frame_wf ev m1" using lb1(1) by (simp add: left_behind_def)
    from doPostProcessingInternal_keeps[OF assms(2) this lb1(2) drawn(1)] drawn(2)
    have "mm_count m3 = mm_count m1" using run_fields(1) by (metis option.inject prod.inject)
    then show ?thesis using left_behind_internal[OF drawn(2) assms(2) lb1(1,2)] drawn lb1(3) assms(5) by simp
  qed (use slot assms(5) lb1(3) in \<open>simp_all add: EINVAL_def\<close>)
  then show "ret < 0 \<or> shows_old m m'" "left_behind ev j m'" using fw j by (auto simp: left_behind_def)
qed

text \<open>Later frames: each brings its own sources and assignment.\<close>

definition reassign :: "mpp \<Rightarrow> store \<Rightarrow> m2m \<Rightarrow> m2m" where
  "reassign p st m = m\<lparr>mm_mpp := p, mm_sources := st\<rparr>"

definition small_frame :: "nat \<Rightarrow> nat \<Rightarrow> m2m \<Rightarrow> bool" where
  "small_frame most j m \<longleftrightarrow> sources_ok most m \<and> mm_count m \<le> j"

inductive later :: "m2m_env \<Rightarrow> nat \<Rightarrow> nat \<Rightarrow> m2m \<Rightarrow> m2m \<Rightarrow> bool" for ev most j m where
  later_start: "later ev most j m m"
| later_frame: "later ev most j m m1 \<Longrightarrow> small_frame most j (reassign p st m1) \<Longrightarrow>
    doPostProcessing ev src dst (reassign p st m1) = Some (ret, m2) \<Longrightarrow> later ev most j m m2"

lemma reassign_left_behind: "left_behind ev j (reassign p st m) = left_behind ev j m"
  by (simp add: left_behind_def frame_wf_def m2m_wf_def linked_def slot_addresses_def slot_layers_def reassign_def
      split: option.split)

lemma later_left_behind: "later ev most j m m' \<Longrightarrow> env_ok ev most \<Longrightarrow> left_behind ev j m \<Longrightarrow> left_behind ev j m'"
proof (induction rule: later.induct)
  case (later_frame m1 p st src dst ret m2)
  then show ?case
    using left_behind_frame(2)[OF later_frame.hyps(3)] by (simp add: reassign_left_behind small_frame_def)
qed

lemma failed_buffer_left_behind:
  assumes "frame_wf ev m" "j < NUM_MPP_SRC_BUFS" "mm_count m \<le> j" "slot_layers m ! j \<noteq> None"
    and "prepare_dst ev dst m = (r, realloc, m0)" "r < 0"
  shows "\<exists>ret m1. doPostProcessing ev src dst m = Some (ret, m1) \<and> ret < 0 \<and> left_behind ev j m1"
proof -
  note st = prepare_dst_stays(1)[OF assms(5)]
  have wf: "m2m_wf ev m" "m2m_wf ev m0" using stays_wf[OF st] assms(1) by (simp_all add: frame_wf_def)
  have "mm_count m0 = mm_count m" using stays_count(1)[OF st] .
  moreover have "slot_layers m0 = slot_layers m" using st unfolding stays_def same_links_def by (elim conjE)
  moreover have "frame_wf ev (save_frame_info m)" "frame_wf ev (save_frame_info m0)"
    using save_frame_wf wf calculation assms(2,3) by simp_all
  ultimately have "left_behind ev j (save_frame_info m)" "left_behind ev j (save_frame_info m0)"
    using assms(2-4) by (simp_all add: left_behind_def)
  then show ?thesis using assms(5,6) by (simp add: doPostProcessing_def EINVAL_def)
qed


section \<open>The witness: a 2D engine\<close>

abbreviation engine_cap :: stHW2DCapability where
  "engine_cap \<equiv> capability_fimg2d_9810 sample_acryl"

definition engine_device :: g2d_device where
  "engine_device = \<lparr>dv_sbwc = (\<lambda>_. False), dv_realloc = True, dv_sort = stable_sort, dv_prepared = (\<lambda>_. True),
     dv_ioctl = True, dv_error = False, dv_fences = (\<lambda>i. 20 + int i)\<rparr>"

definition engine_env :: m2m_env where
  "engine_env = sample_work_env\<lparr>me_cap := engine_cap, me_execute := execute_g2d sample_acryl engine_cap engine_device\<rparr>"

definition engine_ac :: acrylic where
  "engine_ac = snd (createLayer sample_acryl engine_cap 1 blank_layer
     (snd (createLayer sample_acryl engine_cap 0 blank_layer (acrylic_init engine_cap blank_canvas blank_acrylic))))"

text \<open>Two layers, one source this time, and the allocator has nothing left.\<close>

definition engine_m2m :: m2m where
  "engine_m2m = sample_m2m\<lparr>mm_mpp := sample_g2d\<lparr>mAssignedSources := [0], mAssignedDisplayInfo := sample_work_display,
       mPrevAssignedDisplayType := 7\<rparr>,
     mSrcImgs := map (\<lambda>i. if i < 2 then img_info_reset\<lparr>mppLayer := Some i\<rparr> else img_info_reset) [0..<15],
     mPrevFrameInfo := frame_info_reset\<lparr>srcNum := 2\<rparr>, mAllocOutBufFlag := True, mAcrylicHandle := Some engine_ac, mm_next := 2\<rparr>"

lemma engine_env_ok: "env_ok engine_env 16"
proof -
  have "createInstance sample_acryl ''fimg2d_9810'' = Some (AcrylicCompositorG2D9810, engine_cap)"
    by (simp add: createInstance_def)
  moreover have "max_layers engine_cap = 16" by (simp add: capability_fimg2d_9810_def)
  ultimately show ?thesis
    using backend_g2d[of engine_device sample_acryl engine_cap] stable_sort_sorts
    by (auto simp: env_ok_def engine_env_def factory_caps_def engine_device_def)
qed

lemma engine_ac_reach: "acryl_reach sample_acryl engine_cap engine_ac" "mLayers engine_ac = [0, 1]"
proof -
  have m: "max_layers engine_cap = 16" by (simp add: capability_fimg2d_9810_def)
  let ?c = "acrylic_init engine_cap blank_canvas blank_acrylic"
  have "0 \<notin> set (mLayers ?c)" by (simp add: acrylic_init_def)
  note r = reach_step[OF reach_init step_create[OF this, of _ _ blank_layer]]
  have "1 \<notin> set (mLayers (snd (createLayer sample_acryl engine_cap 0 blank_layer ?c)))"
    by (simp add: createLayer_def acrylic_init_def m)
  from reach_step[OF r step_create[OF this, of _ _ blank_layer]]
  show "acryl_reach sample_acryl engine_cap engine_ac" by (simp add: engine_ac_def)
  show "mLayers engine_ac = [0, 1]" by (simp add: engine_ac_def createLayer_def acrylic_init_def m)
qed

lemma engine_frame_wf: "frame_wf engine_env engine_m2m"
proof -
  have "slot_addresses engine_m2m = {#Some 0, Some 1#}"
    by (simp add: slot_addresses_def slot_layers_def engine_m2m_def img_info_reset_def upt_rec comp_def)
  then show ?thesis
    using engine_ac_reach
    by (simp add: frame_wf_def m2m_wf_def linked_def slot_valid_def NUM_MPP_SRC_BUFS_def NUM_MPP_DST_BUFS_def
        engine_m2m_def engine_env_def)
qed

lemma engine_fields [simp]:
  "mm_count engine_m2m = 1" "slot_layers engine_m2m ! Suc 0 = Some 1" "sources_ok 16 engine_m2m"
  by (simp_all add: engine_m2m_def mm_count_def slot_layers_def sources_ok_def fits16_def NUM_MPP_SRC_BUFS_def)

lemma engine_no_buffer: "\<exists>m0. prepare_dst engine_env work_mid engine_m2m = (- EINVAL, True, m0)"
proof -
  have r: "needDstBufRealloc engine_env work_mid (cur_slot engine_m2m) engine_m2m"
    by (simp add: needDstBufRealloc_def cur_slot_def engine_m2m_def NUM_MPP_DST_BUFS_def mm_display_def sample_m2m_def Let_def)
  have "mi_bufferHandle (mDstImgs engine_m2m ! cur_slot engine_m2m) = Some 5" "cur_slot engine_m2m < NUM_MPP_DST_BUFS"
    by (simp_all add: cur_slot_def engine_m2m_def NUM_MPP_DST_BUFS_def)
  moreover have a: "allocate engine_m2m = (- ENOMEM, None, engine_m2m)" by (simp add: allocate_def engine_m2m_def sample_m2m_def)
  moreover have "mm_answers (retire b engine_m2m) = []" for b
    by (simp add: retire_def close_valid_def mm_close_def return_buffer_def engine_m2m_def sample_m2m_def split: option.split)
  ultimately have "fst (allocOutBuf engine_env w h fmt usage (cur_slot engine_m2m) engine_m2m) = - EINVAL" for w h fmt usage
    by (simp add: allocOutBuf_def Let_def allocate_def)
  moreover have "mAllocOutBufFlag engine_m2m" by (simp add: engine_m2m_def)
  ultimately show ?thesis
    using r by (simp add: prepare_dst_def Let_def split_beta EINVAL_def prod_eq_iff)
qed




section \<open>A frame that was never drawn\<close>

lemma same_src_refl [simp]: "same_src_image a a"
  by (simp add: same_src_image_def fmt_neq_def)

lemma same_dst_refl [simp]: "same_dst_image a a"
  by (simp add: same_dst_image_def fmt_neq_def)

lemma set_format_handle: "mi_bufferHandle (mDstImgs (upd_dst i (\<lambda>b. b\<lparr>mi_format := f\<rparr>) m) ! k) = mi_bufferHandle (mDstImgs m ! k)"
  by (cases "i < length (mDstImgs m)") (auto simp: upd_dst_def nth_list_update list_update_beyond)

lemma set_format_reuse: "canUsePrevFrame ev src (upd_dst i (\<lambda>b. b\<lparr>mi_format := f\<rparr>) m) = canUsePrevFrame ev src m"
proof -
  let ?m = "upd_dst i (\<lambda>b. b\<lparr>mi_format := f\<rparr>) m"
  have e: "mm_mpp ?m = mm_mpp m" "mAllocOutBufFlag ?m = mAllocOutBufFlag m" "mPrevFrameInfo ?m = mPrevFrameInfo m"
    "mm_sources ?m = mm_sources m" "prev_slot ?m = prev_slot m"
    by (simp_all add: upd_dst_def prev_slot_def)
  then have f: "mm_count ?m = mm_count m" "mm_source ?m = mm_source m" "canUseVotf ev src ?m = canUseVotf ev src m"
    by (simp_all add: mm_count_def mm_source_def canUseVotf_def fun_eq_iff)
  show ?thesis unfolding canUsePrevFrame_def e f set_format_handle ..
qed

text \<open>What the call does when the last frame can be shown again.\<close>

lemma reuse_frame:
  assumes "mm_count m \<noteq> 0" "mAllocOutBufFlag m" "\<not> needDstBufRealloc ev dst (cur_slot m) m" "canUsePrevFrame ev src m"
  shows "\<exists>m2. doPostProcessing ev src dst m = Some (0, m2) \<and> shows_old m m2"
proof -
  obtain m1 where p: "prepare_dst ev dst m = (NO_ERROR, False, m1)"
    and m1: "m1 = m \<or> (\<exists>f. m1 = upd_dst (cur_slot m) (\<lambda>b. b\<lparr>mi_format := f\<rparr>) m)"
    using assms(2,3) by (fastforce simp: prepare_dst_def Let_def NO_ERROR_def)
  have "canUsePrevFrame ev src m1" using m1 assms(4) set_format_reuse by auto
  moreover have "prev_slot m1 = prev_slot m" using m1 by (auto simp: prev_slot_def upd_dst_def)
  moreover let ?m2 = "fold close_source_fence [0..<mm_count m1] (m1\<lparr>mCurrentDstBuf := prev_slot m1\<rparr>)\<lparr>mWasUsedPrevFrame := True\<rparr>"
  have "mCurrentDstBuf ?m2 = prev_slot m1"
    using close_source_fences[of "[0..<mm_count m1]" "m1\<lparr>mCurrentDstBuf := prev_slot m1\<rparr>"] by simp
  moreover have "mWasUsedPrevFrame (save_frame_info ?m2)" by (simp add: save_frame_info_def Let_def upd_mpp_def)
  ultimately show ?thesis using assms(1) p by (simp add: doPostProcessing_def NO_ERROR_def shows_old_def)
qed

text \<open>
  C10: \<open>doPostProcessing\<close> records a frame as the last one even when it failed. If the
  same frame is asked for again (skipping is allowed, the buffer need not be replaced and the slot
  before the current one holds one), it is not drawn then either: the call reports success and shows
  the slot before the current one, which still has the picture of an earlier frame.
\<close>

theorem failed_frame_remembered:
  assumes "env_ok ev most" "frame_wf ev m" "sources_ok most m" "0 < mm_count m"
    and "doPostProcessing ev src dst m = Some (ret, m1)" "ret < 0" "prepare_dst ev dst m = (NO_ERROR, False, m0)"
    and "skipM2mProcessing (mAssignedDisplayInfo (mm_mpp m))" "mAllocOutBufFlag m1" "\<not> canUseVotf ev src m1"
    and "\<not> needDstBufRealloc ev dst (cur_slot m1) m1" "mi_bufferHandle (mDstImgs m1 ! nat (prev_slot m1)) \<noteq> None"
  shows "\<exists>m2. doPostProcessing ev src dst m1 = Some (0, m2) \<and> shows_old m m2"
proof -
  note st = prepare_dst_stays(1)[OF assms(7)]
  have m0: "frame_wf ev m0" "sources_ok most m0" "mm_count m0 \<noteq> 0"
    using stays_wf[OF st, of ev] stays_sources[OF st assms(3)] assms(2,4) stays_count(1)[OF st] st
    by (simp_all add: frame_wf_def) (simp add: stays_def)
  obtain r3 m3 where i: "doPostProcessingInternal ev m0 = Some (r3, m3)" "same_run m0 m3"
    using doPostProcessingInternal_keeps[OF assms(1) m0] by blast
  note f = run_fields[OF i(2)]
  have m1: "m1 = save_frame_info m3"
    using assms(4-7) i(1) by (auto simp: doPostProcessing_def NO_ERROR_def split: if_splits)
  have same: "mm_mpp m0 = mm_mpp m" "mCurrentDstBuf m3 = mCurrentDstBuf m" using st i(2) by (simp_all add: stays_def same_run_def)
  have src: "mm_source m1 = mm_source m3" "mm_count m1 = mm_count m3" "mAssignedDisplayInfo (mm_mpp m1) = mAssignedDisplayInfo (mm_mpp m)"
    "mPhysicalType (mm_mpp m1) = mPhysicalType (mm_mpp m)"
    using f(4) same(1) unfolding m1 by (simp_all add: save_frame_info_def Let_def upd_mpp_def mm_source_def mm_count_def fun_eq_iff)
  have "srcInfo (mPrevFrameInfo m1) ! i = mSrcImg (mm_source m1 i)" "dstInfo (mPrevFrameInfo m1) ! i = mMidImg (mm_source m1 i)"
    if "i < mm_count m3" for i
    using that unfolding m1 by simp_all
  moreover have "srcNum (mPrevFrameInfo m1) = mm_count m3" unfolding m1 by simp
  ultimately have "canUsePrevFrame ev src m1"
    using assms(8-10,12) src(2,3) by (simp add: canUsePrevFrame_def list_ex_iff)
  moreover have "prev_slot m1 = prev_slot m" unfolding m1 by (simp add: prev_slot_def same(2))
  ultimately show ?thesis
    using reuse_frame[OF _ assms(9,11)] src(2) f(1) m0(3) by (simp add: shows_old_def)
qed

text \<open>A source whose buffer has gone, on the scaler of the other witnesses.\<close>

definition fault_m2m :: m2m where
  "fault_m2m = sample_m2m\<lparr>mAllocOutBufFlag := True, mm_mpp := sample_scaler\<lparr>mPrevAssignedDisplayType := 0\<rparr>,
     mDstImgs := replicate 3 (img_info_reset\<lparr>mi_bufferHandle := Some 5\<rparr>),
     mm_sources := (\<lambda>_. sample_work_source\<lparr>mSrcImg := work_src\<lparr>bufferHandle := None\<rparr>\<rparr>)\<rparr>"

lemma fault_fields [simp]:
  "mm_mpp fault_m2m = sample_scaler\<lparr>mPrevAssignedDisplayType := 0\<rparr>" "mAllocOutBufFlag fault_m2m"
  "mm_source fault_m2m i = sample_work_source\<lparr>mSrcImg := work_src\<lparr>bufferHandle := None\<rparr>\<rparr>"
  "mDstImgs fault_m2m = replicate 3 (img_info_reset\<lparr>mi_bufferHandle := Some 5\<rparr>)" "mSrcImgs fault_m2m = mSrcImgs sample_m2m" "mCurrentDstBuf fault_m2m = 0"
  "mAcrylicHandle fault_m2m = mAcrylicHandle sample_m2m" "mm_count fault_m2m = 1" "dumpMidBuf fault_m2m = False"
  "mPrevFrameInfo fault_m2m = frame_info_reset" "mm_next fault_m2m = 0" "mm_tracer fault_m2m = tracer_init"
  by (simp_all add: fault_m2m_def mm_source_def mm_count_def)

lemma fault_ok: "env_ok sample_work_env 1" "frame_wf sample_work_env fault_m2m" "sources_ok 1 fault_m2m"
  using sample_env_ok sample_frame_wf sample_sources_ok
  by (simp_all add: env_ok_def sample_work_env_def frame_wf_def m2m_wf_def linked_def slot_addresses_def slot_layers_def
      sources_ok_def list_all_iff) (simp_all add: fault_m2m_def mm_count_def)

lemma fault_keeps_buffer:
  assumes "mDstImgs m = mDstImgs fault_m2m" "mCurrentDstBuf m = 0" "mAssignedDisplayInfo (mm_mpp m) = sample_work_display"
    "mPrevAssignedDisplayType (mm_mpp m) = 0" "dumpMidBuf m = False"
  shows "\<not> needDstBufRealloc sample_work_env image_reset (cur_slot m) m"
proof -
  have "fmt_bpp format_default = 0" "\<not> fmt_isSBWC format_default"
    by (simp_all add: code_defs format_default_def kDefaultFormatIndex_def desc_def exynos_format_desc_def code_consts Let_def)
  then show ?thesis
    using assms
    by (simp add: MPP_BUFFER_NORMAL_def sample_gralloc_def needDstBufRealloc_def cur_slot_def NUM_MPP_DST_BUFS_def Let_def mm_display_def buffer_meta_def
        image_reset_def img_info_reset_def getBufferType_def getDrmMode_def)
qed

lemma fault_prepared: "prepare_dst sample_work_env image_reset fault_m2m = (NO_ERROR, False, fault_m2m)"
  using fault_keeps_buffer[of fault_m2m]
  by (simp add: prepare_dst_def Let_def NO_ERROR_def cur_slot_def fmt_neq_def img_info_reset_def image_reset_def)

lemma fault_fails:
  "\<exists>m1. doPostProcessing sample_work_env work_src image_reset fault_m2m = Some (- EINVAL, m1) \<and> mAllocOutBufFlag m1 \<and>
     mDstImgs m1 = mDstImgs fault_m2m \<and> mCurrentDstBuf m1 = 0 \<and> mAssignedDisplayInfo (mm_mpp m1) = sample_work_display \<and>
     mPrevAssignedDisplayType (mm_mpp m1) = 0 \<and> dumpMidBuf m1 = False"
proof -
  have c: "\<not> canUsePrevFrame sample_work_env work_src fault_m2m"
    by (simp add: canUsePrevFrame_def frame_info_reset_def)
  have s: "setupLayer sample_work_env 0 fault_m2m = Some (- EINVAL, snd (create_slot_layer sample_work_env 0 fault_m2m))"
    by (simp add: setupLayer_def Let_def split: prod.split option.split)
  have "doPostProcessingInternal sample_work_env fault_m2m = Some (- EINVAL, snd (create_slot_layer sample_work_env 0 fault_m2m))"
    by (simp add: doPostProcessingInternal_def compose_frame_def s NUM_MPP_SRC_BUFS_def EINVAL_def NO_ERROR_def)
  then show ?thesis
    using c by (simp add: doPostProcessing_def fault_prepared NO_ERROR_def EINVAL_def save_frame_info_def Let_def upd_mpp_def
      create_slot_layer_def img_info_reset_def createLayer_def upd_src_def mm_display_def)
qed

theorem failed_frame_remembered_witness:
  "\<exists>m1 m2. doPostProcessing sample_work_env work_src image_reset fault_m2m = Some (- EINVAL, m1) \<and>
    doPostProcessing sample_work_env work_src image_reset m1 = Some (0, m2) \<and> shows_old fault_m2m m2"
proof -
  obtain m1 where m1: "doPostProcessing sample_work_env work_src image_reset fault_m2m = Some (- EINVAL, m1)" "mAllocOutBufFlag m1"
    "mDstImgs m1 = mDstImgs fault_m2m" "mCurrentDstBuf m1 = 0" "mAssignedDisplayInfo (mm_mpp m1) = sample_work_display"
    "mPrevAssignedDisplayType (mm_mpp m1) = 0" "dumpMidBuf m1 = False"
    using fault_fails by blast
  have "\<not> canUseVotf sample_work_env work_src m1" by (simp add: canUseVotf_def)
  moreover have "mi_bufferHandle (mDstImgs m1 ! nat (prev_slot m1)) \<noteq> None"
    by (simp add: m1(3,4) prev_slot_def NUM_MPP_DST_BUFS_def)
  moreover have "skipM2mProcessing (mAssignedDisplayInfo (mm_mpp fault_m2m))"
    by (simp add: sample_work_display_def sample_display_def display_reset_def)
  ultimately show ?thesis
    using failed_frame_remembered[OF fault_ok _ m1(1) _ fault_prepared _ m1(2) _ fault_keeps_buffer[OF m1(3-7)]] m1(1)
    by (simp add: EINVAL_def)
qed

section \<open>A refused area\<close>

lemma setters_more:
  "canvas.more (snd (setImageType pf cap fmt ds c)) = canvas.more c"
  "canvas.more (snd (canvas_setImageDimension cap w h c)) = canvas.more c"
  "canvas.more (snd (setImageBuffer_color cap al r g b attr c)) = canvas.more c"
  "canvas.more (snd (setImageBuffer_dmabuf cap fd len off n fence attr c)) = canvas.more c"
  by (simp_all add: setImageType_def canvas_setImageDimension_def setImageBuffer_color_def setImageBuffer_dmabuf_def
      setImageOTFBuffer_def Let_def split: prod.split)

definition same_window :: "acryl_layer \<Rightarrow> acryl_layer \<Rightarrow> bool" where
  "same_window l l' \<longleftrightarrow> mTargetRect l' = mTargetRect l \<and> mTransform l' = mTransform l"

lemma more_window: "canvas.more l' = canvas.more l \<Longrightarrow> same_window l l'"
  by (cases l; cases l') (simp add: same_window_def)

lemma described_window: "same_window l (described ev m a src lengths fence attribute l)"
proof -
  have "same_window l (setup_meta ev m a src l)" for l
    by (auto simp: setup_meta_def setVotfLayerData_def setLayerData_def setMasterDisplayLuminance_def same_window_def Let_def
        split: option.split)
  then have "same_window l (if layerFlags src AND EXYNOS_HWC_DIM_LAYER \<noteq> 0 then l else setup_meta ev m a src l)"
    by (simp add: same_window_def)
  moreover have "same_window x (snd (layer_setImageDimension (me_cap ev) w h x))" for w h x
    using more_window[OF setters_more(2), of x "me_cap ev" w h]
    by (auto simp: layer_setImageDimension_def same_window_def split: prod.split)
  moreover have "same_window x (snd (setImageType (me_pf ev) (me_cap ev) fmt ds x))" for fmt ds x
    by (rule more_window[OF setters_more(1)])
  moreover have "same_window x (setup_buffer ev src lengths fence attribute x)" for x
    by (simp add: setup_buffer_def Let_def more_window[OF setters_more(3)] more_window[OF setters_more(4)])
  moreover have "same_window x (snd (setCompositMode (me_pf ev) (me_cap ev) mode alpha z x))" for mode alpha z x
    by (simp add: setCompositMode_def same_window_def split: option.split)
  ultimately show ?thesis
    unfolding described_def Let_def by (simp add: same_window_def)
qed

text \<open>
  \<open>setupLayer\<close> does not look at the verdict of \<open>setCompositArea\<close>. When the
  accelerator refuses the crop of a source (here: a negative coordinate), the call still succeeds,
  and the layer keeps the window and the transform of an earlier frame.
\<close>

theorem refused_area_ignored:
  assumes "setupLayer ev i m = Some (NO_ERROR, m')" "mppLayer (mSrcImgs m ! i) = Some a" "mAcrylicHandle m = Some ac"
    and "area_bits (image_rect (mSrcImg (mm_source m i))) < 0"
  shows "\<exists>ac'. mAcrylicHandle m' = Some ac' \<and> mTargetRect (ac_store ac' a) = mTargetRect (ac_store ac a) \<and>
    mTransform (ac_store ac' a) = mTransform (ac_store ac a)"
  using assms(1)
proof (cases rule: setupLayer_elim)
  case (drawn b m1 m2 ac2 lengths fence attribute l f)
  have c: "b = a" "m1 = m" using drawn(1) assms(2) by (simp_all add: create_slot_layer_def)
  then have "ac2 = ac" using keeps_links[OF drawn(2)] drawn(4) assms(3) by simp
  let ?d = "described ev m2 (mAssignedSources (mm_mpp m2) ! i) (mSrcImg (mm_source m i)) lengths fence attribute (ac_store ac a)"
  obtain ok where "setCompositArea (me_pf ev) (me_cap ev) (image_rect (mSrcImg (mm_source m i))) (image_rect (mMidImg (mm_source m i)))
      (transform (mSrcImg (mm_source m i))) (area_attribute ev m2 (mSrcImg (mm_source m i))) ?d = Some (ok, l)"
    using drawn(5) c(1) \<open>ac2 = ac\<close> by (auto simp: describe_layer_alt)
  from setCompositArea_outcome[OF this] assms(4) have "l = ?d" by blast
  then show ?thesis
    using drawn(7) c \<open>ac2 = ac\<close> described_window[of "ac_store ac a" ev m2]
    by (simp add: put_layer_def same_window_def)
qed (simp_all add: NO_ERROR_def EINVAL_def)

text \<open>The source of the scaler, cropped at a negative coordinate.\<close>

definition crop_src :: exynos_image where
  "crop_src = work_src\<lparr>img_x := -1\<rparr>"

definition crop_source :: mpp_source where
  "crop_source = sample_work_source\<lparr>mSrcImg := crop_src\<rparr>"

definition crop_ac :: acrylic where
  "crop_ac = on_layer 0 (\<lambda>_. work_layer) (sample_frame\<lparr>mLayers := [0]\<rparr>)"

definition cropped_m2m :: m2m where
  "cropped_m2m = sample_m2m\<lparr>mAcrylicHandle := Some crop_ac, mm_next := 1,
     mSrcImgs := (img_info_reset\<lparr>mppLayer := Some 0\<rparr>) # replicate 14 img_info_reset, mm_sources := (\<lambda>_. crop_source)\<rparr>"

lemma crop_fields [simp]:
  "layerFlags crop_src = 0" "exynosFormat crop_src = ExynosFormat 0" "bufferHandle crop_src = Some 4" "fullWidth crop_src = 64"
  "fullHeight crop_src = 64" "acquireFenceFd crop_src = -1" "ci_type (compressionInfo crop_src) = COMP_TYPE_NONE"
  "mSrcImg crop_source = crop_src" "mMidImg crop_source = work_mid" "mm_source cropped_m2m i = crop_source"
  "mSrcImgs cropped_m2m ! 0 = img_info_reset\<lparr>mppLayer := Some 0\<rparr>" "mAcrylicHandle cropped_m2m = Some crop_ac"
  "dumpMidBuf cropped_m2m = False" "ac_store crop_ac 0 = work_layer"
  by (simp_all add: crop_src_def crop_source_def cropped_m2m_def work_src_def image_reset_def mm_source_def crop_ac_def)

lemma cropped_described:
  obtains d where "\<And>m a lengths fence attribute l.
    describe_layer sample_work_env m a crop_src work_mid lengths fence attribute l = Some (d m a lengths fence attribute l)"
proof -
  have "me_cap sample_work_env \<in> factory_caps (me_pf sample_work_env)" "fits16 (image_rect work_mid)"
    using sample_env_ok by (simp_all only: env_ok_def) (simp add: fits16_def)
  from describe_layer_defined[OF this]
  have "describe_layer sample_work_env m a crop_src work_mid lengths fence attribute l =
      Some (the (describe_layer sample_work_env m a crop_src work_mid lengths fence attribute l))" for m a lengths fence attribute l
    by (metis option.sel)
  then show ?thesis by (rule that)
qed

lemma cropped_set: "\<exists>m'. setupLayer sample_work_env 0 cropped_m2m = Some (NO_ERROR, m')"
proof -
  obtain d where "\<And>m a lengths fence attribute l.
    describe_layer sample_work_env m a crop_src work_mid lengths fence attribute l = Some (d m a lengths fence attribute l)"
    using cropped_described by blast
  then show ?thesis
    by (simp add: setupLayer_def create_slot_layer_def Let_def check_debug_none mm_set_fence_def upd_src_def)
qed

theorem refused_area_ignored_witness:
  "\<exists>m' ac'. setupLayer sample_work_env 0 cropped_m2m = Some (NO_ERROR, m') \<and> mAcrylicHandle m' = Some ac' \<and>
    mTargetRect (ac_store ac' 0) = mTargetRect work_layer"
proof -
  obtain m' where s: "setupLayer sample_work_env 0 cropped_m2m = Some (NO_ERROR, m')" using cropped_set by blast
  have "area_bits (image_rect (mSrcImg (mm_source cropped_m2m 0))) < 0"
    by (simp add: crop_src_def work_src_def image_reset_def image_rect_def area_bits_def)
  then show ?thesis
    using refused_area_ignored[OF s, of 0 crop_ac] s by auto
qed

end
