(* ===== verification/MppLedger.thy ===== *)
theory MppLedger
  imports MppRuns
begin

text \<open>
  Where the destination buffers of a memory-to-memory resource are. Every buffer the allocator hands out
  is in one slot of the ring, in the queue of the thread that gives buffers back, or has been given
  back; frames, changes of the hardware's state and rounds of the thread only move it on. The one
  exception is an allocation that fails twice.
\<close>

section \<open>Counting buffers\<close>

definition held :: "buffer_handle \<Rightarrow> nat multiset" where
  "held h = (case h of None \<Rightarrow> {#} | Some b \<Rightarrow> {#b#})"

definition handles :: "buffer_handle list \<Rightarrow> nat multiset" where
  "handles hs = sum_list (map held hs)"

definition in_slots :: "m2m \<Rightarrow> nat multiset" where
  "in_slots m = handles (map mi_bufferHandle (mDstImgs m))"

definition in_queue :: "m2m \<Rightarrow> nat multiset" where
  "in_queue m = handles (map mi_bufferHandle (mFreedBuffers m))"

definition to_come :: "m2m \<Rightarrow> nat multiset" where
  "to_come m = handles (map snd (mm_answers m))"

definition ledger :: "m2m \<Rightarrow> nat multiset" where
  "ledger m = in_slots m + in_queue m + mset (mm_returned m) + to_come m"

lemma handles_simps [simp]:
  "handles [] = {#}" "handles (h # hs) = held h + handles hs" "handles (xs @ ys) = handles xs + handles ys"
  "held None = {#}" "held (Some b) = {#b#}"
  by (simp_all add: handles_def held_def)

lemma handles_upd: "i < length hs \<Longrightarrow> handles (hs[i := h]) + held (hs ! i) = handles hs + held h"
proof (induction hs arbitrary: i)
  case (Cons x xs)
  then show ?case by (cases i) (simp_all add: ac_simps)
qed simp

lemma handles_upd_slot:
  assumes "i < length xs"
  shows "handles (map mi_bufferHandle (xs[i := b])) + held (mi_bufferHandle (xs ! i)) =
    handles (map mi_bufferHandle xs) + held (mi_bufferHandle b)"
  using handles_upd[of i "map mi_bufferHandle xs" "mi_bufferHandle b"] assms by (simp add: map_update)

text \<open>A failed allocation brings no buffer.\<close>

definition answers_ok :: "m2m \<Rightarrow> bool" where
  "answers_ok m \<longleftrightarrow> list_all (\<lambda>(err, h). err = NO_ERROR \<or> h = None) (mm_answers m)"

section \<open>Operations that move no buffer\<close>

definition same_buffers :: "m2m \<Rightarrow> m2m \<Rightarrow> bool" where
  "same_buffers m m' \<longleftrightarrow> map mi_bufferHandle (mDstImgs m') = map mi_bufferHandle (mDstImgs m) \<and>
     mFreedBuffers m' = mFreedBuffers m \<and> mm_returned m' = mm_returned m \<and> mm_answers m' = mm_answers m \<and>
     mAllocOutBufFlag m' = mAllocOutBufFlag m"

lemma same_buffers_refl [simp]: "same_buffers m m"
  by (simp add: same_buffers_def)

lemma same_buffers_trans: "same_buffers a b \<Longrightarrow> same_buffers b c \<Longrightarrow> same_buffers a c"
  by (simp add: same_buffers_def)

lemma work_buffers_same: "same_work m m' \<Longrightarrow> same_buffers m m'"
  by (simp add: same_work_def same_buffers_def)

lemma keeps_buffers: "keeps m m' \<Longrightarrow> same_buffers m m'"
  by (rule work_buffers_same[OF keeps_work])

lemma same_ledger: "same_buffers m m' \<Longrightarrow> ledger m' = ledger m"
  by (simp add: same_buffers_def ledger_def in_slots_def in_queue_def to_come_def)

lemma same_answers: "same_buffers m m' \<Longrightarrow> answers_ok m' = answers_ok m"
  by (simp add: same_buffers_def answers_ok_def)

lemma simple_buffers [simp]:
  "same_buffers m (upd_src i f m)" "same_buffers m (m\<lparr>mAcrylicHandle := h\<rparr>)" "same_buffers m (upd_mpp g m)"
  "same_buffers m (m\<lparr>mAcrylicHandle := h, mm_next := n\<rparr>)" "same_buffers m (m\<lparr>mm_sources := st\<rparr>)"
  "same_buffers m (m\<lparr>mm_mpp := p, mm_sources := st\<rparr>)"
  "same_buffers m (m\<lparr>mCurrentDstBuf := c\<rparr>)" "same_buffers m (m\<lparr>mWasUsedPrevFrame := w\<rparr>)"
  "same_buffers m (m\<lparr>mPrevFrameInfo := fi\<rparr>)" "same_buffers m (m\<lparr>mm_priority := pr\<rparr>)" "same_buffers m (m\<lparr>mm_tracer := t\<rparr>)"
  "same_buffers m (addStateFence x m)" "same_buffers m (m\<lparr>mStateFences := sf\<rparr>)"
  by (simp_all add: same_buffers_def upd_src_def upd_mpp_def addStateFence_def)

lemma upd_dst_buffers: "(\<And>b. mi_bufferHandle (f b) = mi_bufferHandle b) \<Longrightarrow> same_buffers m (upd_dst i f m)"
  using map_upd_same[of mi_bufferHandle f] by (simp add: same_buffers_def upd_dst_def)

lemma fold_buffers: "(\<And>i m. same_buffers m (f i m)) \<Longrightarrow> same_buffers m (fold f xs m)"
proof (induction xs arbitrary: m)
  case (Cons x xs)
  then show ?case using same_buffers_trans[of m "f x m"] by simp
qed simp

lemma create_slot_layer_buffers: "create_slot_layer ev i m = (layer, m') \<Longrightarrow> same_buffers m m'"
  by (auto simp: create_slot_layer_def split: option.splits prod.splits
      intro: same_buffers_trans[OF simple_buffers(4) simple_buffers(1)])

lemma setupLayer_buffers:
  assumes "setupLayer ev i m = Some (ret, m')"
  shows "same_buffers m m'"
  using assms
proof (cases rule: setupLayer_elim)
  case (drawn a m1 m2 ac lengths fence attribute l f)
  have "same_buffers m2 (put_layer i f a l ac m2)"
    unfolding put_layer_def by (rule same_buffers_trans[OF simple_buffers(2) simple_buffers(1)])
  then show ?thesis
    using same_buffers_trans[OF same_buffers_trans[OF create_slot_layer_buffers[OF drawn(1)] keeps_buffers[OF drawn(2)]]] drawn(7)
    by simp
qed (auto dest: create_slot_layer_buffers)

lemma setup_layers_buffers: "setup_layers ev js m = Some (ret, m') \<Longrightarrow> same_buffers m m'"
proof (induction js arbitrary: m)
  case (Cons i js)
  then show ?case
    by (auto split: if_splits option.splits dest: setupLayer_buffers intro: same_buffers_trans)
qed simp

lemma delete_layer_buffers [simp]: "same_buffers m (delete_layer i m)"
  by (auto simp: delete_layer_def split: option.split intro: same_buffers_trans[OF simple_buffers(2) simple_buffers(1)])

lemma setupDst_buffers:
  assumes "setupDst ev m = Some (ret, m')"
  shows "same_buffers m m'"
  using assms
proof (cases rule: setupDst_elim)
  case (drawn ac m2 fence fmt ds otf fds lengths num attribute lo hi type)
  have "same_buffers x (upd_dst j (\<lambda>b. b\<lparr>mi_bufferType := type, acrylicReleaseFenceFd := -1, mi_dataspace := ds\<rparr>) x)" for j x
    by (rule upd_dst_buffers) simp
  then show ?thesis
    unfolding drawn(4) using same_buffers_trans[OF same_buffers_trans[OF keeps_buffers[OF drawn(3)] simple_buffers(2)]] by blast
qed simp_all

lemma compose_frame_buffers: "compose_frame ev m = Some (ret, m') \<Longrightarrow> same_buffers m m'"
  using same_buffers_trans[OF fold_buffers[of delete_layer] setupDst_buffers] fold_buffers[of delete_layer]
  by (fastforce simp: compose_frame_def Let_def split: option.splits if_splits dest: setup_layers_buffers intro: same_buffers_trans)


lemma run_accelerator_buffers:
  assumes "run_accelerator ev m = Some (ret, m')"
  shows "same_buffers m m'"
proof -
  have s: "same_buffers x (slot_layer_do f i x)" for f i x by (simp add: slot_layer_do_def split: option.split)
  have f: "same_buffers m (fold (slot_layer_do clearLayerData) js (m\<lparr>mAcrylicHandle := Some ac\<rparr>))" for js ac
    by (rule same_buffers_trans[OF simple_buffers(2) fold_buffers]) (rule s)
  have "same_buffers x (forget_fences x)" "same_buffers x (dumpDstBuf (take_fences ev out x))" for x out
    by (rule keeps_buffers[OF forget_fences_keeps], rule keeps_buffers[OF keeps_trans[OF take_fences_keeps dumpDstBuf_keeps]])
  from same_buffers_trans[OF f this(1)] same_buffers_trans[OF f this(2)] show ?thesis
    using assms by (auto simp: run_accelerator_def Let_def split: option.splits if_splits)
qed

lemma doPostProcessingInternal_buffers: "doPostProcessingInternal ev m = Some (ret, m') \<Longrightarrow> same_buffers m m'"
  by (auto simp: doPostProcessingInternal_def split: if_splits option.splits
      dest: compose_frame_buffers intro: same_buffers_trans[OF compose_frame_buffers run_accelerator_buffers])

lemma save_frame_buffers: "same_buffers m (save_frame_info m)"
  unfolding save_frame_info_def Let_def by (rule same_buffers_trans[OF simple_buffers(3) simple_buffers(9)])

lemma close_source_buffers: "same_buffers m (close_source_fence i m)"
  by (simp add: close_source_fence_def mm_close_def same_buffers_def Let_def)

text \<open>A frame moves buffers only while it prepares its destination.\<close>

lemma doPostProcessing_buffers:
  assumes "doPostProcessing ev src dst m = Some (ret, m')"
  shows "same_buffers m m' \<or> same_buffers (snd (snd (prepare_dst ev dst m))) m'"
proof -
  obtain r realloc m1 where p: "prepare_dst ev dst m = (r, realloc, m1)" by (metis prod.exhaust)
  have reuse: "same_buffers m1 (save_frame_info
      ((fold close_source_fence js (m1\<lparr>mCurrentDstBuf := c\<rparr>))\<lparr>mWasUsedPrevFrame := True\<rparr>))" for js c
    using same_buffers_trans[OF simple_buffers(7) fold_buffers[of close_source_fence, OF close_source_buffers]]
      same_buffers_trans[OF same_buffers_trans[OF _ simple_buffers(8)] save_frame_buffers] by blast
  have "same_buffers m1 (save_frame_info m2)" if "doPostProcessingInternal ev m1 = Some (x, m2)" for x m2
    by (rule same_buffers_trans[OF doPostProcessingInternal_buffers[OF that] save_frame_buffers])
  then show ?thesis
    using assms p reuse save_frame_buffers by (auto simp: doPostProcessing_def split: if_splits option.splits)
qed

section \<open>Operations that do\<close>

lemma allocate_cases:
  assumes "allocate m = (err, h, m')"
  shows "mDstImgs m' = mDstImgs m" "mFreedBuffers m' = mFreedBuffers m" "mm_returned m' = mm_returned m"
    "mAllocOutBufFlag m' = mAllocOutBufFlag m" "to_come m = held h + to_come m'" "answers_ok m \<Longrightarrow> answers_ok m'"
    "answers_ok m \<Longrightarrow> err \<noteq> NO_ERROR \<Longrightarrow> h = None"
  using assms by (auto simp: allocate_def to_come_def answers_ok_def split: list.splits)

lemma retire_moves:
  "mDstImgs (retire b m) = mDstImgs m" "mFreedBuffers (retire b m) = mFreedBuffers m" "mm_answers (retire b m) = mm_answers m"
  "mset (mm_returned (retire b m)) = held (mi_bufferHandle b) + mset (mm_returned m)"
  "mAllocOutBufFlag (retire b m) = mAllocOutBufFlag m"
  by (simp_all add: retire_def return_buffer_def close_valid_def mm_close_def split: option.split)

text \<open>The buffer of a slot gives way to a new one and joins the queue, or has already been given back.\<close>

lemma install_moves:
  assumes "i < length (mDstImgs m)" "old = mDstImgs m ! i \<or> freed \<and> old = img_info_reset"
  shows "in_slots (install_buffer ev i h u fmt freed old m) + held (mi_bufferHandle (mDstImgs m ! i)) = in_slots m + held h"
    "in_queue (install_buffer ev i h u fmt freed old m) = in_queue m + (if freed then {#} else held (mi_bufferHandle (mDstImgs m ! i)))"
    "mm_returned (install_buffer ev i h u fmt freed old m) = mm_returned m"
    "mm_answers (install_buffer ev i h u fmt freed old m) = mm_answers m"
    "mAllocOutBufFlag (install_buffer ev i h u fmt freed old m) = mAllocOutBufFlag m"
proof -
  let ?new = "img_info_reset\<lparr>mi_bufferHandle := h, mi_bufferType := getBufferType ev (dumpMidBuf m) u,
               mi_format := format_of (pf_hal (me_pf ev)) fmt\<rparr>"
  let ?m = "upd_dst i (\<lambda>_. ?new) m" and ?r = "install_buffer ev i h u fmt freed old m"
  have "mDstImgs ?r = (mDstImgs m)[i := ?new]"
    by (simp add: install_buffer_def Let_def freeOutBuf_def addFreedBuffer_def mm_close_def upd_dst_def)
  then show "in_slots ?r + held (mi_bufferHandle (mDstImgs m ! i)) = in_slots m + held h"
    using handles_upd_slot[OF assms(1), of ?new] by (simp add: in_slots_def)
  show "in_queue ?r = in_queue m + (if freed then {#} else held (mi_bufferHandle (mDstImgs m ! i)))"
    using assms(2)
    by (auto simp: install_buffer_def Let_def freeOutBuf_def addFreedBuffer_def mm_close_def upd_dst_def in_queue_def)
  show "mm_returned ?r = mm_returned m" "mm_answers ?r = mm_answers m" "mAllocOutBufFlag ?r = mAllocOutBufFlag m"
    by (simp_all add: install_buffer_def Let_def freeOutBuf_def addFreedBuffer_def mm_close_def upd_dst_def)
qed

definition ledger_ok :: "m2m \<Rightarrow> bool" where
  "ledger_ok m \<longleftrightarrow> mAllocOutBufFlag m \<and> length (mDstImgs m) = NUM_MPP_DST_BUFS \<and> answers_ok m"

lemma same_ledger_ok: "same_buffers m m' \<Longrightarrow> ledger_ok m' = ledger_ok m"
  using same_answers[of m m'] by (simp add: ledger_ok_def same_buffers_def) (metis length_map)

text \<open>An allocation that succeeds, at the first or the second attempt, moves buffers but loses none.\<close>

lemma allocOutBuf_ledger:
  assumes "allocOutBuf ev w h fmt usage i m = (NO_ERROR, m')" "ledger_ok m"
  shows "ledger m' = ledger m" "ledger_ok m'"
proof -
  have i: "i < length (mDstImgs m)" and ok: "answers_ok m" "mAllocOutBufFlag m" "length (mDstImgs m) = NUM_MPP_DST_BUFS"
    using assms by (auto simp: allocOutBuf_def ledger_ok_def NO_ERROR_def EINVAL_def split: if_splits)
  let ?old = "mDstImgs m ! i"
  obtain e1 h1 m1 where a: "allocate m = (e1, h1, m1)" by (metis prod.exhaust)
  obtain e2 h2 m2 where b: "allocate (retire ?old m1) = (e2, h2, m2)" by (metis prod.exhaust)
  note c1 = allocate_cases[OF a]
  have ra: "answers_ok (retire ?old m1)" using c1(6)[OF ok(1)] by (simp add: answers_ok_def retire_moves)
  note c2 = allocate_cases[OF b]
  have len: "length (mDstImgs m') = length (mDstImgs m)"
    using allocOutBuf_stays(1)[OF assms(1)] by (simp add: stays_def)
  show "ledger m' = ledger m" "ledger_ok m'"
  proof (atomize (full), cases "(e1 \<noteq> NO_ERROR \<or> h1 = None) \<and> mi_bufferHandle ?old \<noteq> None")
    case True
    then have m': "m' = install_buffer ev i h2 usage fmt True img_info_reset m2"
      using assms(1) i a b ok(3) by (auto simp: allocOutBuf_def Let_def EINVAL_def NO_ERROR_def split: if_splits)
    have d: "mDstImgs m2 = mDstImgs m" using c2(1) c1(1) by (simp add: retire_moves)
    have "h1 = None" using True c1(7)[OF ok(1)] by blast
    moreover note mv = install_moves[where old = img_info_reset and freed = True and m = m2 and i = i and h = h2]
    have "in_slots m' + held (mi_bufferHandle ?old) = in_slots m + held h2" "in_queue m' = in_queue m"
      "mset (mm_returned m') = held (mi_bufferHandle ?old) + mset (mm_returned m)"
      using mv(1-3)[of ev usage fmt] i d c2(2,3) c1(2,3) unfolding m'
      by (simp_all add: in_slots_def in_queue_def retire_moves)
    moreover have "to_come m' = to_come m2" "mAllocOutBufFlag m'" "answers_ok m'"
      using mv(4,5)[of ev usage fmt] i d c2(4,6) c1(4) ok ra unfolding m' by (simp_all add: to_come_def answers_ok_def retire_moves)
    moreover have "to_come m1 = held h2 + to_come m2" using c2(5) by (simp add: to_come_def retire_moves)
    ultimately show "ledger m' = ledger m \<and> ledger_ok m'"
      using c1(5) len ok(3) by (simp add: ledger_def ledger_ok_def ac_simps)
  next
    case False
    then have m': "m' = install_buffer ev i h1 usage fmt False ?old m1"
      using assms(1) i a ok(3) by (auto simp: allocOutBuf_def Let_def EINVAL_def NO_ERROR_def split: if_splits)
    note mv = install_moves[where old = ?old and freed = False and m = m1 and i = i and h = h1]
    have "in_slots m' + held (mi_bufferHandle ?old) = in_slots m + held h1"
      "in_queue m' = in_queue m + held (mi_bufferHandle ?old)" "mm_returned m' = mm_returned m"
      using mv(1-3)[of ev usage fmt] i c1(1-3) unfolding m' by (simp_all add: in_slots_def in_queue_def)
    moreover have "to_come m' = to_come m1" "mAllocOutBufFlag m'" "answers_ok m'"
      using mv(4,5)[of ev usage fmt] i c1(1,4,6) ok unfolding m' by (simp_all add: to_come_def answers_ok_def)
    ultimately show "ledger m' = ledger m \<and> ledger_ok m'"
      using c1(5) len ok(3) by (simp add: ledger_def ledger_ok_def ac_simps) 
  qed
qed

text \<open>Emptying the ring when the hardware goes idle, and a round of the thread.\<close>

lemma release_slot_ledger:
  assumes "ledger_ok m" "i < NUM_MPP_DST_BUFS"
  shows "ledger (release_slot ev i m) = ledger m \<and> ledger_ok (release_slot ev i m)"
proof -
  let ?old = "mDstImgs m ! i" and ?r = "release_slot ev i m"
  have i: "i < length (mDstImgs m)" "mAllocOutBufFlag m" using assms by (simp_all add: ledger_ok_def)
  let ?kept = "img_info_reset\<lparr>acrylicAcquireFenceFd := acrylicAcquireFenceFd ?old, acrylicReleaseFenceFd := acrylicReleaseFenceFd ?old\<rparr>"
  have rest: "mm_returned ?r = mm_returned m" "mm_answers ?r = mm_answers m" "mAllocOutBufFlag ?r = mAllocOutBufFlag m"
    "length (mDstImgs ?r) = length (mDstImgs m)"
    by (simp_all add: release_slot_def Let_def freeOutBuf_def addFreedBuffer_def upd_dst_def)
  have "in_slots ?r + in_queue ?r = in_slots m + in_queue m"
  proof (cases "mFreeOutBufFlag m")
    case True
    have "mDstImgs ?r = (mDstImgs m)[i := ?kept]"
      using True i(2) by (simp add: release_slot_def Let_def freeOutBuf_def addFreedBuffer_def upd_dst_def)
    then have "in_slots ?r + held (mi_bufferHandle ?old) = in_slots m"
      using handles_upd_slot[OF i(1), of ?kept] by (simp add: in_slots_def img_info_reset_def)
    moreover have "in_queue ?r = in_queue m + held (mi_bufferHandle ?old)"
      using True i(2) by (auto simp: release_slot_def Let_def freeOutBuf_def addFreedBuffer_def upd_dst_def in_queue_def)
    ultimately show ?thesis by (simp add: ac_simps)
  next
    case False
    let ?k = "?kept\<lparr>mi_bufferHandle := mi_bufferHandle ?old, mi_bufferType := mi_bufferType ?old\<rparr>"
    have "mDstImgs ?r = (mDstImgs m)[i := ?k]" "mFreedBuffers ?r = mFreedBuffers m"
      using False by (simp_all add: release_slot_def Let_def upd_dst_def)
    then show ?thesis
      using handles_upd_slot[OF i(1), of ?k] by (simp add: in_slots_def in_queue_def)
  qed
  then show ?thesis
    using assms(1) rest by (simp add: ledger_def ledger_ok_def answers_ok_def to_come_def)
qed

lemma release_slots_ledger:
  assumes "ledger_ok m" "\<forall>i\<in>set js. i < NUM_MPP_DST_BUFS"
  shows "ledger (fold (release_slot ev) js m) = ledger m \<and> ledger_ok (fold (release_slot ev) js m)"
  using assms
proof (induction js arbitrary: m)
  case (Cons i js)
  then show ?case using release_slot_ledger[of m i ev] by simp
qed simp

lemma same_buffers_ledger: "same_buffers m m' \<Longrightarrow> ledger_ok m \<Longrightarrow> ledger m' = ledger m \<and> ledger_ok m'"
  using same_ledger same_ledger_ok by blast

lemma requestHWStateChange_ledger:
  assumes "requestHWStateChange ev state m = (ret, m')" "ledger_ok m"
  shows "ledger m' = ledger m \<and> ledger_ok m'"
proof -
  have drop: "same_buffers x (drop_priority x)" for x by (simp add: drop_priority_def)
  have hw: "same_buffers x (set_hw_state s x)" for s x by (simp add: set_hw_state_def)
  let ?a = "if mLastStateFenceFd (mm_mpp m) \<ge> 0 then addStateFence (mLastStateFenceFd (mm_mpp m)) m else set_hw_state MPP_HW_STATE_IDLE m"
  let ?b = "upd_mpp (\<lambda>p. p\<lparr>mLastStateFenceFd := -1\<rparr>) ?a"
  let ?c = "if mPhysicalType (mm_mpp ?b) = MPP_G2D \<and> \<not> mHWBusyFlag (mm_mpp ?b) then drop_priority ?b else ?b"
  let ?d = "if mMPPType (mm_mpp ?c) = MPP_TYPE_M2M then fold (release_slot ev) [0..<NUM_MPP_DST_BUFS] ?c else ?c"
  have "same_buffers m ?a" using hw by simp
  from same_buffers_trans[OF this simple_buffers(3)] have b: "same_buffers m ?b" .
  then have "same_buffers m ?c" using same_buffers_trans[OF b drop] by simp
  from same_buffers_ledger[OF this assms(2)] have c: "ledger ?c = ledger m" "ledger_ok ?c" by auto
  have d: "ledger ?d = ledger m \<and> ledger_ok ?d"
    using release_slots_ledger[OF c(2), of "[0..<NUM_MPP_DST_BUFS]" ev] c by simp
  have "same_buffers ?d ((fold delete_layer [0..<NUM_MPP_SRC_BUFS] ?d)\<lparr>mPrevFrameInfo := frame_info_reset\<rparr>)"
    by (rule same_buffers_trans[OF fold_buffers simple_buffers(9)]) simp
  from same_buffers_ledger[OF this] d
  have idle: "ledger ((fold delete_layer [0..<NUM_MPP_SRC_BUFS] ?d)\<lparr>mPrevFrameInfo := frame_info_reset\<rparr>) = ledger m \<and>
      ledger_ok ((fold delete_layer [0..<NUM_MPP_SRC_BUFS] ?d)\<lparr>mPrevFrameInfo := frame_info_reset\<rparr>)" by simp
  have m': "m' = snd (requestHWStateChange ev state m)" using assms(1) by simp
  show ?thesis
  proof (cases "mHWState (mm_mpp m) = state \<or> state \<noteq> MPP_HW_STATE_IDLE \<or> state = MPP_HW_STATE_RUNNING")
    case True
    then have "same_buffers m m'" using drop hw unfolding m' by (auto simp: requestHWStateChange_def)
    then show ?thesis using same_buffers_ledger assms(2) by blast
  next
    case False
    then show ?thesis using idle unfolding m' requestHWStateChange_def Let_def by simp
  qed
qed

lemma freeBuffers_returned: "mset (mm_returned (freeBuffers m)) = mset (mm_returned m) + in_queue m"
proof -
  have "mset (mm_returned (fold retire bs m)) = mset (mm_returned m) + handles (map mi_bufferHandle bs)" for bs m
    by (induction bs arbitrary: m) (simp_all add: retire_moves ac_simps)
  then show ?thesis by (simp add: freeBuffers_def in_queue_def)
qed

lemma freeBuffers_ledger: "ledger (freeBuffers m) = ledger m" "ledger_ok (freeBuffers m) = ledger_ok m"
proof -
  have "mDstImgs (fold retire bs m) = mDstImgs m \<and> mFreedBuffers (fold retire bs m) = mFreedBuffers m \<and>
    mm_answers (fold retire bs m) = mm_answers m \<and> mAllocOutBufFlag (fold retire bs m) = mAllocOutBufFlag m" for bs m
    by (induction bs arbitrary: m) (simp_all add: retire_moves)
  then have g: "mDstImgs (freeBuffers m) = mDstImgs m" "in_queue (freeBuffers m) = {#}" "mm_answers (freeBuffers m) = mm_answers m"
    "mAllocOutBufFlag (freeBuffers m) = mAllocOutBufFlag m"
    by (simp_all add: freeBuffers_def in_queue_def)
  show "ledger (freeBuffers m) = ledger m"
    by (simp add: ledger_def in_slots_def to_come_def freeBuffers_returned g ac_simps)
  show "ledger_ok (freeBuffers m) = ledger_ok m"
    by (simp add: ledger_ok_def answers_ok_def g)
qed

lemma threadLoop_ledger: "ledger_ok m \<Longrightarrow> ledger (threadLoop_round ev m) = ledger m \<and> ledger_ok (threadLoop_round ev m)"
proof -
  assume ok: "ledger_ok m"
  have s: "same_buffers x (snd (checkStateFences ev x))" for x
  proof -
    have c: "same_buffers y (close_valid f FENCE_TYPE_UNDEFINED FENCE_IP_ALL y)" for f y
      by (rule keeps_buffers[OF tracer_frames(3)])
    show ?thesis
      unfolding checkStateFences_def snd_conv by (rule same_buffers_trans[OF simple_buffers(13) fold_buffers[OF c]])
  qed
  let ?m = "if mHWState (mm_mpp m) = MPP_HW_STATE_RUNNING \<and> mStateFences m \<noteq> [] then
                (let (ok, m) = checkStateFences ev m in if ok then set_hw_state MPP_HW_STATE_IDLE m else m)
              else if mStateFences m \<noteq> [] \<and> mHWState (mm_mpp m) \<noteq> MPP_HW_STATE_RUNNING then snd (checkStateFences ev m)
              else m"
  obtain waited m2 where c: "checkStateFences ev m = (waited, m2)" by fastforce
  have "same_buffers m2 (set_hw_state MPP_HW_STATE_IDLE m2)" by (simp add: set_hw_state_def)
  moreover have "same_buffers m m2" using s[of m] c by simp
  ultimately have "same_buffers m m2" "same_buffers m (set_hw_state MPP_HW_STATE_IDLE m2)" using same_buffers_trans by blast+
  then have "same_buffers m ?m" by (simp add: c)
  from same_buffers_ledger[OF this ok] show ?thesis
    using freeBuffers_ledger[of ?m] by (simp add: threadLoop_round_def Let_def split_beta)
qed

section \<open>Every buffer is in one place\<close>

text \<open>
  What happens to the resource: a frame with its own sources and assignment whose destination could be
  prepared, a change of the hardware's state, a round of the thread.
\<close>

inductive buffer_step :: "m2m_env \<Rightarrow> m2m \<Rightarrow> m2m \<Rightarrow> bool" for ev where
  step_frame: "prepare_dst ev dst (m\<lparr>mm_mpp := p, mm_sources := st\<rparr>) = (NO_ERROR, realloc, m1) \<Longrightarrow>
    doPostProcessing ev src dst (m\<lparr>mm_mpp := p, mm_sources := st\<rparr>) = Some (ret, m') \<Longrightarrow> buffer_step ev m m'"
| step_state: "requestHWStateChange ev state m = (ret, m') \<Longrightarrow> buffer_step ev m m'"
| step_thread: "buffer_step ev m (threadLoop_round ev m)"

lemma prepare_dst_ledger:
  assumes "prepare_dst ev dst m = (NO_ERROR, realloc, m')" "ledger_ok m"
  shows "ledger m' = ledger m \<and> ledger_ok m'"
proof -
  let ?realloc = "needDstBufRealloc ev dst (cur_slot m) m"
  let ?dst = "if ?realloc \<and> mMaxSrcLayerNum (mm_mpp m) > 1 then dst\<lparr>exynosFormat := defaultMppDstFormat ev\<rparr> else dst"
  let ?fmt = "alloc_format ev m ?dst" and ?d = "mAssignedDisplayInfo (mm_mpp m)"
  let ?align = "GET_M2M_DST_ALIGN ev ?fmt"
  obtain r m1 where a: "(if ?realloc then allocOutBuf ev (word_of_int (pixel_align (sint (xres ?d)) ?align))
      (word_of_int (pixel_align (sint (yres ?d)) ?align)) ?fmt (usageFlags ?dst) (cur_slot m) m else (NO_ERROR, m)) = (r, m1)"
    by fastforce
  have u: "same_buffers m1 (upd_dst (cur_slot m1) (\<lambda>b. b\<lparr>mi_format := f\<rparr>) m1)" for f by (rule upd_dst_buffers) simp
  have r: "r = NO_ERROR \<or> mAllocOutBufFlag m = False"
    using assms(1) unfolding prepare_dst_def Let_def a prod.case by (auto split: if_splits)
  have "ledger m1 = ledger m \<and> ledger_ok m1" if "r = NO_ERROR"
    using a allocOutBuf_ledger assms(2) that by (auto split: if_splits)
  moreover have "mAllocOutBufFlag m" using assms(2) by (simp add: ledger_ok_def)
  ultimately have "ledger m1 = ledger m \<and> ledger_ok m1" using r by blast
  moreover have "m' = m1 \<or> m' = m \<or> (\<exists>f. m' = upd_dst (cur_slot m1) (\<lambda>b. b\<lparr>mi_format := f\<rparr>) m1)"
    using assms(1) unfolding prepare_dst_def Let_def a prod.case by (auto split: if_splits)
  ultimately show ?thesis using same_buffers_ledger[OF u] assms(2) by auto
qed

lemma buffer_step_ledger: "buffer_step ev m m' \<Longrightarrow> ledger_ok m \<Longrightarrow> ledger m' = ledger m \<and> ledger_ok m'"
proof (induction rule: buffer_step.induct)
  case (step_frame dst st p m realloc m1 src ret m')
  let ?m = "m\<lparr>mm_mpp := p, mm_sources := st\<rparr>"
  from same_buffers_ledger[OF simple_buffers(6) step_frame.prems] have ok: "ledger ?m = ledger m" "ledger_ok ?m" by auto
  with prepare_dst_ledger[OF step_frame.hyps(1)] have ok1: "ledger m1 = ledger m" "ledger_ok m1" by auto
  from doPostProcessing_buffers[OF step_frame.hyps(2)] step_frame.hyps(1)
  have "same_buffers ?m m' \<or> same_buffers m1 m'" by simp
  then show ?case using same_buffers_ledger ok ok1 by metis
qed (auto dest: requestHWStateChange_ledger threadLoop_ledger)

lemma buffer_steps_ledger: "(buffer_step ev)\<^sup>*\<^sup>* m m' \<Longrightarrow> ledger_ok m \<Longrightarrow> ledger m' = ledger m \<and> ledger_ok m'"
proof (induction rule: rtranclp_induct)
  case (step y z)
  then show ?case using buffer_step_ledger[of ev y z] by simp
qed simp



definition ring_m2m :: m2m where
  "ring_m2m = sample_m2m\<lparr>mAllocOutBufFlag := True, mFreeOutBufFlag := True,
     mDstImgs := [img_info_reset\<lparr>mi_bufferHandle := Some 5\<rparr>, img_info_reset\<lparr>mi_bufferHandle := Some 6\<rparr>, img_info_reset],
     mFreedBuffers := [img_info_reset\<lparr>mi_bufferHandle := Some 7\<rparr>], mm_answers := [(NO_ERROR, Some 8)], mm_returned := []\<rparr>"


section \<open>An allocation that fails twice\<close>

definition refused :: "nat \<Rightarrow> m2m \<Rightarrow> bool" where
  "refused n m \<longleftrightarrow> list_all (\<lambda>(err, h). err \<noteq> NO_ERROR) (take n (mm_answers m))"

lemma allocate_refused:
  assumes "allocate m = (err, h, m')" "refused (Suc n) m"
  shows "err \<noteq> NO_ERROR" "refused n m'" "mFreeOutBufFlag m' = mFreeOutBufFlag m"
  using assms by (auto simp: allocate_def refused_def NO_ERROR_def ENOMEM_def split: list.splits)

lemma refused_twice:
  assumes "refused (Suc (Suc 0)) m"
  obtains e1 h1 m1 e2 h2 m2 where "allocate m = (e1, h1, m1)" "e1 \<noteq> NO_ERROR" "allocate (retire old m1) = (e2, h2, m2)"
    "e2 \<noteq> NO_ERROR" "mDstImgs m2 = mDstImgs m" "mFreeOutBufFlag m2 = mFreeOutBufFlag m" "mAllocOutBufFlag m2 = mAllocOutBufFlag m"
    "mset (mm_returned m2) = held (mi_bufferHandle old) + mset (mm_returned m)"
proof -
  obtain e1 h1 m1 where a: "allocate m = (e1, h1, m1)" by (metis prod.exhaust)
  obtain e2 h2 m2 where b: "allocate (retire old m1) = (e2, h2, m2)" by (metis prod.exhaust)
  have flag: "mFreeOutBufFlag (retire old x) = mFreeOutBufFlag x" for x
    by (simp add: retire_def return_buffer_def close_valid_def mm_close_def split: option.split)
  note first = allocate_refused[OF a assms]
  have "refused (Suc 0) (retire old m1)" using first(2) by (simp add: refused_def retire_moves)
  note second = allocate_refused[OF b this]
  have "e1 \<noteq> NO_ERROR" "e2 \<noteq> NO_ERROR" "mFreeOutBufFlag m2 = mFreeOutBufFlag m"
    using first(1,3) second(1,3) flag by simp_all
  then show thesis using that[OF a _ b] allocate_cases[OF a] allocate_cases[OF b] by (simp add: retire_moves)
qed

text \<open>
  C8: when the allocator refuses twice, \<open>allocOutBuf\<close> reports \<open>-EINVAL\<close>, but it has
  given the slot's old buffer back and leaves its handle in the slot: when the slot is emptied later
  and the thread runs, the same buffer is given back a second time.
\<close>

theorem retry_failure_frees_twice:
  assumes "refused (Suc (Suc 0)) m" "i < NUM_MPP_DST_BUFS" "length (mDstImgs m) = NUM_MPP_DST_BUFS" "mi_bufferHandle (mDstImgs m ! i) = Some b"
    "mAllocOutBufFlag m" "mFreeOutBufFlag m"
  shows "\<exists>m'. allocOutBuf ev w h fmt usage i m = (- EINVAL, m') \<and> b \<in> set (mm_returned m') \<and>
    mi_bufferHandle (mDstImgs m' ! i) = Some b \<and>
    count (mset (mm_returned (freeBuffers (release_slot ev i m')))) b \<ge> 2"
proof -
  from refused_twice[OF assms(1), of "mDstImgs m ! i"] obtain e1 h1 m1 e2 h2 m2 where
    a: "allocate m = (e1, h1, m1)" "e1 \<noteq> NO_ERROR" "allocate (retire (mDstImgs m ! i) m1) = (e2, h2, m2)" "e2 \<noteq> NO_ERROR"
    and f: "mDstImgs m2 = mDstImgs m" "mFreeOutBufFlag m2" "mAllocOutBufFlag m2"
      "mset (mm_returned m2) = held (mi_bufferHandle (mDstImgs m ! i)) + mset (mm_returned m)"
    using assms(5,6) by metis
  have "allocOutBuf ev w h fmt usage i m = (- EINVAL, m2)"
    using a assms(2,4) by (simp add: allocOutBuf_def Let_def)
  moreover have ret: "mset (mm_returned m2) = add_mset b (mset (mm_returned m))" using f(4) assms(4) by simp
  then have "b \<in># mset (mm_returned m2)" by simp
  then have "b \<in> set (mm_returned m2)" by simp
  moreover have slot: "mi_bufferHandle (mDstImgs m2 ! i) = Some b" using f(1) assms(4) by simp
  moreover have "2 \<le> count (mset (mm_returned (freeBuffers (release_slot ev i m2)))) b"
  proof -
    let ?r = "release_slot ev i m2"
    have q: "in_queue ?r = in_queue m2 + {#b#}" "mm_returned ?r = mm_returned m2"
      using f(2,3) slot by (auto simp: release_slot_def Let_def freeOutBuf_def addFreedBuffer_def upd_dst_def in_queue_def)
    show ?thesis using freeBuffers_returned[of ?r] q ret by simp
  qed
  ultimately show ?thesis by blast
qed

lemma retry_failure_frees_twice_witness:
  "\<exists>m'. allocOutBuf sample_work_env 64 64 1 0 1 (ring_m2m\<lparr>mm_answers := []\<rparr>) = (- EINVAL, m') \<and>
     count (mset (mm_returned (freeBuffers (release_slot sample_work_env 1 m')))) 6 \<ge> 2"
proof -
  have "refused (Suc (Suc 0)) (ring_m2m\<lparr>mm_answers := []\<rparr>)" "mi_bufferHandle (mDstImgs (ring_m2m\<lparr>mm_answers := []\<rparr>) ! 1) = Some 6"
    by (simp_all add: refused_def ring_m2m_def img_info_reset_def)
  from retry_failure_frees_twice[OF this(1) _ _ this(2)] show ?thesis
    by (fastforce simp: ring_m2m_def NUM_MPP_DST_BUFS_def)
qed

end
