(* ===== verification/HwcWindow.thy ===== *)
theory HwcWindow
  imports HwcDisplay MppCompose
begin

text \<open>
  The windows of the display controller (\<open>display/ExynosDisplay.cpp\<close>, \<open>display/ExynosDpuData.h\<close>): how a
  layer or a composition target with a window of its own is described to the controller, the
  check made before the description is handed on, and the region of the screen that is sent to the
  panel again. A position on the screen is an \<open>int\<close>, a size a 32-bit word; sums of the two are taken
  modulo \<open>2^32\<close>, as C does. \<open>None\<close> is a division by zero or an access outside an array.
\<close>

section \<open>The state\<close>

record decon_frame =
  fr_x :: int
  fr_y :: int
  fr_w :: u32
  fr_h :: u32
  fr_f_w :: u32
  fr_f_h :: u32

definition frame_zero :: decon_frame where
  "frame_zero = \<lparr>fr_x = 0, fr_y = 0, fr_w = 0, fr_h = 0, fr_f_w = 0, fr_f_h = 0\<rparr>"

datatype win_state = WIN_STATE_DISABLED | WIN_STATE_COLOR | WIN_STATE_BUFFER | WIN_STATE_UPDATE | WIN_STATE_CURSOR

datatype dpp_comp_src = DPP_COMP_SRC_NONE | DPP_COMP_SRC_G2D | DPP_COMP_SRC_GPU

datatype window_owner = Owner_layer nat | Owner_target composition_target

text \<open>
  A window, without the areas the code never writes. \<open>wc_metaParcel\<close> is the source whose metadata the
  window points to.
\<close>

record win_config =
  wc_state :: win_state
  wc_color :: u32
  fd_idma :: "int list"
  wc_buffer_id :: u64
  wc_owner :: "window_owner option"
  fd_lut :: int
  wc_metaParcel :: "nat option"
  acq_fence :: int
  rel_fence :: int
  wc_plane_alpha :: rat
  wc_blending :: int
  assignedMPP :: "nat option"
  wc_format :: ExynosFormat
  wc_transform :: u32
  wc_dataspace :: u32
  hdr_enable :: bool
  comp_src :: dpp_comp_src
  min_luminance :: u32
  max_luminance :: u32
  wc_src :: decon_frame
  wc_dst :: decon_frame
  protection :: bool
  wc_compressionInfo :: compressionInfo_t
  wc_needColorTransform :: bool
  vOtfEnable :: bool
  vOtfBufIndex :: u32

definition kIdmaFdNum :: nat where [code_consts]: "kIdmaFdNum = 3"
definition FENCE_IP_DPP :: u32 where [code_consts]: "FENCE_IP_DPP = 0"

definition win_config_reset :: "acryl_platform \<Rightarrow> win_config" where
  "win_config_reset pf = \<lparr>wc_state = WIN_STATE_DISABLED, wc_color = 0, fd_idma = [-1, -1, -1], wc_buffer_id = -1,
     wc_owner = None, fd_lut = -1, wc_metaParcel = None, acq_fence = -1, rel_fence = -1, wc_plane_alpha = 1,
     wc_blending = sint (pf_blend pf BLEND_MODE_NONE), assignedMPP = None, wc_format = format_default, wc_transform = 0,
     wc_dataspace = 0, hdr_enable = False, comp_src = DPP_COMP_SRC_NONE, min_luminance = 0, max_luminance = 0,
     wc_src = frame_zero, wc_dst = frame_zero, protection = False,
     wc_compressionInfo = \<lparr>ci_type = COMP_TYPE_NONE, SAJCMaxBlockSize = 0, SAJCHeaderOffset = 0\<rparr>,
     wc_needColorTransform = False, vOtfEnable = False, vOtfBufIndex = 0\<rparr>"

record writeback_info =
  wb_handle :: buffer_handle
  wb_rel_fence :: int
  wb_acq_fence :: int

record dpu_data =
  present_fence :: int
  dd_configs :: "win_config list"
  enable_win_update :: bool
  enable_readback :: bool
  enable_standalone_writeback :: bool
  win_update_region :: decon_frame
  readback_info :: writeback_info
  standalone_writeback_info :: writeback_info

definition dpu_data_reset :: "acryl_platform \<Rightarrow> dpu_data \<Rightarrow> dpu_data" where
  "dpu_data_reset pf d = d\<lparr>present_fence := -1, dd_configs := map (\<lambda>_. win_config_reset pf) (dd_configs d)\<rparr>"

text \<open>
  The display with its windows. \<open>wn_m2m\<close> are the members of the resources that \<open>hwc\<close> does not have,
  \<open>wn_last_buffer\<close> and \<open>wn_meta_fd\<close> the layers' members \<open>mLastLayerBuffer\<close> and \<open>mMetaParcelFd\<close>, \<open>wn_skip\<close> the
  targets' \<open>mSkipFlag\<close>.
\<close>

record win =
  wn_hwc :: hwc
  wn_m2m :: "nat \<Rightarrow> m2m"
  mDpuData :: dpu_data
  mLastDpuData :: dpu_data
  wn_last_buffer :: "nat \<Rightarrow> buffer_handle"
  wn_meta_fd :: "nat \<Rightarrow> int"
  wn_skip :: "composition_target \<Rightarrow> bool"

text \<open>
  \<open>we_hdr_exception\<close>: the chip's subclass takes the layer out of HDR processing; \<open>we_lut\<close>: the descriptor
  of a resource's colour table, when the colour interface filled it; \<open>we_windowUpdate\<close>: the switch in
  \<open>exynosHWCControl\<close>.
\<close>

record win_env =
  we_m2m :: m2m_env
  we_hdr_exception :: "nat \<Rightarrow> bool"
  we_lut :: "nat \<Rightarrow> int option"
  we_windowUpdate :: int

abbreviation we_pf :: "win_env \<Rightarrow> acryl_platform" where "we_pf ev \<equiv> me_pf (we_m2m ev)"
abbreviation we_gr :: "win_env \<Rightarrow> gralloc" where "we_gr ev \<equiv> me_gr (we_m2m ev)"

section \<open>Access\<close>

definition wn_layer :: "nat \<Rightarrow> win \<Rightarrow> layer" where
  "wn_layer i n = hwc.mLayers (wn_hwc n) ! i"

definition wn_source :: "nat \<Rightarrow> win \<Rightarrow> mpp_source" where
  "wn_source i n = hw_sources (wn_hwc n) (lay_source (wn_layer i n))"

definition upd_hwc :: "(hwc \<Rightarrow> hwc) \<Rightarrow> win \<Rightarrow> win" where
  "upd_hwc f n = n\<lparr>wn_hwc := f (wn_hwc n)\<rparr>"

text \<open>A resource as a whole.\<close>

definition m2m_view :: "nat \<Rightarrow> win \<Rightarrow> m2m" where
  "m2m_view a n = (wn_m2m n a)\<lparr>mm_mpp := hw_mpps (wn_hwc n) a, mm_sources := hw_sources (wn_hwc n)\<rparr>"

definition configs :: "win \<Rightarrow> win_config list" where
  "configs n = dd_configs (mDpuData n)"

definition upd_config :: "nat \<Rightarrow> (win_config \<Rightarrow> win_config) \<Rightarrow> win \<Rightarrow> win" where
  "upd_config i f n = n\<lparr>mDpuData := (mDpuData n)\<lparr>dd_configs := (configs n)[i := f (configs n ! i)]\<rparr>\<rparr>"

text \<open>A fence handed to the controller; closed at once when the debug setting says so.\<close>

definition dpp_fence :: "win_env \<Rightarrow> int \<Rightarrow> win \<Rightarrow> int \<times> win" where
  "dpp_fence ev fence n =
    (let (fence, t) = checkFenceDebug (me_fence_debug (we_m2m ev)) (displayIdentifier (mDisplayInfo (wn_hwc n)))
           FENCE_TYPE_SRC_ACQUIRE FENCE_IP_DPP fence (hw_tracer (wn_hwc n))
     in (fence, upd_hwc (\<lambda>w. w\<lparr>hw_tracer := t\<rparr>) n))"

definition getRestrictionIndex :: "ExynosFormat \<Rightarrow> nat" where
  "getRestrictionIndex f = (if fmt_isRgb f then RESTRICTION_RGB else RESTRICTION_YUV)"

section \<open>A layer in its window\<close>

text \<open>The part of a side of the frame that lies on the screen: position and size.\<close>

definition visible_side :: "int \<Rightarrow> int \<Rightarrow> u32 \<Rightarrow> int \<times> u32" where
  "visible_side lo hi res =
    (let w = word_of_int (hi - lo);
         (x, w) = (if lo < 0 then (0, w - word_of_int (- lo)) else (word_of_int lo, w));
         w = (if hi > sint res then w - (word_of_int hi - res) else w)
     in (sint (x :: u32), w))"

definition visible_frame :: "hwc_rect \<Rightarrow> u32 \<Rightarrow> u32 \<Rightarrow> decon_frame" where
  "visible_frame r w_res h_res =
    (let (x, w) = visible_side (rect_left r) (rect_right r) w_res;
         (y, h) = visible_side (rect_top r) (rect_bottom r) h_res
     in \<lparr>fr_x = x, fr_y = y, fr_w = w, fr_h = h, fr_f_w = w_res, fr_f_h = h_res\<rparr>)"

text \<open>
  One side of the crop is fitted into the limits of the resource: \<open>full\<close> is the side of the image, \<open>maxFull\<close> and
  \<open>fullAlign\<close> its limits, \<open>xAlign\<close> the alignment of the position, \<open>maxCrop\<close> and \<open>cropAlign\<close> those of the size.
\<close>

definition fit_side :: "u32 \<Rightarrow> u32 \<Rightarrow> u32 \<Rightarrow> u32 \<Rightarrow> u32 \<Rightarrow> int \<Rightarrow> u32 \<Rightarrow> u32 \<Rightarrow> int \<times> u32 \<times> u32" where
  "fit_side maxFull fullAlign xAlign maxCrop cropAlign x w full =
    (let x = (if x < 0 then 0 else x);
         full = (if full > maxFull then maxFull else full);
         full = word_of_int (pixel_align_down (sint full) (sint fullAlign));
         x = pixel_align x (sint xAlign);
         w = (if word_of_int x + w > full then full - word_of_int x else w);
         w = (if w > maxCrop then maxCrop else w);
         w = word_of_int (pixel_align_down (sint w) (sint cropAlign))
     in (x, w, full))"

definition fit_source :: "acryl_platform \<Rightarrow> mpp \<Rightarrow> exynos_image \<Rightarrow> decon_frame \<Rightarrow> decon_frame" where
  "fit_source pf p src f =
    (let (x, w, f_w) = fit_side (getSrcMaxWidth p src) (getSrcWidthAlign p src) (getSrcXOffsetAlign p src)
           (getSrcMaxCropWidth p src) (getSrcCropWidthAlign pf p src) (fr_x f) (fr_w f) (fr_f_w f);
         (y, h, f_h) = fit_side (getSrcMaxHeight p src) (getSrcHeightAlign p src) (getSrcYOffsetAlign p src)
           (getSrcMaxCropHeight pf p src) (getSrcCropHeightAlign pf p src) (fr_y f) (fr_h f) (fr_f_h f)
     in \<lparr>fr_x = x, fr_y = y, fr_w = w, fr_h = h, fr_f_w = f_w, fr_f_h = f_h\<rparr>)"

text \<open>The descriptor of the metadata follows those of the buffers; there is room for three.\<close>

definition pass_meta :: "nat \<Rightarrow> nat \<Rightarrow> int \<Rightarrow> win_config \<Rightarrow> win_config option" where
  "pass_meta a buffers fd cfg =
    (if buffers > 0 \<and> fd \<ge> 0 then
       (if buffers \<ge> kIdmaFdNum then None else Some (cfg\<lparr>fd_idma := (fd_idma cfg)[buffers := fd], wc_metaParcel := Some a\<rparr>))
     else Some cfg)"

text \<open>The window shows what the resource \<open>a\<close> made of the layer. The luminances come last.\<close>

definition describe_m2m ::
  "win_env \<Rightarrow> nat \<Rightarrow> nat \<Rightarrow> win_config \<Rightarrow> win \<Rightarrow> (win_config \<times> exynos_image \<times> u32 \<times> u32 \<times> win) option" where
  "describe_m2m ev i a cfg n =
    (let m = m2m_view a n; mid = mMidImg (wn_source i n); parcel = lay_source (wn_layer i n) in
     if mm_count m = 0 then None
     else case getDstImageInfo (we_m2m ev) m image_reset of
       None \<Rightarrow> None
     | Some (ret, img) \<Rightarrow>
        (let (cfg, n) =
           (if ret = NO_ERROR then
              (let (fence, n) = dpp_fence ev (acquireFenceFd img) n
               in (cfg\<lparr>wc_src := \<lparr>fr_x = sint (img_x img), fr_y = sint (img_y img), fr_w = img_w img, fr_h = img_h img,
                                  fr_f_w = fullWidth img, fr_f_h = fullHeight img\<rparr>,
                        wc_format := exynosFormat img, acq_fence := fence\<rparr>,
                   n\<lparr>wn_m2m := (wn_m2m n)(a := snd (resetDstAcquireFence (wn_m2m n a)))\<rparr>))
            else (cfg, n));
             cfg = cfg\<lparr>wc_dataspace := dataSpace img, wc_transform := 0\<rparr>
         in if hasHdrInfo (we_pf ev) mid then
              (case (pass_meta parcel (unat (fmt_bufferNum (exynosFormat mid))) (wn_meta_fd n i) cfg,
                     getDstMetaInfo (we_m2m ev) m (dataSpace img)) of
                 (Some cfg, Some (lo, hi)) \<Rightarrow>
                   Some (cfg\<lparr>hdr_enable := \<not> we_hdr_exception ev i\<rparr>, mid, ucast lo, ucast hi, n)
               | _ \<Rightarrow> None)
            else Some (cfg\<lparr>hdr_enable := True\<rparr>, mid, 0, 0, n)))"

text \<open>
  The window shows the layer itself. The conversion of a negative crop position to \<open>uint32_t\<close> is taken
  modulo \<open>2^32\<close>.
\<close>

definition direct_source :: "hwc_frect \<Rightarrow> exynos_image \<Rightarrow> decon_frame" where
  "direct_source crop src =
    (let x = trunc_int (frect_left crop); y = trunc_int (frect_top crop)
     in \<lparr>fr_x = x, fr_y = y,
         fr_w = word_of_int (FRECT_WIDTH crop) - (word_of_int x - word_of_int (trunc_int (frect_left crop))),
         fr_h = word_of_int (FRECT_HEIGHT crop) - (word_of_int y - word_of_int (trunc_int (frect_top crop))),
         fr_f_w = fullWidth src, fr_f_h = fullHeight src\<rparr>)"

definition describe_direct ::
  "win_env \<Rightarrow> nat \<Rightarrow> int \<Rightarrow> win_config \<Rightarrow> win \<Rightarrow> (win_config \<times> exynos_image \<times> u32 \<times> u32 \<times> win) option" where
  "describe_direct ev i fence_fd cfg n =
    (let l = wn_layer i n; src = mSrcImg (wn_source i n);
         (fence, n) = dpp_fence ev fence_fd n;
         cfg = cfg\<lparr>wc_src := direct_source (pp_sourceCrop (mPreprocessedInfo l)) src, acq_fence := fence,
                   wc_dataspace := dataSpace src, wc_transform := transform src\<rparr>
     in if hasHdrInfo (we_pf ev) src then
          (let buffers = getBufferNumOfFormat (pf_hal (we_pf ev)) (gm_format (buffer_meta (we_gr ev) (mLayerBuffer l)));
               (lo, hi) = (case me_meta (we_m2m ev) (lay_source l) of None \<Rightarrow> (0, 0) | Some (lo, hi) \<Rightarrow> (lo, hi div 10000))
           in case pass_meta (lay_source l) (unat buffers) (wn_meta_fd n i) (cfg\<lparr>hdr_enable := \<not> we_hdr_exception ev i\<rparr>) of
                None \<Rightarrow> None
              | Some cfg \<Rightarrow> Some (cfg, src, lo, hi, n))
        else Some (cfg\<lparr>hdr_enable := True\<rparr>, src, 0, 0, n))"

text \<open>Is the buffer too small for the picture? Buffers of lossy formats are not checked.\<close>

definition buffer_too_small :: "win_env \<Rightarrow> gralloc_meta \<Rightarrow> win_config \<Rightarrow> bool" where
  "buffer_too_small ev g cfg \<longleftrightarrow>
     \<not> isFormatLossy (pf_hal (we_pf ev)) (gm_format g) \<and>
     (word_of_int (gm_size g) * ucast (formatToBpp (pf_hal (we_pf ev)) (gm_format g)) :: u64) <
       ucast (fr_f_w (wc_src cfg)) * ucast (fr_f_h (wc_src cfg)) * ucast (fmt_bpp (wc_format cfg))"

definition use_lut :: "win_env \<Rightarrow> nat \<Rightarrow> win_config \<Rightarrow> win_config" where
  "use_lut ev o_mpp cfg = (case we_lut ev o_mpp of None \<Rightarrow> cfg | Some fd \<Rightarrow> cfg\<lparr>fd_lut := fd\<rparr>)"

text \<open>The first part of \<open>configureHandle\<close>, for every kind of layer.\<close>

definition start_config :: "nat \<Rightarrow> nat \<Rightarrow> win \<Rightarrow> win_config \<Rightarrow> win_config" where
  "start_config i o_mpp n cfg =
    (let l = wn_layer i n; w = wn_hwc n
     in cfg\<lparr>wc_state := (if mExynosCompositionType l = HWC2_COMPOSITION_DEVICE \<and> mCompositionType l = HWC2_COMPOSITION_CURSOR
                         then WIN_STATE_CURSOR else WIN_STATE_BUFFER),
            wc_dst := visible_frame (pp_displayFrame (mPreprocessedInfo l)) (mXres w) (mYres w),
            wc_plane_alpha := layer.mPlaneAlpha l, wc_blending := mBlending l, assignedMPP := Some o_mpp\<rparr>)"

definition dim_color :: "hwc_color_t \<Rightarrow> u32" where
  "dim_color c = push_bit 24 (ucast (color_a c)) OR push_bit 16 (ucast (color_r c)) OR push_bit 8 (ucast (color_g c)) OR ucast (color_b c)"

text \<open>The last part, for layers with a buffer.\<close>

definition finish_config ::
  "win_env \<Rightarrow> nat \<Rightarrow> gralloc_meta \<Rightarrow> win_config \<times> exynos_image \<times> u32 \<times> u32 \<times> win \<Rightarrow> int \<times> win_config \<times> win" where
  "finish_config ev o_mpp g = (\<lambda>(cfg, src, lo, hi, n).
    (let cfg = cfg\<lparr>vOtfEnable := votf_enable (mVotfInfo (wn_m2m n o_mpp)) \<noteq> 0, vOtfBufIndex := votf_bufIndex (mVotfInfo (wn_m2m n o_mpp)),
                   min_luminance := lo, max_luminance := hi, wc_needColorTransform := needColorTransform src,
                   wc_src := fit_source (we_pf ev) (hw_mpps (wn_hwc n) o_mpp) src (wc_src cfg)\<rparr>
     in if buffer_too_small ev g cfg then (- EINVAL, cfg, n) else (NO_ERROR, use_lut ev o_mpp cfg, n)))"

definition configureHandle :: "win_env \<Rightarrow> nat \<Rightarrow> int \<Rightarrow> win_config \<Rightarrow> win \<Rightarrow> (int \<times> win_config \<times> win) option" where
  "configureHandle ev i fence_fd cfg n =
    (let l = wn_layer i n; s = wn_source i n; dim = layer_isDimLayer l;
         cfg = cfg\<lparr>wc_owner := Some (Owner_layer i), wc_compressionInfo := mCompressionInfo l\<rparr>;
         cfg = (if ci_type (mCompressionInfo l) \<noteq> COMP_TYPE_NONE then cfg\<lparr>comp_src := DPP_COMP_SRC_GPU\<rparr> else cfg);
         handle = (case mM2mMPP s of Some a \<Rightarrow> mi_bufferHandle (mDstImgs (wn_m2m n a) ! cur_slot (wn_m2m n a)) | None \<Rightarrow> mLayerBuffer l)
     in case mOtfMPP s of
          None \<Rightarrow> Some (- EINVAL, cfg, n)
        | Some o_mpp \<Rightarrow>
           (if \<not> dim \<and> handle = None then Some (- EINVAL, cfg, n)
            else
              (let cfg = start_config i o_mpp n cfg in
               if dim then Some (NO_ERROR, cfg\<lparr>wc_state := WIN_STATE_COLOR, wc_color := dim_color (mColor l)\<rparr>, n)
               else
                 (let g = buffer_meta (we_gr ev) handle; pp = mPreprocessedInfo l;
                      cfg = cfg\<lparr>wc_format := (if pp_mUsePrivateFormat pp then pp_mPrivateFormat pp else mLayerFormat l),
                                fd_idma := [gm_fd g, gm_fd1 g, gm_fd2 g], wc_buffer_id := gm_buffer_id g,
                                protection := (getDrmMode (we_pf ev) (gm_producer_usage g) = SECURE_DRM)\<rparr>
                  in map_option (finish_config ev o_mpp g)
                       (case mM2mMPP s of Some a \<Rightarrow> describe_m2m ev i a cfg n | None \<Rightarrow> describe_direct ev i fence_fd cfg n)))))"

text \<open>On success the layer's fence belongs to the window.\<close>

definition configureLayer :: "win_env \<Rightarrow> nat \<Rightarrow> nat \<Rightarrow> win \<Rightarrow> (int \<times> win) option" where
  "configureLayer ev i window n =
    (case configureHandle ev i (mAcquireFence (wn_layer i n)) (configs n ! window) n of
       None \<Rightarrow> None
     | Some (ret, cfg, n) \<Rightarrow>
        (let n = upd_config window (\<lambda>_. cfg) n
         in Some (ret, if ret \<noteq> NO_ERROR then n else upd_hwc (upd_layer i (\<lambda>l. l\<lparr>mAcquireFence := -1\<rparr>)) n)))"

section \<open>A composition target in its window\<close>

text \<open>The least rectangle around the frames of a range of layers.\<close>

definition merged_frame :: "hwc \<Rightarrow> nat list \<Rightarrow> hwc_rect" where
  "merged_frame w js = fold (\<lambda>i r. rect_expand r (mDisplayFrame (hwc.mLayers w ! i))) js
     \<lparr>rect_left = sint (mXres w), rect_top = sint (mYres w), rect_right = 0, rect_bottom = 0\<rparr>"

text \<open>One side is widened to the least size and to the alignments of the resource.\<close>

definition widen_side :: "u32 \<Rightarrow> u32 \<Rightarrow> u32 \<Rightarrow> int \<Rightarrow> u32 \<Rightarrow> int \<times> u32" where
  "widen_side minSize posAlign sizeAlign x w =
    (let (x, w) = (if w < minSize
                   then (let x = sint (word_of_int x - (minSize - w)) in (if x < 0 then 0 else x, minSize)) else (x, w));
         aligned = pixel_align_down x (sint posAlign);
         w = w + word_of_int (x - aligned)
     in (aligned, word_of_int (pixel_align (sint w) (sint sizeAlign))))"

definition set_area :: "int \<Rightarrow> int \<Rightarrow> u32 \<Rightarrow> u32 \<Rightarrow> decon_frame \<Rightarrow> decon_frame" where
  "set_area x y w h f = f\<lparr>fr_x := x, fr_y := y, fr_w := w, fr_h := h\<rparr>"

text \<open>
  The part of the target that is shown, as position and size: the frames of its layers, widened, or the
  whole screen when that leaves the screen. \<open>None\<close>: the range ends behind the last layer.
\<close>

definition target_area :: "composition_info \<Rightarrow> win_config \<Rightarrow> hwc \<Rightarrow> (int \<times> int \<times> u32 \<times> u32) option" where
  "target_area c cfg w =
    (let whole = Some (0, 0, mXres w, mYres w) in
     if \<not> mHasCompositionLayer c \<or> mFirstIndex c < 0 \<or> mLastIndex c < 0 then whole
     else if mFirstIndex c \<le> mLastIndex c \<and> nat (mLastIndex c) \<ge> length (hwc.mLayers w) then None
     else
       (let r = merged_frame w [nat (mFirstIndex c)..<Suc (nat (mLastIndex c))]
        in case assignedMPP cfg of
             None \<Rightarrow> whole
           | Some a \<Rightarrow>
              (let p = hw_mpps w a; idx = getRestrictionIndex (wc_format cfg);
                   (x, wd) = widen_side (getSrcMinWidth_idx p idx) (getSrcXOffsetAlign_idx p idx) (getSrcCropWidthAlign_idx p idx)
                               (rect_left r) (word_of_int (RECT_WIDTH r));
                   (y, ht) = widen_side (getSrcMinHeight_idx p idx) (getSrcYOffsetAlign_idx p idx) (getSrcCropHeightAlign_idx p idx)
                               (rect_top r) (word_of_int (RECT_HEIGHT r))
               in if x < 0 \<or> y < 0 \<or> word_of_int x + wd > mXres w \<or> word_of_int y + ht > mYres w then whole
                  else Some (x, y, wd, ht))))"

text \<open>Buffer, format and sizes of the target.\<close>

definition target_config :: "win_env \<Rightarrow> composition_info \<Rightarrow> hwc \<Rightarrow> win_config \<Rightarrow> win_config" where
  "target_config ev c w cfg =
    (let g = buffer_meta (we_gr ev) (cmp_mTargetBuffer c); exynos = (cmp_mType c = COMPOSITION_EXYNOS);
         align = GET_M2M_DST_ALIGN (we_m2m ev) (gm_format g);
         f_w = (if exynos then word_of_int (pixel_align (sint (mXres w)) align) else word_of_int (gm_stride g));
         f_h = (if exynos then word_of_int (pixel_align (sint (mYres w)) align) else word_of_int (gm_vstride g));
         cfg = cfg\<lparr>fd_idma := [gm_fd g, gm_fd1 g, gm_fd2 g], wc_buffer_id := gm_buffer_id g,
                   protection := (getDrmMode (we_pf ev) (gm_producer_usage g) = SECURE_DRM), wc_state := WIN_STATE_BUFFER,
                   assignedMPP := mOtfMPP (hw_sources w (cmp_source c)),
                   wc_dst := (wc_dst cfg)\<lparr>fr_f_w := mXres w, fr_f_h := mYres w\<rparr>,
                   wc_src := (wc_src cfg)\<lparr>fr_f_w := f_w, fr_f_h := f_h\<rparr>,
                   wc_compressionInfo :=
                     (if ci_type (cmp_mCompressionInfo c) = ci_type (buffer_compression (we_gr ev) (cmp_mTargetBuffer c))
                      then cmp_mCompressionInfo c else (wc_compressionInfo cfg)\<lparr>ci_type := COMP_TYPE_NONE\<rparr>),
                   wc_format := cmp_mFormat c\<rparr>
     in if ci_type (cmp_mCompressionInfo c) = 0 then cfg
        else if exynos then cfg\<lparr>comp_src := DPP_COMP_SRC_G2D\<rparr>
        else if cmp_mType c = COMPOSITION_CLIENT then cfg\<lparr>comp_src := DPP_COMP_SRC_GPU\<rparr> else cfg)"

text \<open>A target without a buffer has no window, unless its last window is kept.\<close>

definition configure_empty :: "composition_target \<Rightarrow> composition_info \<Rightarrow> nat \<Rightarrow> win \<Rightarrow> int \<times> win" where
  "configure_empty t c window n =
    (if wn_skip n t then (NO_ERROR, n)
     else if cmp_mType c = COMPOSITION_CLIENT then
       (NO_ERROR,
        upd_config window (\<lambda>cfg. cfg\<lparr>wc_state := WIN_STATE_DISABLED\<rparr>)
          (if cmp_mAcquireFence c \<ge> 0 then
             upd_hwc (\<lambda>w. upd_info t (\<lambda>c. c\<lparr>cmp_mAcquireFence := -1\<rparr>)
               (w\<lparr>hw_tracer := snd (fence_close (cmp_mAcquireFence c) (displayIdentifier (mDisplayInfo w)) FENCE_TYPE_SRC_ACQUIRE
                                     FENCE_IP_FB (hw_tracer w))\<rparr>)) n
           else n))
     else (- EINVAL, n))"

definition configureTarget :: "win_env \<Rightarrow> composition_target \<Rightarrow> win \<Rightarrow> (int \<times> win) option" where
  "configureTarget ev t n =
    (let c = cmp_info t (wn_hwc n); window = nat (cmp_mWindowIndex c) in
     if cmp_mWindowIndex c < 0 \<or> cmp_mWindowIndex c \<ge> int (length (configs n)) then Some (- EINVAL, n)
     else
       (let n = upd_config window (\<lambda>cfg. cfg\<lparr>wc_owner := Some (Owner_target t)\<rparr>) n in
        if cmp_mTargetBuffer c = None then Some (configure_empty t c window n)
        else
          (let w = wn_hwc n; cfg = target_config ev c w (configs n ! window)
           in case target_area c cfg w of
                None \<Rightarrow> None
              | Some (x, y, wd, ht) \<Rightarrow>
                  (let (fence, n) = dpp_fence ev (cmp_mAcquireFence c) n;
                       cfg = cfg\<lparr>wc_src := set_area x y wd ht (wc_src cfg), wc_dst := set_area x y wd ht (wc_dst cfg),
                                 wc_blending := sint (pf_blend (we_pf ev) BLEND_MODE_PREMULTIPLIED), acq_fence := fence,
                                 wc_plane_alpha := 1, wc_dataspace := dataSpace (mSrcImg (hw_sources w (cmp_source c))), hdr_enable := True\<rparr>;
                       small = buffer_too_small ev (buffer_meta (we_gr ev) (cmp_mTargetBuffer c)) cfg;
                       n = upd_hwc (upd_info t (\<lambda>c. c\<lparr>cmp_mAcquireFence := -1\<rparr>)) n;
                       cfg = (if small then cfg else case assignedMPP cfg of None \<Rightarrow> cfg | Some a \<Rightarrow> use_lut ev a cfg)
                   in Some (if small then - EINVAL else NO_ERROR, upd_config window (\<lambda>_. cfg) n)))))"

section \<open>All windows of a frame\<close>

primrec configure_layers :: "win_env \<Rightarrow> nat list \<Rightarrow> win \<Rightarrow> (int \<times> win) option" where
  "configure_layers ev [] n = Some (0, n)"
| "configure_layers ev (i # js) n =
    (if mExynosCompositionType (wn_layer i n) = HWC2_COMPOSITION_EXYNOS \<or> mExynosCompositionType (wn_layer i n) = HWC2_COMPOSITION_CLIENT
     then configure_layers ev js n
     else
       (let window = mWindowIndex (wn_layer i n) in
        if window < 0 \<or> window \<ge> int (length (configs n)) then Some (- EINVAL, n)
        else case configureLayer ev i (nat window) n of
               None \<Rightarrow> None
             | Some (ret, n) \<Rightarrow> (if ret \<noteq> NO_ERROR then Some (ret, n) else configure_layers ev js n)))"

text \<open>An error of the 2D engine's target is only logged.\<close>

definition setWinConfigData :: "win_env \<Rightarrow> win \<Rightarrow> (int \<times> win) option" where
  "setWinConfigData ev n =
    (case (if mHasCompositionLayer (mClientCompositionInfo (wn_hwc n)) then configureTarget ev COMPOSITION_CLIENT n
           else Some (NO_ERROR, n)) of
       None \<Rightarrow> None
     | Some (ret, n) \<Rightarrow>
        (if ret \<noteq> NO_ERROR then Some (ret, n)
         else case (if mHasCompositionLayer (mExynosCompositionInfo (wn_hwc n)) then configureTarget ev COMPOSITION_EXYNOS n
                    else Some (NO_ERROR, n)) of
                None \<Rightarrow> None
              | Some (_, n) \<Rightarrow> configure_layers ev [0..<length (hwc.mLayers (wn_hwc n))] n))"

section \<open>The check of the windows\<close>

definition shares_mpp :: "win_config \<Rightarrow> win_config \<Rightarrow> bool" where
  "shares_mpp a b \<longleftrightarrow> wc_state a = WIN_STATE_BUFFER \<and> wc_state b = WIN_STATE_BUFFER \<and>
     assignedMPP a \<noteq> None \<and> assignedMPP a = assignedMPP b"

definition disable :: "win_config \<Rightarrow> win_config" where
  "disable c = c\<lparr>wc_state := WIN_STATE_DISABLED\<rparr>"

definition drop_shared :: "nat \<Rightarrow> win_config list \<Rightarrow> win_config list" where
  "drop_shared i cs = map (\<lambda>j. if i < j \<and> shares_mpp (cs ! i) (cs ! j) then disable (cs ! j) else cs ! j) [0..<length cs]"

definition bad_area :: "u32 \<Rightarrow> u32 \<Rightarrow> win_config \<Rightarrow> bool" where
  "bad_area w_res h_res c \<longleftrightarrow> (let s = wc_src c; d = wc_dst c in
     fr_x s < 0 \<or> fr_y s < 0 \<or> fr_x d < 0 \<or> fr_y d < 0 \<or> fr_w s = 0 \<or> fr_h s = 0 \<or> fr_w d = 0 \<or> fr_h d = 0 \<or>
     word_of_int (fr_x d) + fr_w d > w_res \<or> word_of_int (fr_y d) + fr_h d > h_res)"

definition bad_size :: "win_config \<Rightarrow> bool" where
  "bad_size c \<longleftrightarrow> fr_w (wc_src c) > fr_f_w (wc_src c) \<or> fr_h (wc_src c) > fr_f_h (wc_src c)"

definition misaligned :: "mpp \<Rightarrow> win_config \<Rightarrow> bool option" where
  "misaligned p c =
    (let s = wc_src c; idx = getRestrictionIndex (wc_format c)
     in c_or (c_rem_nz (word_of_int (fr_x s)) (getSrcXOffsetAlign_idx p idx))
          (c_or (c_rem_nz (word_of_int (fr_y s)) (getSrcYOffsetAlign_idx p idx))
            (c_or (c_rem_nz (fr_w s) (getSrcCropWidthAlign_idx p idx))
              (c_rem_nz (fr_h s) (getSrcCropHeightAlign_idx p idx)))))"

definition window_valid :: "(nat \<Rightarrow> mpp) \<Rightarrow> u32 \<Rightarrow> u32 \<Rightarrow> win_config \<Rightarrow> bool option" where
  "window_valid mpps w_res h_res c =
    (case assignedMPP c of
       None \<Rightarrow> Some False
     | Some a \<Rightarrow> map_option (\<lambda>mis. \<not> bad_area w_res h_res c \<and> \<not> bad_size c \<and> \<not> mis) (misaligned (mpps a) c))"

definition validate_window ::
  "(nat \<Rightarrow> mpp) \<Rightarrow> u32 \<Rightarrow> u32 \<Rightarrow> nat \<Rightarrow> bool \<times> nat \<times> win_config list \<Rightarrow> (bool \<times> nat \<times> win_config list) option" where
  "validate_window mpps w_res h_res i = (\<lambda>(valid, count, cs).
    (if wc_state (cs ! i) = WIN_STATE_BUFFER then
       (let shared = list_ex (\<lambda>j. shares_mpp (cs ! i) (cs ! j)) [Suc i..<length cs]; cs = drop_shared i cs
        in case window_valid mpps w_res h_res (cs ! i) of
             None \<Rightarrow> None
           | Some good \<Rightarrow> Some (valid \<and> \<not> shared \<and> good, count + 1, if good then cs else cs[i := disable (cs ! i)]))
     else if wc_state (cs ! i) = WIN_STATE_COLOR \<or> wc_state (cs ! i) = WIN_STATE_CURSOR then Some (valid, count + 1, cs)
     else Some (valid, count, cs)))"

primrec validate_windows ::
  "(nat \<Rightarrow> mpp) \<Rightarrow> u32 \<Rightarrow> u32 \<Rightarrow> nat list \<Rightarrow> bool \<times> nat \<times> win_config list \<Rightarrow> (bool \<times> nat \<times> win_config list) option" where
  "validate_windows mpps w_res h_res [] s = Some s"
| "validate_windows mpps w_res h_res (i # js) s =
    (case validate_window mpps w_res h_res i s of None \<Rightarrow> None | Some s \<Rightarrow> validate_windows mpps w_res h_res js s)"

definition validateWinConfigData :: "win \<Rightarrow> (int \<times> win) option" where
  "validateWinConfigData n =
    (let w = wn_hwc n in
     map_option (\<lambda>(valid, count, cs). (if valid \<and> count \<noteq> 0 then NO_ERROR else - EINVAL,
                                       n\<lparr>mDpuData := (mDpuData n)\<lparr>dd_configs := cs\<rparr>\<rparr>))
       (validate_windows (hw_mpps w) (mXres w) (mYres w) [0..<length (configs n)] (True, 0, configs n)))"

section \<open>What changed since the last frame\<close>

definition same_area :: "decon_frame \<Rightarrow> decon_frame \<Rightarrow> bool" where
  "same_area a b \<longleftrightarrow> fr_x a = fr_x b \<and> fr_y a = fr_y b \<and> fr_w a = fr_w b \<and> fr_h a = fr_h b"

definition config_changed :: "win_config \<Rightarrow> win_config \<Rightarrow> bool" where
  "config_changed a b \<longleftrightarrow>
     wc_state a \<noteq> wc_state b \<or> take 3 (fd_idma a) \<noteq> take 3 (fd_idma b) \<or> \<not> same_area (wc_dst a) (wc_dst b) \<or>
     \<not> same_area (wc_src a) (wc_src b) \<or> fmt_neq (wc_format a) (wc_format b) \<or> wc_blending a \<noteq> wc_blending b \<or>
     wc_plane_alpha a \<noteq> wc_plane_alpha b"

definition checkConfigChanged :: "dpu_data \<Rightarrow> dpu_data \<Rightarrow> win \<Rightarrow> bool" where
  "checkConfigChanged old new n \<longleftrightarrow>
     list_ex (\<lambda>i. config_changed (dd_configs old ! i) (dd_configs new ! i)) [0..<length (dd_configs old)] \<or>
     list_ex (\<lambda>i. wn_last_buffer n i \<noteq> mLayerBuffer (wn_layer i n)) [0..<length (hwc.mLayers (wn_hwc n))]"

text \<open>\<open>-1\<close>: not only the areas changed; 1: an area changed; 0: none did.\<close>

definition canApplyWindowUpdate :: "dpu_data \<Rightarrow> dpu_data \<Rightarrow> nat \<Rightarrow> int" where
  "canApplyWindowUpdate old new i =
    (let a = dd_configs old ! i; b = dd_configs new ! i in
     if wc_state a \<noteq> wc_state b \<or> fmt_neq (wc_format a) (wc_format b) \<or> wc_blending a \<noteq> wc_blending b \<or>
        wc_plane_alpha a \<noteq> wc_plane_alpha b then -1
     else if \<not> same_area (wc_dst a) (wc_dst b) \<or> \<not> same_area (wc_src a) (wc_src b) then 1 else 0)"

section \<open>The region sent to the panel\<close>

datatype region_type = eTransparentRegion | eCoveredOpaqueRegion | eDamageRegionByDamage | eDamageRegionByLayer

datatype damage_region = eDamageRegionFull | eDamageRegionPartial | eDamageRegionSkip | eDamageRegionError

definition INT_MAX :: int where [code_consts]: "INT_MAX = 2147483647"

definition empty_region :: hwc_rect where
  "empty_region = \<lparr>rect_left = INT_MAX, rect_top = INT_MAX, rect_right = 0, rect_bottom = 0\<rparr>"

definition bad_damage :: "layer \<Rightarrow> hwc_rect \<Rightarrow> bool" where
  "bad_damage l r \<longleftrightarrow> rect_left r < 0 \<or> rect_top r < 0 \<or> rect_right r < 0 \<or> rect_bottom r < 0 \<or>
     rect_left r \<ge> rect_right r \<or> rect_top r \<ge> rect_bottom r \<or>
     RECT_WIDTH r > FRECT_WIDTH (mSourceCrop l) \<or> RECT_HEIGHT r > FRECT_HEIGHT (mSourceCrop l)"

text \<open>The damaged part of the buffer, moved to where the layer is; computed in floats, cut to integers.\<close>

definition moved_damage :: "layer \<Rightarrow> hwc_rect \<Rightarrow> hwc_rect" where
  "moved_damage l r =
    (let f = mDisplayFrame l; crop = mSourceCrop l; move = (\<lambda>a b c. trunc_int (fl_sub (f32 (of_int (a + b))) c))
     in \<lparr>rect_left = move (rect_left f) (rect_left r) (frect_left crop), rect_top = move (rect_top f) (rect_top r) (frect_top crop),
         rect_right = move (rect_left f) (rect_right r) (frect_left crop), rect_bottom = move (rect_top f) (rect_bottom r) (frect_top crop)\<rparr>)"

definition getLayerRegion :: "win \<Rightarrow> nat \<Rightarrow> region_type \<Rightarrow> damage_region \<times> hwc_rect" where
  "getLayerRegion n i type =
    (let l = wn_layer i n; rects = mDamageRects l in
     if rects = [] then (eDamageRegionFull, empty_region)
     else if length rects = 1 \<and> rects ! 0 = \<lparr>rect_left = 0, rect_top = 0, rect_right = 0, rect_bottom = 0\<rparr>
     then (eDamageRegionSkip, empty_region)
     else case type of
       eDamageRegionByDamage \<Rightarrow>
         (if list_ex (bad_damage l) rects then (eDamageRegionFull, empty_region)
          else (eDamageRegionPartial,
                fold (\<lambda>r area. rect_expand area (adjustRect (moved_damage l r) INT_MAX INT_MAX)) rects empty_region))
     | eDamageRegionByLayer \<Rightarrow>
         (if wn_last_buffer n i \<noteq> mLayerBuffer l then eDamageRegionFull else eDamageRegionSkip, empty_region)
     | _ \<Rightarrow> (eDamageRegionError, empty_region))"

definition window_rect :: "decon_frame \<Rightarrow> hwc_rect" where
  "window_rect f = \<lparr>rect_left = fr_x f, rect_top = fr_y f, rect_right = fr_x f + sint (fr_w f), rect_bottom = fr_y f + sint (fr_h f)\<rparr>"

text \<open>What layer \<open>i\<close> adds to the region; \<open>None\<close> cancels the partial update.\<close>

definition layer_damage :: "win \<Rightarrow> nat \<Rightarrow> hwc_rect \<Rightarrow> hwc_rect option" where
  "layer_damage n i merge =
    (let l = wn_layer i n; window = mWindowIndex l in
     if window < 0 \<or> window \<ge> int (length (configs n)) then None
     else
       (let ret = canApplyWindowUpdate (mLastDpuData n) (mDpuData n) (nat window) in
        if ret < 0 then None
        else if ret > 0 then
          Some (rect_expand (rect_expand merge (mDisplayFrame l)) (window_rect (wc_dst (dd_configs (mLastDpuData n) ! nat window))))
        else
          (let (code, area) = getLayerRegion n i eDamageRegionByDamage
           in case code of
                eDamageRegionPartial \<Rightarrow> Some (rect_expand merge area)
              | eDamageRegionSkip \<Rightarrow> Some merge
              | eDamageRegionFull \<Rightarrow> Some (rect_expand merge (mDisplayFrame l))
              | eDamageRegionError \<Rightarrow> None)))"

primrec mergeDamageRect :: "win \<Rightarrow> nat list \<Rightarrow> hwc_rect \<Rightarrow> hwc_rect option" where
  "mergeDamageRect n [] merge = Some merge"
| "mergeDamageRect n (i # js) merge =
    (case layer_damage n i merge of None \<Rightarrow> None | Some merge \<Rightarrow> mergeDamageRect n js merge)"

definition rect_region :: "hwc_rect \<Rightarrow> decon_frame \<Rightarrow> decon_frame" where
  "rect_region r f = set_area (rect_left r) (rect_top r) (word_of_int (RECT_WIDTH r)) (word_of_int (RECT_HEIGHT r)) f"

definition setWindowUpdate :: "hwc_rect \<Rightarrow> win \<Rightarrow> int \<times> win" where
  "setWindowUpdate r n =
    (let w_res = mXres (wn_hwc n); h_res = mYres (wn_hwc n);
         update = (\<lambda>region. n\<lparr>mDpuData := (mDpuData n)\<lparr>enable_win_update := True, win_update_region := region (win_update_region (mDpuData n))\<rparr>\<rparr>)
     in if rect_left r = 0 \<and> rect_right r = sint w_res \<and> rect_top r = 0 \<and> rect_bottom r = sint h_res then
          (NO_ERROR, update (set_area 0 0 w_res h_res))
        else if rect_left r \<noteq> sint w_res \<and> rect_right r \<noteq> 0 \<and> rect_top r \<noteq> sint h_res \<and> rect_bottom r \<noteq> 0 then
          (NO_ERROR, update (rect_region r))
        else (-1, n))"

text \<open>Is the window scaled? The quotients are cut to integers.\<close>

definition window_scaled :: "win_config \<Rightarrow> bool option" where
  "window_scaled c =
    (let s = wc_src c; d = wc_dst c; quot = (\<lambda>a b. if b = 0 then None else Some (a div b \<noteq> (1::u32)))
     in c_or (quot (fr_w s) (fr_w d)) (quot (fr_h s) (fr_h d)))"

definition odd_area :: "decon_frame \<Rightarrow> bool" where
  "odd_area f \<longleftrightarrow> fr_x f smod 2 \<noteq> 0 \<or> fr_y f smod 2 \<noteq> 0 \<or> fr_w f mod 2 \<noteq> 0 \<or> fr_h f mod 2 \<noteq> 0"

definition window_exception :: "win_config \<Rightarrow> win_config \<Rightarrow> bool option" where
  "window_exception last_c c =
    (if wc_plane_alpha c \<noteq> wc_plane_alpha last_c \<or> fmt_isYUV (wc_format c) \<and> (odd_area (wc_src c) \<or> odd_area (wc_dst c)) then Some True
     else if wc_state c = WIN_STATE_BUFFER then window_scaled c else Some False)"

definition layer_exception :: "win \<Rightarrow> nat \<Rightarrow> bool" where
  "layer_exception n i \<longleftrightarrow>
     mM2mMPP (wn_source i n) \<noteq> None \<or> mLayerBuffer (wn_layer i n) = None \<or> layer.mTransform (wn_layer i n) \<noteq> 0"

text \<open>\<open>geometry\<close> is the display's \<open>mGeometryChanged\<close>.\<close>

definition windowUpdateExceptions :: "win_env \<Rightarrow> u64 \<Rightarrow> win \<Rightarrow> bool option" where
  "windowUpdateExceptions ev geometry n =
    (let w = wn_hwc n; cursor = mCursorIndex w; layers = length (hwc.mLayers w) in
     if enable_readback (mDpuData n) \<or> we_windowUpdate ev \<noteq> 1 \<or> geometry \<noteq> 0 then Some True
     else if cursor \<ge> 0 \<and> cursor < int layers \<and> mExynosCompositionType (wn_layer (nat cursor) n) = HWC2_COMPOSITION_DEVICE then Some True
     else if mDisplayType w = pf_display_virtual (we_pf ev) \<or> mHasCompositionLayer (mExynosCompositionInfo w) \<or>
             mHasCompositionLayer (mClientCompositionInfo w) then Some True
     else if list_ex (layer_exception n) [0..<layers] then Some True
     else foldr (\<lambda>i. c_or (window_exception (dd_configs (mLastDpuData n) ! i) (configs n ! i))) [0..<length (configs n)] (Some False))"

definition screen_rect :: "hwc \<Rightarrow> hwc_rect" where
  "screen_rect w = \<lparr>rect_left = sint (mXres w), rect_top = sint (mYres w), rect_right = 0, rect_bottom = 0\<rparr>"

definition handleWindowUpdate :: "win_env \<Rightarrow> u64 \<Rightarrow> win \<Rightarrow> win option" where
  "handleWindowUpdate ev geometry n =
    (let w = wn_hwc n;
         n = n\<lparr>mDpuData := (mDpuData n)\<lparr>enable_win_update := False,
                win_update_region := set_area 0 0 (mXres w) (mYres w) (win_update_region (mDpuData n))\<rparr>\<rparr>
     in case windowUpdateExceptions ev geometry n of
          None \<Rightarrow> None
        | Some True \<Rightarrow> Some n
        | Some False \<Rightarrow>
            (case mergeDamageRect n [0..<length (hwc.mLayers w)] (screen_rect w) of
               None \<Rightarrow> Some n
             | Some merge \<Rightarrow> Some (snd (setWindowUpdate merge n))))"

end
