(* ===== verification/WindowSafety.thy ===== *)
theory WindowSafety
  imports HwcWindow MppRuns
begin

text \<open>
  What holds of the windows: what the check of a frame's windows ensures and what it lets pass, that the
  window of a composition target covers its layers, and which parts of the screen a partial
  update sends.
\<close>

section \<open>The check of the windows\<close>

text \<open>The first \<open>k\<close> windows have been checked.\<close>

definition checked :: "(nat \<Rightarrow> mpp) \<Rightarrow> u32 \<Rightarrow> u32 \<Rightarrow> nat \<Rightarrow> win_config list \<Rightarrow> bool" where
  "checked mpps w_res h_res k cs \<longleftrightarrow> (\<forall>i<k. i < length cs \<longrightarrow> wc_state (cs ! i) = WIN_STATE_BUFFER \<longrightarrow>
     window_valid mpps w_res h_res (cs ! i) = Some True \<and> (\<forall>j<length cs. i < j \<longrightarrow> \<not> shares_mpp (cs ! i) (cs ! j)))"

lemma disable_state [simp]: "wc_state (disable c) = WIN_STATE_DISABLED"
  by (simp add: disable_def)

lemma disable_shares [simp]: "\<not> shares_mpp c (disable d)" "\<not> shares_mpp (disable d) c"
  by (simp_all add: shares_mpp_def)

lemma drop_shared_simps [simp]:
  "length (drop_shared i cs) = length cs"
  "j < length cs \<Longrightarrow> drop_shared i cs ! j = (if i < j \<and> shares_mpp (cs ! i) (cs ! j) then disable (cs ! j) else cs ! j)"
  by (simp_all add: drop_shared_def)

lemma drop_shared_same: "\<not> list_ex (\<lambda>j. shares_mpp (cs ! i) (cs ! j)) [Suc i..<length cs] \<Longrightarrow> drop_shared i cs = cs"
  by (rule nth_equalityI) (auto simp: list_ex_iff)

lemma drop_shared_checked:
  assumes "checked mpps w_res h_res k cs"
  shows "checked mpps w_res h_res k (drop_shared k cs)"
  unfolding checked_def
proof (intro allI impI)
  fix i
  assume i: "i < k" "i < length (drop_shared k cs)" "wc_state (drop_shared k cs ! i) = WIN_STATE_BUFFER"
  then have e: "drop_shared k cs ! i = cs ! i" by simp
  then show "window_valid mpps w_res h_res (drop_shared k cs ! i) = Some True \<and>
      (\<forall>j<length (drop_shared k cs). i < j \<longrightarrow> \<not> shares_mpp (drop_shared k cs ! i) (drop_shared k cs ! j))"
    using assms i unfolding checked_def by auto
qed

lemma disable_checked:
  assumes "checked mpps w_res h_res k cs"
  shows "checked mpps w_res h_res (Suc k) (cs[k := disable (cs ! k)])"
  using assms by (cases "k < length cs") (auto simp: checked_def nth_list_update less_Suc_eq)

lemma validate_window_step:
  assumes "validate_window mpps w_res h_res k (valid, num, cs) = Some (valid', num', cs')" "checked mpps w_res h_res k cs" "k < length cs"
  shows "checked mpps w_res h_res (Suc k) cs'" "length cs' = length cs" "valid' \<Longrightarrow> valid \<and> cs' = cs"
proof -
  have "checked mpps w_res h_res (Suc k) cs' \<and> length cs' = length cs \<and> (valid' \<longrightarrow> valid \<and> cs' = cs)"
  proof (cases "wc_state (cs ! k) = WIN_STATE_BUFFER")
    case True
    let ?d = "drop_shared k cs"
    obtain good where g: "window_valid mpps w_res h_res (?d ! k) = Some good"
      and r: "cs' = (if good then ?d else ?d[k := disable (?d ! k)])" "valid' = (valid \<and> \<not> list_ex (\<lambda>j. shares_mpp (cs ! k) (cs ! j)) [Suc k..<length cs] \<and> good)"
      using assms(1) True by (auto simp: validate_window_def Let_def split: option.splits)
    have d: "checked mpps w_res h_res k ?d" using drop_shared_checked[OF assms(2)] .
    have "checked mpps w_res h_res (Suc k) ?d" if good
      using d g that assms(3) unfolding checked_def less_Suc_eq by auto
    moreover have "checked mpps w_res h_res (Suc k) (?d[k := disable (?d ! k)])" using disable_checked[OF d] .
    ultimately show ?thesis using r drop_shared_same True by auto
  next
    case False
    then have "cs' = cs" "valid' = valid"
      using assms(1) by (auto simp: validate_window_def split: if_splits)
    moreover have "checked mpps w_res h_res (Suc k) cs" using assms(2) False by (auto simp: checked_def less_Suc_eq)
    ultimately show ?thesis by simp
  qed
  then show "checked mpps w_res h_res (Suc k) cs'" "length cs' = length cs" "valid' \<Longrightarrow> valid \<and> cs' = cs" by auto
qed

lemma validate_windows_all:
  assumes "validate_windows mpps w_res h_res [k..<length cs] (valid, num, cs) = Some (valid', num', cs')"
    "checked mpps w_res h_res k cs"
  shows "checked mpps w_res h_res (length cs) cs' \<and> length cs' = length cs \<and> (valid' \<longrightarrow> valid \<and> cs' = cs)"
  using assms
proof (induction "length cs - k" arbitrary: k valid num cs)
  case 0
  then have "\<not> k < length cs" by simp
  then show ?case using 0 by (auto simp: checked_def)
next
  case (Suc x)
  then have k: "k < length cs" by simp
  then have "[k..<length cs] = k # [Suc k..<length cs]" by (simp add: upt_conv_Cons)
  then obtain v c ds where s: "validate_window mpps w_res h_res k (valid, num, cs) = Some (v, c, ds)"
    and r: "validate_windows mpps w_res h_res [Suc k..<length cs] (v, c, ds) = Some (valid', num', cs')"
    using Suc.prems(1) by (auto split: option.splits)
  note st = validate_window_step[OF s Suc.prems(2) k]
  have "x = length ds - Suc k" using Suc.hyps(2) st(2) by simp
  from Suc.hyps(1)[OF this, of v c] r st(1,2)
  have "checked mpps w_res h_res (length cs) cs' \<and> length cs' = length cs \<and> (valid' \<longrightarrow> v \<and> cs' = ds)" by simp
  then show ?case using st(3) by auto
qed

text \<open>What is known of a window that passes.\<close>

definition window_fits :: "mpp \<Rightarrow> u32 \<Rightarrow> u32 \<Rightarrow> win_config \<Rightarrow> bool" where
  "window_fits p w_res h_res c \<longleftrightarrow> (let s = wc_src c; d = wc_dst c; idx = getRestrictionIndex (wc_format c) in
     0 \<le> fr_x s \<and> 0 \<le> fr_y s \<and> 0 < fr_w s \<and> 0 < fr_h s \<and> fr_w s \<le> fr_f_w s \<and> fr_h s \<le> fr_f_h s \<and>
     word_of_int (fr_x s) mod getSrcXOffsetAlign_idx p idx = 0 \<and> word_of_int (fr_y s) mod getSrcYOffsetAlign_idx p idx = 0 \<and>
     fr_w s mod getSrcCropWidthAlign_idx p idx = 0 \<and> fr_h s mod getSrcCropHeightAlign_idx p idx = 0 \<and>
     0 \<le> fr_x d \<and> 0 \<le> fr_y d \<and> 0 < fr_w d \<and> 0 < fr_h d \<and>
     (fr_x d + uint (fr_w d)) mod 2 ^ 32 \<le> uint w_res \<and> (fr_y d + uint (fr_h d)) mod 2 ^ 32 \<le> uint h_res)"

lemma sum_on_screen: "\<not> word_of_int x + w > (res :: u32) \<Longrightarrow> (x + uint w) mod 2 ^ 32 \<le> uint res"
  by (simp add: not_less word_le_def uint_word_ariths uint_word_of_int mod_add_left_eq)

lemma rem_nz_zero: "c_rem_nz a b = Some False \<Longrightarrow> a mod b = 0"
  by (simp add: c_rem_nz_def split: if_splits)

lemma c_or_false: "c_or p q = Some False \<Longrightarrow> p = Some False \<and> q = Some False"
  by (auto simp: c_or_def split: option.splits bool.splits)

lemma valid_window_fits:
  assumes "window_valid mpps w_res h_res c = Some True"
  obtains a where "assignedMPP c = Some a" "window_fits (mpps a) w_res h_res c"
proof -
  obtain a where a: "assignedMPP c = Some a" "\<not> bad_area w_res h_res c" "\<not> bad_size c" "misaligned (mpps a) c = Some False"
    using assms by (auto simp: window_valid_def split: option.splits)
  have "window_fits (mpps a) w_res h_res c"
    using a(2-4) sum_on_screen rem_nz_zero
    by (auto simp: window_fits_def bad_area_def bad_size_def misaligned_def Let_def not_less word_neq_0_conv dest!: c_or_false)
  then show thesis using that a(1) by blast
qed


text \<open>Two windows that want the same resource, on the screen of \<open>sample_hwc\<close>.\<close>

definition no_writeback :: writeback_info where
  "no_writeback = \<lparr>wb_handle = None, wb_rel_fence = -1, wb_acq_fence = -1\<rparr>"

definition sample_dpu :: "win_config list \<Rightarrow> dpu_data" where
  "sample_dpu cs = \<lparr>present_fence = -1, dd_configs = cs, enable_win_update = False, enable_readback = False,
     enable_standalone_writeback = False, win_update_region = frame_zero, readback_info = no_writeback, standalone_writeback_info = no_writeback\<rparr>"

definition sample_windows :: "layer list \<Rightarrow> win_config list \<Rightarrow> win_config list \<Rightarrow> win" where
  "sample_windows ls old cs = \<lparr>wn_hwc = sample_hwc ls, wn_m2m = (\<lambda>_. sample_m2m), mDpuData = sample_dpu cs, mLastDpuData = sample_dpu old,
     wn_last_buffer = (\<lambda>_. None), wn_meta_fd = (\<lambda>_. -1), wn_skip = (\<lambda>_. False)\<rparr>"

definition sample_area :: "int \<Rightarrow> int \<Rightarrow> u32 \<Rightarrow> u32 \<Rightarrow> decon_frame" where
  "sample_area x y w h = \<lparr>fr_x = x, fr_y = y, fr_w = w, fr_h = h, fr_f_w = 1440, fr_f_h = 3040\<rparr>"

definition sample_window :: win_config where
  "sample_window = (win_config_reset sample_acryl)\<lparr>wc_state := WIN_STATE_BUFFER, assignedMPP := Some 7,
     wc_src := sample_area 0 0 64 32, wc_dst := sample_area 100 200 64 32\<rparr>"

lemma sample_window_fields [simp]:
  "wc_state sample_window = WIN_STATE_BUFFER" "assignedMPP sample_window = Some 7" "wc_src sample_window = sample_area 0 0 64 32"
  "wc_dst sample_window = sample_area 100 200 64 32" "wc_format sample_window = format_default"
  by (simp_all add: sample_window_def win_config_reset_def)

lemma sample_windows_fields [simp]:
  "wn_hwc (sample_windows ls old cs) = sample_hwc ls" "configs (sample_windows ls old cs) = cs"
  "mLastDpuData (sample_windows ls old cs) = sample_dpu old" "mDpuData (sample_windows ls old cs) = sample_dpu cs"
  "hw_mpps (sample_hwc ls) a = sample_g2d" "mXres (sample_hwc ls) = 1440" "mYres (sample_hwc ls) = 3040"
  "hwc.mLayers (sample_hwc ls) = ls" "dd_configs (sample_dpu cs) = cs"
  by (simp_all add: sample_windows_def sample_hwc_def configs_def sample_dpu_def)

lemma restriction_index: "getRestrictionIndex f < RESTRICTION_MAX"
  by (simp add: getRestrictionIndex_def code_consts)

lemma sample_limits [simp]:
  "getSrcXOffsetAlign_idx sample_g2d (getRestrictionIndex f) = 1" "getSrcYOffsetAlign_idx sample_g2d (getRestrictionIndex f) = 1"
  "getSrcCropWidthAlign_idx sample_g2d (getRestrictionIndex f) = 1" "getSrcCropHeightAlign_idx sample_g2d (getRestrictionIndex f) = 1"
  "getSrcMinWidth_idx sample_g2d (getRestrictionIndex f) = 16" "getSrcMinHeight_idx sample_g2d (getRestrictionIndex f) = 8"
  using restriction_index[of f] by (simp_all add: mpp_getters sample_g2d_def sample_caps_def mpp_caps.defs mpp.defs Let_def)

lemma sample_window_valid: "window_valid (hw_mpps (sample_hwc ls)) 1440 3040 sample_window = Some True"
  by (simp add: window_valid_def bad_area_def bad_size_def misaligned_def c_or_def c_rem_nz_def sample_area_def Let_def)


section \<open>Layers off the screen\<close>

lemma side_beyond:
  assumes "0 < sint res" "sint res < lo" "lo < hi" "hi < 2 ^ 31"
  shows "visible_side lo hi res = (lo, res - word_of_int lo)" "res < res - word_of_int lo"
proof -
  have r: "uint res = sint res" using uint_of_sint[of res] assms(1) by simp
  have lo: "sint (word_of_int lo :: u32) = lo" "uint (word_of_int lo :: u32) = lo"
    using assms by (simp_all add: sint_of_small uint_of_small)
  have "(word_of_int (hi - lo) :: u32) - (word_of_int hi - res) = res - word_of_int lo"
    by (simp add: wi_hom_sub[symmetric])
  then show "visible_side lo hi res = (lo, res - word_of_int lo)"
    using assms lo by (simp add: visible_side_def)
  have "(sint res - lo) mod 2 ^ 32 = sint res - lo + 2 ^ 32"
    using mod_pos_pos_trivial[of "sint res - lo + 2 ^ 32" "2 ^ 32"] assms by simp
  then have "uint (res - word_of_int lo) = sint res - lo + 2 ^ 32"
    using assms r lo by (simp add: uint_word_ariths)
  then show "res < res - word_of_int lo" using r assms by (simp add: word_less_def)
qed

text \<open>
  A frame that lies completely to the right of the screen is given a window whose width has
  wrapped around. Position and width add up to the width of the screen again, so the check of the
  windows accepts it, whatever it would say of a window on the screen with this crop.
\<close>

theorem offscreen_window_accepted:
  assumes "0 < sint w_res" "sint w_res < rect_left r" "rect_left r < rect_right r" "rect_right r < 2 ^ 31"
    and "wc_dst c = visible_frame r w_res h_res" "wc_dst d = (wc_dst c)\<lparr>fr_x := 0, fr_w := w_res\<rparr>" "wc_src d = wc_src c"
  shows "bad_area w_res h_res c = bad_area w_res h_res d \<and> w_res < fr_w (wc_dst c)"
proof -
  obtain y h where y: "visible_side (rect_top r) (rect_bottom r) h_res = (y, h)" by fastforce
  have v: "wc_dst c = \<lparr>fr_x = rect_left r, fr_y = y, fr_w = w_res - word_of_int (rect_left r), fr_h = h, fr_f_w = w_res, fr_f_h = h_res\<rparr>"
    using side_beyond(1)[OF assms(1-4)] y assms(5) by (simp add: visible_frame_def)
  have "w_res \<noteq> 0" "w_res - word_of_int (rect_left r) \<noteq> 0" using assms(1) side_beyond(2)[OF assms(1-4)] by auto
  then show ?thesis using side_beyond(2)[OF assms(1-4)] assms(1,2) by (simp add: bad_area_def Let_def assms(6,7) v)
qed

theorem offscreen_window_accepted_witness:
  "let r = \<lparr>rect_left = 1500, rect_top = 200, rect_right = 1564, rect_bottom = 232\<rparr>;
       c = sample_window\<lparr>wc_dst := visible_frame r 1440 3040\<rparr>
   in \<not> bad_area 1440 3040 c \<and> (1440::u32) < fr_w (wc_dst c)"
proof -
  let ?r = "\<lparr>rect_left = 1500, rect_top = 200, rect_right = 1564, rect_bottom = 232\<rparr>"
  let ?c = "sample_window\<lparr>wc_dst := visible_frame ?r 1440 3040\<rparr>"
  let ?d = "?c\<lparr>wc_dst := (wc_dst ?c)\<lparr>fr_x := 0, fr_w := 1440\<rparr>\<rparr>"
  have "\<not> bad_area 1440 3040 ?d"
    by (simp add: bad_area_def visible_frame_def visible_side_def sample_area_def Let_def)
  then show ?thesis using offscreen_window_accepted[of 1440 ?r ?c 3040 ?d] by (simp add: Let_def)
qed

section \<open>The window of a composition target\<close>

lemma align_bounds: "0 \<le> a \<Longrightarrow> x \<le> pixel_align x a \<and> pixel_align x a \<le> x + 2 * a"
  using smod_int_range[of a x] by (auto simp: pixel_align_def)

lemma down_bounds:
  assumes "0 \<le> a" "0 \<le> pixel_align_down x a"
  shows "pixel_align_down x a \<le> max 0 x" "x - a \<le> pixel_align_down x a"
proof -
  have "pixel_align_down x a \<le> max 0 x \<and> x - a \<le> pixel_align_down x a"
  proof (cases "a = 0 \<or> x smod a = 0")
    case False
    then have "0 < a" using assms(1) by simp
    then have r: "x smod a < a" "- a < x smod a" using smod_int_range[of a x] by auto
    have "0 \<le> x \<Longrightarrow> 0 \<le> x smod a" using \<open>0 < a\<close> by (auto simp: smod_int_alt_def sgn_if)
    moreover have "x \<le> x smod a" if "x < 0"
      using zmod_le_nonneg_dividend[of "- x" a] that \<open>0 < a\<close> by (simp add: smod_int_alt_def)
    ultimately show ?thesis using False r by (cases "0 \<le> x") (simp_all add: pixel_align_down_def Let_def)
  qed (use assms in \<open>auto simp: pixel_align_down_def\<close>)
  then show "pixel_align_down x a \<le> max 0 x" "x - a \<le> pixel_align_down x a" by auto
qed

lemma two_powers: "(2::int) ^ 16 = 65536" "(2::int) ^ 29 = 536870912" "(2::int) ^ 30 = 1073741824" "(2::int) ^ 31 = 2147483648"
  by simp_all

definition moderate :: "u32 \<Rightarrow> bool" where
  "moderate a \<longleftrightarrow> uint a \<le> 2 ^ 16"

lemma moderate_sint: "moderate a \<Longrightarrow> sint a = uint a"
  using sint_of_small[of "uint a"] uint_ge_0[of a] by (simp add: moderate_def del: uint_ge_0)

lemma widen_side_covers:
  assumes "widen_side mn pa sa x w = (x', w')" "0 \<le> x'" "- (2 ^ 29) \<le> x" "x \<le> 2 ^ 29" "uint w \<le> 2 ^ 30"
    and "moderate mn" "moderate pa" "moderate sa"
  shows "x' \<le> max 0 x" "x + uint w \<le> x' + uint w'"
proof -
  have m: "uint mn \<le> 2 ^ 16" "uint pa \<le> 2 ^ 16" "uint sa \<le> 2 ^ 16" using assms(6-8) by (simp_all add: moderate_def)
  let ?x1 = "if w < mn then max 0 (x - (uint mn - uint w)) else x" and ?w1 = "if w < mn then mn else w"
  have one: "sint (word_of_int x - (mn - w)) = x - (uint mn - uint w)" if "w < mn"
  proof -
    have "uint w < uint mn" using that by (simp add: word_less_def)
    moreover have "word_of_int x - (mn - w) = (word_of_int (x - (uint mn - uint w)) :: u32)" by (simp flip: wi_hom_sub)
    moreover have "- (2 ^ 31) \<le> x - (uint mn - uint w)" "x - (uint mn - uint w) < 2 ^ 31"
      using assms(3,4) m(1) uint_ge_0[of w] \<open>uint w < uint mn\<close> unfolding two_powers by linarith+
    ultimately show ?thesis using sint_of_small[of "x - (uint mn - uint w)"] by simp
  qed
  let ?a = "pixel_align_down ?x1 (uint pa)"
  have r: "x' = ?a" "w' = word_of_int (pixel_align (sint (?w1 + word_of_int (?x1 - ?a))) (uint sa))"
    using assms(1) one by (auto simp: widen_side_def Let_def moderate_sint[OF assms(7)] moderate_sint[OF assms(8)] max_def split: if_splits)
  have w1: "x + uint w \<le> ?x1 + uint ?w1" "uint ?w1 \<le> 2 ^ 30" "?x1 \<le> max 0 x" "- (2 ^ 29) \<le> ?x1"
    using assms(3,5) m(1) by (auto simp: word_less_def)
  have a: "0 \<le> ?a" using assms(2) r(1) by simp
  note d = down_bounds[OF uint_ge_0 a]
  let ?v = "uint ?w1 + (?x1 - ?a)"
  have v: "- (2 ^ 30) \<le> ?v" "?v \<le> 2 ^ 30 + 2 ^ 16"
    using w1 d m(2) assms(4) uint_ge_0[of ?w1] unfolding two_powers by linarith+
  have "?w1 + word_of_int (?x1 - ?a) = word_of_int ?v" by simp
  then have s: "sint (?w1 + word_of_int (?x1 - ?a)) = ?v" using sint_of_small[of ?v] v by simp
  let ?p = "pixel_align ?v (uint sa)"
  have p: "?v \<le> ?p" "?p \<le> ?v + 2 * uint sa" using align_bounds[of "uint sa" ?v] by simp_all
  have "?p \<le> uint (word_of_int ?p :: u32)"
  proof (cases "0 \<le> ?p")
    case True
    then show ?thesis using uint_of_small[of ?p] p v m(3) by simp
  next
    case False
    then show ?thesis using uint_ge_0[of "word_of_int ?p :: u32"] by linarith
  qed
  moreover have "uint w' = uint (word_of_int ?p :: u32)" using r(2) s by simp
  ultimately show "x' \<le> max 0 x" "x + uint w \<le> x' + uint w'"
    using d(1) w1(1,3) p(1) r(1) by linarith+
qed

text \<open>Rectangles inside one another, and frames with coordinates far from the limits of an \<open>int\<close>.\<close>

definition rect_in :: "hwc_rect \<Rightarrow> hwc_rect \<Rightarrow> bool" where
  "rect_in a b \<longleftrightarrow> rect_left b \<le> rect_left a \<and> rect_top b \<le> rect_top a \<and> rect_right a \<le> rect_right b \<and> rect_bottom a \<le> rect_bottom b"

definition modest :: "hwc_rect \<Rightarrow> bool" where
  "modest r \<longleftrightarrow> - (2 ^ 28) \<le> rect_left r \<and> - (2 ^ 28) \<le> rect_top r \<and> rect_right r \<le> 2 ^ 28 \<and> rect_bottom r \<le> 2 ^ 28"

lemma rect_in_refl [simp]: "rect_in a a"
  by (simp add: rect_in_def)

lemma rect_in_trans: "rect_in a b \<Longrightarrow> rect_in b c \<Longrightarrow> rect_in a c"
  by (auto simp: rect_in_def)

lemma expand_in [simp]: "rect_in a (rect_expand a b)" "rect_in b (rect_expand a b)"
  by (simp_all add: rect_in_def rect_expand_def)

lemma expand_modest: "modest a \<Longrightarrow> modest b \<Longrightarrow> modest (rect_expand a b)"
  by (simp add: modest_def rect_expand_def)

lemma fold_expand:
  "rect_in r (fold (\<lambda>i m. rect_expand m (g i)) js r)"
  "i \<in> set js \<Longrightarrow> rect_in (g i) (fold (\<lambda>i m. rect_expand m (g i)) js r)"
  "modest r \<Longrightarrow> (\<And>j. j \<in> set js \<Longrightarrow> modest (g j)) \<Longrightarrow> modest (fold (\<lambda>i m. rect_expand m (g i)) js r)"
proof (induction js arbitrary: r)
  case (Cons j js)
  { case 1 then show ?case using Cons.IH(1)[of "rect_expand r (g j)"] by (auto intro: rect_in_trans[OF expand_in(1)]) }
  { case 2 then show ?case using Cons.IH(1,2)[of "rect_expand r (g j)"] by (auto intro: rect_in_trans[OF expand_in(2)]) }
  { case 3 then show ?case using Cons.IH(3)[of "rect_expand r (g j)"] by (auto intro: expand_modest) }
qed simp_all

text \<open>A side \<open>x\<close>, \<open>w\<close> covers what lies between \<open>lo\<close> and \<open>hi\<close> on the screen.\<close>

definition covers_side :: "int \<Rightarrow> int \<Rightarrow> u32 \<Rightarrow> int \<Rightarrow> u32 \<Rightarrow> bool" where
  "covers_side lo hi res x w \<longleftrightarrow> x \<le> max 0 lo \<and> min hi (sint res) \<le> x + uint w"

lemma whole_covers: "0 \<le> sint res \<Longrightarrow> covers_side lo hi res 0 res"
  by (simp add: covers_side_def uint_of_sint)

lemma widened_covers:
  assumes "widen_side mn pa sa x (word_of_int (e - x)) = (x', w')" "0 \<le> x'" "- (2 ^ 28) \<le> x" "e \<le> 2 ^ 28"
    and "moderate mn" "moderate pa" "moderate sa" "x \<le> lo" "lo \<le> hi" "hi \<le> e"
  shows "covers_side lo hi res x' w'"
proof -
  have e: "0 \<le> e - x" "e - x \<le> 2 ^ 30" "x \<le> 2 ^ 29" "- (2 ^ 29) \<le> x" using assms(3,4,8-10) by auto
  have u: "uint (word_of_int (e - x) :: u32) = e - x" by (rule uint_of_small) (use e in auto)
  have b: "uint (word_of_int (e - x) :: u32) \<le> 2 ^ 30" unfolding u using e(2) .
  have "x' \<le> max 0 x" "x + uint (word_of_int (e - x) :: u32) \<le> x' + uint w'"
    using widen_side_covers[OF assms(1,2) e(4,3) b assms(5-7)] by blast+
  then show ?thesis using assms(8,10) unfolding covers_side_def u by auto
qed

text \<open>The limits of a resource that the size of a target's window depends on.\<close>

definition moderate_limits :: "mpp \<Rightarrow> bool" where
  "moderate_limits p \<longleftrightarrow> (\<forall>idx<RESTRICTION_MAX. moderate (getSrcMinWidth_idx p idx) \<and> moderate (getSrcMinHeight_idx p idx) \<and>
     moderate (getSrcXOffsetAlign_idx p idx) \<and> moderate (getSrcYOffsetAlign_idx p idx) \<and>
     moderate (getSrcCropWidthAlign_idx p idx) \<and> moderate (getSrcCropHeightAlign_idx p idx))"

lemma target_area_cases:
  assumes "target_area c cfg w = Some (x, y, wd, ht)"
  obtains (whole) "x = 0" "y = 0" "wd = mXres w" "ht = mYres w"
  | (widened) r a p idx where "assignedMPP cfg = Some a" "r = merged_frame w [nat (mFirstIndex c)..<Suc (nat (mLastIndex c))]" "p = hw_mpps w a"
      "idx = getRestrictionIndex (wc_format cfg)" "0 \<le> x" "0 \<le> y"
      "widen_side (getSrcMinWidth_idx p idx) (getSrcXOffsetAlign_idx p idx) (getSrcCropWidthAlign_idx p idx)
         (rect_left r) (word_of_int (rect_right r - rect_left r)) = (x, wd)"
      "widen_side (getSrcMinHeight_idx p idx) (getSrcYOffsetAlign_idx p idx) (getSrcCropHeightAlign_idx p idx)
         (rect_top r) (word_of_int (rect_bottom r - rect_top r)) = (y, ht)"
  using assms unfolding target_area_def
  by (auto simp: Let_def RECT_WIDTH_def RECT_HEIGHT_def not_less split: if_splits option.splits prod.splits)

text \<open>
  C14: the window of a composition target shows every visible pixel of the frames of its layers,
  on both axes, however the least size and the alignments of the resource move and widen it.
\<close>

theorem target_window_covers:
  assumes "target_area c cfg w = Some (x, y, wd, ht)" "i \<in> {nat (mFirstIndex c)..nat (mLastIndex c)}"
    and "0 \<le> sint (mXres w)" "0 \<le> sint (mYres w)"
    and "\<forall>j \<in> {nat (mFirstIndex c)..nat (mLastIndex c)}. modest (mDisplayFrame (hwc.mLayers w ! j))"
    and "rect_left f \<le> rect_right f" "rect_top f \<le> rect_bottom f" "f = mDisplayFrame (hwc.mLayers w ! i)"
    and "sint (mXres w) \<le> 2 ^ 28" "sint (mYres w) \<le> 2 ^ 28"
    and "\<And>a. assignedMPP cfg = Some a \<Longrightarrow> moderate_limits (hw_mpps w a)"
  shows "covers_side (rect_left f) (rect_right f) (mXres w) x wd \<and> covers_side (rect_top f) (rect_bottom f) (mYres w) y ht"
  using assms(1)
proof (cases rule: target_area_cases)
  case whole
  then show ?thesis using assms(3,4) by (simp add: whole_covers)
next
  case (widened r a p idx)
  let ?js = "[nat (mFirstIndex c)..<Suc (nat (mLastIndex c))]" and ?g = "\<lambda>j. mDisplayFrame (hwc.mLayers w ! j)"
  have start: "modest \<lparr>rect_left = sint (mXres w), rect_top = sint (mYres w), rect_right = 0, rect_bottom = 0\<rparr>"
    using assms(3,4) by (simp add: modest_def)
  have js: "i \<in> set ?js" "\<And>j. j \<in> set ?js \<Longrightarrow> modest (?g j)" using assms(2,5) by auto
  have f: "rect_in f r" and r: "modest r"
    using fold_expand(2)[OF js(1), of ?g] fold_expand(3)[OF start, of ?js ?g] js(2)
    unfolding widened(2) merged_frame_def assms(8) by blast+
  have p: "moderate_limits p" using assms(11)[OF widened(1)] widened(3) by simp
  note lim = p[unfolded moderate_limits_def, rule_format, OF restriction_index, of "wc_format cfg", folded widened(4)]
  note b = r[unfolded modest_def] and i = f[unfolded rect_in_def]
  show ?thesis
    using widened_covers[OF widened(7,5), of "rect_left f" "rect_right f" "mXres w"]
      widened_covers[OF widened(8,6), of "rect_top f" "rect_bottom f" "mYres w"] b i lim assms(6,7) by blast
qed

definition sample_target_layer :: layer where
  "sample_target_layer = (layer_new 0 0 sample_display)\<lparr>mDisplayFrame := \<lparr>rect_left = 5, rect_top = 7, rect_right = 10, rect_bottom = 9\<rparr>\<rparr>"

theorem target_window_covers_witness:
  "let c = (sample_info 101 COMPOSITION_EXYNOS)\<lparr>mHasCompositionLayer := True, mFirstIndex := 0, mLastIndex := 0\<rparr>
   in target_area c sample_window (sample_hwc [sample_target_layer]) = Some (0, 1, 16, 8) \<and> covers_side 7 9 3040 1 8"
proof -
  let ?c = "(sample_info 101 COMPOSITION_EXYNOS)\<lparr>mHasCompositionLayer := True, mFirstIndex := 0, mLastIndex := 0\<rparr>"
  let ?w = "sample_hwc [sample_target_layer]"
  have f: "mDisplayFrame sample_target_layer = \<lparr>rect_left = 5, rect_top = 7, rect_right = 10, rect_bottom = 9\<rparr>"
    by (simp add: sample_target_layer_def)
  have m: "merged_frame ?w [0..<Suc 0] = \<lparr>rect_left = 5, rect_top = 7, rect_right = 10, rect_bottom = 9\<rparr>"
    by (simp add: merged_frame_def f rect_expand_def)
  have a: "target_area ?c sample_window ?w = Some (0, 1, 16, 8)"
    by (simp add: target_area_def m[simplified] widen_side_def RECT_WIDTH_def RECT_HEIGHT_def pixel_align_def
        pixel_align_down_def smod_int_alt_def Let_def)
  have "moderate_limits sample_g2d"
    by (simp add: moderate_limits_def moderate_def mpp_getters sample_g2d_def sample_caps_def mpp_caps.defs mpp.defs Let_def)
  then show ?thesis
    using target_window_covers[OF a, of 0 "mDisplayFrame sample_target_layer"] a by (simp add: f modest_def Let_def)
qed

end
