(* ===== verification/PartialUpdate.thy ===== *)
theory PartialUpdate
  imports WindowSafety
begin

text \<open>
  The partial update (\<open>handleWindowUpdate\<close>) against the pixels of the screen: a pixel whose content may
  differ from the last frame lies in the region that is sent to the panel. Where a layer is shown
  smaller than its crop this fails.
\<close>

section \<open>Pixels\<close>

definition in_rect :: "hwc_rect \<Rightarrow> int \<Rightarrow> int \<Rightarrow> bool" where
  "in_rect r x y \<longleftrightarrow> rect_left r \<le> x \<and> x < rect_right r \<and> rect_top r \<le> y \<and> y < rect_bottom r"

definition in_region :: "decon_frame \<Rightarrow> int \<Rightarrow> int \<Rightarrow> bool" where
  "in_region f x y \<longleftrightarrow> fr_x f \<le> x \<and> x < fr_x f + uint (fr_w f) \<and> fr_y f \<le> y \<and> y < fr_y f + uint (fr_h f)"

text \<open>The position in the buffer that a layer with an unscaled crop shows at a position of the screen.\<close>

definition buffer_pos :: "layer \<Rightarrow> int \<Rightarrow> int \<Rightarrow> int \<times> int" where
  "buffer_pos l x y = (x - rect_left (mDisplayFrame l) + trunc_int (frect_left (mSourceCrop l)),
                       y - rect_top (mDisplayFrame l) + trunc_int (frect_top (mSourceCrop l)))"

text \<open>
  May the layer show something new at a position? Where it was or is, when its window moved or its crop
  changed; where its buffer was written, or everywhere when that is not known.
\<close>

definition dirty_pixel :: "win \<Rightarrow> nat \<Rightarrow> int \<Rightarrow> int \<Rightarrow> bool" where
  "dirty_pixel n i x y \<longleftrightarrow>
     (let l = wn_layer i n; k = nat (mWindowIndex l); old = dd_configs (mLastDpuData n) ! k; new = configs n ! k in
      \<not> (same_area (wc_dst old) (wc_dst new) \<and> same_area (wc_src old) (wc_src new)) \<and>
        (in_rect (mDisplayFrame l) x y \<or> in_rect (window_rect (wc_dst old)) x y) \<or>
      in_rect (mDisplayFrame l) x y \<and>
        (mDamageRects l = [] \<or> (\<exists>r\<in>set (mDamageRects l). case buffer_pos l x y of (px, py) \<Rightarrow> in_rect r px py)))"

text \<open>Coordinates that a \<open>float\<close> holds exactly; the crop starts at a whole pixel.\<close>

definition small :: "int \<Rightarrow> bool" where
  "small x \<longleftrightarrow> \<bar>x\<bar> \<le> 2 ^ 22"

definition small_rect :: "hwc_rect \<Rightarrow> bool" where
  "small_rect r \<longleftrightarrow> small (rect_left r) \<and> small (rect_top r) \<and> small (rect_right r) \<and> small (rect_bottom r)"

definition exact_layer :: "layer \<Rightarrow> bool" where
  "exact_layer l \<longleftrightarrow>
     (let crop = mSourceCrop l; cx = trunc_int (frect_left crop); cy = trunc_int (frect_top crop) in
      frect_left crop = of_int cx \<and> frect_top crop = of_int cy \<and> small cx \<and> small cy \<and> small_rect (mDisplayFrame l) \<and>
      list_all small_rect (mDamageRects l))"

definition exact_frame :: "win \<Rightarrow> bool" where
  "exact_frame n \<longleftrightarrow> 0 \<le> sint (mXres (wn_hwc n)) \<and> 0 \<le> sint (mYres (wn_hwc n)) \<and> list_all exact_layer (hwc.mLayers (wn_hwc n)) \<and>
     list_all (\<lambda>c. small_rect (window_rect (wc_dst c))) (dd_configs (mLastDpuData n)) \<and>
     length (dd_configs (mLastDpuData n)) = length (configs n)"

section \<open>Floats\<close>

lemma round_even_minus: "round_even (- x) = - round_even x"
proof (cases "of_int \<lfloor>x\<rfloor> = x")
  case True
  then show ?thesis by (metis of_int_minus round_even_of_int)
next
  case False
  then have "\<lfloor>- x\<rfloor> = - \<lfloor>x\<rfloor> - 1" by linarith
  then show ?thesis by (auto simp: round_even_def Let_def)
qed

lemma fp_round_uminus: "fp_round p (- x) = - fp_round p x"
  by (simp add: fp_round_def Let_def round_even_minus)

lemma fp_round_int:
  assumes "\<bar>n\<bar> < 2 ^ p"
  shows "fp_round p (of_int n) = of_int n"
proof (cases "0 \<le> n")
  case True
  then show ?thesis using fp_round_nat[of "nat n" p] assms by (simp add: nat_less_iff)
next
  case False
  then show ?thesis
    using fp_round_nat[of "nat (- n)" p] fp_round_uminus[of p "of_int n"] assms by (simp add: nat_less_iff)
qed

lemma f32_int: "\<bar>n\<bar> < 2 ^ 24 \<Longrightarrow> f32 (of_int n) = of_int n"
  by (simp only: f32_def fp_round_int)

lemma trunc_int_of_int [simp]: "trunc_int (of_int n) = n"
  by (simp add: trunc_int_def)

lemma moved_exact:
  assumes "small a" "small b" "small c"
  shows "trunc_int (fl_sub (f32 (of_int (a + b))) (of_int c)) = a + b - c"
proof -
  have "\<bar>a + b\<bar> < 2 ^ 24" "\<bar>a + b - c\<bar> < 2 ^ 24" using assms by (auto simp: small_def)
  then have "f32 (of_int (a + b)) = of_int (a + b)" "f32 (of_int (a + b - c)) = of_int (a + b - c)" by (simp_all only: f32_int)
  moreover have "rat_of_int (a + b) - of_int c = of_int (a + b - c)" by simp
  ultimately show ?thesis by (simp only: fl_sub_def trunc_int_of_int)
qed

section \<open>The damage of one layer\<close>

lemma in_rect_mono: "in_rect a x y \<Longrightarrow> rect_in a b \<Longrightarrow> in_rect b x y"
  by (auto simp: in_rect_def rect_in_def)

lemma fold_expand_rects:
  assumes "r \<in> set rs" "in_rect (g r) x y"
  shows "in_rect (fold (\<lambda>r area. rect_expand area (g r)) rs m) x y"
  using in_rect_mono[OF assms(2) fold_expand(2)[OF assms(1), of g m]] .

text \<open>Moving damage to the screen is exact, and keeps its pixels.\<close>

lemma moved_damage_exact:
  assumes "exact_layer l" "r \<in> set (mDamageRects l)"
  defines "cx \<equiv> trunc_int (frect_left (mSourceCrop l))" and "cy \<equiv> trunc_int (frect_top (mSourceCrop l))" and "f \<equiv> mDisplayFrame l"
  shows "moved_damage l r = \<lparr>rect_left = rect_left f + rect_left r - cx, rect_top = rect_top f + rect_top r - cy,
      rect_right = rect_left f + rect_right r - cx, rect_bottom = rect_top f + rect_bottom r - cy\<rparr>"
    "rect_left f + rect_right r - cx \<le> INT_MAX" "rect_top f + rect_bottom r - cy \<le> INT_MAX"
    "rect_left f + rect_left r - cx \<le> INT_MAX" "rect_top f + rect_top r - cy \<le> INT_MAX"
proof -
  have e: "frect_left (mSourceCrop l) = of_int cx" "frect_top (mSourceCrop l) = of_int cy" "small cx" "small cy" "small_rect f" "small_rect r"
    using assms(1,2) by (auto simp: exact_layer_def Let_def list_all_iff cx_def cy_def f_def)
  show "moved_damage l r = \<lparr>rect_left = rect_left f + rect_left r - cx, rect_top = rect_top f + rect_top r - cy,
      rect_right = rect_left f + rect_right r - cx, rect_bottom = rect_top f + rect_bottom r - cy\<rparr>"
    using e(3-6) unfolding moved_damage_def Let_def e(1,2) f_def[symmetric] small_rect_def by (simp only: moved_exact)
  show "rect_left f + rect_right r - cx \<le> INT_MAX" "rect_top f + rect_bottom r - cy \<le> INT_MAX"
    "rect_left f + rect_left r - cx \<le> INT_MAX" "rect_top f + rect_top r - cy \<le> INT_MAX"
    using e(3-6) by (simp_all add: small_rect_def small_def INT_MAX_def abs_le_iff)
qed

lemma moved_pixel:
  assumes "exact_layer l" "r \<in> set (mDamageRects l)" "buffer_pos l x y = (px, py)" "in_rect r px py" "0 \<le> x" "0 \<le> y"
  shows "in_rect (adjustRect (moved_damage l r) INT_MAX INT_MAX) x y"
  using assms(3-6) moved_damage_exact(2,3)[OF assms(1,2)] unfolding adjustRect_clamp moved_damage_exact(1)[OF assms(1,2)]
  by (auto simp: in_rect_def buffer_pos_def Let_def min_def max_def)

lemma layer_damage_grows: "layer_damage n i m = Some m' \<Longrightarrow> rect_in m m'"
  by (auto simp: layer_damage_def Let_def split: if_splits prod.splits damage_region.splits)
    (auto simp: rect_in_def rect_expand_def)

lemma region_full:
  assumes "getLayerRegion n i eDamageRegionByDamage = (code, area)" "exact_layer (wn_layer i n)"
    and "0 \<le> x" "0 \<le> y" "in_rect (mDisplayFrame (wn_layer i n)) x y"
    and "mDamageRects (wn_layer i n) = [] \<or>
      (\<exists>r\<in>set (mDamageRects (wn_layer i n)). case buffer_pos (wn_layer i n) x y of (px, py) \<Rightarrow> in_rect r px py)"
  shows "code = eDamageRegionFull \<or> code = eDamageRegionPartial \<and> in_rect area x y"
proof (cases "mDamageRects (wn_layer i n) = []")
  case True
  then show ?thesis using assms(1) by (simp add: getLayerRegion_def Let_def)
next
  case False
  obtain px py where b: "buffer_pos (wn_layer i n) x y = (px, py)" by fastforce
  with False assms(6) obtain r where r: "r \<in> set (mDamageRects (wn_layer i n))" "in_rect r px py" by auto
  have z: "\<not> in_rect \<lparr>rect_left = 0, rect_top = 0, rect_right = 0, rect_bottom = 0\<rparr> px py" by (simp add: in_rect_def)
  have one: "\<not> (length (mDamageRects (wn_layer i n)) = 1 \<and>
      mDamageRects (wn_layer i n) ! 0 = \<lparr>rect_left = 0, rect_top = 0, rect_right = 0, rect_bottom = 0\<rparr>)"
    using r z by (auto simp: length_Suc_conv)
  have "in_rect (fold (\<lambda>r area. rect_expand area (adjustRect (moved_damage (wn_layer i n) r) INT_MAX INT_MAX))
      (mDamageRects (wn_layer i n)) empty_region) x y"
    using fold_expand_rects[OF r(1), of "\<lambda>r. adjustRect (moved_damage (wn_layer i n) r) INT_MAX INT_MAX"]
      moved_pixel[OF assms(2) r(1) b r(2) assms(3,4)] by blast
  then show ?thesis using assms(1) False one by (auto simp: getLayerRegion_def Let_def split: if_splits)
qed

lemma layer_damage_dirty:
  assumes "layer_damage n i m = Some m'" "dirty_pixel n i x y" "exact_layer (wn_layer i n)" "0 \<le> x" "0 \<le> y"
  shows "in_rect m' x y"
proof -
  obtain code area where g: "getLayerRegion n i eDamageRegionByDamage = (code, area)" by fastforce
  let ?k = "nat (mWindowIndex (wn_layer i n))"
  let ?ret = "canApplyWindowUpdate (mLastDpuData n) (mDpuData n) ?k"
  let ?same = "same_area (wc_dst (dd_configs (mLastDpuData n) ! ?k)) (wc_dst (configs n ! ?k)) \<and>
      same_area (wc_src (dd_configs (mLastDpuData n) ! ?k)) (wc_src (configs n ! ?k))"
  have ret: "?ret < 0 \<or> (?ret > 0 \<and> \<not> ?same) \<or> (?ret = 0 \<and> ?same)"
    by (auto simp: canApplyWindowUpdate_def Let_def configs_def)
  show ?thesis
  proof (cases ?same)
    case False
    then have "m' = rect_expand (rect_expand m (mDisplayFrame (wn_layer i n))) (window_rect (wc_dst (dd_configs (mLastDpuData n) ! ?k)))"
      using assms(1) ret by (auto simp: layer_damage_def Let_def split: if_splits)
    then show ?thesis
      using assms(2) by (auto simp: dirty_pixel_def Let_def in_rect_def rect_expand_def)
  next
    case True
    then have d: "in_rect (mDisplayFrame (wn_layer i n)) x y" "mDamageRects (wn_layer i n) = [] \<or>
        (\<exists>r\<in>set (mDamageRects (wn_layer i n)). case buffer_pos (wn_layer i n) x y of (px, py) \<Rightarrow> in_rect r px py)"
      using assms(2) unfolding dirty_pixel_def Let_def by blast+
    have "?ret = 0" using ret True assms(1) by (auto simp: layer_damage_def Let_def split: if_splits)
    then show ?thesis
      using assms(1) region_full[OF g assms(3-5) d] d(1) g
      by (auto simp: layer_damage_def Let_def in_rect_def rect_expand_def split: if_splits)
  qed
qed

section \<open>The region\<close>

lemma merge_reaches:
  assumes "mergeDamageRect n js m = Some m'"
  shows "rect_in m m'" "i \<in> set js \<Longrightarrow> \<exists>a b. layer_damage n i a = Some b \<and> rect_in b m'"
  using assms
proof (induction js arbitrary: m)
  case (Cons j js)
  { case 1
    then obtain b where b: "layer_damage n j m = Some b" "mergeDamageRect n js b = Some m'" by (auto split: option.splits)
    show ?case using layer_damage_grows[OF b(1)] Cons.IH(1)[OF b(2)] by (rule rect_in_trans) }
  { case 2
    then obtain b where b: "layer_damage n j m = Some b" "mergeDamageRect n js b = Some m'" by (auto split: option.splits)
    show ?case
    proof (cases "i = j")
      case True
      then show ?thesis using b(1) Cons.IH(1)[OF b(2)] by blast
    next
      case False
      then show ?thesis using Cons.IH(2)[OF _ b(2)] 2(1) by simp
    qed }
qed simp_all

text \<open>The merged rectangle keeps to coordinates whose differences are 32-bit sizes.\<close>

definition bounded :: "hwc_rect \<Rightarrow> bool" where
  "bounded r \<longleftrightarrow> - (2 ^ 22) \<le> rect_left r \<and> - (2 ^ 22) \<le> rect_top r \<and> rect_right r \<le> INT_MAX \<and> rect_bottom r \<le> INT_MAX"

lemma bounded_expand: "bounded a \<Longrightarrow> bounded b \<Longrightarrow> bounded (rect_expand a b)"
  by (simp add: bounded_def rect_expand_def)

lemma small_bounded: "small_rect r \<Longrightarrow> bounded r"
  by (simp add: bounded_def small_rect_def small_def INT_MAX_def abs_le_iff)

lemma adjusted_bounded: "bounded (adjustRect r INT_MAX INT_MAX)"
  by (simp add: bounded_def adjustRect_clamp Let_def INT_MAX_def le_max_iff_disj)

lemma fold_bounded: "bounded m \<Longrightarrow> bounded (fold (\<lambda>r area. rect_expand area (adjustRect (g r) INT_MAX INT_MAX)) rs m)"
  by (induction rs arbitrary: m) (simp_all add: bounded_expand adjusted_bounded)

lemma empty_bounded: "bounded empty_region"
  by (simp add: bounded_def empty_region_def INT_MAX_def)

lemma region_bounded: "getLayerRegion n i t = (code, area) \<Longrightarrow> bounded area"
  using fold_bounded[OF empty_bounded, of "moved_damage (wn_layer i n)" "mDamageRects (wn_layer i n)"] empty_bounded
  by (cases t) (auto simp: getLayerRegion_def Let_def split: if_splits)

lemma layer_damage_bounded:
  assumes "layer_damage n i m = Some m'" "bounded m" "exact_frame n" "i < length (hwc.mLayers (wn_hwc n))"
  shows "bounded m'"
proof -
  obtain code area where g: "getLayerRegion n i eDamageRegionByDamage = (code, area)" by fastforce
  have f: "bounded (mDisplayFrame (wn_layer i n))"
    using assms(3,4) by (auto simp: exact_frame_def exact_layer_def Let_def wn_layer_def list_all_length intro: small_bounded)
  have w: "bounded (window_rect (wc_dst (dd_configs (mLastDpuData n) ! k)))" if "k < length (configs n)" for k
    using assms(3) that by (auto simp: exact_frame_def list_all_length intro: small_bounded)
  show ?thesis
    using assms(1,2) g f w region_bounded[OF g]
    by (auto simp: layer_damage_def Let_def nat_less_iff intro!: bounded_expand split: if_splits damage_region.splits)
qed

lemma merge_bounded:
  assumes "mergeDamageRect n js m = Some m'" "bounded m" "exact_frame n" "\<forall>i\<in>set js. i < length (hwc.mLayers (wn_hwc n))"
  shows "bounded m'"
  using assms
proof (induction js arbitrary: m)
  case (Cons j js)
  then obtain b where b: "layer_damage n j m = Some b" "mergeDamageRect n js b = Some m'" by (auto split: option.splits)
  show ?case using Cons.IH[OF b(2)] layer_damage_bounded[OF b(1)] Cons.prems by simp
qed simp

lemma region_pixels:
  assumes "bounded r" "in_rect r x y"
  shows "in_region (rect_region r f) x y"
proof -
  have w: "uint (word_of_int (RECT_WIDTH r) :: u32) = RECT_WIDTH r"
    using assms by (intro uint_of_small) (auto simp: bounded_def in_rect_def RECT_WIDTH_def INT_MAX_def)
  have h: "uint (word_of_int (RECT_HEIGHT r) :: u32) = RECT_HEIGHT r"
    using assms by (intro uint_of_small) (auto simp: bounded_def in_rect_def RECT_HEIGHT_def INT_MAX_def)
  have "fr_w (rect_region r f) = word_of_int (RECT_WIDTH r)" "fr_h (rect_region r f) = word_of_int (RECT_HEIGHT r)"
    "fr_x (rect_region r f) = rect_left r" "fr_y (rect_region r f) = rect_top r"
    by (simp_all add: rect_region_def set_area_def)
  with w h have "uint (fr_w (rect_region r f)) = RECT_WIDTH r" "uint (fr_h (rect_region r f)) = RECT_HEIGHT r"
    "fr_x (rect_region r f) = rect_left r" "fr_y (rect_region r f) = rect_top r" by (simp_all only:)
  then show ?thesis using assms(2) by (simp add: in_region_def in_rect_def RECT_WIDTH_def RECT_HEIGHT_def)
qed

text \<open>Starting a partial update does not touch what its region is computed from.\<close>

lemma layer_damage_same:
  assumes "wn_hwc n' = wn_hwc n" "mLastDpuData n' = mLastDpuData n" "wn_last_buffer n' = wn_last_buffer n" "configs n' = configs n"
  shows "layer_damage n' i m = layer_damage n i m"
proof -
  have l: "wn_layer j n' = wn_layer j n" for j by (simp add: wn_layer_def assms(1))
  have r: "getLayerRegion n' i t = getLayerRegion n i t" for t unfolding getLayerRegion_def l assms(3) ..
  have d: "dd_configs (mDpuData n') = dd_configs (mDpuData n)" using assms(4) by (simp add: configs_def)
  have c: "canApplyWindowUpdate old (mDpuData n') k = canApplyWindowUpdate old (mDpuData n) k" for old k
    unfolding canApplyWindowUpdate_def d ..
  show ?thesis unfolding layer_damage_def l r c assms(4) assms(2) ..
qed

lemma mergeDamageRect_same:
  assumes "wn_hwc n' = wn_hwc n" "mLastDpuData n' = mLastDpuData n" "wn_last_buffer n' = wn_last_buffer n" "configs n' = configs n"
  shows "mergeDamageRect n' js m = mergeDamageRect n js m"
  by (induction js arbitrary: m) (simp_all add: layer_damage_same[OF assms] split: option.split)

lemma update_started:
  assumes "handleWindowUpdate ev geometry n = Some n'" "enable_win_update (mDpuData n')"
  obtains M f where "mergeDamageRect n [0..<length (hwc.mLayers (wn_hwc n))] (screen_rect (wn_hwc n)) = Some M"
    "win_update_region (mDpuData n') = rect_region M f"
proof -
  let ?n = "n\<lparr>mDpuData := (mDpuData n)\<lparr>enable_win_update := False,
                win_update_region := set_area 0 0 (mXres (wn_hwc n)) (mYres (wn_hwc n)) (win_update_region (mDpuData n))\<rparr>\<rparr>"
  have "mergeDamageRect ?n js m = mergeDamageRect n js m" for js m by (rule mergeDamageRect_same) (simp_all add: configs_def)
  then obtain M where M: "mergeDamageRect n [0..<length (hwc.mLayers (wn_hwc n))] (screen_rect (wn_hwc n)) = Some M"
    and n': "n' = snd (setWindowUpdate M ?n)"
    using assms by (auto simp: handleWindowUpdate_def Let_def split: option.splits bool.splits)
  have "\<exists>f. win_update_region (mDpuData n') = rect_region M f"
    using assms(2) unfolding n'
    by (auto simp: setWindowUpdate_def Let_def rect_region_def set_area_def RECT_WIDTH_def RECT_HEIGHT_def split: if_splits)
  with M that show thesis by blast
qed


section \<open>A layer shown smaller than its crop\<close>

text \<open>One layer, one damaged rectangle.\<close>

lemma single_damage:
  assumes "mDamageRects (wn_layer i n) = [r]" "\<not> bad_damage (wn_layer i n) r"
  shows "getLayerRegion n i eDamageRegionByDamage =
    (eDamageRegionPartial, rect_expand empty_region (adjustRect (moved_damage (wn_layer i n) r) INT_MAX INT_MAX))"
proof -
  have "r \<noteq> \<lparr>rect_left = 0, rect_top = 0, rect_right = 0, rect_bottom = 0\<rparr>" using assms(2) by (auto simp: bad_damage_def)
  then show ?thesis using assms by (simp add: getLayerRegion_def Let_def)
qed

definition unmoved :: "win \<Rightarrow> nat \<Rightarrow> bool" where
  "unmoved n k \<longleftrightarrow> same_area (wc_dst (dd_configs (mLastDpuData n) ! k)) (wc_dst (configs n ! k)) \<and>
     same_area (wc_src (dd_configs (mLastDpuData n) ! k)) (wc_src (configs n ! k))"

lemma single_layer:
  assumes "mergeDamageRect n [0..<length (hwc.mLayers (wn_hwc n))] m = Some M" "length (hwc.mLayers (wn_hwc n)) = 1"
    and "mDamageRects (wn_layer 0 n) = [r]" "\<not> bad_damage (wn_layer 0 n) r" "unmoved n (nat (mWindowIndex (wn_layer 0 n)))"
  shows "M = rect_expand m (rect_expand empty_region (adjustRect (moved_damage (wn_layer 0 n) r) INT_MAX INT_MAX))"
proof -
  have "layer_damage n 0 m = Some M" using assms(1,2) by (simp split: option.splits)
  moreover have "canApplyWindowUpdate (mLastDpuData n) (mDpuData n) (nat (mWindowIndex (wn_layer 0 n))) \<le> 0"
    using assms(5) by (simp add: canApplyWindowUpdate_def Let_def configs_def unmoved_def)
  ultimately show ?thesis
    using single_damage[OF assms(3,4)] by (auto simp: layer_damage_def Let_def split: if_splits)
qed

text \<open>
  C19: where a layer is shown smaller than its crop, the partial update can miss it entirely: damage that lies
  further to the right in the crop than the frame is wide is sent as a region to the right of the
  frame, without a single position that the layer is shown at.
\<close>

theorem shrunk_damage_missed:
  assumes "handleWindowUpdate ev geometry n = Some n'" "enable_win_update (mDpuData n')" "exact_frame n"
    and "length (hwc.mLayers (wn_hwc n)) = 1" "l = wn_layer 0 n" "mDamageRects l = [r]" "\<not> bad_damage l r"
    and "unmoved n (nat (mWindowIndex l))" "rect_right (mDisplayFrame l) \<le> sint (mXres (wn_hwc n))"
    and "RECT_WIDTH (mDisplayFrame l) \<le> rect_left r - trunc_int (frect_left (mSourceCrop l))"
    and "in_region (win_update_region (mDpuData n')) x y"
  shows "\<not> in_rect (mDisplayFrame l) x y"
proof -
  obtain M f where M: "mergeDamageRect n [0..<length (hwc.mLayers (wn_hwc n))] (screen_rect (wn_hwc n)) = Some M"
    and f: "win_update_region (mDpuData n') = rect_region M f" using update_started[OF assms(1,2)] .
  have l: "exact_layer l" using assms(3,4,5) by (simp add: exact_frame_def wn_layer_def list_all_length)
  have M: "M = rect_expand (screen_rect (wn_hwc n)) (rect_expand empty_region (adjustRect (moved_damage l r) INT_MAX INT_MAX))"
    using single_layer[OF M assms(4)] assms(5-8) by blast
  have r: "r \<in> set (mDamageRects l)" using assms(6) by simp
  note d = moved_damage_exact[OF l r]
  have "rect_right (mDisplayFrame l) \<le> rect_left M"
    using assms(9,10) d(4) unfolding M adjustRect_clamp d(1)
    by (simp add: rect_expand_def screen_rect_def empty_region_def RECT_WIDTH_def Let_def)
  then show ?thesis using assms(11) unfolding f
    by (auto simp: in_region_def in_rect_def rect_region_def set_area_def)
qed

text \<open>A layer on its own in its window, written in part.\<close>

definition sample_win_env :: win_env where
  "sample_win_env = \<lparr>we_m2m = sample_work_env, we_hdr_exception = (\<lambda>_. False), we_lut = (\<lambda>_. None), we_windowUpdate = 1\<rparr>"

definition sample_rect :: "int \<Rightarrow> int \<Rightarrow> int \<Rightarrow> int \<Rightarrow> hwc_rect" where
  "sample_rect l t r b = \<lparr>rect_left = l, rect_top = t, rect_right = r, rect_bottom = b\<rparr>"

definition damaged_layer :: "int \<Rightarrow> hwc_rect \<Rightarrow> layer" where
  "damaged_layer w r = (layer_new 0 0 sample_display)\<lparr>mDisplayFrame := sample_rect 100 200 164 232, mWindowIndex := 0, mLayerBuffer := Some 3,
     mSourceCrop := \<lparr>frect_left = 0, frect_top = 0, frect_right = of_int w, frect_bottom = 32\<rparr>, mDamageRects := [r]\<rparr>"

definition damaged_window :: "u32 \<Rightarrow> win_config" where
  "damaged_window w = sample_window\<lparr>wc_src := sample_area 0 0 w 32\<rparr>"

definition damaged_frame :: "int \<Rightarrow> hwc_rect \<Rightarrow> win" where
  "damaged_frame w r = sample_windows [damaged_layer w r] [damaged_window (word_of_int w)] [damaged_window (word_of_int w)]"

lemma damaged_layer_fields [simp]:
  "mDisplayFrame (damaged_layer w r) = sample_rect 100 200 164 232" "mWindowIndex (damaged_layer w r) = 0"
  "mLayerBuffer (damaged_layer w r) = Some 3" "mDamageRects (damaged_layer w r) = [r]" "layer.mTransform (damaged_layer w r) = 0"
  "mSourceCrop (damaged_layer w r) = \<lparr>frect_left = 0, frect_top = 0, frect_right = of_int w, frect_bottom = 32\<rparr>"
  by (simp_all add: damaged_layer_def layer_new_def)

lemma damaged_window_fields [simp]:
  "wc_state (damaged_window w) = WIN_STATE_BUFFER" "wc_src (damaged_window w) = sample_area 0 0 w 32"
  "wc_dst (damaged_window w) = sample_area 100 200 64 32"
  by (simp_all add: damaged_window_def)

lemma sample_rect_sides [simp]:
  "rect_left (sample_rect l t r b) = l" "rect_top (sample_rect l t r b) = t"
  "rect_right (sample_rect l t r b) = r" "rect_bottom (sample_rect l t r b) = b"
  by (simp_all add: sample_rect_def)

lemma damaged_wn_layer [simp]: "wn_layer 0 (damaged_frame w r) = damaged_layer w r"
  by (simp add: wn_layer_def damaged_frame_def)

lemma sample_area_rect: "window_rect (sample_area x y w h) = sample_rect x y (x + sint w) (y + sint h)"
  by (simp add: window_rect_def sample_area_def sample_rect_def)

lemma damaged_exact: "small_rect r \<Longrightarrow> exact_frame (damaged_frame w r)"
  by (simp add: exact_frame_def damaged_frame_def exact_layer_def Let_def trunc_int_def small_rect_def small_def sample_area_rect)

text \<open>Such a frame is sent in part, when no exception sees the scaling.\<close>

lemma damaged_no_exception:
  assumes "w \<in> {64, 96}" "n' = (damaged_frame w r)\<lparr>mDpuData := d\<rparr>" "dd_configs d = [damaged_window (word_of_int w)]" "\<not> enable_readback d"
  shows "windowUpdateExceptions sample_win_env 0 n' = Some False"
proof -
  let ?c = "damaged_window (word_of_int w)"
  have e: "\<not> odd_area (wc_src ?c)" "\<not> odd_area (wc_dst ?c)" "window_scaled ?c = Some False"
    using assms(1) by (auto simp: odd_area_def sample_area_def smod_int_alt_def window_scaled_def c_or_def Let_def)
  have "window_exception ?c ?c = Some False"
    using e by (simp add: window_exception_def)
  moreover have "\<not> layer_exception n' 0"
    by (simp add: layer_exception_def assms(2) wn_layer_def wn_source_def damaged_frame_def sample_windows_def sample_hwc_def source_init_def)
  moreover have "mCursorIndex (wn_hwc n') = -1" "mDisplayType (wn_hwc n') = 0" "length (hwc.mLayers (wn_hwc n')) = 1"
    "\<not> mHasCompositionLayer (mExynosCompositionInfo (wn_hwc n'))" "\<not> mHasCompositionLayer (mClientCompositionInfo (wn_hwc n'))"
    "mDpuData n' = d" "configs n' = [?c]" "dd_configs (mLastDpuData n') = [?c]"
    by (simp_all add: assms(2,3) damaged_frame_def sample_windows_def sample_hwc_def sample_info_def configs_def sample_dpu_def)
  moreover have "pf_display_virtual (we_pf sample_win_env) \<noteq> 0" "we_windowUpdate sample_win_env = 1"
    by (simp_all add: sample_win_env_def sample_acryl_def sample_platform_def platform.defs)
  ultimately show ?thesis
    using assms(4) by (simp add: windowUpdateExceptions_def c_or_def)
qed

lemma damaged_merge:
  assumes "small_rect r" "\<not> bad_damage (damaged_layer w r) r" "rect_right r \<le> 1340" "rect_bottom r \<le> 2840"
  shows "mergeDamageRect (damaged_frame w r) [0..<1] (screen_rect (sample_hwc [damaged_layer w r])) =
    Some (sample_rect (100 + rect_left r) (200 + rect_top r) (100 + rect_right r) (200 + rect_bottom r))"
proof -
  let ?l = "damaged_layer w r" and ?n = "damaged_frame w r" and ?d = "sample_dpu [damaged_window (word_of_int w)]"
  have l: "exact_layer ?l" using damaged_exact[OF assms(1), of w] by (simp add: exact_frame_def damaged_frame_def)
  have z: "trunc_int 0 = 0" by (simp add: trunc_int_def)
  have p: "0 \<le> rect_left r" "0 \<le> rect_top r" "rect_left r < rect_right r" "rect_top r < rect_bottom r"
    using assms(2) by (auto simp: bad_damage_def)
  have m: "moved_damage ?l r = sample_rect (100 + rect_left r) (200 + rect_top r) (100 + rect_right r) (200 + rect_bottom r)"
    using moved_damage_exact(1)[OF l, of r] by (simp add: z sample_rect_def)
  have a: "rect_expand (screen_rect (sample_hwc [?l])) (rect_expand empty_region (adjustRect (moved_damage ?l r) INT_MAX INT_MAX)) =
      sample_rect (100 + rect_left r) (200 + rect_top r) (100 + rect_right r) (200 + rect_bottom r)"
    using p assms(3,4) unfolding m adjustRect_clamp
    by (simp add: rect_expand_def screen_rect_def empty_region_def INT_MAX_def sample_rect_def Let_def min_def max_def)
  have c: "canApplyWindowUpdate ?d ?d 0 = 0" by (simp add: canApplyWindowUpdate_def same_area_def fmt_neq_def Let_def)
  have g: "getLayerRegion ?n 0 eDamageRegionByDamage =
      (eDamageRegionPartial, rect_expand empty_region (adjustRect (moved_damage ?l r) INT_MAX INT_MAX))"
    using single_damage[of 0 ?n r] assms(2) by simp
  have n: "mLastDpuData ?n = ?d" "mDpuData ?n = ?d" "length (configs ?n) = 1" by (simp_all add: damaged_frame_def)
  have "layer_damage ?n 0 (screen_rect (sample_hwc [?l])) =
      Some (rect_expand (screen_rect (sample_hwc [?l])) (rect_expand empty_region (adjustRect (moved_damage ?l r) INT_MAX INT_MAX)))"
    by (simp add: layer_damage_def n c g Let_def)
  then show ?thesis unfolding a by simp
qed

lemma damaged_sent:
  assumes "w \<in> {64, 96}" "small_rect r" "\<not> bad_damage (damaged_layer w r) r" "rect_right r \<le> 1340" "rect_bottom r \<le> 2840"
  obtains n' where "handleWindowUpdate sample_win_env 0 (damaged_frame w r) = Some n'" "enable_win_update (mDpuData n')"
proof -
  let ?n = "damaged_frame w r" and ?M = "sample_rect (100 + rect_left r) (200 + rect_top r) (100 + rect_right r) (200 + rect_bottom r)"
  define n1 where "n1 = ?n\<lparr>mDpuData := (mDpuData ?n)\<lparr>enable_win_update := False,
      win_update_region := set_area 0 0 1440 3040 (win_update_region (mDpuData ?n))\<rparr>\<rparr>"
  have n: "wn_hwc ?n = sample_hwc [damaged_layer w r]" "wn_hwc n1 = sample_hwc [damaged_layer w r]" by (simp_all add: n1_def damaged_frame_def)
  have e: "windowUpdateExceptions sample_win_env 0 n1 = Some False"
    by (rule damaged_no_exception[OF assms(1) n1_def]) (simp_all add: damaged_frame_def sample_windows_def sample_dpu_def)
  have "mergeDamageRect n1 js m = mergeDamageRect ?n js m" for js m
    by (rule mergeDamageRect_same) (simp_all add: n1_def configs_def)
  then have M: "mergeDamageRect n1 [0..<1] (screen_rect (wn_hwc n1)) = Some ?M"
    using damaged_merge[OF assms(2-5)] by (simp only: n)
  have "0 \<le> rect_left r" "0 \<le> rect_top r" "rect_left r < rect_right r" "rect_top r < rect_bottom r"
    using assms(3) by (auto simp: bad_damage_def)
  then have "enable_win_update (mDpuData (snd (setWindowUpdate ?M n1)))"
    using assms(4,5) by (simp add: setWindowUpdate_def Let_def n)
  moreover have "handleWindowUpdate sample_win_env 0 ?n = Some (snd (setWindowUpdate ?M n1))"
    using e M by (simp add: handleWindowUpdate_def n n1_def[symmetric] Let_def)
  ultimately show thesis using that by blast
qed

lemma f32_small [simp]: "f32 64 = 64" "f32 96 = 96" "f32 32 = 32"
  using f32_int[of 64] f32_int[of 96] f32_int[of 32] by simp_all


theorem shrunk_damage_missed_witness:
  "\<exists>n'. handleWindowUpdate sample_win_env 0 (damaged_frame 96 (sample_rect 70 10 90 20)) = Some n' \<and> enable_win_update (mDpuData n') \<and>
     \<not> in_region (win_update_region (mDpuData n')) 150 205"
proof -
  let ?r = "sample_rect 70 10 90 20"
  let ?n = "damaged_frame 96 ?r"
  have s: "small_rect ?r" by (simp add: small_rect_def small_def)
  have b: "\<not> bad_damage (damaged_layer 96 ?r) ?r"
    by (simp add: bad_damage_def RECT_WIDTH_def RECT_HEIGHT_def FRECT_WIDTH_def FRECT_HEIGHT_def fl_sub_def trunc_int_def)
  obtain n' where h: "handleWindowUpdate sample_win_env 0 ?n = Some n'" "enable_win_update (mDpuData n')"
    by (rule damaged_sent[OF _ s b]) simp_all
  have u: "unmoved ?n 0" by (simp add: unmoved_def damaged_frame_def same_area_def)
  have o: "length (hwc.mLayers (wn_hwc ?n)) = 1" "rect_right (mDisplayFrame (wn_layer 0 ?n)) \<le> sint (mXres (wn_hwc ?n))"
    by (simp_all add: damaged_frame_def wn_layer_def)
  have "in_rect (mDisplayFrame (wn_layer 0 ?n)) 150 205" by (simp add: in_rect_def)
  then show ?thesis
    using shrunk_damage_missed[OF h damaged_exact[OF s] o(1) refl, of ?r 150 205] h b u o(2)
    by (auto simp: RECT_WIDTH_def trunc_int_def)
qed

end
