(* ===== verification/DisplayConfig.thy ===== *)
theory DisplayConfig
  imports Prelude
begin

text \<open>
  The configurations of a display (\<open>display/ExynosDisplay.{h,cpp}\<close>, \<open>primarydisplay/ExynosPrimaryDisplay.cpp\<close>):
  how a change of the resolution or refresh rate is requested, held back until its time has come, handed to
  the driver and confirmed by the vertical sync, and what the power modes do to it. Times are \<open>int\<close>
  values of 64 bits; where the code compares or adds them as unsigned numbers the model does too. \<open>None\<close> is a
  call that does not return, or divides by zero. The geometry flag and the timer of \<open>setPowerMode\<close> belong to other parts of the
  display and are left out; what it asks of them is recorded as a call.
\<close>

section \<open>The state\<close>

record displayConfigs =
  dc_vsyncPeriod :: u32
  dc_width :: u32
  dc_height :: u32
  dc_Xdpi :: u32
  dc_Ydpi :: u32
  dc_groupId :: u32

definition displayConfigs_zero :: displayConfigs where
  "displayConfigs_zero = \<lparr>dc_vsyncPeriod = 0, dc_width = 0, dc_height = 0, dc_Xdpi = 0, dc_Ydpi = 0, dc_groupId = 0\<rparr>"

datatype request_state = SET_CONFIG_STATE_NONE | SET_CONFIG_STATE_PENDING | SET_CONFIG_STATE_REQUESTED

datatype power_mode = POWER_MODE_OFF | POWER_MODE_DOZE | POWER_MODE_ON | POWER_MODE_DOZE_SUSPEND

datatype config_type = NO_CONSTRAINTS | WITH_CONSTRAINTS

record vsync_constraints =
  desiredTimeNanos :: int
  seamlessRequired :: bool

record vsync_timeline =
  newVsyncAppliedTimeNanos :: int
  refreshRequired :: bool
  refreshTimeNanos :: int

record pending_config =
  isPending :: bool
  pend_config :: u32
  pend_type :: config_type
  pend_constraints :: vsync_constraints
  pend_timeline :: vsync_timeline

record vsync_callback =
  vc_enabled :: bool
  vc_timestamp :: u64
  vc_period :: u64
  vc_desired :: u64

text \<open>What the configuration code asks of the rest of the program, newest first.\<close>

datatype config_call =
    Call_setActiveConfig u32
  | Call_setActiveConfigWithConstraints u32 bool
  | Call_resetConfigRequestState
  | Call_fpsChanged
  | Call_setVsyncEnabled bool
  | Call_setPowerMode power_mode
  | Call_setLowPowerMode bool
  | Call_clearDisplay
  | Call_closeFencesForSkipFrame
  | Call_vsyncTimingChanged vsync_timeline
  | Call_vsync u64
  | Call_invalidate

record dconf =
  mDisplayConfigs :: "(u32 \<times> displayConfigs) list"
  mActiveConfig :: u32
  mDesiredConfig :: u32
  mConfigRequestState :: request_state
  mVsyncPeriodChangeConstraints :: vsync_constraints
  mVsyncAppliedTimeLine :: vsync_timeline
  mPendConfigInfo :: pending_config
  mVsyncCallback :: vsync_callback
  mVsyncState :: int
  mVsyncPeriod :: u32
  cf_xres :: u32
  cf_yres :: u32
  cf_xdpi :: u32
  cf_ydpi :: u32
  mPowerModeState :: power_mode
  mDisplayConfigPending :: bool
  cf_workingPeriod :: u32
  cf_workingChanged :: bool
  cf_calls :: "config_call list"

text \<open>
  The answers of the driver interface and of the clock during one call: \<open>if_vsyncAppliedTime\<close> status and time,
  \<open>if_vsyncPeriod\<close> the measured period when it can be read, \<open>cf_now\<close> and \<open>cf_later\<close> two readings of
  the clock, \<open>cf_timestamp\<close> the time of the last vertical sync, \<open>cf_validated\<close> whether a frame is between validation and presentation.
\<close>

record config_env =
  if_setActiveConfig :: "u32 \<Rightarrow> int"
  if_setActiveConfigWithConstraints :: "u32 \<Rightarrow> bool \<Rightarrow> int"
  if_vsyncAppliedTime :: "u32 \<Rightarrow> int \<times> int"
  if_changeDuration :: u32
  if_vsyncPeriod :: "u32 option"
  if_setVsyncEnabled :: "bool \<Rightarrow> int"
  if_workingPeriod :: u32
  if_drm :: bool
  if_doze :: bool
  if_setLowPowerMode :: "bool \<Rightarrow> int"
  cf_now :: int
  cf_later :: int
  cf_timestamp :: u64
  cf_timingCallback :: bool
  cf_fpsCallback :: bool
  cf_vsyncDisplay :: bool
  cf_primary :: bool
  cf_validated :: bool

definition HWC2_VSYNC_ENABLE :: int where "HWC2_VSYNC_ENABLE = 1"
definition HWC2_VSYNC_DISABLE :: int where "HWC2_VSYNC_DISABLE = 2"
definition microsecsPerSec :: u64 where "microsecsPerSec = 1000000"

datatype hwc2_status = HWC2_ERROR_NONE | HWC2_ERROR_BAD_CONFIG | HWC2_ERROR_BAD_PARAMETER | HWC2_ERROR_UNSUPPORTED |
  HWC2_ERROR_SEAMLESS_NOT_ALLOWED | HWC2_ERROR_SEAMLESS_NOT_POSSIBLE | HWC_HAL_ERROR_INVAL

definition cf_call :: "config_call \<Rightarrow> dconf \<Rightarrow> dconf" where
  "cf_call c n = n\<lparr>cf_calls := c # cf_calls n\<rparr>"

section \<open>The table of configurations\<close>

definition find_config :: "u32 \<Rightarrow> dconf \<Rightarrow> displayConfigs option" where
  "find_config k n = map_of (mDisplayConfigs n) k"

text \<open>\<open>mDisplayConfigs[k]\<close> adds an entry when there is none.\<close>

definition config_at :: "u32 \<Rightarrow> dconf \<Rightarrow> displayConfigs \<times> dconf" where
  "config_at k n = (case find_config k n of Some c \<Rightarrow> (c, n)
     | None \<Rightarrow> (displayConfigs_zero, n\<lparr>mDisplayConfigs := (k, displayConfigs_zero) # mDisplayConfigs n\<rparr>))"

definition isBadConfig :: "u32 \<Rightarrow> dconf \<Rightarrow> bool" where
  "isBadConfig config n \<longleftrightarrow> find_config config n = None"

text \<open>The period of a configuration, written over \<open>old\<close>.\<close>

definition period_of :: "u32 \<Rightarrow> dconf \<Rightarrow> u32 \<Rightarrow> u32" where
  "period_of config n old = (case find_config config n of Some c \<Rightarrow> dc_vsyncPeriod c | None \<Rightarrow> old)"

definition needChangeConfig :: "u32 \<Rightarrow> dconf \<Rightarrow> bool" where
  "needChangeConfig config n \<longleftrightarrow>
     \<not> (length (mDisplayConfigs n) = 1 \<and> config = 0) \<and>
     (if mConfigRequestState n = SET_CONFIG_STATE_PENDING \<or> mConfigRequestState n = SET_CONFIG_STATE_REQUESTED
      then config \<noteq> mDesiredConfig n
      else \<not> (mConfigRequestState n = SET_CONFIG_STATE_NONE \<and> mActiveConfig n = config))"

section \<open>Changing the configuration\<close>

definition updateInternalDisplayConfigVariables :: "u32 \<Rightarrow> bool \<Rightarrow> dconf \<Rightarrow> hwc2_status \<times> dconf" where
  "updateInternalDisplayConfigVariables config updateVsync n =
    (let n = n\<lparr>mActiveConfig := config\<rparr> in
     case find_config config n of
       None \<Rightarrow> (HWC2_ERROR_BAD_CONFIG, n)
     | Some c \<Rightarrow>
        (let n = n\<lparr>cf_xres := dc_width c, cf_yres := dc_height c, cf_xdpi := dc_Xdpi c, cf_ydpi := dc_Ydpi c\<rparr>
         in (HWC2_ERROR_NONE, if updateVsync then n\<lparr>mVsyncPeriod := dc_vsyncPeriod c\<rparr> else n)))"

definition resetConfigRequestState :: "config_env \<Rightarrow> dconf \<Rightarrow> dconf" where
  "resetConfigRequestState ev n =
    (let n = n\<lparr>mVsyncPeriod := period_of (mDesiredConfig n) n (mVsyncPeriod n)\<rparr>;
         n = (if cf_fpsCallback ev then cf_call Call_fpsChanged n else n)
     in cf_call Call_resetConfigRequestState (n\<lparr>mConfigRequestState := SET_CONFIG_STATE_NONE\<rparr>))"

definition setWorkingPeriod :: "u32 \<Rightarrow> dconf \<Rightarrow> dconf" where
  "setWorkingPeriod period n = (if cf_workingPeriod n \<noteq> period then n\<lparr>cf_workingChanged := True, cf_workingPeriod := period\<rparr> else n)"

definition setActiveConfigInternal :: "config_env \<Rightarrow> u32 \<Rightarrow> dconf \<Rightarrow> hwc2_status \<times> dconf" where
  "setActiveConfigInternal ev config n =
    (let n = cf_call (Call_setActiveConfig config) (snd (config_at config n)) in
     if if_setActiveConfig ev config < 0 then (HWC2_ERROR_BAD_CONFIG, n)
     else
       (let n = setWorkingPeriod (if_workingPeriod ev) n;
            n = snd (updateInternalDisplayConfigVariables config False n);
            n = resetConfigRequestState ev (n\<lparr>mDesiredConfig := config\<rparr>)
        in (HWC2_ERROR_NONE, n\<lparr>mDisplayConfigPending := (mPowerModeState n = POWER_MODE_OFF)\<rparr>)))"

definition setPendConfig :: "u32 \<Rightarrow> pending_config \<Rightarrow> pending_config" where
  "setPendConfig c p = p\<lparr>isPending := True, pend_config := c, pend_type := NO_CONSTRAINTS\<rparr>"

definition setPendConfigWithConstraints :: "u32 \<Rightarrow> vsync_constraints \<Rightarrow> vsync_timeline \<Rightarrow> pending_config \<Rightarrow> pending_config" where
  "setPendConfigWithConstraints c con t p = (setPendConfig c p)\<lparr>pend_type := WITH_CONSTRAINTS, pend_constraints := con, pend_timeline := t\<rparr>"

definition setActiveConfig :: "config_env \<Rightarrow> u32 \<Rightarrow> dconf \<Rightarrow> hwc2_status \<times> dconf" where
  "setActiveConfig ev config n =
    (if isBadConfig config n then (HWC2_ERROR_BAD_CONFIG, n)
     else if mPowerModeState n \<noteq> POWER_MODE_ON then (HWC2_ERROR_NONE, n\<lparr>mPendConfigInfo := setPendConfig config (mPendConfigInfo n)\<rparr>)
     else if \<not> needChangeConfig config n then (HWC2_ERROR_NONE, n)
     else setActiveConfigInternal ev config n)"

section \<open>Times\<close>

text \<open>
  The time a change takes effect: the first vertical sync after the change that is not before the
  wanted time. The loop of \<open>getConfigAppliedTime\<close>; both times are compared without sign.
\<close>

partial_function (option) advance :: "u64 \<Rightarrow> u32 \<Rightarrow> u64 \<Rightarrow> u64 option" where
  "advance desired period applied =
    (if desired > applied then advance desired period (applied + ucast period) else Some applied)"

definition getConfigAppliedTime :: "config_env \<Rightarrow> int \<Rightarrow> int \<Rightarrow> dconf \<Rightarrow> (int \<times> int) option" where
  "getConfigAppliedTime ev desired actual n =
     map_option (\<lambda>t. (sint t, sint t - uint (if_changeDuration ev * mVsyncPeriod n)))
       (advance (word_of_int desired) (mVsyncPeriod n) (word_of_int actual))"

definition updateVsyncAppliedTimeLine :: "config_env \<Rightarrow> int \<Rightarrow> dconf \<Rightarrow> dconf option" where
  "updateVsyncAppliedTimeLine ev actual n =
     map_option (\<lambda>(applied, refresh).
         (let t = \<lparr>newVsyncAppliedTimeNanos = applied, refreshRequired = (mConfigRequestState n \<noteq> SET_CONFIG_STATE_REQUESTED),
                   refreshTimeNanos = refresh\<rparr>;
              n = n\<lparr>mVsyncAppliedTimeLine := t\<rparr>
          in if cf_timingCallback ev then cf_call (Call_vsyncTimingChanged t) n else n))
       (getConfigAppliedTime ev (desiredTimeNanos (mVsyncPeriodChangeConstraints n)) actual n)"

text \<open>The status is that of the interface, 0 for success.\<close>

definition updateConfigRequestAppliedTime :: "config_env \<Rightarrow> dconf \<Rightarrow> (int \<times> dconf) option" where
  "updateConfigRequestAppliedTime ev n =
    (if mConfigRequestState n \<noteq> SET_CONFIG_STATE_REQUESTED then Some (0, n)
     else
       (let n = snd (config_at (mDesiredConfig n) n); (ret, actual) = if_vsyncAppliedTime ev (mDesiredConfig n)
        in if ret \<noteq> 0 then Some (ret, n) else map_option (Pair 0) (updateVsyncAppliedTimeLine ev actual n)))"

section \<open>Requests with constraints\<close>

definition checkValidationConfigConstraints :: "config_env \<Rightarrow> u32 \<Rightarrow> vsync_constraints \<Rightarrow> dconf \<Rightarrow> hwc2_status \<times> dconf" where
  "checkValidationConfigConstraints ev config con n =
    (if isBadConfig config n then (HWC2_ERROR_BAD_CONFIG, n)
     else
       (let (a, n) = config_at (mActiveConfig n) n; (c, n) = config_at config n in
        if dc_groupId a \<noteq> dc_groupId c \<and> seamlessRequired con then (HWC2_ERROR_SEAMLESS_NOT_ALLOWED, n)
        else if dc_groupId a \<noteq> dc_groupId c \<and> desiredTimeNanos con > cf_now ev then (HWC2_ERROR_UNSUPPORTED, n)
        else if seamlessRequired con then
          (if if_setActiveConfigWithConstraints ev config True \<noteq> 0 then HWC2_ERROR_SEAMLESS_NOT_POSSIBLE else HWC2_ERROR_NONE,
           cf_call (Call_setActiveConfigWithConstraints config True) n)
        else (HWC2_ERROR_NONE, n)))"

text \<open>A change between groups takes effect at once, whatever becomes of it; otherwise it waits for the next frame.\<close>

definition startConfigChange ::
  "config_env \<Rightarrow> u32 \<Rightarrow> vsync_constraints \<Rightarrow> vsync_timeline \<Rightarrow> bool \<Rightarrow> int \<Rightarrow> dconf \<Rightarrow> (hwc2_status \<times> vsync_timeline \<times> dconf) option" where
  "startConfigChange ev config con t needUpdateTimeline actual n =
    (let n = n\<lparr>mConfigRequestState := SET_CONFIG_STATE_PENDING, mVsyncPeriodChangeConstraints := con, mDesiredConfig := config\<rparr>;
         (a, n) = config_at (mActiveConfig n) n; (c, n) = config_at config n
     in if dc_groupId a \<noteq> dc_groupId c then
          Some (HWC2_ERROR_NONE, t\<lparr>newVsyncAppliedTimeNanos := cf_later ev, refreshRequired := False\<rparr>, snd (setActiveConfigInternal ev config n))
        else if needUpdateTimeline then
          map_option (\<lambda>(applied, refresh).
              (let t = t\<lparr>refreshRequired := True, newVsyncAppliedTimeNanos := applied, refreshTimeNanos := refresh\<rparr>
               in (HWC2_ERROR_NONE, t, n\<lparr>mVsyncAppliedTimeLine := t\<rparr>)))
            (getConfigAppliedTime ev (desiredTimeNanos con) actual n)
        else Some (HWC2_ERROR_NONE, t, n\<lparr>mVsyncAppliedTimeLine := t\<rparr>))"

definition setActiveConfigWithConstraints ::
  "config_env \<Rightarrow> u32 \<Rightarrow> vsync_constraints \<Rightarrow> vsync_timeline \<Rightarrow> bool \<Rightarrow> dconf \<Rightarrow> (hwc2_status \<times> vsync_timeline \<times> dconf) option" where
  "setActiveConfigWithConstraints ev config con t needUpdateTimeline n =
    (let (ret, n) = checkValidationConfigConstraints ev config con n in
     if ret \<noteq> HWC2_ERROR_NONE then Some (ret, t, n)
     else if mPowerModeState n \<noteq> POWER_MODE_ON then
       map_option (\<lambda>(applied, refresh).
           (let t = t\<lparr>refreshRequired := True, newVsyncAppliedTimeNanos := applied, refreshTimeNanos := refresh\<rparr>
            in (HWC2_ERROR_NONE, t, n\<lparr>mPendConfigInfo := setPendConfigWithConstraints config con t (mPendConfigInfo n)\<rparr>)))
         (getConfigAppliedTime ev (desiredTimeNanos con) (desiredTimeNanos con) n)
     else if \<not> needChangeConfig config n then
       Some (HWC2_ERROR_NONE,
             if needUpdateTimeline then t\<lparr>refreshRequired := False, newVsyncAppliedTimeNanos := desiredTimeNanos con\<rparr> else t, n)
     else
       (let n = snd (config_at config n); (status, actual) = if_vsyncAppliedTime ev config
        in if status \<noteq> 0 then Some (HWC2_ERROR_UNSUPPORTED, t, n) else startConfigChange ev config con t needUpdateTimeline actual n))"

section \<open>Vertical sync\<close>

definition enableVSync :: "bool \<Rightarrow> vsync_callback \<Rightarrow> vsync_callback" where
  "enableVSync e v = v\<lparr>vc_enabled := e, vc_timestamp := 0\<rparr>"

definition setDesiredVsyncPeriod :: "u64 \<Rightarrow> vsync_callback \<Rightarrow> vsync_callback" where
  "setDesiredVsyncPeriod p v = v\<lparr>vc_desired := p, vc_timestamp := 0\<rparr>"

text \<open>Is the wanted period reached, as far as whole milliseconds tell?\<close>

definition vsync_Callback :: "u64 \<Rightarrow> vsync_callback \<Rightarrow> bool \<times> vsync_callback" where
  "vsync_Callback timestamp v =
    (let v = (if vc_timestamp v > 0 then v\<lparr>vc_period := timestamp - vc_timestamp v\<rparr> else v); v = v\<lparr>vc_timestamp := timestamp\<rparr>
     in (vc_desired v = 0 \<or> vc_desired v div microsecsPerSec = vc_period v div microsecsPerSec, v))"

definition setVsyncEnabledInternal :: "config_env \<Rightarrow> int \<Rightarrow> dconf \<Rightarrow> hwc2_status \<times> dconf" where
  "setVsyncEnabledInternal ev enabled n =
    (if enabled < 0 \<or> enabled > HWC2_VSYNC_DISABLE then (HWC2_ERROR_BAD_PARAMETER, n)
     else
       (let val = (enabled = HWC2_VSYNC_ENABLE); n = cf_call (Call_setVsyncEnabled val) n
        in if if_setVsyncEnabled ev val < 0 then (HWC_HAL_ERROR_INVAL, n) else (HWC2_ERROR_NONE, n\<lparr>mVsyncState := enabled\<rparr>)))"

definition setVsyncEnabled :: "config_env \<Rightarrow> int \<Rightarrow> dconf \<Rightarrow> dconf" where
  "setVsyncEnabled ev enabled n =
    (let n = (if enabled = HWC2_VSYNC_ENABLE then snd (setVsyncEnabledInternal ev enabled n)
              else if vc_desired (mVsyncCallback n) = 0 then snd (setVsyncEnabledInternal ev HWC2_VSYNC_DISABLE n) else n)
     in n\<lparr>mVsyncCallback := enableVSync (enabled = HWC2_VSYNC_ENABLE) (mVsyncCallback n)\<rparr>)"

text \<open>The change has been confirmed.\<close>

definition finishConfigChange :: "config_env \<Rightarrow> dconf \<Rightarrow> dconf" where
  "finishConfigChange ev n =
    (let n = (if vc_desired (mVsyncCallback n) \<noteq> 0
              then (let n = resetConfigRequestState ev n in n\<lparr>mVsyncCallback := (mVsyncCallback n)\<lparr>vc_desired := 0\<rparr>\<rparr>) else n)
     in if \<not> vc_enabled (mVsyncCallback n)
        then (let n = snd (setVsyncEnabledInternal ev 0 n) in n\<lparr>mVsyncCallback := (mVsyncCallback n)\<lparr>vc_timestamp := 0\<rparr>\<rparr>)
        else n)"

definition checkConfigApplied :: "config_env \<Rightarrow> u64 \<Rightarrow> dconf \<Rightarrow> dconf option" where
  "checkConfigApplied ev timestamp n =
    (let (applied, n) =
       (case if_vsyncPeriod ev of
          Some p \<Rightarrow> ((ucast p :: u64) div microsecsPerSec = vc_desired (mVsyncCallback n) div microsecsPerSec, n)
        | None \<Rightarrow> (let (applied, v) = vsync_Callback timestamp (mVsyncCallback n) in (applied, n\<lparr>mVsyncCallback := v\<rparr>)))
     in if applied then Some (finishConfigChange ev n) else map_option snd (updateConfigRequestAppliedTime ev n))"

text \<open>The trace of a primary display divides by the period.\<close>

definition handleVsync :: "config_env \<Rightarrow> u64 \<Rightarrow> dconf \<Rightarrow> dconf option" where
  "handleVsync ev timestamp n =
    (let timestamp = (if timestamp = 0 then cf_timestamp ev else timestamp) in
     case (if mConfigRequestState n = SET_CONFIG_STATE_REQUESTED then checkConfigApplied ev timestamp n else Some n) of
       None \<Rightarrow> None
     | Some n \<Rightarrow>
        (if cf_primary ev \<and> (case if_vsyncPeriod ev of Some p \<Rightarrow> p | None \<Rightarrow> mVsyncPeriod n) = 0 then None
         else if vc_enabled (mVsyncCallback n) \<and> cf_vsyncDisplay ev then Some (cf_call (Call_vsync timestamp) n)
         else Some n))"

section \<open>Frames\<close>

definition requestConfig :: "config_env \<Rightarrow> dconf \<Rightarrow> dconf" where
  "requestConfig ev n =
    (let n = n\<lparr>mVsyncCallback := setDesiredVsyncPeriod (word_of_int (sint (period_of (mDesiredConfig n) n 0))) (mVsyncCallback n)\<rparr>;
         n = snd (setVsyncEnabledInternal ev HWC2_VSYNC_ENABLE n)
     in n\<lparr>mConfigRequestState := SET_CONFIG_STATE_REQUESTED\<rparr>)"

definition doDisplayConfigPostProcess :: "config_env \<Rightarrow> dconf \<Rightarrow> (int \<times> dconf) option" where
  "doDisplayConfigPostProcess ev n =
    (let n = snd (config_at (mDesiredConfig n) n); (ret, actual) = if_vsyncAppliedTime ev (mDesiredConfig n) in
     if ret \<noteq> 0 then Some (ret, n)
     else if mPowerModeState n \<noteq> POWER_MODE_ON then Some (0, n)
     else if actual \<ge> desiredTimeNanos (mVsyncPeriodChangeConstraints n) then
       (let ret = if_setActiveConfigWithConstraints ev (mDesiredConfig n) False;
            n = cf_call (Call_setActiveConfigWithConstraints (mDesiredConfig n) False) n
        in if ret \<noteq> 0 then Some (ret, n) else map_option (Pair 0) (updateVsyncAppliedTimeLine ev actual (requestConfig ev n)))
     else map_option (Pair 0) (updateVsyncAppliedTimeLine ev actual n))"

text \<open>The part of \<open>presentDisplay\<close> that changes the configuration.\<close>

definition presentConfig :: "config_env \<Rightarrow> dconf \<Rightarrow> dconf option" where
  "presentConfig ev n =
    (case (if mConfigRequestState n = SET_CONFIG_STATE_PENDING then map_option snd (doDisplayConfigPostProcess ev n) else Some n) of
       None \<Rightarrow> None
     | Some n \<Rightarrow>
        Some (if mConfigRequestState n = SET_CONFIG_STATE_REQUESTED
              then snd (updateInternalDisplayConfigVariables (mDesiredConfig n) False n) else n))"

text \<open>What the chip's display does before it checks the windows.\<close>

definition applyPendingConfig :: "config_env \<Rightarrow> dconf \<Rightarrow> dconf" where
  "applyPendingConfig ev n = (if mDisplayConfigPending n then snd (setActiveConfigInternal ev (mActiveConfig n) n) else n)"

section \<open>Power modes of the primary display\<close>

definition applyPendConfig :: "config_env \<Rightarrow> dconf \<Rightarrow> dconf option" where
  "applyPendConfig ev n =
    (let p = mPendConfigInfo n in
     case pend_type p of
       NO_CONSTRAINTS \<Rightarrow> Some (snd (setActiveConfig ev (pend_config p) n))
     | WITH_CONSTRAINTS \<Rightarrow>
        map_option (\<lambda>(_, t, n). n\<lparr>mPendConfigInfo := (mPendConfigInfo n)\<lparr>pend_timeline := t\<rparr>\<rparr>)
          (setActiveConfigWithConstraints ev (pend_config p) (pend_constraints p) (pend_timeline p) False n))"

text \<open>After a low power mode the active configuration is set again, and a waiting request repeated.\<close>

definition restoreConfig :: "config_env \<Rightarrow> dconf \<Rightarrow> dconf option" where
  "restoreConfig ev n =
    (let state = mConfigRequestState n; n = snd (setActiveConfigInternal ev (mActiveConfig n) n); p = mPendConfigInfo n in
     if state = SET_CONFIG_STATE_PENDING then
       map_option (\<lambda>(_, t, n). cf_call Call_invalidate (n\<lparr>mPendConfigInfo := (mPendConfigInfo n)\<lparr>pend_timeline := t\<rparr>\<rparr>))
         (setActiveConfigWithConstraints ev (pend_config p) (pend_constraints p) (pend_timeline p) False n)
     else Some n)"

definition setPowerOn :: "config_env \<Rightarrow> dconf \<Rightarrow> dconf option" where
  "setPowerOn ev n =
    (let prev = mPowerModeState n;
         n = (if \<not> if_drm ev \<or> prev = POWER_MODE_OFF \<or> prev = POWER_MODE_DOZE_SUSPEND then cf_call (Call_setPowerMode POWER_MODE_ON) n else n);
         n = n\<lparr>mPowerModeState := POWER_MODE_ON\<rparr>
     in case (if isPending (mPendConfigInfo n) \<and> mActiveConfig n \<noteq> pend_config (mPendConfigInfo n) then applyPendConfig ev n else Some n) of
          None \<Rightarrow> None
        | Some n \<Rightarrow>
           (let restore = (prev \<noteq> POWER_MODE_OFF \<and>
                  (\<not> isPending (mPendConfigInfo n) \<or> mActiveConfig n = pend_config (mPendConfigInfo n) \<or>
                   mConfigRequestState n = SET_CONFIG_STATE_PENDING))
            in map_option (\<lambda>n. n\<lparr>mPendConfigInfo := (mPendConfigInfo n)\<lparr>isPending := False\<rparr>\<rparr>)
                 (if restore then restoreConfig ev n else Some n)))"

definition setPowerOff :: "config_env \<Rightarrow> dconf \<Rightarrow> dconf" where
  "setPowerOff ev n =
    (let n = cf_call Call_clearDisplay n;
         n = (if mPowerModeState n \<noteq> POWER_MODE_ON then snd (setActiveConfigInternal ev (mActiveConfig n) n) else n);
         n = cf_call (Call_setPowerMode POWER_MODE_OFF) (n\<lparr>mPowerModeState := POWER_MODE_OFF\<rparr>)
     in if cf_validated ev then cf_call Call_closeFencesForSkipFrame n else n)"

definition setPowerDoze :: "config_env \<Rightarrow> bool \<Rightarrow> dconf \<Rightarrow> hwc2_status \<times> dconf" where
  "setPowerDoze ev suspend n =
    (if \<not> if_doze ev then (HWC2_ERROR_UNSUPPORTED, n)
     else
       (let n = cf_call (Call_setLowPowerMode suspend) n
        in if if_setLowPowerMode ev suspend \<noteq> 0 then (HWC2_ERROR_UNSUPPORTED, n)
           else (HWC2_ERROR_NONE, n\<lparr>mPowerModeState := (if suspend then POWER_MODE_DOZE_SUSPEND else POWER_MODE_DOZE)\<rparr>)))"

definition setPowerMode :: "config_env \<Rightarrow> power_mode \<Rightarrow> dconf \<Rightarrow> (hwc2_status \<times> dconf) option" where
  "setPowerMode ev mode n =
    (if mode = mPowerModeState n then Some (HWC2_ERROR_NONE, n)
     else case mode of
       POWER_MODE_DOZE_SUSPEND \<Rightarrow> Some (setPowerDoze ev True n)
     | POWER_MODE_DOZE \<Rightarrow> Some (setPowerDoze ev False n)
     | POWER_MODE_OFF \<Rightarrow> Some (HWC2_ERROR_NONE, setPowerOff ev n)
     | POWER_MODE_ON \<Rightarrow> map_option (Pair HWC2_ERROR_NONE) (setPowerOn ev n))"

section \<open>Runs\<close>

datatype config_step =
    Set_config u32
  | Set_config_with u32 vsync_constraints vsync_timeline
  | Set_power power_mode
  | Set_vsync int
  | Vsync u64
  | Present
  | Check_windows

definition config_do :: "config_env \<Rightarrow> config_step \<Rightarrow> dconf \<Rightarrow> dconf option" where
  "config_do ev s n =
    (case s of
       Set_config c \<Rightarrow> Some (snd (setActiveConfig ev c n))
     | Set_config_with c con t \<Rightarrow> map_option (\<lambda>(_, _, n). n) (setActiveConfigWithConstraints ev c con t True n)
     | Set_power mode \<Rightarrow> map_option snd (setPowerMode ev mode n)
     | Set_vsync e \<Rightarrow> Some (setVsyncEnabled ev e n)
     | Vsync ts \<Rightarrow> handleVsync ev ts n
     | Present \<Rightarrow> presentConfig ev n
     | Check_windows \<Rightarrow> Some (applyPendingConfig ev n))"

primrec config_run :: "(config_env \<times> config_step) list \<Rightarrow> dconf \<Rightarrow> dconf option" where
  "config_run [] n = Some n"
| "config_run (s # ss) n = (case config_do (fst s) (snd s) n of None \<Rightarrow> None | Some n \<Rightarrow> config_run ss n)"

end
