(* ===== verification/ConfigSafety.thy ===== *)
theory ConfigSafety
  imports DisplayConfig
begin

text \<open>
  What every operation of the configuration machine keeps: the announced time of a change, and the invariant of
  its state.
\<close>

section \<open>The announced time\<close>

lemma unat_widen: "unat (ucast p :: u64) = unat p" for p :: u32
proof -
  have "unat p < 2 ^ 64" by (rule less_le_trans[OF unsigned_less]) simp
  then show ?thesis by (simp add: unsigned_ucast_eq take_bit_nat_eq_self)
qed

lemma advance_reaches:
  fixes d a :: u64 and p :: u32
  assumes "unat d + unat p < 2 ^ 64" "p \<noteq> 0"
  shows "\<exists>k. advance d p a = Some (word_of_nat (unat a + k * unat p)) \<and> unat d \<le> unat a + k * unat p \<and>
    (k = 0 \<or> unat a + k * unat p < unat d + unat p)"
proof (induction "unat d - unat a" arbitrary: a rule: less_induct)
  case less
  show ?case
  proof (cases "d > a")
    case False
    then have "advance d p a = Some (word_of_nat (unat a + 0 * unat p))" by (simp add: advance.simps)
    then show ?thesis using False by (intro exI[of _ 0]) (simp add: word_le_nat_alt not_less)
  next
    case True
    then have lt: "unat a < unat d" by (simp add: word_less_nat_alt)
    have p: "0 < unat p" using assms(2) by (simp add: unat_gt_0)
    have s: "unat (a + ucast p) = unat a + unat p"
      using lt assms(1) unat_add_lem[of a "ucast p"] by (simp add: unat_widen)
    have "unat d - unat (a + ucast p) < unat d - unat a" using s lt p by simp
    from less[OF this] obtain k where k: "advance d p (a + ucast p) = Some (word_of_nat (unat a + unat p + k * unat p))"
      "unat d \<le> unat a + unat p + k * unat p" "k = 0 \<or> unat a + unat p + k * unat p < unat d + unat p" unfolding s by blast
    have "advance d p a = advance d p (a + ucast p)" using True by (subst advance.simps) simp
    then show ?thesis using k lt by (intro exI[of _ "Suc k"]) (auto simp: algebra_simps)
  qed
qed

text \<open>With a period of 0 the loop does not end.\<close>

lemma advance_stuck:
  assumes "advance d 0 a = Some r"
  shows "\<not> d > a"
proof -
  have "(0::u32) = 0 \<longrightarrow> \<not> d > a"
    by (rule advance.raw_induct[of "\<lambda>d p a r. p = 0 \<longrightarrow> \<not> d > a", OF _ assms]) (auto split: if_splits)
  then show ?thesis by simp
qed

lemma unat_of_time: "0 \<le> t \<Longrightarrow> t < 2 ^ 63 \<Longrightarrow> unat (word_of_int t :: u64) = nat t"
  by (simp add: unat_eq_nat_uint uint_word_of_int)

lemma sint_of_time: "k < 2 ^ 63 \<Longrightarrow> sint (word_of_nat k :: u64) = int k"
  by (simp add: signed_of_nat signed_take_bit_int_eq_self)

lemma advance_time:
  assumes "0 \<le> desired" "desired < 2 ^ 62" "0 \<le> actual" "actual < 2 ^ 62"
  shows "getConfigAppliedTime ev desired actual n =
    (if desired \<le> actual then Some (actual, actual - uint (if_changeDuration ev * mVsyncPeriod n))
     else if mVsyncPeriod n = 0 then None
     else (let p = uint (mVsyncPeriod n); t = actual + ((desired - actual + p - 1) div p) * p
           in Some (t, t - uint (if_changeDuration ev * mVsyncPeriod n))))"
proof -
  let ?p = "mVsyncPeriod n" and ?d = "word_of_int desired :: u64" and ?a = "word_of_int actual :: u64"
  have u: "unat ?d = nat desired" "unat ?a = nat actual" using assms by (simp_all add: unat_of_time)
  have s: "sint ?a = actual" using sint_of_time[of "nat actual"] assms(3,4) by simp
  have lt: "?d > ?a \<longleftrightarrow> actual < desired" using u assms(1,3) by (auto simp: word_less_nat_alt)
  show ?thesis
  proof (cases "actual < desired")
    case False
    then show ?thesis using lt s by (simp add: getConfigAppliedTime_def advance.simps[of ?d])
  next
    case True
    show ?thesis
    proof (cases "?p = 0")
      case zero: True
      have "advance ?d ?p ?a = None" using advance_stuck[of ?d ?a] zero lt True by (cases "advance ?d ?p ?a") auto
      then show ?thesis using True zero by (simp add: getConfigAppliedTime_def)
    next
      case False
      have small: "unat ?p < 2 ^ 32" by (rule less_le_trans[OF unsigned_less]) simp
      have "unat ?d + unat ?p < 2 ^ 64" using u assms(2) small by simp
      from advance_reaches[OF this False, of ?a] obtain k where k: "advance ?d ?p ?a = Some (word_of_nat (nat actual + k * unat ?p))"
        "nat desired \<le> nat actual + k * unat ?p" "k = 0 \<or> nat actual + k * unat ?p < nat desired + unat ?p" unfolding u by blast
      define q where "q = uint ?p"
      have "uint ?p \<noteq> 0" using False word_uint_eq_iff[of ?p 0] by simp
      then have q: "0 < q" "unat ?p = nat q" using uint_ge_0[of ?p] by (simp_all only: q_def unat_eq_nat_uint)
      have k0: "k \<noteq> 0" using k(2) True assms(1,3) by (cases k) auto
      have "int (nat desired) \<le> int (nat actual + k * nat q)" "int (nat actual + k * nat q) < int (nat desired + nat q)"
        using k(2,3) k0 unfolding q(2) by linarith+
      then have b: "desired \<le> actual + int k * q" "actual + int k * q < desired + q" using assms(1,3) q(1) by simp_all
      have "(desired - actual + q - 1) div q = int k"
        by (rule int_div_pos_eq[of _ q "int k" "desired - actual + q - 1 - q * int k"]) (use b in \<open>simp_all add: algebra_simps\<close>)
      moreover have "sint (word_of_nat (nat actual + k * unat ?p) :: u64) = actual + int k * q"
      proof -
        have "nat desired < 2 ^ 62" using assms(2) by simp
        then have "nat actual + k * nat q < 2 ^ 63" using k(3) k0 small unfolding q(2) by simp
        then show ?thesis using sint_of_time[of "nat actual + k * nat q"] assms(3) q by simp
      qed
      ultimately show ?thesis using True False k(1) by (simp add: getConfigAppliedTime_def q_def[symmetric] Let_def)
    qed
  qed
qed

section \<open>The invariant\<close>

text \<open>
  The active configuration exists and the display has its size; a configuration that waits exists; one that has
  been handed to the driver is the active one; and the period is that of the active configuration
  while no change is on its way.
\<close>

definition config_ok :: "dconf \<Rightarrow> bool" where
  "config_ok n \<longleftrightarrow>
     (\<exists>c. find_config (mActiveConfig n) n = Some c \<and> cf_xres n = dc_width c \<and> cf_yres n = dc_height c \<and> cf_xdpi n = dc_Xdpi c \<and>
        cf_ydpi n = dc_Ydpi c \<and> (mConfigRequestState n = SET_CONFIG_STATE_NONE \<longrightarrow> mVsyncPeriod n = dc_vsyncPeriod c)) \<and>
     (mConfigRequestState n \<noteq> SET_CONFIG_STATE_NONE \<longrightarrow> find_config (mDesiredConfig n) n \<noteq> None) \<and>
     (mConfigRequestState n = SET_CONFIG_STATE_REQUESTED \<longrightarrow> mDesiredConfig n = mActiveConfig n)"

text \<open>Two states that agree on all this.\<close>

definition same_core :: "dconf \<Rightarrow> dconf \<Rightarrow> bool" where
  "same_core n n' \<longleftrightarrow> mDisplayConfigs n' = mDisplayConfigs n \<and> mActiveConfig n' = mActiveConfig n \<and> mDesiredConfig n' = mDesiredConfig n \<and>
     mConfigRequestState n' = mConfigRequestState n \<and> mVsyncPeriod n' = mVsyncPeriod n \<and> cf_xres n' = cf_xres n \<and> cf_yres n' = cf_yres n \<and>
     cf_xdpi n' = cf_xdpi n \<and> cf_ydpi n' = cf_ydpi n"

lemma core_ok: "same_core n n' \<Longrightarrow> config_ok n \<Longrightarrow> config_ok n'"
  by (auto simp: same_core_def config_ok_def find_config_def)

lemma same_core_refl [simp]: "same_core n n"
  by (simp add: same_core_def)

lemma same_core_trans: "same_core a b \<Longrightarrow> same_core b c \<Longrightarrow> same_core a c"
  by (simp add: same_core_def)

lemma same_core_call [simp]: "same_core n (cf_call c n)" "same_core n n' \<Longrightarrow> same_core n (cf_call c n')"
  by (simp_all add: same_core_def cf_call_def)

lemma config_at_known: "find_config k n \<noteq> None \<Longrightarrow> config_at k n = (the (find_config k n), n)"
  by (auto simp: config_at_def)

lemma vsyncInternal_core: "same_core n (snd (setVsyncEnabledInternal ev e n))"
  by (simp add: setVsyncEnabledInternal_def same_core_def cf_call_def Let_def)

lemma map_option_all: "map_option f m = Some y \<Longrightarrow> (\<And>x. P (f x)) \<Longrightarrow> P y"
  by (cases m) auto

lemma timeline_core: "updateVsyncAppliedTimeLine ev actual n = Some n' \<Longrightarrow> same_core n n'"
  unfolding updateVsyncAppliedTimeLine_def
  by (erule map_option_all) (simp add: same_core_def cf_call_def Let_def split: prod.split)

lemma update_config:
  assumes "find_config k n = Some c"
  shows "updateInternalDisplayConfigVariables k False n =
    (HWC2_ERROR_NONE, n\<lparr>mActiveConfig := k, cf_xres := dc_width c, cf_yres := dc_height c, cf_xdpi := dc_Xdpi c, cf_ydpi := dc_Ydpi c\<rparr>)"
  using assms by (simp add: updateInternalDisplayConfigVariables_def find_config_def Let_def)

text \<open>Setting a configuration that exists either fails and changes nothing, or completes at once.\<close>

lemma internal_ok:
  fixes ev :: config_env
  assumes "find_config k n = Some c" "config_ok n"
  defines "n' \<equiv> snd (setActiveConfigInternal ev k n)"
  shows "config_ok n'" "mDisplayConfigs n' = mDisplayConfigs n"
    "if_setActiveConfig ev k < 0 \<Longrightarrow> same_core n n'"
    "if_setActiveConfig ev k \<ge> 0 \<Longrightarrow> mConfigRequestState n' = SET_CONFIG_STATE_NONE \<and> mActiveConfig n' = k \<and> mDesiredConfig n' = k"
    "mVsyncCallback n' = mVsyncCallback n" "mPendConfigInfo n' = mPendConfigInfo n" "mPowerModeState n' = mPowerModeState n"
proof -
  have at: "config_at k n = (c, n)" using assms(1) by (simp add: config_at_def)
  have "config_ok n' \<and> mDisplayConfigs n' = mDisplayConfigs n \<and> (if_setActiveConfig ev k < 0 \<longrightarrow> same_core n n') \<and>
      (if_setActiveConfig ev k \<ge> 0 \<longrightarrow> mConfigRequestState n' = SET_CONFIG_STATE_NONE \<and> mActiveConfig n' = k \<and> mDesiredConfig n' = k) \<and>
      mVsyncCallback n' = mVsyncCallback n \<and> mPendConfigInfo n' = mPendConfigInfo n \<and> mPowerModeState n' = mPowerModeState n"
  proof (cases "if_setActiveConfig ev k < 0")
    case True
    then have "n' = cf_call (Call_setActiveConfig k) n" by (simp add: n'_def setActiveConfigInternal_def at)
    then show ?thesis using True core_ok[OF _ assms(2), of n'] by (simp add: cf_call_def same_core_def)
  next
    case False
    have w: "mDisplayConfigs (setWorkingPeriod p m) = mDisplayConfigs m" "mVsyncCallback (setWorkingPeriod p m) = mVsyncCallback m"
      "mPendConfigInfo (setWorkingPeriod p m) = mPendConfigInfo m" "mPowerModeState (setWorkingPeriod p m) = mPowerModeState m" for p m
      by (simp_all add: setWorkingPeriod_def)
    show ?thesis
      using False assms(1)
      by (simp add: n'_def setActiveConfigInternal_def at config_ok_def updateInternalDisplayConfigVariables_def
          resetConfigRequestState_def period_of_def find_config_def w cf_call_def Let_def)
  qed
  then show "config_ok n'" "mDisplayConfigs n' = mDisplayConfigs n" "if_setActiveConfig ev k < 0 \<Longrightarrow> same_core n n'"
    "if_setActiveConfig ev k \<ge> 0 \<Longrightarrow> mConfigRequestState n' = SET_CONFIG_STATE_NONE \<and> mActiveConfig n' = k \<and> mDesiredConfig n' = k"
    "mVsyncCallback n' = mVsyncCallback n" "mPendConfigInfo n' = mPendConfigInfo n" "mPowerModeState n' = mPowerModeState n" by blast+
qed

text \<open>The invariant is kept, and the table of configurations stays as it is.\<close>

definition keeps :: "dconf \<Rightarrow> dconf \<Rightarrow> bool" where
  "keeps n n' \<longleftrightarrow> config_ok n' \<and> mDisplayConfigs n' = mDisplayConfigs n"

lemma keeps_core: "config_ok n \<Longrightarrow> same_core n n' \<Longrightarrow> keeps n n'"
  using core_ok by (simp add: keeps_def same_core_def)

lemma keeps_same: "config_ok n \<Longrightarrow> keeps n n"
  by (simp add: keeps_def)

lemma keeps_both: "keeps a b \<Longrightarrow> keeps b c \<Longrightarrow> keeps a c"
  by (simp add: keeps_def)

lemma keeps_known: "keeps n n' \<Longrightarrow> find_config k n' = find_config k n"
  by (simp add: keeps_def find_config_def)

lemma active_known: "config_ok n \<Longrightarrow> find_config (mActiveConfig n) n \<noteq> None"
  by (auto simp: config_ok_def)

lemma keeps_internal: "config_ok n \<Longrightarrow> find_config k n \<noteq> None \<Longrightarrow> keeps n (snd (setActiveConfigInternal ev k n))"
  using internal_ok(1,2)[of k n _ ev] by (auto simp: keeps_def)

lemma keeps_setActiveConfig: "config_ok n \<Longrightarrow> keeps n (snd (setActiveConfig ev k n))"
  using keeps_internal[of n k ev] keeps_same[of n] keeps_core[of n "n\<lparr>mPendConfigInfo := setPendConfig k (mPendConfigInfo n)\<rparr>"]
  by (auto simp: setActiveConfig_def isBadConfig_def same_core_def simp del: not_None_eq)

lemma check_core:
  assumes "config_ok n" "checkValidationConfigConstraints ev k con n = (ret, n')"
  shows "same_core n n'" "ret = HWC2_ERROR_NONE \<Longrightarrow> find_config k n \<noteq> None" "mVsyncCallback n' = mVsyncCallback n"
    "mPendConfigInfo n' = mPendConfigInfo n" "mPowerModeState n' = mPowerModeState n"
  using assms active_known[OF assms(1)]
  by (auto simp: checkValidationConfigConstraints_def isBadConfig_def config_at_known cf_call_def same_core_def split: if_splits)

lemma keeps_start:
  assumes "config_ok n" "find_config k n \<noteq> None" "startConfigChange ev k con t upd actual n = Some (ret, t', n')"
  shows "keeps n n'"
proof -
  let ?n = "n\<lparr>mConfigRequestState := SET_CONFIG_STATE_PENDING, mVsyncPeriodChangeConstraints := con, mDesiredConfig := k\<rparr>"
  have ok: "config_ok ?n" using assms(1,2) by (auto simp: config_ok_def find_config_def)
  have at: "config_at (mActiveConfig ?n) ?n = (the (find_config (mActiveConfig n) n), ?n)" "config_at k ?n = (the (find_config k n), ?n)"
    using assms(2) active_known[OF ok] by (auto simp: config_at_def find_config_def)
  have i: "keeps ?n (snd (setActiveConfigInternal ev k ?n))" using keeps_internal[OF ok] assms(2) by (simp add: find_config_def)
  have t: "keeps ?n (?n\<lparr>mVsyncAppliedTimeLine := u\<rparr>)" for u by (rule keeps_core[OF ok]) (simp add: same_core_def)
  have "keeps ?n n'"
    using assms(3) i t unfolding startConfigChange_def Let_def at by (auto simp: at split: if_splits)
  then show ?thesis by (simp add: keeps_def)
qed

lemma keeps_withConstraints:
  assumes "config_ok n" "setActiveConfigWithConstraints ev k con t upd n = Some (ret, t', n')"
  shows "keeps n n'"
proof -
  obtain r m where c: "checkValidationConfigConstraints ev k con n = (r, m)" by fastforce
  note cc = check_core[OF assms(1) c]
  have m: "config_ok m" "keeps n m" using keeps_core[OF assms(1) cc(1)] core_ok[OF cc(1) assms(1)] by auto
  have pend: "keeps m (m\<lparr>mPendConfigInfo := p\<rparr>)" for p by (rule keeps_core[OF m(1)]) (simp add: same_core_def)
  have known: "r = HWC2_ERROR_NONE \<Longrightarrow> find_config k m \<noteq> None" using cc(2) keeps_known[OF m(2)] by simp
  have "keeps m n'"
    using assms(2) keeps_same[OF m(1)] pend keeps_start[OF m(1)] known
    unfolding setActiveConfigWithConstraints_def Let_def c
    by (auto simp: config_at_known simp del: not_None_eq split: if_splits prod.splits)
  then show ?thesis using keeps_both[OF m(2)] by blast
qed

lemma request_core: "same_core (n\<lparr>mConfigRequestState := SET_CONFIG_STATE_REQUESTED\<rparr>) (requestConfig ev n)"
  using vsyncInternal_core[of "n\<lparr>mVsyncCallback := v\<rparr>" ev HWC2_VSYNC_ENABLE for v]
  by (simp add: requestConfig_def same_core_def Let_def)

lemma post_process_core:
  assumes "find_config (mDesiredConfig n) n \<noteq> None" "doDisplayConfigPostProcess ev n = Some (ret, n')"
  shows "same_core n n' \<or> same_core (n\<lparr>mConfigRequestState := SET_CONFIG_STATE_REQUESTED\<rparr>) n'"
proof -
  obtain r actual where a: "if_vsyncAppliedTime ev (mDesiredConfig n) = (r, actual)" by fastforce
  let ?c = "cf_call (Call_setActiveConfigWithConstraints (mDesiredConfig n) False) n"
  let ?R = "\<lambda>m. m\<lparr>mConfigRequestState := SET_CONFIG_STATE_REQUESTED\<rparr>"
  have "same_core (?R n) n'" if "updateVsyncAppliedTimeLine ev actual (requestConfig ev ?c) = Some n'"
  proof -
    have "same_core (?R n) (?R ?c)" by (simp add: same_core_def cf_call_def)
    then show ?thesis using same_core_trans request_core timeline_core[OF that] by blast
  qed
  moreover have "same_core n n'" if "updateVsyncAppliedTimeLine ev actual n = Some n'" using timeline_core[OF that] .
  ultimately show ?thesis
    using assms(2) unfolding doDisplayConfigPostProcess_def config_at_known[OF assms(1)] snd_conv Let_def a prod.case
    by (auto simp: cf_call_def split: if_splits) (simp_all add: same_core_def)
qed

lemma keeps_present:
  assumes "config_ok n" "presentConfig ev n = Some n'"
  shows "keeps n n'"
proof -
  obtain m where m: "if mConfigRequestState n = SET_CONFIG_STATE_PENDING then same_core n m \<or> same_core (n\<lparr>mConfigRequestState := SET_CONFIG_STATE_REQUESTED\<rparr>) m
      else m = n"
    and n': "n' = (if mConfigRequestState m = SET_CONFIG_STATE_REQUESTED then snd (updateInternalDisplayConfigVariables (mDesiredConfig m) False m) else m)"
    using assms(2) post_process_core[of n ev] assms(1)
    by (auto simp: presentConfig_def config_ok_def split: option.splits if_splits)
  have d: "mDisplayConfigs m = mDisplayConfigs n" using m by (auto simp: same_core_def split: if_splits)
  show ?thesis
  proof (cases "mConfigRequestState m = SET_CONFIG_STATE_REQUESTED")
    case False
    then have "same_core n m" using m by (auto simp: same_core_def split: if_splits)
    then show ?thesis using keeps_core[OF assms(1)] False n' by simp
  next
    case True
    have "find_config (mDesiredConfig m) m \<noteq> None"
      using m True assms(1) by (auto simp: config_ok_def same_core_def find_config_def split: if_splits)
    then obtain c where c: "find_config (mDesiredConfig m) m = Some c" by auto
    show ?thesis using True d c unfolding n' by (simp add: update_config[OF c] keeps_def config_ok_def find_config_def)
  qed
qed

lemma keeps_reset:
  assumes "config_ok n" "mConfigRequestState n = SET_CONFIG_STATE_REQUESTED"
  shows "keeps n (resetConfigRequestState ev n)"
  using assms by (auto simp: keeps_def config_ok_def resetConfigRequestState_def period_of_def find_config_def cf_call_def Let_def)

lemma callback_core: "same_core n (n\<lparr>mVsyncCallback := v\<rparr>)"
  by (simp add: same_core_def)

lemma keeps_finish:
  assumes "config_ok n" "mConfigRequestState n = SET_CONFIG_STATE_REQUESTED"
  shows "keeps n (finishConfigChange ev n)"
proof -
  define m where "m = (if vc_desired (mVsyncCallback n) \<noteq> 0
      then (let n = resetConfigRequestState ev n in n\<lparr>mVsyncCallback := (mVsyncCallback n)\<lparr>vc_desired := 0\<rparr>\<rparr>) else n)"
  have m: "keeps n m"
    using keeps_both[OF keeps_reset[OF assms, of ev] keeps_core[OF _ callback_core]] keeps_reset[OF assms, of ev] keeps_same[OF assms(1)]
    by (auto simp: m_def Let_def keeps_def)
  have "same_core m (finishConfigChange ev n)"
    using vsyncInternal_core[of m ev 0] unfolding finishConfigChange_def Let_def[of m] m_def[symmetric]
    by (simp add: same_core_def Let_def)
  then show ?thesis using keeps_both[OF m keeps_core] m by (simp add: keeps_def)
qed

lemma applied_time_core: "find_config (mDesiredConfig n) n \<noteq> None \<Longrightarrow> updateConfigRequestAppliedTime ev n = Some (ret, n') \<Longrightarrow> same_core n n'"
  using timeline_core by (auto simp: updateConfigRequestAppliedTime_def config_at_known Let_def simp del: not_None_eq split: if_splits prod.splits)

lemma keeps_applied:
  assumes "config_ok n" "mConfigRequestState n = SET_CONFIG_STATE_REQUESTED" "checkConfigApplied ev ts n = Some n'"
  shows "keeps n n'"
proof -
  obtain applied v where r: "Some n' = (if applied then Some (finishConfigChange ev (n\<lparr>mVsyncCallback := v\<rparr>))
      else map_option snd (updateConfigRequestAppliedTime ev (n\<lparr>mVsyncCallback := v\<rparr>)))"
  proof (cases "if_vsyncPeriod ev")
    case None
    obtain a v where "vsync_Callback ts (mVsyncCallback n) = (a, v)" by fastforce
    with None show ?thesis using assms(3) that[of a v] by (simp add: checkConfigApplied_def)
  next
    case (Some p)
    have e: "n\<lparr>mVsyncCallback := mVsyncCallback n\<rparr> = n" by simp
    show ?thesis using assms(3) Some that[of "(ucast p :: u64) div microsecsPerSec = vc_desired (mVsyncCallback n) div microsecsPerSec"
      "mVsyncCallback n", unfolded e] by (simp add: checkConfigApplied_def)
  qed
  let ?m = "n\<lparr>mVsyncCallback := v\<rparr>"
  have m: "keeps n ?m" "config_ok ?m" using keeps_core[OF assms(1) callback_core] by (auto simp: keeps_def)
  have d: "find_config (mDesiredConfig ?m) ?m \<noteq> None" using m(2) assms(2) by (auto simp: config_ok_def)
  have "keeps ?m n'"
  proof (cases applied)
    case True
    then show ?thesis using r keeps_finish[OF m(2)] assms(2) by simp
  next
    case False
    then have "map_option snd (updateConfigRequestAppliedTime ev ?m) = Some n'" using r by simp
    then obtain ret where "updateConfigRequestAppliedTime ev ?m = Some (ret, n')" by auto
    then show ?thesis using keeps_core[OF m(2)] applied_time_core[OF d] by blast
  qed
  then show ?thesis using keeps_both[OF m(1)] by blast
qed

lemma keeps_vsync:
  assumes "config_ok n" "handleVsync ev ts n = Some n'"
  shows "keeps n n'"
proof -
  obtain m where m: "keeps n m" and n': "n' = m \<or> (\<exists>c. n' = cf_call c m)"
    using assms(2) keeps_applied[OF assms(1), of ev] keeps_same[OF assms(1)]
    by (auto simp: handleVsync_def Let_def split: option.splits if_splits)
  have "keeps m n'" using n' keeps_core[of m n'] m by (auto simp: keeps_def)
  then show ?thesis using keeps_both[OF m] by blast
qed

lemma pend_core: "same_core n (n\<lparr>mPendConfigInfo := p\<rparr>)"
  by (simp add: same_core_def)

lemma keeps_applyPend:
  assumes "config_ok n" "applyPendConfig ev n = Some n'"
  shows "keeps n n'"
proof (cases "pend_type (mPendConfigInfo n)")
  case NO_CONSTRAINTS
  then show ?thesis using assms keeps_setActiveConfig by (simp add: applyPendConfig_def Let_def) blast
next
  case WITH_CONSTRAINTS
  then obtain ret t m where m: "setActiveConfigWithConstraints ev (pend_config (mPendConfigInfo n)) (pend_constraints (mPendConfigInfo n))
      (pend_timeline (mPendConfigInfo n)) False n = Some (ret, t, m)" and n': "n' = m\<lparr>mPendConfigInfo := (mPendConfigInfo m)\<lparr>pend_timeline := t\<rparr>\<rparr>"
    using assms(2) by (auto simp: applyPendConfig_def Let_def)
  note k = keeps_withConstraints[OF assms(1) m]
  show ?thesis unfolding n' by (rule keeps_both[OF k keeps_core[OF _ pend_core]]) (use k in \<open>simp add: keeps_def\<close>)
qed

lemma keeps_restore:
  assumes "config_ok n" "restoreConfig ev n = Some n'"
  shows "keeps n n'"
proof -
  let ?m = "snd (setActiveConfigInternal ev (mActiveConfig n) n)"
  have m: "keeps n ?m" "config_ok ?m" using keeps_internal[OF assms(1) active_known[OF assms(1)], of ev] by (simp_all add: keeps_def)
  have "keeps ?m n'"
  proof (cases "mConfigRequestState n = SET_CONFIG_STATE_PENDING")
    case False
    then show ?thesis using assms(2) keeps_same[OF m(2)] by (simp add: restoreConfig_def Let_def)
  next
    case True
    let ?p = "mPendConfigInfo ?m"
    obtain ret t l where l: "setActiveConfigWithConstraints ev (pend_config ?p) (pend_constraints ?p) (pend_timeline ?p) False ?m = Some (ret, t, l)"
      and n': "n' = cf_call Call_invalidate (l\<lparr>mPendConfigInfo := (mPendConfigInfo l)\<lparr>pend_timeline := t\<rparr>\<rparr>)"
      using assms(2) True by (auto simp: restoreConfig_def Let_def)
    note k = keeps_withConstraints[OF m(2) l]
    have "same_core l n'" unfolding n' by (rule same_core_call(2)[OF pend_core])
    then show ?thesis using keeps_both[OF k keeps_core] k by (simp add: keeps_def)
  qed
  then show ?thesis using keeps_both[OF m(1)] by blast
qed

lemma case_some: "(case x of None \<Rightarrow> None | Some a \<Rightarrow> f a) = Some y \<Longrightarrow> \<exists>a. x = Some a \<and> f a = Some y"
  by (cases x) auto

lemma keeps_powerOn:
  assumes "config_ok n" "setPowerOn ev n = Some n'"
  shows "keeps n n'"
proof -
  define b where "b = (if \<not> if_drm ev \<or> mPowerModeState n = POWER_MODE_OFF \<or> mPowerModeState n = POWER_MODE_DOZE_SUSPEND
      then cf_call (Call_setPowerMode POWER_MODE_ON) n else n)"
  define a where "a = b\<lparr>mPowerModeState := POWER_MODE_ON\<rparr>"
  have "same_core n a" by (simp add: a_def b_def same_core_def cf_call_def)
  then have a: "keeps n a" by (rule keeps_core[OF assms(1)])
  then have aok: "config_ok a" by (simp add: keeps_def)
  note on = assms(2)[unfolded setPowerOn_def Let_def, folded b_def, folded a_def]
  obtain m where m: "(if isPending (mPendConfigInfo a) \<and> mActiveConfig a \<noteq> pend_config (mPendConfigInfo a) then applyPendConfig ev a else Some a) = Some m"
    and r: "\<exists>restore. map_option (\<lambda>n. n\<lparr>mPendConfigInfo := (mPendConfigInfo n)\<lparr>isPending := False\<rparr>\<rparr>) (if restore then restoreConfig ev m else Some m) = Some n'"
    using case_some[OF on] by blast
  have km: "keeps a m" using m keeps_applyPend[OF aok] keeps_same[OF aok] by (auto split: if_splits)
  then have mok: "config_ok m" by (simp add: keeps_def)
  let ?done = "\<lambda>n. n\<lparr>mPendConfigInfo := (mPendConfigInfo n)\<lparr>isPending := False\<rparr>\<rparr>"
  obtain restore where "map_option ?done (if restore then restoreConfig ev m else Some m) = Some n'" using r by blast
  then obtain l where l0: "(if restore then restoreConfig ev m else Some m) = Some l" and n': "n' = ?done l" by blast
  have l: "keeps m l" using l0 keeps_restore[OF mok] keeps_same[OF mok] by (cases restore) simp_all
  have "config_ok l" using l by (simp add: keeps_def)
  then have "keeps l n'" unfolding n' by (rule keeps_core[OF _ pend_core])
  then show ?thesis using keeps_both[OF keeps_both[OF keeps_both[OF a km] l]] by blast
qed

lemma keeps_powerOff: "config_ok n \<Longrightarrow> keeps n (setPowerOff ev n)"
proof -
  assume ok: "config_ok n"
  define a where "a = cf_call Call_clearDisplay n"
  define b where "b = (if mPowerModeState a \<noteq> POWER_MODE_ON then snd (setActiveConfigInternal ev (mActiveConfig a) a) else a)"
  have a: "keeps n a" using keeps_core[OF ok] by (simp add: a_def)
  then have aok: "config_ok a" by (simp add: keeps_def)
  have b: "keeps a b" using keeps_internal[OF aok active_known[OF aok], of ev] keeps_same[OF aok] by (simp add: b_def)
  have "same_core b (setPowerOff ev n)"
    unfolding setPowerOff_def Let_def a_def[symmetric] b_def[symmetric] by (simp add: same_core_def cf_call_def)
  moreover have "config_ok b" using b by (simp add: keeps_def)
  ultimately have "keeps b (setPowerOff ev n)" using keeps_core by blast
  then show "keeps n (setPowerOff ev n)" using keeps_both a b by blast
qed

lemma keeps_doze: "config_ok n \<Longrightarrow> keeps n (snd (setPowerDoze ev s n))"
  by (rule keeps_core) (simp_all add: setPowerDoze_def same_core_def cf_call_def Let_def)

lemma keeps_power:
  assumes "config_ok n" "setPowerMode ev mode n = Some (ret, n')"
  shows "keeps n n'"
  using assms keeps_powerOn keeps_powerOff[OF assms(1), of ev] keeps_doze[OF assms(1), of ev] keeps_same[OF assms(1)]
  by (auto simp: setPowerMode_def split: if_splits power_mode.splits) (metis snd_conv)+

lemma keeps_setVsync:
  assumes "config_ok n"
  shows "keeps n (setVsyncEnabled ev e n)"
proof -
  have "same_core n (if e = HWC2_VSYNC_ENABLE then snd (setVsyncEnabledInternal ev e n)
      else if vc_desired (mVsyncCallback n) = 0 then snd (setVsyncEnabledInternal ev HWC2_VSYNC_DISABLE n) else n)"
    by (simp add: vsyncInternal_core)
  then have "same_core n (setVsyncEnabled ev e n)" unfolding setVsyncEnabled_def Let_def by (simp add: same_core_def)
  then show ?thesis by (rule keeps_core[OF assms])
qed

lemma keeps_do: "config_ok n \<Longrightarrow> config_do ev s n = Some n' \<Longrightarrow> keeps n n'"
  using keeps_setActiveConfig keeps_withConstraints keeps_power keeps_setVsync keeps_vsync keeps_present keeps_internal[OF _ active_known] keeps_same
  by (cases s) (auto simp: config_do_def applyPendingConfig_def)

end
