(* ===== verification/ConfigRuns.thy ===== *)
theory ConfigRuns
  imports ConfigSafety
begin

text \<open>
  Runs of the configuration machine: the invariant, a request that is carried out, a request a low power mode makes the display forget, and
  a vertical sync that is never switched off.
\<close>

section \<open>All runs\<close>

text \<open>
  C29: the announced time of a change is the first vertical sync, counted from the time the driver names, that
  is not before the wanted time; when the period is 0 and the wanted time is still to come, the
  computation does not return, holding the lock of the display.
\<close>

theorem applied_time_exact:
  assumes "0 \<le> desired" "desired < 2 ^ 62" "0 \<le> actual" "actual < 2 ^ 62"
  shows "getConfigAppliedTime ev desired actual n =
    (if desired \<le> actual then Some (actual, actual - uint (if_changeDuration ev * mVsyncPeriod n))
     else if mVsyncPeriod n = 0 then None
     else (let p = uint (mVsyncPeriod n); t = actual + ((desired - actual + p - 1) div p) * p
           in Some (t, t - uint (if_changeDuration ev * mVsyncPeriod n))))"
  using assms by (rule advance_time)

text \<open>
  C15: whatever SurfaceFlinger asks for and whatever the driver answers, the active configuration of the display exists
  and its size is the one the display works with, a configuration that waits exists, one that was handed to the
  driver is the active one, and the period is that of the active configuration while no change is on its way.
\<close>

theorem config_invariant:
  assumes "config_run ss n = Some n'" "config_ok n"
  shows "config_ok n' \<and> mDisplayConfigs n' = mDisplayConfigs n"
  using assms
proof (induction ss arbitrary: n)
  case (Cons s ss)
  then obtain m where m: "config_do (fst s) (snd s) n = Some m" "config_run ss m = Some n'" by (auto split: option.splits)
  note k = keeps_do[OF Cons.prems(2) m(1)]
  then show ?case using Cons.IH[OF m(2)] by (simp add: keeps_def)
qed simp

section \<open>A request is carried out\<close>

text \<open>A request within a group is taken, with the time of the change announced.\<close>

lemma request_taken:
  assumes "config_ok n" "mPowerModeState n = POWER_MODE_ON" "mConfigRequestState n = SET_CONFIG_STATE_NONE" "k \<noteq> mActiveConfig n"
    and "find_config (mActiveConfig n) n = Some a" "find_config k n = Some c" "dc_groupId a = dc_groupId c"
    and "length (mDisplayConfigs n) \<noteq> 1" "seamlessRequired con \<longrightarrow> if_setActiveConfigWithConstraints ev k True = 0"
    and "if_vsyncAppliedTime ev k = (0, actual)" "0 \<le> actual" "actual < 2 ^ 62" "0 \<le> desiredTimeNanos con" "desiredTimeNanos con < 2 ^ 62"
    and "mVsyncPeriod n \<noteq> 0"
  obtains t' n' where "setActiveConfigWithConstraints ev k con t True n = Some (HWC2_ERROR_NONE, t', n')"
    "mConfigRequestState n' = SET_CONFIG_STATE_PENDING" "mDesiredConfig n' = k" "mActiveConfig n' = mActiveConfig n"
    "mDisplayConfigs n' = mDisplayConfigs n" "mPowerModeState n' = POWER_MODE_ON" "mVsyncPeriodChangeConstraints n' = con" "mVsyncPeriod n' = mVsyncPeriod n"
proof -
  obtain r m where c: "checkValidationConfigConstraints ev k con n = (r, m)" by fastforce
  note cc = check_core[OF assms(1) c]
  have r: "r = HWC2_ERROR_NONE"
    using c assms(5-7,9) by (auto simp: checkValidationConfigConstraints_def isBadConfig_def config_at_def split: if_splits)
  have m: "mDisplayConfigs m = mDisplayConfigs n" "mActiveConfig m = mActiveConfig n" "mConfigRequestState m = SET_CONFIG_STATE_NONE"
    "mVsyncPeriod m = mVsyncPeriod n" "mPowerModeState m = POWER_MODE_ON"
    using cc(1,5) assms(2,3) by (simp_all add: same_core_def)
  then have f: "find_config j m = find_config j n" for j by (simp add: find_config_def)
  have need: "needChangeConfig k m" using assms(4,8) by (auto simp: needChangeConfig_def m)
  let ?n = "m\<lparr>mConfigRequestState := SET_CONFIG_STATE_PENDING, mVsyncPeriodChangeConstraints := con, mDesiredConfig := k\<rparr>"
  have fn: "find_config j ?n = find_config j n" for j using f by (simp add: find_config_def)
  have at: "config_at (mActiveConfig n) ?n = (a, ?n)" "config_at k ?n = (c, ?n)" "config_at k m = (c, m)"
    using assms(5,6) by (simp_all add: config_at_def fn f m)
  obtain applied refresh where t: "getConfigAppliedTime ev (desiredTimeNanos con) actual ?n = Some (applied, refresh)"
  proof -
    have "mVsyncPeriod ?n \<noteq> 0" using assms(15) m by simp
    then have "getConfigAppliedTime ev (desiredTimeNanos con) actual ?n \<noteq> None"
      using advance_time[OF assms(13,14,11,12), of ev ?n] by (auto simp: Let_def split: if_splits)
    then show ?thesis using that by fastforce
  qed
  have "setActiveConfigWithConstraints ev k con t True n =
      (let t = t\<lparr>refreshRequired := True, newVsyncAppliedTimeNanos := applied, refreshTimeNanos := refresh\<rparr>
       in Some (HWC2_ERROR_NONE, t, ?n\<lparr>mVsyncAppliedTimeLine := t\<rparr>))"
    using t assms(7,10) unfolding setActiveConfigWithConstraints_def Let_def c r
    by (simp add: m need at startConfigChange_def Let_def)
  then show thesis using that m by (simp add: Let_def)
qed

text \<open>The next frame hands it to the driver, once its time has come.\<close>

lemma request_handed:
  assumes "mConfigRequestState n = SET_CONFIG_STATE_PENDING" "mPowerModeState n = POWER_MODE_ON" "find_config (mDesiredConfig n) n = Some c"
    and "if_vsyncAppliedTime ev (mDesiredConfig n) = (0, actual)" "desiredTimeNanos (mVsyncPeriodChangeConstraints n) \<le> actual"
    and "0 \<le> desiredTimeNanos (mVsyncPeriodChangeConstraints n)" "actual < 2 ^ 62"
    and "if_setActiveConfigWithConstraints ev (mDesiredConfig n) False = 0"
  obtains n' where "presentConfig ev n = Some n'" "mConfigRequestState n' = SET_CONFIG_STATE_REQUESTED" "mDesiredConfig n' = mDesiredConfig n"
    "mActiveConfig n' = mDesiredConfig n" "mDisplayConfigs n' = mDisplayConfigs n"
    "vc_desired (mVsyncCallback n') = word_of_int (sint (dc_vsyncPeriod c))" "Call_setActiveConfigWithConstraints (mDesiredConfig n) False \<in> set (cf_calls n')"
proof -
  let ?k = "mDesiredConfig n" and ?con = "mVsyncPeriodChangeConstraints n"
  let ?c = "cf_call (Call_setActiveConfigWithConstraints ?k False) n"
  let ?r = "requestConfig ev ?c"
  have at: "config_at ?k n = (c, n)" using assms(3) by (simp add: config_at_def)
  have fields: "mVsyncPeriodChangeConstraints ?r = ?con" "vc_desired (mVsyncCallback ?r) = word_of_int (sint (dc_vsyncPeriod c))"
    "Call_setActiveConfigWithConstraints ?k False \<in> set (cf_calls ?r)"
    using assms(3) by (simp_all add: requestConfig_def setVsyncEnabledInternal_def setDesiredVsyncPeriod_def cf_call_def
        period_of_def find_config_def Let_def)
  have core: "same_core (n\<lparr>mConfigRequestState := SET_CONFIG_STATE_REQUESTED\<rparr>) ?r"
    using request_core[of ?c ev] by (simp add: same_core_def cf_call_def)
  have t: "getConfigAppliedTime ev (desiredTimeNanos ?con) actual ?r \<noteq> None"
    using advance_time[of "desiredTimeNanos ?con" actual ev ?r] assms(5-7) by simp
  then obtain m where m: "updateVsyncAppliedTimeLine ev actual ?r = Some m" by (auto simp: updateVsyncAppliedTimeLine_def fields(1))
  have keep: "mVsyncCallback m = mVsyncCallback ?r \<and> set (cf_calls ?r) \<subseteq> set (cf_calls m)"
    using m unfolding updateVsyncAppliedTimeLine_def by (rule map_option_all) (auto simp: cf_call_def Let_def split: prod.split)
  have "doDisplayConfigPostProcess ev n = Some (0, m)"
    unfolding doDisplayConfigPostProcess_def at snd_conv Let_def assms(4) prod.case using assms(2,5,8) m by (simp add: cf_call_def)
  moreover have mc: "same_core (n\<lparr>mConfigRequestState := SET_CONFIG_STATE_REQUESTED\<rparr>) m" using same_core_trans[OF core timeline_core[OF m]] .
  ultimately have p: "presentConfig ev n = Some (snd (updateInternalDisplayConfigVariables ?k False m))"
    using assms(1) by (simp add: presentConfig_def same_core_def)
  have "find_config ?k m = Some c" using mc assms(3) by (simp add: same_core_def find_config_def)
  from update_config[OF this] show thesis using that[OF p] mc fields(2,3) keep by (auto simp: same_core_def)
qed

text \<open>The vertical sync with the wanted period completes it.\<close>

lemma request_confirmed:
  assumes "mConfigRequestState n = SET_CONFIG_STATE_REQUESTED" "vc_desired (mVsyncCallback n) \<noteq> 0" "find_config (mDesiredConfig n) n = Some c"
    and "if_vsyncPeriod ev = Some p" "p \<noteq> 0" "(ucast p :: u64) div microsecsPerSec = vc_desired (mVsyncCallback n) div microsecsPerSec"
  obtains n' where "handleVsync ev ts n = Some n'" "mConfigRequestState n' = SET_CONFIG_STATE_NONE" "mActiveConfig n' = mActiveConfig n"
    "mVsyncPeriod n' = dc_vsyncPeriod c" "vc_desired (mVsyncCallback n') = 0" "set (cf_calls n) \<subseteq> set (cf_calls n')"
proof -
  let ?f = "finishConfigChange ev n"
  have f: "mConfigRequestState ?f = SET_CONFIG_STATE_NONE" "mActiveConfig ?f = mActiveConfig n" "mVsyncPeriod ?f = dc_vsyncPeriod c"
    "vc_desired (mVsyncCallback ?f) = 0" "set (cf_calls n) \<subseteq> set (cf_calls ?f)"
    using assms(2,3) by (auto simp: finishConfigChange_def resetConfigRequestState_def setVsyncEnabledInternal_def period_of_def
        find_config_def cf_call_def HWC2_VSYNC_DISABLE_def HWC2_VSYNC_ENABLE_def Let_def)
  have "checkConfigApplied ev t n = Some ?f" for t using assms(4,6) by (simp add: checkConfigApplied_def)
  then have "handleVsync ev ts n \<in> {Some ?f, Some (cf_call (Call_vsync ts) ?f), Some (cf_call (Call_vsync (cf_timestamp ev)) ?f)}"
    using assms(1,4,5) by (simp add: handleVsync_def Let_def)
  then show thesis using that f by (auto simp: cf_call_def) blast+
qed

lemma widen_period: "word_of_int (sint w) = (ucast w :: u64)" if "w < 2 ^ 31" for w :: u32
proof -
  have "uint w < 2 ^ 31" using that by (simp add: word_less_def)
  moreover have "- (2 ^ 31) \<le> uint w" by (rule order_trans[OF _ uint_ge_0]) simp
  ultimately have "sint w = uint w" using sint_of_small[of "uint w"] by simp
  moreover have "uint (ucast w :: u64) = uint w" by (simp only: uint_nat unat_widen)
  ultimately show ?thesis by (metis word_of_int_uint)
qed

lemma widen_zero: "(ucast w :: u64) = 0 \<longleftrightarrow> w = 0" for w :: u32
  using unat_widen[of w] unat_eq_0[of w] unat_eq_0[of "ucast w :: u64"] by metis

lemma same_milliseconds: "p div 1000000 = q div 1000000 \<Longrightarrow> (ucast p :: u64) div microsecsPerSec = ucast q div microsecsPerSec" for p q :: u32
proof -
  assume "p div 1000000 = q div 1000000"
  then have "unat p div 1000000 = unat q div 1000000" using unat_div[of p 1000000] unat_div[of q 1000000] by simp
  then have "unat ((ucast p :: u64) div microsecsPerSec) = unat ((ucast q :: u64) div microsecsPerSec)"
    by (simp add: microsecsPerSec_def unat_div unat_widen)
  then show "(ucast p :: u64) div microsecsPerSec = ucast q div microsecsPerSec" by (simp only: word_unat_eq_iff)
qed


section \<open>A request that is forgotten\<close>

lemma start_desired:
  assumes "config_ok n" "find_config k n \<noteq> None" "startConfigChange ev k con t upd actual n = Some (ret, t', n')"
  shows "mDesiredConfig n' = k"
proof -
  let ?n = "n\<lparr>mConfigRequestState := SET_CONFIG_STATE_PENDING, mVsyncPeriodChangeConstraints := con, mDesiredConfig := k\<rparr>"
  have ok: "config_ok ?n" using assms(1,2) by (auto simp: config_ok_def find_config_def)
  obtain c where c: "find_config k ?n = Some c" using assms(2) by (auto simp: find_config_def)
  have at: "config_at (mActiveConfig n) ?n = (the (find_config (mActiveConfig n) n), ?n)" "config_at k ?n = (the (find_config k n), ?n)"
    using assms(2) active_known[OF ok] by (auto simp: config_at_def find_config_def)
  have i: "mDesiredConfig (snd (setActiveConfigInternal ev k ?n)) = k"
    using internal_ok(3,4)[OF c ok, of ev] by (cases "if_setActiveConfig ev k < 0") (auto simp: same_core_def)
  show ?thesis using assms(3) i unfolding startConfigChange_def Let_def by (auto simp: at split: if_splits)
qed

lemma with_constraints_desired:
  assumes "config_ok n" "setActiveConfigWithConstraints ev k con t upd n = Some (ret, t', n')"
  shows "mDesiredConfig n' \<in> {mDesiredConfig n, k}"
proof -
  obtain r m where c: "checkValidationConfigConstraints ev k con n = (r, m)" by fastforce
  note cc = check_core[OF assms(1) c]
  have m: "config_ok m" "mDesiredConfig m = mDesiredConfig n" using core_ok[OF cc(1) assms(1)] cc(1) by (auto simp: same_core_def)
  have known: "r = HWC2_ERROR_NONE \<Longrightarrow> find_config k m \<noteq> None" using cc(1,2) by (simp add: same_core_def find_config_def)
  show ?thesis
    using assms(2) m start_desired[OF m(1)] known unfolding setActiveConfigWithConstraints_def Let_def c
    by (auto simp: config_at_known simp del: not_None_eq split: if_splits prod.splits)
qed

text \<open>
  C20: a request that waits for its time is lost when the display goes to a low power mode and back before it was handed
  to the driver: the display then waits for the active configuration or for the one it was asked
  for when it was last powered down, however long ago that was.
\<close>

theorem doze_forgets_request:
  assumes "config_ok n" "mPowerModeState n = POWER_MODE_ON" "mConfigRequestState n = SET_CONFIG_STATE_PENDING" "\<not> isPending (mPendConfigInfo n)"
    and "if_doze e1" "if_setLowPowerMode e1 False = 0" "0 \<le> if_setActiveConfig e2 (mActiveConfig n)"
    and "config_run [(e1, Set_power POWER_MODE_DOZE), (e2, Set_power POWER_MODE_ON)] n = Some n'"
  shows "mDesiredConfig n' \<in> {mActiveConfig n, pend_config (mPendConfigInfo n)}"
proof -
  define d where "d = (cf_call (Call_setLowPowerMode False) n)\<lparr>mPowerModeState := POWER_MODE_DOZE\<rparr>"
  have d: "config_do e1 (Set_power POWER_MODE_DOZE) n = Some d"
    using assms(2,5,6) by (simp add: config_do_def setPowerMode_def setPowerDoze_def d_def Let_def)
  define b where "b = (if \<not> if_drm e2 \<or> mPowerModeState d = POWER_MODE_OFF \<or> mPowerModeState d = POWER_MODE_DOZE_SUSPEND
      then cf_call (Call_setPowerMode POWER_MODE_ON) d else d)"
  define a where "a = b\<lparr>mPowerModeState := POWER_MODE_ON\<rparr>"
  have core: "same_core n a" "mPendConfigInfo a = mPendConfigInfo n" "mPowerModeState a = POWER_MODE_ON"
    by (simp_all add: a_def b_def d_def same_core_def cf_call_def)
  then have ok: "config_ok a" and ac: "mActiveConfig a = mActiveConfig n" "mConfigRequestState a = SET_CONFIG_STATE_PENDING"
    using core_ok[OF core(1) assms(1)] assms(3) by (simp_all add: same_core_def)
  have "config_do e2 (Set_power POWER_MODE_ON) d = Some n'" using assms(8) d by (auto split: option.splits)
  then have "setPowerOn e2 d = Some n'" by (auto simp: config_do_def setPowerMode_def d_def split: if_splits)
  then have "map_option (\<lambda>n. n\<lparr>mPendConfigInfo := (mPendConfigInfo n)\<lparr>isPending := False\<rparr>\<rparr>) (restoreConfig e2 a) = Some n'"
    using assms(4) core(2) unfolding setPowerOn_def Let_def b_def[symmetric] a_def[symmetric] by (simp add: d_def)
  then obtain r where r: "restoreConfig e2 a = Some r" "mDesiredConfig n' = mDesiredConfig r" by auto
  define i where "i = snd (setActiveConfigInternal e2 (mActiveConfig a) a)"
  obtain ca where ca: "find_config (mActiveConfig a) a = Some ca" using active_known[OF ok] by auto
  note int = internal_ok[OF ca ok, of e2, folded i_def]
  have i: "config_ok i" "mDesiredConfig i = mActiveConfig n" "mPendConfigInfo i = mPendConfigInfo n"
    using int(1,4,6) assms(7) ac core(2) by simp_all
  obtain ret t l where l: "setActiveConfigWithConstraints e2 (pend_config (mPendConfigInfo n)) (pend_constraints (mPendConfigInfo n))
      (pend_timeline (mPendConfigInfo n)) False i = Some (ret, t, l)" and "mDesiredConfig r = mDesiredConfig l"
    using r(1) ac(2) unfolding restoreConfig_def Let_def i_def[symmetric] i(3) by (auto simp: cf_call_def)
  with r(2) with_constraints_desired[OF i(1) l] i(2) show ?thesis by auto
qed

section \<open>A vertical sync that stays on\<close>

definition quiet_step :: "config_step \<Rightarrow> bool" where
  "quiet_step s \<longleftrightarrow> (case s of Set_vsync e \<Rightarrow> True | Vsync ts \<Rightarrow> True | Present \<Rightarrow> True | _ \<Rightarrow> False)"

definition switched_off :: "dconf \<Rightarrow> nat" where
  "switched_off n = length (filter (\<lambda>c. c = Call_setVsyncEnabled False) (cf_calls n))"

definition waits_in_vain :: "dconf \<Rightarrow> bool" where
  "waits_in_vain n \<longleftrightarrow> mConfigRequestState n = SET_CONFIG_STATE_NONE \<and> vc_desired (mVsyncCallback n) \<noteq> 0"

lemma quiet_keeps:
  assumes "waits_in_vain n" "quiet_step s" "config_do ev s n = Some n'"
  shows "waits_in_vain n' \<and> switched_off n' = switched_off n"
  using assms
  by (cases s)
    (auto simp: quiet_step_def config_do_def waits_in_vain_def switched_off_def handleVsync_def presentConfig_def setVsyncEnabled_def
      setVsyncEnabledInternal_def enableVSync_def cf_call_def Let_def split: if_splits)

lemma quiet_run:
  assumes "waits_in_vain n" "\<forall>s\<in>set ss. quiet_step (snd s)" "config_run ss n = Some n'"
  shows "waits_in_vain n' \<and> switched_off n' = switched_off n"
  using assms
proof (induction ss arbitrary: n)
  case (Cons s ss)
  then obtain m where m: "config_do (fst s) (snd s) n = Some m" "config_run ss m = Some n'" by (auto split: option.splits)
  have "waits_in_vain m \<and> switched_off m = switched_off n" using quiet_keeps[OF Cons.prems(1) _ m(1)] Cons.prems(2) by simp
  then show ?case using Cons.IH[OF _ _ m(2)] Cons.prems(2) by simp
qed simp


section \<open>Witnesses\<close>

text \<open>A panel with 60 and 120 frames a second.\<close>

definition sample_panel :: "(u32 \<times> displayConfigs) list" where
  "sample_panel = map (\<lambda>(k, p). (k, \<lparr>dc_vsyncPeriod = p, dc_width = 1080, dc_height = 2340, dc_Xdpi = 400, dc_Ydpi = 400, dc_groupId = 0\<rparr>))
     [(0, 16666666), (1, 8333333)]"

definition sample_conf :: dconf where
  "sample_conf = \<lparr>mDisplayConfigs = sample_panel, mActiveConfig = 0, mDesiredConfig = 0, mConfigRequestState = SET_CONFIG_STATE_NONE,
     mVsyncPeriodChangeConstraints = \<lparr>desiredTimeNanos = 0, seamlessRequired = False\<rparr>,
     mVsyncAppliedTimeLine = \<lparr>newVsyncAppliedTimeNanos = 0, refreshRequired = False, refreshTimeNanos = 0\<rparr>,
     mPendConfigInfo = \<lparr>isPending = False, pend_config = -1, pend_type = NO_CONSTRAINTS, pend_constraints = \<lparr>desiredTimeNanos = 0, seamlessRequired = False\<rparr>,
       pend_timeline = \<lparr>newVsyncAppliedTimeNanos = 0, refreshRequired = False, refreshTimeNanos = 0\<rparr>\<rparr>,
     mVsyncCallback = \<lparr>vc_enabled = False, vc_timestamp = 0, vc_period = 0, vc_desired = 0\<rparr>, mVsyncState = HWC2_VSYNC_DISABLE, mVsyncPeriod = 16666666,
     cf_xres = 1080, cf_yres = 2340, cf_xdpi = 400, cf_ydpi = 400, mPowerModeState = POWER_MODE_ON, mDisplayConfigPending = False,
     cf_workingPeriod = 0, cf_workingChanged = False, cf_calls = []\<rparr>"

definition sample_panel_env :: config_env where
  "sample_panel_env = \<lparr>if_setActiveConfig = (\<lambda>_. 0), if_setActiveConfigWithConstraints = (\<lambda>_ _. 0), if_vsyncAppliedTime = (\<lambda>_. (0, 1000)),
     if_changeDuration = 2, if_vsyncPeriod = Some 8333333, if_setVsyncEnabled = (\<lambda>_. 0), if_workingPeriod = 0, if_drm = True, if_doze = True,
     if_setLowPowerMode = (\<lambda>_. 0), cf_now = 0, cf_later = 0, cf_timestamp = 5, cf_timingCallback = True, cf_fpsCallback = False,
     cf_vsyncDisplay = True, cf_primary = True, cf_validated = False\<rparr>"

definition sample_wish :: "int \<Rightarrow> vsync_constraints" where
  "sample_wish t = \<lparr>desiredTimeNanos = t, seamlessRequired = True\<rparr>"

definition sample_line :: vsync_timeline where
  "sample_line = \<lparr>newVsyncAppliedTimeNanos = 0, refreshRequired = False, refreshTimeNanos = 0\<rparr>"

lemma sample_conf_ok [simp]: "config_ok sample_conf"
  by (simp add: config_ok_def find_config_def sample_conf_def sample_panel_def)

lemma sample_find [simp]:
  "find_config 0 sample_conf = Some \<lparr>dc_vsyncPeriod = 16666666, dc_width = 1080, dc_height = 2340, dc_Xdpi = 400, dc_Ydpi = 400, dc_groupId = 0\<rparr>"
  "find_config 1 sample_conf = Some \<lparr>dc_vsyncPeriod = 8333333, dc_width = 1080, dc_height = 2340, dc_Xdpi = 400, dc_Ydpi = 400, dc_groupId = 0\<rparr>"
  by (simp_all add: find_config_def sample_conf_def sample_panel_def)

lemma sample_conf_fields [simp]:
  "mPowerModeState sample_conf = POWER_MODE_ON" "mConfigRequestState sample_conf = SET_CONFIG_STATE_NONE" "mActiveConfig sample_conf = 0"
  "length (mDisplayConfigs sample_conf) = 2" "mVsyncPeriod sample_conf = 16666666"
  by (simp_all add: sample_conf_def sample_panel_def)

lemma sample_env_fields [simp]:
  "if_setActiveConfigWithConstraints sample_panel_env k test = 0" "if_vsyncAppliedTime sample_panel_env k = (0, 1000)"
  "if_vsyncPeriod sample_panel_env = Some 8333333" "if_setActiveConfig sample_panel_env k = 0" "if_doze sample_panel_env"
  "if_setLowPowerMode sample_panel_env s = 0" "if_setVsyncEnabled sample_panel_env e = 0" "if_drm sample_panel_env"
  by (simp_all add: sample_panel_env_def)

lemma sample_wish_time [simp]: "desiredTimeNanos (sample_wish t) = t"
  by (simp add: sample_wish_def)


text \<open>The panel with a request that waits, and one that has been handed on.\<close>

definition sample_waiting :: "request_state \<Rightarrow> dconf" where
  "sample_waiting st = sample_conf\<lparr>mConfigRequestState := st, mDesiredConfig := (if st = SET_CONFIG_STATE_PENDING then 1 else 0),
     mVsyncCallback := \<lparr>vc_enabled = True, vc_timestamp = 0, vc_period = 0, vc_desired = 16666666\<rparr>\<rparr>"

lemma sample_waiting_ok [simp]: "config_ok (sample_waiting st)"
  using sample_conf_ok by (simp add: sample_waiting_def config_ok_def find_config_def) (simp add: sample_conf_def sample_panel_def)

lemma bad_config_returns: "isBadConfig k n \<Longrightarrow> setActiveConfigWithConstraints ev k con t u n = Some (HWC2_ERROR_BAD_CONFIG, t, n)"
  by (simp add: setActiveConfigWithConstraints_def checkValidationConfigConstraints_def)

theorem doze_forgets_request_witness:
  "case config_run [(sample_panel_env, Set_power POWER_MODE_DOZE), (sample_panel_env, Set_power POWER_MODE_ON)] (sample_waiting SET_CONFIG_STATE_PENDING)
     of Some n' \<Rightarrow> mDesiredConfig n' \<noteq> 1 | None \<Rightarrow> False"
proof -
  let ?n = "sample_waiting SET_CONFIG_STATE_PENDING"
  have f: "mPowerModeState ?n = POWER_MODE_ON" "mConfigRequestState ?n = SET_CONFIG_STATE_PENDING" "\<not> isPending (mPendConfigInfo ?n)"
    "mActiveConfig ?n = 0" "pend_config (mPendConfigInfo ?n) = -1"
    by (simp_all add: sample_waiting_def sample_conf_def)
  have restore: "\<exists>n'. restoreConfig sample_panel_env m = Some n'"
    if "same_core ?n m" "mPendConfigInfo m = mPendConfigInfo ?n" for m
  proof -
    let ?i = "snd (setActiveConfigInternal sample_panel_env (mActiveConfig m) m)"
    have ok: "config_ok m" using core_ok[OF that(1)] by simp
    then obtain c where c: "find_config (mActiveConfig m) m = Some c" using active_known by blast
    have "mDisplayConfigs m = sample_panel" using that(1) by (simp add: same_core_def sample_waiting_def sample_conf_def)
    then have "isBadConfig (-1) ?i"
      using internal_ok(2)[OF c ok, of sample_panel_env] by (simp add: isBadConfig_def find_config_def sample_panel_def)
    then show ?thesis using internal_ok(6)[OF c ok, of sample_panel_env] that(2) f(5) by (simp add: restoreConfig_def bad_config_returns Let_def)
  qed
  let ?d = "(cf_call (Call_setLowPowerMode False) ?n)\<lparr>mPowerModeState := POWER_MODE_DOZE\<rparr>"
  have "\<exists>n'. setPowerOn sample_panel_env ?d = Some n'"
    using restore[of "?d\<lparr>mPowerModeState := POWER_MODE_ON\<rparr>"] f(3) by (auto simp: setPowerOn_def same_core_def cf_call_def Let_def)
  moreover have "config_do sample_panel_env (Set_power POWER_MODE_DOZE) ?n = Some ?d"
    using f(1) by (simp add: config_do_def setPowerMode_def setPowerDoze_def Let_def)
  ultimately obtain n' where r: "config_run [(sample_panel_env, Set_power POWER_MODE_DOZE), (sample_panel_env, Set_power POWER_MODE_ON)] ?n = Some n'"
    by (auto simp: config_do_def setPowerMode_def)
  have "mDesiredConfig n' \<in> {0, -1}"
    using doze_forgets_request[OF sample_waiting_ok f(1-3) _ _ _ r] f(4,5) by simp
  then show ?thesis using r by auto
qed


theorem applied_time_exact_witness:
  "getConfigAppliedTime sample_panel_env 50000000 0 sample_conf = Some (66666664, 33333332)"
  using applied_time_exact[of 50000000 0 sample_panel_env sample_conf] by (simp add: sample_panel_env_def)

theorem config_invariant_witness:
  "case config_run [(sample_panel_env, Set_config 1), (sample_panel_env, Set_power POWER_MODE_OFF)] sample_conf
     of Some n' \<Rightarrow> config_ok n' | None \<Rightarrow> False"
  using config_invariant[of "[(sample_panel_env, Set_config 1), (sample_panel_env, Set_power POWER_MODE_OFF)]" sample_conf]
  by (auto simp: config_do_def setPowerMode_def split: option.split)

end
