(* ===== verification/TsFormat.thy ===== *)
theory TsFormat
  imports Prelude
begin

text \<open>
  The byte formats of the transport stream multiplexer (\<open>base/libtsmux/tsmux_hal.cpp\<close>): the CRC of PSI
  sections, the PAT, PMT and PCR packets \<open>tsmux_send_psi\<close> builds, the ADTS and PES headers, and the
  arithmetic of packet sizes and continuity counters. Bytes are \<open>u8\<close> words; a C buffer is a list.
\<close>

section \<open>CRC of a section\<close>

definition crc_poly :: u32 where [code_consts]: "crc_poly = 0x04C11DB7"

definition crc_shift :: "u32 \<Rightarrow> u32" where
  "crc_shift crc = push_bit 1 crc XOR (if crc AND 0x80000000 \<noteq> 0 then crc_poly else 0)"

definition crc_entry :: "nat \<Rightarrow> u32" where
  "crc_entry i = (crc_shift ^^ 8) (push_bit 24 (of_nat i))"

definition tsmux_init_crc_table :: "u32 list" where
  "tsmux_init_crc_table = map crc_entry [0..<256]"

definition crc_step :: "u32 list \<Rightarrow> u32 \<Rightarrow> u8 \<Rightarrow> u32" where
  "crc_step tab crc p = push_bit 8 crc XOR tab ! unat ((drop_bit 24 crc XOR ucast p) AND 0xFF)"

definition tsmux_crc32 :: "u32 list \<Rightarrow> u8 list \<Rightarrow> u32" where
  "tsmux_crc32 tab bytes = foldl (crc_step tab) 0xFFFFFFFF bytes"

text \<open>The same check sum without a table: one polynomial division step per bit of the message.\<close>

definition crc_bitwise :: "u8 list \<Rightarrow> u32" where
  "crc_bitwise bytes = foldl (\<lambda>crc p. (crc_shift ^^ 8) (crc XOR push_bit 24 (ucast p))) 0xFFFFFFFF bytes"

text \<open>\<open>htonl\<close> and \<open>memcpy\<close> write a word with its high byte first.\<close>

definition be32 :: "u32 \<Rightarrow> u8 list" where
  "be32 w = [ucast (drop_bit 24 w), ucast (drop_bit 16 w), ucast (drop_bit 8 w), ucast w]"

lemma crc_shift_bit: "crc_shift c = push_bit 1 c XOR (if bit c 31 then crc_poly else 0)"
proof -
  have "c AND 0x80000000 \<noteq> 0 \<longleftrightarrow> bit c 31"
  proof -
    have "(0x80000000 :: u32) = 2 ^ 31" by simp
    then show ?thesis by (simp only: and_exp_eq_0_iff_not_bit not_not)
  qed
  then show ?thesis by (simp add: crc_shift_def)
qed

lemma crc_shift_xor: "crc_shift (x XOR y) = crc_shift x XOR crc_shift y"
  by (simp add: crc_shift_bit bit_xor_iff push_bit_xor xor.assoc xor.left_commute)

lemma crc_shifts_xor: "(crc_shift ^^ n) (x XOR y) = (crc_shift ^^ n) x XOR (crc_shift ^^ n) y"
  by (induction n) (simp_all add: crc_shift_xor)

text \<open>The low 24 bits reach the top only after eight shifts.\<close>

lemma crc_shifts_low: "n \<le> 8 \<Longrightarrow> (crc_shift ^^ n) (take_bit 24 x) = push_bit n (take_bit 24 x)"
proof (induction n)
  case (Suc n)
  have "\<not> 31 - n < 24" using Suc.prems by arith
  then have "\<not> bit (push_bit n (take_bit 24 x)) 31" by (simp add: bit_simps)
  then have "crc_shift (push_bit n (take_bit 24 x)) = push_bit (Suc n) (take_bit 24 x)"
    by (simp only: crc_shift_bit if_False xor.right_neutral push_bit_push_bit plus_1_eq_Suc)
  then show ?case using Suc by simp
qed simp

lemma crc_table_nth: "unat i < 256 \<Longrightarrow> tsmux_init_crc_table ! unat i = (crc_shift ^^ 8) (push_bit 24 i)"
  by (simp add: tsmux_init_crc_table_def crc_entry_def)

lemma crc_step_bitwise:
  "crc_step tsmux_init_crc_table crc p = (crc_shift ^^ 8) (crc XOR push_bit 24 (ucast p))"
proof -
  define i where "i = (drop_bit 24 crc XOR ucast p) AND (0xFF :: u32)"
  have "i \<le> 0xFF" unfolding i_def by (rule word_and_le1)
  then have small: "unat i < 256" by (simp add: word_le_nat_alt)
  have "(0xFF :: u32) = mask 8" by (simp add: mask_eq_exp_minus_1)
  then have i: "i = take_bit 8 (drop_bit 24 crc XOR ucast p)" by (simp only: i_def take_bit_eq_mask)
  have "crc XOR push_bit 24 (ucast p) = push_bit 24 i XOR take_bit 24 crc"
    unfolding i by (rule bit_eqI) (auto simp: bit_simps)
  then have "(crc_shift ^^ 8) (crc XOR push_bit 24 (ucast p)) = (crc_shift ^^ 8) (push_bit 24 i) XOR push_bit 8 (take_bit 24 crc)"
    by (simp only: crc_shifts_xor crc_shifts_low)
  also have "push_bit 8 (take_bit 24 crc) = push_bit 8 crc"
    by (rule bit_eqI) (auto simp: bit_simps)
  finally show ?thesis
    using crc_table_nth[OF small] by (simp add: crc_step_def i_def xor.commute)
qed

lemma crc_entry_zero: "tsmux_init_crc_table ! 0 = 0"
proof -
  have "(crc_shift ^^ n) 0 = 0" for n by (induction n) (simp_all add: crc_shift_def)
  then show ?thesis by (simp add: tsmux_init_crc_table_def crc_entry_def)
qed

lemma crc_append_self: "tsmux_crc32 tsmux_init_crc_table (bytes @ be32 (tsmux_crc32 tsmux_init_crc_table bytes)) = 0"
proof -
  define c where "c = tsmux_crc32 tsmux_init_crc_table bytes"
  have step: "crc_step tsmux_init_crc_table x p = push_bit 8 x" if "ucast p = drop_bit 24 x" for x p
    using that by (simp add: crc_step_def crc_entry_zero)
  have "crc_step tsmux_init_crc_table c (ucast (drop_bit 24 c)) = push_bit 8 c"
    by (rule step, rule bit_eqI) (auto simp: bit_simps dest: bit_imp_le_length)
  moreover have "crc_step tsmux_init_crc_table (push_bit 8 c) (ucast (drop_bit 16 c)) = push_bit 16 c"
    by (subst step, rule bit_eqI) (auto simp: bit_simps push_bit_push_bit)
  moreover have "crc_step tsmux_init_crc_table (push_bit 16 c) (ucast (drop_bit 8 c)) = push_bit 24 c"
    by (subst step, rule bit_eqI) (auto simp: bit_simps push_bit_push_bit)
  moreover have "crc_step tsmux_init_crc_table (push_bit 24 c) (ucast c) = 0"
    by (subst step, rule bit_eqI) (auto simp: bit_simps push_bit_push_bit intro!: bit_eqI)
  moreover have "tsmux_crc32 tsmux_init_crc_table (bytes @ be32 c) = foldl (crc_step tsmux_init_crc_table) c (be32 c)"
    by (simp add: tsmux_crc32_def c_def)
  ultimately show ?thesis by (simp add: be32_def c_def)
qed

section \<open>The PSI packets\<close>

definition TS_PID_PMT :: u32 where [code_consts]: "TS_PID_PMT = 0x100"
definition TS_PID_PCR :: u32 where [code_consts]: "TS_PID_PCR = 0x1000"
definition TS_AVC_STREAM_TYPE :: u8 where [code_consts]: "TS_AVC_STREAM_TYPE = 0x1B"
definition TS_HEVC_STREAM_TYPE :: u8 where [code_consts]: "TS_HEVC_STREAM_TYPE = 0x24"
definition TS_VIDEO_PACKET_ID :: u32 where [code_consts]: "TS_VIDEO_PACKET_ID = 0x1011"
definition TS_LPCM_STREAM_TYPE :: u8 where [code_consts]: "TS_LPCM_STREAM_TYPE = 0x83"
definition TS_LPCM_STREAM_ID :: u32 where [code_consts]: "TS_LPCM_STREAM_ID = 0xBD"
definition TS_AAC_STREAM_TYPE :: u8 where [code_consts]: "TS_AAC_STREAM_TYPE = 0x0F"
definition TS_AAC_STREAM_ID :: u32 where [code_consts]: "TS_AAC_STREAM_ID = 0xC0"
definition TS_AUDIO_PACKET_ID :: u32 where [code_consts]: "TS_AUDIO_PACKET_ID = 0x1100"
definition VIDEO_PROFILE_IDC :: u8 where [code_consts]: "VIDEO_PROFILE_IDC = 66"
definition VIDEO_LEVEL_IDC :: u8 where [code_consts]: "VIDEO_LEVEL_IDC = 40"
definition VIDEO_CONSTRAINT_SET :: u8 where [code_consts]: "VIDEO_CONSTRAINT_SET = 192"

definition hi8 :: "u32 \<Rightarrow> u32 \<Rightarrow> u8" where "hi8 bits w = ucast (bits OR drop_bit 8 w)"
definition lo8 :: "u32 \<Rightarrow> u8" where "lo8 w = ucast (w AND 0xFF)"

text \<open>The section of the PAT, from the table id to the last byte before the CRC.\<close>

definition pat_section :: "u8 list" where
  "pat_section = [0x00, 0xb0, 0x0d, 0x00, 0x00, 0xc3, 0x00, 0x00, 0x00, 0x01, hi8 0xe0 TS_PID_PMT, lo8 TS_PID_PMT]"

definition pat_packet :: "u32 list \<Rightarrow> u8 list" where
  "pat_packet tab = [0x47, 0x40, 0x00, 0x10, 0x00] @ pat_section @ be32 (tsmux_crc32 tab pat_section)"

definition program_info :: "bool \<Rightarrow> u8 list" where
  "program_info otf_enable =
    (if otf_enable then
       (let program_info_length = 7 in
        [hi8 0xf0 program_info_length, lo8 program_info_length, 0x05, 5, 0x48, 0x44, 0x43, 0x50, 0x20])
     else (let program_info_length = 0 in [hi8 0xf0 program_info_length, lo8 program_info_length]))"

definition video_info :: "bool \<Rightarrow> u8 list" where
  "video_info use_hevc =
    (let ES_info_length = (if use_hevc then 19 else 10) in
     (if use_hevc then TS_HEVC_STREAM_TYPE else TS_AVC_STREAM_TYPE) #
     [hi8 0xe0 TS_VIDEO_PACKET_ID, lo8 TS_VIDEO_PACKET_ID, hi8 0xf0 ES_info_length, lo8 ES_info_length] @
     (if use_hevc then
        [56, 13, 1, 0x60, 0, 0, 0, 0xb0, 0, 0, 0, 0, 0, 120, 0, 63, 2, 1, 0x7e]
      else
        [40, 4, VIDEO_PROFILE_IDC, VIDEO_CONSTRAINT_SET, VIDEO_LEVEL_IDC, 0x3f, 42, 2, 0x7e, 0x1f]))"

definition audio_info :: "bool \<Rightarrow> u8 list" where
  "audio_info use_lpcm =
    (let ES_info_length = (if use_lpcm then 4 else 0); sampling_frequency = 2 in
     (if use_lpcm then TS_LPCM_STREAM_TYPE else TS_AAC_STREAM_TYPE) #
     [hi8 0xe0 TS_AUDIO_PACKET_ID, lo8 TS_AUDIO_PACKET_ID, hi8 0xf0 ES_info_length, lo8 ES_info_length] @
     (if use_lpcm then
        [TS_LPCM_STREAM_TYPE, 2, push_bit 5 sampling_frequency OR push_bit 1 3 OR 0, push_bit 5 1 OR 0xf]
      else []))"

text \<open>The section of the PMT, with its length filled in afterwards.\<close>

definition pmt_section :: "bool \<Rightarrow> bool \<Rightarrow> bool \<Rightarrow> u8 list" where
  "pmt_section otf_enable use_hevc use_lpcm =
    (let body = [0x00, 0x01, 0xc3, 0x00, 0x00, hi8 0xe0 TS_PID_PCR, lo8 TS_PID_PCR] @
           program_info otf_enable @ video_info use_hevc @ audio_info use_lpcm;
         section_length = of_nat (length body) + 4
     in [0x02, hi8 0xb0 section_length, lo8 section_length] @ body)"

definition pmt_packet :: "u32 list \<Rightarrow> bool \<Rightarrow> bool \<Rightarrow> bool \<Rightarrow> u8 list" where
  "pmt_packet tab otf_enable use_hevc use_lpcm =
    (let sec = pmt_section otf_enable use_hevc use_lpcm in
     [0x47, hi8 0x40 TS_PID_PMT, lo8 TS_PID_PMT, 0x10, 0x00] @ sec @ be32 (tsmux_crc32 tab sec))"

definition pcr_packet :: "int \<Rightarrow> u8 list" where
  "pcr_packet timeUs =
    (let PCR = word_of_int (timeUs * 27) :: u64; PCR_base = PCR div 300; PCR_ext = ucast (PCR mod 300) :: u32 in
     [0x47, hi8 0x40 TS_PID_PCR, lo8 TS_PID_PCR, 0x20, 0xb7, 0x10,
      ucast (drop_bit 25 PCR_base AND 0xff), ucast (drop_bit 17 PCR_base AND 0xff), ucast (drop_bit 9 PCR_base AND 0xff),
      ucast (push_bit 7 (PCR_base AND 1) OR 0x7e OR ucast (drop_bit 8 PCR_ext AND 1)), ucast (PCR_ext AND 0xff)])"

section \<open>Headers of elementary streams\<close>

text \<open>\<open>memcpy\<close> of more bytes than \<open>src\<close> has (a negative size is a huge one) is undefined.\<close>

definition addADTSHeader :: "u8 list \<Rightarrow> int \<Rightarrow> u32 \<Rightarrow> u32 \<Rightarrow> u32 \<Rightarrow> u8 list option" where
  "addADTSHeader src es_size profile sampling_freq_index channel_configuration =
    (let aac_frame_length = word_of_int (es_size + 7) :: u32 in
     if es_size < 0 \<or> nat es_size > length src then None
     else Some
      ([0xff, 0xf9,
        ucast (push_bit 6 profile OR push_bit 2 sampling_freq_index OR (drop_bit 2 channel_configuration AND 1)),
        ucast (push_bit 6 (channel_configuration AND 3) OR drop_bit 11 aac_frame_length),
        ucast (drop_bit 3 aac_frame_length AND 0xff),
        ucast (push_bit 5 (aac_frame_length AND 7)),
        0] @ take (nat es_size) src))"

text \<open>What a decoder reads in the header: object type, sampling frequency, channels and frame length.\<close>

definition adts_fields :: "u8 list \<Rightarrow> u32 \<times> u32 \<times> u32 \<times> u32" where
  "adts_fields f =
    (let b = (\<lambda>i. ucast (f ! i) :: u32) in
     (drop_bit 6 (b 2), drop_bit 2 (b 2) AND 0xF, push_bit 2 (b 2 AND 1) OR drop_bit 6 (b 3),
      push_bit 11 (b 3 AND 3) OR push_bit 3 (b 4) OR drop_bit 5 (b 5)))"

text \<open>The two words of the PES header that carry a presentation time stamp.\<close>

definition pts39_16 :: "u64 \<Rightarrow> u32" where
  "pts39_16 PTS =
    ucast (push_bit 16 (0x20 OR push_bit 1 (drop_bit 30 PTS AND 7) OR 1)
      OR push_bit 8 (drop_bit 22 PTS AND 0xff)
      OR (push_bit 1 (drop_bit 15 PTS AND 0x7f) OR 1))"

definition pts15_0 :: "u64 \<Rightarrow> u32" where
  "pts15_0 PTS = ucast (push_bit 8 (drop_bit 7 PTS AND 0xff) OR (push_bit 1 (PTS AND 0x7f) OR 1))"

definition pts_of :: "int \<Rightarrow> u64" where
  "pts_of timeUs = word_of_int ((timeUs * 9) sdiv 100)"

definition pts_decode :: "u32 \<Rightarrow> u32 \<Rightarrow> u64" where
  "pts_decode hi lo =
    push_bit 30 (drop_bit 17 (ucast hi) AND 7) OR push_bit 22 (drop_bit 8 (ucast hi) AND 0xff) OR
    push_bit 15 (drop_bit 1 (ucast hi) AND 0x7f) OR push_bit 7 (drop_bit 8 (ucast lo) AND 0xff) OR
    (drop_bit 1 (ucast lo) AND 0x7f)"

section \<open>Sizes and counters\<close>

definition TS_PKT_COUNT_PER_RTP :: int where [code_consts]: "TS_PKT_COUNT_PER_RTP = 7"

definition increament_ts_continuity_counter :: "int \<Rightarrow> int \<Rightarrow> bool \<Rightarrow> int" where
  "increament_ts_continuity_counter ts_continuity_counter rtp_size psi_enable =
    (let rtp_packet_count = rtp_size sdiv (188 * TS_PKT_COUNT_PER_RTP + 12);
         ts_packet_count = rtp_packet_count * TS_PKT_COUNT_PER_RTP;
         rtp_remain_size = rtp_size smod (188 * TS_PKT_COUNT_PER_RTP + 12);
         ts_packet_count = (if rtp_remain_size > 0 then ts_packet_count + (rtp_remain_size - 12) sdiv 188
                            else ts_packet_count);
         ts_packet_count = (if psi_enable then ts_packet_count - 3 else ts_packet_count)
     in (ts_continuity_counter + ts_packet_count) AND 0xf)"

definition len_tmp_of :: "int \<Rightarrow> int \<Rightarrow> int \<Rightarrow> int" where
  "len_tmp_of len_es len_pes len_hdr =
    (let len_tmp = len_pes - len_hdr - (184 - len_hdr) sdiv 16 * 16 in
     if len_es \<le> 184 - len_hdr then 188
     else 188 + len_tmp sdiv 176 * 188 +
       (if len_tmp smod 176 > 8 \<or> len_tmp > 0 \<and> len_tmp \<le> 8 then 188 else 0))"

definition get_rtp_size :: "int \<Rightarrow> bool \<Rightarrow> bool \<Rightarrow> bool \<Rightarrow> int" where
  "get_rtp_size es_size audio psi_enable hdcp_enable =
    (let len_es = es_size;
         pes_stuffing_num = (if audio then 2 else 0);
         len_hdr = 5 + pes_stuffing_num;
         len_pes = len_es + 14 + pes_stuffing_num;
         len_tsp = (if psi_enable then 188 * 3 else 0) +
           (if hdcp_enable then len_tmp_of len_es len_pes len_hdr else (len_pes + 183) sdiv 184 * 188)
     in (len_tsp + 7 * 188 - 1) sdiv (7 * 188) * 12 + len_tsp)"

section \<open>Decoding what was written\<close>

lemma masks:
  "x AND 1 = take_bit 1 x" "x AND 3 = take_bit 2 x" "x AND 7 = take_bit 3 x" "x AND 0xF = take_bit 4 x"
  "x AND 0x7f = take_bit 7 x" "x AND 0xff = take_bit 8 x" for x :: "'a :: len word"
  by (simp_all only: take_bit_eq_mask mask_eq_exp_minus_1) simp_all

lemma take_bit_split: "take_bit (m + n) x = push_bit n (take_bit m (drop_bit n x)) OR take_bit n (x :: 'a :: len word)"
  by (rule bit_eqI) (auto simp: bit_simps)

lemmas word_bits = bit_or_iff bit_push_bit_iff bit_take_bit_iff bit_drop_bit_eq comp_apply bit_unsigned_iff
  possible_bit_word bit_1_iff

lemma pts_fields:
  "take_bit 3 (drop_bit 17 (ucast (pts39_16 p))) = take_bit 3 (drop_bit 30 p)"
  "take_bit 8 (drop_bit 8 (ucast (pts39_16 p))) = take_bit 8 (drop_bit 22 p)"
  "take_bit 7 (drop_bit 1 (ucast (pts39_16 p))) = take_bit 7 (drop_bit 15 p)"
  "take_bit 8 (drop_bit 8 (ucast (pts15_0 p))) = take_bit 8 (drop_bit 7 p)"
  "take_bit 7 (drop_bit 1 (ucast (pts15_0 p))) = take_bit 7 p"
proof -
  have c: "(0x20 :: u64) = push_bit 5 1" by (simp add: push_bit_eq_mult)
  show "take_bit 3 (drop_bit 17 (ucast (pts39_16 p))) = take_bit 3 (drop_bit 30 p)"
    unfolding pts39_16_def masks c by (rule bit_eqI) (simp only: word_bits, auto)
  show "take_bit 8 (drop_bit 8 (ucast (pts39_16 p))) = take_bit 8 (drop_bit 22 p)"
    unfolding pts39_16_def masks c by (rule bit_eqI) (simp only: word_bits, auto)
  show "take_bit 7 (drop_bit 1 (ucast (pts39_16 p))) = take_bit 7 (drop_bit 15 p)"
    unfolding pts39_16_def masks c by (rule bit_eqI) (simp only: word_bits, auto)
  show "take_bit 8 (drop_bit 8 (ucast (pts15_0 p))) = take_bit 8 (drop_bit 7 p)"
    unfolding pts15_0_def masks by (rule bit_eqI) (simp only: word_bits, auto)
  show "take_bit 7 (drop_bit 1 (ucast (pts15_0 p))) = take_bit 7 p"
    unfolding pts15_0_def masks by (rule bit_eqI) (simp only: word_bits, auto)
qed

lemma pts_decode_bits: "pts_decode (pts39_16 p) (pts15_0 p) = take_bit 33 p"
proof -
  have "take_bit 33 p = take_bit (3 + 30) p" by simp
  also have "\<dots> = push_bit 30 (take_bit 3 (drop_bit 30 p)) OR take_bit (8 + 22) p" by (subst take_bit_split) simp
  also have "take_bit (8 + 22) p = push_bit 22 (take_bit 8 (drop_bit 22 p)) OR take_bit (7 + 15) p"
    by (subst take_bit_split) simp
  also have "take_bit (7 + 15) p = push_bit 15 (take_bit 7 (drop_bit 15 p)) OR take_bit (8 + 7) p"
    by (subst take_bit_split) simp
  also have "take_bit (8 + 7) p = push_bit 7 (take_bit 8 (drop_bit 7 p)) OR take_bit 7 p"
    by (rule take_bit_split)
  finally show ?thesis
    unfolding pts_decode_def masks pts_fields by (simp add: or.assoc)
qed

text \<open>
  A decoder reads in the two words of the PES header the 33 low bits of the time stamp.
\<close>

theorem pts_roundtrip: "pts_decode (pts39_16 PTS) (pts15_0 PTS) = take_bit 33 PTS"
  by (rule pts_decode_bits)

lemma take_bit_word_id: "x < 2 ^ n \<Longrightarrow> n < LENGTH('a) \<Longrightarrow> take_bit n x = (x :: 'a :: len word)"
  by (simp add: less_mask_eq take_bit_eq_mask)

lemma take_bit_bit: "take_bit n x = x \<Longrightarrow> bit x m \<Longrightarrow> m < n" for x :: "'a :: len word"
  by (metis bit_take_bit_iff)

lemma adts_byte2:
  fixes profile freq ch :: u32
  defines "b \<equiv> ucast (ucast (push_bit 6 profile OR push_bit 2 freq OR take_bit 1 (drop_bit 2 ch)) :: u8) :: u32"
  assumes p: "take_bit 2 profile = profile" and f: "take_bit 4 freq = freq"
  shows "drop_bit 6 b = profile" "take_bit 4 (drop_bit 2 b) = freq" "take_bit 1 b = take_bit 1 (drop_bit 2 ch)"
proof -
  note bits = take_bit_bit[OF p] take_bit_bit[OF f]
  show "drop_bit 6 b = profile"
    unfolding b_def by (rule bit_eqI) (simp only: word_bits, auto dest: bits)
  show "take_bit 4 (drop_bit 2 b) = freq"
    unfolding b_def by (rule bit_eqI) (simp only: word_bits, auto dest: bits)
  show "take_bit 1 b = take_bit 1 (drop_bit 2 ch)"
    unfolding b_def by (rule bit_eqI) (simp only: word_bits, auto dest: bits)
qed

lemma adts_bytes_length:
  fixes ch len :: u32
  defines "b3 \<equiv> ucast (ucast (push_bit 6 (take_bit 2 ch) OR drop_bit 11 len) :: u8) :: u32"
    and "b4 \<equiv> ucast (ucast (take_bit 8 (drop_bit 3 len)) :: u8) :: u32"
    and "b5 \<equiv> ucast (ucast (push_bit 5 (take_bit 3 len)) :: u8) :: u32"
  assumes len: "take_bit 13 len = len"
  shows "drop_bit 6 b3 = take_bit 2 ch"
    "push_bit 11 (take_bit 2 b3) OR push_bit 3 b4 OR drop_bit 5 b5 = len"
proof -
  note bits = take_bit_bit[OF len]
  show "drop_bit 6 b3 = take_bit 2 ch"
    unfolding b3_def by (rule bit_eqI) (simp only: word_bits, auto dest: bits)
  have hi: "take_bit 2 b3 = drop_bit 11 len"
    unfolding b3_def by (rule bit_eqI) (simp only: word_bits, auto dest: bits)
  have mid: "b4 = take_bit 8 (drop_bit 3 len)" and lo: "drop_bit 5 b5 = take_bit 3 len"
    unfolding b4_def b5_def by (rule bit_eqI, simp only: word_bits, auto)+
  have "len = push_bit 11 (take_bit 2 (drop_bit 11 len)) OR (push_bit 3 (take_bit 8 (drop_bit 3 len)) OR take_bit 3 len)"
    using take_bit_split[of 2 11 len] take_bit_split[of 8 3 len] len by simp
  moreover have "take_bit 2 (drop_bit 11 len) = drop_bit 11 len"
    by (rule bit_eqI) (simp only: word_bits, auto dest: bits)
  ultimately show "push_bit 11 (take_bit 2 b3) OR push_bit 3 b4 OR drop_bit 5 b5 = len"
    by (simp add: hi mid lo or.assoc)
qed

text \<open>
  A decoder reads in the header of an AAC frame the parameters and the length of the frame,
  and finds the frame behind it, as long as header and frame are shorter than \<open>2^13\<close> bytes.
\<close>

lemma adts_parses:
  assumes "profile < 4" "freq < 16" "ch < 8" "0 \<le> es_size" "es_size + 7 < 0x2000" "nat es_size \<le> length src"
  shows "\<exists>f. addADTSHeader src es_size profile freq ch = Some f \<and>
    adts_fields f = (profile, freq, ch, word_of_int (es_size + 7)) \<and>
    int (length f) = es_size + 7 \<and> drop 7 f = take (nat es_size) src"
proof -
  define len where "len = (word_of_int (es_size + 7) :: u32)"
  have u: "uint len = es_size + 7"
    unfolding len_def uint_word_of_int using assms(4,5) by (intro mod_pos_pos_trivial) simp_all
  then have "len < 2 ^ 13" using assms(5) by (simp add: word_less_def)
  then have l: "take_bit 13 len = len" by (rule take_bit_word_id) simp
  have t: "take_bit 2 profile = profile" "take_bit 4 freq = freq" "take_bit 3 ch = ch"
    using assms(1-3) by (simp_all add: take_bit_word_id)
  have ch: "push_bit 2 (take_bit 1 (drop_bit 2 ch)) OR take_bit 2 ch = ch"
  proof -
    have "(1 :: nat) + 2 = 3" by simp
    then show ?thesis using take_bit_split[of 1 2 ch] t(3) by (simp only:)
  qed
  define f where "f = [0xff, 0xf9, ucast (push_bit 6 profile OR push_bit 2 freq OR take_bit 1 (drop_bit 2 ch)),
      ucast (push_bit 6 (take_bit 2 ch) OR drop_bit 11 len), ucast (take_bit 8 (drop_bit 3 len)),
      ucast (push_bit 5 (take_bit 3 len)), (0 :: u8)] @ take (nat es_size) src"
  have "\<not> (es_size < 0 \<or> nat es_size > length src)" using assms(4,6) by simp
  then have f: "addADTSHeader src es_size profile freq ch = Some f"
    unfolding addADTSHeader_def Let_def masks len_def[symmetric] f_def by (simp only: if_False)
  have nth: "f ! 2 = ucast (push_bit 6 profile OR push_bit 2 freq OR take_bit 1 (drop_bit 2 ch))"
    "f ! 3 = ucast (push_bit 6 (take_bit 2 ch) OR drop_bit 11 len)"
    "f ! 4 = ucast (take_bit 8 (drop_bit 3 len))" "f ! 5 = ucast (push_bit 5 (take_bit 3 len))"
    by (simp_all add: f_def)
  have fields: "adts_fields f = (profile, freq, ch, len)"
    unfolding adts_fields_def Let_def masks nth adts_byte2[OF t(1,2)] adts_bytes_length[OF l] ch ..
  show ?thesis
    using f fields u assms(4,6) by (auto simp: f_def len_def)
qed

text \<open>The length field has 13 bits: a frame of \<open>2^13\<close> bytes is announced as an empty one.\<close>

theorem adts_length_wraps:
  assumes "8185 \<le> length src"
  shows "map_option (\<lambda>f. (adts_fields f, length f)) (addADTSHeader src 8185 1 3 2) = Some ((1, 3, 2, 0), 8192)"
  using assms by (simp add: addADTSHeader_def adts_fields_def)

section \<open>What a receiver makes of the sections\<close>

lemma crc_bitwise_eq: "tsmux_crc32 tsmux_init_crc_table bs = crc_bitwise bs"
proof -
  have "crc_step tsmux_init_crc_table = (\<lambda>crc p. (crc_shift ^^ 8) (crc XOR push_bit 24 (ucast p)))"
    by (intro ext crc_step_bitwise)
  then show ?thesis by (simp add: tsmux_crc32_def crc_bitwise_def)
qed

text \<open>
  C31: the table-driven check sum is polynomial division bit by bit, and a receiver that runs it
  over a section and the four bytes appended to it gets zero.
\<close>

theorem crc_table_correct:
  "tsmux_crc32 tsmux_init_crc_table bytes = crc_bitwise bytes \<and>
   crc_bitwise (bytes @ be32 (crc_bitwise bytes)) = 0"
  using crc_bitwise_eq[of bytes] crc_bitwise_eq[of "bytes @ be32 (crc_bitwise bytes)"] crc_append_self[of bytes]
  by simp

definition field12 :: "u8 \<Rightarrow> u8 \<Rightarrow> nat" where
  "field12 hi lo = (unat hi mod 16) * 256 + unat lo"

definition field13 :: "u8 \<Rightarrow> u8 \<Rightarrow> nat" where
  "field13 hi lo = (unat hi mod 32) * 256 + unat lo"

text \<open>A loop of descriptors, each a tag, a length and so many bytes.\<close>

fun descriptors :: "u8 list \<Rightarrow> (u8 \<times> u8 list) list option" where
  "descriptors [] = Some []"
| "descriptors (tag # len # rest) =
    (if unat len \<le> length rest
     then map_option (Cons (tag, take (unat len) rest)) (descriptors (drop (unat len) rest)) else None)"
| "descriptors _ = None"

text \<open>The streams of a PMT: type, packet id and descriptors.\<close>

fun streams :: "u8 list \<Rightarrow> (u8 \<times> nat \<times> (u8 \<times> u8 list) list) list option" where
  "streams [] = Some []"
| "streams (type # p1 # p0 # l1 # l0 # rest) =
    (let n = field12 l1 l0 in
     if n \<le> length rest then
       (case descriptors (take n rest) of
          None \<Rightarrow> None
        | Some ds \<Rightarrow> map_option (Cons (type, field13 p1 p0, ds)) (streams (drop n rest)))
     else None)"
| "streams _ = None"

text \<open>A whole section: the check sum, then the length, then the contents.\<close>

definition psi_contents :: "u8 list \<Rightarrow> u8 list option" where
  "psi_contents sec =
    (if crc_bitwise sec \<noteq> 0 \<or> length sec < 12 \<or> field12 (sec ! 1) (sec ! 2) + 3 \<noteq> length sec then None
     else Some (take (length sec - 12) (drop 8 sec)))"

definition pat_parse :: "u8 list \<Rightarrow> (nat \<times> nat) option" where
  "pat_parse sec =
    (case psi_contents sec of
       Some [n1, n0, p1, p0] \<Rightarrow> Some (unat n1 * 256 + unat n0, field13 p1 p0)
     | _ \<Rightarrow> None)"

definition pmt_parse ::
  "u8 list \<Rightarrow> (nat \<times> (u8 \<times> u8 list) list \<times> (u8 \<times> nat \<times> (u8 \<times> u8 list) list) list) option" where
  "pmt_parse sec =
    (case psi_contents sec of
       Some (p1 # p0 # l1 # l0 # rest) \<Rightarrow>
         (let n = field12 l1 l0 in
          if n \<le> length rest then
            (case (descriptors (take n rest), streams (drop n rest)) of
               (Some ds, Some ss) \<Rightarrow> Some (field13 p1 p0, ds, ss)
             | _ \<Rightarrow> None)
          else None)
     | _ \<Rightarrow> None)"

lemma psi_contents_append:
  assumes "8 \<le> length sec" "field12 (sec ! 1) (sec ! 2) = length sec + 1"
  shows "psi_contents (sec @ be32 (tsmux_crc32 tsmux_init_crc_table sec)) = Some (drop 8 sec)"
proof -
  have "crc_bitwise (sec @ be32 (tsmux_crc32 tsmux_init_crc_table sec)) = 0"
    using crc_append_self[of sec] by (simp add: crc_bitwise_eq)
  moreover have "length (be32 x) = 4" for x by (simp add: be32_def)
  ultimately show ?thesis using assms by (simp add: psi_contents_def nth_append)
qed

lemma pmt_section_shape:
  "8 \<le> length (pmt_section otf hevc lpcm) \<and>
   field12 (pmt_section otf hevc lpcm ! 1) (pmt_section otf hevc lpcm ! 2) = length (pmt_section otf hevc lpcm) + 1"
  by (cases otf; cases hevc; cases lpcm)
    (simp_all add: pmt_section_def program_info_def video_info_def audio_info_def hi8_def lo8_def code_consts
      field12_def Let_def)

text \<open>
  C28: a receiver accepts the PAT and the PMT the multiplexer builds, in every one of its eight
  configurations, and reads in them the programme, the packet that carries the clock, the HDCP descriptor and the
  video and audio streams with their types and packet ids.
\<close>

theorem psi_roundtrip:
  "pat_parse (drop 5 (pat_packet tsmux_init_crc_table)) = Some (1, 0x100) \<and>
   (\<exists>ds vd ad. pmt_parse (drop 5 (pmt_packet tsmux_init_crc_table otf hevc lpcm)) =
      Some (0x1000, ds, [(if hevc then 0x24 else 0x1B, 0x1011, vd), (if lpcm then 0x83 else 0x0F, 0x1100, ad)]) \<and>
      ds = (if otf then [(5, [0x48, 0x44, 0x43, 0x50, 0x20])] else []))"
proof -
  have pat: "drop 5 (pat_packet tab) = pat_section @ be32 (tsmux_crc32 tab pat_section)" for tab
    by (simp add: pat_packet_def)
  have pmt: "drop 5 (pmt_packet tab otf hevc lpcm) =
      pmt_section otf hevc lpcm @ be32 (tsmux_crc32 tab (pmt_section otf hevc lpcm))" for tab
    by (simp add: pmt_packet_def Let_def)
  have "8 \<le> length pat_section \<and> field12 (pat_section ! 1) (pat_section ! 2) = length pat_section + 1"
    by code_simp
  then have a: "pat_parse (drop 5 (pat_packet tsmux_init_crc_table)) = Some (1, 0x100)"
    using psi_contents_append[of pat_section] unfolding pat pat_parse_def
    by (simp add: pat_section_def hi8_def lo8_def TS_PID_PMT_def field13_def)
  have "\<exists>ds vd ad. (case drop 8 (pmt_section otf hevc lpcm) of p1 # p0 # l1 # l0 # rest \<Rightarrow>
         (let n = field12 l1 l0 in
          if n \<le> length rest then
            (case (descriptors (take n rest), streams (drop n rest)) of
               (Some ds, Some ss) \<Rightarrow> Some (field13 p1 p0, ds, ss)
             | _ \<Rightarrow> None)
          else None) | _ \<Rightarrow> None) =
      Some (0x1000, ds, [(if hevc then 0x24 else 0x1B, 0x1011, vd), (if lpcm then 0x83 else 0x0F, 0x1100, ad)]) \<and>
      ds = (if otf then [(5, [0x48, 0x44, 0x43, 0x50, 0x20])] else [])"
    by (cases otf; cases hevc; cases lpcm)
      (simp_all add: pmt_section_def program_info_def video_info_def audio_info_def hi8_def lo8_def code_consts
        field12_def field13_def Let_def)
  then show ?thesis
    using a psi_contents_append[of "pmt_section otf hevc lpcm"] pmt_section_shape
    unfolding pmt pmt_parse_def by simp
qed

text \<open>The three packets fit in the 256 bytes of \<open>psi_data\<close>.\<close>

lemma psi_fits:
  "length (pat_packet tab) = 21" "length (pmt_packet tab otf hevc lpcm) \<le> 61" "length (pcr_packet t) = 11"
proof -
  show "length (pat_packet tab) = 21" by (simp add: pat_packet_def pat_section_def be32_def)
  have "length (pmt_section otf hevc lpcm) \<le> 52" 
    by (cases otf; cases hevc; cases lpcm)
      (simp_all add: pmt_section_def program_info_def video_info_def audio_info_def Let_def)
  then show "length (pmt_packet tab otf hevc lpcm) \<le> 61" by (simp add: pmt_packet_def Let_def be32_def)
  show "length (pcr_packet t) = 11" by (simp add: pcr_packet_def Let_def)
qed

text \<open>
  The clock reference is written in five bytes instead of six: bits 1 to 8 of the
  90 kHz part are dropped, so that times 200 microseconds apart are indistinguishable.
\<close>

theorem pcr_drops_bits: "pcr_packet 200 = pcr_packet 0 \<and> pcr_packet 100 \<noteq> pcr_packet 0"
  by code_simp

end
