(* ===== verification/TsStream.thy ===== *)
theory TsStream
  imports TsFormat
begin

text \<open>
  Taking an RTP stream apart again (\<open>depacketize_rtp\<close> and \<open>depacketize\<close> of
  \<open>base/libtsmux/tsmux_hal.cpp\<close>). The buffer read is a list: skipping is \<open>drop\<close>, and reading
  more than the list holds is undefined, \<open>None\<close>. \<open>char\<close> is unsigned, as on the ARM targets.
\<close>

section \<open>The code\<close>

definition c_read :: "nat \<Rightarrow> 'a list \<Rightarrow> ('a list \<times> 'a list) option" where
  "c_read n xs = (if n \<le> length xs then Some (take n xs, drop n xs) else None)"

text \<open>The inner loop: up to \<open>n\<close> packets; the bytes copied, what is left, and \<open>rtp_size\<close>.\<close>

fun copy_ts_packets :: "nat \<Rightarrow> u8 list \<Rightarrow> int \<Rightarrow> (u8 list \<times> u8 list \<times> int) option" where
  "copy_ts_packets 0 ptr rtp_size = Some ([], ptr, rtp_size)"
| "copy_ts_packets (Suc n) ptr rtp_size =
    (case c_read 188 ptr of
       None \<Rightarrow> None
     | Some (ts, ptr) \<Rightarrow>
        (let rtp_size = rtp_size - 188 in
         if rtp_size = 0 then Some (ts, ptr, rtp_size)
         else map_option (\<lambda>(out, ptr, rtp_size). (ts @ out, ptr, rtp_size)) (copy_ts_packets n ptr rtp_size)))"

lemma copy_ts_size: "copy_ts_packets n ptr sz = Some (out, ptr', sz') \<Longrightarrow> sz' \<le> sz"
  by (induction n arbitrary: ptr sz out ptr' sz') (fastforce split: option.splits if_splits simp: Let_def)+

function depacketize_rtp :: "u8 list \<Rightarrow> int \<Rightarrow> u8 list option" where
  "depacketize_rtp rtp_ptr rtp_size =
    (if rtp_size > 0 then
       (case copy_ts_packets 7 (drop 12 rtp_ptr) (rtp_size - 12) of
          None \<Rightarrow> None
        | Some (out, rtp_ptr, rtp_size) \<Rightarrow> map_option (\<lambda>rest. out @ rest) (depacketize_rtp rtp_ptr rtp_size))
     else Some [])"
  by pat_completeness auto
termination
  by (relation "measure (nat \<circ> snd)") (auto dest!: copy_ts_size)

declare depacketize_rtp.simps [simp del]

record ts_reader =
  ts_ptr :: "u8 list"
  out_data :: "u8 list"
  is_pes_header :: bool
  remain_es_size :: int
  psi_packet :: int

definition adaptation_control :: "u8 \<Rightarrow> u8" where
  "adaptation_control b = drop_bit 4 b AND 3"

text \<open>One transport packet.\<close>

definition read_ts_packet :: "bool \<Rightarrow> ts_reader \<Rightarrow> ts_reader option" where
  "read_ts_packet psi s =
    (case c_read 1 (drop 3 (ts_ptr s)) of
       None \<Rightarrow> None
     | Some (ctrl, ptr) \<Rightarrow>
        (case (if adaptation_control (ctrl ! 0) = 3 then c_read 1 ptr else Some ([0], ptr)) of
           None \<Rightarrow> None
         | Some (len, ptr) \<Rightarrow>
            (if psi \<and> psi_packet s > 0 then Some (s\<lparr>ts_ptr := drop 184 ptr, psi_packet := psi_packet s - 1\<rparr>)
             else
               (let ts_payload = (if is_pes_header s then 184 - 14 else 184);
                    pes_ptr = (if is_pes_header s then drop 14 ptr else ptr);
                    es_ptr = (if adaptation_control (ctrl ! 0) = 3 then drop (unat (len ! 0)) pes_ptr else pes_ptr);
                    copy_size = (if remain_es_size s \<ge> ts_payload then ts_payload else remain_es_size s)
                in (case c_read (nat copy_size) es_ptr of
                      None \<Rightarrow> None
                    | Some (es, ptr) \<Rightarrow>
                       Some (s\<lparr>ts_ptr := ptr, out_data := out_data s @ es, is_pes_header := False,
                         remain_es_size := remain_es_size s - copy_size\<rparr>))))))"

fun read_ts_packets :: "bool \<Rightarrow> nat \<Rightarrow> ts_reader \<Rightarrow> ts_reader option" where
  "read_ts_packets psi 0 s = Some s"
| "read_ts_packets psi (Suc n) s =
    (case read_ts_packet psi s of
       None \<Rightarrow> None
     | Some s \<Rightarrow> (if remain_es_size s = 0 then Some s else read_ts_packets psi n s))"

text \<open>Every packet consumes elementary data or one of the PSI packets that are to be skipped.\<close>

definition reader_work :: "ts_reader \<Rightarrow> nat" where
  "reader_work s = nat (remain_es_size s) + nat (psi_packet s)"

lemma read_ts_packet_work:
  assumes "read_ts_packet psi s = Some s'" "0 < remain_es_size s"
  shows "reader_work s' < reader_work s" "0 \<le> remain_es_size s'" "remain_es_size s' \<le> remain_es_size s"
  using assms by (auto simp: read_ts_packet_def reader_work_def Let_def split: option.splits if_splits prod.splits)

lemma read_ts_packets_work:
  "read_ts_packets psi n s = Some s' \<Longrightarrow> 0 < remain_es_size s \<Longrightarrow>
    reader_work s' \<le> reader_work s \<and> (0 < n \<longrightarrow> reader_work s' < reader_work s)"
proof (induction n arbitrary: s)
  case (Suc n)
  then obtain t where t: "read_ts_packet psi s = Some t"
      "(if remain_es_size t = 0 then Some t else read_ts_packets psi n t) = Some s'"
    by (auto split: option.splits)
  note work = read_ts_packet_work[OF t(1) Suc.prems(2)]
  show ?case
  proof (cases "remain_es_size t = 0")
    case True
    then show ?thesis using t(2) work by auto
  next
    case False
    then have "reader_work s' \<le> reader_work t" using t(2) Suc.IH[of t] work(2) by auto
    then show ?thesis using work by auto
  qed
qed simp

function read_rtp_packets :: "bool \<Rightarrow> ts_reader \<Rightarrow> ts_reader option" where
  "read_rtp_packets psi s =
    (if remain_es_size s > 0 then
       (case read_ts_packets psi 7 (s\<lparr>ts_ptr := drop 12 (ts_ptr s)\<rparr>) of
          None \<Rightarrow> None
        | Some s \<Rightarrow> read_rtp_packets psi s)
     else Some s)"
  by pat_completeness auto
termination
proof (relation "measure (\<lambda>(psi, s). reader_work s)")
  fix psi s t
  assume "0 < remain_es_size s" "read_ts_packets psi 7 (s\<lparr>ts_ptr := drop 12 (ts_ptr s)\<rparr>) = Some t"
  then show "((psi, t), (psi, s)) \<in> measure (\<lambda>(psi, s). reader_work s)"
    using read_ts_packets_work[of psi 7 "s\<lparr>ts_ptr := drop 12 (ts_ptr s)\<rparr>" t] by (simp add: reader_work_def)
qed simp

declare read_rtp_packets.simps [simp del]

definition depacketize :: "u8 list \<Rightarrow> int \<Rightarrow> bool \<Rightarrow> u8 list option" where
  "depacketize packetized_data es_size psi =
    map_option out_data (read_rtp_packets psi
      \<lparr>ts_ptr = packetized_data, out_data = [], is_pes_header = True, remain_es_size = es_size, psi_packet = 3\<rparr>)"

section \<open>Streams as they are sent\<close>

text \<open>
  A transport packet of 188 bytes: three header bytes, the byte with the adaptation control, and 184 bytes
  of payload. When the payload is too short an adaptation field of stuffing comes first.
\<close>

definition ts_packet :: "u8 list \<Rightarrow> u8 \<Rightarrow> u8 list \<Rightarrow> u8 list \<Rightarrow> u8 list" where
  "ts_packet h cc pes chunk =
    (let room = 184 - length pes - length chunk in
     if room = 0 then h @ [0x10 OR (cc AND 0xF)] @ pes @ chunk
     else h @ [0x30 OR (cc AND 0xF), of_nat (room - 1)] @ replicate (room - 1) 0xFF @ pes @ chunk)"

text \<open>An access unit cut into packets; the first carries the PES header.\<close>

function es_packets :: "(nat \<Rightarrow> u8 list) \<Rightarrow> (nat \<Rightarrow> u8) \<Rightarrow> nat \<Rightarrow> u8 list \<Rightarrow> u8 list \<Rightarrow> u8 list list" where
  "es_packets h cc i pes es =
    (if es = [] \<or> 184 \<le> length pes then []
     else ts_packet (h i) (cc i) pes (take (184 - length pes) es) #
       es_packets h cc (Suc i) [] (drop (184 - length pes) es))"
  by pat_completeness auto
termination
  by (relation "measure (\<lambda>(h, cc, i, pes, es). length es)") (auto simp: length_greater_0_conv[symmetric] simp del: length_greater_0_conv)

declare es_packets.simps [simp del]

text \<open>Packets in RTP packets of up to seven, each behind a header of twelve bytes.\<close>

function rtp_stream :: "(nat \<Rightarrow> u8 list) \<Rightarrow> nat \<Rightarrow> u8 list list \<Rightarrow> u8 list" where
  "rtp_stream rtp k ps =
    (if ps = [] then [] else rtp k @ concat (take 7 ps) @ rtp_stream rtp (Suc k) (drop 7 ps))"
  by pat_completeness auto
termination
  by (relation "measure (\<lambda>(rtp, k, ps). length ps)") (auto simp: length_greater_0_conv[symmetric] simp del: length_greater_0_conv)

declare rtp_stream.simps [simp del]

definition rtp_len :: "nat \<Rightarrow> nat" where
  "rtp_len p = 12 * ((p + 6) div 7) + 188 * p"

lemma rtp_len_simps [simp]:
  "rtp_len 0 = 0" "rtp_len (7 + p) = 12 + 188 * 7 + rtp_len p" "0 < m \<Longrightarrow> m \<le> 7 \<Longrightarrow> rtp_len m = 12 + 188 * m"
proof -
  show "rtp_len 0 = 0" by (simp add: rtp_len_def)
  have "(7 + p + 6) div 7 = Suc ((p + 6) div 7)" by simp
  then show "rtp_len (7 + p) = 12 + 188 * 7 + rtp_len p" by (simp add: rtp_len_def)
  assume "0 < m" "m \<le> 7"
  then have "(m + 6) div 7 = 1" by (intro div_nat_eqI) simp_all
  then show "rtp_len m = 12 + 188 * m" by (simp add: rtp_len_def)
qed

lemma rtp_len_split: "0 < p \<Longrightarrow> rtp_len p = 12 + 188 * min p 7 + rtp_len (p - 7)"
proof (cases "p \<le> 7")
  case False
  then have "p = 7 + (p - 7)" by simp
  then show ?thesis using False rtp_len_simps(2)[of "p - 7"] by (simp add: min_def)
qed simp

lemma concat_len: "list_all (\<lambda>p. length p = n) ps \<Longrightarrow> length (concat ps) = n * length ps"
  by (induction ps) auto

lemma rtp_stream_length:
  "(\<And>i. length (rtp i) = 12) \<Longrightarrow> list_all (\<lambda>p. length p = 188) ps \<Longrightarrow>
   length (rtp_stream rtp k ps) = rtp_len (length ps)"
proof (induction rtp k ps rule: rtp_stream.induct)
  case (1 rtp k ps)
  show ?case
  proof (cases "ps = []")
    case True
    then show ?thesis by (simp add: rtp_stream.simps)
  next
    case False
    have "list_all (\<lambda>p. length p = 188) (take 7 ps)" "list_all (\<lambda>p. length p = 188) (drop 7 ps)"
      using 1(3) by (auto simp: list_all_iff dest: in_set_takeD in_set_dropD)
    then have "length (concat (take 7 ps)) = 188 * min (length ps) 7"
      "length (rtp_stream rtp (Suc k) (drop 7 ps)) = rtp_len (length ps - 7)"
      using concat_len[of 188 "take 7 ps"] 1(1)[OF False 1(2)] by (simp_all add: min.commute)
    then show ?thesis using False 1(2) rtp_len_split[of "length ps"] rtp_stream.simps[of rtp k ps] by simp
  qed
qed

section \<open>Taking the stream apart again\<close>

lemma copy_ts_groups:
  "188 * m \<le> length ptr \<Longrightarrow> m = n \<or> extra = 0 \<and> 0 < m \<and> m \<le> n \<Longrightarrow>
   copy_ts_packets n ptr (int (188 * m) + int extra) = Some (take (188 * m) ptr, drop (188 * m) ptr, int extra)"
proof (induction n arbitrary: m ptr)
  case (Suc n)
  then obtain m' where m: "m = Suc m'" by (cases m) auto
  have r: "c_read 188 ptr = Some (take 188 ptr, drop 188 ptr)" using Suc.prems m by (simp add: c_read_def)
  show ?case
  proof (cases "m' = 0 \<and> extra = 0")
    case True
    then show ?thesis using r m by simp
  next
    case False
    have "copy_ts_packets n (drop 188 ptr) (int (188 * m') + int extra) =
        Some (take (188 * m') (drop 188 ptr), drop (188 * m') (drop 188 ptr), int extra)"
      using Suc.prems False m by (intro Suc.IH) auto
    then show ?thesis using r m False by (auto simp: take_add add.commute)
  qed
qed auto

lemma copy_ts_exact:
  "copy_ts_packets n ptr sz = Some (out, ptr', sz') \<Longrightarrow> 0 < n \<Longrightarrow>
   \<exists>m. 0 < m \<and> m \<le> n \<and> sz' = sz - 188 * int m \<and> length ptr = length ptr' + 188 * m \<and> (m < n \<longrightarrow> sz' = 0)"
proof (induction n arbitrary: ptr sz out)
  case (Suc n)
  from Suc.prems have len: "188 \<le> length ptr" by (auto simp: c_read_def split: if_splits)
  show ?case
  proof (cases "sz = 188 \<or> n = 0")
    case True
    then show ?thesis using Suc.prems len by (intro exI[of _ 1]) (auto simp: c_read_def Let_def split: if_splits)
  next
    case False
    then obtain o1 where "copy_ts_packets n (drop 188 ptr) (sz - 188) = Some (o1, ptr', sz')"
      using Suc.prems len by (auto simp: c_read_def)
    from Suc.IH[OF this] False obtain m where m: "0 < m" "m \<le> n" "sz' = sz - 188 - 188 * int m"
      "length (drop 188 ptr) = length ptr' + 188 * m" "m < n \<longrightarrow> sz' = 0" by auto
    then show ?thesis using len by (intro exI[of _ "Suc m"]) auto
  qed
qed simp

lemma depacketize_rtp_nil: "sz \<le> 0 \<Longrightarrow> depacketize_rtp ptr sz = Some []"
  by (subst depacketize_rtp.simps) simp

lemma depacketize_rtp_defined: "rtp_len p \<le> length ptr \<Longrightarrow> depacketize_rtp ptr (int (rtp_len p)) \<noteq> None"
proof (induction p arbitrary: ptr rule: less_induct)
  case (less p)
  show ?case
  proof (cases "p = 0")
    case True
    then show ?thesis by (simp add: depacketize_rtp_nil)
  next
    case False
    then have split: "rtp_len p = 12 + 188 * min p 7 + rtp_len (p - 7)" using rtp_len_split by simp
    have copy: "copy_ts_packets 7 (drop 12 ptr) (int (188 * min p 7) + int (rtp_len (p - 7))) =
        Some (take (188 * min p 7) (drop 12 ptr), drop (188 * min p 7) (drop 12 ptr), int (rtp_len (p - 7)))"
    proof (rule copy_ts_groups)
      show "188 * min p 7 \<le> length (drop 12 ptr)" using less.prems split by simp
      show "min p 7 = 7 \<or> rtp_len (p - 7) = 0 \<and> 0 < min p 7 \<and> min p 7 \<le> 7"
        using False by (cases "p \<le> 7") auto
    qed
    have "depacketize_rtp (drop (188 * min p 7) (drop 12 ptr)) (int (rtp_len (p - 7))) \<noteq> None"
      using less.IH[of "p - 7"] less.prems split False by auto
    then show ?thesis
      using copy split by (subst depacketize_rtp.simps) (auto simp: algebra_simps)
  qed
qed

lemma depacketize_rtp_reads:
  "depacketize_rtp ptr sz = Some out \<Longrightarrow> \<exists>p. sz \<le> int (rtp_len p) \<and> (0 < p \<longrightarrow> rtp_len p \<le> length ptr)"
proof (induction ptr sz arbitrary: out rule: depacketize_rtp.induct)
  case (1 ptr sz)
  show ?case
  proof (cases "0 < sz")
    case False
    then show ?thesis by (intro exI[of _ 0]) simp
  next
    case True
    then obtain o1 ptr' sz' o2 where c: "copy_ts_packets 7 (drop 12 ptr) (sz - 12) = Some (o1, ptr', sz')"
      and d: "depacketize_rtp ptr' sz' = Some o2"
      using 1(2) by (subst (asm) depacketize_rtp.simps) (auto split: option.splits)
    obtain m where m: "0 < m" "m \<le> 7" "sz' = sz - 12 - 188 * int m" "length (drop 12 ptr) = length ptr' + 188 * m"
      "m < 7 \<longrightarrow> sz' = 0"
      using copy_ts_exact[OF c] by auto
    obtain p where p: "sz' \<le> int (rtp_len p)" "0 < p \<longrightarrow> rtp_len p \<le> length ptr'"
      using 1(1)[OF True c refl refl d] by auto
    have len: "12 + 188 * m \<le> length ptr" using m(1,4) by simp
    show ?thesis
    proof (cases "m = 7")
      case True
      then show ?thesis using m(3,4) p len rtp_len_simps(2)[of p]
        by (intro exI[of _ "7 + p"]) (auto simp del: rtp_len_simps(2))
    next
      case False
      then have "sz' = 0" "m < 7" using m(2,5) by auto
      then show ?thesis using m len by (intro exI[of _ m]) auto
    qed
  qed
qed

text \<open>
  C30: \<open>depacketize_rtp\<close> always terminates, and it stays inside the buffer exactly when the
  size it is given is that of whole RTP packets, all but the last of seven transport packets. On any
  other size it reads behind the end.
\<close>

theorem depacketize_rtp_exact:
  "depacketize_rtp bytes (int (length bytes)) \<noteq> None \<longleftrightarrow> (\<exists>p. length bytes = rtp_len p)"
proof
  assume "depacketize_rtp bytes (int (length bytes)) \<noteq> None"
  then obtain out where "depacketize_rtp bytes (int (length bytes)) = Some out" by auto
  from depacketize_rtp_reads[OF this]
  obtain p where "length bytes \<le> rtp_len p" "0 < p \<longrightarrow> rtp_len p \<le> length bytes"
    by (metis of_nat_le_iff)
  then show "\<exists>p. length bytes = rtp_len p" by (intro exI[of _ p]) (cases "p = 0"; simp)
next
  assume "\<exists>p. length bytes = rtp_len p"
  then obtain p where "length bytes = rtp_len p" ..
  then show "depacketize_rtp bytes (int (length bytes)) \<noteq> None"
    using depacketize_rtp_defined[of p bytes] by simp
qed

lemma depacketize_rtp_stream:
  "(\<And>i. length (rtp i) = 12) \<Longrightarrow> list_all (\<lambda>p. length p = 188) ps \<Longrightarrow>
   depacketize_rtp (rtp_stream rtp k ps @ rest) (int (rtp_len (length ps))) = Some (concat ps)"
proof (induction rtp k ps rule: rtp_stream.induct)
  case (1 rtp k ps)
  show ?case
  proof (cases "ps = []")
    case True
    then show ?thesis by (simp add: depacketize_rtp_nil)
  next
    case False
    let ?m = "min (length ps) 7" and ?rest = "rtp_stream rtp (Suc k) (drop 7 ps) @ rest"
    have all: "list_all (\<lambda>p. length p = 188) (take 7 ps)" "list_all (\<lambda>p. length p = 188) (drop 7 ps)"
      using 1(3) by (auto simp: list_all_iff dest: in_set_takeD in_set_dropD)
    have len: "length (concat (take 7 ps)) = 188 * ?m" using concat_len[OF all(1)] by (simp add: min.commute)
    have stream: "drop 12 (rtp_stream rtp k ps @ rest) = concat (take 7 ps) @ ?rest"
      using False 1(2)[of k] by (subst rtp_stream.simps) simp
    have "copy_ts_packets 7 (concat (take 7 ps) @ ?rest) (int (188 * ?m) + int (rtp_len (length ps - 7))) =
        Some (take (188 * ?m) (concat (take 7 ps) @ ?rest), drop (188 * ?m) (concat (take 7 ps) @ ?rest),
          int (rtp_len (length ps - 7)))"
    proof (rule copy_ts_groups)
      show "188 * ?m \<le> length (concat (take 7 ps) @ ?rest)" using len by simp
      show "?m = 7 \<or> rtp_len (length ps - 7) = 0 \<and> 0 < ?m \<and> ?m \<le> 7"
        using False by (cases "length ps \<le> 7") auto
    qed
    then have copy: "copy_ts_packets 7 (concat (take 7 ps) @ ?rest) (int (188 * ?m) + int (rtp_len (length ps - 7))) =
        Some (concat (take 7 ps), ?rest, int (rtp_len (length ps - 7)))"
      using len by simp
    have ih: "depacketize_rtp ?rest (int (rtp_len (length ps - 7))) = Some (concat (drop 7 ps))"
      using 1(1)[OF False 1(2) all(2)] by simp
    have sz: "int (rtp_len (length ps)) = 12 + (int (188 * ?m) + int (rtp_len (length ps - 7)))"
      using rtp_len_split[of "length ps"] False by simp
    have "concat (take 7 ps) @ concat (drop 7 ps) = concat ps"
      by (metis append_take_drop_id concat_append)
    then show ?thesis
      unfolding sz using copy ih stream by (subst depacketize_rtp.simps) simp
  qed
qed

text \<open>
  From packets sent in RTP packets the transport packets come back, in order.
\<close>

theorem depacketize_rtp_roundtrip:
  assumes "\<And>i. length (rtp i) = 12" "list_all (\<lambda>p. length p = 188) ps"
  shows "depacketize_rtp (rtp_stream rtp k ps) (int (length (rtp_stream rtp k ps))) = Some (concat ps)"
  using depacketize_rtp_stream[where k = k and rest = "[]", OF assms] rtp_stream_length[OF assms] by simp

theorem depacketize_rtp_roundtrip_witness:
  "depacketize_rtp (rtp_stream (\<lambda>i. replicate 12 0) 0 [replicate 188 1, replicate 188 2]) 388 =
   Some (replicate 188 1 @ replicate 188 2)"
proof -
  define ps where "ps = [replicate 188 1, replicate 188 2 :: u8 list]"
  have ps: "list_all (\<lambda>p. length p = 188) ps" "concat ps = replicate 188 1 @ replicate 188 2" "length ps = 2"
    by (simp_all add: ps_def)
  have "length (rtp_stream (\<lambda>i. replicate 12 0) 0 ps) = 388"
    using rtp_stream_length[of "\<lambda>i. replicate 12 0" ps 0] ps by (simp add: rtp_len_def)
  then show ?thesis
    using depacketize_rtp_roundtrip[of "\<lambda>i. replicate 12 0" ps 0] ps unfolding ps_def[symmetric] by simp
qed

section \<open>Elementary streams\<close>

lemma c_read_one [simp]:
  "c_read 1 (x # xs) = Some ([x], xs)" "c_read (Suc 0) (x # xs) = Some ([x], xs)"
  by (auto simp: c_read_def)

lemma read_psi_packet:
  assumes "length q = 188" "adaptation_control (q ! 3) \<noteq> 3" "0 < psi_packet s"
  shows "read_ts_packet True (s\<lparr>ts_ptr := q @ rest\<rparr>) = Some (s\<lparr>ts_ptr := rest, psi_packet := psi_packet s - 1\<rparr>)"
proof -
  have "drop 3 q = q ! 3 # drop 4 q" using assms(1) Cons_nth_drop_Suc[of 3 q] by simp
  then have "c_read 1 (drop 3 (q @ rest)) = Some ([q ! 3], drop 4 q @ rest)" using assms(1) by simp
  then show ?thesis using assms by (simp add: read_ts_packet_def)
qed

lemma control_nibble: "adaptation_control (0x10 OR (cc AND 0xF)) = 1" "adaptation_control (0x30 OR (cc AND 0xF)) = 3"
proof -
  have c: "(0x10 :: u8) = push_bit 4 1" "(0x30 :: u8) = push_bit 4 3" "(0xF :: u8) = mask 4" "(3 :: u8) = mask 2"
    by (simp_all add: push_bit_eq_mult mask_eq_exp_minus_1)
  have "adaptation_control (push_bit 4 x OR (cc AND mask 4)) = x AND mask 2" if "x AND mask 2 = x" for x :: u8
  proof -
    have "x = take_bit 2 x" using that by (simp add: take_bit_eq_mask)
    then have b: "bit x n \<Longrightarrow> n < 2" for n by (metis bit_take_bit_iff)
    show ?thesis
      unfolding adaptation_control_def c take_bit_eq_mask[symmetric] by (rule bit_eqI) (simp only: word_bits, auto dest: b)
  qed
  from this[of 1] this[of 3] show "adaptation_control (0x10 OR (cc AND 0xF)) = 1" "adaptation_control (0x30 OR (cc AND 0xF)) = 3"
    unfolding c(1,2,3) by (simp_all add: mask_eq_exp_minus_1)
qed

lemma read_data_packet:
  assumes d: "drop 3 (ts_ptr s) = b # xs" and psi: "\<not> (psi \<and> psi_packet s > 0)"
    and stuffed: "adaptation_control b = 3 \<Longrightarrow>
      xs = len # ys \<and> drop (unat len) (if is_pes_header s then drop 14 ys else ys) = chunk @ rest"
    and plain: "adaptation_control b \<noteq> 3 \<Longrightarrow> (if is_pes_header s then drop 14 xs else xs) = chunk @ rest"
    and size: "(if remain_es_size s \<ge> (if is_pes_header s then 184 - 14 else 184)
       then (if is_pes_header s then 184 - 14 else 184) else remain_es_size s) = int (length chunk)"
  shows "read_ts_packet psi s = Some (s\<lparr>ts_ptr := rest, out_data := out_data s @ chunk, is_pes_header := False,
      remain_es_size := remain_es_size s - int (length chunk)\<rparr>)"
proof -
  have chunk: "c_read (nat (int (length chunk))) (chunk @ rest) = Some (chunk, rest)" by (simp add: c_read_def)
  show ?thesis
  proof (cases "adaptation_control b = 3")
    case True
    then have xs: "xs = len # ys" "drop (unat len) (if is_pes_header s then drop 14 ys else ys) = chunk @ rest"
      using stuffed by auto
    show ?thesis
      using psi unfolding read_ts_packet_def Let_def size d by (auto simp: True xs chunk simp del: nat_int)
  next
    case False
    then show ?thesis
      using psi plain unfolding read_ts_packet_def Let_def size d by (auto simp: chunk simp del: nat_int)
  qed
qed

lemma read_es_packet:
  assumes h: "length h = 3" and pes: "length pes = (if is_pes_header s then 14 else 0)"
    and chunk: "length chunk \<le> 184 - length pes"
      "length chunk = 184 - length pes \<or> remain_es_size s = int (length chunk)" "int (length chunk) \<le> remain_es_size s"
    and psi: "\<not> (psi \<and> psi_packet s > 0)" and ptr: "ts_ptr s = ts_packet h cc pes chunk @ rest"
  shows "read_ts_packet psi s =
    Some (s\<lparr>ts_ptr := rest, out_data := out_data s @ chunk, is_pes_header := False,
      remain_es_size := remain_es_size s - int (length chunk)\<rparr>)"
proof -
  define room where "room = 184 - length pes - length chunk"
  have size: "(if remain_es_size s \<ge> (if is_pes_header s then 184 - 14 else 184)
       then (if is_pes_header s then 184 - 14 else 184) else remain_es_size s) = int (length chunk)"
    using chunk pes by auto
  show ?thesis
  proof (cases "room = 0")
    case True
    then have "ts_packet h cc pes chunk @ rest = h @ (0x10 OR (cc AND 0xF)) # pes @ chunk @ rest"
      by (simp add: ts_packet_def room_def)
    then have "drop 3 (ts_ptr s) = (0x10 OR (cc AND 0xF)) # pes @ chunk @ rest"
      using h ptr by simp
    then show ?thesis
      using pes by (rule_tac read_data_packet[OF _ psi _ _ size]) (auto simp: control_nibble)
  next
    case False
    then have "ts_packet h cc pes chunk @ rest =
        h @ (0x30 OR (cc AND 0xF)) # of_nat (room - 1) # replicate (room - 1) 0xFF @ pes @ chunk @ rest"
      by (simp add: ts_packet_def room_def Let_def)
    then have d: "drop 3 (ts_ptr s) =
        (0x30 OR (cc AND 0xF)) # of_nat (room - 1) # replicate (room - 1) 0xFF @ pes @ chunk @ rest"
      using h ptr by simp
    have "room - 1 < 256" using chunk pes by (auto simp: room_def)
    then have u: "unat (of_nat (room - 1) :: u8) = room - 1" by (simp add: unat_of_nat)
    have skip: "drop (room - 1) (if is_pes_header s then drop 14 (replicate (room - 1) 0xFF @ pes @ chunk @ rest)
        else replicate (room - 1) 0xFF @ pes @ chunk @ rest) = chunk @ rest"
    proof (cases "is_pes_header s")
      case True
      have "drop (room - 1) (drop 14 (replicate (room - 1) 0xFF @ pes @ chunk @ rest)) =
          drop 14 (drop (room - 1) (replicate (room - 1) 0xFF @ pes @ chunk @ rest))"
        by (simp only: drop_drop add.commute)
      then show ?thesis using True pes by simp
    qed (use pes in simp)
    show ?thesis
    proof (rule read_data_packet[OF d psi _ _ size])
      show "of_nat (room - 1) # replicate (room - 1) 0xFF @ pes @ chunk @ rest =
          of_nat (room - 1) # replicate (room - 1) 0xFF @ pes @ chunk @ rest \<and>
        drop (unat (of_nat (room - 1) :: u8)) (if is_pes_header s then drop 14 (replicate (room - 1) 0xFF @ pes @ chunk @ rest)
          else replicate (room - 1) 0xFF @ pes @ chunk @ rest) = chunk @ rest"
        unfolding u using skip by blast
    qed (simp add: control_nibble)
  qed
qed

text \<open>
  What is still to come in the middle of a stream: the PSI packets not yet skipped, and the packets of the
  rest of the access unit.
\<close>

definition to_come ::
  "(nat \<Rightarrow> u8 list) \<Rightarrow> (nat \<Rightarrow> u8) \<Rightarrow> u8 list \<Rightarrow> bool \<Rightarrow> ts_reader \<Rightarrow> u8 list list \<Rightarrow> u8 list \<Rightarrow> bool" where
  "to_come h cc pes psi s ps es \<longleftrightarrow>
     (\<exists>qs i. ps = qs @ es_packets h cc i (if is_pes_header s then pes else []) es \<and>
        length qs = (if psi then nat (psi_packet s) else 0) \<and>
        list_all (\<lambda>q. length q = 188 \<and> adaptation_control (q ! 3) \<noteq> 3) qs) \<and>
     remain_es_size s = int (length es)"

lemma to_come_ptr [simp]: "to_come h cc pes psi (s\<lparr>ts_ptr := x\<rparr>) ps es = to_come h cc pes psi s ps es"
  by (simp add: to_come_def)

lemma es_packets_Cons:
  "es \<noteq> [] \<Longrightarrow> length pes < 184 \<Longrightarrow> es_packets h cc i pes es =
    ts_packet (h i) (cc i) pes (take (184 - length pes) es) # es_packets h cc (Suc i) [] (drop (184 - length pes) es)"
  by (subst es_packets.simps) simp

lemma es_packets_Nil [simp]: "es_packets h cc i pes [] = []"
  by (subst es_packets.simps) simp

lemma read_step:
  assumes "\<And>i. length (h i) = 3" "length pes = 14" "to_come h cc pes psi s (p # ps) es" "es \<noteq> []" "ts_ptr s = p @ rest"
  shows "\<exists>s' es'. read_ts_packet psi s = Some s' \<and> to_come h cc pes psi s' ps es' \<and> ts_ptr s' = rest \<and>
    out_data s' @ es' = out_data s @ es \<and> (es' = [] \<longrightarrow> ps = [])"
proof -
  obtain qs i where qs: "p # ps = qs @ es_packets h cc i (if is_pes_header s then pes else []) es"
      "length qs = (if psi then nat (psi_packet s) else 0)"
      "list_all (\<lambda>q. length q = 188 \<and> adaptation_control (q ! 3) \<noteq> 3) qs" and sz: "remain_es_size s = int (length es)"
    using assms(3) by (auto simp: to_come_def)
  let ?pes = "if is_pes_header s then pes else []"
  show ?thesis
  proof (cases qs)
    case Nil
    define chunk where "chunk = take (184 - length ?pes) es"
    define es' where "es' = drop (184 - length ?pes) es"
    have es: "es = chunk @ es'" by (simp add: chunk_def es'_def)
    have p: "p = ts_packet (h i) (cc i) ?pes chunk" "ps = es_packets h cc (Suc i) [] es'"
      using qs(1) Nil assms(2,4) es_packets_Cons[of es ?pes h cc i] by (auto simp: chunk_def es'_def)
    have "read_ts_packet psi s = Some (s\<lparr>ts_ptr := rest, out_data := out_data s @ chunk, is_pes_header := False,
        remain_es_size := remain_es_size s - int (length chunk)\<rparr>)"
    proof (rule read_es_packet)
      show "length (h i) = 3" by (rule assms(1))
      show "length ?pes = (if is_pes_header s then 14 else 0)" using assms(2) by simp
      show "length chunk \<le> 184 - length ?pes" by (simp add: chunk_def)
      show "length chunk = 184 - length ?pes \<or> remain_es_size s = int (length chunk)" using sz by (auto simp: chunk_def min_def)
      show "int (length chunk) \<le> remain_es_size s" using sz es by simp
      show "\<not> (psi \<and> 0 < psi_packet s)" using qs(2) Nil by auto
      show "ts_ptr s = ts_packet (h i) (cc i) ?pes chunk @ rest" using assms(5) p by simp
    qed
    moreover have "to_come h cc pes psi (s\<lparr>ts_ptr := rest, out_data := out_data s @ chunk, is_pes_header := False,
        remain_es_size := remain_es_size s - int (length chunk)\<rparr>) ps es'"
      using qs(2) Nil p(2) sz es unfolding to_come_def by (intro conjI exI[of _ "[]"] exI[of _ "Suc i"]) (simp_all split: if_splits)
    ultimately show ?thesis using es p(2) by (intro exI[of _ es'] exI conjI) auto
  next
    case (Cons q qs')
    then have q: "p = q" "ps = qs' @ es_packets h cc i ?pes es" "length q = 188" "adaptation_control (q ! 3) \<noteq> 3"
      "psi" "0 < psi_packet s" using qs by (auto split: if_splits)
    have "s = s\<lparr>ts_ptr := q @ rest\<rparr>" using assms(5) q(1) by simp
    then have "read_ts_packet True s = Some (s\<lparr>ts_ptr := rest, psi_packet := psi_packet s - 1\<rparr>)"
      using read_psi_packet[OF q(3,4,6)] by metis
    moreover have "to_come h cc pes True (s\<lparr>ts_ptr := rest, psi_packet := psi_packet s - 1\<rparr>) ps es"
      using qs(2,3) Cons q sz unfolding to_come_def by (intro conjI exI[of _ qs'] exI[of _ i]) auto
    ultimately show ?thesis using q(5) assms(4)
      by (intro exI[of _ "s\<lparr>ts_ptr := rest, psi_packet := psi_packet s - 1\<rparr>"] exI[of _ es]) auto
  qed
qed

lemma read_group:
  assumes "\<And>i. length (h i) = 3" "length pes = 14"
  shows "to_come h cc pes psi s ps es \<Longrightarrow> es \<noteq> [] \<Longrightarrow> ts_ptr s = concat (take n ps) @ rest \<Longrightarrow>
    \<exists>s' es'. read_ts_packets psi n s = Some s' \<and> to_come h cc pes psi s' (drop n ps) es' \<and> ts_ptr s' = rest \<and>
      out_data s' @ es' = out_data s @ es \<and> (es' = [] \<longrightarrow> drop n ps = [])"
proof (induction n arbitrary: s ps es)
  case 0
  then show ?case by auto
next
  case (Suc n)
  have "ps \<noteq> []"
    using Suc.prems(1,2) assms(2) es_packets_Cons[of es pes h cc] es_packets_Cons[of es "[]" h cc]
    by (auto simp: to_come_def split: if_splits)
  then obtain p ps' where ps: "ps = p # ps'" by (cases ps) auto
  obtain t es1 where t: "read_ts_packet psi s = Some t" "to_come h cc pes psi t ps' es1"
      "ts_ptr t = concat (take n ps') @ rest" "out_data t @ es1 = out_data s @ es" "es1 = [] \<longrightarrow> ps' = []"
    using read_step[where h = h and pes = pes and cc = cc and psi = psi and s = s and p = p and ps = ps' and es = es and
        rest = "concat (take n ps') @ rest", OF assms] Suc.prems ps by auto
  show ?case
  proof (cases "es1 = []")
    case True
    then show ?thesis using t ps by (auto simp: to_come_def)
  next
    case False
    then have "remain_es_size t \<noteq> 0" using t(2) by (simp add: to_come_def)
    then show ?thesis using Suc.IH[OF t(2) False t(3)] t(1,4) ps by auto
  qed
qed

lemma read_stream:
  assumes "\<And>i. length (h i) = 3" "length pes = 14" "\<And>k. length (rtp k) = 12"
  shows "to_come h cc pes psi s ps es \<Longrightarrow> es \<noteq> [] \<Longrightarrow> ts_ptr s = rtp_stream rtp k ps @ rest \<Longrightarrow>
    \<exists>s'. read_rtp_packets psi s = Some s' \<and> out_data s' = out_data s @ es"
proof (induction ps arbitrary: s es k rule: length_induct)
  case (1 ps)
  have "ps \<noteq> []"
    using 1(2,3) assms(2) es_packets_Cons[of es pes h cc] es_packets_Cons[of es "[]" h cc]
    by (auto simp: to_come_def split: if_splits)
  then have ptr: "drop 12 (ts_ptr s) = concat (take 7 ps) @ rtp_stream rtp (Suc k) (drop 7 ps) @ rest"
    using 1(4) assms(3)[of k] rtp_stream.simps[of rtp k ps] by simp
  have rem: "0 < remain_es_size s" using 1(2,3) by (simp add: to_come_def)
  have "to_come h cc pes psi (s\<lparr>ts_ptr := drop 12 (ts_ptr s)\<rparr>) ps es" using 1(2) by simp
  from read_group[OF assms(1,2) this 1(3), where n = 7 and rest = "rtp_stream rtp (Suc k) (drop 7 ps) @ rest"]
  obtain t es' where t: "read_ts_packets psi 7 (s\<lparr>ts_ptr := drop 12 (ts_ptr s)\<rparr>) = Some t"
      "to_come h cc pes psi t (drop 7 ps) es'" "ts_ptr t = rtp_stream rtp (Suc k) (drop 7 ps) @ rest"
      "out_data t @ es' = out_data s @ es"
    using ptr by auto
  show ?case
  proof (cases "es' = []")
    case True
    then have "read_rtp_packets psi t = Some t"
      using t(2) by (subst read_rtp_packets.simps) (simp add: to_come_def)
    then show ?thesis using t True rem by (subst read_rtp_packets.simps) simp
  next
    case False
    have "length (drop 7 ps) < length ps" using \<open>ps \<noteq> []\<close> by simp
    then obtain s' where "read_rtp_packets psi t = Some s'" "out_data s' = out_data t @ es'"
      using 1(1) t(2,3) False by blast
    then show ?thesis using t rem by (subst read_rtp_packets.simps) auto
  qed
qed



section \<open>Sizes of streams\<close>

lemma ts_packet_length:
  "length h = 3 \<Longrightarrow> length pes + length chunk \<le> 184 \<Longrightarrow> length (ts_packet h cc pes chunk) = 188"
  by (auto simp: ts_packet_def Let_def)

lemma es_packets_length:
  assumes "\<And>i. length (h i) = 3"
  shows "length pes < 184 \<Longrightarrow> es \<noteq> [] \<Longrightarrow>
    list_all (\<lambda>p. length p = 188) (es_packets h cc i pes es) \<and>
    length (es_packets h cc i pes es) = (length pes + length es + 183) div 184"
proof (induction "length es" arbitrary: i pes es rule: less_induct)
  case less
  define n where "n = 184 - length pes"
  have n: "0 < n" "n \<le> 184" "length pes + n = 184" using less(2) by (simp_all add: n_def)
  have first: "length (ts_packet (h i) (cc i) pes (take n es)) = 188"
    using ts_packet_length[OF assms] less(2) by (simp add: n_def)
  have es: "es_packets h cc i pes es =
      ts_packet (h i) (cc i) pes (take n es) # es_packets h cc (Suc i) [] (drop n es)"
    using es_packets_Cons less(2,3) by (simp add: n_def)
  show ?case
  proof (cases "drop n es = []")
    case True
    then have "1 \<le> length es" "length es \<le> n" using less(3) by (simp_all add: Suc_le_eq)
    then have "184 \<le> length pes + length es + 183" "length pes + length es + 183 < 368" using n by linarith+
    then have "(length pes + length es + 183) div 184 = 1" by (intro div_nat_eqI) simp_all
    then show ?thesis using True es first by simp
  next
    case False
    then have "length (drop n es) < length es" "n < length es" using n(1) by simp_all
    from less(1)[OF this(1) _ False, of "[]"]
    have "list_all (\<lambda>p. length p = 188) (es_packets h cc (Suc i) [] (drop n es)) \<and>
      length (es_packets h cc (Suc i) [] (drop n es)) = (length es - n + 183) div 184" by simp
    moreover have "length pes + length es + 183 = 184 + (length es - n + 183)" using n \<open>n < length es\<close> by simp
    ultimately show ?thesis using es first by simp
  qed
qed

lemma c_div_nat: "int a sdiv int b = int (a div b)" "int a smod int b = int (a mod b)"
  by (cases "a = 0"; simp add: signed_divide_int_def signed_modulo_int_def sgn_if zdiv_int zmod_int)+

lemma get_rtp_size_len:
  assumes "n = (nes + (if audio then 16 else 14) + 183) div 184"
  shows "get_rtp_size (int nes) audio psi False = int (rtp_len ((if psi then 3 else 0) + n))"
proof -
  define q where "q = (if psi then 3 else 0 :: nat)"
  have "(int nes + 14 + (if audio then 2 else 0) + 183) sdiv 184 = int n"
    using c_div_nat(1)[of "nes + (if audio then 16 else 14) + 183" 184] assms
    by (simp add: add.commute add.left_commute split: if_splits)
  then have t: "(if psi then 188 * 3 else 0) + (int nes + 14 + (if audio then 2 else 0) + 183) sdiv 184 * 188 =
      int (188 * (q + n))" by (simp add: q_def)
  have "(188 * (q + n) + 7 * 188 - 1) div (7 * 188) = ((188 * (q + n) + 7 * 188 - 1) div 188) div 7"
    by (simp only: div_mult2_eq mult.commute)
  also have "(188 * (q + n) + 7 * 188 - 1) = 187 + 188 * (q + n + 6)" by simp
  finally have "(188 * (q + n) + 7 * 188 - 1) div (7 * 188) = (q + n + 6) div 7" by simp
  then have "(int (188 * (q + n)) + 7 * 188 - 1) sdiv (7 * 188) = int ((q + n + 6) div 7)"
    using c_div_nat(1)[of "188 * (q + n) + 7 * 188 - 1" "7 * 188"] by (simp add: of_nat_diff)
  then show ?thesis
    using t by (simp add: get_rtp_size_def Let_def rtp_len_def q_def[symmetric])
qed

lemma rtp_len_div: "rtp_len p = 1328 * (p div 7) + (if p mod 7 = 0 then 0 else 12 + 188 * (p mod 7))"
proof -
  have "(p + 6) div 7 = p div 7 + (if p mod 7 = 0 then 0 else 1)" by presburger
  moreover have "p = 7 * (p div 7) + p mod 7" by simp
  moreover define a b where "a = p div 7" and "b = p mod 7"
  ultimately have "(p + 6) div 7 = a + (if b = 0 then 0 else 1)" "p = 7 * a + b" by simp_all
  then show ?thesis unfolding rtp_len_def a_def[symmetric] b_def[symmetric] by (cases "b = 0") simp_all
qed

lemma mask_15: "x AND 0xf = x mod 16" for x :: int
proof -
  have "(0xf :: int) = mask 4" by (simp add: mask_eq_exp_minus_1)
  then show ?thesis by (simp only: take_bit_eq_mask[symmetric] take_bit_eq_mod) simp
qed

lemma counter_of_rtp_len:
  "increament_ts_continuity_counter c (int (rtp_len p)) psi = (c + int p - (if psi then 3 else 0)) mod 16"
proof -
  define r where "r = rtp_len p mod 1328"
  have "p mod 7 < 7" by simp
  then have small: "(if p mod 7 = 0 then 0 else 12 + 188 * (p mod 7)) < 1328" by auto
  have r: "r = (if p mod 7 = 0 then 0 else 12 + 188 * (p mod 7))" "rtp_len p div 1328 = p div 7"
    using small unfolding r_def rtp_len_div by (simp_all del: mult_eq_0_iff)
  have div: "int (rtp_len p) sdiv (188 * TS_PKT_COUNT_PER_RTP + 12) = int (p div 7)"
    "int (rtp_len p) smod (188 * TS_PKT_COUNT_PER_RTP + 12) = int r"
    using c_div_nat[of "rtp_len p" 1328] r by (simp_all add: TS_PKT_COUNT_PER_RTP_def r_def)
  have rest: "(int r - 12) sdiv 188 = int (p mod 7)" if "0 < r"
  proof -
    have "int r - 12 = int (188 * (p mod 7))" using that r(1) by (auto split: if_splits)
    then show ?thesis using c_div_nat(1)[of "188 * (p mod 7)" 188] by simp
  qed
  have "int (p div 7) * 7 + (if 0 < r then int (p mod 7) else 0) = int p"
  proof (cases "0 < r")
    case False
    then have "p mod 7 = 0" using r(1) by (auto split: if_splits)
    then show ?thesis using False by auto
  next
    case True
    have "int (p div 7 * 7 + p mod 7) = int p" by (simp only: div_mult_mod_eq)
    then show ?thesis unfolding if_P[OF True] by (metis of_nat_add of_nat_mult of_nat_numeral)
  qed
  then show ?thesis
    using rest div by (auto simp: increament_ts_continuity_counter_def Let_def TS_PKT_COUNT_PER_RTP_def mask_15 algebra_simps)
qed

text \<open>
  C32: without encryption \<open>get_rtp_size\<close> is the exact number of bytes of the stream an access
  unit is sent as, with or without PSI, and \<open>increament_ts_continuity_counter\<close> advances the counter by
  the number of its packets, not counting the PSI packets, modulo 16.
\<close>

theorem get_rtp_size_exact:
  assumes "\<And>i. length (h i) = 3" "length pes = (if audio then 16 else 14)" "\<And>k. length (rtp k) = 12" "es \<noteq> []"
    and "list_all (\<lambda>q. length q = 188) qs" "length qs = (if psi then 3 else 0)"
  shows "int (length (rtp_stream rtp 0 (qs @ es_packets h cc 0 pes es))) = get_rtp_size (int (length es)) audio psi False \<and>
    increament_ts_continuity_counter c (get_rtp_size (int (length es)) audio psi False) psi =
      (c + int (length (es_packets h cc 0 pes es))) mod 16"
proof -
  define n where "n = (length pes + length es + 183) div 184"
  have "length pes < 184" using assms(2) by (auto split: if_splits)
  from es_packets_length[where h = h and cc = cc and i = 0, OF assms(1) this assms(4)]
  have es: "list_all (\<lambda>p. length p = 188) (es_packets h cc 0 pes es)" "length (es_packets h cc 0 pes es) = n"
    by (simp_all add: n_def)
  have "length (rtp_stream rtp 0 (qs @ es_packets h cc 0 pes es)) = rtp_len (length qs + n)"
    using rtp_stream_length[where rtp = rtp and ps = "qs @ es_packets h cc 0 pes es" and k = 0, OF assms(3)] assms(5) es
    by simp
  moreover have "get_rtp_size (int (length es)) audio psi False = int (rtp_len (length qs + n))"
    using get_rtp_size_len[of n "length es" audio psi] assms(2,6) by (simp add: n_def add.commute)
  ultimately show ?thesis
    using es(2) assms(6) by (simp add: counter_of_rtp_len)
qed

theorem get_rtp_size_exact_witness:
  "\<exists>stream :: u8 list. int (length stream) = get_rtp_size 3 True False False \<and>
    increament_ts_continuity_counter 5 (get_rtp_size 3 True False False) False = 6"
  using get_rtp_size_exact[of "\<lambda>_. [0x47, 0x50, 0x11]" "replicate 16 0" True "\<lambda>_. replicate 12 0" "[7, 8, 9]" "[]" False
    "\<lambda>_. 0" 5]
    es_packets_length[of "\<lambda>_. [0x47, 0x50, 0x11]" "replicate 16 0" "[7, 8, 9]" "\<lambda>_. 0" 0]
  by (intro exI) auto

end
