(* ===== verification/TsMux.thy ===== *)
theory TsMux
  imports TsStream "HOL-Library.Multiset"
begin

text \<open>
  The handle of the multiplexer (\<open>struct tsmux_hal\<close> of \<open>base/libtsmux/tsmux_hal.cpp\<close>): its buffers and
  their descriptors, when PSI is sent, and the headers filled in for each job. What the kernel answers
  is a parameter: \<open>alloc k\<close> is the result of the \<open>k\<close>-th allocation of a call, \<open>mmap fd\<close> the address
  \<open>mmap\<close> returns, and \<open>ioctl\<close> results come as arguments. \<open>ts_closed\<close> lists the descriptors closed and
  \<open>ts_unmapped\<close> the areas given to \<open>munmap\<close>. Of the headers only the fields the code sets to something other
  than zero are kept.
\<close>

section \<open>State\<close>

definition TSMUX_MAX_M2M_CMD_QUEUE_NUM :: nat where [code_consts]: "TSMUX_MAX_M2M_CMD_QUEUE_NUM = 3"
definition TSMUX_OUT_BUF_CNT :: nat where [code_consts]: "TSMUX_OUT_BUF_CNT = 4"
definition MAP_FAILED :: int where [code_consts]: "MAP_FAILED = -1"
definition M2M_BUF_SIZE :: int where [code_consts]: "M2M_BUF_SIZE = 32768"
definition PES_HDR_CODE :: int where [code_consts]: "PES_HDR_CODE = 1"
definition PES_HDR_MARKER :: int where [code_consts]: "PES_HDR_MARKER = 2"
definition TS_HDR_SYNC :: int where [code_consts]: "TS_HDR_SYNC = 0x47"

record tsmux_pkt_ctrl =
  psi_en :: int
  pc_rtp_size :: int
  pes_stuffing_num :: int
  pc_mode :: int
  pc_id :: int

record tsmux_pes_hdr =
  pes_code :: int
  stream_id :: int
  pkt_len :: int
  pes_marker :: int
  pes_alignment :: int
  pes_flags :: int
  hdr_len :: int
  pes_pts39_16 :: u32
  pes_pts15_0 :: u32

record tsmux_ts_hdr =
  ts_sync :: int
  ts_pid :: int
  adapt_ctrl :: int

record tsmux_rtp_hdr =
  rtp_ver :: int
  rtp_marker :: int
  pl_type :: int
  rtp_ssrc :: int

record tsmux_buffer =
  ion_buf_fd :: int
  buffer_size :: int
  buf_offset :: int
  actual_size :: int

record tsmux_job =
  pkt_ctrl :: tsmux_pkt_ctrl
  pes_hdr :: tsmux_pes_hdr
  ts_hdr :: tsmux_ts_hdr
  rtp_hdr :: tsmux_rtp_hdr
  m2m_enable :: int
  in_buf :: tsmux_buffer
  out_buf :: tsmux_buffer

record tsmux_rtp_ts_info =
  rtp_seq_number :: int
  rtp_seq_override :: int
  ts_pat_cc :: int
  ts_pmt_cc :: int
  ts_video_cc :: int
  ts_audio_cc :: int

record tsmux_hal =
  m2m_job :: "tsmux_job list"
  otf_buf :: "tsmux_buffer list"
  otf_job :: tsmux_job
  otf_enable :: int
  inbuf_addr :: "nat \<Rightarrow> int"
  outbuf_addr :: "nat \<Rightarrow> int"
  otfbuf_addr :: "nat \<Rightarrow> int"
  tsmux_fd :: int
  pat_len :: nat
  pmt_len :: nat
  pcr_len :: nat
  psi_data :: "u8 list"
  last_psi_time_us :: int
  rtp_ts_info :: tsmux_rtp_ts_info
  audio_frame_count :: int
  video_frame_count :: int
  crc_table :: "u32 list"
  hal_use_hevc :: bool
  hal_use_lpcm :: bool
  ts_closed :: "int list"
  ts_unmapped :: "(int \<times> int) list"

text \<open>\<open>malloc\<close> leaves the rest of the handle \<open>g\<close> as it finds it.\<close>

definition tsmux_open ::
  "bool \<Rightarrow> bool \<Rightarrow> bool \<Rightarrow> bool \<Rightarrow> int \<Rightarrow> int \<Rightarrow> int \<Rightarrow> tsmux_hal \<Rightarrow> tsmux_hal option" where
  "tsmux_open enable_hdcp use_hevc use_lpcm otf_dummy_ts_packet fd map_ret dummy_ret g =
    (if fd < 0 then None
     else if map_ret < 0 then None
     else if otf_dummy_ts_packet \<and> dummy_ret < 0 then None
     else Some (g\<lparr>tsmux_fd := fd,
       m2m_job := map (\<lambda>j. j\<lparr>in_buf := (in_buf j)\<lparr>ion_buf_fd := -1\<rparr>,
         out_buf := (out_buf j)\<lparr>ion_buf_fd := -1\<rparr>\<rparr>) (m2m_job g),
       inbuf_addr := (\<lambda>_. 0), outbuf_addr := (\<lambda>_. 0), otfbuf_addr := (\<lambda>_. 0),
       otf_buf := map (\<lambda>b. b\<lparr>ion_buf_fd := -1\<rparr>) (otf_buf g),
       last_psi_time_us := 0, crc_table := tsmux_init_crc_table,
       otf_job := (otf_job g)\<lparr>pkt_ctrl := (pkt_ctrl (otf_job g))\<lparr>pc_rtp_size :=
         (if otf_dummy_ts_packet then TS_PKT_COUNT_PER_RTP - 1 else TS_PKT_COUNT_PER_RTP)\<rparr>, m2m_enable := 0\<rparr>,
       otf_enable := (if enable_hdcp then 1 else 0),
       hal_use_hevc := use_hevc, hal_use_lpcm := use_lpcm\<rparr>))"

definition tsmux_close :: "tsmux_hal \<Rightarrow> tsmux_hal" where
  "tsmux_close hal =
    (if tsmux_fd hal > 0 then hal\<lparr>ts_closed := ts_closed hal @ [tsmux_fd hal], tsmux_fd := -1\<rparr> else hal)"

text \<open>\<open>info\<close> is what the driver reports; the results are \<open>None\<close> when it fails and nothing is stored.\<close>

definition tsmux_get_switching_info ::
  "int \<Rightarrow> tsmux_rtp_ts_info \<Rightarrow> tsmux_hal \<Rightarrow> (int \<times> int \<times> int \<times> int \<times> int) option \<times> tsmux_hal" where
  "tsmux_get_switching_info ret info hal =
    (if ret < 0 then (None, hal)
     else (Some (rtp_seq_number info, ts_pat_cc info, ts_pmt_cc info, ts_video_cc info, ts_audio_cc info),
           hal\<lparr>rtp_ts_info := info\<rparr>))"

definition tsmux_set_switching_info :: "int \<Rightarrow> int \<Rightarrow> int \<Rightarrow> int \<Rightarrow> int \<Rightarrow> tsmux_hal \<Rightarrow> tsmux_hal" where
  "tsmux_set_switching_info rtpSeqNum patCC pmtCC videoCC audioCC hal =
    hal\<lparr>rtp_ts_info := \<lparr>rtp_seq_number = rtpSeqNum, rtp_seq_override = 1, ts_pat_cc = patCC, ts_pmt_cc = pmtCC,
       ts_video_cc = videoCC, ts_audio_cc = audioCC\<rparr>\<rparr>"

section \<open>Output buffers\<close>

definition close_fd :: "int \<Rightarrow> tsmux_hal \<Rightarrow> tsmux_hal" where
  "close_fd fd hal = hal\<lparr>ts_closed := ts_closed hal @ [fd]\<rparr>"

definition close_buf :: "tsmux_hal \<Rightarrow> tsmux_buffer \<Rightarrow> tsmux_hal" where
  "close_buf hal b = (if ion_buf_fd b > 0 then close_fd (ion_buf_fd b) hal else hal)"

definition set_otf_fd :: "nat \<Rightarrow> int \<Rightarrow> tsmux_hal \<Rightarrow> tsmux_hal" where
  "set_otf_fd i fd hal = hal\<lparr>otf_buf := (otf_buf hal)[i := (otf_buf hal ! i)\<lparr>ion_buf_fd := fd\<rparr>]\<rparr>"

text \<open>The allocation loop of \<open>tsmux_init_otf\<close>; \<open>Inl\<close> is an early return.\<close>

fun alloc_otf ::
  "(nat \<Rightarrow> int) \<Rightarrow> (int \<Rightarrow> int) \<Rightarrow> nat list \<Rightarrow> tsmux_hal \<Rightarrow> (int \<times> tsmux_hal) + tsmux_hal" where
  "alloc_otf alloc mmap [] hal = Inr hal"
| "alloc_otf alloc mmap (i # is) hal =
    (if alloc i < 0 then Inl (- ENOMEM, hal)
     else
       (let hal = set_otf_fd i (alloc i) hal;
            hal = hal\<lparr>otfbuf_addr := (otfbuf_addr hal)(i := mmap (alloc i))\<rparr> in
        if mmap (alloc i) = MAP_FAILED then Inl (- ENOMEM, close_fd (alloc i) hal)
        else alloc_otf alloc mmap is hal))"

text \<open>\<open>ALIGN\<close> is a macro of the platform's \<open>exynos_format.h\<close>, which is not in the repository.\<close>

definition otf_buffer_size :: "(u32 \<Rightarrow> u32 \<Rightarrow> u32) \<Rightarrow> u32 \<Rightarrow> u32 \<Rightarrow> int" where
  "otf_buffer_size ALIGN width height = sint (ALIGN ((ALIGN width 16 * ALIGN height 16 * 3) div 2) 512)"

definition tsmux_init_otf ::
  "(u32 \<Rightarrow> u32 \<Rightarrow> u32) \<Rightarrow> (nat \<Rightarrow> int) \<Rightarrow> (int \<Rightarrow> int) \<Rightarrow> int \<Rightarrow> int \<Rightarrow> u32 \<Rightarrow> u32 \<Rightarrow> tsmux_hal
    \<Rightarrow> int \<times> tsmux_hal" where
  "tsmux_init_otf ALIGN alloc mmap map_ret info_ret width height hal =
    (let hal = foldl close_buf hal (otf_buf hal);
         hal = hal\<lparr>otf_buf := map (\<lambda>b. b\<lparr>buf_offset := 0, actual_size := 0,
                 buffer_size := otf_buffer_size ALIGN width height\<rparr>) (otf_buf hal)\<rparr> in
     (case alloc_otf alloc mmap [0..<TSMUX_OUT_BUF_CNT] hal of
        Inl r \<Rightarrow> r
      | Inr hal \<Rightarrow>
         (let hal = hal\<lparr>video_frame_count := 0\<rparr> in
          if map_ret < 0 then (map_ret, hal) else if info_ret < 0 then (info_ret, hal) else (info_ret, hal))))"

text \<open>One round of the loop of \<open>tsmux_deinit_otf\<close>.\<close>

definition unmap :: "int \<Rightarrow> int \<Rightarrow> tsmux_hal \<Rightarrow> tsmux_hal" where
  "unmap addr len hal = (if addr \<noteq> 0 then hal\<lparr>ts_unmapped := ts_unmapped hal @ [(addr, len)]\<rparr> else hal)"

definition free_otf :: "tsmux_hal \<Rightarrow> nat \<Rightarrow> tsmux_hal" where
  "free_otf hal i =
    (let hal = unmap (otfbuf_addr hal i) (buffer_size (otf_buf hal ! i)) hal;
         hal = hal\<lparr>otfbuf_addr := (otfbuf_addr hal)(i := 0)\<rparr> in
     if ion_buf_fd (otf_buf hal ! i) > 0 then set_otf_fd i (-1) (close_fd (ion_buf_fd (otf_buf hal ! i)) hal) else hal)"

definition tsmux_deinit_otf :: "tsmux_hal \<Rightarrow> tsmux_hal" where
  "tsmux_deinit_otf hal = foldl free_otf hal [0..<TSMUX_OUT_BUF_CNT]"

section \<open>Buffers of the memory-to-memory jobs\<close>

definition upd_job :: "nat \<Rightarrow> (tsmux_job \<Rightarrow> tsmux_job) \<Rightarrow> tsmux_hal \<Rightarrow> tsmux_hal" where
  "upd_job i f hal = hal\<lparr>m2m_job := (m2m_job hal)[i := f (m2m_job hal ! i)]\<rparr>"

definition set_in_fd :: "int \<Rightarrow> tsmux_job \<Rightarrow> tsmux_job" where
  "set_in_fd fd j = j\<lparr>in_buf := (in_buf j)\<lparr>ion_buf_fd := fd\<rparr>\<rparr>"
definition set_out_fd :: "int \<Rightarrow> tsmux_job \<Rightarrow> tsmux_job" where
  "set_out_fd fd j = j\<lparr>out_buf := (out_buf j)\<lparr>ion_buf_fd := fd\<rparr>\<rparr>"

fun alloc_in ::
  "(nat \<Rightarrow> int) \<Rightarrow> (int \<Rightarrow> int) \<Rightarrow> nat list \<Rightarrow> tsmux_hal \<Rightarrow> (int \<times> tsmux_hal) + tsmux_hal" where
  "alloc_in alloc mmap [] hal = Inr hal"
| "alloc_in alloc mmap (i # is) hal =
    (if alloc i < 0 then Inl (- ENOMEM, hal)
     else
       (let hal = upd_job i (set_in_fd (alloc i)) hal;
            hal = hal\<lparr>inbuf_addr := (inbuf_addr hal)(i := mmap (alloc i))\<rparr> in
        if mmap (alloc i) = MAP_FAILED then Inl (- ENOMEM, close_fd (alloc i) hal)
        else alloc_in alloc mmap is hal))"

fun alloc_out ::
  "(nat \<Rightarrow> int) \<Rightarrow> (int \<Rightarrow> int) \<Rightarrow> nat list \<Rightarrow> tsmux_hal \<Rightarrow> (int \<times> tsmux_hal) + tsmux_hal" where
  "alloc_out alloc mmap [] hal = Inr hal"
| "alloc_out alloc mmap (i # is) hal =
    (if alloc (3 + i) < 0 then Inl (- ENOMEM, hal)
     else
       (let hal = upd_job i (set_out_fd (alloc (3 + i))) hal;
            hal = hal\<lparr>outbuf_addr := (outbuf_addr hal)(i := mmap (alloc (3 + i)))\<rparr> in
        if mmap (alloc (3 + i)) = MAP_FAILED then Inl (- ENOMEM, close_fd (alloc (3 + i)) hal)
        else alloc_out alloc mmap is hal))"

definition init_job :: "tsmux_job \<Rightarrow> tsmux_job" where
  "init_job j = j\<lparr>in_buf := (in_buf j)\<lparr>buf_offset := 0, actual_size := 0, buffer_size := M2M_BUF_SIZE\<rparr>,
     out_buf := (out_buf j)\<lparr>buf_offset := 0, actual_size := 0, buffer_size := M2M_BUF_SIZE\<rparr>, m2m_enable := 0\<rparr>"

definition close_job :: "tsmux_hal \<Rightarrow> tsmux_job \<Rightarrow> tsmux_hal" where
  "close_job hal j = close_buf (close_buf hal (in_buf j)) (out_buf j)"

definition tsmux_init_m2m ::
  "(nat \<Rightarrow> int) \<Rightarrow> (int \<Rightarrow> int) \<Rightarrow> int \<Rightarrow> int \<Rightarrow> tsmux_hal \<Rightarrow> int \<times> tsmux_hal" where
  "tsmux_init_m2m alloc mmap map_ret info_ret hal =
    (let hal = foldl close_job hal (m2m_job hal);
         hal = hal\<lparr>m2m_job := map init_job (m2m_job hal)\<rparr> in
     (case alloc_in alloc mmap [0..<TSMUX_MAX_M2M_CMD_QUEUE_NUM] hal of
        Inl r \<Rightarrow> r
      | Inr hal \<Rightarrow>
         (case alloc_out alloc mmap [0..<TSMUX_MAX_M2M_CMD_QUEUE_NUM] hal of
            Inl r \<Rightarrow> r
          | Inr hal \<Rightarrow> (if map_ret < 0 then (map_ret, hal) else (info_ret, hal)))))"

text \<open>Unlike \<open>tsmux_deinit_otf\<close>, this closes the descriptors without forgetting them.\<close>

definition free_m2m :: "tsmux_hal \<Rightarrow> nat \<Rightarrow> tsmux_hal" where
  "free_m2m hal i =
    (let j = m2m_job hal ! i;
         hal = unmap (inbuf_addr hal i) (buffer_size (in_buf j)) hal;
         hal = hal\<lparr>inbuf_addr := (inbuf_addr hal)(i := 0)\<rparr>;
         hal = unmap (outbuf_addr hal i) (buffer_size (out_buf j)) hal;
         hal = hal\<lparr>outbuf_addr := (outbuf_addr hal)(i := 0)\<rparr>
     in close_job hal j)"

definition tsmux_deinit_m2m :: "tsmux_hal \<Rightarrow> tsmux_hal" where
  "tsmux_deinit_m2m hal = foldl free_m2m hal [0..<TSMUX_MAX_M2M_CMD_QUEUE_NUM]"

section \<open>PSI and headers\<close>

definition tsmux_send_psi :: "int \<Rightarrow> tsmux_hal \<Rightarrow> tsmux_hal" where
  "tsmux_send_psi timeUs hal =
    (let pat = pat_packet (crc_table hal);
         pmt = pmt_packet (crc_table hal) (otf_enable hal \<noteq> 0) (hal_use_hevc hal) (hal_use_lpcm hal);
         pcr = pcr_packet timeUs
     in hal\<lparr>psi_data := pat @ pmt @ pcr, pat_len := length pat, pmt_len := length pmt, pcr_len := length pcr\<rparr>)"

text \<open>PSI goes out when the last was more than 50 milliseconds ago.\<close>

definition psi_due :: "int \<Rightarrow> int \<Rightarrow> tsmux_hal \<Rightarrow> int \<times> tsmux_hal" where
  "psi_due nowUs timeUs hal =
    (if nowUs - last_psi_time_us hal > 50000 then (1, tsmux_send_psi timeUs (hal\<lparr>last_psi_time_us := nowUs\<rparr>))
     else (0, hal))"

definition fill_pes_hdr :: "int \<Rightarrow> int \<Rightarrow> int \<Rightarrow> int \<Rightarrow> tsmux_pes_hdr \<Rightarrow> tsmux_pes_hdr" where
  "fill_pes_hdr sid len stuffing hdcp h =
    h\<lparr>pes_code := PES_HDR_CODE, stream_id := sid, pkt_len := len, pes_marker := PES_HDR_MARKER, pes_alignment := 1,
      pes_flags := (if hdcp \<noteq> 0 then 0x81 else 0x80), hdr_len := (if hdcp \<noteq> 0 then 5 + stuffing + 17 else 5 + stuffing)\<rparr>"

definition fill_ts_rtp :: "int \<Rightarrow> tsmux_job \<Rightarrow> tsmux_job" where
  "fill_ts_rtp pid j =
    j\<lparr>ts_hdr := (ts_hdr j)\<lparr>ts_sync := TS_HDR_SYNC, ts_pid := pid, adapt_ctrl := 0\<rparr>,
      rtp_hdr := (rtp_hdr j)\<lparr>rtp_ver := 2, rtp_marker := 0, pl_type := 33, rtp_ssrc := 0xdeadbeef\<rparr>\<rparr>"

text \<open>What is copied into the 32768 bytes of an input buffer; copying more is undefined.\<close>

definition m2m_input :: "bool \<Rightarrow> u8 list \<Rightarrow> u8 list option" where
  "m2m_input lpcm es =
    (case (if lpcm then Some es else addADTSHeader es (int (length es)) 1 3 2) of
       None \<Rightarrow> None
     | Some bytes \<Rightarrow> (if int (length bytes) > M2M_BUF_SIZE then None else Some bytes))"

definition fill_m2m_job :: "bool \<Rightarrow> int \<Rightarrow> nat \<Rightarrow> int \<Rightarrow> u64 \<Rightarrow> tsmux_job \<Rightarrow> tsmux_job" where
  "fill_m2m_job lpcm en i inbuf_size PTS j =
    (let j = j\<lparr>in_buf := (in_buf j)\<lparr>actual_size := inbuf_size\<rparr>,
           pkt_ctrl := (pkt_ctrl j)\<lparr>psi_en := en, pes_stuffing_num := 2, pc_mode := 0, pc_id := int i + 1\<rparr>\<rparr>;
         h = fill_pes_hdr (uint (if lpcm then TS_LPCM_STREAM_ID else TS_AAC_STREAM_ID))
               (inbuf_size + 3 + 5 + 2) 2 (m2m_enable j) (pes_hdr j)
     in fill_ts_rtp (uint TS_AUDIO_PACKET_ID)
          (j\<lparr>pes_hdr := h\<lparr>pes_pts39_16 := pts39_16 PTS, pes_pts15_0 := pts15_0 PTS\<rparr>\<rparr>))"

text \<open>
  The loop body of \<open>tsmux_packetize_m2m\<close> for the \<open>i\<close>-th buffer, and the loop; an input buffer is the time
  its turn comes, its time stamp and its bytes.
\<close>

definition packetize_job ::
  "int \<Rightarrow> nat \<Rightarrow> int \<Rightarrow> u8 list \<Rightarrow> tsmux_hal \<Rightarrow> (u8 list \<times> tsmux_hal) option" where
  "packetize_job nowUs i timeUs es hal =
    (case m2m_input (hal_use_lpcm hal) es of
       None \<Rightarrow> None
     | Some bytes \<Rightarrow>
        (let (en, hal) = psi_due nowUs timeUs hal in
         Some (bytes, upd_job i (fill_m2m_job (hal_use_lpcm hal) en i (int (length bytes)) (pts_of timeUs)) hal)))"

fun packetize_jobs ::
  "nat \<Rightarrow> (int \<times> int \<times> u8 list) option list \<Rightarrow> tsmux_hal \<Rightarrow> tsmux_hal option" where
  "packetize_jobs i [] hal = Some hal"
| "packetize_jobs i (None # bufs) hal = packetize_jobs (Suc i) bufs hal"
| "packetize_jobs i (Some (nowUs, timeUs, es) # bufs) hal =
    (case packetize_job nowUs i timeUs es hal of
       None \<Rightarrow> None
     | Some (_, hal) \<Rightarrow> packetize_jobs (Suc i) bufs hal)"

text \<open>\<open>run_ret\<close> is what the driver answers, \<open>out_sizes\<close> the sizes it reports for the output buffers.\<close>

definition tsmux_packetize_m2m ::
  "(int \<times> int \<times> u8 list) option list \<Rightarrow> int \<Rightarrow> int list \<Rightarrow> tsmux_hal \<Rightarrow> (int \<times> tsmux_hal) option" where
  "tsmux_packetize_m2m inbufs run_ret out_sizes hal =
    (let hal = hal\<lparr>m2m_job := map (\<lambda>j. j\<lparr>pes_hdr := (pes_hdr j)\<lparr>pes_pts39_16 := -1\<rparr>\<rparr>) (m2m_job hal)\<rparr> in
     (case packetize_jobs 0 inbufs hal of
        None \<Rightarrow> None
      | Some hal \<Rightarrow>
         (if run_ret < 0 then Some (run_ret, hal)
          else Some (run_ret, hal\<lparr>audio_frame_count := audio_frame_count hal +
                 int (length (filter (\<lambda>n. n > 0) out_sizes))\<rparr>))))"

text \<open>The headers \<open>tsmux_dq_buf_otf\<close> configures before it waits for a frame.\<close>

definition otf_config :: "int \<Rightarrow> tsmux_hal \<Rightarrow> tsmux_hal" where
  "otf_config nowUs hal =
    (let (en, hal) = psi_due nowUs nowUs hal; j = otf_job hal;
         j = j\<lparr>pkt_ctrl := (pkt_ctrl j)\<lparr>psi_en := en, pes_stuffing_num := 0, pc_mode := 1, pc_id := 0\<rparr>,
               pes_hdr := fill_pes_hdr 0xe0 0 0 (otf_enable hal) (pes_hdr j)\<rparr>
     in hal\<lparr>otf_job := fill_ts_rtp 0x1011 j\<rparr>)"

definition tsmux_dq_buf_otf :: "int \<Rightarrow> int \<Rightarrow> int \<Rightarrow> tsmux_hal \<Rightarrow> int \<times> tsmux_hal" where
  "tsmux_dq_buf_otf nowUs config_ret dq_ret hal =
    (let hal = otf_config nowUs hal in
     if config_ret < 0 then (-1, hal)
     else if dq_ret < 0 then (-1, hal)
     else (0, hal\<lparr>video_frame_count := video_frame_count hal + 1\<rparr>))"

section \<open>Descriptors of the output buffers\<close>

definition held_fds :: "tsmux_hal \<Rightarrow> int multiset" where
  "held_fds hal = mset (filter (\<lambda>fd. fd > 0) (map ion_buf_fd (otf_buf hal)))"

lemma close_fd_simps [simp]:
  "otf_buf (close_fd fd hal) = otf_buf hal" "m2m_job (close_fd fd hal) = m2m_job hal"
  "mset (ts_closed (close_fd fd hal)) = add_mset fd (mset (ts_closed hal))"
  by (simp_all add: close_fd_def)

lemma unmap_simps [simp]:
  "otf_buf (unmap a l hal) = otf_buf hal" "ts_closed (unmap a l hal) = ts_closed hal" "m2m_job (unmap a l hal) = m2m_job hal"
  by (simp_all add: unmap_def)

lemma close_bufs:
  "otf_buf (foldl close_buf hal bs) = otf_buf hal \<and>
   mset (ts_closed (foldl close_buf hal bs)) = mset (ts_closed hal) + mset (filter (\<lambda>fd. fd > 0) (map ion_buf_fd bs))"
  by (induction bs arbitrary: hal) (simp_all add: close_buf_def)

lemma alloc_otf_ok:
  "(\<And>i. 0 < alloc i) \<Longrightarrow> (\<And>fd. mmap fd \<noteq> MAP_FAILED) \<Longrightarrow> \<exists>hal'. alloc_otf alloc mmap ks hal = Inr hal' \<and>
     ts_closed hal' = ts_closed hal \<and> length (otf_buf hal') = length (otf_buf hal) \<and>
     (\<forall>i<length (otf_buf hal). ion_buf_fd (otf_buf hal' ! i) = (if i \<in> set ks then alloc i else ion_buf_fd (otf_buf hal ! i)))"
proof (induction ks arbitrary: hal)
  case (Cons i ks)
  let ?h = "(set_otf_fd i (alloc i) hal)\<lparr>otfbuf_addr := (otfbuf_addr hal)(i := mmap (alloc i))\<rparr>"
  have "alloc_otf alloc mmap (i # ks) hal = alloc_otf alloc mmap ks ?h"
    using Cons.prems(1)[of i] Cons.prems(2)[of "alloc i"] by (simp add: set_otf_fd_def Let_def)
  moreover obtain hal' where "alloc_otf alloc mmap ks ?h = Inr hal'" "ts_closed hal' = ts_closed ?h"
      "length (otf_buf hal') = length (otf_buf ?h)"
      "\<forall>k<length (otf_buf ?h). ion_buf_fd (otf_buf hal' ! k) = (if k \<in> set ks then alloc k else ion_buf_fd (otf_buf ?h ! k))"
    using Cons.IH[OF Cons.prems] by blast
  ultimately show ?case by (auto simp: set_otf_fd_def nth_list_update)
qed simp

lemma free_otf_all:
  "n \<le> length (otf_buf hal) \<Longrightarrow>
   let hal' = foldl free_otf hal [0..<n] in
     length (otf_buf hal') = length (otf_buf hal) \<and>
     (\<forall>i<length (otf_buf hal). ion_buf_fd (otf_buf hal' ! i) =
        (if i < n \<and> 0 < ion_buf_fd (otf_buf hal ! i) then -1 else ion_buf_fd (otf_buf hal ! i))) \<and>
     mset (ts_closed hal') = mset (ts_closed hal) +
       mset (filter (\<lambda>fd. fd > 0) (map ion_buf_fd (take n (otf_buf hal))))"
proof (induction n)
  case (Suc n)
  define h where "h = foldl free_otf hal [0..<n]"
  have ih: "length (otf_buf h) = length (otf_buf hal)"
    "\<forall>i<length (otf_buf hal). ion_buf_fd (otf_buf h ! i) =
        (if i < n \<and> 0 < ion_buf_fd (otf_buf hal ! i) then -1 else ion_buf_fd (otf_buf hal ! i))"
    "mset (ts_closed h) = mset (ts_closed hal) + mset (filter (\<lambda>fd. fd > 0) (map ion_buf_fd (take n (otf_buf hal))))"
    using Suc by (simp_all add: h_def Let_def)
  have n: "n < length (otf_buf hal)" using Suc.prems by simp
  have fold: "foldl free_otf hal [0..<Suc n] = free_otf h n" by (simp add: h_def)
  have fd: "ion_buf_fd (otf_buf h ! n) = ion_buf_fd (otf_buf hal ! n)" using ih(2) n by simp
  have take: "take (Suc n) (otf_buf hal) = take n (otf_buf hal) @ [otf_buf hal ! n]"
    using n by (simp add: take_Suc_conv_app_nth)
  show ?case
    unfolding fold Let_def take using ih n fd
    by (auto simp: free_otf_def Let_def set_otf_fd_def close_fd_def nth_list_update less_Suc_eq)
qed simp

lemma held_of_fds:
  "length bs = length bs' \<Longrightarrow> (\<forall>i<length bs. ion_buf_fd (bs ! i) = ion_buf_fd (bs' ! i)) \<Longrightarrow>
   map ion_buf_fd bs = map ion_buf_fd bs'"
  by (auto intro: nth_equalityI)

lemma init_otf_ledger:
  assumes "length (otf_buf hal) = TSMUX_OUT_BUF_CNT" "\<And>i. 0 < alloc i" "\<And>fd. mmap fd \<noteq> MAP_FAILED"
  shows "let hal' = snd (tsmux_init_otf ALIGN alloc mmap map_ret info_ret w h hal) in
    length (otf_buf hal') = TSMUX_OUT_BUF_CNT \<and>
    mset (ts_closed hal') + held_fds hal' =
      mset (ts_closed hal) + held_fds hal + mset (map alloc [0..<TSMUX_OUT_BUF_CNT])"
proof -
  define h1 where "h1 = foldl close_buf hal (otf_buf hal)"
  define h2 where "h2 = h1\<lparr>otf_buf := map (\<lambda>b. b\<lparr>buf_offset := 0, actual_size := 0,
                 buffer_size := otf_buffer_size ALIGN w h\<rparr>) (otf_buf h1)\<rparr>"
  have h1: "otf_buf h1 = otf_buf hal" "mset (ts_closed h1) = mset (ts_closed hal) + held_fds hal"
    using close_bufs[of hal "otf_buf hal"] by (simp_all add: h1_def held_fds_def)
  obtain h3 where h3: "alloc_otf alloc mmap [0..<TSMUX_OUT_BUF_CNT] h2 = Inr h3" "ts_closed h3 = ts_closed h2"
      "length (otf_buf h3) = TSMUX_OUT_BUF_CNT" "\<forall>i<TSMUX_OUT_BUF_CNT. ion_buf_fd (otf_buf h3 ! i) = alloc i"
    using alloc_otf_ok[where alloc = alloc and mmap = mmap and ks = "[0..<TSMUX_OUT_BUF_CNT]" and hal = h2, OF assms(2,3)] assms(1) h1(1)
    by (auto simp: h2_def)
  have fds: "map ion_buf_fd (otf_buf h3) = map alloc [0..<TSMUX_OUT_BUF_CNT]"
    using h3(3,4) by (intro nth_equalityI) auto
  have res: "snd (tsmux_init_otf ALIGN alloc mmap map_ret info_ret w h hal) = h3\<lparr>video_frame_count := 0\<rparr>"
    using h3(1) by (simp add: tsmux_init_otf_def Let_def h1_def[symmetric] h2_def[symmetric])
  have sel: "otf_buf (h3\<lparr>video_frame_count := 0\<rparr>) = otf_buf h3" by simp
  have "filter (\<lambda>fd. 0 < fd) (map alloc [0..<TSMUX_OUT_BUF_CNT]) = map alloc [0..<TSMUX_OUT_BUF_CNT]"
    using assms(2) by (simp add: filter_id_conv)
  then have "held_fds (h3\<lparr>video_frame_count := 0\<rparr>) = mset (map alloc [0..<TSMUX_OUT_BUF_CNT])"
    by (simp only: held_fds_def sel fds)
  then show ?thesis
    using h3(2,3) h1(2) unfolding res by (simp add: h2_def)
qed

lemma deinit_otf_ledger:
  assumes "length (otf_buf hal) = TSMUX_OUT_BUF_CNT"
  shows "length (otf_buf (tsmux_deinit_otf hal)) = TSMUX_OUT_BUF_CNT \<and> held_fds (tsmux_deinit_otf hal) = {#} \<and>
    mset (ts_closed (tsmux_deinit_otf hal)) = mset (ts_closed hal) + held_fds hal"
proof -
  define h where "h = tsmux_deinit_otf hal"
  have f: "length (otf_buf h) = TSMUX_OUT_BUF_CNT"
    "\<forall>i<TSMUX_OUT_BUF_CNT. ion_buf_fd (otf_buf h ! i) =
        (if 0 < ion_buf_fd (otf_buf hal ! i) then -1 else ion_buf_fd (otf_buf hal ! i))"
    "mset (ts_closed h) = mset (ts_closed hal) + held_fds hal"
    using free_otf_all[of TSMUX_OUT_BUF_CNT hal] assms by (simp_all add: h_def tsmux_deinit_otf_def Let_def held_fds_def)
  have "\<not> 0 < ion_buf_fd (otf_buf h ! i)" if "i < TSMUX_OUT_BUF_CNT" for i
    using f(2) that by (cases "0 < ion_buf_fd (otf_buf hal ! i)") simp_all
  then have "\<forall>b\<in>set (otf_buf h). \<not> 0 < ion_buf_fd b"
    using f(1) by (auto simp: in_set_conv_nth)
  then have "held_fds h = {#}" by (auto simp: held_fds_def filter_empty_conv)
  then show ?thesis using f by (simp add: h_def)
qed

text \<open>A call of a user: \<open>Some\<close> opens the output buffers with what the kernel answers, \<open>None\<close> frees them.\<close>

type_synonym otf_call = "((nat \<Rightarrow> int) \<times> (int \<Rightarrow> int) \<times> int \<times> int \<times> u32 \<times> u32) option"

fun otf_run :: "(u32 \<Rightarrow> u32 \<Rightarrow> u32) \<Rightarrow> otf_call list \<Rightarrow> tsmux_hal \<Rightarrow> tsmux_hal" where
  "otf_run ALIGN [] hal = hal"
| "otf_run ALIGN (Some (alloc, mmap, map_ret, info_ret, w, h) # cs) hal =
    otf_run ALIGN cs (snd (tsmux_init_otf ALIGN alloc mmap map_ret info_ret w h hal))"
| "otf_run ALIGN (None # cs) hal = otf_run ALIGN cs (tsmux_deinit_otf hal)"

fun otf_given :: "otf_call list \<Rightarrow> int multiset" where
  "otf_given [] = {#}"
| "otf_given (Some (alloc, _) # cs) = mset (map alloc [0..<TSMUX_OUT_BUF_CNT]) + otf_given cs"
| "otf_given (None # cs) = otf_given cs"

definition otf_call_ok :: "otf_call \<Rightarrow> bool" where
  "otf_call_ok c \<longleftrightarrow> (case c of None \<Rightarrow> True | Some (alloc, mmap, _) \<Rightarrow> (\<forall>i. 0 < alloc i) \<and> (\<forall>fd. mmap fd \<noteq> MAP_FAILED))"

text \<open>
  C33: as long as allocating and mapping succeed, no sequence of opening and freeing the output buffers
  loses a descriptor or closes one twice: what has been closed and what is held is exactly what was
  there and what the allocator has given.
\<close>

theorem otf_ledger:
  assumes "length (otf_buf hal) = TSMUX_OUT_BUF_CNT" "list_all otf_call_ok cs"
  shows "mset (ts_closed (otf_run ALIGN cs hal)) + held_fds (otf_run ALIGN cs hal) =
    mset (ts_closed hal) + held_fds hal + otf_given cs"
  using assms
proof (induction ALIGN cs hal rule: otf_run.induct)
  case (2 ALIGN alloc mmap map_ret info_ret w h cs hal)
  have ok: "\<And>i. 0 < alloc i" "\<And>fd. mmap fd \<noteq> MAP_FAILED" using 2(3) by (simp_all add: otf_call_ok_def)
  show ?case using 2 init_otf_ledger[where ALIGN = ALIGN and hal = hal and alloc = alloc and mmap = mmap and map_ret = map_ret and info_ret = info_ret and
      w = w and h = h, OF 2(2) ok] by (simp add: Let_def)
next
  case (3 ALIGN cs hal)
  then show ?case using deinit_otf_ledger[of hal] by simp
qed simp

definition blank_buffer :: tsmux_buffer where
  "blank_buffer = \<lparr>ion_buf_fd = -1, buffer_size = 0, buf_offset = 0, actual_size = 0\<rparr>"

definition blank_job :: tsmux_job where
  "blank_job = \<lparr>pkt_ctrl = \<lparr>psi_en = 0, pc_rtp_size = 7, pes_stuffing_num = 0, pc_mode = 0, pc_id = 0\<rparr>,
    pes_hdr = \<lparr>pes_code = 0, stream_id = 0, pkt_len = 0, pes_marker = 0, pes_alignment = 0, pes_flags = 0, hdr_len = 0,
      pes_pts39_16 = 0, pes_pts15_0 = 0\<rparr>,
    ts_hdr = \<lparr>ts_sync = 0, ts_pid = 0, adapt_ctrl = 0\<rparr>,
    rtp_hdr = \<lparr>rtp_ver = 0, rtp_marker = 0, pl_type = 0, rtp_ssrc = 0\<rparr>,
    m2m_enable = 0, in_buf = blank_buffer, out_buf = blank_buffer\<rparr>"

definition sample_hal :: tsmux_hal where
  "sample_hal = \<lparr>m2m_job = replicate 3 blank_job, otf_buf = replicate 4 blank_buffer, otf_job = blank_job, otf_enable = 0,
    inbuf_addr = (\<lambda>_. 0), outbuf_addr = (\<lambda>_. 0), otfbuf_addr = (\<lambda>_. 0), tsmux_fd = 3, pat_len = 0, pmt_len = 0,
    pcr_len = 0, psi_data = [], last_psi_time_us = 0,
    rtp_ts_info = \<lparr>rtp_seq_number = 0, rtp_seq_override = 0, ts_pat_cc = 0, ts_pmt_cc = 0, ts_video_cc = 0, ts_audio_cc = 0\<rparr>, audio_frame_count = 0, video_frame_count = 0, crc_table = [],
    hal_use_hevc = False, hal_use_lpcm = False, ts_closed = [], ts_unmapped = []\<rparr>"

theorem otf_ledger_witness:
  "mset (ts_closed (otf_run (\<lambda>x a. (x + a - 1) div a * a) [Some (\<lambda>i. 10 + int i, \<lambda>_. 4096, 0, 0, 1920, 1080), None] sample_hal)) +
   held_fds (otf_run (\<lambda>x a. (x + a - 1) div a * a) [Some (\<lambda>i. 10 + int i, \<lambda>_. 4096, 0, 0, 1920, 1080), None] sample_hal) = {#10, 11, 12, 13#}"
  by (subst otf_ledger)
    (simp_all add: sample_hal_def TSMUX_OUT_BUF_CNT_def otf_call_ok_def MAP_FAILED_def held_fds_def blank_buffer_def
      upt_rec numeral_eq_Suc)

text \<open>
  When an allocation fails half way the buffers of the previous run have been closed but not forgotten, and
  freeing closes them a second time.
\<close>

theorem otf_double_close:
  "ts_closed (otf_run (\<lambda>x a. (x + a - 1) div a * a) [Some (\<lambda>i. 10 + int i, \<lambda>_. 4096, 0, 0, 1920, 1080), Some (\<lambda>_. -1, \<lambda>_. 4096, 0, 0, 1920, 1080), None]
     sample_hal) = [10, 11, 12, 13, 10, 11, 12, 13]"
  by code_simp

definition job_fds :: "tsmux_job \<Rightarrow> int list" where
  "job_fds j = filter (\<lambda>fd. fd > 0) [ion_buf_fd (in_buf j), ion_buf_fd (out_buf j)]"

lemma close_job_closed:
  "ts_closed (close_job hal j) = ts_closed hal @ job_fds j" "m2m_job (close_job hal j) = m2m_job hal"
  by (simp_all add: close_job_def close_buf_def close_fd_def job_fds_def)

lemma close_jobs_closed: "ts_closed (foldl close_job hal js) = ts_closed hal @ concat (map job_fds js)"
  by (induction js arbitrary: hal) (simp_all add: close_job_closed)

lemma free_m2m_closed:
  "n \<le> length (m2m_job hal) \<Longrightarrow> ts_closed (foldl free_m2m hal [0..<n]) = ts_closed hal @ concat (map job_fds (take n (m2m_job hal))) \<and>
   m2m_job (foldl free_m2m hal [0..<n]) = m2m_job hal"
  by (induction n) (simp_all add: free_m2m_def Let_def close_job_closed take_Suc_conv_app_nth)

lemma alloc_keeps_closed:
  assumes "\<And>i. 0 < alloc i" "\<And>fd. mmap fd \<noteq> MAP_FAILED"
  shows "\<exists>h. alloc_in alloc mmap ks hal = Inr h \<and> ts_closed h = ts_closed hal"
    "\<exists>h. alloc_out alloc mmap ks hal = Inr h \<and> ts_closed h = ts_closed hal"
proof -
  have a: "\<not> alloc i < 0" for i using assms(1)[of i] by simp
  have step: "\<exists>h. f x = Inr h \<and> ts_closed h = ts_closed hal"
    if "\<And>hal. \<exists>h. f hal = Inr h \<and> ts_closed h = ts_closed hal" "ts_closed x = ts_closed hal"
    for f :: "tsmux_hal \<Rightarrow> (int \<times> tsmux_hal) + tsmux_hal" and x hal
    using that by metis
  show "\<exists>h. alloc_in alloc mmap ks hal = Inr h \<and> ts_closed h = ts_closed hal"
  proof (induction ks arbitrary: hal)
    case (Cons k ks)
    show ?case by (simp add: a assms(2) Let_def del: split_paired_Ex) (rule step[OF Cons.IH], simp add: upd_job_def)
  qed simp
  show "\<exists>h. alloc_out alloc mmap ks hal = Inr h \<and> ts_closed h = ts_closed hal"
  proof (induction ks arbitrary: hal)
    case (Cons k ks)
    show ?case by (simp add: a assms(2) Let_def del: split_paired_Ex) (rule step[OF Cons.IH], simp add: upd_job_def)
  qed simp
qed

lemma init_m2m_closed:
  assumes "\<And>i. 0 < alloc i" "\<And>fd. mmap fd \<noteq> MAP_FAILED"
  shows "ts_closed (snd (tsmux_init_m2m alloc mmap map_ret info_ret hal)) = ts_closed hal @ concat (map job_fds (m2m_job hal))"
proof -
  let ?h = "(foldl close_job hal (m2m_job hal))
    \<lparr>m2m_job := map init_job (m2m_job (foldl close_job hal (m2m_job hal)))\<rparr>"
  obtain h1 where h1: "alloc_in alloc mmap [0..<TSMUX_MAX_M2M_CMD_QUEUE_NUM] ?h = Inr h1" "ts_closed h1 = ts_closed ?h"
    using alloc_keeps_closed(1)[where alloc = alloc and mmap = mmap, OF assms] by blast
  obtain h2 where h2: "alloc_out alloc mmap [0..<TSMUX_MAX_M2M_CMD_QUEUE_NUM] h1 = Inr h2" "ts_closed h2 = ts_closed h1"
    using alloc_keeps_closed(2)[where alloc = alloc and mmap = mmap, OF assms] by blast
  show ?thesis
    using h1 h2 by (simp add: tsmux_init_m2m_def Let_def close_jobs_closed)
qed

text \<open>
  \<open>tsmux_deinit_m2m\<close> never forgets what it closes: opening the buffers of the audio jobs again closes
  every descriptor a second time, even if no call fails.
\<close>

theorem m2m_double_close:
  assumes "length (m2m_job hal) = TSMUX_MAX_M2M_CMD_QUEUE_NUM" "\<And>i. 0 < alloc i" "\<And>fd. mmap fd \<noteq> MAP_FAILED"
  shows "ts_closed (snd (tsmux_init_m2m alloc mmap map_ret info_ret (tsmux_deinit_m2m hal))) =
    ts_closed hal @ concat (map job_fds (m2m_job hal)) @ concat (map job_fds (m2m_job hal))"
  using init_m2m_closed[where alloc = alloc and mmap = mmap, OF assms(2,3)] free_m2m_closed[of "length (m2m_job hal)" hal] assms(1)
  by (simp add: tsmux_deinit_m2m_def)

section \<open>Audio packets\<close>

lemma psi_due_frame [simp]:
  "m2m_job (snd (psi_due now t hal)) = m2m_job hal" "hal_use_lpcm (snd (psi_due now t hal)) = hal_use_lpcm hal"
  by (simp_all add: psi_due_def tsmux_send_psi_def Let_def)

lemma fill_m2m_job_fields:
  "pkt_len (pes_hdr (fill_m2m_job lpcm en i n PTS j)) = n + 10"
  "actual_size (in_buf (fill_m2m_job lpcm en i n PTS j)) = n"
  "pts_decode (pes_pts39_16 (pes_hdr (fill_m2m_job lpcm en i n PTS j)))
     (pes_pts15_0 (pes_hdr (fill_m2m_job lpcm en i n PTS j))) = take_bit 33 PTS"
  by (simp_all add: fill_m2m_job_def Let_def fill_ts_rtp_def fill_pes_hdr_def pts_decode_bits)

text \<open>
  C34: an AAC frame below the limit of its length field is packed so that a receiver gets it back: the
  input buffer holds an ADTS header that announces the frame and the frame itself, the PES header
  announces these bytes and the ten that precede them, and its time stamp decodes to the 90 kHz time of the frame.
\<close>

theorem packetize_decodes:
  assumes "\<not> hal_use_lpcm hal" "length es < 8185" "i < length (m2m_job hal)"
  shows "\<exists>bytes hal'. packetize_job nowUs i timeUs es hal = Some (bytes, hal') \<and>
    drop 7 bytes = es \<and> snd (snd (snd (adts_fields bytes))) = of_nat (length bytes) \<and>
    pkt_len (pes_hdr (m2m_job hal' ! i)) = int (length bytes) + 10 \<and>
    actual_size (in_buf (m2m_job hal' ! i)) = int (length bytes) \<and>
    pts_decode (pes_pts39_16 (pes_hdr (m2m_job hal' ! i))) (pes_pts15_0 (pes_hdr (m2m_job hal' ! i))) =
      take_bit 33 (pts_of timeUs)"
proof -
  have len: "word_of_int (int (length es) + 7) = (of_nat (length es + 7) :: u32)" by simp
  have "\<exists>f. addADTSHeader es (int (length es)) 1 3 2 = Some f \<and> adts_fields f = (1, 3, 2, of_nat (length es + 7)) \<and>
      int (length f) = int (length es) + 7 \<and> drop 7 f = take (nat (int (length es))) es"
    unfolding len[symmetric] using assms(2) by (intro adts_parses) simp_all
  then obtain bytes where b0: "addADTSHeader es (int (length es)) 1 3 2 = Some bytes"
      "adts_fields bytes = (1, 3, 2, of_nat (length es + 7))" "int (length bytes) = int (length es) + 7"
      "drop 7 bytes = take (nat (int (length es))) es"
    by blast
  then have b: "addADTSHeader es (int (length es)) 1 3 2 = Some bytes" "drop 7 bytes = es"
      "length bytes = length es + 7" "adts_fields bytes = (1, 3, 2, of_nat (length es + 7))"
    by simp_all
  have in_ok: "m2m_input False es = Some bytes" using b assms(2) by (simp add: m2m_input_def M2M_BUF_SIZE_def)
  obtain en h where d: "psi_due nowUs timeUs hal = (en, h)" by fastforce
  then have h: "m2m_job h = m2m_job hal" "hal_use_lpcm h = hal_use_lpcm hal"
    using psi_due_frame[of nowUs timeUs hal] by simp_all
  let ?f = "fill_m2m_job False en i (int (length bytes)) (pts_of timeUs)"
  have job: "packetize_job nowUs i timeUs es hal = Some (bytes, upd_job i ?f h)"
    using assms(1) in_ok d h(2) by (simp add: packetize_job_def)
  have nth: "m2m_job (upd_job i ?f h) ! i = ?f (m2m_job hal ! i)" using assms(3) h(1) by (simp add: upd_job_def)
  show ?thesis
    by (intro exI[of _ bytes] exI[of _ "upd_job i ?f h"] conjI)
      (rule job, rule b(2), simp add: b(3,4), simp_all only: nth fill_m2m_job_fields)
qed

theorem packetize_decodes_witness:
  "\<exists>bytes hal'. packetize_job 90000 1 100 [1, 2, 3] sample_hal = Some (bytes, hal') \<and> drop 7 bytes = [1, 2, 3] \<and>
    pkt_len (pes_hdr (m2m_job hal' ! 1)) = int (length bytes) + 10"
proof -
  have "\<not> hal_use_lpcm sample_hal" "length [1 :: u8, 2, 3] < 8185" "1 < length (m2m_job sample_hal)"
    by (simp_all add: sample_hal_def)
  from packetize_decodes[OF this, of 90000 100] show ?thesis by blast
qed

text \<open>No length is checked before the copy into the 32768 bytes of the buffer.\<close>

theorem packetize_overflows:
  assumes "hal_use_lpcm hal" "32768 < length es"
  shows "packetize_job nowUs i timeUs es hal = None"
  using assms by (simp add: packetize_job_def m2m_input_def M2M_BUF_SIZE_def)

section \<open>How often PSI is sent\<close>

fun psi_run :: "(int \<times> int) list \<Rightarrow> tsmux_hal \<Rightarrow> int \<times> tsmux_hal" where
  "psi_run [] hal = (0, hal)"
| "psi_run ((nowUs, timeUs) # ts) hal =
    (let (en, hal) = psi_due nowUs timeUs hal; (n, hal) = psi_run ts hal in (en + n, hal))"

text \<open>Between two transmissions of the PSI lie more than 50 milliseconds, however often packets are sent.\<close>

lemma psi_rate: "fst (psi_run ts hal) * 50001 \<le> last_psi_time_us (snd (psi_run ts hal)) - last_psi_time_us hal"
proof (induction ts arbitrary: hal)
  case (Cons t ts)
  obtain nowUs timeUs where t: "t = (nowUs, timeUs)" by fastforce
  obtain en h where d: "psi_due nowUs timeUs hal = (en, h)" by fastforce
  obtain n h' where r: "psi_run ts h = (n, h')" by fastforce
  have "en * 50001 \<le> last_psi_time_us h - last_psi_time_us hal"
    using d by (auto simp: psi_due_def tsmux_send_psi_def Let_def split: if_splits)
  then show ?case using Cons.IH[of h] by (simp add: t d r algebra_simps)
qed simp

end
