(* ===== verification/Spec2Isabelle.thy ===== *)
theory Spec2Isabelle
    imports MppConfigure ResourceWindows MppFaults MppLedger PartialUpdate ConfigRuns TsMux
begin

text \<open>
  Verification of the Exynos display stack of \<open>android_hardware_samsung_slsi-linaro\<close>.

  The program. \<open>base/libhwc2.1\<close> is a hardware composer: SurfaceFlinger hands it the layers of each
  display, and it decides which are shown by a pipe of the display controller (an OTF resource, with
  a window of its own), which go through a scaler or the 2D engine first (an M2M resource), and which the
  GPU must draw (client composition). \<open>libacryl\<close> drives the 2D accelerators the M2M resources stand for.
  \<open>libtsmux\<close> packs encoded video and audio into an MPEG transport stream for wireless displays. Each chip
  directory (\<open>exynos2100\<close>, \<open>exynos9820\<close>, ...) adds tables of limits and features.

  How the parts interact. The layers of a display (\<open>HwcLayer\<close>) are preprocessed when a frame is
  validated. The resource manager fills in the limits of its resources from the chip's tables and the
  display driver (\<open>MppConfigure\<close>), asks each resource which layers it could show (\<open>MppSupport\<close>) and at
  which cost (\<open>MppCapacity\<close>), and distributes windows and resources over the layers (\<open>ResourceAssign\<close>),
  which moves layers between the compositions of the display (\<open>HwcDisplay\<close>) and sources in and out of
  the resources (\<open>MppAssign\<close>). File descriptors of fences are booked in the fence tracer (\<open>FenceTracer\<close>).

  The theories, and the code each one models.
  \<^item> \<open>Prelude\<close>: machine integers, status codes, and the fact collections \<open>code_consts\<close>, \<open>code_defs\<close>.
    \<open>Float32\<close>: C floats as rationals rounded to binary32 and binary64.
  \<^item> \<open>HwcFormat\<close>: \<open>utils/ExynosHWCFormat.{h,cpp}\<close>, the table of pixel formats and the class over it.
    Shown: the class and the free functions classify alike; the constructor finds the right row.
  \<^item> \<open>HwcHelper\<close>: arithmetic of \<open>utils/ExynosHWCHelper.{h,cpp}\<close>. Shown: the rotation codes
    sent to the controller mean the same motion of the plane; clipping and aligning are exact.
  \<^item> \<open>MppTypes\<close>, \<open>MppRestrict\<close>, \<open>MppSupport\<close>, \<open>MppCapacity\<close>, \<open>MppAssign\<close>: \<open>resources/ExynosMPP.{h,cpp}\<close>.
    Shown: \<open>isSupported\<close> is exactly the conjunction of its checks and defined on every input once the
    limits are positive; the integer scale test is the rational one within 32 bits; when the
    capacity counters are restored and when not; a resource is a set of sources that never grows above
    what the hardware blends (the locale \<open>source_pool\<close>, interpreted on \<open>ExynosMPP\<close> itself).
  \<^item> \<open>SocTables\<close>, \<open>MppConfigure\<close>: the tables of all ten chip directories and
    \<open>updateRestrictions\<close>, \<open>makeDPURestrictions\<close>, \<open>updateMPPFeature\<close> of \<open>device/ExynosResourceManager.cpp\<close>
    (the locale \<open>chip_tables\<close>, interpreted on the tables of every chip). Shown: on every chip, loaded limits never make
    a check divide by zero, and every cost is looked up in a positive row.
  \<^item> \<open>FenceTracer\<close>: \<open>utils/ExynosFenceTracer.{h,cpp}\<close>. Shown: the leak check is exact for sequences that
    close each descriptor as often as they open it.
  \<^item> \<open>HwcLayer\<close>: \<open>display/ExynosLayer.{h,cpp}\<close>, the requests, the preprocessing and the images of a
    layer. Shown: the priority preprocessing chooses; which request reports which change.
  \<^item> \<open>HwcDisplay\<close>: the composition targets of \<open>display/ExynosDisplay.{h,cpp}\<close>; the record \<open>hwc\<close> is the state the
    display and the resource manager share. Shown: adding a layer to the client composition makes
    its range the least one and swallows the enclosed layers. \<open>evolves\<close> is the relation every operation
    keeps: no layer is lost, no priority changes, no layer loses a composition type it has.
  \<^item> \<open>ResourceAssign\<close>, \<open>ResourceWindows\<close>: \<open>assignResource\<close> and all it calls in
    \<open>device/ExynosResourceManager.cpp\<close>. Shown: success means that every layer has a way to the
    screen; windows are numbered without gap; what becomes of rejected layers.
  \<^item> \<open>HwcWindow\<close>: the windows of the display controller in \<open>display/ExynosDisplay.cpp\<close> and \<open>ExynosDpuData.h\<close>: how
    layers and targets are described to it, the check of the description, the region of a partial update.
    \<open>WindowSafety\<close>: what a checked window is, a target's window covers its layers. \<open>PartialUpdate\<close>: every position that
    may have changed is sent, except where a layer is shown smaller than its crop.
  \<^item> \<open>DisplayConfig\<close>: changing the resolution and the refresh rate, vertical sync and the power modes of the primary display
    (\<open>display/ExynosDisplay.cpp\<close>, \<open>primarydisplay/ExynosPrimaryDisplay.cpp\<close>) as a machine driven by requests, frames and
    syncs. \<open>ConfigSafety\<close>: the invariant of each operation; \<open>ConfigRuns\<close>: the invariant of all runs, a request is carried out, the
    announced time is exact, and how a request or the end of the sync gets lost.
  \<^item> \<open>AcrylCapability\<close>, \<open>AcrylCanvas\<close>, \<open>AcrylCompositor\<close>, \<open>AcrylSafety\<close>, \<open>AcrylFrame\<close>: \<open>base/libacryl\<close> without its
    hardware back ends. Shown: every state a caller can reach keeps the invariant of the compositor,
    and a frame that validates is safe to execute (the locale \<open>accelerators\<close>, interpreted on the capabilities of the factory).
  \<^item> \<open>AcrylExecute\<close>: the control flow of \<open>execute\<close> in \<open>base/libacryl/acrylic_g2d9810.cpp\<close> and
    \<open>acrylic_mscl9810.cpp\<close>; the words for the driver and its answers are an argument. The locale \<open>backend\<close>
    says what a client may rely on; it is interpreted on both.
  \<^item> \<open>MppBuffers\<close>, \<open>MppCompose\<close>: the destination buffers, fences and hardware state of an M2M resource, the
    thread that gives buffers back, and \<open>doPostProcessing\<close>, which describes the assigned sources to the
    accelerator and runs it (\<open>resources/ExynosMPP.cpp\<close>). \<open>MppFrames\<close>, \<open>MppRuns\<close>: every frame whose sources fit
    comes back and leaves slots and accelerator linked, and what the accelerator accepts is safe.
    \<open>MppLedger\<close>: no buffer is lost or given back twice, unless an allocation fails twice. \<open>MppFaults\<close>:
    what a failed frame or a refused setting does to the frames after it.
  \<^item> \<open>TsFormat\<close>, \<open>TsStream\<close>, \<open>TsMux\<close>: \<open>base/libtsmux\<close>. Shown: what the multiplexer packs a receiver unpacks
    (sections, time stamps, audio headers, whole streams), the computed sizes are exact, the reader
    stays inside its buffer, and which sequences of calls lose or double-close a descriptor.

  How state corresponds. A C++ object is a record with the members' names; a pointer is an
  address (\<open>nat\<close>) into a store or \<open>None\<close>; a handler that changes several objects takes and returns the
  whole state. Unsigned integers are words of their width; \<open>int\<close> values that are only
  compared and copied are \<open>int\<close>. Undefined behaviour (a zero divisor, a null pointer followed) is \<open>None\<close>.

  Parameters. What the sources take from outside is an argument: \<open>platform\<close>, \<open>android\<close> (numbers of the
  Android headers), \<open>gralloc\<close> (the metadata of buffers), \<open>mpp_hooks\<close> (what a chip's subclass overrides),
  \<open>hwc_env\<close> (build options and the above), \<open>hw_answers\<close> (the answers of the 2D engine's driver, in order),
  \<open>win_env\<close> (the colour tables, the debug switch), \<open>config_env\<close> (the answers of the driver interface and the clock), \<open>m2m_env\<close> (the allocator's usage bits, the accelerator's \<open>execute\<close>, waiting for a fence), \<open>g2d_device\<close> and
  \<open>mscl_device\<close> (what the drivers answer).

  Bounds and fuel. Loops over layers and resources are structural. The retry loop
  of \<open>assignResourceInternal\<close> is a function with the measure \<open>ASSIGN_RESOURCE_TRY_COUNT - n\<close>, the loop that evens
  out an interlaced height has the height as its measure, and the stream reader of \<open>TsStream\<close> consumes its buffer; none
  needs fuel. The loop that looks for the time of a configuration change may run forever, so \<open>advance\<close> is a partial function
  (\<open>None\<close>: it does not return).

  Not modelled: driver calls (ioctl, V4L2, DRM properties), threads and their locks, logging and dumps, since their effect
  lies outside the sources; the delivery of a
  frame to the driver and the chips' subclasses, which remain to be done; the
  JPEG, scaler, ion and memtrack libraries.
\<close>

end
